(* ===== verification/Prelude.thy ===== *)
theory Prelude
  imports Main "HOL-Library.State_Monad" "HOL-Library.Monad_Syntax" "HOL-Library.AList"
begin

text \<open>
  Vocabulary shared by every component of the OPM development.

  Errors are values: an operation of the Go code that returns \<open>(T, error)\<close>
  is an action whose result is \<open>err + T\<close>.  Stateful operations live in the
  library's state monad (so the library's \<open>do\<close> notation sequences actions whose
  error is ignored, as \<open>_ = s.f()\<close> does in the source) and \<open>bindE\<close> sequences
  actions whose error is returned (\<open>if err != nil { return err }\<close>).

  The collections \<open>run\<close> (how each primitive runs) and \<open>frame\<close> (what each
  operation leaves alone) carry the component proofs.
\<close>

named_theorems run \<open>equations that run an action on a world\<close>
named_theorems frame \<open>what an operation leaves unchanged\<close>

section \<open>Errors\<close>

text \<open>The errors of the store: a missing file, a failed file operation, a document
  that does not decode, and the \<open>fmt.Errorf\<close> texts of the source.\<close>

datatype err =
    NotExist
  | IOError
  | BadJSON
  | Errf string

text \<open>\<open>err.Error()\<close>; the operating system's wording is not modelled.\<close>

fun err_text :: "err \<Rightarrow> string" where
  "err_text NotExist = ''no such file or directory''"
| "err_text IOError = ''input/output error''"
| "err_text BadJSON = ''invalid character''"
| "err_text (Errf s) = s"

fun is_inr :: "'e + 'a \<Rightarrow> bool" where
  "is_inr (Inl _) = False"
| "is_inr (Inr _) = True"

lemma is_inr_iff: "is_inr r \<longleftrightarrow> (\<exists>x. r = Inr x)"
  by (cases r) auto

section \<open>Actions\<close>

definition throwE :: "err \<Rightarrow> ('w, err + 'a) state" where
  "throwE e = State_Monad.return (Inl e)"

definition okE :: "'a \<Rightarrow> ('w, err + 'a) state" where
  "okE x = State_Monad.return (Inr x)"

definition bindE ::
  "('w, err + 'a) state \<Rightarrow> ('a \<Rightarrow> ('w, err + 'b) state) \<Rightarrow> ('w, err + 'b) state" where
  "bindE m f = State_Monad.bind m (\<lambda>r. case r of Inl e \<Rightarrow> throwE e | Inr x \<Rightarrow> f x)"

text \<open>\<open>if cond { return err }\<close> before the rest of a function.\<close>

definition failE_when :: "bool \<Rightarrow> err \<Rightarrow> ('w, err + 'a) state \<Rightarrow> ('w, err + 'a) state" where
  "failE_when c e m = (if c then throwE e else m)"

lemma run_throwE [run]: "run_state (throwE e) w = (Inl e, w)"
  by (simp add: throwE_def)

lemma run_okE [run]: "run_state (okE x) w = (Inr x, w)"
  by (simp add: okE_def)

lemma run_bindE [run]:
  "run_state (bindE m f) w =
     (case run_state m w of
        (Inl e, w') \<Rightarrow> (Inl e, w')
      | (Inr x, w') \<Rightarrow> run_state (f x) w')"
  by (simp add: bindE_def run_state_bind run_throwE split: prod.splits sum.splits)

lemma run_failE_when [run]:
  "run_state (failE_when c e m) w = (if c then (Inl e, w) else run_state m w)"
  by (simp add: failE_when_def run_throwE)

text \<open>One step of a run whose first action is known.\<close>

lemma run_then:
  "run_state m w = (x, w1) \<Longrightarrow> run_state (State_Monad.bind m f) w = run_state (f x) w1"
  by (simp add: run_state_bind)

lemma run_thenE:
  "run_state m w = (Inr x, w1) \<Longrightarrow> run_state (bindE m f) w = run_state (f x) w1"
  by (simp add: run_bindE)

lemmas run_monad [run] = run_state_bind run_state_return run_state_get run_state_set

subsection \<open>What every run of an action keeps\<close>

text \<open>\<open>keeps R m\<close>: every run of \<open>m\<close> relates the world before and after by \<open>R\<close>.\<close>

definition keeps :: "('w \<Rightarrow> 'w \<Rightarrow> bool) \<Rightarrow> ('w, 'a) state \<Rightarrow> bool" where
  "keeps R m \<longleftrightarrow> (\<forall>w. R w (snd (run_state m w)))"

text \<open>\<open>yields P m\<close>: what \<open>m\<close> returns without error satisfies \<open>P\<close>.\<close>

definition yields :: "('a \<Rightarrow> bool) \<Rightarrow> ('w, err + 'a) state \<Rightarrow> bool" where
  "yields P m \<longleftrightarrow> (\<forall>w. case fst (run_state m w) of Inl _ \<Rightarrow> True | Inr x \<Rightarrow> P x)"

text \<open>The laws a relation needs for \<open>keeps\<close> to compose: it is a preorder.\<close>

locale frame_rel =
  fixes R :: "'w \<Rightarrow> 'w \<Rightarrow> bool"
  assumes R_refl: "R w w"
    and R_trans: "R w w' \<Longrightarrow> R w' w'' \<Longrightarrow> R w w''"
begin

lemma keeps_return: "keeps R (State_Monad.return x)"
  by (simp add: keeps_def R_refl run)

lemma keeps_get: "keeps R State_Monad.get"
  by (simp add: keeps_def R_refl run)

lemma keeps_throwE: "keeps R (throwE e)"
  by (simp add: keeps_def R_refl run)

lemma keeps_okE: "keeps R (okE x)"
  by (simp add: keeps_def R_refl run)

lemma keeps_bind:
  assumes "keeps R m" and "\<And>x. keeps R (f x)"
  shows "keeps R (State_Monad.bind m f)"
  unfolding keeps_def run
  by (metis (mono_tags, lifting) R_trans assms keeps_def prod.case_eq_if)

lemma keeps_bindE:
  assumes "keeps R m" and "\<And>x. keeps R (f x)"
  shows "keeps R (bindE m f)"
  unfolding bindE_def
  by (rule keeps_bind[OF assms(1)]) (auto simp: assms(2) keeps_throwE split: sum.splits)

lemma keeps_bindE_yields:
  assumes "keeps R m" and "yields P m" and "\<And>x. P x \<Longrightarrow> keeps R (f x)"
  shows "keeps R (bindE m f)"
  unfolding keeps_def
proof
  fix w
  obtain r w' where m: "run_state m w = (r, w')" by (cases "run_state m w")
  have R: "R w w'" using assms(1) m unfolding keeps_def by (metis snd_conv)
  show "R w (snd (run_state (bindE m f) w))"
  proof (cases r)
    case (Inl e)
    then show ?thesis using R m by (simp add: run_bindE)
  next
    case (Inr x)
    then have "P x" using assms(2) m unfolding yields_def by (metis fst_conv sum.case(2))
    then have "R w' (snd (run_state (f x) w'))" using assms(3) by (simp add: keeps_def)
    then show ?thesis using R R_trans m Inr by (simp add: run_bindE)
  qed
qed

lemma keeps_failE_when: "keeps R m \<Longrightarrow> keeps R (failE_when c e m)"
  by (simp add: failE_when_def keeps_throwE)

lemma keeps_if: "keeps R m \<Longrightarrow> keeps R n \<Longrightarrow> keeps R (if c then m else n)"
  by simp

lemmas keeps_intros = keeps_return keeps_get keeps_throwE keeps_okE keeps_bind keeps_bindE
  keeps_failE_when keeps_if

end

section \<open>Lists and maps\<close>

definition nonempty :: "'a list \<Rightarrow> bool" where
  "nonempty xs \<longleftrightarrow> xs \<noteq> []"

lemma filter_neq_append_distinct:
  "distinct xs \<Longrightarrow> distinct (filter (\<lambda>y. y \<noteq> x) xs @ [x])"
  by simp

lemma find_Some_in_set: "List.find P xs = Some x \<Longrightarrow> x \<in> set xs \<and> P x"
  by (auto simp: find_Some_iff)

lemma find_append:
  "List.find P (xs @ ys) = (case List.find P xs of None \<Rightarrow> List.find P ys | Some x \<Rightarrow> Some x)"
  by (induction xs) auto

text \<open>Replace the first element that satisfies \<open>P\<close>: the \<open>for i := range xs\<close> loop that
  edits \<open>xs[i]\<close> and returns.\<close>

fun update_first :: "('a \<Rightarrow> bool) \<Rightarrow> ('a \<Rightarrow> 'a) \<Rightarrow> 'a list \<Rightarrow> 'a list" where
  "update_first P f [] = []"
| "update_first P f (x # xs) = (if P x then f x # xs else x # update_first P f xs)"

lemma update_first_length [simp]: "length (update_first P f xs) = length xs"
  by (induction xs) auto

lemma update_first_none: "List.find P xs = None \<Longrightarrow> update_first P f xs = xs"
  by (induction xs) (auto split: if_splits)

lemma update_first_find:
  assumes "List.find P xs = Some x" and "P (f x)"
  shows "List.find P (update_first P f xs) = Some (f x)"
  using assms by (induction xs) (auto split: if_splits)

lemma map_update_first_id:
  assumes "\<And>x. g (f x) = g x"
  shows "map g (update_first P f xs) = map g xs"
  using assms by (induction xs) auto

lemma set_update_first_sub:
  "set (update_first P f xs) \<subseteq> set xs \<union> f ` {x \<in> set xs. P x}"
  by (induction xs) auto

text \<open>The state of an association list after the updates of the library.\<close>

lemma map_of_update: "map_of (AList.update k v al) k' = (if k' = k then Some v else map_of al k')"
  by (simp add: AList.update_conv')

lemma map_of_delete: "map_of (AList.delete k al) k' = (if k' = k then None else map_of al k')"
  by (simp add: AList.delete_conv')

lemma map_of_filter_key:
  "map_of (filter (\<lambda>(k, v). P k) al) k' = (if P k' then map_of al k' else None)"
  by (induction al) auto

end
