(* ===== verification/Go_Strings.thy ===== *)
theory Go_Strings
  imports Prelude "HOL-Library.Char_ord" "HOL-Library.List_Lexorder"
begin

text \<open>
  The part of Go's \<open>strings\<close>, \<open>strconv\<close> and \<open>fmt\<close> that the program uses, on byte
  strings (\<open>string\<close> is a list of bytes).  White space and letter case are those of
  ASCII: a byte of a multi-byte rune is never a space and has no case.  Literals of
  the source that are not ASCII are spelled by their UTF-8 bytes.
\<close>

section \<open>Bytes\<close>

abbreviation byte :: "char \<Rightarrow> nat" where
  "byte c \<equiv> of_char c"

definition is_space :: "char \<Rightarrow> bool" where
  "is_space c \<longleftrightarrow> (9 \<le> byte c \<and> byte c \<le> 13) \<or> byte c = 32"

definition is_digit :: "char \<Rightarrow> bool" where
  "is_digit c \<longleftrightarrow> 48 \<le> byte c \<and> byte c \<le> 57"

definition is_lower :: "char \<Rightarrow> bool" where
  "is_lower c \<longleftrightarrow> 97 \<le> byte c \<and> byte c \<le> 122"

definition is_upper :: "char \<Rightarrow> bool" where
  "is_upper c \<longleftrightarrow> 65 \<le> byte c \<and> byte c \<le> 90"

definition lower_char :: "char \<Rightarrow> char" where
  "lower_char c = (if is_upper c then char_of (byte c + 32) else c)"

definition to_lower :: "string \<Rightarrow> string" where
  "to_lower s = map lower_char s"

definition newline :: string where "newline = [CHR 0x0A]"

text \<open>The UTF-8 bytes of the source's literals that are not ASCII.\<close>

definition em_dash :: string where "em_dash = [CHR 0xE2, CHR 0x80, CHR 0x94]"
definition arrow :: string where "arrow = [CHR 0xE2, CHR 0x86, CHR 0x92]"
definition ellipsis :: string where "ellipsis = [CHR 0xE2, CHR 0x80, CHR 0xA6]"

text \<open>\<open>truncateRunes\<close>: runes are counted by their first byte.\<close>

definition is_cont :: "char \<Rightarrow> bool" where
  "is_cont c \<longleftrightarrow> 128 \<le> byte c \<and> byte c < 192"

fun take_runes :: "nat \<Rightarrow> string \<Rightarrow> string" where
  "take_runes n [] = []"
| "take_runes n (c # cs) =
     (if is_cont c then c # take_runes n cs
      else (case n of 0 \<Rightarrow> [] | Suc m \<Rightarrow> c # take_runes m cs))"

definition truncateRunes :: "string \<Rightarrow> nat \<Rightarrow> string" where
  "truncateRunes s n =
     (if length (filter (\<lambda>c. \<not> is_cont c) s) \<le> n then s else take_runes n s @ ellipsis)"

section \<open>Trimming\<close>

definition trim_left :: "(char \<Rightarrow> bool) \<Rightarrow> string \<Rightarrow> string" where
  "trim_left P s = dropWhile P s"

definition trim_right :: "(char \<Rightarrow> bool) \<Rightarrow> string \<Rightarrow> string" where
  "trim_right P s = rev (dropWhile P (rev s))"

definition trim :: "(char \<Rightarrow> bool) \<Rightarrow> string \<Rightarrow> string" where
  "trim P s = trim_right P (trim_left P s)"

definition trim_space :: "string \<Rightarrow> string" where
  "trim_space s = trim is_space s"

definition trim_cut :: "string \<Rightarrow> string \<Rightarrow> string" where
  "trim_cut cs s = trim (\<lambda>c. c \<in> set cs) s"

definition has_prefix :: "string \<Rightarrow> string \<Rightarrow> bool" where
  "has_prefix p s \<longleftrightarrow> take (length p) s = p"

definition has_suffix :: "string \<Rightarrow> string \<Rightarrow> bool" where
  "has_suffix p s \<longleftrightarrow> has_prefix (rev p) (rev s)"

definition trim_prefix :: "string \<Rightarrow> string \<Rightarrow> string" where
  "trim_prefix p s = (if has_prefix p s then drop (length p) s else s)"

definition trim_suffix :: "string \<Rightarrow> string \<Rightarrow> string" where
  "trim_suffix p s = (if has_suffix p s then take (length s - length p) s else s)"

text \<open>\<open>envOr\<close>'s and \<open>nz\<close>'s test.\<close>

definition blank :: "string \<Rightarrow> bool" where
  "blank s \<longleftrightarrow> trim_space s = []"

section \<open>Splitting, joining, searching\<close>

fun split_on :: "char \<Rightarrow> string \<Rightarrow> string list" where
  "split_on c [] = [[]]"
| "split_on c (x # xs) =
     (if x = c then [] # split_on c xs
      else (case split_on c xs of [] \<Rightarrow> [[x]] | y # ys \<Rightarrow> (x # y) # ys))"

fun join :: "string \<Rightarrow> string list \<Rightarrow> string" where
  "join sep [] = []"
| "join sep [x] = x"
| "join sep (x # y # zs) = x @ sep @ join sep (y # zs)"

fun contains :: "string \<Rightarrow> string \<Rightarrow> bool" where
  "contains sub [] = (sub = [])"
| "contains sub (x # xs) = (has_prefix sub (x # xs) \<or> contains sub xs)"

fun index_of :: "string \<Rightarrow> string \<Rightarrow> nat option" where
  "index_of sub [] = (if sub = [] then Some 0 else None)"
| "index_of sub (x # xs) =
     (if has_prefix sub (x # xs) then Some 0 else map_option Suc (index_of sub xs))"

text \<open>\<open>strings.ReplaceAll\<close> for the non-empty \<open>old\<close> the source passes.\<close>

function replace_all :: "string \<Rightarrow> string \<Rightarrow> string \<Rightarrow> string" where
  "replace_all old new s =
     (if s = [] \<or> old = [] then s
      else if has_prefix old s then new @ replace_all old new (drop (length old) s)
      else hd s # replace_all old new (tl s))"
  by pat_completeness auto
termination
  by (relation "measure (\<lambda>(old, new, s). length s)") (auto simp: Nat.diff_less)

declare replace_all.simps [simp del]

text \<open>\<open>strings.Fields\<close>.\<close>

fun fields_acc :: "string \<Rightarrow> string \<Rightarrow> string list" where
  "fields_acc cur [] = (if cur = [] then [] else [rev cur])"
| "fields_acc cur (c # cs) =
     (if is_space c then (if cur = [] then fields_acc [] cs else rev cur # fields_acc [] cs)
      else fields_acc (c # cur) cs)"

definition fields :: "string \<Rightarrow> string list" where
  "fields s = fields_acc [] s"

definition equal_fold :: "string \<Rightarrow> string \<Rightarrow> bool" where
  "equal_fold a b \<longleftrightarrow> to_lower a = to_lower b"

section \<open>Numbers\<close>

definition digit_char :: "nat \<Rightarrow> char" where
  "digit_char d = char_of (48 + d)"

definition digit_val :: "char \<Rightarrow> nat" where
  "digit_val c = byte c - 48"

fun itoa_nat :: "nat \<Rightarrow> string" where
  "itoa_nat n = (if n < 10 then [digit_char n] else itoa_nat (n div 10) @ [digit_char (n mod 10)])"

declare itoa_nat.simps [simp del]

definition itoa :: "int \<Rightarrow> string" where
  "itoa i = (if i < 0 then CHR ''-'' # itoa_nat (nat (- i)) else itoa_nat (nat i))"

definition pad_zero :: "nat \<Rightarrow> string \<Rightarrow> string" where
  "pad_zero w s = replicate (w - length s) (CHR ''0'') @ s"

text \<open>\<open>%03d\<close>: the sign counts towards the width.\<close>

definition fmt_03d :: "int \<Rightarrow> string" where
  "fmt_03d i = (if i < 0 then CHR ''-'' # pad_zero 2 (itoa_nat (nat (- i)))
                else pad_zero 3 (itoa_nat (nat i)))"

definition digits_val :: "string \<Rightarrow> nat" where
  "digits_val ds = foldl (\<lambda>a c. a * 10 + digit_val c) 0 ds"

definition int64_max :: int where "int64_max = 9223372036854775807"

text \<open>Two's-complement wrap of a 64-bit \<open>int\<close>.\<close>

definition wrap64 :: "int \<Rightarrow> int" where
  "wrap64 i = (i + 9223372036854775808) mod 18446744073709551616 - 9223372036854775808"

text \<open>\<open>strconv.ParseInt(tok, 10, 64)\<close> on a sign and digits.\<close>

definition parse_int64 :: "bool \<Rightarrow> string \<Rightarrow> int option" where
  "parse_int64 neg ds =
     (if ds = [] \<or> \<not> list_all is_digit ds then None
      else let v = int (digits_val ds) in
        if neg then (if v \<le> int64_max + 1 then Some (- v) else None)
        else (if v \<le> int64_max then Some v else None))"

definition atoi :: "string \<Rightarrow> int option" where
  "atoi s = (case s of
       [] \<Rightarrow> None
     | c # cs \<Rightarrow> if c = CHR ''-'' then parse_int64 True cs
                else if c = CHR ''+'' then parse_int64 False cs
                else parse_int64 False s)"

subsection \<open>\<open>fmt.Sscanf(name, "%d-", &n)\<close>\<close>

text \<open>Leading white space is skipped (a newline is an error), then an optional sign and
  the digits, and the literal \<open>-\<close> must follow.\<close>

fun scan_skip_space :: "string \<Rightarrow> string option" where
  "scan_skip_space [] = Some []"
| "scan_skip_space (c # cs) =
     (if c = CHR 0x0A then None else if is_space c then scan_skip_space cs else Some (c # cs))"

definition scan_sign :: "string \<Rightarrow> bool \<times> string" where
  "scan_sign s = (case s of
       [] \<Rightarrow> (False, [])
     | c # cs \<Rightarrow> if c = CHR ''-'' then (True, cs) else if c = CHR ''+'' then (False, cs) else (False, s))"

definition sscanf_d_dash :: "string \<Rightarrow> int option" where
  "sscanf_d_dash s =
     (case scan_skip_space s of
        None \<Rightarrow> None
      | Some t \<Rightarrow>
          let (neg, u) = scan_sign t;
              ds = takeWhile is_digit u;
              rest = dropWhile is_digit u
          in case parse_int64 neg ds of
               None \<Rightarrow> None
             | Some v \<Rightarrow> (case rest of [] \<Rightarrow> None | c # _ \<Rightarrow> if c = CHR ''-'' then Some v else None))"

section \<open>Quoting\<close>

text \<open>\<open>%q\<close> on ASCII text; a byte of a printable rune is left as it is.\<close>

definition hex_digit :: "nat \<Rightarrow> char" where
  "hex_digit d = (if d < 10 then char_of (48 + d) else char_of (87 + d))"

definition quote_char :: "char \<Rightarrow> string" where
  "quote_char c =
     (let b = byte c in
      if b = 34 \<or> b = 92 then [CHR 0x5C, c]
      else if b = 7 then [CHR 0x5C, CHR ''a''] else if b = 8 then [CHR 0x5C, CHR ''b'']
      else if b = 9 then [CHR 0x5C, CHR ''t''] else if b = 10 then [CHR 0x5C, CHR ''n'']
      else if b = 11 then [CHR 0x5C, CHR ''v''] else if b = 12 then [CHR 0x5C, CHR ''f'']
      else if b = 13 then [CHR 0x5C, CHR ''r'']
      else if b < 32 \<or> b = 127 then [CHR 0x5C, CHR ''x'', hex_digit (b div 16), hex_digit (b mod 16)]
      else [c])"

definition quote :: "string \<Rightarrow> string" where
  "quote s = [CHR 0x22] @ concat (map quote_char s) @ [CHR 0x22]"

section \<open>Laws\<close>

subsection \<open>Trimming\<close>

lemma trim_left_head: "trim_left P s = [] \<or> \<not> P (hd (trim_left P s))"
  unfolding trim_left_def by (metis hd_dropWhile)

lemma trim_right_last: "trim_right P s = [] \<or> \<not> P (last (trim_right P s))"
proof (cases "trim_right P s = []")
  case False
  then have "\<not> P (hd (dropWhile P (rev s)))"
    unfolding trim_right_def by (metis hd_dropWhile rev.simps(1))
  then show ?thesis unfolding trim_right_def by (simp add: last_rev)
qed simp

lemma trim_right_decomp: "\<exists>zs. s = trim_right P s @ zs \<and> (\<forall>z\<in>set zs. P z)"
proof -
  have "s = rev (dropWhile P (rev s)) @ rev (takeWhile P (rev s))"
    by (metis rev_append rev_rev_ident takeWhile_dropWhile_id)
  moreover have "\<forall>z\<in>set (rev (takeWhile P (rev s))). P z"
    by (auto dest: set_takeWhileD)
  ultimately show ?thesis unfolding trim_right_def by blast
qed

lemma trim_last: "trim P s = [] \<or> \<not> P (last (trim P s))"
  unfolding trim_def by (rule trim_right_last)

lemma trim_head: "trim P s = [] \<or> \<not> P (hd (trim P s))"
proof (cases "trim P s = []")
  case False
  obtain zs where "trim_left P s = trim P s @ zs"
    unfolding trim_def using trim_right_decomp by blast
  then have "hd (trim_left P s) = hd (trim P s)" "trim_left P s \<noteq> []" using False by auto
  then show ?thesis using trim_left_head[of P s] by metis
qed simp

lemma set_trim_left: "set (trim_left P s) \<subseteq> set s"
  unfolding trim_left_def by (auto dest: set_dropWhileD)

lemma set_trim_right: "set (trim_right P s) \<subseteq> set s"
  unfolding trim_right_def by (auto dest: set_dropWhileD)

lemma set_trim: "set (trim P s) \<subseteq> set s"
  unfolding trim_def using set_trim_left set_trim_right by blast

lemma length_trim: "length (trim P s) \<le> length s"
  unfolding trim_def trim_right_def trim_left_def
  by (metis length_dropWhile_le length_rev order_trans)

lemma trim_id:
  assumes "s = [] \<or> (\<not> P (hd s) \<and> \<not> P (last s))"
  shows "trim P s = s"
proof (cases s)
  case Nil then show ?thesis by (simp add: trim_def trim_left_def trim_right_def)
next
  case (Cons a t)
  then have "trim_left P s = s" using assms by (simp add: trim_left_def)
  moreover have "dropWhile P (rev s) = rev s"
    using assms Cons by (cases "rev s") (auto simp: last_rev hd_rev[symmetric])
  ultimately show ?thesis by (simp add: trim_def trim_right_def)
qed

lemma trim_idem: "trim P (trim P s) = trim P s"
  by (rule trim_id) (use trim_head[of P s] trim_last[of P s] in blast)

lemma trim_space_idem [simp]: "trim_space (trim_space s) = trim_space s"
  by (simp add: trim_space_def trim_idem)

lemma trim_Nil [simp]: "trim P [] = []"
  by (rule trim_id) simp

lemma trim_space_Nil [simp]: "trim_space [] = []"
  by (simp add: trim_space_def)

lemma blank_Nil [simp]: "blank []"
  by (simp add: blank_def)

lemma blank_trim [simp]: "blank (trim_space s) = blank s"
  by (simp add: blank_def)

lemma not_blank_nonempty: "\<not> blank s \<Longrightarrow> s \<noteq> []"
  by auto

subsection \<open>Prefixes and suffixes\<close>

lemma has_prefix_append [simp]: "has_prefix p (p @ s)"
  by (simp add: has_prefix_def)

lemma has_prefix_iff: "has_prefix p s \<longleftrightarrow> (\<exists>t. s = p @ t)"
  unfolding has_prefix_def by (metis append_eq_conv_conj append_take_drop_id)

lemma has_suffix_iff: "has_suffix p s \<longleftrightarrow> (\<exists>t. s = t @ p)"
  unfolding has_suffix_def has_prefix_iff by (metis rev_append rev_rev_ident)

lemma trim_suffix_append [simp]: "trim_suffix p (s @ p) = s"
  by (simp add: trim_suffix_def has_suffix_iff)

lemma trim_prefix_append [simp]: "trim_prefix p (p @ s) = s"
  by (simp add: trim_prefix_def)

lemma set_trim_prefix: "set (trim_prefix p s) \<subseteq> set s"
  by (auto simp: trim_prefix_def dest: in_set_dropD)

lemma set_trim_suffix: "set (trim_suffix p s) \<subseteq> set s"
  by (auto simp: trim_suffix_def dest: in_set_takeD)

subsection \<open>Splitting and joining\<close>

lemma split_on_not_Nil [simp]: "split_on c s \<noteq> []"
  by (induction s) (auto split: list.splits)

lemma split_on_no_sep: "x \<in> set (split_on c s) \<Longrightarrow> c \<notin> set x"
proof (induction s arbitrary: x)
  case (Cons a s)
  then show ?case by (cases "split_on c s") (auto split: if_splits)
qed simp

lemma set_split_on: "x \<in> set (split_on c s) \<Longrightarrow> set x \<subseteq> set s"
proof (induction s arbitrary: x)
  case (Cons a s)
  then show ?case
    by (cases "split_on c s") (fastforce split: if_splits)+
qed simp

lemma join_split_on: "join [c] (split_on c s) = s"
proof (induction s)
  case (Cons a s)
  obtain y ys where y: "split_on c s = y # ys" by (cases "split_on c s") auto
  then show ?case using Cons by (cases ys) auto
qed simp

lemma split_on_id: "c \<notin> set s \<Longrightarrow> split_on c s = [s]"
  by (induction s) auto

lemma split_on_append:
  assumes "c \<notin> set a"
  shows "split_on c (a @ c # b) = a # split_on c b"
  using assms by (induction a) auto

subsection \<open>Decimal numbers\<close>

lemma digit_char_byte: "d < 10 \<Longrightarrow> byte (digit_char d) = 48 + d"
  by (simp add: digit_char_def)

lemma is_digit_digit_char: "d < 10 \<Longrightarrow> is_digit (digit_char d)"
  by (simp add: is_digit_def digit_char_byte)

lemma digit_val_digit_char: "d < 10 \<Longrightarrow> digit_val (digit_char d) = d"
  by (simp add: digit_val_def digit_char_byte)

lemma itoa_nat_digits: "list_all is_digit (itoa_nat n)"
proof (induction n rule: itoa_nat.induct)
  case (1 n)
  then show ?case
    by (subst itoa_nat.simps) (simp add: is_digit_digit_char)
qed

lemma itoa_nat_not_Nil [simp]: "itoa_nat n \<noteq> []"
  by (subst itoa_nat.simps) simp

lemma digits_val_append: "digits_val (a @ [c]) = digits_val a * 10 + digit_val c"
  by (simp add: digits_val_def)

lemma digits_val_itoa_nat: "digits_val (itoa_nat n) = n"
proof (induction n rule: itoa_nat.induct)
  case (1 n)
  show ?case
  proof (cases "n < 10")
    case True
    then show ?thesis
      by (subst itoa_nat.simps) (simp add: digits_val_def digit_val_digit_char)
  next
    case False
    then show ?thesis using 1[OF False]
      by (subst itoa_nat.simps) (simp add: digits_val_append digit_val_digit_char)
  qed
qed

lemma digits_val_zeros: "digits_val (replicate k (CHR ''0'') @ s) = digits_val s"
  by (induction k) (auto simp: digits_val_def digit_val_def)

lemma digits_val_pad [simp]: "digits_val (pad_zero w s) = digits_val s"
  by (simp add: pad_zero_def digits_val_zeros)

lemma pad_zero_digits: "list_all is_digit s \<Longrightarrow> list_all is_digit (pad_zero w s)"
  by (auto simp: pad_zero_def list_all_iff is_digit_def)

lemma length_pad_zero: "w \<le> length (pad_zero w s)"
  by (simp add: pad_zero_def)

lemma pad_zero_not_Nil: "s \<noteq> [] \<Longrightarrow> pad_zero w s \<noteq> []"
  by (simp add: pad_zero_def)

lemma is_digit_not_sign: "is_digit c \<Longrightarrow> c \<noteq> CHR ''-'' \<and> c \<noteq> CHR ''+'' \<and> c \<noteq> CHR 0x0A \<and> \<not> is_space c"
  by (auto simp: is_digit_def is_space_def)

text \<open>Reading a padded number back gives the number.\<close>

lemma sscanf_fmt_03d:
  assumes "0 \<le> n" and "n \<le> int64_max"
  shows "sscanf_d_dash (fmt_03d n @ CHR ''-'' # rest) = Some n"
proof -
  let ?ds = "pad_zero 3 (itoa_nat (nat n))"
  have digs: "list_all is_digit ?ds" by (rule pad_zero_digits[OF itoa_nat_digits])
  obtain d ds where d: "?ds = d # ds"
    using pad_zero_not_Nil[OF itoa_nat_not_Nil] by (cases ?ds) auto
  then have dd: "is_digit d" using digs by simp
  have tw: "takeWhile is_digit (?ds @ CHR ''-'' # rest) = ?ds"
    and dw: "dropWhile is_digit (?ds @ CHR ''-'' # rest) = CHR ''-'' # rest"
    using digs by (auto simp: list_all_iff is_digit_def takeWhile_append dropWhile_append)
  have skip: "scan_skip_space (?ds @ CHR ''-'' # rest) = Some (?ds @ CHR ''-'' # rest)"
    using dd d is_digit_not_sign by simp
  have sign: "scan_sign (?ds @ CHR ''-'' # rest) = (False, ?ds @ CHR ''-'' # rest)"
    using dd d is_digit_not_sign by (simp add: scan_sign_def)
  have "parse_int64 False ?ds = Some n"
    using digs assms pad_zero_not_Nil[OF itoa_nat_not_Nil]
    by (simp add: parse_int64_def digits_val_itoa_nat)
  then show ?thesis
    using assms skip sign by (simp add: sscanf_d_dash_def fmt_03d_def tw dw Let_def)
qed

lemma atoi_itoa:
  assumes "- int64_max - 1 \<le> n" and "n \<le> int64_max"
  shows "atoi (itoa n) = Some n"
proof -
  have *: "atoi (itoa_nat k) = parse_int64 False (itoa_nat k)" for k
  proof -
    obtain d ds where "itoa_nat k = d # ds" "is_digit d"
      by (metis (no_types) itoa_nat_digits itoa_nat_not_Nil list.exhaust list.pred_inject(2))
    then show ?thesis using is_digit_not_sign by (simp add: atoi_def)
  qed
  show ?thesis
  proof (cases "n < 0")
    case True
    then show ?thesis using assms
      by (simp add: itoa_def atoi_def parse_int64_def itoa_nat_digits digits_val_itoa_nat)
  next
    case False
    then show ?thesis using assms
      by (simp add: itoa_def * parse_int64_def itoa_nat_digits digits_val_itoa_nat)
  qed
qed

lemma wrap64_id: "- int64_max - 1 \<le> i \<Longrightarrow> i \<le> int64_max \<Longrightarrow> wrap64 i = i"
  by (simp add: wrap64_def int64_max_def)

lemma wrap64_bounds: "- int64_max - 1 \<le> wrap64 i \<and> wrap64 i \<le> int64_max"
  by (simp add: wrap64_def int64_max_def)

section \<open>Time\<close>

text \<open>
  Instants are Unix times in nanoseconds (\<open>time.Time\<close> in UTC); the text format is
  \<open>time.RFC3339\<close>.  A pointer to a time is an \<open>option\<close>.
\<close>

type_synonym time = int

definition unix_milli :: "time \<Rightarrow> int" where
  "unix_milli t = t div 1000000"

definition unix_sec :: "time \<Rightarrow> int" where
  "unix_sec t = t div 1000000000"

text \<open>The proleptic Gregorian date of a day count since 1970-01-01.\<close>

definition civil_from_days :: "int \<Rightarrow> int \<times> int \<times> int" where
  "civil_from_days d =
     (let z = d + 719468;
          era = z div 146097;
          doe = z - era * 146097;
          yoe = (doe - doe div 1460 + doe div 36524 - doe div 146096) div 365;
          doy = doe - (365 * yoe + yoe div 4 - yoe div 100);
          mp = (5 * doy + 2) div 153;
          dd = doy - (153 * mp + 2) div 5 + 1;
          mm = (if mp < 10 then mp + 3 else mp - 9);
          yy = yoe + era * 400 + (if mm \<le> 2 then 1 else 0)
      in (yy, mm, dd))"

definition fmt_02d :: "int \<Rightarrow> string" where
  "fmt_02d i = pad_zero 2 (itoa i)"

definition rfc3339 :: "time \<Rightarrow> string" where
  "rfc3339 t =
     (let s = unix_sec t;
          (y, m, d) = civil_from_days (s div 86400);
          r = s mod 86400
      in pad_zero 4 (itoa y) @ ''-'' @ fmt_02d m @ ''-'' @ fmt_02d d @ ''T'' @
         fmt_02d (r div 3600) @ '':'' @ fmt_02d (r div 60 mod 60) @ '':'' @ fmt_02d (r mod 60) @ ''Z'')"

text \<open>Two known instants pin the conversion.\<close>

lemma rfc3339_epoch: "rfc3339 0 = ''1970-01-01T00:00:00Z''"
  by code_simp

lemma rfc3339_leap: "rfc3339 1709210096000000000 = ''2024-02-29T12:34:56Z''"
  by code_simp

end
