(* ===== verification/Models.thy ===== *)
theory Models
  imports Go_Strings
begin

text \<open>
  The data model (\<open>models.go\<close> and the document types of \<open>store.go\<close>,
  \<open>delivery_changes.go\<close>, \<open>model_result.go\<close>): one record per struct, in the order the
  source has them, with the JSON field named by the field.  A Go pointer is an
  \<open>option\<close>; a nil slice and an empty slice are the same list, since JSON and every
  reader in the program treat them alike.
\<close>

section \<open>Untyped JSON\<close>

datatype json =
    JNull
  | JBool bool
  | JNum int
  | JStr string
  | JArr "json list"
  | JObj "(string \<times> json) list"

section \<open>Board columns\<close>

text \<open>The Kanban workflow order of \<open>BoardColumns\<close>, as its own type.\<close>

datatype column = Backlog | Queue | InProgress | Review | HumanReview | Done

definition columns :: "column list" where
  "columns = [Backlog, Queue, InProgress, Review, HumanReview, Done]"

fun column_name :: "column \<Rightarrow> string" where
  "column_name Backlog = ''backlog''"
| "column_name Queue = ''queue''"
| "column_name InProgress = ''in_progress''"
| "column_name Review = ''review''"
| "column_name HumanReview = ''human_review''"
| "column_name Done = ''done''"

definition BoardColumns :: "string list" where
  "BoardColumns = [''backlog'', ''queue'', ''in_progress'', ''review'', ''human_review'', ''done'']"

section \<open>Projects\<close>

record project =
  p_id :: string
  p_name :: string
  p_ownerRepo :: string
  p_githubRepoId :: string
  p_connectorId :: string
  p_organizationId :: string
  p_htmlUrl :: string
  p_defaultBranch :: string
  p_githubProjectId :: string
  p_githubProjectTitle :: string
  p_githubProjectUrl :: string
  p_autoStartOnMove :: "bool option"
  p_createdAt :: time
  p_updatedAt :: time

definition autoStartOnMove :: "project \<Rightarrow> bool" where
  "autoStartOnMove p = (case p_autoStartOnMove p of None \<Rightarrow> True | Some b \<Rightarrow> b)"

section \<open>Tasks\<close>

record task =
  t_id :: string
  t_specId :: string
  t_title :: string
  t_description :: string
  t_status :: string
  t_requireReview :: bool
  t_humanReview :: "bool option"
  t_ideationId :: string
  t_ideationTypeKey :: string
  t_milestoneNumber :: int
  t_milestoneTitle :: string
  t_milestoneUrl :: string
  t_projectId :: string
  t_projectItemId :: string
  t_projectSyncedAt :: "time option"
  t_projectSyncError :: string
  t_issueNumber :: int
  t_issueUrl :: string
  t_issueState :: string
  t_issueTitle :: string
  t_issueAssignee :: string
  t_issueLabels :: "string list"
  t_issueSyncedAt :: "time option"
  t_issueSyncError :: string
  t_deliveryBranch :: string
  t_deliveryCommitSha :: string
  t_deliveryFiles :: "string list"
  t_deliveredAt :: "time option"
  t_prNumber :: int
  t_prUrl :: string
  t_prState :: string
  t_deliveryStatus :: string
  t_deliveryError :: string
  t_createdAt :: time
  t_updatedAt :: time

text \<open>The zero value \<open>Task{}\<close>; \<open>time.Time{}\<close> is the year 1.\<close>

definition zero_time :: time where "zero_time = - 62135596800000000000"

definition zero_task :: task where
  "zero_task = \<lparr> t_id = [], t_specId = [], t_title = [], t_description = [], t_status = [],
     t_requireReview = False, t_humanReview = None, t_ideationId = [], t_ideationTypeKey = [],
     t_milestoneNumber = 0, t_milestoneTitle = [], t_milestoneUrl = [],
     t_projectId = [], t_projectItemId = [], t_projectSyncedAt = None, t_projectSyncError = [],
     t_issueNumber = 0, t_issueUrl = [], t_issueState = [], t_issueTitle = [],
     t_issueAssignee = [], t_issueLabels = [], t_issueSyncedAt = None, t_issueSyncError = [],
     t_deliveryBranch = [], t_deliveryCommitSha = [], t_deliveryFiles = [], t_deliveredAt = None,
     t_prNumber = 0, t_prUrl = [], t_prState = [], t_deliveryStatus = [], t_deliveryError = [],
     t_createdAt = zero_time, t_updatedAt = zero_time \<rparr>"

text \<open>\<open>Board map[string][]string\<close>: column id to ordered spec ids, as an association
  list; an absent key is a nil slice.\<close>

type_synonym board = "(string \<times> string list) list"

definition board_col :: "board \<Rightarrow> string \<Rightarrow> string list" where
  "board_col b c = (case map_of b c of None \<Rightarrow> [] | Some ids \<Rightarrow> ids)"

definition emptyBoard :: board where
  "emptyBoard = map (\<lambda>c. (c, [])) BoardColumns"

section \<open>Plans\<close>

record subtask =
  st_id :: string
  st_description :: string
  st_status :: string
  st_service :: string
  st_filesToModify :: "string list"
  st_verification :: string

record phase =
  ph_phase :: int
  ph_name :: string
  ph_type :: string
  ph_parallelSafe :: bool
  ph_dependsOn :: "int list"
  ph_subtasks :: "subtask list"

record plan =
  pl_feature :: string
  pl_workflowType :: string
  pl_servicesInvolved :: "string list"
  pl_specFile :: string
  pl_status :: string
  pl_planStatus :: string
  pl_finalAcceptance :: "string list"
  pl_phases :: "phase list"

definition zero_plan :: plan where
  "zero_plan = \<lparr> pl_feature = [], pl_workflowType = [], pl_servicesInvolved = [], pl_specFile = [],
     pl_status = [], pl_planStatus = [], pl_finalAcceptance = [], pl_phases = [] \<rparr>"

definition zero_subtask :: subtask where
  "zero_subtask = \<lparr> st_id = [], st_description = [], st_status = [], st_service = [],
     st_filesToModify = [], st_verification = [] \<rparr>"

section \<open>Progress and project status\<close>

record progress =
  pr_isRunning :: bool
  pr_paused :: bool
  pr_action :: string
  pr_startedAt :: "time option"
  pr_completedAt :: "time option"
  pr_progress :: int
  pr_subtaskCompleted :: int
  pr_subtaskTotal :: int
  pr_currentPhaseName :: string
  pr_runId :: string
  pr_stuckSubtaskId :: string

definition zero_progress :: progress where
  "zero_progress = \<lparr> pr_isRunning = False, pr_paused = False, pr_action = [], pr_startedAt = None,
     pr_completedAt = None, pr_progress = 0, pr_subtaskCompleted = 0, pr_subtaskTotal = 0,
     pr_currentPhaseName = [], pr_runId = [], pr_stuckSubtaskId = [] \<rparr>"

record pstatus =
  ps_active :: bool
  ps_spec :: string
  ps_state :: string
  ps_completed :: int
  ps_total :: int
  ps_inProgress :: int
  ps_failed :: int
  ps_phaseCurrent :: string
  ps_phaseId :: int
  ps_phaseTotal :: int
  ps_workersActive :: int
  ps_workersMax :: int
  ps_lastUpdate :: string
  ps_runId :: string

definition zero_status :: pstatus where
  "zero_status = \<lparr> ps_active = False, ps_spec = [], ps_state = [], ps_completed = 0, ps_total = 0,
     ps_inProgress = 0, ps_failed = 0, ps_phaseCurrent = [], ps_phaseId = 0, ps_phaseTotal = 0,
     ps_workersActive = 0, ps_workersMax = 0, ps_lastUpdate = [], ps_runId = [] \<rparr>"

definition idleStatus :: "time \<Rightarrow> pstatus" where
  "idleStatus now = zero_status \<lparr> ps_active := False, ps_spec := [], ps_state := ''idle'',
     ps_lastUpdate := rfc3339 now, ps_workersMax := 1 \<rparr>"

section \<open>Jobs\<close>

record model_override =
  mo_provider :: string
  mo_model :: string

definition override_empty :: "model_override option \<Rightarrow> bool" where
  "override_empty ov = (case ov of None \<Rightarrow> True | Some m \<Rightarrow> blank (mo_provider m) \<and> blank (mo_model m))"

record job =
  j_runId :: string
  j_projectId :: string
  j_specId :: string
  j_action :: string
  j_state :: string
  j_createdAt :: time
  j_updatedAt :: time
  j_startedAt :: "time option"
  j_completedAt :: "time option"
  j_error :: string
  j_attempt :: int
  j_progressPct :: "int option"
  j_runnerImage :: string
  j_execution :: string
  j_message :: string
  j_targetPhase :: int
  j_ideationType :: string
  j_competitors :: "string list"
  j_audienceNotes :: string
  j_organizationId :: string
  j_actorUsername :: string
  j_agentKey :: string
  j_modelOverride :: "model_override option"
  j_resolvedProvider :: string
  j_resolvedModel :: string
  j_resolvedModelSource :: string
  j_resolvedKeyScope :: string
  j_resolvedAgentKey :: string

definition zero_job :: job where
  "zero_job = \<lparr> j_runId = [], j_projectId = [], j_specId = [], j_action = [], j_state = [],
     j_createdAt = zero_time, j_updatedAt = zero_time, j_startedAt = None, j_completedAt = None,
     j_error = [], j_attempt = 0, j_progressPct = None, j_runnerImage = [], j_execution = [],
     j_message = [], j_targetPhase = 0, j_ideationType = [], j_competitors = [],
     j_audienceNotes = [], j_organizationId = [], j_actorUsername = [], j_agentKey = [],
     j_modelOverride = None, j_resolvedProvider = [], j_resolvedModel = [],
     j_resolvedModelSource = [], j_resolvedKeyScope = [], j_resolvedAgentKey = [] \<rparr>"

record job_origin =
  o_organizationId :: string
  o_actorUsername :: string
  o_modelOverride :: "model_override option"
  o_resolvedProvider :: string
  o_resolvedModel :: string
  o_resolvedModelSource :: string
  o_resolvedKeyScope :: string
  o_resolvedAgentKey :: string

definition zero_origin :: job_origin where
  "zero_origin = \<lparr> o_organizationId = [], o_actorUsername = [], o_modelOverride = None,
     o_resolvedProvider = [], o_resolvedModel = [], o_resolvedModelSource = [],
     o_resolvedKeyScope = [], o_resolvedAgentKey = [] \<rparr>"

definition jobOriginFrom :: "job \<Rightarrow> job_origin" where
  "jobOriginFrom j = \<lparr> o_organizationId = j_organizationId j, o_actorUsername = j_actorUsername j,
     o_modelOverride = j_modelOverride j, o_resolvedProvider = j_resolvedProvider j,
     o_resolvedModel = j_resolvedModel j, o_resolvedModelSource = j_resolvedModelSource j,
     o_resolvedKeyScope = j_resolvedKeyScope j, o_resolvedAgentKey = j_resolvedAgentKey j \<rparr>"

definition pinnedFor :: "job_origin \<Rightarrow> string \<Rightarrow> bool" where
  "pinnedFor og agentKey =
     (if blank (o_resolvedProvider og) \<or> blank (o_resolvedModel og) then False
      else trim_space (o_resolvedAgentKey og) = trim_space agentKey \<and> agentKey \<noteq> [])"

section \<open>Roadmap and ideation\<close>

record roadmap_phase =
  rp_id :: string
  rp_name :: string
  rp_description :: string
  rp_order :: int
  rp_status :: string
  rp_features :: "string list"
  rp_milestoneNumber :: int
  rp_milestoneTitle :: string
  rp_milestoneUrl :: string

record roadmap_feature =
  rf_id :: string
  rf_title :: string
  rf_description :: string
  rf_rationale :: string
  rf_priority :: string
  rf_complexity :: string
  rf_impact :: string
  rf_phaseId :: string
  rf_dependencies :: "string list"
  rf_status :: string
  rf_acceptanceCriteria :: "string list"
  rf_userStories :: "string list"
  rf_milestoneNumber :: int
  rf_milestoneTitle :: string
  rf_milestoneUrl :: string
  rf_projectId :: string
  rf_projectItemId :: string

record roadmap =
  rm_id :: string
  rm_projectName :: string
  rm_version :: string
  rm_vision :: string
  rm_targetAudience :: string
  rm_phases :: "roadmap_phase list"
  rm_features :: "roadmap_feature list"
  rm_metadata :: "(string \<times> json) list"

definition zero_roadmap :: roadmap where
  "zero_roadmap = \<lparr> rm_id = [], rm_projectName = [], rm_version = [], rm_vision = [],
     rm_targetAudience = [], rm_phases = [], rm_features = [], rm_metadata = [] \<rparr>"

record idea =
  i_id :: string
  i_type :: string
  i_title :: string
  i_description :: string
  i_rationale :: string
  i_estimatedEffort :: string
  i_affectedFiles :: "string list"
  i_implementationApproach :: string
  i_status :: string
  i_createdAt :: string

type_synonym ideation = "(string \<times> idea list) list"

definition IdeationTypes :: "string list" where
  "IdeationTypes = [''code_improvements'', ''security'', ''performance'', ''documentation'',
     ''ui_ux'', ''code_quality'']"

definition emptyIdeation :: ideation where
  "emptyIdeation = map (\<lambda>t. (t, [])) IdeationTypes"

section \<open>Change sets and runner results\<close>

record file_change =
  fc_path :: string
  fc_contents :: "string option"
  fc_patch :: string
  fc_delete :: bool

record change_set =
  cs_runId :: string
  cs_source :: string
  cs_model :: string
  cs_commitMessage :: string
  cs_recordedAt :: time
  cs_files :: "file_change list"
  cs_note :: string

definition zero_change_set :: change_set where
  "zero_change_set = \<lparr> cs_runId = [], cs_source = [], cs_model = [], cs_commitMessage = [],
     cs_recordedAt = zero_time, cs_files = [], cs_note = [] \<rparr>"

record runner_result =
  rr_mode :: string
  rr_reason :: string
  rr_action :: string
  rr_model :: string
  rr_specMarkdown :: string
  rr_plan :: "plan option"
  rr_implementationNotes :: string
  rr_completedSubtaskId :: string
  rr_files :: "file_change list"
  rr_commitMessage :: string
  rr_reviewMarkdown :: string
  rr_reviewPass :: "bool option"
  rr_ideas :: ideation
  rr_vision :: string
  rr_targetAudience :: string
  rr_phases :: "roadmap_phase list"
  rr_features :: "roadmap_feature list"
  rr_discovery :: "(string \<times> json) list option"
  rr_competitor :: "json option"
  rr_rawExcerpt :: string

section \<open>Instances\<close>

text \<open>Columns are ordered by their place in the workflow.\<close>

fun column_index :: "column \<Rightarrow> nat" where
  "column_index Backlog = 0"
| "column_index Queue = 1"
| "column_index InProgress = 2"
| "column_index Review = 3"
| "column_index HumanReview = 4"
| "column_index Done = 5"

lemma column_index_inj: "column_index a = column_index b \<Longrightarrow> a = b"
  by (cases a; cases b) auto

instantiation column :: linorder
begin

definition less_eq_column :: "column \<Rightarrow> column \<Rightarrow> bool" where
  "less_eq_column a b \<longleftrightarrow> column_index a \<le> column_index b"

definition less_column :: "column \<Rightarrow> column \<Rightarrow> bool" where
  "less_column a b \<longleftrightarrow> column_index a < column_index b"

instance
  by standard (auto simp: less_eq_column_def less_column_def intro: column_index_inj)

end

lemma BoardColumns_columns: "BoardColumns = map column_name columns"
  by (simp add: BoardColumns_def columns_def)

lemma set_columns [simp]: "c \<in> set columns"
  by (cases c) (simp_all add: columns_def)

lemma distinct_columns: "distinct columns"
  by (simp add: columns_def)

lemma sorted_columns: "sorted columns"
  by (simp add: columns_def less_eq_column_def)

lemma column_name_inj: "column_name a = column_name b \<longleftrightarrow> a = b"
  by (cases a; cases b) auto

lemma distinct_BoardColumns: "distinct BoardColumns"
  by (simp add: BoardColumns_columns distinct_map distinct_columns inj_on_def column_name_inj)

lemma column_name_in_BoardColumns [simp]: "column_name c \<in> set BoardColumns"
  by (simp add: BoardColumns_columns)

lemma in_BoardColumns_iff: "c \<in> set BoardColumns \<longleftrightarrow> (\<exists>k. c = column_name k)"
  by (auto simp: BoardColumns_columns)

definition column_of :: "string \<Rightarrow> column option" where
  "column_of s = List.find (\<lambda>c. column_name c = s) columns"

lemma column_of_name [simp]: "column_of (column_name c) = Some c"
  by (cases c) (simp_all add: column_of_def columns_def)

lemma column_of_Some: "column_of s = Some c \<longleftrightarrow> s = column_name c"
  using find_Some_in_set[of "\<lambda>c. column_name c = s" columns c]
  by (auto simp flip: column_of_def)

end
