(* ===== verification/File_Store.thy ===== *)
theory File_Store
  imports Models
begin

text \<open>
  The machine under the store: a file tree, the clock, the UUID supply, the process
  environment and the tenant switch, and the file operations of \<open>os\<close> and
  \<open>path/filepath\<close> that \<open>store.go\<close> uses.  A path is the list of its cleaned segments
  from the root.  A JSON document is stored as the value that was written
  (\<open>json.Marshal\<close> followed by \<open>json.Unmarshal\<close> at the same type is the identity);
  reading it as text, or reading text as a document, goes through the parameters
  \<open>marshal\<close> and \<open>unmarshal\<close> of the world.

  The symbolic links of the machine are the table \<open>links\<close>; only the operations on job
  workspaces follow it (theory Workspace), the data directory has none.
  \<open>writeJSON\<close>'s temporary file and rename are one atomic step.  \<open>faults\<close> names the
  paths whose write fails, so that the error branches are reachable.
\<close>

section \<open>Paths\<close>

type_synonym path = "string list"

text \<open>\<open>filepath.Clean\<close> of a rooted path, one segment at a time.\<close>

definition clean_step :: "path \<Rightarrow> string \<Rightarrow> path" where
  "clean_step acc seg =
     (if seg = [] \<or> seg = ''.'' then acc else if seg = ''..'' then butlast acc else acc @ [seg])"

definition path_join :: "path \<Rightarrow> string list \<Rightarrow> path" where
  "path_join base elems = foldl clean_step base (concat (map (split_on (CHR ''/'')) elems))"

text \<open>A name that stays one segment of a joined path.\<close>

definition plain :: "string \<Rightarrow> bool" where
  "plain s \<longleftrightarrow> s \<noteq> [] \<and> s \<noteq> ''.'' \<and> s \<noteq> ''..'' \<and> CHR ''/'' \<notin> set s"

lemma plain_names [simp]:
  "plain ''projects''" "plain ''specs''" "plain ''runs''" "plain ''logs''" "plain ''roadmap''"
  "plain ''ideation''" "plain ''task.json''" "plain ''implementation_plan.json''"
  "plain ''progress.json''" "plain ''spec.md''" "plain ''review_state.json''"
  "plain ''changes.json''" "plain ''board.json''" "plain ''status.json''" "plain ''IMPLEMENTATION_NOTES.md''"
  by (simp_all add: plain_def)

text \<open>\<open>filepath.Base\<close>.\<close>

definition path_base :: "string \<Rightarrow> string" where
  "path_base s =
     (if s = [] then ''.''
      else let t = trim_right (\<lambda>c. c = CHR ''/'') s in
        if t = [] then ''/'' else last (split_on (CHR ''/'') t))"

definition path_prefixes :: "path \<Rightarrow> path list" where
  "path_prefixes p = map (\<lambda>n. take n p) [1..<Suc (length p)]"

section \<open>Documents and the world\<close>

datatype doc =
    DText string
  | DProjects "project list"
  | DBoard board
  | DStatus pstatus
  | DTask task
  | DPlan plan
  | DProgress progress
  | DJob job
  | DRoadmap roadmap
  | DIdeation ideation
  | DChanges change_set
  | DMap "(string \<times> json) list"

datatype doc_kind =
  KProjects | KBoard | KStatus | KTask | KPlan | KProgress | KJob | KRoadmap | KIdeation | KChanges | KMap

datatype node = Dir | File doc

record tenant_cfg =
  auth_enforced :: bool
  tenant_all :: string

record world =
  fs :: "(path \<times> node) list"
  data_dir :: path
  tenant :: tenant_cfg
  getenv :: "string \<Rightarrow> string"
  clock_at :: "nat \<Rightarrow> time"
  ticks :: nat
  uuid_at :: "nat \<Rightarrow> string"
  uuids :: nat
  faults :: "path list"
  marshal :: "doc \<Rightarrow> string"
  unmarshal :: "doc_kind \<Rightarrow> string \<Rightarrow> doc option"
  spawned :: "job list"
  links :: "(path \<times> path) list"

type_synonym 'a act = "(world, 'a) state"
type_synonym 'a actE = "(world, err + 'a) state"

section \<open>Clock, UUIDs, environment\<close>

definition nowUTC :: "time act" where
  "nowUTC = State (\<lambda>w. (clock_at w (ticks w), w\<lparr>ticks := Suc (ticks w)\<rparr>))"

definition uuid_new :: "string act" where
  "uuid_new = State (\<lambda>w. (uuid_at w (uuids w), w\<lparr>uuids := Suc (uuids w)\<rparr>))"

text \<open>\<open>go executeJob(store, j)\<close>: the started jobs, in order.\<close>

definition go_job :: "job \<Rightarrow> unit act" where
  "go_job j = State (\<lambda>w. ((), w\<lparr>spawned := spawned w @ [j]\<rparr>))"

definition asks :: "(world \<Rightarrow> 'a) \<Rightarrow> 'a act" where
  "asks f = State (\<lambda>w. (f w, w))"

text \<open>\<open>nz\<close> and \<open>envOr\<close> of \<open>helpers.go\<close>.\<close>

definition nz :: "string \<Rightarrow> string \<Rightarrow> string" where
  "nz s d = (if trim_space s \<noteq> [] then s else d)"

definition envOr :: "world \<Rightarrow> string \<Rightarrow> string \<Rightarrow> string" where
  "envOr w k d = (let v = trim_space (getenv w k) in if v \<noteq> [] then v else d)"

section \<open>File operations\<close>

definition look :: "world \<Rightarrow> path \<Rightarrow> node option" where
  "look w p = (if p = [] then Some Dir else map_of (fs w) p)"

definition put_node :: "path \<Rightarrow> node \<Rightarrow> world \<Rightarrow> world" where
  "put_node p n w = w\<lparr>fs := AList.update p n (fs w)\<rparr>"

text \<open>A relation to other state is never changed by a file operation: only \<open>fs\<close> is.\<close>

definition doc_kind_of :: "doc \<Rightarrow> doc_kind option" where
  "doc_kind_of d = (case d of
       DText _ \<Rightarrow> None | DProjects _ \<Rightarrow> Some KProjects | DBoard _ \<Rightarrow> Some KBoard
     | DStatus _ \<Rightarrow> Some KStatus | DTask _ \<Rightarrow> Some KTask | DPlan _ \<Rightarrow> Some KPlan
     | DProgress _ \<Rightarrow> Some KProgress | DJob _ \<Rightarrow> Some KJob | DRoadmap _ \<Rightarrow> Some KRoadmap
     | DIdeation _ \<Rightarrow> Some KIdeation | DChanges _ \<Rightarrow> Some KChanges | DMap _ \<Rightarrow> Some KMap)"

definition doc_text :: "world \<Rightarrow> doc \<Rightarrow> string" where
  "doc_text w d = (case d of DText s \<Rightarrow> s | _ \<Rightarrow> marshal w d)"

text \<open>\<open>json.Unmarshal\<close> into a variable of the given kind.\<close>

definition decode :: "world \<Rightarrow> doc_kind \<Rightarrow> doc \<Rightarrow> doc option" where
  "decode w k d = (if doc_kind_of d = Some k then Some d else unmarshal w k (doc_text w d))"

definition mk_dirs :: "path \<Rightarrow> (path \<times> node) list \<Rightarrow> (path \<times> node) list" where
  "mk_dirs p f = foldl (\<lambda>f q. case map_of f q of None \<Rightarrow> AList.update q Dir f | Some _ \<Rightarrow> f)
                   f (path_prefixes p)"

definition is_file :: "world \<Rightarrow> path \<Rightarrow> bool" where
  "is_file w p = (case look w p of Some (File _) \<Rightarrow> True | _ \<Rightarrow> False)"

definition mkdir_all :: "path \<Rightarrow> unit actE" where
  "mkdir_all p = State (\<lambda>w.
     if list_ex (is_file w) (path_prefixes p) \<or> p \<in> set (faults w) then (Inl IOError, w)
     else (Inr (), w\<lparr>fs := mk_dirs p (fs w)\<rparr>))"

definition write_file :: "path \<Rightarrow> doc \<Rightarrow> unit actE" where
  "write_file p d = State (\<lambda>w.
     if look w (butlast p) \<noteq> Some Dir then (Inl NotExist, w)
     else if look w p = Some Dir \<or> p \<in> set (faults w) then (Inl IOError, w)
     else (Inr (), put_node p (File d) w))"

definition writeJSON :: "path \<Rightarrow> doc \<Rightarrow> unit actE" where
  "writeJSON p d = bindE (mkdir_all (butlast p)) (\<lambda>_. write_file p d)"

definition read_file :: "path \<Rightarrow> doc actE" where
  "read_file p = State (\<lambda>w. case look w p of
       None \<Rightarrow> (Inl NotExist, w)
     | Some Dir \<Rightarrow> (Inl IOError, w)
     | Some (File d) \<Rightarrow> (Inr d, w))"

definition read_text :: "path \<Rightarrow> string actE" where
  "read_text p = bindE (read_file p) (\<lambda>d. State (\<lambda>w. (Inr (doc_text w d), w)))"

definition readJSON :: "doc_kind \<Rightarrow> (doc \<Rightarrow> 'a option) \<Rightarrow> path \<Rightarrow> 'a actE" where
  "readJSON k prj p = bindE (read_file p) (\<lambda>d. State (\<lambda>w.
     case Option.bind (decode w k d) prj of None \<Rightarrow> (Inl BadJSON, w) | Some x \<Rightarrow> (Inr x, w)))"

text \<open>\<open>os.OpenFile(O_APPEND|O_CREATE|O_WRONLY)\<close> followed by a write.\<close>

definition append_file :: "path \<Rightarrow> string \<Rightarrow> unit actE" where
  "append_file p s = State (\<lambda>w.
     if look w (butlast p) \<noteq> Some Dir then (Inl NotExist, w)
     else if p \<in> set (faults w) then (Inl IOError, w)
     else (case look w p of
         Some Dir \<Rightarrow> (Inl IOError, w)
       | None \<Rightarrow> (Inr (), put_node p (File (DText s)) w)
       | Some (File d) \<Rightarrow> (Inr (), put_node p (File (DText (doc_text w d @ s))) w)))"

definition exists_path :: "path \<Rightarrow> bool act" where
  "exists_path p = asks (\<lambda>w. look w p \<noteq> None)"

definition is_under :: "path \<Rightarrow> path \<Rightarrow> bool" where
  "is_under p q \<longleftrightarrow> take (length p) q = p"

definition remove_all :: "path \<Rightarrow> unit actE" where
  "remove_all p = State (\<lambda>w.
     if p \<in> set (faults w) then (Inl IOError, w)
     else (Inr (), w\<lparr>fs := filter (\<lambda>(q, _). \<not> is_under p q) (fs w)\<rparr>))"

text \<open>\<open>os.Remove\<close>: a file or an empty directory.\<close>

definition children :: "world \<Rightarrow> path \<Rightarrow> string list" where
  "children w p =
     sort (remdups [last q. (q, _) \<leftarrow> fs w, q \<noteq> [], butlast q = p])"

definition remove_file :: "path \<Rightarrow> unit actE" where
  "remove_file p = State (\<lambda>w.
     case look w p of
       None \<Rightarrow> (Inl NotExist, w)
     | Some n \<Rightarrow>
         if p \<in> set (faults w) \<or> (n = Dir \<and> children w p \<noteq> []) then (Inl IOError, w)
         else (Inr (), w\<lparr>fs := AList.delete p (fs w)\<rparr>))"

text \<open>\<open>os.ReadDir\<close>: the names in byte order, with whether each is a directory.\<close>

definition read_dir :: "path \<Rightarrow> (string \<times> bool) list actE" where
  "read_dir p = State (\<lambda>w. case look w p of
       None \<Rightarrow> (Inl NotExist, w)
     | Some (File _) \<Rightarrow> (Inl IOError, w)
     | Some Dir \<Rightarrow> (Inr (map (\<lambda>n. (n, look w (p @ [n]) = Some Dir)) (children w p)), w))"

section \<open>How the operations run\<close>

lemma run_nowUTC [run]: "run_state nowUTC w = (clock_at w (ticks w), w\<lparr>ticks := Suc (ticks w)\<rparr>)"
  by (simp add: nowUTC_def)

lemma run_uuid_new [run]: "run_state uuid_new w = (uuid_at w (uuids w), w\<lparr>uuids := Suc (uuids w)\<rparr>)"
  by (simp add: uuid_new_def)

lemma run_go_job [run]: "run_state (go_job j) w = ((), w\<lparr>spawned := spawned w @ [j]\<rparr>)"
  by (simp add: go_job_def)

lemma run_asks [run]: "run_state (asks f) w = (f w, w)"
  by (simp add: asks_def)

lemma run_exists_path [run]: "run_state (exists_path p) w = (look w p \<noteq> None, w)"
  by (simp add: exists_path_def run_asks)

lemma run_read_file:
  "run_state (read_file p) w = ((case look w p of None \<Rightarrow> Inl NotExist | Some Dir \<Rightarrow> Inl IOError
     | Some (File d) \<Rightarrow> Inr d), w)"
  by (simp add: read_file_def split: option.splits node.splits)

lemma run_read_file_File [run]:
  "look w p = Some (File d) \<Longrightarrow> run_state (read_file p) w = (Inr d, w)"
  by (simp add: run_read_file)

lemma snd_read_file [simp]: "snd (run_state (read_file p) w) = w"
  by (simp add: run_read_file)

lemma snd_readJSON [simp]: "snd (run_state (readJSON k prj p) w) = w"
  by (simp add: readJSON_def run_bindE run_read_file split: option.splits node.splits sum.splits)

lemma snd_read_text [simp]: "snd (run_state (read_text p) w) = w"
  by (simp add: read_text_def run_bindE run_read_file split: option.splits node.splits sum.splits)

lemma run_readJSON_File:
  "look w p = Some (File d) \<Longrightarrow> doc_kind_of d = Some k \<Longrightarrow> prj d = Some x \<Longrightarrow>
   run_state (readJSON k prj p) w = (Inr x, w)"
  by (simp add: readJSON_def run_bindE run_read_file decode_def)

lemma run_readJSON_None:
  "look w p = None \<Longrightarrow> run_state (readJSON k prj p) w = (Inl NotExist, w)"
  by (simp add: readJSON_def run_bindE run_read_file)

lemma snd_read_dir [simp]: "snd (run_state (read_dir p) w) = w"
  by (simp add: read_dir_def split: option.splits node.splits)

lemma run_read_dir_Dir [run]:
  "look w p = Some Dir \<Longrightarrow> run_state (read_dir p) w =
     (Inr (map (\<lambda>n. (n, look w (p @ [n]) = Some Dir)) (children w p)), w)"
  by (simp add: read_dir_def)

section \<open>Paths\<close>

lemma path_prefixes_Nil [simp]: "path_prefixes [] = []"
  by (simp add: path_prefixes_def)

lemma set_path_prefixes: "set (path_prefixes p) = {q. q \<noteq> [] \<and> (\<exists>r. p = q @ r)}"
proof (intro set_eqI iffI)
  fix q assume "q \<in> set (path_prefixes p)"
  then obtain n where "1 \<le> n" "n \<le> length p" "q = take n p"
    by (auto simp: path_prefixes_def)
  then have "q \<noteq> []" "p = q @ drop n p" by auto
  then show "q \<in> {q. q \<noteq> [] \<and> (\<exists>r. p = q @ r)}" by blast
next
  fix q assume "q \<in> {q. q \<noteq> [] \<and> (\<exists>r. p = q @ r)}"
  then obtain r where "q \<noteq> []" "p = q @ r" by blast
  then have "q = take (length q) p" "1 \<le> length q" "length q < Suc (length p)"
    by (simp_all add: Suc_le_eq)
  then show "q \<in> set (path_prefixes p)"
    unfolding path_prefixes_def by (metis atLeastLessThan_iff imageI set_map set_upt)
qed

lemma path_prefixes_snoc: "path_prefixes (p @ [x]) = path_prefixes p @ [p @ [x]]"
  by (auto simp: path_prefixes_def)

lemma is_under_iff: "is_under p q \<longleftrightarrow> (\<exists>r. q = p @ r)"
  unfolding is_under_def by (metis append_eq_conv_conj append_take_drop_id)

lemma is_under_refl [simp]: "is_under p p"
  by (simp add: is_under_def)

lemma is_under_append [simp]: "is_under p (p @ r)"
  by (simp add: is_under_def)

lemma is_under_trans: "is_under p q \<Longrightarrow> is_under q r \<Longrightarrow> is_under p r"
  by (auto simp: is_under_iff)

lemma split_on_plain: "plain s \<Longrightarrow> split_on (CHR ''/'') s = [s]"
  by (simp add: plain_def split_on_id)

lemma path_join_Nil [simp]: "path_join base [] = base"
  by (simp add: path_join_def)

lemma path_join_Cons: "path_join base (e # es) = path_join (foldl clean_step base (split_on (CHR ''/'') e)) es"
  by (simp add: path_join_def)

lemma path_join_plain_Cons [simp]: "plain e \<Longrightarrow> path_join base (e # es) = path_join (base @ [e]) es"
  by (simp add: path_join_Cons split_on_plain) (simp add: clean_step_def plain_def)

lemma path_join_plain: "list_all plain es \<Longrightarrow> path_join base es = base @ es"
  by (induction es arbitrary: base) auto

lemma plain_append_suffix:
  assumes "plain s" and "e \<noteq> []" and "CHR ''/'' \<notin> set e" and "CHR ''.'' \<noteq> last e"
  shows "plain (s @ e)"
  using assms unfolding plain_def
  by (metis Un_iff append_is_Nil_conv last.simps last_appendR list.discI set_append)

section \<open>Reading back what was written\<close>

lemma look_Nil [simp]: "look w [] = Some Dir"
  by (simp add: look_def)

lemma look_put_node: "p \<noteq> [] \<Longrightarrow> look (put_node p n w) q = (if q = p then Some n else look w q)"
  by (simp add: look_def put_node_def map_of_update)

lemma look_ticks [simp]: "look (w\<lparr>ticks := n\<rparr>) p = look w p"
  by (simp add: look_def)

lemma look_spawned [simp]: "look (w\<lparr>spawned := n\<rparr>) p = look w p"
  by (simp add: look_def)

lemma look_faults [simp]: "look (w\<lparr>faults := n\<rparr>) p = look w p"
  by (simp add: look_def)

lemma look_uuids [simp]: "look (w\<lparr>uuids := n\<rparr>) p = look w p"
  by (simp add: look_def)

lemma put_node_sel [simp]:
  "data_dir (put_node p n w) = data_dir w" "tenant (put_node p n w) = tenant w"
  "getenv (put_node p n w) = getenv w" "clock_at (put_node p n w) = clock_at w"
  "ticks (put_node p n w) = ticks w" "uuid_at (put_node p n w) = uuid_at w"
  "uuids (put_node p n w) = uuids w" "faults (put_node p n w) = faults w"
  "marshal (put_node p n w) = marshal w" "unmarshal (put_node p n w) = unmarshal w"
  "spawned (put_node p n w) = spawned w" "links (put_node p n w) = links w"
  by (simp_all add: put_node_def)

lemma map_of_mk_dirs_aux:
  "map_of (foldl (\<lambda>f q. case map_of f q of None \<Rightarrow> AList.update q Dir f | Some _ \<Rightarrow> f) f ps) q =
     (if q \<in> set ps \<and> map_of f q = None then Some Dir else map_of f q)"
  by (induction ps arbitrary: f) (auto simp: map_of_update split: option.splits)

lemma map_of_mk_dirs:
  "map_of (mk_dirs p f) q =
     (if q \<in> set (path_prefixes p) \<and> map_of f q = None then Some Dir else map_of f q)"
  unfolding mk_dirs_def by (rule map_of_mk_dirs_aux)

lemma mk_dirs_id_aux:
  "\<forall>q\<in>set ps. map_of f q \<noteq> None \<Longrightarrow>
   foldl (\<lambda>f q. case map_of f q of None \<Rightarrow> AList.update q Dir f | Some _ \<Rightarrow> f) f ps = f"
  by (induction ps) auto

definition dir_ok :: "world \<Rightarrow> path \<Rightarrow> bool" where
  "dir_ok w p = list_all (\<lambda>q. look w q = Some Dir) (path_prefixes p)"

lemma dir_ok_Nil [simp]: "dir_ok w []"
  by (simp add: dir_ok_def)

lemma dir_ok_iff: "dir_ok w p \<longleftrightarrow> (\<forall>q r. p = q @ r \<longrightarrow> look w q = Some Dir)"
  by (auto simp: dir_ok_def list_all_iff set_path_prefixes) (metis look_Nil)

lemma dir_ok_look: "dir_ok w p \<Longrightarrow> look w p = Some Dir"
  by (simp add: dir_ok_iff)

lemma dir_ok_append: "dir_ok w (p @ q) \<Longrightarrow> dir_ok w p"
  by (simp add: dir_ok_iff)

lemma dir_ok_snoc: "dir_ok w (p @ [x]) \<longleftrightarrow> dir_ok w p \<and> look w (p @ [x]) = Some Dir"
  by (simp add: dir_ok_def path_prefixes_snoc)

lemma dir_ok_cong: "(\<And>q. look w' q = look w q) \<Longrightarrow> dir_ok w' p = dir_ok w p"
  by (simp add: dir_ok_def)

lemma dir_ok_ticks [simp]: "dir_ok (w\<lparr>ticks := n\<rparr>) p = dir_ok w p"
  by (rule dir_ok_cong) simp

lemma dir_ok_spawned [simp]: "dir_ok (w\<lparr>spawned := n\<rparr>) p = dir_ok w p"
  by (rule dir_ok_cong) simp

lemma dir_ok_uuids [simp]: "dir_ok (w\<lparr>uuids := n\<rparr>) p = dir_ok w p"
  by (rule dir_ok_cong) simp

lemma dir_ok_put_file:
  assumes "dir_ok w p" and "look w q \<noteq> Some Dir"
  shows "dir_ok (put_node q n w) p"
proof -
  have "q \<noteq> []" using assms(2) by auto
  then show ?thesis using assms by (fastforce simp: dir_ok_iff look_put_node)
qed

lemma run_mkdir_all_ok:
  assumes "dir_ok w p" and "p \<notin> set (faults w)"
  shows "run_state (mkdir_all p) w = (Inr (), w)"
proof -
  have "\<not> list_ex (is_file w) (path_prefixes p)"
    using assms(1) by (auto simp: dir_ok_def list_all_iff list_ex_iff is_file_def)
  moreover have "mk_dirs p (fs w) = fs w"
    unfolding mk_dirs_def
    by (rule mk_dirs_id_aux)
       (use assms(1) in \<open>auto simp: dir_ok_def list_all_iff look_def set_path_prefixes\<close>)
  ultimately show ?thesis using assms(2) by (simp add: mkdir_all_def)
qed

lemma run_write_file_ok:
  assumes "look w (butlast p) = Some Dir" and "look w p \<noteq> Some Dir" and "p \<notin> set (faults w)"
  shows "run_state (write_file p d) w = (Inr (), put_node p (File d) w)"
  using assms by (simp add: write_file_def)

lemma run_writeJSON_ok:
  assumes "dir_ok w (butlast p)" and "look w p \<noteq> Some Dir" and "faults w = []"
  shows "run_state (writeJSON p d) w = (Inr (), put_node p (File d) w)"
  using assms
  by (simp add: writeJSON_def run_bindE run_mkdir_all_ok run_write_file_ok dir_ok_look)

lemma run_writeJSON_fault:
  assumes "dir_ok w (butlast p)" and "butlast p \<notin> set (faults w)" and "p \<in> set (faults w)"
  shows "run_state (writeJSON p d) w = (Inl IOError, w)"
  using assms
  by (simp add: writeJSON_def run_bindE run_mkdir_all_ok write_file_def dir_ok_look)

section \<open>Frames\<close>

text \<open>The parameters of the world, which no operation of the program changes.\<close>

definition same_env :: "world \<Rightarrow> world \<Rightarrow> bool" where
  "same_env w w' \<longleftrightarrow> data_dir w' = data_dir w \<and> tenant w' = tenant w \<and> getenv w' = getenv w \<and>
     clock_at w' = clock_at w \<and> uuid_at w' = uuid_at w \<and> faults w' = faults w \<and>
     marshal w' = marshal w \<and> unmarshal w' = unmarshal w"

text \<open>\<open>touches p w w'\<close>: outside the subtree at \<open>p\<close> nothing changed, but for missing
  ancestors of \<open>p\<close> that are now directories.\<close>

definition touches :: "path \<Rightarrow> world \<Rightarrow> world \<Rightarrow> bool" where
  "touches p w w' \<longleftrightarrow> same_env w w' \<and>
     (\<forall>q. \<not> is_under p q \<longrightarrow>
        look w' q = look w q \<or> (is_under q p \<and> look w q = None \<and> look w' q = Some Dir))"

lemma same_env_refl [simp]: "same_env w w"
  by (simp add: same_env_def)

lemma same_env_trans: "same_env w w' \<Longrightarrow> same_env w' w'' \<Longrightarrow> same_env w w''"
  by (simp add: same_env_def)

lemma touches_refl [simp]: "touches p w w"
  by (simp add: touches_def)

lemma touches_trans:
  assumes "touches p w w'" and "touches p w' w''"
  shows "touches p w w''"
  using assms unfolding touches_def by (metis same_env_trans option.distinct(1))

interpretation tch: frame_rel "touches p" for p
  by unfold_locales (auto intro: touches_trans)

interpretation env: frame_rel same_env
  by unfold_locales (auto intro: same_env_trans)

lemma keeps_asks [frame]: "keeps (touches p) (asks f)"
  by (simp add: keeps_def run)

lemma keeps_nowUTC [frame]: "keeps (touches p) nowUTC"
  by (simp add: keeps_def run touches_def same_env_def)

lemma keeps_go_job [frame]: "keeps (touches p) (go_job j)"
  by (simp add: keeps_def run touches_def same_env_def)

lemma keeps_uuid_new [frame]: "keeps (touches p) uuid_new"
  by (simp add: keeps_def run touches_def same_env_def)

lemma keeps_exists_path [frame]: "keeps (touches p) (exists_path q)"
  by (simp add: keeps_def run)

lemma keeps_reads [frame]:
  "keeps (touches p) (read_file q)" "keeps (touches p) (readJSON k prj q)"
  "keeps (touches p) (read_text q)" "keeps (touches p) (read_dir q)"
  by (simp_all add: keeps_def)

lemma touches_put_node:
  assumes "is_under p q" and "q \<noteq> []"
  shows "touches p w (put_node q n w)"
  using assms by (auto simp: touches_def same_env_def look_put_node)

lemma keeps_write_file [frame]: "is_under p q \<Longrightarrow> keeps (touches p) (write_file q d)"
  by (auto simp: keeps_def write_file_def intro!: touches_put_node)

lemma keeps_append_file [frame]: "is_under p q \<Longrightarrow> keeps (touches p) (append_file q s)"
  by (cases "q = []")
     (auto simp: keeps_def append_file_def intro!: touches_put_node split: option.splits node.splits)

lemma keeps_mkdir_all [frame]:
  assumes "is_under p q"
  shows "keeps (touches p) (mkdir_all q)"
proof -
  have "touches p w (w\<lparr>fs := mk_dirs q (fs w)\<rparr>)" for w
    using assms
    by (auto simp: touches_def same_env_def look_def map_of_mk_dirs set_path_prefixes is_under_iff
        append_eq_append_conv2)
  then show ?thesis by (auto simp: keeps_def mkdir_all_def)
qed

lemma map_of_filter_path:
  "map_of (filter (\<lambda>(q, _). P q) al) k = (if P k then map_of al k else None)"
  by (induction al) auto

lemma keeps_remove_all [frame]:
  assumes "is_under p q"
  shows "keeps (touches p) (remove_all q)"
proof -
  have "touches p w (w\<lparr>fs := filter (\<lambda>(r, _). \<not> is_under q r) (fs w)\<rparr>)" for w
    using assms is_under_trans
    by (auto simp: touches_def same_env_def look_def map_of_filter_path)
  then show ?thesis by (auto simp: keeps_def remove_all_def)
qed

lemma keeps_remove_file [frame]: "is_under p q \<Longrightarrow> keeps (touches p) (remove_file q)"
  by (auto simp: keeps_def remove_file_def touches_def same_env_def look_def map_of_delete
      split: option.splits)

lemma keeps_writeJSON [frame]:
  assumes "is_under p (butlast q)"
  shows "keeps (touches p) (writeJSON q d)"
proof -
  have "is_under p q"
    using assms by (metis append_butlast_last_id butlast.simps(1) is_under_append is_under_trans)
  then show ?thesis
    unfolding writeJSON_def by (intro tch.keeps_bindE frame assms)
qed

section \<open>The file tree stays a tree\<close>

definition fs_wf :: "world \<Rightarrow> bool" where
  "fs_wf w = list_all (\<lambda>q. look w (butlast q) = Some Dir) (map fst (fs w))"

lemma fs_wf_iff: "fs_wf w \<longleftrightarrow> (\<forall>q. q \<noteq> [] \<and> look w q \<noteq> None \<longrightarrow> look w (butlast q) = Some Dir)"
proof -
  define K where "K = set (map fst (fs w))"
  have K: "q \<noteq> [] \<Longrightarrow> look w q \<noteq> None \<longleftrightarrow> q \<in> K" for q
    by (auto simp: K_def look_def map_of_eq_None_iff)
  have "fs_wf w \<longleftrightarrow> (\<forall>q\<in>K. look w (butlast q) = Some Dir)"
    by (simp add: fs_wf_def list_all_iff K_def)
  also have "\<dots> \<longleftrightarrow> (\<forall>q\<in>K. q \<noteq> [] \<longrightarrow> look w (butlast q) = Some Dir)"
    by (metis butlast.simps(1) look_Nil)
  finally show ?thesis using K by blast
qed

lemma fs_wf_parent: "fs_wf w \<Longrightarrow> look w (q @ [x]) = Some n \<Longrightarrow> look w q = Some Dir"
  unfolding fs_wf_iff by (metis butlast_snoc option.distinct(1) snoc_eq_iff_butlast)

lemma fs_wf_dir_ok: "fs_wf w \<Longrightarrow> look w q = Some Dir \<Longrightarrow> dir_ok w q"
  by (induction q rule: rev_induct) (auto simp: dir_ok_snoc dest: fs_wf_parent)

lemma fs_wf_no_child: "fs_wf w \<Longrightarrow> look w q \<noteq> Some Dir \<Longrightarrow> look w (q @ [x]) = None"
  using fs_wf_parent by (metis not_None_eq)

lemma set_children: "x \<in> set (children w p) \<longleftrightarrow> look w (p @ [x]) \<noteq> None"
proof -
  have "look w (p @ [x]) \<noteq> None \<longleftrightarrow> p @ [x] \<in> fst ` set (fs w)"
    by (simp add: look_def map_of_eq_None_iff)
  also have "\<dots> \<longleftrightarrow> x \<in> set (children w p)"
  proof -
    have "set (children w p) = last ` {q \<in> fst ` set (fs w). q \<noteq> [] \<and> butlast q = p}"
      unfolding children_def by force
    then have "x \<in> set (children w p) \<longleftrightarrow> (\<exists>q. q \<in> fst ` set (fs w) \<and> q \<noteq> [] \<and> butlast q = p \<and> x = last q)"
      by auto
    then show ?thesis by (metis append_butlast_last_id butlast_snoc last_snoc snoc_eq_iff_butlast)
  qed
  finally show ?thesis by simp
qed

definition wf_rel :: "world \<Rightarrow> world \<Rightarrow> bool" where
  "wf_rel w w' \<longleftrightarrow> (fs_wf w \<longrightarrow> fs_wf w')"

interpretation wfr: frame_rel wf_rel
  by unfold_locales (auto simp: wf_rel_def)

lemma fs_wf_cong: "fs w' = fs w \<Longrightarrow> fs_wf w' = fs_wf w"
  by (simp add: fs_wf_def look_def)

lemma fs_wf_put_file:
  assumes "fs_wf w" and "look w (butlast q) = Some Dir" and "look w q \<noteq> Some Dir"
  shows "fs_wf (put_node q (File d) w)"
proof -
  have "q \<noteq> []" using assms(3) by auto
  then show ?thesis
    using assms unfolding fs_wf_iff by (simp add: look_put_node) (metis not_None_eq)
qed

lemma wf_nowUTC [frame]: "keeps wf_rel nowUTC"
  by (simp add: keeps_def run wf_rel_def fs_wf_def look_def)

lemma wf_go_job [frame]: "keeps wf_rel (go_job j)"
  by (simp add: keeps_def run wf_rel_def fs_wf_def look_def)

lemma wf_uuid_new [frame]: "keeps wf_rel uuid_new"
  by (simp add: keeps_def run wf_rel_def fs_wf_def look_def)

lemma wf_reads [frame]:
  "keeps wf_rel (asks f)" "keeps wf_rel (exists_path q)"
  "keeps wf_rel (read_file q)" "keeps wf_rel (readJSON k prj q)"
  "keeps wf_rel (read_text q)" "keeps wf_rel (read_dir q)"
  by (simp_all add: keeps_def run wf_rel_def)

lemma wf_write_file [frame]: "keeps wf_rel (write_file q d)"
  by (auto simp: keeps_def write_file_def wf_rel_def fs_wf_put_file)

lemma wf_append_file [frame]: "keeps wf_rel (append_file q s)"
  by (auto simp: keeps_def append_file_def wf_rel_def fs_wf_put_file split: option.splits node.splits)

lemma wf_mkdir_all [frame]: "keeps wf_rel (mkdir_all p)"
proof -
  have "fs_wf (w\<lparr>fs := mk_dirs p (fs w)\<rparr>)"
    if wf: "fs_wf w" and nofile: "\<not> list_ex (is_file w) (path_prefixes p)" for w
    unfolding fs_wf_iff
  proof (intro allI impI, elim conjE)
    fix q assume q: "q \<noteq> []" "look (w\<lparr>fs := mk_dirs p (fs w)\<rparr>) q \<noteq> None"
    show "look (w\<lparr>fs := mk_dirs p (fs w)\<rparr>) (butlast q) = Some Dir"
    proof (cases "look w q = None")
      case True
      then have "q \<in> set (path_prefixes p)"
        using q by (auto simp: look_def map_of_mk_dirs split: if_splits)
      then obtain r where "p = q @ r" by (auto simp: set_path_prefixes)
      then have r: "p = butlast q @ last q # r" using q(1)
        by (metis append.assoc append_Cons append_Nil append_butlast_last_id)
      show ?thesis
      proof (cases "butlast q = []")
        case False
        then have pre: "butlast q \<in> set (path_prefixes p)" using r by (auto simp: set_path_prefixes)
        then have "\<not> is_file w (butlast q)" using nofile by (auto simp: list_ex_iff)
        then show ?thesis
          using False pre by (auto simp: look_def map_of_mk_dirs is_file_def split: option.splits node.splits)
      qed simp
    next
      case False
      then have "look w (butlast q) = Some Dir" using wf q unfolding fs_wf_iff by blast
      then show ?thesis by (auto simp: look_def map_of_mk_dirs)
    qed
  qed
  then show ?thesis by (auto simp: keeps_def mkdir_all_def wf_rel_def)
qed

lemma wf_remove_all [frame]: "keeps wf_rel (remove_all p)"
proof -
  have "fs_wf (w\<lparr>fs := filter (\<lambda>(q, _). \<not> is_under p q) (fs w)\<rparr>)" if "fs_wf w" for w
    unfolding fs_wf_iff
  proof (intro allI impI, elim conjE)
    fix q assume q: "q \<noteq> []" "look (w\<lparr>fs := filter (\<lambda>(q, _). \<not> is_under p q) (fs w)\<rparr>) q \<noteq> None"
    then have "\<not> is_under p q" "look w q \<noteq> None"
      by (auto simp: look_def map_of_filter_path split: if_splits)
    moreover have "\<not> is_under p (butlast q)"
      using \<open>\<not> is_under p q\<close> q(1) by (metis append_butlast_last_id is_under_append is_under_trans)
    moreover have "look w (butlast q) = Some Dir"
      using that q(1) \<open>look w q \<noteq> None\<close> unfolding fs_wf_iff by blast
    ultimately show "look (w\<lparr>fs := filter (\<lambda>(q, _). \<not> is_under p q) (fs w)\<rparr>) (butlast q) = Some Dir"
      by (cases "butlast q = []") (simp_all add: look_def map_of_filter_path)
  qed
  then show ?thesis by (auto simp: keeps_def remove_all_def wf_rel_def)
qed

lemma wf_remove_file [frame]: "keeps wf_rel (remove_file p)"
proof -
  have "fs_wf (w\<lparr>fs := AList.delete p (fs w)\<rparr>)"
    if wf: "fs_wf w" and n: "look w p = Some n" "n = Dir \<longrightarrow> children w p = []" for w n
    unfolding fs_wf_iff
  proof (intro allI impI, elim conjE)
    fix q assume q: "q \<noteq> []" "look (w\<lparr>fs := AList.delete p (fs w)\<rparr>) q \<noteq> None"
    then have "look w q \<noteq> None" by (auto simp: look_def map_of_delete split: if_splits)
    then have par: "look w (butlast q) = Some Dir" using wf q(1) unfolding fs_wf_iff by blast
    have "butlast q \<noteq> p \<or> p = []"
    proof (rule ccontr)
      assume "\<not> (butlast q \<noteq> p \<or> p = [])"
      then have "children w p = []" "p @ [last q] = q"
        using n par q(1) by auto
      then have "last q \<in> set (children w p)"
        using \<open>look w q \<noteq> None\<close> by (metis set_children)
      with \<open>children w p = []\<close> show False by simp
    qed
    then show "look (w\<lparr>fs := AList.delete p (fs w)\<rparr>) (butlast q) = Some Dir"
      using par by (auto simp: look_def map_of_delete)
  qed
  then show ?thesis
    by (fastforce simp: keeps_def remove_file_def wf_rel_def split: option.splits)
qed

lemma wf_writeJSON [frame]: "keeps wf_rel (writeJSON q d)"
  unfolding writeJSON_def by (intro wfr.keeps_bindE frame)

lemma wf_run:
  "keeps wf_rel m \<Longrightarrow> fs_wf w \<Longrightarrow> run_state m w = (r, w') \<Longrightarrow> fs_wf w'"
  unfolding keeps_def wf_rel_def by (metis snd_conv)

text \<open>Making one new directory in an existing one.\<close>

lemma run_mkdir_new:
  assumes "fs_wf w" and "faults w = []" and "look w p = Some Dir" and "look w (p @ [x]) = None"
  shows "run_state (mkdir_all (p @ [x])) w = (Inr (), put_node (p @ [x]) Dir w)"
proof -
  have ok: "dir_ok w p" using assms by (simp add: fs_wf_dir_ok)
  then have ids: "foldl (\<lambda>f q. case map_of f q of None \<Rightarrow> AList.update q Dir f | Some _ \<Rightarrow> f)
      (fs w) (path_prefixes p) = fs w"
    by (intro mk_dirs_id_aux) (auto simp: dir_ok_def list_all_iff look_def set_path_prefixes)
  have "map_of (fs w) (p @ [x]) = None" using assms(4) by (simp add: look_def)
  then have "mk_dirs (p @ [x]) (fs w) = AList.update (p @ [x]) Dir (fs w)"
    by (simp add: mk_dirs_def path_prefixes_snoc ids)
  moreover have "\<not> list_ex (is_file w) (path_prefixes (p @ [x]))"
    using ok assms(4)
    by (auto simp: path_prefixes_snoc list_ex_iff is_file_def dir_ok_def list_all_iff)
  ultimately show ?thesis using assms(2) by (simp add: mkdir_all_def put_node_def)
qed

end
