(* ===== verification/Tenant_Scope.thy ===== *)
theory Tenant_Scope
  imports File_Store
begin

text \<open>
  Tenant scoping (\<open>tenant_scope.go\<close>, \<open>job_actor.go\<close>).  The tenant library is not part
  of the repository: its switch \<open>AuthEnforced\<close> and its sentinel \<open>All\<close> are the fields of
  \<open>tenant_cfg\<close>, and what it and the auth library read from a request is a field of
  \<open>request\<close>.
\<close>

record claims =
  cl_personal :: bool
  cl_orgId :: string
  cl_username :: string

record request =
  rq_claims :: "claims option"
  rq_ctxOrg :: string
  rq_writeTenant :: "string \<Rightarrow> string"
  rq_queryOrg :: string
  rq_projectHeader :: string
  rq_userHeader :: string

definition jobOrgFromJWT :: "request \<Rightarrow> string" where
  "jobOrgFromJWT r = (case rq_claims r of
       None \<Rightarrow> []
     | Some c \<Rightarrow> if cl_personal c then [] else
         if trim_space (cl_orgId c) \<noteq> [] then trim_space (cl_orgId c) else [])"

definition resolveRequestOrg :: "tenant_cfg \<Rightarrow> request \<Rightarrow> string" where
  "resolveRequestOrg tc r =
     (if (case rq_claims r of Some c \<Rightarrow> cl_personal c | None \<Rightarrow> False) then []
      else if jobOrgFromJWT r \<noteq> [] then jobOrgFromJWT r
      else
        let q = trim_space (rq_queryOrg r);
            ctxOrg = (if rq_ctxOrg r = [] \<and> q \<noteq> [] \<and> \<not> (auth_enforced tc \<and> q = tenant_all tc)
                      then q else rq_ctxOrg r)
        in if auth_enforced tc then rq_writeTenant r ctxOrg
           else if ctxOrg = [] \<or> ctxOrg = tenant_all tc then []
           else ctxOrg)"

definition projectOrgID :: "tenant_cfg \<Rightarrow> project \<Rightarrow> string" where
  "projectOrgID tc p = (let org = trim_space (p_organizationId p) in if org = tenant_all tc then [] else org)"

definition projectInOrg :: "tenant_cfg \<Rightarrow> project \<Rightarrow> string \<Rightarrow> bool" where
  "projectInOrg tc p org0 =
     (let org1 = trim_space org0;
          org = (if org1 = tenant_all tc then [] else org1)
      in if org = [] then (if \<not> auth_enforced tc then True else projectOrgID tc p = [])
         else projectOrgID tc p = org)"

definition normalizeWriteOrg :: "tenant_cfg \<Rightarrow> string \<Rightarrow> string" where
  "normalizeWriteOrg tc org0 =
     (let org = trim_space org0 in if org = [] \<or> org = tenant_all tc then [] else org)"

definition concreteProjectHeader :: "tenant_cfg \<Rightarrow> string \<Rightarrow> bool" where
  "concreteProjectHeader tc h0 =
     (let h = trim_space h0 in
      if h = [] \<or> equal_fold h (tenant_all tc) then False
      else if h = ''default-project'' then False
      else True)"

text \<open>\<open>enforcePathProjectHeader\<close>: whether the request goes on, and the header it carries
  afterwards.\<close>

definition enforcePathProjectHeader :: "tenant_cfg \<Rightarrow> request \<Rightarrow> string \<Rightarrow> bool \<times> request" where
  "enforcePathProjectHeader tc r projectID =
     (let h = trim_space (rq_projectHeader r) in
      if concreteProjectHeader tc h \<and> h \<noteq> projectID then (False, r)
      else (True, r\<lparr>rq_projectHeader := projectID\<rparr>))"

definition actorFromRequest :: "request \<Rightarrow> string" where
  "actorFromRequest r =
     (if trim_space (rq_userHeader r) \<noteq> [] then trim_space (rq_userHeader r)
      else (case rq_claims r of Some c \<Rightarrow> trim_space (cl_username c) | None \<Rightarrow> []))"

definition jobOriginFromRequest :: "tenant_cfg \<Rightarrow> request \<Rightarrow> model_override option \<Rightarrow> job_origin" where
  "jobOriginFromRequest tc r ov = zero_origin\<lparr>
     o_organizationId := resolveRequestOrg tc r,
     o_actorUsername := actorFromRequest r,
     o_modelOverride := ov\<rparr>"

section \<open>Laws\<close>

lemma normalizeWriteOrg_idem: "normalizeWriteOrg tc (normalizeWriteOrg tc o1) = normalizeWriteOrg tc o1"
  by (simp add: normalizeWriteOrg_def Let_def)

text \<open>A row written with a normalised organization belongs to exactly that organization.\<close>

lemma projectOrgID_normalized:
  "p_organizationId p = normalizeWriteOrg tc org \<Longrightarrow> projectOrgID tc p = normalizeWriteOrg tc org"
  by (auto simp: projectOrgID_def normalizeWriteOrg_def Let_def)

lemma projectInOrg_concrete:
  assumes "normalizeWriteOrg tc org \<noteq> []"
  shows "projectInOrg tc p org \<longleftrightarrow> projectOrgID tc p = normalizeWriteOrg tc org"
  using assms by (auto simp: projectInOrg_def normalizeWriteOrg_def Let_def split: if_splits)

lemma projectInOrg_empty_auth:
  assumes "normalizeWriteOrg tc org = []" and "auth_enforced tc"
  shows "projectInOrg tc p org \<longleftrightarrow> projectOrgID tc p = []"
  using assms by (auto simp: projectInOrg_def normalizeWriteOrg_def Let_def split: if_splits)

text \<open>Under enforcement an organization sees exactly the rows of that organization.\<close>

lemma projectInOrg_auth:
  "auth_enforced tc \<Longrightarrow> projectInOrg tc p org \<longleftrightarrow> projectOrgID tc p = normalizeWriteOrg tc org"
  by (cases "normalizeWriteOrg tc org = []") (simp_all add: projectInOrg_concrete projectInOrg_empty_auth)

lemma jobOrgFromJWT_personal:
  "rq_claims r = Some c \<Longrightarrow> cl_personal c \<Longrightarrow> jobOrgFromJWT r = []"
  by (simp add: jobOrgFromJWT_def)

end
