(* ===== verification/Registry.thy ===== *)
theory Registry
  imports Tenant_Scope
begin

text \<open>
  The project registry and the per-project layout (\<open>store.go\<close>: \<open>NewStore\<close>,
  \<open>ListProjects\<close> to \<open>withProject\<close>).  The registry is one document,
  \<open>projects.json\<close>; a project owns the directory \<open>projects/<id>\<close>.  The store's lock
  makes each operation one step.
\<close>

section \<open>Paths of the store\<close>

definition registryPath :: "world \<Rightarrow> path" where
  "registryPath w = data_dir w @ [''projects.json'']"

definition projectDir :: "world \<Rightarrow> project \<Rightarrow> path" where
  "projectDir w p = path_join (data_dir w) [''projects'', p_id p]"

fun prj_projects :: "doc \<Rightarrow> project list option" where
  "prj_projects (DProjects ps) = Some ps"
| "prj_projects _ = None"

definition read_registry :: "project list actE" where
  "read_registry = do { path \<leftarrow> asks registryPath; readJSON KProjects prj_projects path }"

definition write_registry :: "project list \<Rightarrow> unit actE" where
  "write_registry ps = do { path \<leftarrow> asks registryPath; writeJSON path (DProjects ps) }"

section \<open>Opening the store\<close>

definition NewStore :: "unit actE" where
  "NewStore = do {
     dataDir \<leftarrow> asks data_dir;
     bindE (mkdir_all dataDir) (\<lambda>_.
     bindE (mkdir_all (dataDir @ [''projects''])) (\<lambda>_. do {
       ex \<leftarrow> exists_path (dataDir @ [''projects.json'']);
       if \<not> ex then write_registry [] else okE ()
     })) }"

section \<open>Reading the registry\<close>

definition ListProjects :: "project list actE" where
  "ListProjects = read_registry"

definition GetProject :: "string \<Rightarrow> project actE" where
  "GetProject pid = bindE ListProjects (\<lambda>projects.
     case List.find (\<lambda>p. p_id p = pid) projects of
       Some p \<Rightarrow> okE p
     | None \<Rightarrow> throwE (Errf ''project not found''))"

definition ListProjectsForOrg :: "string \<Rightarrow> project list actE" where
  "ListProjectsForOrg org = bindE ListProjects (\<lambda>all. do {
     tc \<leftarrow> asks tenant;
     if org = [] \<and> \<not> auth_enforced tc then okE all
     else okE (filter (\<lambda>p. projectInOrg tc p org) all) })"

definition GetProjectForOrg :: "string \<Rightarrow> string \<Rightarrow> project actE" where
  "GetProjectForOrg pid org = bindE (GetProject pid) (\<lambda>p. do {
     tc \<leftarrow> asks tenant;
     if \<not> projectInOrg tc p org then throwE (Errf ''project not found'') else okE p })"

section \<open>The layout of a project\<close>

definition layout_dirs :: "path \<Rightarrow> path list" where
  "layout_dirs base = [base, base @ [''specs''], base @ [''roadmap''], base @ [''ideation''],
     base @ [''runs''], base @ [''logs'']]"

fun mkdirs_all :: "path list \<Rightarrow> unit actE" where
  "mkdirs_all [] = okE ()"
| "mkdirs_all (d # ds) = bindE (mkdir_all d) (\<lambda>_. mkdirs_all ds)"

text \<open>\<open>if _, err := os.Stat(path); os.IsNotExist(err)\<close>.\<close>

definition if_missing :: "path \<Rightarrow> unit actE \<Rightarrow> unit actE" where
  "if_missing path m = do { ex \<leftarrow> exists_path path; if ex then okE () else m }"

definition changelog_seed :: string where
  "changelog_seed = ''# Changelog'' @ newline @ newline @ ''No entries yet.'' @ newline"

definition seed_roadmap :: "project \<Rightarrow> roadmap" where
  "seed_roadmap p = zero_roadmap\<lparr> rm_id := ''roadmap-1'', rm_projectName := p_name p,
     rm_version := ''0.1.0'', rm_vision := [], rm_phases := [], rm_features := []\<rparr>"

definition ensureLayout :: "project \<Rightarrow> unit actE" where
  "ensureLayout p = do {
     base \<leftarrow> asks (\<lambda>w. projectDir w p);
     bindE (mkdirs_all (layout_dirs base)) (\<lambda>_.
     bindE (if_missing (base @ [''board.json'']) (writeJSON (base @ [''board.json'']) (DBoard emptyBoard))) (\<lambda>_.
     bindE (if_missing (base @ [''status.json''])
              (do { now \<leftarrow> nowUTC; writeJSON (base @ [''status.json'']) (DStatus (idleStatus now)) })) (\<lambda>_.
     bindE (if_missing (base @ [''roadmap'', ''roadmap.json''])
              (writeJSON (base @ [''roadmap'', ''roadmap.json'']) (DRoadmap (seed_roadmap p)))) (\<lambda>_.
     bindE (if_missing (base @ [''ideation'', ''ideation.json''])
              (writeJSON (base @ [''ideation'', ''ideation.json'']) (DIdeation emptyIdeation))) (\<lambda>_.
     if_missing (base @ [''changelog.md''])
              (write_file (base @ [''changelog.md'']) (DText changelog_seed))))))) }"

definition InitProject :: "string \<Rightarrow> unit actE" where
  "InitProject pid = bindE (GetProject pid) ensureLayout"

text \<open>\<open>withProject\<close>: the body gets the row and its directory.\<close>

definition withProject :: "string \<Rightarrow> (project \<Rightarrow> path \<Rightarrow> 'a actE) \<Rightarrow> 'a actE" where
  "withProject pid fn = bindE (GetProject pid) (\<lambda>p.
     bindE (ensureLayout p) (\<lambda>_. do { base \<leftarrow> asks (\<lambda>w. projectDir w p); fn p base }))"

section \<open>Changing the registry\<close>

definition normalizeOwnerRepo :: "string \<Rightarrow> string" where
  "normalizeOwnerRepo s0 =
     (let s1 = trim_space s0;
          s2 = trim_prefix ''https://github.com/'' s1;
          s3 = trim_prefix ''http://github.com/'' s2;
          s4 = trim_suffix ''.git'' s3;
          s5 = trim_cut ''/'' s4
      in case split_on (CHR ''/'') s5 of
           [a, b] \<Rightarrow> if a = [] \<or> b = [] then [] else a @ ''/'' @ b
         | _ \<Rightarrow> [])"

text \<open>The last element of \<open>strings.SplitN(s, "/", 2)\<close>.\<close>

definition repo_name :: "string \<Rightarrow> string" where
  "repo_name s = (case dropWhile (\<lambda>c. c \<noteq> CHR ''/'') s of [] \<Rightarrow> s | _ # r \<Rightarrow> r)"

definition github_url :: "string \<Rightarrow> string" where
  "github_url ownerRepo = ''https://github.com/'' @ ownerRepo"

definition new_project ::
  "string \<Rightarrow> string \<Rightarrow> string \<Rightarrow> string \<Rightarrow> string \<Rightarrow> string \<Rightarrow> string \<Rightarrow> string \<Rightarrow> time \<Rightarrow> project" where
  "new_project pid name ownerRepo repoId connectorID org html branch now =
     \<lparr> p_id = pid, p_name = name, p_ownerRepo = ownerRepo, p_githubRepoId = repoId,
       p_connectorId = connectorID, p_organizationId = org, p_htmlUrl = html,
       p_defaultBranch = branch, p_githubProjectId = [], p_githubProjectTitle = [],
       p_githubProjectUrl = [], p_autoStartOnMove = None, p_createdAt = now, p_updatedAt = now \<rparr>"

definition CreateProject :: "project \<Rightarrow> project actE" where
  "CreateProject inp = (
     let ownerRepo = normalizeOwnerRepo (p_ownerRepo inp);
         name0 = trim_space (p_name inp);
         connectorID = trim_space (p_connectorId inp);
         name = (if name0 = [] then repo_name ownerRepo else name0);
         html = trim_space (p_htmlUrl inp)
     in failE_when (ownerRepo = [] \<or> connectorID = []) (Errf ''ownerRepo and connectorId required'')
       (bindE read_registry (\<lambda>projects.
        if list_ex (\<lambda>p. normalizeOwnerRepo (p_ownerRepo p) = ownerRepo) projects
        then throwE (Errf ''repository already linked'')
        else do {
          now \<leftarrow> nowUTC;
          pid \<leftarrow> uuid_new;
          tc \<leftarrow> asks tenant;
          let p = new_project pid name ownerRepo (trim_space (p_githubRepoId inp)) connectorID
                    (normalizeWriteOrg tc (p_organizationId inp))
                    (if html = [] then github_url ownerRepo else html)
                    (nz (trim_space (p_defaultBranch inp)) ''main'') now;
          bindE (write_registry (projects @ [p])) (\<lambda>_. bindE (ensureLayout p) (\<lambda>_. okE p)) })))"

subsection \<open>EnsureProject\<close>

text \<open>One \<open>if\<close> of the enrichment: the row and whether anything was changed.\<close>

definition enrich_when :: "(project \<Rightarrow> bool) \<Rightarrow> (project \<Rightarrow> project) \<Rightarrow> project \<times> bool \<Rightarrow> project \<times> bool" where
  "enrich_when c f pc = (if c (fst pc) then (f (fst pc), True) else pc)"

text \<open>\<open>i\<close> holds the trimmed and normalised input.\<close>

definition enrich_project :: "tenant_cfg \<Rightarrow> project \<Rightarrow> project \<Rightarrow> project \<times> bool" where
  "enrich_project tc i p =
     enrich_when (\<lambda>p. p_organizationId i \<noteq> [] \<and>
         (normalizeWriteOrg tc (p_organizationId p) = [] \<or>
          normalizeWriteOrg tc (p_organizationId p) \<noteq> p_organizationId i))
       (\<lambda>p. p\<lparr>p_organizationId := p_organizationId i\<rparr>)
    (enrich_when (\<lambda>p. blank (p_name p) \<and> p_name i \<noteq> []) (\<lambda>p. p\<lparr>p_name := p_name i\<rparr>)
    (enrich_when (\<lambda>p. p_htmlUrl i \<noteq> [] \<and> blank (p_htmlUrl p)) (\<lambda>p. p\<lparr>p_htmlUrl := p_htmlUrl i\<rparr>)
    (enrich_when (\<lambda>p. p_githubRepoId i \<noteq> [] \<and> blank (p_githubRepoId p))
       (\<lambda>p. p\<lparr>p_githubRepoId := p_githubRepoId i\<rparr>)
    (enrich_when (\<lambda>p. p_connectorId i \<noteq> [] \<and> blank (p_connectorId p))
       (\<lambda>p. p\<lparr>p_connectorId := p_connectorId i\<rparr>)
    (enrich_when (\<lambda>p. p_ownerRepo i \<noteq> [] \<and> normalizeOwnerRepo (p_ownerRepo p) = [])
       (\<lambda>p. p\<lparr>p_ownerRepo := p_ownerRepo i\<rparr>) (p, False))))))"

definition ensure_input :: "tenant_cfg \<Rightarrow> project \<Rightarrow> project" where
  "ensure_input tc inp = (
     let pid = trim_space (p_id inp);
         ownerRepo = normalizeOwnerRepo (p_ownerRepo inp);
         name0 = trim_space (p_name inp);
         name = (if name0 = [] then (if ownerRepo \<noteq> [] then repo_name ownerRepo else pid) else name0)
     in inp\<lparr> p_id := pid, p_ownerRepo := ownerRepo, p_name := name,
             p_connectorId := trim_space (p_connectorId inp),
             p_organizationId := normalizeWriteOrg tc (p_organizationId inp),
             p_htmlUrl := trim_space (p_htmlUrl inp),
             p_defaultBranch := nz (trim_space (p_defaultBranch inp)) ''main'',
             p_githubRepoId := trim_space (p_githubRepoId inp)\<rparr>)"

definition EnsureProject :: "project \<Rightarrow> project actE" where
  "EnsureProject inp = do {
     tc \<leftarrow> asks tenant;
     let i = ensure_input tc inp;
     failE_when (p_id i = []) (Errf ''id required'')
       (bindE read_registry (\<lambda>projects.
        case List.find (\<lambda>p. p_id p = p_id i) projects of
          Some p \<Rightarrow>
            (let (p', changed) = enrich_project tc i p in
             if changed then do {
               now \<leftarrow> nowUTC;
               let q = p'\<lparr>p_updatedAt := now\<rparr>;
               bindE (write_registry (update_first (\<lambda>p. p_id p = p_id i) (\<lambda>_. q) projects)) (\<lambda>_.
               bindE (ensureLayout q) (\<lambda>_. okE q)) }
             else bindE (ensureLayout p') (\<lambda>_. okE p'))
        | None \<Rightarrow>
            (case (if p_ownerRepo i \<noteq> []
                   then List.find (\<lambda>p. normalizeOwnerRepo (p_ownerRepo p) = p_ownerRepo i) projects
                   else None) of
               Some p \<Rightarrow> bindE (ensureLayout p) (\<lambda>_. okE p)
             | None \<Rightarrow> do {
                 now \<leftarrow> nowUTC;
                 let p = new_project (p_id i) (p_name i) (p_ownerRepo i) (p_githubRepoId i)
                           (p_connectorId i) (p_organizationId i)
                           (if p_htmlUrl i = [] \<and> p_ownerRepo i \<noteq> [] then github_url (p_ownerRepo i)
                            else p_htmlUrl i)
                           (p_defaultBranch i) now;
                 bindE (write_registry (projects @ [p])) (\<lambda>_. bindE (ensureLayout p) (\<lambda>_. okE p)) }))) }"

subsection \<open>Binding and deleting\<close>

definition setGitHubProjectBinding :: "string \<Rightarrow> string \<Rightarrow> string \<Rightarrow> string \<Rightarrow> project actE" where
  "setGitHubProjectBinding pid gh title url = bindE read_registry (\<lambda>projects.
     case List.find (\<lambda>p. p_id p = pid) projects of
       None \<Rightarrow> throwE (Errf ''project not found'')
     | Some p \<Rightarrow> do {
         now \<leftarrow> nowUTC;
         let q = p\<lparr>p_githubProjectId := trim_space gh, p_githubProjectTitle := trim_space title,
                   p_githubProjectUrl := trim_space url, p_updatedAt := now\<rparr>;
         bindE (write_registry (update_first (\<lambda>p. p_id p = pid) (\<lambda>_. q) projects)) (\<lambda>_. okE q) })"

definition BindGitHubProject :: "string \<Rightarrow> string \<Rightarrow> string \<Rightarrow> string \<Rightarrow> project actE" where
  "BindGitHubProject pid gh title url =
     failE_when (blank gh)
       (Errf ''projectId required (use the unbind route to clear the binding)'')
       (setGitHubProjectBinding pid gh title url)"

definition UnbindGitHubProject :: "string \<Rightarrow> project actE" where
  "UnbindGitHubProject pid = setGitHubProjectBinding pid [] [] []"

definition DeleteProject :: "string \<Rightarrow> unit actE" where
  "DeleteProject pid = bindE read_registry (\<lambda>projects.
     case filter (\<lambda>p. p_id p = pid) projects of
       [] \<Rightarrow> throwE (Errf ''project not found'')
     | removed # rest \<Rightarrow>
         bindE (write_registry (filter (\<lambda>p. p_id p \<noteq> pid) projects)) (\<lambda>_. do {
           dir \<leftarrow> asks (\<lambda>w. projectDir w (last (removed # rest)));
           _ \<leftarrow> remove_all dir;
           okE () }))"

section \<open>A project that is ready\<close>

definition registry_at :: "world \<Rightarrow> project list \<Rightarrow> bool" where
  "registry_at w ps \<longleftrightarrow> look w (registryPath w) = Some (File (DProjects ps))"

definition layout_files :: "path \<Rightarrow> path list" where
  "layout_files base = [base @ [''board.json''], base @ [''status.json''],
     base @ [''roadmap'', ''roadmap.json''], base @ [''ideation'', ''ideation.json''],
     base @ [''changelog.md'']]"

definition layout_ok :: "world \<Rightarrow> path \<Rightarrow> bool" where
  "layout_ok w base \<longleftrightarrow> list_all (dir_ok w) (layout_dirs base) \<and>
     list_all (\<lambda>q. look w q \<noteq> None) (layout_files base)"

text \<open>The registry lists the project under an id that is one path segment, its layout is
  there, the file tree is a tree, and no write fails.\<close>

definition ready :: "world \<Rightarrow> string \<Rightarrow> project \<Rightarrow> bool" where
  "ready w pid p \<longleftrightarrow> faults w = [] \<and> fs_wf w \<and> plain pid \<and>
     (case look w (registryPath w) of
        Some (File (DProjects ps)) \<Rightarrow> List.find (\<lambda>p. p_id p = pid) ps = Some p
      | _ \<Rightarrow> False) \<and>
     layout_ok w (projectDir w p)"

lemma ready_D:
  assumes "ready w pid p"
  obtains ps where "registry_at w ps" and "List.find (\<lambda>p. p_id p = pid) ps = Some p"
    and "faults w = []" and "fs_wf w" and "plain pid" and "layout_ok w (projectDir w p)"
  using assms by (auto simp: ready_def registry_at_def split: option.splits node.splits doc.splits)

lemma ready_pid: "ready w pid p \<Longrightarrow> p_id p = pid"
  by (elim ready_D) (auto dest: find_Some_in_set)

lemma run_read_registry: "registry_at w ps \<Longrightarrow> run_state read_registry w = (Inr ps, w)"
  by (simp add: read_registry_def run registry_at_def run_readJSON_File doc_kind_of_def)

lemma run_ListProjects: "registry_at w ps \<Longrightarrow> run_state ListProjects w = (Inr ps, w)"
  by (simp add: ListProjects_def run_read_registry)

lemma snd_read_registry [simp]: "snd (run_state read_registry w) = w"
  by (simp add: read_registry_def run)

lemma run_GetProject:
  "registry_at w ps \<Longrightarrow> run_state (GetProject pid) w =
     ((case List.find (\<lambda>p. p_id p = pid) ps of Some p \<Rightarrow> Inr p
       | None \<Rightarrow> Inl (Errf ''project not found'')), w)"
  by (simp add: GetProject_def run run_ListProjects split: option.splits)

lemma snd_GetProject [simp]: "snd (run_state (GetProject pid) w) = w"
proof -
  obtain r where r: "run_state ListProjects w = (r, w)"
    by (metis ListProjects_def prod.collapse snd_read_registry)
  then show ?thesis by (cases r) (simp_all add: GetProject_def run split: option.splits)
qed

lemma GetProject_pid: "run_state (GetProject pid) w = (Inr p, w') \<Longrightarrow> p_id p = pid \<and> w' = w"
proof -
  assume *: "run_state (GetProject pid) w = (Inr p, w')"
  obtain r where "run_state ListProjects w = (r, w)"
    by (metis ListProjects_def prod.collapse snd_read_registry)
  with * show ?thesis
    by (cases r) (auto simp: GetProject_def run dest: find_Some_in_set split: option.splits)
qed

lemma run_mkdirs_all:
  "list_all (dir_ok w) ds \<Longrightarrow> set ds \<inter> set (faults w) = {} \<Longrightarrow> run_state (mkdirs_all ds) w = (Inr (), w)"
  by (induction ds) (simp_all add: run run_mkdir_all_ok)

lemma run_if_missing_present:
  "look w q \<noteq> None \<Longrightarrow> run_state (if_missing q m) w = (Inr (), w)"
  by (simp add: if_missing_def run)

lemma run_ensureLayout_ok:
  assumes "layout_ok w (projectDir w p)" and "set (layout_dirs (projectDir w p)) \<inter> set (faults w) = {}"
  shows "run_state (ensureLayout p) w = (Inr (), w)"
  using assms
  by (simp add: ensureLayout_def run layout_ok_def layout_files_def run_mkdirs_all run_if_missing_present)

lemma run_withProject_layout:
  assumes "registry_at w ps" and "List.find (\<lambda>p. p_id p = pid) ps = Some p"
    and "layout_ok w (projectDir w p)" and "set (layout_dirs (projectDir w p)) \<inter> set (faults w) = {}"
  shows "run_state (withProject pid fn) w = run_state (fn p (projectDir w p)) w"
  using assms by (simp add: withProject_def run run_GetProject run_ensureLayout_ok)

lemma run_withProject_ready:
  assumes "ready w pid p"
  shows "run_state (withProject pid fn) w = run_state (fn p (projectDir w p)) w"
  using assms
  by (elim ready_D) (simp add: withProject_def run run_GetProject run_ensureLayout_ok)

lemma run_withProject_unknown:
  assumes "registry_at w ps" and "List.find (\<lambda>p. p_id p = pid) ps = None"
  shows "run_state (withProject pid fn) w = (Inl (Errf ''project not found''), w)"
  using assms by (simp add: withProject_def run run_GetProject)

subsection \<open>Readiness survives the writes of the program\<close>

lemma layout_ok_put_file:
  "layout_ok w base \<Longrightarrow> look w q \<noteq> Some Dir \<Longrightarrow> layout_ok (put_node q (File d) w) base"
  by (cases "q = []")
     (auto simp: layout_ok_def list_all_iff dir_ok_put_file look_put_node)

lemma projectDir_put_node [simp]: "projectDir (put_node q n w) p = projectDir w p"
  by (simp add: projectDir_def)

lemma registryPath_put_node [simp]: "registryPath (put_node q n w) = registryPath w"
  by (simp add: registryPath_def)

lemma ready_put_file:
  assumes "ready w pid p" and "look w (butlast q) = Some Dir" and "look w q \<noteq> Some Dir"
    and "q \<noteq> registryPath w"
  shows "ready (put_node q (File d) w) pid p"
  using assms
  by (cases "q = []") (auto simp: ready_def layout_ok_put_file look_put_node fs_wf_put_file)

lemma projectDir_ticks [simp]: "projectDir (w\<lparr>ticks := n\<rparr>) p = projectDir w p"
  by (simp add: projectDir_def)

lemma projectDir_uuids [simp]: "projectDir (w\<lparr>uuids := n\<rparr>) p = projectDir w p"
  by (simp add: projectDir_def)

lemma projectDir_spawned [simp]: "projectDir (w\<lparr>spawned := n\<rparr>) p = projectDir w p"
  by (simp add: projectDir_def)

lemma registryPath_ticks [simp]: "registryPath (w\<lparr>ticks := n\<rparr>) = registryPath w"
  by (simp add: registryPath_def)

lemma registryPath_uuids [simp]: "registryPath (w\<lparr>uuids := n\<rparr>) = registryPath w"
  by (simp add: registryPath_def)

lemma registryPath_spawned [simp]: "registryPath (w\<lparr>spawned := n\<rparr>) = registryPath w"
  by (simp add: registryPath_def)

lemma fs_wf_ticks [simp]: "fs_wf (w\<lparr>ticks := n\<rparr>) = fs_wf w"
  by (rule fs_wf_cong) simp

lemma fs_wf_uuids [simp]: "fs_wf (w\<lparr>uuids := n\<rparr>) = fs_wf w"
  by (rule fs_wf_cong) simp

lemma fs_wf_spawned [simp]: "fs_wf (w\<lparr>spawned := n\<rparr>) = fs_wf w"
  by (rule fs_wf_cong) simp

lemma layout_ok_ticks [simp]: "layout_ok (w\<lparr>ticks := n\<rparr>) b = layout_ok w b"
  by (simp add: layout_ok_def list_all_iff)

lemma layout_ok_uuids [simp]: "layout_ok (w\<lparr>uuids := n\<rparr>) b = layout_ok w b"
  by (simp add: layout_ok_def list_all_iff)

lemma layout_ok_spawned [simp]: "layout_ok (w\<lparr>spawned := n\<rparr>) b = layout_ok w b"
  by (simp add: layout_ok_def list_all_iff)

lemma ready_ticks [simp]: "ready (w\<lparr>ticks := n\<rparr>) pid p = ready w pid p"
  by (simp add: ready_def)

lemma ready_uuids [simp]: "ready (w\<lparr>uuids := n\<rparr>) pid p = ready w pid p"
  by (simp add: ready_def)

lemma ready_spawned [simp]: "ready (w\<lparr>spawned := n\<rparr>) pid p = ready w pid p"
  by (simp add: ready_def)

section \<open>Frame: a project's operations stay in its directory\<close>

definition pdir :: "world \<Rightarrow> string \<Rightarrow> path" where
  "pdir w pid = path_join (data_dir w) [''projects'', pid]"

lemma projectDir_pdir: "projectDir w p = pdir w (p_id p)"
  by (simp add: projectDir_def pdir_def)

definition ptouch :: "string \<Rightarrow> world \<Rightarrow> world \<Rightarrow> bool" where
  "ptouch pid w w' \<longleftrightarrow> touches (pdir w pid) w w'"

lemma touches_same_env: "touches q w w' \<Longrightarrow> same_env w w'"
  by (simp add: touches_def)

lemma pdir_same_env: "same_env w w' \<Longrightarrow> pdir w' pid = pdir w pid"
  by (simp add: pdir_def same_env_def)

interpretation pt: frame_rel "ptouch pid" for pid
proof unfold_locales
  show "ptouch pid w w' \<Longrightarrow> ptouch pid w' w'' \<Longrightarrow> ptouch pid w w''" for w w' w''
    unfolding ptouch_def
    by (frule touches_same_env) (auto simp: pdir_same_env intro: touches_trans)
qed (simp add: ptouch_def)

lemma keeps_if_missing: "keeps (touches b) m \<Longrightarrow> keeps (touches b) (if_missing q m)"
  unfolding if_missing_def by (intro tch.keeps_bind frame) (simp add: tch.keeps_okE)

lemma keeps_mkdirs_all: "list_all (is_under b) ds \<Longrightarrow> keeps (touches b) (mkdirs_all ds)"
  by (induction ds) (auto intro!: tch.keeps_okE tch.keeps_bindE frame)

lemma keeps_ensureLayout_at:
  assumes "b = projectDir w p"
  shows "touches b w (snd (run_state (ensureLayout p) w))"
proof -
  define m where "m = bindE (mkdirs_all (layout_dirs b)) (\<lambda>_.
     bindE (if_missing (b @ [''board.json'']) (writeJSON (b @ [''board.json'']) (DBoard emptyBoard))) (\<lambda>_.
     bindE (if_missing (b @ [''status.json''])
              (do { now \<leftarrow> nowUTC; writeJSON (b @ [''status.json'']) (DStatus (idleStatus now)) })) (\<lambda>_.
     bindE (if_missing (b @ [''roadmap'', ''roadmap.json''])
              (writeJSON (b @ [''roadmap'', ''roadmap.json'']) (DRoadmap (seed_roadmap p)))) (\<lambda>_.
     bindE (if_missing (b @ [''ideation'', ''ideation.json''])
              (writeJSON (b @ [''ideation'', ''ideation.json'']) (DIdeation emptyIdeation))) (\<lambda>_.
     if_missing (b @ [''changelog.md''])
              (write_file (b @ [''changelog.md'']) (DText changelog_seed)))))))"
  have w: "is_under b (butlast (b @ [x]))" "is_under b (butlast (b @ [x, y]))" for x y
    by (simp_all add: butlast_append)
  have "keeps (touches b) m"
    unfolding m_def
    by (intro tch.keeps_bindE tch.keeps_bind keeps_if_missing keeps_mkdirs_all keeps_writeJSON
        keeps_write_file keeps_nowUTC w) (simp_all add: layout_dirs_def)
  moreover have "run_state (ensureLayout p) w = run_state m w"
    by (simp add: ensureLayout_def run m_def assms)
  ultimately show ?thesis by (simp add: keeps_def)
qed

text \<open>A relation at a directory that the layout of a project respects: a body that respects it
  at the directory it is given makes a project operation that respects it at the project's
  directory.\<close>

locale project_frame =
  fixes T :: "path \<Rightarrow> world \<Rightarrow> world \<Rightarrow> bool"
  assumes T_refl: "T b w w"
    and T_trans: "T b w w' \<Longrightarrow> T b w' w'' \<Longrightarrow> T b w w''"
    and T_env: "T b w w' \<Longrightarrow> same_env w w'"
    and T_layout: "b = projectDir w p \<Longrightarrow> T b w (snd (run_state (ensureLayout p) w))"
begin

definition at_project :: "string \<Rightarrow> world \<Rightarrow> world \<Rightarrow> bool" where
  "at_project pid w w' \<longleftrightarrow> T (pdir w pid) w w'"

lemma at_project_frame: "frame_rel (at_project pid)"
proof unfold_locales
  show "at_project pid w w' \<Longrightarrow> at_project pid w' w'' \<Longrightarrow> at_project pid w w''" for w w' w''
    unfolding at_project_def by (frule T_env) (auto simp: pdir_same_env intro: T_trans)
qed (simp add: at_project_def T_refl)

lemma keeps_at_project:
  assumes body: "\<And>p base. p_id p = pid \<Longrightarrow> keeps (T base) (fn p base)"
  shows "keeps (at_project pid) (withProject pid fn)"
  unfolding keeps_def at_project_def
proof
  fix w
  let ?b = "pdir w pid"
  obtain r where r: "run_state (GetProject pid) w = (r, w)"
    by (metis prod.collapse snd_GetProject)
  show "T ?b w (snd (run_state (withProject pid fn) w))"
  proof (cases r)
    case (Inl e)
    then show ?thesis using r by (simp add: withProject_def run T_refl)
  next
    case (Inr p)
    then have pid: "p_id p = pid" using GetProject_pid r by blast
    then have b: "projectDir w p = ?b" by (simp add: projectDir_pdir)
    obtain r1 w1 where l: "run_state (ensureLayout p) w = (r1, w1)" by (cases "run_state (ensureLayout p) w")
    then have t1: "T ?b w w1" using T_layout[of ?b w p] b by simp
    have b1: "projectDir w1 p = ?b"
      using pdir_same_env[OF T_env[OF t1]] by (simp add: projectDir_pdir pid)
    have t2: "T ?b w1 (snd (run_state (fn p ?b) w1))"
      using body[OF pid] by (simp add: keeps_def)
    show ?thesis
      using r l t1 t2 b1 Inr T_trans[OF t1 t2] by (cases r1) (simp_all add: withProject_def run)
  qed
qed

end

interpretation pf: project_frame touches
  by unfold_locales (auto intro: touches_trans touches_same_env keeps_ensureLayout_at)

lemma keeps_withProject [frame]:
  assumes "\<And>p base. p_id p = pid \<Longrightarrow> keeps (touches base) (fn p base)"
  shows "keeps (ptouch pid) (withProject pid fn)"
proof -
  have "ptouch pid = pf.at_project pid" by (simp add: fun_eq_iff ptouch_def pf.at_project_def)
  then show ?thesis using pf.keeps_at_project[OF assms] by simp
qed

lemma wf_if_missing: "keeps wf_rel m \<Longrightarrow> keeps wf_rel (if_missing q m)"
  unfolding if_missing_def by (intro wfr.keeps_bind frame) (simp add: wfr.keeps_okE)

lemma wf_mkdirs_all: "keeps wf_rel (mkdirs_all ds)"
  by (induction ds) (auto intro!: wfr.keeps_okE wfr.keeps_bindE frame)

lemma wf_ensureLayout [frame]: "keeps wf_rel (ensureLayout p)"
  unfolding ensureLayout_def
  by (intro wfr.keeps_bind wfr.keeps_bindE wf_if_missing wf_mkdirs_all frame)

lemma wf_GetProject [frame]: "keeps wf_rel (GetProject pid)"
  by (simp add: keeps_def wf_rel_def)

lemma wf_withProject [frame]:
  assumes "\<And>p base. p_id p = pid \<Longrightarrow> keeps wf_rel (fn p base)"
  shows "keeps wf_rel (withProject pid fn)"
proof -
  have "keeps wf_rel (if p_id p = pid then bindE (ensureLayout p)
          (\<lambda>_. do { base \<leftarrow> asks (\<lambda>w. projectDir w p); fn p base }) else throwE IOError)" for p
    by (cases "p_id p = pid")
       (simp_all add: wfr.keeps_throwE wfr.keeps_bindE wfr.keeps_bind frame assms)
  then have "keeps wf_rel (bindE (GetProject pid) (\<lambda>p. if p_id p = pid then bindE (ensureLayout p)
          (\<lambda>_. do { base \<leftarrow> asks (\<lambda>w. projectDir w p); fn p base }) else throwE IOError))"
    by (intro wfr.keeps_bindE frame)
  moreover have "run_state (bindE (GetProject pid) (\<lambda>p. if p_id p = pid then bindE (ensureLayout p)
          (\<lambda>_. do { base \<leftarrow> asks (\<lambda>w. projectDir w p); fn p base }) else throwE IOError)) w =
        run_state (withProject pid fn) w" for w
    unfolding withProject_def
    by (auto dest: GetProject_pid simp: run split: prod.splits sum.splits)
  ultimately show ?thesis by (simp add: keeps_def)
qed

lemma ready_projectDir:
  "ready w pid p \<Longrightarrow> projectDir w p = data_dir w @ [''projects'', pid]"
  by (frule ready_pid) (auto simp: projectDir_def elim: ready_D)

lemma ready_put_dir:
  assumes "ready w pid p" and "look w (butlast q) = Some Dir" and "look w q = None" and "q \<noteq> []"
  shows "ready (put_node q Dir w) pid p"
proof -
  have "dir_ok (put_node q Dir w) r" if "dir_ok w r" for r
    using that assms(3,4) by (auto simp: dir_ok_iff look_put_node)
  then have "layout_ok (put_node q Dir w) b" if "layout_ok w b" for b
    using that assms(4) by (auto simp: layout_ok_def list_all_iff look_put_node)
  moreover have "fs_wf (put_node q Dir w)"
    using assms unfolding fs_wf_iff
    by (auto simp: look_put_node ready_def fs_wf_iff)
  ultimately show ?thesis
    using assms by (auto simp: ready_def look_put_node split: option.splits node.splits doc.splits)
qed

end
