(* ===== verification/Board.thy ===== *)
theory Board
  imports Models
begin

text \<open>
  The board document as a value: the loops of \<open>store.go\<close> over \<open>BoardColumns\<close>, and an
  abstract Kanban board (a column is a list of cards) that they implement.
\<close>

section \<open>The loops of the store\<close>

text \<open>\<open>if board[c] == nil { board[c] = []string{} }\<close> for every column.\<close>

definition board_fill :: "board \<Rightarrow> board" where
  "board_fill b = foldl (\<lambda>b c. case map_of b c of None \<Rightarrow> AList.update c [] b | Some _ \<Rightarrow> b) b BoardColumns"

text \<open>The filter loop of \<open>MoveTask\<close> and \<open>DeleteTask\<close>.\<close>

definition board_strip :: "string \<Rightarrow> board \<Rightarrow> board" where
  "board_strip specID b =
     foldl (\<lambda>b c. AList.update c (filter (\<lambda>i. i \<noteq> specID) (board_col b c)) b) b BoardColumns"

text \<open>\<open>board[c] = append(board[c], specID)\<close>.\<close>

definition board_append :: "string \<Rightarrow> string \<Rightarrow> board \<Rightarrow> board" where
  "board_append c specID b = AList.update c (board_col b c @ [specID]) b"

definition board_move :: "string \<Rightarrow> string \<Rightarrow> board \<Rightarrow> board" where
  "board_move specID toStatus b = board_append toStatus specID (board_strip specID b)"

definition board_add :: "string \<Rightarrow> board \<Rightarrow> board" where
  "board_add specID b = board_append ''backlog'' specID (board_fill b)"

text \<open>\<open>GetBoard\<close>'s view: the columns filled, the legacy column folded into \<open>review\<close>.\<close>

definition board_view :: "board \<Rightarrow> board" where
  "board_view b0 =
     (let b = board_fill b0;
          legacy = board_col b ''ai_review''
      in if legacy \<noteq> []
         then AList.delete ''ai_review'' (AList.update ''review'' (board_col b ''review'' @ legacy) b)
         else b)"

text \<open>\<open>PutBoard\<close>'s normalisation: only the six columns are kept.\<close>

definition board_normalize :: "board \<Rightarrow> board" where
  "board_normalize b =
     foldl (\<lambda>n c. case map_of b c of None \<Rightarrow> n | Some ids \<Rightarrow> AList.update c ids n) emptyBoard BoardColumns"

section \<open>Columns after each loop\<close>

lemma board_col_update: "board_col (AList.update k v b) c = (if c = k then v else board_col b c)"
  by (simp add: board_col_def map_of_update)

lemma board_col_delete: "board_col (AList.delete k b) c = (if c = k then [] else board_col b c)"
  by (simp add: board_col_def map_of_delete)

lemma board_fill_aux:
  "board_col (foldl (\<lambda>b c. case map_of b c of None \<Rightarrow> AList.update c [] b | Some _ \<Rightarrow> b) b cs) c = board_col b c"
proof (induction cs arbitrary: b)
  case (Cons k cs)
  show ?case
    by (cases "map_of b k") (auto simp: Cons board_col_update, simp add: board_col_def)
qed simp

lemma board_col_fill [simp]: "board_col (board_fill b) c = board_col b c"
  unfolding board_fill_def by (rule board_fill_aux)

lemma board_strip_aux:
  assumes "distinct cs"
  shows "board_col (foldl (\<lambda>b c. AList.update c (filter (\<lambda>i. i \<noteq> s) (board_col b c)) b) b cs) c =
    (if c \<in> set cs then filter (\<lambda>i. i \<noteq> s) (board_col b c) else board_col b c)"
  using assms by (induction cs arbitrary: b) (auto simp: board_col_update)

lemma board_col_strip:
  "board_col (board_strip s b) c =
     (if c \<in> set BoardColumns then filter (\<lambda>i. i \<noteq> s) (board_col b c) else board_col b c)"
  unfolding board_strip_def by (rule board_strip_aux[OF distinct_BoardColumns])

lemma board_col_append:
  "board_col (board_append k s b) c = (if c = k then board_col b c @ [s] else board_col b c)"
  by (simp add: board_append_def board_col_update)

lemma board_col_add:
  "board_col (board_add s b) c = (if c = ''backlog'' then board_col b c @ [s] else board_col b c)"
  by (simp add: board_add_def board_col_append)

lemma board_col_move:
  "board_col (board_move s k b) c =
     (if c \<in> set BoardColumns then filter (\<lambda>i. i \<noteq> s) (board_col b c) else board_col b c) @
     (if c = k then [s] else [])"
  by (simp add: board_move_def board_col_append board_col_strip)

lemma board_col_empty [simp]: "board_col emptyBoard c = []"
proof -
  have "board_col (map (\<lambda>c. (c, [])) cs) c = []" for cs
    by (induction cs) (auto simp: board_col_def)
  then show ?thesis by (simp add: emptyBoard_def)
qed

lemma board_normalize_aux:
  assumes "distinct cs"
  shows "board_col (foldl (\<lambda>n c. case map_of b c of None \<Rightarrow> n | Some ids \<Rightarrow> AList.update c ids n) n cs) c =
    (if c \<in> set cs \<and> map_of b c \<noteq> None then board_col b c else board_col n c)"
  using assms
  by (induction cs arbitrary: n) (auto simp: board_col_update board_col_def map_of_update split: option.splits)

lemma board_col_normalize:
  "board_col (board_normalize b) c = (if c \<in> set BoardColumns then board_col b c else [])"
  unfolding board_normalize_def board_normalize_aux[OF distinct_BoardColumns]
  by (auto simp: board_col_def[of b])

lemma board_col_view:
  "board_col (board_view b) c =
     (if c = ''review'' then board_col b ''review'' @ board_col b ''ai_review''
      else if c = ''ai_review'' then [] else board_col b c)"
  by (auto simp: board_view_def Let_def board_col_delete board_col_update)

section \<open>The abstract Kanban board\<close>

type_synonym kanban = "column \<Rightarrow> string list"

definition kanban_of :: "board \<Rightarrow> kanban" where
  "kanban_of b = (\<lambda>c. board_col b (column_name c))"

definition k_take :: "string \<Rightarrow> kanban \<Rightarrow> kanban" where
  "k_take s K = (\<lambda>c. filter (\<lambda>i. i \<noteq> s) (K c))"

definition k_put :: "column \<Rightarrow> string \<Rightarrow> kanban \<Rightarrow> kanban" where
  "k_put d s K = K(d := K d @ [s])"

text \<open>Each card is in at most one place: the columns in workflow order, joined, have no
  repetition.\<close>

definition k_cards :: "kanban \<Rightarrow> string list" where
  "k_cards K = concat (map K columns)"

definition k_wf :: "kanban \<Rightarrow> bool" where
  "k_wf K \<longleftrightarrow> distinct (k_cards K)"

lemma kanban_of_strip: "kanban_of (board_strip s b) = k_take s (kanban_of b)"
  by (rule ext) (simp add: kanban_of_def k_take_def board_col_strip)

lemma kanban_of_move: "kanban_of (board_move s (column_name d) b) = k_put d s (k_take s (kanban_of b))"
  by (rule ext) (simp add: kanban_of_def k_take_def k_put_def board_col_move column_name_inj)

lemma kanban_of_add: "kanban_of (board_add s b) = k_put Backlog s (kanban_of b)"
proof (rule ext)
  fix c
  show "kanban_of (board_add s b) c = k_put Backlog s (kanban_of b) c"
    by (cases c) (simp_all add: kanban_of_def k_put_def board_col_add)
qed

lemma kanban_of_view:
  "kanban_of (board_view b) = (kanban_of b)(Review := kanban_of b Review @ board_col b ''ai_review'')"
proof (rule ext)
  fix c
  show "kanban_of (board_view b) c = ((kanban_of b)(Review := kanban_of b Review @ board_col b ''ai_review'')) c"
    by (cases c) (simp_all add: kanban_of_def board_col_view)
qed

lemma kanban_of_fill [simp]: "kanban_of (board_fill b) = kanban_of b"
  by (simp add: kanban_of_def)

lemma set_k_cards: "s \<in> set (k_cards K) \<longleftrightarrow> (\<exists>c. s \<in> set (K c))"
  by (auto simp: k_cards_def)

lemma k_cards_take: "k_cards (k_take s K) = filter (\<lambda>i. i \<noteq> s) (k_cards K)"
  by (simp add: k_cards_def k_take_def filter_concat comp_def)

lemma k_wf_take: "k_wf K \<Longrightarrow> k_wf (k_take s K)"
  by (simp add: k_wf_def k_cards_take)

lemma k_wf_put: "k_wf K \<Longrightarrow> s \<notin> set (k_cards K) \<Longrightarrow> k_wf (k_put d s K)"
  by (cases d) (auto simp: k_wf_def k_put_def k_cards_def columns_def)

lemma not_in_take: "s \<notin> set (k_cards (k_take s K))"
  by (simp add: k_cards_take)

lemma k_wf_unique:
  assumes "k_wf K" and "s \<in> set (K c)" and "s \<in> set (K d)"
  shows "c = d"
  using assms by (cases c; cases d) (auto simp: k_wf_def k_cards_def columns_def)

text \<open>The interface the store's board loops implement: a put after a take leaves exactly
  one copy of the card, in the column asked for.\<close>

locale card_board =
  fixes cards :: "'b \<Rightarrow> column \<Rightarrow> string list"
    and take_card :: "string \<Rightarrow> 'b \<Rightarrow> 'b"
    and put_card :: "column \<Rightarrow> string \<Rightarrow> 'b \<Rightarrow> 'b"
  assumes cards_take: "cards (take_card s b) c = filter (\<lambda>i. i \<noteq> s) (cards b c)"
    and cards_put: "cards (put_card d s b) c = cards b c @ (if c = d then [s] else [])"
begin

definition moved :: "string \<Rightarrow> column \<Rightarrow> 'b \<Rightarrow> 'b" where
  "moved s d b = put_card d s (take_card s b)"

lemma moved_iff: "s \<in> set (cards (moved s d b) c) \<longleftrightarrow> c = d"
  by (simp add: moved_def cards_take cards_put)

lemma moved_once: "count_list (cards (moved s d b) d) s = 1"
proof -
  have "count_list (filter (\<lambda>i. i \<noteq> s) xs) s = 0" for xs :: "string list"
    by (induction xs) auto
  then show ?thesis by (simp add: moved_def cards_take cards_put)
qed

lemma moved_others: "t \<noteq> s \<Longrightarrow> filter (\<lambda>i. i = t) (cards (moved s d b) c) = filter (\<lambda>i. i = t) (cards b c)"
  by (auto simp: moved_def cards_take cards_put intro!: filter_cong)

lemma moved_moved: "cards (moved s d (moved s e b)) c = cards (moved s d b) c"
  by (auto simp: moved_def cards_take cards_put)

end

interpretation kb: card_board kanban_of board_strip "\<lambda>d. board_append (column_name d)"
  by unfold_locales
     (simp_all add: kanban_of_def board_col_strip board_col_append column_name_inj)

lemma board_move_moved: "board_move s (column_name d) b = kb.moved s d b"
  by (simp add: board_move_def kb.moved_def)

end
