(* ===== verification/Board_Store.thy ===== *)
theory Board_Store
  imports Registry Board
begin

text \<open>
  The board and task operations of \<open>store.go\<close> (\<open>GetBoard\<close> to \<open>GetSpecMarkdown\<close>), each a
  body run by \<open>withProject\<close> on the project's directory.
\<close>

section \<open>Documents\<close>

fun prj_board :: "doc \<Rightarrow> board option" where
  "prj_board (DBoard b) = Some b"
| "prj_board _ = None"

fun prj_task :: "doc \<Rightarrow> task option" where
  "prj_task (DTask t) = Some t"
| "prj_task _ = None"

definition board_path :: "path \<Rightarrow> path" where
  "board_path base = base @ [''board.json'']"

text \<open>\<open>filepath.Join(s.projectDir(p), "specs", specID, name)\<close>.\<close>

definition spec_file :: "path \<Rightarrow> string \<Rightarrow> string \<Rightarrow> path" where
  "spec_file base specID name = path_join base [''specs'', specID, name]"

definition spec_dir :: "path \<Rightarrow> string \<Rightarrow> path" where
  "spec_dir base specID = path_join base [''specs'', specID]"

section \<open>The board\<close>

definition GetBoard :: "string \<Rightarrow> board actE" where
  "GetBoard pid =
     bindE (withProject pid (\<lambda>p base. readJSON KBoard prj_board (board_path base)))
       (\<lambda>b. okE (board_view b))"

definition PutBoard :: "string \<Rightarrow> board \<Rightarrow> unit actE" where
  "PutBoard pid b = withProject pid (\<lambda>p base.
     writeJSON (board_path base) (DBoard (board_normalize b)))"

section \<open>Reading tasks\<close>

text \<open>The \<open>ReadDir\<close> loop: entries that are not directories or do not decode are skipped.\<close>

fun read_tasks :: "path \<Rightarrow> (string \<times> bool) list \<Rightarrow> task list act" where
  "read_tasks specsDir [] = State_Monad.return []"
| "read_tasks specsDir ((name, isdir) # es) =
     (if \<not> isdir then read_tasks specsDir es
      else do {
        r \<leftarrow> readJSON KTask prj_task (specsDir @ [name, ''task.json'']);
        ts \<leftarrow> read_tasks specsDir es;
        State_Monad.return (case r of Inl _ \<Rightarrow> ts | Inr t \<Rightarrow> t # ts) })"

definition ListTasks :: "string \<Rightarrow> task list actE" where
  "ListTasks pid = withProject pid (\<lambda>p base.
     bindE (read_dir (base @ [''specs''])) (\<lambda>entries. do {
       ts \<leftarrow> read_tasks (base @ [''specs'']) entries;
       okE ts }))"

definition GetTask :: "string \<Rightarrow> string \<Rightarrow> task actE" where
  "GetTask pid specID = withProject pid (\<lambda>p base.
     readJSON KTask prj_task (spec_file base specID ''task.json''))"

section \<open>Creating a task\<close>

definition slug_char :: "char \<Rightarrow> bool" where
  "slug_char c \<longleftrightarrow> is_lower c \<or> is_digit c"

text \<open>\<open>slugRe.ReplaceAllString(s, "-")\<close>: a maximal run of other bytes becomes one dash.\<close>

fun slug_runs :: "bool \<Rightarrow> string \<Rightarrow> string" where
  "slug_runs inrun [] = []"
| "slug_runs inrun (c # cs) =
     (if slug_char c then c # slug_runs False cs
      else if inrun then slug_runs True cs else CHR ''-'' # slug_runs True cs)"

definition slugify :: "string \<Rightarrow> string" where
  "slugify title =
     (let s1 = to_lower (trim_space title);
          s2 = slug_runs False s1;
          s3 = trim_cut ''-'' s2;
          s4 = (if s3 = [] then ''task'' else s3)
      in if length s4 > 48 then trim_cut ''-'' (take 48 s4) else s4)"

text \<open>The largest number a directory name starts with.\<close>

definition spec_bump :: "int \<Rightarrow> string \<times> bool \<Rightarrow> int" where
  "spec_bump m e =
     (if snd e then (case sscanf_d_dash (fst e) of Some n \<Rightarrow> if n > m then n else m | None \<Rightarrow> m) else m)"

definition max_spec_number :: "int \<Rightarrow> (string \<times> bool) list \<Rightarrow> int" where
  "max_spec_number m es = foldl spec_bump m es"

definition spec_id_of :: "int \<Rightarrow> string \<Rightarrow> string" where
  "spec_id_of maxN title = fmt_03d (wrap64 (maxN + 1)) @ ''-'' @ slugify title"

definition nextSpecID :: "path \<Rightarrow> string \<Rightarrow> string actE" where
  "nextSpecID base title = bindE (read_dir (base @ [''specs''])) (\<lambda>entries.
     okE (spec_id_of (max_spec_number 0 entries) title))"

definition drafted_plan :: "string \<Rightarrow> plan" where
  "drafted_plan title = zero_plan\<lparr> pl_feature := title, pl_workflowType := ''feature'',
     pl_servicesInvolved := [], pl_specFile := ''spec.md'', pl_status := ''pending'',
     pl_planStatus := ''drafted'', pl_finalAcceptance := [], pl_phases := []\<rparr>"

definition spec_text :: "string \<Rightarrow> string \<Rightarrow> string" where
  "spec_text title description = ''# '' @ title @ newline @ newline @ description @ newline"

definition new_task :: "string \<Rightarrow> string \<Rightarrow> string \<Rightarrow> string \<Rightarrow> bool \<Rightarrow> bool \<Rightarrow> string \<Rightarrow> string \<Rightarrow> time \<Rightarrow> task" where
  "new_task tid specID title description requireReview humanReview ideationID ideationType now =
     zero_task\<lparr> t_id := tid, t_specId := specID, t_title := title, t_description := description,
       t_status := ''backlog'', t_requireReview := requireReview, t_humanReview := Some humanReview,
       t_ideationId := ideationID, t_ideationTypeKey := ideationType,
       t_createdAt := now, t_updatedAt := now\<rparr>"

definition CreateTask ::
  "string \<Rightarrow> string \<Rightarrow> string \<Rightarrow> bool \<Rightarrow> bool \<Rightarrow> string \<Rightarrow> string \<Rightarrow> task actE" where
  "CreateTask pid title0 description requireReview humanReview ideationID ideationType =
     withProject pid (\<lambda>p base.
       let title = nz (trim_space title0) ''Untitled task'' in
       bindE (nextSpecID base title) (\<lambda>specID. do {
         now \<leftarrow> nowUTC;
         tid \<leftarrow> uuid_new;
         let t = new_task tid specID title description requireReview humanReview ideationID ideationType now;
         bindE (mkdir_all (spec_dir base specID)) (\<lambda>_.
         bindE (writeJSON (spec_file base specID ''task.json'') (DTask t)) (\<lambda>_. do {
           _ \<leftarrow> writeJSON (spec_file base specID ''implementation_plan.json'') (DPlan (drafted_plan title));
           _ \<leftarrow> writeJSON (spec_file base specID ''progress.json'') (DProgress zero_progress);
           _ \<leftarrow> write_file (spec_file base specID ''spec.md'') (DText (spec_text title description));
           rb \<leftarrow> readJSON KBoard prj_board (board_path base);
           let b = (case rb of Inl _ \<Rightarrow> emptyBoard | Inr b \<Rightarrow> b);
           bindE (writeJSON (board_path base) (DBoard (board_add specID b))) (\<lambda>_. okE t) })) }))"

section \<open>Updating a task\<close>

type_synonym patch = "(string \<times> json) list"

definition patch_str :: "patch \<Rightarrow> string \<Rightarrow> string option" where
  "patch_str pt k = (case map_of pt k of Some (JStr v) \<Rightarrow> Some v | _ \<Rightarrow> None)"

definition patch_bool :: "patch \<Rightarrow> string \<Rightarrow> bool option" where
  "patch_bool pt k = (case map_of pt k of Some (JBool v) \<Rightarrow> Some v | _ \<Rightarrow> None)"

definition patch_num :: "patch \<Rightarrow> string \<Rightarrow> int option" where
  "patch_num pt k = (case map_of pt k of Some (JNum v) \<Rightarrow> Some v | _ \<Rightarrow> None)"

text \<open>\<open>if v, ok := ...; ok { t = f v t }\<close>.\<close>

definition on_some :: "'v option \<Rightarrow> ('v \<Rightarrow> 'r \<Rightarrow> 'r) \<Rightarrow> 'r \<Rightarrow> 'r" where
  "on_some ov f t = (case ov of None \<Rightarrow> t | Some v \<Rightarrow> f v t)"

definition clearIssueLink :: "task \<Rightarrow> task" where
  "clearIssueLink t = t\<lparr> t_issueNumber := 0, t_issueUrl := [], t_issueState := [],
     t_issueTitle := [], t_issueAssignee := [], t_issueLabels := [], t_issueSyncedAt := None,
     t_issueSyncError := []\<rparr>"

definition applyIssuePatch :: "patch \<Rightarrow> task \<Rightarrow> task" where
  "applyIssuePatch pt t0 =
     on_some (patch_str pt ''githubIssueTitle'') (\<lambda>v t. t\<lparr>t_issueTitle := v\<rparr>)
    (on_some (patch_str pt ''githubIssueState'') (\<lambda>v t. t\<lparr>t_issueState := v\<rparr>)
    (on_some (patch_str pt ''githubIssueUrl'') (\<lambda>v t. t\<lparr>t_issueUrl := v\<rparr>)
    (on_some (patch_num pt ''githubIssueNumber'')
       (\<lambda>v t. if v \<le> 0 then clearIssueLink t else t\<lparr>t_issueNumber := v\<rparr>) t0)))"

definition apply_patch :: "patch \<Rightarrow> task \<Rightarrow> task" where
  "apply_patch pt t0 =
     applyIssuePatch pt
    (on_some (patch_str pt ''githubProjectItemId'') (\<lambda>v t. t\<lparr>t_projectItemId := trim_space v\<rparr>)
    (on_some (patch_str pt ''githubProjectId'') (\<lambda>v t. t\<lparr>t_projectId := trim_space v\<rparr>)
    (on_some (patch_str pt ''githubMilestoneUrl'') (\<lambda>v t. t\<lparr>t_milestoneUrl := v\<rparr>)
    (on_some (patch_str pt ''githubMilestoneTitle'') (\<lambda>v t. t\<lparr>t_milestoneTitle := v\<rparr>)
    (on_some (patch_num pt ''githubMilestoneNumber'')
       (\<lambda>v t. if v \<le> 0 then t\<lparr>t_milestoneNumber := 0, t_milestoneTitle := [], t_milestoneUrl := []\<rparr>
              else t\<lparr>t_milestoneNumber := v\<rparr>)
    (on_some (patch_bool pt ''humanReviewRequired'') (\<lambda>v t. t\<lparr>t_humanReview := Some v\<rparr>)
    (on_some (patch_bool pt ''requireReviewBeforeCoding'') (\<lambda>v t. t\<lparr>t_requireReview := v\<rparr>)
    (on_some (patch_str pt ''description'') (\<lambda>v t. t\<lparr>t_description := v\<rparr>)
    (on_some (patch_str pt ''title'') (\<lambda>v t. if \<not> blank v then t\<lparr>t_title := v\<rparr> else t) t0)))))))))"

definition MutateTask :: "string \<Rightarrow> string \<Rightarrow> (task \<Rightarrow> task) \<Rightarrow> task actE" where
  "MutateTask pid specID mut = withProject pid (\<lambda>p base.
     bindE (readJSON KTask prj_task (spec_file base specID ''task.json'')) (\<lambda>t. do {
       now \<leftarrow> nowUTC;
       let t' = (mut t)\<lparr>t_updatedAt := now\<rparr>;
       bindE (writeJSON (spec_file base specID ''task.json'') (DTask t')) (\<lambda>_. okE t') }))"

definition UpdateTask :: "string \<Rightarrow> string \<Rightarrow> patch \<Rightarrow> task actE" where
  "UpdateTask pid specID pt = withProject pid (\<lambda>p base.
     bindE (readJSON KTask prj_task (spec_file base specID ''task.json'')) (\<lambda>t. do {
       now \<leftarrow> nowUTC;
       let t' = (apply_patch pt t)\<lparr>t_updatedAt := now\<rparr>;
       bindE (writeJSON (spec_file base specID ''task.json'') (DTask t')) (\<lambda>_. okE t') }))"

section \<open>Moving, deleting, approving\<close>

definition MoveTask :: "string \<Rightarrow> string \<Rightarrow> string \<Rightarrow> task actE" where
  "MoveTask pid specID toStatus0 = (
     let toStatus = trim_space toStatus0 in
     failE_when (toStatus \<notin> set BoardColumns) (Errf (''invalid status '' @ quote toStatus))
       (withProject pid (\<lambda>p base.
          bindE (readJSON KTask prj_task (spec_file base specID ''task.json'')) (\<lambda>t.
          bindE (readJSON KBoard prj_board (board_path base)) (\<lambda>b. do {
            now \<leftarrow> nowUTC;
            let t' = t\<lparr>t_status := toStatus, t_updatedAt := now\<rparr>;
            bindE (writeJSON (spec_file base specID ''task.json'') (DTask t')) (\<lambda>_.
            bindE (writeJSON (board_path base) (DBoard (board_move specID toStatus b))) (\<lambda>_.
            okE t')) })))))"

definition DeleteTask :: "string \<Rightarrow> string \<Rightarrow> unit actE" where
  "DeleteTask pid specID = withProject pid (\<lambda>p base. do {
     rb \<leftarrow> readJSON KBoard prj_board (board_path base);
     _ \<leftarrow> (case rb of Inl e \<Rightarrow> okE ()
           | Inr b \<Rightarrow> writeJSON (board_path base) (DBoard (board_strip specID b)));
     remove_all (spec_dir base specID) })"

definition ApproveForCoding :: "string \<Rightarrow> string \<Rightarrow> task actE" where
  "ApproveForCoding pid specID =
     bindE (GetTask pid specID) (\<lambda>t.
     failE_when (t_status t \<noteq> ''human_review'')
       (Errf (''task must be in human_review (got '' @ quote (t_status t) @ '')''))
     (bindE (MoveTask pid specID ''queue'') (\<lambda>moved. do {
        _ \<leftarrow> withProject pid (\<lambda>p base. do {
               now \<leftarrow> nowUTC;
               writeJSON (spec_file base specID ''review_state.json'')
                 (DMap [(''approved'', JBool True), (''approved_by'', JStr ''user''),
                        (''approved_at'', JStr (rfc3339 now))]) });
        okE moved })))"

definition GetSpecMarkdown :: "string \<Rightarrow> string \<Rightarrow> string actE" where
  "GetSpecMarkdown pid specID = withProject pid (\<lambda>p base. read_text (spec_file base specID ''spec.md''))"

section \<open>Spec ids\<close>

subsection \<open>Slugs\<close>

lemma slug_runs_chars: "c \<in> set (slug_runs b s) \<Longrightarrow> slug_char c \<or> c = CHR ''-''"
  by (induction s arbitrary: b) (auto split: if_splits)

lemma slugify_chars: "c \<in> set (slugify title) \<Longrightarrow> slug_char c \<or> c = CHR ''-''"
proof -
  have task: "\<forall>c\<in>set ''task''. slug_char c" by (simp add: slug_char_def is_lower_def)
  assume "c \<in> set (slugify title)"
  then have "c \<in> set (slug_runs False (to_lower (trim_space title))) \<or> c \<in> set ''task''"
    unfolding slugify_def Let_def trim_cut_def
    by (auto split: if_splits dest!: set_trim[THEN subsetD] in_set_takeD)
  then show ?thesis using slug_runs_chars task by blast
qed

lemma slugify_length: "length (slugify title) \<le> 48"
  unfolding slugify_def Let_def trim_cut_def
  using length_trim[of _ "take 48 _"] by (auto intro: order_trans)

lemma trim_cut_dash_ends:
  "trim_cut ''-'' s = [] \<or> hd (trim_cut ''-'' s) \<noteq> CHR ''-'' \<and> last (trim_cut ''-'' s) \<noteq> CHR ''-''"
  using trim_head[of "\<lambda>c. c \<in> set ''-''" s] trim_last[of "\<lambda>c. c \<in> set ''-''" s]
  by (auto simp: trim_cut_def)

lemma trim_cut_dash_nonempty:
  assumes "s \<noteq> []" and "hd s \<noteq> CHR ''-''"
  shows "trim_cut ''-'' s \<noteq> []"
proof -
  have "trim_left (\<lambda>c. c \<in> set ''-'') s = s"
    using assms by (cases s) (auto simp: trim_left_def)
  moreover have "trim_right (\<lambda>c. c \<in> set ''-'') s \<noteq> []"
  proof
    assume "trim_right (\<lambda>c. c \<in> set ''-'') s = []"
    then have "\<forall>c\<in>set s. c = CHR ''-''" by (simp add: trim_right_def dropWhile_eq_Nil_conv)
    then show False using assms by (cases s) auto
  qed
  ultimately show ?thesis by (simp add: trim_cut_def trim_def)
qed

lemma slugify_ends:
  "slugify title \<noteq> [] \<and> hd (slugify title) \<noteq> CHR ''-'' \<and> last (slugify title) \<noteq> CHR ''-''"
proof -
  define s3 where "s3 = trim_cut ''-'' (slug_runs False (to_lower (trim_space title)))"
  define s4 where "s4 = (if s3 = [] then ''task'' else s3)"
  have s4: "s4 \<noteq> []" "hd s4 \<noteq> CHR ''-''" "last s4 \<noteq> CHR ''-''"
    using trim_cut_dash_ends[of "slug_runs False (to_lower (trim_space title))"]
    by (auto simp: s4_def s3_def)
  have "take 48 s4 \<noteq> []" "hd (take 48 s4) \<noteq> CHR ''-''" using s4 by auto
  then have "trim_cut ''-'' (take 48 s4) \<noteq> []" by (rule trim_cut_dash_nonempty)
  then have "trim_cut ''-'' (take 48 s4) \<noteq> [] \<and> hd (trim_cut ''-'' (take 48 s4)) \<noteq> CHR ''-'' \<and>
      last (trim_cut ''-'' (take 48 s4)) \<noteq> CHR ''-''"
    using trim_cut_dash_ends[of "take 48 s4"] by blast
  then show ?thesis
    using s4 unfolding slugify_def Let_def s3_def[symmetric] s4_def[symmetric] by simp
qed

subsection \<open>Fresh ids\<close>

lemma spec_bump_ge: "m \<le> spec_bump m e"
  by (auto simp: spec_bump_def split: option.splits)

lemma max_spec_number_ge: "m \<le> max_spec_number m es"
  unfolding max_spec_number_def
  by (induction es arbitrary: m) (auto intro: order_trans[OF spec_bump_ge])

lemma max_spec_number_bound:
  "(name, True) \<in> set es \<Longrightarrow> sscanf_d_dash name = Some n \<Longrightarrow> n \<le> max_spec_number m es"
proof (induction es arbitrary: m)
  case (Cons e es)
  have rest: "max_spec_number m (e # es) = max_spec_number (spec_bump m e) es"
    by (simp add: max_spec_number_def)
  show ?case
  proof (cases "e = (name, True)")
    case True
    then have "n \<le> spec_bump m e" using Cons.prems by (simp add: spec_bump_def)
    then show ?thesis using max_spec_number_ge[of "spec_bump m e" es] rest by simp
  next
    case False
    then show ?thesis using Cons rest by auto
  qed
qed simp

lemma spec_id_scans:
  assumes "0 \<le> m" and "m < int64_max"
  shows "sscanf_d_dash (spec_id_of m title) = Some (m + 1)"
  using assms sscanf_fmt_03d[of "m + 1" "slugify title"]
  by (simp add: spec_id_of_def wrap64_id int64_max_def)

lemma spec_id_fresh:
  assumes "max_spec_number 0 es < int64_max"
  shows "(spec_id_of (max_spec_number 0 es) title, True) \<notin> set es"
proof
  assume "(spec_id_of (max_spec_number 0 es) title, True) \<in> set es"
  moreover have "sscanf_d_dash (spec_id_of (max_spec_number 0 es) title) = Some (max_spec_number 0 es + 1)"
    using assms max_spec_number_ge[of 0 es] by (rule spec_id_scans[rotated])
  ultimately have "max_spec_number 0 es + 1 \<le> max_spec_number 0 es"
    by (rule max_spec_number_bound)
  then show False by simp
qed

lemma fmt_03d_chars: "c \<in> set (fmt_03d i) \<Longrightarrow> is_digit c \<or> c = CHR ''-''"
  using pad_zero_digits[OF itoa_nat_digits] by (auto simp: fmt_03d_def list_all_iff split: if_splits)

lemma length_fmt_03d: "3 \<le> length (fmt_03d i)"
  using length_pad_zero[of 2 "itoa_nat (nat (- i))"] length_pad_zero[of 3 "itoa_nat (nat i)"]
  by (auto simp: fmt_03d_def)

lemma spec_id_plain: "plain (spec_id_of m title)"
proof -
  have "CHR ''/'' \<notin> set (spec_id_of m title)"
    using slugify_chars[of "CHR ''/''" title] fmt_03d_chars[of "CHR ''/''" "wrap64 (m + 1)"]
    by (auto simp: spec_id_of_def slug_char_def is_lower_def is_digit_def)
  moreover have "length s \<ge> 4 \<Longrightarrow> s \<noteq> [] \<and> s \<noteq> ''.'' \<and> s \<noteq> ''..''" for s :: string
    by auto
  moreover have "length (spec_id_of m title) \<ge> 4"
    using length_fmt_03d[of "wrap64 (m + 1)"] by (simp add: spec_id_of_def)
  ultimately show ?thesis unfolding plain_def by simp
qed

lemma yields_nextSpecID: "yields plain (nextSpecID base title)"
  by (auto simp: yields_def nextSpecID_def run spec_id_plain split: prod.splits sum.splits)

end
