(* ===== verification/Board_Laws.thy ===== *)
theory Board_Laws
  imports Board_Store
begin

text \<open>
  What the task operations do to a project that is ready: each run computed on its
  documents, the consistency of board and tasks that every operation keeps, and the
  abstract board they implement.
\<close>

section \<open>The documents of a project\<close>

definition home :: "world \<Rightarrow> string \<Rightarrow> path" where
  "home w pid = data_dir w @ [''projects'', pid]"

definition task_path :: "world \<Rightarrow> string \<Rightarrow> string \<Rightarrow> path" where
  "task_path w pid sid = home w pid @ [''specs'', sid, ''task.json'']"

definition task_at :: "world \<Rightarrow> string \<Rightarrow> string \<Rightarrow> task option" where
  "task_at w pid sid = (case look w (task_path w pid sid) of Some (File (DTask t)) \<Rightarrow> Some t | _ \<Rightarrow> None)"

definition board_at :: "world \<Rightarrow> string \<Rightarrow> board option" where
  "board_at w pid = (case look w (board_path (home w pid)) of Some (File (DBoard b)) \<Rightarrow> Some b | _ \<Rightarrow> None)"

lemma task_at_look: "task_at w pid sid = Some t \<longleftrightarrow> look w (task_path w pid sid) = Some (File (DTask t))"
  by (auto simp: task_at_def split: option.splits node.splits doc.splits)

lemma board_at_look: "board_at w pid = Some b \<longleftrightarrow> look w (board_path (home w pid)) = Some (File (DBoard b))"
  by (auto simp: board_at_def split: option.splits node.splits doc.splits)

lemma ready_home: "ready w pid p \<Longrightarrow> projectDir w p = home w pid"
  by (simp add: ready_projectDir home_def)

lemma ready_wf: "ready w pid p \<Longrightarrow> fs_wf w"
  by (simp add: ready_def)

lemma ready_faults: "ready w pid p \<Longrightarrow> faults w = []"
  by (simp add: ready_def)

lemma ready_home_dir: "ready w pid p \<Longrightarrow> look w (home w pid) = Some Dir"
  by (frule ready_home) (auto simp: layout_ok_def layout_dirs_def dir_ok_look elim: ready_D)

lemma spec_file_plain: "plain sid \<Longrightarrow> plain name \<Longrightarrow> spec_file base sid name = base @ [''specs'', sid, name]"
  by (simp add: spec_file_def)

lemma spec_dir_plain: "plain sid \<Longrightarrow> spec_dir base sid = base @ [''specs'', sid]"
  by (simp add: spec_dir_def)

lemma run_withProject_home:
  "ready w pid p \<Longrightarrow> run_state (withProject pid fn) w = run_state (fn p (home w pid)) w"
  by (simp add: run_withProject_ready ready_home)

lemma run_writeJSON_wf:
  assumes "fs_wf w" and "faults w = []" and "look w (butlast q) = Some Dir" and "look w q \<noteq> Some Dir"
  shows "run_state (writeJSON q d) w = (Inr (), put_node q (File d) w)"
  using assms by (simp add: run_writeJSON_ok fs_wf_dir_ok)

lemma home_sel [simp]:
  "home (w\<lparr>ticks := n\<rparr>) pid = home w pid" "home (w\<lparr>uuids := n\<rparr>) pid = home w pid"
  "home (w\<lparr>spawned := js\<rparr>) pid = home w pid"
  "home (put_node q nd w) pid = home w pid"
  by (simp_all add: home_def)

lemma task_path_sel [simp]:
  "task_path (w\<lparr>ticks := n\<rparr>) pid sid = task_path w pid sid"
  "task_path (w\<lparr>uuids := n\<rparr>) pid sid = task_path w pid sid"
  "task_path (w\<lparr>spawned := js\<rparr>) pid sid = task_path w pid sid"
  "task_path (put_node q nd w) pid sid = task_path w pid sid"
  by (simp_all add: task_path_def)

lemma paths_distinct [simp]:
  "task_path w pid sid \<noteq> []" "board_path b \<noteq> []"
  "task_path w pid sid \<noteq> board_path (home w pid)" "board_path (home w pid) \<noteq> task_path w pid sid"
  "task_path w pid sid \<noteq> registryPath w" "board_path (home w pid) \<noteq> registryPath w"
  "task_path w pid sid = task_path w pid sid' \<longleftrightarrow> sid = sid'"
  by (auto simp: task_path_def board_path_def home_def registryPath_def)

lemma task_dir:
  assumes "fs_wf w" and "task_at w pid sid = Some t"
  shows "look w (home w pid @ [''specs'', sid]) = Some Dir"
  using assms fs_wf_parent[of w "home w pid @ [''specs'', sid]" "''task.json''"]
  by (simp add: task_at_look task_path_def)

lemma task_at_ticks [simp]: "task_at (w\<lparr>ticks := n\<rparr>) pid sid = task_at w pid sid"
  by (simp add: task_at_def)

lemma board_at_ticks [simp]: "board_at (w\<lparr>ticks := n\<rparr>) pid = board_at w pid"
  by (simp add: board_at_def)

text \<open>How the documents change under the two writes of a task operation.\<close>

lemma task_at_put_task:
  "task_at (put_node (task_path w pid sid) (File (DTask t)) v) pid sid' =
     (if sid' = sid then Some t else task_at v pid sid')" if "data_dir v = data_dir w"
  using that by (simp add: task_at_def look_put_node) (simp add: task_path_def home_def)

lemma task_at_put_board:
  "task_at (put_node (board_path (home w pid)) n v) pid sid = task_at v pid sid" if "data_dir v = data_dir w"
  using that by (simp add: task_at_def look_put_node) (simp add: task_path_def home_def board_path_def)

lemma board_at_put_task:
  "board_at (put_node (task_path w pid sid) n v) pid = board_at v pid" if "data_dir v = data_dir w"
  using that by (simp add: board_at_def look_put_node) (simp add: task_path_def home_def board_path_def)

lemma board_at_put_board:
  "board_at (put_node (board_path (home w pid)) (File (DBoard b)) v) pid = Some b" if "data_dir v = data_dir w"
  using that by (simp add: board_at_def look_put_node) (simp add: home_def board_path_def)

section \<open>Reading\<close>

lemma run_GetTask:
  assumes "ready w pid p" and "plain sid" and "task_at w pid sid = Some t"
  shows "run_state (GetTask pid sid) w = (Inr t, w)"
  using assms
  by (simp add: GetTask_def run_withProject_home spec_file_plain task_at_look task_path_def
      run_readJSON_File doc_kind_of_def)

lemma run_GetBoard:
  assumes "ready w pid p" and "board_at w pid = Some b"
  shows "run_state (GetBoard pid) w = (Inr (board_view b), w)"
  using assms
  by (simp add: GetBoard_def run run_withProject_home board_at_look run_readJSON_File doc_kind_of_def)

lemma run_GetTask_missing:
  assumes "ready w pid p" and "plain sid" and "look w (task_path w pid sid) = None"
  shows "run_state (GetTask pid sid) w = (Inl NotExist, w)"
  using assms
  by (simp add: GetTask_def run_withProject_home spec_file_plain task_path_def run_readJSON_None)

section \<open>Moving\<close>

definition move_task :: "task \<Rightarrow> string \<Rightarrow> time \<Rightarrow> task" where
  "move_task t c now = t\<lparr>t_status := c, t_updatedAt := now\<rparr>"

definition after_move :: "world \<Rightarrow> string \<Rightarrow> string \<Rightarrow> string \<Rightarrow> task \<Rightarrow> board \<Rightarrow> world" where
  "after_move w pid sid c t b =
     put_node (board_path (home w pid)) (File (DBoard (board_move sid c b)))
       (put_node (task_path w pid sid) (File (DTask (move_task t c (clock_at w (ticks w)))))
          (w\<lparr>ticks := Suc (ticks w)\<rparr>))"

lemma run_MoveTask:
  assumes r: "ready w pid p" and sid: "plain sid"
    and t: "task_at w pid sid = Some t" and b: "board_at w pid = Some b"
    and c: "trim_space c0 = c" "c \<in> set BoardColumns"
  shows "run_state (MoveTask pid sid c0) w =
           (Inr (move_task t c (clock_at w (ticks w))), after_move w pid sid c t b)"
proof -
  let ?w1 = "w\<lparr>ticks := Suc (ticks w)\<rparr>"
  let ?w2 = "put_node (task_path w pid sid) (File (DTask (move_task t c (clock_at w (ticks w))))) ?w1"
  have wf: "fs_wf ?w1" and f: "faults ?w1 = []" using r by (simp_all add: ready_def)
  have td: "look w (home w pid @ [''specs'', sid]) = Some Dir" using task_dir ready_wf[OF r] t by blast
  have lt: "look w (task_path w pid sid) = Some (File (DTask t))" using t by (simp add: task_at_look)
  have lb: "look w (board_path (home w pid)) = Some (File (DBoard b))" using b by (simp add: board_at_look)
  have bt: "butlast (task_path w pid sid) = home w pid @ [''specs'', sid]"
    and bb: "butlast (board_path (home w pid)) = home w pid"
    by (simp_all add: task_path_def board_path_def butlast_append)
  have w1: "run_state (writeJSON (task_path w pid sid) (DTask (move_task t c (clock_at w (ticks w))))) ?w1 = (Inr (), ?w2)"
    by (rule run_writeJSON_wf) (use wf f td lt bt in simp_all)
  have wf2: "fs_wf ?w2"
    by (rule fs_wf_put_file) (use wf td lt bt in simp_all)
  have "look w (home w pid) = Some Dir" using r by (rule ready_home_dir)
  then have hd2: "look ?w2 (home w pid) = Some Dir"
    by (simp add: look_put_node) (simp add: task_path_def)
  have w2: "run_state (writeJSON (board_path (home w pid)) (DBoard (board_move sid c b))) ?w2 =
      (Inr (), after_move w pid sid c t b)"
    unfolding after_move_def
    by (rule run_writeJSON_wf) (use wf2 f hd2 lb bb in \<open>simp_all add: look_put_node\<close>)
  show ?thesis
    using r sid c lt lb w1 w2
    by (simp add: MoveTask_def run run_withProject_home spec_file_plain Let_def
        task_path_def[symmetric] run_readJSON_File doc_kind_of_def move_task_def)
qed

lemma run_MoveTask_invalid:
  "trim_space c0 \<notin> set BoardColumns \<Longrightarrow>
   run_state (MoveTask pid sid c0) w = (Inl (Errf (''invalid status '' @ quote (trim_space c0))), w)"
  by (simp add: MoveTask_def run Let_def)

lemma after_move_docs:
  "task_at (after_move w pid sid c t b) pid sid' =
     (if sid' = sid then Some (move_task t c (clock_at w (ticks w))) else task_at w pid sid')"
  "board_at (after_move w pid sid c t b) pid = Some (board_move sid c b)"
  by (simp_all add: after_move_def task_at_put_board task_at_put_task board_at_put_board)

lemma after_move_ready:
  assumes r: "ready w pid p" and t: "task_at w pid sid = Some t" and b: "board_at w pid = Some b"
  shows "ready (after_move w pid sid c t b) pid p"
proof -
  let ?w1 = "w\<lparr>ticks := Suc (ticks w)\<rparr>"
  let ?w2 = "put_node (task_path w pid sid) (File (DTask (move_task t c (clock_at w (ticks w))))) ?w1"
  have r2: "ready ?w2 pid p"
    by (rule ready_put_file)
       (use r t task_dir[OF ready_wf[OF r] t] in \<open>simp_all add: task_at_look task_path_def butlast_append registryPath_def home_def\<close>)
  have d2: "look ?w2 (home w pid) = Some Dir"
    using ready_home_dir[OF r] by (simp add: look_put_node) (simp add: task_path_def)
  have b2: "look ?w2 (board_path (home w pid)) = Some (File (DBoard b))"
    using b by (simp add: look_put_node board_at_look)
  show ?thesis
    unfolding after_move_def
    by (rule ready_put_file)
       (use r2 d2 b2 in \<open>simp_all add: board_path_def butlast_append registryPath_def home_def\<close>)
qed

section \<open>Creating\<close>

definition spec_ids :: "world \<Rightarrow> string \<Rightarrow> (string \<times> bool) list" where
  "spec_ids w pid =
     map (\<lambda>n. (n, look w (home w pid @ [''specs''] @ [n]) = Some Dir)) (children w (home w pid @ [''specs'']))"

definition new_spec_id :: "world \<Rightarrow> string \<Rightarrow> string \<Rightarrow> string" where
  "new_spec_id w pid title = spec_id_of (max_spec_number 0 (spec_ids w pid)) title"

text \<open>The numbering has room, and no plain file sits where the new directory goes.\<close>

definition room :: "world \<Rightarrow> string \<Rightarrow> string \<Rightarrow> bool" where
  "room w pid title \<longleftrightarrow> max_spec_number 0 (spec_ids w pid) < int64_max \<and>
     \<not> is_file w (home w pid @ [''specs'', new_spec_id w pid title])"

lemma new_spec_id_plain: "plain (new_spec_id w pid title)"
  unfolding new_spec_id_def by (rule spec_id_plain)

lemma new_spec_dir_absent:
  assumes "room w pid title"
  shows "look w (home w pid @ [''specs'', new_spec_id w pid title]) = None"
proof -
  let ?x = "new_spec_id w pid title"
  have "(?x, True) \<notin> set (spec_ids w pid)"
    using assms spec_id_fresh unfolding room_def new_spec_id_def by blast
  then have "look w (home w pid @ [''specs'', ?x]) \<noteq> Some Dir"
    by (auto simp: spec_ids_def set_children image_iff)
  moreover have "look w (home w pid @ [''specs'', ?x]) \<noteq> Some (File d)" for d
    using assms by (auto simp: room_def is_file_def)
  ultimately show ?thesis by (metis node.exhaust not_None_eq)
qed

lemma new_spec_no_task:
  assumes "ready w pid p" and "room w pid title"
  shows "look w (home w pid @ [''specs'', new_spec_id w pid title, x]) = None"
  using fs_wf_no_child[OF ready_wf[OF assms(1)], of "home w pid @ [''specs'', new_spec_id w pid title]" x]
    new_spec_dir_absent[OF assms(2)] by simp

definition after_create ::
  "world \<Rightarrow> string \<Rightarrow> string \<Rightarrow> string \<Rightarrow> string \<Rightarrow> task \<Rightarrow> board \<Rightarrow> world" where
  "after_create w pid sid title description t b =
     (let d = home w pid @ [''specs'', sid];
          w1 = w\<lparr>ticks := Suc (ticks w), uuids := Suc (uuids w)\<rparr>;
          w2 = put_node d Dir w1;
          w3 = put_node (task_path w pid sid) (File (DTask t)) w2;
          w4 = put_node (d @ [''implementation_plan.json'']) (File (DPlan (drafted_plan title))) w3;
          w5 = put_node (d @ [''progress.json'']) (File (DProgress zero_progress)) w4;
          w6 = put_node (d @ [''spec.md'']) (File (DText (spec_text title description))) w5
      in put_node (board_path (home w pid)) (File (DBoard (board_add sid b))) w6)"

lemma run_CreateTask:
  fixes description iid ity :: string and rr hr :: bool
  assumes r: "ready w pid p" and b: "board_at w pid = Some b"
    and title: "title = nz (trim_space title0) ''Untitled task''" and room: "room w pid title"
  defines "sid \<equiv> new_spec_id w pid title"
  defines "t \<equiv> new_task (uuid_at w (uuids w)) sid title description rr hr iid ity (clock_at w (ticks w))"
  shows "run_state (CreateTask pid title0 description rr hr iid ity) w =
           (Inr t, after_create w pid sid title description t b)"
proof -
  let ?H = "home w pid"
  let ?d = "?H @ [''specs'', sid]"
  let ?w1 = "w\<lparr>ticks := Suc (ticks w), uuids := Suc (uuids w)\<rparr>"
  let ?w2 = "put_node ?d Dir ?w1"
  let ?w3 = "put_node (task_path w pid sid) (File (DTask t)) ?w2"
  let ?w4 = "put_node (?d @ [''implementation_plan.json'']) (File (DPlan (drafted_plan title))) ?w3"
  let ?w5 = "put_node (?d @ [''progress.json'']) (File (DProgress zero_progress)) ?w4"
  let ?w6 = "put_node (?d @ [''spec.md'']) (File (DText (spec_text title description))) ?w5"
  note absent = new_spec_dir_absent[OF room] new_spec_no_task[OF r room]
  have pl: "plain sid" using new_spec_id_plain by (simp add: sid_def)
  have specs: "look w (?H @ [''specs'']) = Some Dir"
    using r ready_home[OF r] by (auto simp: layout_ok_def layout_dirs_def dir_ok_look elim!: ready_D)
  have none: "look w ?d = None" "look w (?d @ [x]) = None" for x
    using absent by (simp_all add: sid_def)
  have bl: "look w (board_path ?H) = Some (File (DBoard b))" using b by (simp add: board_at_look)
  have hd: "look w ?H = Some Dir" using r by (rule ready_home_dir)
  have f: "faults w = []" using r by (rule ready_faults)
  have lt: "task_path w pid sid = ?d @ [''task.json'']" by (simp add: task_path_def)
  have s2: "run_state (mkdir_all ?d) ?w1 = (Inr (), ?w2)"
    using run_mkdir_new[of ?w1 "?H @ [''specs'']" sid] ready_wf[OF r] f specs none by simp
  have wf2: "fs_wf ?w2" using wf_run[OF wf_mkdir_all _ s2] ready_wf[OF r] by simp
  have s3: "run_state (writeJSON (task_path w pid sid) (DTask t)) ?w2 = (Inr (), ?w3)"
    using none wf2 f by (intro run_writeJSON_wf) (simp_all add: lt look_put_node butlast_append)
  have wf3: "fs_wf ?w3" by (rule wf_run[OF wf_writeJSON wf2 s3])
  have s4: "run_state (writeJSON (?d @ [''implementation_plan.json'']) (DPlan (drafted_plan title))) ?w3 = (Inr (), ?w4)"
    using none wf3 f by (intro run_writeJSON_wf) (simp_all add: lt look_put_node butlast_append)
  have wf4: "fs_wf ?w4" by (rule wf_run[OF wf_writeJSON wf3 s4])
  have s5: "run_state (writeJSON (?d @ [''progress.json'']) (DProgress zero_progress)) ?w4 = (Inr (), ?w5)"
    using none wf4 f by (intro run_writeJSON_wf) (simp_all add: lt look_put_node butlast_append)
  have wf5: "fs_wf ?w5" by (rule wf_run[OF wf_writeJSON wf4 s5])
  have s6: "run_state (write_file (?d @ [''spec.md'']) (DText (spec_text title description))) ?w5 = (Inr (), ?w6)"
    using none by (intro run_write_file_ok) (simp_all add: f lt look_put_node butlast_append)
  have wf6: "fs_wf ?w6" by (rule wf_run[OF wf_write_file wf5 s6])
  have bl6: "look ?w6 (board_path ?H) = Some (File (DBoard b))"
    using bl by (simp add: look_put_node lt board_path_def)
  have s7: "run_state (writeJSON (board_path ?H) (DBoard (board_add sid b))) ?w6 =
      (Inr (), after_create w pid sid title description t b)"
    unfolding after_create_def Let_def
    by (rule run_writeJSON_wf)
       (use wf6 f hd bl6 in \<open>simp_all add: look_put_node lt board_path_def butlast_append\<close>)
  have rd: "run_state (read_dir (?H @ [''specs''])) w = (Inr (spec_ids w pid), w)"
    using specs by (simp add: run spec_ids_def)
  have rb: "run_state (readJSON KBoard prj_board (board_path ?H)) ?w6 = (Inr b, ?w6)"
    using bl6 by (simp add: run_readJSON_File doc_kind_of_def)
  show ?thesis
    using r pl s2 s3 s4 s5 s6 s7 rd rb
    by (simp add: CreateTask_def run run_withProject_home nextSpecID_def Let_def
        spec_file_plain spec_dir_plain title[symmetric] new_spec_id_def[symmetric] sid_def[symmetric]
        t_def[symmetric] lt)
qed

lemma after_create_docs:
  "task_at (after_create w pid sid title description t b) pid sid' =
     (if sid' = sid then Some t else task_at w pid sid')"
  "board_at (after_create w pid sid title description t b) pid = Some (board_add sid b)"
proof -
  have other: "look (after_create w pid sid title description t b) (task_path w pid sid') =
      look w (task_path w pid sid')" if "sid' \<noteq> sid"
    using that by (simp add: after_create_def Let_def look_put_node) (simp add: task_path_def board_path_def)
  have self: "look (after_create w pid sid title description t b) (task_path w pid sid) = Some (File (DTask t))"
    by (simp add: after_create_def Let_def look_put_node) (simp add: task_path_def)
  have hm: "task_path (after_create w pid sid title description t b) pid s = task_path w pid s"
    "home (after_create w pid sid title description t b) pid = home w pid" for s
    by (simp_all add: after_create_def Let_def)
  show "task_at (after_create w pid sid title description t b) pid sid' =
     (if sid' = sid then Some t else task_at w pid sid')"
    using other self by (simp add: task_at_def hm)
  show "board_at (after_create w pid sid title description t b) pid = Some (board_add sid b)"
    unfolding board_at_def hm by (simp add: after_create_def Let_def look_put_node)
qed

section \<open>Deleting\<close>

definition after_delete :: "world \<Rightarrow> string \<Rightarrow> string \<Rightarrow> board \<Rightarrow> world" where
  "after_delete w pid sid b =
     (let w1 = put_node (board_path (home w pid)) (File (DBoard (board_strip sid b))) w
      in w1\<lparr>fs := filter (\<lambda>(q, _). \<not> is_under (home w pid @ [''specs'', sid]) q) (fs w1)\<rparr>)"

lemma run_DeleteTask:
  assumes r: "ready w pid p" and sid: "plain sid" and b: "board_at w pid = Some b"
  shows "run_state (DeleteTask pid sid) w = (Inr (), after_delete w pid sid b)"
proof -
  have lb: "look w (board_path (home w pid)) = Some (File (DBoard b))" using b by (simp add: board_at_look)
  have "run_state (writeJSON (board_path (home w pid)) (DBoard (board_strip sid b))) w =
      (Inr (), put_node (board_path (home w pid)) (File (DBoard (board_strip sid b))) w)"
    by (rule run_writeJSON_wf)
       (use r lb ready_home_dir[OF r] in \<open>simp_all add: ready_wf ready_faults board_path_def butlast_append\<close>)
  then show ?thesis
    using r sid lb
    by (simp add: DeleteTask_def run run_withProject_home run_readJSON_File doc_kind_of_def
        remove_all_def spec_dir_plain ready_faults after_delete_def Let_def)
qed

lemma after_delete_docs:
  "task_at (after_delete w pid sid b) pid sid' = (if sid' = sid then None else task_at w pid sid')"
  "board_at (after_delete w pid sid b) pid = Some (board_strip sid b)"
proof -
  let ?w = "after_delete w pid sid b"
  have hm: "task_path ?w pid s = task_path w pid s" "home ?w pid = home w pid" for s
    by (simp_all add: after_delete_def Let_def task_path_def home_def)
  have lk: "look ?w q = (if is_under (home w pid @ [''specs'', sid]) q then None
      else if q = board_path (home w pid) then Some (File (DBoard (board_strip sid b))) else look w q)"
    if "q \<noteq> []" for q
    using that look_put_node[of "board_path (home w pid)" "File (DBoard (board_strip sid b))" w q]
    by (simp add: after_delete_def Let_def look_def map_of_filter_path)
  show "task_at ?w pid sid' = (if sid' = sid then None else task_at w pid sid')"
    unfolding task_at_def hm by (simp add: lk is_under_iff) (auto simp: task_path_def)
  show "board_at ?w pid = Some (board_strip sid b)"
    unfolding board_at_def hm by (simp add: lk is_under_iff) (simp add: board_path_def)
qed

section \<open>The board and the tasks agree\<close>

text \<open>Every stored task is in the column its status names and knows its own id; a card
  without a task is nowhere; no card is in two places.\<close>

definition card_ok :: "world \<Rightarrow> string \<Rightarrow> kanban \<Rightarrow> string \<Rightarrow> bool" where
  "card_ok w pid K sid \<longleftrightarrow>
     (case task_at w pid sid of
        None \<Rightarrow> sid \<notin> set (k_cards K)
      | Some t \<Rightarrow> t_specId t = sid \<and>
          (case column_of (t_status t) of None \<Rightarrow> False | Some c \<Rightarrow> sid \<in> set (K c)))"

definition consistent :: "world \<Rightarrow> string \<Rightarrow> bool" where
  "consistent w pid \<longleftrightarrow>
     (case board_at w pid of
        None \<Rightarrow> False
      | Some b \<Rightarrow> k_wf (kanban_of b) \<and> (\<forall>sid. plain sid \<longrightarrow> card_ok w pid (kanban_of b) sid))"

lemma consistent_D:
  assumes "consistent w pid"
  obtains b where "board_at w pid = Some b" and "k_wf (kanban_of b)"
    and "\<And>sid. plain sid \<Longrightarrow> card_ok w pid (kanban_of b) sid"
  using assms by (auto simp: consistent_def split: option.splits)

lemma card_ok_other:
  assumes "card_ok w pid K sid" and "task_at w' pid sid = task_at w pid sid"
    and "\<And>c. sid \<in> set (K' c) \<longleftrightarrow> sid \<in> set (K c)"
  shows "card_ok w' pid K' sid"
proof (cases "task_at w pid sid")
  case None
  then show ?thesis using assms by (simp add: card_ok_def set_k_cards)
next
  case (Some t)
  then show ?thesis using assms by (cases "column_of (t_status t)") (simp_all add: card_ok_def)
qed

lemma k_put_member: "s \<in> set (k_put d x K c) \<longleftrightarrow> s \<in> set (K c) \<or> (s = x \<and> c = d)"
  by (auto simp: k_put_def)

lemma k_take_member: "s \<in> set (k_take x K c) \<longleftrightarrow> s \<in> set (K c) \<and> s \<noteq> x"
  by (auto simp: k_take_def)

lemma consistent_after_move:
  assumes c: "consistent w pid" and t: "task_at w pid sid = Some t" and b: "board_at w pid = Some b"
    and sid: "plain sid" and col: "k = column_name d"
  shows "consistent (after_move w pid sid k t b) pid"
proof -
  have K: "kanban_of (board_move sid k b) = k_put d sid (k_take sid (kanban_of b))"
    by (simp add: col kanban_of_move)
  have wf: "k_wf (kanban_of b)" and ok: "\<And>s. plain s \<Longrightarrow> card_ok w pid (kanban_of b) s"
    using c b by (auto elim: consistent_D)
  have "card_ok (after_move w pid sid k t b) pid (k_put d sid (k_take sid (kanban_of b))) s" if "plain s" for s
  proof (cases "s = sid")
    case True
    then show ?thesis
      using ok[OF sid] t by (simp add: card_ok_def after_move_docs move_task_def col k_put_member)
  next
    case False
    then show ?thesis
      by (intro card_ok_other[OF ok[OF that]]) (simp_all add: after_move_docs k_put_member k_take_member)
  qed
  then show ?thesis
    by (simp add: consistent_def after_move_docs K k_wf_put k_wf_take wf not_in_take)
qed

lemma consistent_after_create:
  assumes c: "consistent w pid" and b: "board_at w pid = Some b" and sid: "plain sid"
    and none: "task_at w pid sid = None" and t: "t_specId t = sid" "t_status t = ''backlog''"
  shows "consistent (after_create w pid sid title description t b) pid"
proof -
  have wf: "k_wf (kanban_of b)" and ok: "\<And>s. plain s \<Longrightarrow> card_ok w pid (kanban_of b) s"
    using c b by (auto elim: consistent_D)
  have fresh: "sid \<notin> set (k_cards (kanban_of b))" using ok[OF sid] none by (simp add: card_ok_def)
  have "card_ok (after_create w pid sid title description t b) pid (k_put Backlog sid (kanban_of b)) s"
    if "plain s" for s
  proof (cases "s = sid")
    case True
    have "column_of ''backlog'' = Some Backlog" using column_of_name[of Backlog] by simp
    then show ?thesis using True t by (simp add: card_ok_def after_create_docs k_put_member)
  next
    case False
    then show ?thesis
      by (intro card_ok_other[OF ok[OF that]]) (simp_all add: after_create_docs k_put_member)
  qed
  then show ?thesis
    by (simp add: consistent_def after_create_docs kanban_of_add k_wf_put wf fresh)
qed

lemma consistent_after_delete:
  assumes c: "consistent w pid" and b: "board_at w pid = Some b" and sid: "plain sid"
  shows "consistent (after_delete w pid sid b) pid"
proof -
  have wf: "k_wf (kanban_of b)" and ok: "\<And>s. plain s \<Longrightarrow> card_ok w pid (kanban_of b) s"
    using c b by (auto elim: consistent_D)
  have "card_ok (after_delete w pid sid b) pid (k_take sid (kanban_of b)) s" if "plain s" for s
  proof (cases "s = sid")
    case True
    then show ?thesis using not_in_take by (simp add: card_ok_def after_delete_docs)
  next
    case False
    then show ?thesis
      by (intro card_ok_other[OF ok[OF that]]) (simp_all add: after_delete_docs k_take_member)
  qed
  then show ?thesis
    by (simp add: consistent_def after_delete_docs kanban_of_strip k_wf_take wf)
qed

section \<open>Readiness after creating and deleting\<close>

lemma after_create_ready:
  assumes r: "ready w pid p" and b: "board_at w pid = Some b"
    and none: "look w (home w pid @ [''specs'', sid]) = None"
  shows "ready (after_create w pid sid title description t b) pid p"
proof -
  let ?H = "home w pid"
  let ?d = "?H @ [''specs'', sid]"
  let ?w1 = "w\<lparr>ticks := Suc (ticks w), uuids := Suc (uuids w)\<rparr>"
  let ?w2 = "put_node ?d Dir ?w1"
  let ?w3 = "put_node (task_path w pid sid) (File (DTask t)) ?w2"
  let ?w4 = "put_node (?d @ [''implementation_plan.json'']) (File (DPlan (drafted_plan title))) ?w3"
  let ?w5 = "put_node (?d @ [''progress.json'']) (File (DProgress zero_progress)) ?w4"
  let ?w6 = "put_node (?d @ [''spec.md'']) (File (DText (spec_text title description))) ?w5"
  have lt: "task_path w pid sid = ?d @ [''task.json'']" by (simp add: task_path_def)
  have reg: "registryPath w \<noteq> ?H @ x # xs" for x xs by (simp add: registryPath_def home_def)
  have specs: "look w (?H @ [''specs'']) = Some Dir"
    using r ready_home[OF r] by (auto simp: layout_ok_def layout_dirs_def dir_ok_look elim!: ready_D)
  have none': "look w (?d @ [x]) = None" for x
    using fs_wf_no_child[OF ready_wf[OF r], of ?d x] none by simp
  have hd: "look w ?H = Some Dir" using r by (rule ready_home_dir)
  have bl: "look w (board_path ?H) = Some (File (DBoard b))" using b by (simp add: board_at_look)
  have r2: "ready ?w2 pid p"
    by (rule ready_put_dir) (use r specs none in \<open>simp_all add: butlast_append\<close>)
  have r3: "ready ?w3 pid p"
    by (rule ready_put_file[OF r2])
       (use none' reg in \<open>simp_all add: lt look_put_node butlast_append not_sym\<close>)
  have r4: "ready ?w4 pid p"
    by (rule ready_put_file[OF r3])
       (use none' reg in \<open>simp_all add: lt look_put_node butlast_append not_sym\<close>)
  have r5: "ready ?w5 pid p"
    by (rule ready_put_file[OF r4])
       (use none' reg in \<open>simp_all add: lt look_put_node butlast_append not_sym\<close>)
  have r6: "ready ?w6 pid p"
    by (rule ready_put_file[OF r5])
       (use none' reg in \<open>simp_all add: lt look_put_node butlast_append not_sym\<close>)
  show ?thesis
    unfolding after_create_def Let_def
    by (rule ready_put_file[OF r6])
       (use hd bl reg in \<open>simp_all add: lt look_put_node butlast_append not_sym board_path_def\<close>)
qed

lemma after_delete_ready:
  assumes r: "ready w pid p" and b: "board_at w pid = Some b"
  shows "ready (after_delete w pid sid b) pid p"
proof -
  let ?H = "home w pid"
  let ?w1 = "put_node (board_path ?H) (File (DBoard (board_strip sid b))) w"
  have "ready ?w1 pid p"
    by (rule ready_put_file)
       (use r b ready_home_dir[OF r] in \<open>simp_all add: board_at_look board_path_def butlast_append registryPath_def home_def\<close>)
  moreover have wf: "fs_wf (after_delete w pid sid b)"
  proof -
    have "run_state (remove_all (?H @ [''specs'', sid])) ?w1 = (Inr (), after_delete w pid sid b)"
      using ready_faults[OF r] by (simp add: remove_all_def after_delete_def Let_def)
    then show ?thesis using wf_run[OF wf_remove_all] \<open>ready ?w1 pid p\<close> ready_wf by blast
  qed
  moreover have lk: "look (after_delete w pid sid b) q = look ?w1 q"
    if "\<not> is_under (?H @ [''specs'', sid]) q" for q
    using that by (simp add: after_delete_def Let_def look_def map_of_filter_path)
  moreover have env: "projectDir (after_delete w pid sid b) p = ?H" "registryPath (after_delete w pid sid b) = registryPath w"
    "faults (after_delete w pid sid b) = []"
    using ready_home[OF r] ready_faults[OF r]
    by (simp_all add: after_delete_def Let_def projectDir_def registryPath_def)
  moreover have "layout_ok (after_delete w pid sid b) ?H"
  proof -
    have "layout_ok ?w1 ?H" using \<open>ready ?w1 pid p\<close> ready_home[OF r] by (simp add: ready_def)
    then have ld: "\<And>q. q \<in> set (layout_dirs ?H) \<Longrightarrow> look ?w1 q = Some Dir"
      and lf: "\<And>q. q \<in> set (layout_files ?H) \<Longrightarrow> look ?w1 q \<noteq> None"
      by (auto simp: layout_ok_def list_all_iff dir_ok_look)
    have nu: "\<not> is_under (?H @ [''specs'', sid]) q" if "q \<in> set (layout_dirs ?H) \<union> set (layout_files ?H)" for q
      using that by (auto simp: layout_dirs_def layout_files_def is_under_iff)
    show ?thesis
      unfolding layout_ok_def list_all_iff using ld lf nu lk wf by (auto intro!: fs_wf_dir_ok)
  qed
  moreover have "\<not> is_under (?H @ [''specs'', sid]) (registryPath w)"
    by (simp add: is_under_iff registryPath_def home_def)
  ultimately show ?thesis
    by (simp add: ready_def ready_home[OF r])
qed

section \<open>Frame of the task operations\<close>

lemma is_under_spec [simp]:
  "plain sid \<Longrightarrow> plain n \<Longrightarrow> is_under b (butlast (spec_file b sid n))"
  "plain sid \<Longrightarrow> plain n \<Longrightarrow> is_under b (spec_file b sid n)"
  "plain sid \<Longrightarrow> is_under b (spec_dir b sid)"
  "is_under b (butlast (board_path b))"
  by (simp_all add: spec_file_plain spec_dir_plain board_path_def butlast_append)

lemma keeps_task_ops [frame]:
  assumes sid: "plain sid"
  shows "keeps (ptouch pid) (GetTask pid sid)"
    and "keeps (ptouch pid) (MutateTask pid sid mut)"
    and "keeps (ptouch pid) (UpdateTask pid sid pt)"
    and "keeps (ptouch pid) (MoveTask pid sid c)"
    and "keeps (ptouch pid) (DeleteTask pid sid)"
    and "keeps (ptouch pid) (GetSpecMarkdown pid sid)"
  unfolding GetTask_def MutateTask_def UpdateTask_def MoveTask_def DeleteTask_def GetSpecMarkdown_def Let_def
  using sid
  by (intro keeps_withProject tch.keeps_intros pt.keeps_failE_when frame;
      auto split: sum.splits intro!: frame tch.keeps_okE)+

lemma keeps_ApproveForCoding [frame]:
  "plain sid \<Longrightarrow> keeps (ptouch pid) (ApproveForCoding pid sid)"
  unfolding ApproveForCoding_def
  by (intro pt.keeps_bindE pt.keeps_bind pt.keeps_failE_when pt.keeps_okE keeps_task_ops
      keeps_withProject tch.keeps_bind frame) simp_all

lemma keeps_board_ops [frame]:
  "keeps (ptouch pid) (GetBoard pid)" "keeps (ptouch pid) (PutBoard pid b)"
  unfolding GetBoard_def PutBoard_def
  by (intro keeps_withProject pt.keeps_bindE pt.keeps_okE frame; simp)+

lemma keeps_nextSpecID [frame]: "keeps (touches b) (nextSpecID base title)"
  unfolding nextSpecID_def by (intro tch.keeps_bindE tch.keeps_okE frame)

lemma keeps_CreateTask [frame]: "keeps (ptouch pid) (CreateTask pid ti de rr hr iid ity)"
  unfolding CreateTask_def Let_def
proof (rule keeps_withProject)
  fix p :: project and base
  let ?title = "nz (trim_space ti) ''Untitled task''"
  have step: "keeps (touches base) (do {
         now \<leftarrow> nowUTC;
         tid \<leftarrow> uuid_new;
         bindE (mkdir_all (spec_dir base sid)) (\<lambda>_.
         bindE (writeJSON (spec_file base sid ''task.json'')
                  (DTask (new_task tid sid ?title de rr hr iid ity now))) (\<lambda>_. do {
           _ \<leftarrow> writeJSON (spec_file base sid ''implementation_plan.json'') (DPlan (drafted_plan ?title));
           _ \<leftarrow> writeJSON (spec_file base sid ''progress.json'') (DProgress zero_progress);
           _ \<leftarrow> write_file (spec_file base sid ''spec.md'') (DText (spec_text ?title de));
           rb \<leftarrow> readJSON KBoard prj_board (board_path base);
           bindE (writeJSON (board_path base)
                    (DBoard (board_add sid (case rb of Inl _ \<Rightarrow> emptyBoard | Inr b \<Rightarrow> b))))
             (\<lambda>_. okE (new_task tid sid ?title de rr hr iid ity now)) })) })"
    if "plain sid" for sid
    using that by (intro tch.keeps_intros frame) simp_all
  show "keeps (touches base) (bindE (nextSpecID base ?title) (\<lambda>sid. do {
         now \<leftarrow> nowUTC;
         tid \<leftarrow> uuid_new;
         bindE (mkdir_all (spec_dir base sid)) (\<lambda>_.
         bindE (writeJSON (spec_file base sid ''task.json'')
                  (DTask (new_task tid sid ?title de rr hr iid ity now))) (\<lambda>_. do {
           _ \<leftarrow> writeJSON (spec_file base sid ''implementation_plan.json'') (DPlan (drafted_plan ?title));
           _ \<leftarrow> writeJSON (spec_file base sid ''progress.json'') (DProgress zero_progress);
           _ \<leftarrow> write_file (spec_file base sid ''spec.md'') (DText (spec_text ?title de));
           rb \<leftarrow> readJSON KBoard prj_board (board_path base);
           bindE (writeJSON (board_path base)
                    (DBoard (board_add sid (case rb of Inl _ \<Rightarrow> emptyBoard | Inr b \<Rightarrow> b))))
             (\<lambda>_. okE (new_task tid sid ?title de rr hr iid ity now)) })) }))"
    by (rule tch.keeps_bindE_yields[OF keeps_nextSpecID yields_nextSpecID step])
qed

text \<open>What a project's operation leaves of the registry and of the other projects.\<close>

lemma pdir_plain: "plain pid \<Longrightarrow> pdir w pid = home w pid"
  by (simp add: pdir_def home_def)

lemma ptouch_registry:
  assumes "ptouch a w w'" and "plain a"
  shows "look w' (registryPath w) = look w (registryPath w)"
proof -
  have "\<not> is_under (home w a) (registryPath w)" "\<not> is_under (registryPath w) (home w a)"
    by (auto simp: is_under_iff home_def registryPath_def)
  then show ?thesis
    using assms(1) unfolding ptouch_def touches_def pdir_plain[OF assms(2)] by blast
qed

lemma ptouch_other:
  assumes "ptouch a w w'" and "plain a" and "plain b" and "a \<noteq> b"
  shows "look w' (home w b @ r) = look w (home w b @ r)"
proof -
  have "\<not> is_under (home w a) (home w b @ r)" "\<not> is_under (home w b @ r) (home w a)"
    using assms(4) by (auto simp: is_under_iff home_def)
  then show ?thesis
    using assms(1) unfolding ptouch_def touches_def pdir_plain[OF assms(2)] by blast
qed

end
