(* ===== verification/Demo.thy ===== *)
theory Demo
  imports Board_Laws
begin

text \<open>
  A concrete world for the witnesses: the tree a store has after it was opened and one
  project was linked, and the worlds the modelled operations make of it.
\<close>

definition demo_project :: project where
  "demo_project = new_project ''p1'' ''app'' ''acme/app'' [] ''gh-1'' ''org-a''
     ''https://github.com/acme/app'' ''main'' 1700000000000000000"

definition demo_tree :: "(path \<times> node) list" where
  "demo_tree =
    [([''data''], Dir), ([''data'', ''projects''], Dir),
     ([''data'', ''projects.json''], File (DProjects [demo_project])),
     ([''data'', ''projects'', ''p1''], Dir),
     ([''data'', ''projects'', ''p1'', ''specs''], Dir),
     ([''data'', ''projects'', ''p1'', ''roadmap''], Dir),
     ([''data'', ''projects'', ''p1'', ''ideation''], Dir),
     ([''data'', ''projects'', ''p1'', ''runs''], Dir),
     ([''data'', ''projects'', ''p1'', ''logs''], Dir),
     ([''data'', ''projects'', ''p1'', ''board.json''], File (DBoard emptyBoard)),
     ([''data'', ''projects'', ''p1'', ''status.json''], File (DStatus zero_status)),
     ([''data'', ''projects'', ''p1'', ''roadmap'', ''roadmap.json''], File (DRoadmap (seed_roadmap demo_project))),
     ([''data'', ''projects'', ''p1'', ''ideation'', ''ideation.json''], File (DIdeation emptyIdeation)),
     ([''data'', ''projects'', ''p1'', ''changelog.md''], File (DText changelog_seed))]"

definition demo_world :: world where
  "demo_world = \<lparr> fs = demo_tree, data_dir = [''data''],
     tenant = \<lparr>auth_enforced = True, tenant_all = ''all''\<rparr>,
     getenv = (\<lambda>_. []), clock_at = (\<lambda>n. 1700000000000000000 + int n * 1000000000), ticks = 0,
     uuid_at = (\<lambda>n. ''uuid-'' @ itoa_nat n), uuids = 0, faults = [],
     marshal = (\<lambda>_. ''{}''), unmarshal = (\<lambda>_ _. None), spawned = [], links = [] \<rparr>"

section \<open>Facts about the demonstration world\<close>

lemma demo_sel [simp]:
  "data_dir demo_world = [''data'']" "faults demo_world = []" "home demo_world ''p1'' = [''data'', ''projects'', ''p1'']"
  "fs demo_world = demo_tree" "registryPath demo_world = [''data'', ''projects.json'']"
  "auth_enforced (tenant demo_world)" "tenant_all (tenant demo_world) = ''all''"
  by (simp_all add: demo_world_def home_def registryPath_def)

lemma demo_project_id [simp]: "p_id demo_project = ''p1''"
  by (simp add: demo_project_def new_project_def)

lemma demo_wf: "fs_wf demo_world"
  by (simp add: fs_wf_def look_def) (simp add: demo_tree_def)

lemma demo_plain: "plain ''001-fix-login''" "plain ''p1''" "plain ''p2''"
  by (simp_all add: plain_def)

lemma demo_dir_ok:
  "x \<in> {''specs'', ''roadmap'', ''ideation'', ''runs'', ''logs''} \<Longrightarrow>
   dir_ok demo_world [''data'', ''projects'', ''p1'', x]"
  "dir_ok demo_world [''data'', ''projects'', ''p1'']"
  by (rule fs_wf_dir_ok[OF demo_wf], auto simp: look_def demo_tree_def)+

lemma demo_ready: "ready demo_world ''p1'' demo_project"
proof -
  have "projectDir demo_world demo_project = [''data'', ''projects'', ''p1'']"
    by (simp add: projectDir_def demo_plain)
  moreover have "layout_ok demo_world [''data'', ''projects'', ''p1'']"
    by (simp add: layout_ok_def layout_dirs_def layout_files_def demo_dir_ok look_def)
       (simp add: demo_tree_def)
  moreover have "look demo_world [''data'', ''projects.json''] = Some (File (DProjects [demo_project]))"
    by (simp add: look_def demo_tree_def)
  ultimately show ?thesis by (simp add: ready_def demo_wf demo_plain)
qed

lemma demo_board: "board_at demo_world ''p1'' = Some emptyBoard"
  by (simp add: board_at_def board_path_def look_def demo_tree_def)

lemma demo_no_specs: "children demo_world [''data'', ''projects'', ''p1'', ''specs''] = []"
  by (simp add: children_def demo_tree_def)

lemma demo_room:
  "new_spec_id demo_world ''p1'' ''Fix Login!'' = ''001-fix-login''"
  "room demo_world ''p1'' ''Fix Login!''"
proof -
  have "spec_ids demo_world ''p1'' = []" by (simp add: spec_ids_def demo_no_specs)
  moreover have "spec_id_of 0 ''Fix Login!'' = ''001-fix-login''" by code_simp
  ultimately show id: "new_spec_id demo_world ''p1'' ''Fix Login!'' = ''001-fix-login''"
    by (simp add: new_spec_id_def max_spec_number_def)
  show "room demo_world ''p1'' ''Fix Login!''"
    using \<open>spec_ids demo_world ''p1'' = []\<close>
    by (simp add: room_def id max_spec_number_def int64_max_def is_file_def look_def demo_tree_def)
qed

lemma demo_title: "nz (trim_space ''Fix Login!'') ''Untitled task'' = ''Fix Login!''"
  by code_simp

lemma no_spec_no_task:
  assumes "fs_wf w" and "children w (home w pid @ [''specs'']) = []"
  shows "task_at w pid sid = None"
proof -
  have "look w (home w pid @ [''specs'', sid]) = None"
    using set_children[of sid w "home w pid @ [''specs'']"] assms(2) by simp
  then show ?thesis
    using fs_wf_no_child[OF assms(1), of "home w pid @ [''specs'', sid]" "''task.json''"]
    by (simp add: task_at_def task_path_def)
qed

lemma demo_no_task: "task_at demo_world ''p1'' sid = None"
  by (rule no_spec_no_task) (simp_all add: demo_wf demo_no_specs)

lemma demo_consistent: "consistent demo_world ''p1''"
  by (simp add: consistent_def demo_board card_ok_def demo_no_task k_wf_def k_cards_def
      kanban_of_def columns_def)

section \<open>The world after one task was created\<close>

definition demo_card :: task where
  "demo_card = new_task ''uuid-0'' ''001-fix-login'' ''Fix Login!'' ''desc'' False True [] [] 1700000000000000000"

definition demo_task :: world where
  "demo_task = after_create demo_world ''p1'' ''001-fix-login'' ''Fix Login!'' ''desc'' demo_card emptyBoard"

lemma demo_card_fields [simp]: "t_specId demo_card = ''001-fix-login''" "t_status demo_card = ''backlog''"
  by (simp_all add: demo_card_def new_task_def)

lemma demo_task_run:
  "run_state (CreateTask ''p1'' ''Fix Login!'' ''desc'' False True [] []) demo_world = (Inr demo_card, demo_task)"
proof -
  have "uuid_at demo_world (uuids demo_world) = ''uuid-0''" "clock_at demo_world (ticks demo_world) = 1700000000000000000"
    by (simp_all add: demo_world_def itoa_nat.simps digit_char_def) code_simp
  then show ?thesis
    using run_CreateTask[OF demo_ready demo_board demo_title[symmetric] demo_room(2),
        of "''desc''" False True "[]" "[]"]
    by (simp add: demo_room(1) demo_card_def demo_task_def)
qed

lemma demo_task_ready: "ready demo_task ''p1'' demo_project"
  unfolding demo_task_def
  by (rule after_create_ready[OF demo_ready demo_board])
     (use new_spec_dir_absent[OF demo_room(2)] in \<open>simp add: demo_room(1)\<close>)

lemma demo_task_docs:
  "task_at demo_task ''p1'' ''001-fix-login'' = Some demo_card"
  "board_at demo_task ''p1'' = Some (board_add ''001-fix-login'' emptyBoard)"
  by (simp_all add: demo_task_def after_create_docs)

lemma demo_task_consistent: "consistent demo_task ''p1''"
  unfolding demo_task_def
  by (rule consistent_after_create[OF demo_consistent demo_board demo_plain(1) demo_no_task]) simp_all

end
