(* ===== verification/Board_Theorems.thy ===== *)
theory Board_Theorems
  imports Demo
begin

text \<open>
  The properties of the board and task store, over the runs computed in \<open>Board_Laws\<close>,
  with witnesses on the demonstration world.
\<close>

section \<open>Creating, moving and deleting tasks\<close>

text \<open>C8: CreateTask on a ready, consistent project with room in its numbering returns the
  new task in backlog, under a spec id that no directory had; the board gains exactly that
  card at the end of backlog, every other task is as it was, and the project stays ready
  and consistent.\<close>

theorem create_task_correct:
  assumes r: "ready w pid p" and c: "consistent w pid" and b: "board_at w pid = Some b"
    and room: "room w pid (nz (trim_space title0) ''Untitled task'')"
  shows "\<exists>t w' b'. run_state (CreateTask pid title0 description rr hr iid ity) w = (Inr t, w') \<and>
     t_status t = ''backlog'' \<and> t_humanReview t = Some hr \<and>
     task_at w pid (t_specId t) = None \<and>
     task_at w' pid = (task_at w pid)(t_specId t \<mapsto> t) \<and>
     board_at w' pid = Some b' \<and> kanban_of b' = k_put Backlog (t_specId t) (kanban_of b) \<and>
     ready w' pid p \<and> consistent w' pid"
proof -
  define title where "title = nz (trim_space title0) ''Untitled task''"
  define sid where "sid = new_spec_id w pid title"
  define t where "t = new_task (uuid_at w (uuids w)) sid title description rr hr iid ity (clock_at w (ticks w))"
  have room': "room w pid title" using room by (simp add: title_def)
  have t: "t_specId t = sid" "t_status t = ''backlog''" "t_humanReview t = Some hr"
    by (simp_all add: t_def new_task_def)
  have none: "task_at w pid sid = None"
    using new_spec_no_task[OF r room'] by (simp add: task_at_def task_path_def sid_def)
  have "run_state (CreateTask pid title0 description rr hr iid ity) w =
      (Inr t, after_create w pid sid title description t b)"
    using run_CreateTask[OF r b title_def room'] by (simp add: t_def sid_def)
  moreover have "task_at (after_create w pid sid title description t b) pid = (task_at w pid)(sid \<mapsto> t)"
    by (rule ext) (simp add: after_create_docs)
  moreover have "ready (after_create w pid sid title description t b) pid p"
    using after_create_ready[OF r b] new_spec_dir_absent[OF room'] by (simp add: sid_def)
  moreover have "consistent (after_create w pid sid title description t b) pid"
    using consistent_after_create[OF c b _ none t(1,2)] new_spec_id_plain by (simp add: sid_def)
  ultimately show ?thesis
    using t none after_create_docs(2) kanban_of_add by blast
qed

theorem create_task_correct_witness:
  "\<exists>t w' b'. run_state (CreateTask ''p1'' ''Fix Login!'' ''desc'' False True [] []) demo_world = (Inr t, w') \<and>
     t_status t = ''backlog'' \<and> task_at demo_world ''p1'' (t_specId t) = None \<and>
     board_at w' ''p1'' = Some b' \<and> consistent w' ''p1''"
  using create_task_correct[OF demo_ready demo_consistent demo_board,
      of "''Fix Login!''" "''desc''" False True "[]" "[]"]
  by (auto simp: demo_title demo_room)

text \<open>C1: MoveTask to a column of the workflow implements the abstract board: the card is
  taken out of wherever it is and put at the end of the column asked for, the stored task
  gets the column as its status, every other task is untouched, and readiness and the
  agreement of board and tasks are kept.\<close>

theorem move_task_refines:
  assumes r: "ready w pid p" and c: "consistent w pid" and sid: "plain sid"
    and t: "task_at w pid sid = Some t" and b: "board_at w pid = Some b"
    and d: "trim_space c0 = column_name d"
  shows "\<exists>t' w' b'. run_state (MoveTask pid sid c0) w = (Inr t', w') \<and>
     t' = t\<lparr>t_status := column_name d, t_updatedAt := t_updatedAt t'\<rparr> \<and>
     task_at w' pid = (task_at w pid)(sid \<mapsto> t') \<and>
     board_at w' pid = Some b' \<and> kanban_of b' = k_put d sid (k_take sid (kanban_of b)) \<and>
     ready w' pid p \<and> consistent w' pid"
proof -
  let ?t' = "move_task t (column_name d) (clock_at w (ticks w))"
  let ?w' = "after_move w pid sid (column_name d) t b"
  have "run_state (MoveTask pid sid c0) w = (Inr ?t', ?w')"
    by (rule run_MoveTask[OF r sid t b d]) simp
  moreover have "task_at ?w' pid = (task_at w pid)(sid \<mapsto> ?t')"
    by (rule ext) (simp add: after_move_docs)
  moreover have "?t' = t\<lparr>t_status := column_name d, t_updatedAt := t_updatedAt ?t'\<rparr>"
    by (simp add: move_task_def)
  ultimately show ?thesis
    using after_move_docs(2) kanban_of_move after_move_ready[OF r t b]
      consistent_after_move[OF c t b sid refl] by blast
qed

theorem move_task_refines_witness:
  "\<exists>t' w' b'. run_state (MoveTask ''p1'' ''001-fix-login'' '' queue '') demo_task = (Inr t', w') \<and>
     t_status t' = ''queue'' \<and> board_at w' ''p1'' = Some b' \<and>
     kanban_of b' Queue = [''001-fix-login''] \<and> kanban_of b' Backlog = [] \<and> consistent w' ''p1''"
proof -
  have "trim_space '' queue '' = column_name Queue" by code_simp
  from move_task_refines[OF demo_task_ready demo_task_consistent demo_plain(1) demo_task_docs this]
  obtain t' w' b' where *: "run_state (MoveTask ''p1'' ''001-fix-login'' '' queue '') demo_task = (Inr t', w')"
    "t' = demo_card\<lparr>t_status := column_name Queue, t_updatedAt := t_updatedAt t'\<rparr>"
    "board_at w' ''p1'' = Some b'"
    "kanban_of b' = k_put Queue ''001-fix-login'' (k_take ''001-fix-login'' (kanban_of (board_add ''001-fix-login'' emptyBoard)))"
    "consistent w' ''p1''" by blast
  have "t_status t' = ''queue''" by (subst *(2)) simp
  moreover have "kanban_of b' Queue = [''001-fix-login'']" "kanban_of b' Backlog = []"
    unfolding *(4) by (simp_all add: k_put_def k_take_def kanban_of_def board_col_add)
  ultimately show ?thesis using * by blast
qed

text \<open>after a move a card of the workflow is in exactly one column and there exactly
  once, whatever the board was before; the other cards keep their columns and their order,
  and only the last of two moves counts.\<close>

theorem move_once:
  "(s \<in> set (kanban_of (board_move s (column_name d) b) c) \<longleftrightarrow> c = d) \<and>
   count_list (kanban_of (board_move s (column_name d) b) d) s = 1 \<and>
   filter (\<lambda>i. i \<noteq> s) (kanban_of (board_move s (column_name d) b) c) =
     filter (\<lambda>i. i \<noteq> s) (kanban_of b c) \<and>
   kanban_of (board_move s (column_name d) (board_move s (column_name e) b)) =
     kanban_of (board_move s (column_name d) b)"
proof (intro conjI)
  show "s \<in> set (kanban_of (board_move s (column_name d) b) c) \<longleftrightarrow> c = d"
    unfolding board_move_moved by (rule kb.moved_iff)
  show "count_list (kanban_of (board_move s (column_name d) b) d) s = 1"
    unfolding board_move_moved by (rule kb.moved_once)
  show "filter (\<lambda>i. i \<noteq> s) (kanban_of (board_move s (column_name d) b) c) =
     filter (\<lambda>i. i \<noteq> s) (kanban_of b c)"
    by (simp add: kanban_of_move k_put_def k_take_def)
  show "kanban_of (board_move s (column_name d) (board_move s (column_name e) b)) =
     kanban_of (board_move s (column_name d) b)"
    unfolding board_move_moved by (rule ext) (rule kb.moved_moved)
qed

text \<open>C15: DeleteTask removes the task and its card and nothing else, and the project stays
  ready and consistent.\<close>

theorem delete_task_correct:
  assumes r: "ready w pid p" and c: "consistent w pid" and sid: "plain sid"
    and b: "board_at w pid = Some b"
  shows "\<exists>w' b'. run_state (DeleteTask pid sid) w = (Inr (), w') \<and>
     task_at w' pid = (task_at w pid)(sid := None) \<and>
     board_at w' pid = Some b' \<and> kanban_of b' = k_take sid (kanban_of b) \<and>
     ready w' pid p \<and> consistent w' pid"
proof -
  have "task_at (after_delete w pid sid b) pid = (task_at w pid)(sid := None)"
    by (rule ext) (simp add: after_delete_docs)
  then show ?thesis
    using run_DeleteTask[OF r sid b] after_delete_docs(2) kanban_of_strip after_delete_ready[OF r b]
      consistent_after_delete[OF c b sid] by blast
qed

theorem delete_task_correct_witness:
  "\<exists>w' b'. run_state (DeleteTask ''p1'' ''001-fix-login'') demo_task = (Inr (), w') \<and>
     task_at w' ''p1'' ''001-fix-login'' = None \<and> board_at w' ''p1'' = Some b' \<and> consistent w' ''p1''"
  using delete_task_correct[OF demo_task_ready demo_task_consistent demo_plain(1) demo_task_docs(2)]
  by fastforce

section \<open>Spec ids\<close>

text \<open>C39: a slug is not empty, at most 48 bytes, made of lower-case letters, digits and
  dashes, and neither starts nor ends with a dash, so a spec id is always one safe path
  segment whatever the title and whatever the directory holds.\<close>

theorem slug_and_spec_id_safe:
  "slugify title \<noteq> [] \<and> length (slugify title) \<le> 48 \<and>
   list_all (\<lambda>c. slug_char c \<or> c = CHR ''-'') (slugify title) \<and>
   hd (slugify title) \<noteq> CHR ''-'' \<and> last (slugify title) \<noteq> CHR ''-'' \<and>
   plain (spec_id_of m title)"
  using slugify_ends[of title] slugify_length[of title] slugify_chars[of _ title] spec_id_plain
  by (auto simp: list_all_iff)

text \<open>while the numbering has room, the next spec id is not the name of any directory
  entry, and reading it back with the scanner of nextSpecID gives the number it was built
  from.\<close>

theorem next_spec_id_fresh:
  assumes "max_spec_number 0 entries < int64_max"
  shows "(spec_id_of (max_spec_number 0 entries) title, True) \<notin> set entries \<and>
    sscanf_d_dash (spec_id_of (max_spec_number 0 entries) title) = Some (max_spec_number 0 entries + 1)"
  using spec_id_fresh[OF assms] spec_id_scans[OF max_spec_number_ge assms] by blast

theorem next_spec_id_fresh_witness:
  "(spec_id_of (max_spec_number 0 [(''007-a'', True), (''notes'', True), (''099-b'', False)]) ''X'', True)
     \<notin> set [(''007-a'', True), (''notes'', True), (''099-b'', False)]"
proof -
  have "max_spec_number 0 [(''007-a'', True), (''notes'', True), (''099-b'', False)] < int64_max"
    by code_simp
  then show ?thesis by (rule next_spec_id_fresh[THEN conjunct1])
qed

section \<open>Approval\<close>

definition approved_doc :: "time \<Rightarrow> doc" where
  "approved_doc now = DMap [(''approved'', JBool True), (''approved_by'', JStr ''user''),
     (''approved_at'', JStr (rfc3339 now))]"

text \<open>ApproveForCoding moves a task in human_review to queue and records the approval
  beside it; a task in any other column is refused with nothing changed.\<close>

theorem approve_for_coding:
  assumes r: "ready w pid p" and sid: "plain sid"
    and t: "task_at w pid sid = Some t" and b: "board_at w pid = Some b"
    and free: "look w (home w pid @ [''specs'', sid, ''review_state.json'']) \<noteq> Some Dir"
  shows "(if t_status t = ''human_review''
          then \<exists>t' w'. run_state (ApproveForCoding pid sid) w = (Inr t', w') \<and> t_status t' = ''queue'' \<and>
                 task_at w' pid sid = Some t' \<and> board_at w' pid = Some (board_move sid ''queue'' b) \<and>
                 (\<exists>now. look w' (home w pid @ [''specs'', sid, ''review_state.json'']) = Some (File (approved_doc now)))
          else run_state (ApproveForCoding pid sid) w =
                 (Inl (Errf (''task must be in human_review (got '' @ quote (t_status t) @ '')'')), w))"
proof (cases "t_status t = ''human_review''")
  case False
  then show ?thesis using run_GetTask[OF r sid t] by (simp add: ApproveForCoding_def run)
next
  case True
  let ?t' = "move_task t ''queue'' (clock_at w (ticks w))"
  let ?w1 = "after_move w pid sid ''queue'' t b"
  let ?rp = "home w pid @ [''specs'', sid, ''review_state.json'']"
  let ?w2 = "?w1\<lparr>ticks := Suc (ticks ?w1)\<rparr>"
  let ?d = "approved_doc (clock_at ?w1 (ticks ?w1))"
  have q: "trim_space ''queue'' = ''queue''" by code_simp
  have mv: "run_state (MoveTask pid sid ''queue'') w = (Inr ?t', ?w1)"
    by (rule run_MoveTask[OF r sid t b q]) (simp add: BoardColumns_def)
  have r1: "ready ?w1 pid p" by (rule after_move_ready[OF r t b])
  have h1: "home ?w1 pid = home w pid" by (simp add: after_move_def)
  have t1: "task_at ?w1 pid sid = Some ?t'" by (simp add: after_move_docs)
  have d1: "look ?w1 (home w pid @ [''specs'', sid]) = Some Dir"
    using task_dir[OF ready_wf[OF r1] t1] by (simp add: h1)
  have f1: "look ?w1 ?rp \<noteq> Some Dir"
    using free by (simp add: after_move_def look_put_node)
  have wr: "run_state (writeJSON ?rp ?d) ?w2 = (Inr (), put_node ?rp (File ?d) ?w2)"
    using d1 f1 ready_wf[OF r1] ready_faults[OF r1]
    by (intro run_writeJSON_wf) (simp_all add: butlast_append)
  have "run_state (ApproveForCoding pid sid) w = (Inr ?t', put_node ?rp (File ?d) ?w2)"
    using True run_GetTask[OF r sid t] mv r1 wr sid
    by (simp add: ApproveForCoding_def run run_withProject_home h1 spec_file_plain approved_doc_def)
  moreover have "look (put_node ?rp (File ?d) ?w2) ?rp = Some (File ?d)" by (simp add: look_put_node)
  moreover have "task_at (put_node ?rp (File ?d) ?w2) pid sid = Some ?t'"
    using t1 by (simp add: task_at_look look_put_node) (simp add: task_path_def h1)
  moreover have "board_at (put_node ?rp (File ?d) ?w2) pid = Some (board_move sid ''queue'' b)"
    using after_move_docs(2)[of w pid sid "''queue''" t b]
    by (simp add: board_at_look look_put_node h1) (simp add: board_path_def)
  ultimately show ?thesis using True by (simp add: move_task_def) blast
qed

theorem approve_for_coding_witness:
  "run_state (ApproveForCoding ''p1'' ''001-fix-login'') demo_task =
     (Inl (Errf (''task must be in human_review (got '' @ quote ''backlog'' @ '')'')), demo_task)"
proof -
  have "look demo_task (home demo_task ''p1'' @ [''specs'', ''001-fix-login'', ''review_state.json'']) \<noteq> Some Dir"
    by (simp add: demo_task_def after_create_def Let_def look_put_node)
       (simp add: look_def demo_tree_def task_path_def board_path_def)
  from approve_for_coding[OF demo_task_ready demo_plain(1) demo_task_docs this]
  show ?thesis by simp
qed

section \<open>The two writes of a move\<close>

text \<open>MoveTask writes the task before the board and does not undo the first write: when
  the board cannot be written the call fails, yet the stored task already has the new
  status while its card stays in the old column, so board and tasks no longer agree.\<close>

theorem move_task_torn:
  assumes r: "ready w pid p" and c: "consistent w pid" and sid: "plain sid"
    and t: "task_at w pid sid = Some t" and d: "trim_space c0 = column_name d"
    and other: "t_status t \<noteq> column_name d"
  shows "\<exists>w' t'. run_state (MoveTask pid sid c0) (w\<lparr>faults := [board_path (home w pid)]\<rparr>) = (Inl IOError, w') \<and>
    task_at w' pid sid = Some t' \<and> t_status t' = column_name d \<and>
    board_at w' pid = board_at w pid \<and> \<not> consistent w' pid"
proof -
  let ?f = "w\<lparr>faults := [board_path (home w pid)]\<rparr>"
  let ?w1 = "?f\<lparr>ticks := Suc (ticks w)\<rparr>"
  let ?t' = "move_task t (column_name d) (clock_at w (ticks w))"
  let ?w2 = "put_node (task_path w pid sid) (File (DTask ?t')) ?w1"
  obtain b where b: "board_at w pid = Some b" and wfK: "k_wf (kanban_of b)"
    and ok: "card_ok w pid (kanban_of b) sid"
    using c sid by (auto elim: consistent_D)
  have sel: "home ?f pid = home w pid" "task_path ?f pid s = task_path w pid s" "look ?f q = look w q"
    "projectDir ?f p = projectDir w p" "registryPath ?f = registryPath w" for s q
    by (simp_all add: home_def task_path_def look_def projectDir_def registryPath_def)
  have lay: "layout_ok ?f (projectDir ?f p)"
    using r by (simp add: ready_def layout_ok_def dir_ok_def sel list_all_iff)
  have nf: "set (layout_dirs (projectDir ?f p)) \<inter> set (faults ?f) = {}"
    unfolding sel ready_home[OF r] by (simp add: layout_dirs_def board_path_def)
  have wp: "run_state (withProject pid fn) ?f = run_state (fn p (home w pid)) ?f"
    for fn :: "project \<Rightarrow> path \<Rightarrow> task actE"
    using r lay nf ready_home[OF r]
    by (elim ready_D) (simp add: run_withProject_layout registry_at_def sel)
  have td: "look w (home w pid @ [''specs'', sid]) = Some Dir" using task_dir ready_wf[OF r] t by blast
  have lt: "look w (task_path w pid sid) = Some (File (DTask t))" using t by (simp add: task_at_look)
  have lb: "look w (board_path (home w pid)) = Some (File (DBoard b))" using b by (simp add: board_at_look)
  have wf1: "fs_wf ?w1" using ready_wf[OF r] fs_wf_cong[of ?w1 w] by simp
  have s1: "run_state (writeJSON (task_path w pid sid) (DTask ?t')) ?w1 = (Inr (), ?w2)"
  proof -
    have "dir_ok ?w1 (home w pid @ [''specs'', sid])" using fs_wf_dir_ok[OF wf1] td by (simp add: sel)
    then have "run_state (mkdir_all (home w pid @ [''specs'', sid])) ?w1 = (Inr (), ?w1)"
      by (rule run_mkdir_all_ok) (simp add: board_path_def)
    moreover have "run_state (write_file (task_path w pid sid) (DTask ?t')) ?w1 = (Inr (), ?w2)"
      by (rule run_write_file_ok) (use td lt in \<open>simp_all add: sel task_path_def butlast_append board_path_def\<close>)
    ultimately show ?thesis by (simp add: writeJSON_def run task_path_def butlast_append)
  qed
  have wf2: "fs_wf ?w2" by (rule wf_run[OF wf_writeJSON wf1 s1])
  have hd2: "look ?w2 (home w pid) = Some Dir"
    using ready_home_dir[OF r] by (simp add: look_put_node sel) (simp add: task_path_def)
  have s2: "run_state (writeJSON (board_path (home w pid)) (DBoard (board_move sid (column_name d) b))) ?w2 = (Inl IOError, ?w2)"
    by (rule run_writeJSON_fault)
       (use fs_wf_dir_ok[OF wf2 hd2] in \<open>simp_all add: board_path_def butlast_append\<close>)
  have res: "run_state (MoveTask pid sid c0) ?f = (Inl IOError, ?w2)"
    using wp sid d lt lb s1 s2
    by (simp add: MoveTask_def run spec_file_plain Let_def task_path_def[symmetric]
        run_readJSON_File doc_kind_of_def move_task_def sel)
  have t2: "task_at ?w2 pid sid = Some ?t'"
    by (simp add: task_at_look look_put_node sel)
  have b2: "board_at ?w2 pid = Some b"
    using lb by (simp add: board_at_look look_put_node sel)
  obtain e where e: "t_status t = column_name e" "sid \<in> set (kanban_of b e)"
    using ok t by (auto simp: card_ok_def column_of_Some split: option.splits)
  have "\<not> consistent ?w2 pid"
  proof
    assume "consistent ?w2 pid"
    then have "card_ok ?w2 pid (kanban_of b) sid" using b2 sid by (auto elim: consistent_D)
    then have "sid \<in> set (kanban_of b d)"
      unfolding card_ok_def t2 by (simp add: move_task_def)
    then show False using k_wf_unique[OF wfK e(2)] other e(1) by auto
  qed
  then show ?thesis using res t2 b2 b by (auto simp: move_task_def)
qed

theorem move_task_torn_witness:
  "\<exists>w' t'. run_state (MoveTask ''p1'' ''001-fix-login'' ''done'')
      (demo_task\<lparr>faults := [board_path (home demo_task ''p1'')]\<rparr>) = (Inl IOError, w') \<and>
    task_at w' ''p1'' ''001-fix-login'' = Some t' \<and> t_status t' = ''done'' \<and> \<not> consistent w' ''p1''"
proof -
  have "trim_space ''done'' = column_name Done" by code_simp
  from move_task_torn[OF demo_task_ready demo_task_consistent demo_plain(1) demo_task_docs(1) this]
  show ?thesis by auto
qed

section \<open>The legacy column\<close>

text \<open>The store's loops run over the six columns only, so a card that an old board keeps
  in ai_review is not taken out of there by a move; GetBoard folds that column into review
  when it reads, and the board it returns then shows the card in the column it was moved
  to and in review as well.\<close>

theorem legacy_card_shown_twice:
  assumes "s \<in> set (board_col b ''ai_review'')"
  shows "s \<in> set (kanban_of (board_view (board_move s (column_name d) b)) d) \<and>
    s \<in> set (kanban_of (board_view (board_move s (column_name d) b)) Review)"
proof -
  have "s \<in> set (kanban_of (board_move s (column_name d) b) d)"
    by (simp add: kanban_of_move k_put_def)
  moreover have "s \<in> set (board_col (board_move s (column_name d) b) ''ai_review'')"
    using assms by (simp add: board_col_move BoardColumns_def)
  ultimately show ?thesis by (auto simp: kanban_of_view)
qed

theorem legacy_card_shown_twice_witness:
  "''001-a'' \<in> set (kanban_of (board_view (board_move ''001-a'' (column_name Done) [(''ai_review'', [''001-a''])])) Done) \<and>
   ''001-a'' \<in> set (kanban_of (board_view (board_move ''001-a'' (column_name Done) [(''ai_review'', [''001-a''])])) Review)"
  by (rule legacy_card_shown_twice) (simp add: board_col_def)

section \<open>Isolation of projects\<close>

text \<open>C33: the board and task operations of one project change no file of another project
  and not the registry, whatever they return, when project and spec ids are single path
  segments.\<close>

theorem task_operations_isolated:
  assumes a: "plain a" "plain b" "a \<noteq> b" and sid: "plain sid"
  shows "list_all (\<lambda>w'. look w' (home w b @ r) = look w (home w b @ r) \<and>
      look w' (registryPath w) = look w (registryPath w))
    [snd (run_state (CreateTask a ti de rr hr iid ity) w), snd (run_state (MoveTask a sid c) w),
     snd (run_state (UpdateTask a sid pt) w), snd (run_state (DeleteTask a sid) w),
     snd (run_state (ApproveForCoding a sid) w), snd (run_state (PutBoard a bd) w)]"
proof -
  have *: "look (snd (run_state m w)) (home w b @ r) = look w (home w b @ r) \<and>
      look (snd (run_state m w)) (registryPath w) = look w (registryPath w)"
    if "keeps (ptouch a) m" for m :: "(world, 'x) state"
    using that ptouch_other[OF _ a] ptouch_registry[OF _ a(1)] by (simp add: keeps_def)
  show ?thesis
    by (simp add: * keeps_CreateTask keeps_task_ops[OF sid] keeps_ApproveForCoding[OF sid] keeps_board_ops)
qed

theorem task_operations_isolated_witness:
  "look (snd (run_state (DeleteTask ''p1'' ''001-fix-login'') demo_task)) (home demo_task ''p2'' @ [''board.json'']) =
     look demo_task (home demo_task ''p2'' @ [''board.json''])"
  using task_operations_isolated[OF demo_plain(2,3) _ demo_plain(1), where w = demo_task] by simp

text \<open>an id that is not one path segment breaks that isolation: the project directory of
  the id .. is the data directory itself, which holds the registry and every project, and
  a spec id with dots addresses the documents of another project.\<close>

theorem dotdot_ids_escape:
  "projectDir w (p\<lparr>p_id := ''..''\<rparr>) = data_dir w \<and>
   spec_file (data_dir w @ [''projects'', a]) ''../../b/specs/001-x'' ''task.json'' =
     data_dir w @ [''projects'', ''b'', ''specs'', ''001-x'', ''task.json'']"
  by (simp add: projectDir_def spec_file_def path_join_def clean_step_def plain_def butlast_append)

end
