(* ===== verification/Plan_Logic.thy ===== *)
theory Plan_Logic
  imports Models
begin

text \<open>
  The plan arithmetic that the store, the runner and the pipeline share: counting,
  finding and completing subtasks (\<open>store.go\<close>, \<open>job_runner.go\<close>, \<open>task_workspace.go\<close>).
\<close>

section \<open>Subtask states\<close>

text \<open>The runner's notion of work left: \<open>pending\<close>, blank or \<open>in_progress\<close>.\<close>

definition st_pending :: "subtask \<Rightarrow> bool" where
  "st_pending st \<longleftrightarrow> st_status st = ''pending'' \<or> st_status st = [] \<or> st_status st = ''in_progress''"

definition subtasks :: "plan \<Rightarrow> subtask list" where
  "subtasks pl = concat (map ph_subtasks (pl_phases pl))"

definition firstPendingSubtaskID :: "plan \<Rightarrow> string" where
  "firstPendingSubtaskID pl = (case List.find st_pending (subtasks pl) of Some st \<Rightarrow> st_id st | None \<Rightarrow> [])"

definition countPendingSubtasks :: "plan \<Rightarrow> int" where
  "countPendingSubtasks pl = int (length (filter st_pending (subtasks pl)))"

definition countStuckOrFailed :: "plan \<Rightarrow> int" where
  "countStuckOrFailed pl =
     int (length (filter (\<lambda>st. st_status st = ''stuck'' \<or> st_status st = ''failed'') (subtasks pl)))"

text \<open>\<open>countPlanSubtasks\<close>: all subtasks and the completed ones.\<close>

definition countPlanSubtasks :: "plan \<Rightarrow> int \<times> int" where
  "countPlanSubtasks pl =
     (int (length (subtasks pl)),
      int (length (filter (\<lambda>st. st_status st = ''completed'' \<or> st_status st = ''done'') (subtasks pl))))"

definition pct :: "int \<Rightarrow> int \<Rightarrow> int" where
  "pct d n = (if n \<le> 0 then 0 else d * 100 div n)"

text \<open>The coding phases' tests of \<open>task_workspace.go\<close>.\<close>

definition coding_subtasks :: "plan \<Rightarrow> subtask list" where
  "coding_subtasks pl = concat (map ph_subtasks (filter (\<lambda>ph. ph_type ph = ''coding'') (pl_phases pl)))"

definition hasPendingCodingSubtasks :: "plan \<Rightarrow> bool" where
  "hasPendingCodingSubtasks pl \<longleftrightarrow>
     list_ex (\<lambda>st. \<not> (st_status st = ''completed'' \<or> st_status st = ''stuck'')) (coding_subtasks pl)"

definition allCodingSubtasksComplete :: "plan \<Rightarrow> bool" where
  "allCodingSubtasksComplete pl \<longleftrightarrow>
     coding_subtasks pl \<noteq> [] \<and> list_all (\<lambda>st. st_status st = ''completed'') (coding_subtasks pl)"

section \<open>Changing a plan\<close>

text \<open>The nested loops that change the first subtask satisfying \<open>P\<close> and jump out, with the
  subtask they found.\<close>

fun upd_phases :: "(subtask \<Rightarrow> bool) \<Rightarrow> (subtask \<Rightarrow> subtask) \<Rightarrow> phase list \<Rightarrow> phase list \<times> subtask option" where
  "upd_phases P f [] = ([], None)"
| "upd_phases P f (ph # phs) =
     (case List.find P (ph_subtasks ph) of
        Some st \<Rightarrow> (ph\<lparr>ph_subtasks := update_first P f (ph_subtasks ph)\<rparr> # phs, Some st)
      | None \<Rightarrow> (let (phs', r) = upd_phases P f phs in (ph # phs', r)))"

definition set_next :: "string \<Rightarrow> plan \<Rightarrow> plan \<times> string" where
  "set_next status pl =
     (let (phs, r) = upd_phases st_pending (\<lambda>st. st\<lparr>st_status := status\<rparr>) (pl_phases pl)
      in (pl\<lparr>pl_phases := phs\<rparr>, case r of Some st \<Rightarrow> st_id st | None \<Rightarrow> []))"

text \<open>\<open>builtinImplementationOpts\<close> completes, \<open>builtinMarkStuck\<close> marks.\<close>

definition complete_next :: "plan \<Rightarrow> plan \<times> string" where
  "complete_next pl = set_next ''completed'' pl"

definition mark_next_stuck :: "plan \<Rightarrow> plan \<times> string" where
  "mark_next_stuck pl = set_next ''stuck'' pl"

definition map_subtasks :: "(subtask \<Rightarrow> subtask) \<Rightarrow> plan \<Rightarrow> plan" where
  "map_subtasks f pl = pl\<lparr>pl_phases := map (\<lambda>ph. ph\<lparr>ph_subtasks := map f (ph_subtasks ph)\<rparr>) (pl_phases pl)\<rparr>"

text \<open>\<open>builtinRecover\<close>: the reset and the ids it lists.\<close>

definition st_recoverable :: "subtask \<Rightarrow> bool" where
  "st_recoverable st \<longleftrightarrow> st_status st = ''stuck'' \<or> st_status st = ''failed'' \<or> st_status st = ''in_progress''"

definition recover_plan :: "plan \<Rightarrow> plan \<times> string list" where
  "recover_plan pl =
     (map_subtasks (\<lambda>st. if st_recoverable st then st\<lparr>st_status := ''pending''\<rparr> else st) pl,
      map st_id (filter st_recoverable (subtasks pl)))"

text \<open>\<open>builtinSkipToPhase\<close>: phase numbers default to the position.\<close>

definition phase_num :: "nat \<Rightarrow> phase \<Rightarrow> int" where
  "phase_num i ph = (if ph_phase ph = 0 then int i + 1 else ph_phase ph)"

definition st_done :: "subtask \<Rightarrow> bool" where
  "st_done st \<longleftrightarrow> st_status st = ''completed'' \<or> st_status st = ''done''"

definition skip_phase :: "int \<Rightarrow> nat \<times> phase \<Rightarrow> phase" where
  "skip_phase target e = (case e of (i, ph) \<Rightarrow>
     if phase_num i ph < target
     then ph\<lparr>ph_subtasks := map (\<lambda>st. if st_done st then st else st\<lparr>st_status := ''completed''\<rparr>) (ph_subtasks ph)\<rparr>
     else ph)"

definition skip_found :: "int \<Rightarrow> plan \<Rightarrow> bool" where
  "skip_found target pl = list_ex (\<lambda>(i, ph). phase_num i ph = target) (List.enumerate 0 (pl_phases pl))"

text \<open>The last phase with the number wins the name.\<close>

definition skip_name :: "int \<Rightarrow> plan \<Rightarrow> string" where
  "skip_name target pl =
     (case filter (\<lambda>(i, ph). phase_num i ph = target) (List.enumerate 0 (pl_phases pl)) of
        [] \<Rightarrow> [] | es \<Rightarrow> ph_name (snd (last es)))"

definition skip_count :: "int \<Rightarrow> plan \<Rightarrow> int" where
  "skip_count target pl =
     int (length (concat (map (\<lambda>(i, ph). if phase_num i ph < target
        then filter (\<lambda>st. \<not> st_done st) (ph_subtasks ph) else []) (List.enumerate 0 (pl_phases pl)))))"

definition skip_plan :: "int \<Rightarrow> plan \<Rightarrow> plan" where
  "skip_plan target pl = pl\<lparr>pl_phases := map (skip_phase target) (List.enumerate 0 (pl_phases pl))\<rparr>"

text \<open>The column after a skip: this loop reads \<open>ph.Phase\<close> without the default.\<close>

definition skip_status :: "int \<Rightarrow> plan \<Rightarrow> string" where
  "skip_status target pl =
     foldl (\<lambda>acc ph.
        let a1 = (if ph_phase ph = target \<and> ph_type ph = ''review'' then ''review'' else acc)
        in if ph_phase ph = target \<and> ph_type ph = ''planning'' then ''queue'' else a1)
      ''in_progress'' (pl_phases pl)"

section \<open>Laws\<close>

lemma subtasks_phases: "subtasks (pl\<lparr>pl_phases := phs\<rparr>) = concat (map ph_subtasks phs)"
  by (simp add: subtasks_def)

lemma upd_phases_concat:
  assumes "upd_phases P f phs = (phs', r)"
  shows "concat (map ph_subtasks phs') = update_first P f (concat (map ph_subtasks phs)) \<and>
    r = List.find P (concat (map ph_subtasks phs))"
  using assms
proof (induction phs arbitrary: phs' r)
  case (Cons ph phs)
  have app: "update_first P f (xs @ ys) =
      (if List.find P xs = None then xs @ update_first P f ys else update_first P f xs @ ys)" for xs ys
    by (induction xs) (auto split: if_splits)
  show ?case
  proof (cases "List.find P (ph_subtasks ph)")
    case None
    then show ?thesis using Cons by (auto simp: app find_append split: prod.splits)
  next
    case (Some st)
    then show ?thesis using Cons.prems by (auto simp: app find_append)
  qed
qed simp

lemma set_next_subtasks:
  "subtasks (fst (set_next s pl)) = update_first st_pending (\<lambda>st. st\<lparr>st_status := s\<rparr>) (subtasks pl)"
  "snd (set_next s pl) = (case List.find st_pending (subtasks pl) of Some st \<Rightarrow> st_id st | None \<Rightarrow> [])"
proof -
  obtain phs r where u: "upd_phases st_pending (\<lambda>st. st\<lparr>st_status := s\<rparr>) (pl_phases pl) = (phs, r)"
    by (cases "upd_phases st_pending (\<lambda>st. st\<lparr>st_status := s\<rparr>) (pl_phases pl)")
  show "subtasks (fst (set_next s pl)) = update_first st_pending (\<lambda>st. st\<lparr>st_status := s\<rparr>) (subtasks pl)"
    "snd (set_next s pl) = (case List.find st_pending (subtasks pl) of Some st \<Rightarrow> st_id st | None \<Rightarrow> [])"
    using upd_phases_concat[OF u] by (simp_all add: set_next_def u subtasks_def)
qed

lemma set_next_id: "snd (set_next s pl) = firstPendingSubtaskID pl"
  by (simp add: set_next_subtasks firstPendingSubtaskID_def)

lemma filter_length_update_first:
  assumes "List.find P xs = Some x"
  shows "int (length (filter Q (update_first P f xs))) =
    int (length (filter Q xs)) - (if Q x then 1 else 0) + (if Q (f x) then 1 else 0)"
  using assms by (induction xs) (auto split: if_splits)

lemma countPending_pos: "0 < countPendingSubtasks pl \<longleftrightarrow> List.find st_pending (subtasks pl) \<noteq> None"
  by (auto simp: countPendingSubtasks_def find_None_iff filter_empty_conv)

text \<open>One step of work: one pending subtask fewer, one done more, no subtask lost.\<close>

lemma complete_next_counts:
  assumes "0 < countPendingSubtasks pl"
  shows "countPendingSubtasks (fst (complete_next pl)) = countPendingSubtasks pl - 1"
    and "countPlanSubtasks (fst (complete_next pl)) = (fst (countPlanSubtasks pl), snd (countPlanSubtasks pl) + 1)"
    and "snd (complete_next pl) = firstPendingSubtaskID pl"
proof -
  obtain st where st: "List.find st_pending (subtasks pl) = Some st"
    using assms countPending_pos by auto
  then have "st_pending st" using find_Some_in_set by fast
  then have "\<not> (st_status st = ''completed'' \<or> st_status st = ''done'')" by (auto simp: st_pending_def)
  then show "countPlanSubtasks (fst (complete_next pl)) = (fst (countPlanSubtasks pl), snd (countPlanSubtasks pl) + 1)"
    by (simp add: complete_next_def countPlanSubtasks_def set_next_subtasks filter_length_update_first[OF st])
  show "countPendingSubtasks (fst (complete_next pl)) = countPendingSubtasks pl - 1"
    using \<open>st_pending st\<close>
    by (simp add: complete_next_def countPendingSubtasks_def set_next_subtasks filter_length_update_first[OF st])
       (simp add: st_pending_def)
  show "snd (complete_next pl) = firstPendingSubtaskID pl"
    by (simp add: complete_next_def set_next_id)
qed

lemma mark_next_stuck_counts:
  assumes "0 < countPendingSubtasks pl"
  shows "countPendingSubtasks (fst (mark_next_stuck pl)) = countPendingSubtasks pl - 1"
    and "countStuckOrFailed (fst (mark_next_stuck pl)) = countStuckOrFailed pl + 1"
    and "countPlanSubtasks (fst (mark_next_stuck pl)) = countPlanSubtasks pl"
proof -
  obtain st where st: "List.find st_pending (subtasks pl) = Some st"
    using assms countPending_pos by auto
  then have p: "st_pending st" using find_Some_in_set by fast
  then have "\<not> (st_status st = ''completed'' \<or> st_status st = ''done'')"
    "\<not> (st_status st = ''stuck'' \<or> st_status st = ''failed'')" by (auto simp: st_pending_def)
  then show "countStuckOrFailed (fst (mark_next_stuck pl)) = countStuckOrFailed pl + 1"
    "countPlanSubtasks (fst (mark_next_stuck pl)) = countPlanSubtasks pl"
    by (simp_all add: mark_next_stuck_def countStuckOrFailed_def countPlanSubtasks_def set_next_subtasks
        filter_length_update_first[OF st])
  show "countPendingSubtasks (fst (mark_next_stuck pl)) = countPendingSubtasks pl - 1"
    using p
    by (simp add: mark_next_stuck_def countPendingSubtasks_def set_next_subtasks filter_length_update_first[OF st])
       (simp add: st_pending_def)
qed

lemma no_pending_id: "countPendingSubtasks pl = 0 \<Longrightarrow> firstPendingSubtaskID pl = []"
  by (simp add: countPendingSubtasks_def firstPendingSubtaskID_def filter_empty_conv find_None_iff[THEN iffD2]
      split: option.splits)

lemma pct_bounds:
  assumes "0 \<le> d" and "d \<le> n"
  shows "0 \<le> pct d n \<and> pct d n \<le> 100"
proof -
  have "d * 100 div n \<le> n * 100 div n" if "0 < n"
    using assms that by (intro zdiv_mono1) auto
  then show ?thesis using assms by (auto simp: pct_def pos_imp_zdiv_nonneg_iff)
qed

lemma countPlanSubtasks_le: "0 \<le> snd (countPlanSubtasks pl) \<and> snd (countPlanSubtasks pl) \<le> fst (countPlanSubtasks pl)"
  by (simp add: countPlanSubtasks_def)

lemma subtasks_map: "subtasks (map_subtasks f pl) = map f (subtasks pl)"
  by (simp add: map_subtasks_def subtasks_def map_concat comp_def)

lemma recover_clears: "countStuckOrFailed (fst (recover_plan pl)) = 0"
  by (auto simp: recover_plan_def countStuckOrFailed_def subtasks_map st_recoverable_def filter_empty_conv)

lemma recover_counts: "countPlanSubtasks (fst (recover_plan pl)) = countPlanSubtasks pl"
proof -
  have "length (filter (\<lambda>st. st_status st = ''completed'' \<or> st_status st = ''done'')
      (map (\<lambda>st. if st_recoverable st then st\<lparr>st_status := ''pending''\<rparr> else st) xs)) =
    length (filter (\<lambda>st. st_status st = ''completed'' \<or> st_status st = ''done'') xs)" for xs :: "subtask list"
    by (induction xs) (auto simp: st_recoverable_def)
  then show ?thesis by (simp add: recover_plan_def countPlanSubtasks_def subtasks_map)
qed

end
