(* ===== verification/Agent_Keys.thy ===== *)
theory Agent_Keys
  imports Models
begin

text \<open>
  The map from job actions to agent keys (\<open>agent_keys.go\<close>), the project state an action
  shows (\<open>mapActionToState\<close>), and the guard that refuses the review actions OPM gave up
  (\<open>task_workspace.go\<close> and \<open>job_runner.go\<close> use the same action names).
\<close>

definition agentKeyForAction :: "string \<Rightarrow> string" where
  "agentKeyForAction action0 =
     (let action = to_lower (trim_space action0) in
      if action = ''run-planning'' \<or> action = ''run-followup-planning'' then ''planning''
      else if action = ''run-implementation'' then ''coding''
      else if action = ''run-ideation'' then ''ideation''
      else if action = ''run-roadmap-discovery'' then ''roadmap_discovery''
      else if action = ''run-roadmap-features'' then ''roadmap_features''
      else if action = ''run-roadmap-competitor'' then ''roadmap_competitor''
      else [])"

definition mapActionToState :: "string \<Rightarrow> string" where
  "mapActionToState action =
     (if action \<in> {''run-planning'', ''run-followup-planning'', ''run-roadmap-discovery'',
                   ''run-roadmap-features'', ''run-ideation''} then ''planning''
      else if action \<in> {''run-implementation'', ''skip-to-phase'', ''run-pipeline''} then ''building''
      else if action = ''generate-changelog'' then ''planning''
      else ''building'')"

text \<open>The hard-reject of \<open>autopilot.go\<close>; \<open>None\<close> is Go's nil error.\<close>

definition unsupportedReviewAction :: "string \<Rightarrow> err option" where
  "unsupportedReviewAction action0 =
     (let action = to_lower (trim_space action0) in
      if action = ''run-review'' \<or> action = ''run-qa-fix''
      then Some (Errf (''unsupported action '' @ quote action @ '': deep review is owned by ORA (gone)''))
      else None)"

record catalog_entry =
  ce_key :: string
  ce_label :: string
  ce_tier :: string

definition agentCatalog :: "catalog_entry list" where
  "agentCatalog =
     [\<lparr>ce_key = ''planning'', ce_label = ''Planning'', ce_tier = ''light''\<rparr>,
      \<lparr>ce_key = ''coding'', ce_label = ''Implementation'', ce_tier = ''strong''\<rparr>,
      \<lparr>ce_key = ''ideation'', ce_label = ''Ideation'', ce_tier = ''light''\<rparr>,
      \<lparr>ce_key = ''roadmap_discovery'', ce_label = ''Roadmap discovery'', ce_tier = ''light''\<rparr>,
      \<lparr>ce_key = ''roadmap_features'', ce_label = ''Roadmap features'', ce_tier = ''strong''\<rparr>,
      \<lparr>ce_key = ''roadmap_competitor'', ce_label = ''Roadmap competitor analysis'', ce_tier = ''light''\<rparr>]"

text \<open>Every action with an AI phase has a row in the catalog, and every row an action.\<close>

lemma agent_key_in_catalog:
  "agentKeyForAction a \<noteq> [] \<Longrightarrow> agentKeyForAction a \<in> set (map ce_key agentCatalog)"
  by (auto simp: agentKeyForAction_def agentCatalog_def Let_def split: if_splits)

lemma review_actions_have_no_key:
  "unsupportedReviewAction a \<noteq> None \<Longrightarrow> agentKeyForAction a = []"
  by (auto simp: unsupportedReviewAction_def agentKeyForAction_def Let_def split: if_splits)

end
