(* ===== verification/Doc_Store.thy ===== *)
theory Doc_Store
  imports Board_Laws Plan_Logic Agent_Keys
begin

text \<open>
  The documents of a project and of a spec other than the board and the task
  (\<open>store.go\<close>): plan, progress, status, spec files, logs, changelog, roadmap, ideation,
  jobs, and the actions a task allows.  The locale \<open>typed_doc\<close> is the contract of a
  document kind; each kind is an interpretation of it.
\<close>

section \<open>Plans, progress, status\<close>

fun prj_plan :: "doc \<Rightarrow> plan option" where
  "prj_plan (DPlan x) = Some x" | "prj_plan _ = None"

fun prj_progress :: "doc \<Rightarrow> progress option" where
  "prj_progress (DProgress x) = Some x" | "prj_progress _ = None"

fun prj_status :: "doc \<Rightarrow> pstatus option" where
  "prj_status (DStatus x) = Some x" | "prj_status _ = None"

fun prj_roadmap :: "doc \<Rightarrow> roadmap option" where
  "prj_roadmap (DRoadmap x) = Some x" | "prj_roadmap _ = None"

fun prj_ideation :: "doc \<Rightarrow> ideation option" where
  "prj_ideation (DIdeation x) = Some x" | "prj_ideation _ = None"

fun prj_job :: "doc \<Rightarrow> job option" where
  "prj_job (DJob x) = Some x" | "prj_job _ = None"

fun prj_map :: "doc \<Rightarrow> (string \<times> json) list option" where
  "prj_map (DMap x) = Some x" | "prj_map _ = None"

definition GetPlan :: "string \<Rightarrow> string \<Rightarrow> plan actE" where
  "GetPlan pid sid = withProject pid (\<lambda>p base.
     readJSON KPlan prj_plan (spec_file base sid ''implementation_plan.json''))"

definition PutPlan :: "string \<Rightarrow> string \<Rightarrow> plan \<Rightarrow> unit actE" where
  "PutPlan pid sid pl = withProject pid (\<lambda>p base.
     writeJSON (spec_file base sid ''implementation_plan.json'') (DPlan pl))"

definition GetProgress :: "string \<Rightarrow> string \<Rightarrow> progress actE" where
  "GetProgress pid sid = withProject pid (\<lambda>p base. do {
     ex \<leftarrow> exists_path (spec_file base sid ''progress.json'');
     if \<not> ex then okE zero_progress
     else readJSON KProgress prj_progress (spec_file base sid ''progress.json'') })"

definition PutProgress :: "string \<Rightarrow> string \<Rightarrow> progress \<Rightarrow> unit actE" where
  "PutProgress pid sid pr = withProject pid (\<lambda>p base.
     writeJSON (spec_file base sid ''progress.json'') (DProgress pr))"

definition GetStatus :: "string \<Rightarrow> pstatus actE" where
  "GetStatus pid = withProject pid (\<lambda>p base. readJSON KStatus prj_status (base @ [''status.json'']))"

text \<open>The \<open>writeJSON(projectDir+"/status.json", st)\<close> bodies of the runner.\<close>

definition PutStatus :: "string \<Rightarrow> pstatus \<Rightarrow> unit actE" where
  "PutStatus pid st = withProject pid (\<lambda>p base. writeJSON (base @ [''status.json'']) (DStatus st))"

section \<open>Text files and logs\<close>

definition PutSpecMarkdown :: "string \<Rightarrow> string \<Rightarrow> string \<Rightarrow> unit actE" where
  "PutSpecMarkdown pid sid content = withProject pid (\<lambda>p base.
     write_file (spec_file base sid ''spec.md'') (DText content))"

definition PutSpecFile :: "string \<Rightarrow> string \<Rightarrow> string \<Rightarrow> string \<Rightarrow> unit actE" where
  "PutSpecFile pid sid name0 content =
     (let name = path_base name0 in
      failE_when (name = [] \<or> name = ''.'' \<or> name = ''..'') (Errf ''invalid file name'')
        (withProject pid (\<lambda>p base. write_file (spec_file base sid name) (DText content))))"

definition PutChangelog :: "string \<Rightarrow> string \<Rightarrow> unit actE" where
  "PutChangelog pid content = withProject pid (\<lambda>p base.
     write_file (base @ [''changelog.md'']) (DText content))"

definition GetChangelog :: "string \<Rightarrow> string actE" where
  "GetChangelog pid = withProject pid (\<lambda>p base. read_text (base @ [''changelog.md'']))"

definition AppendSpecLog :: "string \<Rightarrow> string \<Rightarrow> string \<Rightarrow> string \<Rightarrow> unit actE" where
  "AppendSpecLog pid sid ph line = withProject pid (\<lambda>p base.
     bindE (mkdir_all (path_join base [''specs'', sid, ''logs''])) (\<lambda>_.
     append_file (path_join (path_join base [''specs'', sid, ''logs'']) [ph @ ''.log'']) line))"

definition AppendProjectLog :: "string \<Rightarrow> string \<Rightarrow> string \<Rightarrow> unit actE" where
  "AppendProjectLog pid name line = withProject pid (\<lambda>p base.
     bindE (mkdir_all (base @ [''logs''])) (\<lambda>_.
     append_file (path_join (base @ [''logs'']) [path_base name @ ''.log'']) line))"

fun read_logs :: "path \<Rightarrow> (string \<times> bool) list \<Rightarrow> (string \<times> string) list act" where
  "read_logs dir [] = State_Monad.return []"
| "read_logs dir ((name, isdir) # es) =
     (if isdir \<or> \<not> has_suffix ''.log'' name then read_logs dir es
      else do {
        r \<leftarrow> read_text (dir @ [name]);
        rest \<leftarrow> read_logs dir es;
        State_Monad.return (case r of Inl _ \<Rightarrow> rest | Inr s \<Rightarrow> (trim_suffix ''.log'' name, s) # rest) })"

definition GetSpecLogs :: "string \<Rightarrow> string \<Rightarrow> (string \<times> string) list actE" where
  "GetSpecLogs pid sid = withProject pid (\<lambda>p base. do {
     let dir = path_join base [''specs'', sid, ''logs''];
     re \<leftarrow> read_dir dir;
     case re of
       Inl e \<Rightarrow> if e = NotExist then okE [] else throwE e
     | Inr es \<Rightarrow> do { ls \<leftarrow> read_logs dir es; okE ls } })"

section \<open>Roadmap and ideation\<close>

definition roadmap_path :: "path \<Rightarrow> path" where
  "roadmap_path base = base @ [''roadmap'', ''roadmap.json'']"

definition ideation_path :: "path \<Rightarrow> path" where
  "ideation_path base = base @ [''ideation'', ''ideation.json'']"

definition GetRoadmap :: "string \<Rightarrow> roadmap actE" where
  "GetRoadmap pid = withProject pid (\<lambda>p base. readJSON KRoadmap prj_roadmap (roadmap_path base))"

definition PutRoadmap :: "string \<Rightarrow> roadmap \<Rightarrow> unit actE" where
  "PutRoadmap pid rm = withProject pid (\<lambda>p base.
     writeJSON (roadmap_path base) (DRoadmap (if rm_id rm = [] then rm\<lparr>rm_id := ''roadmap-1''\<rparr> else rm)))"

definition GetIdeation :: "string \<Rightarrow> ideation actE" where
  "GetIdeation pid = withProject pid (\<lambda>p base. readJSON KIdeation prj_ideation (ideation_path base))"

definition PutIdeation :: "string \<Rightarrow> ideation \<Rightarrow> unit actE" where
  "PutIdeation pid ideas = withProject pid (\<lambda>p base. writeJSON (ideation_path base) (DIdeation ideas))"

section \<open>Jobs\<close>

definition job_file :: "path \<Rightarrow> string \<Rightarrow> path" where
  "job_file base runID = path_join base [''runs'', runID @ ''.json'']"

fun read_jobs :: "path \<Rightarrow> (string \<times> bool) list \<Rightarrow> job list act" where
  "read_jobs dir [] = State_Monad.return []"
| "read_jobs dir ((name, isdir) # es) =
     (if isdir \<or> \<not> has_suffix ''.json'' name then read_jobs dir es
      else do {
        r \<leftarrow> readJSON KJob prj_job (dir @ [name]);
        rest \<leftarrow> read_jobs dir es;
        State_Monad.return (case r of Inl _ \<Rightarrow> rest | Inr j \<Rightarrow> j # rest) })"

definition ListJobs :: "string \<Rightarrow> job list actE" where
  "ListJobs pid = withProject pid (\<lambda>p base.
     bindE (read_dir (base @ [''runs''])) (\<lambda>es. do { js \<leftarrow> read_jobs (base @ [''runs'']) es; okE js }))"

definition GetJob :: "string \<Rightarrow> string \<Rightarrow> job actE" where
  "GetJob pid runID = withProject pid (\<lambda>p base. readJSON KJob prj_job (job_file base runID))"

definition UpdateJob :: "string \<Rightarrow> job \<Rightarrow> unit actE" where
  "UpdateJob pid j = withProject pid (\<lambda>p base. do {
     now \<leftarrow> nowUTC;
     writeJSON (job_file base (j_runId j)) (DJob (j\<lparr>j_updatedAt := now\<rparr>)) })"

text \<open>The job a creation stores: identity from the origin, the pinned model only when it was
  resolved for this action's agent.\<close>

definition new_job :: "string \<Rightarrow> string \<Rightarrow> string \<Rightarrow> string \<Rightarrow> string \<Rightarrow> job_origin \<Rightarrow> time \<Rightarrow> job" where
  "new_job runID pid action sid img og now =
     (let agentKey = agentKeyForAction action;
          j = zero_job\<lparr> j_runId := runID, j_projectId := pid, j_specId := sid, j_action := action,
                j_state := ''queued'', j_createdAt := now, j_updatedAt := now, j_attempt := 1,
                j_runnerImage := img, j_organizationId := o_organizationId og,
                j_actorUsername := o_actorUsername og, j_agentKey := agentKey,
                j_modelOverride := o_modelOverride og\<rparr>
      in if pinnedFor og agentKey
         then j\<lparr> j_resolvedProvider := o_resolvedProvider og, j_resolvedModel := o_resolvedModel og,
                j_resolvedModelSource := o_resolvedModelSource og,
                j_resolvedKeyScope := o_resolvedKeyScope og,
                j_resolvedAgentKey := o_resolvedAgentKey og\<rparr>
         else j)"

definition CreateJobWithOrigin ::
  "string \<Rightarrow> string \<Rightarrow> string \<Rightarrow> string \<Rightarrow> job_origin \<Rightarrow> job actE" where
  "CreateJobWithOrigin pid action sid img og =
     (case unsupportedReviewAction action of
        Some e \<Rightarrow> throwE e
      | None \<Rightarrow> withProject pid (\<lambda>p base. do {
          now \<leftarrow> nowUTC;
          u \<leftarrow> uuid_new;
          let runID = itoa (unix_milli now) @ ''-'' @ u;
          let j = new_job runID pid action sid img og now;
          bindE (writeJSON (job_file base runID) (DJob j)) (\<lambda>_. do {
            now2 \<leftarrow> nowUTC;
            let st = (idleStatus now2)\<lparr> ps_active := True, ps_spec := sid,
                       ps_state := mapActionToState action, ps_runId := runID,
                       ps_lastUpdate := rfc3339 now\<rparr>;
            _ \<leftarrow> writeJSON (base @ [''status.json'']) (DStatus st);
            okE j }) }))"

definition CreateJob :: "string \<Rightarrow> string \<Rightarrow> string \<Rightarrow> string \<Rightarrow> job actE" where
  "CreateJob pid action sid img = CreateJobWithOrigin pid action sid img zero_origin"

section \<open>Valid actions\<close>

definition read_approved :: "path \<Rightarrow> string \<Rightarrow> bool actE" where
  "read_approved base sid = do {
     r \<leftarrow> readJSON KMap prj_map (spec_file base sid ''review_state.json'');
     okE (case r of Inl _ \<Rightarrow> False
          | Inr st \<Rightarrow> (case map_of st ''approved'' of Some (JBool v) \<Rightarrow> v | _ \<Rightarrow> False)) }"

definition result_or :: "'a \<Rightarrow> err + 'a \<Rightarrow> 'a" where
  "result_or d r = (case r of Inl _ \<Rightarrow> d | Inr x \<Rightarrow> x)"

record valid_actions =
  va_planning :: bool
  va_implementation :: bool
  va_review :: bool
  va_qaFix :: bool
  va_approve :: bool
  va_followupPlanning :: bool
  va_generateChangelog :: bool
  va_recover :: bool
  va_markStuck :: bool
  va_pause :: bool
  va_resume :: bool
  va_skipToPhase :: bool
  va_pipeline :: bool

definition valid_actions_of :: "task \<Rightarrow> plan \<Rightarrow> progress \<Rightarrow> bool \<Rightarrow> valid_actions" where
  "valid_actions_of t pl pr approved =
     (let hasPlan = (pl_phases pl \<noteq> [] \<or> (pl_planStatus pl \<noteq> [] \<and> pl_planStatus pl \<noteq> ''drafted''));
          status = t_status t;
          paused = pr_paused pr;
          stuckCount = countStuckOrFailed pl;
          working = (status = ''queue'' \<or> status = ''in_progress'' \<or> status = ''review'')
      in \<lparr> va_planning = (\<not> paused \<and> (status = ''backlog'' \<or> status = ''queue'' \<or> status = ''human_review'')),
           va_implementation = (\<not> paused \<and> (status = ''queue'' \<or> status = ''in_progress'') \<and> approved),
           va_review = False,
           va_qaFix = False,
           va_approve = (status = ''human_review''),
           va_followupPlanning = (\<not> paused \<and> hasPlan \<and> (working \<or> status = ''done'')),
           va_generateChangelog = True,
           va_recover = (hasPlan \<and> (stuckCount > 0 \<or> pr_stuckSubtaskId pr \<noteq> [] \<or>
                          status = ''in_progress'' \<or> status = ''review'')),
           va_markStuck = (\<not> paused \<and> hasPlan \<and> working \<and> stuckCount = 0),
           va_pause = (\<not> paused \<and> hasPlan \<and> working),
           va_resume = paused,
           va_skipToPhase = (\<not> paused \<and> hasPlan \<and> length (pl_phases pl) > 1 \<and> working),
           va_pipeline = (\<not> paused \<and> (status = ''backlog'' \<or> working \<or> status = ''human_review'')) \<rparr>)"

definition GetTaskValidActions :: "string \<Rightarrow> string \<Rightarrow> valid_actions actE" where
  "GetTaskValidActions pid sid = bindE (GetTask pid sid) (\<lambda>t. do {
     rp \<leftarrow> GetPlan pid sid;
     rg \<leftarrow> GetProgress pid sid;
     ra \<leftarrow> (if t_requireReview t then withProject pid (\<lambda>p base. read_approved base sid) else okE True);
     okE (valid_actions_of t (result_or zero_plan rp) (result_or zero_progress rg) (result_or False ra)) })"

end
