(* ===== verification/Roadmap_Rules.thy ===== *)
theory Roadmap_Rules
  imports Doc_Store
begin

text \<open>
  The rules of the roadmap that need no store: its check (\<open>validateRoadmapJSON\<close>), the
  competitor analysis (\<open>roadmap_competitor.go\<close>), the merge of a model's phases
  (\<open>mergeRoadmapPhases\<close> of \<open>model_apply.go\<close>), and the issues a roadmap is published as
  (\<open>roadmap_publish.go\<close>).
\<close>

section \<open>Short ids\<close>

text \<open>\<open>shortID\<close>: the nanoseconds of the current second; the clock is past 1970.\<close>

definition shortID :: "string \<Rightarrow> string act" where
  "shortID prefix = do {
     now \<leftarrow> nowUTC;
     State_Monad.return (prefix @ ''-'' @ itoa (now mod 1000000000)) }"

definition normalizeTitle :: "string \<Rightarrow> string" where
  "normalizeTitle s = to_lower (trim_space s)"

definition featureStatusImplemented :: "string \<Rightarrow> bool" where
  "featureStatusImplemented st \<longleftrightarrow>
     to_lower (trim_space st) \<in> {''implemented'', ''done'', ''completed'', ''shipped''}"

section \<open>The check\<close>

text \<open>The first phase without a name, numbered from 1.\<close>

fun nameless_phase :: "int \<Rightarrow> roadmap_phase list \<Rightarrow> int option" where
  "nameless_phase i [] = None"
| "nameless_phase i (p # ps) = (if blank (rp_name p) then Some i else nameless_phase (i + 1) ps)"

definition known_phases :: "roadmap \<Rightarrow> string list" where
  "known_phases rm = filter (\<lambda>i. i \<noteq> []) (map (\<lambda>p. trim_space (rp_id p)) (rm_phases rm))"

definition dangling :: "roadmap \<Rightarrow> roadmap_feature list" where
  "dangling rm = filter (\<lambda>f. trim_space (rf_phaseId f) \<noteq> [] \<and>
     trim_space (rf_phaseId f) \<notin> set (known_phases rm)) (rm_features rm)"

definition dangling_text :: "roadmap_feature \<Rightarrow> string" where
  "dangling_text f = nz (rf_title f) (rf_id f) @ arrow @ trim_space (rf_phaseId f)"

definition validateRoadmapJSON :: "roadmap \<Rightarrow> err option" where
  "validateRoadmapJSON rm =
     (if rm_phases rm = [] then Some (Errf ''roadmap has no phases; the board would render as empty'')
      else case nameless_phase 1 (rm_phases rm) of
        Some i \<Rightarrow> Some (Errf (''phase '' @ itoa i @ '' has no name''))
      | None \<Rightarrow>
          if dangling rm \<noteq> []
          then Some (Errf (itoa (int (length (dangling rm))) @ '' feature(s) reference an unknown phase: '' @
                 truncateRunes (join '', '' (map dangling_text (dangling rm))) 160))
          else None)"

section \<open>Competitor analysis\<close>

record competitor_entry =
  ce_name :: string
  ce_strengths :: "string list"
  ce_weaknesses :: "string list"
  ce_gaps :: "string list"

record competitor_analysis =
  ca_competitors :: "competitor_entry list"
  ca_marketGaps :: "string list"
  ca_differentiators :: "string list"
  ca_honesty :: string

definition heuristicCompetitorAnalysis :: "string \<Rightarrow> string list \<Rightarrow> competitor_analysis" where
  "heuristicCompetitorAnalysis projectName competitors =
     (let named = map (\<lambda>n. \<lparr>ce_name = n, ce_strengths = [], ce_weaknesses = [], ce_gaps = []\<rparr>)
                    (filter (\<lambda>n. n \<noteq> []) (map trim_space competitors))
      in \<lparr> ca_competitors = (if named = []
             then [\<lparr>ce_name = ''generic alternatives'', ce_strengths = [], ce_weaknesses = [], ce_gaps = [''deeper automation'']\<rparr>]
             else named),
           ca_marketGaps = [''autonomous task planning with approval gates''],
           ca_differentiators = [nz (trim_space projectName) ''this project'' @ '' board-driven delivery''],
           ca_honesty = [] \<rparr>)"

text \<open>The struct as JSON, with \<open>omitempty\<close>, and back.  \<open>json.Unmarshal\<close> fails on a field of
  another type.\<close>

definition opt_field :: "string \<Rightarrow> string list \<Rightarrow> (string \<times> json) list" where
  "opt_field k xs = (if xs = [] then [] else [(k, JArr (map JStr xs))])"

definition entry_json :: "competitor_entry \<Rightarrow> json" where
  "entry_json e = JObj ([(''name'', JStr (ce_name e))] @ opt_field ''strengths'' (ce_strengths e) @
     opt_field ''weaknesses'' (ce_weaknesses e) @ opt_field ''gaps'' (ce_gaps e))"

definition analysis_json :: "competitor_analysis \<Rightarrow> json" where
  "analysis_json a = JObj ([(''competitors'', JArr (map entry_json (ca_competitors a)))] @
     opt_field ''market_gaps'' (ca_marketGaps a) @ opt_field ''differentiators'' (ca_differentiators a) @
     (if ca_honesty a = [] then [] else [(''honesty'', JStr (ca_honesty a))]))"

fun json_string :: "json \<Rightarrow> string option" where
  "json_string (JStr s) = Some s"
| "json_string JNull = Some []"
| "json_string _ = None"

fun json_strings :: "json \<Rightarrow> string list option" where
  "json_strings (JArr xs) = those (map json_string xs)"
| "json_strings JNull = Some []"
| "json_strings _ = None"

definition field_or :: "(json \<Rightarrow> 'a option) \<Rightarrow> 'a \<Rightarrow> (string \<times> json) list \<Rightarrow> string \<Rightarrow> 'a option" where
  "field_or dec d kvs k = (case map_of kvs k of None \<Rightarrow> Some d | Some v \<Rightarrow> dec v)"

fun json_entry :: "json \<Rightarrow> competitor_entry option" where
  "json_entry (JObj kvs) = do {
     n \<leftarrow> field_or json_string [] kvs ''name'';
     s \<leftarrow> field_or json_strings [] kvs ''strengths'';
     v \<leftarrow> field_or json_strings [] kvs ''weaknesses'';
     g \<leftarrow> field_or json_strings [] kvs ''gaps'';
     Some \<lparr>ce_name = n, ce_strengths = s, ce_weaknesses = v, ce_gaps = g\<rparr> }"
| "json_entry JNull = Some \<lparr>ce_name = [], ce_strengths = [], ce_weaknesses = [], ce_gaps = []\<rparr>"
| "json_entry _ = None"

fun json_entries :: "json \<Rightarrow> competitor_entry list option" where
  "json_entries (JArr xs) = those (map json_entry xs)"
| "json_entries JNull = Some []"
| "json_entries _ = None"

definition zero_analysis :: competitor_analysis where
  "zero_analysis = \<lparr>ca_competitors = [], ca_marketGaps = [], ca_differentiators = [], ca_honesty = []\<rparr>"

fun json_analysis :: "json \<Rightarrow> competitor_analysis option" where
  "json_analysis (JObj kvs) = do {
     cs \<leftarrow> field_or json_entries [] kvs ''competitors'';
     m \<leftarrow> field_or json_strings [] kvs ''market_gaps'';
     d \<leftarrow> field_or json_strings [] kvs ''differentiators'';
     h \<leftarrow> field_or json_string [] kvs ''honesty'';
     Some \<lparr>ca_competitors = cs, ca_marketGaps = m, ca_differentiators = d, ca_honesty = h\<rparr> }"
| "json_analysis JNull = Some zero_analysis"
| "json_analysis _ = None"

text \<open>The wording of \<open>encoding/json\<close>'s error is not modelled.\<close>

definition parseCompetitorAnalysis ::
  "json option \<Rightarrow> string \<Rightarrow> string list \<Rightarrow> competitor_analysis \<times> bool" where
  "parseCompetitorAnalysis raw projectName competitors =
     (let fb = heuristicCompetitorAnalysis projectName competitors in
      case raw of
        None \<Rightarrow> (fb, False)
      | Some v \<Rightarrow> (case json_analysis v of
            None \<Rightarrow> (fb\<lparr>ca_honesty := ''model returned unparseable competitor JSON: '' @
                       truncateRunes (err_text BadJSON) 120\<rparr>, False)
          | Some got \<Rightarrow> if ca_competitors got = []
              then (fb\<lparr>ca_honesty := ''model returned no competitors''\<rparr>, False) else (got, True)))"

section \<open>Merging phases\<close>

definition bound_phase :: "roadmap_phase \<Rightarrow> bool" where
  "bound_phase ph \<longleftrightarrow> rp_milestoneNumber ph > 0"

definition plain_phase :: "string \<Rightarrow> string \<Rightarrow> string \<Rightarrow> int \<Rightarrow> string \<Rightarrow> roadmap_phase" where
  "plain_phase i name desc order status = \<lparr> rp_id = i, rp_name = name, rp_description = desc, rp_order = order,
     rp_status = status, rp_features = [], rp_milestoneNumber = 0, rp_milestoneTitle = [], rp_milestoneUrl = [] \<rparr>"

definition or_planned :: "string \<Rightarrow> string" where
  "or_planned status = (if trim_space status = [] then ''planned'' else trim_space status)"

definition fresh_id :: "string \<Rightarrow> string \<Rightarrow> string act" where
  "fresh_id i prefix = (if i = [] then shortID prefix else State_Monad.return i)"

text \<open>\<open>byName\<close>: the last existing phase of a name.\<close>

definition phase_named :: "string \<Rightarrow> roadmap_phase list \<Rightarrow> roadmap_phase option" where
  "phase_named key phases = List.find (\<lambda>ph. normalizeTitle (rp_name ph) = key) (rev phases)"

text \<open>The loop when no existing phase has a milestone: the incoming phases replace them.\<close>

fun replace_phases ::
  "roadmap_phase list \<Rightarrow> string list \<Rightarrow> int \<Rightarrow> roadmap_phase list \<Rightarrow> roadmap_phase list act" where
  "replace_phases existing seen i [] = State_Monad.return []"
| "replace_phases existing seen i (ph # phs) =
     (let name = trim_space (rp_name ph); key = to_lower name in
      if name = [] \<or> key \<in> set seen then replace_phases existing seen (i + 1) phs
      else do {
        let id0 = trim_space (rp_id ph);
        let id1 = (case phase_named key existing of Some prev \<Rightarrow> if id0 = [] then rp_id prev else id0 | None \<Rightarrow> id0);
        id2 \<leftarrow> fresh_id id1 ''phase'';
        rest \<leftarrow> replace_phases existing (key # seen) (i + 1) phs;
        State_Monad.return (plain_phase id2 name (trim_space (rp_description ph))
          (if rp_order ph = 0 then i + 1 else rp_order ph) (or_planned (rp_status ph)) # rest) })"

text \<open>The index by name of the merged list; the last phase of a name counts.\<close>

definition index_named :: "string \<Rightarrow> roadmap_phase list \<Rightarrow> nat option" where
  "index_named key phases = List.find (\<lambda>n. normalizeTitle (rp_name (phases ! n)) = key) (rev [0..<length phases])"

definition merge_into :: "roadmap_phase \<Rightarrow> roadmap_phase \<Rightarrow> roadmap_phase" where
  "merge_into old ph =
     (let d = trim_space (rp_description ph); s = trim_space (rp_status ph) in
      old\<lparr> rp_description := (if d \<noteq> [] then d else rp_description old),
           rp_order := (if rp_order ph > 0 then rp_order ph else rp_order old),
           rp_status := (if s \<noteq> [] then s else rp_status old)\<rparr>)"

fun merge_phases :: "roadmap_phase list \<Rightarrow> roadmap_phase list \<Rightarrow> roadmap_phase list act" where
  "merge_phases out [] = State_Monad.return out"
| "merge_phases out (ph # phs) =
     (let name = trim_space (rp_name ph); key = to_lower name in
      if name = [] then merge_phases out phs
      else case index_named key out of
        Some i \<Rightarrow> merge_phases (out[i := merge_into (out ! i) ph]) phs
      | None \<Rightarrow> do {
          id1 \<leftarrow> fresh_id (trim_space (rp_id ph)) ''phase'';
          merge_phases (out @ [plain_phase id1 name (trim_space (rp_description ph))
            (if rp_order ph = 0 then int (length out) + 1 else rp_order ph) (or_planned (rp_status ph))]) phs })"

definition mergeRoadmapPhases :: "roadmap_phase list \<Rightarrow> roadmap_phase list \<Rightarrow> roadmap_phase list act" where
  "mergeRoadmapPhases existing incoming =
     (if incoming = [] then State_Monad.return existing
      else if \<not> list_ex bound_phase existing then do {
        out \<leftarrow> replace_phases existing [] 0 incoming;
        if out \<noteq> [] then State_Monad.return out else merge_phases existing incoming }
      else merge_phases existing incoming)"

section \<open>Issues of a roadmap\<close>

record published_issue =
  pi_featureId :: string
  pi_number :: int
  pi_url :: string
  pi_title :: string
  pi_at :: string

text \<open>\<open>strFromAny\<close> and \<open>intFromAny\<close>.  The text of a value that is not a string is
  \<open>json.Marshal\<close>'s, without the quotes at its ends (for text without control characters and
  angle brackets, and keys in the order of the document).\<close>

fun json_bool_text :: "bool \<Rightarrow> string" where
  "json_bool_text True = ''true''" | "json_bool_text False = ''false''"

fun json_text :: "json \<Rightarrow> string" where
  "json_text JNull = ''null''"
| "json_text (JBool b) = json_bool_text b"
| "json_text (JNum n) = itoa n"
| "json_text (JStr s) = quote s"
| "json_text (JArr xs) = ''['' @ join '','' (map json_text xs) @ '']''"
| "json_text (JObj kvs) = ''{'' @ join '','' (map (\<lambda>(k, v). quote k @ '':'' @ json_text v) kvs) @ ''}''"

fun strFromAny :: "json \<Rightarrow> string" where
  "strFromAny JNull = []"
| "strFromAny (JStr s) = s"
| "strFromAny v = trim_cut [CHR 0x22] (json_text v)"

fun intFromAny :: "json \<Rightarrow> int" where
  "intFromAny (JNum n) = n"
| "intFromAny _ = 0"

text \<open>A missing key of a Go map reads as nil.\<close>

definition any_at :: "(string \<times> json) list \<Rightarrow> string \<Rightarrow> json" where
  "any_at m k = (case map_of m k of None \<Rightarrow> JNull | Some v \<Rightarrow> v)"

definition issue_json :: "published_issue \<Rightarrow> json" where
  "issue_json i = JObj [(''feature_id'', JStr (pi_featureId i)), (''number'', JNum (pi_number i)),
     (''url'', JStr (pi_url i)), (''title'', JStr (pi_title i)), (''at'', JStr (pi_at i))]"

fun issue_of :: "json \<Rightarrow> published_issue option" where
  "issue_of (JObj m) = (let fid = strFromAny (any_at m ''feature_id'') in
     if fid = [] then None
     else Some \<lparr>pi_featureId = fid, pi_number = intFromAny (any_at m ''number''),
            pi_url = strFromAny (any_at m ''url''), pi_title = strFromAny (any_at m ''title''),
            pi_at = strFromAny (any_at m ''at'')\<rparr>)"
| "issue_of _ = None"

definition publishedIssuesFor :: "roadmap \<Rightarrow> (string \<times> published_issue) list" where
  "publishedIssuesFor rm = (case map_of (rm_metadata rm) ''published_issues'' of
       Some (JArr items) \<Rightarrow>
         foldl (\<lambda>m i. AList.update (pi_featureId i) i m) [] (List.map_filter issue_of items)
     | _ \<Rightarrow> [])"

definition checklist :: "string \<Rightarrow> string \<Rightarrow> string list \<Rightarrow> string" where
  "checklist heading bullet items =
     (if items = [] then []
      else heading @ newline @
        concat (map (\<lambda>c. bullet @ trim_space c @ newline) (filter (\<lambda>c. trim_space c \<noteq> []) items)) @ newline)"

definition mid_dot :: string where "mid_dot = [CHR 0xC2, CHR 0xB7]"

definition code_span :: "string \<Rightarrow> string" where
  "code_span s = ''`'' @ s @ ''`''"

definition formatRoadmapIssueBody :: "roadmap \<Rightarrow> roadmap_feature \<Rightarrow> string \<Rightarrow> string" where
  "formatRoadmapIssueBody rm f ph =
     (let d = trim_space (rf_description f); r = trim_space (rf_rationale f);
          pr = trim_space (rf_priority f); cx = trim_space (rf_complexity f) in
      (if d \<noteq> [] then d @ newline @ newline else []) @
      (if r \<noteq> [] then ''**Why:** '' @ r @ newline @ newline else []) @
      checklist ''### Acceptance criteria'' ''- [ ] '' (rf_acceptanceCriteria f) @
      checklist ''### User stories'' ''- '' (rf_userStories f) @
      ''---'' @ newline @ ''Roadmap '' @ code_span (nz (rm_id rm) ''roadmap'') @
      (if ph \<noteq> [] then '' '' @ mid_dot @ '' phase **'' @ ph @ ''**'' else []) @
      '' '' @ mid_dot @ '' feature '' @ code_span (rf_id f) @
      (if pr \<noteq> [] then '' '' @ mid_dot @ '' priority '' @ pr else []) @
      (if cx \<noteq> [] then '' '' @ mid_dot @ '' complexity '' @ cx else []) @ newline)"

end
