(* ===== verification/Doc_Laws.thy ===== *)
theory Doc_Laws
  imports Doc_Store
begin

text \<open>
  The laws of the document stores: what a put leaves for a get, and what the operations
  that only write logs, notes or status leave alone.  A spec is \<open>sready\<close> when its project
  is ready, its directory is there and no document name is taken by a directory.
\<close>

section \<open>The documents of a spec\<close>

definition spec_path :: "world \<Rightarrow> string \<Rightarrow> string \<Rightarrow> string \<Rightarrow> path" where
  "spec_path w pid sid name = home w pid @ [''specs'', sid, name]"

definition doc_names :: "string list" where
  "doc_names = [''task.json'', ''implementation_plan.json'', ''progress.json'', ''review_state.json'', ''changes.json'',
     ''spec.md'']"

definition sready :: "world \<Rightarrow> string \<Rightarrow> project \<Rightarrow> string \<Rightarrow> bool" where
  "sready w pid p sid \<longleftrightarrow> ready w pid p \<and> plain sid \<and>
     look w (home w pid @ [''specs'', sid]) = Some Dir \<and>
     list_all (\<lambda>n. look w (spec_path w pid sid n) \<noteq> Some Dir) doc_names \<and>
     look w (board_path (home w pid)) \<noteq> Some Dir"

definition plan_at :: "world \<Rightarrow> string \<Rightarrow> string \<Rightarrow> plan option" where
  "plan_at w pid sid = (case look w (spec_path w pid sid ''implementation_plan.json'') of
     Some (File (DPlan x)) \<Rightarrow> Some x | _ \<Rightarrow> None)"

definition progress_at :: "world \<Rightarrow> string \<Rightarrow> string \<Rightarrow> progress option" where
  "progress_at w pid sid = (case look w (spec_path w pid sid ''progress.json'') of
     Some (File (DProgress x)) \<Rightarrow> Some x | _ \<Rightarrow> None)"

lemma plan_at_look: "plan_at w pid sid = Some x \<longleftrightarrow>
    look w (spec_path w pid sid ''implementation_plan.json'') = Some (File (DPlan x))"
  by (auto simp: plan_at_def split: option.splits node.splits doc.splits)

lemma progress_at_look: "progress_at w pid sid = Some x \<longleftrightarrow>
    look w (spec_path w pid sid ''progress.json'') = Some (File (DProgress x))"
  by (auto simp: progress_at_def split: option.splits node.splits doc.splits)

lemma task_path_spec: "task_path w pid sid = spec_path w pid sid ''task.json''"
  by (simp add: task_path_def spec_path_def)

lemma spec_path_sel [simp]:
  "spec_path (w\<lparr>ticks := k\<rparr>) pid sid n = spec_path w pid sid n"
  "spec_path (w\<lparr>uuids := k\<rparr>) pid sid n = spec_path w pid sid n"
  "spec_path (w\<lparr>spawned := js\<rparr>) pid sid n = spec_path w pid sid n"
  "spec_path (put_node q nd w) pid sid n = spec_path w pid sid n"
  by (simp_all add: spec_path_def)

lemma spec_path_ne [simp]: "spec_path w pid sid n \<noteq> []"
  by (simp add: spec_path_def)

lemma spec_path_eq [simp]: "spec_path w pid sid n = spec_path w pid sid m \<longleftrightarrow> n = m"
  by (simp add: spec_path_def)

lemma sready_ready: "sready w pid p sid \<Longrightarrow> ready w pid p"
  by (simp add: sready_def)

lemma sready_plain: "sready w pid p sid \<Longrightarrow> plain sid"
  by (simp add: sready_def)

lemma sready_dir: "sready w pid p sid \<Longrightarrow> look w (home w pid @ [''specs'', sid]) = Some Dir"
  by (simp add: sready_def)

lemma sready_doc: "sready w pid p sid \<Longrightarrow> n \<in> set doc_names \<Longrightarrow> look w (spec_path w pid sid n) \<noteq> Some Dir"
  by (simp add: sready_def list_all_iff)

lemma plain_logs [simp]: "plain ''implementation.log''" "plain ''planning.log''"
  by (simp_all add: plain_def)

lemma doc_names_plain: "n \<in> set doc_names \<Longrightarrow> plain n"
  by (auto simp: doc_names_def)

lemma sready_ticks [simp]: "sready (w\<lparr>ticks := k\<rparr>) pid p sid = sready w pid p sid"
  by (simp add: sready_def)

lemma sready_uuids [simp]: "sready (w\<lparr>uuids := k\<rparr>) pid p sid = sready w pid p sid"
  by (simp add: sready_def)

lemma sready_spawned [simp]: "sready (w\<lparr>spawned := k\<rparr>) pid p sid = sready w pid p sid"
  by (simp add: sready_def)

text \<open>One write below a project's directory keeps it ready.\<close>

lemma registry_not_home [simp]:
  "registryPath w \<noteq> home w pid @ r" "home w pid @ r \<noteq> registryPath w"
  by (auto simp: registryPath_def home_def)

lemma sready_put_file:
  assumes s: "sready w pid p sid" and q: "q = home w pid @ r"
    and par: "look w (butlast q) = Some Dir" and nd: "look w q \<noteq> Some Dir"
  shows "sready (put_node q (File d) w) pid p sid"
proof -
  have ne: "q \<noteq> []" using nd by auto
  have "ready (put_node q (File d) w) pid p"
    by (rule ready_put_file) (use s par nd q in \<open>simp_all add: sready_ready\<close>)
  moreover have "q \<noteq> home w pid @ [''specs'', sid]" using nd sready_dir[OF s] by auto
  ultimately show ?thesis using s ne by (simp add: sready_def look_put_node list_all_iff)
qed

lemma sready_put_dir:
  assumes s: "sready w pid p sid" and q: "q = home w pid @ r" "r \<noteq> []"
    and par: "look w (butlast q) = Some Dir" and none: "look w q = None"
    and nn: "q \<notin> spec_path w pid sid ` set doc_names" "q \<noteq> board_path (home w pid)"
  shows "sready (put_node q Dir w) pid p sid"
proof -
  have ne: "q \<noteq> []" using q by simp
  have "ready (put_node q Dir w) pid p"
    by (rule ready_put_dir) (use s par none ne in \<open>simp_all add: sready_ready\<close>)
  then show ?thesis using s ne nn by (auto simp: sready_def look_put_node list_all_iff)
qed

section \<open>Putting and getting\<close>

lemma run_put_spec:
  assumes s: "sready w pid p sid" and n: "n \<in> set doc_names"
  shows "run_state (withProject pid (\<lambda>p base. writeJSON (spec_file base sid n) d)) w =
      (Inr (), put_node (spec_path w pid sid n) (File d) w)"
proof -
  have "run_state (writeJSON (spec_path w pid sid n) d) w =
      (Inr (), put_node (spec_path w pid sid n) (File d) w)"
    using sready_doc[OF s n] sready_dir[OF s] ready_wf[OF sready_ready[OF s]] ready_faults[OF sready_ready[OF s]]
    by (intro run_writeJSON_wf) (simp_all add: spec_path_def butlast_append)
  then show ?thesis
    using sready_plain[OF s] doc_names_plain[OF n]
    by (simp add: spec_file_plain spec_path_def run_withProject_home[OF sready_ready[OF s]])
qed

lemma sready_put_spec:
  assumes s: "sready w pid p sid" and n: "n \<in> set doc_names"
  shows "sready (put_node (spec_path w pid sid n) (File d) w) pid p sid"
  by (rule sready_put_file[OF s, where r = "[''specs'', sid, n]"])
     (use sready_doc[OF s n] sready_dir[OF s] in \<open>simp_all add: spec_path_def butlast_append\<close>)

text \<open>The contract of a kind of document: after a put, whatever was there, a get returns
  what was put, and the store can be used on.\<close>

locale typed_doc =
  fixes Get :: "'k \<Rightarrow> 'a actE"
    and Put :: "'k \<Rightarrow> 'a \<Rightarrow> unit actE"
    and usable :: "world \<Rightarrow> 'k \<Rightarrow> bool"
    and norm :: "'a \<Rightarrow> 'a"
  assumes put_ok: "usable w k \<Longrightarrow> fst (run_state (Put k x) w) = Inr () \<and> usable (snd (run_state (Put k x) w)) k"
    and get_put: "usable w k \<Longrightarrow>
      run_state (Get k) (snd (run_state (Put k x) w)) = (Inr (norm x), snd (run_state (Put k x) w))"
    and norm_norm: "norm (norm x) = norm x"
begin

definition roundtrip :: "'k \<Rightarrow> 'a \<Rightarrow> 'a actE" where
  "roundtrip k x = bindE (Put k x) (\<lambda>_. Get k)"

lemma roundtrip_returns: "usable w k \<Longrightarrow> fst (run_state (roundtrip k x) w) = Inr (norm x)"
  using put_ok[of w k x] get_put[of w k x]
  by (cases "run_state (Put k x) w") (auto simp: roundtrip_def run)

lemma last_put_wins:
  "usable w k \<Longrightarrow> fst (run_state (bindE (Put k x) (\<lambda>_. roundtrip k y)) w) = Inr (norm y)"
  using put_ok[of w k x] roundtrip_returns[of "snd (run_state (Put k x) w)" k y]
  by (cases "run_state (Put k x) w") (auto simp: run)

lemma put_back:
  assumes "usable w k"
  shows "fst (run_state (bindE (roundtrip k x) (roundtrip k)) w) = Inr (norm x)"
proof -
  obtain w1 where 1: "run_state (Put k x) w = (Inr (), w1)" "usable w1 k"
    using put_ok[OF assms, of x] by (cases "run_state (Put k x) w") auto
  then have 2: "run_state (Get k) w1 = (Inr (norm x), w1)" using get_put[OF assms, of x] by simp
  then show ?thesis
    using 1 roundtrip_returns[OF 1(2), of "norm x"] by (simp add: roundtrip_def run norm_norm)
qed

end

definition spec_usable :: "project \<Rightarrow> world \<Rightarrow> string \<times> string \<Rightarrow> bool" where
  "spec_usable p w k \<longleftrightarrow> sready w (fst k) p (snd k)"

lemma run_PutPlan:
  "sready w pid p sid \<Longrightarrow> run_state (PutPlan pid sid x) w =
     (Inr (), put_node (spec_path w pid sid ''implementation_plan.json'') (File (DPlan x)) w)"
  unfolding PutPlan_def by (rule run_put_spec) (simp_all add: doc_names_def)

lemma run_PutProgress:
  "sready w pid p sid \<Longrightarrow> run_state (PutProgress pid sid x) w =
     (Inr (), put_node (spec_path w pid sid ''progress.json'') (File (DProgress x)) w)"
  unfolding PutProgress_def by (rule run_put_spec) (simp_all add: doc_names_def)

lemma run_GetPlan:
  assumes "sready w pid p sid" and "plan_at w pid sid = Some x"
  shows "run_state (GetPlan pid sid) w = (Inr x, w)"
  using assms
  by (simp add: GetPlan_def run_withProject_home[OF sready_ready] spec_file_plain sready_plain plan_at_look
      spec_path_def run_readJSON_File doc_kind_of_def)

lemma run_GetPlan_missing:
  assumes "sready w pid p sid" and "look w (spec_path w pid sid ''implementation_plan.json'') = None"
  shows "run_state (GetPlan pid sid) w = (Inl NotExist, w)"
  using assms
  by (simp add: GetPlan_def run_withProject_home[OF sready_ready] spec_file_plain sready_plain
      spec_path_def run_readJSON_None)

lemma run_GetProgress:
  assumes "sready w pid p sid" and "progress_at w pid sid = Some x"
  shows "run_state (GetProgress pid sid) w = (Inr x, w)"
  using assms
  by (simp add: GetProgress_def run run_withProject_home[OF sready_ready] spec_file_plain sready_plain
      progress_at_look spec_path_def run_readJSON_File doc_kind_of_def)

lemma run_GetProgress_missing:
  assumes "sready w pid p sid" and "look w (spec_path w pid sid ''progress.json'') = None"
  shows "run_state (GetProgress pid sid) w = (Inr zero_progress, w)"
  using assms
  by (simp add: GetProgress_def run run_withProject_home[OF sready_ready] spec_file_plain sready_plain spec_path_def)

lemma plan_at_put:
  "plan_at (put_node (spec_path w pid sid ''implementation_plan.json'') (File (DPlan x)) w) pid sid = Some x"
  by (simp add: plan_at_look look_put_node)

lemma progress_at_put:
  "progress_at (put_node (spec_path w pid sid ''progress.json'') (File (DProgress x)) w) pid sid = Some x"
  by (simp add: progress_at_look look_put_node)

interpretation plan_doc: typed_doc "\<lambda>k. GetPlan (fst k) (snd k)" "\<lambda>k. PutPlan (fst k) (snd k)" "spec_usable p" "\<lambda>x. x" for p
  by unfold_locales
     (auto simp: spec_usable_def run_PutPlan sready_put_spec doc_names_def plan_at_put
       intro!: run_GetPlan sready_put_spec)

interpretation progress_doc: typed_doc "\<lambda>k. GetProgress (fst k) (snd k)" "\<lambda>k. PutProgress (fst k) (snd k)" "spec_usable p" "\<lambda>x. x" for p
  by unfold_locales
     (auto simp: spec_usable_def run_PutProgress sready_put_spec doc_names_def progress_at_put
       intro!: run_GetProgress sready_put_spec)

section \<open>The documents of a project\<close>

definition pready :: "project \<Rightarrow> world \<Rightarrow> string \<Rightarrow> bool" where
  "pready p w pid \<longleftrightarrow> ready w pid p \<and>
     list_all (\<lambda>q. look w (home w pid @ q) \<noteq> Some Dir)
       [[''status.json''], [''roadmap'', ''roadmap.json''], [''ideation'', ''ideation.json'']]"

lemma run_put_project:
  assumes s: "pready p w pid"
    and q: "q \<in> {[''status.json''], [''roadmap'', ''roadmap.json''], [''ideation'', ''ideation.json'']}"
  shows "run_state (withProject pid (\<lambda>p base. writeJSON (base @ q) d)) w =
      (Inr (), put_node (home w pid @ q) (File d) w)"
    and "pready p (put_node (home w pid @ q) (File d) w) pid"
proof -
  have r: "ready w pid p" using s by (simp add: pready_def)
  have nd: "look w (home w pid @ q) \<noteq> Some Dir" using s q by (auto simp: pready_def)
  have lay: "layout_ok w (home w pid)" using r ready_home[OF r] by (simp add: ready_def)
  have "look w (home w pid) = Some Dir" "look w (home w pid @ [''roadmap'']) = Some Dir"
    "look w (home w pid @ [''ideation'']) = Some Dir"
    using lay by (simp_all add: layout_ok_def layout_dirs_def dir_ok_look)
  then have par: "look w (butlast (home w pid @ q)) = Some Dir"
    using q by (auto simp: butlast_append)
  have ne: "home w pid @ q \<noteq> []" by (simp add: home_def)
  show "run_state (withProject pid (\<lambda>p base. writeJSON (base @ q) d)) w =
      (Inr (), put_node (home w pid @ q) (File d) w)"
    using run_writeJSON_wf[OF ready_wf[OF r] ready_faults[OF r] par nd]
    by (simp add: run_withProject_home[OF r])
  have "ready (put_node (home w pid @ q) (File d) w) pid p"
    by (rule ready_put_file[OF r par nd]) simp
  then show "pready p (put_node (home w pid @ q) (File d) w) pid"
    using s ne by (auto simp: pready_def look_put_node)
qed

definition norm_roadmap :: "roadmap \<Rightarrow> roadmap" where
  "norm_roadmap rm = (if rm_id rm = [] then rm\<lparr>rm_id := ''roadmap-1''\<rparr> else rm)"

lemma run_PutRoadmap:
  assumes "pready p w pid"
  shows "run_state (PutRoadmap pid rm) w =
      (Inr (), put_node (roadmap_path (home w pid)) (File (DRoadmap (norm_roadmap rm))) w)"
    and "pready p (put_node (roadmap_path (home w pid)) (File d) w) pid"
  using run_put_project[OF assms, of "[''roadmap'', ''roadmap.json'']"]
  by (simp_all add: PutRoadmap_def roadmap_path_def norm_roadmap_def)

lemma run_PutIdeation:
  assumes "pready p w pid"
  shows "run_state (PutIdeation pid x) w =
      (Inr (), put_node (ideation_path (home w pid)) (File (DIdeation x)) w)"
    and "pready p (put_node (ideation_path (home w pid)) (File d) w) pid"
  using run_put_project[OF assms, of "[''ideation'', ''ideation.json'']"]
  by (simp_all add: PutIdeation_def ideation_path_def)

lemma run_PutStatus:
  assumes "pready p w pid"
  shows "run_state (PutStatus pid x) w = (Inr (), put_node (home w pid @ [''status.json'']) (File (DStatus x)) w)"
    and "pready p (put_node (home w pid @ [''status.json'']) (File d) w) pid"
  using run_put_project[OF assms, of "[''status.json'']"]
  by (simp_all add: PutStatus_def)

lemma pready_ready: "pready p w pid \<Longrightarrow> ready w pid p"
  by (simp add: pready_def)

lemma run_get_project:
  assumes "ready w pid p" and "look w (home w pid @ q) = Some (File d)" and "doc_kind_of d = Some k" and "prj d = Some x"
  shows "run_state (withProject pid (\<lambda>p base. readJSON k prj (base @ q))) w = (Inr x, w)"
  using assms by (simp add: run_withProject_home run_readJSON_File)

lemma look_put_home: "look (put_node (home w pid @ q) n w) (home w pid @ q) = Some n"
  by (simp add: look_put_node home_def)

text \<open>A put at one path of the project, then a get of the same kind there.\<close>

lemma get_after_put:
  assumes "pready p (put_node (home w pid @ q) (File d) w) pid" and "doc_kind_of d = Some k" and "prj d = Some x"
  shows "run_state (withProject pid (\<lambda>p base. readJSON k prj (base @ q))) (put_node (home w pid @ q) (File d) w) =
    (Inr x, put_node (home w pid @ q) (File d) w)"
  using run_get_project[OF pready_ready[OF assms(1)], of q d k prj x] look_put_home assms(2,3) by simp

interpretation roadmap_doc: typed_doc GetRoadmap PutRoadmap "pready p" norm_roadmap for p
proof unfold_locales
  fix w pid x assume u: "pready p w pid"
  note put = run_PutRoadmap(1)[OF u, of x] and ok = run_PutRoadmap(2)[OF u, of "DRoadmap (norm_roadmap x)"]
  show "fst (run_state (PutRoadmap pid x) w) = Inr () \<and> pready p (snd (run_state (PutRoadmap pid x) w)) pid"
    unfolding put using ok by simp
  show "run_state (GetRoadmap pid) (snd (run_state (PutRoadmap pid x) w)) =
      (Inr (norm_roadmap x), snd (run_state (PutRoadmap pid x) w))"
    unfolding put snd_conv GetRoadmap_def
    using ok unfolding roadmap_path_def by (rule get_after_put) (simp_all add: doc_kind_of_def)
qed (simp add: norm_roadmap_def)

interpretation ideation_doc: typed_doc GetIdeation PutIdeation "pready p" "\<lambda>x. x" for p
proof unfold_locales
  fix w pid x assume u: "pready p w pid"
  note put = run_PutIdeation(1)[OF u, of x] and ok = run_PutIdeation(2)[OF u, of "DIdeation x"]
  show "fst (run_state (PutIdeation pid x) w) = Inr () \<and> pready p (snd (run_state (PutIdeation pid x) w)) pid"
    unfolding put using ok by simp
  show "run_state (GetIdeation pid) (snd (run_state (PutIdeation pid x) w)) =
      (Inr x, snd (run_state (PutIdeation pid x) w))"
    unfolding put snd_conv GetIdeation_def
    using ok unfolding ideation_path_def by (rule get_after_put) (simp_all add: doc_kind_of_def)
qed simp

interpretation status_doc: typed_doc GetStatus PutStatus "pready p" "\<lambda>x. x" for p
proof unfold_locales
  fix w pid x assume u: "pready p w pid"
  note put = run_PutStatus(1)[OF u, of x] and ok = run_PutStatus(2)[OF u, of "DStatus x"]
  show "fst (run_state (PutStatus pid x) w) = Inr () \<and> pready p (snd (run_state (PutStatus pid x) w)) pid"
    unfolding put using ok by simp
  show "run_state (GetStatus pid) (snd (run_state (PutStatus pid x) w)) =
      (Inr x, snd (run_state (PutStatus pid x) w))"
    unfolding put snd_conv GetStatus_def
    using ok by (rule get_after_put) (simp_all add: doc_kind_of_def)
qed simp

end
