(* ===== verification/Job_Runner.thy ===== *)
theory Job_Runner
  imports Doc_Laws
begin

text \<open>
  The in-process executors of \<open>job_runner.go\<close>: planning, one implementation step, pause and
  resume, recover, mark-stuck, skip-to-phase, changelog.  An executor returns its message
  and its error; \<open>None\<close> is Go's nil.  An operation whose error the source drops is a
  plain step of the \<open>do\<close> block.
\<close>

type_synonym outcome = "string \<times> err option"

definition ok :: "string \<Rightarrow> outcome act" where
  "ok msg = State_Monad.return (msg, None)"

definition bad :: "string \<Rightarrow> err \<Rightarrow> outcome act" where
  "bad msg e = State_Monad.return (msg, Some e)"

definition tag :: "string \<Rightarrow> string" where
  "tag runID = ''['' @ runID @ ''] ''"

section \<open>Planning\<close>

definition builtin_spec_text :: "task \<Rightarrow> string \<Rightarrow> string" where
  "builtin_spec_text t runID =
     ''# '' @ t_title t @ newline @ newline @ ''## Summary'' @ newline @ newline @
     nz (t_description t) ''_No description provided._'' @ newline @ newline @
     ''## Acceptance criteria'' @ newline @ newline @
     ''- [ ] Core behavior works as described'' @ newline @
     ''- [ ] Tests or verification steps documented'' @ newline @
     ''- [ ] No regressions in related flows'' @ newline @ newline @
     ''## Notes'' @ newline @ newline @ ''Generated by OPM builtin planner ('' @ runID @ '').'' @ newline"

definition mk_subtask :: "string \<Rightarrow> string \<Rightarrow> string \<Rightarrow> string \<Rightarrow> subtask" where
  "mk_subtask i d s v = zero_subtask\<lparr>st_id := i, st_description := d, st_status := s, st_verification := v\<rparr>"

definition mk_phase :: "int \<Rightarrow> string \<Rightarrow> string \<Rightarrow> int list \<Rightarrow> subtask list \<Rightarrow> phase" where
  "mk_phase n name ty deps sts = \<lparr>ph_phase = n, ph_name = name, ph_type = ty, ph_parallelSafe = False,
     ph_dependsOn = deps, ph_subtasks = sts\<rparr>"

definition builtin_plan :: "string \<Rightarrow> plan" where
  "builtin_plan title =
     \<lparr> pl_feature = title, pl_workflowType = ''feature'', pl_servicesInvolved = [''opm-api''],
       pl_specFile = ''spec.md'', pl_status = ''ready'', pl_planStatus = ''ready'',
       pl_finalAcceptance = [''Behavior matches spec summary'', ''Verification steps completed''],
       pl_phases =
        [mk_phase 1 ''Design'' ''planning'' []
           [mk_subtask ''1-0'' ''Confirm scope and acceptance criteria'' ''completed'' ''spec.md reviewed''],
         mk_phase 2 ''Implement'' ''coding'' [1]
           [mk_subtask ''2-0'' (''Implement core change for: '' @ title) ''pending'' ''manual or automated check'',
            mk_subtask ''2-1'' ''Add or update tests / verification notes'' ''pending'' ''tests pass or checklist done''],
         mk_phase 3 ''Review'' ''review'' [2]
           [mk_subtask ''3-0'' ''Self-review against acceptance criteria'' ''pending'' ''checklist green'']] \<rparr>"

definition followup_plan :: "plan \<Rightarrow> plan" where
  "followup_plan existing =
     (let next = int (length (pl_phases existing)) + 1 in
      existing\<lparr> pl_phases := pl_phases existing @
          [mk_phase next ''Follow-up'' ''coding'' []
             [mk_subtask (itoa next @ ''-0'') ''Address follow-up request'' ''pending'' []]],
        pl_planStatus := ''ready'', pl_status := ''ready''\<rparr>)"

definition planning_progress :: "job \<Rightarrow> plan \<Rightarrow> time \<Rightarrow> progress" where
  "planning_progress j pl now =
     (let (n, d) = countPlanSubtasks pl in
      zero_progress\<lparr> pr_isRunning := False, pr_action := j_action j, pr_progress := pct d n,
        pr_subtaskCompleted := d, pr_subtaskTotal := n, pr_currentPhaseName := ''Design'',
        pr_runId := j_runId j, pr_completedAt := Some now\<rparr>)"

definition planning_log :: "string \<Rightarrow> plan \<Rightarrow> string" where
  "planning_log runID pl = tag runID @ ''builtin planning wrote spec.md + plan ('' @
     itoa (fst (countPlanSubtasks pl)) @ '' subtasks)'' @ newline"

definition planning_message :: "string \<Rightarrow> string" where
  "planning_message toStatus =
     (if toStatus = ''human_review''
      then ''Planning complete (builtin): wrote spec.md + implementation plan; moved to human_review (require review before coding).''
      else ''Planning complete (builtin): wrote spec.md + implementation plan; moved to queue.'')"

definition builtinPlanning :: "job \<Rightarrow> outcome act" where
  "builtinPlanning j =
     (if j_specId j = [] then bad ''run-planning requires specId'' (Errf ''specId required'')
      else do {
        rt \<leftarrow> GetTask (j_projectId j) (j_specId j);
        case rt of
          Inl e \<Rightarrow> bad ''Task not found'' e
        | Inr t \<Rightarrow> do {
            rs \<leftarrow> PutSpecMarkdown (j_projectId j) (j_specId j) (builtin_spec_text t (j_runId j));
            case rs of
              Inl e \<Rightarrow> bad ''Failed to write spec.md'' e
            | Inr _ \<Rightarrow> do {
                pl \<leftarrow> (if j_action j = ''run-followup-planning'' then do {
                        re \<leftarrow> GetPlan (j_projectId j) (j_specId j);
                        let existing = result_or zero_plan re;
                        State_Monad.return (if pl_phases existing \<noteq> [] then followup_plan existing
                                            else builtin_plan (t_title t)) }
                      else State_Monad.return (builtin_plan (t_title t)));
                rp \<leftarrow> PutPlan (j_projectId j) (j_specId j) pl;
                case rp of
                  Inl e \<Rightarrow> bad ''Failed to write implementation_plan.json'' e
                | Inr _ \<Rightarrow> do {
                    now \<leftarrow> nowUTC;
                    _ \<leftarrow> PutProgress (j_projectId j) (j_specId j) (planning_progress j pl now);
                    _ \<leftarrow> AppendSpecLog (j_projectId j) (j_specId j) ''planning''
                          (planning_log (j_runId j) pl);
                    let toStatus = (if t_requireReview t then ''human_review'' else ''queue'');
                    rm \<leftarrow> MoveTask (j_projectId j) (j_specId j) toStatus;
                    case rm of
                      Inl e \<Rightarrow> bad ''Plan written but move failed'' e
                    | Inr _ \<Rightarrow>
                        ok (planning_message toStatus) } } } })"

section \<open>One implementation step\<close>

definition builtinNoCodeNotice :: string where
  "builtinNoCodeNotice =
     ''No source changes were written: the builtin path tracks plan progress only. '' @
     ''Configure a model runner (OPM_MODEL_API_KEY) for the runner to produce file changes to deliver.''"

definition taskApprovedForCoding :: "string \<Rightarrow> string \<Rightarrow> bool act" where
  "taskApprovedForCoding pid sid = do {
     r \<leftarrow> withProject pid (\<lambda>p base. read_approved base sid);
     State_Monad.return (result_or False r) }"

definition impl_progress :: "job \<Rightarrow> bool \<Rightarrow> progress \<Rightarrow> plan \<Rightarrow> time option \<Rightarrow> progress" where
  "impl_progress j keepRunning prev pl started =
     (let (n, d) = countPlanSubtasks pl in
      zero_progress\<lparr> pr_isRunning := keepRunning, pr_paused := pr_paused prev,
        pr_stuckSubtaskId := pr_stuckSubtaskId prev, pr_action := j_action j, pr_progress := pct d n,
        pr_subtaskCompleted := d, pr_subtaskTotal := n, pr_runId := j_runId j, pr_startedAt := started,
        pr_currentPhaseName := (if d \<ge> n then ''Complete'' else ''Implement'')\<rparr>)"

definition append_notes :: "string \<Rightarrow> string \<Rightarrow> (time \<Rightarrow> string) \<Rightarrow> unit actE" where
  "append_notes pid sid line = withProject pid (\<lambda>p base. do {
     let notePath = spec_file base sid ''IMPLEMENTATION_NOTES.md'';
     prev \<leftarrow> read_text notePath;
     now \<leftarrow> nowUTC;
     write_file notePath (DText (result_or [] prev @ line now)) })"

definition counts_text :: "int \<Rightarrow> int \<Rightarrow> string" where
  "counts_text d n = ''('' @ itoa d @ ''/'' @ itoa n @ '')''"

definition impl_message :: "string \<Rightarrow> int \<Rightarrow> int \<Rightarrow> string" where
  "impl_message completedID d n =
     (if d \<ge> n
      then ''Implementation complete (builtin): finished subtask '' @ completedID @ ''; all '' @
           itoa n @ '' subtasks done; moved to review. '' @ builtinNoCodeNotice
      else ''Implementation step (builtin): completed subtask '' @ completedID @ '' '' @
           counts_text d n @ ''. Re-enqueue to continue. '' @ builtinNoCodeNotice)"

definition impl_log :: "string \<Rightarrow> string \<Rightarrow> int \<Rightarrow> int \<Rightarrow> string" where
  "impl_log runID completedID d n =
     tag runID @ ''completed subtask '' @ completedID @ '' '' @ counts_text d n @ newline"

definition note_line :: "string \<Rightarrow> time \<Rightarrow> string" where
  "note_line completedID now =
     ''- '' @ rfc3339 now @ '': completed subtask '' @ completedID @ '' (builtin runner)'' @ newline"

text \<open>The part after the plan was read and the card moved to in_progress.\<close>

definition impl_step :: "job \<Rightarrow> bool \<Rightarrow> plan \<Rightarrow> outcome act" where
  "impl_step j keepRunning pl0 =
     (let (pl1, completedID) = complete_next pl0;
          pid = j_projectId j; sid = j_specId j in
      if completedID = [] then do {
        _ \<leftarrow> MoveTask pid sid ''review'';
        ok ''All subtasks already completed; moved to review.'' }
      else do {
        let pl = pl1\<lparr>pl_status := ''in_progress'', pl_planStatus := ''in_progress''\<rparr>;
        rp \<leftarrow> PutPlan pid sid pl;
        case rp of
          Inl e \<Rightarrow> bad ''Failed to update plan'' e
        | Inr _ \<Rightarrow> do {
            let (n, d) = countPlanSubtasks pl;
            rprev \<leftarrow> GetProgress pid sid;
            let prev = result_or zero_progress rprev;
            started \<leftarrow> (if keepRunning then do {
                          start \<leftarrow> nowUTC;
                          State_Monad.return (case pr_startedAt prev of Some s \<Rightarrow> Some s | None \<Rightarrow> Some start) }
                        else State_Monad.return None);
            let prog = impl_progress j keepRunning prev pl started;
            _ \<leftarrow> (if d \<ge> n then do { _ \<leftarrow> MoveTask pid sid ''review''; okE () } else okE ());
            _ \<leftarrow> PutProgress pid sid prog;
            _ \<leftarrow> AppendSpecLog pid sid ''implementation'' (impl_log (j_runId j) completedID d n);
            _ \<leftarrow> append_notes pid sid (note_line completedID);
            ok (impl_message completedID d n) } })"

definition builtinImplementationOpts :: "job \<Rightarrow> bool \<Rightarrow> outcome act" where
  "builtinImplementationOpts j keepRunning =
     (let pid = j_projectId j; sid = j_specId j in
      if sid = [] then bad ''run-implementation requires specId'' (Errf ''specId required'')
      else do {
        rt \<leftarrow> GetTask pid sid;
        case rt of
          Inl e \<Rightarrow> bad ''Task not found'' e
        | Inr t \<Rightarrow> do {
            approved \<leftarrow> (if t_requireReview t then taskApprovedForCoding pid sid else State_Monad.return True);
            if t_requireReview t \<and> \<not> approved \<and> t_status t = ''human_review''
            then bad ''Blocked: approve-for-coding required before implementation'' (Errf ''not approved'')
            else do {
              rp \<leftarrow> GetPlan pid sid;
              case rp of
                Inl e \<Rightarrow> bad (''No plan '' @ em_dash @ '' run planning first'') (Errf ''plan missing'')
              | Inr pl \<Rightarrow>
                  (if pl_phases pl = []
                   then bad (''No plan '' @ em_dash @ '' run planning first'') (Errf ''plan missing'')
                   else do {
                     _ \<leftarrow> MoveTask pid sid ''in_progress'';
                     impl_step j keepRunning pl }) } } })"

definition builtinImplementation :: "job \<Rightarrow> outcome act" where
  "builtinImplementation j = builtinImplementationOpts j False"

section \<open>Pause and resume\<close>

definition put_idle_status :: "job \<Rightarrow> string \<Rightarrow> time \<Rightarrow> unit actE" where
  "put_idle_status j st now = do {
     now0 \<leftarrow> nowUTC;
     PutStatus (j_projectId j) ((idleStatus now0)\<lparr> ps_state := st, ps_spec := j_specId j,
       ps_lastUpdate := rfc3339 now, ps_runId := j_runId j\<rparr>) }"

text \<open>The same with the stamp read after \<open>idleStatus\<close>.\<close>

definition put_idle_status_now :: "job \<Rightarrow> string \<Rightarrow> unit actE" where
  "put_idle_status_now j st = do {
     now0 \<leftarrow> nowUTC;
     now \<leftarrow> nowUTC;
     PutStatus (j_projectId j) ((idleStatus now0)\<lparr> ps_state := st, ps_spec := j_specId j,
       ps_lastUpdate := rfc3339 now, ps_runId := j_runId j\<rparr>) }"

definition taskPausedBlock :: "job \<Rightarrow> (string option) act" where
  "taskPausedBlock j =
     (if j_action j \<in> {''pause-task'', ''resume-task'', ''recover-subtask'', ''mark-stuck'', ''generate-changelog'',
        ''skip-to-phase'', ''run-roadmap-discovery'', ''run-roadmap-features'',
        ''run-roadmap-competitor'', ''run-roadmap-publish'', ''run-ideation''}
      then State_Monad.return None
      else if j_specId j = [] then State_Monad.return None
      else do {
        r \<leftarrow> GetProgress (j_projectId j) (j_specId j);
        State_Monad.return (case r of Inl _ \<Rightarrow> None
          | Inr pr \<Rightarrow> if pr_paused pr
                      then Some (''Task is paused '' @ em_dash @ '' enqueue resume-task before continuing automation.'')
                      else None) })"

definition builtinPause :: "job \<Rightarrow> outcome act" where
  "builtinPause j =
     (let pid = j_projectId j; sid = j_specId j in
      if sid = [] then bad ''pause-task requires specId'' (Errf ''specId required'')
      else do {
        r \<leftarrow> GetProgress pid sid;
        let prog = result_or zero_progress r;
        if pr_paused prog then ok ''Task already paused.''
        else do {
          completedAt \<leftarrow> nowUTC;
          rp \<leftarrow> PutProgress pid sid (prog\<lparr> pr_paused := True, pr_isRunning := False, pr_action := ''paused'',
                 pr_runId := j_runId j, pr_completedAt := Some completedAt\<rparr>);
          case rp of
            Inl e \<Rightarrow> bad ''Failed to write pause state'' e
          | Inr _ \<Rightarrow> do {
              _ \<leftarrow> put_idle_status j ''idle'' completedAt;
              _ \<leftarrow> AppendSpecLog pid sid ''implementation'' (tag (j_runId j) @ ''pause-task: automation paused'' @ newline);
              ok ''Task paused (builtin): further plan/build/review jobs blocked until resume-task.'' } } })"

definition builtinResume :: "job \<Rightarrow> outcome act" where
  "builtinResume j =
     (let pid = j_projectId j; sid = j_specId j in
      if sid = [] then bad ''resume-task requires specId'' (Errf ''specId required'')
      else do {
        r \<leftarrow> GetProgress pid sid;
        let prog = result_or zero_progress r;
        if \<not> pr_paused prog then ok ''Task was not paused.''
        else do {
          rp \<leftarrow> PutProgress pid sid (prog\<lparr> pr_paused := False, pr_isRunning := False, pr_action := ''resumed'',
                 pr_runId := j_runId j\<rparr>);
          case rp of
            Inl e \<Rightarrow> bad ''Failed to clear pause state'' e
          | Inr _ \<Rightarrow> do {
              _ \<leftarrow> AppendSpecLog pid sid ''implementation'' (tag (j_runId j) @ ''resume-task: automation resumed'' @ newline);
              ok ''Task resumed (builtin): plan/build/review jobs allowed again.'' } } })"

section \<open>Recover and mark-stuck\<close>

definition recover_message :: "string list \<Rightarrow> string" where
  "recover_message ids = ''Recover (builtin): reset '' @ itoa (int (length ids)) @ '' subtask(s) ('' @
     join '', '' ids @ '') to pending; moved to in_progress. Re-enqueue run-implementation.''"

text \<open>The progress document after a recovery or a skip.\<close>

definition reset_progress :: "job \<Rightarrow> string \<Rightarrow> string \<Rightarrow> plan \<Rightarrow> progress \<Rightarrow> progress" where
  "reset_progress j action phaseName pl prog =
     (let (n, d) = countPlanSubtasks pl in
      prog\<lparr> pr_paused := False, pr_isRunning := False, pr_action := action, pr_stuckSubtaskId := [],
        pr_progress := pct d n, pr_subtaskCompleted := d, pr_subtaskTotal := n,
        pr_currentPhaseName := phaseName, pr_runId := j_runId j\<rparr>)"

definition builtinRecover :: "job \<Rightarrow> outcome act" where
  "builtinRecover j =
     (let pid = j_projectId j; sid = j_specId j in
      if sid = [] then bad ''recover-subtask requires specId'' (Errf ''specId required'')
      else do {
        r \<leftarrow> GetPlan pid sid;
        let pl0 = result_or zero_plan r;
        if pl_phases pl0 = [] then bad (''No plan '' @ em_dash @ '' run planning first'') (Errf ''plan missing'')
        else do {
          let (pl1, recovered) = recover_plan pl0;
          if recovered = [] then ok ''Recover (builtin): no stuck/failed/in_progress subtasks to reset.''
          else do {
            let pl = pl1\<lparr>pl_status := ''in_progress'', pl_planStatus := ''in_progress''\<rparr>;
            rp \<leftarrow> PutPlan pid sid pl;
            case rp of
              Inl e \<Rightarrow> bad ''Failed to update plan after recover'' e
            | Inr _ \<Rightarrow> do {
                rg \<leftarrow> GetProgress pid sid;
                _ \<leftarrow> PutProgress pid sid (reset_progress j ''recover-subtask'' ''Recovered'' pl (result_or zero_progress rg));
                _ \<leftarrow> MoveTask pid sid ''in_progress'';
                _ \<leftarrow> AppendSpecLog pid sid ''implementation'' (tag (j_runId j) @ ''recover-subtask: reset '' @
                      join '', '' recovered @ '' to pending'' @ newline);
                _ \<leftarrow> put_idle_status_now j ''idle'';
                ok (recover_message recovered) } } } })"

definition stuck_progress :: "job \<Rightarrow> string \<Rightarrow> progress \<Rightarrow> progress" where
  "stuck_progress j stuckID prog = prog\<lparr> pr_isRunning := False, pr_action := ''stuck'',
     pr_stuckSubtaskId := stuckID, pr_runId := j_runId j\<rparr>"

definition mark_stuck_docs :: "job \<Rightarrow> plan \<Rightarrow> string \<Rightarrow> unit act" where
  "mark_stuck_docs j pl stuckID = do {
     _ \<leftarrow> PutPlan (j_projectId j) (j_specId j) pl;
     rg \<leftarrow> GetProgress (j_projectId j) (j_specId j);
     _ \<leftarrow> PutProgress (j_projectId j) (j_specId j) (stuck_progress j stuckID (result_or zero_progress rg));
     State_Monad.return () }"

definition mark_message :: "string \<Rightarrow> string" where
  "mark_message i = ''Marked subtask '' @ i @ '' stuck (builtin). Enqueue recover-subtask to continue.''"

definition builtinMarkStuck :: "job \<Rightarrow> outcome act" where
  "builtinMarkStuck j =
     (let pid = j_projectId j; sid = j_specId j in
      if sid = [] then bad ''mark-stuck requires specId'' (Errf ''specId required'')
      else do {
        r \<leftarrow> GetPlan pid sid;
        let pl0 = result_or zero_plan r;
        if pl_phases pl0 = [] then bad (''No plan '' @ em_dash @ '' run planning first'') (Errf ''plan missing'')
        else do {
          let (pl, stuckID) = mark_next_stuck pl0;
          if stuckID = []
          then bad ''Mark stuck (builtin): no pending/in_progress subtask to mark.'' (Errf ''nothing to mark'')
          else do {
            _ \<leftarrow> mark_stuck_docs j pl stuckID;
            _ \<leftarrow> MoveTask pid sid ''in_progress'';
            _ \<leftarrow> put_idle_status_now j ''stuck'';
            _ \<leftarrow> AppendSpecLog pid sid ''implementation'' (tag (j_runId j) @ ''mark-stuck: subtask '' @ stuckID @ newline);
            ok (mark_message stuckID) } } })"

definition markJobCancelledStuck :: "job \<Rightarrow> unit act" where
  "markJobCancelledStuck j =
     (let pid = j_projectId j; sid = j_specId j in
      if sid = [] then State_Monad.return ()
      else if j_action j \<notin> {''run-implementation'', ''run-planning'', ''run-followup-planning'', ''run-pipeline''}
      then State_Monad.return ()
      else do {
        r \<leftarrow> GetPlan pid sid;
        case r of
          Inl _ \<Rightarrow> State_Monad.return ()
        | Inr pl0 \<Rightarrow> do {
            let (pl, stuckID) = mark_next_stuck pl0;
            if stuckID = [] then State_Monad.return ()
            else do {
              _ \<leftarrow> mark_stuck_docs j pl stuckID;
              _ \<leftarrow> put_idle_status_now j ''stuck'';
              _ \<leftarrow> AppendSpecLog pid sid ''implementation'' (tag (j_runId j) @ ''job cancelled '' @ em_dash @
                    '' marked subtask '' @ stuckID @ '' stuck'' @ newline);
              State_Monad.return () } } })"

section \<open>Skip to a phase\<close>

definition skip_message :: "int \<Rightarrow> string \<Rightarrow> int \<Rightarrow> string \<Rightarrow> string" where
  "skip_message target name skipped status =
     ''Skip-to-phase (builtin): jumped to phase '' @ itoa target @ '' ('' @ name @ ''); marked '' @
     itoa skipped @ '' earlier subtask(s) complete; status '' @ status @ ''.''"

definition skip_log :: "string \<Rightarrow> int \<Rightarrow> string \<Rightarrow> int \<Rightarrow> string" where
  "skip_log runID target name skipped =
     tag runID @ ''skip-to-phase '' @ arrow @ '' '' @ itoa target @ '' ('' @ name @ ''); completed '' @
     itoa skipped @ '' prior subtask(s)'' @ newline"

definition builtinSkipToPhase :: "job \<Rightarrow> outcome act" where
  "builtinSkipToPhase j =
     (let pid = j_projectId j; sid = j_specId j; target = j_targetPhase j in
      if sid = [] then bad ''skip-to-phase requires specId'' (Errf ''specId required'')
      else if target < 1 then bad ''skip-to-phase requires targetPhase >= 1'' (Errf ''targetPhase required'')
      else do {
        r \<leftarrow> GetPlan pid sid;
        let pl0 = result_or zero_plan r;
        if pl_phases pl0 = [] then bad (''No plan '' @ em_dash @ '' run planning first'') (Errf ''plan missing'')
        else if \<not> skip_found target pl0 then bad (''No plan phase '' @ itoa target) (Errf ''unknown targetPhase'')
        else do {
          let pl = (skip_plan target pl0)\<lparr>pl_status := ''in_progress'', pl_planStatus := ''in_progress''\<rparr>;
          let targetName = skip_name target pl0;
          let skipped = skip_count target pl0;
          rp \<leftarrow> PutPlan pid sid pl;
          case rp of
            Inl e \<Rightarrow> bad ''Failed to update plan after skip'' e
          | Inr _ \<Rightarrow> do {
              rg \<leftarrow> GetProgress pid sid;
              _ \<leftarrow> PutProgress pid sid (reset_progress j ''skip-to-phase'' (nz targetName (''Phase '' @ itoa target)) pl
                    (result_or zero_progress rg));
              let toStatus = skip_status target pl;
              _ \<leftarrow> MoveTask pid sid toStatus;
              _ \<leftarrow> AppendSpecLog pid sid ''implementation'' (skip_log (j_runId j) target targetName skipped);
              _ \<leftarrow> put_idle_status_now j ''idle'';
              ok (skip_message target targetName skipped toStatus) } } })"

section \<open>Changelog\<close>

fun changelog_lines :: "string \<Rightarrow> string list \<Rightarrow> string act" where
  "changelog_lines pid [] = State_Monad.return []"
| "changelog_lines pid (i # is) = do {
     r \<leftarrow> GetTask pid i;
     let line = (case r of
         Inl _ \<Rightarrow> ''- **'' @ i @ ''** (`'' @ i @ ''`)''
       | Inr t \<Rightarrow> ''- **'' @ t_title t @ ''** (`'' @ i @ ''`)'' @
           (if t_description t \<noteq> [] then '' '' @ em_dash @ '' '' @ truncateRunes (t_description t) 120 else []));
     rest \<leftarrow> changelog_lines pid is;
     State_Monad.return (line @ newline @ rest) }"

definition builtinChangelog :: "job \<Rightarrow> outcome act" where
  "builtinChangelog j = do {
     rb \<leftarrow> GetBoard (j_projectId j);
     case rb of
       Inl e \<Rightarrow> bad ''Board missing'' e
     | Inr b \<Rightarrow> do {
         let doneIDs = board_col b ''done'';
         now \<leftarrow> nowUTC;
         ls \<leftarrow> (if doneIDs = [] then State_Monad.return (''- _(no done tasks yet)_'' @ newline)
                else changelog_lines (j_projectId j) doneIDs);
         let text = ''# Changelog'' @ newline @ newline @ ''Generated '' @ rfc3339 now @
               '' by OPM builtin runner (`'' @ j_runId j @ ''`).'' @ newline @ newline @ ''### Added'' @ newline @ newline @
               ls @ newline @ ''### Changed'' @ newline @ newline @ ''- _(none)_'' @ newline @ newline @
               ''### Fixed'' @ newline @ newline @ ''- _(none)_'' @ newline;
         rc \<leftarrow> PutChangelog (j_projectId j) text;
         case rc of
           Inl e \<Rightarrow> bad ''Failed to write changelog.md'' e
         | Inr _ \<Rightarrow> ok (''Changelog generated (builtin) from '' @ itoa (int (length doneIDs)) @ '' done task(s).'') } }"

end
