(* ===== verification/Text_Rules.thy ===== *)
theory Text_Rules
  imports File_Store
begin

text \<open>
  The pure text rules of delivery and of the runner containers: branch names and the
  redaction of credentials (\<open>delivery_git.go\<close>), container names and the docker argument
  list (\<open>spawn_container.go\<close>), path segments of the task workspaces
  (\<open>task_workspace.go\<close>).
\<close>

section \<open>Branch names\<close>

definition is_lower_alnum :: "char \<Rightarrow> bool" where
  "is_lower_alnum c \<longleftrightarrow> is_lower c \<or> is_digit c"

text \<open>The loop of \<open>sanitizeBranchSegment\<close>; both of its last cases write one dash.\<close>

fun dash_runs :: "bool \<Rightarrow> string \<Rightarrow> string" where
  "dash_runs prevDash [] = []"
| "dash_runs prevDash (c # cs) =
     (if is_lower_alnum c then c # dash_runs False cs
      else if prevDash then dash_runs True cs
      else CHR ''-'' # dash_runs True cs)"

definition sanitizeBranchSegment :: "string \<Rightarrow> string" where
  "sanitizeBranchSegment s =
     (let out = trim_cut ''-.'' (dash_runs False (to_lower (trim_space s))) in
      if length out > 60 then trim_cut ''-.'' (take 60 out) else out)"

definition deliveryBranchPrefix :: "world \<Rightarrow> string" where
  "deliveryBranchPrefix w = trim_cut ''/'' (envOr w ''OPM_DELIVERY_BRANCH_PREFIX'' ''opm'')"

definition deliveryBranchName :: "world \<Rightarrow> string \<Rightarrow> string \<Rightarrow> string" where
  "deliveryBranchName w specID requested =
     (let req = sanitizeBranchSegment requested in
      if req \<noteq> [] then req
      else let seg0 = sanitizeBranchSegment specID;
               seg = (if seg0 = [] then ''task'' else seg0);
               prefix = deliveryBranchPrefix w
           in if prefix = [] then seg else prefix @ ''/'' @ seg)"

section \<open>Redaction\<close>

definition redactSecret :: "string \<Rightarrow> string \<Rightarrow> string" where
  "redactSecret txt0 secret0 =
     (let secret = trim_space secret0 in
      if secret = [] \<or> length secret < 8 then txt0 else replace_all secret ''[redacted]'' txt0)"

definition truncateBytes :: "string \<Rightarrow> nat \<Rightarrow> string" where
  "truncateBytes b n = (if length b \<le> n then b else take n b)"

section \<open>Segments and container names\<close>

definition path_segment_char :: "char \<Rightarrow> bool" where
  "path_segment_char c \<longleftrightarrow> is_lower c \<or> is_upper c \<or> is_digit c \<or> c = CHR ''-'' \<or> c = CHR ''_''"

text \<open>A rune that is not ASCII counts once, at its first byte.\<close>

definition sanitizePathSegment :: "string \<Rightarrow> string" where
  "sanitizePathSegment s0 =
     (let s = trim_space s0 in
      if s = [] then ''_''
      else let out = map (\<lambda>c. if path_segment_char c then c else CHR ''_'') (filter (\<lambda>c. \<not> is_cont c) s)
           in if out = [] then ''_'' else out)"

definition sanitizeDockerName :: "string \<Rightarrow> string" where
  "sanitizeDockerName s =
     (let out0 = map (\<lambda>c. if is_lower c \<or> is_digit c \<or> c = CHR ''-'' \<or> c = CHR ''_'' then c else CHR ''-'')
                   (filter (\<lambda>c. \<not> is_cont c) (to_lower s));
          out = (if out0 = [] then ''anon'' else out0)
      in if length out > 48 then take 48 out else out)"

section \<open>The docker argument list\<close>

text \<open>\<open>insertBeforeImage\<close>: before the last occurrence of the image, else at the end.\<close>

definition insertBeforeImage :: "string list \<Rightarrow> string \<Rightarrow> string list \<Rightarrow> string list" where
  "insertBeforeImage args img extra =
     (if img \<in> set args
      then let n = length args - Suc (length (takeWhile (\<lambda>a. a \<noteq> img) (rev args)))
           in take n args @ extra @ drop n args
      else args @ extra)"

text \<open>The loop of \<open>replaceNetwork\<close>: the value after the first \<open>--network\<close> that has one.\<close>

fun set_network :: "string \<Rightarrow> string list \<Rightarrow> string list option" where
  "set_network net (a # b # rest) =
     (if a = ''--network'' then Some (a # net # rest) else map_option ((#) a) (set_network net (b # rest)))"
| "set_network net args = None"

definition replaceNetwork :: "string list \<Rightarrow> string \<Rightarrow> string list" where
  "replaceNetwork args net = (case set_network net args of
       Some args' \<Rightarrow> args'
     | None \<Rightarrow> insertBeforeImage args (last args) [''--network'', net])"

section \<open>Laws\<close>

subsection \<open>Branch segments\<close>

definition safe_char :: "char \<Rightarrow> bool" where
  "safe_char c \<longleftrightarrow> is_lower_alnum c \<or> c = CHR ''-''"

text \<open>No two dashes in a row.\<close>

fun single_dashes :: "string \<Rightarrow> bool" where
  "single_dashes (a # b # cs) \<longleftrightarrow> \<not> (a = CHR ''-'' \<and> b = CHR ''-'') \<and> single_dashes (b # cs)"
| "single_dashes _ \<longleftrightarrow> True"

definition segment_ok :: "string \<Rightarrow> bool" where
  "segment_ok s \<longleftrightarrow> list_all safe_char s \<and> single_dashes s \<and> length s \<le> 60 \<and>
     (s \<noteq> [] \<longrightarrow> hd s \<noteq> CHR ''-'' \<and> last s \<noteq> CHR ''-'')"

lemma dash_not_alnum [simp]: "\<not> is_lower_alnum (CHR ''-'')" "\<not> is_lower_alnum (CHR ''.'')"
  by (simp_all add: is_lower_alnum_def is_lower_def is_digit_def)

lemma dash_runs_safe: "list_all safe_char (dash_runs b s)"
  by (induction b s rule: dash_runs.induct) (auto simp: safe_char_def)

lemma dash_runs_single: "single_dashes (dash_runs b s) \<and> (b \<longrightarrow> dash_runs b s = [] \<or> hd (dash_runs b s) \<noteq> CHR ''-'')"
proof (induction b s rule: dash_runs.induct)
  case (2 b c cs)
  have step: "single_dashes (x # t)" if "single_dashes t" "x = CHR ''-'' \<longrightarrow> t = [] \<or> hd t \<noteq> CHR ''-''" for x t
    using that by (cases t) auto
  show ?case
  proof (cases "is_lower_alnum c")
    case True
    then have "c \<noteq> CHR ''-''" by auto
    then show ?thesis using True 2 step by auto
  next
    case False
    then show ?thesis using 2 step by auto
  qed
qed simp

lemma single_dashes_append: "single_dashes (a @ b) \<Longrightarrow> single_dashes a \<and> single_dashes b"
proof (induction a)
  case (Cons x xs)
  then show ?case by (cases xs; cases b) auto
qed simp

lemma trim_decomp: "\<exists>a c. s = a @ trim P s @ c"
proof -
  have "s = takeWhile P s @ trim_left P s" by (simp add: trim_left_def)
  moreover obtain zs where "trim_left P s = trim P s @ zs" unfolding trim_def using trim_right_decomp by blast
  ultimately show ?thesis by metis
qed

lemma segment_ok_trim:
  assumes "list_all safe_char s" and "single_dashes s" and "length s \<le> 60"
  shows "segment_ok (trim_cut ''-.'' s)"
proof -
  let ?t = "trim_cut ''-.'' s"
  obtain a c where s: "s = a @ ?t @ c" unfolding trim_cut_def using trim_decomp by blast
  have "list_all safe_char ?t" using assms(1) by (subst (asm) s) simp
  moreover have "single_dashes ?t" using assms(2) s single_dashes_append by metis
  moreover have "length ?t \<le> 60" using assms(3) unfolding trim_cut_def using length_trim order_trans by blast
  moreover have "hd ?t \<noteq> CHR ''-''" "last ?t \<noteq> CHR ''-''" if "?t \<noteq> []"
    using that trim_head[of "\<lambda>c. c \<in> set ''-.''" s] trim_last[of "\<lambda>c. c \<in> set ''-.''" s] by (auto simp: trim_cut_def)
  ultimately show ?thesis by (simp add: segment_ok_def)
qed

lemma segment_ok_sanitize: "segment_ok (sanitizeBranchSegment s)"
proof -
  let ?d = "dash_runs False (to_lower (trim_space s))"
  let ?o = "trim_cut ''-.'' ?d"
  obtain a c where d: "?d = a @ ?o @ c" unfolding trim_cut_def using trim_decomp by blast
  have safe: "list_all safe_char ?o" using dash_runs_safe[of False "to_lower (trim_space s)"] by (subst (asm) d) simp
  have single: "single_dashes ?o" using dash_runs_single[of False "to_lower (trim_space s)"] d single_dashes_append by metis
  show ?thesis
  proof (cases "length ?o > 60")
    case True
    have "single_dashes (take 60 ?o)" using single single_dashes_append by (metis append_take_drop_id)
    moreover have "list_all safe_char (take 60 ?o)" using safe by (auto simp: list_all_iff dest: in_set_takeD)
    ultimately have "segment_ok (trim_cut ''-.'' (take 60 ?o))" by (intro segment_ok_trim) simp_all
    then show ?thesis using True by (simp add: sanitizeBranchSegment_def)
  next
    case False
    then have "segment_ok ?o"
      using safe single trim_head[of "\<lambda>c. c \<in> set ''-.''" ?d] trim_last[of "\<lambda>c. c \<in> set ''-.''" ?d]
      by (auto simp: segment_ok_def trim_cut_def)
    then show ?thesis using False by (simp add: sanitizeBranchSegment_def)
  qed
qed

lemma safe_char_props:
  assumes "safe_char c"
  shows "\<not> is_space c" "lower_char c = c" "c \<noteq> CHR ''.''" "c \<noteq> CHR ''/''"
  using assms
  by (auto simp: safe_char_def is_lower_alnum_def is_lower_def is_digit_def is_space_def lower_char_def is_upper_def)

lemma dash_runs_id:
  "list_all safe_char s \<Longrightarrow> single_dashes s \<Longrightarrow> (b \<longrightarrow> s = [] \<or> hd s \<noteq> CHR ''-'') \<Longrightarrow> dash_runs b s = s"
proof (induction b s rule: dash_runs.induct)
  case (2 b c cs)
  have t: "single_dashes cs" using 2(5) by (cases cs) auto
  show ?case
  proof (cases "is_lower_alnum c")
    case True
    then show ?thesis using 2 t by simp
  next
    case False
    then have c: "c = CHR ''-''" using 2(4) by (simp add: safe_char_def)
    then have "cs = [] \<or> hd cs \<noteq> CHR ''-''" using 2(5) by (cases cs) auto
    then show ?thesis using 2 t c False by simp
  qed
qed simp

lemma sanitize_fixed:
  assumes "segment_ok s"
  shows "sanitizeBranchSegment s = s"
proof -
  have safe: "list_all safe_char s" and sd: "single_dashes s" and l: "length s \<le> 60"
    and e: "s \<noteq> [] \<longrightarrow> hd s \<noteq> CHR ''-'' \<and> last s \<noteq> CHR ''-''"
    using assms by (auto simp: segment_ok_def)
  have in_s: "safe_char (hd s)" "safe_char (last s)" if "s \<noteq> []" using that safe by (simp_all add: list_all_iff)
  have "trim_space s = s"
    unfolding trim_space_def by (rule trim_id) (use in_s safe_char_props(1) in blast)
  moreover have "to_lower s = s"
    unfolding to_lower_def by (rule map_idI) (use safe safe_char_props(2) in \<open>auto simp: list_all_iff\<close>)
  moreover have "dash_runs False s = s" by (rule dash_runs_id) (use safe sd in auto)
  moreover have "trim_cut ''-.'' s = s"
    unfolding trim_cut_def by (rule trim_id) (use e in_s safe_char_props(3) in auto)
  ultimately show ?thesis using l by (simp add: sanitizeBranchSegment_def)
qed

subsection \<open>Redaction\<close>

text \<open>Text that a run of the secret could start in is text of the input, as the secret has no
  bracket.\<close>

lemma prefix_of_replaced:
  assumes "has_prefix p (replace_all old ''[redacted]'' t)" and "CHR ''['' \<notin> set p"
  shows "has_prefix p t"
  using assms
proof (induction p arbitrary: t)
  case (Cons a p)
  show ?case
  proof (cases "t = [] \<or> old = [] \<or> has_prefix old t")
    case True
    then show ?thesis
      using Cons.prems by (auto simp: replace_all.simps[of old _ t] has_prefix_def split: if_splits)
  next
    case False
    then have r: "replace_all old ''[redacted]'' t = hd t # replace_all old ''[redacted]'' (tl t)"
      by (simp add: replace_all.simps[of old _ t])
    then have "has_prefix p (replace_all old ''[redacted]'' (tl t))" "a = hd t"
      using Cons.prems(1) by (simp_all add: has_prefix_def)
    then have "has_prefix p (tl t)" using Cons by simp
    then show ?thesis using False \<open>a = hd t\<close> by (cases t) (simp_all add: has_prefix_def)
  qed
qed (simp add: has_prefix_def)

lemma contains_iff: "contains p s \<longleftrightarrow> (\<exists>a b. s = a @ p @ b)"
proof (induction s)
  case (Cons x xs)
  have "(\<exists>a b. x # xs = a @ p @ b) \<longleftrightarrow> has_prefix p (x # xs) \<or> (\<exists>a b. xs = a @ p @ b)"
    by (metis (no_types, lifting) append_Cons append_Nil append_eq_Cons_conv has_prefix_iff)
  then show ?case using Cons by simp
qed auto

lemma no_secret_over_mark:
  assumes "8 \<le> length s" and "CHR ''['' \<notin> set s" and "CHR '']'' \<notin> set s" and "s \<noteq> ''redacted''"
    and "\<not> contains s t"
  shows "\<not> contains s (''[redacted]'' @ t)"
proof
  assume "contains s (''[redacted]'' @ t)"
  then obtain a b where e: "''[redacted]'' @ t = a @ s @ b" by (auto simp: contains_iff)
  show False
  proof (cases "10 \<le> length a")
    case True
    then have "drop 10 (''[redacted]'' @ t) = drop 10 a @ s @ b" using e by simp
    then have "t = drop 10 a @ s @ b" by simp
    then show False using assms(5) contains_iff by blast
  next
    case False
    let ?k = "length a"
    have at: "(''[redacted]'' @ t) ! (?k + i) = s ! i" if "i < length s" for i
      unfolding e using that by (simp add: nth_append)
    have k: "?k \<le> 9" using False by simp
    show False
    proof (cases "?k = 0")
      case True
      then have "s ! 0 = CHR ''[''" using at[of 0] assms(1) by fastforce
      then show False using assms(1,2) by (metis le_zero_eq not_gr_zero nth_mem zero_neq_numeral)
    next
      case k0: False
      show False
      proof (cases "9 - ?k < length s")
        case True
        then have "s ! (9 - ?k) = CHR '']''" using at[of "9 - ?k"] k by simp
        then show False using True assms(3) nth_mem by force
      next
        case False
        then have k1: "?k = 1" "length s = 8" using assms(1) k k0 by linarith+
        have "s = map (\<lambda>i. s ! i) [0..<8]" using k1(2) by (metis map_nth)
        also have "\<dots> = map (\<lambda>i. (''[redacted]'' @ t) ! (1 + i)) [0..<8]"
          using at k1 by (intro map_cong) auto
        also have "\<dots> = ''redacted''" by (simp add: upt_rec)
        finally show False using assms(4) by simp
      qed
    qed
  qed
qed

lemma redacted_clean:
  assumes "8 \<le> length s" and "CHR ''['' \<notin> set s" and "CHR '']'' \<notin> set s" and "s \<noteq> ''redacted''"
  shows "\<not> contains s (replace_all s ''[redacted]'' t)"
  using assms
proof (induction "length t" arbitrary: t rule: less_induct)
  case less
  have ne: "s \<noteq> []" using less.prems by auto
  consider (nil) "t = []" | (hit) "t \<noteq> []" "has_prefix s t" | (miss) "t \<noteq> []" "\<not> has_prefix s t" by blast
  then show ?case
  proof cases
    case nil
    then show ?thesis using ne by (simp add: replace_all.simps[of s _ "[]"])
  next
    case hit
    then have "length (drop (length s) t) < length t" using ne by (simp add: diff_less)
    from less.hyps[OF this less.prems] show ?thesis
      using hit ne no_secret_over_mark[OF less.prems] by (simp add: replace_all.simps[of s _ t])
  next
    case miss
    then have r: "replace_all s ''[redacted]'' t = hd t # replace_all s ''[redacted]'' (tl t)"
      using ne by (simp add: replace_all.simps[of s _ t])
    have "\<not> has_prefix s (hd t # replace_all s ''[redacted]'' (tl t))"
      using prefix_of_replaced[of s s t] miss less.prems(2) r by metis
    moreover have "\<not> contains s (replace_all s ''[redacted]'' (tl t))"
      by (rule less.hyps[OF _ less.prems]) (use miss in simp)
    ultimately show ?thesis by (simp add: r)
  qed
qed

subsection \<open>Segments\<close>

lemma plain_segment: "plain (sanitizePathSegment s)"
proof -
  have us: "plain ''_''" by (simp add: plain_def)
  have "plain x" if "x \<noteq> []" "list_all path_segment_char x" for x
  proof -
    have "CHR ''.'' \<notin> set x" "CHR ''/'' \<notin> set x"
      using that(2) by (auto simp: list_all_iff path_segment_char_def is_lower_def is_upper_def is_digit_def)
    then show ?thesis using that(1) by (auto simp: plain_def)
  qed
  moreover have "list_all path_segment_char (map (\<lambda>c. if path_segment_char c then c else CHR ''_'') y)" for y
    by (auto simp: list_all_iff path_segment_char_def)
  ultimately show ?thesis using us by (simp add: sanitizePathSegment_def Let_def)
qed

subsection \<open>Arguments\<close>

lemma insert_keeps_order:
  "\<exists>a b. args = a @ b \<and> insertBeforeImage args img extra = a @ extra @ b \<and> (img \<in> set args \<longrightarrow> b \<noteq> [] \<and> hd b = img)"
proof (cases "img \<in> set args")
  case True
  let ?p = "takeWhile (\<lambda>a. a \<noteq> img) (rev args)"
  let ?n = "length args - Suc (length ?p)"
  have "length ?p < length (rev args)"
    using True by (metis (mono_tags, lifting) length_takeWhile_le le_neq_implies_less set_rev set_takeWhileD takeWhile_eq_all_conv takeWhile_eq_take take_all_iff)
  then have n: "?n < length args" "length ?p < length args" by simp_all
  have "hd (drop ?n args) = args ! ?n" using n(1) by (simp add: hd_drop_conv_nth)
  also have "\<dots> = rev args ! length ?p" using n(2) by (simp add: rev_nth)
  also have "\<dots> = img" using nth_length_takeWhile[of "\<lambda>a. a \<noteq> img" "rev args"] n(2) by simp
  finally show ?thesis
    using True n(1) by (intro exI[of _ "take ?n args"] exI[of _ "drop ?n args"]) (simp add: insertBeforeImage_def Let_def)
next
  case False
  then show ?thesis by (intro exI[of _ args] exI[of _ "[]"]) (simp add: insertBeforeImage_def)
qed

end
