(* ===== verification/Outside.thy ===== *)
theory Outside
  imports Text_Rules
begin

text \<open>
  What runs outside the program, as the record \<open>externals\<close> that the definitions take as an
  argument: docker, \<open>git\<close>, the peer services ORA and OAM, and \<open>encoding/json\<close> on a runner's
  output.  The types the OAM client exchanges (\<open>oam_client.go\<close>) are the source's.
\<close>

record endpoint_candidate =
  ec_endpointId :: string
  ec_kind :: string
  ec_transport :: string
  ec_provider :: string
  ec_baseUrl :: string
  ec_model :: string
  ec_cliCommand :: string
  ec_cliArgs :: "string list"
  ec_apiKey :: string

record agent_binding =
  ab_provider :: string
  ab_model :: string
  ab_baseUrl :: string
  ab_apiKey :: string
  ab_keyScope :: string
  ab_modelSource :: string
  ab_candidates :: "endpoint_candidate list"

record resolve_request =
  rq_organizationId :: string
  rq_projectId :: string
  rq_userId :: string
  rq_product :: string
  rq_agentKey :: string
  rq_override :: "model_override option"

record container_outcome =
  co_stdout :: string
  co_result :: "runner_result option"

text \<open>An answer of ORA: the HTTP code and its status line, the text of the body and, when it decodes
  to one, its JSON object.\<close>

record ora_response =
  or_code :: int
  or_status :: string
  or_body :: string
  or_json :: "(string \<times> json) list option"

text \<open>An answer of OAM's directory: the HTTP code, the body, and the body decoded.\<close>

record oam_answer =
  oa_code :: int
  oa_body :: string
  oa_json :: "json option"

text \<open>In order: whether a container can be spawned (\<open>preferContainerSpawn\<close>: the switch and the
  probe of docker and the image) and the runner image; whether ORA is configured, its clone
  credentials, and the creation of an issue (title, body, labels, milestone); \<open>git\<close> in a
  directory with an added environment, and \<open>git apply\<close> of a patch text; whether the docker
  command line is found, \<open>openjob.DockerRunArgv\<close> of an image, the labels product, job and
  instance, and the environment, and \<open>docker\<close> with its arguments; the three calls of OAM;
  the name \<open>os.CreateTemp\<close> chooses; \<open>json.Unmarshal\<close> of a runner's output;
  a POST to ORA for an organization, a user, a path and a body, with the answer as it came; the
  same through the peer library's \<open>PeerJSON\<close>, for a scope, which gives the decoded body or an
  error; and a GET of OAM's directory with the headers passed on.\<close>

record externals =
  x_prefer :: bool
  x_image :: string
  x_ora :: bool
  x_credentials :: "project \<Rightarrow> string \<Rightarrow> (string \<times> string) actE"
  x_create_issue :: "job \<Rightarrow> project \<Rightarrow> string \<Rightarrow> string \<Rightarrow> string list \<Rightarrow> int \<Rightarrow> (string \<times> json) list actE"
  x_git :: "path \<Rightarrow> (string \<times> string) list \<Rightarrow> string list \<Rightarrow> (string \<times> err option) act"
  x_git_apply :: "path \<Rightarrow> string \<Rightarrow> (string \<times> err option) act"
  x_docker_cli :: bool
  x_docker_argv :: "string \<Rightarrow> string \<times> string \<times> string \<Rightarrow> (string \<times> string) list \<Rightarrow> string list"
  x_docker :: "string list \<Rightarrow> (string \<times> err option) act"
  x_lease :: "resolve_request \<Rightarrow> string actE"
  x_redeem :: "string \<Rightarrow> agent_binding actE"
  x_resolve :: "resolve_request \<Rightarrow> agent_binding actE"
  x_temp :: "string \<Rightarrow> string act"
  x_runner_json :: "string \<Rightarrow> runner_result option"
  x_ora_post :: "string \<Rightarrow> string \<Rightarrow> string \<Rightarrow> (string \<times> json) list \<Rightarrow> ora_response actE"
  x_peer_json :: "string \<Rightarrow> string \<Rightarrow> string \<Rightarrow> string \<Rightarrow> (string \<times> json) list \<Rightarrow> (string \<times> json) list actE"
  x_oam_get :: "string \<Rightarrow> (string \<times> string) list \<Rightarrow> oam_answer actE"

end
