(* ===== verification/Workspace.thy ===== *)
theory Workspace
  imports Outside
begin

text \<open>
  The working directories of jobs (\<open>workspace.go\<close>, \<open>task_workspace.go\<close>): a scratch tree per
  run and a clone per task below \<open>OPM_JOB_TMP\<close>, which must be an absolute path.  These
  directories hold files of a cloned repository, so their operations follow the symbolic
  links of the machine.
\<close>

section \<open>Symbolic links\<close>

text \<open>The path the kernel opens: every prefix that is a link goes to its target.  The targets
  in the table are absolute and free of links.\<close>

definition deref_step :: "world \<Rightarrow> path \<Rightarrow> string \<Rightarrow> path" where
  "deref_step w cur s = (case map_of (links w) (cur @ [s]) of None \<Rightarrow> cur @ [s] | Some t \<Rightarrow> t)"

definition deref :: "world \<Rightarrow> path \<Rightarrow> path" where
  "deref w p = foldl (deref_step w) [] p"

definition os_exists :: "path \<Rightarrow> bool act" where
  "os_exists p = asks (\<lambda>w. look w (deref w p) \<noteq> None)"

definition os_mkdir_all :: "path \<Rightarrow> unit actE" where
  "os_mkdir_all p = do { q \<leftarrow> asks (\<lambda>w. deref w p); mkdir_all q }"

definition os_write :: "path \<Rightarrow> string \<Rightarrow> unit actE" where
  "os_write p s = do { q \<leftarrow> asks (\<lambda>w. deref w p); write_file q (DText s) }"

text \<open>\<open>os.Remove\<close> removes a link, not what it points to.\<close>

definition os_remove :: "path \<Rightarrow> unit actE" where
  "os_remove p = do {
     q \<leftarrow> asks (\<lambda>w. deref w (butlast p) @ [last p]);
     islink \<leftarrow> asks (\<lambda>w. map_of (links w) q \<noteq> None);
     if islink then State (\<lambda>w. (Inr (), w\<lparr>links := AList.delete q (links w)\<rparr>)) else remove_file q }"

definition os_remove_all :: "path \<Rightarrow> unit actE" where
  "os_remove_all p = bindE (remove_all p) (\<lambda>_.
     State (\<lambda>w. (Inr (), w\<lparr>links := filter (\<lambda>(q, _). \<not> is_under p q) (links w)\<rparr>)))"

definition os_read :: "path \<Rightarrow> string actE" where
  "os_read p = do { q \<leftarrow> asks (\<lambda>w. deref w p); read_text q }"

text \<open>The text of a file, if it can be read.\<close>

definition file_text :: "world \<Rightarrow> path \<Rightarrow> string option" where
  "file_text w p = (case fst (run_state (os_read p) w) of Inl _ \<Rightarrow> None | Inr b \<Rightarrow> Some b)"

text \<open>The names in a directory, links too, in byte order.\<close>

definition dir_entries :: "world \<Rightarrow> path \<Rightarrow> string list" where
  "dir_entries w p = sort (remdups (children w p @ [last q. (q, _) \<leftarrow> links w, q \<noteq> [], butlast q = p]))"

definition is_link :: "world \<Rightarrow> path \<Rightarrow> bool" where
  "is_link w p \<longleftrightarrow> map_of (links w) p \<noteq> None"

definition real_dir :: "world \<Rightarrow> path \<Rightarrow> bool" where
  "real_dir w p \<longleftrightarrow> \<not> is_link w p \<and> look w p = Some Dir"

definition path_str :: "path \<Rightarrow> string" where
  "path_str p = ''/'' @ join ''/'' p"

section \<open>Directories\<close>

definition tempDir :: "world \<Rightarrow> string" where
  "tempDir w = (if getenv w ''TMPDIR'' = [] then ''/tmp'' else getenv w ''TMPDIR'')"

definition jobTmpRoot :: "world \<Rightarrow> path" where
  "jobTmpRoot w = path_join [] [envOr w ''OPM_JOB_TMP'' (path_str (path_join [] [tempDir w, ''opm-jobs'']))]"

definition taskWorkspaceRoot :: "world \<Rightarrow> string \<Rightarrow> string \<Rightarrow> path" where
  "taskWorkspaceRoot w pid sid =
     path_join (jobTmpRoot w) [''tasks'', sanitizePathSegment pid, sanitizePathSegment sid]"

definition taskRepoDir :: "world \<Rightarrow> string \<Rightarrow> string \<Rightarrow> path" where
  "taskRepoDir w pid sid = path_join (taskWorkspaceRoot w pid sid) [''repo'']"

definition releaseTaskWorkspace :: "string \<Rightarrow> string \<Rightarrow> unit act" where
  "releaseTaskWorkspace pid sid =
     (if blank pid \<or> blank sid then State_Monad.return ()
      else do { root \<leftarrow> asks (\<lambda>w. taskWorkspaceRoot w pid sid);
                _ \<leftarrow> os_remove_all root; State_Monad.return () })"

definition cleanupRunnerScratch :: "string \<Rightarrow> unit act" where
  "cleanupRunnerScratch runID =
     (if blank runID then State_Monad.return ()
      else do { root \<leftarrow> asks (\<lambda>w. path_join (jobTmpRoot w) [runID]);
                _ \<leftarrow> os_remove_all root; State_Monad.return () })"

definition usesTaskWorkspace :: "string \<Rightarrow> bool \<Rightarrow> bool" where
  "usesTaskWorkspace action autopilot \<longleftrightarrow> action = ''run-implementation'' \<or> action = ''run-pipeline''"

definition taskWorkspaceWriteMount :: "string \<Rightarrow> bool" where
  "taskWorkspaceWriteMount action \<longleftrightarrow> action = ''run-implementation'' \<or> action = ''run-pipeline''"

definition workspaceIsStub :: "path \<Rightarrow> bool act" where
  "workspaceIsStub workDir = do { ex \<leftarrow> os_exists (workDir @ [''.git'']); State_Monad.return (\<not> ex) }"

section \<open>Cloning\<close>

definition askpass_script :: string where
  "askpass_script = ''#!/bin/sh'' @ newline @ ''echo '' @ [CHR 0x22] @ ''$OPA_GIT_ASKPASS_TOKEN'' @ [CHR 0x22] @ newline"

definition clone_env :: "path \<Rightarrow> string \<Rightarrow> (string \<times> string) list" where
  "clone_env askPass token = [(''GIT_ASKPASS'', path_str askPass), (''OPA_GIT_ASKPASS_TOKEN'', token),
     (''GIT_TERMINAL_PROMPT'', ''0''), (''GCM_INTERACTIVE'', ''never'')]"

definition stub_readme :: string where
  "stub_readme = ''Ephemeral OPM job workspace (no clone '' @ em_dash @ '' PEER_ORA_URL / connector missing).'' @ newline"

definition clone_error :: "err \<Rightarrow> string \<Rightarrow> string \<Rightarrow> string \<Rightarrow> string" where
  "clone_error e out out2 token = ''git clone: '' @ err_text e @ '' ('' @
     redactSecret (truncateBytes out 200) token @ '' / '' @ redactSecret (truncateBytes out2 200) token @ '')''"

text \<open>The two attempts; the askpass helper is removed afterwards in every case.\<close>

definition clone_attempts :: "externals \<Rightarrow> path \<Rightarrow> path \<Rightarrow> string \<Rightarrow> string \<Rightarrow> string \<Rightarrow> path actE" where
  "clone_attempts x root work branch token cloneURL = do {
     let env = clone_env (root @ [''askpass.sh'']) token;
     (out, e1) \<leftarrow> x_git x root env [''clone'', ''--depth'', ''1'', ''--branch'', branch, cloneURL, path_str work];
     if e1 = None then okE work
     else do {
       _ \<leftarrow> os_remove_all work;
       (out2, e2) \<leftarrow> x_git x root env [''clone'', ''--depth'', ''1'', cloneURL, path_str work];
       case e2 of Some e \<Rightarrow> throwE (Errf (clone_error e out out2 token)) | None \<Rightarrow> okE work } }"

definition cloneRepoInto :: "externals \<Rightarrow> project \<Rightarrow> path \<Rightarrow> string \<Rightarrow> string \<Rightarrow> path actE" where
  "cloneRepoInto x p root subdir userID =
     (let work = path_join root [subdir] in
      if \<not> x_ora x \<or> p_connectorId p = [] \<or> p_ownerRepo p = []
      then bindE (os_mkdir_all work) (\<lambda>_. do {
             _ \<leftarrow> os_write (work @ [''README.opm-workspace'']) stub_readme;
             okE work })
      else do {
        rc \<leftarrow> x_credentials x p userID;
        case rc of
          Inl e \<Rightarrow> throwE (Errf (''clone credentials: '' @ err_text e))
        | Inr (token, cloneURL) \<Rightarrow>
            if token = [] \<or> cloneURL = [] then throwE (Errf ''clone credentials incomplete'')
            else bindE (os_write (root @ [''askpass.sh'']) askpass_script) (\<lambda>_. do {
              r \<leftarrow> clone_attempts x root work (nz (p_defaultBranch p) ''main'') token cloneURL;
              _ \<leftarrow> os_remove (root @ [''askpass.sh'']);
              State_Monad.return r }) })"

definition prepareJobWorkspace :: "externals \<Rightarrow> project \<Rightarrow> string \<Rightarrow> string \<Rightarrow> path actE" where
  "prepareJobWorkspace x p runID userID = do {
     root \<leftarrow> asks (\<lambda>w. path_join (jobTmpRoot w) [runID]);
     bindE (os_mkdir_all root) (\<lambda>_. cloneRepoInto x p root ''repo'' userID) }"

text \<open>Clone once; a later job finds \<open>.git\<close> and reuses the tree.\<close>

definition ensureTaskWorkspace :: "externals \<Rightarrow> project \<Rightarrow> string \<Rightarrow> string \<Rightarrow> path actE" where
  "ensureTaskWorkspace x p sid userID = do {
     root \<leftarrow> asks (\<lambda>w. taskWorkspaceRoot w (p_id p) sid);
     ex \<leftarrow> os_exists (root @ [''repo'', ''.git'']);
     if ex then okE (root @ [''repo''])
     else bindE (os_mkdir_all root) (\<lambda>_. cloneRepoInto x p root ''repo'' userID) }"

definition linked_no_clone_note :: string where
  "linked_no_clone_note = ''Linked repository configured but no mountable clone was prepared '' @
     ''for this implementation session (check ORA clone credentials).''"

text \<open>A working directory is \<open>None\<close> for Go's empty string.\<close>

definition taskWorkspaceHonestyNote :: "project \<Rightarrow> string \<Rightarrow> path option \<Rightarrow> string act" where
  "taskWorkspaceHonestyNote p sid workDir = do {
     stub \<leftarrow> (case workDir of None \<Rightarrow> State_Monad.return True | Some d \<Rightarrow> workspaceIsStub d);
     if stub then State_Monad.return
         (if \<not> blank (p_connectorId p) \<and> \<not> blank (p_ownerRepo p) then linked_no_clone_note else [])
     else do {
       repo \<leftarrow> asks (\<lambda>w. taskRepoDir w (p_id p) sid);
       State_Monad.return (''Task session workspace: '' @ path_str repo @
         '' (persists until done, human_review gate, or cleanup).'') } }"

section \<open>Laws\<close>

lemma run_os_exists [run]: "run_state (os_exists p) w = (look w (deref w p) \<noteq> None, w)"
  by (simp add: os_exists_def run)

lemma deref_nolinks:
  assumes "\<And>q. map_of (links w) q = None"
  shows "deref w p = p"
proof -
  have "foldl (deref_step w) a p = a @ p" for a
    by (induction p arbitrary: a) (simp_all add: deref_step_def assms)
  then show ?thesis by (simp add: deref_def)
qed

lemma deref_append: "deref w (p @ q) = foldl (deref_step w) (deref w p) q"
  by (simp add: deref_def)

text \<open>Below a directory that is its own real path and has no links in it.\<close>

definition linkfree :: "world \<Rightarrow> path \<Rightarrow> bool" where
  "linkfree w root \<longleftrightarrow> deref w root = root \<and> list_all (\<lambda>(l, _). \<not> is_under root l) (links w)"

lemma linkfree_at: "linkfree w root \<Longrightarrow> map_of (links w) (root @ q) = None"
proof (rule ccontr)
  assume l: "linkfree w root" and "map_of (links w) (root @ q) \<noteq> None"
  then obtain t where "(root @ q, t) \<in> set (links w)" by (auto dest: map_of_SomeD)
  then show False using l by (auto simp: linkfree_def list_all_iff)
qed

lemma deref_linkfree:
  assumes "linkfree w root"
  shows "deref w (root @ q) = root @ q"
proof -
  have "foldl (deref_step w) (root @ a) q = root @ a @ q" for a
  proof (induction q arbitrary: a)
    case (Cons s q)
    then show ?case using linkfree_at[OF assms, of "a @ [s]"] by (simp add: deref_step_def)
  qed simp
  from this[of "[]"] show ?thesis using assms by (simp add: deref_append linkfree_def)
qed




lemma taskWorkspaceRoot_eq:
  "taskWorkspaceRoot w pid sid = jobTmpRoot w @ [''tasks'', sanitizePathSegment pid, sanitizePathSegment sid]"
proof -
  have "plain ''tasks''" by (simp add: plain_def)
  then show ?thesis by (simp add: taskWorkspaceRoot_def path_join_plain plain_segment)
qed

text \<open>Two task trees are the same or disjoint.\<close>

lemma task_roots_disjoint:
  assumes "is_under (taskWorkspaceRoot w pid sid) q" and "is_under (taskWorkspaceRoot w pid' sid') q"
  shows "sanitizePathSegment pid = sanitizePathSegment pid' \<and> sanitizePathSegment sid = sanitizePathSegment sid'"
  using assms by (auto simp: taskWorkspaceRoot_eq is_under_iff)

lemma sanitize_segment_id:
  assumes "s \<noteq> []" and "list_all path_segment_char s"
  shows "sanitizePathSegment s = s"
proof -
  have nsp: "\<not> is_space c" and nct: "\<not> is_cont c" if "path_segment_char c" for c
    using that
    by (auto simp: path_segment_char_def is_lower_def is_upper_def is_digit_def is_space_def is_cont_def)
  have "trim_space s = s"
    unfolding trim_space_def by (rule trim_id) (use assms nsp in \<open>auto simp: list_all_iff\<close>)
  moreover have "filter (\<lambda>c. \<not> is_cont c) s = s"
    using assms(2) nct by (auto simp: list_all_iff intro!: filter_True)
  moreover have "map (\<lambda>c. if path_segment_char c then c else CHR ''_'') s = s"
    by (rule map_idI) (use assms(2) in \<open>auto simp: list_all_iff\<close>)
  ultimately show ?thesis using assms(1) by (simp add: sanitizePathSegment_def Let_def)
qed

lemma look_links [simp]: "look (w\<lparr>links := l\<rparr>) p = look w p"
  by (simp add: look_def)

lemma keeps_os_remove_all [frame]:
  assumes "is_under p q"
  shows "keeps (touches p) (os_remove_all q)"
proof -
  have "keeps (touches p) (State (\<lambda>w. (Inr () :: err + unit, w\<lparr>links := f (links w)\<rparr>)))" for f
    by (simp add: keeps_def touches_def same_env_def)
  then show ?thesis unfolding os_remove_all_def by (intro tch.keeps_bindE frame assms)
qed

end
