(* ===== verification/Roadmap_Run.thy ===== *)
theory Roadmap_Run
  imports Roadmap_Rules Job_Runner Workspace
begin

text \<open>
  The roadmap and ideation jobs that run in the control plane: discovery, features and
  ideation (\<open>job_runner.go\<close>), the heuristic competitor analysis (\<open>roadmap_competitor.go\<close>)
  and publishing to issues (\<open>roadmap_publish.go\<close>).
\<close>

definition set_meta :: "string \<Rightarrow> json \<Rightarrow> roadmap \<Rightarrow> roadmap" where
  "set_meta k v rm = rm\<lparr>rm_metadata := AList.update k v (rm_metadata rm)\<rparr>"

definition del_meta :: "string \<Rightarrow> roadmap \<Rightarrow> roadmap" where
  "del_meta k rm = rm\<lparr>rm_metadata := AList.delete k (rm_metadata rm)\<rparr>"

definition projectContext :: "string \<Rightarrow> (project \<times> string list) actE" where
  "projectContext pid = bindE (GetProject pid) (\<lambda>p. do {
     rt \<leftarrow> ListTasks pid;
     okE (p, filter (\<lambda>t. \<not> blank t) (map t_title (result_or [] rt))) })"

section \<open>Discovery\<close>

definition roadmap_defaults :: "string \<Rightarrow> roadmap \<Rightarrow> roadmap" where
  "roadmap_defaults name rm = rm\<lparr>
     rm_id := (if rm_id rm = [] then ''roadmap-1'' else rm_id rm),
     rm_projectName := (if rm_projectName rm = [] then name else rm_projectName rm),
     rm_version := (if rm_version rm = [] then ''0.1.0'' else rm_version rm)\<rparr>"

definition vision_text :: "project \<Rightarrow> string \<Rightarrow> string" where
  "vision_text p name = ''Deliver a reliable '' @ name @
     '' experience for operators: clear board workflow, automated task planning, and a living product roadmap grounded in '' @
     nz (p_ownerRepo p) ''the linked GitHub repository'' @ ''.''"

definition seed_phases :: "string \<Rightarrow> roadmap_phase list act" where
  "seed_phases name = do {
     a \<leftarrow> shortID ''phase'';
     b \<leftarrow> shortID ''phase'';
     c \<leftarrow> shortID ''phase'';
     State_Monad.return
       [plain_phase a ''Foundation'' (''Core board, auth, and project linking for '' @ name) 1 ''planned'',
        plain_phase b ''Automation'' ''Task planning, implementation, and review loops'' 2 ''planned'',
        plain_phase c ''Insights'' ''Roadmap, ideation, and changelog quality for operators'' 3 ''planned''] }"

definition default_phase :: "nat \<times> roadmap_phase \<Rightarrow> roadmap_phase" where
  "default_phase = (\<lambda>(i, ph). ph\<lparr>
     rp_status := (if rp_status ph = [] then ''planned'' else rp_status ph),
     rp_order := (if rp_order ph = 0 then int i + 1 else rp_order ph)\<rparr>)"

definition discovery_phases :: "string \<Rightarrow> roadmap_phase list \<Rightarrow> roadmap_phase list act" where
  "discovery_phases name phs =
     (if phs = [] then seed_phases name
      else State_Monad.return (map default_phase (enumerate 0 phs)))"

definition discovery_log :: "string \<Rightarrow> int \<Rightarrow> string" where
  "discovery_log runID n = tag runID @ ''discovery wrote vision + '' @ itoa n @ '' phase(s) (builtin)'' @ newline"

definition discovery_message :: "int \<Rightarrow> int \<Rightarrow> string" where
  "discovery_message n k = ''Roadmap discovery (builtin): vision set; '' @ itoa n @ '' phase(s); '' @
     itoa k @ '' board task signal(s).''"

definition builtinRoadmapDiscovery :: "job \<Rightarrow> outcome act" where
  "builtinRoadmapDiscovery j = do {
     rc \<leftarrow> projectContext (j_projectId j);
     case rc of
       Inl e \<Rightarrow> bad ''Project not found'' e
     | Inr (p, titles) \<Rightarrow> do {
         rr \<leftarrow> GetRoadmap (j_projectId j);
         let name = nz (p_name p) (p_ownerRepo p);
         let rm1 = (roadmap_defaults name (result_or zero_roadmap rr))\<lparr>
               rm_vision := vision_text p name,
               rm_targetAudience := ''Engineering and product operators who manage GitHub-linked work in OPM.''\<rparr>;
         now \<leftarrow> nowUTC;
         let rm2 = set_meta ''discovered_at'' (JStr (rfc3339 now)) (set_meta ''last_discovery_run'' (JStr (j_runId j)) rm1);
         let rm3 = (if titles \<noteq> [] then set_meta ''board_signals'' (JArr (map JStr titles)) rm2 else rm2);
         phases \<leftarrow> discovery_phases name (rm_phases rm3);
         let rm = rm3\<lparr>rm_phases := phases\<rparr>;
         rp \<leftarrow> PutRoadmap (j_projectId j) rm;
         case rp of
           Inl e \<Rightarrow> bad ''Failed to write roadmap.json'' e
         | Inr _ \<Rightarrow> do {
             _ \<leftarrow> AppendProjectLog (j_projectId j) ''run-roadmap-discovery''
                   (discovery_log (j_runId j) (int (length phases)));
             ok (discovery_message (int (length phases)) (int (length titles))) } } }"

section \<open>Features\<close>

text \<open>What the loops carry: the keys seen, the features, how many were added.\<close>

record feat_acc =
  fa_existing :: "string list"
  fa_features :: "roadmap_feature list"
  fa_added :: int

definition zero_feature :: roadmap_feature where
  "zero_feature = \<lparr> rf_id = [], rf_title = [], rf_description = [], rf_rationale = [], rf_priority = [],
     rf_complexity = [], rf_impact = [], rf_phaseId = [], rf_dependencies = [], rf_status = [],
     rf_acceptanceCriteria = [], rf_userStories = [], rf_milestoneNumber = 0, rf_milestoneTitle = [],
     rf_milestoneUrl = [], rf_projectId = [], rf_projectItemId = [] \<rparr>"

definition builtin_feature :: "project \<Rightarrow> roadmap_phase \<Rightarrow> string \<Rightarrow> string \<Rightarrow> roadmap_feature" where
  "builtin_feature p ph fid title = zero_feature\<lparr> rf_id := fid, rf_title := title,
     rf_description := ''Agent-assisted feature for phase '' @ quote (rp_name ph) @ '' based on project '' @
       nz (p_ownerRepo p) (p_name p) @ ''.'',
     rf_rationale := ''Generated by OPM builtin roadmap features agent from board/project signals.'',
     rf_priority := ''medium'', rf_complexity := ''m'', rf_impact := ''operator productivity'',
     rf_phaseId := rp_id ph, rf_status := ''planned'',
     rf_acceptanceCriteria := [''Behavior documented'', ''Verified on board or jobs UI'']\<rparr>"

fun add_candidates :: "project \<Rightarrow> roadmap_phase \<Rightarrow> string list \<Rightarrow> feat_acc \<Rightarrow> (string list \<times> feat_acc) act" where
  "add_candidates p ph [] acc = State_Monad.return ([], acc)"
| "add_candidates p ph (title # titles) acc =
     (let key = to_lower title in
      if key \<in> set (fa_existing acc) then add_candidates p ph titles acc
      else do {
        fid \<leftarrow> shortID ''feat'';
        (ids, acc') \<leftarrow> add_candidates p ph titles
          \<lparr> fa_existing = key # fa_existing acc, fa_features = fa_features acc @ [builtin_feature p ph fid title],
            fa_added = fa_added acc + 1 \<rparr>;
        State_Monad.return (fid # ids, acc') })"

definition phase_candidates :: "project \<Rightarrow> string list \<Rightarrow> nat \<Rightarrow> roadmap_phase \<Rightarrow> string list" where
  "phase_candidates p seeds i ph =
     [rp_name ph @ '': '' @ seeds ! (i mod length seeds),
      rp_name ph @ '' checklist for '' @ nz (p_name p) (p_ownerRepo p)]"

fun feature_phases :: "project \<Rightarrow> string list \<Rightarrow> nat \<Rightarrow> roadmap_phase list \<Rightarrow> feat_acc \<Rightarrow> (roadmap_phase list \<times> feat_acc) act" where
  "feature_phases p seeds i [] acc = State_Monad.return ([], acc)"
| "feature_phases p seeds i (ph # phs) acc = do {
     (ids, acc1) \<leftarrow> add_candidates p ph (phase_candidates p seeds i ph) acc;
     (phs', acc2) \<leftarrow> feature_phases p seeds (Suc i) phs acc1;
     State_Monad.return (ph\<lparr>rp_features := rp_features ph @ ids\<rparr> # phs', acc2) }"

definition seed_titles :: "string list \<Rightarrow> string list" where
  "seed_titles titles = (if titles = []
     then [''Board workflow polish'', ''Task automation reliability'', ''Operator visibility''] else titles)"

definition feature_keys :: "roadmap \<Rightarrow> string list" where
  "feature_keys rm = map (\<lambda>f. normalizeTitle (rf_title f)) (rm_features rm)"

definition features_message :: "int \<Rightarrow> int \<Rightarrow> string" where
  "features_message added n = ''Roadmap features (builtin): added '' @ itoa added @ '' feature(s) across '' @
     itoa n @ '' phase(s).''"

text \<open>The roadmap with the new features.\<close>

definition grown_roadmap :: "project \<Rightarrow> string list \<Rightarrow> string \<Rightarrow> roadmap \<Rightarrow> (roadmap \<times> int) act" where
  "grown_roadmap p titles runID rm = do {
     (phases, acc) \<leftarrow> feature_phases p (seed_titles titles) 0 (rm_phases rm)
        \<lparr>fa_existing = feature_keys rm, fa_features = rm_features rm, fa_added = 0\<rparr>;
     State_Monad.return (set_meta ''last_features_run'' (JStr runID)
        (rm\<lparr>rm_phases := phases, rm_features := fa_features acc\<rparr>), fa_added acc) }"

definition add_features :: "job \<Rightarrow> project \<Rightarrow> string list \<Rightarrow> roadmap \<Rightarrow> outcome act" where
  "add_features j p titles rm0 = do {
     (rm, added) \<leftarrow> grown_roadmap p titles (j_runId j) rm0;
     rp \<leftarrow> PutRoadmap (j_projectId j) rm;
     case rp of
       Inl e \<Rightarrow> bad ''Failed to write roadmap features'' e
     | Inr _ \<Rightarrow> do {
         _ \<leftarrow> AppendProjectLog (j_projectId j) ''run-roadmap-features''
               (tag (j_runId j) @ ''features agent added '' @ itoa added @ '' feature(s) (builtin)'' @ newline);
         ok (features_message added (int (length (rm_phases rm)))) } }"

definition builtinRoadmapFeatures :: "job \<Rightarrow> outcome act" where
  "builtinRoadmapFeatures j = do {
     rc \<leftarrow> projectContext (j_projectId j);
     case rc of
       Inl e \<Rightarrow> bad ''Project not found'' e
     | Inr (p, titles) \<Rightarrow> do {
         rr \<leftarrow> GetRoadmap (j_projectId j);
         case rr of
           Inl e \<Rightarrow> bad ''Roadmap missing'' e
         | Inr rm \<Rightarrow>
             if rm_phases rm \<noteq> [] then add_features j p titles rm
             else do {
               (_, de) \<leftarrow> builtinRoadmapDiscovery j;
               case de of
                 Some e \<Rightarrow> bad (''No phases '' @ em_dash @ '' discovery failed'') e
               | None \<Rightarrow> do {
                   r2 \<leftarrow> GetRoadmap (j_projectId j);
                   let rm2 = result_or zero_roadmap r2;
                   if rm_phases rm2 = [] then bad ''No roadmap phases after discovery'' (Errf ''phases missing'')
                   else add_features j p titles rm2 } } } }"

section \<open>Ideation\<close>

definition idea_templates :: "string \<Rightarrow> string \<Rightarrow> string \<Rightarrow> (string \<times> string) list" where
  "idea_templates signal projLabel typ = (case map_of
     [(''code_improvements'',
        [(''Simplify '' @ signal @ '' paths'', ''Reduce complexity around '' @ signal @ '' in '' @ projLabel),
         (''Shared helpers for board artifacts'', ''Consolidate repeated plan/progress helpers for maintainability'')]),
      (''security'',
        [(''Tighten tenant header checks'', ''Audit org/project header enforcement on sensitive OPM routes''),
         (''Review job cancel authorization'', ''Ensure cancel and recover actions respect project ACL'')]),
      (''performance'',
        [(''Cache project board reads'', ''Trim repeated filesystem reads for hot board polls''),
         (''Batch job status updates'', ''Reduce write amplification during long implementation loops'')]),
      (''documentation'',
        [(''Document agent job actions'', ''Operator guide for roadmap, ideation, and skip-to-phase jobs''),
         (''NAS verify checklist'', ''Curl sequence for health, jobs, and roadmap generators'')]),
      (''ui_ux'',
        [(''Clearer job outcome messaging'', ''Surface execution + message on roadmap/ideation generate buttons''),
         (''Skip-to-phase affordance'', ''Let operators jump plan phases from task detail'')]),
      (''code_quality'',
        [(''Expand builtin generator tests'', ''Cover roadmap discovery/features and ideation merge behavior''),
         (''Normalize ideation type keys'', ''Keep underscored types consistent across API and UI'')])] typ of
     None \<Rightarrow> [] | Some ts \<Rightarrow> ts)"

definition builtin_idea :: "string \<Rightarrow> string \<Rightarrow> string \<Rightarrow> string \<Rightarrow> string \<Rightarrow> idea" where
  "builtin_idea i typ title desc now = \<lparr> i_id = i, i_type = typ, i_title = title, i_description = desc,
     i_rationale = ''Generated by OPM builtin ideation agent.'', i_estimatedEffort = ''S'', i_affectedFiles = [],
     i_implementationApproach = [], i_status = ''open'', i_createdAt = now \<rparr>"

fun add_ideas :: "string \<Rightarrow> string \<Rightarrow> string list \<Rightarrow> (string \<times> string) list \<Rightarrow> idea list act" where
  "add_ideas typ now have [] = State_Monad.return []"
| "add_ideas typ now have ((title, desc) # ts) =
     (if to_lower title \<in> set have then add_ideas typ now have ts
      else do {
        i \<leftarrow> shortID ''idea'';
        rest \<leftarrow> add_ideas typ now (to_lower title # have) ts;
        State_Monad.return (builtin_idea i typ title desc now # rest) })"

definition bucket_of :: "ideation \<Rightarrow> string \<Rightarrow> idea list" where
  "bucket_of ideas typ = (case map_of ideas typ of None \<Rightarrow> [] | Some b \<Rightarrow> b)"

fun ideate :: "string \<Rightarrow> string \<Rightarrow> string \<Rightarrow> string list \<Rightarrow> ideation \<times> int \<Rightarrow> (ideation \<times> int) act" where
  "ideate signal projLabel now [] (ideas, added) = State_Monad.return (ideas, added)"
| "ideate signal projLabel now (typ # types) (ideas, added) = do {
     let bucket = bucket_of ideas typ;
     new \<leftarrow> add_ideas typ now (map (\<lambda>i. normalizeTitle (i_title i)) bucket) (idea_templates signal projLabel typ);
     ideate signal projLabel now types (AList.update typ (bucket @ new) ideas, added + int (length new)) }"

definition ideation_types :: "job \<Rightarrow> string list" where
  "ideation_types j = (if blank (j_ideationType j) then IdeationTypes else [trim_space (j_ideationType j)])"

definition types_text :: "string list \<Rightarrow> string" where
  "types_text ts = ''['' @ join '' '' ts @ '']''"

definition builtinIdeation :: "job \<Rightarrow> outcome act" where
  "builtinIdeation j = do {
     rc \<leftarrow> projectContext (j_projectId j);
     case rc of
       Inl e \<Rightarrow> bad ''Project not found'' e
     | Inr (p, titles) \<Rightarrow> do {
         ri \<leftarrow> GetIdeation (j_projectId j);
         let ideas0 = (case ri of Inl _ \<Rightarrow> emptyIdeation | Inr x \<Rightarrow> x);
         let signal = (case titles of [] \<Rightarrow> ''general product quality'' | t # _ \<Rightarrow> t);
         now \<leftarrow> nowUTC;
         (ideas, added) \<leftarrow> ideate signal (nz (p_ownerRepo p) (p_name p)) (rfc3339 now) (ideation_types j) (ideas0, 0);
         rp \<leftarrow> PutIdeation (j_projectId j) ideas;
         case rp of
           Inl e \<Rightarrow> bad ''Failed to write ideation.json'' e
         | Inr _ \<Rightarrow> do {
             _ \<leftarrow> AppendProjectLog (j_projectId j) ''run-ideation''
                   (tag (j_runId j) @ ''ideation agent added '' @ itoa added @ '' idea(s) types='' @
                    types_text (ideation_types j) @ '' (builtin)'' @ newline);
             ok (''Ideation (builtin): added '' @ itoa added @ '' idea(s) across '' @
                 itoa (int (length (ideation_types j))) @ '' type(s).'') } } }"

section \<open>Competitors\<close>

definition storeCompetitorAnalysis :: "string \<Rightarrow> roadmap \<Rightarrow> competitor_analysis \<Rightarrow> unit actE" where
  "storeCompetitorAnalysis pid rm a =
     (let rm1 = set_meta ''competitor_analysis'' (analysis_json a) rm
      in PutRoadmap pid (if blank (rm_id rm1) then rm1\<lparr>rm_id := ''roadmap-1''\<rparr> else rm1))"

definition competitorAnalysisFor :: "string \<Rightarrow> (competitor_analysis \<times> bool) act" where
  "competitorAnalysisFor pid = do {
     r \<leftarrow> GetRoadmap pid;
     State_Monad.return (case r of
         Inl _ \<Rightarrow> (zero_analysis, False)
       | Inr rm \<Rightarrow> (case map_of (rm_metadata rm) ''competitor_analysis'' of
             None \<Rightarrow> (zero_analysis, False)
           | Some raw \<Rightarrow> (case json_analysis raw of
                 None \<Rightarrow> (zero_analysis, False)
               | Some out \<Rightarrow> (out, ca_competitors out \<noteq> [])))) }"

definition competitor_start :: "string \<Rightarrow> (roadmap \<times> string) act" where
  "competitor_start pid = do {
     r \<leftarrow> GetRoadmap pid;
     rp \<leftarrow> GetProject pid;
     let rm = (case r of Inl _ \<Rightarrow> zero_roadmap\<lparr>rm_id := ''roadmap-1''\<rparr> | Inr rm \<Rightarrow> rm);
     State_Monad.return (rm, case rp of Inl _ \<Rightarrow> rm_projectName rm | Inr p \<Rightarrow> nz (rm_projectName rm) (p_name p)) }"

definition builtinRoadmapCompetitor :: "job \<Rightarrow> outcome act" where
  "builtinRoadmapCompetitor j = do {
     (rm, name) \<leftarrow> competitor_start (j_projectId j);
     let a = (heuristicCompetitorAnalysis name (j_competitors j))\<lparr>
           ca_honesty := ''generated by the builtin heuristic; no model output was available''\<rparr>;
     rs \<leftarrow> storeCompetitorAnalysis (j_projectId j) rm a;
     case rs of
       Inl e \<Rightarrow> bad ''Failed to write competitor analysis'' e
     | Inr _ \<Rightarrow> do {
         _ \<leftarrow> AppendProjectLog (j_projectId j) ''run-roadmap-competitor''
               (tag (j_runId j) @ ''builtin competitor analysis for '' @ itoa (int (length (j_competitors j))) @
                '' named competitor(s)'' @ newline);
         ok (''Wrote heuristic competitor analysis ('' @ itoa (int (length (ca_competitors a))) @
             '' entries). Configure a model binding for real analysis.'') } }"

section \<open>Publishing\<close>

record publish_acc =
  pa_already :: "(string \<times> published_issue) list"
  pa_created :: int
  pa_skipped :: int
  pa_failures :: "string list"

definition issue_labels :: "roadmap_feature \<Rightarrow> string list" where
  "issue_labels f = (if blank (rf_priority f) then [''roadmap''] else [''roadmap'', ''priority:'' @ trim_space (rf_priority f)])"

definition phase_name_of :: "roadmap \<Rightarrow> string \<Rightarrow> string" where
  "phase_name_of rm i = (case List.find (\<lambda>ph. rp_id ph = i) (rev (rm_phases rm)) of None \<Rightarrow> [] | Some ph \<Rightarrow> rp_name ph)"

definition skip_one :: "publish_acc \<Rightarrow> publish_acc" where
  "skip_one acc = acc\<lparr>pa_skipped := pa_skipped acc + 1\<rparr>"

fun publish_features :: "externals \<Rightarrow> job \<Rightarrow> project \<Rightarrow> roadmap \<Rightarrow> roadmap_feature list \<Rightarrow> publish_acc \<Rightarrow> publish_acc act" where
  "publish_features x j p rm [] acc = State_Monad.return acc"
| "publish_features x j p rm (f # rest) acc =
     (let fid = trim_space (rf_id f); title = trim_space (rf_title f) in
      if fid = [] \<or> map_of (pa_already acc) fid \<noteq> None \<or> title = []
      then publish_features x j p rm rest (skip_one acc)
      else do {
        r \<leftarrow> x_create_issue x j p title (formatRoadmapIssueBody rm f (phase_name_of rm (rf_phaseId f)))
               (issue_labels f) (rf_milestoneNumber f);
        case r of
          Inl e \<Rightarrow> publish_features x j p rm rest
            (acc\<lparr>pa_failures := pa_failures acc @ [fid @ '': '' @ truncateRunes (err_text e) 100]\<rparr>)
        | Inr res \<Rightarrow> do {
            now \<leftarrow> nowUTC;
            publish_features x j p rm rest (acc\<lparr>
              pa_already := AList.update fid \<lparr>pi_featureId = fid, pi_number = intFromAny (any_at res ''number''),
                pi_url = strFromAny (any_at res ''html_url''), pi_title = title, pi_at = rfc3339 now\<rparr> (pa_already acc),
              pa_created := pa_created acc + 1\<rparr>) } })"

text \<open>By phase, then by id; both sorts are stable.\<close>

definition publish_order :: "roadmap_feature list \<Rightarrow> roadmap_feature list" where
  "publish_order feats = sort_key rf_phaseId (sort_key rf_id feats)"

definition published_list :: "(string \<times> published_issue) list \<Rightarrow> json" where
  "published_list already = JArr (map issue_json (sort_key pi_featureId (map snd already)))"

definition publish_message :: "project \<Rightarrow> publish_acc \<Rightarrow> string" where
  "publish_message p acc = ''Published '' @ itoa (pa_created acc) @ '' issue(s) to '' @ p_ownerRepo p @ ''; '' @
     itoa (pa_skipped acc) @ '' already published or unpublishable''"

definition publish_failures :: "publish_acc \<Rightarrow> string" where
  "publish_failures acc = ''. '' @ itoa (int (length (pa_failures acc))) @ '' failed: '' @
     truncateRunes (join ''; '' (pa_failures acc)) 300"

definition publish_start :: "roadmap \<Rightarrow> publish_acc" where
  "publish_start rm = \<lparr>pa_already = publishedIssuesFor rm, pa_created = 0, pa_skipped = 0, pa_failures = []\<rparr>"

text \<open>After the checks.\<close>

definition publish_now :: "externals \<Rightarrow> job \<Rightarrow> project \<Rightarrow> roadmap \<Rightarrow> outcome act" where
  "publish_now x j p rm = do {
     acc \<leftarrow> publish_features x j p rm (publish_order (rm_features rm)) (publish_start rm);
     rp \<leftarrow> PutRoadmap (j_projectId j) (set_meta ''published_issues'' (published_list (pa_already acc)) rm);
     case rp of
       Inl e \<Rightarrow> bad (''Published '' @ itoa (pa_created acc) @ '' issue(s) but failed to record them'') e
     | Inr _ \<Rightarrow> do {
         _ \<leftarrow> AppendProjectLog (j_projectId j) ''run-roadmap-publish''
               (tag (j_runId j) @ ''published '' @ itoa (pa_created acc) @ '' issue(s), skipped '' @
                itoa (pa_skipped acc) @ '', '' @ itoa (int (length (pa_failures acc))) @ '' failure(s)'' @ newline);
         if pa_failures acc \<noteq> []
         then bad (publish_message p acc @ publish_failures acc)
                (Errf (itoa (int (length (pa_failures acc))) @ '' feature(s) could not be published''))
         else ok (publish_message p acc) } }"

definition builtinRoadmapPublish :: "externals \<Rightarrow> job \<Rightarrow> outcome act" where
  "builtinRoadmapPublish x j =
     (if \<not> x_ora x
      then bad ''PEER_ORA_URL is not configured; roadmap publishing needs the ORA peer'' (Errf ''peer_ora_unconfigured'')
      else do {
        rp \<leftarrow> GetProject (j_projectId j);
        case rp of
          Inl e \<Rightarrow> bad ''Project not found'' e
        | Inr p \<Rightarrow>
            if blank (p_ownerRepo p) \<or> blank (p_connectorId p)
            then bad ''This project has no GitHub repository linked; link one before publishing the roadmap''
                   (Errf ''project_not_linked'')
            else do {
              rr \<leftarrow> GetRoadmap (j_projectId j);
              case rr of
                Inl e \<Rightarrow> bad ''No roadmap to publish'' e
              | Inr rm \<Rightarrow>
                  if rm_features rm = [] then ok ''The roadmap has no features to publish; run roadmap features first''
                  else (case validateRoadmapJSON rm of
                      Some e \<Rightarrow> bad (''Roadmap is not publishable: '' @ err_text e) e
                    | None \<Rightarrow> publish_now x j p rm) } })"

end
