(* ===== verification/Change_Set.thy ===== *)
theory Change_Set
  imports Workspace Doc_Laws
begin

text \<open>
  The recorded change set of a task and its application to a workspace
  (\<open>delivery_changes.go\<close>): normalisation, merging by path, the stored document, the path
  rules and \<open>applyChangeSet\<close>.  The temporary file of a patch and \<open>git apply\<close> are the external
  \<open>x_git_apply\<close>.
\<close>

section \<open>Statuses and limits\<close>

definition deliveryStatusNoChanges :: string where "deliveryStatusNoChanges = ''no_changes_produced''"
definition deliveryStatusWorkspaceUnavailable :: string where "deliveryStatusWorkspaceUnavailable = ''workspace_unavailable''"
definition deliveryStatusUnsafePath :: string where "deliveryStatusUnsafePath = ''unsafe_path''"
definition deliveryStatusChangeSetTooLarge :: string where "deliveryStatusChangeSetTooLarge = ''change_set_too_large''"
definition deliveryStatusApplyFailed :: string where "deliveryStatusApplyFailed = ''apply_failed''"

record limits =
  l_maxFiles :: int
  l_maxBytes :: int

text \<open>The loop of \<open>atoiOr\<close>: \<open>None\<close> is its early return.\<close>

fun atoi_loop :: "int \<Rightarrow> string \<Rightarrow> int option" where
  "atoi_loop n [] = Some n"
| "atoi_loop n (c # cs) =
     (if \<not> is_digit c then None
      else let m = n * 10 + int (digit_val c) in
        if m > 1073741824 then None else atoi_loop m cs)"

definition atoiOr :: "string \<Rightarrow> int \<Rightarrow> int" where
  "atoiOr s def = (case atoi_loop 0 (trim_space s) of
       None \<Rightarrow> def | Some n \<Rightarrow> if n = 0 then def else n)"

definition deliveryLimits :: "world \<Rightarrow> limits" where
  "deliveryLimits w = \<lparr> l_maxFiles = atoiOr (envOr w ''OPM_DELIVERY_MAX_FILES'' ''50'') 50,
     l_maxBytes = atoiOr (envOr w ''OPM_DELIVERY_MAX_BYTES'' ''2097152'') 2097152 \<rparr>"

section \<open>Change sets\<close>

definition mode :: "file_change \<Rightarrow> string" where
  "mode f = (if fc_delete f then ''delete'' else if fc_patch f \<noteq> [] then ''patch''
             else if fc_contents f \<noteq> None then ''write'' else ''empty'')"

definition cs_paths :: "change_set \<Rightarrow> string list" where
  "cs_paths cs = map fc_path (cs_files cs)"

text \<open>The loop of \<open>normalizeChangeSet\<close> with its \<open>seen\<close> set.\<close>

fun normalize_loop :: "string list \<Rightarrow> file_change list \<Rightarrow> file_change list \<times> string list" where
  "normalize_loop seen [] = ([], [])"
| "normalize_loop seen (f0 # rest) =
     (let f = f0\<lparr>fc_path := trim_space (fc_path f0)\<rparr> in
      if fc_path f = [] then
        (let (kept, dropped) = normalize_loop seen rest in (kept, ''(blank path)'' # dropped))
      else if mode f = ''empty'' then
        (let (kept, dropped) = normalize_loop seen rest in
         (kept, (fc_path f @ '' (no contents, patch or delete)'') # dropped))
      else if fc_path f \<in> set seen then
        (let (kept, dropped) = normalize_loop seen rest in (kept, (fc_path f @ '' (duplicate)'') # dropped))
      else
        (let (kept, dropped) = normalize_loop (fc_path f # seen) rest in (f # kept, dropped)))"

definition normalizeChangeSet :: "file_change list \<Rightarrow> file_change list \<times> string list" where
  "normalizeChangeSet files = normalize_loop [] files"

text \<open>\<open>byPath\<close>: the last entry of each path.\<close>

definition by_path :: "file_change list \<Rightarrow> (string \<times> file_change) list" where
  "by_path files = foldl (\<lambda>m f. AList.update (fc_path f) f m) [] files"

definition merge_order :: "change_set \<Rightarrow> change_set \<Rightarrow> string list" where
  "merge_order base delta =
     snd (foldl (\<lambda>(m, order) f. (AList.update (fc_path f) f m,
              if map_of m (fc_path f) = None then order @ [fc_path f] else order))
            (by_path (cs_files base), cs_paths base) (cs_files delta))"

definition MergeChangeSet :: "change_set \<Rightarrow> change_set \<Rightarrow> change_set act" where
  "MergeChangeSet base delta = do {
     recordedAt \<leftarrow> (if cs_recordedAt delta = zero_time then nowUTC else State_Monad.return (cs_recordedAt delta));
     let byPath = foldl (\<lambda>m f. AList.update (fc_path f) f m) (by_path (cs_files base)) (cs_files delta);
     State_Monad.return (base\<lparr>
       cs_runId := (if cs_runId delta \<noteq> [] then cs_runId delta else cs_runId base),
       cs_source := (if cs_source delta \<noteq> [] then cs_source delta else cs_source base),
       cs_model := (if cs_model delta \<noteq> [] then cs_model delta else cs_model base),
       cs_commitMessage := (if \<not> blank (cs_commitMessage delta) then cs_commitMessage delta else cs_commitMessage base),
       cs_recordedAt := recordedAt,
       cs_files := map (\<lambda>p. the (map_of byPath p)) (merge_order base delta)\<rparr>) }"

section \<open>The stored document\<close>

fun prj_changes :: "doc \<Rightarrow> change_set option" where
  "prj_changes (DChanges x) = Some x"
| "prj_changes _ = None"

definition PutChangeSet :: "string \<Rightarrow> string \<Rightarrow> change_set \<Rightarrow> unit actE" where
  "PutChangeSet pid sid cs0 = do {
     cs \<leftarrow> (if cs_recordedAt cs0 = zero_time
           then do { now \<leftarrow> nowUTC; State_Monad.return (cs0\<lparr>cs_recordedAt := now\<rparr>) }
           else State_Monad.return cs0);
     withProject pid (\<lambda>p base. writeJSON (spec_file base sid ''changes.json'') (DChanges cs)) }"

definition GetChangeSet :: "string \<Rightarrow> string \<Rightarrow> change_set actE" where
  "GetChangeSet pid sid = withProject pid (\<lambda>p base. do {
     r \<leftarrow> readJSON KChanges prj_changes (spec_file base sid ''changes.json'');
     case r of
       Inl e \<Rightarrow> if e = NotExist then okE zero_change_set else throwE e
     | Inr cs \<Rightarrow> okE cs })"

definition PutChangeSetMerged :: "string \<Rightarrow> string \<Rightarrow> change_set \<Rightarrow> unit actE" where
  "PutChangeSetMerged pid sid delta = bindE (GetChangeSet pid sid) (\<lambda>base. do {
     cs \<leftarrow> MergeChangeSet base delta;
     PutChangeSet pid sid cs })"

definition ClearChangeSet :: "string \<Rightarrow> string \<Rightarrow> unit actE" where
  "ClearChangeSet pid sid = withProject pid (\<lambda>p base. do {
     r \<leftarrow> remove_file (spec_file base sid ''changes.json'');
     case r of
       Inl e \<Rightarrow> if e \<noteq> NotExist then throwE e else okE ()
     | Inr _ \<Rightarrow> okE () })"

section \<open>Paths of a change set\<close>

text \<open>\<open>filepath.Clean\<close> of a path that does not start with a slash.\<close>

definition rel_step :: "string list \<Rightarrow> string \<Rightarrow> string list" where
  "rel_step acc seg =
     (if seg = [] \<or> seg = ''.'' then acc
      else if seg = ''..'' then (if acc = [] \<or> last acc = ''..'' then acc @ [''..''] else butlast acc)
      else acc @ [seg])"

definition rel_segments :: "string \<Rightarrow> string list" where
  "rel_segments s = foldl rel_step [] (split_on (CHR ''/'') s)"

definition clean_rel :: "string \<Rightarrow> string" where
  "clean_rel s = (if rel_segments s = [] then ''.'' else join ''/'' (rel_segments s))"

definition workflow_reason :: string where
  "workflow_reason = ''workflow files are out of scope '' @ em_dash @
     '' the delivery credential has no workflows permission''"

definition pathRejection :: "string \<Rightarrow> string" where
  "pathRejection rel0 =
     (let rel = trim_space rel0 in
      if rel = [] then ''blank path''
      else if CHR 0x00 \<in> set rel then ''path contains a null byte''
      else if CHR 0x5C \<in> set rel then ''path must use forward slashes''
      else if has_prefix ''/'' rel then ''absolute paths are not allowed''
      else let clean = clean_rel rel in
        if clean = ''.'' \<or> clean = ''..'' then ''path resolves to the workspace root''
        else if ''..'' \<in> set (split_on (CHR ''/'') clean) then ''path escapes the workspace''
        else if clean = ''.git'' \<or> has_prefix ''.git/'' clean
             then ''writing repository metadata (.git) is not allowed''
        else if has_prefix ''.github/workflows/'' clean then workflow_reason
        else [])"

text \<open>\<open>filepath.Rel\<close> of two rooted paths.\<close>

fun rel_path :: "path \<Rightarrow> path \<Rightarrow> path" where
  "rel_path (a # as) (b # bs) =
     (if a = b then rel_path as bs else replicate (length (a # as)) ''..'' @ b # bs)"
| "rel_path as bs = replicate (length as) ''..'' @ bs"

definition withinRoot :: "path \<Rightarrow> path \<Rightarrow> bool" where
  "withinRoot root tgt \<longleftrightarrow> (let rel = rel_path root tgt in rel \<noteq> [] \<and> hd rel \<noteq> ''..'')"

section \<open>Applying\<close>

record apply_outcome =
  ao_applied :: "string list"
  ao_skipped :: "string list"
  ao_status :: string

definition no_outcome :: apply_outcome where
  "no_outcome = \<lparr>ao_applied = [], ao_skipped = [], ao_status = []\<rparr>"

type_synonym applied = "apply_outcome \<times> err option"

definition with_newline :: "string \<Rightarrow> string" where
  "with_newline patch = (if has_suffix newline patch then patch else patch @ newline)"

definition applyUnifiedPatch :: "externals \<Rightarrow> path \<Rightarrow> string \<Rightarrow> string \<Rightarrow> unit actE" where
  "applyUnifiedPatch x root rel patch = do {
     (out, r) \<leftarrow> x_git_apply x root (with_newline patch);
     case r of
       Some e \<Rightarrow> throwE (Errf (''patch '' @ rel @ '' did not apply: '' @ err_text e @ '' ('' @
                    trim_space (truncateBytes out 240) @ '')''))
     | None \<Rightarrow> okE () }"

text \<open>One file.  \<open>Some True\<close> is applied, \<open>Some False\<close> skipped, \<open>None\<close> neither.\<close>

definition apply_one :: "externals \<Rightarrow> path \<Rightarrow> string \<Rightarrow> path \<Rightarrow> file_change \<Rightarrow> (bool option) actE" where
  "apply_one x root rel tgt f =
     (if mode f = ''delete'' then do {
        r \<leftarrow> os_remove tgt;
        case r of
          Inl e \<Rightarrow> if e = NotExist then okE (Some False)
                   else throwE (Errf (''delete '' @ rel @ '': '' @ err_text e))
        | Inr _ \<Rightarrow> okE (Some True) }
      else if mode f = ''write'' then do {
        rd \<leftarrow> os_mkdir_all (butlast tgt);
        case rd of
          Inl e \<Rightarrow> throwE (Errf (''create directory for '' @ rel @ '': '' @ err_text e))
        | Inr _ \<Rightarrow> do {
            rw \<leftarrow> os_write tgt (the (fc_contents f));
            case rw of
              Inl e \<Rightarrow> throwE (Errf (''write '' @ rel @ '': '' @ err_text e))
            | Inr _ \<Rightarrow> okE (Some True) } }
      else if mode f = ''patch'' then bindE (applyUnifiedPatch x root rel (fc_patch f)) (\<lambda>_. okE (Some True))
      else okE None)"

definition target :: "path \<Rightarrow> file_change \<Rightarrow> path" where
  "target root f = path_join root [clean_rel (fc_path f)]"

fun apply_files :: "externals \<Rightarrow> path \<Rightarrow> file_change list \<Rightarrow> apply_outcome \<Rightarrow> applied act" where
  "apply_files x root [] out = State_Monad.return (out, None)"
| "apply_files x root (f # rest) out =
     (let rel = clean_rel (fc_path f) in
      if \<not> withinRoot root (target root f)
      then State_Monad.return (out\<lparr>ao_status := deliveryStatusUnsafePath\<rparr>,
             Some (Errf (''refusing '' @ quote (fc_path f) @ '': resolved outside the workspace'')))
      else do {
        r \<leftarrow> apply_one x root rel (target root f) f;
        case r of
          Inl e \<Rightarrow> State_Monad.return (out\<lparr>ao_status := deliveryStatusApplyFailed\<rparr>, Some e)
        | Inr None \<Rightarrow> apply_files x root rest out
        | Inr (Some True) \<Rightarrow> apply_files x root rest (out\<lparr>ao_applied := ao_applied out @ [rel]\<rparr>)
        | Inr (Some False) \<Rightarrow>
            apply_files x root rest (out\<lparr>ao_skipped := ao_skipped out @ [rel @ '' (already absent)'']\<rparr>) })"

declare apply_files.simps(2) [simp del]

definition change_bytes :: "file_change \<Rightarrow> int" where
  "change_bytes f = int (length (fc_patch f)) +
     (case fc_contents f of None \<Rightarrow> 0 | Some c \<Rightarrow> int (length c))"

definition refuse :: "string \<Rightarrow> string \<Rightarrow> applied act" where
  "refuse st msg = State_Monad.return (no_outcome\<lparr>ao_status := st\<rparr>, Some (Errf msg))"

definition applyChangeSet :: "externals \<Rightarrow> path \<Rightarrow> change_set \<Rightarrow> limits \<Rightarrow> applied act" where
  "applyChangeSet x workDir cs lim =
     (let n = int (length (cs_files cs)); total = sum_list (map change_bytes (cs_files cs)) in
      if cs_files cs = [] then refuse deliveryStatusNoChanges ''the change set contains no files''
      else if l_maxFiles lim > 0 \<and> n > l_maxFiles lim
      then refuse deliveryStatusChangeSetTooLarge (''change set has '' @ itoa n @ '' files, limit is '' @
             itoa (l_maxFiles lim) @ '' (OPM_DELIVERY_MAX_FILES)'')
      else do {
        root \<leftarrow> asks (\<lambda>w. deref w workDir);
        ex \<leftarrow> os_exists workDir;
        if \<not> ex then refuse deliveryStatusWorkspaceUnavailable
          (''workspace not usable: '' @ err_text NotExist)
        else (case List.find (\<lambda>f. pathRejection (fc_path f) \<noteq> []) (cs_files cs) of
          Some f \<Rightarrow> refuse deliveryStatusUnsafePath
            (''refusing '' @ quote (fc_path f) @ '': '' @ pathRejection (fc_path f))
        | None \<Rightarrow>
            if l_maxBytes lim > 0 \<and> total > l_maxBytes lim
            then refuse deliveryStatusChangeSetTooLarge (''change set is '' @ itoa total @
                   '' bytes, limit is '' @ itoa (l_maxBytes lim) @ '' (OPM_DELIVERY_MAX_BYTES)'')
            else do {
              (out, e) \<leftarrow> apply_files x root (cs_files cs) no_outcome;
              State_Monad.return
                (if e = None \<and> ao_applied out = []
                 then (out\<lparr>ao_status := deliveryStatusNoChanges\<rparr>,
                       Some (Errf ''no file in the change set could be applied''))
                 else (out, e)) }) })"

section \<open>From a runner result\<close>

definition changeSetFromRunner :: "string \<Rightarrow> runner_result \<Rightarrow> change_set act" where
  "changeSetFromRunner runID rr = do {
     now \<leftarrow> nowUTC;
     let (kept, dropped) = normalizeChangeSet (rr_files rr);
     State_Monad.return \<lparr> cs_runId = runID, cs_source = ''model'', cs_model = rr_model rr,
       cs_commitMessage = trim_space (rr_commitMessage rr), cs_recordedAt = now, cs_files = kept,
       cs_note = (if dropped \<noteq> [] then ''dropped unusable entries: '' @ join ''; '' dropped
                  else if kept = [] then ''the runner returned no file changes'' else []) \<rparr> }"

definition summary_file :: "file_change \<Rightarrow> json" where
  "summary_file f = JObj ([(''path'', JStr (fc_path f)), (''mode'', JStr (mode f))] @
     (case fc_contents f of
        Some c \<Rightarrow> [(''bytes'', JNum (int (length c)))]
      | None \<Rightarrow> if fc_patch f \<noteq> [] then [(''bytes'', JNum (int (length (fc_patch f))))] else []))"

definition changeSetSummary :: "change_set \<Rightarrow> (string \<times> json) list" where
  "changeSetSummary cs =
     [(''files'', JArr (map summary_file (cs_files cs))),
      (''fileCount'', JNum (int (length (cs_files cs)))),
      (''commitMessage'', JStr (cs_commitMessage cs)), (''source'', JStr (cs_source cs))] @
     (if cs_model cs \<noteq> [] then [(''model'', JStr (cs_model cs))] else []) @
     (if cs_runId cs \<noteq> [] then [(''runId'', JStr (cs_runId cs))] else []) @
     (if cs_recordedAt cs \<noteq> zero_time then [(''recordedAt'', JStr (rfc3339 (cs_recordedAt cs)))] else []) @
     (if cs_note cs \<noteq> [] then [(''note'', JStr (cs_note cs))] else [])"

end
