(* ===== verification/Project_Index.thy ===== *)
theory Project_Index
  imports Workspace
begin

text \<open>
  The index of a clone (\<open>project_index.go\<close>), inferred from its manifests and its layout alone:
  the services with their technologies and commands, the infrastructure, the conventions; and
  the excerpts of its documents.  The clone is read where it is, links followed; decoding a
  manifest is the world's \<open>unmarshal\<close>.
\<close>

section \<open>The index\<close>

record service_index =
  sx_path :: string
  sx_techStack :: "string list"
  sx_devCommand :: string
  sx_testCommand :: string

record infrastructure_index =
  nx_docker :: bool
  nx_database :: "string option"

record conventions_index =
  cx_linter :: "string option"
  cx_formatter :: "string option"
  cx_testing :: "string option"

record project_index =
  ix_projectType :: string
  ix_services :: "(string \<times> service_index) list"
  ix_infrastructure :: infrastructure_index
  ix_conventions :: conventions_index

section \<open>Reading the clone\<close>

text \<open>\<open>os.Stat\<close> follows links.\<close>

definition fileExists :: "world \<Rightarrow> path \<Rightarrow> bool" where
  "fileExists w p \<longleftrightarrow> (case look w (deref w p) of Some (File _) \<Rightarrow> True | _ \<Rightarrow> False)"

definition dirExists :: "world \<Rightarrow> path \<Rightarrow> bool" where
  "dirExists w p \<longleftrightarrow> look w (deref w p) = Some Dir"

text \<open>\<open>os.ReadDir\<close>: the names, with whether each is a directory itself; nothing on an error.\<close>

definition list_dir :: "world \<Rightarrow> path \<Rightarrow> (string \<times> bool) list" where
  "list_dir w p = (let d = deref w p in
     if look w d = Some Dir then map (\<lambda>e. (e, real_dir w (d @ [e]))) (dir_entries w d) else [])"

definition readJSONMap :: "world \<Rightarrow> path \<Rightarrow> (string \<times> json) list option" where
  "readJSONMap w p = (case file_text w p of
       None \<Rightarrow> None
     | Some t \<Rightarrow> (case unmarshal w KMap t of Some (DMap kvs) \<Rightarrow> Some kvs | _ \<Rightarrow> None))"

definition object_at :: "(string \<times> json) list \<Rightarrow> string \<Rightarrow> (string \<times> json) list option" where
  "object_at kvs k = (case map_of kvs k of Some (JObj m) \<Rightarrow> Some m | _ \<Rightarrow> None)"

fun firstScript :: "(string \<times> json) list \<Rightarrow> string list \<Rightarrow> string" where
  "firstScript scripts [] = []"
| "firstScript scripts (k # ks) = (case map_of scripts k of
       Some (JStr v) \<Rightarrow> if blank v then firstScript scripts ks else v
     | _ \<Rightarrow> firstScript scripts ks)"

text \<open>The tools a \<open>pyproject.toml\<close> configures; nothing when it names none.\<close>

definition py_tools :: "string \<Rightarrow> string list" where
  "py_tools t = (if contains ''[tool.ruff]'' t then [''ruff''] else []) @
     (if contains ''[tool.black]'' t then [''black''] else []) @
     (if contains ''[tool.pytest'' t then [''pytest''] else [])"

definition readPyProjectHints :: "world \<Rightarrow> path \<Rightarrow> string list option" where
  "readPyProjectHints w p = (case file_text w p of
       None \<Rightarrow> None
     | Some t \<Rightarrow> if py_tools t = [] then None else Some (py_tools t))"

fun unique_from :: "string list \<Rightarrow> string list \<Rightarrow> string list" where
  "unique_from seen [] = []"
| "unique_from seen (s0 # rest) =
     (let s = trim_space s0 in
      if s = [] \<or> s \<in> set seen then unique_from seen rest else s # unique_from (s # seen) rest)"

definition uniqueStrings :: "string list \<Rightarrow> string list" where
  "uniqueStrings l = (let out = unique_from [] l in if out = [] then [''unknown''] else out)"

section \<open>Services\<close>

text \<open>What is known of a service so far: technologies, development and test command.  A command
  is set by the first manifest that gives one.\<close>

type_synonym svc_acc = "string list \<times> string \<times> string"

definition first_of :: "string \<Rightarrow> string \<Rightarrow> string" where
  "first_of cur d = (if cur = [] then d else cur)"

definition add_tech :: "bool \<Rightarrow> string list \<Rightarrow> string \<Rightarrow> string \<Rightarrow> svc_acc \<Rightarrow> svc_acc" where
  "add_tech present names dev test acc = (case acc of (tech, d, t) \<Rightarrow>
     if present then (tech @ names, first_of d dev, first_of t test) else acc)"

definition node_acc :: "(string \<times> json) list option \<Rightarrow> svc_acc" where
  "node_acc pkg = (case pkg of
       None \<Rightarrow> ([], [], [])
     | Some kvs \<Rightarrow> let scripts = (case object_at kvs ''scripts'' of None \<Rightarrow> [] | Some m \<Rightarrow> m) in
         ([''node''], first_of (firstScript scripts [''dev'', ''start'']) ''npm run dev'',
          first_of (firstScript scripts [''test'']) ''npm test''))"

definition hasAndroid :: "world \<Rightarrow> path \<Rightarrow> bool" where
  "hasAndroid w d \<longleftrightarrow>
     fileExists w (d @ [''build.gradle'']) \<or> fileExists w (d @ [''build.gradle.kts'']) \<or>
     fileExists w (d @ [''settings.gradle'']) \<or> fileExists w (d @ [''settings.gradle.kts'']) \<or>
     (dirExists w (d @ [''app'']) \<and>
      (fileExists w (d @ [''app'', ''build.gradle'']) \<or> fileExists w (d @ [''app'', ''build.gradle.kts''])))"

definition root_acc :: "world \<Rightarrow> path \<Rightarrow> svc_acc" where
  "root_acc w d =
     add_tech (hasAndroid w d) [''android'', ''kotlin''] ''./gradlew assembleDebug'' ''./gradlew test''
       (add_tech (fileExists w (d @ [''Cargo.toml''])) [''rust''] ''cargo run'' ''cargo test''
         (add_tech (fileExists w (d @ [''go.mod''])) [''go''] ''go run .'' ''go test ./...''
           (add_tech (readPyProjectHints w (d @ [''pyproject.toml'']) \<noteq> None) [''python'']
              (if fileExists w (d @ [''main.py'']) then ''uvicorn main:app --reload'' else ''python -m pytest'') ''pytest''
              (node_acc (readJSONMap w (d @ [''package.json'']))))))"

definition root_name :: "string list \<Rightarrow> string" where
  "root_name tech =
     (if tech \<noteq> [] \<and> hd tech = ''android'' then ''android''
      else if tech = [''node''] then ''node''
      else if tech = [''python''] then ''python''
      else if tech = [''go''] then ''go''
      else if tech = [''rust''] then ''rust''
      else if ''android'' \<in> set tech then ''android''
      else ''app'')"

definition service_of :: "string \<Rightarrow> svc_acc \<Rightarrow> service_index" where
  "service_of p acc = (case acc of (tech, dev, test) \<Rightarrow>
     \<lparr>sx_path = p, sx_techStack = uniqueStrings tech, sx_devCommand = dev, sx_testCommand = test\<rparr>)"

text \<open>A directory below gets no command of Go or Cargo to develop with.\<close>

definition sub_acc :: "world \<Rightarrow> path \<Rightarrow> svc_acc" where
  "sub_acc w d =
     add_tech (fileExists w (d @ [''Cargo.toml''])) [''rust''] [] ''cargo test''
       (add_tech (fileExists w (d @ [''go.mod''])) [''go''] [] ''go test ./...''
         (add_tech (readPyProjectHints w (d @ [''pyproject.toml'']) \<noteq> None) [''python''] ''python -m pytest'' ''pytest''
            (node_acc (readJSONMap w (d @ [''package.json''])))))"

fun add_services :: "world \<Rightarrow> path \<Rightarrow> (string \<times> bool) list \<Rightarrow> (string \<times> service_index) list \<Rightarrow> (string \<times> service_index) list" where
  "add_services w d [] acc = acc"
| "add_services w d ((e, isDir) # es) acc =
     (if \<not> isDir \<or> has_prefix ''.'' e then add_services w d es acc
      else let s = sub_acc w (d @ [e]) in
        if fst s = [] \<or> map_of acc e \<noteq> None then add_services w d es acc
        else add_services w d es (AList.update e (service_of e s) acc))"

definition unknown_service :: service_index where
  "unknown_service = \<lparr>sx_path = ''.'', sx_techStack = [''unknown''], sx_devCommand = [], sx_testCommand = []\<rparr>"

definition inferServices :: "world \<Rightarrow> path \<Rightarrow> (string \<times> service_index) list" where
  "inferServices w d =
     (let r = root_acc w d;
          found = (if fst r = [] then [] else [(root_name (fst r), service_of ''.'' r)]);
          services = add_services w d (list_dir w d) found
      in if services = [] then [(''app'', unknown_service)] else services)"

section \<open>Type, infrastructure, conventions\<close>

definition inferProjectType :: "world \<Rightarrow> path \<Rightarrow> string" where
  "inferProjectType w d =
     (let found = filter (\<lambda>(e, isDir). isDir \<and>
            e \<in> set [''backend'', ''frontend'', ''api'', ''web'', ''app'', ''services'', ''packages'']) (list_dir w d)
      in if length found \<ge> 2 then ''monorepo'' else ''single'')"

definition database_of :: "string \<Rightarrow> string option" where
  "database_of t0 = (let t = to_lower t0; has = (\<lambda>s. contains s t) in
     if has ''postgresql'' \<or> has ''psycopg'' \<or> has ''lib/pq'' then Some ''postgresql''
     else if has ''sqlite'' then Some ''sqlite''
     else if has ''mysql'' \<or> has ''pymysql'' then Some ''mysql''
     else if has ''mongodb'' \<or> has ''mongo-driver'' then Some ''mongodb''
     else if has ''redis'' then Some ''redis''
     else if has ''clickhouse'' then Some ''clickhouse''
     else None)"

fun first_database :: "world \<Rightarrow> path \<Rightarrow> string list \<Rightarrow> string option" where
  "first_database w d [] = None"
| "first_database w d (n # ns) = (case Option.bind (file_text w (d @ [n])) database_of of
       Some db \<Rightarrow> Some db
     | None \<Rightarrow> first_database w d ns)"

definition detectDatabaseHint :: "world \<Rightarrow> path \<Rightarrow> string option" where
  "detectDatabaseHint w d = first_database w d
     [''go.mod'', ''package.json'', ''pyproject.toml'', ''Cargo.toml'', ''requirements.txt'', ''composer.json'']"

definition inferInfrastructure :: "world \<Rightarrow> path \<Rightarrow> infrastructure_index" where
  "inferInfrastructure w d =
     \<lparr>nx_docker = list_ex (\<lambda>n. fileExists w (d @ [n]))
        [''Dockerfile'', ''docker-compose.yml'', ''docker-compose.yaml'', ''compose.yml'', ''compose.yaml''],
      nx_database = detectDatabaseHint w d\<rparr>"

definition py_conventions :: "string list option \<Rightarrow> conventions_index" where
  "py_conventions py = (let has = (\<lambda>t. case py of None \<Rightarrow> None | Some l \<Rightarrow> if t \<in> set l then Some t else None) in
     \<lparr>cx_linter = has ''ruff'', cx_formatter = has ''black'', cx_testing = has ''pytest''\<rparr>)"

definition or_some :: "'a option \<Rightarrow> 'a option \<Rightarrow> 'a option" where
  "or_some a b = (case a of None \<Rightarrow> b | Some _ \<Rightarrow> a)"

definition node_conventions :: "(string \<times> json) list option \<Rightarrow> conventions_index \<Rightarrow> conventions_index" where
  "node_conventions pkg c = (case pkg of
       None \<Rightarrow> c
     | Some kvs \<Rightarrow> (case or_some (object_at kvs ''devDependencies'') (object_at kvs ''dependencies'') of
           None \<Rightarrow> c
         | Some dev \<Rightarrow> let has = (\<lambda>t. if map_of dev t \<noteq> None then Some t else None) in
             \<lparr>cx_linter = or_some (cx_linter c) (has ''eslint''), cx_formatter = or_some (cx_formatter c) (has ''prettier''),
              cx_testing = or_some (cx_testing c) (or_some (has ''vitest'') (has ''jest''))\<rparr>))"

definition inferConventions :: "world \<Rightarrow> path \<Rightarrow> conventions_index" where
  "inferConventions w d =
     (let c = node_conventions (readJSONMap w (d @ [''package.json'']))
                (py_conventions (readPyProjectHints w (d @ [''pyproject.toml''])));
          c1 = (if fileExists w (d @ [''go.mod'']) then c\<lparr>cx_testing := or_some (cx_testing c) (Some ''go test'')\<rparr> else c)
      in if fileExists w (d @ [''.golangci.yml'']) \<or> fileExists w (d @ [''.golangci.yaml''])
         then c1\<lparr>cx_linter := Some ''golangci-lint''\<rparr> else c1)"

definition populateProjectIndex :: "world \<Rightarrow> path \<Rightarrow> project_index" where
  "populateProjectIndex w d =
     \<lparr>ix_projectType = inferProjectType w d, ix_services = inferServices w d,
      ix_infrastructure = inferInfrastructure w d, ix_conventions = inferConventions w d\<rparr>"

section \<open>As JSON\<close>

definition text_or_none :: "string \<Rightarrow> string \<Rightarrow> (string \<times> json) list" where
  "text_or_none k s = (if s = [] then [] else [(k, JStr s)])"

definition json_pointer :: "string option \<Rightarrow> json" where
  "json_pointer v = (case v of None \<Rightarrow> JNull | Some s \<Rightarrow> JStr s)"

definition service_json :: "service_index \<Rightarrow> json" where
  "service_json s = JObj ([(''path'', JStr (sx_path s)), (''tech_stack'', JArr (map JStr (sx_techStack s)))] @
     text_or_none ''dev_command'' (sx_devCommand s) @ text_or_none ''test_command'' (sx_testCommand s))"

definition index_json :: "project_index \<Rightarrow> (string \<times> json) list" where
  "index_json ix =
     [(''project_type'', JStr (ix_projectType ix)),
      (''services'', JObj (map (\<lambda>(k, s). (k, service_json s)) (ix_services ix))),
      (''infrastructure'', JObj [(''docker'', JBool (nx_docker (ix_infrastructure ix))),
         (''database'', json_pointer (nx_database (ix_infrastructure ix)))]),
      (''conventions'', JObj [(''linter'', json_pointer (cx_linter (ix_conventions ix))),
         (''formatter'', json_pointer (cx_formatter (ix_conventions ix))),
         (''testing'', json_pointer (cx_testing (ix_conventions ix)))])]"

text \<open>The temporary file and its rename are one step; the indented text is the world's
  \<open>marshal\<close>.\<close>

definition write_json_file :: "path \<Rightarrow> (string \<times> json) list \<Rightarrow> unit actE" where
  "write_json_file p kvs = bindE (os_mkdir_all (butlast p)) (\<lambda>_. do {
     t \<leftarrow> asks (\<lambda>w. marshal w (DMap kvs));
     os_write p t })"

definition ensureProjectIndex :: "path \<Rightarrow> path \<Rightarrow> (project_index \<times> err option) act" where
  "ensureProjectIndex d p = do {
     ix \<leftarrow> asks (\<lambda>w. populateProjectIndex w d);
     if p = [] then State_Monad.return (ix, None)
     else do {
       r \<leftarrow> write_json_file p (index_json ix);
       State_Monad.return (ix, case r of Inl e \<Rightarrow> Some e | Inr _ \<Rightarrow> None) } }"

section \<open>Documents\<close>

definition cut_at :: "nat \<Rightarrow> string \<Rightarrow> string" where
  "cut_at n s = (if length s > n then take n s @ ellipsis else s)"

definition readCursorMd :: "world \<Rightarrow> path \<Rightarrow> int \<Rightarrow> string" where
  "readCursorMd w d n0 =
     (let n = (if n0 \<le> 0 then 8000 else nat n0);
          part = (\<lambda>name. case file_text w (d @ [name]) of
             None \<Rightarrow> []
           | Some t \<Rightarrow> if blank t then [] else [trim_space t])
      in cut_at n (join (newline @ newline @ ''---'' @ newline @ newline) (part ''CURSOR.md'' @ part ''Claude.md'')))"

definition readRepoDocExcerpt :: "world \<Rightarrow> path \<Rightarrow> string \<Rightarrow> int \<Rightarrow> string" where
  "readRepoDocExcerpt w d rel0 n =
     (let rel = trim_space (trim_prefix ''./'' rel0) in
      if rel = [] \<or> contains ''..'' rel \<or> has_prefix ''/'' rel then []
      else (case file_text w (path_join d [rel]) of
          None \<Rightarrow> []
        | Some b \<Rightarrow> let s = trim_space b in if n > 0 \<and> int (length s) > n then take (nat n) s @ ellipsis else s))"

end
