(* ===== verification/Runner_Context.thy ===== *)
theory Runner_Context
  imports Roadmap_Run Project_Index
begin

text \<open>
  The input a job's runner is given (\<open>runner_context.go\<close>): the context pack of each action,
  drawn from the clone and the store, and \<open>input.json\<close>.  A map is an association list, a nil
  slice the empty list; a field the struct omits when empty is left out of its object.
\<close>

section \<open>The context\<close>

record runner_context =
  rc_projectIndex :: "project_index option"
  rc_cursorMd :: string
  rc_repoDir :: string
  rc_cloneHonestyNote :: string
  rc_readmeExcerpt :: string
  rc_manifestExcerpts :: "(string \<times> string) list"
  rc_featuresDocExcerpt :: string
  rc_designChoicesExcerpt :: string
  rc_competitorAnalysis :: "competitor_analysis option"
  rc_existingVision :: string
  rc_existingPhases :: "roadmap_phase list"
  rc_needsDiscovery :: bool
  rc_discoverySnapshot :: "(string \<times> json) list"
  rc_existingFeatureTitles :: "string list"
  rc_implementedFeatures :: "string list"
  rc_implementedFeatureNote :: string
  rc_ideationContext :: "(string \<times> json) list"
  rc_existingIdeaTitles :: "string list"
  rc_implementedIdeaIDs :: "string list"
  rc_implementedIdeaTitles :: "string list"
  rc_implementedIdeationNote :: string
  rc_boardTaskTitles :: "string list"

definition zero_context :: runner_context where
  "zero_context = \<lparr> rc_projectIndex = None, rc_cursorMd = [], rc_repoDir = [], rc_cloneHonestyNote = [],
     rc_readmeExcerpt = [], rc_manifestExcerpts = [], rc_featuresDocExcerpt = [], rc_designChoicesExcerpt = [],
     rc_competitorAnalysis = None, rc_existingVision = [], rc_existingPhases = [], rc_needsDiscovery = False,
     rc_discoverySnapshot = [], rc_existingFeatureTitles = [], rc_implementedFeatures = [],
     rc_implementedFeatureNote = [], rc_ideationContext = [], rc_existingIdeaTitles = [], rc_implementedIdeaIDs = [],
     rc_implementedIdeaTitles = [], rc_implementedIdeationNote = [], rc_boardTaskTitles = [] \<rparr>"

definition containerRepoPath :: string where "containerRepoPath = ''/repo''"

section \<open>From the clone\<close>

fun firstNonEmpty :: "string list \<Rightarrow> string" where
  "firstNonEmpty [] = []"
| "firstNonEmpty (v # vs) = (if blank v then firstNonEmpty vs else v)"

definition manifest_names :: "string list" where
  "manifest_names = [''package.json'', ''pyproject.toml'', ''go.mod'', ''Cargo.toml'', ''composer.json'',
     ''build.gradle'', ''build.gradle.kts'', ''settings.gradle'', ''settings.gradle.kts'']"

definition collectManifestExcerpts :: "world \<Rightarrow> path \<Rightarrow> (string \<times> string) list" where
  "collectManifestExcerpts w d =
     filter (\<lambda>(n, ex). ex \<noteq> []) (map (\<lambda>n. (n, readRepoDocExcerpt w d n 1500)) manifest_names)"

definition wants_clone :: "string \<Rightarrow> bool" where
  "wants_clone action \<longleftrightarrow> action = ''run-ideation'' \<or> action = ''run-roadmap-discovery'' \<or>
     action = ''run-roadmap-features'' \<or> action = ''run-roadmap-competitor''"

definition clone_context :: "world \<Rightarrow> path \<Rightarrow> runner_context \<Rightarrow> runner_context" where
  "clone_context w d ctx = ctx\<lparr>
     rc_projectIndex := Some (populateProjectIndex w d),
     rc_cursorMd := readCursorMd w d 8000,
     rc_readmeExcerpt := firstNonEmpty [readRepoDocExcerpt w d ''README.md'' 3000, readRepoDocExcerpt w d ''README'' 3000],
     rc_manifestExcerpts := collectManifestExcerpts w d,
     rc_featuresDocExcerpt := readRepoDocExcerpt w d ''docs/FEATURES.md'' 2000,
     rc_designChoicesExcerpt := readRepoDocExcerpt w d ''docs/APP_DESIGN_CHOICES.md'' 2000\<rparr>"

definition no_clone_note :: "string \<Rightarrow> string \<Rightarrow> string" where
  "no_clone_note ownerRepo connector =
     (if \<not> blank ownerRepo \<and> \<not> blank connector
      then ''Linked repository '' @ ownerRepo @ '' has a connector but no usable git clone was mounted for this run '' @
        ''(clone credentials missing or clone failed). Ground suggestions in project metadata only; '' @
        ''do not invent repository file paths.''
      else if \<not> blank ownerRepo
      then ''Linked repository '' @ ownerRepo @ '' has no clone mounted (connector or clone credentials unavailable). '' @
        ''Do not invent repository file paths.''
      else ''No repository was mounted for this run.'')"

section \<open>From the store\<close>

definition with_analysis :: "competitor_analysis \<times> bool \<Rightarrow> runner_context \<Rightarrow> runner_context" where
  "with_analysis a ctx = (if snd a then ctx\<lparr>rc_competitorAnalysis := Some (fst a)\<rparr> else ctx)"

definition fillDiscoveryContext :: "string \<Rightarrow> runner_context \<Rightarrow> runner_context act" where
  "fillDiscoveryContext pid ctx0 = do {
     a \<leftarrow> competitorAnalysisFor pid;
     let ctx = with_analysis a ctx0;
     r \<leftarrow> GetRoadmap pid;
     State_Monad.return (case r of
         Inl _ \<Rightarrow> ctx
       | Inr rm \<Rightarrow> ctx\<lparr>rc_existingVision := trim_space (rm_vision rm),
           rc_existingPhases := (if rm_phases rm \<noteq> [] then rm_phases rm else rc_existingPhases ctx)\<rparr>) }"

definition phase_json :: "roadmap_phase \<Rightarrow> json" where
  "phase_json p = JObj ([(''id'', JStr (rp_id p)), (''name'', JStr (rp_name p)), (''description'', JStr (rp_description p)),
     (''order'', JNum (rp_order p)), (''status'', JStr (rp_status p)), (''features'', JArr (map JStr (rp_features p)))] @
     (if rp_milestoneNumber p = 0 then [] else [(''github_milestone_number'', JNum (rp_milestoneNumber p))]) @
     text_or_none ''github_milestone_title'' (rp_milestoneTitle p) @ text_or_none ''github_milestone_url'' (rp_milestoneUrl p))"

definition buildImplementedFeatureNote :: "string list \<Rightarrow> string \<Rightarrow> string" where
  "buildImplementedFeatureNote titles featuresDoc =
     ''Exclude already-implemented features from new proposals. '' @
     ''Treat OPM store status in {implemented,done,completed,shipped} as authoritative; '' @
     ''also honor docs/FEATURES.md when present in the clone.'' @ newline @
     (if titles = [] then ''Implemented features (store): none.'' @ newline
      else ''Implemented features (store):'' @ newline @ concat (map (\<lambda>t. ''- '' @ t @ newline) titles)) @
     (if blank featuresDoc then [] else newline @ ''--- docs/FEATURES.md excerpt ---'' @ newline @ featuresDoc)"

definition snapshot_of :: "roadmap \<Rightarrow> (string \<times> json) list" where
  "snapshot_of rm = [(''vision'', JStr (rm_vision rm)), (''target_audience'', JStr (rm_targetAudience rm)),
     (''phases'', JArr (map phase_json (rm_phases rm)))] @
     (case map_of (rm_metadata rm) ''discovery'' of None \<Rightarrow> [] | Some d \<Rightarrow> [(''discovery'', d)])"

definition titles_of :: "roadmap_feature list \<Rightarrow> string list" where
  "titles_of l = sort (filter (\<lambda>t. t \<noteq> []) (map (\<lambda>f. trim_space (rf_title f)) l))"

definition features_context :: "roadmap \<Rightarrow> runner_context \<Rightarrow> runner_context" where
  "features_context rm ctx =
     (let implemented = titles_of (filter (\<lambda>f. featureStatusImplemented (rf_status f)) (rm_features rm)) in
      ctx\<lparr>rc_needsDiscovery := rm_phases rm = [], rc_discoverySnapshot := snapshot_of rm,
        rc_existingPhases := rm_phases rm, rc_existingVision := trim_space (rm_vision rm),
        rc_existingFeatureTitles := titles_of (rm_features rm), rc_implementedFeatures := implemented,
        rc_implementedFeatureNote := buildImplementedFeatureNote implemented (rc_featuresDocExcerpt ctx)\<rparr>)"

definition fillFeaturesContext :: "string \<Rightarrow> runner_context \<Rightarrow> runner_context act" where
  "fillFeaturesContext pid ctx0 = do {
     a \<leftarrow> competitorAnalysisFor pid;
     let ctx = with_analysis a ctx0;
     r \<leftarrow> GetRoadmap pid;
     State_Monad.return (case r of Inl _ \<Rightarrow> ctx\<lparr>rc_needsDiscovery := True\<rparr> | Inr rm \<Rightarrow> features_context rm ctx) }"

text \<open>The ids and titles of ideas whose task is done.\<close>

fun done_ideas :: "string \<Rightarrow> string \<Rightarrow> string list \<Rightarrow> (string list \<times> string list) act" where
  "done_ideas pid typ [] = State_Monad.return ([], [])"
| "done_ideas pid typ (sid # sids) = do {
     r \<leftarrow> GetTask pid sid;
     (ids, titles) \<leftarrow> done_ideas pid typ sids;
     State_Monad.return (case r of
         Inl _ \<Rightarrow> (ids, titles)
       | Inr t \<Rightarrow>
           let ty = trim_space (t_ideationTypeKey t); i = trim_space (t_ideationId t); ti = normalizeTitle (t_title t) in
           if typ \<noteq> [] \<and> ty \<noteq> [] \<and> ty \<noteq> typ then (ids, titles)
           else (if i = [] then ids else i # ids, if ti = [] then titles else ti # titles)) }"

definition implementedIdeationFromDone :: "string \<Rightarrow> string \<Rightarrow> (string list \<times> string list) act" where
  "implementedIdeationFromDone pid typ = do {
     rb \<leftarrow> GetBoard pid;
     case rb of
       Inl _ \<Rightarrow> State_Monad.return ([], [])
     | Inr b \<Rightarrow> done_ideas pid typ (board_col b ''done'') }"

text \<open>The keys of a map in order.\<close>

definition sortedSet :: "string list \<Rightarrow> string list" where
  "sortedSet l = sort (remdups l)"

definition buildImplementedIdeationNote :: "string list \<Rightarrow> string list \<Rightarrow> string" where
  "buildImplementedIdeationNote ids titles =
     ''Do not re-propose ideas already linked to Done board tasks (by ideationId or title).'' @ newline @
     (if ids = [] \<and> titles = [] then ''Implemented ideation: none.'' @ newline
      else (if ids = [] then [] else ''Implemented ideation ids: '' @ join '', '' ids @ newline) @
        (if titles = [] then []
         else ''Implemented idea titles:'' @ newline @ concat (map (\<lambda>t. ''- '' @ t @ newline) titles)))"

definition idea_titles :: "ideation \<Rightarrow> string \<Rightarrow> string list" where
  "idea_titles ideas typ = filter (\<lambda>t. t \<noteq> []) (map (\<lambda>i. trim_space (i_title i)) (bucket_of ideas typ))"

definition context_types :: "string \<Rightarrow> string list" where
  "context_types typ = (let t = trim_space typ in if t \<noteq> [] then [t] else IdeationTypes)"

text \<open>A slice no element was appended to is \<open>null\<close>.\<close>

definition appended_json :: "string list \<Rightarrow> json" where
  "appended_json l = (if l = [] then JNull else JArr (map JStr l))"

definition ideation_object :: "string \<Rightarrow> ideation \<Rightarrow> roadmap \<Rightarrow> string list option \<Rightarrow> (string \<times> json) list" where
  "ideation_object typ ideas rm taskTitles =
     [(''existing_idea_titles_by_type'', JObj (map (\<lambda>t. (t, appended_json (sort (idea_titles ideas t)))) (context_types typ))),
      (''roadmap_feature_titles'', appended_json (titles_of (rm_features rm))),
      (''board_task_titles'', case taskTitles of None \<Rightarrow> JNull | Some l \<Rightarrow> JArr (map JStr l)),
      (''vision_one_liner'', JStr (cut_at 240 (trim_space (rm_vision rm)))),
      (''ideation_type'', JStr (nz typ ''all''))]"

definition fillIdeationContext :: "string \<Rightarrow> string \<Rightarrow> runner_context \<Rightarrow> runner_context act" where
  "fillIdeationContext pid typ ctx = do {
     ri \<leftarrow> GetIdeation pid;
     let ideas = result_or emptyIdeation ri;
     rr \<leftarrow> GetRoadmap pid;
     let rm = result_or zero_roadmap rr;
     rp \<leftarrow> projectContext pid;
     let taskTitles = (case rp of Inl _ \<Rightarrow> None | Inr (p, titles) \<Rightarrow> Some titles);
     (ids0, titles0) \<leftarrow> implementedIdeationFromDone pid typ;
     let ids = sortedSet ids0;
     let titles = sortedSet titles0;
     State_Monad.return (ctx\<lparr>
       rc_boardTaskTitles := (case taskTitles of None \<Rightarrow> [] | Some l \<Rightarrow> l),
       rc_existingIdeaTitles := sort (concat (map (idea_titles ideas) (context_types typ))),
       rc_implementedIdeaIDs := ids,
       rc_implementedIdeaTitles := titles,
       rc_implementedIdeationNote := buildImplementedIdeationNote ids titles,
       rc_ideationContext := ideation_object typ ideas rm taskTitles\<rparr>) }"

section \<open>The pack of a job\<close>

definition buildRunnerContext :: "job \<Rightarrow> path option \<Rightarrow> bool \<Rightarrow> runner_context act" where
  "buildRunnerContext j hostRepo repoMounted = do {
     let c0 = zero_context\<lparr>rc_repoDir := (if repoMounted then containerRepoPath else [])\<rparr>;
     c1 \<leftarrow> asks (\<lambda>w. case hostRepo of
         Some d \<Rightarrow> if wants_clone (j_action j) then clone_context w d c0 else c0
       | None \<Rightarrow> c0);
     c2 \<leftarrow> (if repoMounted then State_Monad.return c1
             else do {
               rp \<leftarrow> GetProject (j_projectId j);
               State_Monad.return (c1\<lparr>rc_cloneHonestyNote := (case rp of
                   Inl _ \<Rightarrow> no_clone_note [] []
                 | Inr p \<Rightarrow> no_clone_note (p_ownerRepo p) (p_connectorId p))\<rparr>) });
     if j_action j = ''run-roadmap-discovery'' then fillDiscoveryContext (j_projectId j) c2
     else if j_action j = ''run-roadmap-features'' then fillFeaturesContext (j_projectId j) c2
     else if j_action j = ''run-ideation'' then fillIdeationContext (j_projectId j) (j_ideationType j) c2
     else State_Monad.return c2 }"

definition strings_or_none :: "string \<Rightarrow> string list \<Rightarrow> (string \<times> json) list" where
  "strings_or_none k l = (if l = [] then [] else [(k, JArr (map JStr l))])"

definition object_or_none :: "string \<Rightarrow> (string \<times> json) list \<Rightarrow> (string \<times> json) list" where
  "object_or_none k l = (if l = [] then [] else [(k, JObj l)])"

text \<open>The fields from the clone, before the analysis, and those after it.\<close>

definition clone_fields :: "runner_context \<Rightarrow> (string \<times> json) list" where
  "clone_fields c =
     (case rc_projectIndex c of None \<Rightarrow> [] | Some ix \<Rightarrow> [(''projectIndex'', JObj (index_json ix))]) @
     text_or_none ''cursorMd'' (rc_cursorMd c) @ text_or_none ''repoDir'' (rc_repoDir c) @
     text_or_none ''cloneHonestyNote'' (rc_cloneHonestyNote c) @ text_or_none ''readmeExcerpt'' (rc_readmeExcerpt c) @
     object_or_none ''manifestExcerpts'' (map (\<lambda>(k, v). (k, JStr v)) (rc_manifestExcerpts c)) @
     text_or_none ''featuresDocExcerpt'' (rc_featuresDocExcerpt c) @
     text_or_none ''designChoicesExcerpt'' (rc_designChoicesExcerpt c)"

definition store_fields :: "runner_context \<Rightarrow> (string \<times> json) list" where
  "store_fields c =
     text_or_none ''existingVision'' (rc_existingVision c) @
     (if rc_existingPhases c = [] then [] else [(''existingPhases'', JArr (map phase_json (rc_existingPhases c)))]) @
     (if rc_needsDiscovery c then [(''needsDiscovery'', JBool True)] else []) @
     object_or_none ''discoverySnapshot'' (rc_discoverySnapshot c) @
     strings_or_none ''existingFeatureTitles'' (rc_existingFeatureTitles c) @
     strings_or_none ''implementedFeatures'' (rc_implementedFeatures c) @
     text_or_none ''implementedFeatureNote'' (rc_implementedFeatureNote c) @
     object_or_none ''ideationContext'' (rc_ideationContext c) @
     strings_or_none ''existingIdeaTitles'' (rc_existingIdeaTitles c) @
     strings_or_none ''implementedIdeaIds'' (rc_implementedIdeaIDs c) @
     strings_or_none ''implementedIdeaTitles'' (rc_implementedIdeaTitles c) @
     text_or_none ''implementedIdeationNote'' (rc_implementedIdeationNote c) @
     strings_or_none ''boardTaskTitles'' (rc_boardTaskTitles c)"

definition context_json :: "runner_context \<Rightarrow> (string \<times> json) list" where
  "context_json c = clone_fields c @
     (case rc_competitorAnalysis c of None \<Rightarrow> [] | Some a \<Rightarrow> [(''competitorAnalysis'', analysis_json a)]) @
     store_fields c"

section \<open>The input file\<close>

definition project_fields :: "job \<Rightarrow> (string \<times> json) list act" where
  "project_fields j = do {
     rp \<leftarrow> GetProject (j_projectId j);
     State_Monad.return (case rp of
         Inl _ \<Rightarrow> []
       | Inr p \<Rightarrow> [(''ownerRepo'', JStr (p_ownerRepo p)), (''defaultBranch'', JStr (nz (p_defaultBranch p) ''main'')),
           (''projectName'', JStr (p_name p))]) }"

text \<open>The plan goes in as its text.\<close>

definition spec_fields :: "job \<Rightarrow> (string \<times> json) list act" where
  "spec_fields j =
     (if j_specId j = [] then State_Monad.return []
      else do {
        rt \<leftarrow> GetTask (j_projectId j) (j_specId j);
        rm \<leftarrow> GetSpecMarkdown (j_projectId j) (j_specId j);
        rp \<leftarrow> GetPlan (j_projectId j) (j_specId j);
        asks (\<lambda>w.
          (case rt of Inl _ \<Rightarrow> [] | Inr t \<Rightarrow> [(''taskTitle'', JStr (t_title t)), (''taskDescription'', JStr (t_description t))]) @
          (case rm of Inl _ \<Rightarrow> [] | Inr md \<Rightarrow> [(''specExcerpt'', JStr (truncateRunes md 4000))]) @
          (case rp of
             Inl _ \<Rightarrow> []
           | Inr pl \<Rightarrow> if pl_phases pl = [] then [] else [(''planJson'', JStr (marshal w (DPlan pl)))])) })"

definition flat_fields :: "runner_context \<Rightarrow> (string \<times> json) list" where
  "flat_fields c =
     (if rc_existingIdeaTitles c = [] then [] else [(''existingIdeaTitles'', JStr (join newline (rc_existingIdeaTitles c)))]) @
     (if rc_boardTaskTitles c = [] then [] else [(''taskTitles'', JStr (join newline (rc_boardTaskTitles c)))]) @
     text_or_none ''cloneHonestyNote'' (rc_cloneHonestyNote c)"

definition runner_input_fields :: "job \<Rightarrow> bool \<Rightarrow> path option \<Rightarrow> (string \<times> json) list act" where
  "runner_input_fields j repoMounted hostRepo = do {
     pf \<leftarrow> project_fields j;
     sf \<leftarrow> spec_fields j;
     c \<leftarrow> buildRunnerContext j hostRepo repoMounted;
     State_Monad.return
       ([(''action'', JStr (j_action j)), (''runId'', JStr (j_runId j)), (''specId'', JStr (j_specId j)),
         (''projectId'', JStr (j_projectId j))] @
        (if repoMounted then [(''repoDir'', JStr containerRepoPath)] else []) @ pf @
        text_or_none ''ideationType'' (j_ideationType j) @ strings_or_none ''competitors'' (j_competitors j) @
        text_or_none ''audienceNotes'' (trim_space (j_audienceNotes j)) @ sf @
        [(''context'', JObj (context_json c))] @ flat_fields c) }"

definition writeRunnerInputJSON :: "job \<Rightarrow> path \<Rightarrow> bool \<Rightarrow> path option \<Rightarrow> unit actE" where
  "writeRunnerInputJSON j p repoMounted hostRepo = do {
     kvs \<leftarrow> runner_input_fields j repoMounted hostRepo;
     write_json_file p kvs }"

end
