(* ===== verification/Container.thy ===== *)
theory Container
  imports Workspace Runner_Context
begin

text \<open>
  The model a job runs with (\<open>job_model_config.go\<close>, the client of \<open>oam_client.go\<close>) and the
  container it runs in (\<open>spawn_container.go\<close>): the binding OAM resolves for the job's agent,
  its record on the job, the environment and the docker arguments, the env file that carries
  the credential, and what is read back.  Log lines to standard error are not modelled.
\<close>

section \<open>Resolving the model\<close>

record model_config =
  mc_provider :: string
  mc_model :: string
  mc_baseUrl :: string
  mc_apiKey :: string
  mc_modelSource :: string
  mc_keyScope :: string
  mc_fromOAM :: bool
  mc_candidates :: "endpoint_candidate list"

definition zero_config :: model_config where
  "zero_config = \<lparr> mc_provider = [], mc_model = [], mc_baseUrl = [], mc_apiKey = [], mc_modelSource = [],
     mc_keyScope = [], mc_fromOAM = False, mc_candidates = [] \<rparr>"

definition hasKey :: "model_config \<Rightarrow> bool" where
  "hasKey c \<longleftrightarrow> trim_space (mc_apiKey c) \<noteq> []"

definition oamPeerURL :: "world \<Rightarrow> string" where
  "oamPeerURL w = trim_right (\<lambda>c. c = CHR ''/'') (trim_space (getenv w ''PEER_OAM_URL''))"

definition oamConfigured :: "world \<Rightarrow> bool" where
  "oamConfigured w \<longleftrightarrow> oamPeerURL w \<noteq> []"

definition leaseAndRedeemAgentFromOAM :: "externals \<Rightarrow> resolve_request \<Rightarrow> agent_binding actE" where
  "leaseAndRedeemAgentFromOAM x rq = bindE (x_lease x rq) (\<lambda>lease.
     if blank lease then throwE (Errf ''oam lease returned empty lease_id'') else x_redeem x lease)"

definition resolve_request_for :: "string \<Rightarrow> string \<Rightarrow> string \<Rightarrow> string \<Rightarrow> model_override option \<Rightarrow> resolve_request" where
  "resolve_request_for org proj actor agentKey ov = \<lparr> rq_organizationId = trim_space org,
     rq_projectId = trim_space proj, rq_userId = trim_space actor, rq_product = ''opm'', rq_agentKey = agentKey,
     rq_override = (if override_empty ov then None else ov) \<rparr>"

definition resolveAgentFromOAM ::
  "externals \<Rightarrow> string \<Rightarrow> string \<Rightarrow> string \<Rightarrow> string \<Rightarrow> model_override option \<Rightarrow> agent_binding actE" where
  "resolveAgentFromOAM x org proj actor agentKey0 ov = do {
     conf \<leftarrow> asks oamConfigured;
     let agentKey = trim_space agentKey0;
     if \<not> conf then throwE (Errf ''PEER_OAM_URL not configured'')
     else if agentKey = [] then throwE (Errf ''agent_key required'')
     else do {
       let rq = resolve_request_for org proj actor agentKey ov;
       leased \<leftarrow> leaseAndRedeemAgentFromOAM x rq;
       r \<leftarrow> (case leased of Inr b \<Rightarrow> okE b | Inl _ \<Rightarrow> x_resolve x rq);
       case r of
         Inl e \<Rightarrow> throwE e
       | Inr b \<Rightarrow>
           if blank (ab_apiKey b) then throwE (Errf (''oam returned an empty api key for agent '' @ quote agentKey))
           else okE b } }"

definition job_agent_key :: "job \<Rightarrow> string" where
  "job_agent_key j = (if blank (j_agentKey j) then agentKeyForAction (j_action j) else trim_space (j_agentKey j))"

text \<open>A model pinned for this agent is sent as the override.\<close>

definition job_override :: "job \<Rightarrow> string \<Rightarrow> model_override option" where
  "job_override j agentKey =
     (if j_resolvedAgentKey j = agentKey \<and> \<not> blank (j_resolvedModel j)
      then Some \<lparr>mo_provider = j_resolvedProvider j, mo_model = j_resolvedModel j\<rparr> else j_modelOverride j)"

definition config_of :: "agent_binding \<Rightarrow> model_config" where
  "config_of b = \<lparr> mc_provider = ab_provider b, mc_model = ab_model b, mc_baseUrl = ab_baseUrl b,
     mc_apiKey = ab_apiKey b, mc_modelSource = ab_modelSource b, mc_keyScope = ab_keyScope b,
     mc_fromOAM = True, mc_candidates = ab_candidates b \<rparr>"

definition resolveJobModelConfig :: "externals \<Rightarrow> job \<Rightarrow> model_config actE" where
  "resolveJobModelConfig x j =
     (let agentKey = job_agent_key j in
      if agentKey = [] then okE zero_config
      else do {
        conf \<leftarrow> asks oamConfigured;
        if \<not> conf then throwE (Errf (''PEER_OAM_URL required for model-backed jobs '' @
          ''(legacy OPM_MODEL*/CURSOR_API_KEY credentials removed)''))
        else bindE (resolveAgentFromOAM x (j_organizationId j) (j_projectId j) (j_actorUsername j) agentKey
               (job_override j agentKey)) (\<lambda>b. okE (config_of b)) })"

section \<open>Recording the resolution\<close>

definition with_resolution :: "job \<Rightarrow> model_config \<Rightarrow> string \<Rightarrow> job" where
  "with_resolution j cfg agentKey = j\<lparr> j_resolvedProvider := mc_provider cfg, j_resolvedModel := mc_model cfg,
     j_resolvedModelSource := mc_modelSource cfg, j_resolvedKeyScope := mc_keyScope cfg,
     j_resolvedAgentKey := agentKey \<rparr>"

text \<open>Written onto the stored job, not over it; the caller's copy is returned updated.\<close>

definition recordJobResolution :: "job \<Rightarrow> model_config \<Rightarrow> string \<Rightarrow> job act" where
  "recordJobResolution j cfg agentKey =
     (if \<not> mc_fromOAM cfg then State_Monad.return j
      else do {
        r \<leftarrow> GetJob (j_projectId j) (j_runId j);
        let persisted = (case r of Inl _ \<Rightarrow> with_resolution j cfg agentKey | Inr q \<Rightarrow> q);
        _ \<leftarrow> UpdateJob (j_projectId j) (with_resolution persisted cfg agentKey);
        State_Monad.return (with_resolution j cfg agentKey) })"

section \<open>The environment\<close>

text \<open>A Go map of distinct keys.\<close>

definition env_entry :: "string \<Rightarrow> string \<Rightarrow> (string \<times> string) list" where
  "env_entry k v = (if blank v then [] else [(k, trim_space v)])"

definition modelEnvForJob :: "model_config \<Rightarrow> (string \<times> string) list" where
  "modelEnvForJob cfg = env_entry ''OPM_MODEL'' (mc_model cfg) @ env_entry ''OPM_MODEL_PROVIDER'' (mc_provider cfg) @
     env_entry ''OPM_MODEL_BASE_URL'' (mc_baseUrl cfg)"

definition sanitizeEnvValue :: "string \<Rightarrow> string" where
  "sanitizeEnvValue v = replace_all [CHR 0x0A] [] (replace_all [CHR 0x0D] [] v)"

definition env_line :: "string \<Rightarrow> string \<Rightarrow> string \<Rightarrow> string list" where
  "env_line p suffix v = (if blank v then [] else [p @ suffix @ ''='' @ sanitizeEnvValue v])"

definition candidate_lines :: "int \<Rightarrow> endpoint_candidate \<Rightarrow> string list" where
  "candidate_lines i c = (let p = ''OPM_MODEL_'' @ itoa i @ ''_'' in
     env_line p ''ENDPOINT_ID'' (ec_endpointId c) @ env_line p ''KIND'' (ec_kind c) @
     env_line p ''TRANSPORT'' (ec_transport c) @ env_line p ''PROVIDER'' (ec_provider c) @
     env_line p ''BASE_URL'' (ec_baseUrl c) @ env_line p ''MODEL'' (ec_model c) @
     env_line p ''CLI_COMMAND'' (ec_cliCommand c) @ env_line p ''CLI_ARGS'' (join '' '' (ec_cliArgs c)) @
     env_line p ''API_KEY'' (ec_apiKey c))"

fun number_candidates :: "int \<Rightarrow> endpoint_candidate list \<Rightarrow> string list" where
  "number_candidates i [] = []"
| "number_candidates i (c # cs) = candidate_lines i c @ number_candidates (i + 1) cs"

definition candidateEnvLines :: "model_config \<Rightarrow> string list" where
  "candidateEnvLines cfg =
     (if mc_candidates cfg = [] then []
      else (''OPM_MODEL_CANDIDATE_COUNT='' @ itoa (int (length (mc_candidates cfg)))) #
           number_candidates 1 (mc_candidates cfg))"

definition env_pair :: "string \<times> string \<Rightarrow> string" where
  "env_pair kv = fst kv @ ''='' @ snd kv"

definition env_file_lines :: "world \<Rightarrow> model_config \<Rightarrow> string list" where
  "env_file_lines w cfg = sort
     ([''OPM_MODEL_API_KEY='' @ mc_apiKey cfg, ''CURSOR_API_KEY='' @ mc_apiKey cfg] @
      map env_pair (modelEnvForJob cfg) @ candidateEnvLines cfg @
      (let v = envOr w ''OPM_CURSOR_AGENT_BIN'' [] in if v \<noteq> [] then [''OPM_CURSOR_AGENT_BIN='' @ v] else []))"

text \<open>The path of the file; on an error the file is removed again.\<close>

definition writeModelEnvFile :: "externals \<Rightarrow> model_config \<Rightarrow> path actE" where
  "writeModelEnvFile x cfg = do {
     name \<leftarrow> x_temp x ''opm-model-env-*'';
     f \<leftarrow> asks (\<lambda>w. path_join [] [tempDir w, name]);
     ls \<leftarrow> asks (\<lambda>w. env_file_lines w cfg);
     r \<leftarrow> os_write f (join newline ls @ newline);
     case r of
       Inl e \<Rightarrow> do { _ \<leftarrow> os_remove f; throwE e }
     | Inr _ \<Rightarrow> okE f }"

section \<open>The runner's output\<close>

definition try_result :: "externals \<Rightarrow> string \<Rightarrow> runner_result option" where
  "try_result x b = (case x_runner_json x b of
       None \<Rightarrow> None
     | Some r \<Rightarrow> let m = to_lower (trim_space (rr_mode r)) in if m = [] then None else Some (r\<lparr>rr_mode := m\<rparr>))"

text \<open>Banner lines before the object are skipped.\<close>

definition parseRunnerResultJSON :: "externals \<Rightarrow> string \<Rightarrow> runner_result option" where
  "parseRunnerResultJSON x raw =
     (let s = trim_space raw in
      if s = [] then None
      else case try_result x s of
        Some rr \<Rightarrow> Some rr
      | None \<Rightarrow> (case index_of ''{'' s of None \<Rightarrow> None | Some i \<Rightarrow> try_result x (drop i s)))"

section \<open>The container\<close>

text \<open>The prepared clone, or nothing for the placeholder without \<open>.git\<close>.\<close>

definition repoMountSource :: "path option \<Rightarrow> path option act" where
  "repoMountSource workDir = (case workDir of
       None \<Rightarrow> State_Monad.return None
     | Some d \<Rightarrow> do {
         ex \<leftarrow> os_exists (d @ [''.git'']);
         State_Monad.return (if ex then Some d else None) })"

definition proxy_names :: "string list" where
  "proxy_names = [''HTTP_PROXY'', ''HTTPS_PROXY'', ''NO_PROXY'', ''http_proxy'', ''https_proxy'', ''no_proxy'']"

definition container_env :: "world \<Rightarrow> job \<Rightarrow> model_config \<Rightarrow> string \<Rightarrow> bool \<Rightarrow> (string \<times> string) list" where
  "container_env w j cfg agentKey mounted =
     [(''OPM_ACTION'', j_action j), (''OPM_RUN_ID'', j_runId j), (''OPM_SPEC_ID'', j_specId j),
      (''OPM_PROJECT'', j_projectId j), (''OPM_IN_FILE'', ''/in/input.json''), (''OPM_OUT_DIR'', ''/out'')] @
     (if mounted then [(''OPM_REPO_DIR'', ''/repo'')] else []) @
     (if agentKey \<noteq> [] then [(''OPM_AGENT_KEY'', agentKey)] else []) @
     modelEnvForJob cfg @ concat (map (\<lambda>k. env_entry k (getenv w k)) proxy_names)"

definition tmpfs_args :: "string list" where
  "tmpfs_args = [''--tmpfs'', ''/tmp:rw,exec,nosuid,nodev,uid=65532,gid=65532,mode=1777,size=1g'',
     ''--tmpfs'', ''/home/opm:rw,exec,nosuid,nodev,uid=65532,gid=65532,mode=1777,size=256m'']"

definition mount_args :: "job \<Rightarrow> path option \<Rightarrow> string list" where
  "mount_args j repo = (case repo of
       None \<Rightarrow> []
     | Some d \<Rightarrow> [''-v'', path_str d @ '':/repo'' @ (if taskWorkspaceWriteMount (j_action j) then '':rw'' else '':ro'')])"

definition run_dir :: "world \<Rightarrow> job \<Rightarrow> string \<Rightarrow> path" where
  "run_dir w j n = path_join (jobTmpRoot w) [j_runId j, n]"

text \<open>The arguments without the env file: \<open>None\<close> when \<open>DockerRunArgv\<close> does not start with
  \<open>run\<close>.\<close>

definition container_args ::
  "externals \<Rightarrow> world \<Rightarrow> job \<Rightarrow> model_config \<Rightarrow> string \<Rightarrow> string \<Rightarrow> path option \<Rightarrow> string list option" where
  "container_args x w j cfg agentKey img repo =
     (let base = x_docker_argv x img (''opm'', j_runId j, envOr w ''OPM_INSTANCE'' ''default'')
            (container_env w j cfg agentKey (repo \<noteq> None)) in
      if base = [] \<or> hd base \<noteq> ''run'' then None
      else let a0 = [''run'', ''--name'', ''opm-job-'' @ sanitizeDockerName (j_runId j)] @ tl base;
               a1 = insertBeforeImage a0 img tmpfs_args;
               a2 = insertBeforeImage a1 img [''-v'', path_str (run_dir w j ''runner-in'') @ '':/in:ro'',
                      ''-v'', path_str (run_dir w j ''runner-out'') @ '':/out''];
               a3 = (if repo = None then a2 else insertBeforeImage a2 img (mount_args j repo))
           in Some (if hasKey cfg then replaceNetwork a3 (envOr w ''OPM_RUNNER_NETWORK'' ''bridge'') else a3))"

definition no_result :: container_outcome where
  "no_result = \<lparr>co_stdout = [], co_result = None\<rparr>"

text \<open>The run itself: what the container printed, the result it left or else printed, and the
  error of the run.\<close>

definition docker_run :: "externals \<Rightarrow> job \<Rightarrow> string \<Rightarrow> string list \<Rightarrow> (container_outcome \<times> err option) act" where
  "docker_run x j img args = do {
     (combined, e) \<leftarrow> x_docker x args;
     out \<leftarrow> asks (\<lambda>w. run_dir w j ''runner-out'');
     rf \<leftarrow> os_read (out @ [''result.json'']);
     let res = (case rf of Inr b \<Rightarrow> parseRunnerResultJSON x b | Inl _ \<Rightarrow> parseRunnerResultJSON x combined);
     State_Monad.return (\<lparr>co_stdout = combined, co_result = res\<rparr>, case e of
         None \<Rightarrow> None
       | Some er \<Rightarrow> Some (Errf (''docker run '' @ img @ '': '' @ err_text er @ '' ('' @ truncateBytes combined 240 @ '')''))) }"

definition run_with_env :: "externals \<Rightarrow> job \<Rightarrow> model_config \<Rightarrow> string \<Rightarrow> string list \<Rightarrow> (container_outcome \<times> err option) act" where
  "run_with_env x j cfg img args =
     (if \<not> hasKey cfg then docker_run x j img args
      else do {
        rf \<leftarrow> writeModelEnvFile x cfg;
        case rf of
          Inl e \<Rightarrow> State_Monad.return (no_result, Some e)
        | Inr f \<Rightarrow> do {
            r \<leftarrow> docker_run x j img (insertBeforeImage args img [''--env-file'', path_str f]);
            _ \<leftarrow> os_remove f;
            State_Monad.return r } })"

definition wants_index :: "string \<Rightarrow> bool" where
  "wants_index action \<longleftrightarrow> action = ''run-ideation'' \<or> action = ''run-roadmap-discovery'' \<or> action = ''run-roadmap-features''"

definition runTaskContainer :: "externals \<Rightarrow> job \<Rightarrow> path option \<Rightarrow> (container_outcome \<times> err option) act" where
  "runTaskContainer x j0 workDir =
     (if \<not> x_docker_cli x
      then State_Monad.return (no_result, Some (Errf (''docker CLI not found: exec: '' @ quote ''docker'' @
             '': executable file not found in $PATH'')))
      else do {
        let agentKey = job_agent_key j0;
        rc \<leftarrow> resolveJobModelConfig x j0;
        case rc of
          Inl e \<Rightarrow> State_Monad.return (no_result,
            Some (Errf (''model resolution failed for agent '' @ quote agentKey @ '': '' @ err_text e)))
        | Inr cfg \<Rightarrow> do {
            j \<leftarrow> recordJobResolution j0 cfg agentKey;
            let img = nz (trim_space (j_runnerImage j)) (x_image x);
            inDir \<leftarrow> asks (\<lambda>w. run_dir w j ''runner-in'');
            outDir \<leftarrow> asks (\<lambda>w. run_dir w j ''runner-out'');
            _ \<leftarrow> os_mkdir_all inDir;
            _ \<leftarrow> os_mkdir_all outDir;
            repo \<leftarrow> repoMountSource workDir;
            _ \<leftarrow> (case repo of
                    Some d \<Rightarrow> if wants_index (j_action j)
                              then do { _ \<leftarrow> ensureProjectIndex d (inDir @ [''project_index.json'']); State_Monad.return () }
                              else State_Monad.return ()
                  | None \<Rightarrow> State_Monad.return ());
            ri \<leftarrow> writeRunnerInputJSON j (inDir @ [''input.json'']) (repo \<noteq> None) repo;
            case ri of
              Inl e \<Rightarrow> State_Monad.return (no_result, Some e)
            | Inr _ \<Rightarrow> do {
                args \<leftarrow> asks (\<lambda>w. container_args x w j cfg agentKey img repo);
                case args of
                  None \<Rightarrow> State_Monad.return (no_result, Some (Errf ''unexpected docker argv''))
                | Some a \<Rightarrow> run_with_env x j cfg img a } } })"

end
