(* ===== verification/Model_Apply.thy ===== *)
theory Model_Apply
  imports Roadmap_Run Change_Set Container
begin

text \<open>
  What a runner's model output does to the documents (\<open>model_apply.go\<close>): planning,
  implementation and its change set, ideation, roadmap discovery and features, competitor
  analysis, and the choice between them (\<open>applyRunnerResult\<close>).
\<close>

section \<open>Planning\<close>

definition model_spec_text :: "task \<Rightarrow> string \<Rightarrow> runner_result \<Rightarrow> string" where
  "model_spec_text t runID rr =
     (if \<not> blank (rr_specMarkdown rr) then trim_space (rr_specMarkdown rr)
      else ''# '' @ t_title t @ newline @ newline @ ''## Summary'' @ newline @ newline @
        nz (t_description t) ''_No description provided._'' @ newline @ newline @ ''## Notes'' @ newline @ newline @
        ''Generated by OPM model runner ('' @ runID @ '', model='' @ nz (rr_model rr) ''unknown'' @ '').'' @ newline @
        (if rr_rawExcerpt rr \<noteq> [] then newline @ ''## Model excerpt'' @ newline @ newline @ rr_rawExcerpt rr @ newline else []))"

definition model_default_plan :: "string \<Rightarrow> plan" where
  "model_default_plan title =
     \<lparr> pl_feature = title, pl_workflowType = ''feature'', pl_servicesInvolved = [''opm-api''],
       pl_specFile = ''spec.md'', pl_status = ''ready'', pl_planStatus = ''ready'',
       pl_finalAcceptance = [''Behavior matches spec summary''],
       pl_phases =
        [mk_phase 1 ''Design'' ''planning'' [] [mk_subtask ''1-0'' ''Confirm scope'' ''completed'' ''spec.md''],
         mk_phase 2 ''Implement'' ''coding'' [1] [mk_subtask ''2-0'' (''Implement: '' @ title) ''pending'' []],
         mk_phase 3 ''Review'' ''review'' [2] [mk_subtask ''3-0'' ''Self-review'' ''pending'' []]] \<rparr>"

definition plan_defaults :: "string \<Rightarrow> plan \<Rightarrow> plan" where
  "plan_defaults title pl = pl\<lparr> pl_feature := (if pl_feature pl = [] then title else pl_feature pl),
     pl_status := (if pl_status pl = [] then ''ready'' else pl_status pl),
     pl_planStatus := (if pl_planStatus pl = [] then ''ready'' else pl_planStatus pl) \<rparr>"

definition model_plan :: "string \<Rightarrow> runner_result \<Rightarrow> plan" where
  "model_plan title rr = plan_defaults title (case rr_plan rr of
       Some pl \<Rightarrow> if pl_phases pl \<noteq> [] then pl else model_default_plan title
     | None \<Rightarrow> model_default_plan title)"

definition model_planning_logs :: "job \<Rightarrow> runner_result \<Rightarrow> int \<Rightarrow> unit act" where
  "model_planning_logs j rr n = do {
     _ \<leftarrow> AppendSpecLog (j_projectId j) (j_specId j) ''planning'' (tag (j_runId j) @ ''model planning ('' @
           nz (rr_model rr) ''?'' @ '') wrote spec.md + plan ('' @ itoa n @ '' subtasks)'' @ newline);
     _ \<leftarrow> (if rr_rawExcerpt rr \<noteq> []
           then AppendSpecLog (j_projectId j) (j_specId j) ''planning''
                  (tag (j_runId j) @ ''model excerpt: '' @ truncateRunes (rr_rawExcerpt rr) 400 @ newline)
           else okE ());
     State_Monad.return () }"

definition applyModelPlanning :: "job \<Rightarrow> runner_result \<Rightarrow> outcome act" where
  "applyModelPlanning j rr =
     (let pid = j_projectId j; sid = j_specId j in
      if sid = [] then bad ''run-planning requires specId'' (Errf ''specId required'')
      else do {
        rt \<leftarrow> GetTask pid sid;
        case rt of
          Inl e \<Rightarrow> bad ''Task not found'' e
        | Inr t \<Rightarrow> do {
            rs \<leftarrow> PutSpecMarkdown pid sid (model_spec_text t (j_runId j) rr);
            case rs of
              Inl e \<Rightarrow> bad ''Failed to write spec.md'' e
            | Inr _ \<Rightarrow> do {
                let pl = model_plan (t_title t) rr;
                rp \<leftarrow> PutPlan pid sid pl;
                case rp of
                  Inl e \<Rightarrow> bad ''Failed to write implementation_plan.json'' e
                | Inr _ \<Rightarrow> do {
                    now \<leftarrow> nowUTC;
                    _ \<leftarrow> PutProgress pid sid (planning_progress j pl now);
                    _ \<leftarrow> model_planning_logs j rr (fst (countPlanSubtasks pl));
                    let toStatus = (if t_requireReview t then ''human_review'' else ''queue'');
                    rm \<leftarrow> MoveTask pid sid toStatus;
                    case rm of
                      Inl e \<Rightarrow> bad ''Plan written but move failed'' e
                    | Inr _ \<Rightarrow> ok (''Planning complete (model/'' @ nz (rr_model rr) ''model'' @
                        ''): wrote spec.md + plan; moved to '' @ toStatus @ ''.'') } } } })"

section \<open>Implementation\<close>

definition impl_phase_log :: "job \<Rightarrow> string \<Rightarrow> unit actE" where
  "impl_phase_log j msg = AppendSpecLog (j_projectId j) (j_specId j) ''implementation'' (tag (j_runId j) @ msg @ newline)"

definition num_changes :: "change_set \<Rightarrow> string" where
  "num_changes cs = itoa (int (length (cs_files cs))) @ '' file change(s)''"

text \<open>The set is applied to the session workspace when there is a clone, then recorded.\<close>

definition record_changes :: "job \<Rightarrow> change_set \<Rightarrow> string act" where
  "record_changes j cs = do {
     r \<leftarrow> PutChangeSetMerged (j_projectId j) (j_specId j) cs;
     case r of
       Inl e \<Rightarrow> do {
         _ \<leftarrow> impl_phase_log j (''failed to record '' @ num_changes cs @ '': '' @ err_text e);
         State_Monad.return (''Produced '' @ num_changes cs @ '' but recording them failed: '' @ err_text e @ ''.'') }
     | Inr _ \<Rightarrow> do {
         _ \<leftarrow> impl_phase_log j (''merged '' @ num_changes cs @ '' into session change set: '' @ join '', '' (cs_paths cs));
         State_Monad.return (''Applied '' @ num_changes cs @ '' to the shared implementation workspace.'') } }"

definition recordImplementationChangeSet :: "externals \<Rightarrow> job \<Rightarrow> runner_result \<Rightarrow> path option \<Rightarrow> string act" where
  "recordImplementationChangeSet x j rr workDir =
     (if j_specId j = [] then State_Monad.return []
      else do {
        cs \<leftarrow> changeSetFromRunner (j_runId j) rr;
        if cs_files cs = [] then do {
          _ \<leftarrow> impl_phase_log j (''no source changes produced '' @ em_dash @ '' nothing to deliver ('' @
                nz (cs_note cs) ''runner returned no files'' @ '')'');
          State_Monad.return ''No source changes were produced this step.'' }
        else do {
          stub \<leftarrow> (case workDir of None \<Rightarrow> State_Monad.return True | Some d \<Rightarrow> workspaceIsStub d);
          case workDir of
            None \<Rightarrow> record_changes j cs
          | Some d \<Rightarrow>
              if stub then record_changes j cs
              else do {
                lim \<leftarrow> asks deliveryLimits;
                (out, ae) \<leftarrow> applyChangeSet x d cs lim;
                case ae of
                  Some e \<Rightarrow> do {
                    _ \<leftarrow> impl_phase_log j (''failed to apply '' @ num_changes cs @ '' to session workspace: '' @ err_text e);
                    State_Monad.return (''Produced '' @ num_changes cs @
                      '' but applying to the session workspace failed: '' @ err_text e @ ''.'') }
                | None \<Rightarrow> do {
                    _ \<leftarrow> impl_phase_log j (''applied '' @ itoa (int (length (ao_applied out))) @
                          '' file change(s) to session workspace: '' @ join '', '' (ao_applied out));
                    record_changes j cs } } } })"

text \<open>\<open>strings.Replace\<close> with a count of one.\<close>

definition replace_first :: "string \<Rightarrow> string \<Rightarrow> string \<Rightarrow> string" where
  "replace_first old new s = (case index_of old s of
       None \<Rightarrow> s | Some i \<Rightarrow> take i s @ new @ drop (i + length old) s)"

definition runner_note :: "runner_result \<Rightarrow> string" where
  "runner_note rr = (let n = trim_space (rr_implementationNotes rr) in if n = [] then rr_rawExcerpt rr else n)"

definition note_block :: "runner_result \<Rightarrow> time \<Rightarrow> string" where
  "note_block rr now = newline @ ''### Runner notes ('' @ rfc3339 now @ '', '' @ nz (rr_model rr) ''model'' @ '')'' @
     newline @ newline @ runner_note rr @ newline"

definition model_message :: "runner_result \<Rightarrow> string \<Rightarrow> string" where
  "model_message rr msg0 =
     (let msg1 = replace_first ''(builtin)'' (''(model/'' @ nz (rr_model rr) ''model'' @ '')'') msg0;
          msg2 = (if contains ''model/'' msg1 then msg1 else ''Model enrichment applied. '' @ msg1);
          msg3 = replace_first ''Re-enqueue to continue.'' [] msg2
      in trim_space (replace_first builtinNoCodeNotice [] msg3))"

definition applyModelImplementationOpts ::
  "externals \<Rightarrow> job \<Rightarrow> runner_result \<Rightarrow> path option \<Rightarrow> bool \<Rightarrow> outcome act" where
  "applyModelImplementationOpts x j rr workDir keepRunning = do {
     (msg, e) \<leftarrow> builtinImplementationOpts j keepRunning;
     case e of
       Some er \<Rightarrow> bad msg er
     | None \<Rightarrow> do {
         _ \<leftarrow> (if runner_note rr \<noteq> []
               then do {
                 _ \<leftarrow> append_notes (j_projectId j) (j_specId j) (note_block rr);
                 impl_phase_log j (''runner implementation notes ('' @ nz (rr_model rr) ''?'' @ ''): '' @
                   truncateRunes (runner_note rr) 400) }
               else okE ());
         rec \<leftarrow> recordImplementationChangeSet x j rr workDir;
         ok (model_message rr msg @ '' '' @ rec) } }"

definition applyModelImplementation :: "externals \<Rightarrow> job \<Rightarrow> runner_result \<Rightarrow> path option \<Rightarrow> outcome act" where
  "applyModelImplementation x j rr workDir = applyModelImplementationOpts x j rr workDir False"

end
