(* ===== verification/Model_Roadmap.thy ===== *)
theory Model_Roadmap
  imports Model_Apply
begin

text \<open>
  A model's ideas and roadmap (\<open>model_apply.go\<close>), and \<open>applyRunnerResult\<close>, which picks the
  part of a runner's result the job's action is about.  Go visits the buckets of a result in
  no fixed order; here the order is the one of the list.
\<close>

section \<open>Ideation\<close>

definition model_idea :: "runner_result \<Rightarrow> string \<Rightarrow> string \<Rightarrow> string \<Rightarrow> string \<Rightarrow> idea \<Rightarrow> idea" where
  "model_idea rr i typ title now src = \<lparr> i_id = i, i_type = typ, i_title = title,
     i_description = trim_space (i_description src),
     i_rationale = nz (trim_space (i_rationale src))
       (''Generated by OPM model ideation ('' @ nz (rr_model rr) ''auto'' @ '').''),
     i_estimatedEffort = trim_space (i_estimatedEffort src), i_affectedFiles = i_affectedFiles src,
     i_implementationApproach = trim_space (i_implementationApproach src),
     i_status = (if blank (i_status src) then ''open'' else trim_space (i_status src)),
     i_createdAt = (if blank (i_createdAt src) then now else trim_space (i_createdAt src)) \<rparr>"

text \<open>The new ideas of a bucket and how many were skipped as implemented.\<close>

fun model_ideas ::
  "runner_result \<Rightarrow> string list \<times> string list \<Rightarrow> string \<Rightarrow> string \<Rightarrow> string list \<Rightarrow> idea list \<Rightarrow> (idea list \<times> int) act" where
  "model_ideas rr impl typ now have [] = State_Monad.return ([], 0)"
| "model_ideas rr impl typ now have (i # is) =
     (let title = trim_space (i_title i); iid = trim_space (i_id i) in
      if title = [] \<or> to_lower title \<in> set have then model_ideas rr impl typ now have is
      else if (iid \<noteq> [] \<and> iid \<in> set (fst impl)) \<or> normalizeTitle title \<in> set (snd impl)
      then do { (new, k) \<leftarrow> model_ideas rr impl typ now have is; State_Monad.return (new, k + 1) }
      else do {
        nid \<leftarrow> fresh_id iid ''idea'';
        (new, k) \<leftarrow> model_ideas rr impl typ now (to_lower title # have) is;
        State_Monad.return (model_idea rr nid typ title now i # new, k) })"

fun model_buckets ::
  "job \<Rightarrow> runner_result \<Rightarrow> string list \<times> string list \<Rightarrow> string \<Rightarrow> (string \<times> idea list) list \<Rightarrow>
     ideation \<times> int \<times> int \<Rightarrow> (ideation \<times> int \<times> int) act" where
  "model_buckets j rr impl now [] acc = State_Monad.return acc"
| "model_buckets j rr impl now ((typ0, incoming) # rest) (ideas, added, skipped) =
     (let typ = trim_space typ0 in
      if typ \<notin> set IdeationTypes \<or> (j_ideationType j \<noteq> [] \<and> typ \<noteq> j_ideationType j)
      then model_buckets j rr impl now rest (ideas, added, skipped)
      else do {
        let bucket = bucket_of ideas typ;
        (new, k) \<leftarrow> model_ideas rr impl typ now (map (\<lambda>i. normalizeTitle (i_title i)) bucket) incoming;
        model_buckets j rr impl now rest
          (AList.update typ (bucket @ new) ideas, added + int (length new), skipped + k) })"

definition ideation_counts :: "runner_result \<Rightarrow> int \<Rightarrow> int \<Rightarrow> string" where
  "ideation_counts rr added n = ''Ideation (model/'' @ nz (rr_model rr) ''model'' @ ''): added '' @ itoa added @
     '' idea(s) across '' @ itoa n @ '' type(s)''"

definition applyModelIdeation :: "job \<Rightarrow> runner_result \<Rightarrow> outcome act" where
  "applyModelIdeation j rr =
     (if rr_ideas rr = [] then bad ''model ideation returned no ideas'' (Errf ''ideas missing'')
      else do {
        re \<leftarrow> GetIdeation (j_projectId j);
        let existing = (case re of Inl _ \<Rightarrow> emptyIdeation | Inr x \<Rightarrow> x);
        impl \<leftarrow> implementedIdeationFromDone (j_projectId j) (j_ideationType j);
        now \<leftarrow> nowUTC;
        (ideas, added, skipped) \<leftarrow> model_buckets j rr impl (rfc3339 now) (rr_ideas rr) (existing, 0, 0);
        let n = int (length (ideation_types j));
        if added = 0
        then ok (ideation_counts rr 0 n @ '' (duplicates, implemented, or empty).'' @
               (if skipped > 0 then '' Skipped '' @ itoa skipped @ '' already-implemented.'' else []))
        else do {
          rp \<leftarrow> PutIdeation (j_projectId j) ideas;
          case rp of
            Inl e \<Rightarrow> bad ''Failed to write ideation.json'' e
          | Inr _ \<Rightarrow> do {
              _ \<leftarrow> AppendProjectLog (j_projectId j) ''run-ideation''
                    (tag (j_runId j) @ ''ideation agent added '' @ itoa added @ '' idea(s) types='' @
                     types_text (ideation_types j) @ '' (model/'' @ nz (rr_model rr) ''?'' @ ''; skipped_implemented='' @
                     itoa skipped @ '')'' @ newline);
              ok (ideation_counts rr added n @ ''.'') } } })"

section \<open>Discovery\<close>

fun str_at :: "(string \<times> json) list \<Rightarrow> string \<Rightarrow> string" where
  "str_at m k = (case map_of m k of Some (JStr s) \<Rightarrow> trim_space s | _ \<Rightarrow> [])"

definition blob_vision :: "(string \<times> json) list \<Rightarrow> string" where
  "blob_vision m = (case map_of m ''product_vision'' of Some (JObj pv) \<Rightarrow> str_at pv ''one_liner'' | _ \<Rightarrow> [])"

definition audience_persona :: "(string \<times> json) list \<Rightarrow> string list" where
  "audience_persona m = (if str_at m ''primary_persona'' \<noteq> [] then [str_at m ''primary_persona'']
     else if str_at m ''primary'' \<noteq> [] then [str_at m ''primary''] else [])"

fun compactAudience :: "json \<Rightarrow> string" where
  "compactAudience (JStr s) = trim_space s"
| "compactAudience (JObj m) = join ('' '' @ em_dash @ '' '')
     (audience_persona m @ (if str_at m ''usage_context'' \<noteq> [] then [str_at m ''usage_context''] else []))"
| "compactAudience _ = []"

definition model_vision :: "runner_result \<Rightarrow> string" where
  "model_vision rr = (let v = trim_space (rr_vision rr) in
     if v \<noteq> [] then v else case rr_discovery rr of None \<Rightarrow> [] | Some m \<Rightarrow> blob_vision m)"

definition model_audience :: "runner_result \<Rightarrow> string" where
  "model_audience rr = (let a = trim_space (rr_targetAudience rr) in
     if a \<noteq> [] then a else case rr_discovery rr of None \<Rightarrow> [] | Some m \<Rightarrow> compactAudience (any_at m ''target_audience''))"

definition model_discovered :: "job \<Rightarrow> runner_result \<Rightarrow> roadmap \<Rightarrow> roadmap_phase list \<Rightarrow> time \<Rightarrow> roadmap" where
  "model_discovered j rr rm phases now =
     (let rm1 = rm\<lparr> rm_vision := (if model_vision rr \<noteq> [] then model_vision rr else rm_vision rm),
                    rm_targetAudience := (if model_audience rr \<noteq> [] then model_audience rr else rm_targetAudience rm),
                    rm_phases := phases \<rparr>;
          rm2 = set_meta ''discovery_source'' (JStr (''model/'' @ nz (rr_model rr) ''model''))
                  (set_meta ''discovered_at'' (JStr (rfc3339 now)) (set_meta ''last_discovery_run'' (JStr (j_runId j)) rm1))
      in case rr_discovery rr of None \<Rightarrow> rm2 | Some m \<Rightarrow> set_meta ''discovery'' (JObj m) rm2)"

definition applyModelRoadmapDiscovery :: "job \<Rightarrow> runner_result \<Rightarrow> outcome act" where
  "applyModelRoadmapDiscovery j rr = do {
     rg \<leftarrow> GetProject (j_projectId j);
     case rg of
       Inl e \<Rightarrow> bad ''Project not found'' e
     | Inr p \<Rightarrow> do {
         r0 \<leftarrow> GetRoadmap (j_projectId j);
         let rm0 = roadmap_defaults (nz (p_name p) (p_ownerRepo p)) (result_or zero_roadmap r0);
         phases \<leftarrow> (if rr_phases rr \<noteq> [] then mergeRoadmapPhases (rm_phases rm0) (rr_phases rr)
                    else State_Monad.return (rm_phases rm0));
         now \<leftarrow> nowUTC;
         let rm = model_discovered j rr rm0 phases now;
         rp \<leftarrow> PutRoadmap (j_projectId j) rm;
         case rp of
           Inl e \<Rightarrow> bad ''Failed to write roadmap.json'' e
         | Inr _ \<Rightarrow> do {
             _ \<leftarrow> AppendProjectLog (j_projectId j) ''run-roadmap-discovery''
                   (tag (j_runId j) @ ''discovery wrote vision + '' @ itoa (int (length (rm_phases rm))) @
                    '' phase(s) (model/'' @ nz (rr_model rr) ''?'' @ '')'' @ newline);
             ok (''Roadmap discovery (model/'' @ nz (rr_model rr) ''model'' @ ''): vision set; '' @
                 itoa (int (length (rm_phases rm))) @ '' phase(s).'') } } }"

section \<open>Features\<close>

text \<open>A phase by its id, else by its name, else the first one.\<close>

definition resolve_phase :: "roadmap_phase list \<Rightarrow> string \<Rightarrow> string" where
  "resolve_phase phases raw =
     (let pid0 = trim_space raw;
          pid1 = (if pid0 \<noteq> [] \<and> pid0 \<notin> rp_id ` set phases
                  then (case phase_named (to_lower pid0) phases of Some ph \<Rightarrow> rp_id ph | None \<Rightarrow> rp_id (hd phases))
                  else pid0)
      in if pid1 = [] then rp_id (hd phases) else pid1)"

definition model_feature :: "runner_result \<Rightarrow> string \<Rightarrow> string \<Rightarrow> string \<Rightarrow> roadmap_feature \<Rightarrow> roadmap_feature" where
  "model_feature rr fid title phaseID f = zero_feature\<lparr> rf_id := fid, rf_title := title,
     rf_description := trim_space (rf_description f),
     rf_rationale := nz (trim_space (rf_rationale f)) (''Generated by OPM model roadmap features ('' @ nz (rr_model rr) ''auto'' @ '').''),
     rf_priority := (if blank (rf_priority f) then ''should'' else trim_space (rf_priority f)),
     rf_complexity := trim_space (rf_complexity f), rf_impact := trim_space (rf_impact f), rf_phaseId := phaseID,
     rf_dependencies := rf_dependencies f, rf_status := or_planned (rf_status f),
     rf_acceptanceCriteria := rf_acceptanceCriteria f, rf_userStories := rf_userStories f\<rparr>"

definition file_under :: "string \<Rightarrow> string \<Rightarrow> roadmap_phase list \<Rightarrow> roadmap_phase list" where
  "file_under phaseID fid phases =
     update_first (\<lambda>ph. rp_id ph = phaseID) (\<lambda>ph. ph\<lparr>rp_features := rp_features ph @ [fid]\<rparr>) phases"

record model_acc =
  ma_existing :: "string list"
  ma_roadmap :: roadmap
  ma_added :: int
  ma_skipped :: int

definition take_feature :: "runner_result \<Rightarrow> string \<Rightarrow> string \<Rightarrow> roadmap_feature \<Rightarrow> model_acc \<Rightarrow> model_acc" where
  "take_feature rr fid title f acc =
     (let rm = ma_roadmap acc; phaseID = resolve_phase (rm_phases rm) (rf_phaseId f) in
      acc\<lparr> ma_existing := to_lower title # ma_existing acc, ma_added := ma_added acc + 1,
        ma_roadmap := rm\<lparr> rm_features := rm_features rm @ [model_feature rr fid title phaseID f],
          rm_phases := file_under phaseID fid (rm_phases rm)\<rparr>\<rparr>)"

fun model_features :: "runner_result \<Rightarrow> roadmap_feature list \<Rightarrow> model_acc \<Rightarrow> model_acc act" where
  "model_features rr [] acc = State_Monad.return acc"
| "model_features rr (f # feats) acc =
     (let title = trim_space (rf_title f) in
      if title = [] then model_features rr feats acc
      else if to_lower title \<in> set (ma_existing acc)
      then model_features rr feats (acc\<lparr>ma_skipped := ma_skipped acc + 1\<rparr>)
      else do {
        fid \<leftarrow> fresh_id (trim_space (rf_id f)) ''feat'';
        model_features rr feats (take_feature rr fid title f acc) })"

definition start_features :: "roadmap \<Rightarrow> model_acc" where
  "start_features rm = \<lparr>ma_existing = feature_keys rm, ma_roadmap = rm, ma_added = 0, ma_skipped = 0\<rparr>"

text \<open>The caveat kept on the roadmap: its check's error, or none.\<close>

definition with_validation :: "roadmap \<Rightarrow> roadmap" where
  "with_validation rm = (case validateRoadmapJSON rm of
       Some e \<Rightarrow> set_meta ''validation_error'' (JStr (err_text e)) rm
     | None \<Rightarrow> del_meta ''validation_error'' rm)"

definition model_features_message :: "runner_result \<Rightarrow> int \<Rightarrow> roadmap \<Rightarrow> string" where
  "model_features_message rr added rm = ''Roadmap features (model/'' @ nz (rr_model rr) ''model'' @ ''): added '' @
     itoa added @ '' feature(s) across '' @ itoa (int (length (rm_phases rm))) @ '' phase(s).'' @
     (case validateRoadmapJSON rm of Some e \<Rightarrow> '' Not publishable yet: '' @ err_text e | None \<Rightarrow> [])"

text \<open>On a roadmap that has phases.\<close>

definition add_model_features :: "job \<Rightarrow> runner_result \<Rightarrow> roadmap \<Rightarrow> outcome act" where
  "add_model_features j rr rm0 = do {
     acc \<leftarrow> model_features rr (rr_features rr) (start_features rm0);
     let rm1 = set_meta ''features_source'' (JStr (''model/'' @ nz (rr_model rr) ''model''))
                 (set_meta ''last_features_run'' (JStr (j_runId j)) (ma_roadmap acc));
     if ma_added acc = 0
     then ok (''Roadmap features (model/'' @ nz (rr_model rr) ''model'' @ ''): added 0 (duplicates/implemented='' @
            itoa (ma_skipped acc) @ '').'')
     else do {
       rp \<leftarrow> PutRoadmap (j_projectId j) (with_validation rm1);
       case rp of
         Inl e \<Rightarrow> bad ''Failed to write roadmap features'' e
       | Inr _ \<Rightarrow> do {
           _ \<leftarrow> AppendProjectLog (j_projectId j) ''run-roadmap-features''
                 (tag (j_runId j) @ ''features agent added '' @ itoa (ma_added acc) @ '' feature(s) (model/'' @
                  nz (rr_model rr) ''?'' @ ''; skipped='' @ itoa (ma_skipped acc) @ '')'' @ newline);
           ok (model_features_message rr (ma_added acc) (with_validation rm1)) } } }"

definition finish_model_features :: "job \<Rightarrow> runner_result \<Rightarrow> roadmap \<Rightarrow> outcome act" where
  "finish_model_features j rr rm =
     (if rm_phases rm = [] then bad [] (Errf ''phases missing after model features'') else add_model_features j rr rm)"

definition applyModelRoadmapFeatures :: "job \<Rightarrow> runner_result \<Rightarrow> outcome act" where
  "applyModelRoadmapFeatures j rr = do {
     r0 \<leftarrow> GetRoadmap (j_projectId j);
     let rm0 = result_or zero_roadmap r0;
     if rm_phases rm0 = [] \<and> (rr_phases rr \<noteq> [] \<or> \<not> blank (rr_vision rr) \<or> rr_discovery rr \<noteq> None)
     then do {
       (_, de) \<leftarrow> applyModelRoadmapDiscovery j rr;
       case de of
         Some e \<Rightarrow> bad ''Discovery bootstrap failed'' e
       | None \<Rightarrow> do {
           r1 \<leftarrow> GetRoadmap (j_projectId j);
           case r1 of Inl e \<Rightarrow> bad ''Roadmap missing'' e | Inr rm \<Rightarrow> finish_model_features j rr rm } }
     else finish_model_features j rr rm0 }"

section \<open>Competitors\<close>

definition applyModelRoadmapCompetitor :: "job \<Rightarrow> runner_result \<Rightarrow> outcome act" where
  "applyModelRoadmapCompetitor j rr = do {
     (rm, name) \<leftarrow> competitor_start (j_projectId j);
     let (a, fromModel) = parseCompetitorAnalysis (rr_competitor rr) name (j_competitors j);
     let source = (if fromModel then ''model'' else ''heuristic fallback'');
     rs \<leftarrow> storeCompetitorAnalysis (j_projectId j) rm a;
     case rs of
       Inl e \<Rightarrow> bad ''Failed to store competitor analysis'' e
     | Inr _ \<Rightarrow> do {
         let counts = itoa (int (length (ca_competitors a))) @ '' competitor(s), '' @
               itoa (int (length (ca_marketGaps a))) @ '' market gap(s)'';
         _ \<leftarrow> AppendProjectLog (j_projectId j) ''run-roadmap-competitor''
               (tag (j_runId j) @ ''competitor analysis ('' @ source @ ''): '' @ counts @ newline);
         ok (''Stored competitor analysis from '' @ source @ '': '' @ counts @ '', '' @
             itoa (int (length (ca_differentiators a))) @ '' differentiator(s)'') } }"

section \<open>Applying a result\<close>

text \<open>\<open>None\<close>: not handled, the caller runs the builtin executor.\<close>

definition handled :: "outcome act \<Rightarrow> outcome option act" where
  "handled m = do { r \<leftarrow> m; State_Monad.return (Some r) }"

definition review_gone :: string where
  "review_gone = ''Deep review is owned by ORA; local run-review/run-qa-fix are gone.''"

definition applyRunnerResult :: "externals \<Rightarrow> job \<Rightarrow> runner_result \<Rightarrow> path option \<Rightarrow> outcome option act" where
  "applyRunnerResult x j rr workDir =
     (if rr_mode rr \<noteq> ''model'' then State_Monad.return None
      else if j_action j = ''run-planning'' \<or> j_action j = ''run-followup-planning'' then handled (applyModelPlanning j rr)
      else if j_action j = ''run-implementation'' then handled (applyModelImplementation x j rr workDir)
      else if j_action j = ''run-review'' \<or> j_action j = ''run-qa-fix''
      then State_Monad.return (Some (review_gone, unsupportedReviewAction (j_action j)))
      else if j_action j = ''run-ideation''
      then if rr_ideas rr = [] then State_Monad.return None else handled (applyModelIdeation j rr)
      else if j_action j = ''run-roadmap-discovery''
      then if blank (rr_vision rr) \<and> rr_phases rr = [] \<and> rr_discovery rr = None then State_Monad.return None
           else handled (applyModelRoadmapDiscovery j rr)
      else if j_action j = ''run-roadmap-competitor''
      then if rr_competitor rr = None then State_Monad.return None else handled (applyModelRoadmapCompetitor j rr)
      else if j_action j = ''run-roadmap-features''
      then if rr_features rr = [] \<and> blank (rr_vision rr) \<and> rr_phases rr = [] then State_Monad.return None
           else do {
             (msg, e) \<leftarrow> applyModelRoadmapFeatures j rr;
             State_Monad.return (case e of
                 Some er \<Rightarrow> if contains ''phases missing'' (err_text er) then None else Some (msg, e)
               | None \<Rightarrow> Some (msg, e)) }
      else State_Monad.return None)"

end
