(* ===== verification/Pipeline.thy ===== *)
theory Pipeline
  imports Model_Roadmap
begin

text \<open>
  \<open>runPipeline\<close> of \<open>job_runner.go\<close>: one job that plans when there is no plan, approves a gated
  task, drains the pending subtasks one implementation step at a time, and parks the task in
  review.  The drain loop runs at most \<open>max_steps\<close> rounds, the bound the source computes, so the
  recursion on that number is the source's loop.
\<close>

type_synonym pipe_result = "string \<times> bool \<times> err option"

definition pipeline_progress ::
  "job \<Rightarrow> string \<Rightarrow> string \<Rightarrow> bool \<Rightarrow> plan \<Rightarrow> progress \<Rightarrow> time option \<times> time option \<Rightarrow> progress" where
  "pipeline_progress j action phase running pl prev stamps =
     (let (n, d) = countPlanSubtasks pl in
      zero_progress\<lparr> pr_isRunning := running, pr_paused := pr_paused prev, pr_stuckSubtaskId := pr_stuckSubtaskId prev,
        pr_action := action, pr_progress := pct d n, pr_subtaskCompleted := d, pr_subtaskTotal := n,
        pr_currentPhaseName := phase, pr_runId := j_runId j, pr_startedAt := fst stamps, pr_completedAt := snd stamps\<rparr>)"

definition pipeline_stamps :: "bool \<Rightarrow> progress \<Rightarrow> (time option \<times> time option) act" where
  "pipeline_stamps running prev =
     (if \<not> running then do { doneAt \<leftarrow> nowUTC; State_Monad.return (None, Some doneAt) }
      else if pr_startedAt prev \<noteq> None then State_Monad.return (pr_startedAt prev, None)
      else do { start \<leftarrow> nowUTC; State_Monad.return (Some start, None) })"

definition setPipelineProgress :: "job \<Rightarrow> string \<Rightarrow> string \<Rightarrow> bool \<Rightarrow> unit act" where
  "setPipelineProgress j action phase running = do {
     rp \<leftarrow> GetPlan (j_projectId j) (j_specId j);
     rg \<leftarrow> GetProgress (j_projectId j) (j_specId j);
     let prev = result_or zero_progress rg;
     stamps \<leftarrow> pipeline_stamps running prev;
     _ \<leftarrow> PutProgress (j_projectId j) (j_specId j)
           (pipeline_progress j action phase running (result_or zero_plan rp) prev stamps);
     State_Monad.return () }"

definition pipelineStepJob :: "job \<Rightarrow> string \<Rightarrow> job" where
  "pipelineStepJob parent action = parent\<lparr> j_action := action, j_agentKey := agentKeyForAction action,
     j_resolvedAgentKey := [], j_resolvedModel := [], j_resolvedModelSource := [], j_resolvedProvider := [],
     j_resolvedKeyScope := []\<rparr>"

definition pipelineCancelledOrPaused :: "job \<Rightarrow> string option act" where
  "pipelineCancelledOrPaused j = do {
     rj \<leftarrow> GetJob (j_projectId j) (j_runId j);
     if (case rj of Inr cur \<Rightarrow> j_state cur = ''cancelled'' | Inl _ \<Rightarrow> False) then State_Monad.return (Some ''job cancelled'')
     else do {
       rp \<leftarrow> GetProgress (j_projectId j) (j_specId j);
       State_Monad.return (case rp of Inr pr \<Rightarrow> if pr_paused pr then Some ''task paused'' else None | Inl _ \<Rightarrow> None) } }"

section \<open>The steps\<close>

definition with_spawned :: "bool \<Rightarrow> outcome act \<Rightarrow> pipe_result act" where
  "with_spawned boxed m = do { (msg, e) \<leftarrow> m; State_Monad.return (msg, boxed, e) }"

definition model_result :: "container_outcome \<Rightarrow> runner_result option" where
  "model_result out = (case co_result out of
       Some rr \<Rightarrow> if rr_mode rr = ''model'' then Some rr else None | None \<Rightarrow> None)"

definition pipelinePlanningStep :: "externals \<Rightarrow> job \<Rightarrow> path option \<Rightarrow> pipe_result act" where
  "pipelinePlanningStep x j workDir =
     (if \<not> (x_prefer x \<and> workDir \<noteq> None) then with_spawned False (builtinPlanning j)
      else do {
        (cout, se) \<leftarrow> runTaskContainer x j workDir;
        if se \<noteq> None then with_spawned False (builtinPlanning j)
        else case model_result cout of
          None \<Rightarrow> with_spawned True (builtinPlanning j)
        | Some rr \<Rightarrow> do {
            h \<leftarrow> applyRunnerResult x j rr workDir;
            case h of Some (msg, e) \<Rightarrow> State_Monad.return (msg, True, e)
            | None \<Rightarrow> with_spawned True (builtinPlanning j) } })"

definition pipelineImplementationStep :: "externals \<Rightarrow> job \<Rightarrow> path option \<Rightarrow> pipe_result act" where
  "pipelineImplementationStep x j workDir =
     (if \<not> (x_prefer x \<and> workDir \<noteq> None) then with_spawned False (builtinImplementationOpts j True)
      else do {
        (cout, se) \<leftarrow> runTaskContainer x j workDir;
        if se \<noteq> None then with_spawned False (builtinImplementationOpts j True)
        else case model_result cout of
          None \<Rightarrow> with_spawned True (builtinImplementationOpts j True)
        | Some rr \<Rightarrow> with_spawned True (applyModelImplementationOpts x j rr workDir True) })"

section \<open>The parts of the pipeline\<close>

definition stop_message :: "string \<Rightarrow> string list \<Rightarrow> string" where
  "stop_message m steps = ''Pipeline stopped: '' @ m @ '' Steps: '' @ join '' | '' steps"

text \<open>\<open>Inl\<close> is a return of the function, \<open>Inr\<close> what the rest goes on with: the steps, whether a
  container boxed, the session directory.\<close>

definition pipeline_plan ::
  "externals \<Rightarrow> job \<Rightarrow> path option \<Rightarrow> path option \<Rightarrow> (pipe_result + string list \<times> bool \<times> path option) act" where
  "pipeline_plan x j workDir session = do {
     rp \<leftarrow> GetPlan (j_projectId j) (j_specId j);
     if pl_phases (result_or zero_plan rp) \<noteq> [] then State_Monad.return (Inr ([], False, session))
     else do {
       _ \<leftarrow> setPipelineProgress j ''run-planning'' ''Planning'' True;
       (msg, boxed, e) \<leftarrow> pipelinePlanningStep x (pipelineStepJob j ''run-planning'') workDir;
       case e of
         Some er \<Rightarrow> State_Monad.return (Inl (''Pipeline failed during planning: '' @ msg, boxed, Some er))
       | None \<Rightarrow> do {
           b \<leftarrow> pipelineCancelledOrPaused j;
           case b of
             Some m \<Rightarrow> State_Monad.return (Inl (stop_message m [msg], boxed, Some (Errf m)))
           | None \<Rightarrow> do {
               rg \<leftarrow> GetProject (j_projectId j);
               case rg of
                 Inl _ \<Rightarrow> State_Monad.return (Inr ([msg], boxed, session))
               | Inr p \<Rightarrow> do {
                   rw \<leftarrow> ensureTaskWorkspace x p (j_specId j) (j_actorUsername j);
                   State_Monad.return (Inr ([msg], boxed, case rw of Inr wd \<Rightarrow> Some wd | Inl _ \<Rightarrow> session)) } } } } }"

definition pipeline_approve :: "job \<Rightarrow> (string \<times> err + string list) act" where
  "pipeline_approve j = do {
     rt \<leftarrow> GetTask (j_projectId j) (j_specId j);
     case rt of
       Inl e \<Rightarrow> State_Monad.return (Inl (''Task not found'', e))
     | Inr t \<Rightarrow> do {
         approved \<leftarrow> (if t_requireReview t then taskApprovedForCoding (j_projectId j) (j_specId j)
                      else State_Monad.return True);
         if t_requireReview t \<and> \<not> approved \<and> t_status t = ''human_review'' then do {
           ra \<leftarrow> ApproveForCoding (j_projectId j) (j_specId j);
           State_Monad.return (case ra of
               Inl e \<Rightarrow> Inl (''Pipeline failed auto-approving for coding: '' @ err_text e, e)
             | Inr _ \<Rightarrow> Inr [''Auto-approved for coding (pipeline)'']) }
         else State_Monad.return (Inr []) } }"

definition max_steps :: "plan \<Rightarrow> nat" where
  "max_steps pl = nat (let n = countPendingSubtasks pl + 8; n = (if n < 16 then 16 else n) in if n > 500 then 500 else n)"

fun drain ::
  "externals \<Rightarrow> job \<Rightarrow> path option \<Rightarrow> nat \<Rightarrow> string list \<Rightarrow> bool \<Rightarrow> (pipe_result + string list \<times> bool) act" where
  "drain x j session 0 steps used = State_Monad.return (Inr (steps, used))"
| "drain x j session (Suc n) steps used = do {
     b \<leftarrow> pipelineCancelledOrPaused j;
     case b of
       Some m \<Rightarrow> State_Monad.return (Inl (stop_message m steps, used, Some (Errf m)))
     | None \<Rightarrow> do {
         rp \<leftarrow> GetPlan (j_projectId j) (j_specId j);
         if firstPendingSubtaskID (result_or zero_plan rp) = [] then State_Monad.return (Inr (steps, used))
         else do {
           _ \<leftarrow> setPipelineProgress j ''run-implementation'' ''Implement'' True;
           (msg, boxed, e) \<leftarrow> pipelineImplementationStep x (pipelineStepJob j ''run-implementation'') session;
           case e of
             Some er \<Rightarrow> State_Monad.return
               (Inl (''Pipeline failed during implementation: '' @ msg, used \<or> boxed, Some er))
           | None \<Rightarrow> drain x j session n (steps @ [msg]) (used \<or> boxed) } } }"

section \<open>The end\<close>

definition arrow_join :: "string list \<Rightarrow> string" where
  "arrow_join steps = join ('' '' @ arrow @ '' '') steps"

definition incomplete_text :: "int \<Rightarrow> int \<Rightarrow> string" where
  "incomplete_text d n = ''coding incomplete ('' @ itoa d @ ''/'' @ itoa n @ '')''"

definition pipeline_park :: "job \<Rightarrow> string list \<Rightarrow> bool \<Rightarrow> pipe_result act" where
  "pipeline_park j steps used = do {
     _ \<leftarrow> setPipelineProgress j ''run-pipeline'' ''Review (human)'' False;
     rm \<leftarrow> MoveTask (j_projectId j) (j_specId j) ''review'';
     case rm of
       Inl e \<Rightarrow> State_Monad.return (''Pipeline coding done but move to review failed: '' @ err_text e, used, Some e)
     | Inr _ \<Rightarrow> do {
         _ \<leftarrow> AppendSpecLog (j_projectId j) (j_specId j) ''implementation''
               (tag (j_runId j) @ ''run-pipeline finished '' @ arrow @ '' review (human gate)'' @ newline);
         _ \<leftarrow> setPipelineProgress j ''run-pipeline'' ''Complete'' False;
         State_Monad.return (''Pipeline complete: '' @ arrow_join (steps @ [''parked in review for human approve/deliver'']),
           used, None) } }"

definition pipeline_counts :: "job \<Rightarrow> string list \<Rightarrow> bool \<Rightarrow> pipe_result act" where
  "pipeline_counts j steps used = do {
     rp \<leftarrow> GetPlan (j_projectId j) (j_specId j);
     let (n, d) = countPlanSubtasks (result_or zero_plan rp);
     if n = 0 \<or> d < n then do {
       let msg = incomplete_text d n;
       _ \<leftarrow> setPipelineProgress j ''run-pipeline'' ''Incomplete'' False;
       _ \<leftarrow> AppendSpecLog (j_projectId j) (j_specId j) ''implementation''
             (tag (j_runId j) @ ''run-pipeline incomplete: '' @ msg @ newline);
       State_Monad.return (''Pipeline stopped: '' @ arrow_join (steps @ [msg]), used, Some (Errf msg)) }
     else pipeline_park j steps used }"

definition pipeline_finish :: "job \<Rightarrow> string list \<Rightarrow> bool \<Rightarrow> pipe_result act" where
  "pipeline_finish j steps used = do {
     rp \<leftarrow> GetPlan (j_projectId j) (j_specId j);
     let pending = firstPendingSubtaskID (result_or zero_plan rp);
     if pending \<noteq> [] then do {
       let msg = ''Pipeline stopped: remaining pending subtask '' @ pending @ '' after drain'';
       _ \<leftarrow> setPipelineProgress j ''run-pipeline'' ''Incomplete'' False;
       State_Monad.return (arrow_join (steps @ [msg]), used, Some (Errf ''incomplete drain'')) }
     else do {
       b \<leftarrow> pipelineCancelledOrPaused j;
       case b of
         Some m \<Rightarrow> State_Monad.return (stop_message m steps, used, Some (Errf m))
       | None \<Rightarrow> pipeline_counts j steps used } }"

definition pipeline_drain :: "externals \<Rightarrow> job \<Rightarrow> path option \<Rightarrow> string list \<Rightarrow> bool \<Rightarrow> pipe_result act" where
  "pipeline_drain x j session steps0 used0 = do {
     rp \<leftarrow> GetPlan (j_projectId j) (j_specId j);
     r \<leftarrow> drain x j session (max_steps (result_or zero_plan rp)) steps0 used0;
     case r of
       Inl res \<Rightarrow> State_Monad.return res
     | Inr (steps, used) \<Rightarrow> pipeline_finish j steps used }"

definition pipeline_body :: "externals \<Rightarrow> job \<Rightarrow> path option \<Rightarrow> path option \<Rightarrow> pipe_result act" where
  "pipeline_body x j workDir session0 = do {
     r1 \<leftarrow> pipeline_plan x j workDir session0;
     case r1 of
       Inl res \<Rightarrow> State_Monad.return res
     | Inr (steps1, used, session) \<Rightarrow> do {
         r2 \<leftarrow> pipeline_approve j;
         case r2 of
           Inl (msg, e) \<Rightarrow> State_Monad.return (msg, used, Some e)
         | Inr steps2 \<Rightarrow> pipeline_drain x j session (steps1 @ steps2) used } }"

text \<open>The deferred function: a progress still marked running is stopped.\<close>

definition pipeline_close :: "job \<Rightarrow> unit act" where
  "pipeline_close j = do {
     rg \<leftarrow> GetProgress (j_projectId j) (j_specId j);
     case rg of
       Inl _ \<Rightarrow> State_Monad.return ()
     | Inr prog \<Rightarrow>
         if \<not> pr_isRunning prog then State_Monad.return ()
         else do {
           doneAt \<leftarrow> nowUTC;
           _ \<leftarrow> PutProgress (j_projectId j) (j_specId j) (prog\<lparr>pr_isRunning := False, pr_completedAt := Some doneAt\<rparr>);
           State_Monad.return () } }"

definition runPipeline :: "externals \<Rightarrow> job \<Rightarrow> path option \<Rightarrow> path option \<Rightarrow> pipe_result act" where
  "runPipeline x j workDir taskSessionDir =
     (if j_specId j = [] then State_Monad.return (''run-pipeline requires specId'', False, Some (Errf ''specId required''))
      else do {
        let sessionDir = (if taskSessionDir = None then workDir else taskSessionDir);
        _ \<leftarrow> setPipelineProgress j ''run-pipeline'' ''Pipeline'' True;
        r \<leftarrow> pipeline_body x j workDir sessionDir;
        _ \<leftarrow> pipeline_close j;
        State_Monad.return r })"

end
