(* ===== verification/Autopilot.thy ===== *)
theory Autopilot
  imports Job_Runner Workspace
begin

text \<open>
  What starts the next job: the chaining of \<open>autopilot.go\<close> and \<open>impl_session.go\<close>, and the
  board triggers of \<open>board_triggers.go\<close>.  \<open>go executeJob(store, j)\<close> is \<open>go_job\<close>, which
  records the started job.
\<close>

section \<open>Autopilot\<close>

definition humanReviewRequired :: "task \<Rightarrow> bool" where
  "humanReviewRequired t = (case t_humanReview t of None \<Rightarrow> True | Some b \<Rightarrow> b)"

definition taskAutopilot :: "task \<Rightarrow> bool" where
  "taskAutopilot t \<longleftrightarrow> \<not> humanReviewRequired t"

definition implAutoChainEnabled :: "world \<Rightarrow> bool" where
  "implAutoChainEnabled w \<longleftrightarrow>
     to_lower (trim_space (envOr w ''OPM_IMPL_AUTO_CHAIN'' ''1'')) \<notin> {''0'', ''false'', ''no'', ''off''}"

definition chainJobAsync :: "externals \<Rightarrow> job \<Rightarrow> string \<Rightarrow> job actE" where
  "chainJobAsync x j action =
     bindE (CreateJobWithOrigin (j_projectId j) action (j_specId j) (nz (j_runnerImage j) (x_image x)) (jobOriginFrom j))
       (\<lambda>next. do { _ \<leftarrow> go_job next; okE next })"

definition enqueuePipelineJob :: "externals \<Rightarrow> string \<Rightarrow> string \<Rightarrow> job_origin \<Rightarrow> unit actE" where
  "enqueuePipelineJob x pid sid og =
     bindE (CreateJobWithOrigin pid ''run-pipeline'' sid (x_image x) og) (\<lambda>j0. do {
       let j = (if x_prefer x
                then j0\<lparr>j_execution := ''container'', j_message := ''Queued by task create: run-pipeline.''\<rparr>
                else j0\<lparr>j_execution := ''builtin'', j_message := ''Queued by task create (builtin): run-pipeline.''\<rparr>);
       _ \<leftarrow> UpdateJob pid j;
       _ \<leftarrow> go_job j;
       okE () })"

definition postPlanningJob :: "externals \<Rightarrow> job \<Rightarrow> string actE" where
  "postPlanningJob x j =
     (if j_specId j = [] then okE []
      else bindE (GetTask (j_projectId j) (j_specId j)) (\<lambda>t. do {
        blocked \<leftarrow> taskPausedBlock j;
        if blocked \<noteq> None then okE (''Planning complete '' @ em_dash @ '' task paused; automation stopped.'')
        else if t_requireReview t \<and> t_status t = ''human_review'' \<and> \<not> taskAutopilot t
        then okE (''Planning complete '' @ em_dash @ '' approve for coding required before implementation.'')
        else bindE (if t_requireReview t \<and> t_status t = ''human_review''
                    then bindE (ApproveForCoding (j_projectId j) (j_specId j)) (\<lambda>_. do {
                      _ \<leftarrow> AppendSpecLog (j_projectId j) (j_specId j) ''planning''
                            (tag (j_runId j) @ ''auto-approved for coding after planning'' @ newline);
                      okE () })
                    else okE ()) (\<lambda>_. do {
          chain \<leftarrow> asks implAutoChainEnabled;
          if \<not> chain then okE (''Planning complete '' @ em_dash @ '' enqueue run-implementation to continue.'')
          else bindE (chainJobAsync x j ''run-implementation'') (\<lambda>next.
            okE (''Planning complete '' @ em_dash @ '' chained run-implementation (job '' @ j_runId next @ '').'')) }) }))"

definition parkTaskForHumanReview :: "job \<Rightarrow> string actE" where
  "parkTaskForHumanReview j =
     (if j_specId j = [] then okE []
      else do {
        blocked \<leftarrow> taskPausedBlock j;
        if blocked \<noteq> None then okE (''Coding complete '' @ em_dash @ '' task paused; shared workspace retained.'')
        else bindE (MoveTask (j_projectId j) (j_specId j) ''review'') (\<lambda>_. do {
          _ \<leftarrow> AppendSpecLog (j_projectId j) (j_specId j) ''implementation''
                (tag (j_runId j) @ ''coding complete '' @ arrow @ '' review (human approve/deliver)'' @ newline);
          okE (''All coding subtasks complete '' @ em_dash @ '' parked in review for human approve/deliver.'') }) })"

definition postImplementationJob :: "externals \<Rightarrow> job \<Rightarrow> string actE" where
  "postImplementationJob x j =
     (if j_specId j = [] then okE []
      else bindE (GetPlan (j_projectId j) (j_specId j)) (\<lambda>pl. do {
        blocked \<leftarrow> taskPausedBlock j;
        if blocked \<noteq> None then okE (''Implementation session paused '' @ em_dash @ '' shared workspace retained.'')
        else if hasPendingCodingSubtasks pl then do {
          chain \<leftarrow> asks implAutoChainEnabled;
          if \<not> chain then okE (''More coding subtasks remain '' @ em_dash @ '' enqueue run-implementation to continue.'')
          else bindE (chainJobAsync x j ''run-implementation'') (\<lambda>next.
            okE (''Chained next coding subtask (job '' @ j_runId next @ '').'')) }
        else if \<not> allCodingSubtasksComplete pl then okE []
        else parkTaskForHumanReview j }))"

section \<open>Board triggers\<close>

definition columnJobAction :: "string \<Rightarrow> string option" where
  "columnJobAction col = map_of [(''queue'', ''run-planning''), (''in_progress'', ''run-implementation'')] col"

definition jobIsActive :: "string \<Rightarrow> bool" where
  "jobIsActive st \<longleftrightarrow> to_lower (trim_space st) \<in> {''queued'', ''starting'', ''running''}"

record trigger_outcome =
  to_started :: bool
  to_action :: string
  to_runId :: string
  to_reason :: string

definition not_started :: "string \<Rightarrow> trigger_outcome" where
  "not_started why = \<lparr>to_started = False, to_action = [], to_runId = [], to_reason = why\<rparr>"

definition active_for :: "string \<Rightarrow> job \<Rightarrow> bool" where
  "active_for sid j \<longleftrightarrow> j_specId j = sid \<and> jobIsActive (j_state j)"

text \<open>\<open>Some reason\<close> when blocked.\<close>

definition boardTriggerBlocked :: "project \<Rightarrow> task \<Rightarrow> string \<Rightarrow> (string option) act" where
  "boardTriggerBlocked p t action = do {
     rg \<leftarrow> GetProgress (p_id p) (t_specId t);
     if (case rg of Inl _ \<Rightarrow> False | Inr prog \<Rightarrow> pr_paused prog)
     then State_Monad.return (Some (''task is paused '' @ em_dash @ '' resume it before automation continues''))
     else do {
       rj \<leftarrow> ListJobs (p_id p);
       State_Monad.return (case rj of
           Inl e \<Rightarrow> Some (''could not check for running jobs: '' @ err_text e)
         | Inr jobs \<Rightarrow> (case List.find (active_for (t_specId t)) jobs of
               None \<Rightarrow> None
             | Some j \<Rightarrow> Some (''job '' @ j_runId j @ '' ('' @ j_action j @ '') is already '' @ j_state j @ '' for this task''))) } }"

text \<open>The start itself, after the checks.\<close>

definition fireTrigger :: "externals \<Rightarrow> project \<Rightarrow> task \<Rightarrow> string \<Rightarrow> string \<Rightarrow> job_origin \<Rightarrow> trigger_outcome act" where
  "fireTrigger x p t column action actor = do {
     rj \<leftarrow> CreateJobWithOrigin (p_id p) action (t_specId t) (x_image x) actor;
     case rj of
       Inl e \<Rightarrow> State_Monad.return (not_started (''could not create job: '' @ err_text e))
     | Inr j0 \<Rightarrow> do {
         let j = j0\<lparr>j_execution := ''container'', j_message := ''Queued by board move to '' @ column @ ''.''\<rparr>;
         _ \<leftarrow> UpdateJob (p_id p) j;
         _ \<leftarrow> go_job j;
         State_Monad.return \<lparr>to_started = True, to_action = action, to_runId = j_runId j,
           to_reason = ''board move to '' @ column @ '' started '' @ action\<rparr> } }"

definition maybeStartJobForColumn :: "externals \<Rightarrow> project \<Rightarrow> task \<Rightarrow> job_origin \<Rightarrow> trigger_outcome act" where
  "maybeStartJobForColumn x p t actor =
     (let column = trim_space (t_status t) in
      case columnJobAction column of
        None \<Rightarrow> State_Monad.return (not_started (''column '' @ quote column @ '' starts no job''))
      | Some action \<Rightarrow>
          if \<not> autoStartOnMove p then State_Monad.return (not_started ''autoStartOnMove is off for this project'')
          else if blank (t_specId t) then State_Monad.return (not_started ''task has no spec'')
          else do {
            blocked \<leftarrow> boardTriggerBlocked p t action;
            case blocked of
              Some reason \<Rightarrow> State_Monad.return (not_started reason)
            | None \<Rightarrow> fireTrigger x p t column action actor })"

end
