(* ===== verification/Job_Exec.thy ===== *)
theory Job_Exec
  imports Pipeline Autopilot
begin

text \<open>
  The life of a job: \<open>executeJob\<close> of \<open>job_runner.go\<close>, in the four parts between which it writes
  the job's record, and the two handlers of \<open>handlers.go\<close> that queue a job and cancel one.  The
  goroutine's fifty millisecond pause is not modelled.
\<close>

definition fail_job :: "job \<Rightarrow> string \<Rightarrow> string \<Rightarrow> err \<Rightarrow> unit act" where
  "fail_job j execution msg e = do {
     now \<leftarrow> nowUTC;
     _ \<leftarrow> UpdateJob (j_projectId j) (j\<lparr> j_state := ''failed'', j_execution := execution, j_error := err_text e,
           j_message := msg, j_completedAt := Some now\<rparr>);
     State_Monad.return () }"

section \<open>Preparing\<close>

definition cloneHonestyOperatorNote :: "project \<Rightarrow> path option \<Rightarrow> string act" where
  "cloneHonestyOperatorNote p workDir = do {
     repo \<leftarrow> repoMountSource workDir;
     State_Monad.return
       (if repo \<noteq> None then []
        else if blank (p_ownerRepo p) then ''No repository clone was mounted for this run.''
        else if \<not> blank (p_connectorId p)
        then ''No git clone mounted for '' @ trim_space (p_ownerRepo p) @
          '' (connector present but clone unavailable); model/builtin output may not cite real paths.''
        else ''No git clone mounted for '' @ trim_space (p_ownerRepo p) @ ''; model/builtin output may not cite real paths.'') }"

definition notes_clone :: "string \<Rightarrow> bool" where
  "notes_clone action \<longleftrightarrow> action \<in> {''run-ideation'', ''run-roadmap-discovery'', ''run-roadmap-features'', ''run-roadmap-competitor''}"

definition job_autopilot :: "job \<Rightarrow> bool act" where
  "job_autopilot j =
     (if j_specId j = [] then State_Monad.return False
      else do { rt \<leftarrow> GetTask (j_projectId j) (j_specId j);
                State_Monad.return (case rt of Inr t \<Rightarrow> taskAutopilot t | Inl _ \<Rightarrow> False) })"

definition starting_job :: "job \<Rightarrow> time \<Rightarrow> job" where
  "starting_job j now = j\<lparr> j_state := ''starting'', j_execution := ''builtin'',
     j_message := ''Starting job: preparing workspace.'', j_startedAt := Some now\<rparr>"

text \<open>The working directory, or the message and error the job fails with.\<close>

definition job_workspace :: "externals \<Rightarrow> project \<Rightarrow> job \<Rightarrow> bool \<Rightarrow> (string \<times> err + path) act" where
  "job_workspace x p j session =
     (if session \<and> j_specId j = []
      then State_Monad.return (Inl (j_action j @ '' requires specId'', Errf ''specId required''))
      else do {
        r \<leftarrow> (if session then ensureTaskWorkspace x p (j_specId j) (j_actorUsername j)
              else prepareJobWorkspace x p (j_runId j) (j_actorUsername j));
        State_Monad.return (case r of Inl e \<Rightarrow> Inl (''Job failed while preparing workspace.'', e) | Inr d \<Rightarrow> Inr d) })"

definition note_workspace :: "project \<Rightarrow> job \<Rightarrow> bool \<Rightarrow> path \<Rightarrow> unit act" where
  "note_workspace p j session workDir = do {
     note \<leftarrow> taskWorkspaceHonestyNote p (j_specId j) (Some workDir);
     _ \<leftarrow> (if note \<noteq> [] \<and> session
           then AppendSpecLog (j_projectId j) (j_specId j) ''implementation'' (tag (j_runId j) @ note @ newline)
           else okE ());
     State_Monad.return () }"

text \<open>\<open>None\<close> when the function has returned; else the job as stored, its session flag, the
  working directory and the note about the clone.\<close>

definition exec_prepare :: "externals \<Rightarrow> job \<Rightarrow> (job \<times> bool \<times> path \<times> string) option act" where
  "exec_prepare x j0 = do {
     rp \<leftarrow> GetProject (j_projectId j0);
     case rp of
       Inl e \<Rightarrow> do { _ \<leftarrow> fail_job j0 ''builtin'' ''Job failed: project not found.'' e; State_Monad.return None }
     | Inr p \<Rightarrow> do {
         now \<leftarrow> nowUTC;
         let j = starting_job j0 now;
         _ \<leftarrow> UpdateJob (j_projectId j) j;
         autopilot \<leftarrow> job_autopilot j;
         let session = usesTaskWorkspace (j_action j) autopilot;
         rw \<leftarrow> job_workspace x p j session;
         case rw of
           Inl (msg, e) \<Rightarrow> do { _ \<leftarrow> fail_job j ''builtin'' msg e; State_Monad.return None }
         | Inr workDir \<Rightarrow> do {
             _ \<leftarrow> note_workspace p j session workDir;
             cloneNote \<leftarrow> (if notes_clone (j_action j) then cloneHonestyOperatorNote p (Some workDir) else State_Monad.return []);
             rj \<leftarrow> GetJob (j_projectId j) (j_runId j);
             case rj of
               Inl _ \<Rightarrow> State_Monad.return None
             | Inr cur \<Rightarrow>
                 if j_state cur = ''cancelled'' then State_Monad.return None
                 else State_Monad.return (Some (cur, session, workDir, cloneNote)) } } }"

section \<open>Spawning\<close>

definition log_clone_note :: "job \<Rightarrow> string \<Rightarrow> unit act" where
  "log_clone_note j cloneNote = do {
     _ \<leftarrow> (if cloneNote \<noteq> [] then AppendProjectLog (j_projectId j) (j_action j)
             (tag (j_runId j) @ ''clone honesty: '' @ cloneNote @ newline) else okE ());
     State_Monad.return () }"

definition running_job :: "job \<Rightarrow> string \<Rightarrow> string \<Rightarrow> job" where
  "running_job j execution msg = j\<lparr>j_state := ''running'', j_execution := execution, j_message := msg\<rparr>"

definition spawn_note :: "container_outcome \<Rightarrow> string" where
  "spawn_note cout = ''Container spawn OK'' @ (case co_result cout of
       Some rr \<Rightarrow> '' (runner mode='' @ rr_mode rr @
         (if rr_reason rr \<noteq> [] then ''; '' @ truncateRunes (rr_reason rr) 80 else []) @ '')''
     | None \<Rightarrow> (let tip = trim_space (co_stdout cout) in
         if tip = [] then [] else '' ('' @ truncateRunes (replace_all newline '' '' tip) 120 @ '')'')) @ ''. ''"

text \<open>The job, the execution mode, the note, the runner's result.  The container ends before the
  job's record is written again from the copy taken before it.\<close>

definition spawn_container :: "externals \<Rightarrow> job \<Rightarrow> path \<Rightarrow> string \<Rightarrow> (job \<times> string \<times> string \<times> runner_result option) act" where
  "spawn_container x j0 workDir note0 = do {
     let j = (running_job j0 ''container'' (''Spawning runner container ('' @ nz (j_runnerImage j0) (x_image x) @ '') for '' @
            j_action j0 @ ellipsis))\<lparr>j_progressPct := Some 10\<rparr>;
     _ \<leftarrow> UpdateJob (j_projectId j) j;
     (cout, se) \<leftarrow> runTaskContainer x j (Some workDir);
     State_Monad.return (case se of
         Some e \<Rightarrow> (let note = ''Container spawn failed ('' @ err_text e @ ''); falling back to builtin. '' in
           (j\<lparr>j_execution := ''builtin'', j_message := note @ ''Running builtin action '' @ j_action j @ ellipsis\<rparr>,
            ''builtin'', note, None))
       | None \<Rightarrow> (let note = spawn_note cout in
           (j\<lparr>j_execution := ''container'', j_message := note @ ''Writing artifacts for '' @ j_action j @ ellipsis\<rparr>,
            ''container'', note, co_result cout))) }"

definition pipeline_note :: string where
  "pipeline_note = ''Running task pipeline: plan '' @ arrow @ '' implement all subtasks '' @ arrow @ '' park in review'' @ ellipsis"

definition exec_spawn ::
  "externals \<Rightarrow> job \<Rightarrow> path \<Rightarrow> string \<Rightarrow> (job \<times> string \<times> string \<times> runner_result option) act" where
  "exec_spawn x j workDir cloneNote = do {
     _ \<leftarrow> log_clone_note j cloneNote;
     let note0 = (if cloneNote \<noteq> [] then cloneNote @ '' '' else []);
     (j1, execution, note, rr) \<leftarrow>
       (if j_action j = ''run-pipeline''
        then State_Monad.return (running_job j ''builtin'' pipeline_note, ''builtin'', note0, None)
        else if x_prefer x then spawn_container x j workDir note0
        else State_Monad.return (running_job j ''builtin'' (''Running builtin action '' @ j_action j @ ellipsis),
               ''builtin'', note0, None));
     let j2 = j1\<lparr>j_progressPct := Some 20\<rparr>;
     _ \<leftarrow> UpdateJob (j_projectId j2) j2;
     State_Monad.return (j2, execution, note, rr) }"

section \<open>Acting\<close>

text \<open>The executor of an action; the flag is set by the pipeline only.\<close>

definition plainly :: "outcome act \<Rightarrow> (string \<times> err option \<times> bool option) act" where
  "plainly m = do { (msg, e) \<leftarrow> m; State_Monad.return (msg, e, None) }"

definition run_builtin ::
  "externals \<Rightarrow> job \<Rightarrow> path \<Rightarrow> path option \<Rightarrow> (string \<times> err option \<times> bool option) act" where
  "run_builtin x j workDir session =
     (let a = j_action j in
      if a = ''run-planning'' \<or> a = ''run-followup-planning'' then plainly (builtinPlanning j)
      else if a = ''run-implementation'' then plainly (builtinImplementation j)
      else if a = ''run-review'' \<or> a = ''run-qa-fix'' then State_Monad.return (review_gone, unsupportedReviewAction a, None)
      else if a = ''run-pipeline'' then do {
        (msg, used, e) \<leftarrow> runPipeline x j (Some workDir) session;
        State_Monad.return (msg, e, Some used) }
      else if a = ''recover-subtask'' then plainly (builtinRecover j)
      else if a = ''mark-stuck'' then plainly (builtinMarkStuck j)
      else if a = ''pause-task'' then plainly (builtinPause j)
      else if a = ''resume-task'' then plainly (builtinResume j)
      else if a = ''generate-changelog'' then plainly (builtinChangelog j)
      else if a = ''run-roadmap-discovery'' then plainly (builtinRoadmapDiscovery j)
      else if a = ''run-roadmap-features'' then plainly (builtinRoadmapFeatures j)
      else if a = ''run-roadmap-competitor'' then plainly (builtinRoadmapCompetitor j)
      else if a = ''run-roadmap-publish'' then plainly (builtinRoadmapPublish x j)
      else if a = ''run-ideation'' then plainly (builtinIdeation j)
      else if a = ''skip-to-phase'' then plainly (builtinSkipToPhase j)
      else State_Monad.return (''Unknown action; no artifacts written.'', Some (Errf (''unsupported action '' @ quote a)), None))"

definition fallback_note :: "job \<Rightarrow> runner_result \<Rightarrow> unit act" where
  "fallback_note j rr =
     (if j_specId j = [] then State_Monad.return ()
      else do {
        _ \<leftarrow> AppendSpecLog (j_projectId j) (j_specId j)
              (if j_action j = ''run-implementation'' then ''implementation'' else ''planning'')
              (tag (j_runId j) @ ''runner fallback: '' @ rr_reason rr @ newline);
        State_Monad.return () })"

text \<open>What the runner's result came to, and the note after it.\<close>

definition try_model ::
  "externals \<Rightarrow> job \<Rightarrow> runner_result option \<Rightarrow> path option \<Rightarrow> string \<Rightarrow> (outcome option \<times> string) act" where
  "try_model x j res session note = (case res of
       None \<Rightarrow> State_Monad.return (None, note)
     | Some rr \<Rightarrow> do {
         h \<leftarrow> applyRunnerResult x j rr session;
         if h \<noteq> None then State_Monad.return (h, note)
         else if rr_mode rr = ''fallback'' \<and> rr_reason rr \<noteq> [] then do {
           _ \<leftarrow> fallback_note j rr;
           State_Monad.return (None, note @ ''Model fallback: '' @ truncateRunes (rr_reason rr) 160 @ ''. '') }
         else State_Monad.return (None, note) })"

definition exec_act ::
  "externals \<Rightarrow> job \<Rightarrow> bool \<Rightarrow> path \<Rightarrow> string \<times> string \<times> runner_result option \<Rightarrow>
     (string \<times> err option \<times> string \<times> string) option act" where
  "exec_act x j session workDir spawn = do {
     let (execution, note, res) = spawn;
     let sdir = (if session then Some workDir else None);
     blocked \<leftarrow> taskPausedBlock j;
     case blocked of
       Some msg \<Rightarrow> do { _ \<leftarrow> fail_job j execution msg (Errf ''paused''); State_Monad.return None }
     | None \<Rightarrow> do {
         (h, note1) \<leftarrow> try_model x j res sdir note;
         case h of
           Some (msg, e) \<Rightarrow> State_Monad.return (Some (msg, e, execution, note1))
         | None \<Rightarrow> do {
             (msg, e, used) \<leftarrow> run_builtin x j workDir sdir;
             State_Monad.return (Some (msg, e,
               case used of None \<Rightarrow> execution | Some u \<Rightarrow> if u then ''container'' else ''builtin'', note1)) } } }"

section \<open>Finishing\<close>

definition post_text :: "string \<Rightarrow> err + string \<Rightarrow> string" where
  "post_text what r = (case r of
       Inl e \<Rightarrow> '' Post-'' @ what @ '': '' @ err_text e @ ''.''
     | Inr extra \<Rightarrow> if extra \<noteq> [] then '' '' @ extra else [])"

definition post_job :: "externals \<Rightarrow> job \<Rightarrow> string \<Rightarrow> string act" where
  "post_job x j origAction =
     (if j_specId j = [] then State_Monad.return []
      else if origAction = ''run-implementation''
      then do { r \<leftarrow> postImplementationJob x j; State_Monad.return (post_text ''implementation'' r) }
      else if origAction = ''run-planning'' \<or> origAction = ''run-followup-planning''
      then do { r \<leftarrow> postPlanningJob x j; State_Monad.return (post_text ''planning'' r) }
      else State_Monad.return [])"

definition own_status :: "string \<Rightarrow> bool" where
  "own_status action \<longleftrightarrow>
     action \<in> {''mark-stuck'', ''pause-task'', ''resume-task'', ''recover-subtask'', ''skip-to-phase''}"

definition put_done_status :: "job \<Rightarrow> string \<Rightarrow> time \<Rightarrow> unit act" where
  "put_done_status j origAction doneAt =
     (if own_status origAction then State_Monad.return ()
      else do {
        now0 \<leftarrow> nowUTC;
        _ \<leftarrow> PutStatus (j_projectId j) ((idleStatus now0)\<lparr>ps_lastUpdate := rfc3339 doneAt, ps_runId := j_runId j\<rparr>);
        State_Monad.return () })"

definition failed_job :: "job \<Rightarrow> string \<Rightarrow> string \<Rightarrow> err \<Rightarrow> time \<Rightarrow> job" where
  "failed_job j execution msg e doneAt = j\<lparr> j_state := ''failed'', j_error := err_text e, j_message := msg,
     j_execution := execution, j_completedAt := Some doneAt\<rparr>"

definition completed_job :: "job \<Rightarrow> string \<Rightarrow> string \<Rightarrow> string \<Rightarrow> time \<Rightarrow> job" where
  "completed_job j execution origAction msg doneAt = j\<lparr> j_state := ''completed'', j_execution := execution,
     j_action := origAction, j_message := msg, j_completedAt := Some doneAt, j_progressPct := Some 100\<rparr>"

definition exec_finish :: "externals \<Rightarrow> job \<Rightarrow> string \<Rightarrow> string \<times> err option \<times> string \<times> string \<Rightarrow> unit act" where
  "exec_finish x j0 origAction result = do {
     let (msg0, e, execution, note) = result;
     rj \<leftarrow> GetJob (j_projectId j0) (j_runId j0);
     case rj of
       Inl _ \<Rightarrow> State_Monad.return ()
     | Inr j \<Rightarrow>
         if j_state j = ''cancelled'' then State_Monad.return ()
         else do {
           doneAt \<leftarrow> nowUTC;
           let msg = (if note \<noteq> [] \<and> \<not> has_prefix ''Container'' msg0 then note @ msg0 else msg0);
           case e of
             Some er \<Rightarrow> do { _ \<leftarrow> UpdateJob (j_projectId j) (failed_job j execution msg er doneAt); State_Monad.return () }
           | None \<Rightarrow> do {
               extra \<leftarrow> post_job x j origAction;
               _ \<leftarrow> UpdateJob (j_projectId j) (completed_job j execution origAction (msg @ extra) doneAt);
               put_done_status j origAction doneAt } } }"

section \<open>The whole\<close>

definition exec_main :: "externals \<Rightarrow> job \<Rightarrow> unit act" where
  "exec_main x j0 = do {
     r1 \<leftarrow> exec_prepare x j0;
     case r1 of
       None \<Rightarrow> State_Monad.return ()
     | Some (j1, session, workDir, cloneNote) \<Rightarrow> do {
         (j2, execution, note, res) \<leftarrow> exec_spawn x j1 workDir cloneNote;
         r3 \<leftarrow> exec_act x j2 session workDir (execution, note, res);
         case r3 of
           None \<Rightarrow> State_Monad.return ()
         | Some result \<Rightarrow> exec_finish x j2 (j_action j0) result } }"

text \<open>The scratch directory of the run is removed however the function returns.\<close>

definition executeJob :: "externals \<Rightarrow> job \<Rightarrow> unit act" where
  "executeJob x j = do {
     _ \<leftarrow> exec_main x j;
     cleanupRunnerScratch (j_runId j) }"

section \<open>The handlers\<close>

record job_request =
  jr_action :: string
  jr_specId :: string
  jr_targetPhase :: int
  jr_ideationType :: string
  jr_competitors :: "string list"
  jr_audienceNotes :: string

definition requested_job :: "externals \<Rightarrow> job_request \<Rightarrow> string \<Rightarrow> job \<Rightarrow> job" where
  "requested_job x rq runner j0 =
     (let j1 = j0\<lparr> j_targetPhase := jr_targetPhase rq, j_ideationType := trim_space (jr_ideationType rq),
            j_competitors := j_competitors j0 @ filter (\<lambda>c. c \<noteq> []) (map trim_space (jr_competitors rq)),
            j_audienceNotes := trim_space (jr_audienceNotes rq)\<rparr>
      in if x_prefer x
         then j1\<lparr>j_execution := ''container'', j_message := ''Queued: will docker-run '' @ runner @
                  '' (model from OAM when PEER_OAM_URL set).''\<rparr>
         else j1\<lparr>j_execution := ''builtin'', j_message := ''Queued (builtin): will write plan/spec/progress artifacts '' @
                  ''in-process (container spawn not ready; set docker CLI + sock + runner image, or OPM_FORCE_BUILTIN=1).''\<rparr>)"

text \<open>\<open>POST /jobs\<close>, after the body was decoded; \<open>runner\<close> is the image the handler names, the
  origin comes from the request.\<close>

definition postJob :: "externals \<Rightarrow> string \<Rightarrow> string \<Rightarrow> job_origin \<Rightarrow> job_request \<Rightarrow> job actE" where
  "postJob x runner pid og rq0 =
     (let rq = rq0\<lparr>jr_action := trim_space (jr_action rq0)\<rparr>; action = jr_action rq in
      if action = [] then throwE (Errf ''action required'')
      else case unsupportedReviewAction action of
        Some e \<Rightarrow> throwE e
      | None \<Rightarrow>
          if action = ''skip-to-phase'' \<and> jr_targetPhase rq < 1
          then throwE (Errf ''targetPhase required for skip-to-phase (1-based)'')
          else bindE (CreateJobWithOrigin pid action (jr_specId rq) runner og) (\<lambda>j0. do {
            let j = requested_job x rq runner j0;
            _ \<leftarrow> UpdateJob pid j;
            _ \<leftarrow> go_job j;
            okE j }))"

text \<open>\<open>POST /jobs/{id}/cancel\<close>.\<close>

definition cancelled_job :: "job \<Rightarrow> time \<Rightarrow> job" where
  "cancelled_job j now = j\<lparr>j_state := ''cancelled'', j_completedAt := Some now, j_message := ''Cancelled by operator.''\<rparr>"

definition cancelJob :: "string \<Rightarrow> string \<Rightarrow> job actE" where
  "cancelJob pid runID = bindE (GetJob pid runID) (\<lambda>j.
     if j_state j \<in> {''completed'', ''failed'', ''cancelled''} then okE j
     else do {
       let wasActive = (j_state j \<in> {''queued'', ''starting'', ''running''});
       now \<leftarrow> nowUTC;
       _ \<leftarrow> UpdateJob pid (cancelled_job j now);
       _ \<leftarrow> (if wasActive then markJobCancelledStuck (cancelled_job j now) else State_Monad.return ());
       okE (cancelled_job j now) })"

end
