(* ===== verification/Delivery.thy ===== *)
theory Delivery
  imports Job_Exec
begin

text \<open>
  Code delivery: the statuses, texts and handlers of \<open>delivery.go\<close>, the git side of a delivery
  (\<open>delivery_git.go\<close>) and the calls to ORA (\<open>peer_delivery.go\<close>).  A handler's answer is its
  HTTP code and the fields of its JSON body.  The mode of the askpass file is not modelled.
\<close>

section \<open>Statuses\<close>

definition deliveryStatusDelivered :: string where "deliveryStatusDelivered = ''delivered''"
definition deliveryStatusNotLinkedRepo :: string where "deliveryStatusNotLinkedRepo = ''not_linked_repo''"
definition deliveryStatusPeerNotConfigured :: string where "deliveryStatusPeerNotConfigured = ''peer_not_configured''"
definition deliveryStatusTaskNotFound :: string where "deliveryStatusTaskNotFound = ''task_not_found''"
definition deliveryStatusInvalidRequest :: string where "deliveryStatusInvalidRequest = ''invalid_request''"
definition deliveryStatusGitFailed :: string where "deliveryStatusGitFailed = ''git_failed''"
definition deliveryStatusPushRejected :: string where "deliveryStatusPushRejected = ''push_rejected''"
definition deliveryStatusPushFailed :: string where "deliveryStatusPushFailed = ''push_failed''"
definition deliveryStatusMissingPushPermission :: string where
  "deliveryStatusMissingPushPermission = ''missing_contents_permission''"
definition deliveryStatusMissingPRPermission :: string where
  "deliveryStatusMissingPRPermission = ''missing_pull_requests_permission''"
definition deliveryStatusUpstreamError :: string where "deliveryStatusUpstreamError = ''upstream_error''"

definition deliveryHTTPCode :: "string \<Rightarrow> int" where
  "deliveryHTTPCode status =
     (if status = deliveryStatusDelivered then 200
      else if status \<in> {deliveryStatusInvalidRequest, deliveryStatusNotLinkedRepo, deliveryStatusUnsafePath,
          deliveryStatusChangeSetTooLarge} then 400
      else if status = deliveryStatusTaskNotFound then 404
      else if status \<in> {deliveryStatusNoChanges, deliveryStatusPushRejected} then 409
      else if status \<in> {deliveryStatusMissingPushPermission, deliveryStatusMissingPRPermission} then 403
      else if status = deliveryStatusPeerNotConfigured then 503
      else if status \<in> {deliveryStatusApplyFailed, deliveryStatusGitFailed, deliveryStatusWorkspaceUnavailable,
          deliveryStatusPushFailed} then 422
      else 502)"

section \<open>Errors of a delivery\<close>

record peer_fault =
  pf_code :: int
  pf_status :: string
  pf_message :: string
  pf_detail :: string
  pf_missing :: "string list"

text \<open>An error value: an ordinary one, ORA's fault, or one wrapped with a text in front.\<close>

datatype derr = Plain err | Fault peer_fault | Wrap string derr

text \<open>\<open>if s == "" { s = d }\<close>.\<close>

definition or_text :: "string \<Rightarrow> string \<Rightarrow> string" where
  "or_text s d = (if s = [] then d else s)"

definition fault_text :: "peer_fault \<Rightarrow> string" where
  "fault_text f = or_text (pf_message f) ''delivery call failed'' @
     (if pf_detail f \<noteq> [] then '' ('' @ pf_detail f @ '')'' else [])"

fun derr_text :: "derr \<Rightarrow> string" where
  "derr_text (Plain e) = err_text e"
| "derr_text (Fault f) = fault_text f"
| "derr_text (Wrap s e) = s @ derr_text e"

text \<open>\<open>errors.As\<close>.\<close>

fun as_fault :: "derr \<Rightarrow> peer_fault option" where
  "as_fault (Plain e) = None"
| "as_fault (Fault f) = Some f"
| "as_fault (Wrap s e) = as_fault e"

definition deliveryFaultStatus :: "derr \<Rightarrow> string" where
  "deliveryFaultStatus e = (case as_fault e of
       None \<Rightarrow> deliveryStatusUpstreamError
     | Some f \<Rightarrow>
         if pf_status f = ''missing_pull_requests_permission'' then deliveryStatusMissingPRPermission
         else if pf_status f = ''missing_contents_permission'' then deliveryStatusMissingPushPermission
         else if pf_status f = ''no_commits_between'' then deliveryStatusNoChanges
         else if pf_status f = ''head_branch_not_found'' then deliveryStatusPushFailed
         else if pf_code f = 403 then deliveryStatusMissingPRPermission
         else deliveryStatusUpstreamError)"

section \<open>Texts\<close>

definition shortSha :: "string \<Rightarrow> string" where
  "shortSha sha = (if length sha > 12 then take 12 sha else sha)"

definition deliverCommitMessage :: "task \<Rightarrow> change_set \<Rightarrow> string" where
  "deliverCommitMessage t cs =
     (let msg = trim_space (cs_commitMessage cs) in
      if msg \<noteq> [] then msg
      else let title = nz (trim_space (t_title t)) (t_specId t);
               body = trim_space (t_description t)
           in truncateRunes title 68 @ newline @ newline @ ''Task: '' @ t_specId t @
              (if body \<noteq> [] then newline @ newline @ truncateRunes body 600 else []))"

definition ticked :: "string \<Rightarrow> string" where
  "ticked s = ''`'' @ s @ ''`''"

definition provenance :: "change_set \<Rightarrow> string" where
  "provenance cs = ''- Produced by the OPM task runner'' @
     (if cs_source cs = ''model'' \<and> cs_model cs \<noteq> [] then '' (model '' @ ticked (cs_model cs) @ '')'' else []) @ newline @
     (if cs_runId cs \<noteq> [] then ''- Run id: '' @ ticked (cs_runId cs) @ newline else [])"

definition deliverPullRequestBody :: "task \<Rightarrow> change_set \<Rightarrow> string list \<Rightarrow> string" where
  "deliverPullRequestBody t cs files =
     ''Delivers OPM task '' @ ticked (t_specId t) @
     (if \<not> blank (t_title t) then '' '' @ em_dash @ '' '' @ t_title t else []) @ ''.'' @ newline @ newline @
     (let desc = trim_space (t_description t) in
      if desc \<noteq> [] then truncateRunes desc 1000 @ newline @ newline else []) @
     ''### Changed files'' @ newline @ newline @
     concat (map (\<lambda>f. ''- '' @ ticked f @ newline) files) @
     newline @ ''### Provenance'' @ newline @ newline @ provenance cs @
     (if t_issueNumber t > 0 then ''- Linked issue: #'' @ itoa (t_issueNumber t) @ newline else []) @
     (if t_milestoneNumber t > 0
      then ''- Milestone: #'' @ itoa (t_milestoneNumber t) @ '' '' @ t_milestoneTitle t @ newline else []) @
     newline @ ''Review this diff as you would any other pull request before merging.'' @ newline"

section \<open>Git\<close>

record git_runner =
  gr_dir :: path
  gr_token :: string
  gr_askPass :: "path option"

definition newGitRunner :: "path \<Rightarrow> git_runner" where
  "newGitRunner d = \<lparr>gr_dir = d, gr_token = [], gr_askPass = None\<rparr>"

definition withToken :: "string \<Rightarrow> git_runner \<Rightarrow> git_runner" where
  "withToken tok g = g\<lparr>gr_token := trim_space tok\<rparr>"

definition git_close :: "git_runner \<Rightarrow> git_runner act" where
  "git_close g = do {
     _ \<leftarrow> (case gr_askPass g of None \<Rightarrow> okE () | Some f \<Rightarrow> os_remove f);
     State_Monad.return (g\<lparr>gr_askPass := None, gr_token := []\<rparr>) }"

definition askpass_helper :: string where
  "askpass_helper = ''#!/bin/sh'' @ newline @ ''echo '' @ quote ''$OPM_GIT_ASKPASS_TOKEN'' @ newline"

definition ensureAskPass :: "git_runner \<Rightarrow> git_runner actE" where
  "ensureAskPass g =
     (if gr_askPass g \<noteq> None \<or> gr_token g = [] then okE g
      else let f = gr_dir g @ [''.opm-askpass.sh''] in
        bindE (os_write f askpass_helper) (\<lambda>_. okE (g\<lparr>gr_askPass := Some f\<rparr>)))"

definition git_env :: "git_runner \<Rightarrow> (string \<times> string) list" where
  "git_env g = [(''GIT_TERMINAL_PROMPT'', ''0''), (''GCM_INTERACTIVE'', ''never'')] @
     (if gr_token g = [] then []
      else [(''GIT_ASKPASS'', case gr_askPass g of None \<Rightarrow> [] | Some f \<Rightarrow> path_str f),
            (''OPM_GIT_ASKPASS_TOKEN'', gr_token g)])"

text \<open>The redacted output, the error, and the runner as it is afterwards.\<close>

definition git_run :: "externals \<Rightarrow> git_runner \<Rightarrow> string list \<Rightarrow> (string \<times> err option \<times> git_runner) act" where
  "git_run x g args = do {
     r \<leftarrow> ensureAskPass g;
     case r of
       Inl e \<Rightarrow> State_Monad.return ([], Some e, g)
     | Inr g1 \<Rightarrow> do {
         (out, e) \<leftarrow> x_git x (gr_dir g1) (git_env g1) args;
         let txt = redactSecret out (gr_token g1);
         State_Monad.return (txt, map_option (\<lambda>er. Errf (''git '' @ hd args @ '': '' @ err_text er @ '' ('' @
           trim_space (truncateRunes txt 400) @ '')'')) e, g1) } }"

definition gitIdentity :: "world \<Rightarrow> string \<times> string" where
  "gitIdentity w = (envOr w ''OPM_GIT_AUTHOR_NAME'' ''opm-api'', envOr w ''OPM_GIT_AUTHOR_EMAIL'' ''opm-api@localhost'')"

record commit_outcome =
  co_branch :: string
  co_sha :: string
  co_staged :: "string list"
  co_message :: string

definition git_fail :: "commit_outcome \<Rightarrow> string \<Rightarrow> err \<Rightarrow> git_runner \<Rightarrow>
    (commit_outcome \<times> (string \<times> err) option \<times> git_runner) act" where
  "git_fail c status e g = State_Monad.return (c, Some (status, e), g)"

definition git_commit_staged ::
  "externals \<Rightarrow> git_runner \<Rightarrow> commit_outcome \<Rightarrow> (commit_outcome \<times> (string \<times> err) option \<times> git_runner) act" where
  "git_commit_staged x g c = do {
     (name, email) \<leftarrow> asks gitIdentity;
     (_, e, g1) \<leftarrow> git_run x g [''-c'', ''user.name='' @ name, ''-c'', ''user.email='' @ email,
       ''commit'', ''--no-verify'', ''-m'', co_message c];
     case e of Some er \<Rightarrow> git_fail c deliveryStatusGitFailed er g1 | None \<Rightarrow> do {
       (sha, e2, g2) \<leftarrow> git_run x g1 [''rev-parse'', ''HEAD''];
       case e2 of Some er \<Rightarrow> git_fail c deliveryStatusGitFailed er g2
       | None \<Rightarrow> State_Monad.return (c\<lparr>co_sha := trim_space sha\<rparr>, None, g2) } }"

definition gitCommitOnBranch ::
  "externals \<Rightarrow> git_runner \<Rightarrow> string \<Rightarrow> string \<Rightarrow> string list \<Rightarrow>
     (commit_outcome \<times> (string \<times> err) option \<times> git_runner) act" where
  "gitCommitOnBranch x g branch message paths =
     (let c = \<lparr>co_branch = branch, co_sha = [], co_staged = [], co_message = message\<rparr> in
      if paths = [] then git_fail c deliveryStatusNoChanges (Errf ''nothing to stage'') g
      else do {
        (_, e1, g1) \<leftarrow> git_run x g [''checkout'', ''-b'', branch];
        case e1 of Some er \<Rightarrow> git_fail c deliveryStatusGitFailed er g1 | None \<Rightarrow> do {
          (_, e2, g2) \<leftarrow> git_run x g1 ([''add'', ''--''] @ paths);
          case e2 of Some er \<Rightarrow> git_fail c deliveryStatusGitFailed er g2 | None \<Rightarrow> do {
            let staged = c\<lparr>co_staged := paths\<rparr>;
            (diff, e3, g3) \<leftarrow> git_run x g2 [''diff'', ''--cached'', ''--name-only''];
            if e3 = None \<and> blank diff
            then git_fail staged deliveryStatusNoChanges
                   (Errf (''the change set is identical to the current branch '' @ em_dash @ '' nothing to commit'')) g3
            else git_commit_staged x g3 staged } } })"

definition push_refusal :: "string \<Rightarrow> string \<Rightarrow> err \<Rightarrow> string \<times> err" where
  "push_refusal branch out e =
     (let low = to_lower out; said = trim_space (truncateRunes out 300) in
      if contains ''non-fast-forward'' low \<or> contains ''rejected'' low \<or> contains ''fetch first'' low
      then (deliveryStatusPushRejected, Errf (''push rejected '' @ em_dash @ '' the branch '' @ branch @
             '' already exists on the remote with different commits: '' @ said))
      else if contains ''403'' low \<or> contains ''permission'' low \<or> contains ''authentication failed'' low \<or> contains ''denied'' low
      then (deliveryStatusMissingPushPermission, Errf (''push refused by the remote '' @ em_dash @
             '' the credential lacks write access: '' @ said))
      else (deliveryStatusPushFailed, e))"

definition gitPushBranch ::
  "externals \<Rightarrow> git_runner \<Rightarrow> string \<Rightarrow> string \<Rightarrow> ((string \<times> err) option \<times> git_runner) act" where
  "gitPushBranch x g remoteURL branch =
     (if blank remoteURL
      then State_Monad.return (Some (deliveryStatusPushRejected, Errf ''no push URL available''), g)
      else do {
        (out, e, g1) \<leftarrow> git_run x g [''push'', remoteURL, ''refs/heads/'' @ branch @ '':refs/heads/'' @ branch];
        State_Monad.return (map_option (push_refusal branch out) e, g1) })"

section \<open>The calls to ORA\<close>

text \<open>The answer: transport error, or the parsed body, or the fault of a non-2xx answer.\<close>

definition missing_of :: "(string \<times> json) list \<Rightarrow> string list" where
  "missing_of out = (case map_of out ''missing'' of
       Some (JArr l) \<Rightarrow> filter (\<lambda>s. s \<noteq> []) (map strFromAny l)
     | _ \<Rightarrow> [])"

definition response_fault :: "ora_response \<Rightarrow> peer_fault" where
  "response_fault r =
     (let at = (\<lambda>k. case or_json r of None \<Rightarrow> [] | Some out \<Rightarrow> strFromAny (any_at out k)) in
      \<lparr> pf_code = or_code r, pf_status = or_text (at ''status'') ''upstream_error'',
        pf_message = or_text (or_text (at ''error'') (trim_space (or_body r))) (or_status r),
        pf_detail = at ''detail'', pf_missing = (case or_json r of None \<Rightarrow> [] | Some out \<Rightarrow> missing_of out) \<rparr>)"

definition peerDeliveryCall ::
  "externals \<Rightarrow> string \<Rightarrow> string \<Rightarrow> string \<Rightarrow> (string \<times> json) list \<Rightarrow> (derr + (string \<times> json) list) act" where
  "peerDeliveryCall x org user url body = do {
     r \<leftarrow> x_ora_post x org user url body;
     State_Monad.return (case r of
         Inl e \<Rightarrow> Inl (Plain e)
       | Inr resp \<Rightarrow>
           if or_code resp \<ge> 300 then Inl (Fault (response_fault resp))
           else (case or_json resp of
               None \<Rightarrow> Inl (Plain (Errf (''ora returned a non-JSON body for '' @ url)))
             | Some out \<Rightarrow> Inr out)) }"

record push_credential =
  pc_token :: string
  pc_cloneUrl :: string

definition repo_body :: "project \<Rightarrow> (string \<times> json) list" where
  "repo_body p = [(''connector_id'', JStr (p_connectorId p)), (''repo_full_name'', JStr (p_ownerRepo p))]"

definition peerPushCredentials :: "externals \<Rightarrow> project \<Rightarrow> string \<Rightarrow> (derr + push_credential) act" where
  "peerPushCredentials x p user = do {
     r \<leftarrow> peerDeliveryCall x (p_organizationId p) user ''/api/peer/scm/push-credentials'' (repo_body p);
     State_Monad.return (case r of
         Inl e \<Rightarrow> Inl e
       | Inr out \<Rightarrow>
           let cred = \<lparr>pc_token = strFromAny (any_at out ''token''), pc_cloneUrl = strFromAny (any_at out ''clone_url'')\<rparr> in
           if pc_token cred = [] \<or> pc_cloneUrl cred = []
           then Inl (Plain (Errf ''ora returned incomplete push credentials'')) else Inr cred) }"

record pull_request_meta =
  pm_number :: int
  pm_htmlUrl :: string
  pm_state :: string
  pm_title :: string
  pm_headRef :: string
  pm_baseRef :: string
  pm_draft :: bool
  pm_alreadyExisted :: bool

definition bool_at :: "string \<Rightarrow> (string \<times> json) list \<Rightarrow> bool" where
  "bool_at k out \<longleftrightarrow> map_of out k = Some (JBool True)"

definition pr_meta :: "(string \<times> json) list \<Rightarrow> pull_request_meta" where
  "pr_meta raw = \<lparr> pm_number = intFromAny (any_at raw ''number''), pm_htmlUrl = strFromAny (any_at raw ''html_url''),
     pm_state = strFromAny (any_at raw ''state''), pm_title = strFromAny (any_at raw ''title''),
     pm_headRef = strFromAny (any_at raw ''head_ref''), pm_baseRef = strFromAny (any_at raw ''base_ref''),
     pm_draft = False, pm_alreadyExisted = False \<rparr>"

definition pr_object :: "(string \<times> json) list \<Rightarrow> derr + (string \<times> json) list" where
  "pr_object out = (case map_of out ''pull_request'' of
       Some (JObj raw) \<Rightarrow> Inr raw
     | _ \<Rightarrow> Inl (Plain (Errf ''ora response did not contain a pull_request object'')))"

definition created_pr :: "(string \<times> json) list \<Rightarrow> derr + pull_request_meta" where
  "created_pr out = (case pr_object out of
       Inl e \<Rightarrow> Inl e
     | Inr raw \<Rightarrow>
         let m = (pr_meta raw)\<lparr>pm_draft := bool_at ''draft'' raw, pm_alreadyExisted := bool_at ''already_existed'' out\<rparr> in
         if pm_number m \<le> 0 then Inl (Plain (Errf ''ora response contained no pull request number''))
         else Inr (m\<lparr>pm_state := or_text (pm_state m) ''open''\<rparr>))"

definition peerCreatePullRequest ::
  "externals \<Rightarrow> project \<Rightarrow> string \<Rightarrow> string \<Rightarrow> string \<Rightarrow> string \<Rightarrow> string \<Rightarrow> bool \<Rightarrow> (derr + pull_request_meta) act" where
  "peerCreatePullRequest x p user title body headRef base draft = do {
     r \<leftarrow> peerDeliveryCall x (p_organizationId p) user ''/api/peer/scm/pull-requests/create''
       (repo_body p @ [(''title'', JStr title), (''body'', JStr body), (''head'', JStr headRef), (''base'', JStr base),
         (''draft'', JBool draft)]);
     State_Monad.return (case r of Inl e \<Rightarrow> Inl e | Inr out \<Rightarrow> created_pr out) }"

definition merged_pr :: "int \<Rightarrow> (string \<times> json) list \<Rightarrow> derr + pull_request_meta" where
  "merged_pr n out = (case pr_object out of
       Inl e \<Rightarrow> Inl e
     | Inr raw \<Rightarrow>
         let m = pr_meta raw in
         Inr (m\<lparr>pm_number := (if pm_number m \<le> 0 then n else pm_number m), pm_state := or_text (pm_state m) ''merged''\<rparr>))"

definition peerMergePullRequest :: "externals \<Rightarrow> project \<Rightarrow> string \<Rightarrow> int \<Rightarrow> (derr + pull_request_meta) act" where
  "peerMergePullRequest x p user n = do {
     r \<leftarrow> peerDeliveryCall x (p_organizationId p) user ''/api/peer/scm/pull-requests/merge''
       (repo_body p @ [(''number'', JNum n)]);
     State_Monad.return (case r of Inl e \<Rightarrow> Inl e | Inr out \<Rightarrow> merged_pr n out) }"

end
