(* ===== verification/Deliver.thy ===== *)
theory Deliver
  imports Delivery
begin

text \<open>
  The delivery of a task (\<open>delivery.go\<close>): workspace, change set, commit, push and pull request,
  and the two handlers of the surface.
\<close>

section \<open>The result of an attempt\<close>

record delivery_result =
  dr_status :: string
  dr_branch :: string
  dr_commitSha :: string
  dr_prNumber :: int
  dr_prUrl :: string
  dr_prState :: string
  dr_files :: "string list"
  dr_skipped :: "string list"
  dr_alreadyExisted :: bool

definition zero_result :: delivery_result where
  "zero_result = \<lparr> dr_status = [], dr_branch = [], dr_commitSha = [], dr_prNumber = 0, dr_prUrl = [],
     dr_prState = [], dr_files = [], dr_skipped = [], dr_alreadyExisted = False \<rparr>"

text \<open>The partial result and, when the delivery failed, its status and error.\<close>

type_synonym attempt = "delivery_result \<times> (string \<times> derr) option"

definition stop_at :: "delivery_result \<Rightarrow> string \<Rightarrow> derr \<Rightarrow> attempt act" where
  "stop_at res status e = State_Monad.return (res, Some (status, e))"

definition delivery_base :: "project \<Rightarrow> string \<Rightarrow> string" where
  "delivery_base p wantBase = nz (trim_space wantBase) (nz (p_defaultBranch p) ''main'')"

definition delivered_result :: "delivery_result \<Rightarrow> pull_request_meta \<Rightarrow> delivery_result" where
  "delivered_result res pr = res\<lparr> dr_prNumber := pm_number pr, dr_prUrl := pm_htmlUrl pr, dr_prState := pm_state pr,
     dr_alreadyExisted := pm_alreadyExisted pr, dr_status := deliveryStatusDelivered \<rparr>"

text \<open>The pull request of a pushed branch.\<close>

definition open_pull_request ::
  "externals \<Rightarrow> project \<Rightarrow> task \<Rightarrow> change_set \<Rightarrow> delivery_result \<Rightarrow> string list \<Rightarrow> string \<Rightarrow> string \<Rightarrow> bool \<Rightarrow> string \<Rightarrow> attempt act" where
  "open_pull_request x p t cs res files branch base draft user = do {
     let title = nz (trim_space (t_title t)) (''Deliver '' @ t_specId t);
     r \<leftarrow> peerCreatePullRequest x p user (truncateRunes title 120) (deliverPullRequestBody t cs files) branch base draft;
     case r of
       Inl e \<Rightarrow> stop_at res (deliveryFaultStatus e) (Wrap ''opening the pull request: '' e)
     | Inr pr \<Rightarrow> State_Monad.return (delivered_result res pr, None) }"

text \<open>Credential, push, and the pull request, after the commit; the runner is closed on every
  way out (the deferred \<open>close\<close> of a closed runner does nothing).\<close>

definition push_and_open ::
  "externals \<Rightarrow> git_runner \<Rightarrow> project \<Rightarrow> task \<Rightarrow> change_set \<Rightarrow> delivery_result \<Rightarrow> string list \<Rightarrow> string \<Rightarrow> string \<Rightarrow> bool \<Rightarrow> string \<Rightarrow> attempt act" where
  "push_and_open x g p t cs res files branch base draft user = do {
     rc \<leftarrow> peerPushCredentials x p user;
     case rc of
       Inl e \<Rightarrow> do { _ \<leftarrow> git_close g; stop_at res (deliveryFaultStatus e) (Wrap ''push credentials: '' e) }
     | Inr cred \<Rightarrow> do {
         (fl, g1) \<leftarrow> gitPushBranch x (withToken (pc_token cred) g) (pc_cloneUrl cred) branch;
         _ \<leftarrow> git_close g1;
         case fl of
           Some (status, e) \<Rightarrow> stop_at res status (Plain e)
         | None \<Rightarrow> open_pull_request x p t cs res files branch base draft user } }"

definition same_branch_error :: "string \<Rightarrow> derr" where
  "same_branch_error base = Plain (Errf (''the delivery branch would equal the base branch ('' @ base @ '')''))"

section \<open>Delivering a change set\<close>

definition deliver_applied ::
  "externals \<Rightarrow> project \<Rightarrow> task \<Rightarrow> change_set \<Rightarrow> path \<Rightarrow> apply_outcome \<Rightarrow> string \<Rightarrow> string \<Rightarrow> bool \<Rightarrow> string \<Rightarrow> attempt act" where
  "deliver_applied x p t cs workDir applied wantBranch wantBase draft user = do {
     let res = zero_result\<lparr>dr_files := ao_applied applied, dr_skipped := ao_skipped applied\<rparr>;
     let base = delivery_base p wantBase;
     branch \<leftarrow> asks (\<lambda>w. deliveryBranchName w (t_specId t) wantBranch);
     if branch = base then stop_at res deliveryStatusInvalidRequest (same_branch_error base)
     else do {
       let res1 = res\<lparr>dr_branch := branch\<rparr>;
       (c, fl, g) \<leftarrow> gitCommitOnBranch x (newGitRunner workDir) branch (deliverCommitMessage t cs) (ao_applied applied);
       case fl of
         Some (status, e) \<Rightarrow> do { _ \<leftarrow> git_close g; stop_at res1 status (Plain e) }
       | None \<Rightarrow> push_and_open x g p t cs (res1\<lparr>dr_commitSha := co_sha c\<rparr>) (ao_applied applied) branch base draft user } }"

definition no_clone_error :: "project \<Rightarrow> derr" where
  "no_clone_error p = Plain (Errf (''the workspace is not a git clone '' @ em_dash @
     '' ORA clone credentials are unavailable for '' @ p_ownerRepo p))"

definition deliver_in ::
  "externals \<Rightarrow> project \<Rightarrow> task \<Rightarrow> change_set \<Rightarrow> string \<Rightarrow> string \<Rightarrow> bool \<Rightarrow> string \<Rightarrow> string \<Rightarrow> attempt act" where
  "deliver_in x p t cs wantBranch wantBase draft user deliveryID = do {
     rw \<leftarrow> prepareJobWorkspace x p deliveryID user;
     case rw of
       Inl e \<Rightarrow> stop_at zero_result deliveryStatusWorkspaceUnavailable (Wrap ''preparing the delivery workspace: '' (Plain e))
     | Inr workDir \<Rightarrow> do {
         stub \<leftarrow> workspaceIsStub workDir;
         if stub then stop_at zero_result deliveryStatusWorkspaceUnavailable (no_clone_error p)
         else do {
           lim \<leftarrow> asks deliveryLimits;
           (applied, ae) \<leftarrow> applyChangeSet x workDir cs lim;
           case ae of
             Some e \<Rightarrow> stop_at (zero_result\<lparr>dr_files := ao_applied applied, dr_skipped := ao_skipped applied\<rparr>)
               (or_text (ao_status applied) deliveryStatusApplyFailed) (Plain e)
           | None \<Rightarrow> deliver_applied x p t cs workDir applied wantBranch wantBase draft user } } }"

definition runDelivery ::
  "externals \<Rightarrow> project \<Rightarrow> task \<Rightarrow> change_set \<Rightarrow> string \<Rightarrow> string \<Rightarrow> bool \<Rightarrow> string \<Rightarrow> attempt act" where
  "runDelivery x p t cs wantBranch wantBase draft user = do {
     u \<leftarrow> uuid_new;
     r \<leftarrow> deliver_in x p t cs wantBranch wantBase draft user (''deliver-'' @ u);
     _ \<leftarrow> cleanupRunnerScratch (''deliver-'' @ u);
     State_Monad.return r }"

text \<open>Delivering what is already applied in the session workspace.\<close>

definition runDeliveryFromWorkspace ::
  "externals \<Rightarrow> project \<Rightarrow> task \<Rightarrow> path \<Rightarrow> change_set \<Rightarrow> string \<Rightarrow> string \<Rightarrow> bool \<Rightarrow> string \<Rightarrow> attempt act" where
  "runDeliveryFromWorkspace x p t workDir cs wantBranch wantBase draft user = do {
     stub \<leftarrow> workspaceIsStub workDir;
     if stub then stop_at zero_result deliveryStatusWorkspaceUnavailable
       (Plain (Errf ''the session workspace is not a git clone''))
     else if cs_paths cs = [] then stop_at zero_result deliveryStatusNoChanges
       (Plain (Errf ''nothing to deliver: no paths in change set''))
     else do {
       let base = delivery_base p wantBase;
       branch \<leftarrow> asks (\<lambda>w. deliveryBranchName w (t_specId t) wantBranch);
       if branch = base then stop_at zero_result deliveryStatusInvalidRequest (same_branch_error base)
       else do {
         let res = zero_result\<lparr>dr_branch := branch\<rparr>;
         (c, fl, g) \<leftarrow> gitCommitOnBranch x (newGitRunner workDir) branch (deliverCommitMessage t cs) (cs_paths cs);
         case fl of
           Some (status, e) \<Rightarrow> do { _ \<leftarrow> git_close g; stop_at res status (Plain e) }
         | None \<Rightarrow> push_and_open x g p t cs (res\<lparr>dr_commitSha := co_sha c, dr_files := co_staged c\<rparr>) (co_staged c)
             branch base draft user } } }"

section \<open>The handlers\<close>

text \<open>An answer: the HTTP code, the fields of the body, and the task in it.\<close>

type_synonym answer = "int \<times> (string \<times> json) list \<times> task option"

definition jstrs :: "string list \<Rightarrow> json" where
  "jstrs l = JArr (map JStr l)"

definition fault_fields :: "derr \<Rightarrow> (string \<times> json) list" where
  "fault_fields e = (case as_fault e of
       None \<Rightarrow> []
     | Some f \<Rightarrow> (if pf_detail f \<noteq> [] then [(''detail'', JStr (pf_detail f))] else []) @
         (if pf_missing f \<noteq> [] then [(''missing'', jstrs (pf_missing f))] else []))"

definition failed_task :: "string \<Rightarrow> string \<Rightarrow> task \<Rightarrow> task" where
  "failed_task status reason t = t\<lparr>t_deliveryStatus := status, t_deliveryError := reason\<rparr>"

definition failure_line :: "string \<Rightarrow> string \<Rightarrow> time \<Rightarrow> string" where
  "failure_line status reason now = ''['' @ rfc3339 now @ ''] deliver FAILED status='' @ status @ '': '' @ reason @ newline"

definition recordDeliveryFailure ::
  "project \<Rightarrow> string \<Rightarrow> string \<Rightarrow> derr \<Rightarrow> (string \<times> json) list \<Rightarrow> answer act" where
  "recordDeliveryFailure p sid status e extra = do {
     _ \<leftarrow> MutateTask (p_id p) sid (failed_task status (derr_text e));
     now \<leftarrow> nowUTC;
     _ \<leftarrow> AppendSpecLog (p_id p) sid ''delivery'' (failure_line status (derr_text e) now);
     State_Monad.return (deliveryHTTPCode status,
       [(''ok'', JBool False), (''error'', JStr (derr_text e)), (''status'', JStr status), (''specId'', JStr sid)] @
       fault_fields e @ extra, None) }"

definition refused :: "int \<Rightarrow> string \<Rightarrow> string \<Rightarrow> (string \<times> json) list \<Rightarrow> answer act" where
  "refused code e status extra = State_Monad.return (code,
     [(''ok'', JBool False), (''error'', JStr e), (''status'', JStr status)] @ extra, None)"

definition delivered_task :: "delivery_result \<Rightarrow> time \<Rightarrow> task \<Rightarrow> task" where
  "delivered_task res now t = t\<lparr> t_deliveryBranch := dr_branch res, t_deliveryCommitSha := dr_commitSha res,
     t_deliveryFiles := dr_files res, t_deliveredAt := Some now, t_prNumber := dr_prNumber res, t_prUrl := dr_prUrl res,
     t_prState := dr_prState res, t_deliveryStatus := deliveryStatusDelivered, t_deliveryError := [] \<rparr>"

definition delivered_line :: "delivery_result \<Rightarrow> time \<Rightarrow> string" where
  "delivered_line res now = ''['' @ rfc3339 now @ ''] deliver OK branch='' @ dr_branch res @ '' commit='' @
     shortSha (dr_commitSha res) @ '' pr=#'' @ itoa (dr_prNumber res) @ '' files='' @ join '','' (dr_files res) @ newline"

definition delivered_answer :: "string \<Rightarrow> delivery_result \<Rightarrow> task \<Rightarrow> answer" where
  "delivered_answer sid res t = (200,
     [(''ok'', JBool True), (''status'', JStr deliveryStatusDelivered), (''specId'', JStr sid),
      (''branch'', JStr (dr_branch res)), (''commitSha'', JStr (dr_commitSha res)), (''prNumber'', JNum (dr_prNumber res)),
      (''prUrl'', JStr (dr_prUrl res)), (''prState'', JStr (dr_prState res)), (''files'', jstrs (dr_files res))] @
     (if dr_skipped res \<noteq> [] then [(''skipped'', jstrs (dr_skipped res))] else []) @
     (if dr_alreadyExisted res
      then [(''alreadyExisted'', JBool True), (''note'', JStr (''a pull request for this branch was already open; '' @
             ''OPM reported the existing one''))] else []), Some t)"

definition record_delivery :: "project \<Rightarrow> string \<Rightarrow> delivery_result \<Rightarrow> answer act" where
  "record_delivery p sid res = do {
     now \<leftarrow> nowUTC;
     r \<leftarrow> MutateTask (p_id p) sid (delivered_task res now);
     case r of
       Inl e \<Rightarrow> State_Monad.return (400, [(''error'', JStr (err_text e))], None)
     | Inr t \<Rightarrow> do {
         _ \<leftarrow> ClearChangeSet (p_id p) sid;
         _ \<leftarrow> AppendSpecLog (p_id p) sid ''delivery'' (delivered_line res now);
         State_Monad.return (delivered_answer sid res t) } }"

record deliver_request =
  rb_branch :: string
  rb_base :: string
  rb_draft :: bool

definition no_changes_note :: string where
  "no_changes_note = ''no automation run has recorded file changes for this task yet''"

definition deliver_changes :: "externals \<Rightarrow> project \<Rightarrow> task \<Rightarrow> deliver_request \<Rightarrow> string \<Rightarrow> string \<Rightarrow> answer act" where
  "deliver_changes x p t rq user sid = do {
     rc \<leftarrow> GetChangeSet (p_id p) sid;
     case rc of
       Inl e \<Rightarrow> recordDeliveryFailure p sid deliveryStatusUpstreamError
         (Wrap ''reading the recorded change set: '' (Plain e)) []
     | Inr cs \<Rightarrow>
         if cs_files cs = []
         then recordDeliveryFailure p sid deliveryStatusNoChanges
           (Plain (Errf (''nothing to deliver: '' @ nz (trim_space (cs_note cs)) no_changes_note)))
           [(''changes'', JObj (changeSetSummary cs))]
         else do {
           (res, fl) \<leftarrow> runDelivery x p t cs (rb_branch rq) (rb_base rq) (rb_draft rq) user;
           case fl of
             Some (status, e) \<Rightarrow> recordDeliveryFailure p sid status e
               [(''branch'', JStr (dr_branch res)), (''commitSha'', JStr (dr_commitSha res))]
           | None \<Rightarrow> record_delivery p sid res } }"

text \<open>\<open>POST .../tasks/{specId}/deliver\<close>, with the organization and the user of the request.\<close>

definition handleTaskDeliver ::
  "externals \<Rightarrow> string \<Rightarrow> string \<Rightarrow> string \<Rightarrow> string \<Rightarrow> deliver_request \<Rightarrow> answer act" where
  "handleTaskDeliver x org user pid sid rq = do {
     rp \<leftarrow> GetProjectForOrg pid org;
     case rp of
       Inl e \<Rightarrow> refused 404 (err_text e) deliveryStatusTaskNotFound []
     | Inr p \<Rightarrow>
         if blank sid then refused 400 ''specId required'' deliveryStatusInvalidRequest []
         else do {
           rt \<leftarrow> GetTask (p_id p) sid;
           case rt of
             Inl e \<Rightarrow> refused 404 (err_text e) deliveryStatusTaskNotFound [(''specId'', JStr sid)]
           | Inr t \<Rightarrow>
               if blank (p_ownerRepo p) \<or> blank (p_connectorId p)
               then recordDeliveryFailure p sid deliveryStatusNotLinkedRepo
                 (Plain (Errf ''this OPM project has no linked GitHub repository or connector'')) []
               else if \<not> x_ora x
               then recordDeliveryFailure p sid deliveryStatusPeerNotConfigured
                 (Plain (Errf (''PEER_ORA_URL is not configured '' @ em_dash @
                    '' push credentials and pull requests live in ORA''))) []
               else deliver_changes x p t rq user sid } }"

text \<open>\<open>GET .../tasks/{specId}/changes\<close>.\<close>

definition handleTaskChanges :: "string \<Rightarrow> string \<Rightarrow> answer act" where
  "handleTaskChanges pid sid = do {
     r \<leftarrow> GetChangeSet pid sid;
     State_Monad.return (case r of
         Inl e \<Rightarrow> (404, [(''error'', JStr (err_text e))], None)
       | Inr cs \<Rightarrow> (200, changeSetSummary cs @ [(''specId'', JStr sid), (''deliverable'', JBool (cs_files cs \<noteq> []))] @
           (if cs_files cs = [] then [(''note'', JStr (nz (cs_note cs) no_changes_note))] else []), None)) }"

end
