(* ===== verification/Http.thy ===== *)
theory Http
  imports Deliver
begin

text \<open>
  Requests and answers of the HTTP surface: the method and path, what the tenant and auth
  libraries read from the request, the body decoded as JSON (an absent value is a body that does
  not decode) and, for the routes that take a whole document, the body decoded as one.  A struct
  field is matched by its exact name, and a value of another type fails the decoding.
\<close>

section \<open>Answers\<close>

datatype part =
    PJson json
  | PTask task
  | PTasks "task list"
  | PProject project
  | PProjects "project list"
  | PBoard board
  | PPlan plan
  | PProgress progress
  | PStatus pstatus
  | PRoadmap roadmap
  | PIdeation ideation
  | PJob job
  | PJobs "job list"
  | PLogs "(string \<times> string) list"
  | PActions valid_actions
  | PTrigger trigger_outcome

text \<open>\<open>writeError\<close>, an object built field by field, a document on its own, a status alone, and
  the bytes of another service passed on.\<close>

datatype reply =
    Failed int string
  | Fields int "(string \<times> part) list"
  | Whole part
  | NoContent
  | Relay int string

fun reply_code :: "reply \<Rightarrow> int" where
  "reply_code (Failed c m) = c"
| "reply_code (Fields c l) = c"
| "reply_code (Whole p) = 200"
| "reply_code NoContent = 204"
| "reply_code (Relay c b) = c"

definition jfields :: "(string \<times> json) list \<Rightarrow> (string \<times> part) list" where
  "jfields l = map (\<lambda>(k, v). (k, PJson v)) l"

text \<open>A refusal with a machine-readable status.\<close>

definition bad_request :: "int \<Rightarrow> string \<Rightarrow> string \<Rightarrow> (string \<times> json) list \<Rightarrow> reply" where
  "bad_request code why status extra =
     Fields code (jfields ([(''error'', JStr why), (''status'', JStr status)] @ extra))"

text \<open>The answer of a delivery handler.\<close>

fun answer_reply :: "answer \<Rightarrow> reply" where
  "answer_reply (code, l, ot) = Fields code (jfields l @ (case ot of None \<Rightarrow> [] | Some t \<Rightarrow> [(''task'', PTask t)]))"

definition found_or :: "int \<Rightarrow> ('a \<Rightarrow> reply) \<Rightarrow> err + 'a \<Rightarrow> reply" where
  "found_or code f r = (case r of Inl e \<Rightarrow> Failed code (err_text e) | Inr x \<Rightarrow> f x)"

section \<open>Requests\<close>

record http =
  h_method :: string
  h_path :: string
  h_scope :: request
  h_body :: "json option"
  h_doc :: "doc option"
  h_auth :: string
  h_orgHeader :: string
  h_tenantUser :: string
  h_query :: "(string \<times> string) list"

text \<open>\<open>h_auth\<close> is the credential passed on (the header, or the cookie as a bearer token),
  \<open>h_orgHeader\<close> and \<open>h_tenantUser\<close> the headers \<open>X-Organization-ID\<close> and
  \<open>X-Tenant-User-ID\<close>, \<open>h_query\<close> the parsed query.\<close>

text \<open>\<open>json.Decode\<close> into a struct: the object, and nothing for \<open>null\<close>.\<close>

definition body_object :: "http \<Rightarrow> (string \<times> json) list option" where
  "body_object h = (case h_body h of Some (JObj kvs) \<Rightarrow> Some kvs | Some JNull \<Rightarrow> Some [] | _ \<Rightarrow> None)"

fun json_int :: "json \<Rightarrow> int option" where
  "json_int (JNum n) = Some n"
| "json_int JNull = Some 0"
| "json_int _ = None"

fun json_bool :: "json \<Rightarrow> bool option" where
  "json_bool (JBool b) = Some b"
| "json_bool JNull = Some False"
| "json_bool _ = None"

abbreviation str_field :: "(string \<times> json) list \<Rightarrow> string \<Rightarrow> string option" where
  "str_field \<equiv> field_or json_string []"

abbreviation int_field :: "(string \<times> json) list \<Rightarrow> string \<Rightarrow> int option" where
  "int_field \<equiv> field_or json_int 0"

abbreviation bool_field :: "(string \<times> json) list \<Rightarrow> string \<Rightarrow> bool option" where
  "bool_field \<equiv> field_or json_bool False"

definition user_of :: "http \<Rightarrow> string" where
  "user_of h = actorFromRequest (h_scope h)"

definition not_allowed :: reply where
  "not_allowed = Failed 405 ''method not allowed''"

definition not_found :: reply where
  "not_found = Failed 404 ''not found''"

definition only :: "string \<Rightarrow> http \<Rightarrow> reply act \<Rightarrow> reply act" where
  "only m h a = (if h_method h \<noteq> m then State_Monad.return not_allowed else a)"

end
