(* ===== verification/Issue_Sync.thy ===== *)
theory Issue_Sync
  imports Http
begin

text \<open>
  A task and its GitHub issue: the mapping of columns and issue states
  (\<open>github_issue_map.go\<close>), the calls to ORA that keep its machine-readable fault
  (\<open>peer.go\<close>), and the four routes under \<open>github/issues\<close> (\<open>github_issue_sync.go\<close>).
\<close>

section \<open>Columns and issue states\<close>

definition boardColumnIssueState :: "(string \<times> string) list" where
  "boardColumnIssueState = [(''backlog'', ''open''), (''queue'', ''open''), (''in_progress'', ''open''),
     (''review'', ''open''), (''human_review'', ''open''), (''done'', ''closed'')]"

definition issueStateForColumn :: "string \<Rightarrow> string option" where
  "issueStateForColumn column = map_of boardColumnIssueState (trim_space column)"

definition columnForIssueState :: "string \<Rightarrow> string \<Rightarrow> string option" where
  "columnForIssueState issueState currentColumn =
     (let st = trim_space (to_lower issueState); cur = trim_space currentColumn in
      if st = ''closed'' then (if cur = ''done'' then None else Some ''done'')
      else if st = ''open'' then (if cur = ''done'' then Some ''in_progress'' else None)
      else None)"

section \<open>Calls that keep the fault\<close>

text \<open>The error values of \<open>peerIssueCall\<close>: \<open>peerIssueFault\<close> has the fields and the decoding of
  the delivery's fault and a text of its own.\<close>

definition issue_fault_text :: "peer_fault \<Rightarrow> string" where
  "issue_fault_text f = or_text (pf_message f) ''github issue call failed'' @
     (if pf_detail f \<noteq> [] then '' ('' @ pf_detail f @ '')'' else [])"

fun ierr_text :: "derr \<Rightarrow> string" where
  "ierr_text (Plain e) = err_text e"
| "ierr_text (Fault f) = issue_fault_text f"
| "ierr_text (Wrap s e) = s @ ierr_text e"

definition peerIssueCall ::
  "externals \<Rightarrow> string \<Rightarrow> string \<Rightarrow> string \<Rightarrow> (string \<times> json) list \<Rightarrow> (derr + (string \<times> json) list) act" where
  "peerIssueCall x org user url body = do {
     r \<leftarrow> x_ora_post x org user url body;
     State_Monad.return (case r of
         Inl e \<Rightarrow> Inl (Plain e)
       | Inr resp \<Rightarrow>
           if or_code resp \<ge> 300 then Inl (Fault (response_fault resp))
           else (case or_json resp of
               None \<Rightarrow> Inl (Plain (Errf (''ora returned a non-JSON body for '' @ url)))
             | Some out \<Rightarrow> Inr out)) }"

definition peerGetIssue :: "externals \<Rightarrow> project \<Rightarrow> string \<Rightarrow> int \<Rightarrow> (derr + (string \<times> json) list) act" where
  "peerGetIssue x p user n =
     peerIssueCall x (p_organizationId p) user ''/api/peer/scm/issues/get'' (repo_body p @ [(''number'', JNum n)])"

definition peerCreateIssue ::
  "externals \<Rightarrow> project \<Rightarrow> string \<Rightarrow> string \<Rightarrow> string \<Rightarrow> string list \<Rightarrow> int \<Rightarrow> (derr + (string \<times> json) list) act" where
  "peerCreateIssue x p user title body labels milestone =
     peerIssueCall x (p_organizationId p) user ''/api/peer/scm/issues/create''
       (repo_body p @ [(''title'', JStr title), (''body'', JStr body), (''labels'', jstrs labels), (''milestone'', JNum milestone)])"

definition peerUpdateIssue ::
  "externals \<Rightarrow> project \<Rightarrow> string \<Rightarrow> int \<Rightarrow> string \<Rightarrow> string \<Rightarrow> string \<Rightarrow> int \<Rightarrow> string list option \<Rightarrow>
     (derr + (string \<times> json) list) act" where
  "peerUpdateIssue x p user n title body st milestone labels =
     peerIssueCall x (p_organizationId p) user ''/api/peer/scm/issues/update''
       (repo_body p @ [(''number'', JNum n), (''title'', JStr title), (''body'', JStr body), (''state'', JStr st),
          (''milestone'', JNum milestone)] @ (case labels of None \<Rightarrow> [] | Some l \<Rightarrow> [(''labels'', jstrs l)]))"

section \<open>What ORA says of an issue\<close>

record issue_meta =
  im_number :: int
  im_title :: string
  im_body :: string
  im_state :: string
  im_htmlUrl :: string
  im_labels :: "string list"
  im_milestone :: int
  im_milestoneTitle :: string
  im_assignees :: "string list"

definition primaryAssignee :: "issue_meta \<Rightarrow> string" where
  "primaryAssignee m = (case im_assignees m of [] \<Rightarrow> [] | a # _ \<Rightarrow> a)"

definition issue_payload :: "issue_meta \<Rightarrow> json" where
  "issue_payload m = JObj [(''number'', JNum (im_number m)), (''title'', JStr (im_title m)), (''state'', JStr (im_state m)),
     (''htmlUrl'', JStr (im_htmlUrl m)), (''labels'', jstrs (im_labels m)), (''milestone'', JNum (im_milestone m)),
     (''milestoneTitle'', JStr (im_milestoneTitle m)), (''assignee'', JStr (primaryAssignee m))]"

fun stringsFromAny :: "json \<Rightarrow> string list" where
  "stringsFromAny (JArr l) = filter (\<lambda>s. s \<noteq> []) (map strFromAny l)"
| "stringsFromAny _ = []"

definition decodeIssueMeta :: "(string \<times> json) list \<Rightarrow> derr + issue_meta" where
  "decodeIssueMeta out = (case map_of out ''issue'' of
       Some (JObj raw) \<Rightarrow>
         let m = \<lparr> im_number = intFromAny (any_at raw ''number''), im_title = strFromAny (any_at raw ''title''),
                   im_body = strFromAny (any_at raw ''body''), im_state = strFromAny (any_at raw ''state''),
                   im_htmlUrl = strFromAny (any_at raw ''html_url''), im_labels = stringsFromAny (any_at raw ''labels''),
                   im_milestone = intFromAny (any_at raw ''milestone''),
                   im_milestoneTitle = strFromAny (any_at raw ''milestone_title''),
                   im_assignees = stringsFromAny (any_at raw ''assignees'') \<rparr>
         in if im_number m \<le> 0 then Inl (Plain (Errf ''ora response contained no issue number'')) else Inr m
     | _ \<Rightarrow> Inl (Plain (Errf ''ora response did not contain an issue object'')))"

section \<open>Failures\<close>

definition issueHTTPStatus :: "derr \<Rightarrow> int \<times> string" where
  "issueHTTPStatus e = (case as_fault e of
       None \<Rightarrow> (502, ''upstream_error'')
     | Some f \<Rightarrow>
         if pf_status f = ''missing_issues_permission'' then (403, pf_status f)
         else if pf_status f = ''issue_not_found'' then (404, pf_status f)
         else if pf_code f = 403 \<or> pf_code f = 404 then (pf_code f, pf_status f)
         else (502, pf_status f))"

definition issue_failed_task :: "string \<Rightarrow> string \<Rightarrow> task \<Rightarrow> task" where
  "issue_failed_task what reason t = t\<lparr>t_issueSyncError := what @ '': '' @ reason\<rparr>"

definition sync_failure_line :: "string \<Rightarrow> string \<Rightarrow> string \<Rightarrow> time \<Rightarrow> string" where
  "sync_failure_line what status reason now =
     ''['' @ rfc3339 now @ ''] '' @ what @ '' FAILED status='' @ status @ '': '' @ reason @ newline"

definition recordIssueFailure :: "project \<Rightarrow> string \<Rightarrow> string \<Rightarrow> derr \<Rightarrow> reply act" where
  "recordIssueFailure p sid what e = do {
     let (code, status) = issueHTTPStatus e;
     _ \<leftarrow> MutateTask (p_id p) sid (issue_failed_task what (ierr_text e));
     now \<leftarrow> nowUTC;
     _ \<leftarrow> AppendSpecLog (p_id p) sid ''github-issue-sync'' (sync_failure_line what status (ierr_text e) now);
     State_Monad.return (Fields code (jfields ([(''error'', JStr (ierr_text e)), (''status'', JStr status),
       (''specId'', JStr sid)] @ fault_fields e))) }"

definition issueSyncContext :: "project \<Rightarrow> string \<Rightarrow> bool \<Rightarrow> (reply + task) act" where
  "issueSyncContext p sid requireLink =
     (if blank sid then State_Monad.return (Inl (bad_request 400 ''specId required'' ''invalid_request'' []))
      else if blank (p_ownerRepo p) \<or> blank (p_connectorId p)
      then State_Monad.return (Inl (bad_request 400 ''this OPM project has no linked GitHub repository or connector''
             ''not_linked_repo'' []))
      else do {
        r \<leftarrow> GetTask (p_id p) sid;
        State_Monad.return (case r of
            Inl e \<Rightarrow> Inl (bad_request 404 (err_text e) ''task_not_found'' [])
          | Inr t \<Rightarrow>
              if requireLink \<and> t_issueNumber t \<le> 0
              then Inl (bad_request 400 (''task is not linked to a GitHub issue '' @ em_dash @ '' link one first'')
                     ''no_issue_linked'' [(''specId'', JStr sid)])
              else Inr t) })"

section \<open>The mirror\<close>

definition issue_changes :: "issue_meta \<Rightarrow> task \<Rightarrow> string list" where
  "issue_changes m t =
     (if t_issueState t \<noteq> im_state m then [''state''] else []) @
     (if t_issueTitle t \<noteq> im_title m then [''title''] else []) @
     (if t_issueAssignee t \<noteq> primaryAssignee m then [''assignee''] else []) @
     (if t_issueLabels t \<noteq> im_labels m then [''labels''] else []) @
     (if im_milestone m \<noteq> t_milestoneNumber t then [''milestone''] else [])"

text \<open>\<open>applyIssueMirror\<close>: a field is written when it differs, so each one ends as the issue has it.\<close>

definition applyIssueMirror :: "issue_meta \<Rightarrow> time \<Rightarrow> task \<Rightarrow> task" where
  "applyIssueMirror m now t0 =
     (let t1 = t0\<lparr> t_issueState := im_state m, t_issueTitle := im_title m, t_issueAssignee := primaryAssignee m,
                   t_issueLabels := im_labels m \<rparr>;
          t2 = (if im_milestone m \<noteq> t_milestoneNumber t1
                then (if im_milestone m \<le> 0
                      then t1\<lparr>t_milestoneNumber := im_milestone m, t_milestoneTitle := [], t_milestoneUrl := []\<rparr>
                      else t1\<lparr>t_milestoneNumber := im_milestone m, t_milestoneTitle := im_milestoneTitle m\<rparr>)
                else t1)
      in t2\<lparr> t_issueNumber := im_number m, t_issueUrl := im_htmlUrl m, t_issueSyncedAt := Some now,
             t_issueSyncError := [] \<rparr>)"

section \<open>The routes\<close>

definition sync_log :: "project \<Rightarrow> string \<Rightarrow> (time \<Rightarrow> string) \<Rightarrow> unit act" where
  "sync_log p sid line = do {
     now \<leftarrow> nowUTC;
     _ \<leftarrow> AppendSpecLog (p_id p) sid ''github-issue-sync'' (line now);
     State_Monad.return () }"

text \<open>The mutation runs under the store's lock and reads the clock there; \<open>extra\<close> is what a route
  does to the task besides mirroring.\<close>

definition mirror_task :: "project \<Rightarrow> string \<Rightarrow> issue_meta \<Rightarrow> (task \<Rightarrow> task) \<Rightarrow> task actE" where
  "mirror_task p sid m extra = do {
     now \<leftarrow> nowUTC;
     MutateTask (p_id p) sid (\<lambda>t. extra (applyIssueMirror m now t)) }"

definition bad_json :: reply where
  "bad_json = bad_request 400 ''invalid json'' ''invalid_request'' []"

record link_request =
  lr_specId :: string
  lr_issueNumber :: int
  lr_create :: bool
  lr_title :: string
  lr_body :: string
  lr_labels :: "string list"

definition link_of :: "(string \<times> json) list \<Rightarrow> link_request option" where
  "link_of o1 = do {
     s \<leftarrow> str_field o1 ''specId''; n \<leftarrow> int_field o1 ''issueNumber''; c \<leftarrow> bool_field o1 ''create'';
     t \<leftarrow> str_field o1 ''title''; b \<leftarrow> str_field o1 ''body''; l \<leftarrow> field_or json_strings [] o1 ''labels'';
     Some \<lparr>lr_specId = s, lr_issueNumber = n, lr_create = c, lr_title = t, lr_body = b, lr_labels = l\<rparr> }"

text \<open>The call a link makes: the issue that is there, or a new one; none when its title is empty.\<close>

definition link_call :: "externals \<Rightarrow> project \<Rightarrow> string \<Rightarrow> task \<Rightarrow> link_request \<Rightarrow> (derr + (string \<times> json) list) act option" where
  "link_call x p user t q =
     (if lr_issueNumber q > 0 then Some (peerGetIssue x p user (lr_issueNumber q))
      else let title = or_text (trim_space (lr_title q)) (t_title t);
               body = or_text (lr_body q) (t_description t)
           in if blank title then None
              else Some (peerCreateIssue x p user title body (lr_labels q) (t_milestoneNumber t)))"

definition link_mode :: "link_request \<Rightarrow> string" where
  "link_mode q = (if lr_issueNumber q > 0 then ''attached'' else ''created'')"

text \<open>An answer of ORA decoded to an issue.\<close>

definition issue_answer :: "derr + (string \<times> json) list \<Rightarrow> derr + issue_meta" where
  "issue_answer r = (case r of Inl e \<Rightarrow> Inl e | Inr out \<Rightarrow> decodeIssueMeta out)"

definition link_done :: "project \<Rightarrow> link_request \<Rightarrow> issue_meta \<Rightarrow> reply act" where
  "link_done p q m = do {
     ru \<leftarrow> mirror_task p (lr_specId q) m id;
     case ru of
       Inl e \<Rightarrow> State_Monad.return (Failed 400 (err_text e))
     | Inr t \<Rightarrow> do {
         _ \<leftarrow> sync_log p (lr_specId q) (\<lambda>now. ''['' @ rfc3339 now @ ''] link '' @ link_mode q @ '' issue #'' @
           itoa (im_number m) @ '' '' @ im_htmlUrl m @ newline);
         State_Monad.return (Fields 200 (jfields [(''ok'', JBool True), (''mode'', JStr (link_mode q)),
           (''specId'', JStr (lr_specId q)), (''issue'', issue_payload m)] @ [(''task'', PTask t)])) } }"

definition handleIssueLink :: "externals \<Rightarrow> http \<Rightarrow> project \<Rightarrow> reply act" where
  "handleIssueLink x h p = (case Option.bind (body_object h) link_of of
       None \<Rightarrow> State_Monad.return bad_json
     | Some q \<Rightarrow> do {
         c \<leftarrow> issueSyncContext p (lr_specId q) False;
         case c of
           Inl a \<Rightarrow> State_Monad.return a
         | Inr t \<Rightarrow>
             if lr_issueNumber q \<le> 0 \<and> \<not> lr_create q
             then State_Monad.return (bad_request 400 (''provide issueNumber to attach an existing issue, '' @
                    ''or create=true to open a new one'') ''invalid_request'' [])
             else (case link_call x p (user_of h) t q of
                 None \<Rightarrow> State_Monad.return (bad_request 400 ''cannot create an issue with an empty title'' ''invalid_request'' [])
               | Some call \<Rightarrow> do {
                   r \<leftarrow> call;
                   case issue_answer r of
                     Inl e \<Rightarrow> recordIssueFailure p (lr_specId q) (''link ('' @ link_mode q @ '')'') e
                   | Inr m \<Rightarrow> link_done p q m }) })"

definition handleIssueUnlink :: "http \<Rightarrow> project \<Rightarrow> reply act" where
  "handleIssueUnlink h p = (case Option.bind (body_object h) (\<lambda>o1. str_field o1 ''specId'') of
       None \<Rightarrow> State_Monad.return bad_json
     | Some sid \<Rightarrow>
         if blank sid then State_Monad.return (bad_request 400 ''specId required'' ''invalid_request'' [])
         else do {
           rp \<leftarrow> GetTask (p_id p) sid;
           case rp of
             Inl e \<Rightarrow> State_Monad.return (bad_request 404 (err_text e) ''task_not_found'' [])
           | Inr prev \<Rightarrow> do {
               ru \<leftarrow> MutateTask (p_id p) sid clearIssueLink;
               case ru of
                 Inl e \<Rightarrow> State_Monad.return (Failed 400 (err_text e))
               | Inr t \<Rightarrow> do {
                   _ \<leftarrow> sync_log p sid (\<lambda>now. ''['' @ rfc3339 now @ ''] unlink issue #'' @ itoa (t_issueNumber prev) @
                     '' (issue left open on GitHub)'' @ newline);
                   State_Monad.return (Fields 200 (jfields [(''ok'', JBool True), (''specId'', JStr sid),
                     (''unlinkedIssueNumber'', JNum (t_issueNumber prev)),
                     (''note'', JStr ''the GitHub issue was left untouched'')] @ [(''task'', PTask t)])) } } })"

definition pushed_state :: "task \<Rightarrow> string" where
  "pushed_state t = (case issueStateForColumn (t_status t) of None \<Rightarrow> [] | Some s \<Rightarrow> s)"

definition push_done :: "project \<Rightarrow> string \<Rightarrow> task \<Rightarrow> issue_meta \<Rightarrow> string list \<Rightarrow> reply act" where
  "push_done p sid t m pushed = do {
     ru \<leftarrow> mirror_task p sid m id;
     case ru of
       Inl e \<Rightarrow> State_Monad.return (Failed 400 (err_text e))
     | Inr t' \<Rightarrow> do {
         _ \<leftarrow> sync_log p sid (\<lambda>now. ''['' @ rfc3339 now @ ''] push issue #'' @ itoa (t_issueNumber t) @ '' column='' @
           t_status t @ '' state='' @ nz (pushed_state t) ''(unmapped column, state not pushed)'' @ '' fields='' @
           join '','' pushed @ newline);
         State_Monad.return (Fields 200 (jfields ([(''ok'', JBool True), (''specId'', JStr sid), (''pushed'', jstrs pushed),
           (''boardColumn'', JStr (t_status t)), (''issueState'', JStr (pushed_state t)), (''issue'', issue_payload m)] @
           (if issueStateForColumn (t_status t) = None
            then [(''note'', JStr (''board column '' @ quote (t_status t) @
                    '' has no issue-state mapping; state was not pushed''))] else [])) @ [(''task'', PTask t')])) } }"

definition handleIssuePush :: "externals \<Rightarrow> http \<Rightarrow> project \<Rightarrow> reply act" where
  "handleIssuePush x h p = (case Option.bind (body_object h) (\<lambda>o1. str_field o1 ''specId'') of
       None \<Rightarrow> State_Monad.return bad_json
     | Some sid \<Rightarrow> do {
         c \<leftarrow> issueSyncContext p sid True;
         case c of
           Inl a \<Rightarrow> State_Monad.return a
         | Inr t \<Rightarrow> do {
             r \<leftarrow> peerUpdateIssue x p (user_of h) (t_issueNumber t) (t_title t) (t_description t) (pushed_state t)
               (t_milestoneNumber t) None;
             case issue_answer r of
               Inl e \<Rightarrow> recordIssueFailure p sid ''push'' e
             | Inr m \<Rightarrow> push_done p sid t m (case r of Inl _ \<Rightarrow> [] | Inr out \<Rightarrow> stringsFromAny (any_at out ''applied'')) } })"

text \<open>The title is taken over on demand only.\<close>

definition adopts :: "bool \<Rightarrow> issue_meta \<Rightarrow> task \<Rightarrow> bool" where
  "adopts adopt m t \<longleftrightarrow> adopt \<and> \<not> blank (im_title m) \<and> t_title t \<noteq> im_title m"

definition adopt_title :: "bool \<Rightarrow> issue_meta \<Rightarrow> task \<Rightarrow> task" where
  "adopt_title adopt m t = (if adopts adopt m t then t\<lparr>t_title := im_title m\<rparr> else t)"

text \<open>The issue's state drives the column: the column moved to, and the task afterwards.\<close>

definition pull_column :: "project \<Rightarrow> string \<Rightarrow> issue_meta \<Rightarrow> task \<Rightarrow> (string option \<times> task) act" where
  "pull_column p sid m t = (case columnForIssueState (im_state m) (t_status t) of
       None \<Rightarrow> State_Monad.return (None, t)
     | Some column \<Rightarrow> do {
         rm \<leftarrow> MoveTask (p_id p) sid column;
         case rm of
           Inl e \<Rightarrow> do {
             _ \<leftarrow> sync_log p sid (\<lambda>now. ''['' @ rfc3339 now @ ''] pull issue #'' @ itoa (im_number m) @ '': column move to '' @
               column @ '' failed: '' @ err_text e @ newline);
             State_Monad.return (None, t) }
         | Inr moved \<Rightarrow> State_Monad.return (Some column, moved) })"

definition title_diverged :: "issue_meta \<Rightarrow> task \<Rightarrow> bool" where
  "title_diverged m t \<longleftrightarrow> \<not> blank (im_title m) \<and> t_title t \<noteq> im_title m"

definition pull_answer :: "string \<Rightarrow> issue_meta \<Rightarrow> string list \<Rightarrow> string option \<Rightarrow> task \<Rightarrow> reply" where
  "pull_answer sid m changed moved t = Fields 200 (jfields ([(''ok'', JBool True), (''specId'', JStr sid),
       (''changed'', jstrs changed), (''issue'', issue_payload m), (''titleDiverged'', JBool (title_diverged m t)),
       (''movedTo'', case moved of None \<Rightarrow> JNull | Some c \<Rightarrow> JStr c)] @
     (if title_diverged m t then [(''note'', JStr (''the issue title differs from the task title; OPM kept the task title '' @
        ''(send adoptTitle=true to take the issue title)''))] else [])) @ [(''task'', PTask t)])"

text \<open>The changed fields are those of the task the mutation reads; the source has its closure write
  them to a variable outside, the model reads the task once more before.\<close>

definition pull_done :: "project \<Rightarrow> string \<Rightarrow> bool \<Rightarrow> issue_meta \<Rightarrow> reply act" where
  "pull_done p sid adopt m = do {
     r0 \<leftarrow> GetTask (p_id p) sid;
     ru \<leftarrow> mirror_task p sid m (adopt_title adopt m);
     case ru of
       Inl e \<Rightarrow> State_Monad.return (Failed 400 (err_text e))
     | Inr t \<Rightarrow> do {
         let changed = (case r0 of Inl _ \<Rightarrow> [] | Inr old \<Rightarrow> issue_changes m old @ (if adopts adopt m old then [''taskTitle''] else []));
         (moved, t') \<leftarrow> pull_column p sid m t;
         let changed' = changed @ (if moved = None then [] else [''boardColumn'']);
         _ \<leftarrow> sync_log p sid (\<lambda>now. ''['' @ rfc3339 now @ ''] pull issue #'' @ itoa (im_number m) @ '' state='' @ im_state m @
           '' changed='' @ nz (join '','' changed') ''(nothing)'' @ '' movedTo='' @
           nz (case moved of None \<Rightarrow> [] | Some c \<Rightarrow> c) ''-'' @ newline);
         State_Monad.return (pull_answer sid m changed' moved t') } }"

definition pull_of :: "(string \<times> json) list \<Rightarrow> (string \<times> bool) option" where
  "pull_of o1 = do { s \<leftarrow> str_field o1 ''specId''; a \<leftarrow> bool_field o1 ''adoptTitle''; Some (s, a) }"

definition handleIssuePull :: "externals \<Rightarrow> http \<Rightarrow> project \<Rightarrow> reply act" where
  "handleIssuePull x h p = (case Option.bind (body_object h) pull_of of
       None \<Rightarrow> State_Monad.return bad_json
     | Some (sid, adopt) \<Rightarrow> do {
         c \<leftarrow> issueSyncContext p sid True;
         case c of
           Inl a \<Rightarrow> State_Monad.return a
         | Inr t \<Rightarrow> do {
             r \<leftarrow> peerGetIssue x p (user_of h) (t_issueNumber t);
             case issue_answer r of
               Inl e \<Rightarrow> recordIssueFailure p sid ''pull'' e
             | Inr m \<Rightarrow> pull_done p sid adopt m } })"

definition handleGitHubIssues :: "externals \<Rightarrow> http \<Rightarrow> project \<Rightarrow> string list \<Rightarrow> reply act" where
  "handleGitHubIssues x h p rest = (case rest of
       [] \<Rightarrow> State_Monad.return not_found
     | r # _ \<Rightarrow> only ''POST'' h
         (if r = ''link'' then handleIssueLink x h p
          else if r = ''unlink'' then handleIssueUnlink h p
          else if r = ''push'' then handleIssuePush x h p
          else if r = ''pull'' then handleIssuePull x h p
          else State_Monad.return not_found))"

end
