(* ===== verification/Project_Sync.thy ===== *)
theory Project_Sync
  imports Issue_Sync
begin

text \<open>
  A task and its item on a GitHub Projects board (\<open>github_project_sync.go\<close>): the sync of one
  task with its outcome recorded either way, the sync after an edit and after a move, and the
  two routes that unbind.
\<close>

section \<open>Statuses\<close>

definition projectSyncOK :: string where "projectSyncOK = ''ok''"
definition projectSyncNothingToSync :: string where "projectSyncNothingToSync = ''nothing_to_sync''"
definition projectSyncMissingPerm :: string where "projectSyncMissingPerm = ''missing_organization_projects''"
definition projectSyncTitleUnsupported :: string where "projectSyncTitleUnsupported = ''title_sync_unsupported''"
definition projectSyncItemNotFound :: string where "projectSyncItemNotFound = ''item_not_found''"
definition projectSyncUpstreamError :: string where "projectSyncUpstreamError = ''upstream_error''"
definition projectSyncInvalidRequest :: string where "projectSyncInvalidRequest = ''invalid_request''"
definition projectSyncTaskNotFound :: string where "projectSyncTaskNotFound = ''task_not_found''"
definition projectSyncNoProjectBound :: string where "projectSyncNoProjectBound = ''no_project_bound''"
definition projectSyncPeerNotConfig :: string where "projectSyncPeerNotConfig = ''peer_not_configured''"

lemmas project_statuses = projectSyncOK_def projectSyncNothingToSync_def projectSyncMissingPerm_def
  projectSyncTitleUnsupported_def projectSyncItemNotFound_def projectSyncUpstreamError_def
  projectSyncInvalidRequest_def projectSyncTaskNotFound_def projectSyncNoProjectBound_def projectSyncPeerNotConfig_def

definition projectSyncHTTPStatus :: "derr \<Rightarrow> int \<times> string" where
  "projectSyncHTTPStatus e = (case as_fault e of
       None \<Rightarrow> (502, projectSyncUpstreamError)
     | Some f \<Rightarrow>
         if pf_status f = projectSyncMissingPerm then (403, pf_status f)
         else if pf_status f = projectSyncItemNotFound then (404, pf_status f)
         else if pf_status f = projectSyncTitleUnsupported then (422, pf_status f)
         else if pf_code f = 403 \<or> pf_code f = 404 then (pf_code f, pf_status f)
         else (502, pf_status f))"

definition projectStatusHTTPCode :: "string \<Rightarrow> int" where
  "projectStatusHTTPCode status =
     (if status = projectSyncMissingPerm then 403
      else if status = projectSyncItemNotFound then 404
      else if status = projectSyncTitleUnsupported then 422
      else if status \<in> {projectSyncOK, projectSyncNothingToSync} then 200
      else if status \<in> {projectSyncNoProjectBound, projectSyncInvalidRequest} then 400
      else if status = projectSyncTaskNotFound then 404
      else if status = projectSyncPeerNotConfig then 503
      else 502)"

section \<open>What ORA reports\<close>

record project_item_sync =
  ps_itemId :: string
  ps_titleSynced :: bool
  ps_titleStatus :: string
  ps_titleNote :: string
  ps_statusSynced :: bool
  ps_statusNote :: string

definition silent_ora :: string where
  "silent_ora = ''ORA did not report a title_status; it may predate Projects v2 title sync''"

definition decodeProjectItemSync :: "(string \<times> json) list \<Rightarrow> project_item_sync" where
  "decodeProjectItemSync out =
     (let s = \<lparr> ps_itemId = strFromAny (any_at out ''item_id''), ps_titleSynced = bool_at ''title_synced'' out,
                ps_titleStatus = strFromAny (any_at out ''title_status''), ps_titleNote = strFromAny (any_at out ''title_note''),
                ps_statusSynced = bool_at ''status_synced'' out, ps_statusNote = strFromAny (any_at out ''status_note'') \<rparr>
      in if ps_titleStatus s = []
         then s\<lparr>ps_titleStatus := projectSyncUpstreamError, ps_titleNote := or_text (ps_titleNote s) silent_ora\<rparr>
         else s)"

definition title_failed :: "project_item_sync \<Rightarrow> bool" where
  "title_failed s \<longleftrightarrow> \<not> ps_titleSynced s \<and> ps_titleStatus s \<noteq> projectSyncNothingToSync"

definition peerUpsertProjectItem ::
  "externals \<Rightarrow> project \<Rightarrow> string \<Rightarrow> string \<Rightarrow> string \<Rightarrow> string \<Rightarrow> string \<Rightarrow> string \<Rightarrow> (derr + (string \<times> json) list) act" where
  "peerUpsertProjectItem x p user ghProject item title body hint =
     peerIssueCall x (p_organizationId p) user ''/api/peer/scm/projects/items/upsert''
       [(''connector_id'', JStr (p_connectorId p)), (''project_id'', JStr ghProject), (''item_id'', JStr item),
        (''title'', JStr title), (''body'', JStr body), (''status_hint'', JStr hint)]"

definition peerSetProjectItemStatus ::
  "externals \<Rightarrow> project \<Rightarrow> string \<Rightarrow> string \<Rightarrow> string \<Rightarrow> string \<Rightarrow> (derr + (string \<times> json) list) act" where
  "peerSetProjectItemStatus x p user ghProject item hint =
     peerIssueCall x (p_organizationId p) user ''/api/peer/scm/projects/items/status''
       [(''connector_id'', JStr (p_connectorId p)), (''project_id'', JStr ghProject), (''item_id'', JStr item),
        (''status_hint'', JStr hint)]"

section \<open>Recording\<close>

definition project_failed_task :: "string \<Rightarrow> string \<Rightarrow> task \<Rightarrow> task" where
  "project_failed_task what reason t = t\<lparr>t_projectSyncError := what @ '': '' @ reason\<rparr>"

definition recordProjectSyncFailure :: "project \<Rightarrow> string \<Rightarrow> string \<Rightarrow> string \<Rightarrow> string \<Rightarrow> unit act" where
  "recordProjectSyncFailure p sid what status reason =
     (if sid = [] then State_Monad.return ()
      else do {
        _ \<leftarrow> MutateTask (p_id p) sid (project_failed_task what reason);
        now \<leftarrow> nowUTC;
        _ \<leftarrow> AppendSpecLog (p_id p) sid ''github-project-sync'' (sync_failure_line what status reason now);
        State_Monad.return () })"

definition project_synced_task :: "string \<Rightarrow> string \<Rightarrow> time \<Rightarrow> task \<Rightarrow> task" where
  "project_synced_task gh item now t = t\<lparr>
     t_projectId := (if gh \<noteq> [] then gh else t_projectId t),
     t_projectItemId := (if item \<noteq> [] then item else t_projectItemId t),
     t_projectSyncedAt := Some now, t_projectSyncError := []\<rparr>"

definition recordProjectSyncSuccess :: "project \<Rightarrow> string \<Rightarrow> string \<Rightarrow> string \<Rightarrow> task actE" where
  "recordProjectSyncSuccess p sid gh item = do {
     now \<leftarrow> nowUTC;
     MutateTask (p_id p) sid (project_synced_task gh item now) }"

definition clearProjectLink :: "task \<Rightarrow> task" where
  "clearProjectLink t = t\<lparr>t_projectId := [], t_projectItemId := [], t_projectSyncedAt := None, t_projectSyncError := []\<rparr>"

section \<open>One sync\<close>

record sync_outcome =
  so_status :: string
  so_reason :: string
  so_itemId :: string
  so_synced :: bool
  so_missing :: "string list"
  so_task :: task

definition not_synced :: "string \<Rightarrow> string \<Rightarrow> task \<Rightarrow> sync_outcome" where
  "not_synced status reason t = \<lparr>so_status = status, so_reason = reason, so_itemId = [], so_synced = False,
     so_missing = [], so_task = t\<rparr>"

definition sync_ok :: "sync_outcome \<Rightarrow> bool" where
  "sync_ok s \<longleftrightarrow> so_synced s \<or> so_status s = projectSyncNothingToSync"

definition sync_payload :: "sync_outcome \<Rightarrow> (string \<times> json) list" where
  "sync_payload s = [(''status'', JStr (so_status s)), (''titleSynced'', JBool (so_synced s)), (''githubItemId'', JStr (so_itemId s))] @
     (if so_reason s \<noteq> [] then [(''error'', JStr (so_reason s))] else []) @
     (if so_missing s \<noteq> [] then [(''missing'', jstrs (so_missing s))] else [])"

text \<open>The task as stored, when it can be read.\<close>

definition with_stored :: "project \<Rightarrow> string \<Rightarrow> sync_outcome \<Rightarrow> sync_outcome act" where
  "with_stored p sid s = do {
     r \<leftarrow> GetTask (p_id p) sid;
     State_Monad.return (case r of Inl e \<Rightarrow> s | Inr t \<Rightarrow> s\<lparr>so_task := t\<rparr>) }"

definition bound_project :: "project \<Rightarrow> task \<Rightarrow> string" where
  "bound_project p t = or_text (t_projectId t) (p_githubProjectId p)"

text \<open>ORA answered, and the title did not land: the item's id is kept when it is new.\<close>

definition title_reason :: "project_item_sync \<Rightarrow> string" where
  "title_reason sy = or_text (ps_titleNote sy) ''ORA reported title_synced=false''"

definition sync_partial :: "project \<Rightarrow> task \<Rightarrow> string \<Rightarrow> string \<Rightarrow> project_item_sync \<Rightarrow> string \<Rightarrow> sync_outcome act" where
  "sync_partial p t what gh sy item = do {
     _ \<leftarrow> recordProjectSyncFailure p (t_specId t) what (ps_titleStatus sy) (title_reason sy);
     _ \<leftarrow> (if item \<noteq> [] \<and> item \<noteq> t_projectItemId t
          then MutateTask (p_id p) (t_specId t) (\<lambda>tt. tt\<lparr>t_projectId := gh, t_projectItemId := item\<rparr>)
          else okE t);
     with_stored p (t_specId t) ((not_synced (ps_titleStatus sy) (title_reason sy) t)\<lparr>so_itemId := item\<rparr>) }"

definition sync_answered :: "project \<Rightarrow> task \<Rightarrow> string \<Rightarrow> string \<Rightarrow> (string \<times> json) list \<Rightarrow> sync_outcome act" where
  "sync_answered p t what gh out =
     (let sy = decodeProjectItemSync out; item = or_text (ps_itemId sy) (t_projectItemId t) in
      if title_failed sy then sync_partial p t what gh sy item
      else do {
        ru \<leftarrow> recordProjectSyncSuccess p (t_specId t) gh item;
        State_Monad.return (case ru of
            Inl e \<Rightarrow> (not_synced projectSyncUpstreamError (''board updated but the task could not be saved: '' @ err_text e) t)
                       \<lparr>so_itemId := item\<rparr>
          | Inr t' \<Rightarrow> \<lparr>so_status = or_text (ps_titleStatus sy) projectSyncOK, so_reason = [], so_itemId = item,
                       so_synced = True, so_missing = [], so_task = t'\<rparr>) })"

definition fault_missing :: "derr \<Rightarrow> string list" where
  "fault_missing e = (case as_fault e of None \<Rightarrow> [] | Some f \<Rightarrow> pf_missing f)"

definition syncTaskProjectItem :: "externals \<Rightarrow> project \<Rightarrow> task \<Rightarrow> string \<Rightarrow> string \<Rightarrow> sync_outcome act" where
  "syncTaskProjectItem x p t what user =
     (if \<not> x_ora x then State_Monad.return (not_synced projectSyncPeerNotConfig
          ''PEER_ORA_URL is not set, so no board sync was attempted'' t)
      else let gh = bound_project p t in
      if gh = [] then State_Monad.return (not_synced projectSyncNoProjectBound
          ''no GitHub Project is bound to this task or project'' t)
      else if blank (t_title t) then State_Monad.return (not_synced projectSyncNothingToSync ''task has no title to sync'' t)
      else do {
        r \<leftarrow> peerUpsertProjectItem x p user gh (t_projectItemId t) (t_title t) (t_description t) (t_status t);
        case r of
          Inl e \<Rightarrow> do {
            let (code, status) = projectSyncHTTPStatus e;
            _ \<leftarrow> recordProjectSyncFailure p (t_specId t) what status (ierr_text e);
            with_stored p (t_specId t) ((not_synced status (ierr_text e) t)\<lparr>so_missing := fault_missing e\<rparr>) }
        | Inr out \<Rightarrow> sync_answered p t what gh out })"

section \<open>After an edit, after a move\<close>

definition taskTextChanged :: "task \<Rightarrow> task \<Rightarrow> bool" where
  "taskTextChanged prev next \<longleftrightarrow> t_title prev \<noteq> t_title next \<or> t_description prev \<noteq> t_description next"

definition syncTaskProjectAfterEdit :: "externals \<Rightarrow> project \<Rightarrow> task \<Rightarrow> string \<Rightarrow> sync_outcome act" where
  "syncTaskProjectAfterEdit x p t user =
     (if t_projectItemId t = []
      then State_Monad.return (not_synced projectSyncNoProjectBound ''task is not bound to a board item'' t)
      else syncTaskProjectItem x p t ''push title/description'' user)"

text \<open>The goroutine after a move.\<close>

definition push_column_status :: "externals \<Rightarrow> project \<Rightarrow> task \<Rightarrow> string \<Rightarrow> string \<Rightarrow> unit act" where
  "push_column_status x p t gh user = do {
     r \<leftarrow> peerSetProjectItemStatus x p user gh (t_projectItemId t) (t_status t);
     case r of
       Inl e \<Rightarrow> recordProjectSyncFailure p (t_specId t) ''move column'' (snd (projectSyncHTTPStatus e)) (ierr_text e)
     | Inr out \<Rightarrow>
         if \<not> bool_at ''status_synced'' out
         then recordProjectSyncFailure p (t_specId t) ''move column''
           (or_text (strFromAny (any_at out ''status'')) projectSyncUpstreamError)
           (or_text (strFromAny (any_at out ''status_note'')) ''ORA reported status_synced=false'')
         else do {
           now \<leftarrow> nowUTC;
           _ \<leftarrow> MutateTask (p_id p) (t_specId t) (\<lambda>tt. tt\<lparr>t_projectSyncedAt := Some now, t_projectSyncError := []\<rparr>);
           State_Monad.return () } }"

text \<open>\<open>syncTaskGitHubAfterMove\<close>: the goroutine it starts, if any.\<close>

definition syncTaskGitHubAfterMove :: "externals \<Rightarrow> project \<Rightarrow> task \<Rightarrow> string \<Rightarrow> unit act option" where
  "syncTaskGitHubAfterMove x p t user =
     (if \<not> x_ora x then None
      else let gh = bound_project p t in
      if gh = [] \<or> t_projectItemId t = [] then None else Some (push_column_status x p t gh user))"

section \<open>Unbinding\<close>

definition handleProjectUnbind :: "http \<Rightarrow> project \<Rightarrow> reply act" where
  "handleProjectUnbind h p = only ''POST'' h
     (if p_githubProjectId p = []
      then State_Monad.return (bad_request 400 ''no GitHub Project is bound to this OPM project'' ''not_bound'' [])
      else do {
        r \<leftarrow> UnbindGitHubProject (p_id p);
        State_Monad.return (found_or 400 (\<lambda>q. Fields 200 (jfields [(''ok'', JBool True), (''status'', JStr projectSyncOK),
          (''unboundProjectId'', JStr (p_githubProjectId p)), (''unboundProjectTitle'', JStr (p_githubProjectTitle p)),
          (''note'', JStr ''the GitHub Project and its items were left untouched; task-level binds are unaffected'')] @
          [(''project'', PProject q)])) r) })"

definition handleTaskProjectUnbind :: "http \<Rightarrow> project \<Rightarrow> reply act" where
  "handleTaskProjectUnbind h p = only ''POST'' h (case Option.bind (body_object h) (\<lambda>o1. str_field o1 ''specId'') of
       None \<Rightarrow> State_Monad.return bad_json
     | Some sid0 \<Rightarrow> let sid = trim_space sid0 in
         if sid = [] then State_Monad.return (bad_request 400 ''specId required'' projectSyncInvalidRequest [])
         else do {
           rp \<leftarrow> GetTask (p_id p) sid;
           case rp of
             Inl e \<Rightarrow> State_Monad.return (bad_request 404 (err_text e) projectSyncTaskNotFound [])
           | Inr prev \<Rightarrow>
               if t_projectItemId prev = [] \<and> t_projectId prev = []
               then State_Monad.return (bad_request 400 ''task is not bound to a board item'' ''not_bound'' [(''specId'', JStr sid)])
               else do {
                 ru \<leftarrow> MutateTask (p_id p) sid clearProjectLink;
                 case ru of
                   Inl e \<Rightarrow> State_Monad.return (Failed 400 (err_text e))
                 | Inr t \<Rightarrow> do {
                     now \<leftarrow> nowUTC;
                     _ \<leftarrow> AppendSpecLog (p_id p) sid ''github-project-sync'' (''['' @ rfc3339 now @ ''] unbind board item '' @
                       t_projectItemId prev @ '' (item left on the board)'' @ newline);
                     State_Monad.return (Fields 200 (jfields [(''ok'', JBool True), (''status'', JStr projectSyncOK),
                       (''specId'', JStr sid), (''unboundItemId'', JStr (t_projectItemId prev)),
                       (''note'', JStr ''the board item was left untouched'')] @ [(''task'', PTask t)])) } } })"

end
