(* ===== verification/Milestone_Sync.thy ===== *)
theory Milestone_Sync
  imports Project_Sync
begin

text \<open>
  Milestones: the route that drops a milestone from a task, a roadmap feature or a roadmap phase
  (\<open>github_milestone_sync.go\<close>).
\<close>

section \<open>Dropping a milestone\<close>

definition milestoneUnassignNote :: string where
  "milestoneUnassignNote = ''the GitHub milestone was left untouched '' @ em_dash @ '' it was neither closed nor deleted''"

definition clearMilestoneLink :: "task \<Rightarrow> task" where
  "clearMilestoneLink t = t\<lparr>t_milestoneNumber := 0, t_milestoneTitle := [], t_milestoneUrl := []\<rparr>"

definition clearFeatureMilestoneLink :: "roadmap_feature \<Rightarrow> roadmap_feature" where
  "clearFeatureMilestoneLink f = f\<lparr>rf_milestoneNumber := 0, rf_milestoneTitle := [], rf_milestoneUrl := []\<rparr>"

definition clearPhaseMilestoneLink :: "roadmap_phase \<Rightarrow> roadmap_phase" where
  "clearPhaseMilestoneLink ph = ph\<lparr>rp_milestoneNumber := 0, rp_milestoneTitle := [], rp_milestoneUrl := []\<rparr>"

record cleared_milestone =
  cm_target :: string
  cm_id :: string
  cm_number :: int
  cm_title :: string

definition milestoneBound :: "int \<Rightarrow> string \<Rightarrow> string \<Rightarrow> bool" where
  "milestoneBound number title url \<longleftrightarrow> number > 0 \<or> title \<noteq> [] \<or> url \<noteq> []"

text \<open>The first element that satisfies \<open>P\<close>, changed in place.\<close>

fun change_first :: "('a \<Rightarrow> bool) \<Rightarrow> ('a \<Rightarrow> 'a) \<Rightarrow> 'a list \<Rightarrow> 'a list" where
  "change_first P f [] = []"
| "change_first P f (x # xs) = (if P x then f x # xs else x # change_first P f xs)"

text \<open>The three targets, each with what it clears; a missing one stops with its answer.\<close>

definition unassign_task :: "project \<Rightarrow> string \<Rightarrow> (reply + (task \<times> cleared_milestone list)) act" where
  "unassign_task p sid = do {
     rp \<leftarrow> GetTask (p_id p) sid;
     case rp of
       Inl e \<Rightarrow> State_Monad.return (Inl (bad_request 404 (err_text e) ''task_not_found'' [(''specId'', JStr sid)]))
     | Inr prev \<Rightarrow>
         if milestoneBound (t_milestoneNumber prev) (t_milestoneTitle prev) (t_milestoneUrl prev)
         then do {
           ru \<leftarrow> MutateTask (p_id p) sid clearMilestoneLink;
           State_Monad.return (case ru of
               Inl e \<Rightarrow> Inl (Failed 400 (err_text e))
             | Inr t \<Rightarrow> Inr (t, [\<lparr>cm_target = ''task'', cm_id = sid, cm_number = t_milestoneNumber prev,
                               cm_title = t_milestoneTitle prev\<rparr>])) }
         else State_Monad.return (Inr (prev, [])) }"

definition unassign_feature :: "string \<Rightarrow> roadmap \<Rightarrow> reply + (roadmap \<times> cleared_milestone list)" where
  "unassign_feature fid rm =
     (if fid = [] then Inr (rm, [])
      else case List.find (\<lambda>f. rf_id f = fid) (rm_features rm) of
          None \<Rightarrow> Inl (bad_request 404 (''feature '' @ fid @ '' not found in roadmap'') ''feature_not_found'' [(''featureId'', JStr fid)])
        | Some f \<Rightarrow>
            if milestoneBound (rf_milestoneNumber f) (rf_milestoneTitle f) (rf_milestoneUrl f)
            then Inr (rm\<lparr>rm_features := change_first (\<lambda>f. rf_id f = fid) clearFeatureMilestoneLink (rm_features rm)\<rparr>,
                   [\<lparr>cm_target = ''feature'', cm_id = fid, cm_number = rf_milestoneNumber f, cm_title = rf_milestoneTitle f\<rparr>])
            else Inr (rm, []))"

definition unassign_phase :: "string \<Rightarrow> roadmap \<Rightarrow> reply + (roadmap \<times> cleared_milestone list)" where
  "unassign_phase pid rm =
     (if pid = [] then Inr (rm, [])
      else case List.find (\<lambda>ph. rp_id ph = pid) (rm_phases rm) of
          None \<Rightarrow> Inl (bad_request 404 (''phase '' @ pid @ '' not found in roadmap'') ''phase_not_found'' [(''phaseId'', JStr pid)])
        | Some ph \<Rightarrow>
            if milestoneBound (rp_milestoneNumber ph) (rp_milestoneTitle ph) (rp_milestoneUrl ph)
            then Inr (rm\<lparr>rm_phases := change_first (\<lambda>ph. rp_id ph = pid) clearPhaseMilestoneLink (rm_phases rm)\<rparr>,
                   [\<lparr>cm_target = ''phase'', cm_id = pid, cm_number = rp_milestoneNumber ph, cm_title = rp_milestoneTitle ph\<rparr>])
            else Inr (rm, []))"

definition unassign_roadmap :: "string \<Rightarrow> string \<Rightarrow> roadmap \<Rightarrow> reply + (roadmap \<times> cleared_milestone list)" where
  "unassign_roadmap fid phid rm = (case unassign_feature fid rm of
       Inl a \<Rightarrow> Inl a
     | Inr (rm1, c1) \<Rightarrow> (case unassign_phase phid rm1 of
           Inl a \<Rightarrow> Inl a
         | Inr (rm2, c2) \<Rightarrow> Inr (rm2, c1 @ c2)))"

definition unassign_on_roadmap ::
  "project \<Rightarrow> string \<Rightarrow> string \<Rightarrow> (reply + (roadmap option \<times> cleared_milestone list)) act" where
  "unassign_on_roadmap p fid phid =
     (if fid = [] \<and> phid = [] then State_Monad.return (Inr (None, []))
      else do {
        rr \<leftarrow> GetRoadmap (p_id p);
        case rr of
          Inl e \<Rightarrow> State_Monad.return (Inl (bad_request 500 (''roadmap could not be read: '' @ err_text e) ''roadmap_unreadable'' []))
        | Inr rm \<Rightarrow> (case unassign_roadmap fid phid rm of
              Inl a \<Rightarrow> State_Monad.return (Inl a)
            | Inr (rm', cleared) \<Rightarrow>
                if cleared = [] then State_Monad.return (Inr (Some rm', cleared))
                else do {
                  rput \<leftarrow> PutRoadmap (p_id p) rm';
                  State_Monad.return (case rput of
                      Inl e \<Rightarrow> Inl (Failed 400 (err_text e))
                    | Inr _ \<Rightarrow> Inr (Some rm', cleared)) }) })"

definition cleared_json :: "cleared_milestone \<Rightarrow> json" where
  "cleared_json c = JObj ([(''target'', JStr (cm_target c)), (''id'', JStr (cm_id c)), (''milestoneNumber'', JNum (cm_number c))] @
     (if cm_title c = [] then [] else [(''milestoneTitle'', JStr (cm_title c))]))"

definition target_fields :: "string \<Rightarrow> string \<Rightarrow> string \<Rightarrow> (string \<times> json) list" where
  "target_fields sid fid phid = (if sid \<noteq> [] then [(''specId'', JStr sid)] else []) @
     (if fid \<noteq> [] then [(''featureId'', JStr fid)] else []) @ (if phid \<noteq> [] then [(''phaseId'', JStr phid)] else [])"

definition unassign_line :: "cleared_milestone \<Rightarrow> time \<Rightarrow> string" where
  "unassign_line c now = ''['' @ rfc3339 now @ ''] unassign milestone #'' @ itoa (cm_number c) @
     (if cm_title c \<noteq> [] then '' '' @ cm_title c else []) @ '' ('' @ milestoneUnassignNote @ '')'' @ newline"

definition unassign_done ::
  "project \<Rightarrow> string \<Rightarrow> string \<Rightarrow> string \<Rightarrow> task option \<Rightarrow> roadmap option \<Rightarrow> cleared_milestone list \<Rightarrow> reply act" where
  "unassign_done p sid fid phid ot orm cleared = (case cleared of
       [] \<Rightarrow> State_Monad.return (bad_request 400 ''no GitHub milestone is bound to the requested target'' ''not_bound''
               (target_fields sid fid phid))
     | c # _ \<Rightarrow> do {
         _ \<leftarrow> (if sid \<noteq> [] \<and> cm_target c = ''task''
              then do {
                now \<leftarrow> nowUTC;
                _ \<leftarrow> AppendSpecLog (p_id p) sid ''github-milestone-sync'' (unassign_line c now);
                State_Monad.return () }
              else State_Monad.return ());
         State_Monad.return (Fields 200 (jfields ([(''ok'', JBool True), (''status'', JStr ''ok'')] @ target_fields sid fid phid @
           [(''cleared'', JArr (map cleared_json cleared)), (''unassignedMilestoneNumber'', JNum (cm_number c)),
            (''unassignedMilestoneTitle'', JStr (cm_title c)), (''note'', JStr milestoneUnassignNote)]) @
           (case ot of None \<Rightarrow> [] | Some t \<Rightarrow> [(''task'', PTask t)]) @
           (case orm of None \<Rightarrow> [] | Some rm \<Rightarrow> [(''roadmap'', PRoadmap rm)]))) })"

definition unassign_milestones :: "project \<Rightarrow> string \<Rightarrow> string \<Rightarrow> string \<Rightarrow> reply act" where
  "unassign_milestones p sid fid phid =
     (if sid = [] \<and> fid = [] \<and> phid = []
      then State_Monad.return (bad_request 400 ''one of specId, featureId or phaseId is required'' ''invalid_request'' [])
      else do {
        rt \<leftarrow> (if sid = [] then State_Monad.return (Inr (None, []))
              else do { r \<leftarrow> unassign_task p sid; State_Monad.return (map_sum id (map_prod Some id) r) });
        case rt of
          Inl a \<Rightarrow> State_Monad.return a
        | Inr (ot, c1) \<Rightarrow> do {
            rr \<leftarrow> unassign_on_roadmap p fid phid;
            case rr of
              Inl a \<Rightarrow> State_Monad.return a
            | Inr (orm, c2) \<Rightarrow> unassign_done p sid fid phid ot orm (c1 @ c2) } })"

definition targets_of :: "(string \<times> json) list \<Rightarrow> (string \<times> string \<times> string) option" where
  "targets_of o1 = do { s \<leftarrow> str_field o1 ''specId''; f \<leftarrow> str_field o1 ''featureId''; ph \<leftarrow> str_field o1 ''phaseId'';
     Some (trim_space s, trim_space f, trim_space ph) }"

definition handleMilestoneUnassign :: "http \<Rightarrow> project \<Rightarrow> reply act" where
  "handleMilestoneUnassign h p = only ''POST'' h (case Option.bind (body_object h) targets_of of
       None \<Rightarrow> State_Monad.return bad_json
     | Some (sid, fid, phid) \<Rightarrow> unassign_milestones p sid fid phid)"

end
