(* ===== verification/Github_Pm.thy ===== *)
theory Github_Pm
  imports Milestone_Sync
begin

text \<open>
  The routes under \<open>github\<close> of a project (\<open>github_pm.go\<close>): milestones listed and assigned,
  GitHub projects listed and bound, one item or one task synced.
\<close>

section \<open>Milestones\<close>

definition peerListMilestones :: "externals \<Rightarrow> project \<Rightarrow> string \<Rightarrow> (string \<times> json) list actE" where
  "peerListMilestones x p user =
     x_peer_json x (p_organizationId p) user ''scm:pm'' ''/api/peer/scm/milestones/list'' (repo_body p)"

definition peerUpsertMilestone ::
  "externals \<Rightarrow> project \<Rightarrow> string \<Rightarrow> int \<Rightarrow> string \<Rightarrow> string \<Rightarrow> string \<Rightarrow> (string \<times> json) list actE" where
  "peerUpsertMilestone x p user n title desc st =
     x_peer_json x (p_organizationId p) user ''scm:pm'' ''/api/peer/scm/milestones/upsert''
       (repo_body p @ [(''number'', JNum n), (''title'', JStr title), (''description'', JStr desc), (''state'', JStr st)])"

record assign_request =
  ar_specId :: string
  ar_featureId :: string
  ar_phaseId :: string
  ar_number :: int
  ar_title :: string
  ar_description :: string
  ar_state :: string
  ar_create :: bool

definition assign_of :: "(string \<times> json) list \<Rightarrow> assign_request option" where
  "assign_of o1 = do {
     s \<leftarrow> str_field o1 ''specId''; f \<leftarrow> str_field o1 ''featureId''; ph \<leftarrow> str_field o1 ''phaseId'';
     n \<leftarrow> int_field o1 ''milestoneNumber''; t \<leftarrow> str_field o1 ''title''; d \<leftarrow> str_field o1 ''description'';
     st \<leftarrow> str_field o1 ''state''; c \<leftarrow> bool_field o1 ''createIfMissing'';
     Some \<lparr>ar_specId = s, ar_featureId = f, ar_phaseId = ph, ar_number = n, ar_title = t, ar_description = d,
       ar_state = st, ar_create = c\<rparr> }"

text \<open>The milestone to assign: number, title and URL, from ORA when the request names one.\<close>

definition assigned_milestone :: "externals \<Rightarrow> project \<Rightarrow> string \<Rightarrow> assign_request \<Rightarrow> (int \<times> string \<times> string) actE" where
  "assigned_milestone x p user q =
     (let title = trim_space (ar_title q) in
      if ar_number q > 0 \<or> title \<noteq> [] \<or> ar_create q
      then bindE (peerUpsertMilestone x p user (ar_number q) title (ar_description q) (ar_state q)) (\<lambda>up.
        okE (case map_of up ''milestone'' of
            Some (JObj m) \<Rightarrow> (intFromAny (any_at m ''number''), strFromAny (any_at m ''title''), strFromAny (any_at m ''html_url''))
          | _ \<Rightarrow> (ar_number q, [], [])))
      else okE (ar_number q, [], []))"

definition assign_feature :: "string \<Rightarrow> int \<times> string \<times> string \<Rightarrow> roadmap \<Rightarrow> roadmap" where
  "assign_feature fid m rm = (case m of (n, t, u) \<Rightarrow>
     if fid = [] then rm
     else rm\<lparr>rm_features := change_first (\<lambda>f. rf_id f = fid)
            (\<lambda>f. f\<lparr>rf_milestoneNumber := n, rf_milestoneTitle := t, rf_milestoneUrl := u\<rparr>) (rm_features rm)\<rparr>)"

definition assign_phase :: "string \<Rightarrow> int \<times> string \<times> string \<Rightarrow> roadmap \<Rightarrow> roadmap" where
  "assign_phase phid m rm = (case m of (n, t, u) \<Rightarrow>
     if phid = [] then rm
     else rm\<lparr>rm_phases := change_first (\<lambda>ph. rp_id ph = phid)
            (\<lambda>ph. ph\<lparr>rp_milestoneNumber := n, rp_milestoneTitle := t, rp_milestoneUrl := u\<rparr>) (rm_phases rm)\<rparr>)"

definition milestone_patch :: "int \<times> string \<times> string \<Rightarrow> patch" where
  "milestone_patch m = (case m of (n, t, u) \<Rightarrow>
     [(''githubMilestoneNumber'', JNum n), (''githubMilestoneTitle'', JStr t), (''githubMilestoneUrl'', JStr u)])"

definition assign_on_task :: "project \<Rightarrow> string \<Rightarrow> int \<times> string \<times> string \<Rightarrow> (reply + (string \<times> part) list) act" where
  "assign_on_task p sid m =
     (if sid = [] then State_Monad.return (Inr [])
      else do {
        r \<leftarrow> UpdateTask (p_id p) sid (milestone_patch m);
        State_Monad.return (case r of Inl e \<Rightarrow> Inl (Failed 400 (err_text e)) | Inr t \<Rightarrow> Inr [(''task'', PTask t)]) })"

definition assign_on_roadmap ::
  "project \<Rightarrow> string \<Rightarrow> string \<Rightarrow> int \<times> string \<times> string \<Rightarrow> (reply + (string \<times> part) list) act" where
  "assign_on_roadmap p fid phid m =
     (if fid = [] \<and> phid = [] then State_Monad.return (Inr [])
      else do {
        r \<leftarrow> GetRoadmap (p_id p);
        case r of
          Inl e \<Rightarrow> State_Monad.return (Inl (Failed 404 (err_text e)))
        | Inr rm \<Rightarrow> do {
            let rm' = assign_phase phid m (assign_feature fid m rm);
            rput \<leftarrow> PutRoadmap (p_id p) rm';
            State_Monad.return (case rput of
                Inl e \<Rightarrow> Inl (Failed 400 (err_text e)) | Inr _ \<Rightarrow> Inr [(''roadmap'', PRoadmap rm')]) } })"

definition assign_milestone :: "project \<Rightarrow> assign_request \<Rightarrow> int \<times> string \<times> string \<Rightarrow> reply act" where
  "assign_milestone p q m = do {
     rt \<leftarrow> assign_on_task p (trim_space (ar_specId q)) m;
     case rt of
       Inl a \<Rightarrow> State_Monad.return a
     | Inr f1 \<Rightarrow> do {
         rr \<leftarrow> assign_on_roadmap p (trim_space (ar_featureId q)) (trim_space (ar_phaseId q)) m;
         State_Monad.return (case rr of
             Inl a \<Rightarrow> a
           | Inr f2 \<Rightarrow> (case m of (n, t, u) \<Rightarrow> Fields 200 (jfields [(''ok'', JBool True), (''milestoneNumber'', JNum n),
               (''milestoneTitle'', JStr t), (''milestoneUrl'', JStr u)] @ f1 @ f2))) } }"

definition handleGitHubMilestones :: "externals \<Rightarrow> http \<Rightarrow> project \<Rightarrow> string list \<Rightarrow> reply act" where
  "handleGitHubMilestones x h p rest = (case rest of
       [] \<Rightarrow> only ''GET'' h (do {
         r \<leftarrow> peerListMilestones x p (user_of h);
         State_Monad.return (case r of
             Inl e \<Rightarrow> Failed 502 (''ora milestones: '' @ err_text e)
           | Inr out \<Rightarrow> Fields 200 (jfields out)) })
     | r # _ \<Rightarrow>
         if r = ''assign'' \<and> h_method h = ''POST''
         then (case Option.bind (body_object h) assign_of of
             None \<Rightarrow> State_Monad.return (Failed 400 ''invalid json'')
           | Some q \<Rightarrow> do {
               rm \<leftarrow> assigned_milestone x p (user_of h) q;
               case rm of
                 Inl e \<Rightarrow> State_Monad.return (Failed 502 (''ora milestone upsert: '' @ err_text e))
               | Inr m \<Rightarrow> assign_milestone p q m })
         else if r = ''unassign'' then handleMilestoneUnassign h p
         else State_Monad.return not_found)"

section \<open>GitHub projects\<close>

definition peerListGitHubProjects :: "externals \<Rightarrow> project \<Rightarrow> string \<Rightarrow> (string \<times> json) list actE" where
  "peerListGitHubProjects x p user =
     x_peer_json x (p_organizationId p) user ''scm:pm'' ''/api/peer/scm/projects/list'' (repo_body p)"

definition bind_of :: "(string \<times> json) list \<Rightarrow> (string \<times> string \<times> string) option" where
  "bind_of o1 = do { i \<leftarrow> str_field o1 ''projectId''; t \<leftarrow> str_field o1 ''projectTitle''; u \<leftarrow> str_field o1 ''projectUrl'';
     Some (trim_space i, t, u) }"

record item_request =
  tr_specId :: string
  tr_featureId :: string
  tr_title :: string
  tr_body :: string
  tr_status :: string

definition item_of :: "(string \<times> json) list \<Rightarrow> item_request option" where
  "item_of o1 = do {
     s \<leftarrow> str_field o1 ''specId''; f \<leftarrow> str_field o1 ''featureId''; t \<leftarrow> str_field o1 ''title'';
     b \<leftarrow> str_field o1 ''body''; st \<leftarrow> str_field o1 ''status'';
     Some \<lparr>tr_specId = trim_space s, tr_featureId = trim_space f, tr_title = trim_space t, tr_body = b,
       tr_status = trim_space st\<rparr> }"

text \<open>What is sent: the GitHub project, the item, and title, body and status, filled up from the
  task when the request names one.\<close>

record item_push =
  ip_project :: string
  ip_item :: string
  ip_title :: string
  ip_body :: string
  ip_status :: string

definition request_push :: "project \<Rightarrow> item_request \<Rightarrow> item_push" where
  "request_push p q = \<lparr>ip_project = p_githubProjectId p, ip_item = [], ip_title = tr_title q, ip_body = tr_body q,
     ip_status = tr_status q\<rparr>"

definition task_push :: "project \<Rightarrow> item_request \<Rightarrow> task \<Rightarrow> item_push" where
  "task_push p q t = \<lparr>ip_project = or_text (t_projectId t) (p_githubProjectId p), ip_item = t_projectItemId t,
     ip_title = or_text (tr_title q) (t_title t), ip_body = or_text (tr_body q) (t_description t),
     ip_status = or_text (tr_status q) (t_status t)\<rparr>"

definition spec_field :: "string \<Rightarrow> (string \<times> json) list" where
  "spec_field sid = (if sid \<noteq> [] then [(''specId'', JStr sid)] else [])"

definition item_refused :: "project \<Rightarrow> string \<Rightarrow> item_push \<Rightarrow> derr \<Rightarrow> reply act" where
  "item_refused p sid ip e = do {
     let (code, status) = projectSyncHTTPStatus e;
     _ \<leftarrow> recordProjectSyncFailure p sid ''sync-item'' status (ierr_text e);
     State_Monad.return (Fields code (jfields ([(''error'', JStr (''ora project item: '' @ ierr_text e)), (''status'', JStr status),
       (''titleSynced'', JBool False), (''githubProjectId'', JStr (ip_project ip))] @ spec_field sid @
       (if fault_missing e \<noteq> [] then [(''missing'', jstrs (fault_missing e))] else [])))) }"

definition item_partial ::
  "project \<Rightarrow> string \<Rightarrow> item_push \<Rightarrow> (string \<times> json) list \<Rightarrow> project_item_sync \<Rightarrow> string \<Rightarrow> reply act" where
  "item_partial p sid ip out sy item = do {
     _ \<leftarrow> recordProjectSyncFailure p sid ''sync-item'' (ps_titleStatus sy) (title_reason sy);
     _ \<leftarrow> (if sid \<noteq> [] \<and> item \<noteq> []
          then do { _ \<leftarrow> UpdateTask (p_id p) sid [(''githubProjectId'', JStr (ip_project ip)), (''githubProjectItemId'', JStr item)];
                    State_Monad.return () }
          else State_Monad.return ());
     State_Monad.return (Fields (projectStatusHTTPCode (ps_titleStatus sy)) (jfields ([(''error'', JStr (title_reason sy)),
       (''status'', JStr (ps_titleStatus sy)), (''titleSynced'', JBool False), (''githubProjectId'', JStr (ip_project ip)),
       (''itemId'', JStr item), (''sync'', JObj out)] @ spec_field sid))) }"

definition item_on_task :: "project \<Rightarrow> string \<Rightarrow> string \<Rightarrow> string \<Rightarrow> (reply + (string \<times> part) list) act" where
  "item_on_task p sid gh item =
     (if sid = [] then State_Monad.return (Inr [])
      else do {
        r \<leftarrow> recordProjectSyncSuccess p sid gh item;
        State_Monad.return (case r of Inl e \<Rightarrow> Inl (Failed 400 (err_text e)) | Inr t \<Rightarrow> Inr [(''task'', PTask t)]) })"

definition item_on_roadmap :: "project \<Rightarrow> string \<Rightarrow> string \<Rightarrow> string \<Rightarrow> (reply + (string \<times> part) list) act" where
  "item_on_roadmap p fid gh item =
     (if fid = [] then State_Monad.return (Inr [])
      else do {
        r \<leftarrow> GetRoadmap (p_id p);
        case r of
          Inl e \<Rightarrow> State_Monad.return (Inl (Failed 404 (err_text e)))
        | Inr rm \<Rightarrow> do {
            let rm' = rm\<lparr>rm_features := change_first (\<lambda>f. rf_id f = fid)
                           (\<lambda>f. f\<lparr>rf_projectId := gh, rf_projectItemId := item\<rparr>) (rm_features rm)\<rparr>;
            rput \<leftarrow> PutRoadmap (p_id p) rm';
            State_Monad.return (case rput of
                Inl e \<Rightarrow> Inl (Failed 400 (err_text e)) | Inr _ \<Rightarrow> Inr [(''roadmap'', PRoadmap rm')]) } })"

definition item_synced ::
  "project \<Rightarrow> item_request \<Rightarrow> item_push \<Rightarrow> (string \<times> json) list \<Rightarrow> project_item_sync \<Rightarrow> string \<Rightarrow> reply act" where
  "item_synced p q ip out sy item = do {
     rt \<leftarrow> item_on_task p (tr_specId q) (ip_project ip) item;
     case rt of
       Inl a \<Rightarrow> State_Monad.return a
     | Inr f1 \<Rightarrow> do {
         rr \<leftarrow> item_on_roadmap p (tr_featureId q) (ip_project ip) item;
         State_Monad.return (case rr of
             Inl a \<Rightarrow> a
           | Inr f2 \<Rightarrow> Fields 200 (jfields [(''ok'', JBool True), (''status'', JStr (ps_titleStatus sy)),
               (''titleSynced'', JBool (ps_titleSynced sy)), (''sync'', JObj out), (''githubProjectId'', JStr (ip_project ip)),
               (''itemId'', JStr item)] @ f1 @ f2)) } }"

definition push_item :: "externals \<Rightarrow> string \<Rightarrow> project \<Rightarrow> item_request \<Rightarrow> item_push \<Rightarrow> reply act" where
  "push_item x user p q ip =
     (if ip_project ip = []
      then State_Monad.return (Failed 400 (''bind a GitHub Project first (POST '' @ ellipsis @ ''/github/projects/bind)''))
      else if ip_title ip = [] then State_Monad.return (Failed 400 ''title required'')
      else do {
        r \<leftarrow> peerUpsertProjectItem x p user (ip_project ip) (ip_item ip) (ip_title ip) (ip_body ip) (ip_status ip);
        case r of
          Inl e \<Rightarrow> item_refused p (tr_specId q) ip e
        | Inr out \<Rightarrow>
            let sy = decodeProjectItemSync out; item = or_text (ps_itemId sy) (ip_item ip) in
            if title_failed sy then item_partial p (tr_specId q) ip out sy item
            else item_synced p q ip out sy item })"

definition handleSyncItem :: "externals \<Rightarrow> http \<Rightarrow> project \<Rightarrow> reply act" where
  "handleSyncItem x h p = (case Option.bind (body_object h) item_of of
       None \<Rightarrow> State_Monad.return (Failed 400 ''invalid json'')
     | Some q \<Rightarrow>
         if tr_specId q = [] then push_item x (user_of h) p q (request_push p q)
         else do {
           rt \<leftarrow> GetTask (p_id p) (tr_specId q);
           case rt of
             Inl e \<Rightarrow> State_Monad.return (Failed 404 (err_text e))
           | Inr t \<Rightarrow> push_item x (user_of h) p q (task_push p q t) })"

definition handleProjectBind :: "http \<Rightarrow> project \<Rightarrow> reply act" where
  "handleProjectBind h p = (case Option.bind (body_object h) bind_of of
       None \<Rightarrow> State_Monad.return (Failed 400 ''invalid json'')
     | Some (i, t, u) \<Rightarrow> do {
         r \<leftarrow> BindGitHubProject (p_id p) i t u;
         State_Monad.return (found_or 400 (\<lambda>q. Whole (PProject q)) r) })"

definition handleGitHubProjects :: "externals \<Rightarrow> http \<Rightarrow> project \<Rightarrow> string list \<Rightarrow> reply act" where
  "handleGitHubProjects x h p rest = (case rest of
       [] \<Rightarrow> only ''GET'' h (do {
         r \<leftarrow> peerListGitHubProjects x p (user_of h);
         State_Monad.return (case r of
             Inl e \<Rightarrow> Failed 502 (''ora projects: '' @ err_text e)
           | Inr out \<Rightarrow> Fields 200 (jfields (AList.update ''boundProjectUrl'' (JStr (p_githubProjectUrl p))
               (AList.update ''boundProjectTitle'' (JStr (p_githubProjectTitle p))
               (AList.update ''boundProjectId'' (JStr (p_githubProjectId p)) out))))) })
     | r # more_rest \<Rightarrow>
         if r = ''bind'' \<and> h_method h = ''POST'' then handleProjectBind h p
         else if r = ''unbind'' \<and> h_method h = ''POST'' then handleProjectUnbind h p
         else if r = ''items'' \<and> (\<exists>r2\<in>set (take 1 more_rest). r2 = ''unbind'') \<and> h_method h = ''POST''
         then handleTaskProjectUnbind h p
         else if r = ''sync-item'' \<and> h_method h = ''POST'' then handleSyncItem x h p
         else State_Monad.return not_found)"

section \<open>One task\<close>

definition task_milestone :: "externals \<Rightarrow> string \<Rightarrow> project \<Rightarrow> task \<Rightarrow> (string \<times> json) list act" where
  "task_milestone x user p t =
     (if t_milestoneNumber t > 0 \<or> t_milestoneTitle t \<noteq> []
      then do {
        r \<leftarrow> peerUpsertMilestone x p user (t_milestoneNumber t) (t_milestoneTitle t) []
          (if t_status t = ''done'' then ''closed'' else []);
        State_Monad.return [(''milestoneSync'', case r of
            Inl e \<Rightarrow> JObj [(''ok'', JBool False), (''error'', JStr (err_text e))]
          | Inr up \<Rightarrow> JObj up)] }
      else State_Monad.return [])"

definition handleGitHubSyncTask :: "externals \<Rightarrow> http \<Rightarrow> project \<Rightarrow> string \<Rightarrow> reply act" where
  "handleGitHubSyncTask x h p sid = only ''POST'' h (do {
     rt \<leftarrow> GetTask (p_id p) sid;
     case rt of
       Inl e \<Rightarrow> State_Monad.return (Failed 404 (err_text e))
     | Inr t \<Rightarrow> do {
         s \<leftarrow> syncTaskProjectItem x p t ''sync-task'' (user_of h);
         ms \<leftarrow> task_milestone x (user_of h) p (so_task s);
         State_Monad.return (Fields (if sync_ok s then 200 else projectStatusHTTPCode (so_status s))
           (jfields ([(''ok'', JBool (sync_ok s)), (''specId'', JStr sid),
             (''projectSync'', JObj (sync_payload s @ [(''ok'', JBool (sync_ok s))])), (''status'', JStr (so_status s))] @ ms) @
            [(''task'', PTask (so_task s))])) } })"

text \<open>\<open>handleProjectGitHub\<close>.\<close>

definition handleProjectGitHub :: "externals \<Rightarrow> http \<Rightarrow> string \<Rightarrow> string list \<Rightarrow> reply act" where
  "handleProjectGitHub x h pid rest = (case rest of
       [] \<Rightarrow> State_Monad.return not_found
     | r # sub \<Rightarrow> do {
         tc \<leftarrow> asks tenant;
         rp \<leftarrow> GetProjectForOrg pid (resolveRequestOrg tc (h_scope h));
         case rp of
           Inl e \<Rightarrow> State_Monad.return (Failed 404 (err_text e))
         | Inr p \<Rightarrow>
             if \<not> x_ora x
             then State_Monad.return (Failed 503 (''PEER_ORA_URL not configured '' @ em_dash @ '' GitHub PM sync requires ORA''))
             else if r = ''milestones'' then handleGitHubMilestones x h p sub
             else if r = ''projects'' then handleGitHubProjects x h p sub
             else if r = ''issues'' then handleGitHubIssues x h p sub
             else if r = ''sync-task''
             then (case sub of [] \<Rightarrow> State_Monad.return not_found | sid # _ \<Rightarrow> handleGitHubSyncTask x h p sid)
             else State_Monad.return not_found })"

end
