(* ===== verification/Oam_Projects.thy ===== *)
theory Oam_Projects
  imports Http
begin

text \<open>
  The directory of OAM (\<open>oam_projects.go\<close>, \<open>oam_product_guard.go\<close>): whether a project is
  enabled for the product, its directory row, and the board project made of one; and the routes
  that pass on what OAM and ORA list (\<open>github_handlers.go\<close>).
\<close>

section \<open>The query\<close>

definition hex_digit :: "nat \<Rightarrow> char" where
  "hex_digit n = (if n < 10 then char_of (48 + n) else char_of (55 + n))"

definition query_char :: "char \<Rightarrow> string" where
  "query_char c =
     (if is_lower c \<or> is_upper c \<or> is_digit c \<or> c \<in> set ''-_.~'' then [c]
      else if c = CHR '' '' then ''+''
      else [CHR ''%'', hex_digit (byte c div 16), hex_digit (byte c mod 16)])"

definition query_escape :: "string \<Rightarrow> string" where
  "query_escape s = concat (map query_char s)"

definition query_at :: "(string \<times> string) list \<Rightarrow> string \<Rightarrow> string" where
  "query_at q k = (case map_of q k of None \<Rightarrow> [] | Some v \<Rightarrow> v)"

text \<open>\<open>url.Values.Encode\<close> writes the keys in order.\<close>

definition oamProjectsTarget :: "string \<Rightarrow> (string \<times> string) list \<Rightarrow> string" where
  "oamProjectsTarget base q =
     (let org = trim_space (query_at q ''organization_id''); product = trim_space (query_at q ''product'');
          enc = join ''&'' ((if org \<noteq> [] \<and> \<not> equal_fold org ''all'' then [''organization_id='' @ query_escape org] else []) @
                  (if product \<noteq> [] then [''product='' @ query_escape product] else []))
      in trim_right (\<lambda>c. c = CHR ''/'') base @ ''/api/projects'' @ (if enc \<noteq> [] then ''?'' @ enc else []))"

text \<open>The headers \<open>proxyOAMProjectsGET\<close> passes on.\<close>

definition passed_headers :: "http \<Rightarrow> (string \<times> string) list" where
  "passed_headers h = filter (\<lambda>(k, v). v \<noteq> [])
     [(''Authorization'', h_auth h), (''X-Organization-ID'', h_orgHeader h),
      (''X-Project-ID'', rq_projectHeader (h_scope h)), (''X-Tenant-User-ID'', h_tenantUser h)]"

definition proxyOAMProjectsGET :: "externals \<Rightarrow> string \<Rightarrow> http \<Rightarrow> oam_answer actE" where
  "proxyOAMProjectsGET x url h = x_oam_get x url (passed_headers h)"

section \<open>Directory rows\<close>

record directory_project =
  od_id :: string
  od_projectId :: string
  od_name :: string
  od_organizationId :: string
  od_externalKey :: string
  od_externalId :: string
  od_htmlUrl :: string
  od_defaultBranch :: string
  od_connectorIds :: "string list"

definition directoryID :: "directory_project \<Rightarrow> string" where
  "directoryID d = or_text (trim_space (od_id d)) (trim_space (od_projectId d))"

definition zero_directory :: directory_project where
  "zero_directory = \<lparr>od_id = [], od_projectId = [], od_name = [], od_organizationId = [], od_externalKey = [],
     od_externalId = [], od_htmlUrl = [], od_defaultBranch = [], od_connectorIds = []\<rparr>"

fun json_directory :: "json \<Rightarrow> directory_project option" where
  "json_directory (JObj kvs) = do {
     i \<leftarrow> str_field kvs ''id''; pi \<leftarrow> str_field kvs ''project_id''; n \<leftarrow> str_field kvs ''name'';
     g \<leftarrow> str_field kvs ''organization_id''; k \<leftarrow> str_field kvs ''external_key''; e \<leftarrow> str_field kvs ''external_id'';
     u \<leftarrow> str_field kvs ''html_url''; b \<leftarrow> str_field kvs ''default_branch'';
     c \<leftarrow> field_or json_strings [] kvs ''connector_ids'';
     Some \<lparr>od_id = i, od_projectId = pi, od_name = n, od_organizationId = g, od_externalKey = k, od_externalId = e,
       od_htmlUrl = u, od_defaultBranch = b, od_connectorIds = c\<rparr> }"
| "json_directory JNull = Some zero_directory"
| "json_directory _ = None"

text \<open>The rows a check of enablement decodes: the two ids alone.\<close>

fun json_row_id :: "json \<Rightarrow> string option" where
  "json_row_id (JObj kvs) = do { i \<leftarrow> str_field kvs ''id''; pi \<leftarrow> str_field kvs ''project_id'';
     Some (or_text (trim_space i) (trim_space pi)) }"
| "json_row_id JNull = Some []"
| "json_row_id _ = None"

fun json_list :: "(json \<Rightarrow> 'a option) \<Rightarrow> json \<Rightarrow> 'a list option" where
  "json_list dec (JArr l) = those (map dec l)"
| "json_list dec JNull = Some []"
| "json_list dec _ = None"

definition rows_of :: "(json \<Rightarrow> 'a option) \<Rightarrow> oam_answer \<Rightarrow> 'a list option" where
  "rows_of dec a = (case oa_json a of
       Some (JObj kvs) \<Rightarrow> field_or (json_list dec) [] kvs ''projects''
     | Some JNull \<Rightarrow> Some []
     | _ \<Rightarrow> None)"

definition directory_query :: "http \<Rightarrow> string \<Rightarrow> (string \<times> string) list" where
  "directory_query h product =
     (let org = trim_space (h_orgHeader h) in
      [(''product'', product)] @ (if org \<noteq> [] \<and> \<not> equal_fold org ''all'' then [(''organization_id'', org)] else []))"

text \<open>A GET of the directory, with an error for an answer that is not a success or does not decode.\<close>

definition directory_rows :: "externals \<Rightarrow> http \<Rightarrow> string \<Rightarrow> string \<Rightarrow> (json \<Rightarrow> 'a option) \<Rightarrow> 'a list actE" where
  "directory_rows x h base product dec =
     bindE (proxyOAMProjectsGET x (oamProjectsTarget base (directory_query h product)) h) (\<lambda>a.
       if oa_code a < 200 \<or> oa_code a \<ge> 300 then throwE (Errf (''oam returned '' @ itoa (oa_code a)))
       else (case rows_of dec a of None \<Rightarrow> throwE BadJSON | Some rows \<Rightarrow> okE rows))"

definition oamDirectoryHasProject :: "externals \<Rightarrow> http \<Rightarrow> string \<Rightarrow> string \<Rightarrow> string \<Rightarrow> bool actE" where
  "oamDirectoryHasProject x h base product pid =
     bindE (directory_rows x h base product json_row_id) (\<lambda>ids. okE (pid \<in> set ids))"

definition lookupOAMDirectoryProject :: "externals \<Rightarrow> http \<Rightarrow> string \<Rightarrow> string \<Rightarrow> directory_project option actE" where
  "lookupOAMDirectoryProject x h product pid0 = do {
     base \<leftarrow> asks oamPeerURL;
     let pid = trim_space pid0;
     if base = [] then throwE (Errf ''PEER_OAM_URL unset'')
     else if pid = [] then throwE (Errf ''project id required'')
     else bindE (oamDirectoryHasProject x h base product pid) (\<lambda>found.
       if \<not> found then okE None
       else bindE (directory_rows x h base product json_directory) (\<lambda>rows.
         okE (List.find (\<lambda>d. directoryID d = pid) rows))) }"

text \<open>The refusal, if any.\<close>

definition requireEnabledOAMProject :: "externals \<Rightarrow> http \<Rightarrow> string \<Rightarrow> (int \<times> string) option act" where
  "requireEnabledOAMProject x h product = do {
     base \<leftarrow> asks oamPeerURL;
     let proj = trim_space (rq_projectHeader (h_scope h));
     if base = [] \<or> proj = [] \<or> equal_fold proj ''all'' then State_Monad.return None
     else do {
       r \<leftarrow> oamDirectoryHasProject x h base product proj;
       State_Monad.return (case r of
           Inl e \<Rightarrow> Some (503, ''could not verify project enablement with OAM: '' @ err_text e)
         | Inr found \<Rightarrow> if found then None
             else Some (403, ''project '' @ quote proj @ '' is disabled for product '' @ quote product @
                    '' (OAM disabled_products)'')) } }"

section \<open>A board project from the directory\<close>

definition zero_project :: project where
  "zero_project = \<lparr>p_id = [], p_name = [], p_ownerRepo = [], p_githubRepoId = [], p_connectorId = [], p_organizationId = [],
     p_htmlUrl = [], p_defaultBranch = [], p_githubProjectId = [], p_githubProjectTitle = [], p_githubProjectUrl = [],
     p_autoStartOnMove = None, p_createdAt = zero_time, p_updatedAt = zero_time\<rparr>"

definition boardProjectFromOAM :: "tenant_cfg \<Rightarrow> directory_project \<Rightarrow> string \<Rightarrow> project" where
  "boardProjectFromOAM tc d requestOrg = zero_project\<lparr>
     p_id := directoryID d, p_name := or_text (trim_space (od_name d)) (directoryID d),
     p_ownerRepo := normalizeOwnerRepo (od_externalKey d), p_githubRepoId := trim_space (od_externalId d),
     p_connectorId := (case od_connectorIds d of [] \<Rightarrow> [] | c # _ \<Rightarrow> trim_space c),
     p_organizationId := normalizeWriteOrg tc requestOrg, p_htmlUrl := trim_space (od_htmlUrl d),
     p_defaultBranch := trim_space (od_defaultBranch d)\<rparr>"

definition blank_or :: "string \<Rightarrow> string \<Rightarrow> string" where
  "blank_or s d = (if blank s then d else s)"

definition fill_project :: "project \<Rightarrow> project \<Rightarrow> project" where
  "fill_project inp filled = inp\<lparr>
     p_connectorId := blank_or (p_connectorId inp) (p_connectorId filled),
     p_ownerRepo := (if blank (normalizeOwnerRepo (p_ownerRepo inp)) then p_ownerRepo filled else p_ownerRepo inp),
     p_name := blank_or (p_name inp) (p_name filled),
     p_githubRepoId := blank_or (p_githubRepoId inp) (p_githubRepoId filled),
     p_htmlUrl := blank_or (p_htmlUrl inp) (p_htmlUrl filled),
     p_defaultBranch := blank_or (p_defaultBranch inp) (p_defaultBranch filled)\<rparr>"

definition check_filled :: "project \<Rightarrow> (int \<times> string) + project" where
  "check_filled q =
     (if blank (p_connectorId q) then Inl (400, ''project has no connector_ids; attach a connector in Account Manager'')
      else if blank (normalizeOwnerRepo (p_ownerRepo q))
      then Inl (400, ''project has no external_key (owner/repo); import a GitHub project in Account Manager'')
      else Inr q)"

definition fillProjectSCMFromOAM :: "externals \<Rightarrow> http \<Rightarrow> project \<Rightarrow> ((int \<times> string) + project) act" where
  "fillProjectSCMFromOAM x h inp = do {
     tc \<leftarrow> asks tenant;
     base \<leftarrow> asks oamPeerURL;
     let pid = or_text (trim_space (p_id inp)) (trim_space (rq_projectHeader (h_scope h)));
     if \<not> blank (p_connectorId inp) \<and> \<not> blank (normalizeOwnerRepo (p_ownerRepo inp)) then State_Monad.return (Inr inp)
     else if base = []
     then State_Monad.return (Inl (400, ''connectorId and ownerRepo required when PEER_OAM_URL is unset''))
     else if pid = [] \<or> equal_fold pid ''all''
     then State_Monad.return (Inl (400, ''oam project id required to resolve connector from directory''))
     else do {
       rd \<leftarrow> lookupOAMDirectoryProject x h ''opm'' pid;
       State_Monad.return (case rd of
           Inl e \<Rightarrow> Inl (503, ''could not load OAM directory project: '' @ err_text e)
         | Inr None \<Rightarrow> Inl (404, ''project not found in OAM directory'')
         | Inr (Some d) \<Rightarrow> check_filled (fill_project inp (boardProjectFromOAM tc d (p_organizationId inp)))) } }"

section \<open>Lists passed on\<close>

text \<open>\<open>aliasDirectoryIDs\<close> on a decoded body; \<open>None\<close> when the body goes through as it is.\<close>

definition alias_row :: "string \<Rightarrow> json \<Rightarrow> json" where
  "alias_row aliasKey v = (case v of
       JObj row \<Rightarrow>
         if map_of row aliasKey \<noteq> None then v
         else (case map_of row ''id'' of
             Some (JStr i) \<Rightarrow> if i \<noteq> [] then JObj (row @ [(aliasKey, JStr i)]) else v
           | _ \<Rightarrow> v)
     | _ \<Rightarrow> v)"

definition aliasDirectoryIDs :: "json option \<Rightarrow> string \<Rightarrow> string \<Rightarrow> (string \<times> json) list option" where
  "aliasDirectoryIDs body listKey aliasKey = (case body of
       Some (JObj payload) \<Rightarrow> (case map_of payload listKey of
           Some (JArr l) \<Rightarrow> Some (AList.update listKey (JArr (map (alias_row aliasKey) l)) payload)
         | _ \<Rightarrow> None)
     | _ \<Rightarrow> None)"

definition handleOAMProjects :: "externals \<Rightarrow> http \<Rightarrow> reply act" where
  "handleOAMProjects x h = only ''GET'' h (do {
     base \<leftarrow> asks oamPeerURL;
     if base = []
     then State_Monad.return (Fields 200 (jfields [(''projects'', JArr []), (''peer_unavailable'', JBool True),
       (''peer'', JStr ''oam-api''), (''note'', JStr ''Set PEER_OAM_URL to discover OAM directory projects.'')]))
     else do {
       r \<leftarrow> proxyOAMProjectsGET x (oamProjectsTarget base (h_query h)) h;
       State_Monad.return (case r of
           Inl e \<Rightarrow> Fields 200 (jfields [(''projects'', JArr []), (''error'', JStr (err_text e)), (''peer'', JStr ''oam-api'')])
         | Inr a \<Rightarrow> (case aliasDirectoryIDs (oa_json a) ''projects'' ''project_id'' of
               None \<Rightarrow> Relay (oa_code a) (oa_body a)
             | Some payload \<Rightarrow> Fields (oa_code a) (jfields payload))) } })"

definition relay_oam :: "err + oam_answer \<Rightarrow> reply" where
  "relay_oam r = (case r of
       Inl e \<Rightarrow> Failed 502 (''oam unavailable: '' @ err_text e)
     | Inr a \<Rightarrow> Relay (oa_code a) (oa_body a))"

definition handleOAMOrganizations :: "externals \<Rightarrow> http \<Rightarrow> reply act" where
  "handleOAMOrganizations x h = only ''GET'' h (do {
     base \<leftarrow> asks oamPeerURL;
     if base = []
     then State_Monad.return (Fields 200 (jfields [(''organizations'', JArr []), (''note'', JStr (''PEER_OAM_URL unset '' @ em_dash @
       '' no OAM organization discovery. Set PEER_OAM_URL to list organizations.''))]))
     else do {
       r \<leftarrow> proxyOAMProjectsGET x (trim_right (\<lambda>c. c = CHR ''/'') base @ ''/api/organizations'') h;
       State_Monad.return (relay_oam r) } })"

text \<open>The raw query of the request is passed on as it came.\<close>

definition handleGitHubConnectors :: "externals \<Rightarrow> http \<Rightarrow> string \<Rightarrow> reply act" where
  "handleGitHubConnectors x h rawQuery = only ''GET'' h (do {
     base \<leftarrow> asks oamPeerURL;
     tc \<leftarrow> asks tenant;
     if base \<noteq> []
     then do {
       r \<leftarrow> proxyOAMProjectsGET x (trim_right (\<lambda>c. c = CHR ''/'') base @ ''/api/connectors'' @
         (if rawQuery \<noteq> [] then ''?'' @ rawQuery else [])) h;
       State_Monad.return (relay_oam r) }
     else if \<not> x_ora x
     then State_Monad.return (Failed 503 (''PEER_ORA_URL not configured '' @ em_dash @
       '' list connectors via ORA peer API (storage is OAM when PEER_OAM_URL is set)''))
     else do {
       r \<leftarrow> x_peer_json x (resolveRequestOrg tc (h_scope h)) (user_of h) ''connectors:read'' ''/api/connectors'' [];
       State_Monad.return (case r of
           Inl e \<Rightarrow> Failed 502 (''ora unavailable: '' @ err_text e) | Inr out \<Rightarrow> Fields 200 (jfields out)) } })"

definition handleGitHubConnectorSub :: "externals \<Rightarrow> http \<Rightarrow> reply act" where
  "handleGitHubConnectorSub x h =
     (let parts = split_on (CHR ''/'') (trim_cut ''/'' (trim_prefix ''/api/github/connectors/'' (h_path h))) in
      case parts of
        cid # sub # _ \<Rightarrow>
          if sub \<noteq> ''repos'' \<or> h_method h \<noteq> ''GET'' then State_Monad.return not_found
          else if \<not> x_ora x then State_Monad.return (Failed 503 ''PEER_ORA_URL not configured'')
          else do {
            tc \<leftarrow> asks tenant;
            r \<leftarrow> x_peer_json x (resolveRequestOrg tc (h_scope h)) (user_of h) ''connectors:read''
              (''/api/connectors/'' @ cid @ ''/repos'') [];
            State_Monad.return (case r of
                Inl e \<Rightarrow> Failed 502 (''ora unavailable: '' @ err_text e) | Inr out \<Rightarrow> Fields 200 (jfields out)) }
      | _ \<Rightarrow> State_Monad.return not_found)"

end
