(* ===== verification/Handlers.thy ===== *)
theory Handlers
  imports Github_Pm Oam_Projects
begin

text \<open>
  The handlers of \<open>handlers.go\<close>: the routes of one project behind the organization gate, and the
  two routes that register a project.  A handler gives its answer and the goroutine it leaves
  behind, if any; the jobs it starts are in the list \<open>spawned\<close> of the world.
\<close>

section \<open>Documents of a project\<close>

definition doc_board :: "http \<Rightarrow> board option" where
  "doc_board h = (case h_doc h of Some (DBoard b) \<Rightarrow> Some b | _ \<Rightarrow> None)"

definition board_fields :: "board \<Rightarrow> reply" where
  "board_fields b = Fields 200 [(''columns'', PJson (jstrs BoardColumns)), (''board'', PBoard b)]"

definition handleBoard :: "http \<Rightarrow> string \<Rightarrow> reply act" where
  "handleBoard h pid =
     (if h_method h = ''GET'' then do {
        r \<leftarrow> GetBoard pid;
        State_Monad.return (found_or 404 board_fields r) }
      else if h_method h = ''PUT'' then (case doc_board h of
          None \<Rightarrow> State_Monad.return (Failed 400 ''invalid json'')
        | Some b \<Rightarrow> do {
            r \<leftarrow> PutBoard pid b;
            State_Monad.return (found_or 400 (\<lambda>_. board_fields b) r) })
      else State_Monad.return not_allowed)"

definition put_methods :: "string list" where
  "put_methods = [''PUT'', ''POST'']"

definition handleRoadmap :: "http \<Rightarrow> string \<Rightarrow> reply act" where
  "handleRoadmap h pid =
     (if h_method h = ''GET'' then do {
        r \<leftarrow> GetRoadmap pid;
        State_Monad.return (found_or 404 (\<lambda>rm. Whole (PRoadmap rm)) r) }
      else if h_method h \<in> set put_methods then (case h_doc h of
          Some (DRoadmap rm) \<Rightarrow> do {
            r \<leftarrow> PutRoadmap pid rm;
            State_Monad.return (found_or 400 (\<lambda>_. Whole (PRoadmap rm)) r) }
        | _ \<Rightarrow> State_Monad.return (Failed 400 ''invalid json''))
      else State_Monad.return not_allowed)"

definition ideation_fields :: "ideation \<Rightarrow> reply" where
  "ideation_fields i = Fields 200 [(''types'', PJson (jstrs IdeationTypes)), (''ideation'', PIdeation i)]"

definition handleIdeation :: "http \<Rightarrow> string \<Rightarrow> reply act" where
  "handleIdeation h pid =
     (if h_method h = ''GET'' then do {
        r \<leftarrow> GetIdeation pid;
        State_Monad.return (found_or 404 ideation_fields r) }
      else if h_method h \<in> set put_methods then (case h_doc h of
          Some (DIdeation i) \<Rightarrow> do {
            r \<leftarrow> PutIdeation pid i;
            State_Monad.return (found_or 400 (\<lambda>_. ideation_fields i) r) }
        | _ \<Rightarrow> State_Monad.return (Failed 400 ''invalid json''))
      else State_Monad.return not_allowed)"

definition markdown_fields :: "string \<Rightarrow> reply" where
  "markdown_fields s = Fields 200 (jfields [(''markdown'', JStr s)])"

definition changelog_of :: "(string \<times> json) list \<Rightarrow> string option" where
  "changelog_of o1 = do { m \<leftarrow> str_field o1 ''markdown''; c \<leftarrow> str_field o1 ''content''; Some (or_text m c) }"

definition handleChangelog :: "http \<Rightarrow> string \<Rightarrow> reply act" where
  "handleChangelog h pid =
     (if h_method h = ''GET'' then do {
        r \<leftarrow> GetChangelog pid;
        State_Monad.return (found_or 404 markdown_fields r) }
      else if h_method h \<in> set put_methods then (case Option.bind (body_object h) changelog_of of
          None \<Rightarrow> State_Monad.return (Failed 400 ''invalid json'')
        | Some md \<Rightarrow> do {
            r \<leftarrow> PutChangelog pid md;
            State_Monad.return (found_or 400 (\<lambda>_. markdown_fields md) r) })
      else State_Monad.return not_allowed)"

section \<open>Tasks\<close>

record create_request =
  cr_title :: string
  cr_description :: string
  cr_requireReview :: bool
  cr_humanReview :: bool
  cr_ideationId :: string
  cr_ideationTypeKey :: string

text \<open>Human review is what the body says when it says it, autopilot otherwise.\<close>

definition create_of :: "(string \<times> json) list \<Rightarrow> create_request option" where
  "create_of o1 = do {
     t \<leftarrow> str_field o1 ''title''; d \<leftarrow> str_field o1 ''description''; rr \<leftarrow> bool_field o1 ''requireReviewBeforeCoding'';
     hr \<leftarrow> bool_field o1 ''humanReviewRequired''; i \<leftarrow> str_field o1 ''ideationId''; k \<leftarrow> str_field o1 ''ideationTypeKey'';
     Some \<lparr>cr_title = t, cr_description = d, cr_requireReview = rr, cr_humanReview = hr, cr_ideationId = i,
       cr_ideationTypeKey = k\<rparr> }"

definition create_task_route :: "externals \<Rightarrow> http \<Rightarrow> string \<Rightarrow> reply act" where
  "create_task_route x h pid = (case Option.bind (body_object h) create_of of
       None \<Rightarrow> State_Monad.return (Failed 400 ''invalid json'')
     | Some q \<Rightarrow> do {
         tc \<leftarrow> asks tenant;
         r \<leftarrow> CreateTask pid (cr_title q) (cr_description q) (cr_requireReview q) (cr_humanReview q) (cr_ideationId q)
           (cr_ideationTypeKey q);
         case r of
           Inl e \<Rightarrow> State_Monad.return (Failed 400 (err_text e))
         | Inr t \<Rightarrow> do {
             _ \<leftarrow> enqueuePipelineJob x pid (t_specId t) (jobOriginFromRequest tc (h_scope h) None);
             State_Monad.return (Whole (PTask t)) } })"

text \<open>A patch, and the sync of a task whose text changed; the task answered is the one the sync
  left.\<close>

definition patch_sync :: "externals \<Rightarrow> http \<Rightarrow> string \<Rightarrow> err + task \<Rightarrow> task \<Rightarrow> task act" where
  "patch_sync x h pid prev t = (case prev of
       Inl e \<Rightarrow> State_Monad.return t
     | Inr old \<Rightarrow>
         if \<not> taskTextChanged old t then State_Monad.return t
         else do {
           tc \<leftarrow> asks tenant;
           rp \<leftarrow> GetProjectForOrg pid (resolveRequestOrg tc (h_scope h));
           case rp of
             Inl e \<Rightarrow> State_Monad.return t
           | Inr p \<Rightarrow> do {
               s \<leftarrow> syncTaskProjectAfterEdit x p t (user_of h);
               State_Monad.return (if t_specId (so_task s) \<noteq> [] then so_task s else t) } })"

definition patch_task_route :: "externals \<Rightarrow> http \<Rightarrow> string \<Rightarrow> string \<Rightarrow> reply act" where
  "patch_task_route x h pid sid = (case body_object h of
       None \<Rightarrow> State_Monad.return (Failed 400 ''invalid json'')
     | Some pt \<Rightarrow> do {
         prev \<leftarrow> GetTask pid sid;
         r \<leftarrow> UpdateTask pid sid pt;
         case r of
           Inl e \<Rightarrow> State_Monad.return (Failed 400 (err_text e))
         | Inr t \<Rightarrow> do { t' \<leftarrow> patch_sync x h pid prev t; State_Monad.return (Whole (PTask t')) } })"

text \<open>A drag: the move, the status pushed in the background, and the job the column starts.\<close>

definition move_task_route :: "externals \<Rightarrow> http \<Rightarrow> string \<Rightarrow> string \<Rightarrow> (reply \<times> unit act option) act" where
  "move_task_route x h pid sid = (case Option.bind (body_object h) (\<lambda>o1. str_field o1 ''toStatus'') of
       None \<Rightarrow> State_Monad.return (Failed 400 ''invalid json'', None)
     | Some toStatus \<Rightarrow> do {
         r \<leftarrow> MoveTask pid sid toStatus;
         case r of
           Inl e \<Rightarrow> State_Monad.return (Failed 400 (err_text e), None)
         | Inr t \<Rightarrow> do {
             tc \<leftarrow> asks tenant;
             rp \<leftarrow> GetProjectForOrg pid (resolveRequestOrg tc (h_scope h));
             case rp of
               Inl e \<Rightarrow> State_Monad.return
                 (Fields 200 [(''task'', PTask t), (''trigger'', PTrigger (not_started ''project not resolved''))], None)
             | Inr p \<Rightarrow> do {
                 tr \<leftarrow> maybeStartJobForColumn x p t (jobOriginFromRequest tc (h_scope h) None);
                 State_Monad.return (Fields 200 [(''task'', PTask t), (''trigger'', PTrigger tr)],
                   syncTaskGitHubAfterMove x p t (user_of h)) } } })"

definition quietly :: "reply act \<Rightarrow> (reply \<times> unit act option) act" where
  "quietly m = do { a \<leftarrow> m; State_Monad.return (a, None) }"

text \<open>The body of a delivery is optional and its decoding error ignored: a field that is missing or of
  another type stays empty.\<close>

definition deliver_of :: "http \<Rightarrow> deliver_request" where
  "deliver_of h = (let o1 = (case body_object h of None \<Rightarrow> [] | Some kvs \<Rightarrow> kvs) in
     \<lparr>rb_branch = (case patch_str o1 ''branch'' of None \<Rightarrow> [] | Some s \<Rightarrow> s),
      rb_base = (case patch_str o1 ''base'' of None \<Rightarrow> [] | Some s \<Rightarrow> s), rb_draft = bool_at ''draft'' o1\<rparr>)"

definition read_route :: "http \<Rightarrow> ('a \<Rightarrow> reply) \<Rightarrow> 'a actE \<Rightarrow> reply act" where
  "read_route h f m = only ''GET'' h (do { r \<leftarrow> m; State_Monad.return (found_or 404 f r) })"

definition create_route :: "externals \<Rightarrow> http \<Rightarrow> string \<Rightarrow> reply act" where
  "create_route x h pid =
     (if h_method h = ''GET'' then do {
        r \<leftarrow> ListTasks pid;
        State_Monad.return (found_or 404 (\<lambda>ts. Fields 200 [(''tasks'', PTasks ts)]) r) }
      else if h_method h = ''POST'' then create_task_route x h pid
      else State_Monad.return not_allowed)"

definition one_task_route :: "externals \<Rightarrow> http \<Rightarrow> string \<Rightarrow> string \<Rightarrow> reply act" where
  "one_task_route x h pid sid =
     (if h_method h = ''GET'' then do {
        r \<leftarrow> GetTask pid sid;
        State_Monad.return (found_or 404 (\<lambda>t. Whole (PTask t)) r) }
      else if h_method h = ''PATCH'' then patch_task_route x h pid sid
      else if h_method h = ''DELETE'' then do {
        r \<leftarrow> DeleteTask pid sid;
        State_Monad.return (found_or 400 (\<lambda>_. NoContent) r) }
      else State_Monad.return not_allowed)"

definition deliver_route :: "externals \<Rightarrow> http \<Rightarrow> string \<Rightarrow> string \<Rightarrow> reply act" where
  "deliver_route x h pid sid = only ''POST'' h (do {
     tc \<leftarrow> asks tenant;
     a \<leftarrow> handleTaskDeliver x (resolveRequestOrg tc (h_scope h)) (user_of h) pid sid (deliver_of h);
     State_Monad.return (answer_reply a) })"

definition changes_route :: "http \<Rightarrow> string \<Rightarrow> string \<Rightarrow> reply act" where
  "changes_route h pid sid = only ''GET'' h (do {
     a \<leftarrow> handleTaskChanges pid sid;
     State_Monad.return (answer_reply a) })"

definition sub_task_route :: "externals \<Rightarrow> http \<Rightarrow> string \<Rightarrow> string \<Rightarrow> string \<Rightarrow> reply act" where
  "sub_task_route x h pid sid sub =
     (if sub = ''approve'' then only ''POST'' h (do {
        r \<leftarrow> ApproveForCoding pid sid;
        State_Monad.return (found_or 400 (\<lambda>t. Whole (PTask t)) r) })
      else if sub = ''plan'' then read_route h (\<lambda>pl. Whole (PPlan pl)) (GetPlan pid sid)
      else if sub = ''progress'' then read_route h (\<lambda>pr. Whole (PProgress pr)) (GetProgress pid sid)
      else if sub = ''spec'' then read_route h markdown_fields (GetSpecMarkdown pid sid)
      else if sub = ''logs'' then read_route h (\<lambda>l. Fields 200 [(''logs'', PLogs l)]) (GetSpecLogs pid sid)
      else if sub = ''actions'' then read_route h (\<lambda>v. Whole (PActions v)) (GetTaskValidActions pid sid)
      else if sub = ''changes'' then changes_route h pid sid
      else if sub = ''deliver'' then deliver_route x h pid sid
      else State_Monad.return not_found)"

definition handleTasks :: "externals \<Rightarrow> http \<Rightarrow> string \<Rightarrow> string list \<Rightarrow> (reply \<times> unit act option) act" where
  "handleTasks x h pid rest = (case rest of
       [] \<Rightarrow> quietly (create_route x h pid)
     | [sid] \<Rightarrow> quietly (one_task_route x h pid sid)
     | sid # sub # _ \<Rightarrow>
         if sub = ''move''
         then (if h_method h \<noteq> ''POST'' then State_Monad.return (not_allowed, None) else move_task_route x h pid sid)
         else quietly (sub_task_route x h pid sid sub))"

section \<open>Jobs\<close>

fun json_override :: "json \<Rightarrow> model_override option option" where
  "json_override JNull = Some None"
| "json_override (JObj kvs) = do { p \<leftarrow> str_field kvs ''provider''; m \<leftarrow> str_field kvs ''model'';
     Some (Some \<lparr>mo_provider = p, mo_model = m\<rparr>) }"
| "json_override _ = None"

definition job_of :: "(string \<times> json) list \<Rightarrow> (job_request \<times> model_override option) option" where
  "job_of o1 = do {
     a \<leftarrow> str_field o1 ''action''; s \<leftarrow> str_field o1 ''specId''; tp \<leftarrow> int_field o1 ''targetPhase'';
     it \<leftarrow> str_field o1 ''ideationType''; c \<leftarrow> field_or json_strings [] o1 ''competitors'';
     n \<leftarrow> str_field o1 ''audienceNotes''; m \<leftarrow> field_or json_override None o1 ''model'';
     Some (\<lparr>jr_action = a, jr_specId = s, jr_targetPhase = tp, jr_ideationType = it, jr_competitors = c,
       jr_audienceNotes = n\<rparr>, m) }"

definition handleJobs :: "externals \<Rightarrow> http \<Rightarrow> string \<Rightarrow> string list \<Rightarrow> reply act" where
  "handleJobs x h pid rest = (case rest of
       [] \<Rightarrow>
         if h_method h = ''GET'' then do {
           r \<leftarrow> ListJobs pid;
           State_Monad.return (found_or 404 (\<lambda>js. Fields 200 [(''jobs'', PJobs js)]) r) }
         else if h_method h = ''POST'' then (case Option.bind (body_object h) job_of of
             None \<Rightarrow> State_Monad.return (Failed 400 ''invalid json'')
           | Some (q, ov) \<Rightarrow> do {
               tc \<leftarrow> asks tenant;
               r \<leftarrow> postJob x (x_image x) pid (jobOriginFromRequest tc (h_scope h) ov) q;
               State_Monad.return (found_or 400 (\<lambda>j. Whole (PJob j)) r) })
         else State_Monad.return not_allowed
     | [runID] \<Rightarrow> read_route h (\<lambda>j. Whole (PJob j)) (GetJob pid runID)
     | runID # sub # _ \<Rightarrow>
         if sub = ''cancel'' \<and> h_method h = ''POST'' then do {
           r \<leftarrow> cancelJob pid runID;
           State_Monad.return (found_or 404 (\<lambda>j. Whole (PJob j)) r) }
         else State_Monad.return not_found)"

section \<open>One project\<close>

definition project_route :: "http \<Rightarrow> string \<Rightarrow> string \<Rightarrow> reply act" where
  "project_route h pid org =
     (if h_method h = ''GET'' then do {
        r \<leftarrow> GetProjectForOrg pid org;
        State_Monad.return (found_or 404 (\<lambda>p. Whole (PProject p)) r) }
      else if h_method h = ''DELETE'' then do {
        r \<leftarrow> DeleteProject pid;
        State_Monad.return (found_or 404 (\<lambda>_. NoContent) r) }
      else State_Monad.return not_allowed)"

text \<open>Below the gate; the request carries the header pinned to the project.\<close>

definition project_routes :: "externals \<Rightarrow> http \<Rightarrow> string \<Rightarrow> string \<Rightarrow> string list \<Rightarrow> (reply \<times> unit act option) act" where
  "project_routes x h pid org rest = (case rest of
       [] \<Rightarrow> quietly (project_route h pid org)
     | sub # tl_rest \<Rightarrow>
         if sub = ''init'' then quietly (only ''POST'' h (do {
           r \<leftarrow> InitProject pid;
           State_Monad.return (found_or 400 (\<lambda>_. Fields 200 (jfields [(''status'', JStr ''ok'')])) r) }))
         else if sub = ''board'' then quietly (handleBoard h pid)
         else if sub = ''tasks'' then handleTasks x h pid tl_rest
         else if sub = ''roadmap'' then quietly (handleRoadmap h pid)
         else if sub = ''ideation'' then quietly (handleIdeation h pid)
         else if sub = ''changelog'' then quietly (handleChangelog h pid)
         else if sub = ''status'' then quietly (read_route h (\<lambda>st. Whole (PStatus st)) (GetStatus pid))
         else if sub = ''jobs'' then quietly (handleJobs x h pid tl_rest)
         else if sub = ''github'' then quietly (handleProjectGitHub x h pid tl_rest)
         else quietly (State_Monad.return not_found))"

section \<open>Registering a project\<close>

definition pin_header :: "string \<Rightarrow> http \<Rightarrow> http" where
  "pin_header i h = h\<lparr>h_scope := (h_scope h)\<lparr>rq_projectHeader := i\<rparr>\<rparr>"

definition no_concrete_id :: "string \<Rightarrow> bool" where
  "no_concrete_id i \<longleftrightarrow> i = [] \<or> equal_fold i ''all''"

definition ensure_registered :: "project \<Rightarrow> reply act" where
  "ensure_registered inp = do {
     r \<leftarrow> EnsureProject inp;
     State_Monad.return (found_or 400 (\<lambda>p. Whole (PProject p)) r) }"

text \<open>The project to ensure: from OAM's directory when OAM is configured.\<close>

definition directory_input :: "externals \<Rightarrow> http \<Rightarrow> string \<Rightarrow> string \<Rightarrow> (reply + project) act" where
  "directory_input x h i org = do {
     base \<leftarrow> asks oamPeerURL;
     tc \<leftarrow> asks tenant;
     if base = [] then State_Monad.return (Inr (zero_project\<lparr>p_id := i, p_name := i, p_organizationId := org\<rparr>))
     else do {
       rd \<leftarrow> lookupOAMDirectoryProject x h ''opm'' i;
       State_Monad.return (case rd of
           Inl e \<Rightarrow> Inl (Failed 503 (''could not load OAM directory project: '' @ err_text e))
         | Inr None \<Rightarrow> Inl (Failed 404 ''project not found in OAM directory'')
         | Inr (Some d) \<Rightarrow> Inr (boardProjectFromOAM tc d org)) } }"

definition ensure_id :: "http \<Rightarrow> string" where
  "ensure_id h =
     (let o1 = (case body_object h of None \<Rightarrow> [] | Some kvs \<Rightarrow> kvs);
          i = trim_space (case patch_str o1 ''id'' of None \<Rightarrow> [] | Some s \<Rightarrow> s)
      in or_text i (trim_space (rq_projectHeader (h_scope h))))"

definition handleEnsureProject :: "externals \<Rightarrow> http \<Rightarrow> reply act" where
  "handleEnsureProject x h0 = only ''POST'' h0 (let i = ensure_id h0; h = pin_header i h0 in
     if no_concrete_id i then State_Monad.return (Failed 400 ''concrete project id required'')
     else do {
       tc \<leftarrow> asks tenant;
       st \<leftarrow> requireEnabledOAMProject x h ''opm'';
       case st of
         Some (code, msg) \<Rightarrow> State_Monad.return (Failed code msg)
       | None \<Rightarrow> do {
           rin \<leftarrow> directory_input x h i (resolveRequestOrg tc (h_scope h));
           case rin of Inl a \<Rightarrow> State_Monad.return a | Inr inp \<Rightarrow> ensure_registered inp } })"

text \<open>\<open>decodeLinkProjectBody\<close>: an error is a body that does not decode, or one with a local path.\<close>

definition legacy_path_text :: string where
  "legacy_path_text = ''local folder projects are not supported; link a GitHub repository (ownerRepo + connectorId)''"

definition link_fields :: "(string \<times> json) list \<Rightarrow> (string \<times> project) option" where
  "link_fields o1 = do {
     i \<leftarrow> str_field o1 ''id''; n \<leftarrow> str_field o1 ''name''; w \<leftarrow> str_field o1 ''ownerRepo'';
     f \<leftarrow> str_field o1 ''repo_full_name''; g \<leftarrow> str_field o1 ''githubRepoId''; c \<leftarrow> str_field o1 ''connectorId'';
     og \<leftarrow> str_field o1 ''organizationId''; u \<leftarrow> str_field o1 ''htmlUrl''; b \<leftarrow> str_field o1 ''defaultBranch'';
     pth \<leftarrow> str_field o1 ''path'';
     Some (pth, zero_project\<lparr>p_id := trim_space i, p_name := n, p_ownerRepo := or_text w f, p_githubRepoId := g,
       p_connectorId := c, p_organizationId := og, p_htmlUrl := u, p_defaultBranch := b\<rparr>) }"

definition decodeLinkProjectBody :: "http \<Rightarrow> string + project" where
  "decodeLinkProjectBody h = (case Option.bind (body_object h) link_fields of
       None \<Rightarrow> Inl ''invalid json''
     | Some (pth, p) \<Rightarrow> if \<not> blank pth then Inl legacy_path_text else Inr p)"

definition link_project :: "externals \<Rightarrow> http \<Rightarrow> project \<Rightarrow> reply act" where
  "link_project x h0 inp0 =
     (let i = or_text (p_id inp0) (trim_space (rq_projectHeader (h_scope h0))); h = pin_header i h0 in
      if no_concrete_id i then State_Monad.return (Failed 400 ''oam project id required'')
      else do {
        tc \<leftarrow> asks tenant;
        st \<leftarrow> requireEnabledOAMProject x h ''opm'';
        case st of
          Some (code, msg) \<Rightarrow> State_Monad.return (Failed code msg)
        | None \<Rightarrow> do {
            let og = or_text (p_organizationId inp0) (resolveRequestOrg tc (h_scope h));
            rf \<leftarrow> fillProjectSCMFromOAM x h (inp0\<lparr>p_id := i, p_organizationId := normalizeWriteOrg tc og\<rparr>);
            case rf of
              Inl (code, msg) \<Rightarrow> State_Monad.return (Failed code msg)
            | Inr inp \<Rightarrow> ensure_registered inp } })"

definition handleProjects :: "externals \<Rightarrow> http \<Rightarrow> reply act" where
  "handleProjects x h =
     (if h_method h = ''GET'' then do {
        tc \<leftarrow> asks tenant;
        r \<leftarrow> ListProjectsForOrg (resolveRequestOrg tc (h_scope h));
        State_Monad.return (found_or 500 (\<lambda>ps. Fields 200 [(''projects'', PProjects ps)]) r) }
      else if h_method h = ''POST'' then (case decodeLinkProjectBody h of
          Inl e \<Rightarrow> State_Monad.return (Failed 400 e)
        | Inr inp \<Rightarrow> link_project x h inp)
      else State_Monad.return not_allowed)"

section \<open>The route of a project\<close>

definition route_parts :: "http \<Rightarrow> string list" where
  "route_parts h = (let url = trim_cut ''/'' (trim_prefix ''/api/projects/'' (h_path h)) in
     if url = [] then [] else split_on (CHR ''/'') url)"

definition handleProjectRoute :: "externals \<Rightarrow> http \<Rightarrow> (reply \<times> unit act option) act" where
  "handleProjectRoute x h = (case route_parts h of
       [] \<Rightarrow> State_Monad.return (not_found, None)
     | pid # rest \<Rightarrow> do {
         tc \<leftarrow> asks tenant;
         let org = resolveRequestOrg tc (h_scope h);
         if pid = ''ensure'' \<and> rest = [] then quietly (handleEnsureProject x h)
         else do {
           rp \<leftarrow> GetProjectForOrg pid org;
           case rp of
             Inl e \<Rightarrow> State_Monad.return (Failed 404 (err_text e), None)
           | Inr _ \<Rightarrow> (case enforcePathProjectHeader tc (h_scope h) pid of
                 (False, _) \<Rightarrow> State_Monad.return (Failed 403 ''X-Project-ID does not match path project'', None)
               | (True, sc) \<Rightarrow> project_routes x (h\<lparr>h_scope := sc\<rparr>) pid org rest) } })"

end
