(* ===== verification/Spec_Docs.thy ===== *)
theory Spec_Docs
  imports Doc_Laws
begin

text \<open>
  The abstract view of one spec: its card, the board, its plan, its progress and its
  approval, up to time stamps.  \<open>rep w pid p sid s\<close> says that the files of the world hold
  the abstract documents \<open>s\<close>; the laws say what each store operation does to \<open>s\<close>, and that
  logs, notes and the project status do nothing to it.
\<close>

record docs =
  d_task :: task
  d_board :: board
  d_plan :: "plan option"
  d_progress :: progress
  d_approved :: bool
  d_changes :: "change_set option"
  d_spec :: "string option"

definition untimed :: "task \<Rightarrow> task" where
  "untimed t = t\<lparr>t_updatedAt := zero_time\<rparr>"

definition untimed_pr :: "progress \<Rightarrow> progress" where
  "untimed_pr pr = pr\<lparr>pr_startedAt := None, pr_completedAt := None\<rparr>"

definition progress_now :: "world \<Rightarrow> string \<Rightarrow> string \<Rightarrow> progress option" where
  "progress_now w pid sid = (case look w (spec_path w pid sid ''progress.json'') of
     None \<Rightarrow> Some zero_progress | Some (File (DProgress x)) \<Rightarrow> Some x | _ \<Rightarrow> None)"

definition approved_in :: "(string \<times> json) list \<Rightarrow> bool" where
  "approved_in m = (case map_of m ''approved'' of Some (JBool v) \<Rightarrow> v | _ \<Rightarrow> False)"

definition review_now :: "world \<Rightarrow> string \<Rightarrow> string \<Rightarrow> bool option" where
  "review_now w pid sid = (case look w (spec_path w pid sid ''review_state.json'') of
     None \<Rightarrow> Some False | Some (File (DMap m)) \<Rightarrow> Some (approved_in m) | _ \<Rightarrow> None)"

definition plan_now :: "world \<Rightarrow> string \<Rightarrow> string \<Rightarrow> plan option option" where
  "plan_now w pid sid = (case look w (spec_path w pid sid ''implementation_plan.json'') of
     None \<Rightarrow> Some None | Some (File (DPlan x)) \<Rightarrow> Some (Some x) | _ \<Rightarrow> None)"

definition changes_now :: "world \<Rightarrow> string \<Rightarrow> string \<Rightarrow> change_set option option" where
  "changes_now w pid sid = (case look w (spec_path w pid sid ''changes.json'') of
     None \<Rightarrow> Some None | Some (File (DChanges x)) \<Rightarrow> Some (Some x) | _ \<Rightarrow> None)"

definition spec_now :: "world \<Rightarrow> string \<Rightarrow> string \<Rightarrow> string option option" where
  "spec_now w pid sid = (case look w (spec_path w pid sid ''spec.md'') of
     None \<Rightarrow> Some None | Some (File (DText x)) \<Rightarrow> Some (Some x) | _ \<Rightarrow> None)"

lemmas now_defs = plan_now_def progress_now_def review_now_def changes_now_def spec_now_def

text \<open>New jobs find room: no entry of \<open>runs/\<close> is a directory, and no UUID has a slash.\<close>

definition jobs_ok :: "world \<Rightarrow> string \<Rightarrow> bool" where
  "jobs_ok w pid \<longleftrightarrow> (\<forall>n. look w (home w pid @ [''runs'', n]) \<noteq> Some Dir) \<and> (\<forall>k. CHR ''/'' \<notin> set (uuid_at w k))"

lemma jobs_ok_env [simp]:
  "jobs_ok (w\<lparr>ticks := k\<rparr>) pid = jobs_ok w pid" "jobs_ok (w\<lparr>uuids := k\<rparr>) pid = jobs_ok w pid"
  "jobs_ok (w\<lparr>spawned := js\<rparr>) pid = jobs_ok w pid"
  by (simp_all add: jobs_ok_def)

lemma jobs_ok_put_file: "jobs_ok w pid \<Longrightarrow> q \<noteq> [] \<Longrightarrow> jobs_ok (put_node q (File d) w) pid"
  by (simp add: jobs_ok_def look_put_node)

lemma jobs_ok_put_spec_dir: "jobs_ok w pid \<Longrightarrow> jobs_ok (put_node (home w pid @ ''specs'' # x) Dir w) pid"
  by (simp add: jobs_ok_def look_put_node)

definition rep :: "world \<Rightarrow> string \<Rightarrow> project \<Rightarrow> string \<Rightarrow> docs \<Rightarrow> bool" where
  "rep w pid p sid s \<longleftrightarrow> pready p w pid \<and> sready w pid p sid \<and> consistent w pid \<and> jobs_ok w pid \<and>
     map_option untimed (task_at w pid sid) = Some (d_task s) \<and>
     board_at w pid = Some (d_board s) \<and>
     plan_now w pid sid = Some (d_plan s) \<and>
     map_option untimed_pr (progress_now w pid sid) = Some (d_progress s) \<and>
     review_now w pid sid = Some (d_approved s) \<and>
     changes_now w pid sid = Some (d_changes s) \<and> spec_now w pid sid = Some (d_spec s)"

lemma untimed_sel [simp]:
  "t_status (untimed t) = t_status t" "t_requireReview (untimed t) = t_requireReview t"
  "t_humanReview (untimed t) = t_humanReview t" "t_title (untimed t) = t_title t"
  "t_description (untimed t) = t_description t" "t_specId (untimed t) = t_specId t"
  by (simp_all add: untimed_def)

lemma untimed_pr_sel [simp]:
  "pr_paused (untimed_pr x) = pr_paused x" "pr_stuckSubtaskId (untimed_pr x) = pr_stuckSubtaskId x"
  "pr_isRunning (untimed_pr x) = pr_isRunning x" "pr_action (untimed_pr x) = pr_action x"
  "pr_progress (untimed_pr x) = pr_progress x" "pr_subtaskCompleted (untimed_pr x) = pr_subtaskCompleted x"
  "pr_subtaskTotal (untimed_pr x) = pr_subtaskTotal x" "pr_currentPhaseName (untimed_pr x) = pr_currentPhaseName x"
  "pr_runId (untimed_pr x) = pr_runId x"
  by (simp_all add: untimed_pr_def)

lemma rep_sready: "rep w pid p sid s \<Longrightarrow> sready w pid p sid"
  by (simp add: rep_def)

lemma rep_ready: "rep w pid p sid s \<Longrightarrow> ready w pid p"
  by (simp add: rep_def sready_def)

lemma rep_pready: "rep w pid p sid s \<Longrightarrow> pready p w pid"
  by (simp add: rep_def)

lemma rep_plain: "rep w pid p sid s \<Longrightarrow> plain sid"
  by (simp add: rep_def sready_def)

lemma rep_jobs_ok: "rep w pid p sid s \<Longrightarrow> jobs_ok w pid"
  by (simp add: rep_def)

lemma rep_consistent: "rep w pid p sid s \<Longrightarrow> consistent w pid"
  by (simp add: rep_def)

lemma rep_task: "rep w pid p sid s \<Longrightarrow> \<exists>t. task_at w pid sid = Some t \<and> untimed t = d_task s"
  by (auto simp: rep_def)

lemma rep_board: "rep w pid p sid s \<Longrightarrow> board_at w pid = Some (d_board s)"
  by (simp add: rep_def)

section \<open>Reading\<close>

lemma rep_GetTask:
  assumes "rep w pid p sid s"
  obtains t where "run_state (GetTask pid sid) w = (Inr t, w)" and "untimed t = d_task s"
    and "task_at w pid sid = Some t"
  using rep_task[OF assms] run_GetTask[OF rep_ready[OF assms] rep_plain[OF assms]] by auto

lemma rep_GetPlan:
  assumes "rep w pid p sid s"
  shows "run_state (GetPlan pid sid) w = (case d_plan s of None \<Rightarrow> Inl NotExist | Some x \<Rightarrow> Inr x, w)"
  using assms run_GetPlan[OF rep_sready[OF assms]] run_GetPlan_missing[OF rep_sready[OF assms]]
  by (auto simp: rep_def plan_now_def plan_at_look eq_commute[of _ "d_plan s"] split: option.splits node.splits doc.splits)

lemma rep_GetProgress:
  assumes "rep w pid p sid s"
  obtains x where "run_state (GetProgress pid sid) w = (Inr x, w)" and "untimed_pr x = d_progress s"
  using assms run_GetProgress[OF rep_sready[OF assms]] run_GetProgress_missing[OF rep_sready[OF assms]]
  by (auto simp: rep_def progress_now_def progress_at_look split: option.splits node.splits doc.splits)

lemma rep_GetBoard:
  assumes "rep w pid p sid s"
  shows "run_state (GetBoard pid) w = (Inr (board_view (d_board s)), w)"
  by (rule run_GetBoard[OF rep_ready[OF assms] rep_board[OF assms]])

lemma rep_read_approved:
  assumes "rep w pid p sid s"
  shows "run_state (withProject pid (\<lambda>p base. read_approved base sid)) w = (Inr (d_approved s), w)"
  using assms
  by (auto simp: rep_def review_now_def approved_in_def read_approved_def run run_withProject_home[OF rep_ready[OF assms]]
      spec_file_plain[OF rep_plain[OF assms]] spec_path_def run_readJSON_None run_readJSON_File doc_kind_of_def
      split: option.splits node.splits doc.splits)

section \<open>What a put leaves\<close>

definition tracked :: "world \<Rightarrow> string \<Rightarrow> string \<Rightarrow> path \<Rightarrow> bool" where
  "tracked w pid sid q \<longleftrightarrow> q = board_path (home w pid) \<or> (\<exists>s'. q = task_path w pid s') \<or>
     (\<exists>n\<in>set doc_names. q = spec_path w pid sid n)"

lemma consistent_cong:
  assumes "\<And>x. task_at w' pid x = task_at w pid x" and "board_at w' pid = board_at w pid"
  shows "consistent w' pid = consistent w pid"
proof -
  have "card_ok w' pid = card_ok w pid"
    by (intro ext) (simp add: card_ok_def assms(1))
  then show ?thesis using assms(2) by (simp add: consistent_def split: option.split)
qed

lemma rep_cong:
  assumes "rep w pid p sid s" and "pready p w' pid" and "sready w' pid p sid" and "home w' pid = home w pid"
    and "\<And>q. tracked w pid sid q \<Longrightarrow> look w' q = look w q" and "jobs_ok w' pid"
  shows "rep w' pid p sid s"
proof -
  have sp: "spec_path w' pid sid n = spec_path w pid sid n" for n using assms(4) by (simp add: spec_path_def)
  have tp: "task_path w' pid x = task_path w pid x" for x using assms(4) by (simp add: task_path_def)
  have t: "task_at w' pid x = task_at w pid x" for x
    by (simp add: task_at_def tp) (subst assms(5), auto simp: tracked_def)
  have b: "board_at w' pid = board_at w pid"
    by (simp add: board_at_def assms(4)) (subst assms(5), auto simp: tracked_def)
  have "look w' (spec_path w pid sid n) = look w (spec_path w pid sid n)" if "n \<in> set doc_names" for n
    using assms(5) that by (auto simp: tracked_def)
  then show ?thesis
    using assms(1-3,6) consistent_cong[OF t b]
    by (simp add: rep_def t b now_defs sp doc_names_def)
qed

lemma rep_env [simp]:
  "rep (w\<lparr>ticks := k\<rparr>) pid p sid s = rep w pid p sid s"
  "rep (w\<lparr>uuids := k\<rparr>) pid p sid s = rep w pid p sid s"
  "rep (w\<lparr>spawned := js\<rparr>) pid p sid s = rep w pid p sid s"
proof -
  have *: "task_at (w\<lparr>uuids := k\<rparr>) pid = task_at w pid" "task_at (w\<lparr>spawned := js\<rparr>) pid = task_at w pid"
    "board_at (w\<lparr>uuids := k\<rparr>) pid = board_at w pid" "board_at (w\<lparr>spawned := js\<rparr>) pid = board_at w pid"
    by (simp_all add: task_at_def board_at_def fun_eq_iff)
  have **: "consistent (w\<lparr>ticks := k\<rparr>) pid = consistent w pid" "consistent (w\<lparr>uuids := k\<rparr>) pid = consistent w pid"
    "consistent (w\<lparr>spawned := js\<rparr>) pid = consistent w pid"
    by (rule consistent_cong, simp_all add: *)+
  show "rep (w\<lparr>ticks := k\<rparr>) pid p sid s = rep w pid p sid s"
    "rep (w\<lparr>uuids := k\<rparr>) pid p sid s = rep w pid p sid s"
    "rep (w\<lparr>spawned := js\<rparr>) pid p sid s = rep w pid p sid s"
    by (simp_all add: rep_def pready_def now_defs * **)
qed

lemma pready_put_file:
  assumes p: "pready p w pid" and q: "q = home w pid @ r"
    and par: "look w (butlast q) = Some Dir" and nd: "look w q \<noteq> Some Dir"
  shows "pready p (put_node q (File d) w) pid"
proof -
  have "q \<noteq> []" using nd by auto
  moreover have "ready (put_node q (File d) w) pid p"
    by (rule ready_put_file) (use p par nd q in \<open>simp_all add: pready_def\<close>)
  ultimately show ?thesis using p by (simp add: pready_def look_put_node list_all_iff)
qed

lemma rep_put_file:
  assumes r: "rep w pid p sid s" and q: "q = home w pid @ x"
    and par: "look w (butlast q) = Some Dir" and nd: "look w q \<noteq> Some Dir" and nt: "\<not> tracked w pid sid q"
  shows "rep (put_node q (File d) w) pid p sid s"
proof (rule rep_cong[OF r])
  show "pready p (put_node q (File d) w) pid" by (rule pready_put_file[OF rep_pready[OF r] q par nd])
  show "sready (put_node q (File d) w) pid p sid" by (rule sready_put_file[OF rep_sready[OF r] q par nd])
  show "home (put_node q (File d) w) pid = home w pid" by simp
  have "q \<noteq> []" using nd by auto
  then show "look (put_node q (File d) w) q' = look w q'" if "tracked w pid sid q'" for q'
    using that nt by (auto simp: look_put_node)
  show "jobs_ok (put_node q (File d) w) pid" by (rule jobs_ok_put_file[OF rep_jobs_ok[OF r] \<open>q \<noteq> []\<close>])
qed

lemma rep_put_dir:
  assumes r: "rep w pid p sid s" and q: "q = home w pid @ [''specs'', sid, n]" and n: "n \<notin> set doc_names"
    and none: "look w q = None"
  shows "rep (put_node q Dir w) pid p sid s"
proof (rule rep_cong[OF r])
  have par: "look w (butlast q) = Some Dir"
    using sready_dir[OF rep_sready[OF r]] q by (simp add: butlast_append)
  have ne: "q \<noteq> []" using q by simp
  have rd: "ready (put_node q Dir w) pid p" by (rule ready_put_dir[OF rep_ready[OF r] par none ne])
  have "home w pid @ x \<noteq> q" if "x \<in> {[''status.json''], [''roadmap'', ''roadmap.json''], [''ideation'', ''ideation.json'']}" for x
    using that q by auto
  then show "pready p (put_node q Dir w) pid"
    using rep_pready[OF r] rd ne by (auto simp: pready_def look_put_node)
  show "sready (put_node q Dir w) pid p sid"
    by (rule sready_put_dir[OF rep_sready[OF r] q _ par none])
       (use q n in \<open>auto simp: spec_path_def board_path_def\<close>)
  show "home (put_node q Dir w) pid = home w pid" by simp
  show "look (put_node q Dir w) q' = look w q'" if "tracked w pid sid q'" for q'
    using that q n none ne by (auto simp: look_put_node tracked_def spec_path_def board_path_def task_path_def doc_names_def)
  show "jobs_ok (put_node q Dir w) pid" using jobs_ok_put_spec_dir[OF rep_jobs_ok[OF r]] q by simp
qed

section \<open>Writing\<close>

text \<open>Writing a document of the spec that is not its task.\<close>

lemma rep_put_doc:
  assumes r: "rep w pid p sid s" and n: "n \<in> set doc_names" "n \<noteq> ''task.json''"
  shows "pready p (put_node (spec_path w pid sid n) (File d) w) pid"
    and "sready (put_node (spec_path w pid sid n) (File d) w) pid p sid"
    and "consistent (put_node (spec_path w pid sid n) (File d) w) pid"
    and "task_at (put_node (spec_path w pid sid n) (File d) w) pid x = task_at w pid x"
    and "board_at (put_node (spec_path w pid sid n) (File d) w) pid = board_at w pid"
    and "jobs_ok (put_node (spec_path w pid sid n) (File d) w) pid"
proof -
  let ?w = "put_node (spec_path w pid sid n) (File d) w"
  have nb: "spec_path w pid sid n \<noteq> board_path (home w pid)" by (simp add: spec_path_def board_path_def)
  have t: "task_at ?w pid x = task_at w pid x" for x
    using n(2) by (simp add: task_at_def look_put_node) (auto simp: task_path_def spec_path_def)
  have b: "board_at ?w pid = board_at w pid"
    using nb by (auto simp: board_at_def look_put_node)
  show "pready p ?w pid"
    by (rule pready_put_file[OF rep_pready[OF r]])
       (use sready_dir[OF rep_sready[OF r]] sready_doc[OF rep_sready[OF r] n(1)] in \<open>auto simp: spec_path_def butlast_append\<close>)
  show "sready ?w pid p sid" by (rule sready_put_spec[OF rep_sready[OF r] n(1)])
  show "consistent ?w pid" using consistent_cong[OF t b] rep_consistent[OF r] by simp
  show "task_at ?w pid x = task_at w pid x" by (rule t)
  show "board_at ?w pid = board_at w pid" by (rule b)
  show "jobs_ok ?w pid" by (rule jobs_ok_put_file[OF rep_jobs_ok[OF r]]) simp
qed

lemma rep_PutPlan:
  assumes r: "rep w pid p sid s"
  obtains w' where "run_state (PutPlan pid sid x) w = (Inr (), w')" and "rep w' pid p sid (s\<lparr>d_plan := Some x\<rparr>)"
proof -
  let ?w = "put_node (spec_path w pid sid ''implementation_plan.json'') (File (DPlan x)) w"
  have n: "''implementation_plan.json'' \<in> set doc_names" by (simp add: doc_names_def)
  have "rep ?w pid p sid (s\<lparr>d_plan := Some x\<rparr>)"
    using r rep_put_doc[OF r n]
    by (simp add: rep_def now_defs look_put_node)
  then show thesis using that run_PutPlan[OF rep_sready[OF r]] by blast
qed

lemma rep_PutProgress:
  assumes r: "rep w pid p sid s"
  obtains w' where "run_state (PutProgress pid sid x) w = (Inr (), w')"
    and "rep w' pid p sid (s\<lparr>d_progress := untimed_pr x\<rparr>)"
proof -
  let ?w = "put_node (spec_path w pid sid ''progress.json'') (File (DProgress x)) w"
  have n: "''progress.json'' \<in> set doc_names" by (simp add: doc_names_def)
  have "rep ?w pid p sid (s\<lparr>d_progress := untimed_pr x\<rparr>)"
    using r rep_put_doc[OF r n]
    by (simp add: rep_def now_defs look_put_node)
  then show thesis using that run_PutProgress[OF rep_sready[OF r]] by blast
qed

text \<open>The abstract move.\<close>

definition d_move :: "string \<Rightarrow> string \<Rightarrow> docs \<Rightarrow> docs" where
  "d_move sid c s = s\<lparr>d_task := (d_task s)\<lparr>t_status := c\<rparr>, d_board := board_move sid c (d_board s)\<rparr>"

lemma d_move_sel [simp]:
  "d_task (d_move sid c s) = (d_task s)\<lparr>t_status := c\<rparr>" "d_plan (d_move sid c s) = d_plan s"
  "d_progress (d_move sid c s) = d_progress s" "d_approved (d_move sid c s) = d_approved s"
  "d_board (d_move sid c s) = board_move sid c (d_board s)" "d_changes (d_move sid c s) = d_changes s"
  "d_spec (d_move sid c s) = d_spec s"
  by (simp_all add: d_move_def)

lemma trim_column: "trim_space (column_name c) = column_name c"
proof -
  have "list_all (\<lambda>c. trim_space (column_name c) = column_name c) columns" by code_simp
  then show ?thesis by (simp add: list_all_iff)
qed

lemma rep_MoveTask:
  assumes r: "rep w pid p sid s"
  obtains t w' where "run_state (MoveTask pid sid (column_name c)) w = (Inr t, w')"
    and "rep w' pid p sid (d_move sid (column_name c) s)" and "untimed t = (d_task s)\<lparr>t_status := column_name c\<rparr>"
    and "task_at w' pid sid = Some t"
proof -
  obtain t where t: "task_at w pid sid = Some t" "untimed t = d_task s" using rep_task[OF r] by blast
  note b = rep_board[OF r]
  let ?w = "after_move w pid sid (column_name c) t (d_board s)"
  let ?t = "move_task t (column_name c) (clock_at w (ticks w))"
  have run: "run_state (MoveTask pid sid (column_name c)) w = (Inr ?t, ?w)"
    by (rule run_MoveTask[OF rep_ready[OF r] rep_plain[OF r] t(1) b trim_column]) simp
  have u: "untimed ?t = (d_task s)\<lparr>t_status := column_name c\<rparr>"
    unfolding t(2)[symmetric] by (simp add: untimed_def move_task_def)
  have h: "home ?w pid = home w pid" by (simp add: after_move_def)
  have lk: "look ?w q = look w q" if "q \<noteq> task_path w pid sid" "q \<noteq> board_path (home w pid)" for q
    using that by (simp add: after_move_def look_put_node)
  have ne: "spec_path w pid sid n \<noteq> board_path (home w pid)" for n by (simp add: spec_path_def board_path_def)
  have sp: "look ?w (spec_path w pid sid n) = look w (spec_path w pid sid n)" if "n \<noteq> ''task.json''" for n
    using that ne by (intro lk) (simp_all add: task_path_spec)
  have spt: "look ?w (spec_path w pid sid ''task.json'') = Some (File (DTask ?t))"
    using after_move_docs(1)[of w pid sid "column_name c" t "d_board s" sid]
    by (simp add: task_at_look task_path_spec) (simp add: spec_path_def h)
  have rd: "ready ?w pid p" by (rule after_move_ready[OF rep_ready[OF r] t(1) b])
  have pr: "pready p ?w pid"
    using rep_pready[OF r] rd by (auto simp: pready_def h lk task_path_def board_path_def)
  have bb: "look ?w (board_path (home w pid)) \<noteq> Some Dir"
    using after_move_docs(2)[of w pid sid "column_name c" t "d_board s"] by (simp add: board_at_look h)
  have dd: "look ?w (home w pid @ [''specs'', sid]) = Some Dir"
    using sready_dir[OF rep_sready[OF r]] by (subst lk) (simp_all add: task_path_def board_path_def)
  have "look ?w (spec_path w pid sid n) \<noteq> Some Dir" if "n \<in> set doc_names" for n
    using sready_doc[OF rep_sready[OF r] that] sp[of n] spt by (cases "n = ''task.json''") simp_all
  then have sr: "sready ?w pid p sid"
    using rd bb dd rep_plain[OF r] by (simp add: sready_def h list_all_iff spec_path_def)
  have "consistent ?w pid"
    by (rule consistent_after_move[OF rep_consistent[OF r] t(1) b rep_plain[OF r] refl])
  moreover have "jobs_ok ?w pid"
    unfolding after_move_def by (intro jobs_ok_put_file) (simp_all add: rep_jobs_ok[OF r])
  ultimately have "rep ?w pid p sid (d_move sid (column_name c) s)"
    using r pr sr u sp after_move_docs[of w pid sid "column_name c" t "d_board s"]
    by (simp add: rep_def now_defs spec_path_def h)
  then show thesis using that run u after_move_docs(1)[of w pid sid "column_name c" t "d_board s" sid] by simp
qed

text \<open>Mutating the task without moving it.\<close>

lemma run_MutateTask:
  assumes r: "rep w pid p sid s" and t: "task_at w pid sid = Some t"
  shows "run_state (MutateTask pid sid mut) w =
     (Inr ((mut t)\<lparr>t_updatedAt := clock_at w (ticks w)\<rparr>),
      put_node (task_path w pid sid) (File (DTask ((mut t)\<lparr>t_updatedAt := clock_at w (ticks w)\<rparr>))) (w\<lparr>ticks := Suc (ticks w)\<rparr>))"
proof -
  let ?q = "task_path w pid sid"
  have dir: "look w (butlast ?q) = Some Dir" using sready_dir[OF rep_sready[OF r]] by (simp add: task_path_def butlast_append)
  have lt: "look w ?q = Some (File (DTask t))" using t by (simp add: task_at_look)
  have wr: "run_state (writeJSON ?q (DTask t')) (w\<lparr>ticks := n\<rparr>) = (Inr (), put_node ?q (File (DTask t')) (w\<lparr>ticks := n\<rparr>))" for t' n
    by (rule run_writeJSON_wf) (use ready_wf[OF rep_ready[OF r]] ready_faults[OF rep_ready[OF r]] dir lt in simp_all)
  have qf: "spec_file (home w pid) sid ''task.json'' = ?q"
    by (simp add: spec_file_plain[OF rep_plain[OF r]] task_path_def)
  show ?thesis
    using wr by (simp add: MutateTask_def run_withProject_home[OF rep_ready[OF r]] qf run run_readJSON_File[OF lt] doc_kind_of_def Let_def)
qed

lemma rep_MutateTask:
  assumes r: "rep w pid p sid s"
    and keep: "\<And>t. t_status (mut t) = t_status t" "\<And>t. t_specId (mut t) = t_specId t"
  obtains t t' w' where "task_at w pid sid = Some t" and "run_state (MutateTask pid sid mut) w = (Inr t', w')"
    and "untimed t' = untimed (mut t)" and "rep w' pid p sid (s\<lparr>d_task := untimed (mut t)\<rparr>)"
    and "task_at w' pid sid = Some t'"
proof -
  obtain t where t: "task_at w pid sid = Some t" "untimed t = d_task s" using rep_task[OF r] by blast
  let ?w1 = "w\<lparr>ticks := Suc (ticks w)\<rparr>" and ?t' = "(mut t)\<lparr>t_updatedAt := clock_at w (ticks w)\<rparr>"
  let ?q = "task_path w pid sid"
  let ?w = "put_node ?q (File (DTask ?t')) ?w1"
  note run = run_MutateTask[OF r t(1), of mut]
  have sp: "?q = spec_path w pid sid ''task.json''" by (simp add: task_path_spec)
  have r1: "rep ?w1 pid p sid s" using r by simp
  have dir: "look w (butlast ?q) = Some Dir" using sready_dir[OF rep_sready[OF r]] by (simp add: task_path_def butlast_append)
  have lt: "look w ?q = Some (File (DTask t))" using t(1) by (simp add: task_at_look)
  have q: "?q = home ?w1 pid @ [''specs'', sid, ''task.json'']" by (simp add: task_path_def)
  have dir1: "look ?w1 (butlast ?q) = Some Dir" and nd1: "look ?w1 ?q \<noteq> Some Dir" using dir lt by simp_all
  have pr: "pready p ?w pid" by (rule pready_put_file[OF rep_pready[OF r1] q dir1 nd1])
  have sr: "sready ?w pid p sid" by (rule sready_put_file[OF rep_sready[OF r1] q dir1 nd1])
  have jo: "jobs_ok ?w pid" by (rule jobs_ok_put_file) (use rep_jobs_ok[OF r] in \<open>simp_all add: task_path_def\<close>)
  have ta: "task_at ?w pid x = (if x = sid then Some ?t' else task_at w pid x)" for x by (simp add: task_at_put_task)
  have bo: "board_at ?w pid = board_at w pid" by (simp add: board_at_put_task)
  have "consistent ?w pid"
  proof -
    have "card_ok ?w pid K x = card_ok w pid K x" for K x
      using t(1) keep unfolding card_ok_def ta by simp
    then show ?thesis using rep_consistent[OF r] unfolding consistent_def bo by (auto split: option.splits)
  qed
  moreover have "look ?w (spec_path w pid sid x) = look w (spec_path w pid sid x)" if "x \<noteq> ''task.json''" for x
    using that by (simp add: sp look_put_node)
  ultimately have "rep ?w pid p sid (s\<lparr>d_task := untimed (mut t)\<rparr>)"
    using r pr sr jo by (simp add: rep_def now_defs ta bo) (simp add: untimed_def)
  moreover have "untimed ?t' = untimed (mut t)" by (simp add: untimed_def)
  moreover have "task_at ?w pid sid = Some ?t'" by (simp add: ta)
  ultimately show thesis using that t(1) run by blast
qed

text \<open>Approving: the move to queue and the approval.\<close>

lemma rep_ApproveForCoding:
  assumes r: "rep w pid p sid s" and h: "t_status (d_task s) = ''human_review''"
  obtains t w' where "run_state (ApproveForCoding pid sid) w = (Inr t, w')"
    and "rep w' pid p sid ((d_move sid ''queue'' s)\<lparr>d_approved := True\<rparr>)"
proof -
  obtain t where g: "run_state (GetTask pid sid) w = (Inr t, w)" "untimed t = d_task s" by (rule rep_GetTask[OF r])
  have st: "t_status t = ''human_review''" using h g(2) untimed_sel(1) by metis
  obtain t1 w1 where m: "run_state (MoveTask pid sid ''queue'') w = (Inr t1, w1)"
    "rep w1 pid p sid (d_move sid ''queue'' s)"
    using rep_MoveTask[OF r, of Queue] by (metis column_name.simps(2))
  let ?d = "DMap [(''approved'', JBool True), (''approved_by'', JStr ''user''),
     (''approved_at'', JStr (rfc3339 (clock_at w1 (ticks w1))))]"
  let ?w2 = "w1\<lparr>ticks := Suc (ticks w1)\<rparr>"
  let ?w3 = "put_node (spec_path ?w2 pid sid ''review_state.json'') (File ?d) ?w2"
  have r2: "rep ?w2 pid p sid (d_move sid ''queue'' s)" using m(2) by simp
  have n: "''review_state.json'' \<in> set doc_names" by (simp add: doc_names_def)
  have wr: "run_state (withProject pid (\<lambda>p base. writeJSON (spec_file base sid ''review_state.json'') ?d)) ?w2 = (Inr (), ?w3)"
    by (rule run_put_spec[OF rep_sready[OF r2] n])
  have wr': "run_state (withProject pid (\<lambda>p base. do {
       now \<leftarrow> nowUTC;
       writeJSON (spec_file base sid ''review_state.json'') (DMap [(''approved'', JBool True),
         (''approved_by'', JStr ''user''), (''approved_at'', JStr (rfc3339 now))]) })) w1 = (Inr (), ?w3)"
    using wr unfolding run_withProject_home[OF rep_ready[OF r2]] run_withProject_home[OF rep_ready[OF m(2)]]
    by (simp add: run)
  have "rep ?w3 pid p sid ((d_move sid ''queue'' s)\<lparr>d_approved := True\<rparr>)"
    using r2 rep_put_doc[OF r2 n]
    by (simp add: rep_def now_defs look_put_node approved_in_def)
  moreover have "run_state (ApproveForCoding pid sid) w = (Inr t1, ?w3)"
    by (simp add: ApproveForCoding_def run g st m(1) wr')
  ultimately show thesis using that by blast
qed

section \<open>What leaves the documents alone\<close>

definition quiet :: "string \<Rightarrow> project \<Rightarrow> string \<Rightarrow> 'a act \<Rightarrow> bool" where
  "quiet pid p sid m \<longleftrightarrow> keeps (\<lambda>w w'. \<forall>s. rep w pid p sid s \<longrightarrow> rep w' pid p sid s) m"

lemma quietD: "quiet pid p sid m \<Longrightarrow> rep w pid p sid s \<Longrightarrow> rep (snd (run_state m w)) pid p sid s"
  by (simp add: quiet_def keeps_def)

lemma quiet_run:
  assumes "quiet pid p sid m" and "rep w pid p sid s"
  obtains r w' where "run_state m w = (r, w')" and "rep w' pid p sid s"
  using quietD[OF assms] by (cases "run_state m w") auto

interpretation qu: frame_rel "\<lambda>w w'. \<forall>s. rep w pid p sid s \<longrightarrow> rep w' pid p sid s" for pid p sid
  by unfold_locales auto

lemma quiet_env: "quiet pid p sid nowUTC" "quiet pid p sid uuid_new" "quiet pid p sid (go_job j)"
  by (simp_all add: quiet_def keeps_def run)

lemma quiet_return: "quiet pid p sid (State_Monad.return a)"
  by (simp add: quiet_def keeps_def)

lemma quiet_withProject:
  assumes "\<And>w s. rep w pid p sid s \<Longrightarrow> rep (snd (run_state (f p (home w pid)) w)) pid p sid s"
  shows "quiet pid p sid (withProject pid f)"
  using assms by (simp add: quiet_def keeps_def run_withProject_home[OF rep_ready])

lemma quiet_bind: "quiet pid p sid m \<Longrightarrow> (\<And>x. quiet pid p sid (f x)) \<Longrightarrow> quiet pid p sid (State_Monad.bind m f)"
  unfolding quiet_def by (rule qu.keeps_bind)

text \<open>Logs.\<close>

lemma quiet_AppendSpecLog:
  assumes ph: "plain (ph @ ''.log'')"
  shows "quiet pid p sid (AppendSpecLog pid sid ph line)"
  unfolding AppendSpecLog_def
proof (rule quiet_withProject)
  fix w s assume r: "rep w pid p sid s"
  let ?dir = "home w pid @ [''specs'', sid, ''logs'']"
  have dir: "path_join (home w pid) [''specs'', sid, ''logs''] = ?dir"
    using rep_plain[OF r] by (simp add: path_join_plain)
  have par: "look w (home w pid @ [''specs'', sid]) = Some Dir" by (rule sready_dir[OF rep_sready[OF r]])
  have fl: "faults w = []" and wf: "fs_wf w" using ready_faults[OF rep_ready[OF r]] ready_wf[OF rep_ready[OF r]] .
  have app: "rep (snd (run_state (append_file (?dir @ [ph @ ''.log'']) line) w1)) pid p sid s"
    if r1: "rep w1 pid p sid s" and d: "look w1 ?dir = Some Dir" and h: "home w1 pid = home w pid" for w1
  proof -
    have nt: "\<not> tracked w1 pid sid (?dir @ [ph @ ''.log''])"
      by (auto simp: tracked_def board_path_def task_path_def spec_path_def h)
    have q: "?dir @ [ph @ ''.log''] = home w1 pid @ [''specs'', sid, ''logs'', ph @ ''.log'']" by (simp add: h)
    have put: "look w1 (?dir @ [ph @ ''.log'']) \<noteq> Some Dir \<Longrightarrow>
        rep (put_node (?dir @ [ph @ ''.log'']) (File x) w1) pid p sid s" for x
      by (rule rep_put_file[OF r1 q]) (use d nt in \<open>simp_all add: butlast_append\<close>)
    show ?thesis
      using put d r1 ready_faults[OF rep_ready[OF r1]]
      by (auto simp: append_file_def butlast_append split: option.splits node.splits)
  qed
  have step: "path_join ?dir [ph @ ''.log''] = ?dir @ [ph @ ''.log'']" using ph by (simp add: path_join_plain)
  consider (none) "look w ?dir = None" | (isdir) "look w ?dir = Some Dir" | (isfile) d where "look w ?dir = Some (File d)"
    by (metis node.exhaust not_None_eq)
  then show "rep (snd (run_state (bindE (mkdir_all (path_join (home w pid) [''specs'', sid, ''logs'']))
      (\<lambda>_. append_file (path_join (path_join (home w pid) [''specs'', sid, ''logs'']) [ph @ ''.log'']) line)) w)) pid p sid s"
  proof cases
    case none
    have mk: "run_state (mkdir_all ?dir) w = (Inr (), put_node ?dir Dir w)"
      using run_mkdir_new[OF wf fl par, of "''logs''"] none by simp
    have r1: "rep (put_node ?dir Dir w) pid p sid s"
      by (rule rep_put_dir[OF r refl _ none]) (simp add: doc_names_def)
    have "look (put_node ?dir Dir w) ?dir = Some Dir" by (simp add: look_put_node)
    from app[OF r1 this] show ?thesis unfolding dir step by (simp add: run mk)
  next
    case isdir
    have mk: "run_state (mkdir_all ?dir) w = (Inr (), w)"
      by (rule run_mkdir_all_ok) (use fs_wf_dir_ok[OF wf isdir] fl in simp_all)
    from app[OF r isdir refl] show ?thesis unfolding dir step by (simp add: run mk)
  next
    case (isfile d)
    have "?dir \<in> set (path_prefixes ?dir)" by (simp add: set_path_prefixes)
    then have "list_ex (is_file w) (path_prefixes ?dir)"
      using isfile unfolding list_ex_iff is_file_def by (intro bexI[of _ ?dir]) simp_all
    then have "run_state (mkdir_all ?dir) w = (Inl IOError, w)" by (simp add: mkdir_all_def)
    then show ?thesis using r unfolding dir step by (simp add: run)
  qed
qed

text \<open>Files that are not documents of a spec.\<close>

lemma rep_write_file:
  assumes r: "rep w pid p sid s" and nt: "\<not> tracked w pid sid (home w pid @ x)"
  shows "rep (snd (run_state (write_file (home w pid @ x) d) w)) pid p sid s"
  using r nt rep_put_file[OF r refl, of x d] by (simp add: write_file_def)

lemma untracked_root: "\<not> tracked w pid sid (home w pid @ [n])" if "n \<noteq> ''board.json''"
  using that by (auto simp: tracked_def board_path_def task_path_def spec_path_def)

lemma untracked_spec: "\<not> tracked w pid sid (home w pid @ [''specs'', sid, n])" if "n \<notin> set doc_names"
  using that by (auto simp: tracked_def board_path_def task_path_def spec_path_def doc_names_def)

lemma quiet_PutStatus: "quiet pid p sid (PutStatus pid st)"
  unfolding PutStatus_def
proof (rule quiet_withProject)
  fix w s assume r: "rep w pid p sid s"
  have "dir_ok w (home w pid)"
    using fs_wf_dir_ok[OF ready_wf[OF rep_ready[OF r]] ready_home_dir[OF rep_ready[OF r]]] .
  then have "run_state (mkdir_all (home w pid)) w = (Inr (), w)"
    by (rule run_mkdir_all_ok) (simp add: ready_faults[OF rep_ready[OF r]])
  then show "rep (snd (run_state (writeJSON (home w pid @ [''status.json'']) (DStatus st)) w)) pid p sid s"
    using rep_write_file[OF r untracked_root] by (simp add: writeJSON_def run)
qed

lemma rep_PutSpecMarkdown:
  assumes r: "rep w pid p sid s"
  obtains w' where "run_state (PutSpecMarkdown pid sid content) w = (Inr (), w')"
    and "rep w' pid p sid (s\<lparr>d_spec := Some content\<rparr>)"
proof -
  let ?w = "put_node (spec_path w pid sid ''spec.md'') (File (DText content)) w"
  have n: "''spec.md'' \<in> set doc_names" by (simp add: doc_names_def)
  have "run_state (PutSpecMarkdown pid sid content) w = (Inr (), ?w)"
    using sready_doc[OF rep_sready[OF r] n] sready_dir[OF rep_sready[OF r]] ready_faults[OF rep_ready[OF r]]
    by (simp add: PutSpecMarkdown_def run_withProject_home[OF rep_ready[OF r]] spec_file_plain[OF rep_plain[OF r]]
        write_file_def spec_path_def butlast_append)
  moreover have "rep ?w pid p sid (s\<lparr>d_spec := Some content\<rparr>)"
    using r rep_put_doc[OF r n] by (simp add: rep_def now_defs look_put_node)
  ultimately show thesis using that by blast
qed

end
