(* ===== verification/Job_Records.thy ===== *)
theory Job_Records
  imports Spec_Docs
begin

text \<open>
  The laws of the job records under \<open>runs/\<close>: what creating, updating, reading and listing
  do to the store, and that they leave every document of a spec alone.
\<close>

definition job_path :: "world \<Rightarrow> string \<Rightarrow> string \<Rightarrow> path" where
  "job_path w pid rid = home w pid @ [''runs'', rid @ ''.json'']"

definition job_at :: "world \<Rightarrow> string \<Rightarrow> string \<Rightarrow> job option" where
  "job_at w pid rid = (case look w (job_path w pid rid) of Some (File (DJob j)) \<Rightarrow> Some j | _ \<Rightarrow> None)"

text \<open>A run id without a slash.\<close>

definition jobid :: "string \<Rightarrow> bool" where
  "jobid rid \<longleftrightarrow> CHR ''/'' \<notin> set rid"

lemma job_at_look: "job_at w pid rid = Some j \<longleftrightarrow> look w (job_path w pid rid) = Some (File (DJob j))"
  by (auto simp: job_at_def split: option.splits node.splits doc.splits)

lemma job_path_sel [simp]:
  "job_path (w\<lparr>ticks := n\<rparr>) pid rid = job_path w pid rid" "job_path (w\<lparr>uuids := n\<rparr>) pid rid = job_path w pid rid"
  "job_path (w\<lparr>spawned := js\<rparr>) pid rid = job_path w pid rid" "job_path (put_node q nd w) pid rid = job_path w pid rid"
  by (simp_all add: job_path_def)

lemma job_path_ne [simp]: "job_path w pid rid \<noteq> []"
  by (simp add: job_path_def)

lemma job_path_inj [simp]: "job_path w pid rid = job_path w pid rid' \<longleftrightarrow> rid = rid'"
  by (simp add: job_path_def)

lemma plain_json: "jobid rid \<Longrightarrow> plain (rid @ ''.json'')"
  by (cases rid) (auto simp: plain_def jobid_def)

lemma job_file_home: "jobid rid \<Longrightarrow> job_file (home w pid) rid = job_path w pid rid"
  by (simp add: job_file_def job_path_def path_join_plain plain_json)

lemma itoa_jobid: "jobid (itoa i)"
proof -
  have "CHR ''/'' \<notin> set (itoa_nat n)" for n
    using itoa_nat_digits[of n] by (auto simp: list_all_iff is_digit_def)
  then show ?thesis by (simp add: itoa_def jobid_def)
qed

lemma runs_dir: "ready w pid p \<Longrightarrow> look w (home w pid @ [''runs'']) = Some Dir"
  using ready_home[of w pid p] by (auto elim!: ready_D simp: layout_ok_def layout_dirs_def dest: dir_ok_look)

lemma job_path_untracked: "\<not> tracked w pid sid (job_path w pid rid)"
  by (auto simp: tracked_def job_path_def board_path_def task_path_def spec_path_def)

lemma job_path_parent: "ready w pid p \<Longrightarrow> look w (butlast (job_path w pid rid)) = Some Dir"
  using runs_dir[of w pid p] by (simp add: job_path_def butlast_append)

section \<open>Reading and updating\<close>

lemma run_GetJob:
  assumes "ready w pid p" and "jobid rid" and "job_at w pid rid = Some j"
  shows "run_state (GetJob pid rid) w = (Inr j, w)"
  using assms
  by (simp add: GetJob_def run_withProject_home job_file_home job_at_look run_readJSON_File doc_kind_of_def)

definition stamped :: "job \<Rightarrow> time \<Rightarrow> job" where
  "stamped j now = j\<lparr>j_updatedAt := now\<rparr>"

definition after_job :: "world \<Rightarrow> string \<Rightarrow> job \<Rightarrow> world" where
  "after_job w pid j = put_node (job_path w pid (j_runId j)) (File (DJob (stamped j (clock_at w (ticks w)))))
     (w\<lparr>ticks := Suc (ticks w)\<rparr>)"

lemma run_write_job:
  assumes r: "ready w pid p" and nd: "look w (job_path w pid rid) \<noteq> Some Dir"
  shows "run_state (writeJSON (job_path w pid rid) d) w = (Inr (), put_node (job_path w pid rid) (File d) w)"
  by (rule run_writeJSON_wf[OF ready_wf[OF r] ready_faults[OF r] job_path_parent[OF r] nd])

lemma run_UpdateJob:
  assumes r: "ready w pid p" and i: "jobid (j_runId j)" and nd: "look w (job_path w pid (j_runId j)) \<noteq> Some Dir"
  shows "run_state (UpdateJob pid j) w = (Inr (), after_job w pid j)"
proof -
  let ?w = "w\<lparr>ticks := Suc (ticks w)\<rparr>"
  have "run_state (writeJSON (job_path ?w pid (j_runId j)) (DJob (stamped j (clock_at w (ticks w))))) ?w =
      (Inr (), put_node (job_path ?w pid (j_runId j)) (File (DJob (stamped j (clock_at w (ticks w))))) ?w)"
    by (rule run_write_job) (use r nd in simp_all)
  then show ?thesis
    by (simp add: UpdateJob_def run_withProject_home[OF r] run job_file_home[OF i] after_job_def stamped_def)
qed

lemma rep_put_job:
  assumes r: "rep w pid p sid s" and nd: "look w (job_path w pid rid) \<noteq> Some Dir"
  shows "rep (put_node (job_path w pid rid) (File d) w) pid p sid s"
  by (rule rep_put_file[OF r _ job_path_parent[OF rep_ready[OF r]] nd job_path_untracked]) (simp add: job_path_def)

lemma after_job_rep:
  assumes "rep w pid p sid s" and "look w (job_path w pid (j_runId j)) \<noteq> Some Dir"
  shows "rep (after_job w pid j) pid p sid s"
  using rep_put_job[of "w\<lparr>ticks := Suc (ticks w)\<rparr>" pid p sid s "j_runId j"] assms by (simp add: after_job_def)

lemma after_job_at:
  "job_at (after_job w pid j) pid rid =
     (if rid = j_runId j then Some (stamped j (clock_at w (ticks w))) else job_at w pid rid)"
  by (auto simp: job_at_def after_job_def look_put_node)

section \<open>Creating\<close>

definition new_run_id :: "world \<Rightarrow> string" where
  "new_run_id w = itoa (unix_milli (clock_at w (ticks w))) @ ''-'' @ uuid_at w (uuids w)"

definition created_job :: "world \<Rightarrow> string \<Rightarrow> string \<Rightarrow> string \<Rightarrow> string \<Rightarrow> job_origin \<Rightarrow> job" where
  "created_job w pid action sid img og = new_job (new_run_id w) pid action sid img og (clock_at w (ticks w))"

definition job_status :: "world \<Rightarrow> string \<Rightarrow> string \<Rightarrow> pstatus" where
  "job_status w action sid = (idleStatus (clock_at w (Suc (ticks w))))\<lparr> ps_active := True, ps_spec := sid,
     ps_state := mapActionToState action, ps_runId := new_run_id w, ps_lastUpdate := rfc3339 (clock_at w (ticks w))\<rparr>"

definition after_create_job :: "world \<Rightarrow> string \<Rightarrow> string \<Rightarrow> string \<Rightarrow> job \<Rightarrow> world" where
  "after_create_job w pid action sid j =
     put_node (home w pid @ [''status.json'']) (File (DStatus (job_status w action sid)))
       (put_node (job_path w pid (j_runId j)) (File (DJob j)) (w\<lparr>ticks := Suc (Suc (ticks w)), uuids := Suc (uuids w)\<rparr>))"

text \<open>The UUID has no slash and the run's file name is not taken by a directory.\<close>

definition job_room :: "world \<Rightarrow> string \<Rightarrow> bool" where
  "job_room w pid \<longleftrightarrow> jobid (uuid_at w (uuids w)) \<and> look w (job_path w pid (new_run_id w)) \<noteq> Some Dir"

lemma new_run_id_jobid: "job_room w pid \<Longrightarrow> jobid (new_run_id w)"
  using itoa_jobid by (simp add: job_room_def new_run_id_def jobid_def)

lemma new_job_sel [simp]:
  "j_runId (new_job r pid a sid img og now) = r" "j_projectId (new_job r pid a sid img og now) = pid"
  "j_specId (new_job r pid a sid img og now) = sid" "j_action (new_job r pid a sid img og now) = a"
  "j_state (new_job r pid a sid img og now) = ''queued''" "j_organizationId (new_job r pid a sid img og now) = o_organizationId og"
  "j_actorUsername (new_job r pid a sid img og now) = o_actorUsername og"
  "j_modelOverride (new_job r pid a sid img og now) = o_modelOverride og"
  "j_agentKey (new_job r pid a sid img og now) = agentKeyForAction a" "j_runnerImage (new_job r pid a sid img og now) = img"
  by (simp_all add: new_job_def Let_def)

lemma created_job_sel [simp]:
  "j_runId (created_job w pid a sid img og) = new_run_id w" "j_projectId (created_job w pid a sid img og) = pid"
  "j_specId (created_job w pid a sid img og) = sid" "j_action (created_job w pid a sid img og) = a"
  "j_state (created_job w pid a sid img og) = ''queued''"
  by (simp_all add: created_job_def)

lemma run_CreateJob:
  assumes r: "pready p w pid" and room: "job_room w pid" and ok: "unsupportedReviewAction action = None"
  shows "run_state (CreateJobWithOrigin pid action sid img og) w =
    (Inr (created_job w pid action sid img og), after_create_job w pid action sid (created_job w pid action sid img og))"
proof -
  let ?w1 = "w\<lparr>ticks := Suc (ticks w), uuids := Suc (uuids w)\<rparr>"
  let ?j = "created_job w pid action sid img og"
  let ?w2 = "put_node (job_path w pid (new_run_id w)) (File (DJob ?j)) ?w1"
  let ?w3 = "?w2\<lparr>ticks := Suc (Suc (ticks w))\<rparr>"
  have rd: "ready w pid p" using r by (simp add: pready_def)
  have rid: "jobid (new_run_id w)" by (rule new_run_id_jobid[OF room])
  have nd: "look w (job_path w pid (new_run_id w)) \<noteq> Some Dir" using room by (simp add: job_room_def)
  have w2: "run_state (writeJSON (job_path ?w1 pid (new_run_id w)) (DJob ?j)) ?w1 = (Inr (), ?w2)"
    using run_write_job[of ?w1 pid p "new_run_id w" "DJob ?j"] rd nd by simp
  have r1: "pready p ?w1 pid" using r by (simp add: pready_def)
  have par: "look ?w1 (butlast (job_path ?w1 pid (new_run_id w))) = Some Dir"
    using job_path_parent[of ?w1 pid p] rd by simp
  have r2: "pready p ?w2 pid"
    using pready_put_file[OF r1, of "job_path ?w1 pid (new_run_id w)" "[''runs'', new_run_id w @ ''.json'']" "DJob ?j"] par nd
    by (simp add: job_path_def)
  have r3: "pready p ?w3 pid" using r2 by (simp add: pready_def)
  have w3: "run_state (writeJSON (home w pid @ [''status.json'']) (DStatus (job_status w action sid))) ?w3 =
      (Inr (), after_create_job w pid action sid ?j)"
    using run_put_project(1)[OF r3, of "[''status.json'']" "DStatus (job_status w action sid)"] rd r3
    by (simp add: run_withProject_home[of _ _ p] pready_def after_create_job_def)
       (simp add: put_node_def)
  have id: "itoa (unix_milli (clock_at w (ticks w))) @ CHR ''-'' # uuid_at w (uuids w) = new_run_id w"
    by (simp add: new_run_id_def)
  show ?thesis
    unfolding CreateJobWithOrigin_def ok option.case run_withProject_home[OF rd]
    using w2 w3 rid
    by (simp add: run Let_def id job_file_home[OF rid] created_job_def[symmetric] job_status_def)
qed

lemma after_create_job_rep:
  assumes r: "rep w pid p sid s" and room: "job_room w pid"
  shows "rep (after_create_job w pid action sid' (created_job w pid action sid' img og)) pid p sid s"
proof -
  let ?w1 = "w\<lparr>ticks := Suc (Suc (ticks w)), uuids := Suc (uuids w)\<rparr>"
  let ?j = "created_job w pid action sid' img og"
  let ?w2 = "put_node (job_path w pid (new_run_id w)) (File (DJob ?j)) ?w1"
  have r1: "rep ?w1 pid p sid s" using r by simp
  have r2: "rep ?w2 pid p sid s"
    using rep_put_job[OF r1, of "new_run_id w" "DJob ?j"] room by (simp add: job_room_def)
  have "look ?w2 (home w pid) = Some Dir" using ready_home_dir[OF rep_ready[OF r2]] by simp
  moreover have "look ?w2 (home w pid @ [''status.json'']) \<noteq> Some Dir"
    using rep_pready[OF r2] by (simp add: pready_def)
  ultimately show ?thesis
    using rep_put_file[OF r2, of "home w pid @ [''status.json'']" "[''status.json'']"] untracked_root[of "''status.json''" ?w2 pid sid]
    by (simp add: after_create_job_def)
qed

lemma after_create_job_at:
  "job_at (after_create_job w pid action sid (created_job w pid action sid img og)) pid rid =
     (if rid = new_run_id w then Some (created_job w pid action sid img og) else job_at w pid rid)"
proof -
  have "job_path w pid rid \<noteq> home w pid @ [''status.json'']" by (simp add: job_path_def)
  then show ?thesis by (auto simp: job_at_def after_create_job_def look_put_node)
qed

text \<open>On a represented spec a job can always be created.\<close>

lemma rep_job_room: "rep w pid p sid s \<Longrightarrow> job_room w pid"
  using rep_jobs_ok[of w pid p sid s] by (simp add: jobs_ok_def job_room_def jobid_def job_path_def)

lemma rep_CreateJob:
  assumes r: "rep w pid p sid s" and a: "unsupportedReviewAction action = None"
  obtains w' where "run_state (CreateJobWithOrigin pid action sid' img og) w = (Inr (created_job w pid action sid' img og), w')"
    and "rep w' pid p sid s" and "spawned w' = spawned w"
    and "job_at w' pid (new_run_id w) = Some (created_job w pid action sid' img og)"
    and "w' = after_create_job w pid action sid' (created_job w pid action sid' img og)"
  using run_CreateJob[OF rep_pready[OF r] rep_job_room[OF r] a] after_create_job_rep[OF r rep_job_room[OF r]]
    after_create_job_at[of w pid action sid' img og "new_run_id w"]
  by (auto simp: after_create_job_def)

section \<open>Listing\<close>

definition job_entry :: "world \<Rightarrow> path \<Rightarrow> string \<Rightarrow> job option" where
  "job_entry w dir n = (if \<not> has_suffix ''.json'' n then None
     else case look w (dir @ [n]) of Some (File d) \<Rightarrow> Option.bind (decode w KJob d) prj_job | _ \<Rightarrow> None)"

definition jobs_now :: "world \<Rightarrow> string \<Rightarrow> job list" where
  "jobs_now w pid = List.map_filter (job_entry w (home w pid @ [''runs''])) (children w (home w pid @ [''runs'']))"

lemma run_read_jobs:
  "\<forall>n\<in>set ns. look w (dir @ [n]) \<noteq> None \<Longrightarrow>
   run_state (read_jobs dir (map (\<lambda>n. (n, look w (dir @ [n]) = Some Dir)) ns)) w = (List.map_filter (job_entry w dir) ns, w)"
proof (induction ns)
  case (Cons n ns)
  have ih: "run_state (read_jobs dir (map (\<lambda>n. (n, look w (dir @ [n]) = Some Dir)) ns)) w = (List.map_filter (job_entry w dir) ns, w)"
    using Cons by simp
  obtain nd where nd: "look w (dir @ [n]) = Some nd" using Cons.prems by auto
  show ?case
  proof (cases "nd = Dir \<or> \<not> has_suffix ''.json'' n")
    case True
    then have "job_entry w dir n = None" using nd by (auto simp: job_entry_def)
    then show ?thesis using True nd ih by (auto simp: List.map_filter_simps)
  next
    case False
    then obtain d where d: "nd = File d" by (cases nd) auto
    have "run_state (readJSON KJob prj_job (dir @ [n])) w =
        (case job_entry w dir n of None \<Rightarrow> Inl BadJSON | Some j \<Rightarrow> Inr j, w)"
      using nd d False by (simp add: readJSON_def run job_entry_def split: option.split)
    then show ?thesis using False nd ih d by (simp add: run List.map_filter_simps split: option.split)
  qed
qed (simp add: run List.map_filter_simps)

lemma run_ListJobs:
  assumes "ready w pid p"
  shows "run_state (ListJobs pid) w = (Inr (jobs_now w pid), w)"
proof -
  let ?dir = "home w pid @ [''runs'']"
  have "\<forall>n\<in>set (children w ?dir). look w (?dir @ [n]) \<noteq> None" using set_children by blast
  from run_read_jobs[OF this] show ?thesis
    using runs_dir[OF assms] by (simp add: ListJobs_def run run_withProject_home[OF assms] jobs_now_def)
qed

lemma has_suffix_append [simp]: "has_suffix e (x @ e)"
  by (auto simp: has_suffix_iff)

lemma job_at_listed:
  assumes "job_at w pid rid = Some j"
  shows "j \<in> set (jobs_now w pid)"
proof -
  let ?dir = "home w pid @ [''runs'']" and ?n = "rid @ ''.json''"
  have lk: "look w (?dir @ [?n]) = Some (File (DJob j))" using assms by (simp add: job_at_look job_path_def)
  then have "job_entry w ?dir ?n = Some j" by (simp add: job_entry_def decode_def doc_kind_of_def)
  moreover have "?n \<in> set (children w ?dir)" using lk set_children[of ?n w ?dir] by simp
  ultimately show ?thesis unfolding jobs_now_def List.map_filter_def by force
qed

end
