(* ===== verification/Job_Frame.thy ===== *)
theory Job_Frame
  imports Job_Records Roadmap_Run
begin

text \<open>
  What the operations of a project leave alone.  \<open>store_frame\<close> is the interface: a relation at
  the directory of a project that every write of the store outside \<open>runs/\<close> respects.  The
  operations on tasks and documents and the executors respect every such relation, when the
  spec id is one path segment.  \<open>jobs_kept\<close>, the job records stay as they are, is one such
  relation; theory \<open>Job_Guard\<close> has the other.
\<close>

text \<open>The directory \<open>b\<close> or a path below it that is not below \<open>runs/\<close>.\<close>

definition off_runs :: "path \<Rightarrow> path \<Rightarrow> bool" where
  "off_runs b q \<longleftrightarrow> (\<exists>x r. q = b @ x # r \<and> (x = ''runs'' \<longrightarrow> r = [])) \<or> q = b"

lemma off_runs_ne: "off_runs b q \<Longrightarrow> q \<noteq> b @ [''runs'', n]"
  by (auto simp: off_runs_def)

lemma off_runs_prefix: "off_runs b q \<Longrightarrow> b @ [''runs'', n] \<notin> set (path_prefixes q)"
proof
  assume o: "off_runs b q" and "b @ [''runs'', n] \<in> set (path_prefixes q)"
  then obtain s where "q = (b @ [''runs'', n]) @ s" using is_under_iff set_path_prefixes by auto
  then show False using o by (auto simp: off_runs_def)
qed

lemma off_runs_butlast: "off_runs b (b @ x # r) \<Longrightarrow> off_runs b (butlast (b @ x # r))"
  by (cases r) (auto simp: off_runs_def butlast_append)

lemma off_runs_simps [simp]: "off_runs b b" "off_runs b [] \<longleftrightarrow> b = []"
  "off_runs b (b @ x # r) \<longleftrightarrow> (x = ''runs'' \<longrightarrow> r = [])"
  by (auto simp: off_runs_def)

named_theorems jobframe \<open>operations that respect a store frame\<close>

lemma case_sum_keeps [jobframe]:
  "(\<And>e. keeps R (f e)) \<Longrightarrow> (\<And>x. keeps R (g x)) \<Longrightarrow> keeps R (case r of Inl e \<Rightarrow> f e | Inr x \<Rightarrow> g x)"
  by (simp split: sum.split)

lemma case_option_keeps [jobframe]:
  "keeps R f \<Longrightarrow> (\<And>x. keeps R (g x)) \<Longrightarrow> keeps R (case r of None \<Rightarrow> f | Some x \<Rightarrow> g x)"
  by (simp split: option.split)

lemma case_prod_keeps [jobframe]: "(\<And>a b. keeps R (f a b)) \<Longrightarrow> keeps R (case x of (a, b) \<Rightarrow> f a b)"
  by (simp split: prod.split)

lemma if_keeps [jobframe]:
  "(c \<Longrightarrow> keeps R m) \<Longrightarrow> (\<not> c \<Longrightarrow> keeps R n) \<Longrightarrow> keeps R (if c then m else n)"
  by simp

text \<open>Reading, and asking for the parameters of the world.\<close>

definition harmless :: "'a act \<Rightarrow> bool" where
  "harmless = keeps (\<lambda>w w'. w' = w)"

interpretation hl: frame_rel "\<lambda>w w' :: world. w' = w"
  by unfold_locales simp_all

lemma harmless_reads [simp]:
  "harmless (asks f)" "harmless (exists_path q)" "harmless (read_file q)" "harmless (readJSON k prj q)"
  "harmless (read_text q)" "harmless (read_dir q)" "harmless (GetProject pid)"
  by (simp_all add: harmless_def keeps_def run)

section \<open>The interface\<close>

locale store_frame =
  fixes T :: "path \<Rightarrow> world \<Rightarrow> world \<Rightarrow> bool"
  assumes F_refl: "T b w w"
    and F_trans: "T b w w' \<Longrightarrow> T b w' w'' \<Longrightarrow> T b w w''"
    and F_env: "T b w w' \<Longrightarrow> same_env w w'"
    and F_supply: "keeps (T b) nowUTC" "keeps (T b) uuid_new" "keeps (T b) (go_job j)"
    and F_write: "off_runs b q \<Longrightarrow> keeps (T b) (write_file q d)"
    and F_append: "off_runs b q \<Longrightarrow> keeps (T b) (append_file q s)"
    and F_mkdir: "off_runs b q \<Longrightarrow> keeps (T b) (mkdir_all q)"

sublocale store_frame \<subseteq> fr: frame_rel "T b" for b
  by unfold_locales (rule F_refl, rule F_trans)

context store_frame begin

lemma base_harmless: "harmless m \<Longrightarrow> keeps (T b) m"
  by (auto simp: harmless_def keeps_def intro: F_refl)

lemmas base_reads [jobframe] = harmless_reads[THEN base_harmless]

lemmas base_intros = fr.keeps_bind fr.keeps_bindE fr.keeps_return fr.keeps_okE fr.keeps_throwE fr.keeps_failE_when
  F_supply jobframe

lemma base_writeJSON: "off_runs b (b @ x # r) \<Longrightarrow> keeps (T b) (writeJSON (b @ x # r) d)"
  unfolding writeJSON_def by (intro fr.keeps_bindE F_mkdir F_write off_runs_butlast) assumption

lemma base_if_missing: "keeps (T b) m \<Longrightarrow> keeps (T b) (if_missing q m)"
  unfolding if_missing_def
  by (rule fr.keeps_bind[OF base_harmless]) (simp_all add: fr.keeps_okE)

lemma base_mkdirs_all: "list_all (off_runs b) ds \<Longrightarrow> keeps (T b) (mkdirs_all ds)"
  by (induction ds) (auto intro!: fr.keeps_okE fr.keeps_bindE F_mkdir)

lemma base_ensureLayout:
  assumes "b = projectDir w p"
  shows "T b w (snd (run_state (ensureLayout p) w))"
proof -
  have "keeps (T b) (bindE (mkdirs_all (layout_dirs b)) (\<lambda>_.
     bindE (if_missing (b @ [''board.json'']) (writeJSON (b @ [''board.json'']) (DBoard emptyBoard))) (\<lambda>_.
     bindE (if_missing (b @ [''status.json''])
              (do { now \<leftarrow> nowUTC; writeJSON (b @ [''status.json'']) (DStatus (idleStatus now)) })) (\<lambda>_.
     bindE (if_missing (b @ [''roadmap'', ''roadmap.json''])
              (writeJSON (b @ [''roadmap'', ''roadmap.json'']) (DRoadmap (seed_roadmap p)))) (\<lambda>_.
     bindE (if_missing (b @ [''ideation'', ''ideation.json''])
              (writeJSON (b @ [''ideation'', ''ideation.json'']) (DIdeation emptyIdeation))) (\<lambda>_.
     if_missing (b @ [''changelog.md''])
              (write_file (b @ [''changelog.md'']) (DText changelog_seed))))))))"
    by (intro fr.keeps_bindE fr.keeps_bind F_supply base_if_missing base_mkdirs_all base_writeJSON F_write)
       (simp_all add: layout_dirs_def)
  then show ?thesis by (simp add: ensureLayout_def run keeps_def assms)
qed

lemma as_project_frame: "project_frame T"
  by unfold_locales (auto intro: F_refl F_trans F_env base_ensureLayout)

end

sublocale store_frame \<subseteq> project_frame T
  by (rule as_project_frame)

sublocale store_frame \<subseteq> ap: frame_rel "at_project pid" for pid
  by (rule at_project_frame)

section \<open>The store\<close>

lemma spec_file_at: "plain sid \<Longrightarrow> plain n \<Longrightarrow> spec_file b sid n = b @ ''specs'' # [sid, n]"
  by (simp add: spec_file_plain)

lemma doc_segments [simp]: "plain ''changelog.md''" "plain ''planning''" "plain ''implementation''"
  by (simp_all add: plain_def)

text \<open>A project log is one file below \<open>logs/\<close>, whatever the action is called.\<close>

lemma project_log_name: "\<exists>z. \<forall>b. path_join b [path_base name @ ''.log''] = b @ [z]"
proof (cases "path_base name = ''/''")
  case True
  have "path_join b [''/.log''] = b @ [''.log'']" for b by (simp add: path_join_Cons clean_step_def)
  then show ?thesis using True by auto
next
  case False
  have "CHR ''/'' \<notin> set (path_base name)"
    using False split_on_no_sep[of "last (split_on (CHR ''/'') t)" "CHR ''/''" t for t]
    by (auto simp: path_base_def Let_def split: if_splits)
  then have "plain (path_base name @ ''.log'')" by (auto simp: plain_def)
  then show ?thesis by (auto simp: path_join_plain)
qed

lemma harmless_read_tasks [simp]: "harmless (read_tasks d es)"
proof (induction d es rule: read_tasks.induct)
  case (2 d n isdir es)
  then have "harmless (do { r \<leftarrow> readJSON KTask prj_task (d @ [n, ''task.json'']); ts \<leftarrow> read_tasks d es;
      State_Monad.return (case r of Inl _ \<Rightarrow> ts | Inr t \<Rightarrow> t # ts) })" if isdir
    unfolding harmless_def using that harmless_reads(4)[unfolded harmless_def]
    by (intro hl.keeps_bind hl.keeps_return) auto
  then show ?case using 2 by simp
qed (simp add: harmless_def hl.keeps_return)

context store_frame begin

lemma ap_withProject: "(\<And>p base. keeps (T base) (fn p base)) \<Longrightarrow> keeps (at_project pid) (withProject pid fn)"
  by (rule keeps_at_project)

lemma ap_harmless: "harmless m \<Longrightarrow> keeps (at_project pid) m"
  by (auto simp: harmless_def keeps_def intro: ap.R_refl)

lemmas ap_reads [jobframe] = harmless_reads(1,7)[THEN ap_harmless]
lemmas base_read_tasks [jobframe] = harmless_read_tasks[THEN base_harmless]

lemma ap_supply [jobframe]:
  "keeps (at_project pid) nowUTC" "keeps (at_project pid) uuid_new" "keeps (at_project pid) (go_job j)"
  using F_supply by (simp_all add: keeps_def at_project_def)

lemma ap_out [jobframe]: "keeps (at_project pid) (ok m)" "keeps (at_project pid) (bad m e)"
  by (simp_all add: ok_def bad_def ap.keeps_return)

lemmas ap_intros = ap.keeps_bind ap.keeps_bindE ap.keeps_return ap.keeps_okE ap.keeps_throwE ap.keeps_failE_when

lemma base_spec_file:
  assumes "plain sid" and "plain n"
  shows "keeps (T b) (writeJSON (spec_file b sid n) d)" and "keeps (T b) (write_file (spec_file b sid n) d)"
  unfolding spec_file_at[OF assms] by (intro base_writeJSON F_write, simp)+

lemma base_top: "n \<noteq> ''runs'' \<Longrightarrow> keeps (T b) (writeJSON (b @ [n]) d)" "n \<noteq> ''runs'' \<Longrightarrow> keeps (T b) (write_file (b @ [n]) d)"
  using base_writeJSON[of b n "[]" d] F_write[of b "b @ [n]" d] by simp_all

lemma ap_tasks [jobframe]:
  assumes "plain sid"
  shows "keeps (at_project pid) (MoveTask pid sid c)" "keeps (at_project pid) (MutateTask pid sid mut)"
  unfolding MoveTask_def MutateTask_def Let_def board_path_def
  by (intro ap_withProject ap_intros base_intros base_spec_file base_top assms; simp)+

lemma ap_ApproveForCoding [jobframe]: "plain sid \<Longrightarrow> keeps (at_project pid) (ApproveForCoding pid sid)"
  unfolding ApproveForCoding_def GetTask_def
  by (intro ap_withProject ap_intros base_intros base_spec_file jobframe; simp)

lemma ap_get [jobframe]:
  "keeps (at_project pid) (GetTask pid sid)" "keeps (at_project pid) (GetPlan pid sid)" "keeps (at_project pid) (GetProgress pid sid)"
  "keeps (at_project pid) (taskApprovedForCoding pid sid)" "keeps (at_project pid) (GetBoard pid)" "keeps (at_project pid) (ListTasks pid)"
  "keeps (at_project pid) (GetRoadmap pid)" "keeps (at_project pid) (GetIdeation pid)" "keeps (at_project pid) (GetJob pid rid)"
  unfolding GetTask_def GetPlan_def GetProgress_def taskApprovedForCoding_def read_approved_def GetBoard_def ListTasks_def
    GetRoadmap_def GetIdeation_def GetJob_def Let_def
  by (intro ap_withProject ap_intros base_intros jobframe)+

lemma ap_put [jobframe]:
  assumes "plain sid"
  shows "keeps (at_project pid) (PutPlan pid sid x)" "keeps (at_project pid) (PutProgress pid sid y)"
    "keeps (at_project pid) (PutSpecMarkdown pid sid s)" "keeps (at_project pid) (append_notes pid sid l)"
  unfolding PutPlan_def PutProgress_def PutSpecMarkdown_def append_notes_def Let_def
  by (intro ap_withProject ap_intros base_intros base_spec_file assms; simp)+

lemma ap_put_project [jobframe]:
  "keeps (at_project pid) (PutStatus pid st)" "keeps (at_project pid) (PutChangelog pid s)"
  "keeps (at_project pid) (PutRoadmap pid rm)" "keeps (at_project pid) (PutIdeation pid i)"
  unfolding PutStatus_def PutChangelog_def PutRoadmap_def PutIdeation_def roadmap_path_def ideation_path_def
  by (intro ap_withProject base_top base_writeJSON; simp)+

lemma ap_AppendSpecLog [jobframe]:
  assumes "sid \<noteq> [] \<longrightarrow> plain sid" and "plain (ph @ ''.log'')"
  shows "keeps (at_project pid) (AppendSpecLog pid sid ph l)"
proof -
  let ?d = "if sid = [] then [] else [sid]"
  have p: "path_join b [''specs'', sid, ''logs''] = b @ ''specs'' # ?d @ [''logs'']"
    "path_join (b @ ''specs'' # ?d @ [''logs'']) [ph @ ''.log''] = b @ ''specs'' # ?d @ [''logs'', ph @ ''.log'']" for b
    using assms by (cases "sid = []"; simp add: path_join_plain path_join_Cons[of _ "[]"] clean_step_def)+
  show ?thesis
    unfolding AppendSpecLog_def p by (intro ap_withProject fr.keeps_bindE F_mkdir F_append) simp_all
qed

lemma ap_AppendProjectLog [jobframe]: "keeps (at_project pid) (AppendProjectLog pid name l)"
proof -
  obtain z where p: "\<And>b. path_join (b @ [''logs'']) [path_base name @ ''.log''] = b @ ''logs'' # [z]"
    using project_log_name[of name] by (metis append.assoc append_Cons append_Nil)
  show ?thesis
    unfolding AppendProjectLog_def p by (intro ap_withProject fr.keeps_bindE F_mkdir F_append) simp_all
qed

end

section \<open>The executors\<close>

lemma harmless_changelog_lines: "(\<And>i. keeps R (GetTask pid i)) \<Longrightarrow> frame_rel R \<Longrightarrow> keeps R (changelog_lines pid is)"
  by (induction "is") (simp_all add: frame_rel.keeps_return frame_rel.keeps_bind)

context store_frame begin

lemma ap_impl_step [jobframe]: "plain (j_specId j) \<Longrightarrow> keeps (at_project (j_projectId j)) (impl_step j k pl)"
  unfolding impl_step_def Let_def by (intro ap_intros jobframe; simp)

lemma ap_idle [jobframe]:
  "keeps (at_project (j_projectId j)) (put_idle_status j st now)" "keeps (at_project (j_projectId j)) (put_idle_status_now j st)"
  unfolding put_idle_status_def put_idle_status_now_def by (intro ap_intros jobframe)+

lemma ap_mark_docs [jobframe]: "plain (j_specId j) \<Longrightarrow> keeps (at_project (j_projectId j)) (mark_stuck_docs j pl i)"
  unfolding mark_stuck_docs_def by (intro ap_intros jobframe)

lemma ap_paused [jobframe]: "keeps (at_project (j_projectId j)) (taskPausedBlock j)"
  unfolding taskPausedBlock_def by (intro ap_intros jobframe)

lemma ap_executors [jobframe]:
  assumes "j_specId j \<noteq> [] \<longrightarrow> plain (j_specId j)"
  shows "keeps (at_project (j_projectId j)) (builtinPlanning j)"
    "keeps (at_project (j_projectId j)) (builtinImplementationOpts j k)"
    "keeps (at_project (j_projectId j)) (builtinPause j)" "keeps (at_project (j_projectId j)) (builtinResume j)"
    "keeps (at_project (j_projectId j)) (builtinRecover j)" "keeps (at_project (j_projectId j)) (builtinMarkStuck j)"
    "keeps (at_project (j_projectId j)) (markJobCancelledStuck j)" "keeps (at_project (j_projectId j)) (builtinSkipToPhase j)"
  unfolding builtinPlanning_def builtinImplementationOpts_def builtinPause_def builtinResume_def builtinRecover_def
    builtinMarkStuck_def markJobCancelledStuck_def builtinSkipToPhase_def Let_def
  by (intro ap_intros jobframe; use assms in simp)+

lemma ap_implementation [jobframe]:
  "j_specId j \<noteq> [] \<longrightarrow> plain (j_specId j) \<Longrightarrow> keeps (at_project (j_projectId j)) (builtinImplementation j)"
  unfolding builtinImplementation_def by (rule ap_executors(2))

lemma ap_changelog_lines [jobframe]: "keeps (at_project pid) (changelog_lines pid is)"
  by (rule harmless_changelog_lines[OF ap_get(1)]) unfold_locales

lemma ap_builtinChangelog [jobframe]: "keeps (at_project (j_projectId j)) (builtinChangelog j)"
  unfolding builtinChangelog_def Let_def by (intro ap_intros jobframe)

end

section \<open>The job records stay\<close>

definition jobs_kept :: "path \<Rightarrow> world \<Rightarrow> world \<Rightarrow> bool" where
  "jobs_kept b w w' \<longleftrightarrow> same_env w w' \<and> (\<forall>n. look w' (b @ [''runs'', n]) = look w (b @ [''runs'', n]))"

lemma jobs_kept_put: "off_runs b q \<Longrightarrow> q \<noteq> [] \<Longrightarrow> jobs_kept b w (put_node q nd w)"
  by (auto simp: jobs_kept_def same_env_def look_put_node dest: off_runs_ne)

interpretation jf: store_frame jobs_kept
proof unfold_locales
  show "off_runs b q \<Longrightarrow> keeps (jobs_kept b) (write_file q d)" for b q d
    by (auto simp: keeps_def write_file_def jobs_kept_def[of _ w w for w] intro!: jobs_kept_put)
  show "off_runs b q \<Longrightarrow> keeps (jobs_kept b) (append_file q s)" for b q s
    by (cases "q = []") (auto simp: keeps_def append_file_def jobs_kept_def[of _ w w for w] intro!: jobs_kept_put
        split: option.splits node.splits)
  show "off_runs b q \<Longrightarrow> keeps (jobs_kept b) (mkdir_all q)" for b q
    by (auto simp: keeps_def mkdir_all_def jobs_kept_def same_env_def look_def map_of_mk_dirs dest: off_runs_prefix)
qed (auto simp: jobs_kept_def keeps_def run same_env_def)

abbreviation runs_kept :: "string \<Rightarrow> world \<Rightarrow> world \<Rightarrow> bool" where
  "runs_kept \<equiv> jf.at_project"

text \<open>What the frame says of job records.\<close>

lemma runs_kept_job_at:
  assumes "runs_kept pid w w'" and "plain pid"
  shows "job_at w' pid rid = job_at w pid rid" and "home w' pid = home w pid"
proof -
  have e: "same_env w w'" and l: "\<And>n. look w' (home w pid @ [''runs'', n]) = look w (home w pid @ [''runs'', n])"
    using assms by (auto simp: jf.at_project_def jobs_kept_def pdir_plain)
  show h: "home w' pid = home w pid" using e by (simp add: home_def same_env_def)
  show "job_at w' pid rid = job_at w pid rid" by (simp add: job_at_def job_path_def h l)
qed

end
