(* ===== verification/Exec_Frame.thy ===== *)
theory Exec_Frame
  imports Job_Frame Job_Exec
begin

text \<open>
  The roadmap and ideation jobs, the chaining of jobs and the pipeline respect every store
  frame; the ones that start a job do when the creation of a job does.
\<close>

section \<open>Roadmap and ideation\<close>

context store_frame begin

lemma ap_shortID [jobframe]: "keeps (at_project pid) (shortID s)"
  unfolding shortID_def by (intro ap_intros jobframe)

lemma ap_phases [jobframe]: "keeps (at_project pid) (discovery_phases name phs)"
  unfolding discovery_phases_def seed_phases_def by (intro ap_intros jobframe)

lemma ap_context [jobframe]: "keeps (at_project pid) (projectContext pid)"
  unfolding projectContext_def by (intro ap_intros jobframe)

lemma ap_discovery [jobframe]: "keeps (at_project (j_projectId j)) (builtinRoadmapDiscovery j)"
  unfolding builtinRoadmapDiscovery_def Let_def by (intro ap_intros jobframe; simp)

lemma ap_candidates [jobframe]: "keeps (at_project pid) (add_candidates p ph ts acc)"
  by (induction p ph ts acc rule: add_candidates.induct) (auto simp: Let_def intro!: ap_intros ap_shortID split: prod.split)

lemma ap_feature_phases [jobframe]: "keeps (at_project pid) (feature_phases p seeds i phs acc)"
  by (induction p seeds i phs acc rule: feature_phases.induct) (auto intro!: ap_intros ap_candidates split: prod.split)

lemma ap_features [jobframe]: "keeps (at_project (j_projectId j)) (builtinRoadmapFeatures j)"
  unfolding builtinRoadmapFeatures_def add_features_def grown_roadmap_def Let_def by (intro ap_intros jobframe; simp)

lemma ap_add_ideas [jobframe]: "keeps (at_project pid) (add_ideas ty now hv ts)"
  by (induction ty now hv ts rule: add_ideas.induct) (auto intro!: ap_intros ap_shortID)

lemma ap_ideate [jobframe]: "keeps (at_project pid) (ideate s l now ts acc)"
  by (induction s l now ts acc rule: ideate.induct) (auto simp: Let_def intro!: ap_intros ap_add_ideas)

lemma ap_ideation [jobframe]: "keeps (at_project (j_projectId j)) (builtinIdeation j)"
  unfolding builtinIdeation_def Let_def by (intro ap_intros jobframe; simp)

lemma ap_competitor [jobframe]:
  "keeps (at_project (j_projectId j)) (builtinRoadmapCompetitor j)"
  "keeps (at_project pid) (storeCompetitorAnalysis pid rm a)" "keeps (at_project pid) (competitor_start pid)"
  unfolding builtinRoadmapCompetitor_def competitor_start_def storeCompetitorAnalysis_def Let_def
  by (intro ap_intros jobframe; simp)+

lemma ap_publish_features:
  assumes "\<And>j p t b l m. keeps (at_project pid) (x_create_issue x j p t b l m)"
  shows "keeps (at_project pid) (publish_features x j p rm feats acc)"
  by (induction feats arbitrary: acc)
     (auto simp: Let_def intro!: ap_intros ap_supply assms split: sum.split)

lemma ap_publish:
  assumes "\<And>j p t b l m. keeps (at_project (j_projectId j')) (x_create_issue x j p t b l m)"
  shows "keeps (at_project (j_projectId j')) (builtinRoadmapPublish x j')"
  unfolding builtinRoadmapPublish_def publish_now_def Let_def
  by (intro ap_intros ap_publish_features[OF assms] jobframe; simp)

section \<open>Chaining\<close>

lemma ap_park [jobframe]:
  "j_specId j \<noteq> [] \<longrightarrow> plain (j_specId j) \<Longrightarrow> keeps (at_project (j_projectId j)) (parkTaskForHumanReview j)"
  unfolding parkTaskForHumanReview_def by (intro ap_intros jobframe; simp)

lemma ap_chain:
  assumes "\<And>a img og. keeps (at_project (j_projectId j)) (CreateJobWithOrigin (j_projectId j) a (j_specId j) img og)"
  shows "keeps (at_project (j_projectId j)) (chainJobAsync x j action)"
  unfolding chainJobAsync_def by (intro ap_intros assms jobframe)

lemma ap_post:
  assumes "\<And>a img og. keeps (at_project (j_projectId j)) (CreateJobWithOrigin (j_projectId j) a (j_specId j) img og)"
    and "j_specId j \<noteq> [] \<longrightarrow> plain (j_specId j)"
  shows "keeps (at_project (j_projectId j)) (post_job x j action)"
  unfolding post_job_def postImplementationJob_def postPlanningJob_def
  by (intro ap_intros ap_chain[OF assms(1)] jobframe; use assms(2) in simp)

section \<open>The pipeline without a container\<close>

lemma ap_pipe_progress [jobframe]:
  "plain (j_specId j) \<Longrightarrow> keeps (at_project (j_projectId j)) (setPipelineProgress j a ph r)"
  unfolding setPipelineProgress_def pipeline_stamps_def Let_def by (intro ap_intros jobframe; simp)

lemma ap_blocked [jobframe]: "keeps (at_project (j_projectId j)) (pipelineCancelledOrPaused j)"
  unfolding pipelineCancelledOrPaused_def by (intro ap_intros jobframe)

lemma ap_approve [jobframe]: "plain (j_specId j) \<Longrightarrow> keeps (at_project (j_projectId j)) (pipeline_approve j)"
  unfolding pipeline_approve_def by (intro ap_intros jobframe)

lemma ap_close [jobframe]: "plain (j_specId j) \<Longrightarrow> keeps (at_project (j_projectId j)) (pipeline_close j)"
  unfolding pipeline_close_def by (intro ap_intros jobframe)

lemma ap_finish [jobframe]: "plain (j_specId j) \<Longrightarrow> keeps (at_project (j_projectId j)) (pipeline_finish j steps used)"
  unfolding pipeline_finish_def pipeline_counts_def pipeline_park_def Let_def by (intro ap_intros jobframe; simp)

end

section \<open>Model results\<close>

context store_frame begin

lemma ap_model_planning [jobframe]:
  "j_specId j \<noteq> [] \<longrightarrow> plain (j_specId j) \<Longrightarrow> keeps (at_project (j_projectId j)) (applyModelPlanning j rr)"
  unfolding applyModelPlanning_def model_planning_logs_def Let_def by (intro ap_intros jobframe; simp)

lemma ap_done_ideas [jobframe]: "keeps (at_project pid) (done_ideas pid ty sids)"
  by (induction sids) (auto intro!: ap_intros ap_get)

lemma ap_implemented [jobframe]: "keeps (at_project pid) (implementedIdeationFromDone pid ty)"
  unfolding implementedIdeationFromDone_def by (intro ap_intros jobframe)

lemma ap_pack [jobframe]:
  "keeps (at_project pid) (competitorAnalysisFor pid)" "keeps (at_project pid) (GetSpecMarkdown pid sid)"
  unfolding competitorAnalysisFor_def GetSpecMarkdown_def by (intro ap_withProject ap_intros base_intros jobframe)+

lemma ap_fill [jobframe]:
  "keeps (at_project pid) (fillDiscoveryContext pid c)" "keeps (at_project pid) (fillFeaturesContext pid c)"
  "keeps (at_project pid) (fillIdeationContext pid ty c)"
  unfolding fillDiscoveryContext_def fillFeaturesContext_def fillIdeationContext_def Let_def
  by (intro ap_intros jobframe)+

lemma ap_runner_fields [jobframe]: "keeps (at_project (j_projectId j)) (runner_input_fields j m r)"
  unfolding runner_input_fields_def project_fields_def spec_fields_def buildRunnerContext_def Let_def
  by (intro ap_intros jobframe)

lemma ap_fresh_id [jobframe]: "keeps (at_project pid) (fresh_id i s)"
  unfolding fresh_id_def by (intro ap_intros jobframe)

lemma ap_model_ideas [jobframe]: "keeps (at_project pid) (model_ideas rr impl ty now hv is)"
  by (induction rr impl ty now hv "is" rule: model_ideas.induct) (auto simp: Let_def intro!: ap_intros ap_fresh_id)

lemma ap_model_buckets [jobframe]: "keeps (at_project pid) (model_buckets j rr impl now bs acc)"
  by (induction j rr impl now bs acc rule: model_buckets.induct) (auto simp: Let_def intro!: ap_intros ap_model_ideas)

lemma ap_model_ideation [jobframe]: "keeps (at_project (j_projectId j)) (applyModelIdeation j rr)"
  unfolding applyModelIdeation_def Let_def by (intro ap_intros jobframe; simp)

lemma ap_replace_phases [jobframe]: "keeps (at_project pid) (replace_phases ex seen i phs)"
  by (induction ex seen i phs rule: replace_phases.induct) (auto simp: Let_def intro!: ap_intros ap_fresh_id)

lemma ap_merge_phases [jobframe]: "keeps (at_project pid) (merge_phases out phs)"
  by (induction out phs rule: merge_phases.induct) (auto simp: Let_def intro!: ap_intros ap_fresh_id split: option.split)

lemma ap_mergeRoadmapPhases [jobframe]: "keeps (at_project pid) (mergeRoadmapPhases ex phs)"
  unfolding mergeRoadmapPhases_def by (intro ap_intros jobframe)

lemma ap_model_discovery [jobframe]: "keeps (at_project (j_projectId j)) (applyModelRoadmapDiscovery j rr)"
  unfolding applyModelRoadmapDiscovery_def Let_def by (intro ap_intros jobframe; simp)

lemma ap_model_features [jobframe]: "keeps (at_project pid) (model_features rr feats acc)"
  by (induction rr feats acc rule: model_features.induct) (auto simp: Let_def intro!: ap_intros ap_fresh_id)

lemma ap_model_roadmap [jobframe]:
  "keeps (at_project (j_projectId j)) (applyModelRoadmapFeatures j rr)" "keeps (at_project (j_projectId j)) (applyModelRoadmapCompetitor j rr)"
  unfolding applyModelRoadmapFeatures_def finish_model_features_def add_model_features_def applyModelRoadmapCompetitor_def Let_def
  by (intro ap_intros jobframe; simp)+

lemma ap_PutChangeSetMerged [jobframe]: "plain sid \<Longrightarrow> keeps (at_project pid) (PutChangeSetMerged pid sid cs)"
  unfolding PutChangeSetMerged_def GetChangeSet_def MergeChangeSet_def PutChangeSet_def Let_def
  by (intro ap_withProject ap_intros base_intros base_spec_file jobframe; simp)

lemma ap_changeSetFromRunner [jobframe]: "keeps (at_project pid) (changeSetFromRunner rid rr)"
  unfolding changeSetFromRunner_def Let_def by (intro ap_intros jobframe)

lemma ap_impl_phase_log [jobframe]:
  "j_specId j \<noteq> [] \<longrightarrow> plain (j_specId j) \<Longrightarrow> keeps (at_project (j_projectId j)) (impl_phase_log j m)"
  unfolding impl_phase_log_def by (intro jobframe) simp_all

lemma ap_notes [jobframe]:
  assumes "sid \<noteq> [] \<longrightarrow> plain sid"
  shows "keeps (at_project pid) (append_notes pid sid l)"
proof (cases "sid = []")
  case True
  have p: "spec_file b sid ''IMPLEMENTATION_NOTES.md'' = b @ ''specs'' # [''IMPLEMENTATION_NOTES.md'']" for b
    using True by (simp add: spec_file_def path_join_plain path_join_Cons[of _ "[]"] clean_step_def)
  show ?thesis
    unfolding append_notes_def p Let_def by (intro ap_withProject base_intros F_write; simp)
qed (use assms in \<open>simp add: ap_put\<close>)

lemma ap_record_changes [jobframe]: "plain (j_specId j) \<Longrightarrow> keeps (at_project (j_projectId j)) (record_changes j cs)"
  unfolding record_changes_def by (intro ap_intros jobframe; simp)

end

end
