(* ===== verification/Job_Guard.thy ===== *)
theory Job_Guard
  imports Exec_Frame
begin

text \<open>
  \<open>steady\<close>: a job has a well-formed record in a ready project, and the scratch directories are
  apart from the data.  Every operation a job runs keeps it; what runs outside is assumed to
  (\<open>tame\<close>).
\<close>

section \<open>Paths that have nothing to do with each other\<close>

definition apart :: "path \<Rightarrow> path \<Rightarrow> bool" where
  "apart p q \<longleftrightarrow> \<not> is_under p q \<and> \<not> is_under q p"

lemma apart_append: "apart p q \<Longrightarrow> apart (p @ r) q"
  by (auto simp: apart_def is_under_iff append_eq_append_conv2)

lemma apart_append_right: "apart p q \<Longrightarrow> apart p (q @ r)"
  using apart_append[of q p r] by (auto simp: apart_def)

lemma apart_not_under: "apart p d \<Longrightarrow> \<not> apart q d \<Longrightarrow> \<not> is_under p q"
  by (auto simp: apart_def is_under_iff append_eq_append_conv2)

text \<open>Where a path leads: itself, or into the target of a link.\<close>

lemma deref_cases: "deref w p = p \<or> (\<exists>l t r. (l, t) \<in> set (links w) \<and> deref w p = t @ r)"
proof (induction p rule: rev_induct)
  case (snoc s p)
  have step: "deref w (p @ [s]) = deref_step w (deref w p) s" by (simp add: deref_append)
  show ?case
  proof (cases "map_of (links w) (deref w p @ [s])")
    case None
    then have "deref w (p @ [s]) = deref w p @ [s]" using step by (simp add: deref_step_def)
    then show ?thesis using snoc by (metis append.assoc)
  next
    case (Some t)
    then have "deref w (p @ [s]) = t @ []" using step by (simp add: deref_step_def)
    then show ?thesis using map_of_SomeD[OF Some] by blast
  qed
qed (simp add: deref_def)

section \<open>A job that can go on\<close>

definition sane_job :: "string \<Rightarrow> string \<Rightarrow> job \<Rightarrow> bool" where
  "sane_job pid rid j \<longleftrightarrow> j_runId j = rid \<and> j_projectId j = pid \<and> (j_specId j \<noteq> [] \<longrightarrow> plain (j_specId j))"

definition tempRoot :: "world \<Rightarrow> path" where
  "tempRoot w = path_join [] [tempDir w]"

definition scratch_apart :: "world \<Rightarrow> bool" where
  "scratch_apart w \<longleftrightarrow> apart (jobTmpRoot w) (data_dir w) \<and> apart (tempRoot w) (data_dir w) \<and>
     list_all (\<lambda>(l, t). apart t (data_dir w)) (links w)"

definition steady :: "string \<Rightarrow> string \<Rightarrow> world \<Rightarrow> bool" where
  "steady pid rid w \<longleftrightarrow> (\<exists>p. ready w pid p) \<and> (\<exists>q. job_at w pid rid = Some q \<and> sane_job pid rid q) \<and> jobid rid \<and>
     (\<forall>k. jobid (uuid_at w k)) \<and> scratch_apart w"

lemma jobTmpRoot_env: "same_env w w' \<Longrightarrow> jobTmpRoot w' = jobTmpRoot w \<and> tempRoot w' = tempRoot w"
proof -
  assume "same_env w w'"
  then have g: "getenv w' = getenv w" by (simp add: same_env_def)
  show ?thesis unfolding jobTmpRoot_def tempRoot_def envOr_def tempDir_def g by simp
qed

lemma jobTmpRoot_sel [simp]:
  "jobTmpRoot (w\<lparr>ticks := n\<rparr>) = jobTmpRoot w" "jobTmpRoot (w\<lparr>uuids := n\<rparr>) = jobTmpRoot w"
  "jobTmpRoot (w\<lparr>spawned := js\<rparr>) = jobTmpRoot w" "jobTmpRoot (put_node q nd w) = jobTmpRoot w"
  "tempRoot (w\<lparr>ticks := n\<rparr>) = tempRoot w" "tempRoot (w\<lparr>uuids := n\<rparr>) = tempRoot w"
  "tempRoot (w\<lparr>spawned := js\<rparr>) = tempRoot w" "tempRoot (put_node q nd w) = tempRoot w"
  by (rule conjunct1[OF jobTmpRoot_env] conjunct2[OF jobTmpRoot_env], simp add: same_env_def)+

lemma apart_deref:
  assumes "scratch_apart w" and "apart p (data_dir w)"
  shows "apart (deref w p) (data_dir w)"
proof -
  have "apart (t @ r) (data_dir w)" if "(l, t) \<in> set (links w)" for l t r
    using assms(1) that by (auto simp: scratch_apart_def list_all_iff intro: apart_append)
  then show ?thesis using deref_cases[of w p] assms(2) by metis
qed

lemma steady_home: "steady pid rid w \<Longrightarrow> pdir w pid = home w pid"
  by (auto simp: steady_def pdir_plain elim!: ready_D)

lemma steady_job: "steady pid rid w \<Longrightarrow> \<exists>q. job_at w pid rid = Some q \<and> sane_job pid rid q"
  by (simp add: steady_def)

text \<open>What needs to stay for it to stay.\<close>

lemma steady_step:
  assumes s: "steady pid rid w" and e: "same_env w w'" and wf: "fs_wf w'" and ls: "set (links w') \<subseteq> set (links w)"
    and k: "\<And>q. \<not> apart q (data_dir w) \<Longrightarrow> look w' q = look w q \<or> look w q = None \<and> look w' q = Some Dir"
  shows "steady pid rid w'"
proof -
  obtain p q where p: "ready w pid p" and q: "job_at w pid rid = Some q" "sane_job pid rid q" using s by (auto simp: steady_def)
  have kS: "look w' (data_dir w @ r) = Some n" if "look w (data_dir w @ r) = Some n" for r n
    using k[of "data_dir w @ r"] that by (auto simp: apart_def)
  have kP: "look w' r = Some Dir" if "look w r = Some Dir" "is_under r (data_dir w) \<or> is_under (data_dir w) r" for r
    using k[of r] that by (auto simp: apart_def)
  have dir: "dir_ok w' (data_dir w @ r)" if "dir_ok w (data_dir w @ r)" for r
  proof -
    have "look w' a = Some Dir" if "data_dir w @ r = a @ b" for a b
      using \<open>dir_ok w (data_dir w @ r)\<close>[unfolded dir_ok_iff] that
      by (intro kP) (blast, auto simp: is_under_iff append_eq_append_conv2)
    then show ?thesis by (auto simp: dir_ok_iff)
  qed
  have dd: "data_dir w' = data_dir w" using e by (simp add: same_env_def)
  have pd: "projectDir w p = data_dir w @ [''projects'', pid]" by (rule ready_projectDir[OF p])
  have pd': "projectDir w' p = projectDir w p" using e by (simp add: projectDir_def same_env_def)
  have reg: "registryPath w' = registryPath w" "registryPath w = data_dir w @ [''projects.json'']"
    using e by (simp_all add: registryPath_def same_env_def)
  have "layout_ok w' (projectDir w' p)"
    using p kS dir unfolding pd' pd by (auto simp: ready_def layout_ok_def layout_files_def layout_dirs_def pd)
  moreover have "faults w' = []" using p e by (simp add: ready_def same_env_def)
  moreover have "(case look w' (registryPath w') of
      Some (File (DProjects ps)) \<Rightarrow> List.find (\<lambda>p. p_id p = pid) ps = Some p | _ \<Rightarrow> False)"
    using p kS[of "[''projects.json'']"] unfolding reg(1) by (auto simp: ready_def reg(2) split: option.splits node.splits doc.splits)
  ultimately have r: "ready w' pid p" using wf p by (simp add: ready_def)
  have h: "home w' pid = home w pid" using dd by (simp add: home_def)
  have "job_at w' pid rid = Some q"
    using q(1) kS[of "[''projects'', pid, ''runs'', rid @ ''.json'']"] by (simp add: job_at_look job_path_def home_def dd)
  moreover have "scratch_apart w'"
    using s ls e by (auto simp: steady_def scratch_apart_def dd jobTmpRoot_env[OF e] list_all_iff)
  ultimately show ?thesis using s r q(2) e by (auto simp: steady_def same_env_def)
qed

text \<open>Writes inside the project, the job records included.\<close>

lemma steady_write:
  assumes s: "steady pid rid w" and par: "look w (butlast q) = Some Dir" and nd: "look w q \<noteq> Some Dir"
    and nr: "q \<noteq> registryPath w" and job: "q = job_path w pid rid \<Longrightarrow> \<exists>j. d = DJob j \<and> sane_job pid rid j"
  shows "steady pid rid (put_node q (File d) w)"
proof -
  obtain p j where p: "ready w pid p" and j: "job_at w pid rid = Some j" "sane_job pid rid j" using s by (auto simp: steady_def)
  have ne: "q \<noteq> []" using nd by auto
  have "ready (put_node q (File d) w) pid p" by (rule ready_put_file[OF p par nd nr])
  moreover have "\<exists>j. job_at (put_node q (File d) w) pid rid = Some j \<and> sane_job pid rid j"
    using j job ne by (cases "q = job_path w pid rid") (auto simp: job_at_def look_put_node)
  ultimately show ?thesis using s by (auto simp: steady_def scratch_apart_def)
qed

definition guards :: "string \<Rightarrow> path \<Rightarrow> world \<Rightarrow> world \<Rightarrow> bool" where
  "guards pid b w w' \<longleftrightarrow> same_env w w' \<and> (\<forall>rid. pdir w pid = b \<longrightarrow> steady pid rid w \<longrightarrow> steady pid rid w')"

lemma guards_if_steady:
  "same_env w w' \<Longrightarrow> (\<And>rid. steady pid rid w \<Longrightarrow> pdir w pid = b \<Longrightarrow> steady pid rid w') \<Longrightarrow> guards pid b w w'"
  by (simp add: guards_def)

lemma guards_refl [simp]: "guards pid b w w"
  by (simp add: guards_def)

lemma guards_put:
  assumes "look w (butlast q) = Some Dir" and "look w q \<noteq> Some Dir" and o: "off_runs b q"
  shows "guards pid b w (put_node q (File d) w)"
proof (rule guards_if_steady)
  fix rid assume s: "steady pid rid w" and b: "pdir w pid = b"
  have h: "b = data_dir w @ [''projects'', pid]" using steady_home[OF s] b by (simp add: home_def)
  show "steady pid rid (put_node q (File d) w)"
  proof (rule steady_write[OF s assms(1,2)])
    show "q \<noteq> registryPath w" using o unfolding h by (auto simp: off_runs_def registryPath_def)
    show "q = job_path w pid rid \<Longrightarrow> \<exists>j. d = DJob j \<and> sane_job pid rid j"
      using off_runs_ne[OF o, of "rid @ ''.json''"] unfolding h by (simp add: job_path_def home_def)
  qed
qed (simp add: same_env_def)

lemma steady_mkdirs: 
  assumes s: "steady pid rid w" and nofile: "\<not> list_ex (is_file w) (path_prefixes q)"
  shows "steady pid rid (w\<lparr>fs := mk_dirs q (fs w)\<rparr>)"
proof (rule steady_step[OF s])
  have "fs_wf w" using s by (auto simp: steady_def elim: ready_D)
  moreover have "faults w = []" using s by (auto simp: steady_def elim: ready_D)
  moreover have "wf_rel w (snd (run_state (mkdir_all q) w))" using wf_mkdir_all[of q] by (simp add: keeps_def)
  ultimately show "fs_wf (w\<lparr>fs := mk_dirs q (fs w)\<rparr>)" using nofile by (simp add: mkdir_all_def wf_rel_def)
qed (auto simp: same_env_def look_def map_of_mk_dirs)

lemma guards_mkdir_all: "keeps (guards pid b) (mkdir_all q)"
proof -
  have "guards pid b w (w\<lparr>fs := mk_dirs q (fs w)\<rparr>)" if "\<not> list_ex (is_file w) (path_prefixes q)" for w
    using steady_mkdirs[OF _ that] by (simp add: guards_def same_env_def)
  then show ?thesis by (simp add: keeps_def mkdir_all_def)
qed

interpretation gd: store_frame "guards pid" for pid
proof unfold_locales
  show "guards pid b w w' \<Longrightarrow> guards pid b w' w'' \<Longrightarrow> guards pid b w w''" for b w w' w''
    using pdir_same_env same_env_trans unfolding guards_def by metis
  show "off_runs b q \<Longrightarrow> keeps (guards pid b) (write_file q d)" for b q d
    by (auto simp: keeps_def write_file_def intro!: guards_put)
  show "off_runs b q \<Longrightarrow> keeps (guards pid b) (append_file q s)" for b q s
    by (auto simp: keeps_def append_file_def intro!: guards_put
        split: option.splits node.splits)
  have st: "steady pid rid (w\<lparr>ticks := n\<rparr>) = steady pid rid w" "steady pid rid (w\<lparr>uuids := n\<rparr>) = steady pid rid w"
    "steady pid rid (w\<lparr>spawned := js\<rparr>) = steady pid rid w" for pid rid w n js
    by (simp_all add: steady_def scratch_apart_def job_at_def)
  show "keeps (guards pid b) nowUTC" "keeps (guards pid b) uuid_new" "keeps (guards pid b) (go_job j)" for b j
    by (simp_all add: keeps_def run guards_def same_env_def st)
qed (auto simp: guards_def intro: guards_mkdir_all)

abbreviation kept :: "string \<Rightarrow> world \<Rightarrow> world \<Rightarrow> bool" where
  "kept pid \<equiv> gd.at_project pid pid"

lemma keptD: "kept pid w w' \<longleftrightarrow> same_env w w' \<and> (\<forall>rid. steady pid rid w \<longrightarrow> steady pid rid w')"
  by (simp add: gd.at_project_def guards_def)

section \<open>Job records\<close>

lemma guards_env: "guards pid b w w' \<Longrightarrow> same_env w w'"
  by (simp add: guards_def)

lemma guards_write_job:
  assumes j: "jobid (j_runId j)" "sane_job pid (j_runId j) j"
  shows "keeps (guards pid b) (writeJSON (job_file b (j_runId j)) (DJob j))"
proof -
  have path: "job_file b (j_runId j) = b @ [''runs'', j_runId j @ ''.json'']"
    using j(1) by (simp add: job_file_def path_join_plain plain_json)
  have "keeps (guards pid b) (write_file (b @ [''runs'', j_runId j @ ''.json'']) (DJob j))"
    unfolding keeps_def write_file_def
  proof (clarsimp, rule guards_if_steady)
    fix w rid
    assume par: "look w (butlast (b @ [''runs'', j_runId j @ ''.json''])) = Some Dir"
      and nd: "look w (b @ [''runs'', j_runId j @ ''.json'']) \<noteq> Some Dir"
      and s: "steady pid rid w" and b: "pdir w pid = b"
    have h: "b = data_dir w @ [''projects'', pid]" using steady_home[OF s] b by (simp add: home_def)
    show "steady pid rid (put_node (b @ [''runs'', j_runId j @ ''.json'']) (File (DJob j)) w)"
      by (rule steady_write[OF s par nd]) (use j(2) in \<open>auto simp: h registryPath_def job_path_def home_def\<close>)
  qed (simp add: same_env_def)
  then show ?thesis
    unfolding writeJSON_def path by (intro gd.fr.keeps_bindE guards_mkdir_all)
qed

lemma kept_UpdateJob [jobframe]:
  assumes "jobid (j_runId j)" and "sane_job pid (j_runId j) j"
  shows "keeps (kept pid) (UpdateJob pid j)"
proof -
  have "keeps (guards pid b) (writeJSON (job_file b (j_runId j)) (DJob (j\<lparr>j_updatedAt := now\<rparr>)))" for b now
    using guards_write_job[of "j\<lparr>j_updatedAt := now\<rparr>" pid b] assms by (simp add: sane_job_def)
  then show ?thesis
    unfolding UpdateJob_def by (intro gd.ap_withProject gd.fr.keeps_bind gd.F_supply)
qed

text \<open>A UUID of the world has no slash.\<close>

lemma guards_uuid:
  assumes "\<And>u. jobid u \<Longrightarrow> keeps (guards pid b) (f u)" and "\<And>u. keeps same_env (f u)"
  shows "keeps (guards pid b) (State_Monad.bind uuid_new f)"
  unfolding keeps_def
proof
  fix w :: world
  let ?u = "uuid_at w (uuids w)" and ?w = "w\<lparr>uuids := Suc (uuids w)\<rparr>"
  have u: "guards pid b w ?w" using gd.F_supply(2)[of pid b] by (simp add: keeps_def run)
  have e: "same_env ?w (snd (run_state (f ?u) ?w))" using assms(2) by (simp add: keeps_def)
  have "guards pid b ?w (snd (run_state (f ?u) ?w))"
  proof (cases "jobid ?u")
    case True
    then show ?thesis using assms(1) by (simp add: keeps_def)
  next
    case False
    have "\<not> steady pid rid ?w" for rid using False by (auto simp: steady_def)
    then show ?thesis using e by (simp add: guards_def)
  qed
  then show "guards pid b w (snd (run_state (State_Monad.bind uuid_new f) w))"
    using gd.F_trans[OF u] by (simp add: run)
qed

lemma env_writeJSON: "keeps same_env (writeJSON q d)"
  using keeps_writeJSON[of "[]" q d] by (auto simp: keeps_def is_under_def intro: touches_same_env)

lemma env_nowUTC: "keeps same_env nowUTC"
  by (simp add: keeps_def run same_env_def)

lemma kept_CreateJob [jobframe]:
  assumes "sid \<noteq> [] \<longrightarrow> plain sid"
  shows "keeps (kept pid) (CreateJobWithOrigin pid action sid img og)"
proof -
  have job: "keeps (guards pid b) (writeJSON (job_file b (itoa (unix_milli now) @ ''-'' @ u)) (DJob
      (new_job (itoa (unix_milli now) @ ''-'' @ u) pid action sid img og now)))" if "jobid u" for b u now
    using guards_write_job[of "new_job (itoa (unix_milli now) @ ''-'' @ u) pid action sid img og now" pid b] that assms itoa_jobid
    by (simp add: sane_job_def jobid_def)
  show ?thesis
    unfolding CreateJobWithOrigin_def Let_def
    by (intro jobframe gd.ap_intros gd.ap_withProject gd.fr.keeps_bind[OF gd.F_supply(1)] guards_uuid
        gd.fr.keeps_bindE gd.fr.keeps_bind gd.fr.keeps_okE job gd.F_supply(1) gd.base_top
        env.keeps_bindE env.keeps_bind env.keeps_okE env_writeJSON env_nowUTC) simp_all
qed

end
