(* ===== verification/Exec_Guard.thy ===== *)
theory Exec_Guard
  imports Job_Guard
begin

text \<open>
  The scratch directories of a job, and the parts of \<open>executeJob\<close>: each keeps \<open>steady\<close>, when
  the job runs without a container and what runs outside does (\<open>tame\<close>).
\<close>

section \<open>Operations away from the data\<close>

definition away :: "path \<Rightarrow> world \<Rightarrow> world \<Rightarrow> bool" where
  "away d w w' \<longleftrightarrow> same_env w w' \<and> wf_rel w w' \<and> set (links w') \<subseteq> set (links w) \<and>
     (\<forall>q. \<not> apart q d \<longrightarrow> look w' q = look w q \<or> look w q = None \<and> look w' q = Some Dir)"

lemma away_refl [simp]: "away d w w"
  by (simp add: away_def wf_rel_def)

interpretation aw: frame_rel "away d" for d
proof unfold_locales
  show "away d w w' \<Longrightarrow> away d w' w'' \<Longrightarrow> away d w w''" for w w' w''
    unfolding away_def wf_rel_def by (metis (no_types, opaque_lifting) option.distinct(1) same_env_trans subset_trans)
qed simp

lemma away_steady: "away (data_dir w) w w' \<Longrightarrow> steady pid rid w \<Longrightarrow> steady pid rid w'"
  by (rule steady_step, assumption) (auto simp: away_def wf_rel_def steady_def ready_def)

lemma env_of_touch: "(\<And>p. is_under p q \<Longrightarrow> keeps (touches p) m) \<Longrightarrow> same_env w (snd (run_state m w))"
  by (rule touches_same_env[of "[]"]) (simp add: keeps_def is_under_def)

lemma away_ops:
  shows "apart q d \<Longrightarrow> keeps (away d) (write_file q x)" and "keeps (away d) (mkdir_all q)"
    and "apart q d \<Longrightarrow> keeps (away d) (remove_file q)" and "apart q d \<Longrightarrow> keeps (away d) (remove_all q)"
proof -
  have e: "same_env w (snd (run_state (write_file q x) w))" "same_env w (snd (run_state (mkdir_all q) w))"
    "same_env w (snd (run_state (remove_file q) w))" "same_env w (snd (run_state (remove_all q) w))" for w
    by (rule env_of_touch[of q], rule frame, assumption)+
  have wf: "wf_rel w (snd (run_state (write_file q x) w))" "wf_rel w (snd (run_state (mkdir_all q) w))"
    "wf_rel w (snd (run_state (remove_file q) w))" "wf_rel w (snd (run_state (remove_all q) w))" for w
    using wf_write_file[of q x] wf_mkdir_all[of q] wf_remove_file[of q] wf_remove_all[of q] by (simp_all add: keeps_def)
  have ls: "links (snd (run_state (write_file q x) w)) = links w" "links (snd (run_state (mkdir_all q) w)) = links w"
    "links (snd (run_state (remove_file q) w)) = links w" "links (snd (run_state (remove_all q) w)) = links w" for w
    by (auto simp: write_file_def mkdir_all_def remove_file_def remove_all_def split: option.split)
  have lk: "look (snd (run_state (mkdir_all q) w)) q' = look w q' \<or>
      look w q' = None \<and> look (snd (run_state (mkdir_all q) w)) q' = Some Dir" for w q'
    by (auto simp: mkdir_all_def look_def map_of_mk_dirs)
  show "keeps (away d) (mkdir_all q)"
    unfolding keeps_def away_def by (intro allI conjI impI e wf lk) (simp add: ls)
  assume a: "apart q d"
  have "q \<noteq> []" using a by (auto simp: apart_def is_under_def)
  then have same: "look (snd (run_state (write_file q x) w)) q' = look w q'" "look (snd (run_state (remove_file q) w)) q' = look w q'"
    "look (snd (run_state (remove_all q) w)) q' = look w q'" if "\<not> apart q' d" for w q'
    using apart_not_under[OF a that] a that
    by (auto simp: write_file_def look_put_node) (auto simp: remove_file_def remove_all_def look_def map_of_delete map_of_filter_path split: option.split)
  show "keeps (away d) (write_file q x)"
    unfolding keeps_def away_def using e(1) wf(1) ls(1) same(1) by auto
  show "keeps (away d) (remove_file q)"
    unfolding keeps_def away_def using e(3) wf(3) ls(3) same(2) by auto
  show "keeps (away d) (remove_all q)"
    unfolding keeps_def away_def using e(4) wf(4) ls(4) same(3) by auto
qed

text \<open>Nothing in the data directory changes at all, as long as directories are made apart from it.\<close>

definition aside :: "path \<Rightarrow> world \<Rightarrow> world \<Rightarrow> bool" where
  "aside d w w' \<longleftrightarrow> away d w w' \<and> (\<forall>q. is_under d q \<longrightarrow> look w' q = look w q)"

interpretation asd: frame_rel "aside d" for d
  by unfold_locales (auto simp: aside_def intro: aw.R_trans)

lemma under_not_apart: "is_under d q \<Longrightarrow> \<not> apart q d"
  by (simp add: apart_def)

lemma look_mkdir_under:
  assumes "apart q d" and "is_under d r"
  shows "look (snd (run_state (mkdir_all q) w)) r = look w r"
proof -
  have "r \<notin> set (path_prefixes q)"
  proof
    assume "r \<in> set (path_prefixes q)"
    then have "is_under r q" by (auto simp: set_path_prefixes is_under_iff)
    then show False using assms by (auto simp: apart_def is_under_iff)
  qed
  then show ?thesis by (auto simp: mkdir_all_def look_def map_of_mk_dirs)
qed

lemma aside_ops:
  assumes "apart q d"
  shows "keeps (aside d) (write_file q x)" and "keeps (aside d) (mkdir_all q)"
    and "keeps (aside d) (remove_file q)" and "keeps (aside d) (remove_all q)"
proof -
  have n: "\<not> is_under q r" if "is_under d r" for r by (rule apart_not_under[OF assms under_not_apart[OF that]])
  have ne: "r \<noteq> q" if "is_under d r" for r using n[OF that] by (auto simp: is_under_iff)
  have q0: "q \<noteq> []" using assms by (auto simp: apart_def is_under_iff)
  have "look (snd (run_state (write_file q x) w)) r = look w r" if "is_under d r" for r w
    using ne[OF that] q0 by (auto simp: write_file_def look_put_node)
  moreover have "look (snd (run_state (remove_file q) w)) r = look w r"
    "look (snd (run_state (remove_all q) w)) r = look w r" if "is_under d r" for r w
    using n[OF that] ne[OF that]
    by (auto simp: remove_file_def remove_all_def look_def map_of_delete map_of_filter_path split: option.split)
  ultimately show "keeps (aside d) (write_file q x)" "keeps (aside d) (remove_file q)" "keeps (aside d) (remove_all q)"
    using away_ops(1,3,4)[OF assms] by (auto simp: keeps_def aside_def)
  show "keeps (aside d) (mkdir_all q)"
    using away_ops(2)[of d q] look_mkdir_under[OF assms] by (auto simp: keeps_def aside_def)
qed

section \<open>Keeping a job steady\<close>

text \<open>Every run of \<open>m\<close> from a steady world with the parameters of \<open>w0\<close> ends in one.\<close>

definition stays :: "world \<Rightarrow> (world \<Rightarrow> bool) \<Rightarrow> 'a act \<Rightarrow> bool" where
  "stays w0 I m \<longleftrightarrow> (\<forall>w. same_env w0 w \<and> I w \<longrightarrow>
     same_env w0 (snd (run_state m w)) \<and> I (snd (run_state m w)))"

named_theorems stay \<open>operations that keep a job steady\<close>

lemma stays_kept: "keeps (kept pid) m \<Longrightarrow> stays w0 (steady pid rid) m"
  unfolding stays_def keeps_def keptD using same_env_trans by blast

lemma stays_away:
  assumes "\<And>w. scratch_apart w \<Longrightarrow> data_dir w = data_dir w0 \<Longrightarrow> away (data_dir w0) w (snd (run_state m w))"
  shows "stays w0 (steady pid rid) m"
  unfolding stays_def
proof (intro allI impI, elim conjE)
  fix w assume e: "same_env w0 w" and s: "steady pid rid w"
  have d: "data_dir w = data_dir w0" using e by (simp add: same_env_def)
  have a: "away (data_dir w) w (snd (run_state m w))" using assms[OF _ d] s by (simp add: steady_def d)
  then show "same_env w0 (snd (run_state m w)) \<and> steady pid rid (snd (run_state m w))"
    using away_steady[OF a s] same_env_trans[OF e] by (simp add: away_def)
qed

lemma stays_return [stay]: "stays w0 I (State_Monad.return x)" "stays w0 I (okE y)" "stays w0 I (throwE e)"
  by (simp_all add: stays_def run)

lemma stays_bind [stay]:
  assumes "stays w0 I m" and "\<And>x. stays w0 I (f x)"
  shows "stays w0 I (State_Monad.bind m f)"
  using assms unfolding stays_def by (auto simp: run split: prod.split)

lemma stays_bindE [stay]:
  assumes "stays w0 I m" and "\<And>x. stays w0 I (f x)"
  shows "stays w0 I (bindE m f)"
  unfolding bindE_def by (rule stays_bind[OF assms(1)]) (simp add: stays_return assms(2) split: sum.split)

lemma stays_cases [stay]:
  "(\<And>e. stays w0 I (f e)) \<Longrightarrow> (\<And>x. stays w0 I (g x)) \<Longrightarrow> stays w0 I (case r of Inl e \<Rightarrow> f e | Inr x \<Rightarrow> g x)"
  "stays w0 I m \<Longrightarrow> (\<And>x. o' = Some x \<Longrightarrow> stays w0 I (h x)) \<Longrightarrow> stays w0 I (case o' of None \<Rightarrow> m | Some x \<Rightarrow> h x)"
  "(\<And>a b. stays w0 I (k a b)) \<Longrightarrow> stays w0 I (case p of (a, b) \<Rightarrow> k a b)"
  "(c \<Longrightarrow> stays w0 I m) \<Longrightarrow> (\<not> c \<Longrightarrow> stays w0 I n) \<Longrightarrow> stays w0 I (if c then m else n)"
  by (simp_all split: sum.split option.split prod.split)

text \<open>What is asked of the world is known; a job read back has the shape of the record.\<close>

lemma stays_asks:
  assumes "\<And>w. same_env w0 w \<Longrightarrow> I w \<Longrightarrow> stays w0 I (g (f w))"
  shows "stays w0 I (State_Monad.bind (asks f) g)"
  using assms by (auto simp: stays_def run)

lemma steady_GetJob:
  assumes "steady pid rid w"
  obtains q where "run_state (GetJob pid rid) w = (Inr q, w)" and "sane_job pid rid q" and "job_at w pid rid = Some q"
proof -
  obtain p q where "ready w pid p" "job_at w pid rid = Some q" "sane_job pid rid q" "jobid rid"
    using assms by (auto simp: steady_def)
  then show thesis using that run_GetJob by blast
qed

lemma stays_GetJob:
  assumes "\<And>q. sane_job pid rid q \<Longrightarrow> stays w0 (steady pid rid) (f (Inr q))"
  shows "stays w0 (steady pid rid) (State_Monad.bind (GetJob pid rid) f)"
  unfolding stays_def
proof (intro allI impI, elim conjE)
  fix w assume e: "same_env w0 w" and s: "steady pid rid w"
  obtain q where q: "run_state (GetJob pid rid) w = (Inr q, w)" "sane_job pid rid q" by (rule steady_GetJob[OF s])
  show "same_env w0 (snd (run_state (GetJob pid rid \<bind> f) w)) \<and> steady pid rid (snd (run_state (GetJob pid rid \<bind> f) w))"
    using assms[OF q(2)] e s unfolding run_then[OF q(1)] stays_def by blast
qed

lemma stays_after:
  assumes "stays w0 I m" and "same_env w0 w" and "I w" and "run_state m w = (r, w')"
  shows "same_env w0 w'" and "I w'"
  using assms unfolding stays_def by (metis snd_conv)+

section \<open>Operations on scratch files\<close>

text \<open>A condition that what happens aside from the data keeps.\<close>

definition scratch_inv :: "(world \<Rightarrow> bool) \<Rightarrow> bool" where
  "scratch_inv I \<longleftrightarrow> (\<forall>w. I w \<longrightarrow> scratch_apart w) \<and> (\<forall>w w'. I w \<and> aside (data_dir w) w w' \<longrightarrow> I w')"

lemma inv_steady [stay]: "scratch_inv (steady pid rid)"
proof -
  have "steady pid rid w \<Longrightarrow> scratch_apart w" for w by (simp add: steady_def)
  then show ?thesis unfolding scratch_inv_def aside_def using away_steady by blast
qed

lemma stays_aside:
  assumes i: "scratch_inv I"
    and "\<And>w. scratch_apart w \<Longrightarrow> data_dir w = data_dir w0 \<Longrightarrow> aside (data_dir w0) w (snd (run_state m w))"
  shows "stays w0 I m"
  unfolding stays_def
proof (intro allI impI, elim conjE)
  fix w assume e: "same_env w0 w" and s: "I w"
  have d: "data_dir w = data_dir w0" using e by (simp add: same_env_def)
  have a: "aside (data_dir w) w (snd (run_state m w))" using assms(2)[OF _ d] s i by (simp add: scratch_inv_def d)
  then show "same_env w0 (snd (run_state m w)) \<and> I (snd (run_state m w))"
    using i s same_env_trans[OF e] by (auto simp: aside_def away_def scratch_inv_def)
qed

lemma stays_os_mkdir_all [stay]: "stays w0 (steady pid rid) (os_mkdir_all q)"
  by (rule stays_away) (use away_ops(2) in \<open>simp add: os_mkdir_all_def run keeps_def\<close>)

lemma stays_mkdir: "scratch_inv I \<Longrightarrow> apart q (data_dir w0) \<Longrightarrow> stays w0 I (os_mkdir_all q)"
proof (erule stays_aside)
  fix w assume "apart q (data_dir w0)" "scratch_apart w" "data_dir w = data_dir w0"
  then have "apart (deref w q) (data_dir w0)" using apart_deref[of w q] by simp
  then show "aside (data_dir w0) w (snd (run_state (os_mkdir_all q) w))"
    using aside_ops(2)[of "deref w q" "data_dir w0"] by (simp add: os_mkdir_all_def run keeps_def)
qed

lemma stays_os_write [stay]: "scratch_inv I \<Longrightarrow> apart q (data_dir w0) \<Longrightarrow> stays w0 I (os_write q s)"
proof (erule stays_aside)
  fix w assume "apart q (data_dir w0)" "scratch_apart w" "data_dir w = data_dir w0"
  then have "apart (deref w q) (data_dir w0)" using apart_deref[of w q] by simp
  then show "aside (data_dir w0) w (snd (run_state (os_write q s) w))"
    using aside_ops(1)[of "deref w q" "data_dir w0" "DText s"] by (simp add: os_write_def run keeps_def)
qed

lemma away_links: "away d w (w\<lparr>links := filter P (links w)\<rparr>)"
  by (auto simp: away_def same_env_def wf_rel_def intro: fs_wf_cong[THEN iffD2])

lemma aside_links: "aside d w (w\<lparr>links := filter P (links w)\<rparr>)"
  using away_links by (simp add: aside_def)

lemma stays_os_remove_all [stay]: "scratch_inv I \<Longrightarrow> apart q (data_dir w0) \<Longrightarrow> stays w0 I (os_remove_all q)"
proof (erule stays_aside)
  fix w assume "apart q (data_dir w0)"
  then have "keeps (aside (data_dir w0)) (os_remove_all q)"
    unfolding os_remove_all_def by (intro asd.keeps_bindE aside_ops(4)) (simp_all add: keeps_def aside_links)
  then show "aside (data_dir w0) w (snd (run_state (os_remove_all q) w))" by (simp add: keeps_def)
qed

lemma stays_os_remove [stay]: "scratch_inv I \<Longrightarrow> apart (butlast q) (data_dir w0) \<Longrightarrow> stays w0 I (os_remove q)"
proof (erule stays_aside)
  fix w assume "apart (butlast q) (data_dir w0)" "scratch_apart w" "data_dir w = data_dir w0"
  then have "apart (deref w (butlast q) @ [last q]) (data_dir w0)" using apart_deref[of w "butlast q"] by (simp add: apart_append)
  then show "aside (data_dir w0) w (snd (run_state (os_remove q) w))"
    using aside_ops(3)[of "deref w (butlast q) @ [last q]" "data_dir w0"] aside_links
    by (simp add: os_remove_def run keeps_def AList.delete_eq)
qed

lemma stays_os_reads [stay]: "stays w0 I (os_exists q)" "stays w0 I (os_read q)" "stays w0 I (asks f)"
  by (simp_all add: stays_def run os_exists_def os_read_def)

section \<open>What runs outside\<close>

text \<open>Git, docker and the peers leave the registry and the
  record of the job as they must be, and put no link to the data directory; the name of a
  temporary file is one segment.\<close>

definition tame :: "string \<Rightarrow> externals \<Rightarrow> bool" where
  "tame pid x \<longleftrightarrow>
     (\<forall>p u. keeps (kept pid) (x_credentials x p u)) \<and> (\<forall>j p t b l m. keeps (kept pid) (x_create_issue x j p t b l m)) \<and>
     (\<forall>d e a. keeps (kept pid) (x_git x d e a)) \<and> (\<forall>d s. keeps (kept pid) (x_git_apply x d s)) \<and>
     (\<forall>a. keeps (kept pid) (x_docker x a)) \<and> (\<forall>r. keeps (kept pid) (x_lease x r)) \<and>
     (\<forall>l. keeps (kept pid) (x_redeem x l)) \<and> (\<forall>r. keeps (kept pid) (x_resolve x r)) \<and>
     (\<forall>n. keeps (kept pid) (x_temp x n) \<and> (\<forall>w. plain (fst (run_state (x_temp x n) w)))) \<and>
     (\<forall>g u p b. keeps (kept pid) (x_ora_post x g u p b)) \<and> (\<forall>g u c p b. keeps (kept pid) (x_peer_json x g u c p b)) \<and>
     (\<forall>t h. keeps (kept pid) (x_oam_get x t h))"

text \<open>What an invariant asks of them.\<close>

definition holds :: "(world \<Rightarrow> bool) \<Rightarrow> 'a act \<Rightarrow> bool" where
  "holds I m \<longleftrightarrow> keeps (\<lambda>w w'. same_env w w' \<and> (I w \<longrightarrow> I w')) m"

definition mild :: "(world \<Rightarrow> bool) \<Rightarrow> externals \<Rightarrow> bool" where
  "mild I x \<longleftrightarrow> (\<forall>p u. holds I (x_credentials x p u)) \<and> (\<forall>d e a. holds I (x_git x d e a)) \<and>
     (\<forall>d s. holds I (x_git_apply x d s)) \<and> (\<forall>a. holds I (x_docker x a)) \<and> (\<forall>r. holds I (x_lease x r)) \<and>
     (\<forall>l. holds I (x_redeem x l)) \<and> (\<forall>r. holds I (x_resolve x r)) \<and> (\<forall>n. holds I (x_temp x n)) \<and>
     (\<forall>g u p b. holds I (x_ora_post x g u p b)) \<and> (\<forall>g u c p b. holds I (x_peer_json x g u c p b)) \<and>
     (\<forall>t h. holds I (x_oam_get x t h))"

lemma kept_holds: "keeps (kept pid) m \<Longrightarrow> holds (steady pid rid) m"
  unfolding holds_def keeps_def keptD by blast

lemma tame_mild [stay]: "tame pid x \<Longrightarrow> mild (steady pid rid) x"
  unfolding tame_def mild_def by (intro conjI allI kept_holds) simp_all

lemma stays_holds: "holds I m \<Longrightarrow> stays w0 I m"
  unfolding stays_def holds_def keeps_def using same_env_trans by blast

lemma stays_outside [stay]:
  assumes "mild I x"
  shows "stays w0 I (x_credentials x p u)" "stays w0 I (x_git x d e a)" "stays w0 I (x_git_apply x d s)"
    "stays w0 I (x_docker x a')" "stays w0 I (x_lease x r)" "stays w0 I (x_redeem x l)"
    "stays w0 I (x_resolve x r)" "stays w0 I (x_temp x n)" "stays w0 I (x_ora_post x g u' pth b)"
    "stays w0 I (x_peer_json x g u' sc pth b)"
    "stays w0 I (x_oam_get x tg hs)"
  using assms by (auto simp: mild_def intro: stays_holds)

text \<open>What an action returns from a steady world.\<close>

definition gives :: "world \<Rightarrow> (world \<Rightarrow> bool) \<Rightarrow> ('a \<Rightarrow> bool) \<Rightarrow> 'a act \<Rightarrow> bool" where
  "gives w0 I P m \<longleftrightarrow> (\<forall>w. same_env w0 w \<and> I w \<longrightarrow> P (fst (run_state m w)))"

lemma stays_bind_gives:
  assumes "stays w0 I m" and "gives w0 I P m" and "\<And>x. P x \<Longrightarrow> stays w0 I (f x)"
  shows "stays w0 I (State_Monad.bind m f)"
  unfolding stays_def
proof (intro allI impI, elim conjE)
  fix w assume w: "same_env w0 w" "I w"
  obtain y w1 where m: "run_state m w = (y, w1)" by (cases "run_state m w")
  have "P y" "same_env w0 w1" "I w1" using assms(1,2) w m unfolding stays_def gives_def by (metis fst_conv snd_conv)+
  then show "same_env w0 (snd (run_state (m \<bind> f) w)) \<and> I (snd (run_state (m \<bind> f) w))"
    using assms(3) unfolding run_then[OF m] stays_def by blast
qed

lemma gives_bind:
  assumes "stays w0 I m" and "\<And>x. gives w0 I P (f x)"
  shows "gives w0 I P (State_Monad.bind m f)"
  using assms unfolding stays_def gives_def by (auto simp: run split: prod.split)

text \<open>A working directory is away from the data.\<close>

definition dir_away :: "world \<Rightarrow> err + path \<Rightarrow> bool" where
  "dir_away w0 r \<longleftrightarrow> (case r of Inl _ \<Rightarrow> True | Inr d \<Rightarrow> apart d (data_dir w0))"

lemma inv_roots:
  assumes "scratch_inv I" and "same_env w0 w" and "I w"
  shows "apart (jobTmpRoot w) (data_dir w0)" and "apart (tempRoot w) (data_dir w0)"
  using assms by (auto simp: scratch_inv_def scratch_apart_def same_env_def)

lemmas steady_roots = inv_roots[OF inv_steady]

lemma plain_repo [simp]: "plain ''repo''" by (simp add: plain_def)

lemma stays_cloneRepoInto [stay]:
  assumes t: "mild I x" and i: "scratch_inv I" and a: "apart root (data_dir w0)"
  shows "stays w0 I (cloneRepoInto x p root ''repo'' u)"
proof -
  have w: "path_join root [''repo''] = root @ [''repo'']" by (simp add: path_join_plain)
  show ?thesis
    unfolding cloneRepoInto_def clone_attempts_def w Let_def
    by (intro stay stays_mkdir[OF i] t i; simp add: apart_append a)
qed

lemma cloneRepoInto_dir: "fst (run_state (cloneRepoInto x p root ''repo'' u) w) = Inr d \<Longrightarrow> d = root @ [''repo'']"
  by (auto simp: cloneRepoInto_def clone_attempts_def Let_def run path_join_plain
      split: prod.splits sum.splits if_splits option.splits)

lemma stays_prepareJobWorkspace [stay]:
  assumes t: "mild I x" and i: "scratch_inv I" and "plain runID"
  shows "stays w0 I (prepareJobWorkspace x p runID u)"
  unfolding prepareJobWorkspace_def
  by (rule stays_asks, intro stay stays_mkdir[OF i] t i)
     (use assms(3) inv_roots[OF i] in \<open>simp_all add: path_join_plain apart_append\<close>)

lemma stays_ensureTaskWorkspace [stay]:
  assumes t: "mild I x" and i: "scratch_inv I"
  shows "stays w0 I (ensureTaskWorkspace x p sid u)"
  unfolding ensureTaskWorkspace_def
  by (rule stays_asks, intro stay stays_mkdir[OF i] t i)
     (use inv_roots[OF i] in \<open>simp_all add: taskWorkspaceRoot_eq apart_append\<close>)

lemma gives_workspace:
  assumes i: "scratch_inv I" and "plain runID"
  shows "gives w0 I (dir_away w0) (prepareJobWorkspace x p runID u)"
    and "gives w0 I (dir_away w0) (ensureTaskWorkspace x p sid u)"
  unfolding gives_def dir_away_def prepareJobWorkspace_def ensureTaskWorkspace_def
  using assms(2) inv_roots(1)[OF i]
  by (auto simp: run path_join_plain taskWorkspaceRoot_eq apart_append dest!: cloneRepoInto_dir split: prod.split sum.split)

end
