(* ===== verification/Silent.thy ===== *)
theory Silent
  imports Job_Runner
begin

text \<open>
  What starts no job: \<open>silent w w'\<close> says that no job was started and that the parameters of
  the world are the same.  Every operation of the store and every executor is silent; only
  \<open>go executeJob\<close> is not.
\<close>

definition silent :: "world \<Rightarrow> world \<Rightarrow> bool" where
  "silent w w' \<longleftrightarrow> spawned w' = spawned w \<and> same_env w w'"

interpretation sil: frame_rel silent
  by unfold_locales (auto simp: silent_def intro: same_env_trans)

lemma silentD: "keeps silent m \<Longrightarrow> run_state m w = (r, w') \<Longrightarrow> spawned w' = spawned w \<and> same_env w w'"
  unfolding keeps_def silent_def by (metis snd_conv)

named_theorems quietly \<open>operations that start no job\<close>

lemma silent_primitives [quietly]:
  "keeps silent nowUTC" "keeps silent uuid_new" "keeps silent (asks f)" "keeps silent (exists_path q)"
  "keeps silent (read_file q)" "keeps silent (readJSON k prj q)" "keeps silent (read_text q)" "keeps silent (read_dir q)"
  by (simp_all add: keeps_def run silent_def same_env_def)

lemma silent_put [simp]: "silent w (put_node q n w)"
  by (simp add: silent_def same_env_def)

lemma silent_writes [quietly]:
  "keeps silent (write_file q d)" "keeps silent (append_file q s)" "keeps silent (mkdir_all q)"
  "keeps silent (remove_all q)" "keeps silent (remove_file q)"
  by (auto simp: keeps_def write_file_def append_file_def mkdir_all_def remove_all_def remove_file_def
      silent_def same_env_def split: option.splits node.splits)

lemma silent_writeJSON [quietly]: "keeps silent (writeJSON q d)"
  unfolding writeJSON_def by (intro sil.keeps_bindE quietly)

lemma silent_if_missing: "keeps silent m \<Longrightarrow> keeps silent (if_missing q m)"
  unfolding if_missing_def by (intro sil.keeps_bind sil.keeps_if sil.keeps_okE quietly)

lemma silent_mkdirs_all [quietly]: "keeps silent (mkdirs_all ds)"
  by (induction ds) (auto intro: sil.keeps_okE sil.keeps_bindE quietly)

lemma silent_ensureLayout [quietly]: "keeps silent (ensureLayout p)"
  unfolding ensureLayout_def Let_def
  by (intro sil.keeps_bind sil.keeps_bindE silent_if_missing quietly)

lemma silent_GetProject [quietly]: "keeps silent (GetProject pid)"
  by (simp add: keeps_def silent_def same_env_def)

lemma silent_withProject [quietly]:
  assumes "\<And>p base. keeps silent (fn p base)"
  shows "keeps silent (withProject pid fn)"
  unfolding withProject_def by (intro sil.keeps_bind sil.keeps_bindE assms quietly)

text \<open>A step whose continuation depends on a result.\<close>

lemma silent_case_sum [quietly]:
  "(\<And>e. keeps silent (f e)) \<Longrightarrow> (\<And>x. keeps silent (g x)) \<Longrightarrow> keeps silent (case r of Inl e \<Rightarrow> f e | Inr x \<Rightarrow> g x)"
  by (simp split: sum.split)

lemma silent_case_option [quietly]:
  "keeps silent f \<Longrightarrow> (\<And>x. keeps silent (g x)) \<Longrightarrow> keeps silent (case r of None \<Rightarrow> f | Some x \<Rightarrow> g x)"
  by (simp split: option.split)

lemma silent_case_prod [quietly]: "(\<And>a b. keeps silent (f a b)) \<Longrightarrow> keeps silent (case x of (a, b) \<Rightarrow> f a b)"
  by (simp split: prod.split)

lemma silent_out [quietly]: "keeps silent (ok m)" "keeps silent (bad m e)"
  by (simp_all add: ok_def bad_def sil.keeps_return)

lemmas silent_intros = sil.keeps_bind sil.keeps_bindE sil.keeps_if sil.keeps_return sil.keeps_okE sil.keeps_throwE
  sil.keeps_failE_when

section \<open>The store\<close>

lemma silent_tasks [quietly]:
  "keeps silent (GetTask pid sid)" "keeps silent (MoveTask pid sid c)" "keeps silent (MutateTask pid sid mut)"
  "keeps silent (GetBoard pid)"
  unfolding GetTask_def MoveTask_def MutateTask_def GetBoard_def Let_def
  by (intro silent_intros quietly)+

lemma silent_ApproveForCoding [quietly]: "keeps silent (ApproveForCoding pid sid)"
  unfolding ApproveForCoding_def by (intro silent_intros quietly)

lemma silent_docs [quietly]:
  "keeps silent (GetPlan pid sid)" "keeps silent (PutPlan pid sid x)" "keeps silent (GetProgress pid sid)"
  "keeps silent (PutProgress pid sid y)" "keeps silent (PutStatus pid st)" "keeps silent (PutSpecMarkdown pid sid s)"
  "keeps silent (AppendSpecLog pid sid ph l)" "keeps silent (PutChangelog pid s)" "keeps silent (GetJob pid rid)"
  "keeps silent (UpdateJob pid j)" "keeps silent (AppendProjectLog pid n l)"
  unfolding GetPlan_def PutPlan_def GetProgress_def PutProgress_def PutStatus_def PutSpecMarkdown_def AppendSpecLog_def
    PutChangelog_def GetJob_def UpdateJob_def AppendProjectLog_def
  by (intro silent_intros quietly)+

lemma silent_CreateJob [quietly]: "keeps silent (CreateJobWithOrigin pid a sid img og)"
  unfolding CreateJobWithOrigin_def Let_def by (intro silent_intros quietly)

section \<open>The executors\<close>

lemma silent_approved [quietly]: "keeps silent (taskApprovedForCoding pid sid)"
  unfolding taskApprovedForCoding_def read_approved_def by (intro silent_intros quietly)

lemma silent_impl_step [quietly]: "keeps silent (impl_step j k pl)"
  unfolding impl_step_def Let_def append_notes_def by (intro silent_intros quietly)

lemma silent_idle [quietly]: "keeps silent (put_idle_status j st now)" "keeps silent (put_idle_status_now j st)"
  unfolding put_idle_status_def put_idle_status_now_def by (intro silent_intros quietly)+

lemma silent_mark_docs [quietly]: "keeps silent (mark_stuck_docs j pl i)"
  unfolding mark_stuck_docs_def by (intro silent_intros quietly)

lemma silent_changelog_lines [quietly]: "keeps silent (changelog_lines pid is)"
  by (induction "is") (auto simp: Let_def intro!: silent_intros quietly)

lemma silent_executors [quietly]:
  "keeps silent (builtinPlanning j)" "keeps silent (builtinImplementationOpts j k)" "keeps silent (builtinPause j)"
  "keeps silent (builtinResume j)" "keeps silent (builtinRecover j)" "keeps silent (builtinMarkStuck j)"
  "keeps silent (builtinSkipToPhase j)" "keeps silent (markJobCancelledStuck j)" "keeps silent (builtinChangelog j)"
  "keeps silent (taskPausedBlock j)"
  unfolding builtinPlanning_def builtinImplementationOpts_def builtinPause_def builtinResume_def builtinRecover_def
    builtinMarkStuck_def builtinSkipToPhase_def markJobCancelledStuck_def builtinChangelog_def taskPausedBlock_def Let_def
  by (intro silent_intros quietly)+

lemma silent_builtinImplementation [quietly]: "keeps silent (builtinImplementation j)"
  unfolding builtinImplementation_def by (rule silent_executors)

end
