(* ===== verification/Change_Laws.thy ===== *)
theory Change_Laws
  imports Change_Set Silent Spec_Docs
begin

text \<open>
  The laws of change sets: what normalisation keeps, what a merge holds at each path, which
  paths are accepted, and what applying does to the files of the machine.
\<close>

section \<open>Normalising\<close>

lemma normalize_loop_kept:
  assumes "normalize_loop seen files = (kept, dropped)"
  shows "length kept + length dropped = length files \<and> distinct (map fc_path kept) \<and>
    (\<forall>f\<in>set kept. fc_path f \<noteq> [] \<and> trim_space (fc_path f) = fc_path f \<and> mode f \<noteq> ''empty'' \<and>
      fc_path f \<notin> set seen \<and> (\<exists>g\<in>set files. f = g\<lparr>fc_path := trim_space (fc_path g)\<rparr>))"
  using assms
proof (induction seen files arbitrary: kept dropped rule: normalize_loop.induct)
  case (2 seen f0 rest)
  let ?f = "f0\<lparr>fc_path := trim_space (fc_path f0)\<rparr>"
  consider (blank) "fc_path ?f = []" | (empty) "fc_path ?f \<noteq> []" "mode ?f = ''empty''"
    | (dup) "fc_path ?f \<noteq> []" "mode ?f \<noteq> ''empty''" "fc_path ?f \<in> set seen"
    | (keep) "fc_path ?f \<noteq> []" "mode ?f \<noteq> ''empty''" "fc_path ?f \<notin> set seen" by blast
  then show ?case
  proof cases
    case blank
    then show ?thesis using 2(1)[OF refl blank] 2(5) by (auto simp: Let_def split: prod.splits)
  next
    case empty
    then show ?thesis using 2(2)[OF refl empty] 2(5) by (auto simp: Let_def split: prod.splits)
  next
    case dup
    then show ?thesis using 2(3)[OF refl dup] 2(5) by (auto simp: Let_def split: prod.splits)
  next
    case keep
    obtain k d where kd: "normalize_loop (fc_path ?f # seen) rest = (k, d)" by (cases "normalize_loop (fc_path ?f # seen) rest")
    then have e: "kept = ?f # k" "dropped = d" using keep 2(5) by (simp_all add: Let_def)
    from 2(4)[OF refl keep kd] show ?thesis using keep by (auto simp: e)
  qed
qed simp

section \<open>Merging\<close>

text \<open>The entry that counts for a path: the last one.\<close>

definition last_for :: "string \<Rightarrow> file_change list \<Rightarrow> file_change option" where
  "last_for p files = List.find (\<lambda>f. fc_path f = p) (rev files)"

lemma map_of_updates:
  "map_of (foldl (\<lambda>m f. AList.update (fc_path f) f m) m files) p =
     (case last_for p files of Some f \<Rightarrow> Some f | None \<Rightarrow> map_of m p)"
  by (induction files rule: rev_induct) (auto simp: last_for_def map_of_update)

lemma map_of_by_path: "map_of (by_path files) p = last_for p files"
  by (simp add: by_path_def map_of_updates split: option.split)

lemma last_for_None: "last_for p files = None \<longleftrightarrow> p \<notin> fc_path ` set files"
  by (auto simp: last_for_def find_None_iff)

lemma last_for_path: "last_for p files = Some f \<Longrightarrow> f \<in> set files \<and> fc_path f = p"
  unfolding last_for_def using find_Some_in_set by fastforce

lemma last_for_distinct:
  assumes "distinct (map fc_path files)" and "f \<in> set files"
  shows "last_for (fc_path f) files = Some f"
proof -
  obtain g where "last_for (fc_path f) files = Some g"
    using assms(2) last_for_None[of "fc_path f" files] by (cases "last_for (fc_path f) files") auto
  then show ?thesis using last_for_path assms inj_onD[of fc_path "set files"] by (metis distinct_map)
qed

abbreviation add_entry where
  "add_entry \<equiv> \<lambda>(m, order) f. (AList.update (fc_path f) f m,
     if map_of m (fc_path f) = None then order @ [fc_path f] else order)"

lemma merge_fold:
  assumes "\<And>p. map_of m p \<noteq> None \<longleftrightarrow> p \<in> set order" and "distinct order"
    and "foldl add_entry (m, order) files = (m', order')"
  shows "distinct order' \<and> set order' = set order \<union> fc_path ` set files \<and>
    m' = foldl (\<lambda>m f. AList.update (fc_path f) f m) m files \<and> (\<exists>new. order' = order @ new)"
  using assms
proof (induction files arbitrary: m order)
  case (Cons f files)
  let ?m = "AList.update (fc_path f) f m"
  let ?o = "if map_of m (fc_path f) = None then order @ [fc_path f] else order"
  have inv: "map_of ?m p \<noteq> None \<longleftrightarrow> p \<in> set ?o" for p
    using Cons.prems(1)[of p] Cons.prems(1)[of "fc_path f"] by (auto simp: map_of_update)
  have "distinct ?o" using Cons.prems(1)[of "fc_path f"] Cons.prems(2) by auto
  from Cons.IH[OF inv this] Cons.prems(3)
  have ih: "distinct order'" "set order' = set ?o \<union> fc_path ` set files"
    "m' = foldl (\<lambda>m f. AList.update (fc_path f) f m) ?m files" "\<exists>new. order' = ?o @ new"
    by simp_all
  have "set ?o = insert (fc_path f) (set order)" using Cons.prems(1)[of "fc_path f"] by auto
  then show ?case using ih by (auto split: if_splits)
qed simp

definition merge_now :: "change_set \<Rightarrow> change_set \<Rightarrow> time \<Rightarrow> change_set" where
  "merge_now base delta now = base\<lparr>
       cs_runId := (if cs_runId delta \<noteq> [] then cs_runId delta else cs_runId base),
       cs_source := (if cs_source delta \<noteq> [] then cs_source delta else cs_source base),
       cs_model := (if cs_model delta \<noteq> [] then cs_model delta else cs_model base),
       cs_commitMessage := (if \<not> blank (cs_commitMessage delta) then cs_commitMessage delta else cs_commitMessage base),
       cs_recordedAt := (if cs_recordedAt delta = zero_time then now else cs_recordedAt delta),
       cs_files := map (\<lambda>p. the (map_of (foldl (\<lambda>m f. AList.update (fc_path f) f m)
          (by_path (cs_files base)) (cs_files delta)) p)) (merge_order base delta)\<rparr>"

lemma run_MergeChangeSet:
  "run_state (MergeChangeSet base delta) w =
     (merge_now base delta (clock_at w (ticks w)),
      if cs_recordedAt delta = zero_time then w\<lparr>ticks := Suc (ticks w)\<rparr> else w)"
  by (simp add: MergeChangeSet_def merge_now_def run Let_def)

lemma merge_files:
  assumes d: "distinct (cs_paths base)"
  shows "distinct (cs_paths (merge_now base delta now))"
    and "set (cs_paths (merge_now base delta now)) = set (cs_paths base) \<union> set (cs_paths delta)"
    and "last_for p (cs_files (merge_now base delta now)) =
      (case last_for p (cs_files delta) of Some f \<Rightarrow> Some f | None \<Rightarrow> last_for p (cs_files base))"
    and "\<exists>new. cs_paths (merge_now base delta now) = cs_paths base @ new"
proof -
  let ?m = "by_path (cs_files base)"
  let ?up = "foldl (\<lambda>m f. AList.update (fc_path f) f m) ?m (cs_files delta)"
  obtain m' where fo: "foldl add_entry (?m, cs_paths base) (cs_files delta) = (m', merge_order base delta)"
    unfolding merge_order_def by (cases "foldl add_entry (?m, cs_paths base) (cs_files delta)") simp
  have dm: "map_of ?m p \<noteq> None \<longleftrightarrow> p \<in> set (cs_paths base)" for p
    by (simp add: map_of_by_path last_for_None cs_paths_def)
  from merge_fold[OF dm d fo]
  have o: "distinct (merge_order base delta)"
    "set (merge_order base delta) = set (cs_paths base) \<union> set (cs_paths delta)"
    "\<exists>new. merge_order base delta = cs_paths base @ new"
    by (simp_all add: cs_paths_def)
  have at: "map_of ?up p = (case last_for p (cs_files delta) of Some f \<Rightarrow> Some f | None \<Rightarrow> last_for p (cs_files base))" for p
    by (simp add: map_of_updates map_of_by_path split: option.split)
  have hit: "\<exists>f. map_of ?up p = Some f \<and> fc_path f = p" if "p \<in> set (merge_order base delta)" for p
  proof (cases "last_for p (cs_files delta)")
    case None
    then have "p \<in> set (cs_paths base)" using that o(2) last_for_None by (auto simp: cs_paths_def)
    then obtain f where "last_for p (cs_files base) = Some f"
      using last_for_None[of p "cs_files base"] by (cases "last_for p (cs_files base)") (auto simp: cs_paths_def)
    then show ?thesis using at None last_for_path by simp
  next
    case (Some f)
    then show ?thesis using at last_for_path by simp
  qed
  have files: "cs_files (merge_now base delta now) = map (\<lambda>p. the (map_of ?up p)) (merge_order base delta)"
    by (simp add: merge_now_def)
  have paths: "cs_paths (merge_now base delta now) = merge_order base delta"
    unfolding cs_paths_def files map_map o_def
    by (rule map_idI) (use hit in fastforce)
  show "distinct (cs_paths (merge_now base delta now))"
    "set (cs_paths (merge_now base delta now)) = set (cs_paths base) \<union> set (cs_paths delta)"
    "\<exists>new. cs_paths (merge_now base delta now) = cs_paths base @ new"
    using o paths by simp_all
  show "last_for p (cs_files (merge_now base delta now)) =
      (case last_for p (cs_files delta) of Some f \<Rightarrow> Some f | None \<Rightarrow> last_for p (cs_files base))"
  proof (cases "p \<in> set (merge_order base delta)")
    case True
    then obtain f where f: "map_of ?up p = Some f" "fc_path f = p" using hit by blast
    then have "f \<in> set (cs_files (merge_now base delta now))" using True files by force
    then have "last_for p (cs_files (merge_now base delta now)) = Some f"
      using last_for_distinct[of "cs_files (merge_now base delta now)" f] o(1) paths f(2) by (simp add: cs_paths_def)
    then show ?thesis using at f(1) by simp
  next
    case False
    then have "last_for p (cs_files delta) = None" "last_for p (cs_files base) = None"
      using o(2) by (auto simp: last_for_None cs_paths_def)
    moreover have "last_for p (cs_files (merge_now base delta now)) = None"
      unfolding last_for_None using False paths unfolding cs_paths_def by (metis set_map)
    ultimately show ?thesis by simp
  qed
qed

section \<open>The stored change set\<close>

lemma rep_GetChangeSet:
  assumes "rep w pid p sid s"
  shows "run_state (GetChangeSet pid sid) w = (Inr (case d_changes s of None \<Rightarrow> zero_change_set | Some c \<Rightarrow> c), w)"
  using assms
  by (auto simp: rep_def changes_now_def GetChangeSet_def run run_withProject_home[OF rep_ready[OF assms]]
      spec_file_plain[OF rep_plain[OF assms]] spec_path_def run_readJSON_None run_readJSON_File doc_kind_of_def
      split: option.splits node.splits doc.splits)

definition stamped_changes :: "change_set \<Rightarrow> time \<Rightarrow> change_set" where
  "stamped_changes cs now = (if cs_recordedAt cs = zero_time then cs\<lparr>cs_recordedAt := now\<rparr> else cs)"

lemma stamped_changes_sel [simp]:
  "cs_files (stamped_changes cs now) = cs_files cs" "cs_commitMessage (stamped_changes cs now) = cs_commitMessage cs"
  "cs_paths (stamped_changes cs now) = cs_paths cs" "cs_source (stamped_changes cs now) = cs_source cs"
  by (simp_all add: stamped_changes_def cs_paths_def)

lemma rep_PutChangeSet:
  assumes r: "rep w pid p sid s"
  obtains w' where "run_state (PutChangeSet pid sid cs) w = (Inr (), w')"
    and "rep w' pid p sid (s\<lparr>d_changes := Some (stamped_changes cs (clock_at w (ticks w)))\<rparr>)"
proof -
  have n: "''changes.json'' \<in> set doc_names" by (simp add: doc_names_def)
  have put: "run_state (withProject pid (\<lambda>p base. writeJSON (spec_file base sid ''changes.json'') (DChanges c))) w1 =
      (Inr (), put_node (spec_path w1 pid sid ''changes.json'') (File (DChanges c)) w1) \<and>
      rep (put_node (spec_path w1 pid sid ''changes.json'') (File (DChanges c)) w1) pid p sid (s\<lparr>d_changes := Some c\<rparr>)"
    if r1: "rep w1 pid p sid s" for w1 c
    using run_put_spec[OF rep_sready[OF r1] n] r1 rep_put_doc[OF r1 n]
    by (simp add: rep_def now_defs look_put_node)
  show thesis
  proof (cases "cs_recordedAt cs = zero_time")
    case True
    let ?w = "w\<lparr>ticks := Suc (ticks w)\<rparr>"
    from put[of ?w "cs\<lparr>cs_recordedAt := clock_at w (ticks w)\<rparr>"] r True show thesis
      using that by (simp add: PutChangeSet_def run stamped_changes_def)
  next
    case False
    from put[OF r, of cs] False show thesis
      using that by (simp add: PutChangeSet_def run stamped_changes_def)
  qed
qed

lemma rep_PutChangeSetMerged:
  assumes r: "rep w pid p sid s"
  obtains w' now now' where "run_state (PutChangeSetMerged pid sid delta) w = (Inr (), w')"
    and "rep w' pid p sid (s\<lparr>d_changes := Some (stamped_changes
      (merge_now (case d_changes s of None \<Rightarrow> zero_change_set | Some c \<Rightarrow> c) delta now) now')\<rparr>)"
proof -
  let ?b = "case d_changes s of None \<Rightarrow> zero_change_set | Some c \<Rightarrow> c"
  let ?w1 = "snd (run_state (MergeChangeSet ?b delta) w)"
  let ?c = "merge_now ?b delta (clock_at w (ticks w))"
  have r1: "rep ?w1 pid p sid s" using r by (simp add: run_MergeChangeSet)
  obtain w' where w': "run_state (PutChangeSet pid sid ?c) ?w1 = (Inr (), w')"
    "rep w' pid p sid (s\<lparr>d_changes := Some (stamped_changes ?c (clock_at ?w1 (ticks ?w1)))\<rparr>)"
    using rep_PutChangeSet[OF r1] .
  moreover have "run_state (PutChangeSetMerged pid sid delta) w = (Inr (), w')"
    using w'(1) by (simp add: PutChangeSetMerged_def run rep_GetChangeSet[OF r] run_MergeChangeSet)
  ultimately show thesis using that by blast
qed

section \<open>Which paths are accepted\<close>

lemma split_on_join:
  "xs \<noteq> [] \<Longrightarrow> list_all (\<lambda>s. CHR ''/'' \<notin> set s) xs \<Longrightarrow> split_on (CHR ''/'') (join ''/'' xs) = xs"
proof (induction xs rule: induct_list012)
  case (3 x y zs)
  then show ?case by (simp add: split_on_append)
qed (simp_all add: split_on_id)

definition special :: "string \<Rightarrow> bool" where
  "special s \<longleftrightarrow> s = [] \<or> s = ''.'' \<or> s = ''..'' \<or> CHR ''/'' \<in> set s"

lemma special_plain: "\<not> special s \<longleftrightarrow> plain s"
  by (auto simp: special_def plain_def)

lemma rel_segments_noslash: "list_all (\<lambda>s. CHR ''/'' \<notin> set s \<and> s \<noteq> [] \<and> s \<noteq> ''.'') (rel_segments p)"
proof -
  have "list_all (\<lambda>s. CHR ''/'' \<notin> set s \<and> s \<noteq> [] \<and> s \<noteq> ''.'') (foldl rel_step acc segs)"
    if "list_all (\<lambda>s. CHR ''/'' \<notin> set s \<and> s \<noteq> [] \<and> s \<noteq> ''.'') acc" "\<forall>s\<in>set segs. CHR ''/'' \<notin> set s" for acc segs
    using that
  proof (induction segs arbitrary: acc)
    case (Cons s segs)
    have "list_all (\<lambda>s. CHR ''/'' \<notin> set s \<and> s \<noteq> [] \<and> s \<noteq> ''.'') (rel_step acc s)"
      using Cons.prems by (auto simp: rel_step_def list_all_iff dest: in_set_butlastD)
    then show ?case using Cons by simp
  qed simp
  then show ?thesis unfolding rel_segments_def using split_on_no_sep by simp
qed

lemma rel_segments_not_dot: "rel_segments p \<noteq> [''.'']"
  using rel_segments_noslash[of p] by auto

lemma split_clean_rel: "rel_segments p \<noteq> [] \<Longrightarrow> split_on (CHR ''/'') (clean_rel p) = rel_segments p"
  using rel_segments_noslash[of p] by (simp add: clean_rel_def split_on_join list_all_iff)

text \<open>The paths a change set may name.\<close>

definition safe_segments :: "string list \<Rightarrow> bool" where
  "safe_segments segs \<longleftrightarrow> segs \<noteq> [] \<and> list_all plain segs \<and> hd segs \<noteq> ''.git''"

lemma accepted_segments:
  assumes "trim_space p = p" and "pathRejection p = []"
  shows "safe_segments (rel_segments p)"
    and "\<not> (\<exists>y ys. rel_segments p = ''.github'' # ''workflows'' # y # ys)"
proof -
  have c: "clean_rel p \<noteq> ''.''" "''..'' \<notin> set (split_on (CHR ''/'') (clean_rel p))"
    "clean_rel p \<noteq> ''.git''" "\<not> has_prefix ''.git/'' (clean_rel p)"
    "\<not> has_prefix ''.github/workflows/'' (clean_rel p)"
    using assms by (auto simp: pathRejection_def Let_def workflow_reason_def split: if_splits)
  then have ne: "rel_segments p \<noteq> []" by (simp add: clean_rel_def split: if_splits)
  have sp: "split_on (CHR ''/'') (clean_rel p) = rel_segments p" by (rule split_clean_rel[OF ne])
  have pl: "list_all plain (rel_segments p)"
    using rel_segments_noslash[of p] c(2) by (auto simp: sp list_all_iff plain_def)
  have "hd (rel_segments p) \<noteq> ''.git''"
  proof
    assume h: "hd (rel_segments p) = ''.git''"
    then obtain ys where ys: "rel_segments p = ''.git'' # ys" using ne by (cases "rel_segments p") auto
    then have "clean_rel p = ''.git'' \<or> has_prefix ''.git/'' (clean_rel p)"
      by (cases ys) (simp_all add: clean_rel_def has_prefix_def)
    then show False using c by blast
  qed
  then show "safe_segments (rel_segments p)" using ne pl by (simp add: safe_segments_def)
  show "\<not> (\<exists>y ys. rel_segments p = ''.github'' # ''workflows'' # y # ys)"
    using c(5) by (auto simp: clean_rel_def has_prefix_def)
qed

subsection \<open>Paths with white space around them\<close>

text \<open>The check trims a path, the use does not: what surrounds the path stays in its first and its
  last segment.\<close>

abbreviation spaces :: "string \<Rightarrow> bool" where
  "spaces s \<equiv> list_all is_space s"

lemma trim_space_around: obtains a b where "s = a @ trim_space s @ b" and "spaces a" and "spaces b"
proof
  let ?u = "dropWhile is_space s"
  show "spaces (takeWhile is_space s)" "spaces (rev (takeWhile is_space (rev ?u)))"
    by (auto simp: list_all_iff dest: set_takeWhileD)
  have "?u = rev (dropWhile is_space (rev ?u)) @ rev (takeWhile is_space (rev ?u))"
    by (metis rev_append rev_rev_ident takeWhile_dropWhile_id)
  then show "s = takeWhile is_space s @ trim_space s @ rev (takeWhile is_space (rev ?u))"
    by (simp add: trim_space_def trim_def trim_left_def trim_right_def)
qed

lemma split_on_pad_left: "c \<notin> set a \<Longrightarrow> split_on c (a @ t) = (a @ hd (split_on c t)) # tl (split_on c t)"
  by (induction a) (auto split: list.splits)

lemma split_on_pad_right:
  "c \<notin> set b \<Longrightarrow> split_on c (t @ b) = butlast (split_on c t) @ [last (split_on c t) @ b]"
proof (induction t)
  case Nil
  then show ?case by (simp add: split_on_id)
next
  case (Cons y t)
  then show ?case by (cases "split_on c t") (auto simp: neq_Nil_conv)
qed

lemma up_stays: "''..'' \<in> set acc \<Longrightarrow> ''..'' \<in> set (foldl rel_step acc segs)"
proof (induction segs arbitrary: acc)
  case (Cons s segs)
  have "''..'' \<in> set (rel_step acc s)"
    using Cons.prems by (cases acc rule: rev_cases) (auto simp: rel_step_def)
  then show ?case using Cons.IH by simp
qed simp

text \<open>A segment of its own in front, or in place of the first one, stays or is popped with it.\<close>

lemma rel_step_first:
  assumes "acc' = acc \<or> (\<exists>r. acc' = z # r \<and> (acc = r \<or> acc = s0 # r))" and "''..'' \<notin> set (rel_step acc s)"
    and "''..'' \<notin> set acc" and "z \<noteq> ''..''"
  shows "rel_step acc' s = rel_step acc s \<or>
    (\<exists>r. rel_step acc' s = z # r \<and> (rel_step acc s = r \<or> rel_step acc s = s0 # r))"
  using assms by (auto simp: rel_step_def split: if_splits)

lemma foldl_first:
  assumes "acc' = acc \<or> (\<exists>r. acc' = z # r \<and> (acc = r \<or> acc = s0 # r))" and "''..'' \<notin> set (foldl rel_step acc segs)"
    and "z \<noteq> ''..''"
  shows "foldl rel_step acc' segs = foldl rel_step acc segs \<or>
    (\<exists>r. foldl rel_step acc' segs = z # r \<and> (foldl rel_step acc segs = r \<or> foldl rel_step acc segs = s0 # r))"
  using assms(1,2)
proof (induction segs arbitrary: acc acc')
  case (Cons s segs)
  have "''..'' \<notin> set (rel_step acc s)" "''..'' \<notin> set acc"
    using Cons.prems(2) up_stays[of "rel_step acc s" segs] up_stays[of acc "s # segs"] by auto
  from Cons.IH[OF rel_step_first[OF Cons.prems(1) this assms(3)]] Cons.prems(2) show ?case by simp
qed simp

lemma space_chars: "is_space (CHR ''/'') = False" "is_space (CHR ''.'') = False" "is_space (CHR ''g'') = False"
  by code_simp+

lemma spaces_noslash: "spaces a \<Longrightarrow> CHR ''/'' \<notin> set a"
  by (auto simp: list_all_iff space_chars)

lemma padded_plain:
  assumes "spaces a" and "a \<noteq> []" and "CHR ''/'' \<notin> set s"
  shows "plain (a @ s)" "a @ s \<noteq> ''.git''" "plain (s @ a)" "s @ a \<noteq> ''.git''"
proof -
  obtain x xs where a: "a = x # xs" using assms(2) by (cases a) auto
  have x: "is_space x" using assms(1) a by simp
  have "x \<in> set (a @ s)" "x \<in> set (s @ a)" by (simp_all add: a)
  moreover have "\<forall>n\<in>set [''.'', ''..'', ''.git'']. \<forall>c\<in>set n. \<not> is_space c" by code_simp
  ultimately have ne: "a @ s \<notin> set [''.'', ''..'', ''.git'']" "s @ a \<notin> set [''.'', ''..'', ''.git'']"
    using x by blast+
  show "plain (a @ s)" "a @ s \<noteq> ''.git''" "plain (s @ a)" "s @ a \<noteq> ''.git''"
    using ne assms(2,3) spaces_noslash[OF assms(1)] by (simp_all add: plain_def)
qed

lemma safe_pad_left:
  assumes "safe_segments (rel_segments t)" and "spaces a"
  shows "safe_segments (rel_segments (a @ t))"
proof (cases "a = []")
  case False
  obtain s0 rest where sp: "split_on (CHR ''/'') t = s0 # rest" by (cases "split_on (CHR ''/'') t") auto
  have s0: "CHR ''/'' \<notin> set s0" using split_on_no_sep[of s0 "CHR ''/''" t] by (simp add: sp)
  let ?z = "a @ s0"
  have z: "plain ?z" "?z \<noteq> ''.git''" using padded_plain[OF assms(2) False s0] by simp_all
  have seg: "rel_segments t = foldl rel_step (rel_step [] s0) rest" by (simp add: rel_segments_def sp)
  have seg': "rel_segments (a @ t) = foldl rel_step [?z] rest"
    using z(1) by (simp add: rel_segments_def split_on_pad_left[OF spaces_noslash[OF assms(2)]] sp)
      (auto simp: rel_step_def plain_def)
  have up: "''..'' \<notin> set (rel_segments t)" using assms(1) by (auto simp: safe_segments_def list_all_iff plain_def)
  then have "s0 \<noteq> ''..''" using up_stays[of "rel_step [] s0" rest] by (auto simp: seg rel_step_def)
  then have "[?z] = rel_step [] s0 \<or> (\<exists>r. [?z] = ?z # r \<and> (rel_step [] s0 = r \<or> rel_step [] s0 = s0 # r))"
    by (auto simp: rel_step_def)
  from foldl_first[OF this] up z(1)
  have "rel_segments (a @ t) = rel_segments t \<or>
      (\<exists>r. rel_segments (a @ t) = ?z # r \<and> (rel_segments t = r \<or> rel_segments t = s0 # r))"
    by (auto simp: seg seg' plain_def)
  then show ?thesis using assms(1) z by (auto simp: safe_segments_def)
qed (use assms in simp)

lemma safe_pad_right:
  assumes "safe_segments (rel_segments t)" and "spaces b"
  shows "safe_segments (rel_segments (t @ b))"
proof (cases "b = []")
  case False
  let ?sp = "split_on (CHR ''/'') t"
  let ?A = "foldl rel_step [] (butlast ?sp)" and ?l = "last ?sp"
  have l: "CHR ''/'' \<notin> set ?l" using split_on_no_sep[of ?l "CHR ''/''" t] by simp
  note pb = padded_plain(3,4)[OF assms(2) False l]
  have "rel_segments t = foldl rel_step [] (butlast ?sp @ [?l])" by (simp add: rel_segments_def)
  then have seg: "rel_segments t = rel_step ?A ?l" by (simp del: append_butlast_last_id)
  have seg': "rel_segments (t @ b) = ?A @ [?l @ b]"
    using pb(1) by (simp add: rel_segments_def split_on_pad_right[OF spaces_noslash[OF assms(2)]])
      (auto simp: rel_step_def plain_def)
  have "''..'' \<notin> set (rel_segments t)" using assms(1) by (auto simp: safe_segments_def list_all_iff plain_def)
  then have up: "''..'' \<notin> set ?A" using up_stays[of ?A "[?l]"] by (auto simp: seg)
  have pl: "list_all plain ?A"
    using rel_segments_noslash[of "t @ b"] up by (auto simp: seg' list_all_iff plain_def)
  have "?A \<noteq> [] \<Longrightarrow> hd ?A = hd (rel_segments t)"
    using assms(1) up unfolding seg by (cases ?A) (auto simp: rel_step_def safe_segments_def split: if_splits)
  then show ?thesis using pl pb assms(1) by (cases ?A) (auto simp: safe_segments_def seg')
qed (use assms in simp)

lemma accepted_safe:
  assumes "pathRejection p = []"
  shows "safe_segments (rel_segments p)"
proof -
  obtain a b where p: "p = a @ trim_space p @ b" and s: "spaces a" "spaces b" by (rule trim_space_around)
  have t: "trim_space (trim_space p) = trim_space p" by simp
  have "pathRejection (trim_space p) = []" using assms by (simp add: pathRejection_def)
  from safe_pad_left[OF safe_pad_right[OF accepted_segments(1)[OF t this] s(2)] s(1)] show ?thesis
    using p by simp
qed

lemma target_safe:
  assumes "safe_segments (rel_segments (fc_path f))"
  shows "target root f = root @ rel_segments (fc_path f)"
proof -
  let ?s = "rel_segments (fc_path f)"
  have ne: "?s \<noteq> []" and pl: "list_all plain ?s" using assms by (simp_all add: safe_segments_def)
  have "foldl clean_step root xs = root @ xs" if "list_all plain xs" for xs root
    using that by (induction xs arbitrary: root) (simp_all add: clean_step_def plain_def)
  then show ?thesis using pl by (simp add: target_def path_join_def split_clean_rel[OF ne])
qed

lemma rel_path_below: "rel_path root (root @ q) = q"
  by (induction root) (cases q, simp_all)

lemma withinRoot_below: "q \<noteq> [] \<Longrightarrow> hd q \<noteq> ''..'' \<Longrightarrow> withinRoot root (root @ q)"
  by (simp add: withinRoot_def rel_path_below)

lemma withinRoot_iff: "withinRoot root a \<longleftrightarrow> (\<exists>q. a = root @ q \<and> q \<noteq> [] \<and> hd q \<noteq> ''..'')"
proof
  assume "withinRoot root a"
  then show "\<exists>q. a = root @ q \<and> q \<noteq> [] \<and> hd q \<noteq> ''..''"
  proof (induction root a rule: rel_path.induct)
    case (1 x xs y ys)
    then show ?case by (cases "x = y") (auto simp: withinRoot_def)
  qed (auto simp: withinRoot_def)
qed (auto intro: withinRoot_below)

end
