(* ===== verification/Exec_Stays.thy ===== *)
theory Exec_Stays
  imports Exec_Guard Change_Laws
begin

text \<open>
  The container, the application of its result and the pipeline keep their job steady.
\<close>

section \<open>The container\<close>

text \<open>A job that may run: its ids are path segments.\<close>

definition runnable :: "job \<Rightarrow> bool" where
  "runnable j \<longleftrightarrow> plain (j_runId j) \<and> (j_specId j \<noteq> [] \<longrightarrow> plain (j_specId j))"

lemma plain_jobid: "plain rid \<Longrightarrow> jobid rid"
  by (simp add: plain_def jobid_def)

lemma sane_runnable: "sane_job pid rid q \<Longrightarrow> plain rid \<Longrightarrow> runnable q \<and> j_projectId q = pid \<and> j_runId q = rid"
  by (auto simp: sane_job_def runnable_def)

lemma runnable_sane: "runnable j \<Longrightarrow> sane_job (j_projectId j) (j_runId j) j"
  by (simp add: runnable_def sane_job_def)

lemma runnable_spec: "runnable j \<Longrightarrow> j_specId j \<noteq> [] \<longrightarrow> plain (j_specId j)"
  by (simp add: runnable_def)

abbreviation keep_job :: "world \<Rightarrow> job \<Rightarrow> 'a act \<Rightarrow> bool" where
  "keep_job w0 j \<equiv> stays w0 (steady (j_projectId j) (j_runId j))"

lemma stays_UpdateJob [stay]:
  assumes "runnable q" and "j_projectId q = pid"
  shows "stays w0 (steady pid rid) (UpdateJob pid q)"
  by (rule stays_kept, rule kept_UpdateJob) (use assms runnable_sane[of q] in \<open>simp_all add: runnable_def plain_jobid\<close>)

lemma runnable_update [simp]:
  "runnable (with_resolution q cfg k) = runnable q" "j_projectId (with_resolution q cfg k) = j_projectId q"
  "j_runId (with_resolution q cfg k) = j_runId q"
  by (simp_all add: runnable_def with_resolution_def)

lemma stays_recordJobResolution [stay]:
  assumes "runnable j"
  shows "keep_job w0 j (recordJobResolution j cfg k)"
proof -
  have up: "keep_job w0 j (UpdateJob (j_projectId j) (with_resolution q cfg k))" if "sane_job (j_projectId j) (j_runId j) q" for q
    using sane_runnable[OF that] assms by (intro stays_UpdateJob) (simp_all add: runnable_def[of j])
  show ?thesis
    unfolding recordJobResolution_def
    by (intro stays_cases(4) stays_return(1) stays_GetJob) (simp add: stay up)
qed

lemma recordJobResolution_id: "j_runId (fst (run_state (recordJobResolution j cfg k) w)) = j_runId j"
  by (auto simp: recordJobResolution_def run Let_def split: prod.split)

lemma stays_resolve [stay]: "tame pid x \<Longrightarrow> stays w0 (steady pid rid) (resolveJobModelConfig x j)"
  unfolding resolveJobModelConfig_def resolveAgentFromOAM_def leaseAndRedeemAgentFromOAM_def Let_def
  by (intro stay stays_os_reads; assumption)

lemma stays_env_file:
  assumes "tame pid x"
  shows "stays w0 (steady pid rid) (writeModelEnvFile x cfg)"
    and "gives w0 (steady pid rid) (\<lambda>r. case r of Inl _ \<Rightarrow> True | Inr f \<Rightarrow> apart (butlast f) (data_dir w0)) (writeModelEnvFile x cfg)"
proof -
  have p: "path_join [] [tempDir w, n] = tempRoot w @ [n]" if "plain n" for w n
  proof -
    have "path_join [] [tempDir w, n] = path_join (tempRoot w) [n]" by (simp add: tempRoot_def path_join_Cons)
    then show ?thesis using that by (simp add: path_join_plain)
  qed
  have name: "gives w0 (steady pid rid) plain (x_temp x n)" "stays w0 (steady pid rid) (x_temp x n)" for n
    using assms stays_outside(8)[OF tame_mild[OF assms]] by (auto simp: tame_def gives_def)
  have rest: "stays w0 (steady pid rid) (do {
     ls \<leftarrow> asks (\<lambda>w. env_file_lines w cfg);
     r \<leftarrow> os_write f (join newline ls @ newline);
     case r of Inl e \<Rightarrow> do { _ \<leftarrow> os_remove f; throwE e } | Inr _ \<Rightarrow> okE f })"
    if "f = tempRoot w @ [n]" "same_env w0 w" "steady pid rid w" for f w n
    using steady_roots(2)[OF that(2,3)] by (intro stay) (simp_all add: that(1) apart_append)
  have body: "stays w0 (steady pid rid) (do {
     f \<leftarrow> asks (\<lambda>w. path_join [] [tempDir w, n]); ls \<leftarrow> asks (\<lambda>w. env_file_lines w cfg);
     r \<leftarrow> os_write f (join newline ls @ newline);
     case r of Inl e \<Rightarrow> do { _ \<leftarrow> os_remove f; throwE e } | Inr _ \<Rightarrow> okE f })" if "plain n" for n
    by (rule stays_asks, rule rest[OF p[OF that]])
  show "stays w0 (steady pid rid) (writeModelEnvFile x cfg)"
    unfolding writeModelEnvFile_def by (rule stays_bind_gives[OF name(2,1)]) (rule body)
  show "gives w0 (steady pid rid) (\<lambda>r. case r of Inl _ \<Rightarrow> True | Inr f \<Rightarrow> apart (butlast f) (data_dir w0)) (writeModelEnvFile x cfg)"
    unfolding gives_def
  proof (intro allI impI, elim conjE)
    fix w assume w: "same_env w0 w" "steady pid rid w"
    obtain n w1 where t: "run_state (x_temp x ''opm-model-env-*'') w = (n, w1)" by (cases "run_state (x_temp x ''opm-model-env-*'') w")
    have n: "plain n" using name(1) w t unfolding gives_def by (metis fst_conv)
    have w1: "same_env w0 w1" "steady pid rid w1" by (rule stays_after[OF name(2) w t])+
    show "case fst (run_state (writeModelEnvFile x cfg) w) of Inl _ \<Rightarrow> True | Inr f \<Rightarrow> apart (butlast f) (data_dir w0)"
      unfolding writeModelEnvFile_def run_then[OF t]
      using steady_roots(2)[OF w1] by (auto simp: run p[OF n] split: prod.split sum.split)
  qed
qed

lemma stays_run_with_env [stay]:
  assumes t: "tame pid x"
  shows "stays w0 (steady pid rid) (run_with_env x j cfg img args)"
proof -
  have dr: "stays w0 (steady pid rid) (docker_run x j img a)" for a
    unfolding docker_run_def Let_def by (intro stay t)
  show ?thesis
    unfolding run_with_env_def
    by (intro stays_cases(4) dr stays_bind_gives[OF stays_env_file[OF t]])
       (auto intro!: stay dr split: sum.split)
qed

text \<open>The runner's input is written apart from the data.\<close>

lemma stays_write_json_file:
  "apart q (data_dir w0) \<Longrightarrow> stays w0 (steady pid rid) (write_json_file q kvs)"
  unfolding write_json_file_def by (intro stay)

lemma stays_ensureProjectIndex:
  "apart q (data_dir w0) \<Longrightarrow> stays w0 (steady pid rid) (ensureProjectIndex d q)"
  unfolding ensureProjectIndex_def by (intro stay stays_write_json_file)

lemma stays_writeRunnerInputJSON:
  "apart q (data_dir w0) \<Longrightarrow> j_projectId j = pid \<Longrightarrow> stays w0 (steady pid rid) (writeRunnerInputJSON j q m r)"
  unfolding writeRunnerInputJSON_def
  using stays_kept[OF gd.ap_runner_fields] by (auto intro!: stays_bind stays_write_json_file)

lemma gives_recordJobResolution:
  "gives w0 I (\<lambda>q. j_runId q = j_runId j \<and> j_projectId q = j_projectId j) (recordJobResolution j cfg k)"
  by (auto simp: gives_def recordJobResolution_def run Let_def with_resolution_def split: prod.split)

lemma run_dir_apart:
  assumes "same_env w0 w" and "steady pid rid w" and "plain (j_runId j)" and "plain n"
  shows "apart (run_dir w j n) (data_dir w0)"
proof -
  have "run_dir w j n = jobTmpRoot w @ [j_runId j, n]" using assms(3,4) by (simp add: run_dir_def path_join_plain)
  then show ?thesis using steady_roots(1)[OF assms(1,2)] by (simp add: apart_append)
qed

lemma stays_runTaskContainer [stay]:
  assumes t: "tame (j_projectId j) x" and r: "runnable j"
  shows "keep_job w0 j (runTaskContainer x j d)"
proof -
  have repo: "keep_job w0 j (repoMountSource d')" for d'
    unfolding repoMountSource_def by (intro stay)
  have p: "plain (j_runId j)" using r by (simp add: runnable_def)
  have n: "plain ''runner-in''" by (simp add: plain_def)
  show ?thesis
    unfolding runTaskContainer_def Let_def
    by (intro stays_cases(4) stays_return(1) stays_bind[OF stays_resolve[OF t]] stays_cases(1)
          stays_bind_gives[OF stays_recordJobResolution[OF r] gives_recordJobResolution] stays_asks)
       (auto intro!: stay repo t stays_ensureProjectIndex stays_writeRunnerInputJSON apart_append run_dir_apart p n)
qed

section \<open>Applying a result\<close>

lemma stays_apply_one [stay]:
  assumes t: "mild I x" and i: "scratch_inv I" and w: "withinRoot root tgt" and a: "apart root (data_dir w0)"
  shows "stays w0 I (apply_one x root rel tgt f)"
proof -
  obtain q where q: "tgt = root @ q" "q \<noteq> []" using w by (auto simp: withinRoot_iff)
  have "apart tgt (data_dir w0)" "apart (butlast tgt) (data_dir w0)"
    using a q by (simp_all add: butlast_append apart_append)
  then show ?thesis
    unfolding apply_one_def applyUnifiedPatch_def by - (intro stay stays_mkdir[OF i] t i; assumption)
qed

lemma stays_apply_files [stay]:
  assumes t: "mild I x" and i: "scratch_inv I" and a: "apart root (data_dir w0)"
  shows "stays w0 I (apply_files x root files out)"
proof (induction files arbitrary: out)
  case (Cons f rest)
  have more: "stays w0 I (case r of Inl e \<Rightarrow> State_Monad.return (out\<lparr>ao_status := deliveryStatusApplyFailed\<rparr>, Some e)
      | Inr None \<Rightarrow> apply_files x root rest out
      | Inr (Some True) \<Rightarrow> apply_files x root rest (out\<lparr>ao_applied := ao_applied out @ [clean_rel (fc_path f)]\<rparr>)
      | Inr (Some False) \<Rightarrow> apply_files x root rest
          (out\<lparr>ao_skipped := ao_skipped out @ [clean_rel (fc_path f) @ '' (already absent)'']\<rparr>))" for r
    by (auto simp: stay Cons.IH split: sum.split option.split bool.split)
  show ?case
    unfolding apply_files.simps(2) Let_def
    by (intro stays_cases(4) stays_return stays_bind more stays_apply_one[OF t i _ a]) simp
qed (simp add: stay)

lemma stays_applyChangeSet [stay]:
  assumes t: "mild I x" and i: "scratch_inv I" and a: "apart d (data_dir w0)"
  shows "stays w0 I (applyChangeSet x d cs lim)"
proof -
  have root: "apart (deref w d) (data_dir w0)" if "same_env w0 w" "I w" for w
    using apart_deref[of w d] that a i by (auto simp: scratch_inv_def same_env_def)
  show ?thesis
    unfolding applyChangeSet_def refuse_def Let_def
    by (intro stays_cases(4) stays_return stays_asks) (intro stay t i root; assumption)
qed

text \<open>A session directory, or none.\<close>

definition session_away :: "world \<Rightarrow> path option \<Rightarrow> bool" where
  "session_away w0 d \<longleftrightarrow> (case d of None \<Rightarrow> True | Some q \<Rightarrow> apart q (data_dir w0))"

lemma stays_recordChanges [stay]:
  assumes t: "tame (j_projectId j) x" and r: "runnable j" and d: "session_away w0 d"
  shows "keep_job w0 j (recordImplementationChangeSet x j rr d)"
proof -
  note s = runnable_spec[OF r]
  have log: "keep_job w0 j (impl_phase_log j m)" for m by (rule stays_kept, rule gd.ap_impl_phase_log[OF s])
  have new: "keep_job w0 j (changeSetFromRunner (j_runId j) rr)" by (rule stays_kept, rule gd.ap_changeSetFromRunner)
  have rec: "j_specId j \<noteq> [] \<Longrightarrow> keep_job w0 j (record_changes j cs)" for cs
    by (rule stays_kept, rule gd.ap_record_changes) (use s in simp)
  have stub: "keep_job w0 j (workspaceIsStub q)" for q unfolding workspaceIsStub_def by (intro stay)
  show ?thesis
    unfolding recordImplementationChangeSet_def
    by (intro stay log new rec stub t) (use d in \<open>simp_all add: session_away_def\<close>)
qed

lemma stays_applyImplementation [stay]:
  assumes t: "tame (j_projectId j) x" and r: "runnable j" and d: "session_away w0 d"
  shows "keep_job w0 j (applyModelImplementationOpts x j rr d k)" and "keep_job w0 j (applyModelImplementation x j rr d)"
proof -
  note s = runnable_spec[OF r]
  have b: "keep_job w0 j (builtinImplementationOpts j k)" for k by (rule stays_kept, rule gd.ap_executors(2)[OF s])
  have n: "keep_job w0 j (append_notes (j_projectId j) (j_specId j) l)" for l by (rule stays_kept, rule gd.ap_notes[OF s])
  have log: "keep_job w0 j (impl_phase_log j m)" for m by (rule stays_kept, rule gd.ap_impl_phase_log[OF s])
  have "keep_job w0 j (applyModelImplementationOpts x j rr d k)" for k
    unfolding applyModelImplementationOpts_def ok_def bad_def by (intro stay b n log t r d)
  then show "keep_job w0 j (applyModelImplementationOpts x j rr d k)" and "keep_job w0 j (applyModelImplementation x j rr d)"
    by (simp_all add: applyModelImplementation_def)
qed

lemma stays_applyRunnerResult [stay]:
  assumes t: "tame (j_projectId j) x" and r: "runnable j" and d: "session_away w0 d"
  shows "keep_job w0 j (applyRunnerResult x j rr d)"
  unfolding applyRunnerResult_def handled_def
  by (intro stays_cases(4) stays_return stays_bind stays_cases(3) stays_applyImplementation[OF t r d]
      stays_kept[OF gd.ap_model_planning[OF runnable_spec[OF r]]] stays_kept[OF gd.ap_model_ideation]
      stays_kept[OF gd.ap_model_discovery] stays_kept[OF gd.ap_model_roadmap(1)] stays_kept[OF gd.ap_model_roadmap(2)])

section \<open>The pipeline\<close>

lemma step_job [simp]: "runnable (pipelineStepJob j a) = runnable j" "j_projectId (pipelineStepJob j a) = j_projectId j"
  "j_runId (pipelineStepJob j a) = j_runId j" "j_specId (pipelineStepJob j a) = j_specId j"
  by (simp_all add: runnable_def pipelineStepJob_def)

lemma stays_step:
  assumes t: "tame (j_projectId j) x" and r: "runnable j" and d: "session_away w0 d"
  shows "keep_job w0 j (pipelinePlanningStep x j d)" and "keep_job w0 j (pipelineImplementationStep x j d)"
proof -
  note s = runnable_spec[OF r]
  have p: "keep_job w0 j (with_spawned b (builtinPlanning j))" and i: "keep_job w0 j (with_spawned b (builtinImplementationOpts j True))"
    and a: "keep_job w0 j (with_spawned b (applyModelImplementationOpts x j rr d True))" for b rr
    unfolding with_spawned_def
    by (intro stays_bind stays_cases(3) stays_return stays_kept[OF gd.ap_executors(1)[OF s]] stays_kept[OF gd.ap_executors(2)[OF s]]
        stays_applyImplementation(1)[OF t r d])+
  show "keep_job w0 j (pipelinePlanningStep x j d)" "keep_job w0 j (pipelineImplementationStep x j d)"
    unfolding pipelinePlanningStep_def pipelineImplementationStep_def by (intro stay p i a t r d)+
qed

lemma stays_drain:
  assumes t: "tame (j_projectId j) x" and r: "runnable j" and d: "session_away w0 d" and sid: "j_specId j \<noteq> []"
  shows "keep_job w0 j (drain x j d n steps used)"
proof (induction n arbitrary: steps used)
  case (Suc n)
  have pl: "plain (j_specId j)" using r sid by (simp add: runnable_def)
  have step: "keep_job w0 j (pipelineImplementationStep x (pipelineStepJob j a) d)" for a
    using stays_step(2)[of "pipelineStepJob j a" x w0 d] t r d by simp
  show ?case
    unfolding drain.simps Let_def
    by (intro stays_bind stays_cases stays_return step Suc.IH stays_kept[OF gd.ap_blocked] stays_kept[OF gd.ap_get(2)]
        stays_kept[OF gd.ap_pipe_progress[OF pl]])
qed (simp add: stay)

lemma gives_return: "P x \<Longrightarrow> gives w0 I P (State_Monad.return x)"
  by (simp add: gives_def run)

lemma gives_cases:
  "(\<And>e. gives w0 I P (f e)) \<Longrightarrow> (\<And>x. gives w0 I P (g x)) \<Longrightarrow> gives w0 I P (case r of Inl e \<Rightarrow> f e | Inr x \<Rightarrow> g x)"
  "gives w0 I P m \<Longrightarrow> (\<And>x. gives w0 I P (h x)) \<Longrightarrow> gives w0 I P (case o' of None \<Rightarrow> m | Some x \<Rightarrow> h x)"
  "(\<And>a b. gives w0 I P (k a b)) \<Longrightarrow> gives w0 I P (case p of (a, b) \<Rightarrow> k a b)"
  "gives w0 I P m \<Longrightarrow> gives w0 I P n \<Longrightarrow> gives w0 I P (if c then m else n)"
  by (simp_all split: sum.split option.split prod.split)

lemma gives_bind_gives:
  assumes "stays w0 I m" and "gives w0 I Q m" and "\<And>x. Q x \<Longrightarrow> gives w0 I P (f x)"
  shows "gives w0 I P (State_Monad.bind m f)"
  unfolding gives_def
proof (intro allI impI, elim conjE)
  fix w assume w: "same_env w0 w" "I w"
  obtain y w1 where m: "run_state m w = (y, w1)" by (cases "run_state m w")
  have "Q y" "same_env w0 w1" "I w1" using assms(1,2) w m unfolding stays_def gives_def by (metis fst_conv snd_conv)+
  then show "P (fst (run_state (m \<bind> f) w))"
    using assms(3) unfolding run_then[OF m] gives_def by blast
qed

definition plan_session :: "world \<Rightarrow> pipe_result + string list \<times> bool \<times> path option \<Rightarrow> bool" where
  "plan_session w0 r = (case r of Inl _ \<Rightarrow> True | Inr (_, _, d) \<Rightarrow> session_away w0 d)"

lemma stays_pipeline_plan:
  assumes t: "tame (j_projectId j) x" and r: "runnable j" and sid: "j_specId j \<noteq> []" and d: "session_away w0 d"
    and d': "session_away w0 d'"
  shows "keep_job w0 j (pipeline_plan x j d d')"
    and "gives w0 (steady (j_projectId j) (j_runId j)) (plan_session w0) (pipeline_plan x j d d')"
proof -
  have pl: "plain (j_specId j)" using r sid by (simp add: runnable_def)
  have step: "keep_job w0 j (pipelinePlanningStep x (pipelineStepJob j a) d)" for a
    using stays_step(1)[of "pipelineStepJob j a" x w0 d] t r d by simp
  note ks = stays_kept[OF gd.ap_blocked] stays_kept[OF gd.ap_get(2)] stays_kept[OF gd.ap_pipe_progress[OF pl]]
    stays_kept[OF gd.ap_reads(2)] stays_ensureTaskWorkspace[OF tame_mild[OF t] inv_steady] step
  have ws: "gives w0 (steady (j_projectId j) (j_runId j)) (dir_away w0) (ensureTaskWorkspace x p (j_specId j) u)" for p u
    by (rule gives_workspace(2)[OF inv_steady, of "j_runId j"]) (use r in \<open>simp add: runnable_def\<close>)
  show "keep_job w0 j (pipeline_plan x j d d')"
    unfolding pipeline_plan_def by (intro stays_bind stays_cases stays_return ks)
  show "gives w0 (steady (j_projectId j) (j_runId j)) (plan_session w0) (pipeline_plan x j d d')"
    unfolding pipeline_plan_def
    by (intro gives_bind_gives[OF _ ws] gives_bind gives_cases gives_return ks)
       (use d' in \<open>auto simp: plan_session_def dir_away_def session_away_def split: sum.split\<close>)
qed

lemma stays_runPipeline [stay]:
  assumes t: "tame (j_projectId j) x" and r: "runnable j" and d: "session_away w0 d" and d': "session_away w0 d'"
  shows "keep_job w0 j (runPipeline x j d d')"
proof (cases "j_specId j = []")
  case False
  then have pl: "plain (j_specId j)" using r by (simp add: runnable_def)
  have dr: "keep_job w0 j (pipeline_drain x j q steps used)" if "session_away w0 q" for q steps used
    unfolding pipeline_drain_def
    by (intro stays_bind stays_cases stays_return stays_drain[OF t r that False] stays_kept[OF gd.ap_get(2)]
        stays_kept[OF gd.ap_finish[OF pl]])
  have body: "keep_job w0 j (pipeline_body x j d q)" if q: "session_away w0 q" for q
    unfolding pipeline_body_def
  proof (rule stays_bind_gives[OF stays_pipeline_plan[OF t r False d q]])
    fix r1 assume "plan_session w0 r1"
    then show "keep_job w0 j (case r1 of Inl res \<Rightarrow> State_Monad.return res
       | Inr (steps1, used, session) \<Rightarrow> do {
           r2 \<leftarrow> pipeline_approve j;
           case r2 of Inl (msg, e) \<Rightarrow> State_Monad.return (msg, used, Some e)
           | Inr steps2 \<Rightarrow> pipeline_drain x j session (steps1 @ steps2) used })"
      by (auto simp: plan_session_def stays_return split: sum.split
          intro!: stays_bind stays_kept[OF gd.ap_approve[OF pl]] dr)
  qed
  show ?thesis
    unfolding runPipeline_def Let_def
    by (intro stays_cases(4) stays_bind stays_return body stays_kept[OF gd.ap_pipe_progress[OF pl]] stays_kept[OF gd.ap_close[OF pl]])
       (use d d' in simp)
qed (simp add: runPipeline_def stays_return)

end
