(* ===== verification/Exec_Laws.thy ===== *)
theory Exec_Laws
  imports Exec_Stays
begin

text \<open>
  Where \<open>executeJob\<close> leaves the record of its job: every way out of each of its parts ends in
  a final state.
\<close>

section \<open>What a run leaves\<close>

definition final_state :: "string \<Rightarrow> string \<Rightarrow> world \<Rightarrow> bool" where
  "final_state pid rid w \<longleftrightarrow> (case job_at w pid rid of
       Some q \<Rightarrow> j_state q \<in> {''completed'', ''failed'', ''cancelled''} | None \<Rightarrow> False)"

definition leaves :: "world \<Rightarrow> string \<Rightarrow> string \<Rightarrow> ('a \<Rightarrow> world \<Rightarrow> bool) \<Rightarrow> 'a act \<Rightarrow> bool" where
  "leaves w0 pid rid Q m \<longleftrightarrow> (\<forall>w. same_env w0 w \<and> steady pid rid w \<longrightarrow>
     (case run_state m w of (r, w') \<Rightarrow> same_env w0 w' \<and> steady pid rid w' \<and> Q r w'))"

lemma leaves_run:
  "leaves w0 pid rid Q m \<Longrightarrow> same_env w0 w \<Longrightarrow> steady pid rid w \<Longrightarrow> run_state m w = (r, w') \<Longrightarrow>
   same_env w0 w' \<and> steady pid rid w' \<and> Q r w'"
  unfolding leaves_def by fastforce

lemma leaves_then:
  assumes m: "leaves w0 pid rid R m" and f: "\<And>x w. R x w \<Longrightarrow> same_env w0 w \<Longrightarrow> steady pid rid w \<Longrightarrow>
     (case run_state (f x) w of (r, w') \<Rightarrow> same_env w0 w' \<and> steady pid rid w' \<and> Q r w')"
  shows "leaves w0 pid rid Q (State_Monad.bind m f)"
  unfolding leaves_def
proof (intro allI impI, elim conjE)
  fix w assume w: "same_env w0 w" "steady pid rid w"
  obtain y w1 where y: "run_state m w = (y, w1)" by (cases "run_state m w")
  show "case run_state (m \<bind> f) w of (r, w') \<Rightarrow> same_env w0 w' \<and> steady pid rid w' \<and> Q r w'"
    unfolding run_then[OF y] using leaves_run[OF m w y] f[of y w1] by simp
qed

lemma leaves_bind:
  assumes "leaves w0 pid rid R m" and "\<And>x. leaves w0 pid rid Q (f x)"
  shows "leaves w0 pid rid Q (State_Monad.bind m f)"
  by (rule leaves_then[OF assms(1)]) (use assms(2) in \<open>simp add: leaves_def\<close>)

lemma stays_leaves: "stays w0 (steady pid rid) m \<Longrightarrow> leaves w0 pid rid (\<lambda>_ _. True) m"
  by (auto simp: stays_def leaves_def split: prod.split)

lemma stays_gives_leaves: "stays w0 (steady pid rid) m \<Longrightarrow> gives w0 (steady pid rid) P m \<Longrightarrow> leaves w0 pid rid (\<lambda>r _. P r) m"
  unfolding stays_def gives_def leaves_def by (auto simp: split_beta)

lemma leaves_bind_gives:
  assumes "stays w0 (steady pid rid) m" and "gives w0 (steady pid rid) P m" and "\<And>x. P x \<Longrightarrow> leaves w0 pid rid Q (f x)"
  shows "leaves w0 pid rid Q (State_Monad.bind m f)"
  by (rule leaves_then[OF stays_gives_leaves[OF assms(1,2)]]) (use assms(3) in \<open>simp add: leaves_def\<close>)

lemma leaves_return: "(\<And>w. Q x w) \<Longrightarrow> leaves w0 pid rid Q (State_Monad.return x)"
  by (simp add: leaves_def run)

lemma leaves_cases:
  "(\<And>e. leaves w0 pid rid Q (f e)) \<Longrightarrow> (\<And>x. leaves w0 pid rid Q (g x)) \<Longrightarrow> leaves w0 pid rid Q (case r of Inl e \<Rightarrow> f e | Inr x \<Rightarrow> g x)"
  "leaves w0 pid rid Q m \<Longrightarrow> (\<And>x. leaves w0 pid rid Q (h x)) \<Longrightarrow> leaves w0 pid rid Q (case o' of None \<Rightarrow> m | Some x \<Rightarrow> h x)"
  "(\<And>a b. leaves w0 pid rid Q (k a b)) \<Longrightarrow> leaves w0 pid rid Q (case p of (a, b) \<Rightarrow> k a b)"
  "(c \<Longrightarrow> leaves w0 pid rid Q m) \<Longrightarrow> (\<not> c \<Longrightarrow> leaves w0 pid rid Q n) \<Longrightarrow> leaves w0 pid rid Q (if c then m else n)"
  by (simp_all split: sum.split option.split prod.split)

text \<open>The stored record decides whether the function goes on.\<close>

lemma leaves_GetJob:
  assumes go: "\<And>q. sane_job pid rid q \<Longrightarrow> leaves w0 pid rid Q (g q)"
    and stop: "\<And>w. final_state pid rid w \<Longrightarrow> Q c w"
  shows "leaves w0 pid rid Q (do { rj \<leftarrow> GetJob pid rid;
     case rj of Inl _ \<Rightarrow> State_Monad.return c
     | Inr q \<Rightarrow> if j_state q = ''cancelled'' then State_Monad.return c else g q })"
  unfolding leaves_def
proof (intro allI impI, elim conjE)
  fix w assume w: "same_env w0 w" "steady pid rid w"
  obtain q where q: "run_state (GetJob pid rid) w = (Inr q, w)" "sane_job pid rid q" "job_at w pid rid = Some q"
    by (rule steady_GetJob[OF w(2)])
  show "case run_state (do { rj \<leftarrow> GetJob pid rid;
     case rj of Inl _ \<Rightarrow> State_Monad.return c
     | Inr q \<Rightarrow> if j_state q = ''cancelled'' then State_Monad.return c else g q }) w of
     (r, w') \<Rightarrow> same_env w0 w' \<and> steady pid rid w' \<and> Q r w'"
    unfolding run_then[OF q(1)] sum.case
    using w go[OF q(2)] stop[of w] q(3) by (auto simp: leaves_def run final_state_def)
qed

section \<open>Ending\<close>

lemma steady_UpdateJob:
  assumes "steady pid rid w" and "runnable q" and "j_projectId q = pid" and "j_runId q = rid"
  shows "run_state (UpdateJob pid q) w = (Inr (), after_job w pid q)"
proof -
  obtain p where p: "ready w pid p" and j: "job_at w pid rid \<noteq> None" using assms(1) by (auto simp: steady_def)
  have "look w (job_path w pid rid) \<noteq> Some Dir" using j by (auto simp: job_at_def)
  then show ?thesis using run_UpdateJob[OF p] assms by (simp add: runnable_def plain_jobid)
qed

lemma leaves_final_update:
  assumes "runnable q" and "j_projectId q = pid" and "j_runId q = rid" and "j_state q \<in> {''completed'', ''failed''}"
  shows "leaves w0 pid rid (\<lambda>_. final_state pid rid) (UpdateJob pid q)"
  unfolding leaves_def
proof (intro allI impI, elim conjE)
  fix w assume w: "same_env w0 w" "steady pid rid w"
  note u = steady_UpdateJob[OF w(2) assms(1-3)]
  have "final_state pid rid (after_job w pid q)"
    using assms(3,4) by (auto simp: final_state_def after_job_at stamped_def)
  then show "case run_state (UpdateJob pid q) w of (r, w') \<Rightarrow> same_env w0 w' \<and> steady pid rid w' \<and> final_state pid rid w'"
    using stays_after[OF stays_UpdateJob[OF assms(1,2)] w u] by (simp add: u)
qed

lemma leaves_fail_job:
  assumes "runnable j"
  shows "leaves w0 (j_projectId j) (j_runId j) (\<lambda>_. final_state (j_projectId j) (j_runId j)) (fail_job j e m er)"
  unfolding fail_job_def
proof (rule leaves_bind[OF stays_leaves[OF stays_kept[OF gd.ap_supply(1)]]])
  fix now
  show "leaves w0 (j_projectId j) (j_runId j) (\<lambda>_. final_state (j_projectId j) (j_runId j)) (do {
     _ \<leftarrow> UpdateJob (j_projectId j) (j\<lparr> j_state := ''failed'', j_execution := e, j_error := err_text er,
           j_message := m, j_completedAt := Some now\<rparr>);
     State_Monad.return () })"
    by (rule leaves_then[OF leaves_final_update]) (use assms in \<open>simp_all add: runnable_def run\<close>)
qed

text \<open>What keeps the job records keeps the final state.\<close>

lemma final_kept:
  assumes "keeps (runs_kept pid) m" and "plain pid" and "final_state pid rid w" and "run_state m w = (r, w')"
  shows "final_state pid rid w'"
proof -
  have "runs_kept pid w w'" using assms(1,4) unfolding keeps_def by (metis snd_conv)
  then show ?thesis using assms(2,3) by (simp add: final_state_def runs_kept_job_at)
qed

lemma leaves_exec_finish:
  assumes t: "tame (j_projectId j) x" and r: "runnable j" and pp: "plain (j_projectId j)"
  shows "leaves w0 (j_projectId j) (j_runId j) (\<lambda>_. final_state (j_projectId j) (j_runId j)) (exec_finish x j a res)"
proof -
  let ?p = "j_projectId j" and ?r = "j_runId j"
  have rid: "plain ?r" using r by (simp add: runnable_def)
  obtain msg0 e ex nt where res: "res = (msg0, e, ex, nt)" by (cases res)
  let ?msg = "if nt \<noteq> [] \<and> \<not> has_prefix ''Container'' msg0 then nt @ msg0 else msg0"
  have go: "leaves w0 ?p ?r (\<lambda>_. final_state ?p ?r) (do {
      doneAt \<leftarrow> nowUTC;
      let msg = ?msg;
      case e of
        Some er \<Rightarrow> do { _ \<leftarrow> UpdateJob (j_projectId q) (failed_job q ex msg er doneAt); State_Monad.return () }
      | None \<Rightarrow> do {
          extra \<leftarrow> post_job x q a;
          _ \<leftarrow> UpdateJob (j_projectId q) (completed_job q ex a (msg @ extra) doneAt);
          put_done_status q a doneAt } })" if "sane_job ?p ?r q" for q
  proof -
    have q: "runnable q" "j_projectId q = ?p" "j_runId q = ?r" using sane_runnable[OF that rid] by auto
    have post: "stays w0 (steady ?p ?r) (post_job x q a)"
    proof -
      have "keeps (kept (j_projectId q)) (post_job x q a)"
        by (rule gd.ap_post) (use q(1) in \<open>auto simp: runnable_def intro: kept_CreateJob\<close>)
      then show ?thesis using stays_kept[of ?p] by (simp add: q(2))
    qed
    have st: "keeps (runs_kept ?p) (put_done_status q a d)" "keeps (kept ?p) (put_done_status q a d)" for d
      unfolding put_done_status_def q(2) by (intro jf.ap_intros gd.ap_intros jobframe)+
    have done_: "leaves w0 ?p ?r (\<lambda>_. final_state ?p ?r)
        (do { _ \<leftarrow> UpdateJob ?p (completed_job q ex a m d); put_done_status q a d })" for m d
    proof (rule leaves_then[OF leaves_final_update])
      fix y w assume w: "final_state ?p ?r w" "same_env w0 w" "steady ?p ?r w"
      obtain z w' where z: "run_state (put_done_status q a d) w = (z, w')" by (cases "run_state (put_done_status q a d) w")
      show "case run_state (put_done_status q a d) w of (r, w') \<Rightarrow> same_env w0 w' \<and> steady ?p ?r w' \<and> final_state ?p ?r w'"
        using stays_after[OF stays_kept[OF st(2)] w(2,3) z] final_kept[OF st(1) pp w(1) z] by (simp add: z)
    qed (use q in \<open>simp_all add: completed_job_def runnable_def\<close>)
    have bad_: "leaves w0 ?p ?r (\<lambda>_. final_state ?p ?r)
        (do { _ \<leftarrow> UpdateJob ?p (failed_job q ex m er d); State_Monad.return () })" for m er d
      by (rule leaves_then[OF leaves_final_update]) (use q in \<open>simp_all add: failed_job_def runnable_def run\<close>)
    show ?thesis
      unfolding q(2) Let_def
      by (intro leaves_bind[OF stays_leaves[OF stays_kept[OF gd.ap_supply(1)]]] leaves_cases(2) bad_
          leaves_bind[OF stays_leaves[OF post]] done_)
  qed
  show ?thesis
    unfolding exec_finish_def res prod.case Let_def
    by (rule leaves_GetJob) (use go in \<open>simp_all add: Let_def\<close>)
qed

section \<open>Preparing and spawning\<close>

definition prepared :: "world \<Rightarrow> string \<Rightarrow> string \<Rightarrow> (job \<times> bool \<times> path \<times> string) option \<Rightarrow> world \<Rightarrow> bool" where
  "prepared w0 pid rid r w \<longleftrightarrow> (case r of None \<Rightarrow> final_state pid rid w
     | Some (q, session, d, nt) \<Rightarrow> runnable q \<and> j_projectId q = pid \<and> j_runId q = rid \<and> apart d (data_dir w0))"

lemma starting_job_sel [simp]:
  "runnable (starting_job j now) = runnable j" "j_projectId (starting_job j now) = j_projectId j" "j_runId (starting_job j now) = j_runId j"
  by (simp_all add: starting_job_def runnable_def)

lemma leaves_failed:
  assumes "runnable j" and "j_projectId j = pid" and "j_runId j = rid"
  shows "leaves w0 pid rid (prepared w0 pid rid) (do { _ \<leftarrow> fail_job j e m er; State_Monad.return None })"
  by (rule leaves_then[OF leaves_fail_job[OF assms(1), unfolded assms(2,3)]]) (simp add: run prepared_def)

lemma stays_job_workspace:
  assumes t: "tame pid x" and r: "plain (j_runId j)"
  shows "stays w0 (steady pid rid) (job_workspace x p j b)"
    and "gives w0 (steady pid rid) (\<lambda>r. case r of Inl _ \<Rightarrow> True | Inr d \<Rightarrow> apart d (data_dir w0)) (job_workspace x p j b)"
proof -
  have dir: "stays w0 (steady pid rid) (if b then ensureTaskWorkspace x p (j_specId j) (j_actorUsername j)
      else prepareJobWorkspace x p (j_runId j) (j_actorUsername j))"
    "gives w0 (steady pid rid) (dir_away w0) (if b then ensureTaskWorkspace x p (j_specId j) (j_actorUsername j)
      else prepareJobWorkspace x p (j_runId j) (j_actorUsername j))"
    using t r gives_workspace[OF inv_steady r] by (auto intro: stay)
  show "stays w0 (steady pid rid) (job_workspace x p j b)"
    unfolding job_workspace_def by (intro stays_cases(4) stays_return stays_bind dir)
  show "gives w0 (steady pid rid) (\<lambda>r. case r of Inl _ \<Rightarrow> True | Inr d \<Rightarrow> apart d (data_dir w0)) (job_workspace x p j b)"
    unfolding job_workspace_def
    by (intro gives_cases(4) gives_return gives_bind_gives[OF dir]) (auto simp: dir_away_def split: sum.split)
qed

lemma stays_note_workspace:
  assumes "runnable j"
  shows "keep_job w0 j (note_workspace p j b d)"
proof -
  have "keep_job w0 j (taskWorkspaceHonestyNote p sid q)" for sid q
    unfolding taskWorkspaceHonestyNote_def workspaceIsStub_def by (intro stay stays_os_reads)
  moreover have "keep_job w0 j (AppendSpecLog (j_projectId j) (j_specId j) ''implementation'' l)" for l
    by (rule stays_kept, rule gd.ap_AppendSpecLog) (use runnable_spec[OF assms] in simp_all)
  ultimately show ?thesis unfolding note_workspace_def by (intro stay)
qed

lemma leaves_exec_prepare:
  assumes t: "tame (j_projectId j) x" and r: "runnable j"
  shows "leaves w0 (j_projectId j) (j_runId j) (prepared w0 (j_projectId j) (j_runId j)) (exec_prepare x j)"
proof -
  let ?p = "j_projectId j" and ?r = "j_runId j"
  have rid: "plain ?r" using r by (simp add: runnable_def)
  have honest: "stays w0 (steady ?p ?r) (cloneHonestyOperatorNote p d)" for p d
    unfolding cloneHonestyOperatorNote_def repoMountSource_def by (intro stay)
  have auto_: "stays w0 (steady ?p ?r) (job_autopilot (starting_job j now))" for now
    unfolding job_autopilot_def starting_job_sel by (intro stay stays_kept[OF gd.ap_get(1)])
  have note_: "stays w0 (steady ?p ?r) (note_workspace p (starting_job j now) b d)" for p b d now
    using stays_note_workspace[of "starting_job j now" w0] r by simp
  have up: "stays w0 (steady ?p ?r) (UpdateJob ?p (starting_job j now))" for now
    by (rule stays_UpdateJob) (use r in simp_all)
  have get: "leaves w0 ?p ?r (prepared w0 ?p ?r) (do {
      rj \<leftarrow> GetJob ?p ?r;
      case rj of Inl _ \<Rightarrow> State_Monad.return None
      | Inr q \<Rightarrow> if j_state q = ''cancelled'' then State_Monad.return None else State_Monad.return (Some (q, b, d, nt)) })"
    if "apart d (data_dir w0)" for b d nt
    by (rule leaves_GetJob) (use sane_runnable[OF _ rid] that in \<open>auto simp: prepared_def intro!: leaves_return\<close>)
  have ws: "leaves w0 ?p ?r (prepared w0 ?p ?r) (do {
      rw \<leftarrow> job_workspace x p (starting_job j now) b;
      case rw of
        Inl (msg, e) \<Rightarrow> do { _ \<leftarrow> fail_job (starting_job j now) ''builtin'' msg e; State_Monad.return None }
      | Inr d \<Rightarrow> do {
          _ \<leftarrow> note_workspace p (starting_job j now) b d;
          nt \<leftarrow> (if notes_clone (j_action (starting_job j now)) then cloneHonestyOperatorNote p (Some d) else State_Monad.return []);
          rj \<leftarrow> GetJob ?p ?r;
          case rj of Inl _ \<Rightarrow> State_Monad.return None
          | Inr q \<Rightarrow> if j_state q = ''cancelled'' then State_Monad.return None else State_Monad.return (Some (q, b, d, nt)) } })"
    for p now b
  proof (rule leaves_bind_gives)
    show "stays w0 (steady ?p ?r) (job_workspace x p (starting_job j now) b)"
      "gives w0 (steady ?p ?r) (\<lambda>r. case r of Inl _ \<Rightarrow> True | Inr d \<Rightarrow> apart d (data_dir w0)) (job_workspace x p (starting_job j now) b)"
      by (rule stays_job_workspace[OF t], use rid in simp)+
  qed (use leaves_failed[of "starting_job j now"] r honest in
      \<open>auto intro!: leaves_bind[OF stays_leaves] note_ stay get split: sum.splits\<close>)
  show ?thesis
    unfolding exec_prepare_def Let_def starting_job_sel
    by (rule leaves_bind[OF stays_leaves[OF stays_kept[OF gd.ap_reads(2)]]], rule leaves_cases(1))
       (intro leaves_failed r refl leaves_bind[OF stays_leaves] stays_kept[OF gd.ap_supply(1)] up auto_ ws)+
qed

section \<open>The parts in a row\<close>

text \<open>
  The middle parts of \<open>executeJob\<close>, the spawning and the acting, and the whole.
\<close>

section \<open>Spawning\<close>

lemma running_job_sel [simp]:
  "runnable (running_job j e m) = runnable j" "j_projectId (running_job j e m) = j_projectId j"
  "j_runId (running_job j e m) = j_runId j" "j_specId (running_job j e m) = j_specId j"
  "runnable (j\<lparr>j_progressPct := k\<rparr>) = runnable j"
  by (simp_all add: running_job_def runnable_def)

text \<open>The job a part hands on is the job it was given, with other reports.\<close>

definition same_job :: "job \<Rightarrow> job \<Rightarrow> bool" where
  "same_job j q \<longleftrightarrow> j_projectId q = j_projectId j \<and> j_runId q = j_runId j \<and> j_specId q = j_specId j"

lemma same_job_runnable: "same_job j q \<Longrightarrow> runnable q = runnable j"
  by (simp add: same_job_def runnable_def)

lemma stays_spawn_container:
  assumes t: "tame (j_projectId j) x" and r: "runnable j"
  shows "keep_job w0 j (spawn_container x j d note)"
    and "gives w0 (steady (j_projectId j) (j_runId j)) (\<lambda>(q, _). same_job j q) (spawn_container x j d note)"
proof -
  let ?q = "(running_job j ''container'' (''Spawning runner container ('' @ nz (j_runnerImage j) (x_image x) @ '') for '' @
      j_action j @ ellipsis))\<lparr>j_progressPct := Some 10\<rparr>"
  have q: "runnable ?q" "j_projectId ?q = j_projectId j" "j_runId ?q = j_runId j" "j_specId ?q = j_specId j"
    using r by simp_all
  have run: "keep_job w0 j (runTaskContainer x ?q (Some d))"
    using stays_runTaskContainer[of ?q x w0 "Some d"] t q by simp
  show "keep_job w0 j (spawn_container x j d note)"
    unfolding spawn_container_def Let_def by (intro stay run) (use q stays_UpdateJob[OF q(1,2)] in simp_all)
  show "gives w0 (steady (j_projectId j) (j_runId j)) (\<lambda>(q, _). same_job j q) (spawn_container x j d note)"
    unfolding gives_def spawn_container_def Let_def
    by (auto simp: run same_job_def running_job_def split: prod.split option.split)
qed

lemma stays_exec_spawn:
  assumes t: "tame (j_projectId j) x" and r: "runnable j"
  shows "keep_job w0 j (exec_spawn x j d note)"
    and "gives w0 (steady (j_projectId j) (j_runId j)) (\<lambda>(q, _). same_job j q) (exec_spawn x j d note)"
proof -
  let ?n0 = "if note \<noteq> [] then note @ '' '' else []"
  let ?m = "if j_action j = ''run-pipeline''
        then State_Monad.return (running_job j ''builtin'' pipeline_note, ''builtin'', ?n0, None)
        else if x_prefer x then spawn_container x j d ?n0
        else State_Monad.return (running_job j ''builtin'' (''Running builtin action '' @ j_action j @ ellipsis),
               ''builtin'', ?n0, None)"
  have log: "keep_job w0 j (log_clone_note j note)"
    unfolding log_clone_note_def by (intro stay stays_kept[OF gd.ap_AppendProjectLog])
  have m: "keep_job w0 j ?m" by (intro stay stays_spawn_container(1) t r)
  have g: "gives w0 (steady (j_projectId j) (j_runId j)) (\<lambda>(q, _). same_job j q) ?m"
    by (intro gives_cases(4) gives_return stays_spawn_container(2) t r) (simp_all add: same_job_def running_job_def)
  have up: "stays w0 (steady (j_projectId j) (j_runId j)) (UpdateJob (j_projectId q) q)" if "same_job j q" for q
    using same_job_runnable[OF that] r that stays_UpdateJob[of q "j_projectId j" w0 "j_runId j"] by (simp add: same_job_def)
  have s1: "same_job j q \<Longrightarrow> same_job j (q\<lparr>j_progressPct := k\<rparr>)" for q k by (simp add: same_job_def)
  show "keep_job w0 j (exec_spawn x j d note)"
    unfolding exec_spawn_def Let_def
    by (rule stays_bind[OF log], rule stays_bind_gives[OF m g])
       (auto intro!: stays_bind stays_return dest: s1[THEN up])
  show "gives w0 (steady (j_projectId j) (j_runId j)) (\<lambda>(q, _). same_job j q) (exec_spawn x j d note)"
    unfolding exec_spawn_def Let_def
    by (rule gives_bind[OF log], rule gives_bind_gives[OF m g])
       (auto intro!: gives_bind gives_return dest: s1 s1[THEN up])
qed

section \<open>Acting\<close>

lemma stays_plainly [stay]: "stays w0 (steady pid rid) m \<Longrightarrow> stays w0 (steady pid rid) (plainly m)"
  unfolding plainly_def by (intro stay)

lemma stays_run_builtin:
  assumes t: "tame (j_projectId j) x" and r: "runnable j" and d: "apart d (data_dir w0)" and d': "session_away w0 d'"
  shows "keep_job w0 j (run_builtin x j d d')"
proof -
  note s = runnable_spec[OF r]
  have issue: "keeps (kept (j_projectId j)) (x_create_issue x j' p b l m' ms)" for j' p b l m' ms
    using t by (simp add: tame_def)
  have pipe: "keep_job w0 j (runPipeline x j (Some d) d')"
    by (rule stays_runPipeline[OF t r _ d']) (simp add: session_away_def d)
  have ex: "keep_job w0 j (builtinPlanning j)" "keep_job w0 j (builtinImplementation j)" "keep_job w0 j (builtinRecover j)"
    "keep_job w0 j (builtinMarkStuck j)" "keep_job w0 j (builtinPause j)" "keep_job w0 j (builtinResume j)"
    "keep_job w0 j (builtinSkipToPhase j)" "keep_job w0 j (builtinChangelog j)"
    "keep_job w0 j (builtinRoadmapDiscovery j)" "keep_job w0 j (builtinRoadmapFeatures j)" "keep_job w0 j (builtinIdeation j)"
    "keep_job w0 j (builtinRoadmapCompetitor j)" "keep_job w0 j (builtinRoadmapPublish x j)"
    by (intro stays_kept gd.ap_executors[OF s] gd.ap_implementation[OF s] gd.ap_builtinChangelog gd.ap_discovery
        gd.ap_features gd.ap_ideation gd.ap_competitor(1) gd.ap_publish issue)+
  show ?thesis
    unfolding run_builtin_def Let_def
    by (intro stays_cases(4) stays_cases(3) stays_plainly stays_bind stays_return ex pipe)
qed

lemma stays_try_model:
  assumes t: "tame (j_projectId j) x" and r: "runnable j" and d: "session_away w0 d"
  shows "keep_job w0 j (try_model x j res d note)"
proof -
  have f: "keep_job w0 j (fallback_note j rr)" for rr
  proof -
    have "keep_job w0 j (AppendSpecLog (j_projectId j) (j_specId j) (if c then ''implementation'' else ''planning'') l)" for c l
      by (rule stays_kept, rule gd.ap_AppendSpecLog) (use runnable_spec[OF r] in \<open>auto simp: plain_def\<close>)
    then show ?thesis unfolding fallback_note_def by (intro stay)
  qed
  show ?thesis
    unfolding try_model_def
    by (intro stays_cases(2,4) stays_bind stays_return stays_applyRunnerResult[OF t r d] f)
qed

text \<open>Either the job goes on, or it has failed.\<close>

definition acted :: "string \<Rightarrow> string \<Rightarrow> 'a option \<Rightarrow> world \<Rightarrow> bool" where
  "acted pid rid r w \<longleftrightarrow> (r = None \<longrightarrow> final_state pid rid w)"

lemma leaves_exec_act:
  assumes t: "tame (j_projectId j) x" and r: "runnable j" and d: "apart d (data_dir w0)"
  shows "leaves w0 (j_projectId j) (j_runId j) (acted (j_projectId j) (j_runId j)) (exec_act x j b d sp)"
proof -
  let ?p = "j_projectId j" and ?r = "j_runId j"
  have sd: "session_away w0 (if b then Some d else None)" using d by (simp add: session_away_def)
  have stop: "leaves w0 ?p ?r (acted ?p ?r) (do { _ \<leftarrow> fail_job j e m er; State_Monad.return None })" for e m er
    by (rule leaves_then[OF leaves_fail_job[OF r]]) (simp add: run acted_def)
  have goes: "leaves w0 ?p ?r (acted ?p ?r) (State_Monad.return (Some y))" for y
    by (rule leaves_return) (simp add: acted_def)
  obtain e nt res where sp: "sp = (e, nt, res)" by (cases sp)
  show ?thesis
    unfolding exec_act_def sp Let_def prod.case
    by (intro leaves_bind[OF stays_leaves] leaves_cases stop goes stays_try_model stays_run_builtin
        stays_kept[OF gd.ap_paused] t r d sd)
qed

section \<open>The whole\<close>

lemma leaves_caseD:
  "leaves w0 pid rid Q m \<Longrightarrow> same_env w0 w \<Longrightarrow> steady pid rid w \<Longrightarrow>
   (case run_state m w of (r, w') \<Rightarrow> same_env w0 w' \<and> steady pid rid w' \<and> Q r w')"
  by (simp add: leaves_def)

lemma leaves_exec_main:
  assumes t: "tame (j_projectId j) x" and r: "runnable j" and pp: "plain (j_projectId j)"
  shows "leaves w0 (j_projectId j) (j_runId j) (\<lambda>_. final_state (j_projectId j) (j_runId j)) (exec_main x j)"
proof -
  let ?p = "j_projectId j" and ?r = "j_runId j"
  have fin: "leaves w0 ?p ?r (\<lambda>_. final_state ?p ?r) (case r3 of None \<Rightarrow> State_Monad.return () | Some res \<Rightarrow> exec_finish x q a res)"
    if "r3 = None \<longrightarrow> False" "runnable q" "j_projectId q = ?p" "j_runId q = ?r" for r3 q a
    using that leaves_exec_finish[of q x w0 a] t pp by (auto split: option.split)
  have act: "leaves w0 ?p ?r (\<lambda>_. final_state ?p ?r) (do {
       r3 \<leftarrow> exec_act x q b d sp;
       case r3 of None \<Rightarrow> State_Monad.return () | Some res \<Rightarrow> exec_finish x q a res })"
    if q: "runnable q" "j_projectId q = ?p" "j_runId q = ?r" and d: "apart d (data_dir w0)" for q b d sp a
  proof (rule leaves_then)
    show "leaves w0 ?p ?r (acted ?p ?r) (exec_act x q b d sp)"
      using leaves_exec_act[of q x d w0 b sp] t q d by simp
    show "case run_state (case r3 of None \<Rightarrow> State_Monad.return () | Some res \<Rightarrow> exec_finish x q a res) w of
        (r, w') \<Rightarrow> same_env w0 w' \<and> steady ?p ?r w' \<and> final_state ?p ?r w'"
      if "acted ?p ?r r3 w" "same_env w0 w" "steady ?p ?r w" for r3 w
      using that fin[of r3 q a] q by (cases r3) (auto simp: run acted_def leaves_def)
  qed
  have sp: "leaves w0 ?p ?r (\<lambda>_. final_state ?p ?r) (do {
       (q', e, nt', res) \<leftarrow> exec_spawn x q d nt;
       r3 \<leftarrow> exec_act x q' b d (e, nt', res);
       case r3 of None \<Rightarrow> State_Monad.return () | Some res \<Rightarrow> exec_finish x q' a res })"
    if q: "runnable q" "j_projectId q = ?p" "j_runId q = ?r" and d: "apart d (data_dir w0)" for q b d nt a
  proof (rule leaves_bind_gives)
    show "stays w0 (steady ?p ?r) (exec_spawn x q d nt)" "gives w0 (steady ?p ?r) (\<lambda>(q', _). same_job q q') (exec_spawn x q d nt)"
      using stays_exec_spawn[of q x w0 d nt] t q by simp_all
  qed (use act d q in \<open>auto simp: runnable_def same_job_def\<close>)
  show ?thesis
    unfolding exec_main_def
  proof (rule leaves_then[OF leaves_exec_prepare[OF t r]])
    fix r1 w assume p: "prepared w0 ?p ?r r1 w" and w: "same_env w0 w" "steady ?p ?r w"
    show "case run_state (case r1 of None \<Rightarrow> State_Monad.return ()
        | Some (j1, session, workDir, cloneNote) \<Rightarrow> do {
         (j2, execution, note, res) \<leftarrow> exec_spawn x j1 workDir cloneNote;
         r3 \<leftarrow> exec_act x j2 session workDir (execution, note, res);
         case r3 of None \<Rightarrow> State_Monad.return () | Some result \<Rightarrow> exec_finish x j2 (j_action j) result }) w of
        (r, w') \<Rightarrow> same_env w0 w' \<and> steady ?p ?r w' \<and> final_state ?p ?r w'"
    proof (cases r1)
      case None
      then show ?thesis using p w by (simp add: run prepared_def)
    next
      case (Some y)
      obtain q b d nt where y: "y = (q, b, d, nt)" by (cases y)
      have "runnable q" "j_projectId q = ?p" "j_runId q = ?r" "apart d (data_dir w0)"
        using p by (simp_all add: prepared_def Some y)
      then show ?thesis unfolding Some y option.case prod.case by (rule leaves_caseD[OF sp w])
    qed
  qed
qed

text \<open>The scratch directory lies away from the records, so removing it keeps the final state.\<close>

lemma final_away:
  assumes "away (data_dir w) w w'" and "final_state pid rid w"
  shows "final_state pid rid w'"
proof -
  have n: "\<not> apart (job_path w pid rid) (data_dir w)" by (auto simp: job_path_def home_def apart_def is_under_iff)
  have p: "job_path w' pid rid = job_path w pid rid" using assms(1) by (simp add: away_def job_path_def home_def same_env_def)
  have "look w' (job_path w pid rid) = look w (job_path w pid rid)"
    using assms n by (auto simp: away_def final_state_def job_at_def)
  then show ?thesis using assms(2) by (simp add: final_state_def job_at_def p)
qed

lemma leaves_executeJob:
  assumes t: "tame (j_projectId j) x" and r: "runnable j" and pp: "plain (j_projectId j)"
  shows "leaves w0 (j_projectId j) (j_runId j) (\<lambda>_. final_state (j_projectId j) (j_runId j)) (executeJob x j)"
  unfolding executeJob_def
proof (rule leaves_then[OF leaves_exec_main[OF t r pp]])
  let ?p = "j_projectId j" and ?r = "j_runId j"
  fix u w assume w: "final_state ?p ?r w" "same_env w0 w" "steady ?p ?r w"
  have rid: "plain ?r" using r by (simp add: runnable_def)
  have a: "apart (path_join (jobTmpRoot w) [?r]) (data_dir w)"
    using w(3) rid by (simp add: steady_def scratch_apart_def path_join_plain apart_append)
  have k: "keeps (away (data_dir w)) (os_remove_all (path_join (jobTmpRoot w) [?r]))"
    unfolding os_remove_all_def by (intro aw.keeps_bindE away_ops(4) a) (simp_all add: keeps_def away_links)
  then have "away (data_dir w) w (snd (run_state (cleanupRunnerScratch ?r) w))"
    by (auto simp: cleanupRunnerScratch_def run keeps_def split: prod.split)
       (metis snd_conv)
  then show "case run_state (cleanupRunnerScratch ?r) w of (r, w') \<Rightarrow> same_env w0 w' \<and> steady ?p ?r w' \<and> final_state ?p ?r w'"
    using away_steady[OF _ w(3)] final_away[OF _ w(1)] same_env_trans[OF w(2)]
    by (auto simp: away_def split: prod.split)
qed

end
