(* ===== verification/Job_Laws.thy ===== *)
theory Job_Laws
  imports Spec_Docs Job_Runner
begin

text \<open>
  What the executors do to the documents of their spec, as functions on \<open>docs\<close>, and that
  the executors of \<open>Job_Runner\<close>, with all their file writes, logs and status documents,
  implement them.  The locale \<open>executor\<close> is that contract; its lemmas are what the board
  and the pipeline rely on.
\<close>

section \<open>The contract\<close>

locale executor =
  fixes exec :: "job \<Rightarrow> outcome act"
    and model :: "job \<Rightarrow> docs \<Rightarrow> outcome \<times> docs"
  assumes simulates: "rep w (j_projectId j) p (j_specId j) s \<Longrightarrow>
    \<exists>w'. run_state (exec j) w = (fst (model j s), w') \<and> rep w' (j_projectId j) p (j_specId j) (snd (model j s))"
begin

lemma runs:
  assumes "rep w (j_projectId j) p (j_specId j) s"
  obtains w' where "run_state (exec j) w = (fst (model j s), w')"
    and "rep w' (j_projectId j) p (j_specId j) (snd (model j s))"
  using simulates[OF assms] by blast

lemma keeps_agreement:
  assumes "rep w (j_projectId j) p (j_specId j) s"
  shows "consistent (snd (run_state (exec j) w)) (j_projectId j)"
  using runs[OF assms] rep_consistent by (metis snd_conv)

text \<open>Running the executor on a spec twice is running the model twice.\<close>

lemma runs_twice:
  assumes "rep w (j_projectId j) p (j_specId j) s"
  shows "fst (run_state (do { _ \<leftarrow> exec j; exec j }) w) = fst (model j (snd (model j s)))"
proof -
  obtain w1 where "run_state (exec j) w = (fst (model j s), w1)"
    and "rep w1 (j_projectId j) p (j_specId j) (snd (model j s))" by (rule runs[OF assms])
  moreover obtain w2 where "run_state (exec j) w1 = (fst (model j (snd (model j s))), w2)"
    by (rule runs[OF calculation(2)])
  ultimately show ?thesis by (simp add: run)
qed

end

section \<open>One implementation step\<close>

definition in_work :: "plan \<Rightarrow> plan" where
  "in_work pl = pl\<lparr>pl_status := ''in_progress'', pl_planStatus := ''in_progress''\<rparr>"

lemma in_work_sel [simp]:
  "pl_phases (in_work pl) = pl_phases pl" "subtasks (in_work pl) = subtasks pl"
  "countPlanSubtasks (in_work pl) = countPlanSubtasks pl"
  "firstPendingSubtaskID (in_work pl) = firstPendingSubtaskID pl"
  "countPendingSubtasks (in_work pl) = countPendingSubtasks pl"
  "countStuckOrFailed (in_work pl) = countStuckOrFailed pl"
  by (simp_all add: in_work_def subtasks_def countPlanSubtasks_def firstPendingSubtaskID_def
      countPendingSubtasks_def countStuckOrFailed_def)

definition m_complete :: "job \<Rightarrow> bool \<Rightarrow> plan \<Rightarrow> docs \<Rightarrow> outcome \<times> docs" where
  "m_complete j keepRunning pl0 s =
     (let (pl1, i) = complete_next pl0; sid = j_specId j in
      if i = [] then ((''All subtasks already completed; moved to review.'', None), d_move sid ''review'' s)
      else
        let pl = in_work pl1; (n, d) = countPlanSubtasks pl;
            s1 = s\<lparr>d_plan := Some pl\<rparr>;
            s2 = (if d \<ge> n then d_move sid ''review'' s1 else s1);
            s3 = s2\<lparr>d_progress := untimed_pr (impl_progress j keepRunning (d_progress s) pl None)\<rparr>
        in ((impl_message i d n, None), s3))"

definition m_implement :: "bool \<Rightarrow> job \<Rightarrow> docs \<Rightarrow> outcome \<times> docs" where
  "m_implement keepRunning j s =
     (if t_requireReview (d_task s) \<and> \<not> d_approved s \<and> t_status (d_task s) = ''human_review''
      then ((''Blocked: approve-for-coding required before implementation'', Some (Errf ''not approved'')), s)
      else case d_plan s of
        None \<Rightarrow> ((''No plan '' @ em_dash @ '' run planning first'', Some (Errf ''plan missing'')), s)
      | Some pl \<Rightarrow>
          if pl_phases pl = []
          then ((''No plan '' @ em_dash @ '' run planning first'', Some (Errf ''plan missing'')), s)
          else m_complete j keepRunning pl (d_move (j_specId j) ''in_progress'' s))"

lemma quiet_append_notes: "quiet pid p sid (append_notes pid sid line)"
  unfolding append_notes_def
proof (rule quiet_withProject)
  fix w s assume r: "rep w pid p sid s"
  have u: "\<not> tracked w' pid sid (home w' pid @ [''specs'', sid, ''IMPLEMENTATION_NOTES.md''])" for w'
    by (rule untracked_spec) (simp add: doc_names_def)
  obtain x where x: "run_state (read_text (spec_file (home w pid) sid ''IMPLEMENTATION_NOTES.md'')) w = (x, w)"
    using snd_read_text by (metis prod.collapse)
  show "rep (snd (run_state (let notePath = spec_file (home w pid) sid ''IMPLEMENTATION_NOTES.md'' in do {
      prev \<leftarrow> read_text notePath; now \<leftarrow> nowUTC;
      write_file notePath (DText (result_or [] prev @ line now)) }) w)) pid p sid s"
    using r rep_write_file[OF _ u, of "w\<lparr>ticks := Suc (ticks w)\<rparr>" p s] x
    by (simp add: run Let_def spec_file_plain[OF rep_plain[OF r]])
qed

lemma quiet_impl_log: "quiet pid p sid (AppendSpecLog pid sid ''implementation'' l)"
  by (rule quiet_AppendSpecLog) simp

lemma quiet_plan_log: "quiet pid p sid (AppendSpecLog pid sid ''planning'' l)"
  by (rule quiet_AppendSpecLog) simp

lemma untimed_impl_progress:
  "untimed_pr (impl_progress j k x pl st) = untimed_pr (impl_progress j k (untimed_pr x) pl None)"
  by (simp add: impl_progress_def untimed_pr_def zero_progress_def split: prod.splits)

lemma rep_start:
  assumes "rep w pid p sid s"
  obtains st w' where "run_state (if k then do { start \<leftarrow> nowUTC;
      State_Monad.return (case pr_startedAt prev of Some s \<Rightarrow> Some s | None \<Rightarrow> Some start) }
    else State_Monad.return None) w = (st, w')" and "rep w' pid p sid s"
  using assms by (cases k) (auto simp: run)

lemma rep_move:
  assumes "rep w pid p sid s" and "c \<in> set BoardColumns"
  obtains t w' where "run_state (MoveTask pid sid c) w = (Inr t, w')" and "rep w' pid p sid (d_move sid c s)"
    and "t_status t = c"
proof -
  obtain k where k: "c = column_name k" using assms(2) by (auto simp: in_BoardColumns_iff)
  obtain t w' where "run_state (MoveTask pid sid (column_name k)) w = (Inr t, w')"
    "rep w' pid p sid (d_move sid (column_name k) s)" "untimed t = (d_task s)\<lparr>t_status := column_name k\<rparr>"
    by (rule rep_MoveTask[OF assms(1)])
  moreover have "t_status t = column_name k" using arg_cong[OF calculation(3), of t_status] by simp
  ultimately show thesis using that k by blast
qed

lemma columns_valid [simp]:
  "''queue'' \<in> set BoardColumns" "''in_progress'' \<in> set BoardColumns" "''review'' \<in> set BoardColumns"
  "''human_review'' \<in> set BoardColumns"
  by (simp_all add: BoardColumns_def)

lemma rep_move_if:
  assumes "rep w pid p sid s" and "c \<in> set BoardColumns"
  obtains w' where "run_state (if b then do { _ \<leftarrow> MoveTask pid sid c; okE () } else okE ()) w = (Inr (), w')"
    and "rep w' pid p sid (if b then d_move sid c s else s)"
proof (cases b)
  case True
  obtain t w' where "run_state (MoveTask pid sid c) w = (Inr t, w')" "rep w' pid p sid (d_move sid c s)"
    by (rule rep_move[OF assms])
  then show thesis using that True by (simp add: run)
qed (use that assms in \<open>simp add: run\<close>)

lemma impl_step_model:
  assumes pid: "j_projectId j = pid" and sid: "j_specId j = sid" and r: "rep w pid p sid s"
  shows "\<exists>w'. run_state (impl_step j k pl0) w = (fst (m_complete j k pl0 s), w') \<and>
    rep w' pid p sid (snd (m_complete j k pl0 s))"
proof -
  obtain pl1 i where c: "complete_next pl0 = (pl1, i)" by (cases "complete_next pl0")
  obtain n d where nd: "countPlanSubtasks pl1 = (n, d)" by (cases "countPlanSubtasks pl1")
  show ?thesis
  proof (cases "i = []")
    case True
    obtain t w' where "run_state (MoveTask pid sid ''review'') w = (Inr t, w')" "rep w' pid p sid (d_move sid ''review'' s)"
      by (rule rep_move[OF r columns_valid(3)])
    then show ?thesis using True by (simp add: impl_step_def m_complete_def c pid sid run ok_def)
  next
    case False
    let ?pl = "in_work pl1" and ?s1 = "s\<lparr>d_plan := Some (in_work pl1)\<rparr>"
    let ?s2 = "if d \<ge> n then d_move sid ''review'' ?s1 else ?s1"
    obtain w1 where w1: "run_state (PutPlan pid sid ?pl) w = (Inr (), w1)" "rep w1 pid p sid ?s1"
      by (rule rep_PutPlan[OF r])
    obtain prev where g: "run_state (GetProgress pid sid) w1 = (Inr prev, w1)" "untimed_pr prev = d_progress s"
      using rep_GetProgress[OF w1(2)] by auto
    obtain st w2 where w2: "run_state (if k then do { start \<leftarrow> nowUTC;
        State_Monad.return (case pr_startedAt prev of Some s \<Rightarrow> Some s | None \<Rightarrow> Some start) }
      else State_Monad.return None) w1 = (st, w2)" "rep w2 pid p sid ?s1"
      by (rule rep_start[OF w1(2)])
    obtain w3 where w3: "run_state (if d \<ge> n then do { _ \<leftarrow> MoveTask pid sid ''review''; okE () } else okE ()) w2 = (Inr (), w3)"
      "rep w3 pid p sid ?s2"
      by (rule rep_move_if[OF w2(2) columns_valid(3)])
    let ?pr = "impl_progress j k prev ?pl st"
    obtain w4 where w4: "run_state (PutProgress pid sid ?pr) w3 = (Inr (), w4)"
      "rep w4 pid p sid (?s2\<lparr>d_progress := untimed_pr ?pr\<rparr>)" by (rule rep_PutProgress[OF w3(2)])
    obtain r5 w5 where w5: "run_state (AppendSpecLog pid sid ''implementation'' (impl_log (j_runId j) i d n)) w4 = (r5, w5)"
      "rep w5 pid p sid (?s2\<lparr>d_progress := untimed_pr ?pr\<rparr>)" by (rule quiet_run[OF quiet_impl_log w4(2)])
    obtain r6 w6 where w6: "run_state (append_notes pid sid (note_line i)) w5 = (r6, w6)"
      "rep w6 pid p sid (?s2\<lparr>d_progress := untimed_pr ?pr\<rparr>)" by (rule quiet_run[OF quiet_append_notes w5(2)])
    have "untimed_pr ?pr = untimed_pr (impl_progress j k (d_progress s) ?pl None)"
      using untimed_impl_progress g(2) by metis
    moreover have "run_state (impl_step j k pl0) w = ((impl_message i d n, None), w6)"
      unfolding impl_step_def c pid sid Let_def prod.case if_not_P[OF False] in_work_def[symmetric] in_work_sel nd
        run_then[OF w1(1)] sum.case run_then[OF g(1)] result_or_def run_then[OF w2(1)] run_then[OF w3(1)]
        run_then[OF w4(1)] run_then[OF w5(1)] run_then[OF w6(1)]
      by (simp add: ok_def run)
    moreover have "m_complete j k pl0 s = ((impl_message i d n, None),
        ?s2\<lparr>d_progress := untimed_pr (impl_progress j k (d_progress s) ?pl None)\<rparr>)"
      by (simp add: m_complete_def c nd sid False Let_def)
    ultimately show ?thesis using w6(2) by simp
  qed
qed

lemma rep_sid: "rep w pid p sid s \<Longrightarrow> sid \<noteq> []"
  using rep_plain[of w pid p sid s] by (auto simp: plain_def)

lemma rep_taskApproved:
  assumes "rep w pid p sid s"
  shows "run_state (taskApprovedForCoding pid sid) w = (d_approved s, w)"
  by (simp add: taskApprovedForCoding_def run rep_read_approved[OF assms] result_or_def)

lemma implement_model:
  assumes r: "rep w (j_projectId j) p (j_specId j) s"
  shows "\<exists>w'. run_state (builtinImplementationOpts j k) w = (fst (m_implement k j s), w') \<and>
    rep w' (j_projectId j) p (j_specId j) (snd (m_implement k j s))"
proof -
  obtain pid sid where pid: "j_projectId j = pid" and sid: "j_specId j = sid" by simp
  note r = r[unfolded pid sid]
  obtain t where g: "run_state (GetTask pid sid) w = (Inr t, w)" and t: "untimed t = d_task s" by (rule rep_GetTask[OF r])
  have st: "t_status t = t_status (d_task s)" and rq: "t_requireReview t = t_requireReview (d_task s)"
    using t untimed_sel by metis+
  have ap: "run_state (if t_requireReview t then taskApprovedForCoding pid sid else State_Monad.return True) w =
      ((if t_requireReview t then d_approved s else True), w)"
    using rep_taskApproved[OF r] by (simp add: run)
  let ?approved = "if t_requireReview t then d_approved s else True"
  have red: "run_state (builtinImplementationOpts j k) w = run_state
      (if t_requireReview t \<and> \<not> ?approved \<and> t_status t = ''human_review''
       then bad ''Blocked: approve-for-coding required before implementation'' (Errf ''not approved'')
       else do {
         rp \<leftarrow> GetPlan pid sid;
         case rp of
           Inl e \<Rightarrow> bad (''No plan '' @ em_dash @ '' run planning first'') (Errf ''plan missing'')
         | Inr pl \<Rightarrow>
             (if pl_phases pl = []
              then bad (''No plan '' @ em_dash @ '' run planning first'') (Errf ''plan missing'')
              else do { _ \<leftarrow> MoveTask pid sid ''in_progress''; impl_step j k pl }) }) w"
    unfolding builtinImplementationOpts_def pid sid Let_def if_not_P[OF rep_sid[OF r]] run_then[OF g] sum.case run_then[OF ap] ..
  show ?thesis
  proof (cases "t_requireReview t \<and> \<not> ?approved \<and> t_status t = ''human_review''")
    case True
    have "t_requireReview (d_task s)" "\<not> d_approved s" "t_status (d_task s) = ''human_review''"
      using True st rq by (auto split: if_splits)
    then show ?thesis using r unfolding red if_P[OF True] pid sid by (simp add: m_implement_def bad_def run)
  next
    case False
    have gp: "run_state (GetPlan pid sid) w = (case d_plan s of None \<Rightarrow> Inl NotExist | Some x \<Rightarrow> Inr x, w)"
      by (rule rep_GetPlan[OF r])
    have nb: "\<not> (t_requireReview (d_task s) \<and> \<not> d_approved s \<and> t_status (d_task s) = ''human_review'')"
      using False st rq by auto
    note red' = red[unfolded if_not_P[OF False] run_then[OF gp]]
    show ?thesis
    proof (cases "d_plan s = None \<or> (\<exists>pl. d_plan s = Some pl \<and> pl_phases pl = [])")
      case True
      then show ?thesis using r nb unfolding red' pid sid by (auto simp: m_implement_def bad_def run)
    next
      case F2: False
      then obtain pl where pl: "d_plan s = Some pl" "pl_phases pl \<noteq> []" by auto
      obtain t' w1 where w1: "run_state (MoveTask pid sid ''in_progress'') w = (Inr t', w1)"
        "rep w1 pid p sid (d_move sid ''in_progress'' s)" by (rule rep_move[OF r columns_valid(2)])
      have "run_state (builtinImplementationOpts j k) w = run_state (impl_step j k pl) w1"
        using pl unfolding red' by (simp add: run w1(1))
      moreover have "m_implement k j s = m_complete j k pl (d_move sid ''in_progress'' s)"
        using nb pl by (auto simp: m_implement_def sid)
      ultimately show ?thesis using impl_step_model[OF pid sid w1(2)] pid sid by simp
    qed
  qed
qed

interpretation implementing: executor "\<lambda>j. builtinImplementationOpts j k" "m_implement k" for k
  by unfold_locales (rule implement_model)

section \<open>Pause and resume\<close>

definition m_pause :: "job \<Rightarrow> docs \<Rightarrow> outcome \<times> docs" where
  "m_pause j s =
     (if pr_paused (d_progress s) then ((''Task already paused.'', None), s)
      else ((''Task paused (builtin): further plan/build/review jobs blocked until resume-task.'', None),
        s\<lparr>d_progress := (d_progress s)\<lparr>pr_paused := True, pr_isRunning := False, pr_action := ''paused'',
          pr_runId := j_runId j\<rparr>\<rparr>))"

definition m_resume :: "job \<Rightarrow> docs \<Rightarrow> outcome \<times> docs" where
  "m_resume j s =
     (if \<not> pr_paused (d_progress s) then ((''Task was not paused.'', None), s)
      else ((''Task resumed (builtin): plan/build/review jobs allowed again.'', None),
        s\<lparr>d_progress := (d_progress s)\<lparr>pr_paused := False, pr_isRunning := False, pr_action := ''resumed'',
          pr_runId := j_runId j\<rparr>\<rparr>))"

lemma quiet_idle: "j_projectId j = pid \<Longrightarrow> quiet pid p sid (put_idle_status j st now)"
  "j_projectId j = pid \<Longrightarrow> quiet pid p sid (put_idle_status_now j st)"
  unfolding put_idle_status_def put_idle_status_now_def
  by (auto intro!: quiet_bind quiet_env quiet_PutStatus)

lemma untimed_pr_update [simp]:
  "untimed_pr (x\<lparr>pr_paused := a\<rparr>) = (untimed_pr x)\<lparr>pr_paused := a\<rparr>"
  "untimed_pr (x\<lparr>pr_isRunning := b\<rparr>) = (untimed_pr x)\<lparr>pr_isRunning := b\<rparr>"
  "untimed_pr (x\<lparr>pr_action := c\<rparr>) = (untimed_pr x)\<lparr>pr_action := c\<rparr>"
  "untimed_pr (x\<lparr>pr_runId := c\<rparr>) = (untimed_pr x)\<lparr>pr_runId := c\<rparr>"
  "untimed_pr (x\<lparr>pr_stuckSubtaskId := c\<rparr>) = (untimed_pr x)\<lparr>pr_stuckSubtaskId := c\<rparr>"
  "untimed_pr (x\<lparr>pr_currentPhaseName := c\<rparr>) = (untimed_pr x)\<lparr>pr_currentPhaseName := c\<rparr>"
  "untimed_pr (x\<lparr>pr_progress := i\<rparr>) = (untimed_pr x)\<lparr>pr_progress := i\<rparr>"
  "untimed_pr (x\<lparr>pr_subtaskCompleted := i\<rparr>) = (untimed_pr x)\<lparr>pr_subtaskCompleted := i\<rparr>"
  "untimed_pr (x\<lparr>pr_subtaskTotal := i\<rparr>) = (untimed_pr x)\<lparr>pr_subtaskTotal := i\<rparr>"
  "untimed_pr (x\<lparr>pr_startedAt := ts\<rparr>) = untimed_pr x"
  "untimed_pr (x\<lparr>pr_completedAt := ts\<rparr>) = untimed_pr x"
  by (cases x, simp add: untimed_pr_def)+

lemma pause_model:
  assumes r: "rep w (j_projectId j) p (j_specId j) s"
  shows "\<exists>w'. run_state (builtinPause j) w = (fst (m_pause j s), w') \<and>
    rep w' (j_projectId j) p (j_specId j) (snd (m_pause j s))"
proof -
  obtain pid sid where pid: "j_projectId j = pid" and sid: "j_specId j = sid" by simp
  note r = r[unfolded pid sid]
  obtain x where g: "run_state (GetProgress pid sid) w = (Inr x, w)" "untimed_pr x = d_progress s"
    by (rule rep_GetProgress[OF r])
  have ps: "pr_paused x = pr_paused (d_progress s)" using g(2) untimed_pr_sel(1) by metis
  note red = builtinPause_def[of j, unfolded pid sid Let_def if_not_P[OF rep_sid[OF r]]]
  show ?thesis
  proof (cases "pr_paused x")
    case True
    then have "run_state (builtinPause j) w = ((''Task already paused.'', None), w)"
      unfolding red run_then[OF g(1)] result_or_def sum.case by (simp add: ok_def run)
    then show ?thesis using True r ps by (simp add: m_pause_def pid sid)
  next
    case False
    let ?pr = "x\<lparr>pr_paused := True, pr_isRunning := False, pr_action := ''paused'', pr_runId := j_runId j,
      pr_completedAt := Some (clock_at w (ticks w))\<rparr>"
    obtain w1 where w1: "run_state nowUTC w = (clock_at w (ticks w), w1)" "rep w1 pid p sid s" using r by (simp add: run)
    obtain w2 where w2: "run_state (PutProgress pid sid ?pr) w1 = (Inr (), w2)"
      "rep w2 pid p sid (s\<lparr>d_progress := untimed_pr ?pr\<rparr>)" by (rule rep_PutProgress[OF w1(2)])
    obtain r3 w3 where w3: "run_state (put_idle_status j ''idle'' (clock_at w (ticks w))) w2 = (r3, w3)"
      "rep w3 pid p sid (s\<lparr>d_progress := untimed_pr ?pr\<rparr>)" by (rule quiet_run[OF quiet_idle(1)[OF pid] w2(2)])
    obtain r4 w4 where w4: "run_state (AppendSpecLog pid sid ''implementation''
        (tag (j_runId j) @ ''pause-task: automation paused'' @ newline)) w3 = (r4, w4)"
      "rep w4 pid p sid (s\<lparr>d_progress := untimed_pr ?pr\<rparr>)" by (rule quiet_run[OF quiet_impl_log w3(2)])
    have "run_state (builtinPause j) w =
      ((''Task paused (builtin): further plan/build/review jobs blocked until resume-task.'', None), w4)"
      unfolding red run_then[OF g(1)] result_or_def sum.case if_not_P[OF False] run_then[OF w1(1)] run_then[OF w2(1)]
        run_then[OF w3(1)] run_then[OF w4(1)] by (simp add: ok_def run)
    then show ?thesis using False ps w4(2) g(2) by (simp add: m_pause_def pid sid)
  qed
qed

lemma resume_model:
  assumes r: "rep w (j_projectId j) p (j_specId j) s"
  shows "\<exists>w'. run_state (builtinResume j) w = (fst (m_resume j s), w') \<and>
    rep w' (j_projectId j) p (j_specId j) (snd (m_resume j s))"
proof -
  obtain pid sid where pid: "j_projectId j = pid" and sid: "j_specId j = sid" by simp
  note r = r[unfolded pid sid]
  obtain x where g: "run_state (GetProgress pid sid) w = (Inr x, w)" "untimed_pr x = d_progress s"
    by (rule rep_GetProgress[OF r])
  have ps: "pr_paused x = pr_paused (d_progress s)" using g(2) untimed_pr_sel(1) by metis
  note red = builtinResume_def[of j, unfolded pid sid Let_def if_not_P[OF rep_sid[OF r]]]
  show ?thesis
  proof (cases "pr_paused x")
    case False
    then have "run_state (builtinResume j) w = ((''Task was not paused.'', None), w)"
      unfolding red run_then[OF g(1)] result_or_def sum.case by (simp add: ok_def run)
    then show ?thesis using False r ps by (simp add: m_resume_def pid sid)
  next
    case True
    then have nn: "\<not> \<not> pr_paused x" by simp
    let ?pr = "x\<lparr>pr_paused := False, pr_isRunning := False, pr_action := ''resumed'', pr_runId := j_runId j\<rparr>"
    obtain w2 where w2: "run_state (PutProgress pid sid ?pr) w = (Inr (), w2)"
      "rep w2 pid p sid (s\<lparr>d_progress := untimed_pr ?pr\<rparr>)" by (rule rep_PutProgress[OF r])
    obtain r4 w4 where w4: "run_state (AppendSpecLog pid sid ''implementation''
        (tag (j_runId j) @ ''resume-task: automation resumed'' @ newline)) w2 = (r4, w4)"
      "rep w4 pid p sid (s\<lparr>d_progress := untimed_pr ?pr\<rparr>)" by (rule quiet_run[OF quiet_impl_log w2(2)])
    have "run_state (builtinResume j) w =
      ((''Task resumed (builtin): plan/build/review jobs allowed again.'', None), w4)"
      unfolding red run_then[OF g(1)] result_or_def sum.case if_not_P[OF nn] run_then[OF w2(1)] run_then[OF w4(1)]
      by (simp add: ok_def run)
    then show ?thesis using True ps w4(2) g(2) by (simp add: m_resume_def pid sid)
  qed
qed

interpretation pausing: executor builtinPause m_pause
  by unfold_locales (rule pause_model)

interpretation resuming: executor builtinResume m_resume
  by unfold_locales (rule resume_model)

section \<open>Recover\<close>

definition plan_or :: "docs \<Rightarrow> plan" where
  "plan_or s = (case d_plan s of None \<Rightarrow> zero_plan | Some x \<Rightarrow> x)"

definition no_plan :: outcome where
  "no_plan = (''No plan '' @ em_dash @ '' run planning first'', Some (Errf ''plan missing''))"

definition m_recover :: "job \<Rightarrow> docs \<Rightarrow> outcome \<times> docs" where
  "m_recover j s =
     (let (pl1, ids) = recover_plan (plan_or s) in
      if pl_phases (plan_or s) = [] then (no_plan, s)
      else if ids = [] then ((''Recover (builtin): no stuck/failed/in_progress subtasks to reset.'', None), s)
      else ((recover_message ids, None), d_move (j_specId j) ''in_progress''
        (s\<lparr>d_plan := Some (in_work pl1),
           d_progress := reset_progress j ''recover-subtask'' ''Recovered'' (in_work pl1) (d_progress s)\<rparr>)))"

lemma rep_GetPlan_or:
  assumes "rep w pid p sid s"
  obtains x where "run_state (GetPlan pid sid) w = (x, w)" and "result_or zero_plan x = plan_or s"
    and "(case x of Inl _ \<Rightarrow> d_plan s = None | Inr pl \<Rightarrow> d_plan s = Some pl)"
  using rep_GetPlan[OF assms] by (cases "d_plan s") (auto simp: result_or_def plan_or_def)

lemma untimed_reset_progress:
  "untimed_pr (reset_progress j a n pl x) = reset_progress j a n pl (untimed_pr x)"
  by (simp add: reset_progress_def split: prod.splits)

lemma rep_reset_progress:
  assumes "rep w pid p sid s"
  obtains rg w1 where "run_state (GetProgress pid sid) w = (rg, w)"
    and "run_state (PutProgress pid sid (reset_progress j a n pl (result_or zero_progress rg))) w = (Inr (), w1)"
    and "rep w1 pid p sid (s\<lparr>d_progress := reset_progress j a n pl (d_progress s)\<rparr>)"
proof -
  obtain x where g: "run_state (GetProgress pid sid) w = (Inr x, w)" "untimed_pr x = d_progress s"
    by (rule rep_GetProgress[OF assms])
  obtain w1 where "run_state (PutProgress pid sid (reset_progress j a n pl x)) w = (Inr (), w1)"
    "rep w1 pid p sid (s\<lparr>d_progress := untimed_pr (reset_progress j a n pl x)\<rparr>)" by (rule rep_PutProgress[OF assms])
  then show thesis using that g by (simp add: untimed_reset_progress result_or_def)
qed

lemma recover_model:
  assumes r: "rep w (j_projectId j) p (j_specId j) s"
  shows "\<exists>w'. run_state (builtinRecover j) w = (fst (m_recover j s), w') \<and>
    rep w' (j_projectId j) p (j_specId j) (snd (m_recover j s))"
proof -
  obtain pid sid where pid: "j_projectId j = pid" and sid: "j_specId j = sid" by simp
  note r = r[unfolded pid sid]
  obtain x where g: "run_state (GetPlan pid sid) w = (x, w)" "result_or zero_plan x = plan_or s" by (rule rep_GetPlan_or[OF r])
  obtain pl1 ids where rc: "recover_plan (plan_or s) = (pl1, ids)" by (cases "recover_plan (plan_or s)")
  note red = builtinRecover_def[of j, unfolded pid sid Let_def if_not_P[OF rep_sid[OF r]]]
  consider (none) "pl_phases (plan_or s) = []" | (idle) "pl_phases (plan_or s) \<noteq> []" "ids = []"
    | (work) "pl_phases (plan_or s) \<noteq> []" "ids \<noteq> []" by blast
  then show ?thesis
  proof cases
    case none
    have "run_state (builtinRecover j) w = (no_plan, w)"
      unfolding red run_then[OF g(1)] g(2) if_P[OF none] by (simp add: bad_def run no_plan_def)
    then show ?thesis using none r by (simp add: m_recover_def pid sid rc)
  next
    case idle
    have "run_state (builtinRecover j) w = ((''Recover (builtin): no stuck/failed/in_progress subtasks to reset.'', None), w)"
      unfolding red run_then[OF g(1)] g(2) if_not_P[OF idle(1)] rc prod.case if_P[OF idle(2)] by (simp add: ok_def run)
    then show ?thesis using idle r by (simp add: m_recover_def pid sid rc)
  next
    case work
    obtain w1 where w1: "run_state (PutPlan pid sid (in_work pl1)) w = (Inr (), w1)"
      "rep w1 pid p sid (s\<lparr>d_plan := Some (in_work pl1)\<rparr>)" by (rule rep_PutPlan[OF r])
    let ?s2 = "s\<lparr>d_plan := Some (in_work pl1), d_progress := reset_progress j ''recover-subtask'' ''Recovered'' (in_work pl1) (d_progress s)\<rparr>"
    obtain rg w2 where g2: "run_state (GetProgress pid sid) w1 = (rg, w1)"
      and w2: "run_state (PutProgress pid sid (reset_progress j ''recover-subtask'' ''Recovered'' (in_work pl1) (result_or zero_progress rg))) w1 = (Inr (), w2)"
      and r2: "rep w2 pid p sid ?s2"
      by (rule rep_reset_progress[OF w1(2), of j "''recover-subtask''" "''Recovered''" "in_work pl1"]) simp
    obtain t w3 where w3: "run_state (MoveTask pid sid ''in_progress'') w2 = (Inr t, w3)"
      "rep w3 pid p sid (d_move sid ''in_progress'' ?s2)" by (rule rep_move[OF r2 columns_valid(2)])
    obtain r4 w4 where w4: "run_state (AppendSpecLog pid sid ''implementation'' (tag (j_runId j) @ ''recover-subtask: reset '' @
        join '', '' ids @ '' to pending'' @ newline)) w3 = (r4, w4)"
      "rep w4 pid p sid (d_move sid ''in_progress'' ?s2)" by (rule quiet_run[OF quiet_impl_log w3(2)])
    obtain r5 w5 where w5: "run_state (put_idle_status_now j ''idle'') w4 = (r5, w5)"
      "rep w5 pid p sid (d_move sid ''in_progress'' ?s2)" by (rule quiet_run[OF quiet_idle(2)[OF pid] w4(2)])
    have "run_state (builtinRecover j) w = ((recover_message ids, None), w5)"
      unfolding red run_then[OF g(1)] g(2) if_not_P[OF work(1)] rc prod.case if_not_P[OF work(2)] in_work_def[symmetric]
        run_then[OF w1(1)] sum.case run_then[OF g2] run_then[OF w2] run_then[OF w3(1)] run_then[OF w4(1)] run_then[OF w5(1)]
      by (simp add: ok_def run)
    then show ?thesis using w5(2) work by (simp add: m_recover_def pid sid rc)
  qed
qed

interpretation recovering: executor builtinRecover m_recover
  by unfold_locales (rule recover_model)

section \<open>Mark stuck\<close>

definition m_marked :: "job \<Rightarrow> plan \<Rightarrow> string \<Rightarrow> docs \<Rightarrow> docs" where
  "m_marked j pl i s = s\<lparr>d_plan := Some pl, d_progress := stuck_progress j i (d_progress s)\<rparr>"

definition m_mark_stuck :: "job \<Rightarrow> docs \<Rightarrow> outcome \<times> docs" where
  "m_mark_stuck j s =
     (let (pl, i) = mark_next_stuck (plan_or s) in
      if pl_phases (plan_or s) = [] then (no_plan, s)
      else if i = [] then ((''Mark stuck (builtin): no pending/in_progress subtask to mark.'', Some (Errf ''nothing to mark'')), s)
      else ((mark_message i, None), d_move (j_specId j) ''in_progress'' (m_marked j pl i s)))"

text \<open>Cancelling a running job: the same mark, without the move.\<close>

definition m_cancelled :: "job \<Rightarrow> docs \<Rightarrow> docs" where
  "m_cancelled j s =
     (if j_action j \<notin> {''run-implementation'', ''run-planning'', ''run-followup-planning'', ''run-pipeline''} then s
      else case d_plan s of None \<Rightarrow> s
      | Some pl0 \<Rightarrow> (let (pl, i) = mark_next_stuck pl0 in if i = [] then s else m_marked j pl i s))"

lemma rep_mark_stuck_docs:
  assumes "j_projectId j = pid" and "j_specId j = sid" and r: "rep w pid p sid s"
  obtains w' where "run_state (mark_stuck_docs j pl i) w = ((), w')" and "rep w' pid p sid (m_marked j pl i s)"
proof -
  obtain w1 where w1: "run_state (PutPlan pid sid pl) w = (Inr (), w1)" "rep w1 pid p sid (s\<lparr>d_plan := Some pl\<rparr>)"
    by (rule rep_PutPlan[OF r])
  obtain x where g: "run_state (GetProgress pid sid) w1 = (Inr x, w1)" "untimed_pr x = d_progress (s\<lparr>d_plan := Some pl\<rparr>)"
    by (rule rep_GetProgress[OF w1(2)])
  obtain w2 where w2: "run_state (PutProgress pid sid (stuck_progress j i x)) w1 = (Inr (), w2)"
    "rep w2 pid p sid (s\<lparr>d_plan := Some pl, d_progress := untimed_pr (stuck_progress j i x)\<rparr>)"
    by (rule rep_PutProgress[OF w1(2)])
  have "run_state (mark_stuck_docs j pl i) w = ((), w2)"
    unfolding mark_stuck_docs_def assms(1,2) run_then[OF w1(1)] run_then[OF g(1)] result_or_def sum.case run_then[OF w2(1)]
    by (simp add: run)
  moreover have "untimed_pr (stuck_progress j i x) = stuck_progress j i (d_progress s)"
    using g(2) by (simp add: stuck_progress_def)
  ultimately show thesis using that w2(2) by (simp add: m_marked_def)
qed

lemma mark_stuck_model:
  assumes r: "rep w (j_projectId j) p (j_specId j) s"
  shows "\<exists>w'. run_state (builtinMarkStuck j) w = (fst (m_mark_stuck j s), w') \<and>
    rep w' (j_projectId j) p (j_specId j) (snd (m_mark_stuck j s))"
proof -
  obtain pid sid where pid: "j_projectId j = pid" and sid: "j_specId j = sid" by simp
  note r = r[unfolded pid sid]
  obtain x where g: "run_state (GetPlan pid sid) w = (x, w)" "result_or zero_plan x = plan_or s" by (rule rep_GetPlan_or[OF r])
  obtain pl i where mk: "mark_next_stuck (plan_or s) = (pl, i)" by (cases "mark_next_stuck (plan_or s)")
  note red = builtinMarkStuck_def[of j, unfolded pid sid Let_def if_not_P[OF rep_sid[OF r]]]
  consider (none) "pl_phases (plan_or s) = []" | (idle) "pl_phases (plan_or s) \<noteq> []" "i = []"
    | (work) "pl_phases (plan_or s) \<noteq> []" "i \<noteq> []" by blast
  then show ?thesis
  proof cases
    case none
    have "run_state (builtinMarkStuck j) w = (no_plan, w)"
      unfolding red run_then[OF g(1)] g(2) if_P[OF none] by (simp add: bad_def run no_plan_def)
    then show ?thesis using none r by (simp add: m_mark_stuck_def pid sid mk)
  next
    case idle
    have "run_state (builtinMarkStuck j) w = ((''Mark stuck (builtin): no pending/in_progress subtask to mark.'', Some (Errf ''nothing to mark'')), w)"
      unfolding red run_then[OF g(1)] g(2) if_not_P[OF idle(1)] mk prod.case if_P[OF idle(2)] by (simp add: bad_def run)
    then show ?thesis using idle r by (simp add: m_mark_stuck_def pid sid mk)
  next
    case work
    let ?s1 = "m_marked j pl i s"
    obtain w1 where w1: "run_state (mark_stuck_docs j pl i) w = ((), w1)" "rep w1 pid p sid ?s1"
      by (rule rep_mark_stuck_docs[OF pid sid r])
    obtain t w3 where w3: "run_state (MoveTask pid sid ''in_progress'') w1 = (Inr t, w3)"
      "rep w3 pid p sid (d_move sid ''in_progress'' ?s1)" by (rule rep_move[OF w1(2) columns_valid(2)])
    obtain r4 w4 where w4: "run_state (put_idle_status_now j ''stuck'') w3 = (r4, w4)"
      "rep w4 pid p sid (d_move sid ''in_progress'' ?s1)" by (rule quiet_run[OF quiet_idle(2)[OF pid] w3(2)])
    obtain r5 w5 where w5: "run_state (AppendSpecLog pid sid ''implementation'' (tag (j_runId j) @ ''mark-stuck: subtask '' @ i @ newline)) w4 = (r5, w5)"
      "rep w5 pid p sid (d_move sid ''in_progress'' ?s1)" by (rule quiet_run[OF quiet_impl_log w4(2)])
    have "run_state (builtinMarkStuck j) w = ((mark_message i, None), w5)"
      unfolding red run_then[OF g(1)] g(2) if_not_P[OF work(1)] mk prod.case if_not_P[OF work(2)]
        run_then[OF w1(1)] run_then[OF w3(1)] run_then[OF w4(1)] run_then[OF w5(1)]
      by (simp add: ok_def run)
    then show ?thesis using w5(2) work by (simp add: m_mark_stuck_def pid sid mk)
  qed
qed

interpretation marking: executor builtinMarkStuck m_mark_stuck
  by unfold_locales (rule mark_stuck_model)

lemma cancelled_model:
  assumes r: "rep w (j_projectId j) p (j_specId j) s"
  shows "rep (snd (run_state (markJobCancelledStuck j) w)) (j_projectId j) p (j_specId j) (m_cancelled j s)"
proof -
  obtain pid sid where pid: "j_projectId j = pid" and sid: "j_specId j = sid" by simp
  note r = r[unfolded pid sid]
  note red = markJobCancelledStuck_def[of j, unfolded pid sid Let_def if_not_P[OF rep_sid[OF r]]]
  note g = rep_GetPlan[OF r]
  show ?thesis
  proof (cases "j_action j \<notin> {''run-implementation'', ''run-planning'', ''run-followup-planning'', ''run-pipeline''}")
    case True
    then show ?thesis using r unfolding red if_P[OF True] pid sid by (simp add: run m_cancelled_def)
  next
    case F: False
    show ?thesis
    proof (cases "d_plan s")
      case None
      then show ?thesis using r F unfolding red if_not_P[OF F] run_then[OF g] pid sid
        by (simp add: run m_cancelled_def)
    next
      case (Some pl0)
      obtain pl i where mk: "mark_next_stuck pl0 = (pl, i)" by (cases "mark_next_stuck pl0")
      have m: "m_cancelled j s = (if i = [] then s else m_marked j pl i s)"
        unfolding m_cancelled_def if_not_P[OF F] Some option.case mk Let_def prod.case ..
      show ?thesis
      proof (cases "i = []")
        case True
        then show ?thesis using r unfolding red if_not_P[OF F] run_then[OF g] Some option.case sum.case mk prod.case
            if_P[OF True] pid sid m by (simp add: run)
      next
        case False
        obtain w1 where w1: "run_state (mark_stuck_docs j pl i) w = ((), w1)" "rep w1 pid p sid (m_marked j pl i s)"
          by (rule rep_mark_stuck_docs[OF pid sid r])
        obtain r4 w4 where w4: "run_state (put_idle_status_now j ''stuck'') w1 = (r4, w4)"
          "rep w4 pid p sid (m_marked j pl i s)" by (rule quiet_run[OF quiet_idle(2)[OF pid] w1(2)])
        obtain r5 w5 where w5: "run_state (AppendSpecLog pid sid ''implementation'' (tag (j_runId j) @ ''job cancelled '' @ em_dash @
            '' marked subtask '' @ i @ '' stuck'' @ newline)) w4 = (r5, w5)"
          "rep w5 pid p sid (m_marked j pl i s)" by (rule quiet_run[OF quiet_impl_log w4(2)])
        have "run_state (markJobCancelledStuck j) w = ((), w5)"
          unfolding red if_not_P[OF F] run_then[OF g] Some option.case sum.case mk prod.case if_not_P[OF False]
            run_then[OF w1(1)] run_then[OF w4(1)] run_then[OF w5(1)] by (simp add: run)
        then show ?thesis using w5(2) False m pid sid by simp
      qed
    qed
  qed
qed

section \<open>Skip to a phase\<close>

definition m_skip :: "job \<Rightarrow> docs \<Rightarrow> outcome \<times> docs" where
  "m_skip j s =
     (let target = j_targetPhase j; pl0 = plan_or s; pl = in_work (skip_plan target pl0); to = skip_status target pl in
      if target < 1 then ((''skip-to-phase requires targetPhase >= 1'', Some (Errf ''targetPhase required'')), s)
      else if pl_phases pl0 = [] then (no_plan, s)
      else if \<not> skip_found target pl0 then ((''No plan phase '' @ itoa target, Some (Errf ''unknown targetPhase'')), s)
      else ((skip_message target (skip_name target pl0) (skip_count target pl0) to, None),
        d_move (j_specId j) to (s\<lparr>d_plan := Some pl,
          d_progress := reset_progress j ''skip-to-phase'' (nz (skip_name target pl0) (''Phase '' @ itoa target)) pl
            (d_progress s)\<rparr>)))"

lemma skip_status_column: "skip_status target pl \<in> {''in_progress'', ''review'', ''queue''}"
proof -
  have "foldl (\<lambda>acc ph.
        let a1 = (if ph_phase ph = target \<and> ph_type ph = ''review'' then ''review'' else acc)
        in if ph_phase ph = target \<and> ph_type ph = ''planning'' then ''queue'' else a1) a phs
      \<in> {''in_progress'', ''review'', ''queue''}"
    if "a \<in> {''in_progress'', ''review'', ''queue''}" for a phs
    using that
  proof (induction phs arbitrary: a)
    case (Cons ph phs)
    show ?case unfolding foldl_Cons by (rule Cons.IH) (use Cons.prems in \<open>simp add: Let_def\<close>)
  qed simp
  from this[of "''in_progress''" "pl_phases pl"] show ?thesis unfolding skip_status_def by simp
qed

lemma skip_status_valid: "skip_status target pl \<in> set BoardColumns"
  using skip_status_column[of target pl] by (auto simp: BoardColumns_def)

lemma skip_model:
  assumes r: "rep w (j_projectId j) p (j_specId j) s"
  shows "\<exists>w'. run_state (builtinSkipToPhase j) w = (fst (m_skip j s), w') \<and>
    rep w' (j_projectId j) p (j_specId j) (snd (m_skip j s))"
proof -
  obtain pid sid target where pid: "j_projectId j = pid" and sid: "j_specId j = sid" and tg: "j_targetPhase j = target" by simp
  note r = r[unfolded pid sid]
  obtain x where g: "run_state (GetPlan pid sid) w = (x, w)" "result_or zero_plan x = plan_or s" by (rule rep_GetPlan_or[OF r])
  let ?old = "plan_or s"
  note red = builtinSkipToPhase_def[of j, unfolded pid sid tg Let_def if_not_P[OF rep_sid[OF r]]]
  note mdef = m_skip_def[of j s, unfolded pid sid tg Let_def]
  show ?thesis
  proof (cases "target < 1")
    case True
    then show ?thesis using r unfolding red mdef pid sid if_P[OF True] by (simp add: bad_def run)
  next
    case pos: False
    show ?thesis
    proof (cases "pl_phases ?old = []")
      case True
      then show ?thesis using r unfolding red mdef pid sid if_not_P[OF pos] run_then[OF g(1)] g(2) if_P[OF True]
        by (simp add: bad_def run no_plan_def)
    next
      case ne: False
      show ?thesis
      proof (cases "skip_found target ?old")
        case False
        then show ?thesis using r unfolding red mdef pid sid if_not_P[OF pos] run_then[OF g(1)] g(2) if_not_P[OF ne] if_P[OF False]
          by (simp add: bad_def run)
      next
        case True
        then have nn: "\<not> \<not> skip_found target ?old" by simp
        let ?pl = "in_work (skip_plan target ?old)" and ?name = "nz (skip_name target ?old) (''Phase '' @ itoa target)"
        let ?to = "skip_status target ?pl"
        obtain w1 where w1: "run_state (PutPlan pid sid ?pl) w = (Inr (), w1)" "rep w1 pid p sid (s\<lparr>d_plan := Some ?pl\<rparr>)"
          by (rule rep_PutPlan[OF r])
        let ?s2 = "s\<lparr>d_plan := Some ?pl, d_progress := reset_progress j ''skip-to-phase'' ?name ?pl (d_progress s)\<rparr>"
        obtain rg w2 where g2: "run_state (GetProgress pid sid) w1 = (rg, w1)"
          and w2: "run_state (PutProgress pid sid (reset_progress j ''skip-to-phase'' ?name ?pl (result_or zero_progress rg))) w1 = (Inr (), w2)"
          and r2: "rep w2 pid p sid ?s2"
          by (rule rep_reset_progress[OF w1(2), of j "''skip-to-phase''" ?name ?pl]) simp
        obtain t w3 where w3: "run_state (MoveTask pid sid ?to) w2 = (Inr t, w3)" "rep w3 pid p sid (d_move sid ?to ?s2)"
          by (rule rep_move[OF r2 skip_status_valid])
        obtain r4 w4 where w4: "run_state (AppendSpecLog pid sid ''implementation'' 
            (skip_log (j_runId j) target (skip_name target ?old) (skip_count target ?old))) w3 = (r4, w4)"
          "rep w4 pid p sid (d_move sid ?to ?s2)" by (rule quiet_run[OF quiet_impl_log w3(2)])
        obtain r5 w5 where w5: "run_state (put_idle_status_now j ''idle'') w4 = (r5, w5)"
          "rep w5 pid p sid (d_move sid ?to ?s2)" by (rule quiet_run[OF quiet_idle(2)[OF pid] w4(2)])
        have "run_state (builtinSkipToPhase j) w =
          ((skip_message target (skip_name target ?old) (skip_count target ?old) ?to, None), w5)"
          unfolding red if_not_P[OF pos] run_then[OF g(1)] g(2) if_not_P[OF ne] if_not_P[OF nn] in_work_def[symmetric]
            run_then[OF w1(1)] sum.case run_then[OF g2] run_then[OF w2] run_then[OF w3(1)] run_then[OF w4(1)] run_then[OF w5(1)]
          by (simp add: ok_def run)
        then show ?thesis using w5(2) unfolding mdef if_not_P[OF pos] if_not_P[OF ne] if_not_P[OF nn] pid sid by auto
      qed
    qed
  qed
qed

interpretation skipping: executor builtinSkipToPhase m_skip
  by unfold_locales (rule skip_model)

section \<open>Planning\<close>

definition m_new_plan :: "job \<Rightarrow> docs \<Rightarrow> plan" where
  "m_new_plan j s =
     (if j_action j = ''run-followup-planning'' \<and> pl_phases (plan_or s) \<noteq> [] then followup_plan (plan_or s)
      else builtin_plan (t_title (d_task s)))"

definition plan_column :: "task \<Rightarrow> string" where
  "plan_column t = (if t_requireReview t then ''human_review'' else ''queue'')"

definition m_planning :: "job \<Rightarrow> docs \<Rightarrow> outcome \<times> docs" where
  "m_planning j s =
     ((planning_message (plan_column (d_task s)), None),
      d_move (j_specId j) (plan_column (d_task s))
       (s\<lparr>d_spec := Some (builtin_spec_text (d_task s) (j_runId j)), d_plan := Some (m_new_plan j s),
          d_progress := untimed_pr (planning_progress j (m_new_plan j s) 0)\<rparr>))"

lemma plan_column_valid: "plan_column t \<in> set BoardColumns"
  by (simp add: plan_column_def)

lemma rep_new_plan:
  assumes r: "rep w pid p sid s" and t: "untimed t = d_task s"
  shows "run_state (if j_action j = ''run-followup-planning'' then do {
        re \<leftarrow> GetPlan pid sid;
        let existing = result_or zero_plan re;
        State_Monad.return (if pl_phases existing \<noteq> [] then followup_plan existing else builtin_plan (t_title t)) }
      else State_Monad.return (builtin_plan (t_title t))) w = (m_new_plan j s, w)"
proof -
  obtain x where g: "run_state (GetPlan pid sid) w = (x, w)" "result_or zero_plan x = plan_or s" by (rule rep_GetPlan_or[OF r])
  have "t_title t = t_title (d_task s)" using t untimed_sel by metis
  then show ?thesis by (simp add: run g m_new_plan_def Let_def)
qed

lemma untimed_planning_progress: "untimed_pr (planning_progress j pl now) = untimed_pr (planning_progress j pl now')"
  by (simp add: planning_progress_def untimed_pr_def split: prod.splits)

lemma planning_model:
  assumes r: "rep w (j_projectId j) p (j_specId j) s"
  shows "\<exists>w'. run_state (builtinPlanning j) w = (fst (m_planning j s), w') \<and>
    rep w' (j_projectId j) p (j_specId j) (snd (m_planning j s))"
proof -
  obtain pid sid where pid: "j_projectId j = pid" and sid: "j_specId j = sid" by simp
  note r = r[unfolded pid sid]
  obtain t where g: "run_state (GetTask pid sid) w = (Inr t, w)" and t: "untimed t = d_task s" by (rule rep_GetTask[OF r])
  have rq: "(if t_requireReview t then ''human_review'' else ''queue'') = plan_column (d_task s)"
    using t untimed_sel unfolding plan_column_def by metis
  have st: "builtin_spec_text t (j_runId j) = builtin_spec_text (d_task s) (j_runId j)"
    unfolding t[symmetric] by (simp add: builtin_spec_text_def)
  let ?spec = "builtin_spec_text (d_task s) (j_runId j)" and ?to = "plan_column (d_task s)"
  obtain w1 where w1: "run_state (PutSpecMarkdown pid sid ?spec) w = (Inr (), w1)" "rep w1 pid p sid (s\<lparr>d_spec := Some ?spec\<rparr>)"
    by (rule rep_PutSpecMarkdown[OF r])
  have t1: "untimed t = d_task (s\<lparr>d_spec := Some ?spec\<rparr>)" using t by simp
  have np: "m_new_plan j (s\<lparr>d_spec := Some ?spec\<rparr>) = m_new_plan j s" by (simp add: m_new_plan_def plan_or_def)
  note w2 = rep_new_plan[OF w1(2) t1, of j, unfolded np]
  let ?pl = "m_new_plan j s"
  obtain w3 where w3: "run_state (PutPlan pid sid ?pl) w1 = (Inr (), w3)"
    "rep w3 pid p sid (s\<lparr>d_spec := Some ?spec, d_plan := Some ?pl\<rparr>)" by (rule rep_PutPlan[OF w1(2)])
  obtain w4 where w4: "run_state nowUTC w3 = (clock_at w3 (ticks w3), w4)"
    "rep w4 pid p sid (s\<lparr>d_spec := Some ?spec, d_plan := Some ?pl\<rparr>)" using w3(2) by (simp add: run)
  let ?pr = "planning_progress j ?pl (clock_at w3 (ticks w3))"
  let ?s5 = "s\<lparr>d_spec := Some ?spec, d_plan := Some ?pl, d_progress := untimed_pr ?pr\<rparr>"
  obtain w5 where w5: "run_state (PutProgress pid sid ?pr) w4 = (Inr (), w5)" "rep w5 pid p sid ?s5"
    by (rule rep_PutProgress[OF w4(2)])
  obtain r6 w6 where w6: "run_state (AppendSpecLog pid sid ''planning'' (planning_log (j_runId j) ?pl)) w5 = (r6, w6)"
    "rep w6 pid p sid ?s5" by (rule quiet_run[OF quiet_plan_log w5(2)])
  obtain t' w7 where w7: "run_state (MoveTask pid sid ?to) w6 = (Inr t', w7)" "rep w7 pid p sid (d_move sid ?to ?s5)"
    by (rule rep_move[OF w6(2) plan_column_valid])
  have "run_state (builtinPlanning j) w = ((planning_message ?to, None), w7)"
    unfolding builtinPlanning_def pid sid Let_def if_not_P[OF rep_sid[OF r]] run_then[OF g] sum.case rq st
      run_then[OF w1(1)] run_then[OF w2[unfolded Let_def]] run_then[OF w3(1)] run_then[OF w4(1)] run_then[OF w5(1)]
      run_then[OF w6(1)] run_then[OF w7(1)]
    by (simp add: ok_def run)
  moreover have "untimed_pr ?pr = untimed_pr (planning_progress j ?pl 0)" by (rule untimed_planning_progress)
  ultimately show ?thesis using w7(2) by (simp add: m_planning_def pid sid)
qed

interpretation planning: executor builtinPlanning m_planning
  by unfold_locales (rule planning_model)

end
