(* ===== verification/Job_Demo.thy ===== *)
theory Job_Demo
  imports Demo Job_Laws Workspace
begin

text \<open>
  The demonstration task seen through \<open>rep\<close>, and the worlds after planning and after one
  implementation step, for the witnesses of the job properties.
\<close>

definition demo_docs :: docs where
  "demo_docs = \<lparr> d_task = untimed demo_card, d_board = board_add ''001-fix-login'' emptyBoard,
     d_plan = Some (drafted_plan ''Fix Login!''), d_progress = untimed_pr zero_progress,
     d_approved = False, d_changes = None, d_spec = Some (spec_text ''Fix Login!'' ''desc'') \<rparr>"

lemma demo_rep: "rep demo_task ''p1'' demo_project ''001-fix-login'' demo_docs"
proof -
  let ?h = "[''data'', ''projects'', ''p1'']" and ?sid = "''001-fix-login''"
  have h: "home demo_task ''p1'' = ?h" by (simp add: demo_task_def after_create_def Let_def)
  have lk: "look demo_task (?h @ [''specs'', ?sid]) = Some Dir"
    "look demo_task (?h @ [''specs'', ?sid, ''task.json'']) = Some (File (DTask demo_card))"
    "look demo_task (?h @ [''specs'', ?sid, ''implementation_plan.json'']) = Some (File (DPlan (drafted_plan ''Fix Login!'')))"
    "look demo_task (?h @ [''specs'', ?sid, ''progress.json'']) = Some (File (DProgress zero_progress))"
    "look demo_task (?h @ [''specs'', ?sid, ''spec.md'']) = Some (File (DText (spec_text ''Fix Login!'' ''desc'')))"
    "look demo_task (?h @ [''specs'', ?sid, ''review_state.json'']) = None"
    "look demo_task (?h @ [''specs'', ?sid, ''changes.json'']) = None"
    "look demo_task (?h @ [''board.json'']) = Some (File (DBoard (board_add ?sid emptyBoard)))"
    by (simp_all add: demo_task_def after_create_def Let_def look_put_node task_path_def board_path_def)
       (simp_all add: look_def demo_tree_def)
  have st: "look demo_task (?h @ [''status.json'']) = Some (File (DStatus zero_status))"
    "look demo_task (?h @ [''roadmap'', ''roadmap.json'']) = Some (File (DRoadmap (seed_roadmap demo_project)))"
    "look demo_task (?h @ [''ideation'', ''ideation.json'']) = Some (File (DIdeation emptyIdeation))"
    by (simp_all add: demo_task_def after_create_def Let_def look_put_node task_path_def board_path_def)
       (simp_all add: look_def demo_tree_def)
  have "pready demo_project demo_task ''p1''"
    using demo_task_ready st by (simp add: pready_def h)
  moreover have "sready demo_task ''p1'' demo_project ?sid"
    using demo_task_ready lk demo_plain(1)
    by (simp add: sready_def h doc_names_def spec_path_def board_path_def)
  moreover have "jobs_ok demo_task ''p1''"
  proof -
    have "look demo_task (?h @ [''runs'', n]) \<noteq> Some Dir" for n
      by (simp add: demo_task_def after_create_def Let_def look_put_node task_path_def board_path_def)
         (simp add: look_def demo_tree_def)
    moreover have "CHR ''/'' \<notin> set (uuid_at demo_task k)" for k
      using itoa_nat_digits[of k]
      by (auto simp: demo_task_def after_create_def Let_def demo_world_def list_all_iff is_digit_def)
    ultimately show ?thesis by (simp add: jobs_ok_def h)
  qed
  ultimately show ?thesis
    using lk demo_task_consistent demo_task_docs
    by (simp add: rep_def now_defs spec_path_def h demo_docs_def)
qed

definition demo_job :: "string \<Rightarrow> job" where
  "demo_job action = zero_job\<lparr> j_runId := ''r-1'', j_projectId := ''p1'', j_specId := ''001-fix-login'',
     j_action := action \<rparr>"

lemma demo_job_sel [simp]: "j_projectId (demo_job a) = ''p1''" "j_specId (demo_job a) = ''001-fix-login''"
  "j_action (demo_job a) = a" "j_runId (demo_job a) = ''r-1''" "j_targetPhase (demo_job a) = 0"
  by (simp_all add: demo_job_def zero_job_def)

definition demo_planned :: world where
  "demo_planned = snd (run_state (builtinPlanning (demo_job ''run-planning'')) demo_task)"

definition demo_planned_docs :: docs where
  "demo_planned_docs = snd (m_planning (demo_job ''run-planning'') demo_docs)"

lemma demo_planned_rep: "rep demo_planned ''p1'' demo_project ''001-fix-login'' demo_planned_docs"
  using planning.simulates[of demo_task "demo_job ''run-planning''" demo_project demo_docs] demo_rep
  by (auto simp: demo_planned_def demo_planned_docs_def)

lemma demo_planned_docs [simp]:
  "d_plan demo_planned_docs = Some (builtin_plan ''Fix Login!'')" "d_approved demo_planned_docs = False"
  "t_status (d_task demo_planned_docs) = ''queue''" "t_requireReview (d_task demo_planned_docs) = False"
  "pr_paused (d_progress demo_planned_docs) = False" "pr_stuckSubtaskId (d_progress demo_planned_docs) = []"
  by (simp_all add: demo_planned_docs_def m_planning_def demo_docs_def m_new_plan_def demo_card_def new_task_def
      plan_column_def zero_task_def planning_progress_def zero_progress_def split: prod.splits)

lemma demo_plan_counts [simp]:
  "countPlanSubtasks (builtin_plan title) = (4, 1)" "countPendingSubtasks (builtin_plan title) = 3"
  "firstPendingSubtaskID (builtin_plan title) = ''2-0''" "countStuckOrFailed (builtin_plan title) = 0"
  "pl_phases (builtin_plan title) \<noteq> []"
  by (simp_all add: countPlanSubtasks_def countPendingSubtasks_def firstPendingSubtaskID_def countStuckOrFailed_def
      subtasks_def builtin_plan_def mk_phase_def mk_subtask_def st_pending_def)

text \<open>The planned task with another plan put in place of its own.\<close>

definition demo_with :: "plan \<Rightarrow> world" where
  "demo_with pl = snd (run_state (PutPlan ''p1'' ''001-fix-login'' pl) demo_planned)"

lemma demo_with_rep: "rep (demo_with pl) ''p1'' demo_project ''001-fix-login'' (demo_planned_docs\<lparr>d_plan := Some pl\<rparr>)"
proof -
  obtain w' where "run_state (PutPlan ''p1'' ''001-fix-login'' pl) demo_planned = (Inr (), w')"
    "rep w' ''p1'' demo_project ''001-fix-login'' (demo_planned_docs\<lparr>d_plan := Some pl\<rparr>)"
    by (rule rep_PutPlan[OF demo_planned_rep])
  then show ?thesis by (simp add: demo_with_def)
qed

definition one_coding :: "string \<Rightarrow> string \<Rightarrow> plan" where
  "one_coding i status = zero_plan\<lparr>pl_phases := [mk_phase 1 ''Implement'' ''coding'' [] [mk_subtask i ''Do it'' status []]]\<rparr>"

lemma one_coding_subtasks [simp]: "subtasks (one_coding i status) = [mk_subtask i ''Do it'' status []]"
  "coding_subtasks (one_coding i status) = [mk_subtask i ''Do it'' status []]" "pl_phases (one_coding i status) \<noteq> []"
  by (simp_all add: one_coding_def subtasks_def coding_subtasks_def mk_phase_def)

lemma mk_subtask_sel [simp]: "st_id (mk_subtask i d s v) = i" "st_status (mk_subtask i d s v) = s"
  by (simp_all add: mk_subtask_def)

text \<open>The world outside when nothing outside is there: no docker, no credential service.\<close>

definition demo_ext :: externals where
  "demo_ext = \<lparr> x_prefer = False, x_image = ''img'', x_ora = False, x_credentials = (\<lambda>p u. throwE NotExist),
     x_create_issue = (\<lambda>j p title body labels ms. throwE NotExist),
     x_git = (\<lambda>d env args. State_Monad.return ([], None)), x_git_apply = (\<lambda>d patch. State_Monad.return ([], None)),
     x_docker_cli = False, x_docker_argv = (\<lambda>img labels env. [''run'', img]),
     x_docker = (\<lambda>args. State_Monad.return ([], Some NotExist)), x_lease = (\<lambda>r. throwE NotExist),
     x_redeem = (\<lambda>l. throwE NotExist), x_resolve = (\<lambda>r. throwE NotExist), x_temp = (\<lambda>n. State_Monad.return ''tmp-1''),
     x_runner_json = (\<lambda>s. None),
     x_ora_post = (\<lambda>org u path body. throwE NotExist), x_peer_json = (\<lambda>org u sc path body. throwE NotExist),
     x_oam_get = (\<lambda>target hs. throwE NotExist) \<rparr>"

lemma demo_ext_sel [simp]: "x_prefer demo_ext = False" "x_image demo_ext = ''img''" "x_ora demo_ext = False"
  by (simp_all add: demo_ext_def)

end
