(* ===== verification/Job_Theorems.thy ===== *)
theory Job_Theorems
  imports Job_Demo
begin

text \<open>
  The properties of the in-process executors, over the models of \<open>Job_Laws\<close>: what one run
  does to the plan, the progress and the card of its task, and how the runs compose.
\<close>

section \<open>One implementation step\<close>

definition may_code :: "docs \<Rightarrow> bool" where
  "may_code s \<longleftrightarrow> \<not> (t_requireReview (d_task s) \<and> \<not> d_approved s \<and> t_status (d_task s) = ''human_review'')"

definition all_done :: "plan \<Rightarrow> bool" where
  "all_done pl \<longleftrightarrow> snd (countPlanSubtasks pl) \<ge> fst (countPlanSubtasks pl)"

lemma plan_ne_phases: "firstPendingSubtaskID pl \<noteq> [] \<Longrightarrow> pl_phases pl \<noteq> []"
  by (auto simp: firstPendingSubtaskID_def subtasks_def)

lemma first_pending_count: "firstPendingSubtaskID pl \<noteq> [] \<Longrightarrow> 0 < countPendingSubtasks pl"
  using no_pending_id[of pl] by (auto simp: countPendingSubtasks_def)

text \<open>The model of a step on a plan with work left.\<close>

definition stepped :: "job \<Rightarrow> bool \<Rightarrow> plan \<Rightarrow> docs \<Rightarrow> docs" where
  "stepped j k pl s =
     (let pl' = in_work (fst (complete_next pl)) in
      (d_move (j_specId j) (if all_done pl' then ''review'' else ''in_progress'')
        (d_move (j_specId j) ''in_progress'' s))
      \<lparr>d_plan := Some pl', d_progress := untimed_pr (impl_progress j k (d_progress s) pl' None)\<rparr>)"

lemma m_implement_step:
  assumes "may_code s" and "d_plan s = Some pl" and "firstPendingSubtaskID pl \<noteq> []"
  obtains m where "m_implement k j s = ((m, None), snd (m_implement k j s))"
    and "d_plan (snd (m_implement k j s)) = Some (in_work (fst (complete_next pl)))"
    and "t_status (d_task (snd (m_implement k j s))) =
           (if all_done (fst (complete_next pl)) then ''review'' else ''in_progress'')"
    and "d_progress (snd (m_implement k j s)) =
           untimed_pr (impl_progress j k (d_progress s) (in_work (fst (complete_next pl))) None)"
    and "d_approved (snd (m_implement k j s)) = d_approved s"
    and "d_task (snd (m_implement k j s)) =
           (d_task s)\<lparr>t_status := t_status (d_task (snd (m_implement k j s)))\<rparr>"
    and "d_changes (snd (m_implement k j s)) = d_changes s" and "d_spec (snd (m_implement k j s)) = d_spec s"
proof -
  obtain pl1 i where c: "complete_next pl = (pl1, i)" by (cases "complete_next pl")
  obtain n d where nd: "countPlanSubtasks pl1 = (n, d)" by (cases "countPlanSubtasks pl1")
  have i: "i \<noteq> []" using assms(3) complete_next_counts(3)[OF first_pending_count[OF assms(3)]] c by simp
  have nb: "\<not> (t_requireReview (d_task s) \<and> \<not> d_approved s \<and> t_status (d_task s) = ''human_review'')"
    using assms(1) by (simp add: may_code_def)
  let ?s = "d_move (j_specId j) ''in_progress'' s"
  have "m_implement k j s = m_complete j k pl ?s"
    unfolding m_implement_def if_not_P[OF nb] assms(2) option.case if_not_P[OF plan_ne_phases[OF assms(3)]] ..
  also have "\<dots> = ((impl_message i d n, None), (if d \<ge> n then d_move (j_specId j) ''review'' (?s\<lparr>d_plan := Some (in_work pl1)\<rparr>)
      else ?s\<lparr>d_plan := Some (in_work pl1)\<rparr>)\<lparr>d_progress := untimed_pr (impl_progress j k (d_progress s) (in_work pl1) None)\<rparr>)"
    using i by (simp add: m_complete_def c nd Let_def)
  finally have *: "m_implement k j s = \<dots>" .
  show thesis
    by (rule that[of "impl_message i d n"]) (simp_all add: * c all_done_def nd)
qed

text \<open>C12: a run of run-implementation on a spec whose plan has work left completes exactly
  the first open subtask of the plan and no other; the counts of the plan move by one, the
  stored progress is the percentage of the new counts and keeps the pause flag, and the
  card is in review when everything is done and in progress otherwise.\<close>

theorem implementation_step:
  assumes r: "rep w (j_projectId j) p (j_specId j) s" and "may_code s" and "d_plan s = Some pl"
    and "firstPendingSubtaskID pl \<noteq> []"
  shows "\<exists>m w' s' pl'. run_state (builtinImplementation j) w = ((m, None), w') \<and>
    rep w' (j_projectId j) p (j_specId j) s' \<and> d_plan s' = Some pl' \<and>
    subtasks pl' = update_first st_pending (\<lambda>st. st\<lparr>st_status := ''completed''\<rparr>) (subtasks pl) \<and>
    countPendingSubtasks pl' = countPendingSubtasks pl - 1 \<and>
    countPlanSubtasks pl' = (fst (countPlanSubtasks pl), snd (countPlanSubtasks pl) + 1) \<and>
    pr_progress (d_progress s') = pct (snd (countPlanSubtasks pl) + 1) (fst (countPlanSubtasks pl)) \<and>
    pr_paused (d_progress s') = pr_paused (d_progress s) \<and>
    d_task s' = (d_task s)\<lparr>t_status := if all_done pl' then ''review'' else ''in_progress''\<rparr>"
proof -
  note counts = complete_next_counts[OF first_pending_count[OF assms(4)]]
  obtain m where m: "m_implement False j s = ((m, None), snd (m_implement False j s))"
    "d_plan (snd (m_implement False j s)) = Some (in_work (fst (complete_next pl)))"
    "t_status (d_task (snd (m_implement False j s))) =
       (if all_done (fst (complete_next pl)) then ''review'' else ''in_progress'')"
    "d_progress (snd (m_implement False j s)) =
       untimed_pr (impl_progress j False (d_progress s) (in_work (fst (complete_next pl))) None)"
    "d_task (snd (m_implement False j s)) =
       (d_task s)\<lparr>t_status := t_status (d_task (snd (m_implement False j s)))\<rparr>"
    by (rule m_implement_step[OF assms(2-4)])
  obtain w' where w': "run_state (builtinImplementation j) w = (fst (m_implement False j s), w')"
    "rep w' (j_projectId j) p (j_specId j) (snd (m_implement False j s))"
    unfolding builtinImplementation_def by (rule implementing.runs[OF r])
  let ?s = "snd (m_implement False j s)" and ?pl = "in_work (fst (complete_next pl))"
  have run: "run_state (builtinImplementation j) w = ((m, None), w')" using w'(1) m(1) by (metis fst_conv)
  have pr: "pr_progress (d_progress ?s) = pct (snd (countPlanSubtasks pl) + 1) (fst (countPlanSubtasks pl))"
    "pr_paused (d_progress ?s) = pr_paused (d_progress s)"
    using m(4) counts(2) by (simp_all add: impl_progress_def)
  have st: "subtasks ?pl = update_first st_pending (\<lambda>st. st\<lparr>st_status := ''completed''\<rparr>) (subtasks pl)"
    by (simp add: complete_next_def set_next_subtasks)
  have ad: "all_done ?pl = all_done (fst (complete_next pl))" by (simp add: all_done_def)
  have tk: "d_task ?s = (d_task s)\<lparr>t_status := if all_done ?pl then ''review'' else ''in_progress''\<rparr>"
    using m(3,5) ad by simp
  show ?thesis
    by (rule exI[of _ m], rule exI[of _ w'], rule exI[of _ ?s], rule exI[of _ ?pl])
       (simp add: run w'(2) m(2) st[unfolded in_work_sel] counts(1,2) pr tk)
qed

theorem implementation_step_witness:
  "\<exists>m w' s' pl'. run_state (builtinImplementation (demo_job ''run-implementation'')) demo_planned = ((m, None), w') \<and>
     rep w' ''p1'' demo_project ''001-fix-login'' s' \<and> d_plan s' = Some pl' \<and>
     countPlanSubtasks pl' = (4, 2) \<and> pr_progress (d_progress s') = 50 \<and> t_status (d_task s') = ''in_progress''"
proof -
  have r: "rep demo_planned (j_projectId (demo_job ''run-implementation'')) demo_project
      (j_specId (demo_job ''run-implementation'')) demo_planned_docs" by (simp add: demo_planned_rep)
  have mc: "may_code demo_planned_docs" by (simp add: may_code_def)
  from implementation_step[OF r mc demo_planned_docs(1)]
  obtain m w' s' pl' where *: "run_state (builtinImplementation (demo_job ''run-implementation'')) demo_planned = ((m, None), w')"
    "rep w' ''p1'' demo_project ''001-fix-login'' s'" "d_plan s' = Some pl'" "countPlanSubtasks pl' = (4, 2)"
    "pr_progress (d_progress s') = pct 2 4"
    "d_task s' = (d_task demo_planned_docs)\<lparr>t_status := if all_done pl' then ''review'' else ''in_progress''\<rparr>"
    by auto
  have "pct 2 4 = 50" by (simp add: pct_def)
  moreover have "t_status (d_task s') = ''in_progress''" using *(4,6) by (simp add: all_done_def)
  ultimately show ?thesis using * by auto
qed

section \<open>Pausing\<close>

definition paused_text :: string where
  "paused_text = ''Task is paused '' @ em_dash @ '' enqueue resume-task before continuing automation.''"

definition pause_exempt :: "string \<Rightarrow> bool" where
  "pause_exempt a \<longleftrightarrow> a \<in> {''pause-task'', ''resume-task'', ''recover-subtask'', ''mark-stuck'', ''generate-changelog'',
     ''skip-to-phase'', ''run-roadmap-discovery'', ''run-roadmap-features'',
     ''run-roadmap-competitor'', ''run-roadmap-publish'', ''run-ideation''}"

lemma run_taskPausedBlock:
  assumes r: "rep w pid p sid s" and j: "j_projectId j = pid" "j_specId j = sid"
  shows "run_state (taskPausedBlock j) w =
    (if \<not> pause_exempt (j_action j) \<and> pr_paused (d_progress s) then Some paused_text else None, w)"
proof (cases "pause_exempt (j_action j)")
  case True
  then show ?thesis unfolding taskPausedBlock_def pause_exempt_def[symmetric] by (simp add: run)
next
  case False
  obtain x where g: "run_state (GetProgress pid sid) w = (Inr x, w)" "untimed_pr x = d_progress s"
    by (rule rep_GetProgress[OF r])
  have "pr_paused x = pr_paused (d_progress s)" using g(2) untimed_pr_sel(1) by metis
  then show ?thesis
    unfolding taskPausedBlock_def pause_exempt_def[symmetric] if_not_P[OF False] j if_not_P[OF rep_sid[OF r]] run_then[OF g(1)]
    using False by (simp add: run paused_text_def)
qed

section \<open>Recovering\<close>

lemma recover_subtasks:
  "subtasks (fst (recover_plan pl)) = map (\<lambda>st. if st_recoverable st then st\<lparr>st_status := ''pending''\<rparr> else st) (subtasks pl)"
  by (simp add: recover_plan_def subtasks_map)

lemma recover_ids: "snd (recover_plan pl) = [] \<longleftrightarrow> list_all (\<lambda>st. \<not> st_recoverable st) (subtasks pl)"
  by (simp add: recover_plan_def filter_empty_conv list_all_iff)

lemma recover_phases: "pl_phases (fst (recover_plan pl)) = [] \<longleftrightarrow> pl_phases pl = []"
  by (simp add: recover_plan_def map_subtasks_def)

lemma plan_or_Some: "d_plan s = Some pl \<Longrightarrow> plan_or s = pl"
  by (simp add: plan_or_def)

text \<open>recover-subtask on a plan with a stuck, failed or running subtask resets exactly
  those to pending, loses none and completes none; it clears the stuck marker, takes the
  pause flag off as well, and puts the card in in_progress.\<close>

theorem recover_resets:
  assumes r: "rep w (j_projectId j) p (j_specId j) s" and pl: "d_plan s = Some pl"
    and some: "\<not> list_all (\<lambda>st. \<not> st_recoverable st) (subtasks pl)"
  shows "\<exists>m w' s' pl'. run_state (builtinRecover j) w = ((m, None), w') \<and>
    rep w' (j_projectId j) p (j_specId j) s' \<and> d_plan s' = Some pl' \<and>
    subtasks pl' = map (\<lambda>st. if st_recoverable st then st\<lparr>st_status := ''pending''\<rparr> else st) (subtasks pl) \<and>
    countStuckOrFailed pl' = 0 \<and> countPlanSubtasks pl' = countPlanSubtasks pl \<and>
    \<not> pr_paused (d_progress s') \<and> pr_stuckSubtaskId (d_progress s') = [] \<and>
    t_status (d_task s') = ''in_progress''"
proof -
  obtain pl1 ids where rc: "recover_plan pl = (pl1, ids)" by (cases "recover_plan pl")
  have ids: "ids \<noteq> []" using some recover_ids[of pl] rc by auto
  then have ne: "pl_phases pl \<noteq> []" using rc by (auto simp: recover_plan_def subtasks_def)
  obtain w' where w': "run_state (builtinRecover j) w = (fst (m_recover j s), w')"
    "rep w' (j_projectId j) p (j_specId j) (snd (m_recover j s))" by (rule recovering.runs[OF r])
  have m: "m_recover j s = ((recover_message ids, None), d_move (j_specId j) ''in_progress''
      (s\<lparr>d_plan := Some (in_work pl1),
         d_progress := reset_progress j ''recover-subtask'' ''Recovered'' (in_work pl1) (d_progress s)\<rparr>))"
    using ids ne by (simp add: m_recover_def plan_or_Some[OF pl] rc)
  have st: "subtasks pl1 = map (\<lambda>st. if st_recoverable st then st\<lparr>st_status := ''pending''\<rparr> else st) (subtasks pl)"
    "countStuckOrFailed pl1 = 0" "countPlanSubtasks pl1 = countPlanSubtasks pl"
    using recover_subtasks[of pl] recover_clears[of pl] recover_counts[of pl] rc by simp_all
  have pr: "\<not> pr_paused (reset_progress j a n x y)" "pr_stuckSubtaskId (reset_progress j a n x y) = []" for a n x y
    by (simp_all add: reset_progress_def split: prod.splits)
  show ?thesis
    using w' unfolding m fst_conv snd_conv
    by (intro exI[of _ "recover_message ids"] exI[of _ w'] exI[of _ "d_move (j_specId j) ''in_progress''
      (s\<lparr>d_plan := Some (in_work pl1),
         d_progress := reset_progress j ''recover-subtask'' ''Recovered'' (in_work pl1) (d_progress s)\<rparr>)"] exI[of _ "in_work pl1"])
       (simp add: st pr)
qed

section \<open>Marking stuck, then recovering\<close>

lemma mark_then_recover_list:
  assumes "List.find st_pending xs = Some x" and "list_all (\<lambda>st. \<not> st_recoverable st) xs"
  shows "map (\<lambda>st. if st_recoverable st then st\<lparr>st_status := ''pending''\<rparr> else st)
      (update_first st_pending (\<lambda>st. st\<lparr>st_status := ''stuck''\<rparr>) xs) =
    update_first st_pending (\<lambda>st. st\<lparr>st_status := ''pending''\<rparr>) xs"
  using assms
proof (induction xs)
  case (Cons y ys)
  have "map (\<lambda>st. if st_recoverable st then st\<lparr>st_status := ''pending''\<rparr> else st) ys = ys"
    using Cons.prems(2) by (intro map_idI) (auto simp: list_all_iff)
  then show ?case using Cons by (cases "st_pending y") (auto simp: st_recoverable_def)
qed simp

text \<open>C37: mark-stuck followed by recover-subtask gives the work back: on a plan with nothing
  stuck, failed or running, the subtask marked is the first open one, the mark is visible
  in the progress document in between, and afterwards every subtask is what it was, the
  marked one pending, with the card in in_progress.\<close>

theorem mark_stuck_recover_roundtrip:
  assumes r: "rep w (j_projectId j) p (j_specId j) s" and pl: "d_plan s = Some pl"
    and i: "firstPendingSubtaskID pl \<noteq> []" and clean: "list_all (\<lambda>st. \<not> st_recoverable st) (subtasks pl)"
  shows "\<exists>m1 m2 w1 w2 s1 s2 pl2. run_state (builtinMarkStuck j) w = ((m1, None), w1) \<and>
    run_state (builtinRecover j) w1 = ((m2, None), w2) \<and>
    rep w1 (j_projectId j) p (j_specId j) s1 \<and> pr_stuckSubtaskId (d_progress s1) = firstPendingSubtaskID pl \<and>
    rep w2 (j_projectId j) p (j_specId j) s2 \<and> pr_stuckSubtaskId (d_progress s2) = [] \<and>
    d_plan s2 = Some pl2 \<and>
    subtasks pl2 = update_first st_pending (\<lambda>st. st\<lparr>st_status := ''pending''\<rparr>) (subtasks pl) \<and>
    t_status (d_task s2) = ''in_progress''"
proof -
  obtain st where st: "List.find st_pending (subtasks pl) = Some st"
    using first_pending_count[OF i] countPending_pos by auto
  obtain pl1 k where mk: "mark_next_stuck pl = (pl1, k)" by (cases "mark_next_stuck pl")
  have k: "k = firstPendingSubtaskID pl" using set_next_id[of "''stuck''" pl] mk by (simp add: mark_next_stuck_def)
  have s1: "subtasks pl1 = update_first st_pending (\<lambda>st. st\<lparr>st_status := ''stuck''\<rparr>) (subtasks pl)"
    using set_next_subtasks(1)[of "''stuck''" pl] mk by (simp add: mark_next_stuck_def)
  let ?s1 = "d_move (j_specId j) ''in_progress'' (m_marked j pl1 k s)"
  obtain w1 where w1: "run_state (builtinMarkStuck j) w = (fst (m_mark_stuck j s), w1)"
    "rep w1 (j_projectId j) p (j_specId j) (snd (m_mark_stuck j s))" by (rule marking.runs[OF r])
  have m1: "m_mark_stuck j s = ((mark_message k, None), ?s1)"
    using i k plan_ne_phases[OF i] by (simp add: m_mark_stuck_def plan_or_Some[OF pl] mk)
  note w1 = w1[unfolded m1 fst_conv snd_conv]
  have p1: "d_plan ?s1 = Some pl1" by (simp add: m_marked_def)
  have "0 < countStuckOrFailed pl1"
    using mark_next_stuck_counts(2)[OF first_pending_count[OF i]] mk by (simp add: countStuckOrFailed_def)
  then have "\<not> list_all (\<lambda>st. \<not> st_recoverable st) (subtasks pl1)"
    by (auto simp: countStuckOrFailed_def filter_empty_conv list_all_iff st_recoverable_def)
  from recover_resets[OF w1(2) p1 this] obtain m2 w2 s2 pl2 where
    *: "run_state (builtinRecover j) w1 = ((m2, None), w2)" "rep w2 (j_projectId j) p (j_specId j) s2"
      "d_plan s2 = Some pl2" "subtasks pl2 = map (\<lambda>st. if st_recoverable st then st\<lparr>st_status := ''pending''\<rparr> else st) (subtasks pl1)"
      "pr_stuckSubtaskId (d_progress s2) = []" "t_status (d_task s2) = ''in_progress''" by blast
  have "subtasks pl2 = update_first st_pending (\<lambda>st. st\<lparr>st_status := ''pending''\<rparr>) (subtasks pl)"
    using *(4) mark_then_recover_list[OF st clean] s1 by simp
  moreover have "pr_stuckSubtaskId (d_progress ?s1) = firstPendingSubtaskID pl"
    by (simp add: m_marked_def stuck_progress_def k)
  ultimately show ?thesis using w1 *(1,2,3,5,6) by blast
qed

lemma demo_plan_clean: "list_all (\<lambda>st. \<not> st_recoverable st) (subtasks (builtin_plan title))"
  by (simp add: subtasks_def builtin_plan_def mk_phase_def mk_subtask_def st_recoverable_def)

theorem mark_stuck_recover_roundtrip_witness:
  "\<exists>m1 m2 w1 w2 s1. run_state (builtinMarkStuck (demo_job ''mark-stuck'')) demo_planned = ((m1, None), w1) \<and>
     run_state (builtinRecover (demo_job ''mark-stuck'')) w1 = ((m2, None), w2) \<and>
     rep w1 ''p1'' demo_project ''001-fix-login'' s1 \<and> pr_stuckSubtaskId (d_progress s1) = ''2-0''"
  using mark_stuck_recover_roundtrip[of demo_planned "demo_job ''mark-stuck''" demo_project demo_planned_docs,
      OF _ demo_planned_docs(1) _ demo_plan_clean] demo_planned_rep
  by simp blast

definition demo_marked :: world where
  "demo_marked = snd (run_state (builtinMarkStuck (demo_job ''mark-stuck'')) demo_planned)"

theorem recover_resets_witness:
  "\<exists>m w' s' pl'. run_state (builtinRecover (demo_job ''recover-subtask'')) demo_marked = ((m, None), w') \<and>
     rep w' ''p1'' demo_project ''001-fix-login'' s' \<and> d_plan s' = Some pl' \<and> countStuckOrFailed pl' = 0"
proof -
  let ?j = "demo_job ''mark-stuck''" and ?pl = "builtin_plan ''Fix Login!''"
  obtain pl1 k where mk: "mark_next_stuck ?pl = (pl1, k)" by (cases "mark_next_stuck ?pl")
  have k: "k = ''2-0''" using set_next_id[of "''stuck''" ?pl] mk by (simp add: mark_next_stuck_def)
  obtain w1 where w1: "run_state (builtinMarkStuck ?j) demo_planned = (fst (m_mark_stuck ?j demo_planned_docs), w1)"
    "rep w1 ''p1'' demo_project ''001-fix-login'' (snd (m_mark_stuck ?j demo_planned_docs))"
    using marking.simulates[of demo_planned ?j demo_project demo_planned_docs] demo_planned_rep by auto
  have pl: "d_plan (snd (m_mark_stuck ?j demo_planned_docs)) = Some pl1"
    by (simp add: m_mark_stuck_def plan_or_Some[OF demo_planned_docs(1)] mk k m_marked_def)
  have "0 < countStuckOrFailed pl1"
    using mark_next_stuck_counts(2)[of ?pl] mk by simp
  then have sr: "\<not> list_all (\<lambda>st. \<not> st_recoverable st) (subtasks pl1)"
    by (auto simp: countStuckOrFailed_def filter_empty_conv list_all_iff st_recoverable_def)
  have "demo_marked = w1" using w1(1) by (simp add: demo_marked_def)
  then show ?thesis
    using recover_resets[of demo_marked "demo_job ''recover-subtask''" demo_project, OF _ pl sr] w1(2) by auto
qed

section \<open>Skipping\<close>

lemma skip_phases:
  "pl_phases (skip_plan target pl) = map (skip_phase target) (List.enumerate 0 (pl_phases pl))"
  by (simp add: skip_plan_def)

lemma enumerate_nth: "i < length xs \<Longrightarrow> List.enumerate 0 xs ! i = (i, xs ! i)"
  by (simp add: nth_enumerate_eq)

lemma skip_count_total:
  "countPlanSubtasks (skip_plan target pl) =
     (fst (countPlanSubtasks pl), snd (countPlanSubtasks pl) + skip_count target pl)"
proof -
  have one: "length (ph_subtasks (skip_phase target e)) = length (ph_subtasks (snd e))"
    "length (filter st_done (ph_subtasks (skip_phase target e))) =
       length (filter st_done (ph_subtasks (snd e))) +
       length (if phase_num (fst e) (snd e) < target then filter (\<lambda>st. \<not> st_done st) (ph_subtasks (snd e)) else [])"
    for e
  proof -
    obtain i ph where e: "e = (i, ph)" by (cases e)
    show "length (ph_subtasks (skip_phase target e)) = length (ph_subtasks (snd e))"
      by (simp add: e skip_phase_def)
    have "length (filter st_done (map (\<lambda>st. if st_done st then st else st\<lparr>st_status := ''completed''\<rparr>) sts)) = length sts" for sts
      by (induction sts) (auto simp: st_done_def)
    then show "length (filter st_done (ph_subtasks (skip_phase target e))) =
       length (filter st_done (ph_subtasks (snd e))) +
       length (if phase_num (fst e) (snd e) < target then filter (\<lambda>st. \<not> st_done st) (ph_subtasks (snd e)) else [])"
      using sum_length_filter_compl[of st_done "ph_subtasks ph"] by (simp add: e skip_phase_def)
  qed
  have all: "length (concat (map (ph_subtasks \<circ> skip_phase target) es)) = length (concat (map (ph_subtasks \<circ> snd) es))"
    "length (filter st_done (concat (map (ph_subtasks \<circ> skip_phase target) es))) =
      length (filter st_done (concat (map (ph_subtasks \<circ> snd) es))) +
      length (concat (map (\<lambda>(i, ph). if phase_num i ph < target then filter (\<lambda>st. \<not> st_done st) (ph_subtasks ph) else []) es))"
    for es
    by (induction es) (auto simp: one)
  have en: "concat (map (ph_subtasks \<circ> snd) (List.enumerate 0 (pl_phases pl))) = subtasks pl"
    by (simp add: subtasks_def flip: map_map)
  have dn: "(\<lambda>st. st_status st = ''completed'' \<or> st_status st = ''done'') = st_done"
    by (simp add: st_done_def fun_eq_iff)
  show ?thesis
    using all[of "List.enumerate 0 (pl_phases pl)"] unfolding en
    by (simp add: countPlanSubtasks_def dn subtasks_def[of "skip_plan target pl"] skip_phases skip_count_def)
qed

text \<open>skip-to-phase on a plan that has the phase completes every open subtask of the
  phases numbered below it and changes no other phase; the number of done subtasks grows by
  exactly the number the job reports; the pause flag is taken off.\<close>

theorem skip_to_phase:
  assumes r: "rep w (j_projectId j) p (j_specId j) s" and pl: "d_plan s = Some pl"
    and pos: "1 \<le> j_targetPhase j" and found: "skip_found (j_targetPhase j) pl"
  shows "\<exists>m w' s' pl'. run_state (builtinSkipToPhase j) w = ((m, None), w') \<and>
    rep w' (j_projectId j) p (j_specId j) s' \<and> d_plan s' = Some pl' \<and> length (pl_phases pl') = length (pl_phases pl) \<and>
    (\<forall>i < length (pl_phases pl).
       if phase_num i (pl_phases pl ! i) < j_targetPhase j
       then map st_id (ph_subtasks (pl_phases pl' ! i)) = map st_id (ph_subtasks (pl_phases pl ! i)) \<and>
            list_all st_done (ph_subtasks (pl_phases pl' ! i))
       else pl_phases pl' ! i = pl_phases pl ! i) \<and>
    snd (countPlanSubtasks pl') = snd (countPlanSubtasks pl) + skip_count (j_targetPhase j) pl \<and>
    \<not> pr_paused (d_progress s')"
proof -
  let ?t = "j_targetPhase j"
  let ?pl = "in_work (skip_plan ?t pl)"
  let ?s' = "d_move (j_specId j) (skip_status ?t ?pl) (s\<lparr>d_plan := Some ?pl,
      d_progress := reset_progress j ''skip-to-phase'' (nz (skip_name ?t pl) (''Phase '' @ itoa ?t)) ?pl (d_progress s)\<rparr>)"
  have ne: "pl_phases pl \<noteq> []" using found by (auto simp: skip_found_def)
  have m: "m_skip j s = ((skip_message ?t (skip_name ?t pl) (skip_count ?t pl) (skip_status ?t ?pl), None), ?s')"
    using pos ne found by (simp add: m_skip_def plan_or_Some[OF pl] Let_def)
  obtain w' where w': "run_state (builtinSkipToPhase j) w = (fst (m_skip j s), w')"
    "rep w' (j_projectId j) p (j_specId j) (snd (m_skip j s))" by (rule skipping.runs[OF r])
  have "if phase_num i (pl_phases pl ! i) < ?t
       then map st_id (ph_subtasks (pl_phases ?pl ! i)) = map st_id (ph_subtasks (pl_phases pl ! i)) \<and>
            list_all st_done (ph_subtasks (pl_phases ?pl ! i))
       else pl_phases ?pl ! i = pl_phases pl ! i" if "i < length (pl_phases pl)" for i
    using that by (simp add: skip_phases nth_enumerate_eq skip_phase_def list_all_iff) (auto simp: st_done_def)
  moreover have "length (pl_phases ?pl) = length (pl_phases pl)" by (simp add: skip_phases)
  moreover have "snd (countPlanSubtasks ?pl) = snd (countPlanSubtasks pl) + skip_count ?t pl"
    by (simp add: skip_count_total)
  moreover have "\<not> pr_paused (d_progress ?s')" by (simp add: reset_progress_def split: prod.splits)
  moreover have "d_plan ?s' = Some ?pl" by simp
  ultimately show ?thesis using w' unfolding m fst_conv snd_conv by blast
qed

theorem skip_to_phase_witness:
  "\<exists>m w' s' pl'. run_state (builtinSkipToPhase ((demo_job ''skip-to-phase'')\<lparr>j_targetPhase := 3\<rparr>)) demo_planned = ((m, None), w') \<and>
     rep w' ''p1'' demo_project ''001-fix-login'' s' \<and> d_plan s' = Some pl' \<and> snd (countPlanSubtasks pl') = 3"
proof -
  let ?j = "(demo_job ''skip-to-phase'')\<lparr>j_targetPhase := 3\<rparr>" and ?pl = "builtin_plan ''Fix Login!''"
  have j: "j_projectId ?j = ''p1''" "j_specId ?j = ''001-fix-login''" "j_targetPhase ?j = 3" by simp_all
  have f: "skip_found (j_targetPhase ?j) ?pl" "skip_count 3 ?pl = 2"
    by (simp_all add: skip_found_def skip_count_def builtin_plan_def mk_phase_def phase_num_def mk_subtask_def st_done_def)
  have r: "rep demo_planned (j_projectId ?j) demo_project (j_specId ?j) demo_planned_docs" by (simp add: demo_planned_rep)
  have "1 \<le> j_targetPhase ?j" by simp
  from skip_to_phase[OF r demo_planned_docs(1) this f(1)] show ?thesis unfolding demo_plan_counts j using f(2) by auto
qed

section \<open>Planning\<close>

lemma followup_subtasks:
  "subtasks (followup_plan pl) = subtasks pl @ [mk_subtask (itoa (int (length (pl_phases pl)) + 1) @ ''-0'') ''Address follow-up request'' ''pending'' []]"
  by (simp add: followup_plan_def subtasks_def mk_phase_def Let_def)

text \<open>C23: planning writes the specification and a plan and moves the card to human_review
  when the task asks for a review before coding and to queue otherwise; follow-up planning
  keeps every phase of the plan there is and adds one phase with one open coding subtask,
  and any other planning replaces the plan by one with open work left.\<close>

theorem planning_outcome:
  assumes r: "rep w (j_projectId j) p (j_specId j) s"
  shows "\<exists>m w' s' pl'. run_state (builtinPlanning j) w = ((m, None), w') \<and>
    rep w' (j_projectId j) p (j_specId j) s' \<and>
    d_spec s' = Some (builtin_spec_text (d_task s) (j_runId j)) \<and> d_plan s' = Some pl' \<and>
    (if j_action j = ''run-followup-planning'' \<and> pl_phases (plan_or s) \<noteq> []
     then (\<exists>ph. pl_phases pl' = pl_phases (plan_or s) @ [ph] \<and> ph_type ph = ''coding'') \<and>
          countPendingSubtasks pl' = countPendingSubtasks (plan_or s) + 1 \<and>
          snd (countPlanSubtasks pl') = snd (countPlanSubtasks (plan_or s))
     else countPlanSubtasks pl' = (4, 1) \<and> hasPendingCodingSubtasks pl') \<and>
    t_status (d_task s') = (if t_requireReview (d_task s) then ''human_review'' else ''queue'')"
proof -
  let ?s' = "snd (m_planning j s)" and ?pl = "m_new_plan j s"
  obtain w' where w': "run_state (builtinPlanning j) w = (fst (m_planning j s), w')"
    "rep w' (j_projectId j) p (j_specId j) ?s'" by (rule planning.runs[OF r])
  have m: "fst (m_planning j s) = (planning_message (plan_column (d_task s)), None)" by (simp add: m_planning_def)
  have st: "t_status (d_task ?s') = (if t_requireReview (d_task s) then ''human_review'' else ''queue'')"
    by (simp add: m_planning_def plan_column_def)
  have pl: "if j_action j = ''run-followup-planning'' \<and> pl_phases (plan_or s) \<noteq> []
     then (\<exists>ph. pl_phases ?pl = pl_phases (plan_or s) @ [ph] \<and> ph_type ph = ''coding'') \<and>
          countPendingSubtasks ?pl = countPendingSubtasks (plan_or s) + 1 \<and>
          snd (countPlanSubtasks ?pl) = snd (countPlanSubtasks (plan_or s))
     else countPlanSubtasks ?pl = (4, 1) \<and> hasPendingCodingSubtasks ?pl"
  proof (cases "j_action j = ''run-followup-planning'' \<and> pl_phases (plan_or s) \<noteq> []")
    case True
    then have "?pl = followup_plan (plan_or s)" by (simp add: m_new_plan_def)
    moreover have "\<exists>ph. pl_phases (followup_plan (plan_or s)) = pl_phases (plan_or s) @ [ph] \<and> ph_type ph = ''coding''"
      by (simp add: followup_plan_def Let_def mk_phase_def)
    ultimately show ?thesis
      using True by (simp add: countPendingSubtasks_def countPlanSubtasks_def followup_subtasks st_pending_def)
  next
    case False
    then have "?pl = builtin_plan (t_title (d_task s))" by (auto simp: m_new_plan_def)
    moreover have "hasPendingCodingSubtasks (builtin_plan x)" for x
      by (simp add: hasPendingCodingSubtasks_def coding_subtasks_def builtin_plan_def mk_phase_def)
    ultimately show ?thesis using False by auto
  qed
  have "d_spec ?s' = Some (builtin_spec_text (d_task s) (j_runId j))" "d_plan ?s' = Some ?pl"
    by (simp_all add: m_planning_def)
  then show ?thesis using w' st pl unfolding m by blast
qed

theorem planning_outcome_witness:
  "\<exists>m w' s' pl'. run_state (builtinPlanning (demo_job ''run-followup-planning'')) demo_planned = ((m, None), w') \<and>
     rep w' ''p1'' demo_project ''001-fix-login'' s' \<and> d_plan s' = Some pl' \<and> countPendingSubtasks pl' = 4"
  using planning_outcome[of demo_planned "demo_job ''run-followup-planning''" demo_project demo_planned_docs] demo_planned_rep
  by (auto simp: plan_or_Some[OF demo_planned_docs(1)])

section \<open>A step with nothing to complete\<close>

text \<open>When no open subtask has an id, a step says that all subtasks are completed and
  puts the card in review without changing the plan; this also happens when subtasks are
  left stuck or failed, or open under a blank id.\<close>

theorem nothing_to_complete:
  assumes r: "rep w (j_projectId j) p (j_specId j) s" and mc: "may_code s" and pl: "d_plan s = Some pl"
    and ne: "pl_phases pl \<noteq> []" and none: "firstPendingSubtaskID pl = []"
  shows "\<exists>w' s'. run_state (builtinImplementation j) w = ((''All subtasks already completed; moved to review.'', None), w') \<and>
    rep w' (j_projectId j) p (j_specId j) s' \<and> d_plan s' = Some pl \<and> t_status (d_task s') = ''review''"
proof -
  have nb: "\<not> (t_requireReview (d_task s) \<and> \<not> d_approved s \<and> t_status (d_task s) = ''human_review'')"
    using mc by (simp add: may_code_def)
  obtain pl1 i where c: "complete_next pl = (pl1, i)" by (cases "complete_next pl")
  have i: "i = []" using none set_next_id[of "''completed''" pl] c by (simp add: complete_next_def)
  let ?s = "d_move (j_specId j) ''review'' (d_move (j_specId j) ''in_progress'' s)"
  have m: "m_implement False j s = ((''All subtasks already completed; moved to review.'', None), ?s)"
    unfolding m_implement_def if_not_P[OF nb] pl option.case if_not_P[OF ne] by (simp add: m_complete_def c i Let_def)
  obtain w' where w': "run_state (builtinImplementation j) w = (fst (m_implement False j s), w')"
    "rep w' (j_projectId j) p (j_specId j) (snd (m_implement False j s))"
    unfolding builtinImplementation_def by (rule implementing.runs[OF r])
  show ?thesis using w' unfolding m fst_conv snd_conv by (intro exI[of _ w'] exI[of _ ?s]) (simp add: pl)
qed

theorem nothing_to_complete_witness:
  "\<exists>w' s'. run_state (builtinImplementation (demo_job ''run-implementation'')) (demo_with (one_coding [] ''pending'')) =
       ((''All subtasks already completed; moved to review.'', None), w') \<and>
     rep w' ''p1'' demo_project ''001-fix-login'' s' \<and> d_plan s' = Some (one_coding [] ''pending'') \<and>
     countPlanSubtasks (one_coding [] ''pending'') = (1, 0)"
proof -
  let ?pl = "one_coding [] ''pending''" and ?s = "demo_planned_docs\<lparr>d_plan := Some (one_coding [] ''pending'')\<rparr>"
  have r: "rep (demo_with ?pl) (j_projectId (demo_job ''run-implementation'')) demo_project
      (j_specId (demo_job ''run-implementation'')) ?s" by (simp add: demo_with_rep)
  have "may_code ?s" "d_plan ?s = Some ?pl" by (simp_all add: may_code_def)
  moreover have "firstPendingSubtaskID ?pl = []" by (simp add: firstPendingSubtaskID_def st_pending_def)
  moreover have "countPlanSubtasks ?pl = (1, 0)" by (simp add: countPlanSubtasks_def)
  ultimately show ?thesis using nothing_to_complete[OF r, of ?pl] by (auto simp del: One_nat_def)
qed

section \<open>Cancelling\<close>

text \<open>cancelling a planning, implementation or pipeline job marks the first open subtask
  stuck in the plan and in the progress document and leaves the card where it is; cancelling
  any other job changes no document of the task.\<close>

theorem cancel_marks_first_open:
  assumes r: "rep w (j_projectId j) p (j_specId j) s" and pl: "d_plan s = Some pl" and i: "firstPendingSubtaskID pl \<noteq> []"
  shows "\<exists>s'. rep (snd (run_state (markJobCancelledStuck j) w)) (j_projectId j) p (j_specId j) s' \<and>
    (if j_action j \<in> {''run-implementation'', ''run-planning'', ''run-followup-planning'', ''run-pipeline''}
     then pr_stuckSubtaskId (d_progress s') = firstPendingSubtaskID pl \<and> d_task s' = d_task s \<and>
       (\<exists>pl'. d_plan s' = Some pl' \<and>
          subtasks pl' = update_first st_pending (\<lambda>st. st\<lparr>st_status := ''stuck''\<rparr>) (subtasks pl))
     else s' = s)"
proof (rule exI[of _ "m_cancelled j s"], rule conjI)
  show "rep (snd (run_state (markJobCancelledStuck j) w)) (j_projectId j) p (j_specId j) (m_cancelled j s)"
    by (rule cancelled_model[OF r])
  obtain pl1 k where mk: "mark_next_stuck pl = (pl1, k)" by (cases "mark_next_stuck pl")
  have k: "k = firstPendingSubtaskID pl" using set_next_id[of "''stuck''" pl] mk by (simp add: mark_next_stuck_def)
  have st: "subtasks pl1 = update_first st_pending (\<lambda>st. st\<lparr>st_status := ''stuck''\<rparr>) (subtasks pl)"
    using set_next_subtasks(1)[of "''stuck''" pl] mk by (simp add: mark_next_stuck_def)
  show "if j_action j \<in> {''run-implementation'', ''run-planning'', ''run-followup-planning'', ''run-pipeline''}
     then pr_stuckSubtaskId (d_progress (m_cancelled j s)) = firstPendingSubtaskID pl \<and> d_task (m_cancelled j s) = d_task s \<and>
       (\<exists>pl'. d_plan (m_cancelled j s) = Some pl' \<and>
          subtasks pl' = update_first st_pending (\<lambda>st. st\<lparr>st_status := ''stuck''\<rparr>) (subtasks pl))
     else m_cancelled j s = s"
  proof (cases "j_action j \<in> {''run-implementation'', ''run-planning'', ''run-followup-planning'', ''run-pipeline''}")
    case True
    then have "m_cancelled j s = m_marked j pl1 k s" using i k by (simp add: m_cancelled_def pl mk)
    moreover have "pr_stuckSubtaskId (d_progress (m_marked j pl1 k s)) = k" "d_task (m_marked j pl1 k s) = d_task s"
      "d_plan (m_marked j pl1 k s) = Some pl1"
      by (simp_all add: m_marked_def stuck_progress_def)
    ultimately show ?thesis unfolding if_P[OF True] using k st by auto
  next
    case False
    then show ?thesis unfolding if_not_P[OF False] by (simp add: m_cancelled_def)
  qed
qed

theorem cancel_marks_first_open_witness:
  "\<exists>s'. rep (snd (run_state (markJobCancelledStuck (demo_job ''run-pipeline'')) demo_planned)) ''p1'' demo_project ''001-fix-login'' s' \<and>
     pr_stuckSubtaskId (d_progress s') = ''2-0''"
  using cancel_marks_first_open[of demo_planned "demo_job ''run-pipeline''" demo_project demo_planned_docs,
      OF _ demo_planned_docs(1)] demo_planned_rep by auto

end
