(* ===== verification/Exec_Theorems.thy ===== *)
theory Exec_Theorems
  imports Exec_Laws Job_Theorems
begin

text \<open>
  The properties of \<open>executeJob\<close>: how every job ends, what the record is after the container, and what a
  paused task's jobs do.
\<close>

section \<open>A demonstration job\<close>

definition demo_queued :: world where
  "demo_queued = after_job demo_task ''p1'' (demo_job ''run-planning'')"

lemma demo_task_same_env: "same_env demo_world demo_task"
  by (simp add: demo_task_def after_create_def Let_def same_env_def)

lemma demo_queued_env: "same_env demo_world demo_queued"
  using demo_task_same_env by (simp add: demo_queued_def after_job_def same_env_def)

lemma demo_queued_sel [simp]:
  "data_dir demo_queued = [''data'']" "getenv demo_queued = (\<lambda>_. [])" "uuid_at demo_queued = uuid_at demo_world"
  using demo_queued_env by (simp_all add: same_env_def demo_world_def)

lemma demo_queued_links [simp]: "links demo_queued = []"
  by (simp add: demo_queued_def after_job_def demo_task_def after_create_def Let_def demo_world_def)

lemma demo_steady: "steady ''p1'' ''r-1'' demo_queued"
proof -
  let ?j = "demo_job ''run-planning''"
  have nd: "look demo_task (job_path demo_task ''p1'' (j_runId ?j)) \<noteq> Some Dir"
    using rep_jobs_ok[OF demo_rep] by (simp add: jobs_ok_def job_path_def)
  have "rep demo_queued ''p1'' demo_project ''001-fix-login'' demo_docs"
    unfolding demo_queued_def by (rule after_job_rep[OF demo_rep nd])
  then have "ready demo_queued ''p1'' demo_project" by (simp add: rep_def pready_def)
  moreover have "job_at demo_queued ''p1'' ''r-1'' = Some (stamped ?j (clock_at demo_task (ticks demo_task)))"
    unfolding demo_queued_def using after_job_at[of demo_task "''p1''" ?j] by simp
  moreover have "CHR ''/'' \<notin> set (uuid_at demo_queued k)" for k
    using itoa_nat_digits[of k] by (auto simp: demo_world_def list_all_iff is_digit_def)
  moreover have "apart (path_join [] [path_str (path_join [] [''/tmp'', ''opm-jobs''])]) [''data'']" "apart (path_join [] [''/tmp'']) [''data'']"
    by code_simp+
  ultimately show ?thesis
    using demo_plain
    by (simp add: steady_def sane_job_def jobid_def stamped_def scratch_apart_def jobTmpRoot_def tempRoot_def tempDir_def envOr_def)
       (auto simp: demo_job_def zero_job_def)
qed

lemma demo_tame: "tame ''p1'' demo_ext"
  by (simp add: tame_def demo_ext_def gd.ap_intros plain_def)

section \<open>Ending\<close>

text \<open>C2: Whatever happens while a job runs, its stored record ends completed, failed or
  cancelled: in a project that is ready, with a stored record for the job and scratch
  directories apart from the data directory, \<open>executeJob\<close> leaves the record in a final state on
  every path, for every action, with and without a container, for every file tree, runner result
  and answer of a peer, as long as what runs outside leaves the registry and the record alone.\<close>

theorem executed_job_is_final:
  assumes "steady (j_projectId j) (j_runId j) w" and "plain (j_projectId j)" and "runnable j"
    and "tame (j_projectId j) x"
  shows "\<exists>q. job_at (snd (run_state (executeJob x j) w)) (j_projectId j) (j_runId j) = Some q \<and>
     j_runId q = j_runId j \<and> j_state q \<in> {''completed'', ''failed'', ''cancelled''}"
proof -
  obtain w' where w': "run_state (executeJob x j) w = ((), w')" by (cases "run_state (executeJob x j) w") simp
  have "steady (j_projectId j) (j_runId j) w' \<and> final_state (j_projectId j) (j_runId j) w'"
    using leaves_run[OF leaves_executeJob[OF assms(4,3,2)] same_env_refl assms(1) w'] by simp
  then show ?thesis
    by (auto simp: w' final_state_def steady_def sane_job_def split: option.splits)
qed

lemma executed_job_is_final_witness:
  "\<exists>q. job_at (snd (run_state (executeJob demo_ext (demo_job ''run-planning'')) demo_queued)) ''p1'' ''r-1'' = Some q \<and>
     j_runId q = ''r-1'' \<and> j_state q \<in> {''completed'', ''failed'', ''cancelled''}"
  using executed_job_is_final[of "demo_job ''run-planning''" demo_queued demo_ext] demo_steady demo_tame demo_plain
  by (simp add: runnable_def plain_def)

section \<open>The record after the container\<close>

text \<open>What spawning hands on: the caller's job with the reports of the spawn.\<close>

definition respawned :: "job \<Rightarrow> job \<Rightarrow> bool" where
  "respawned j q \<longleftrightarrow> same_job j q \<and> j_state q = ''running'' \<and> j_error q = j_error j \<and>
     j_resolvedProvider q = j_resolvedProvider j \<and> j_resolvedModel q = j_resolvedModel j \<and>
     j_resolvedAgentKey q = j_resolvedAgentKey j \<and> j_completedAt q = j_completedAt j"

lemma respawned_running: "respawned j (running_job j e m)" "respawned j q \<Longrightarrow> respawned j (q\<lparr>j_progressPct := k\<rparr>)"
  "respawned j q \<Longrightarrow> respawned j (q\<lparr>j_execution := e, j_message := m\<rparr>)"
  by (simp_all add: respawned_def same_job_def running_job_def)

lemma spawn_container_job: "fst (run_state (spawn_container x j d note) w) = (q, r) \<Longrightarrow> respawned j q"
  by (auto simp: spawn_container_def run Let_def intro!: respawned_running split: prod.splits option.splits)

lemma leaves_update_stored:
  assumes "runnable q" and "j_projectId q = pid" and "j_runId q = rid" and "P q"
  shows "leaves w0 pid rid (\<lambda>(q', _) w. (\<exists>now. job_at w pid rid = Some (stamped q' now)) \<and> P q')
     (do { _ \<leftarrow> UpdateJob pid q; State_Monad.return (q, y) })"
  unfolding leaves_def
proof (intro allI impI, elim conjE)
  fix w assume w: "same_env w0 w" "steady pid rid w"
  note u = steady_UpdateJob[OF w(2) assms(1-3)]
  have "job_at (after_job w pid q) pid rid = Some (stamped q (clock_at w (ticks w)))" using after_job_at[of w pid q] assms(3) by simp
  then show "case run_state (do { _ \<leftarrow> UpdateJob pid q; State_Monad.return (q, y) }) w of (r, w') \<Rightarrow>
      same_env w0 w' \<and> steady pid rid w' \<and> (case r of (q', _) \<Rightarrow> \<lambda>w. (\<exists>now. job_at w pid rid = Some (stamped q' now)) \<and> P q') w'"
    using stays_after[OF stays_UpdateJob[OF assms(1,2)] w u] assms(4) by (auto simp: run u)
qed

lemma leaves_exec_spawn:
  assumes t: "tame (j_projectId j) x" and r: "runnable j"
  shows "leaves w0 (j_projectId j) (j_runId j)
     (\<lambda>(q, _) w. (\<exists>now. job_at w (j_projectId j) (j_runId j) = Some (stamped q now)) \<and> respawned j q) (exec_spawn x j d note)"
proof -
  have log: "keep_job w0 j (log_clone_note j note)"
    unfolding log_clone_note_def by (intro stay stays_kept[OF gd.ap_AppendProjectLog])
  have sp: "gives w0 (steady (j_projectId j) (j_runId j)) (\<lambda>(q, _). respawned j q) (spawn_container x j d n)" for n
    unfolding gives_def by (auto intro: spawn_container_job split: prod.split)
  have up: "leaves w0 (j_projectId j) (j_runId j)
     (\<lambda>(q, _) w. (\<exists>now. job_at w (j_projectId j) (j_runId j) = Some (stamped q now)) \<and> respawned j q)
     (do { _ \<leftarrow> UpdateJob (j_projectId q) (q\<lparr>j_progressPct := k\<rparr>); State_Monad.return (q\<lparr>j_progressPct := k\<rparr>, y) })"
    if "respawned j q" for q k and y :: "string \<times> string \<times> runner_result option"
  proof -
    have q: "runnable (q\<lparr>j_progressPct := k\<rparr>)" "j_projectId q = j_projectId j" "j_projectId (q\<lparr>j_progressPct := k\<rparr>) = j_projectId j"
      "j_runId (q\<lparr>j_progressPct := k\<rparr>) = j_runId j"
      using that r by (auto simp: respawned_def same_job_def runnable_def)
    show ?thesis unfolding q(2) by (rule leaves_update_stored) (rule q respawned_running(2) that)+
  qed
  show ?thesis
    unfolding exec_spawn_def Let_def
    by (rule leaves_bind[OF stays_leaves[OF log]], rule leaves_bind_gives[where P = "\<lambda>(q, _). respawned j q"])
       (auto intro!: stays_cases(4) stays_return stays_spawn_container(1)[OF t r] gives_cases(4) gives_return sp up
        simp: respawned_running)
qed

text \<open>\<open>executeJob\<close> writes its own copy of the job back when the container has ended, so
  whatever was recorded while it ran is lost: after the spawning part the stored record is in
  state running and carries the resolved model and agent the job had before it was spawned, even
  when the record was cancelled, or the resolution stored, in between.\<close>

theorem spawn_overwrites_record:
  assumes "steady (j_projectId j) (j_runId j) w" and "runnable j" and "tame (j_projectId j) x"
    and "run_state (exec_spawn x j d note) w = ((q, r), w')"
  shows "\<exists>now. job_at w' (j_projectId j) (j_runId j) = Some (q\<lparr>j_updatedAt := now\<rparr>) \<and> j_state q = ''running'' \<and>
     j_resolvedModel q = j_resolvedModel j \<and> j_resolvedAgentKey q = j_resolvedAgentKey j"
  using leaves_run[OF leaves_exec_spawn[OF assms(3,2)] same_env_refl assms(1,4)]
  by (auto simp: respawned_def stamped_def)

lemma spawn_overwrites_record_witness:
  "\<exists>q r w' now. run_state (exec_spawn (demo_ext\<lparr>x_prefer := True, x_docker_cli := True\<rparr>) (demo_job ''run-planning'') [''w''] []) demo_queued = ((q, r), w') \<and>
     job_at w' ''p1'' ''r-1'' = Some (q\<lparr>j_updatedAt := now\<rparr>) \<and> j_state q = ''running'' \<and> j_resolvedModel q = []"
proof -
  let ?x = "demo_ext\<lparr>x_prefer := True, x_docker_cli := True\<rparr>"
  have t: "tame ''p1'' ?x" using demo_tame by (simp add: tame_def)
  obtain q r w' where run: "run_state (exec_spawn ?x (demo_job ''run-planning'') [''w''] []) demo_queued = ((q, r), w')"
    by (cases "run_state (exec_spawn ?x (demo_job ''run-planning'') [''w''] []) demo_queued", cases "fst (run_state (exec_spawn ?x (demo_job ''run-planning'') [''w''] []) demo_queued)") auto
  have "j_resolvedModel (demo_job ''run-planning'') = []" by (simp add: demo_job_def zero_job_def)
  then show ?thesis
    using spawn_overwrites_record[OF _ _ _ run] demo_steady t demo_plain run
    by (cases r) (auto simp: runnable_def plain_def)
qed

section \<open>Pausing\<close>

lemma rep_fail_job:
  assumes r: "rep w (j_projectId j) p sid s" and i: "jobid (j_runId j)"
  obtains w' where "run_state (fail_job j ex msg e) w = ((), w')" and "rep w' (j_projectId j) p sid s"
    and "\<exists>q. job_at w' (j_projectId j) (j_runId j) = Some q \<and> j_state q = ''failed'' \<and> j_message q = msg"
proof -
  let ?w = "w\<lparr>ticks := Suc (ticks w)\<rparr>"
  let ?j = "j\<lparr> j_state := ''failed'', j_execution := ex, j_error := err_text e, j_message := msg,
       j_completedAt := Some (clock_at w (ticks w))\<rparr>"
  have r1: "rep ?w (j_projectId j) p sid s" using r by simp
  have nd: "look ?w (job_path ?w (j_projectId j) (j_runId ?j)) \<noteq> Some Dir"
    using rep_jobs_ok[OF r1] by (simp add: jobs_ok_def job_path_def)
  have "run_state (UpdateJob (j_projectId j) ?j) ?w = (Inr (), after_job ?w (j_projectId j) ?j)"
    by (rule run_UpdateJob[OF rep_ready[OF r1] _ nd]) (use i in simp)
  then have "run_state (fail_job j ex msg e) w = ((), after_job ?w (j_projectId j) ?j)"
    by (simp add: fail_job_def run)
  moreover have "rep (after_job ?w (j_projectId j) ?j) (j_projectId j) p sid s" by (rule after_job_rep[OF r1 nd])
  ultimately show thesis using that after_job_at[of ?w "j_projectId j" ?j "j_runId j"] by (auto simp: stamped_def)
qed

text \<open>The jobs of a task that may act between a pause and the resume: every job the pause blocks,
  another pause, and mark-stuck.\<close>

definition leaves_paused :: "string \<Rightarrow> bool" where
  "leaves_paused a \<longleftrightarrow> \<not> pause_exempt a \<or> a = ''pause-task'' \<or> a = ''mark-stuck''"

type_synonym acting = "job \<times> bool \<times> path \<times> (string \<times> string \<times> runner_result option)"

text \<open>Jobs acting one after the other.\<close>

fun act_all :: "externals \<Rightarrow> acting list \<Rightarrow> (string \<times> err option \<times> string \<times> string) option list act" where
  "act_all x [] = State_Monad.return []"
| "act_all x ((j, session, d, spawn) # rest) = do {
     r \<leftarrow> exec_act x j session d spawn;
     rs \<leftarrow> act_all x rest;
     State_Monad.return (r # rs) }"

lemma quiet_fallback: "quiet (j_projectId j) p (j_specId j) (fallback_note j rr)"
proof (cases "j_specId j = []")
  case False
  have "quiet pid p sid (AppendSpecLog pid sid (if c then ''implementation'' else ''planning'') l)" for pid sid c l
    by (cases c) (simp_all add: quiet_impl_log quiet_plan_log del: append.simps)
  then show ?thesis unfolding fallback_note_def if_not_P[OF False] by (intro quiet_bind quiet_return)
qed (simp add: fallback_note_def quiet_return)

lemma quiet_try_model:
  assumes "j_action j = ''pause-task'' \<or> j_action j = ''mark-stuck''"
  shows "quiet (j_projectId j) p (j_specId j) (try_model x j rr sd nt)"
    and "fst (fst (run_state (try_model x j rr sd nt) w)) = None"
proof -
  have h: "applyRunnerResult x j r sd = State_Monad.return None" for r
    using assms by (elim disjE) (simp_all add: applyRunnerResult_def)
  have eq: "try_model x j rr sd nt = (case rr of None \<Rightarrow> State_Monad.return (None, nt)
     | Some r \<Rightarrow> if rr_mode r = ''fallback'' \<and> rr_reason r \<noteq> []
         then do { _ \<leftarrow> fallback_note j r; State_Monad.return (None, nt @ ''Model fallback: '' @ truncateRunes (rr_reason r) 160 @ ''. '') }
         else State_Monad.return (None, nt))"
    unfolding try_model_def h by (simp split: option.split)
  show "quiet (j_projectId j) p (j_specId j) (try_model x j rr sd nt)"
    unfolding eq by (cases rr) (simp_all add: quiet_return quiet_bind quiet_fallback)
  show "fst (fst (run_state (try_model x j rr sd nt) w)) = None"
    unfolding eq by (simp add: run split: option.split prod.split)
qed

lemma acts_paused:
  assumes r: "rep w (j_projectId j) p (j_specId j) s" and i: "jobid (j_runId j)" and pa: "pr_paused (d_progress s)"
    and a: "leaves_paused (j_action j)"
  obtains res w' s' where "run_state (exec_act x j session d spawn) w = (res, w')" and "rep w' (j_projectId j) p (j_specId j) s'"
    and "pr_paused (d_progress s')" and "d_approved s' = d_approved s" and "d_spec s' = d_spec s" and "d_changes s' = d_changes s"
    and "\<not> pause_exempt (j_action j) \<longrightarrow> res = None \<and> s' = s \<and>
      (\<exists>q. job_at w' (j_projectId j) (j_runId j) = Some q \<and> j_state q = ''failed'' \<and> j_message q = paused_text)"
proof -
  obtain ex nt rr0 where sp: "spawn = (ex, nt, rr0)" by (cases spawn)
  note b = run_taskPausedBlock[OF r refl refl]
  show thesis
  proof (cases "pause_exempt (j_action j)")
    case False
    obtain w' where w': "run_state (fail_job j ex paused_text (Errf ''paused'')) w = ((), w')" "rep w' (j_projectId j) p (j_specId j) s"
      "\<exists>q. job_at w' (j_projectId j) (j_runId j) = Some q \<and> j_state q = ''failed'' \<and> j_message q = paused_text"
      by (rule rep_fail_job[OF r i])
    have "run_state (exec_act x j session d spawn) w = (None, w')"
      unfolding exec_act_def sp Let_def prod.case run_then[OF b] using False pa w'(1) by (simp add: run)
    then show thesis using that w' pa by blast
  next
    case True
    then have act: "j_action j = ''pause-task'' \<or> j_action j = ''mark-stuck''" using a by (simp add: leaves_paused_def)
    let ?sd = "if session then Some d else None"
    obtain h nt1 w1 where t: "run_state (try_model x j rr0 ?sd nt) w = ((h, nt1), w1)" by (metis prod.collapse)
    have h: "h = None" using quiet_try_model(2)[OF act, of x rr0 ?sd nt w] t by simp
    have r1: "rep w1 (j_projectId j) p (j_specId j) s"
      using quietD[OF quiet_try_model(1)[OF act] r] t by (metis snd_conv)
    have bl: "run_state (taskPausedBlock j) w = (None, w)" using b True by simp
    have eq: "run_state (exec_act x j session d spawn) w = run_state (do {
         (msg, e, used) \<leftarrow> run_builtin x j d ?sd;
         State_Monad.return (Some (msg, e, case used of None \<Rightarrow> ex | Some u \<Rightarrow> if u then ''container'' else ''builtin'', nt1)) }) w1"
      unfolding exec_act_def sp Let_def prod.case run_then[OF bl] option.case run_then[OF t] h ..
    show thesis
      using act
    proof
      assume pause: "j_action j = ''pause-task''"
      obtain w2 where w2: "run_state (builtinPause j) w1 = (fst (m_pause j s), w2)" "rep w2 (j_projectId j) p (j_specId j) (snd (m_pause j s))"
        by (rule pausing.runs[OF r1])
      obtain msg e where me: "fst (m_pause j s) = (msg, e)" by (cases "fst (m_pause j s)")
      obtain z where "run_state (exec_act x j session d spawn) w = (z, w2)"
        unfolding eq using w2(1) by (simp add: run_builtin_def pause plainly_def run me)
      then show thesis using that[of z w2 "snd (m_pause j s)"] w2(2) True pa by (simp add: m_pause_def)
    next
      assume stuck: "j_action j = ''mark-stuck''"
      obtain w2 where w2: "run_state (builtinMarkStuck j) w1 = (fst (m_mark_stuck j s), w2)"
        "rep w2 (j_projectId j) p (j_specId j) (snd (m_mark_stuck j s))" by (rule marking.runs[OF r1])
      obtain msg e where me: "fst (m_mark_stuck j s) = (msg, e)" by (cases "fst (m_mark_stuck j s)")
      obtain z where "run_state (exec_act x j session d spawn) w = (z, w2)"
        unfolding eq using w2(1) by (simp add: run_builtin_def stuck plainly_def run me)
      then show thesis using that[of z w2 "snd (m_mark_stuck j s)"] w2(2) True pa
        by (auto simp: m_mark_stuck_def m_marked_def stuck_progress_def Let_def split: prod.split)
    qed
  qed
qed


definition blocked_kind :: "acting \<Rightarrow> bool" where
  "blocked_kind a \<longleftrightarrow> \<not> pause_exempt (j_action (fst a))"

definition acts_on :: "string \<Rightarrow> string \<Rightarrow> acting \<Rightarrow> bool" where
  "acts_on pid sid a \<longleftrightarrow> j_projectId (fst a) = pid \<and> j_specId (fst a) = sid \<and> jobid (j_runId (fst a)) \<and>
     leaves_paused (j_action (fst a))"

lemma all_acts_paused:
  assumes "rep w pid p sid s" and "pr_paused (d_progress s)" and "list_all (acts_on pid sid) steps"
  shows "\<exists>outs w' s'. run_state (act_all x steps) w = (outs, w') \<and> rep w' pid p sid s' \<and> pr_paused (d_progress s') \<and>
    d_approved s' = d_approved s \<and> d_spec s' = d_spec s \<and> d_changes s' = d_changes s \<and>
    list_all2 (\<lambda>a out. blocked_kind a \<longrightarrow> out = None) steps outs \<and> (list_all blocked_kind steps \<longrightarrow> s' = s)"
  using assms
proof (induction steps arbitrary: w s)
  case Nil
  then show ?case by (auto simp: run)
next
  case (Cons a steps)
  obtain j session d spawn where a: "a = (j, session, d, spawn)" by (cases a)
  have on: "j_projectId j = pid" "j_specId j = sid" "jobid (j_runId j)" "leaves_paused (j_action j)"
    using Cons.prems(3) by (simp_all add: a acts_on_def)
  have r: "rep w (j_projectId j) p (j_specId j) s" using Cons.prems(1) on by simp
  obtain res w1 s1 where w1: "run_state (exec_act x j session d spawn) w = (res, w1)" "rep w1 (j_projectId j) p (j_specId j) s1"
    "pr_paused (d_progress s1)" "d_approved s1 = d_approved s" "d_spec s1 = d_spec s" "d_changes s1 = d_changes s"
    "\<not> pause_exempt (j_action j) \<longrightarrow> res = None \<and> s1 = s \<and>
      (\<exists>q. job_at w1 (j_projectId j) (j_runId j) = Some q \<and> j_state q = ''failed'' \<and> j_message q = paused_text)"
    by (rule acts_paused[OF r on(3) Cons.prems(2) on(4), of x session d spawn])
  have r1: "rep w1 pid p sid s1" using w1(2) on by simp
  have rest: "list_all (acts_on pid sid) steps" using Cons.prems(3) by simp
  obtain outs w' s' where w': "run_state (act_all x steps) w1 = (outs, w')" "rep w' pid p sid s'" "pr_paused (d_progress s')"
    "d_approved s' = d_approved s1" "d_spec s' = d_spec s1" "d_changes s' = d_changes s1"
    "list_all2 (\<lambda>a out. blocked_kind a \<longrightarrow> out = None) steps outs" "list_all blocked_kind steps \<longrightarrow> s' = s1"
    using Cons.IH[OF r1 w1(3) rest] by blast
  have "run_state (act_all x (a # steps)) w = (res # outs, w')"
    unfolding a act_all.simps run_then[OF w1(1)] run_then[OF w'(1)] by (simp add: run)
  moreover have "blocked_kind a \<longrightarrow> res = None \<and> s1 = s" using w1(7) by (simp add: blocked_kind_def a)
  ultimately show ?case
    using w1(4-6) w'(2-8) by (intro exI[of _ "res # outs"] exI[of _ w'] exI[of _ s']) auto
qed

text \<open>C36: After pause-task, whatever jobs of the task act next (the part of \<open>executeJob\<close> after the
  spawning), in any number and order, with or without a container and whatever the runner returned, as
  long as each is of a kind the pause blocks, another pause or mark-stuck: every one of a blocked kind
  returns at once, the documents of the task (plan, progress, card, board, approval, spec and change
  set) are untouched by it, and the next job of such a kind still fails, its record saying that the
  task is paused; until resume-task, after which it is not blocked.  Of the documents, pausing and
  resuming change the progress alone; beside them they write the project's status and the task's log,
  which the statement does not follow.  Resume-task, recover-subtask and skip-to-phase, which all lift the
  pause, are not among the jobs in between, nor are the exempt jobs of the project (changelog, roadmap
  and ideation).\<close>

theorem pause_blocks_until_resume:
  assumes r: "rep w pid p sid s" and jp: "j_projectId jp = pid" "j_specId jp = sid"
    and jr: "j_projectId jr = pid" "j_specId jr = sid" and steps: "list_all (acts_on pid sid) steps"
    and j: "j_projectId j = pid" "j_specId j = sid" "jobid (j_runId j)" "\<not> pause_exempt (j_action j)"
  shows "\<exists>m1 m2 outs w1 w2 w3 s1 s2 s3.
    run_state (builtinPause jp) w = ((m1, None), w1) \<and> rep w1 pid p sid s1 \<and> s1\<lparr>d_progress := d_progress s\<rparr> = s \<and>
    run_state (act_all x steps) w1 = (outs, w2) \<and> rep w2 pid p sid s2 \<and>
    list_all2 (\<lambda>a out. blocked_kind a \<longrightarrow> out = None) steps outs \<and> (list_all blocked_kind steps \<longrightarrow> s2 = s1) \<and>
    d_approved s2 = d_approved s \<and> d_spec s2 = d_spec s \<and> d_changes s2 = d_changes s \<and>
    (\<exists>w' q. run_state (exec_act x j session d spawn) w2 = (None, w') \<and> rep w' pid p sid s2 \<and>
       job_at w' pid (j_runId j) = Some q \<and> j_state q = ''failed'' \<and> j_message q = paused_text) \<and>
    run_state (builtinResume jr) w2 = ((m2, None), w3) \<and> rep w3 pid p sid s3 \<and> s3\<lparr>d_progress := d_progress s2\<rparr> = s2 \<and>
    run_state (taskPausedBlock j) w3 = (None, w3)"
proof -
  have ex: "\<exists>m. fst (m_pause jp s) = (m, None)" "\<exists>m. fst (m_resume jr s') = (m, None)" for s'
    by (simp_all add: m_pause_def m_resume_def)
  obtain m1 where m1: "fst (m_pause jp s) = (m1, None)" using ex(1) by blast
  obtain w1 where w1: "run_state (builtinPause jp) w = ((m1, None), w1)" "rep w1 pid p sid (snd (m_pause jp s))"
    using pausing.simulates[of w jp p s] r jp m1 by auto
  let ?s1 = "snd (m_pause jp s)"
  have s1: "pr_paused (d_progress ?s1)" "?s1\<lparr>d_progress := d_progress s\<rparr> = s" "d_approved ?s1 = d_approved s"
    "d_spec ?s1 = d_spec s" "d_changes ?s1 = d_changes s" by (simp_all add: m_pause_def)
  obtain outs w2 s2 where w2: "run_state (act_all x steps) w1 = (outs, w2)" "rep w2 pid p sid s2" "pr_paused (d_progress s2)"
    "d_approved s2 = d_approved ?s1" "d_spec s2 = d_spec ?s1" "d_changes s2 = d_changes ?s1"
    "list_all2 (\<lambda>a out. blocked_kind a \<longrightarrow> out = None) steps outs" "list_all blocked_kind steps \<longrightarrow> s2 = ?s1"
    using all_acts_paused[OF w1(2) s1(1) steps, of x] by blast
  have r2: "rep w2 (j_projectId j) p (j_specId j) s2" using w2(2) j by simp
  have lp: "leaves_paused (j_action j)" using j(4) by (simp add: leaves_paused_def)
  obtain w' q where blocked: "run_state (exec_act x j session d spawn) w2 = (None, w')" "rep w' pid p sid s2"
    "job_at w' pid (j_runId j) = Some q" "j_state q = ''failed''" "j_message q = paused_text"
    by (rule acts_paused[OF r2 j(3) w2(3) lp, of x session d spawn]) (use j in auto)
  obtain m2 where m2: "fst (m_resume jr s2) = (m2, None)" using ex(2) by blast
  obtain w3 where w3: "run_state (builtinResume jr) w2 = ((m2, None), w3)" "rep w3 pid p sid (snd (m_resume jr s2))"
    using resuming.simulates[of w2 jr p s2] w2(2) jr m2 by auto
  have after: "snd (m_resume jr s2)\<lparr>d_progress := d_progress s2\<rparr> = s2" "\<not> pr_paused (d_progress (snd (m_resume jr s2)))"
    by (simp_all add: m_resume_def)
  have free: "run_state (taskPausedBlock j) w3 = (None, w3)" using run_taskPausedBlock[OF w3(2) j(1,2)] after(2) by simp
  have same: "d_approved s2 = d_approved s" "d_spec s2 = d_spec s" "d_changes s2 = d_changes s"
    using w2(4-6) s1(3-5) by simp_all
  show ?thesis
    by (intro exI conjI) (fact w1(1) w1(2) s1(2) w2(1) w2(2) w2(7) w2(8) same blocked w3(1) w3(2) after(1) free)+
qed

lemma pause_blocks_until_resume_witness:
  "\<exists>w2 w' q. w2 = snd (run_state (act_all demo_ext [(demo_job ''run-implementation'', False, [''w''], ''builtin'', [], None),
       (demo_job ''mark-stuck'', False, [''w''], ''builtin'', [], None)]) (snd (run_state (builtinPause (demo_job ''pause-task'')) demo_planned))) \<and>
     run_state (exec_act demo_ext (demo_job ''run-planning'') False [''w''] (''builtin'', [], None)) w2 = (None, w') \<and>
     job_at w' ''p1'' ''r-1'' = Some q \<and> j_state q = ''failed'' \<and>
     run_state (taskPausedBlock (demo_job ''run-planning'')) (snd (run_state (builtinResume (demo_job ''resume-task'')) w2)) =
       (None, snd (run_state (builtinResume (demo_job ''resume-task'')) w2))"
proof -
  have jid: "jobid ''r-1''" by (simp add: jobid_def)
  have st: "list_all (acts_on ''p1'' ''001-fix-login'') [(demo_job ''run-implementation'', False, [''w''], ''builtin'', [], None),
       (demo_job ''mark-stuck'', False, [''w''], ''builtin'', [], None)]"
    using jid by (simp add: acts_on_def leaves_paused_def pause_exempt_def)
  show ?thesis
    using pause_blocks_until_resume[OF demo_planned_rep, of "demo_job ''pause-task''" "demo_job ''resume-task''", OF _ _ _ _ st,
      of "demo_job ''run-planning''" demo_ext False "[''w'']" "(''builtin'', [], None)"] jid
    by (auto simp: pause_exempt_def)
qed


end
