(* ===== verification/Container_Theorems.thy ===== *)
theory Container_Theorems
  imports Exec_Theorems
begin

text \<open>
  The properties of the container's model binding: what is recorded on the job, where the
  credential goes, and how the env file reads back line by line.
\<close>

section \<open>Lines\<close>

abbreviation one_line :: "string \<Rightarrow> bool" where
  "one_line s \<equiv> CHR 0x0A \<notin> set s"

lemma split_on_append_sep: "split_on c (a @ c # b) = split_on c a @ split_on c b"
proof (induction a)
  case (Cons x a)
  obtain y ys where "split_on c a = y # ys" by (cases "split_on c a") auto
  then show ?case using Cons by simp
qed simp

lemma split_on_lines:
  "ls \<noteq> [] \<Longrightarrow> split_on c (join [c] ls) = concat (map (split_on c) ls)"
proof (induction ls rule: induct_list012)
  case (3 x y zs)
  then show ?case by (simp add: split_on_append_sep)
qed simp_all

text \<open>What a reader of lines sees of the env file.\<close>

definition env_file_reads :: "world \<Rightarrow> model_config \<Rightarrow> string list" where
  "env_file_reads w cfg = split_on (CHR 0x0A) (join newline (env_file_lines w cfg) @ newline)"

lemma env_file_lines_set:
  "set (env_file_lines w cfg) = {''OPM_MODEL_API_KEY='' @ mc_apiKey cfg, ''CURSOR_API_KEY='' @ mc_apiKey cfg} \<union>
     env_pair ` set (modelEnvForJob cfg) \<union> set (candidateEnvLines cfg) \<union>
     (let v = envOr w ''OPM_CURSOR_AGENT_BIN'' [] in if v \<noteq> [] then {''OPM_CURSOR_AGENT_BIN='' @ v} else {})"
  unfolding env_file_lines_def set_sort by (auto simp: Let_def)

lemma split_single_lines:
  "(\<And>l. l \<in> set ls \<Longrightarrow> one_line l) \<Longrightarrow> concat (map (split_on (CHR 0x0A)) ls) = ls"
  by (induction ls) (simp_all add: split_on_id)

lemma env_file_lines_ne: "env_file_lines w cfg \<noteq> []"
  using env_file_lines_set[of w cfg] by force

lemma env_file_reads_eq: "env_file_reads w cfg = concat (map (split_on (CHR 0x0A)) (env_file_lines w cfg)) @ [[]]"
  using split_on_append_sep[of "CHR 0x0A" "join newline (env_file_lines w cfg)" "[]"]
    split_on_lines[OF env_file_lines_ne, of "CHR 0x0A" w cfg]
  by (simp add: env_file_reads_def newline_def)

lemma replace_all_drops: "c \<notin> set (replace_all [c] [] s)"
proof (induction s)
  case (Cons x s)
  show ?case using Cons by (subst replace_all.simps) (auto simp: has_prefix_def)
qed (subst replace_all.simps, simp)

lemma one_line_sanitized [simp]: "one_line (sanitizeEnvValue v)"
  by (simp add: sanitizeEnvValue_def replace_all_drops)

lemma one_line_itoa [simp]: "one_line (itoa n)"
proof -
  have "one_line (itoa_nat k)" for k using itoa_nat_digits[of k] by (auto simp: list_all_iff is_digit_def)
  then show ?thesis by (simp add: itoa_def)
qed

lemma one_line_env_line: "one_line p \<Longrightarrow> one_line s \<Longrightarrow> l \<in> set (env_line p s v) \<Longrightarrow> one_line l"
  by (auto simp: env_line_def split: if_splits)

lemma one_line_candidate: "l \<in> set (candidate_lines i c) \<Longrightarrow> one_line l"
  unfolding candidate_lines_def Let_def set_append Un_iff
  by (elim disjE) (erule one_line_env_line[rotated 2]; simp)+

lemma one_line_candidates: "l \<in> set (candidateEnvLines cfg) \<Longrightarrow> one_line l"
proof -
  have "l \<in> set (number_candidates i cs) \<Longrightarrow> one_line l" for i cs
    by (induction i cs rule: number_candidates.induct) (auto dest: one_line_candidate)
  then show "l \<in> set (candidateEnvLines cfg) \<Longrightarrow> one_line l"
    by (auto simp: candidateEnvLines_def split: if_splits)
qed

lemma one_line_trim: "one_line s \<Longrightarrow> one_line (trim_space s)"
  using set_trim[of is_space s] by (auto simp: trim_space_def)

lemma one_line_model_env:
  "one_line (mc_model cfg) \<Longrightarrow> one_line (mc_provider cfg) \<Longrightarrow> one_line (mc_baseUrl cfg) \<Longrightarrow>
   kv \<in> set (modelEnvForJob cfg) \<Longrightarrow> one_line (env_pair kv)"
  by (auto simp: modelEnvForJob_def env_entry_def env_pair_def one_line_trim split: if_splits)

text \<open>When the binding's own values hold no line break, the lines read are the lines composed.\<close>

lemma env_file_reads_lines:
  assumes "one_line (mc_apiKey cfg)" and "one_line (mc_model cfg)" and "one_line (mc_provider cfg)"
    and "one_line (mc_baseUrl cfg)" and "one_line (getenv w ''OPM_CURSOR_AGENT_BIN'')"
  shows "env_file_reads w cfg = env_file_lines w cfg @ [[]]"
proof -
  have "one_line l" if "l \<in> set (env_file_lines w cfg)" for l
    using that assms one_line_model_env[OF assms(2-4)]
    by (auto simp: env_file_lines_set envOr_def Let_def one_line_trim dest: one_line_candidates split: if_splits)
  then have "concat (map (split_on (CHR 0x0A)) (env_file_lines w cfg)) = env_file_lines w cfg"
    by (rule split_single_lines)
  then show ?thesis unfolding env_file_reads_eq by simp
qed

text \<open>The env file that carries the credential reads back as the lines that were composed:
  a reader that splits it at line breaks sees the sorted variable lines and nothing else, for any
  candidate endpoints (their values are sanitised), when the key, model, provider and base URL of
  the binding and the agent's path hold no line break.\<close>

theorem env_file_reads_back:
  assumes "one_line (mc_apiKey cfg)" and "one_line (mc_model cfg)" and "one_line (mc_provider cfg)"
    and "one_line (mc_baseUrl cfg)" and "one_line (getenv w ''OPM_CURSOR_AGENT_BIN'')"
  shows "env_file_reads w cfg = env_file_lines w cfg @ [[]] \<and> sorted (env_file_lines w cfg) \<and>
     set (candidateEnvLines cfg) \<subseteq> set (env_file_reads w cfg)"
proof -
  have "set (candidateEnvLines cfg) \<subseteq> set (env_file_lines w cfg)" by (auto simp: env_file_lines_set)
  moreover have "sorted (env_file_lines w cfg)" unfolding env_file_lines_def by (rule sorted_sort)
  ultimately show ?thesis unfolding env_file_reads_lines[OF assms] by auto
qed

lemma env_file_reads_back_witness:
  "env_file_reads demo_queued (zero_config\<lparr>mc_apiKey := ''k''\<rparr>) = [''CURSOR_API_KEY=k'', ''OPM_MODEL_API_KEY=k'', []]"
  using env_file_reads_back[of "zero_config\<lparr>mc_apiKey := ''k''\<rparr>" demo_queued]
  by (simp add: zero_config_def env_file_lines_def modelEnvForJob_def env_entry_def candidateEnvLines_def envOr_def Let_def)

text \<open>The binding's own values are not sanitised: the part of an API key after a line break
  is a line of the env file of its own, so it sets any variable of the container.\<close>

theorem env_key_injects:
  "one_line l \<Longrightarrow> l \<in> set (env_file_reads w (cfg\<lparr>mc_apiKey := a @ newline @ l\<rparr>))"
proof -
  assume l: "one_line l"
  define k where "k = ''OPM_MODEL_API_KEY='' @ a @ newline @ l"
  have "k \<in> set (env_file_lines w (cfg\<lparr>mc_apiKey := a @ newline @ l\<rparr>))" by (simp add: env_file_lines_set k_def)
  moreover have "l \<in> set (split_on (CHR 0x0A) k)"
    using l split_on_append_sep[of "CHR 0x0A" "''OPM_MODEL_API_KEY='' @ a" l] by (simp add: newline_def split_on_id k_def)
  ultimately show ?thesis unfolding env_file_reads_eq by auto
qed

lemma env_key_injects_witness:
  "''OPM_ACTION=run-review'' \<in> set (env_file_reads demo_queued (zero_config\<lparr>mc_apiKey := ''k'' @ newline @ ''OPM_ACTION=run-review''\<rparr>))"
  using env_key_injects[where l = "''OPM_ACTION=run-review''" and a = "''k''" and w = demo_queued and cfg = zero_config] by simp

section \<open>The arguments\<close>

text \<open>The docker arguments do not depend on the credential: two bindings that differ only in
  their API keys and candidate endpoints, and agree on whether there is a key, give the same
  arguments, whatever \<open>DockerRunArgv\<close> does with its inputs.\<close>

theorem credential_not_in_argv:
  assumes "blank k = blank k'"
  shows "container_args x w j (cfg\<lparr>mc_apiKey := k, mc_candidates := cs\<rparr>) a img repo =
     container_args x w j (cfg\<lparr>mc_apiKey := k', mc_candidates := cs'\<rparr>) a img repo"
  using assms by (simp add: container_args_def container_env_def modelEnvForJob_def hasKey_def blank_def Let_def)

lemma credential_not_in_argv_witness:
  "container_args demo_ext demo_queued (demo_job ''run-planning'') (zero_config\<lparr>mc_apiKey := ''k1'', mc_candidates := []\<rparr>) ''planner'' ''img'' None =
     container_args demo_ext demo_queued (demo_job ''run-planning'') (zero_config\<lparr>mc_apiKey := ''k2'', mc_candidates := []\<rparr>) ''planner'' ''img'' None"
  by (rule credential_not_in_argv) code_simp

section \<open>The recorded resolution\<close>

lemma other_job_kept: "rid' \<noteq> j_runId j \<Longrightarrow> job_at (after_job w pid j) pid rid' = job_at w pid rid'"
  by (simp add: after_job_def job_at_def look_put_node job_path_def home_def)

text \<open>Recording the resolved model writes onto the stored record: its action, state,
  message and progress stay what they were stored as (not what the caller's copy holds), its five
  resolution fields become the binding's, no other job's record changes, and a job without a
  binding from OAM changes nothing.\<close>

theorem recordJobResolution_merges:
  assumes s: "steady (j_projectId j) (j_runId j) w" and r: "runnable j" and q: "job_at w (j_projectId j) (j_runId j) = Some q"
  shows "\<exists>w'. run_state (recordJobResolution j cfg k) w = (if mc_fromOAM cfg then with_resolution j cfg k else j, w') \<and>
     (if mc_fromOAM cfg
      then (\<exists>now. job_at w' (j_projectId j) (j_runId j) = Some (q\<lparr>j_resolvedProvider := mc_provider cfg,
              j_resolvedModel := mc_model cfg, j_resolvedModelSource := mc_modelSource cfg,
              j_resolvedKeyScope := mc_keyScope cfg, j_resolvedAgentKey := k, j_updatedAt := now\<rparr>)) \<and>
           (\<forall>rid. rid \<noteq> j_runId j \<longrightarrow> job_at w' (j_projectId j) rid = job_at w (j_projectId j) rid)
      else w' = w)"
proof (cases "mc_fromOAM cfg")
  case True
  let ?q = "with_resolution q cfg k"
  obtain q' where g: "run_state (GetJob (j_projectId j) (j_runId j)) w = (Inr q', w)" "sane_job (j_projectId j) (j_runId j) q'"
    "job_at w (j_projectId j) (j_runId j) = Some q'" by (rule steady_GetJob[OF s])
  have qq: "runnable q" "j_projectId q = j_projectId j" "j_runId q = j_runId j"
    using sane_runnable[OF g(2)] r g(3) q by (auto simp: runnable_def)
  have u: "run_state (UpdateJob (j_projectId j) ?q) w = (Inr (), after_job w (j_projectId j) ?q)"
    by (rule steady_UpdateJob[OF s]) (use qq in simp_all)
  have "run_state (recordJobResolution j cfg k) w = (with_resolution j cfg k, after_job w (j_projectId j) ?q)"
    using g(1,3) q u True by (simp add: recordJobResolution_def run Let_def)
  then show ?thesis
    using True after_job_at[of w "j_projectId j" ?q] other_job_kept[of _ ?q w "j_projectId j"] qq(3)
    by (auto simp: stamped_def with_resolution_def)
qed (simp add: recordJobResolution_def run)

lemma recordJobResolution_merges_witness:
  "\<exists>w' q. run_state (recordJobResolution (demo_job ''run-planning'') (zero_config\<lparr>mc_fromOAM := True, mc_model := ''m''\<rparr>) ''planner'') demo_queued =
     (with_resolution (demo_job ''run-planning'') (zero_config\<lparr>mc_fromOAM := True, mc_model := ''m''\<rparr>) ''planner'', w') \<and>
     job_at w' ''p1'' ''r-1'' = Some q \<and> j_resolvedModel q = ''m''"
proof -
  obtain q where "job_at demo_queued ''p1'' ''r-1'' = Some q" using steady_job[OF demo_steady] by blast
  then show ?thesis
    using recordJobResolution_merges[of "demo_job ''run-planning''" demo_queued q
        "zero_config\<lparr>mc_fromOAM := True, mc_model := ''m''\<rparr>" "''planner''"] demo_steady demo_plain
    by (auto simp: runnable_def plain_def zero_config_def)
qed

end
