(* ===== verification/Model_Theorems.thy ===== *)
theory Model_Theorems
  imports Container_Theorems
begin

text \<open>
  Applying a runner's result against the builtin executors.
\<close>

section \<open>The change set of a result\<close>

lemma rep_changeSetFromRunner:
  assumes "rep w pid p sid s"
  obtains w' cs where "run_state (changeSetFromRunner rid rr) w = (cs, w')" and "rep w' pid p sid s"
    and "cs_files cs = fst (normalizeChangeSet (rr_files rr))"
proof -
  have "rep (w\<lparr>ticks := Suc (ticks w)\<rparr>) pid p sid s" using assms by simp
  then show thesis
    using that by (cases "normalizeChangeSet (rr_files rr)") (simp add: changeSetFromRunner_def run Let_def)
qed

lemma quiet_impl_phase_log: "quiet (j_projectId j) p (j_specId j) (impl_phase_log j m)"
  unfolding impl_phase_log_def by (rule quiet_impl_log)

lemma quiet_then_return:
  assumes "quiet pid p sid m" and "rep w pid p sid s"
  obtains w' where "run_state (do { _ \<leftarrow> m; State_Monad.return z }) w = (z, w')" and "rep w' pid p sid s"
  using quiet_run[OF assms] by (simp add: run) (metis case_prod_conv)

section \<open>A task at rest\<close>

definition settled :: "string \<Rightarrow> project \<Rightarrow> string \<Rightarrow> docs \<Rightarrow> world \<Rightarrow> bool" where
  "settled pid p sid s w \<longleftrightarrow> rep w pid p sid s \<and> scratch_apart w"

lemma aside_look: "aside d w w' \<Longrightarrow> look w' (d @ q) = look w (d @ q)"
  by (simp add: aside_def)

lemma aside_dir: 
  assumes "aside d w w'" and "look w q = Some Dir" and "\<not> apart q d"
  shows "look w' q = Some Dir"
  using assms by (auto simp: aside_def away_def)

lemma aside_env: "aside d w w' \<Longrightarrow> same_env w w' \<and> (fs_wf w \<longrightarrow> fs_wf w') \<and> set (links w') \<subseteq> set (links w)"
  by (auto simp: aside_def away_def wf_rel_def)

lemma ready_aside:
  assumes r: "ready w pid p" and a: "aside (data_dir w) w w'"
  shows "ready w' pid p"
proof -
  note e = aside_env[OF a]
  have dd: "data_dir w' = data_dir w" using e by (simp add: same_env_def)
  have pd: "projectDir w p = data_dir w @ [''projects'', pid]" by (rule ready_projectDir[OF r])
  have pd': "projectDir w' p = projectDir w p" using e by (simp add: projectDir_def same_env_def)
  have reg: "registryPath w' = registryPath w" "registryPath w = data_dir w @ [''projects.json'']"
    using e by (simp_all add: registryPath_def same_env_def)
  have dir: "dir_ok w' (data_dir w @ q)" if "dir_ok w (data_dir w @ q)" for q
    using that[unfolded dir_ok_iff] unfolding dir_ok_iff
    by (intro allI impI aside_dir[OF a]) (blast, auto simp: apart_def is_under_iff append_eq_append_conv2)
  have "layout_ok w' (projectDir w' p)"
    using r dir aside_look[OF a] unfolding pd' pd by (auto simp: ready_def layout_ok_def layout_files_def layout_dirs_def pd)
  moreover have "look w' (registryPath w') = look w (registryPath w)" unfolding reg by (rule aside_look[OF a])
  moreover have "faults w' = []" using r e by (simp add: ready_def same_env_def)
  ultimately show ?thesis using r e by (simp add: ready_def)
qed

lemma settled_aside:
  assumes s: "settled pid p sid s w" and a: "aside (data_dir w) w w'"
  shows "settled pid p sid s w'"
proof -
  have r: "rep w pid p sid s" using s by (simp add: settled_def)
  note e = aside_env[OF a]
  have dd: "data_dir w' = data_dir w" using e by (simp add: same_env_def)
  have h: "home w' pid = home w pid" by (simp add: home_def dd)
  have hl: "look w' (home w pid @ q) = look w (home w pid @ q)" for q
    using aside_look[OF a, of "[''projects'', pid] @ q"] by (simp add: home_def)
  have rd: "ready w' pid p" by (rule ready_aside[OF rep_ready[OF r] a])
  have "rep w' pid p sid s"
  proof (rule rep_cong[OF r _ _ h])
    show "pready p w' pid" using rep_pready[OF r] rd by (simp add: pready_def h hl)
    show "sready w' pid p sid" using rep_sready[OF r] rd by (simp add: sready_def h hl spec_path_def board_path_def)
    show "look w' q = look w q" if "tracked w pid sid q" for q
      using that hl by (auto simp: tracked_def spec_path_def board_path_def task_path_def)
    show "jobs_ok w' pid" using rep_jobs_ok[OF r] e by (simp add: jobs_ok_def h hl same_env_def)
  qed
  moreover have "scratch_apart w'"
    using s e jobTmpRoot_env[of w w'] by (auto simp: settled_def scratch_apart_def dd list_all_iff)
  ultimately show ?thesis by (simp add: settled_def)
qed

lemma inv_settled: "scratch_inv (settled pid p sid s)"
  unfolding scratch_inv_def
proof (intro conjI allI impI)
  show "settled pid p sid s w \<Longrightarrow> scratch_apart w" for w by (simp add: settled_def)
  show "settled pid p sid s w \<and> aside (data_dir w) w w' \<Longrightarrow> settled pid p sid s w'" for w w'
    by (elim conjE) (rule settled_aside)
qed

section \<open>Outside the project\<close>

text \<open>Nothing outside the project's directory changes, and no link.\<close>

definition elsewhere :: "path \<Rightarrow> world \<Rightarrow> world \<Rightarrow> bool" where
  "elsewhere b w w' \<longleftrightarrow> touches b w w' \<and> links w' = links w"

lemma keeps_elsewhere:
  "keeps (touches b) m \<Longrightarrow> (\<And>w. links (snd (run_state m w)) = links w) \<Longrightarrow> keeps (elsewhere b) m"
  by (simp add: keeps_def elsewhere_def)

lemma off_runs_under: "off_runs b q \<Longrightarrow> is_under b q"
  by (auto simp: off_runs_def is_under_iff)

interpretation ew: store_frame elsewhere
proof unfold_locales
  show "elsewhere b w w' \<Longrightarrow> elsewhere b w' w'' \<Longrightarrow> elsewhere b w w''" for b w w' w''
    unfolding elsewhere_def using touches_trans by metis
  show "elsewhere b w w' \<Longrightarrow> same_env w w'" for b w w' by (simp add: elsewhere_def touches_def)
  show "keeps (elsewhere b) nowUTC" "keeps (elsewhere b) uuid_new" "keeps (elsewhere b) (go_job j)" for b j
    by (intro keeps_elsewhere keeps_nowUTC keeps_uuid_new keeps_go_job; simp add: run)+
  show "off_runs b q \<Longrightarrow> keeps (elsewhere b) (write_file q d)" for b q d
    by (intro keeps_elsewhere keeps_write_file off_runs_under) (auto simp: write_file_def put_node_def)
  show "off_runs b q \<Longrightarrow> keeps (elsewhere b) (append_file q s)" for b q s
    by (intro keeps_elsewhere keeps_append_file off_runs_under)
      (auto simp: append_file_def put_node_def split: option.splits node.splits)
  show "off_runs b q \<Longrightarrow> keeps (elsewhere b) (mkdir_all q)" for b q
    by (intro keeps_elsewhere keeps_mkdir_all off_runs_under) (auto simp: mkdir_all_def)
qed (simp add: elsewhere_def)

lemma elsewhere_scratch: "elsewhere b w w' \<Longrightarrow> scratch_apart w \<Longrightarrow> scratch_apart w'"
  using jobTmpRoot_env[of w w'] by (auto simp: elsewhere_def touches_def scratch_apart_def same_env_def)

lemma run_elsewhere:
  assumes "keeps (ew.at_project pid) m" and "plain pid" and "run_state m w = (y, w')"
  shows "elsewhere (home w pid) w w'"
  using assms by (simp add: keeps_def ew.at_project_def pdir_plain) (metis snd_conv)

section \<open>Recording in the workspace\<close>

text \<open>What the workspace says to a change set: without one, or with the stub of a clone, nothing is
  applied; otherwise the change set is, and may fail.\<close>

definition workspace_apply :: "externals \<Rightarrow> path option \<Rightarrow> change_set \<Rightarrow> world \<Rightarrow> (apply_outcome \<times> err option) option \<times> world" where
  "workspace_apply x wd cs w = (case wd of
       None \<Rightarrow> (None, w)
     | Some d \<Rightarrow> if \<not> fst (run_state (os_exists (d @ [''.git''])) w) then (None, w)
         else (case run_state (applyChangeSet x d cs (deliveryLimits w)) w of (r, w') \<Rightarrow> (Some r, w')))"

definition merged_changes :: "docs \<Rightarrow> change_set \<Rightarrow> time \<Rightarrow> time \<Rightarrow> change_set" where
  "merged_changes s cs now now' =
     stamped_changes (merge_now (case d_changes s of None \<Rightarrow> zero_change_set | Some c \<Rightarrow> c) cs now) now'"

lemma run_settled:
  assumes "run_state m w = (y, w')" and "stays w I m" and "I w"
  shows "I w'" and "same_env w w'"
  using assms unfolding stays_def by (metis same_env_refl snd_conv)+

lemma rep_record_changes:
  assumes r: "rep w (j_projectId j) p (j_specId j) s"
  obtains m w' now now' where "run_state (record_changes j cs) w = (m, w')"
    and "rep w' (j_projectId j) p (j_specId j) (s\<lparr>d_changes := Some (merged_changes s cs now now')\<rparr>)"
proof -
  let ?pid = "j_projectId j" and ?sid = "j_specId j"
  obtain w1 now now' where w1: "run_state (PutChangeSetMerged ?pid ?sid cs) w = (Inr (), w1)"
    "rep w1 ?pid p ?sid (s\<lparr>d_changes := Some (merged_changes s cs now now')\<rparr>)" (is "rep w1 ?pid p ?sid ?s")
    using rep_PutChangeSetMerged[OF r] unfolding merged_changes_def .
  obtain w2 where w2: "run_state (do {
      _ \<leftarrow> impl_phase_log j (''merged '' @ num_changes cs @ '' into session change set: '' @ join '', '' (cs_paths cs));
      State_Monad.return (''Applied '' @ num_changes cs @ '' to the shared implementation workspace.'') }) w1 =
      (''Applied '' @ num_changes cs @ '' to the shared implementation workspace.'', w2)" "rep w2 ?pid p ?sid ?s"
    by (rule quiet_then_return[OF quiet_impl_phase_log w1(2)])
  have "run_state (record_changes j cs) w = (''Applied '' @ num_changes cs @ '' to the shared implementation workspace.'', w2)"
    unfolding record_changes_def run_then[OF w1(1)] sum.case by (rule w2(1))
  then show thesis using that w2(2) by blast
qed


text \<open>How a step that started in \<open>w\<close> and ended in \<open>w'\<close> recorded the files of a result.  Without files
  nothing is recorded and nothing outside the project changes.  Otherwise the change set \<open>cs\<close> with
  these files meets the workspace as it was before the step: unless applying it there fails, it is
  merged into the recorded one; when it fails the recorded one stays.  Outside the project the step
  leaves what applying left.\<close>

definition recorded_in :: "externals \<Rightarrow> path option \<Rightarrow> path \<Rightarrow> file_change list \<Rightarrow> docs \<Rightarrow> world \<Rightarrow> change_set option \<Rightarrow> world \<Rightarrow> bool" where
  "recorded_in x wd base files s w c w' \<longleftrightarrow>
     (if files = [] then c = d_changes s \<and> elsewhere base w w'
      else \<exists>cs w3 a w4 now now'. cs_files cs = files \<and> elsewhere base w w3 \<and> workspace_apply x wd cs w3 = (a, w4) \<and>
        elsewhere base w4 w' \<and>
        c = (if \<exists>out er. a = Some (out, Some er) then d_changes s else Some (merged_changes s cs now now')))"

lemma recorded_inI:
  assumes "files \<noteq> []" and "cs_files cs = files" and "elsewhere base w w3" and "workspace_apply x wd cs w3 = (a, w4)"
    and "elsewhere base w4 w'"
    and "c = (if \<exists>out er. a = Some (out, Some er) then d_changes s else Some (merged_changes s cs now now'))"
  shows "recorded_in x wd base files s w c w'"
  unfolding recorded_in_def if_not_P[OF assms(1)] using assms(2-) by blast

lemma recorded_in_after:
  assumes "elsewhere base w0 w" and r: "recorded_in x wd base files s w c w'"
  shows "recorded_in x wd base files s w0 c w'"
proof (cases "files = []")
  case True
  then show ?thesis using r ew.F_trans[OF assms(1)] by (simp add: recorded_in_def)
next
  case False
  then obtain cs w3 a w4 now now' where h: "cs_files cs = files" "elsewhere base w w3" "workspace_apply x wd cs w3 = (a, w4)"
    "elsewhere base w4 w'"
    "c = (if \<exists>out er. a = Some (out, Some er) then d_changes s else Some (merged_changes s cs now now'))"
    using r unfolding recorded_in_def if_not_P[OF False] by blast
  show ?thesis by (rule recorded_inI[OF False h(1) ew.F_trans[OF assms(1) h(2)] h(3-)])
qed

lemma rep_record_in:
  assumes s: "settled (j_projectId j) p (j_specId j) s w" and wd: "session_away w wd"
    and m: "mild (settled (j_projectId j) p (j_specId j) s) x"
  obtains m w' c where "run_state (recordImplementationChangeSet x j rr wd) w = (m, w')"
    and "rep w' (j_projectId j) p (j_specId j) (s\<lparr>d_changes := c\<rparr>)"
    and "recorded_in x wd (home w (j_projectId j)) (fst (normalizeChangeSet (rr_files rr))) s w c w'"
proof -
  let ?pid = "j_projectId j" and ?sid = "j_specId j"
  let ?I = "settled ?pid p ?sid s"
  let ?base = "home w ?pid"
  have r: "rep w ?pid p ?sid s" using s by (simp add: settled_def)
  have sid: "?sid \<noteq> []" "plain ?sid" and pid: "plain ?pid"
    using rep_plain[OF r] rep_sid[OF r] rep_ready[OF r] by (auto simp: ready_def)
  note log = quiet_then_return[OF quiet_impl_phase_log]
  have logE: "elsewhere ?base wa wb" if "run_state (do { _ \<leftarrow> impl_phase_log j l; State_Monad.return z }) wa = (y, wb)"
      "home wa ?pid = ?base" for l z y wa wb and z' :: string
  proof -
    have "keeps (ew.at_project ?pid) (do { _ \<leftarrow> impl_phase_log j l; State_Monad.return z })"
      by (intro ew.ap.keeps_bind ew.ap.keeps_return ew.ap_impl_phase_log) (simp add: sid)
    from run_elsewhere[OF this pid that(1)] show ?thesis using that(2) by simp
  qed
  obtain w1 cs where cs: "run_state (changeSetFromRunner (j_runId j) rr) w = (cs, w1)" "rep w1 ?pid p ?sid s"
    "cs_files cs = fst (normalizeChangeSet (rr_files rr))" by (rule rep_changeSetFromRunner[OF r])
  have e1: "elsewhere ?base w w1" by (rule run_elsewhere[OF ew.ap_changeSetFromRunner pid cs(1)])
  have home: "home wa ?pid = ?base" if "same_env w wa" for wa using that by (simp add: home_def same_env_def)
  have s1: "?I w1" using cs(2) elsewhere_scratch[OF e1] s by (simp add: settled_def)
  have h1: "home w1 ?pid = ?base" using home ew.F_env[OF e1] by blast
  have recE: "elsewhere ?base wa wb" if "run_state (record_changes j cs) wa = (y, wb)" "home wa ?pid = ?base" for y wa wb
  proof -
    have "keeps (ew.at_project ?pid) (record_changes j cs)" by (rule ew.ap_record_changes) (rule sid)
    from run_elsewhere[OF this pid that(1)] show ?thesis using that(2) by simp
  qed
  show thesis
  proof (cases "cs_files cs = []")
    case True
    obtain w2 where w2: "run_state (do {
        _ \<leftarrow> impl_phase_log j (''no source changes produced '' @ em_dash @ '' nothing to deliver ('' @
              nz (cs_note cs) ''runner returned no files'' @ '')'');
        State_Monad.return ''No source changes were produced this step.'' }) w1 = (''No source changes were produced this step.'', w2)"
      "rep w2 ?pid p ?sid s" by (rule log[OF cs(2)])
    have "run_state (recordImplementationChangeSet x j rr wd) w = (''No source changes were produced this step.'', w2)"
      unfolding recordImplementationChangeSet_def if_not_P[OF sid(1)] run_then[OF cs(1)] if_P[OF True] by (rule w2(1))
    moreover have "elsewhere ?base w w2" by (rule ew.F_trans[OF e1 logE[OF w2(1) h1]])
    ultimately show thesis using that[of _ w2 "d_changes s"] True cs(3) w2(2) by (simp add: recorded_in_def)
  next
    case False
    have ne: "fst (normalizeChangeSet (rr_files rr)) \<noteq> []" using False cs(3) by simp
    let ?cs = "\<lambda>now now'. Some (merged_changes s cs now now')"
    have rest: "run_state (recordImplementationChangeSet x j rr wd) w = run_state (
        case wd of None \<Rightarrow> record_changes j cs
        | Some d \<Rightarrow> if \<not> fst (run_state (os_exists (d @ [''.git''])) w1) then record_changes j cs
          else do {
            lim \<leftarrow> asks deliveryLimits;
            (out, ae) \<leftarrow> applyChangeSet x d cs lim;
            case ae of
              Some e \<Rightarrow> do {
                _ \<leftarrow> impl_phase_log j (''failed to apply '' @ num_changes cs @ '' to session workspace: '' @ err_text e);
                State_Monad.return (''Produced '' @ num_changes cs @
                  '' but applying to the session workspace failed: '' @ err_text e @ ''.'') }
            | None \<Rightarrow> do {
                _ \<leftarrow> impl_phase_log j (''applied '' @ itoa (int (length (ao_applied out))) @
                      '' file change(s) to session workspace: '' @ join '', '' (ao_applied out));
                record_changes j cs } }) w1"
      unfolding recordImplementationChangeSet_def if_not_P[OF sid(1)] run_then[OF cs(1)] if_not_P[OF False]
      by (cases wd) (simp_all add: run workspaceIsStub_def)
    show thesis
    proof (cases "\<exists>d. wd = Some d \<and> fst (run_state (os_exists (d @ [''.git''])) w1)")
      case False
      then have "run_state (recordImplementationChangeSet x j rr wd) w = run_state (record_changes j cs) w1"
        unfolding rest by (auto split: option.split)
      moreover have "workspace_apply x wd cs w1 = (None, w1)" using False by (auto simp: workspace_apply_def split: option.split)
      moreover obtain m w2 now now' where w2: "run_state (record_changes j cs) w1 = (m, w2)"
        "rep w2 ?pid p ?sid (s\<lparr>d_changes := ?cs now now'\<rparr>)" by (rule rep_record_changes[OF cs(2)])
      ultimately show thesis
        using that[of m w2 "?cs now now'"] recorded_inI[OF ne cs(3) e1 _ recE[OF w2(1) h1], of x wd None "?cs now now'" s now now']
        by simp
    next
      case True
      then obtain d where d: "wd = Some d" "fst (run_state (os_exists (d @ [''.git''])) w1)" by blast
      obtain out ae w4 where ap: "run_state (applyChangeSet x d cs (deliveryLimits w1)) w1 = ((out, ae), w4)"
        by (metis prod.collapse)
      have "data_dir w1 = data_dir w" using ew.F_env[OF e1] by (simp add: same_env_def)
      then have aw: "apart d (data_dir w1)" using wd d(1) by (simp add: session_away_def)
      note s4 = run_settled[OF ap stays_applyChangeSet[OF m inv_settled aw] s1]
      have h4: "home w4 ?pid = ?base" using home[of w4] s4(2) ew.F_env[OF e1] same_env_trans by blast
      have r4: "rep w4 ?pid p ?sid s" using s4(1) by (simp add: settled_def)
      have wa: "workspace_apply x wd cs w1 = (Some (out, ae), w4)" using d ap by (simp add: workspace_apply_def)
      show thesis
      proof (cases ae)
        case (Some er)
        let ?m = "''Produced '' @ num_changes cs @ '' but applying to the session workspace failed: '' @ err_text er @ ''.''"
        obtain w5 where w5: "run_state (do {
            _ \<leftarrow> impl_phase_log j (''failed to apply '' @ num_changes cs @ '' to session workspace: '' @ err_text er);
            State_Monad.return ?m }) w4 = (?m, w5)" "rep w5 ?pid p ?sid s" by (rule log[OF r4])
        have "run_state (recordImplementationChangeSet x j rr wd) w = (?m, w5)"
          unfolding rest using d w5(1) by (simp add: run ap Some)
        then show thesis
          using that[of ?m w5 "d_changes s"] w5(2) recorded_inI[OF ne cs(3) e1 wa logE[OF w5(1) h4], of "d_changes s" s] Some by simp
      next
        case None
        let ?log = "impl_phase_log j (''applied '' @ itoa (int (length (ao_applied out))) @
              '' file change(s) to session workspace: '' @ join '', '' (ao_applied out))"
        obtain y w5 where w5: "run_state ?log w4 = (y, w5)" "rep w5 ?pid p ?sid s" by (rule quiet_run[OF quiet_impl_phase_log r4])
        have e5: "elsewhere ?base w4 w5" using run_elsewhere[OF ew.ap_impl_phase_log pid w5(1)] sid h4 by simp
        have h5: "home w5 ?pid = ?base" using h4 ew.F_env[OF e5] by (simp add: home_def same_env_def)
        obtain m w6 now now' where w6: "run_state (record_changes j cs) w5 = (m, w6)"
          "rep w6 ?pid p ?sid (s\<lparr>d_changes := ?cs now now'\<rparr>)" by (rule rep_record_changes[OF w5(2)])
        have "run_state (recordImplementationChangeSet x j rr wd) w = (m, w6)"
          unfolding rest using d w5(1) w6(1) by (simp add: run ap None)
        then show thesis
          using that[of m w6 "?cs now now'"] w6(2) None
            recorded_inI[OF ne cs(3) e1 wa ew.F_trans[OF e5 recE[OF w6(1) h5]], of "?cs now now'" s now now'] by simp
      qed
    qed
  qed
qed


section \<open>Equivalence\<close>

text \<open>C28: On the documents of the task a model-backed implementation step is the builtin step:
  from the same world, whatever the runner returned and whatever workspace it is applied to (a
  session directory outside the data directory, its clone missing, a stub or real, or none at all),
  it ends with the same error and with documents (plan, progress, task, board, spec and approval)
  equal to what the builtin executor alone leaves, except the recorded change set.  That one is
  unchanged when the builtin step failed, when the runner returned no usable file change, and when
  applying the changes to the clone failed; otherwise it is the merge of the result's files into the
  recorded ones.  Outside the project nothing changes but what applying the changes did.\<close>

theorem model_step_is_builtin_step:
  assumes "rep w (j_projectId j) p (j_specId j) s" and "scratch_apart w" and "session_away w wd"
    and "\<forall>s'. mild (settled (j_projectId j) p (j_specId j) s') x"
  shows "\<exists>msg1 msg2 e w1 w2 s' c.
     run_state (builtinImplementationOpts j k) w = ((msg1, e), w1) \<and> rep w1 (j_projectId j) p (j_specId j) s' \<and>
     run_state (applyModelImplementationOpts x j rr wd k) w = ((msg2, e), w2) \<and>
     rep w2 (j_projectId j) p (j_specId j) (s'\<lparr>d_changes := c\<rparr>) \<and>
     (if e \<noteq> None then w2 = w1 \<and> msg2 = msg1 \<and> c = d_changes s'
      else recorded_in x wd (home w (j_projectId j)) (fst (normalizeChangeSet (rr_files rr))) s' w c w2)"
proof -
  let ?pid = "j_projectId j" and ?sid = "j_specId j"
  let ?base = "home w ?pid"
  have pl: "?sid \<noteq> [] \<longrightarrow> plain ?sid" and pid: "plain ?pid"
    using rep_plain[OF assms(1)] rep_ready[OF assms(1)] by (auto simp: ready_def)
  obtain w1 where b: "run_state (builtinImplementationOpts j k) w = (fst (m_implement k j s), w1)"
    "rep w1 ?pid p ?sid (snd (m_implement k j s))" by (rule implementing.runs[OF assms(1)])
  have e1: "elsewhere ?base w w1" by (rule run_elsewhere[OF ew.ap_executors(2)[OF pl] pid b(1)])
  let ?s = "snd (m_implement k j s)"
  obtain msg e where me: "fst (m_implement k j s) = (msg, e)" by (cases "fst (m_implement k j s)")
  show ?thesis
  proof (cases e)
    case (Some er)
    then have "run_state (applyModelImplementationOpts x j rr wd k) w = ((msg, e), w1)"
      using b(1) by (simp add: applyModelImplementationOpts_def run me bad_def)
    then show ?thesis using b me Some by (intro exI[of _ msg] exI[of _ e] exI[of _ w1] exI[of _ ?s] exI[of _ "d_changes ?s"]) simp
  next
    case None
    let ?notes = "if runner_note rr \<noteq> [] then do {
         _ \<leftarrow> append_notes ?pid ?sid (note_block rr);
         impl_phase_log j (''runner implementation notes ('' @ nz (rr_model rr) ''?'' @ ''): '' @
           truncateRunes (runner_note rr) 400) } else okE ()"
    have "quiet ?pid p ?sid ?notes"
      by (simp add: quiet_bind quiet_append_notes quiet_impl_phase_log) (simp add: quiet_def keeps_def run)
    then obtain y w2 where w2: "run_state ?notes w1 = (y, w2)" "rep w2 ?pid p ?sid ?s" by (rule quiet_run[OF _ b(2)])
    have h1: "home w1 ?pid = ?base" using ew.F_env[OF e1] by (simp add: home_def same_env_def)
    have "keeps (ew.at_project ?pid) ?notes"
      using pl by (intro ew.ap.keeps_if ew.ap.keeps_bind ew.ap_notes ew.ap_impl_phase_log ew.ap.keeps_okE)
    from run_elsewhere[OF this pid w2(1)] have "elsewhere ?base w1 w2" by (simp add: h1)
    then have e2: "elsewhere ?base w w2" by (rule ew.F_trans[OF e1])
    have s2: "settled ?pid p ?sid ?s w2" using w2(2) elsewhere_scratch[OF e2 assms(2)] by (simp add: settled_def)
    have env: "data_dir w2 = data_dir w" using ew.F_env[OF e2] by (simp add: same_env_def)
    then have wd: "session_away w2 wd" using assms(3) by (simp add: session_away_def split: option.splits)
    have h2: "home w2 ?pid = ?base" using env by (simp add: home_def)
    obtain m w3 c where w3: "run_state (recordImplementationChangeSet x j rr wd) w2 = (m, w3)"
      "rep w3 ?pid p ?sid (?s\<lparr>d_changes := c\<rparr>)"
      "recorded_in x wd (home w2 ?pid) (fst (normalizeChangeSet (rr_files rr))) ?s w2 c w3"
      by (rule rep_record_in[OF s2 wd spec[OF assms(4)]])
    have "recorded_in x wd ?base (fst (normalizeChangeSet (rr_files rr))) ?s w c w3"
      using recorded_in_after[OF e2] w3(3) unfolding h2 .
    moreover have "run_state (applyModelImplementationOpts x j rr wd k) w = ((model_message rr msg @ '' '' @ m, None), w3)"
      unfolding applyModelImplementationOpts_def run_then[OF b(1)] me prod.case None option.case run_then[OF w2(1)] run_then[OF w3(1)]
      by (simp add: ok_def run)
    ultimately show ?thesis using b w3 me None by (intro exI[of _ msg] exI[of _ "model_message rr msg @ '' '' @ m"] exI[of _ e] exI[of _ w1] exI[of _ w3] exI[of _ ?s] exI[of _ c]) simp
  qed
qed

definition demo_result :: runner_result where
  "demo_result = \<lparr> rr_mode = ''model'', rr_reason = [], rr_action = ''run-implementation'', rr_model = ''m'',
     rr_specMarkdown = [], rr_plan = None, rr_implementationNotes = ''wrote it'', rr_completedSubtaskId = [],
     rr_files = [\<lparr>fc_path = ''a.go'', fc_contents = Some ''x'', fc_patch = [], fc_delete = False\<rparr>],
     rr_commitMessage = ''add a'', rr_reviewMarkdown = [], rr_reviewPass = None, rr_ideas = emptyIdeation,
     rr_vision = [], rr_targetAudience = [], rr_phases = [], rr_features = [], rr_discovery = None,
     rr_competitor = None, rr_rawExcerpt = [] \<rparr>"

lemma demo_mild: "mild (settled pid p sid s) demo_ext"
  by (simp add: mild_def demo_ext_def holds_def keeps_def run)

text \<open>A planned task, and a clone beside the data directory.\<close>

lemma demo_settled: "settled ''p1'' demo_project ''001-fix-login'' demo_docs demo_task"
proof -
  have "apart (path_join [] [path_str (path_join [] [''/tmp'', ''opm-jobs''])]) [''data'']" "apart (path_join [] [''/tmp'']) [''data'']"
    by code_simp+
  then show ?thesis
    using demo_rep
    by (simp add: settled_def scratch_apart_def jobTmpRoot_def tempRoot_def tempDir_def envOr_def)
       (simp add: demo_task_def after_create_def Let_def demo_world_def)
qed

definition demo_cloned :: world where
  "demo_cloned = snd (run_state (mkdir_all [''clone'', ''.git'']) demo_planned)"

lemma demo_planned_elsewhere: "elsewhere (home demo_task ''p1'') demo_task demo_planned"
proof -
  have "keeps (ew.at_project ''p1'') (builtinPlanning (demo_job ''run-planning''))"
    using ew.ap_executors(1)[of "demo_job ''run-planning''"] by (simp add: plain_def)
  from run_elsewhere[OF this, of demo_task] show ?thesis
    by (simp add: demo_planned_def plain_def) (metis prod.collapse)
qed

lemma demo_data_dirs: "data_dir demo_planned = [''data'']" "data_dir demo_cloned = [''data'']"
proof -
  have "data_dir demo_planned = data_dir demo_task" using ew.F_env[OF demo_planned_elsewhere] by (simp add: same_env_def)
  then show p: "data_dir demo_planned = [''data'']" by (simp add: demo_task_def after_create_def Let_def demo_world_def)
  have "same_env demo_planned demo_cloned"
    unfolding demo_cloned_def by (simp add: mkdir_all_def same_env_def)
  then show "data_dir demo_cloned = [''data'']" using p by (simp add: same_env_def)
qed

lemma demo_cloned_settled: "settled ''p1'' demo_project ''001-fix-login'' demo_planned_docs demo_cloned"
proof (rule settled_aside)
  show "settled ''p1'' demo_project ''001-fix-login'' demo_planned_docs demo_planned"
    using demo_planned_rep elsewhere_scratch[OF demo_planned_elsewhere] demo_settled by (simp add: settled_def)
  have "apart [''clone'', ''.git''] [''data'']" by (simp add: apart_def is_under_iff)
  from aside_ops(2)[OF this] show "aside (data_dir demo_planned) demo_planned demo_cloned"
    by (simp add: keeps_def demo_cloned_def demo_data_dirs)
qed

lemma model_step_is_builtin_step_witness:
  "\<exists>msg1 msg2 e w1 w2 s' c.
     run_state (builtinImplementationOpts (demo_job ''run-implementation'') False) demo_cloned = ((msg1, e), w1) \<and>
     rep w1 ''p1'' demo_project ''001-fix-login'' s' \<and>
     run_state (applyModelImplementationOpts demo_ext (demo_job ''run-implementation'') demo_result (Some [''clone'']) False) demo_cloned =
       ((msg2, e), w2) \<and>
     rep w2 ''p1'' demo_project ''001-fix-login'' (s'\<lparr>d_changes := c\<rparr>) \<and>
     (if e \<noteq> None then w2 = w1 \<and> msg2 = msg1 \<and> c = d_changes s'
      else recorded_in demo_ext (Some [''clone'']) (home demo_cloned ''p1'')
        (fst (normalizeChangeSet (rr_files demo_result))) s' demo_cloned c w2)"
proof -
  have wd: "session_away demo_cloned (Some [''clone''])"
    by (simp add: session_away_def demo_data_dirs apart_def is_under_iff)
  have r: "rep demo_cloned ''p1'' demo_project ''001-fix-login'' demo_planned_docs" and a: "scratch_apart demo_cloned"
    using demo_cloned_settled by (simp_all add: settled_def)
  have m: "\<forall>s'. mild (settled ''p1'' demo_project ''001-fix-login'' s') demo_ext" by (simp add: demo_mild)
  show ?thesis
    using model_step_is_builtin_step[of demo_cloned "demo_job ''run-implementation''" demo_project demo_planned_docs
        "Some [''clone'']" demo_ext False demo_result, unfolded demo_job_sel, OF r a wd m] .
qed

end
