(* ===== verification/Delivery_Laws.thy ===== *)
theory Delivery_Laws
  imports Deliver Model_Theorems
begin

text \<open>
  A delivery works in its own scratch directory: it leaves the documents of the task alone until
  its outcome is recorded, and a failure never carries the status of a success.
\<close>

section \<open>What a run brings\<close>

text \<open>From a world with the parameters of \<open>w0\<close> that satisfies \<open>I\<close>, the run ends in one, with a
  result that satisfies \<open>P\<close>.\<close>

definition brings :: "world \<Rightarrow> (world \<Rightarrow> bool) \<Rightarrow> ('a \<Rightarrow> bool) \<Rightarrow> 'a act \<Rightarrow> bool" where
  "brings w0 I P m \<longleftrightarrow> stays w0 I m \<and> gives w0 I P m"

lemma brings_stays: "brings w0 I P m \<Longrightarrow> stays w0 I m"
  by (simp add: brings_def)

lemma stays_brings: "stays w0 I m \<Longrightarrow> brings w0 I (\<lambda>_. True) m"
  by (simp add: brings_def gives_def)

lemma brings_return: "P x \<Longrightarrow> brings w0 I P (State_Monad.return x)"
  by (simp add: brings_def stays_return gives_return)

lemma brings_okE: "P (Inr x) \<Longrightarrow> brings w0 I P (okE x)" "P (Inl e) \<Longrightarrow> brings w0 I P (throwE e)"
  by (simp_all add: brings_def gives_def stays_return run)

lemma brings_bind:
  assumes "brings w0 I Q m" and "\<And>x. Q x \<Longrightarrow> brings w0 I P (f x)"
  shows "brings w0 I P (State_Monad.bind m f)"
  using assms unfolding brings_def by (blast intro: stays_bind_gives gives_bind_gives)

lemma brings_after: "stays w0 I m \<Longrightarrow> (\<And>x. brings w0 I P (f x)) \<Longrightarrow> brings w0 I P (State_Monad.bind m f)"
  by (rule brings_bind[OF stays_brings])

lemma brings_cases:
  "(\<And>e. r = Inl e \<Longrightarrow> brings w0 I P (f e)) \<Longrightarrow> (\<And>x. r = Inr x \<Longrightarrow> brings w0 I P (g x)) \<Longrightarrow>
     brings w0 I P (case r of Inl e \<Rightarrow> f e | Inr x \<Rightarrow> g x)"
  "(opt = None \<Longrightarrow> brings w0 I P m) \<Longrightarrow> (\<And>x. opt = Some x \<Longrightarrow> brings w0 I P (h x)) \<Longrightarrow>
     brings w0 I P (case opt of None \<Rightarrow> m | Some x \<Rightarrow> h x)"
  "(\<And>a b. p = (a, b) \<Longrightarrow> brings w0 I P (k a b)) \<Longrightarrow> brings w0 I P (case p of (a, b) \<Rightarrow> k a b)"
  "(c \<Longrightarrow> brings w0 I P m) \<Longrightarrow> (\<not> c \<Longrightarrow> brings w0 I P n) \<Longrightarrow> brings w0 I P (if c then m else n)"
  by (simp_all split: sum.split option.split prod.split)

lemma brings_run:
  assumes "brings w0 I P m" and "same_env w0 w" and "I w" and "run_state m w = (r, w')"
  shows "same_env w0 w' \<and> I w' \<and> P r"
  using assms unfolding brings_def stays_def gives_def by (metis fst_conv snd_conv)

section \<open>Git\<close>

text \<open>The runner works in a directory away from the data, and so does its helper file.\<close>

definition runner_away :: "world \<Rightarrow> git_runner \<Rightarrow> bool" where
  "runner_away w0 g \<longleftrightarrow> apart (gr_dir g) (data_dir w0) \<and>
     (case gr_askPass g of None \<Rightarrow> True | Some f \<Rightarrow> apart (butlast f) (data_dir w0))"

lemma runner_away_new [simp]: "runner_away w0 (newGitRunner d) \<longleftrightarrow> apart d (data_dir w0)"
  "runner_away w0 (withToken tok g) = runner_away w0 g"
  by (simp_all add: runner_away_def newGitRunner_def withToken_def)

lemma brings_ensureAskPass:
  assumes i: "scratch_inv I" and g: "runner_away w0 g"
  shows "brings w0 I (\<lambda>r. case r of Inl _ \<Rightarrow> True | Inr g' \<Rightarrow> runner_away w0 g') (ensureAskPass g)"
proof -
  have w: "stays w0 I (os_write (gr_dir g @ [f]) s)" for f s
    by (rule stays_os_write[OF i]) (use g in \<open>simp add: runner_away_def apart_append\<close>)
  show ?thesis
    unfolding ensureAskPass_def bindE_def Let_def
    by (intro brings_cases brings_after[OF w] brings_okE) (use g in \<open>simp_all add: runner_away_def\<close>)
qed

lemma brings_git_run:
  assumes i: "scratch_inv I" and m: "mild I x" and g: "runner_away w0 g"
  shows "brings w0 I (\<lambda>(_, _, g'). runner_away w0 g') (git_run x g args)"
  unfolding git_run_def Let_def
  by (rule brings_bind[OF brings_ensureAskPass[OF i g]])
     (auto intro!: brings_cases brings_return brings_after[OF stays_outside(2)[OF m]] simp: g split: sum.splits)

lemma stays_git_close: "scratch_inv I \<Longrightarrow> runner_away w0 g \<Longrightarrow> stays w0 I (git_close g)"
  unfolding git_close_def runner_away_def
  by (auto intro!: stays_bind stays_return stays_os_remove split: option.splits)

text \<open>A failure of the commit, with a runner that can be closed.\<close>

definition commit_end :: "world \<Rightarrow> commit_outcome \<times> (string \<times> err) option \<times> git_runner \<Rightarrow> bool" where
  "commit_end w0 r \<longleftrightarrow> (case r of (_, fl, g) \<Rightarrow> runner_away w0 g \<and>
     (case fl of None \<Rightarrow> True | Some (status, _) \<Rightarrow> status \<in> {deliveryStatusNoChanges, deliveryStatusGitFailed}))"

lemma brings_commit:
  assumes i: "scratch_inv I" and m: "mild I x" and g: "runner_away w0 g"
  shows "brings w0 I (commit_end w0) (gitCommitOnBranch x g branch message paths)"
proof -
  have fail: "brings w0 I (commit_end w0) (git_fail c st e g')"
    if "runner_away w0 g'" "st \<in> {deliveryStatusNoChanges, deliveryStatusGitFailed}" for c st e g'
    unfolding git_fail_def by (rule brings_return) (use that in \<open>simp add: commit_end_def\<close>)
  have staged: "brings w0 I (commit_end w0) (git_commit_staged x g' c)" if "runner_away w0 g'" for g' c
    unfolding git_commit_staged_def
    by (intro brings_after[OF stays_os_reads(3)] brings_cases brings_bind[OF brings_git_run[OF i m]] fail brings_return that)
       (auto simp: commit_end_def intro: that)
  show ?thesis
    unfolding gitCommitOnBranch_def Let_def
    by (intro brings_cases brings_bind[OF brings_git_run[OF i m]] fail staged) (auto intro: g)
qed

lemma push_refusal_status:
  "fst (push_refusal b out e) \<in> {deliveryStatusPushRejected, deliveryStatusMissingPushPermission, deliveryStatusPushFailed}"
  by (simp add: push_refusal_def Let_def)

definition push_end :: "world \<Rightarrow> (string \<times> err) option \<times> git_runner \<Rightarrow> bool" where
  "push_end w0 r \<longleftrightarrow> (case r of (fl, g) \<Rightarrow> runner_away w0 g \<and> (case fl of None \<Rightarrow> True | Some (status, _) \<Rightarrow>
     status \<in> {deliveryStatusPushRejected, deliveryStatusMissingPushPermission, deliveryStatusPushFailed}))"

lemma brings_push:
  assumes i: "scratch_inv I" and m: "mild I x" and g: "runner_away w0 g"
  shows "brings w0 I (push_end w0) (gitPushBranch x g url branch)"
proof -
  have "case map_option (push_refusal branch out) e of None \<Rightarrow> True | Some (status, _) \<Rightarrow>
      status \<in> {deliveryStatusPushRejected, deliveryStatusMissingPushPermission, deliveryStatusPushFailed}" for out e
    using push_refusal_status[of branch out] by (cases e) (auto simp: split_beta)
  then show ?thesis
    unfolding gitPushBranch_def
    by (intro brings_cases brings_bind[OF brings_git_run[OF i m]] brings_return) (auto simp: push_end_def g)
qed

section \<open>Statuses\<close>

text \<open>The statuses a failed delivery can have.\<close>

definition failure_statuses :: "string set" where
  "failure_statuses = {deliveryStatusNoChanges, deliveryStatusNotLinkedRepo, deliveryStatusPeerNotConfigured,
     deliveryStatusInvalidRequest, deliveryStatusWorkspaceUnavailable, deliveryStatusUnsafePath,
     deliveryStatusChangeSetTooLarge, deliveryStatusApplyFailed, deliveryStatusGitFailed, deliveryStatusPushRejected,
     deliveryStatusPushFailed, deliveryStatusMissingPushPermission, deliveryStatusMissingPRPermission,
     deliveryStatusUpstreamError}"

lemmas status_defs = deliveryStatusDelivered_def deliveryStatusNotLinkedRepo_def deliveryStatusPeerNotConfigured_def
  deliveryStatusTaskNotFound_def deliveryStatusInvalidRequest_def deliveryStatusGitFailed_def deliveryStatusPushRejected_def
  deliveryStatusPushFailed_def deliveryStatusMissingPushPermission_def deliveryStatusMissingPRPermission_def
  deliveryStatusUpstreamError_def deliveryStatusNoChanges_def deliveryStatusWorkspaceUnavailable_def
  deliveryStatusUnsafePath_def deliveryStatusChangeSetTooLarge_def deliveryStatusApplyFailed_def

lemma fault_status_failure [simp]: "deliveryFaultStatus e \<in> failure_statuses"
  by (simp add: deliveryFaultStatus_def failure_statuses_def split: option.split)

lemma apply_files_status:
  "run_state (apply_files x root files out) w = ((out', Some e), w') \<Longrightarrow>
   ao_status out' \<in> {deliveryStatusUnsafePath, deliveryStatusApplyFailed}"
proof (induction files arbitrary: out w)
  case (Cons f files)
  then show ?case
    by (auto simp: apply_files.simps(2) Let_def run split: if_splits prod.splits sum.splits option.splits bool.splits)
qed (simp add: run)

lemma applyChangeSet_status:
  "fst (run_state (applyChangeSet x d cs lim) w) = (out, Some e) \<Longrightarrow> or_text (ao_status out) deliveryStatusApplyFailed \<in> failure_statuses"
  unfolding applyChangeSet_def refuse_def Let_def
  by (auto simp: run or_text_def failure_statuses_def split: if_splits prod.splits option.splits)
     (auto dest!: apply_files_status simp: status_defs)

section \<open>The attempt\<close>

definition honest :: "attempt \<Rightarrow> bool" where
  "honest r \<longleftrightarrow> (case r of (res, fl) \<Rightarrow> (case fl of None \<Rightarrow> dr_status res = deliveryStatusDelivered
     | Some (status, _) \<Rightarrow> status \<in> failure_statuses))"

lemma brings_stop: "st \<in> failure_statuses \<Longrightarrow> brings w0 I honest (stop_at res st e)"
  unfolding stop_at_def by (rule brings_return) (simp add: honest_def)

lemma stays_peer_call: "mild I x \<Longrightarrow> stays w0 I (peerDeliveryCall x org user url body)"
  unfolding peerDeliveryCall_def by (intro stays_bind stays_return stays_outside(9))

lemma stays_credentials: "mild I x \<Longrightarrow> stays w0 I (peerPushCredentials x p user)"
  unfolding peerPushCredentials_def by (intro stays_bind stays_return stays_peer_call)

lemma stays_create_pr: "mild I x \<Longrightarrow> stays w0 I (peerCreatePullRequest x p user t b h bs d)"
  unfolding peerCreatePullRequest_def by (intro stays_bind stays_return stays_peer_call)

lemma brings_open_pull_request:
  "mild I x \<Longrightarrow> brings w0 I honest (open_pull_request x p t cs res files branch base draft user)"
  unfolding open_pull_request_def Let_def
  by (intro brings_after[OF stays_create_pr] brings_cases brings_stop brings_return)
     (simp_all add: honest_def delivered_result_def)

lemma failure_status_simps [simp]:
  "deliveryStatusNoChanges \<in> failure_statuses" "deliveryStatusInvalidRequest \<in> failure_statuses"
  "deliveryStatusWorkspaceUnavailable \<in> failure_statuses" "deliveryStatusGitFailed \<in> failure_statuses"
  "deliveryStatusPushRejected \<in> failure_statuses" "deliveryStatusPushFailed \<in> failure_statuses"
  "deliveryStatusMissingPushPermission \<in> failure_statuses" "deliveryStatusUpstreamError \<in> failure_statuses"
  "deliveryStatusNotLinkedRepo \<in> failure_statuses" "deliveryStatusPeerNotConfigured \<in> failure_statuses"
  by (simp_all add: failure_statuses_def)

lemma brings_push_and_open:
  assumes i: "scratch_inv I" and m: "mild I x" and g: "runner_away w0 g"
  shows "brings w0 I honest (push_and_open x g p t cs res files branch base draft user)"
proof -
  have push: "brings w0 I honest (do {
      _ \<leftarrow> git_close g1;
      case fl of Some (status, e) \<Rightarrow> stop_at res status (Plain e)
      | None \<Rightarrow> open_pull_request x p t cs res files branch base draft user })" if "push_end w0 (fl, g1)" for fl g1
    using that
    by (intro brings_after[OF stays_git_close[OF i]] brings_cases brings_stop brings_open_pull_request m)
       (auto simp: push_end_def)
  show ?thesis
    unfolding push_and_open_def
    by (intro brings_after[OF stays_credentials[OF m]] brings_cases(1) brings_after[OF stays_git_close[OF i g]] brings_stop
        brings_bind[OF brings_push[OF i m]]) (use g push in \<open>auto intro!: brings_cases(3)\<close>)
qed

lemma brings_deliver_applied:
  assumes i: "scratch_inv I" and m: "mild I x" and d: "apart d (data_dir w0)"
  shows "brings w0 I honest (deliver_applied x p t cs d out wb wbase draft user)"
proof -
  have commit: "brings w0 I honest (case fl of
      Some (status, e) \<Rightarrow> do { _ \<leftarrow> git_close g; stop_at res status (Plain e) }
    | None \<Rightarrow> push_and_open x g p t cs res' files branch base draft user)"
    if "commit_end w0 (c, fl, g)" for c fl g res res' files branch base
    using that
    by (intro brings_cases brings_after[OF stays_git_close[OF i]] brings_stop brings_push_and_open[OF i m])
       (auto simp: commit_end_def)
  show ?thesis
    unfolding deliver_applied_def Let_def
    by (intro brings_after[OF stays_os_reads(3)] brings_cases(4) brings_stop brings_bind[OF brings_commit[OF i m]])
       (use d commit in \<open>auto intro!: brings_cases(3)\<close>)
qed

lemma stays_workspaceIsStub: "stays w0 I (workspaceIsStub d)"
  unfolding workspaceIsStub_def by (intro stays_bind stays_return stays_os_reads)

lemma brings_applyChangeSet:
  assumes "mild I x" and "scratch_inv I" and "apart d (data_dir w0)"
  shows "brings w0 I (\<lambda>(out, e). e \<noteq> None \<longrightarrow> or_text (ao_status out) deliveryStatusApplyFailed \<in> failure_statuses)
     (applyChangeSet x d cs lim)"
  unfolding brings_def gives_def
  using stays_applyChangeSet[OF assms, of cs lim] applyChangeSet_status[of x d cs lim]
  by (auto split: prod.split)

lemma brings_deliver_in:
  assumes i: "scratch_inv I" and m: "mild I x" and r: "plain rid"
  shows "brings w0 I honest (deliver_in x p t cs wb wbase draft user rid)"
proof -
  have ws: "brings w0 I (dir_away w0) (prepareJobWorkspace x p rid user)"
    unfolding brings_def using stays_prepareJobWorkspace[OF m i r] gives_workspace(1)[OF i r] by blast
  have ap: "brings w0 I honest (do {
      (applied, ae) \<leftarrow> applyChangeSet x d cs lim;
      case ae of
        Some e \<Rightarrow> stop_at (zero_result\<lparr>dr_files := ao_applied applied, dr_skipped := ao_skipped applied\<rparr>)
          (or_text (ao_status applied) deliveryStatusApplyFailed) (Plain e)
      | None \<Rightarrow> deliver_applied x p t cs d applied wb wbase draft user })" if "apart d (data_dir w0)" for d lim
    by (rule brings_bind[OF brings_applyChangeSet[OF m i that]])
       (auto intro!: brings_cases(2) brings_stop brings_deliver_applied[OF i m that])
  show ?thesis
    unfolding deliver_in_def
  proof (rule brings_bind[OF ws])
    fix r1 assume d: "dir_away w0 r1"
    show "brings w0 I honest (case r1 of
        Inl e \<Rightarrow> stop_at zero_result deliveryStatusWorkspaceUnavailable (Wrap ''preparing the delivery workspace: '' (Plain e))
      | Inr workDir \<Rightarrow> do {
          stub \<leftarrow> workspaceIsStub workDir;
          if stub then stop_at zero_result deliveryStatusWorkspaceUnavailable (no_clone_error p)
          else do {
            lim \<leftarrow> asks deliveryLimits;
            (applied, ae) \<leftarrow> applyChangeSet x workDir cs lim;
            case ae of
              Some e \<Rightarrow> stop_at (zero_result\<lparr>dr_files := ao_applied applied, dr_skipped := ao_skipped applied\<rparr>)
                (or_text (ao_status applied) deliveryStatusApplyFailed) (Plain e)
            | None \<Rightarrow> deliver_applied x p t cs workDir applied wb wbase draft user } })"
      by (intro brings_cases(1,4) brings_stop brings_after[OF stays_workspaceIsStub] brings_after[OF stays_os_reads(3)] ap)
         (use d in \<open>simp_all add: dir_away_def\<close>)
  qed
qed

lemma stays_cleanup:
  assumes i: "scratch_inv I" and r: "plain rid"
  shows "stays w0 I (cleanupRunnerScratch rid)"
  unfolding cleanupRunnerScratch_def
  by (intro stays_cases(4) stays_return stays_asks stays_bind stays_os_remove_all[OF i])
     (use inv_roots(1)[OF i] r in \<open>simp add: path_join_plain apart_append\<close>)

definition uuids_plain :: "world \<Rightarrow> bool" where
  "uuids_plain w \<longleftrightarrow> (\<forall>k. CHR ''/'' \<notin> set (uuid_at w k))"

lemma plain_delivery_id: "CHR ''/'' \<notin> set u \<Longrightarrow> plain (''deliver-'' @ u)"
  by (simp add: plain_def)

lemma brings_runDelivery:
  assumes i: "scratch_inv I" and m: "mild I x" and u: "holds I uuid_new" "\<And>w. I w \<Longrightarrow> uuids_plain w"
  shows "brings w0 I honest (runDelivery x p t cs wb wbase draft user)"
proof -
  have "brings w0 I (\<lambda>u. CHR ''/'' \<notin> set u) uuid_new"
    unfolding brings_def gives_def using stays_holds[OF u(1)] u(2) by (auto simp: run uuids_plain_def)
  then show ?thesis
    unfolding runDelivery_def
  proof (rule brings_bind)
    fix u assume "CHR ''/'' \<notin> set u"
    note pl = plain_delivery_id[OF this]
    show "brings w0 I honest (do {
        r \<leftarrow> deliver_in x p t cs wb wbase draft user (''deliver-'' @ u);
        _ \<leftarrow> cleanupRunnerScratch (''deliver-'' @ u);
        State_Monad.return r })"
      by (intro brings_bind[OF brings_deliver_in[OF i m pl]] brings_after[OF stays_cleanup[OF i pl]] brings_return)
  qed
qed

lemma settled_uuid: "holds (settled pid p sid s) uuid_new"
  by (simp add: holds_def keeps_def run same_env_def settled_def scratch_apart_def)

lemma settled_uuids: "settled pid p sid s w \<Longrightarrow> uuids_plain w"
  using rep_jobs_ok by (auto simp: settled_def uuids_plain_def jobs_ok_def)

end
