(* ===== verification/Sync_Laws.thy ===== *)
theory Sync_Laws
  imports Handlers Delivery_Theorems
begin

text \<open>
  How an action leads from the documents of a task to the documents it leaves, and the laws of
  the sync with GitHub in these terms.
\<close>

section \<open>From documents to documents\<close>

text \<open>From every world that stores \<open>s\<close> the action ends in one that stores documents which, with its
  result, satisfy \<open>R\<close>.\<close>

definition leads :: "project \<Rightarrow> string \<Rightarrow> docs \<Rightarrow> 'a act \<Rightarrow> ('a \<Rightarrow> docs \<Rightarrow> bool) \<Rightarrow> bool" where
  "leads p sid s m R \<longleftrightarrow> (\<forall>w. rep w (p_id p) p sid s \<longrightarrow>
     (\<exists>s'. rep (snd (run_state m w)) (p_id p) p sid s' \<and> R (fst (run_state m w)) s'))"

lemma leads_run:
  assumes "leads p sid s m R" and "rep w (p_id p) p sid s"
  obtains a w' s' where "run_state m w = (a, w')" and "rep w' (p_id p) p sid s'" and "R a s'"
  using assms unfolding leads_def by (metis prod.collapse)

lemma leads_return: "R a s \<Longrightarrow> leads p sid s (State_Monad.return a) R"
  by (auto simp: leads_def)

lemma leads_bind:
  assumes "leads p sid s m Q" and "\<And>a s'. Q a s' \<Longrightarrow> leads p sid s' (f a) R"
  shows "leads p sid s (State_Monad.bind m f) R"
  using assms unfolding leads_def by (auto simp: run_state_bind split: prod.split)

lemma leads_weaken: "leads p sid s m Q \<Longrightarrow> (\<And>a s'. Q a s' \<Longrightarrow> R a s') \<Longrightarrow> leads p sid s m R"
  unfolding leads_def by blast

lemma leads_quiet: "quiet (p_id p) p sid m \<Longrightarrow> leads p sid s m (\<lambda>_ s'. s' = s)"
  by (auto simp: leads_def dest: quietD)

lemma leads_skip:
  assumes "quiet (p_id p) p sid m" and "\<And>a. leads p sid s (f a) R"
  shows "leads p sid s (State_Monad.bind m f) R"
  by (rule leads_bind[OF leads_quiet[OF assms(1)]]) (simp add: assms(2))

lemma quiet_asks: "quiet pid p sid (asks g)"
  by (simp add: quiet_def keeps_def run)

lemma leads_GetTask:
  "leads p sid s (GetTask (p_id p) sid) (\<lambda>r s'. s' = s \<and> (\<exists>t. r = Inr t \<and> untimed t = d_task s))"
  unfolding leads_def
proof (intro allI impI)
  fix w assume r: "rep w (p_id p) p sid s"
  obtain t where "run_state (GetTask (p_id p) sid) w = (Inr t, w)" "untimed t = d_task s" by (rule rep_GetTask[OF r])
  then show "\<exists>s'. rep (snd (run_state (GetTask (p_id p) sid) w)) (p_id p) p sid s' \<and> s' = s \<and>
      (\<exists>t. fst (run_state (GetTask (p_id p) sid) w) = Inr t \<and> untimed t = d_task s)"
    using r by auto
qed

text \<open>A change of the task that leaves its place on the board alone.\<close>

definition calm :: "(task \<Rightarrow> task) \<Rightarrow> bool" where
  "calm f \<longleftrightarrow> (\<forall>t. untimed (f t) = f (untimed t) \<and> t_status (f t) = t_status t \<and> t_specId (f t) = t_specId t)"

lemma leads_MutateTask:
  assumes "calm f"
  shows "leads p sid s (MutateTask (p_id p) sid f)
    (\<lambda>r s'. s' = s\<lparr>d_task := f (d_task s)\<rparr> \<and> (\<exists>t. r = Inr t \<and> untimed t = f (d_task s)))"
  unfolding leads_def
proof (intro allI impI)
  fix w assume r: "rep w (p_id p) p sid s"
  have keep: "t_status (f t) = t_status t" "t_specId (f t) = t_specId t" for t using assms by (auto simp: calm_def)
  obtain t t' w1 where m: "task_at w (p_id p) sid = Some t" "run_state (MutateTask (p_id p) sid f) w = (Inr t', w1)"
    "untimed t' = untimed (f t)" "rep w1 (p_id p) p sid (s\<lparr>d_task := untimed (f t)\<rparr>)"
    by (rule rep_MutateTask[OF r keep])
  have "untimed (f t) = f (d_task s)" using rep_task[OF r] m(1) assms by (auto simp: calm_def)
  then show "\<exists>s'. rep (snd (run_state (MutateTask (p_id p) sid f) w)) (p_id p) p sid s' \<and>
      s' = s\<lparr>d_task := f (d_task s)\<rparr> \<and> (\<exists>t. fst (run_state (MutateTask (p_id p) sid f) w) = Inr t \<and> untimed t = f (d_task s))"
    using m by auto
qed

lemma leads_MoveTask:
  assumes "c \<in> set BoardColumns"
  shows "leads p sid s (MoveTask (p_id p) sid c)
    (\<lambda>r s'. s' = d_move sid c s \<and> (\<exists>t. r = Inr t \<and> untimed t = d_task s'))"
  unfolding leads_def
proof (intro allI impI)
  fix w assume r: "rep w (p_id p) p sid s"
  obtain k where k: "c = column_name k" using assms by (auto simp: in_BoardColumns_iff)
  obtain t w' where "run_state (MoveTask (p_id p) sid (column_name k)) w = (Inr t, w')"
    "rep w' (p_id p) p sid (d_move sid (column_name k) s)" "untimed t = (d_task s)\<lparr>t_status := column_name k\<rparr>"
    by (rule rep_MoveTask[OF r])
  then show "\<exists>s'. rep (snd (run_state (MoveTask (p_id p) sid c) w)) (p_id p) p sid s' \<and>
      s' = d_move sid c s \<and> (\<exists>t. fst (run_state (MoveTask (p_id p) sid c) w) = Inr t \<and> untimed t = d_task s')"
    using k by auto
qed

text \<open>The peers do not touch the task's documents.\<close>

definition hands_off :: "externals \<Rightarrow> project \<Rightarrow> string \<Rightarrow> bool" where
  "hands_off x p sid \<longleftrightarrow> (\<forall>s. mild (\<lambda>w. rep w (p_id p) p sid s) x)"

lemma quiet_peer:
  assumes "hands_off x p sid"
  shows "quiet (p_id p) p sid (x_ora_post x g u url b)" "quiet (p_id p) p sid (x_peer_json x g u c url b)"
  using assms unfolding hands_off_def mild_def holds_def quiet_def keeps_def by blast+

lemma quiet_issue_call: "hands_off x p sid \<Longrightarrow> quiet (p_id p) p sid (peerIssueCall x g u url b)"
  unfolding peerIssueCall_def by (intro quiet_bind quiet_peer(1)) (simp_all add: quiet_def keeps_def)

lemma plain_sync_logs [simp]: "plain ''github-issue-sync.log''" "plain ''github-project-sync.log''" "plain ''github-milestone-sync.log''"
  by (simp_all add: plain_def)

lemma quiet_sync_logs: "quiet pid p sid (AppendSpecLog pid sid ''github-issue-sync'' l)"
  "quiet pid p sid (AppendSpecLog pid sid ''github-project-sync'' l)"
  "quiet pid p sid (AppendSpecLog pid sid ''github-milestone-sync'' l)"
  by (rule quiet_AppendSpecLog, simp)+

lemma quiet_sync_log: "quiet (p_id p) p sid (sync_log p sid line)"
  unfolding sync_log_def by (intro quiet_bind quiet_env quiet_sync_logs quiet_return)

lemma calm_sync [simp]: "calm (issue_failed_task a b)" "calm clearIssueLink" "calm (applyIssueMirror m now)"
  "calm (adopt_title ad m)" "calm (project_failed_task a b)" "calm (project_synced_task gh item now)" "calm clearProjectLink"
  "calm clearMilestoneLink" "calm id"
  by (simp_all add: calm_def untimed_def issue_failed_task_def clearIssueLink_def applyIssueMirror_def Let_def
      adopt_title_def adopts_def project_failed_task_def project_synced_task_def clearProjectLink_def clearMilestoneLink_def)

lemma calm_comp [simp]: "calm f \<Longrightarrow> calm g \<Longrightarrow> calm (\<lambda>t. f (g t))"
  by (simp add: calm_def)

lemma leads_mirror:
  assumes "calm f"
  shows "leads p sid s (mirror_task p sid m f)
    (\<lambda>r s'. \<exists>now. s' = s\<lparr>d_task := f (applyIssueMirror m now (d_task s))\<rparr> \<and> (\<exists>t. r = Inr t \<and> untimed t = d_task s'))"
  unfolding mirror_task_def
  by (rule leads_skip[OF quiet_env(1)], rule leads_weaken[OF leads_MutateTask]) (use assms in auto)


text \<open>The task's status is a column of the board, and its id is the spec's.\<close>

lemma rep_status:
  assumes "rep w pid p sid s"
  shows "t_status (d_task s) \<in> set BoardColumns" and "t_specId (d_task s) = sid"
proof -
  obtain t where t: "task_at w pid sid = Some t" "untimed t = d_task s" using rep_task[OF assms] by blast
  have e: "t_status (d_task s) = t_status t" "t_specId (d_task s) = t_specId t" using t(2) untimed_sel by metis+
  have "card_ok w pid (kanban_of (d_board s)) sid"
    using rep_consistent[OF assms] rep_board[OF assms] rep_plain[OF assms] by (simp add: consistent_def)
  then obtain c where "column_of (t_status t) = Some c" "t_specId t = sid"
    using t(1) by (auto simp: card_ok_def split: option.splits)
  then show "t_status (d_task s) \<in> set BoardColumns" "t_specId (d_task s) = sid"
    unfolding e by (auto simp: in_BoardColumns_iff column_of_Some)
qed

section \<open>Issues\<close>

text \<open>What a refused sync leaves: the reason on the task, and an answer that is not a success.\<close>

definition sync_refused :: "string \<Rightarrow> docs \<Rightarrow> reply \<Rightarrow> docs \<Rightarrow> bool" where
  "sync_refused what s a s' \<longleftrightarrow> (\<exists>reason. s' = s\<lparr>d_task := issue_failed_task what reason (d_task s)\<rparr> \<and>
     (\<exists>code l. a = Fields code l \<and> code \<in> {403, 404, 502} \<and> map_of l ''error'' = Some (PJson (JStr reason))))"

lemma issueHTTPStatus_code: "issueHTTPStatus e = (code, st) \<Longrightarrow> code \<in> {403, 404, 502}"
  by (auto simp: issueHTTPStatus_def split: option.splits if_splits)

lemma leads_recordIssueFailure: "leads p sid s (recordIssueFailure p sid what e) (sync_refused what s)"
proof -
  obtain code st where c: "issueHTTPStatus e = (code, st)" by (cases "issueHTTPStatus e")
  show ?thesis
    unfolding recordIssueFailure_def c Let_def prod.case
    by (rule leads_bind[OF leads_MutateTask], simp, rule leads_skip[OF quiet_env(1)], rule leads_skip[OF quiet_sync_logs(1)],
        rule leads_return) (use issueHTTPStatus_code[OF c] in \<open>auto simp: sync_refused_def jfields_def\<close>)
qed

definition linked_repo :: "project \<Rightarrow> bool" where
  "linked_repo p \<longleftrightarrow> \<not> blank (p_ownerRepo p) \<and> \<not> blank (p_connectorId p)"

lemma leads_issueSyncContext:
  assumes "linked_repo p" and "\<not> blank sid" and "req \<longrightarrow> 0 < t_issueNumber (d_task s)"
  shows "leads p sid s (issueSyncContext p sid req) (\<lambda>c s'. s' = s \<and> (\<exists>t. c = Inr t \<and> untimed t = d_task s))"
proof -
  have n: "t_issueNumber (untimed t) = t_issueNumber t" for t by (simp add: untimed_def)
  show ?thesis
    unfolding issueSyncContext_def
    using assms by (auto simp: linked_repo_def intro!: leads_bind[OF leads_GetTask] leads_return) (metis n not_le)
qed

section \<open>Pulling\<close>

definition moved_by :: "issue_meta \<Rightarrow> string \<Rightarrow> docs \<Rightarrow> docs" where
  "moved_by m sid s = (case columnForIssueState (im_state m) (t_status (d_task s)) of
       None \<Rightarrow> s | Some c \<Rightarrow> d_move sid c s)"

lemma pulled_column: "columnForIssueState st cur = Some c \<Longrightarrow> c \<in> set BoardColumns"
  by (auto simp: columnForIssueState_def Let_def BoardColumns_def columns_def split: if_splits)

lemma leads_pull_column:
  assumes "untimed t = d_task s"
  shows "leads p sid s (pull_column p sid m t) (\<lambda>r s'. s' = moved_by m sid s \<and>
    fst r = columnForIssueState (im_state m) (t_status (d_task s)) \<and> untimed (snd r) = d_task s')"
proof -
  have st: "t_status t = t_status (d_task s)" using assms untimed_sel(1) by metis
  show ?thesis
  proof (cases "columnForIssueState (im_state m) (t_status t)")
    case None
    then show ?thesis using st assms by (auto simp: pull_column_def moved_by_def intro!: leads_return)
  next
    case (Some c)
    then have m: "moved_by m sid s = d_move sid c s" "columnForIssueState (im_state m) (t_status (d_task s)) = Some c"
      using st by (simp_all add: moved_by_def)
    show ?thesis
      unfolding pull_column_def Some option.case m
      by (intro leads_bind[OF leads_MoveTask[OF pulled_column[OF Some]]]) (auto intro!: leads_return)
  qed
qed

definition pulled :: "bool \<Rightarrow> issue_meta \<Rightarrow> time \<Rightarrow> string \<Rightarrow> docs \<Rightarrow> docs" where
  "pulled adopt m now sid s = moved_by m sid (s\<lparr>d_task := adopt_title adopt m (applyIssueMirror m now (d_task s))\<rparr>)"

lemma mirrored_fields [simp]:
  "t_description (applyIssueMirror m now t) = t_description t" "t_title (applyIssueMirror m now t) = t_title t"
  "t_status (applyIssueMirror m now t) = t_status t" "t_issueState (applyIssueMirror m now t) = im_state m"
  "t_issueNumber (applyIssueMirror m now t) = im_number m" "t_description (adopt_title ad m t) = t_description t"
  "t_status (adopt_title ad m t) = t_status t" "t_issueState (adopt_title ad m t) = t_issueState t"
  "t_issueNumber (adopt_title ad m t) = t_issueNumber t" "\<not> ad \<Longrightarrow> adopt_title ad m t = t"
  by (simp_all add: applyIssueMirror_def adopt_title_def adopts_def Let_def)

lemma leads_pull_done:
  "leads p sid s (pull_done p sid adopt m) (\<lambda>a s'. \<exists>now changed t. s' = pulled adopt m now sid s \<and>
     a = pull_answer sid m changed (columnForIssueState (im_state m) (t_status (d_task s))) t \<and> untimed t = d_task s')"
proof -
  have "leads p sid (s\<lparr>d_task := adopt_title adopt m (applyIssueMirror m now (d_task s))\<rparr>)
      (do { (moved, t') \<leftarrow> pull_column p sid m t; _ \<leftarrow> sync_log p sid (l moved); State_Monad.return (pull_answer sid m (c moved) moved t') })
      (\<lambda>a s'. \<exists>now changed t. s' = pulled adopt m now sid s \<and>
         a = pull_answer sid m changed (columnForIssueState (im_state m) (t_status (d_task s))) t \<and> untimed t = d_task s')"
    if "untimed t = adopt_title adopt m (applyIssueMirror m now (d_task s))" for t now l c
  proof (rule leads_bind[OF leads_pull_column])
    let ?s = "s\<lparr>d_task := adopt_title adopt m (applyIssueMirror m now (d_task s))\<rparr>"
    fix r s' assume h: "s' = moved_by m sid ?s \<and> fst r = columnForIssueState (im_state m) (t_status (d_task ?s)) \<and>
      untimed (snd r) = d_task s'"
    obtain mv t' where rr: "r = (mv, t')" by (cases r)
    have "s' = pulled adopt m now sid s" "mv = columnForIssueState (im_state m) (t_status (d_task s))" "untimed t' = d_task s'"
      using h by (simp_all add: rr pulled_def)
    then show "leads p sid s' (case r of (moved, t') \<Rightarrow> do {
        _ \<leftarrow> sync_log p sid (l moved); State_Monad.return (pull_answer sid m (c moved) moved t') })
      (\<lambda>a s'. \<exists>now changed t. s' = pulled adopt m now sid s \<and>
         a = pull_answer sid m changed (columnForIssueState (im_state m) (t_status (d_task s))) t \<and> untimed t = d_task s')"
      unfolding rr prod.case by (intro leads_skip[OF quiet_sync_log] leads_return) blast
  qed (use that in simp)
  then show ?thesis
    unfolding pull_done_def Let_def
    by (intro leads_bind[OF leads_GetTask] leads_bind[OF leads_mirror]) auto
qed

section \<open>Pushing\<close>

lemma leads_push_done:
  "leads p sid s (push_done p sid t m l) (\<lambda>a s'. \<exists>now. s' = s\<lparr>d_task := applyIssueMirror m now (d_task s)\<rparr> \<and> reply_code a = 200)"
  unfolding push_done_def
  by (rule leads_bind[OF leads_mirror]) (auto intro!: leads_skip[OF quiet_sync_log] leads_return)

lemma quiet_issue_calls:
  assumes "hands_off x p sid"
  shows "quiet (p_id p) p sid (peerGetIssue x p user n)" "quiet (p_id p) p sid (peerUpdateIssue x p user n ti b st ms lb)"
    "quiet (p_id p) p sid (peerCreateIssue x p user ti b labels ms)" "quiet (p_id p) p sid (peerUpsertProjectItem x p user gh it ti b hint)"
    "quiet (p_id p) p sid (peerSetProjectItemStatus x p user gh it hint)"
  unfolding peerGetIssue_def peerUpdateIssue_def peerCreateIssue_def peerUpsertProjectItem_def peerSetProjectItemStatus_def
  by (rule quiet_issue_call[OF assms])+

text \<open>A route that needs the link: context, call, and the issue's answer.\<close>

lemma leads_linked_route:
  assumes ho: "hands_off x p sid" and "linked_repo p" and "\<not> blank sid" and "0 < t_issueNumber (d_task s)"
    and "\<And>t. quiet (p_id p) p sid (call t)" and "\<And>t r m. leads p sid s (done t r m) R"
    and "\<And>a s'. sync_refused what s a s' \<Longrightarrow> R a s'"
  shows "leads p sid s (do {
     c \<leftarrow> issueSyncContext p sid True;
     case c of Inl a \<Rightarrow> State_Monad.return a
     | Inr t \<Rightarrow> do {
         r \<leftarrow> call t;
         case issue_answer r of Inl e \<Rightarrow> recordIssueFailure p sid what e | Inr m \<Rightarrow> done t r m } }) R"
proof (rule leads_bind[OF leads_issueSyncContext[OF assms(2,3)]], goal_cases)
  case (2 c s')
  then show ?case
    by (auto intro!: leads_skip[OF assms(5)] assms(6) leads_weaken[OF leads_recordIssueFailure] assms(7) split: sum.split)
qed (use assms(4) in simp)

end
