(* ===== verification/Registry_Theorems.thy ===== *)
theory Registry_Theorems
  imports Demo
begin

text \<open>
  The properties of the registry: row ids stay distinct, an organization sees its own rows
  only, deleting forgets a project and nothing else, and what linking a repository
  guarantees.
\<close>

section \<open>The rows after a write\<close>

definition rows :: "world \<Rightarrow> project list" where
  "rows w = (case look w (registryPath w) of Some (File (DProjects ps)) \<Rightarrow> ps | _ \<Rightarrow> [])"

text \<open>The store is open: the registry document is there and no write fails.\<close>

definition opened :: "world \<Rightarrow> bool" where
  "opened w \<longleftrightarrow> faults w = [] \<and> fs_wf w \<and>
     (case look w (registryPath w) of Some (File (DProjects _)) \<Rightarrow> True | _ \<Rightarrow> False)"

lemma opened_registry: "opened w \<Longrightarrow> registry_at w (rows w)"
  by (auto simp: opened_def registry_at_def rows_def split: option.splits node.splits doc.splits)

lemma registry_rows: "registry_at w ps \<Longrightarrow> rows w = ps"
  by (simp add: registry_at_def rows_def)

lemma opened_ticks [simp]: "opened (w\<lparr>ticks := n\<rparr>) = opened w" "opened (w\<lparr>uuids := n\<rparr>) = opened w"
  by (simp_all add: opened_def)

lemma rows_ticks [simp]: "rows (w\<lparr>ticks := n\<rparr>) = rows w" "rows (w\<lparr>uuids := n\<rparr>) = rows w"
  by (simp_all add: rows_def)

definition with_rows :: "project list \<Rightarrow> world \<Rightarrow> world" where
  "with_rows ps w = put_node (registryPath w) (File (DProjects ps)) w"

lemma registryPath_ne [simp]: "registryPath w \<noteq> []"
  by (simp add: registryPath_def)

lemma run_write_registry:
  assumes "opened w"
  shows "run_state (write_registry ps) w = (Inr (), with_rows ps w)"
proof -
  obtain qs where qs: "look w (registryPath w) = Some (File (DProjects qs))"
    using assms opened_registry by (auto simp: registry_at_def)
  have "look w (data_dir w) = Some Dir"
    using assms qs fs_wf_parent[of w "data_dir w" "''projects.json''"] by (simp add: opened_def registryPath_def)
  then show ?thesis
    using assms qs
    by (simp add: write_registry_def run opened_def run_writeJSON_wf with_rows_def registryPath_def)
qed

lemma with_rows_rows [simp]: "rows (with_rows ps w) = ps"
  by (simp add: rows_def with_rows_def look_put_node)

lemma opened_with_rows:
  assumes "opened w"
  shows "opened (with_rows ps w)"
proof -
  have "fs_wf (with_rows ps w)"
    using wf_run[OF _ _ run_write_registry[OF assms]] assms
    by (auto simp: opened_def write_registry_def intro!: wfr.keeps_bind frame)
  then show ?thesis using assms by (simp add: opened_def with_rows_def look_put_node)
qed

lemma ensureLayout_rows:
  assumes "plain (p_id p)"
  shows "rows (snd (run_state (ensureLayout p) w)) = rows w"
proof -
  let ?w = "snd (run_state (ensureLayout p) w)"
  have pt: "ptouch (p_id p) w ?w"
    using keeps_ensureLayout_at[of "projectDir w p" w p] by (simp add: ptouch_def projectDir_pdir)
  have "look ?w (registryPath w) = look w (registryPath w)" by (rule ptouch_registry[OF pt assms])
  moreover have "data_dir ?w = data_dir w"
    using touches_same_env[OF pt[unfolded ptouch_def]] by (simp add: same_env_def)
  ultimately show ?thesis by (simp add: rows_def registryPath_def)
qed

text \<open>Writing rows and then laying out one project leaves those rows.\<close>

lemma commit_rows:
  assumes "opened w" and "plain (p_id p)"
  shows "rows (snd (run_state (bindE (write_registry ps) (\<lambda>_. bindE (ensureLayout p) (\<lambda>_. okE x))) w)) = ps"
proof -
  let ?w1 = "with_rows ps w"
  obtain r w2 where l: "run_state (ensureLayout p) ?w1 = (r, w2)" by (cases "run_state (ensureLayout p) ?w1")
  then have "rows w2 = ps" using ensureLayout_rows[OF assms(2), of ?w1] by simp
  then show ?thesis using l by (cases r) (simp_all add: run run_write_registry[OF assms(1)])
qed

lemma layout_only_rows:
  assumes "plain (p_id p)"
  shows "rows (snd (run_state (bindE (ensureLayout p) (\<lambda>_. okE x)) w)) = rows w"
proof -
  obtain r w2 where l: "run_state (ensureLayout p) w = (r, w2)" by (cases "run_state (ensureLayout p) w")
  then show ?thesis using ensureLayout_rows[OF assms, of w] by (cases r) (simp_all add: run)
qed

section \<open>What each operation makes of the rows\<close>

lemma CreateProject_rows:
  assumes "opened w" and "plain (uuid_at w (uuids w))"
  shows "rows (snd (run_state (CreateProject inp) w)) = rows w \<or>
    (\<exists>p. p_id p = uuid_at w (uuids w) \<and> p_ownerRepo p = normalizeOwnerRepo (p_ownerRepo inp) \<and>
       p_ownerRepo p \<noteq> [] \<and> p_organizationId p = normalizeWriteOrg (tenant w) (p_organizationId inp) \<and>
       list_all (\<lambda>q. normalizeOwnerRepo (p_ownerRepo q) \<noteq> p_ownerRepo p) (rows w) \<and>
       rows (snd (run_state (CreateProject inp) w)) = rows w @ [p])"
proof -
  let ?or = "normalizeOwnerRepo (p_ownerRepo inp)"
  let ?w1 = "w\<lparr>ticks := Suc (ticks w), uuids := Suc (uuids w)\<rparr>"
  have rr: "run_state read_registry w = (Inr (rows w), w)"
    by (rule run_read_registry[OF opened_registry[OF assms(1)]])
  consider (rej) "?or = [] \<or> trim_space (p_connectorId inp) = [] \<or>
      list_ex (\<lambda>p. normalizeOwnerRepo (p_ownerRepo p) = ?or) (rows w)"
    | (new) "?or \<noteq> []" "trim_space (p_connectorId inp) \<noteq> []"
      "\<not> list_ex (\<lambda>p. normalizeOwnerRepo (p_ownerRepo p) = ?or) (rows w)" by blast
  then show ?thesis
  proof cases
    case rej
    then show ?thesis using rr by (auto simp: CreateProject_def Let_def run)
  next
    case new
    define p where "p = new_project (uuid_at w (uuids w))
        (if trim_space (p_name inp) = [] then repo_name ?or else trim_space (p_name inp)) ?or
        (trim_space (p_githubRepoId inp)) (trim_space (p_connectorId inp))
        (normalizeWriteOrg (tenant w) (p_organizationId inp))
        (if trim_space (p_htmlUrl inp) = [] then github_url ?or else trim_space (p_htmlUrl inp))
        (nz (trim_space (p_defaultBranch inp)) ''main'') (clock_at w (ticks w))"
    have p: "p_id p = uuid_at w (uuids w)" "p_ownerRepo p = ?or"
      "p_organizationId p = normalizeWriteOrg (tenant w) (p_organizationId inp)"
      by (simp_all add: p_def new_project_def)
    have run1: "run_state (CreateProject inp) w =
        run_state (bindE (write_registry (rows w @ [p])) (\<lambda>_. bindE (ensureLayout p) (\<lambda>_. okE p))) ?w1"
      using new rr
      by (simp add: CreateProject_def Let_def run p_def cong: prod.case_cong sum.case_cong)
    have "rows (snd (run_state (CreateProject inp) w)) = rows w @ [p]"
      unfolding run1 by (rule commit_rows) (use assms p in simp_all)
    then show ?thesis using new p by (auto simp: list_ex_iff list_all_iff)
  qed
qed

lemma enrich_when_id: "(\<And>q. p_id (f q) = p_id q) \<Longrightarrow> p_id (fst (enrich_when c f pc)) = p_id (fst pc)"
  by (simp add: enrich_when_def)

lemma enrich_project_id: "p_id (fst (enrich_project tc i p)) = p_id p"
  by (simp add: enrich_project_def enrich_when_id)

lemma EnsureProject_rows:
  assumes o: "opened w" and pl: "plain (trim_space (p_id inp))"
    and rows_plain: "list_all (\<lambda>p. plain (p_id p)) (rows w)"
  shows "(\<exists>f. (\<forall>q. p_id q = trim_space (p_id inp) \<longrightarrow> p_id (f q) = p_id q) \<and>
            rows (snd (run_state (EnsureProject inp) w)) =
              update_first (\<lambda>p. p_id p = trim_space (p_id inp)) f (rows w)) \<or>
    (List.find (\<lambda>p. p_id p = trim_space (p_id inp)) (rows w) = None \<and>
      (\<exists>p. p_id p = trim_space (p_id inp) \<and> rows (snd (run_state (EnsureProject inp) w)) = rows w @ [p]))"
proof -
  let ?i = "ensure_input (tenant w) inp"
  let ?P = "\<lambda>p. p_id p = trim_space (p_id inp)"
  have id: "p_id ?i = trim_space (p_id inp)" by (simp add: ensure_input_def Let_def)
  have ne: "p_id ?i \<noteq> []" using pl by (simp add: id plain_def)
  have rr: "run_state read_registry w = (Inr (rows w), w)"
    by (rule run_read_registry[OF opened_registry[OF o]])
  have keep: "\<exists>f. (\<forall>q. ?P q \<longrightarrow> p_id (f q) = p_id q) \<and> rs = update_first ?P f (rows w)"
    if "rs = rows w" for rs
  proof -
    have "update_first ?P (\<lambda>q. q) xs = xs" for xs :: "project list" by (induction xs) auto
    then show ?thesis using that by (intro exI[of _ "\<lambda>q. q"]) simp
  qed
  show ?thesis
  proof (cases "List.find ?P (rows w)")
    case (Some p)
    then have pid: "?P p" using find_Some_in_set by fastforce
    obtain p' ch where e: "enrich_project (tenant w) ?i p = (p', ch)" by (cases "enrich_project (tenant w) ?i p")
    have p': "p_id p' = p_id p" using enrich_project_id[of "tenant w" ?i p] by (simp add: e)
    show ?thesis
    proof (cases ch)
      case True
      let ?q = "p'\<lparr>p_updatedAt := clock_at w (ticks w)\<rparr>"
      have run1: "run_state (EnsureProject inp) w =
          run_state (bindE (write_registry (update_first ?P (\<lambda>_. ?q) (rows w))) (\<lambda>_. bindE (ensureLayout ?q) (\<lambda>_. okE ?q)))
            (w\<lparr>ticks := Suc (ticks w)\<rparr>)"
        using ne rr Some e True by (simp add: EnsureProject_def run id Let_def)
      have "rows (snd (run_state (EnsureProject inp) w)) = update_first ?P (\<lambda>_. ?q) (rows w)"
        unfolding run1 by (rule commit_rows) (use o pl p' pid in simp_all)
      then show ?thesis using p' pid by (intro disjI1 exI[of _ "\<lambda>_. ?q"]) simp
    next
      case False
      have run1: "run_state (EnsureProject inp) w = run_state (bindE (ensureLayout p') (\<lambda>_. okE p')) w"
        using ne rr Some e False by (simp add: EnsureProject_def run id Let_def)
      have "rows (snd (run_state (EnsureProject inp) w)) = rows w"
        unfolding run1 by (rule layout_only_rows) (use pl p' pid in simp)
      then show ?thesis using keep by blast
    qed
  next
    case None
    show ?thesis
    proof (cases "if p_ownerRepo ?i \<noteq> []
                   then List.find (\<lambda>p. normalizeOwnerRepo (p_ownerRepo p) = p_ownerRepo ?i) (rows w) else None")
      case (Some p)
      then have "p \<in> set (rows w)" using find_Some_in_set by (fastforce split: if_splits)
      then have pp: "plain (p_id p)" using rows_plain by (simp add: list_all_iff)
      have run1: "run_state (EnsureProject inp) w = run_state (bindE (ensureLayout p) (\<lambda>_. okE p)) w"
        using ne rr None Some by (simp add: EnsureProject_def run id Let_def)
      have "rows (snd (run_state (EnsureProject inp) w)) = rows w"
        unfolding run1 by (rule layout_only_rows[OF pp])
      then show ?thesis using keep by blast
    next
      case no: None
      define p where "p = new_project (p_id ?i) (p_name ?i) (p_ownerRepo ?i) (p_githubRepoId ?i)
          (p_connectorId ?i) (p_organizationId ?i)
          (if p_htmlUrl ?i = [] \<and> p_ownerRepo ?i \<noteq> [] then github_url (p_ownerRepo ?i) else p_htmlUrl ?i)
          (p_defaultBranch ?i) (clock_at w (ticks w))"
      have pid: "p_id p = trim_space (p_id inp)" by (simp add: p_def new_project_def id)
      have run1: "run_state (EnsureProject inp) w =
          run_state (bindE (write_registry (rows w @ [p])) (\<lambda>_. bindE (ensureLayout p) (\<lambda>_. okE p)))
            (w\<lparr>ticks := Suc (ticks w)\<rparr>)"
        using ne rr None no by (simp add: EnsureProject_def run id Let_def p_def)
      have "rows (snd (run_state (EnsureProject inp) w)) = rows w @ [p]"
        unfolding run1 by (rule commit_rows) (use o pl pid in simp_all)
      then show ?thesis using None pid by blast
    qed
  qed
qed

lemma setBinding_rows:
  assumes "opened w"
  shows "map p_id (rows (snd (run_state (setGitHubProjectBinding pid g t u) w))) = map p_id (rows w)"
proof -
  have rr: "run_state read_registry w = (Inr (rows w), w)"
    by (rule run_read_registry[OF opened_registry[OF assms]])
  show ?thesis
  proof (cases "List.find (\<lambda>p. p_id p = pid) (rows w)")
    case None
    then show ?thesis by (simp add: setGitHubProjectBinding_def run rr)
  next
    case (Some p)
    then have p: "p_id p = pid" using find_Some_in_set by fastforce
    have "map p_id (update_first (\<lambda>p. p_id p = pid) (\<lambda>_. q) xs) = map p_id xs" if "p_id q = pid"
      for q and xs :: "project list"
      using that by (induction xs) auto
    then show ?thesis using Some p assms
      by (simp add: setGitHubProjectBinding_def run rr run_write_registry Let_def)
  qed
qed

lemma DeleteProject_rows:
  assumes o: "opened w" and pl: "plain pid" and found: "pid \<in> set (map p_id (rows w))"
  shows "\<exists>w'. run_state (DeleteProject pid) w = (Inr (), w') \<and>
     rows w' = filter (\<lambda>p. p_id p \<noteq> pid) (rows w) \<and> opened w' \<and> look w' (home w pid @ r) = None \<and>
     (\<forall>q. \<not> is_under (home w pid) q \<longrightarrow> q = registryPath w \<or> look w' q = look w q)"
proof -
  have rr: "run_state read_registry w = (Inr (rows w), w)"
    by (rule run_read_registry[OF opened_registry[OF o]])
  let ?ps = "filter (\<lambda>p. p_id p \<noteq> pid) (rows w)"
  let ?w1 = "with_rows ?ps w"
  let ?w2 = "?w1\<lparr>fs := filter (\<lambda>(q, _). \<not> is_under (home w pid) q) (fs ?w1)\<rparr>"
  obtain p rest where f: "filter (\<lambda>p. p_id p = pid) (rows w) = p # rest"
    using found by (cases "filter (\<lambda>p. p_id p = pid) (rows w)") (auto simp: filter_empty_conv)
  have "last (p # rest) \<in> set (filter (\<lambda>p. p_id p = pid) (rows w))"
    unfolding f by (rule last_in_set) simp
  then have lid: "p_id (last (p # rest)) = pid" by simp
  then have dir: "projectDir ?w1 (last (p # rest)) = home w pid"
    using pl by (simp add: projectDir_pdir pdir_plain) (simp add: with_rows_def)
  have o1: "opened ?w1" by (rule opened_with_rows[OF o])
  have f1: "faults ?w1 = []" using o1 by (simp add: opened_def)
  have rm: "run_state (remove_all (home w pid)) ?w1 = (Inr (), ?w2)"
    by (simp add: remove_all_def f1)
  have run1: "run_state (DeleteProject pid) w = (Inr (), ?w2)"
    using rr f dir rm by (simp add: DeleteProject_def run run_write_registry[OF o])
  have lk: "look ?w2 q = (if q \<noteq> [] \<and> is_under (home w pid) q then None else look ?w1 q)" for q
    by (auto simp: look_def map_of_filter_path)
  have nr: "\<not> is_under (home w pid) (registryPath w)"
    by (auto simp: is_under_iff home_def registryPath_def)
  have hw: "home w pid @ r \<noteq> []" by (simp add: home_def)
  have wf2: "fs_wf ?w2" using wf_run[OF wf_remove_all _ rm] o1 by (simp add: opened_def)
  have rp: "registryPath ?w2 = registryPath w" by (simp add: registryPath_def with_rows_def)
  have lkr: "look ?w2 (registryPath w) = Some (File (DProjects ?ps))"
    unfolding lk using nr by (simp add: with_rows_def look_put_node)
  have "rows ?w2 = ?ps" unfolding rows_def[of ?w2] rp lkr by simp
  moreover have "opened ?w2" unfolding opened_def rp lkr using f1 wf2 by simp
  moreover have "look ?w2 (home w pid @ r) = None" using lk hw by simp
  moreover have "q = registryPath w \<or> look ?w2 q = look w q" if "\<not> is_under (home w pid) q" for q
    using that lk[of q] by (auto simp: with_rows_def look_put_node)
  ultimately show ?thesis using run1 by blast
qed

section \<open>Properties\<close>

text \<open>C26: row ids stay distinct: linking a repository (with a UUID no row has), ensuring a
  directory project, binding, unbinding and deleting all keep the registry without two rows
  of one id, whether they succeed or not.\<close>

theorem registry_ids_distinct:
  assumes o: "opened w" and d: "distinct (map p_id (rows w))"
    and u: "plain (uuid_at w (uuids w))" "uuid_at w (uuids w) \<notin> set (map p_id (rows w))"
    and pl: "plain (trim_space (p_id inp))" "list_all (\<lambda>p. plain (p_id p)) (rows w)"
    and found: "pid \<in> set (map p_id (rows w))"
  shows "list_all (\<lambda>w'. distinct (map p_id (rows w')))
    [snd (run_state (CreateProject inp) w), snd (run_state (EnsureProject inp) w),
     snd (run_state (setGitHubProjectBinding pid g t url) w), snd (run_state (DeleteProject pid) w)]"
proof -
  have dc: "distinct (map p_id (rows (snd (run_state (CreateProject inp) w))))"
    using CreateProject_rows[OF o u(1), of inp] d u(2) by (elim disjE exE conjE) simp_all
  have uf: "map p_id (update_first (\<lambda>p. p_id p = i) f xs) = map p_id xs"
    if "\<And>q. p_id q = i \<Longrightarrow> p_id (f q) = p_id q" for i f and xs :: "project list"
    using that by (induction xs) auto
  have de: "distinct (map p_id (rows (snd (run_state (EnsureProject inp) w))))"
    using EnsureProject_rows[OF o pl]
  proof (elim disjE exE conjE)
    fix f assume "\<forall>q. p_id q = trim_space (p_id inp) \<longrightarrow> p_id (f q) = p_id q"
      "rows (snd (run_state (EnsureProject inp) w)) = update_first (\<lambda>p. p_id p = trim_space (p_id inp)) f (rows w)"
    then show ?thesis using d uf by simp
  next
    fix p assume "List.find (\<lambda>p. p_id p = trim_space (p_id inp)) (rows w) = None"
      "p_id p = trim_space (p_id inp)" "rows (snd (run_state (EnsureProject inp) w)) = rows w @ [p]"
    then show ?thesis using d by (auto simp: find_None_iff)
  qed
  have ppl: "plain pid" using pl(2) found by (auto simp: list_all_iff)
  obtain w' where "run_state (DeleteProject pid) w = (Inr (), w')"
    "rows w' = filter (\<lambda>p. p_id p \<noteq> pid) (rows w)"
    using DeleteProject_rows[OF o ppl found, of "[]"] by blast
  then have dd: "distinct (map p_id (rows (snd (run_state (DeleteProject pid) w))))"
    using d by (simp add: distinct_map inj_on_def)
  show ?thesis using dc de dd setBinding_rows[OF o] d by simp
qed

lemma demo_rows: "rows demo_world = [demo_project]" "opened demo_world"
proof -
  have l: "look demo_world [''data'', ''projects.json''] = Some (File (DProjects [demo_project]))"
    by (simp add: look_def demo_tree_def)
  show "rows demo_world = [demo_project]" "opened demo_world"
    by (simp_all add: rows_def opened_def l demo_wf)
qed

theorem registry_ids_distinct_witness:
  "distinct (map p_id (rows (snd (run_state (EnsureProject (demo_project\<lparr>p_id := '' p2 ''\<rparr>)) demo_world))))"
proof -
  have u: "uuid_at demo_world (uuids demo_world) = ''uuid-0''"
    by (simp add: demo_world_def itoa_nat.simps digit_char_def) code_simp
  have t: "trim_space '' p2 '' = ''p2''" by code_simp
  have "plain ''uuid-0''" by (simp add: plain_def)
  then show ?thesis
    using registry_ids_distinct[of demo_world "demo_project\<lparr>p_id := '' p2 ''\<rparr>" "''p1''"] demo_plain
    by (simp add: demo_rows u t)
qed

text \<open>C7: when authentication is enforced, an organization lists exactly the rows stamped
  with it, and gets a project by id only if it is one of those; every other id, known or
  not, is answered with the same error.\<close>

theorem tenant_isolation:
  assumes o: "opened w" and auth: "auth_enforced (tenant w)"
  shows "run_state (ListProjectsForOrg org) w =
      (Inr (filter (\<lambda>p. projectOrgID (tenant w) p = normalizeWriteOrg (tenant w) org) (rows w)), w) \<and>
    run_state (GetProjectForOrg pid org) w =
      ((case List.find (\<lambda>p. p_id p = pid) (rows w) of
          Some p \<Rightarrow> if projectOrgID (tenant w) p = normalizeWriteOrg (tenant w) org then Inr p
                    else Inl (Errf ''project not found'')
        | None \<Rightarrow> Inl (Errf ''project not found'')), w)"
  using run_ListProjects[OF opened_registry[OF o]] run_GetProject[OF opened_registry[OF o], of pid] auth
  by (auto simp: ListProjectsForOrg_def GetProjectForOrg_def run projectInOrg_auth split: option.splits)

theorem tenant_isolation_witness:
  "run_state (GetProjectForOrg ''p1'' ''org-b'') demo_world = (Inl (Errf ''project not found''), demo_world)"
proof -
  have "normalizeWriteOrg (tenant demo_world) ''org-b'' = ''org-b''"
    "projectOrgID (tenant demo_world) demo_project = ''org-a''"
    by (simp_all add: demo_world_def demo_project_def new_project_def) code_simp+
  then show ?thesis
    using tenant_isolation[OF demo_rows(2), of "''org-b''" "''p1''"] by (simp add: demo_rows)
qed

text \<open>C27: deleting a known project removes its row and its whole directory, and touches
  nothing else but the registry document; afterwards the project is not found.\<close>

theorem delete_project_forgets:
  assumes o: "opened w" and pl: "plain pid" and found: "pid \<in> set (map p_id (rows w))"
  shows "\<exists>w'. run_state (DeleteProject pid) w = (Inr (), w') \<and>
     rows w' = filter (\<lambda>p. p_id p \<noteq> pid) (rows w) \<and>
     look w' (home w pid @ r) = None \<and>
     (plain b \<and> b \<noteq> pid \<longrightarrow> look w' (home w b @ r) = look w (home w b @ r)) \<and>
     run_state (GetProject pid) w' = (Inl (Errf ''project not found''), w')"
proof -
  obtain w' where w': "run_state (DeleteProject pid) w = (Inr (), w')"
    "rows w' = filter (\<lambda>p. p_id p \<noteq> pid) (rows w)" "opened w'" "look w' (home w pid @ r) = None"
    and other: "\<And>q. \<not> is_under (home w pid) q \<Longrightarrow> q = registryPath w \<or> look w' q = look w q"
    using DeleteProject_rows[OF o pl found] by blast
  have "List.find (\<lambda>p. p_id p = pid) (rows w') = None"
    by (simp add: w'(2) find_None_iff)
  then have "run_state (GetProject pid) w' = (Inl (Errf ''project not found''), w')"
    using run_GetProject[OF opened_registry[OF w'(3)]] by simp
  moreover have "look w' (home w b @ r) = look w (home w b @ r)" if "b \<noteq> pid"
    using that other[of "home w b @ r"] by (auto simp: is_under_iff home_def registryPath_def)
  ultimately show ?thesis using w' by blast
qed

theorem delete_project_forgets_witness:
  "\<exists>w'. run_state (DeleteProject ''p1'') demo_world = (Inr (), w') \<and> rows w' = [] \<and>
     run_state (GetProject ''p1'') w' = (Inl (Errf ''project not found''), w')"
  using delete_project_forgets[OF demo_rows(2) demo_plain(2)] by (simp add: demo_rows) blast

text \<open>a normalised repository name is empty or owner/name with two non-empty parts and
  no further slash; but normalising is not idempotent, so a name that ends in two .git
  suffixes is stored as one that later normalises to something else, and the same
  repository can then be linked a second time under its stored name.\<close>

theorem normalize_owner_repo_shape:
  "(normalizeOwnerRepo s = [] \<or>
     (\<exists>a b. normalizeOwnerRepo s = a @ ''/'' @ b \<and> a \<noteq> [] \<and> b \<noteq> [] \<and>
        CHR ''/'' \<notin> set a \<and> CHR ''/'' \<notin> set b)) \<and>
   normalizeOwnerRepo ''o/r.git.git'' = ''o/r.git'' \<and> normalizeOwnerRepo ''o/r.git'' = ''o/r''"
proof (intro conjI)
  let ?s5 = "trim_cut ''/'' (trim_suffix ''.git'' (trim_prefix ''http://github.com/''
      (trim_prefix ''https://github.com/'' (trim_space s))))"
  show "normalizeOwnerRepo s = [] \<or>
     (\<exists>a b. normalizeOwnerRepo s = a @ ''/'' @ b \<and> a \<noteq> [] \<and> b \<noteq> [] \<and>
        CHR ''/'' \<notin> set a \<and> CHR ''/'' \<notin> set b)"
  proof (cases "\<exists>a b. split_on (CHR ''/'') ?s5 = [a, b] \<and> a \<noteq> [] \<and> b \<noteq> []")
    case True
    then obtain a b where ab: "split_on (CHR ''/'') ?s5 = [a, b]" "a \<noteq> []" "b \<noteq> []" by blast
    then have "CHR ''/'' \<notin> set a" "CHR ''/'' \<notin> set b"
      using split_on_no_sep[of _ "CHR ''/''" ?s5] by auto
    then show ?thesis using ab by (auto simp: normalizeOwnerRepo_def Let_def)
  next
    case False
    then show ?thesis
      by (auto simp: normalizeOwnerRepo_def Let_def split: list.splits)
  qed
  show "normalizeOwnerRepo ''o/r.git.git'' = ''o/r.git''" by code_simp
  show "normalizeOwnerRepo ''o/r.git'' = ''o/r''" by code_simp
qed

text \<open>EnsureProject with an unknown id and a repository that another row has returns that
  row as it is, also when it belongs to an organization other than the caller's: the
  tenant test that guards every read is not made.\<close>

theorem ensure_returns_foreign_row:
  assumes r: "ready w (p_id q) q" and o: "opened w"
    and unknown: "List.find (\<lambda>p. p_id p = trim_space (p_id inp)) (rows w) = None" "trim_space (p_id inp) \<noteq> []"
    and same: "List.find (\<lambda>p. normalizeOwnerRepo (p_ownerRepo p) = normalizeOwnerRepo (p_ownerRepo inp)) (rows w) = Some q"
      "normalizeOwnerRepo (p_ownerRepo inp) \<noteq> []"
  shows "run_state (EnsureProject inp) w = (Inr q, w)"
proof -
  have rr: "run_state read_registry w = (Inr (rows w), w)"
    by (rule run_read_registry[OF opened_registry[OF o]])
  have lay: "run_state (ensureLayout q) w = (Inr (), w)"
    using r by (elim ready_D) (simp add: run_ensureLayout_ok)
  have "p_id (ensure_input (tenant w) inp) = trim_space (p_id inp)"
    "p_ownerRepo (ensure_input (tenant w) inp) = normalizeOwnerRepo (p_ownerRepo inp)"
    by (simp_all add: ensure_input_def Let_def)
  then show ?thesis using rr lay unknown same by (simp add: EnsureProject_def run Let_def)
qed

theorem ensure_returns_foreign_row_witness:
  "run_state (EnsureProject (demo_project\<lparr>p_id := ''p9'', p_organizationId := ''org-b''\<rparr>)) demo_world =
     (Inr demo_project, demo_world) \<and> \<not> projectInOrg (tenant demo_world) demo_project ''org-b''"
proof -
  have n: "normalizeOwnerRepo (p_ownerRepo demo_project) = ''acme/app''" "trim_space ''p9'' = ''p9''"
    by (simp_all add: demo_project_def new_project_def) code_simp+
  have "\<not> projectInOrg (tenant demo_world) demo_project ''org-b''"
    by (simp add: demo_world_def demo_project_def new_project_def) code_simp
  then show ?thesis
    using ensure_returns_foreign_row[of demo_world demo_project
        "demo_project\<lparr>p_id := ''p9'', p_organizationId := ''org-b''\<rparr>"] demo_ready
    by (simp add: demo_rows n)
qed

end
