(* ===== verification/Sync_Theorems.thy ===== *)
theory Sync_Theorems
  imports Sync_Laws Registry_Theorems
begin

text \<open>
  The properties of the sync with GitHub and of the HTTP surface.
\<close>

section \<open>Columns and issue states\<close>

lemma trim_columns [simp]: "c \<in> set BoardColumns \<Longrightarrow> trim_space c = c"
  by (auto simp: BoardColumns_def columns_def, code_simp+)

lemma lower_states: "trim_space (to_lower ''open'') = ''open''" "trim_space (to_lower ''closed'') = ''closed''"
  by code_simp+

text \<open>C25: Pushing and pulling agree: every column has an issue state, pulling the state that was
  pushed moves no card, and a pull that moves a card moves it to a column whose pushed state is
  the one that was pulled, so the next pull moves nothing.\<close>

theorem issue_states_roundtrip:
  assumes "c \<in> set BoardColumns"
  shows "(\<exists>st. issueStateForColumn c = Some st \<and> columnForIssueState st c = None) \<and>
     (\<forall>st c'. columnForIssueState st c = Some c' \<longrightarrow>
        c' \<in> set BoardColumns \<and> issueStateForColumn c' = Some (trim_space (to_lower st)) \<and> columnForIssueState st c' = None)"
  using assms
  by (auto simp: issueStateForColumn_def boardColumnIssueState_def columnForIssueState_def Let_def lower_states
      BoardColumns_def columns_def split: if_splits)

lemma issue_states_roundtrip_witness:
  "columnForIssueState ''Closed'' ''human_review'' = Some ''done'' \<and> issueStateForColumn ''done'' = Some ''closed'' \<and>
   columnForIssueState ''Closed'' ''done'' = None"
proof -
  have m: "columnForIssueState ''Closed'' ''human_review'' = Some ''done''" "trim_space (to_lower ''Closed'') = ''closed''" by code_simp+
  have "''human_review'' \<in> set BoardColumns" by (simp add: BoardColumns_def columns_def)
  from issue_states_roundtrip[OF this] m show ?thesis by auto
qed

section \<open>Issues\<close>

text \<open>The issue ORA answers with: a success whose body has an issue with a number.\<close>

definition answered_issue :: "err + ora_response \<Rightarrow> (string \<times> json) list option" where
  "answered_issue r = (case r of
       Inl _ \<Rightarrow> None
     | Inr resp \<Rightarrow> if 300 \<le> or_code resp then None
         else (case Option.bind (or_json resp) (\<lambda>out. map_of out ''issue'') of
             Some (JObj raw) \<Rightarrow> if 0 < intFromAny (any_at raw ''number'') then Some raw else None
           | _ \<Rightarrow> None))"

text \<open>The column of a task whose issue is in a state: closed is done, an open issue leaves done.\<close>

definition column_after :: "string \<Rightarrow> string \<Rightarrow> string" where
  "column_after st cur =
     (if trim_space (to_lower st) = ''closed'' then ''done''
      else if trim_space (to_lower st) = ''open'' \<and> cur = ''done'' then ''in_progress''
      else cur)"

text \<open>The task as the issue has it.\<close>

definition task_of_issue :: "(string \<times> json) list \<Rightarrow> bool \<Rightarrow> time \<Rightarrow> task \<Rightarrow> task" where
  "task_of_issue raw adopt now t =
     (let text = (\<lambda>k. strFromAny (any_at raw k)); ms = intFromAny (any_at raw ''milestone'') in
      t\<lparr> t_title := (if adopt \<and> \<not> blank (text ''title'') then text ''title'' else t_title t),
         t_status := column_after (text ''state'') (t_status t),
         t_issueNumber := intFromAny (any_at raw ''number''), t_issueUrl := text ''html_url'', t_issueState := text ''state'',
         t_issueTitle := text ''title'', t_issueLabels := stringsFromAny (any_at raw ''labels''),
         t_issueAssignee := (case stringsFromAny (any_at raw ''assignees'') of [] \<Rightarrow> [] | a # _ \<Rightarrow> a),
         t_milestoneNumber := ms,
         t_milestoneTitle := (if ms = t_milestoneNumber t then t_milestoneTitle t else if ms \<le> 0 then [] else text ''milestone_title''),
         t_milestoneUrl := (if ms = t_milestoneNumber t \<or> 0 < ms then t_milestoneUrl t else []),
         t_issueSyncedAt := Some now, t_issueSyncError := [] \<rparr>)"

definition meta_of :: "(string \<times> json) list \<Rightarrow> issue_meta" where
  "meta_of raw = \<lparr> im_number = intFromAny (any_at raw ''number''), im_title = strFromAny (any_at raw ''title''),
     im_body = strFromAny (any_at raw ''body''), im_state = strFromAny (any_at raw ''state''),
     im_htmlUrl = strFromAny (any_at raw ''html_url''), im_labels = stringsFromAny (any_at raw ''labels''),
     im_milestone = intFromAny (any_at raw ''milestone''),
     im_milestoneTitle = strFromAny (any_at raw ''milestone_title''),
     im_assignees = stringsFromAny (any_at raw ''assignees'') \<rparr>"

lemma decoded_issue:
  "case (case v of Some (JObj raw) \<Rightarrow> if 0 < intFromAny (any_at raw ''number'') then Some raw else None | _ \<Rightarrow> None) of
     None \<Rightarrow> \<exists>e. decodeIssueMeta out = Inl e | Some raw \<Rightarrow> decodeIssueMeta out = Inr (meta_of raw)"
  if "v = map_of out ''issue''"
proof (cases "\<exists>raw. v = Some (JObj raw)")
  case True
  then show ?thesis using that by (auto simp: decodeIssueMeta_def meta_of_def)
next
  case False
  then have "(case v of Some (JObj raw) \<Rightarrow> if 0 < intFromAny (any_at raw ''number'') then Some raw else None | _ \<Rightarrow> None) = None"
    by (simp split: option.split json.split)
  moreover have "decodeIssueMeta out = Inl (Plain (Errf ''ora response did not contain an issue object''))"
    using False that unfolding decodeIssueMeta_def by (simp split: option.split json.split)
  ultimately show ?thesis by simp
qed

lemma issue_answered:
  assumes "d = issue_answer (case r of Inl e \<Rightarrow> Inl (Plain e)
       | Inr resp \<Rightarrow> if or_code resp \<ge> 300 then Inl (Fault (response_fault resp))
           else (case or_json resp of None \<Rightarrow> Inl (Plain (Errf m)) | Some out \<Rightarrow> Inr out))"
  shows "case answered_issue r of None \<Rightarrow> (\<exists>e. d = Inl e) | Some raw \<Rightarrow> d = Inr (meta_of raw)"
proof (cases r)
  case (Inr resp)
  show ?thesis
  proof (cases "or_json resp")
    case (Some out)
    note o = this Inr
    show ?thesis
    proof (cases "300 \<le> or_code resp")
      case True
      then show ?thesis using o assms by (simp add: issue_answer_def answered_issue_def)
    next
      case False
      then have "d = decodeIssueMeta out" using o assms by (simp add: issue_answer_def)
      moreover have "answered_issue r = (case map_of out ''issue'' of
          Some (JObj raw) \<Rightarrow> if 0 < intFromAny (any_at raw ''number'') then Some raw else None | _ \<Rightarrow> None)"
        using False o by (simp add: answered_issue_def)
      ultimately show ?thesis using decoded_issue[OF refl, of out] by (simp only:)
    qed
  qed (use Inr assms in \<open>simp add: issue_answer_def answered_issue_def\<close>)
qed (use assms in \<open>simp add: issue_answer_def answered_issue_def\<close>)

lemma mirror_meta:
  "applyIssueMirror (meta_of raw) now t = (let text = (\<lambda>k. strFromAny (any_at raw k)); ms = intFromAny (any_at raw ''milestone'') in
      t\<lparr> t_issueNumber := intFromAny (any_at raw ''number''), t_issueUrl := text ''html_url'', t_issueState := text ''state'',
         t_issueTitle := text ''title'', t_issueLabels := stringsFromAny (any_at raw ''labels''),
         t_issueAssignee := (case stringsFromAny (any_at raw ''assignees'') of [] \<Rightarrow> [] | a # _ \<Rightarrow> a),
         t_milestoneNumber := ms,
         t_milestoneTitle := (if ms = t_milestoneNumber t then t_milestoneTitle t else if ms \<le> 0 then [] else text ''milestone_title''),
         t_milestoneUrl := (if ms = t_milestoneNumber t \<or> 0 < ms then t_milestoneUrl t else []),
         t_issueSyncedAt := Some now, t_issueSyncError := [] \<rparr>)"
  by (cases t) (simp add: applyIssueMirror_def meta_of_def primaryAssignee_def Let_def)

lemma title_meta:
  "adopt_title adopt (meta_of raw) u = u\<lparr>t_title := (if adopt \<and> \<not> blank (strFromAny (any_at raw ''title'')) then strFromAny (any_at raw ''title'')
     else t_title u)\<rparr>"
  by (cases u) (auto simp: adopt_title_def adopts_def meta_of_def)

lemma task_of_issue_mirrored: "task_of_issue raw adopt now t = 
     (adopt_title adopt (meta_of raw) (applyIssueMirror (meta_of raw) now t))\<lparr>t_status := column_after (strFromAny (any_at raw ''state'')) (t_status t)\<rparr>"
  unfolding title_meta mirror_meta task_of_issue_def Let_def by (cases t) simp
lemma columns_after:
  assumes "cur \<in> set BoardColumns"
  shows "columnForIssueState st cur = (if column_after st cur = cur then None else Some (column_after st cur))"
  using assms by (auto simp: columnForIssueState_def column_after_def Let_def)

lemma pulled_task:
  assumes "t_status (d_task s) \<in> set BoardColumns"
  shows "pulled adopt (meta_of raw) now sid s = (let t = task_of_issue raw adopt now (d_task s) in
    s\<lparr>d_task := t, d_board := (if t_status t = t_status (d_task s) then d_board s else board_move sid (t_status t) (d_board s))\<rparr>)"
proof -
  let ?st = "strFromAny (any_at raw ''state'')" and ?cur = "t_status (d_task s)"
  note c = columns_after[OF assms, of ?st]
  have m: "im_state (meta_of raw) = ?st" by (simp add: meta_of_def)
  let ?u = "adopt_title adopt (meta_of raw) (applyIssueMirror (meta_of raw) now (d_task s))"
  have u: "task_of_issue raw adopt now (d_task s) = ?u\<lparr>t_status := column_after ?st ?cur\<rparr>"
    by (rule task_of_issue_mirrored)
  have v: "t_status ?u = ?cur" by simp
  show ?thesis
  proof (cases "column_after ?st ?cur = ?cur")
    case True
    then have "?u\<lparr>t_status := column_after ?st ?cur\<rparr> = ?u" using v by simp
    then show ?thesis using c True by (simp add: pulled_def moved_by_def m u)
  next
    case False
    then show ?thesis using c by (simp add: pulled_def moved_by_def m u d_move_def)
  qed
qed

text \<open>What the answer tells.\<close>

definition issue_told :: "(string \<times> json) list \<Rightarrow> json" where
  "issue_told raw = JObj [(''number'', JNum (intFromAny (any_at raw ''number''))), (''title'', JStr (strFromAny (any_at raw ''title''))),
     (''state'', JStr (strFromAny (any_at raw ''state''))), (''htmlUrl'', JStr (strFromAny (any_at raw ''html_url''))),
     (''labels'', jstrs (stringsFromAny (any_at raw ''labels''))), (''milestone'', JNum (intFromAny (any_at raw ''milestone''))),
     (''milestoneTitle'', JStr (strFromAny (any_at raw ''milestone_title''))),
     (''assignee'', JStr (case stringsFromAny (any_at raw ''assignees'') of [] \<Rightarrow> [] | a # _ \<Rightarrow> a))]"

lemma issue_payload_told: "issue_payload (meta_of raw) = issue_told raw"
  by (simp add: issue_payload_def issue_told_def meta_of_def primaryAssignee_def)

definition pull_tells :: "(string \<times> json) list \<Rightarrow> string \<Rightarrow> task \<Rightarrow> task \<Rightarrow> reply \<Rightarrow> bool" where
  "pull_tells raw sid old new a \<longleftrightarrow> (\<exists>l t. a = Fields 200 l \<and> map_of l ''specId'' = Some (PJson (JStr sid)) \<and>
     map_of l ''issue'' = Some (PJson (issue_told raw)) \<and> map_of l ''task'' = Some (PTask t) \<and> untimed t = new \<and>
     map_of l ''movedTo'' = Some (PJson (if t_status new = t_status old then JNull else JStr (t_status new))))"

lemma pull_answer_tells:
  assumes "untimed t = new" and "moved = (if t_status new = t_status old then None else Some (t_status new))"
  shows "pull_tells raw sid old new (pull_answer sid (meta_of raw) changed moved t)"
  unfolding pull_tells_def pull_answer_def
  by (intro exI[of _ t] exI conjI, rule refl) (use assms in \<open>simp_all add: jfields_def issue_payload_told\<close>)

lemma task_of_issue_status: "t_status (task_of_issue raw adopt now t) = column_after (strFromAny (any_at raw ''state'')) (t_status t)"
  by (simp add: task_of_issue_def Let_def)

text \<open>C13: Pulling a linked task is decided by ORA's answer to the one call it makes, for the issue the
  task is linked to.  Unless the answer is a success whose body has an issue with a number, the sync is
  refused (403, 404 or 502), its reason is on the task and nothing else changed.  Otherwise the answer
  is 200, it tells that issue, the task and the column moved to, and the task is exactly the issue's: number, URL,
  state, title, labels, first assignee and milestone are those of ORA's issue, the stamp is new and the error
  cleared; a closed issue is in done, an open one no longer there, any other task in its column, the
  card moves with the column; the title is the task's unless the caller adopts a title that is not blank; and
  description, plan, progress, approval, spec and change set are kept.\<close>

theorem issue_pull_outcome:
  fixes sid adopt h p x s w
  defines "resp \<equiv> fst (run_state (x_ora_post x (p_organizationId p) (user_of h) ''/api/peer/scm/issues/get''
      (repo_body p @ [(''number'', JNum (t_issueNumber (d_task s)))])) w)"
  assumes "rep w (p_id p) p sid s" and "hands_off x p sid" and "linked_repo p" and "\<not> blank sid"
    and "0 < t_issueNumber (d_task s)" and "Option.bind (body_object h) pull_of = Some (sid, adopt)"
  shows "\<exists>a w' s'. run_state (handleIssuePull x h p) w = (a, w') \<and> rep w' (p_id p) p sid s' \<and>
     (case answered_issue resp of
        None \<Rightarrow> sync_refused ''pull'' s a s'
      | Some raw \<Rightarrow> \<exists>now. d_task s' = task_of_issue raw adopt now (d_task s) \<and>
          d_board s' = (if t_status (d_task s') = t_status (d_task s) then d_board s
             else board_move sid (t_status (d_task s')) (d_board s)) \<and>
          s'\<lparr>d_task := d_task s, d_board := d_board s\<rparr> = s \<and>
          pull_tells raw sid (d_task s) (d_task s') a)"
proof -
  note r = assms(2)
  obtain t where t: "run_state (GetTask (p_id p) sid) w = (Inr t, w)" "untimed t = d_task s" by (rule rep_GetTask[OF r])
  have "t_issueNumber (untimed t) = t_issueNumber t" by (simp add: untimed_def)
  then have n: "t_issueNumber t = t_issueNumber (d_task s)" using t(2) by simp
  have ctx: "run_state (issueSyncContext p sid True) w = (Inr t, w)"
    using assms(4-6) n by (simp add: issueSyncContext_def linked_repo_def run t(1))
  obtain resp' w1 where call: "run_state (x_ora_post x (p_organizationId p) (user_of h) ''/api/peer/scm/issues/get''
      (repo_body p @ [(''number'', JNum (t_issueNumber t))])) w = (resp', w1)" by (rule prod.exhaust)
  have rs: "resp = resp'" using call by (simp add: resp_def n)
  obtain d where d: "run_state (peerGetIssue x p (user_of h) (t_issueNumber t)) w = (d, w1)"
    "case answered_issue resp of None \<Rightarrow> (\<exists>e. issue_answer d = Inl e) | Some raw \<Rightarrow> issue_answer d = Inr (meta_of raw)"
  proof (rule that)
    show "run_state (peerGetIssue x p (user_of h) (t_issueNumber t)) w = (case resp of Inl e \<Rightarrow> Inl (Plain e)
       | Inr resp \<Rightarrow> if or_code resp \<ge> 300 then Inl (Fault (response_fault resp))
           else (case or_json resp of None \<Rightarrow> Inl (Plain (Errf (''ora returned a non-JSON body for '' @ ''/api/peer/scm/issues/get'')))
             | Some out \<Rightarrow> Inr out), w1)"
      by (simp add: peerGetIssue_def peerIssueCall_def run call rs)
  qed (rule issue_answered[OF refl])
  have r1: "rep w1 (p_id p) p sid s" using quietD[OF quiet_issue_calls(1)[OF assms(3)] r] d(1) by (metis snd_conv)
  have run: "run_state (handleIssuePull x h p) w = run_state (case issue_answer d of
      Inl e \<Rightarrow> recordIssueFailure p sid ''pull'' e | Inr m \<Rightarrow> pull_done p sid adopt m) w1"
    unfolding handleIssuePull_def assms(7) option.case prod.case run_then[OF ctx] sum.case run_then[OF d(1)] ..
  note col = rep_status(1)[OF r]
  show ?thesis
  proof (cases "answered_issue resp")
    case None
    then obtain e where e: "issue_answer d = Inl e" using d(2) by auto
    obtain a w' s' where "run_state (recordIssueFailure p sid ''pull'' e) w1 = (a, w')" "rep w' (p_id p) p sid s'"
      "sync_refused ''pull'' s a s'" by (rule leads_run[OF leads_recordIssueFailure r1])
    then show ?thesis unfolding run e None by auto
  next
    case (Some raw)
    then have m: "issue_answer d = Inr (meta_of raw)" using d(2) by simp
    obtain a w' s' where w': "run_state (pull_done p sid adopt (meta_of raw)) w1 = (a, w')" "rep w' (p_id p) p sid s'"
      "\<exists>now changed t. s' = pulled adopt (meta_of raw) now sid s \<and> a = pull_answer sid (meta_of raw) changed
         (columnForIssueState (im_state (meta_of raw)) (t_status (d_task s))) t \<and> untimed t = d_task s'"
      by (rule leads_run[OF leads_pull_done r1])
    then obtain now changed t' where p: "s' = pulled adopt (meta_of raw) now sid s"
      "a = pull_answer sid (meta_of raw) changed (columnForIssueState (im_state (meta_of raw)) (t_status (d_task s))) t'"
      "untimed t' = d_task s'" by blast
    note q = pulled_task[OF col, of adopt raw now sid, unfolded Let_def]
    have task: "d_task s' = task_of_issue raw adopt now (d_task s)" unfolding p(1) q by simp
    have "pull_tells raw sid (d_task s) (d_task s') a"
      unfolding p(2) using p(3) columns_after[OF col, of "im_state (meta_of raw)"]
      by (intro pull_answer_tells) (simp_all add: task task_of_issue_status meta_of_def)
    moreover have "d_board s' = (if t_status (d_task s') = t_status (d_task s) then d_board s
        else board_move sid (t_status (d_task s')) (d_board s))" "s'\<lparr>d_task := d_task s, d_board := d_board s\<rparr> = s"
      unfolding p(1) q by simp_all
    ultimately show ?thesis unfolding run m Some using w'(1,2) task by auto
  qed
qed


section \<open>A peer that answers\<close>

definition demo_ora :: "ora_response \<Rightarrow> externals" where
  "demo_ora resp = demo_ext\<lparr>x_ora := True, x_ora_post := \<lambda>g u url b. okE resp\<rparr>"

definition demo_issue :: "(string \<times> json) list" where
  "demo_issue = [(''issue'', JObj [(''number'', JNum 7), (''title'', JStr ''Login broken''), (''state'', JStr ''closed''),
     (''html_url'', JStr ''https://github.com/acme/app/issues/7'')])]"

definition demo_answer :: "(string \<times> json) list \<Rightarrow> ora_response" where
  "demo_answer out = \<lparr>or_code = 200, or_status = ''200 OK'', or_body = [], or_json = Some out\<rparr>"

lemma demo_hands_off: "hands_off (demo_ora resp) p sid"
  by (simp add: hands_off_def mild_def demo_ora_def demo_ext_def holds_def keeps_def run)

lemma demo_linked_repo: "linked_repo demo_project"
proof -
  have "\<not> blank ''acme/app''" "\<not> blank ''gh-1''" by code_simp+
  then show ?thesis by (simp add: linked_repo_def demo_project_def new_project_def)
qed

definition demo_linked :: world where
  "demo_linked = snd (run_state (MutateTask ''p1'' ''001-fix-login'' (\<lambda>t. t\<lparr>t_issueNumber := 7, t_milestoneNumber := 3, t_projectId := ''PVT_1''\<rparr>)) demo_task)"

definition demo_linked_docs :: docs where
  "demo_linked_docs = demo_docs\<lparr>d_task := (d_task demo_docs)\<lparr>t_issueNumber := 7, t_milestoneNumber := 3, t_projectId := ''PVT_1''\<rparr>\<rparr>"

lemma demo_linked_rep: "rep demo_linked (p_id demo_project) demo_project ''001-fix-login'' demo_linked_docs"
proof -
  have c: "calm (\<lambda>t. t\<lparr>t_issueNumber := 7, t_milestoneNumber := 3, t_projectId := ''PVT_1''\<rparr>)" by (simp add: calm_def untimed_def)
  show ?thesis
    using leads_MutateTask[OF c, of demo_project "''001-fix-login''" demo_docs] demo_rep
    unfolding leads_def demo_linked_def demo_linked_docs_def by auto
qed

lemma demo_sid: "\<not> blank ''001-fix-login''"
  by code_simp

definition demo_scope :: request where
  "demo_scope = \<lparr>rq_claims = None, rq_ctxOrg = ''org-a'', rq_writeTenant = (\<lambda>s. s), rq_queryOrg = [],
     rq_projectHeader = ''p1'', rq_userHeader = ''ann''\<rparr>"

definition demo_post :: "(string \<times> json) list \<Rightarrow> http" where
  "demo_post body = \<lparr>h_method = ''POST'', h_path = [], h_scope = demo_scope, h_body = Some (JObj body), h_doc = None,
     h_auth = [], h_orgHeader = [], h_tenantUser = [], h_query = []\<rparr>"

lemma demo_post_sel [simp]: "h_method (demo_post b) = ''POST''" "body_object (demo_post b) = Some b" "h_scope (demo_post b) = demo_scope"
  by (simp_all add: demo_post_def body_object_def)

lemma issue_pull_outcome_witness:
  "\<exists>a w' s'. run_state (handleIssuePull (demo_ora (demo_answer demo_issue)) (demo_post [(''specId'', JStr ''001-fix-login'')]) demo_project)
       demo_linked = (a, w') \<and> rep w' ''p1'' demo_project ''001-fix-login'' s' \<and> t_status (d_task s') = ''done'' \<and>
     t_issueTitle (d_task s') = ''Login broken'' \<and> reply_code a = 200"
proof -
  have b: "Option.bind (body_object (demo_post [(''specId'', JStr ''001-fix-login'')])) pull_of = Some (''001-fix-login'', False)"
    by (simp add: pull_of_def field_or_def)
  have n: "0 < t_issueNumber (d_task demo_linked_docs)" by (simp add: demo_linked_docs_def)
  define raw where "raw = [(''number'', JNum 7), (''title'', JStr ''Login broken''), (''state'', JStr ''closed''),
     (''html_url'', JStr ''https://github.com/acme/app/issues/7'')]"
  have an: "answered_issue (fst (run_state (x_ora_post (demo_ora (demo_answer demo_issue)) g u q bd) demo_linked)) = Some raw" for g u q bd
    by (simp add: demo_ora_def run answered_issue_def demo_answer_def demo_issue_def any_at_def raw_def)
  have st: "t_status (task_of_issue raw ad now t) = ''done''" "t_issueTitle (task_of_issue raw ad now t) = ''Login broken''" for ad now t
    by (simp_all add: task_of_issue_def Let_def raw_def any_at_def column_after_def lower_states)
  show ?thesis
    using issue_pull_outcome[OF demo_linked_rep demo_hands_off[of "demo_answer demo_issue"] demo_linked_repo demo_sid n b]
    unfolding demo_project_id an option.case pull_tells_def by (metis st reply_code.simps)
qed


section \<open>Pushing\<close>

text \<open>C24: Pushing never changes what OPM owns: whatever ORA answers, title, description, column and
  board stay, and so do plan, progress, approval, change set and spec; a refused push (403,
  404 or 502) leaves its reason on the task and nothing else.\<close>

theorem issue_push_outcome:
  assumes "rep w (p_id p) p sid s" and "hands_off x p sid" and "linked_repo p" and "\<not> blank sid"
    and "0 < t_issueNumber (d_task s)" and "Option.bind (body_object h) (\<lambda>o1. str_field o1 ''specId'') = Some sid"
  shows "\<exists>a w' s'. run_state (handleIssuePush x h p) w = (a, w') \<and> rep w' (p_id p) p sid s' \<and>
     (sync_refused ''push'' s a s' \<or> reply_code a = 200 \<and> (\<exists>m now. s' = s\<lparr>d_task := applyIssueMirror m now (d_task s)\<rparr>)) \<and>
     t_title (d_task s') = t_title (d_task s) \<and> t_description (d_task s') = t_description (d_task s) \<and>
     t_status (d_task s') = t_status (d_task s) \<and> d_board s' = d_board s"
proof -
  have "leads p sid s (handleIssuePush x h p)
      (\<lambda>a s'. sync_refused ''push'' s a s' \<or> (\<exists>m now. s' = s\<lparr>d_task := applyIssueMirror m now (d_task s)\<rparr> \<and> reply_code a = 200))"
    unfolding handleIssuePush_def assms(6) option.case
    by (rule leads_linked_route[OF assms(2-5) quiet_issue_calls(2)[OF assms(2)]])
       (auto intro: leads_weaken[OF leads_push_done])
  then obtain a w' s' where r: "run_state (handleIssuePush x h p) w = (a, w')" "rep w' (p_id p) p sid s'"
    and alt: "sync_refused ''push'' s a s' \<or> (\<exists>m now. s' = s\<lparr>d_task := applyIssueMirror m now (d_task s)\<rparr> \<and> reply_code a = 200)"
    by (rule leads_run[OF _ assms(1)])
  have "t_title (d_task s') = t_title (d_task s) \<and> t_description (d_task s') = t_description (d_task s) \<and>
     t_status (d_task s') = t_status (d_task s) \<and> d_board s' = d_board s"
    using alt by (auto simp: sync_refused_def issue_failed_task_def)
  then show ?thesis using r alt by blast
qed

lemma issue_push_outcome_witness:
  "\<exists>a w' s'. run_state (handleIssuePush (demo_ora (demo_answer demo_issue)) (demo_post [(''specId'', JStr ''001-fix-login'')]) demo_project)
       demo_linked = (a, w') \<and> rep w' ''p1'' demo_project ''001-fix-login'' s' \<and> d_board s' = d_board demo_linked_docs"
proof -
  have b: "Option.bind (body_object (demo_post [(''specId'', JStr ''001-fix-login'')])) (\<lambda>o1. str_field o1 ''specId'') = Some ''001-fix-login''"
    by (simp add: field_or_def)
  have n: "0 < t_issueNumber (d_task demo_linked_docs)" by (simp add: demo_linked_docs_def)
  show ?thesis
    using issue_push_outcome[OF demo_linked_rep demo_hands_off[of "demo_answer demo_issue"] demo_linked_repo demo_sid n b]
    unfolding demo_project_id by blast
qed

section \<open>The project board\<close>

text \<open>What one sync leaves, and what it says: synced and stamped; nothing to do; not attempted; or
  failed with the reason on the task, which may have learnt its item.\<close>

definition sync_recorded :: "string \<Rightarrow> docs \<Rightarrow> sync_outcome \<Rightarrow> docs \<Rightarrow> bool" where
  "sync_recorded what s r s' \<longleftrightarrow>
     (so_synced r \<and> (\<exists>gh item now. s' = s\<lparr>d_task := project_synced_task gh item now (d_task s)\<rparr>)) \<or>
     (\<not> so_synced r \<and> s' = s \<and> so_status r \<in> {projectSyncNothingToSync, projectSyncPeerNotConfig, projectSyncNoProjectBound}) \<or>
     (\<not> so_synced r \<and> (\<exists>gh item. s' = s\<lparr>d_task :=
        (project_failed_task what (so_reason r) (d_task s))\<lparr>t_projectId := gh, t_projectItemId := item\<rparr>\<rparr>))"

lemma leads_recordProjectSyncFailure:
  assumes "sid \<noteq> []"
  shows "leads p sid s (recordProjectSyncFailure p sid what status reason)
    (\<lambda>_ s'. s' = s\<lparr>d_task := project_failed_task what reason (d_task s)\<rparr>)"
  unfolding recordProjectSyncFailure_def if_not_P[OF assms]
  by (rule leads_bind[OF leads_MutateTask], simp, rule leads_skip[OF quiet_env(1)], rule leads_skip[OF quiet_sync_logs(2)],
      rule leads_return) simp

lemma leads_with_stored:
  "leads p sid s (with_stored p sid r) (\<lambda>r' s'. s' = s \<and> (\<exists>t. r' = r\<lparr>so_task := t\<rparr> \<and> untimed t = d_task s))"
  unfolding with_stored_def by (rule leads_bind[OF leads_GetTask]) (auto intro!: leads_return)

lemma project_failed_self:
  "(project_failed_task what reason t)\<lparr>t_projectId := t_projectId t, t_projectItemId := t_projectItemId t\<rparr> =
     project_failed_task what reason t"
  by (simp add: project_failed_task_def)


lemma calm_item [simp]: "calm (\<lambda>tt. tt\<lparr>t_projectId := gh, t_projectItemId := item\<rparr>)"
  by (simp add: calm_def untimed_def)

text \<open>The task after a failure, with its item or without.\<close>

definition sync_failed :: "string \<Rightarrow> string \<Rightarrow> docs \<Rightarrow> docs \<Rightarrow> bool" where
  "sync_failed what reason s s' \<longleftrightarrow> (\<exists>gh item. s' = s\<lparr>d_task :=
     (project_failed_task what reason (d_task s))\<lparr>t_projectId := gh, t_projectItemId := item\<rparr>\<rparr>)"

lemma sync_failed_plain: "sync_failed what reason s (s\<lparr>d_task := project_failed_task what reason (d_task s)\<rparr>)"
  unfolding sync_failed_def by (metis project_failed_self)

lemma sync_failed_item:
  "sync_failed what reason s (s\<lparr>d_task := (project_failed_task what reason (d_task s))\<lparr>t_projectId := gh, t_projectItemId := item\<rparr>\<rparr>)"
  unfolding sync_failed_def by blast

lemma sync_failed_error: "sync_failed what reason s s' \<Longrightarrow> t_projectSyncError (d_task s') = what @ '': '' @ reason"
  by (auto simp: sync_failed_def project_failed_task_def)

lemma sync_recorded_failed: "\<not> so_synced r \<Longrightarrow> sync_failed what (so_reason r) s s' \<Longrightarrow> sync_recorded what s r s'"
  unfolding sync_recorded_def sync_failed_def by blast

lemma leads_failed_stored:
  assumes "sync_failed what reason s s1" and "\<not> so_synced r0" and "so_reason r0 = reason"
  shows "leads p sid s1 (with_stored p sid r0) (\<lambda>r s'. sync_recorded what s r s' \<and> untimed (so_task r) = d_task s' \<and>
     \<not> so_synced r \<and> so_status r = so_status r0 \<and> t_projectSyncError (d_task s') = what @ '': '' @ reason)"
proof (rule leads_weaken[OF leads_with_stored], elim conjE exE, goal_cases)
  case (1 r s' t)
  have r: "\<not> so_synced r" "so_reason r = reason" "so_task r = t" "so_status r = so_status r0" using 1 assms(2,3) by simp_all
  show ?case
    using sync_recorded_failed[of r what s s'] r 1 assms(1) sync_failed_error[OF assms(1)] by simp
qed

lemma leads_sync_partial:
  assumes "t_specId t = sid" and "sid \<noteq> []"
  shows "leads p sid s (sync_partial p t what gh sy item) (\<lambda>r s'. sync_recorded what s r s' \<and> untimed (so_task r) = d_task s' \<and>
     \<not> so_synced r \<and> so_status r = ps_titleStatus sy \<and> t_projectSyncError (d_task s') = what @ '': '' @ title_reason sy)"
proof -
  let ?f = "s\<lparr>d_task := project_failed_task what (title_reason sy) (d_task s)\<rparr>"
  have mut: "leads p sid ?f (if c then MutateTask (p_id p) sid (\<lambda>tt. tt\<lparr>t_projectId := gh, t_projectItemId := item\<rparr>) else okE t)
      (\<lambda>_ s1. sync_failed what (title_reason sy) s s1)" for c
  proof (cases c)
    case True
    have "sync_failed what (title_reason sy) s (?f\<lparr>d_task := (d_task ?f)\<lparr>t_projectId := gh, t_projectItemId := item\<rparr>\<rparr>)"
      using sync_failed_item[where s = s] by simp
    then show ?thesis unfolding if_P[OF True] by (intro leads_weaken[OF leads_MutateTask[OF calm_item]]) simp
  next
    case False
    show ?thesis unfolding if_not_P[OF False] okE_def by (rule leads_return, rule sync_failed_plain)
  qed
  show ?thesis
    unfolding sync_partial_def assms(1)
  proof (rule leads_bind[OF leads_recordProjectSyncFailure[OF assms(2)]], hypsubst, rule leads_bind[OF mut], goal_cases)
    case (1 a a' s1)
    have d: "\<not> so_synced ((not_synced (ps_titleStatus sy) (title_reason sy) t)\<lparr>so_itemId := item\<rparr>)"
      "so_reason ((not_synced (ps_titleStatus sy) (title_reason sy) t)\<lparr>so_itemId := item\<rparr>) = title_reason sy"
      "so_status ((not_synced (ps_titleStatus sy) (title_reason sy) t)\<lparr>so_itemId := item\<rparr>) = ps_titleStatus sy"
      by (simp_all add: not_synced_def)
    show ?case using leads_failed_stored[OF 1 d(1,2)] unfolding d(3) .
  qed
qed

lemma leads_recordProjectSyncSuccess:
  "leads p sid s (recordProjectSyncSuccess p sid gh item)
    (\<lambda>r s'. \<exists>now. s' = s\<lparr>d_task := project_synced_task gh item now (d_task s)\<rparr> \<and> (\<exists>t. r = Inr t \<and> untimed t = d_task s'))"
  unfolding recordProjectSyncSuccess_def
  by (rule leads_skip[OF quiet_env(1)], rule leads_weaken[OF leads_MutateTask]) auto

lemma leads_sync_answered:
  assumes "untimed t = d_task s" and "t_specId t = sid" and "sid \<noteq> []"
  shows "leads p sid s (sync_answered p t what gh out) (\<lambda>r s'. sync_recorded what s r s' \<and> untimed (so_task r) = d_task s')"
proof (cases "title_failed (decodeProjectItemSync out)")
  case True
  then show ?thesis
    unfolding sync_answered_def Let_def if_P[OF True] by (intro leads_weaken[OF leads_sync_partial[OF assms(2,3)]]) auto
next
  case False
  show ?thesis
    unfolding sync_answered_def Let_def if_not_P[OF False] assms(2)
    by (rule leads_bind[OF leads_recordProjectSyncSuccess]) (auto simp: sync_recorded_def intro!: leads_return)
qed

lemma leads_syncTaskProjectItem:
  assumes ho: "hands_off x p sid" and t: "untimed t = d_task s" "t_specId t = sid" "sid \<noteq> []"
  shows "leads p sid s (syncTaskProjectItem x p t what user) (\<lambda>r s'. sync_recorded what s r s' \<and> untimed (so_task r) = d_task s')"
proof -
  have failed: "leads p sid s (do { _ \<leftarrow> recordProjectSyncFailure p sid what status (ierr_text e);
       with_stored p sid ((not_synced status (ierr_text e) t)\<lparr>so_missing := fault_missing e\<rparr>) })
     (\<lambda>r s'. sync_recorded what s r s' \<and> untimed (so_task r) = d_task s')" for status e
    by (rule leads_bind[OF leads_recordProjectSyncFailure[OF t(3)]], hypsubst,
        rule leads_weaken[OF leads_failed_stored[OF sync_failed_plain]]) (simp_all add: not_synced_def)
  have call: "leads p sid s (do { r \<leftarrow> peerUpsertProjectItem x p user gh it ti b hint;
        case r of Inl e \<Rightarrow> do {
            let (code, status) = projectSyncHTTPStatus e;
            _ \<leftarrow> recordProjectSyncFailure p (t_specId t) what status (ierr_text e);
            with_stored p (t_specId t) ((not_synced status (ierr_text e) t)\<lparr>so_missing := fault_missing e\<rparr>) }
        | Inr out \<Rightarrow> sync_answered p t what gh out })
     (\<lambda>r s'. sync_recorded what s r s' \<and> untimed (so_task r) = d_task s')" for gh it ti b hint
  proof (rule leads_skip[OF quiet_issue_calls(4)[OF ho]])
    fix r
    show "leads p sid s (case r of Inl e \<Rightarrow> do {
            let (code, status) = projectSyncHTTPStatus e;
            _ \<leftarrow> recordProjectSyncFailure p (t_specId t) what status (ierr_text e);
            with_stored p (t_specId t) ((not_synced status (ierr_text e) t)\<lparr>so_missing := fault_missing e\<rparr>) }
        | Inr out \<Rightarrow> sync_answered p t what gh out)
     (\<lambda>r s'. sync_recorded what s r s' \<and> untimed (so_task r) = d_task s')"
    proof (cases r)
      case (Inl e)
      show ?thesis unfolding Inl sum.case Let_def t(2) by (cases "projectSyncHTTPStatus e") (simp only: prod.case failed)
    next
      case (Inr out)
      show ?thesis unfolding Inr sum.case by (rule leads_sync_answered[OF t])
    qed
  qed
  have skip: "leads p sid s (State_Monad.return (not_synced st reason t)) (\<lambda>r s'. sync_recorded what s r s' \<and> untimed (so_task r) = d_task s')"
    if "st \<in> {projectSyncNothingToSync, projectSyncPeerNotConfig, projectSyncNoProjectBound}" for st reason
    by (rule leads_return) (use that in \<open>simp add: sync_recorded_def not_synced_def t(1)\<close>)
  show ?thesis
    unfolding syncTaskProjectItem_def Let_def[of "bound_project p t"]
    by (simp only: skip call insert_iff simp_thms split: if_split)
qed

text \<open>The fields after a sync.\<close>

lemma synced_sel [simp]:
  "t_projectSyncError (project_synced_task gh item now t) = []" "t_projectSyncedAt (project_synced_task gh item now t) = Some now"
  "t_title (project_synced_task gh item now t) = t_title t" "t_description (project_synced_task gh item now t) = t_description t"
  "t_status (project_synced_task gh item now t) = t_status t"
  by (simp_all add: project_synced_task_def)

lemma project_failed_sel [simp]:
  "t_projectSyncError (project_failed_task what reason t) = what @ '': '' @ reason"
  "t_title (project_failed_task what reason t) = t_title t" "t_description (project_failed_task what reason t) = t_description t"
  "t_status (project_failed_task what reason t) = t_status t"
  by (simp_all add: project_failed_task_def)

lemma sync_recorded_fields:
  assumes "sync_recorded what s r s'"
  shows "d_board s' = d_board s \<and>
     (so_synced r \<longrightarrow> t_projectSyncError (d_task s') = [] \<and> t_projectSyncedAt (d_task s') \<noteq> None) \<and>
     (\<not> so_synced r \<longrightarrow> s' = s \<or> t_projectSyncError (d_task s') = what @ '': '' @ so_reason r) \<and>
     t_title (d_task s') = t_title (d_task s) \<and> t_description (d_task s') = t_description (d_task s) \<and>
     t_status (d_task s') = t_status (d_task s)"
  using assms unfolding sync_recorded_def by (elim disjE conjE exE) simp_all

text \<open>C14: Syncing a task with its board item, whatever the peer answers: the outcome says synced
  exactly when the failure note of the task is cleared and its time stamped; a failure leaves its
  reason on the task, and otherwise nothing was attempted and nothing changed.  The board, title,
  text and column of the task stay, and the outcome carries the task as stored.\<close>

theorem project_sync_outcome:
  assumes "rep w (p_id p) p sid s" and "hands_off x p sid" and "untimed t = d_task s"
  shows "\<exists>r w' s'. run_state (syncTaskProjectItem x p t what user) w = (r, w') \<and> rep w' (p_id p) p sid s' \<and>
     sync_recorded what s r s' \<and> untimed (so_task r) = d_task s' \<and> d_board s' = d_board s \<and>
     (so_synced r \<longrightarrow> t_projectSyncError (d_task s') = [] \<and> t_projectSyncedAt (d_task s') \<noteq> None) \<and>
     (\<not> so_synced r \<longrightarrow> s' = s \<or> t_projectSyncError (d_task s') = what @ '': '' @ so_reason r) \<and>
     t_title (d_task s') = t_title (d_task s) \<and> t_description (d_task s') = t_description (d_task s) \<and>
     t_status (d_task s') = t_status (d_task s)"
proof -
  have "t_specId t = sid" using rep_status(2)[OF assms(1)] assms(3) untimed_sel by metis
  moreover have "sid \<noteq> []" using rep_plain[OF assms(1)] by (auto simp: plain_def)
  ultimately have "leads p sid s (syncTaskProjectItem x p t what user) (\<lambda>r s'. sync_recorded what s r s' \<and> untimed (so_task r) = d_task s')"
    by (rule leads_syncTaskProjectItem[OF assms(2,3)])
  then obtain r w' s' where r: "run_state (syncTaskProjectItem x p t what user) w = (r, w')" "rep w' (p_id p) p sid s'"
    and rec: "sync_recorded what s r s'" "untimed (so_task r) = d_task s'"
    by (elim leads_run[OF _ assms(1)]) blast
  show ?thesis using r rec sync_recorded_fields[OF rec(1)] by blast
qed

lemma project_sync_outcome_witness:
  "\<exists>r w' s'. run_state (syncTaskProjectItem (demo_ora (demo_answer demo_issue)) demo_project demo_card ''sync-task'' ''ann'')
       demo_task = (r, w') \<and> rep w' ''p1'' demo_project ''001-fix-login'' s' \<and> d_board s' = d_board demo_docs"
proof -
  have "untimed demo_card = d_task demo_docs" using rep_task[OF demo_rep] demo_task_docs(1) by auto
  have r: "rep demo_task (p_id demo_project) demo_project ''001-fix-login'' demo_docs" using demo_rep by simp
  from project_sync_outcome[OF r demo_hands_off[of "demo_answer demo_issue"] \<open>untimed demo_card = d_task demo_docs\<close>,
      of "''sync-task''" "''ann''"]
  show ?thesis unfolding demo_project_id by blast
qed

text \<open>The route that syncs one task must not answer 200 when the board did not update, but it
  does when ORA reports the title unsynced with status ok: the answer is 200 with ok false,
  and the task carries the failure.\<close>

theorem failed_rename_answers_200:
  assumes "rep w (p_id p) p sid s" and "hands_off x p sid" and "h_method h = ''POST''" and "x_ora x"
    and "bound_project p (d_task s) \<noteq> []" and "\<not> blank (t_title (d_task s))"
    and "x_ora_post x = (\<lambda>g u url b. okE resp)" and "or_code resp < 300" and "or_json resp = Some out"
    and "\<not> bool_at ''title_synced'' out" and "strFromAny (any_at out ''title_status'') = projectSyncOK"
  shows "\<exists>l w' s'. run_state (handleGitHubSyncTask x h p sid) w = (Fields 200 l, w') \<and>
     map_of l ''ok'' = Some (PJson (JBool False)) \<and> rep w' (p_id p) p sid s' \<and>
     t_projectSyncError (d_task s') = ''sync-task: '' @ title_reason (decodeProjectItemSync out)"
proof -
  let ?R = "\<lambda>a s'. (\<exists>l. a = Fields 200 l \<and> map_of l ''ok'' = Some (PJson (JBool False))) \<and>
     t_projectSyncError (d_task s') = ''sync-task: '' @ title_reason (decodeProjectItemSync out)"
  have dec: "ps_titleStatus (decodeProjectItemSync out) = projectSyncOK" "title_failed (decodeProjectItemSync out)"
    using assms(10,11) by (simp_all add: decodeProjectItemSync_def title_failed_def Let_def project_statuses)
  have milestone: "quiet (p_id p) p sid (task_milestone x (user_of h) p t)" for t
    unfolding task_milestone_def peerUpsertMilestone_def
    by (auto intro!: quiet_bind quiet_return quiet_peer[OF assms(2)])
  have sync: "leads p sid s (syncTaskProjectItem x p t ''sync-task'' (user_of h)) (\<lambda>r s'. \<not> so_synced r \<and> so_status r = projectSyncOK \<and>
      t_projectSyncError (d_task s') = ''sync-task: '' @ title_reason (decodeProjectItemSync out))"
    if t: "untimed t = d_task s" for t
  proof -
    have sid: "t_specId t = sid" using rep_status(2)[OF assms(1)] t untimed_sel by metis
    have ne: "sid \<noteq> []" using rep_plain[OF assms(1)] by (auto simp: plain_def)
    have b: "bound_project p t \<noteq> []" "\<not> blank (t_title t)"
      using assms(5,6) by (simp_all add: t[symmetric] bound_project_def untimed_def)
    have call: "run_state (peerUpsertProjectItem x p user gh it ti bd hint) w1 = (Inr out, w1)" for user gh it ti bd hint w1
      using assms(7-9) by (simp add: peerUpsertProjectItem_def peerIssueCall_def okE_def run)
    have up: "leads p sid s (peerUpsertProjectItem x p user gh it ti bd hint) (\<lambda>r s'. r = Inr out \<and> s' = s)" for user gh it ti bd hint
      by (simp add: leads_def call)
    have n: "\<not> \<not> x_ora x" using assms(4) by simp
    show ?thesis
      unfolding syncTaskProjectItem_def Let_def[of "bound_project p t"] if_not_P[OF n] if_not_P[OF b(1)] if_not_P[OF b(2)]
    proof (rule leads_bind[OF up], elim conjE, hypsubst, goal_cases)
      case 1
      show ?case
        unfolding sum.case sync_answered_def Let_def if_P[OF dec(2)]
        by (rule leads_weaken[OF leads_sync_partial[OF sid ne]]) (simp add: dec(1))
    qed
  qed
  have nn: "projectSyncOK \<noteq> projectSyncNothingToSync" by (simp add: project_statuses)
  have ok: "projectStatusHTTPCode projectSyncOK = 200" by (simp add: projectStatusHTTPCode_def project_statuses)
  have "leads p sid s (handleGitHubSyncTask x h p sid) ?R"
    unfolding handleGitHubSyncTask_def only_def assms(3)
  proof (simp, rule leads_bind[OF leads_GetTask], elim conjE exE, simp, rule leads_bind[OF sync], simp, goal_cases)
    case (1 a s' t r s1)
    then show ?case
      by (intro leads_skip[OF milestone] leads_return) (auto simp: jfields_def sync_ok_def ok nn)
  qed
  then obtain a w' s' where "run_state (handleGitHubSyncTask x h p sid) w = (a, w')" "rep w' (p_id p) p sid s'" "?R a s'"
    by (rule leads_run[OF _ assms(1)])
  then show ?thesis by blast
qed


lemma failed_rename_answers_200_witness:
  "\<exists>l w' s'. run_state (handleGitHubSyncTask (demo_ora (demo_answer [(''title_status'', JStr ''ok'')])) (demo_post []) demo_project
       ''001-fix-login'') demo_linked = (Fields 200 l, w') \<and> map_of l ''ok'' = Some (PJson (JBool False)) \<and>
     rep w' ''p1'' demo_project ''001-fix-login'' s' \<and> t_projectSyncError (d_task s') = ''sync-task: ORA reported title_synced=false''"
proof -
  let ?out = "[(''title_status'', JStr ''ok'')]"
  have b: "bound_project demo_project (d_task demo_linked_docs) \<noteq> []"
    by (simp add: bound_project_def or_text_def demo_linked_docs_def)
  have t: "\<not> blank (t_title (d_task demo_linked_docs))"
  proof -
    have "\<not> blank ''Fix Login!''" by code_simp
    then show ?thesis by (simp add: demo_linked_docs_def demo_docs_def demo_card_def new_task_def untimed_def)
  qed
  have d: "\<not> bool_at ''title_synced'' ?out" "strFromAny (any_at ?out ''title_status'') = projectSyncOK"
    "title_reason (decodeProjectItemSync ?out) = ''ORA reported title_synced=false''" by code_simp+
  have x: "x_ora (demo_ora (demo_answer ?out))" "x_ora_post (demo_ora (demo_answer ?out)) = (\<lambda>g u url b. okE (demo_answer ?out))"
    "or_code (demo_answer ?out) < 300" "or_json (demo_answer ?out) = Some ?out"
    by (simp_all add: demo_ora_def demo_answer_def)
  show ?thesis
    using failed_rename_answers_200[OF demo_linked_rep demo_hands_off[of "demo_answer ?out"] demo_post_sel(1)[of "[]"] x(1) b t x(2,3,4) d(1,2)]
    unfolding demo_project_id d(3) by simp
qed

end
