(* ===== verification/Route_Theorems.thy ===== *)
theory Route_Theorems
  imports Sync_Theorems
begin

text \<open>
  The properties of the routes: the gate in front of a project, registering a project that
  another organization has, and an unassignment that stops half way.
\<close>

section \<open>The gate\<close>

text \<open>Under authentication every route below a project answers 404 to a request of another
  organization, with one text for a project that is not there and one that is not the caller's,
  whatever the method, the path below it and the body; nothing is read from a peer, nothing is
  written and no goroutine starts.  Only the registration of a project is in front of the gate.\<close>

theorem foreign_project_refused:
  assumes "opened w" and "auth_enforced (tenant w)" and "route_parts h = pid # rest" and "\<not> (pid = ''ensure'' \<and> rest = [])"
    and "\<And>p. List.find (\<lambda>p. p_id p = pid) (rows w) = Some p \<Longrightarrow>
      projectOrgID (tenant w) p \<noteq> normalizeWriteOrg (tenant w) (resolveRequestOrg (tenant w) (h_scope h))"
  shows "run_state (handleProjectRoute x h) w = ((Failed 404 ''project not found'', None), w)"
proof -
  have "run_state (GetProjectForOrg pid (resolveRequestOrg (tenant w) (h_scope h))) w = (Inl (Errf ''project not found''), w)"
    using run_GetProject[OF opened_registry[OF assms(1)], of pid] assms(2,5)
    by (auto simp: GetProjectForOrg_def run projectInOrg_auth split: option.splits)
  then show ?thesis
    unfolding handleProjectRoute_def assms(3) list.case Let_def if_not_P[OF assms(4)] by (simp add: run)
qed

definition demo_foreign :: "string \<Rightarrow> string \<Rightarrow> http" where
  "demo_foreign meth pth = (demo_post [])\<lparr>h_method := meth, h_path := pth, h_scope := demo_scope\<lparr>rq_ctxOrg := ''org-b''\<rparr>\<rparr>"

lemma foreign_project_refused_witness:
  "run_state (handleProjectRoute demo_ext (demo_foreign ''DELETE'' ''/api/projects/p1'')) demo_world =
     ((Failed 404 ''project not found'', None), demo_world)"
proof -
  have r: "route_parts (demo_foreign ''DELETE'' ''/api/projects/p1'') = [''p1'']" by code_simp
  have "normalizeWriteOrg (tenant demo_world) (resolveRequestOrg (tenant demo_world) (h_scope (demo_foreign ''DELETE'' ''/api/projects/p1''))) = ''org-b''"
    "projectOrgID (tenant demo_world) demo_project = ''org-a''"
    by (simp_all add: demo_world_def demo_project_def new_project_def demo_foreign_def demo_scope_def) code_simp+
  then show ?thesis
    using foreign_project_refused[OF demo_rows(2) _ r, of demo_ext] by (simp add: demo_rows)
qed

section \<open>Registering\<close>

text \<open>The row an input finds, when its organization is another: it becomes the input's.\<close>

lemma enrich_org:
  assumes "p_organizationId i \<noteq> []" and "normalizeWriteOrg tc (p_organizationId p) \<noteq> p_organizationId i"
  shows "snd (enrich_project tc i p)" and "p_organizationId (fst (enrich_project tc i p)) = p_organizationId i"
proof -
  have keep: "p_organizationId (fst (enrich_when c f pc)) = p_organizationId (fst pc)" if "\<And>q. p_organizationId (f q) = p_organizationId q" for c f pc
    using that by (simp add: enrich_when_def)
  show "snd (enrich_project tc i p)" "p_organizationId (fst (enrich_project tc i p)) = p_organizationId i"
    unfolding enrich_project_def using assms by (subst enrich_when_def, simp add: keep)+
qed

lemma with_rows_tenant [simp]: "tenant (with_rows ps w) = tenant w"
  by (simp add: with_rows_def)

lemma run_EnsureProject_other_org:
  assumes o: "opened w" and r: "ready w pid p" and i: "trim_space (p_id inp) = pid"
    and org: "normalizeWriteOrg (tenant w) (p_organizationId inp) = og" "og \<noteq> []" "normalizeWriteOrg (tenant w) (p_organizationId p) \<noteq> og"
  shows "\<exists>q w'. run_state (EnsureProject inp) w = (Inr q, w') \<and> p_id q = pid \<and> p_organizationId q = og \<and>
     rows w' = update_first (\<lambda>p. p_id p = pid) (\<lambda>_. q) (rows w) \<and> opened w' \<and> tenant w' = tenant w"
proof -
  let ?i = "ensure_input (tenant w) inp"
  have id: "p_id ?i = pid" "p_organizationId ?i = og" by (simp_all add: ensure_input_def Let_def i org(1))
  have ne: "pid \<noteq> []" using r by (auto elim!: ready_D simp: plain_def)
  have find: "List.find (\<lambda>p. p_id p = pid) (rows w) = Some p" using r registry_rows by (auto elim!: ready_D)
  have pid: "p_id p = pid" by (rule ready_pid[OF r])
  obtain p' where e: "enrich_project (tenant w) ?i p = (p', True)" and o': "p_organizationId p' = og"
    using enrich_org[of ?i "tenant w" p] org id by (metis prod.collapse)
  have p': "p_id p' = pid" using enrich_project_id[of "tenant w" ?i p] e pid by simp
  let ?q = "p'\<lparr>p_updatedAt := clock_at w (ticks w)\<rparr>" and ?w1 = "w\<lparr>ticks := Suc (ticks w)\<rparr>"
  let ?w2 = "with_rows (update_first (\<lambda>p. p_id p = pid) (\<lambda>_. ?q) (rows w)) ?w1"
  have rd: "run_state read_registry w = (Inr (rows w), w)" by (rule run_read_registry[OF opened_registry[OF o]])
  have o1: "opened ?w1" using o by simp
  have lay: "run_state (ensureLayout ?q) ?w2 = (Inr (), ?w2)"
  proof (rule run_ensureLayout_ok)
    have "projectDir ?w2 ?q = projectDir w p" using p' pid by (simp add: with_rows_def projectDir_def)
    moreover have "layout_ok ?w1 (projectDir w p)" using r by (elim ready_D) (simp add: layout_ok_def list_all_iff dir_ok_def)
    ultimately show "layout_ok ?w2 (projectDir ?w2 ?q)"
      using o1 by (auto simp: with_rows_def opened_def intro!: layout_ok_put_file split: option.splits node.splits)
  qed (use o in \<open>simp add: opened_def with_rows_def\<close>)
  have "run_state (EnsureProject inp) w = (Inr ?q, ?w2)"
    using ne rd find e run_write_registry[OF o1] lay by (simp add: EnsureProject_def run id Let_def)
  then show ?thesis
    using p' o' opened_with_rows[OF o1] with_rows_tenant[of _ ?w1] by (intro exI[of _ ?q] exI[of _ ?w2]) simp
qed

lemma resolveRequestOrg_pin [simp]: "resolveRequestOrg tc (h_scope (pin_header i h)) = resolveRequestOrg tc (h_scope h)"
  by (cases "h_scope h") (simp add: pin_header_def resolveRequestOrg_def jobOrgFromJWT_def Let_def)

lemma find_update_first:
  "List.find P xs = Some x \<Longrightarrow> P y \<Longrightarrow> List.find P (update_first P (\<lambda>_. y) xs) = Some y"
  by (induction xs) (auto split: if_splits)

text \<open>Without OAM the route that registers a project hands a project of another organization
  to the caller: no gate is in front of it, the row's organization is replaced by the
  caller's, and the organization that had it is answered not found from then on.\<close>

theorem ensure_takes_over:
  assumes "opened w" and "ready w pid p" and "oamPeerURL w = []" and "h_method h = ''POST''"
    and "ensure_id h = pid" and "trim_space pid = pid" and "\<not> no_concrete_id pid"
    and "normalizeWriteOrg (tenant w) (resolveRequestOrg (tenant w) (h_scope h)) = og" and "og \<noteq> []"
    and "normalizeWriteOrg (tenant w) (p_organizationId p) \<noteq> og" and "auth_enforced (tenant w)"
  shows "\<exists>q w'. run_state (handleEnsureProject x h) w = (Whole (PProject q), w') \<and>
     rows w' = update_first (\<lambda>p. p_id p = pid) (\<lambda>_. q) (rows w) \<and>
     run_state (GetProjectForOrg pid og) w' = (Inr q, w') \<and>
     run_state (GetProjectForOrg pid (p_organizationId p)) w' = (Inl (Errf ''project not found''), w')"
proof -
  let ?inp = "zero_project\<lparr>p_id := pid, p_name := pid, p_organizationId := resolveRequestOrg (tenant w) (h_scope h)\<rparr>"
  obtain q w' where e: "run_state (EnsureProject ?inp) w = (Inr q, w')" and q: "p_id q = pid" "p_organizationId q = og"
    and w': "rows w' = update_first (\<lambda>p. p_id p = pid) (\<lambda>_. q) (rows w)" "opened w'" "tenant w' = tenant w"
    using run_EnsureProject_other_org[OF assms(1,2), of ?inp og] assms(6,8,9,10) by auto
  have ensured: "run_state (handleEnsureProject x h) w = (Whole (PProject q), w')"
    using assms(3,4,5,7) e
    by (simp add: handleEnsureProject_def only_def Let_def run requireEnabledOAMProject_def directory_input_def ensure_registered_def found_or_def)
  have "List.find (\<lambda>p. p_id p = pid) (rows w) = Some p" using assms(2) registry_rows by (auto elim!: ready_D)
  then have f: "List.find (\<lambda>p. p_id p = pid) (rows w') = Some q" unfolding w'(1) by (rule find_update_first) (rule q(1))
  have own: "projectOrgID (tenant w) q = og" "normalizeWriteOrg (tenant w) og = og"
    using projectOrgID_normalized[of q "tenant w" "resolveRequestOrg (tenant w) (h_scope h)"] q(2) assms(8) normalizeWriteOrg_idem by metis+
  have get: "run_state (GetProjectForOrg pid org) w' =
      ((if projectOrgID (tenant w) q = normalizeWriteOrg (tenant w) org then Inr q else Inl (Errf ''project not found'')), w')" for org
    using run_GetProject[OF opened_registry[OF w'(2)], of pid] assms(11)
    unfolding GetProjectForOrg_def by (simp add: f run w'(3) projectInOrg_auth)
  show ?thesis using ensured w'(1) get own assms(10) by fastforce
qed

lemma ensure_takes_over_witness:
  "\<exists>q w'. run_state (handleEnsureProject demo_ext ((demo_post [(''id'', JStr ''p1'')])\<lparr>h_scope := demo_scope\<lparr>rq_ctxOrg := ''org-b''\<rparr>\<rparr>)) demo_world =
       (Whole (PProject q), w') \<and> run_state (GetProjectForOrg ''p1'' ''org-a'') w' = (Inl (Errf ''project not found''), w')"
proof -
  let ?h = "(demo_post [(''id'', JStr ''p1'')])\<lparr>h_scope := demo_scope\<lparr>rq_ctxOrg := ''org-b''\<rparr>\<rparr>"
  have i: "ensure_id ?h = ''p1''" "trim_space ''p1'' = ''p1''" "\<not> no_concrete_id ''p1''" "h_method ?h = ''POST''" by code_simp+
  have og: "normalizeWriteOrg (tenant demo_world) (resolveRequestOrg (tenant demo_world) (h_scope ?h)) = ''org-b''"
    "normalizeWriteOrg (tenant demo_world) (p_organizationId demo_project) \<noteq> ''org-b''" "p_organizationId demo_project = ''org-a''"
    by (simp_all add: demo_world_def demo_project_def new_project_def demo_scope_def) code_simp+
  have u: "oamPeerURL demo_world = []" by (simp add: oamPeerURL_def demo_world_def) code_simp
  show ?thesis
    using ensure_takes_over[OF demo_rows(2) demo_ready u i(4,1,2,3) og(1) _ og(2), of demo_ext] unfolding og(3) by simp blast
qed

section \<open>An unassignment that stops half way\<close>

text \<open>An unassignment that names a task and a roadmap feature that is not there answers 404,
  feature not found, and has by then dropped the task's milestone: a refused request has changed
  the task.\<close>

theorem unassign_torn:
  assumes "rep w (p_id p) p sid s" and "h_method h = ''POST''" and "Option.bind (body_object h) targets_of = Some (sid, fid, phid)"
    and "milestoneBound (t_milestoneNumber (d_task s)) (t_milestoneTitle (d_task s)) (t_milestoneUrl (d_task s))"
    and "look w (roadmap_path (home w (p_id p))) = Some (File (DRoadmap rm))"
    and "fid \<noteq> []" and "List.find (\<lambda>f. rf_id f = fid) (rm_features rm) = None"
  shows "\<exists>w'. run_state (handleMilestoneUnassign h p) w =
       (bad_request 404 (''feature '' @ fid @ '' not found in roadmap'') ''feature_not_found'' [(''featureId'', JStr fid)], w') \<and>
     rep w' (p_id p) p sid (s\<lparr>d_task := clearMilestoneLink (d_task s)\<rparr>) \<and>
     clearMilestoneLink (d_task s) \<noteq> d_task s"
proof -
  obtain t where t: "run_state (GetTask (p_id p) sid) w = (Inr t, w)" "untimed t = d_task s" "task_at w (p_id p) sid = Some t"
    using rep_task[OF assms(1)] rep_GetTask[OF assms(1)] by (metis Pair_inject sum.inject(2))
  have b: "milestoneBound (t_milestoneNumber t) (t_milestoneTitle t) (t_milestoneUrl t)"
    using assms(4) by (simp add: t(2)[symmetric] untimed_def)
  note m = run_MutateTask[OF assms(1) t(3), of clearMilestoneLink]
  let ?t = "(clearMilestoneLink t)\<lparr>t_updatedAt := clock_at w (ticks w)\<rparr>"
  let ?w = "put_node (task_path w (p_id p) sid) (File (DTask ?t)) (w\<lparr>ticks := Suc (ticks w)\<rparr>)"
  have c: "calm clearMilestoneLink" by simp
  have r: "rep ?w (p_id p) p sid (s\<lparr>d_task := clearMilestoneLink (d_task s)\<rparr>)"
    using leads_MutateTask[OF c, of p sid s] assms(1) m unfolding leads_def by auto
  have "look ?w (roadmap_path (home ?w (p_id p))) = Some (File (DRoadmap rm))"
    using assms(5) by (simp add: look_put_node task_path_def roadmap_path_def)
  then have g: "run_state (GetRoadmap (p_id p)) ?w = (Inr rm, ?w)"
    unfolding GetRoadmap_def roadmap_path_def
    by (rule run_get_project[OF rep_ready[OF r]]) (simp_all add: doc_kind_of_def)
  have ne: "sid \<noteq> []" using rep_plain[OF assms(1)] by (auto simp: plain_def)
  have "clearMilestoneLink (d_task s) \<noteq> d_task s"
    using assms(4) by (cases "d_task s") (auto simp: clearMilestoneLink_def milestoneBound_def)
  moreover have "run_state (handleMilestoneUnassign h p) w =
      (bad_request 404 (''feature '' @ fid @ '' not found in roadmap'') ''feature_not_found'' [(''featureId'', JStr fid)], ?w)"
    using assms(2,3,6,7) ne t(1) b m g
    by (simp add: handleMilestoneUnassign_def only_def unassign_milestones_def unassign_task_def unassign_on_roadmap_def
        unassign_roadmap_def unassign_feature_def run)
  ultimately show ?thesis using r by blast
qed

lemma demo_linked_roadmap: "look demo_linked (roadmap_path (home demo_linked (p_id demo_project))) = Some (File (DRoadmap (seed_roadmap demo_project)))"
proof -
  have r: "rep demo_task ''p1'' demo_project ''001-fix-login'' demo_docs" by (rule demo_rep)
  note m = run_MutateTask[OF r demo_task_docs(1)]
  have "look demo_task [''data'', ''projects'', ''p1'', ''roadmap'', ''roadmap.json''] = look demo_world [''data'', ''projects'', ''p1'', ''roadmap'', ''roadmap.json'']"
    by (simp add: demo_task_def after_create_def look_put_node task_path_def board_path_def)
  moreover have "look demo_world [''data'', ''projects'', ''p1'', ''roadmap'', ''roadmap.json''] = Some (File (DRoadmap (seed_roadmap demo_project)))"
    by (simp add: look_def) (simp add: demo_tree_def)
  moreover have "home demo_task ''p1'' = [''data'', ''projects'', ''p1'']" by (simp add: demo_task_def after_create_def home_def)
  ultimately show ?thesis
    unfolding demo_linked_def m by (simp add: look_put_node roadmap_path_def task_path_def)
qed

lemma unassign_torn_witness:
  "\<exists>w' l. run_state (handleMilestoneUnassign (demo_post [(''specId'', JStr ''001-fix-login''), (''featureId'', JStr ''f-9'')]) demo_project)
       demo_linked = (bad_request 404 ''feature f-9 not found in roadmap'' ''feature_not_found'' l, w') \<and>
     rep w' ''p1'' demo_project ''001-fix-login'' (demo_linked_docs\<lparr>d_task := clearMilestoneLink (d_task demo_linked_docs)\<rparr>)"
proof -
  let ?b = "[(''specId'', JStr ''001-fix-login''), (''featureId'', JStr ''f-9'')]"
  have b: "Option.bind (body_object (demo_post ?b)) targets_of = Some (''001-fix-login'', ''f-9'', [])" by code_simp
  have m: "milestoneBound (t_milestoneNumber (d_task demo_linked_docs)) (t_milestoneTitle (d_task demo_linked_docs)) (t_milestoneUrl (d_task demo_linked_docs))"
    by (simp add: milestoneBound_def demo_linked_docs_def)
  have n: "List.find (\<lambda>f. rf_id f = ''f-9'') (rm_features (seed_roadmap demo_project)) = None" by (simp add: seed_roadmap_def)
  show ?thesis
    using unassign_torn[OF demo_linked_rep demo_post_sel(1)[of ?b] b m demo_linked_roadmap _ n] unfolding demo_project_id by auto
qed

end
