(* ===== verification/Autopilot_Laws.thy ===== *)
theory Autopilot_Laws
  imports Autopilot Job_Records Job_Theorems Silent
begin

text \<open>
  How the triggers and the chaining run on a spec seen through \<open>rep\<close>.
\<close>

section \<open>The checks\<close>

lemma run_GetProgress_rep:
  assumes "rep w pid p sid s"
  obtains x where "run_state (GetProgress pid sid) w = (Inr x, w)" and "pr_paused x = pr_paused (d_progress s)"
  using rep_GetProgress[OF assms] untimed_pr_sel(1) by metis

lemma find_None_list_all: "List.find P xs = None \<longleftrightarrow> list_all (\<lambda>x. \<not> P x) xs"
  by (induction xs) auto

lemma run_boardTriggerBlocked:
  assumes r: "rep w (p_id p) p (t_specId t) s"
  shows "\<exists>b. run_state (boardTriggerBlocked p t a) w = (b, w) \<and>
    (b = None \<longleftrightarrow> \<not> pr_paused (d_progress s) \<and> list_all (\<lambda>j. \<not> active_for (t_specId t) j) (jobs_now w (p_id p)))"
proof -
  obtain x where g: "run_state (GetProgress (p_id p) (t_specId t)) w = (Inr x, w)"
    "pr_paused x = pr_paused (d_progress s)" by (rule run_GetProgress_rep[OF r])
  note lj = run_ListJobs[OF rep_ready[OF r]]
  show ?thesis
    unfolding boardTriggerBlocked_def run_then[OF g(1)] sum.case g(2)
    unfolding find_None_list_all[symmetric]
    by (cases "pr_paused (d_progress s)"; cases "List.find (active_for (t_specId t)) (jobs_now w (p_id p))")
       (simp_all add: run lj)
qed

lemma boardTrigger_blocked_by:
  assumes r: "rep w (p_id p) p (t_specId t) s" and j: "job_at w (p_id p) rid = Some j" "active_for (t_specId t) j"
  shows "\<exists>reason. run_state (boardTriggerBlocked p t a) w = (Some reason, w)"
proof -
  obtain b where b: "run_state (boardTriggerBlocked p t a) w = (b, w)"
    "b = None \<longleftrightarrow> \<not> pr_paused (d_progress s) \<and> list_all (\<lambda>j. \<not> active_for (t_specId t) j) (jobs_now w (p_id p))"
    using run_boardTriggerBlocked[OF r] by blast
  have "j \<in> set (jobs_now w (p_id p))" by (rule job_at_listed[OF j(1)])
  then have "b \<noteq> None" using b(2) j(2) by (auto simp: list_all_iff)
  then show ?thesis using b(1) by auto
qed

section \<open>The start\<close>

lemma not_started_sel [simp]: "to_started (not_started r) = False"
  by (simp add: not_started_def)

lemma columnJobAction_supported: "columnJobAction c = Some a \<Longrightarrow> unsupportedReviewAction a = None"
proof -
  have "unsupportedReviewAction ''run-planning'' = None" "unsupportedReviewAction ''run-implementation'' = None" by code_simp+
  then show "columnJobAction c = Some a \<Longrightarrow> unsupportedReviewAction a = None"
    by (auto simp: columnJobAction_def split: if_splits)
qed

definition fired_job :: "world \<Rightarrow> externals \<Rightarrow> project \<Rightarrow> task \<Rightarrow> string \<Rightarrow> string \<Rightarrow> job_origin \<Rightarrow> job" where
  "fired_job w x p t column a actor = (created_job w (p_id p) a (t_specId t) (x_image x) actor)
     \<lparr>j_execution := ''container'', j_message := ''Queued by board move to '' @ column @ ''.''\<rparr>"

lemma run_fireTrigger:
  assumes r: "rep w (p_id p) p (t_specId t) s" and a: "unsupportedReviewAction a = None"
  shows "\<exists>w' ot. run_state (fireTrigger x p t column a actor) w = (ot, w') \<and> to_started ot \<and> to_action ot = a \<and>
    rep w' (p_id p) p (t_specId t) s \<and> spawned w' = spawned w @ [fired_job w x p t column a actor] \<and>
    (\<exists>j. job_at w' (p_id p) (new_run_id w) = Some j \<and> active_for (t_specId t) j \<and> j_action j = a) \<and>
    uuids w' = Suc (uuids w)"
proof -
  note room = rep_job_room[OF r]
  let ?pid = "p_id p" and ?sid = "t_specId t"
  let ?c = "created_job w ?pid a ?sid (x_image x) actor"
  let ?w1 = "after_create_job w ?pid a ?sid ?c"
  let ?j = "fired_job w x p t column a actor"
  let ?w2 = "after_job ?w1 ?pid ?j"
  have cr: "run_state (CreateJobWithOrigin ?pid a ?sid (x_image x) actor) w = (Inr ?c, ?w1)"
    by (rule run_CreateJob[OF rep_pready[OF r] room a])
  have r1: "rep ?w1 ?pid p ?sid s" by (rule after_create_job_rep[OF r room])
  have rid: "j_runId ?j = new_run_id w" by (simp add: fired_job_def)
  have at1: "job_at ?w1 ?pid (new_run_id w) = Some ?c" by (simp add: after_create_job_at)
  then have nd: "look ?w1 (job_path ?w1 ?pid (j_runId ?j)) \<noteq> Some Dir" unfolding rid by (simp add: job_at_look)
  have up: "run_state (UpdateJob ?pid ?j) ?w1 = (Inr (), ?w2)"
    by (rule run_UpdateJob[OF rep_ready[OF r1] _ nd]) (simp add: rid new_run_id_jobid[OF room])
  have r2: "rep ?w2 ?pid p ?sid s" by (rule after_job_rep[OF r1 nd])
  let ?w3 = "?w2\<lparr>spawned := spawned ?w2 @ [?j]\<rparr>"
  let ?ot = "\<lparr>to_started = True, to_action = a, to_runId = j_runId ?j,
      to_reason = ''board move to '' @ column @ '' started '' @ a\<rparr>"
  have res: "run_state (fireTrigger x p t column a actor) w = (?ot, ?w3)"
    unfolding fireTrigger_def run_then[OF cr] sum.case Let_def fired_job_def[symmetric] run_then[OF up]
    by (simp add: run)
  have jat: "job_at ?w3 ?pid rid = job_at ?w2 ?pid rid" for rid by (simp add: job_at_def)
  have "jobIsActive ''queued''" by code_simp
  then have act: "active_for ?sid (stamped ?j k)" "j_action (stamped ?j k) = a" for k
    by (simp_all add: active_for_def stamped_def fired_job_def)
  have sel: "spawned ?w2 = spawned w" "uuids ?w2 = Suc (uuids w)"
    by (simp_all add: after_job_def after_create_job_def)
  have j1: "job_at ?w3 ?pid (new_run_id w) = Some (stamped ?j (clock_at ?w1 (ticks ?w1)))"
    unfolding jat after_job_at rid by simp
  have r3: "rep ?w3 ?pid p ?sid s" using r2 by simp
  have "to_started ?ot" "to_action ?ot = a" by simp_all
  moreover have "spawned ?w3 = spawned w @ [?j]" "uuids ?w3 = Suc (uuids w)" using sel by simp_all
  ultimately show ?thesis using res r3 j1 act by blast
qed

lemma run_maybeStart_blocked:
  assumes r: "rep w (p_id p) p (t_specId t) s" and j: "job_at w (p_id p) rid = Some j" "active_for (t_specId t) j"
  shows "\<exists>ot. run_state (maybeStartJobForColumn x p t actor) w = (ot, w) \<and> \<not> to_started ot"
proof -
  obtain reason where b: "run_state (boardTriggerBlocked p t a) w = (Some (reason a), w)" for a
    using boardTrigger_blocked_by[OF r j] by metis
  show ?thesis
    by (cases "columnJobAction (trim_space (t_status t))") (auto simp: maybeStartJobForColumn_def Let_def run b)
qed

lemma run_maybeStart:
  assumes r: "rep w (p_id p) p (t_specId t) s" and a: "columnJobAction (trim_space (t_status t)) = Some a"
    and auto: "autoStartOnMove p" and np: "\<not> pr_paused (d_progress s)"
    and idle: "list_all (\<lambda>j. \<not> active_for (t_specId t) j) (jobs_now w (p_id p))" and sp: "\<not> blank (t_specId t)"
  shows "run_state (maybeStartJobForColumn x p t actor) w =
    run_state (fireTrigger x p t (trim_space (t_status t)) a actor) w"
proof -
  obtain b where b: "run_state (boardTriggerBlocked p t a) w = (b, w)"
    "b = None \<longleftrightarrow> \<not> pr_paused (d_progress s) \<and> list_all (\<lambda>j. \<not> active_for (t_specId t) j) (jobs_now w (p_id p))"
    using run_boardTriggerBlocked[OF r] by blast
  then have "b = None" using np idle by simp
  then show ?thesis using b(1) by (simp add: maybeStartJobForColumn_def Let_def a auto sp run)
qed

section \<open>Chaining\<close>

definition chained_job :: "world \<Rightarrow> externals \<Rightarrow> job \<Rightarrow> string \<Rightarrow> job" where
  "chained_job w x j a = created_job w (j_projectId j) a (j_specId j) (nz (j_runnerImage j) (x_image x)) (jobOriginFrom j)"

lemma run_chainJob:
  assumes r: "rep w (j_projectId j) p (j_specId j) s" and a: "unsupportedReviewAction a = None"
  obtains w' where "run_state (chainJobAsync x j a) w = (Inr (chained_job w x j a), w')"
    and "rep w' (j_projectId j) p (j_specId j) s" and "spawned w' = spawned w @ [chained_job w x j a]"
proof -
  obtain w1 where w1: "run_state (CreateJobWithOrigin (j_projectId j) a (j_specId j) (nz (j_runnerImage j) (x_image x)) (jobOriginFrom j)) w =
      (Inr (chained_job w x j a), w1)" "rep w1 (j_projectId j) p (j_specId j) s" "spawned w1 = spawned w"
    using rep_CreateJob[OF r a] unfolding chained_job_def by metis
  then show thesis
    using that[of "w1\<lparr>spawned := spawned w1 @ [chained_job w x j a]\<rparr>"] by (simp add: chainJobAsync_def run)
qed

lemma impl_supported: "unsupportedReviewAction ''run-implementation'' = None"
  by code_simp

lemma run_park:
  assumes r: "rep w (j_projectId j) p (j_specId j) s"
    and np: "\<not> (\<not> pause_exempt (j_action j) \<and> pr_paused (d_progress s))"
  obtains m w' where "run_state (parkTaskForHumanReview j) w = (Inr m, w')"
    and "rep w' (j_projectId j) p (j_specId j) (d_move (j_specId j) ''review'' s)" and "spawned w' = spawned w"
proof -
  obtain t w1 where w1: "run_state (MoveTask (j_projectId j) (j_specId j) ''review'') w = (Inr t, w1)"
    "rep w1 (j_projectId j) p (j_specId j) (d_move (j_specId j) ''review'' s)" by (rule rep_move[OF r columns_valid(3)])
  define l where "l = tag (j_runId j) @ ''coding complete '' @ arrow @ '' review (human approve/deliver)'' @ newline"
  obtain r2 w2 where w2: "run_state (AppendSpecLog (j_projectId j) (j_specId j) ''implementation'' l) w1 = (r2, w2)"
    "rep w2 (j_projectId j) p (j_specId j) (d_move (j_specId j) ''review'' s)" by (rule quiet_run[OF quiet_impl_log w1(2)])
  have b: "run_state (taskPausedBlock j) w = (None, w)"
    using run_taskPausedBlock[OF r refl refl] np by (simp only: if_False)
  have sp: "spawned w2 = spawned w"
    using silentD[OF silent_tasks(2) w1(1)] silentD[OF silent_docs(7) w2(1)] by simp
  have ne: "(None :: string option) \<noteq> None \<longleftrightarrow> False" by simp
  have "run_state (parkTaskForHumanReview j) w =
      (Inr (''All coding subtasks complete '' @ em_dash @ '' parked in review for human approve/deliver.''), w2)"
    unfolding parkTaskForHumanReview_def if_not_P[OF rep_sid[OF r]] run_then[OF b] ne if_False run_thenE[OF w1(1)]
      l_def[symmetric] run_then[OF w2(1)] by (simp add: run)
  then show thesis using that w2(2) sp by blast
qed

end
