(* ===== verification/Autopilot_Theorems.thy ===== *)
theory Autopilot_Theorems
  imports Autopilot_Laws
begin

text \<open>
  The properties of what starts jobs: a drag starts one job and a second drag none, the
  check and the start are two steps that can interleave, the human gate stops the chain,
  and the chain can repeat without progress.
\<close>

section \<open>The demonstration task\<close>

lemma demo_no_runs: "look demo_task ([''data'', ''projects'', ''p1'', ''runs''] @ [n]) = None"
  by (simp add: demo_task_def after_create_def Let_def look_put_node task_path_def board_path_def)
     (simp add: look_def demo_tree_def)

lemma demo_task_env:
  "home demo_task ''p1'' = [''data'', ''projects'', ''p1'']" "uuid_at demo_task = (\<lambda>n. ''uuid-'' @ itoa_nat n)"
  "getenv demo_task = (\<lambda>_. [])" "spawned demo_task = []"
  by (simp_all add: demo_task_def after_create_def Let_def demo_world_def home_def)

lemma demo_no_jobs: "jobs_now demo_task ''p1'' = []"
proof -
  have "children demo_task [''data'', ''projects'', ''p1'', ''runs''] = []"
    using set_children[of _ demo_task "[''data'', ''projects'', ''p1'', ''runs'']"] demo_no_runs
    by (metis equals0I set_empty)
  then show ?thesis by (simp add: jobs_now_def demo_task_env List.map_filter_simps)
qed

definition dragged :: "string \<Rightarrow> task" where
  "dragged col = demo_card\<lparr>t_status := col\<rparr>"

lemma dragged_sel [simp]: "t_specId (dragged c) = ''001-fix-login''" "t_status (dragged c) = c"
  by (simp_all add: dragged_def)

lemma demo_auto: "autoStartOnMove demo_project"
  by (simp add: autoStartOnMove_def demo_project_def new_project_def)

lemma demo_not_paused: "\<not> pr_paused (d_progress demo_docs)"
  by (simp add: demo_docs_def zero_progress_def)

lemma demo_not_blank: "\<not> blank ''001-fix-login''"
  by code_simp

section \<open>Board triggers\<close>

text \<open>C22: a drag into a column that represents a job, on an idle task of a project with the
  feature on, creates and starts exactly one job of that column's action; a drag that
  follows, of the same task, by anyone, into any column, starts nothing and changes
  nothing, since the queued job is found.\<close>

theorem trigger_starts_once:
  assumes r: "rep w (p_id p) p (t_specId t) s" and a: "columnJobAction (trim_space (t_status t)) = Some a"
    and "autoStartOnMove p" and "\<not> pr_paused (d_progress s)"
    and "list_all (\<lambda>j. \<not> active_for (t_specId t) j) (jobs_now w (p_id p))" and "\<not> blank (t_specId t)"
    and t': "t_specId t' = t_specId t"
  shows "\<exists>o1 o2 w1 j. run_state (maybeStartJobForColumn x p t actor) w = (o1, w1) \<and> to_started o1 \<and> to_action o1 = a \<and>
    spawned w1 = spawned w @ [j] \<and> j_action j = a \<and> j_specId j = t_specId t \<and>
    j_organizationId j = o_organizationId actor \<and> j_actorUsername j = o_actorUsername actor \<and>
    rep w1 (p_id p) p (t_specId t) s \<and>
    run_state (maybeStartJobForColumn x p t' actor') w1 = (o2, w1) \<and> \<not> to_started o2"
proof -
  obtain w1 o1 where f: "run_state (fireTrigger x p t (trim_space (t_status t)) a actor) w = (o1, w1)" "to_started o1" "to_action o1 = a"
    "rep w1 (p_id p) p (t_specId t) s" "spawned w1 = spawned w @ [fired_job w x p t (trim_space (t_status t)) a actor]"
    "\<exists>j. job_at w1 (p_id p) (new_run_id w) = Some j \<and> active_for (t_specId t) j"
    using run_fireTrigger[OF r columnJobAction_supported[OF a], of x "trim_space (t_status t)" actor] by blast
  then obtain j where j: "job_at w1 (p_id p) (new_run_id w) = Some j" "active_for (t_specId t') j" using t' by auto
  have r1: "rep w1 (p_id p) p (t_specId t') s" using f(4) t' by simp
  obtain o2 where "run_state (maybeStartJobForColumn x p t' actor') w1 = (o2, w1)" "\<not> to_started o2"
    using run_maybeStart_blocked[OF r1 j] by blast
  then show ?thesis
    using f run_maybeStart[OF r a assms(3-6), of x actor] by (auto simp: fired_job_def created_job_def)
qed

theorem trigger_starts_once_witness:
  "\<exists>o1 o2 w1. run_state (maybeStartJobForColumn demo_ext demo_project (dragged ''queue'') zero_origin)
       demo_task = (o1, w1) \<and> to_started o1 \<and> to_action o1 = ''run-planning'' \<and> length (spawned w1) = 1 \<and>
     run_state (maybeStartJobForColumn demo_ext demo_project (dragged ''in_progress'') zero_origin)
       w1 = (o2, w1) \<and> \<not> to_started o2"
proof -
  have c: "columnJobAction (trim_space (t_status (dragged ''queue''))) = Some ''run-planning''"
    unfolding dragged_sel by code_simp
  have r: "rep demo_task (p_id demo_project) demo_project (t_specId (dragged ''queue'')) demo_docs"
    using demo_rep by simp
  show ?thesis
    using trigger_starts_once[OF r c demo_auto demo_not_paused, of "dragged ''in_progress''"]
      demo_no_jobs demo_not_blank by (simp add: demo_task_env(4)) fastforce
qed

text \<open>Two requests for the same drag, the second checking before the first has created its job.\<close>

definition raced_drags :: "externals \<Rightarrow> project \<Rightarrow> task \<Rightarrow> string \<Rightarrow> job_origin \<Rightarrow> (trigger_outcome \<times> trigger_outcome) act" where
  "raced_drags x p t a actor = do {
     b1 \<leftarrow> boardTriggerBlocked p t a;
     b2 \<leftarrow> boardTriggerBlocked p t a;
     o1 \<leftarrow> (case b1 of Some why \<Rightarrow> State_Monad.return (not_started why)
           | None \<Rightarrow> fireTrigger x p t (trim_space (t_status t)) a actor);
     o2 \<leftarrow> (case b2 of Some why \<Rightarrow> State_Monad.return (not_started why)
           | None \<Rightarrow> fireTrigger x p t (trim_space (t_status t)) a actor);
     State_Monad.return (o1, o2) }"

text \<open>the check for a running job and the creation of the new one are two steps, with
  nothing held in between: when a second request checks before the first has created its
  job, both pass and two jobs of the same task are started on one workspace.\<close>

theorem interleaved_triggers_start_two:
  assumes r: "rep w (p_id p) p (t_specId t) s" and a: "columnJobAction (trim_space (t_status t)) = Some a"
    and "\<not> pr_paused (d_progress s)" and "list_all (\<lambda>j. \<not> active_for (t_specId t) j) (jobs_now w (p_id p))"
  shows "\<exists>o1 o2 w'. run_state (raced_drags x p t a actor) w = ((o1, o2), w') \<and>
    to_started o1 \<and> to_started o2 \<and> length (spawned w') = length (spawned w) + 2"
proof -
  obtain b where b: "run_state (boardTriggerBlocked p t a) w = (b, w)"
    "b = None \<longleftrightarrow> \<not> pr_paused (d_progress s) \<and> list_all (\<lambda>j. \<not> active_for (t_specId t) j) (jobs_now w (p_id p))"
    using run_boardTriggerBlocked[OF r] by blast
  then have bn: "run_state (boardTriggerBlocked p t a) w = (None, w)" using assms(3,4) by simp
  note sup = columnJobAction_supported[OF a]
  obtain w1 o1 where f: "run_state (fireTrigger x p t (trim_space (t_status t)) a actor) w = (o1, w1)" "to_started o1"
    "rep w1 (p_id p) p (t_specId t) s" "spawned w1 = spawned w @ [fired_job w x p t (trim_space (t_status t)) a actor]"
    using run_fireTrigger[OF r sup, of x "trim_space (t_status t)" actor] by blast
  obtain w2 o2 where "run_state (fireTrigger x p t (trim_space (t_status t)) a actor) w1 = (o2, w2)" "to_started o2"
    "spawned w2 = spawned w1 @ [fired_job w1 x p t (trim_space (t_status t)) a actor]"
    using run_fireTrigger[OF f(3) sup, of x "trim_space (t_status t)" actor] by blast
  then show ?thesis using f(1,2,4) by (simp add: raced_drags_def run bn)
qed

theorem interleaved_triggers_start_two_witness:
  "\<exists>o1 o2 w'. run_state (raced_drags demo_ext demo_project (dragged ''queue'') ''run-planning'' zero_origin)
       demo_task = ((o1, o2), w') \<and> to_started o1 \<and> to_started o2 \<and> length (spawned w') = 2"
proof -
  have c: "columnJobAction (trim_space (t_status (dragged ''queue''))) = Some ''run-planning''"
    unfolding dragged_sel by code_simp
  have r: "rep demo_task (p_id demo_project) demo_project (t_specId (dragged ''queue'')) demo_docs"
    using demo_rep by simp
  show ?thesis
    using interleaved_triggers_start_two[OF r c demo_not_paused, of "demo_ext" zero_origin]
      demo_no_jobs
    by (simp add: demo_task_env(4) numeral_2_eq_2)
qed

section \<open>Only starting starts\<close>

text \<open>the store's own moves and every in-process executor start no job: the trigger is
  fired from a board drag only, so finishing work can never restart itself through the
  board.\<close>

theorem executors_start_nothing:
  "list_all (\<lambda>w'. spawned w' = spawned w)
     [snd (run_state (MoveTask pid sid c) w), snd (run_state (ApproveForCoding pid sid) w),
      snd (run_state (builtinPlanning j) w), snd (run_state (builtinImplementation j) w),
      snd (run_state (builtinRecover j) w), snd (run_state (builtinMarkStuck j) w),
      snd (run_state (builtinPause j) w), snd (run_state (builtinResume j) w),
      snd (run_state (builtinSkipToPhase j) w), snd (run_state (builtinChangelog j) w),
      snd (run_state (markJobCancelledStuck j) w)]"
proof -
  have *: "spawned (snd (run_state m w)) = spawned w" if "keeps silent m" for m :: "(world, 'x) state"
    using that by (simp add: keeps_def silent_def)
  show ?thesis by (simp add: * quietly)
qed

section \<open>After an implementation job\<close>

definition paused_for :: "job \<Rightarrow> docs \<Rightarrow> bool" where
  "paused_for j s \<longleftrightarrow> \<not> pause_exempt (j_action j) \<and> pr_paused (d_progress s)"

text \<open>C34: what follows a finished implementation job: nothing when the task is paused; with
  coding work left, exactly one more run-implementation job of the same actor when chaining
  is on and nothing otherwise; with all coding subtasks completed, the card is put in
  review and no job starts; with coding subtasks stuck, nothing.\<close>

theorem post_implementation_outcome:
  assumes r: "rep w (j_projectId j) p (j_specId j) s" and pl: "d_plan s = Some pl"
  shows "\<exists>m w'. run_state (postImplementationJob x j) w = (Inr m, w') \<and>
    (if paused_for j s then w' = w
     else if hasPendingCodingSubtasks pl then
       (if implAutoChainEnabled w
        then rep w' (j_projectId j) p (j_specId j) s \<and>
          (\<exists>nj. spawned w' = spawned w @ [nj] \<and> j_action nj = ''run-implementation'' \<and> j_specId nj = j_specId j \<and>
             j_actorUsername nj = j_actorUsername j \<and> j_organizationId nj = j_organizationId j)
        else w' = w)
     else if allCodingSubtasksComplete pl
       then rep w' (j_projectId j) p (j_specId j) (d_move (j_specId j) ''review'' s) \<and> spawned w' = spawned w
     else w' = w)"
proof -
  have gp: "run_state (GetPlan (j_projectId j) (j_specId j)) w = (Inr pl, w)" using rep_GetPlan[OF r] pl by simp
  have b: "run_state (taskPausedBlock j) w = (if paused_for j s then Some paused_text else None, w)"
    using run_taskPausedBlock[OF r refl refl] by (simp add: paused_for_def)
  note red = postImplementationJob_def[of x j, unfolded if_not_P[OF rep_sid[OF r]]]
  note start = run_thenE[OF gp] run_then[OF b]
  consider (paused) "paused_for j s" | (pending) "\<not> paused_for j s" "hasPendingCodingSubtasks pl"
    | (complete) "\<not> paused_for j s" "\<not> hasPendingCodingSubtasks pl" "allCodingSubtasksComplete pl"
    | (other) "\<not> paused_for j s" "\<not> hasPendingCodingSubtasks pl" "\<not> allCodingSubtasksComplete pl" by blast
  then show ?thesis
  proof cases
    case paused
    then show ?thesis unfolding red start by (simp add: run)
  next
    case pending
    obtain w' where w': "run_state (chainJobAsync x j ''run-implementation'') w = (Inr (chained_job w x j ''run-implementation''), w')"
      "rep w' (j_projectId j) p (j_specId j) s" "spawned w' = spawned w @ [chained_job w x j ''run-implementation'']"
      by (rule run_chainJob[OF r impl_supported])
    show ?thesis
      using pending w' unfolding red start
      by (simp add: run) (auto simp: chained_job_def created_job_def jobOriginFrom_def)
  next
    case complete
    obtain m w' where w': "run_state (parkTaskForHumanReview j) w = (Inr m, w')"
      "rep w' (j_projectId j) p (j_specId j) (d_move (j_specId j) ''review'' s)" "spawned w' = spawned w"
      using run_park[OF r] complete(1) unfolding paused_for_def by blast
    show ?thesis using complete w' unfolding red start by (simp add: run)
  next
    case other
    then show ?thesis unfolding red start by (simp add: run)
  qed
qed

lemma demo_task_chain: "implAutoChainEnabled demo_task"
proof -
  have "to_lower (trim_space ''1'') \<notin> {''0'', ''false'', ''no'', ''off''}" by code_simp
  moreover have "trim_space [] = []" "trim_space ''1'' = ''1''" by code_simp+
  ultimately show ?thesis by (simp add: implAutoChainEnabled_def envOr_def demo_task_env)
qed

lemma demo_planned_env: "implAutoChainEnabled demo_planned" "spawned demo_planned = []"
proof -
  obtain r w' where "run_state (builtinPlanning (demo_job ''run-planning'')) demo_task = (r, w')"
    by (cases "run_state (builtinPlanning (demo_job ''run-planning'')) demo_task")
  with silentD[OF silent_executors(1) this]
  have e: "getenv demo_planned = getenv demo_task" "spawned demo_planned = spawned demo_task"
    by (simp_all add: demo_planned_def same_env_def)
  then show "implAutoChainEnabled demo_planned"
    using demo_task_chain by (simp add: implAutoChainEnabled_def envOr_def)
  show "spawned demo_planned = []" by (simp add: e demo_task_env)
qed

theorem post_implementation_outcome_witness:
  "\<exists>m w' nj. run_state (postImplementationJob demo_ext (demo_job ''run-implementation'')) demo_planned = (Inr m, w') \<and>
     spawned w' = [nj] \<and> j_action nj = ''run-implementation''"
proof -
  have r: "rep demo_planned (j_projectId (demo_job ''run-implementation'')) demo_project
      (j_specId (demo_job ''run-implementation'')) demo_planned_docs" by (simp add: demo_planned_rep)
  have "hasPendingCodingSubtasks (builtin_plan ''Fix Login!'')"
    by (simp add: hasPendingCodingSubtasks_def coding_subtasks_def builtin_plan_def mk_phase_def)
  moreover have "\<not> paused_for (demo_job ''run-implementation'') demo_planned_docs" by (simp add: paused_for_def)
  ultimately show ?thesis
    using post_implementation_outcome[OF r demo_planned_docs(1), of "demo_ext"] demo_planned_env
    by auto
qed

section \<open>A chain without progress\<close>

text \<open>The runner's and the chain's notions of work left differ: a coding subtask that is
  neither open for the runner nor completed nor stuck, such as a failed one.\<close>

definition stalled :: "plan \<Rightarrow> bool" where
  "stalled pl \<longleftrightarrow> hasPendingCodingSubtasks pl \<and> firstPendingSubtaskID pl = []"

text \<open>\<open>n\<close> jobs of the chain, each run to its end and followed by the job it started.\<close>

fun chain_rounds :: "externals \<Rightarrow> nat \<Rightarrow> job \<Rightarrow> job act" where
  "chain_rounds x 0 j = State_Monad.return j"
| "chain_rounds x (Suc n) j = do {
     _ \<leftarrow> builtinImplementation j;
     _ \<leftarrow> postImplementationJob x j;
     started \<leftarrow> asks spawned;
     chain_rounds x n (last started) }"

lemma stalled_phases: "stalled pl \<Longrightarrow> pl_phases pl \<noteq> []"
  by (auto simp: stalled_def hasPendingCodingSubtasks_def coding_subtasks_def)

lemma pause_exempt_impl [simp]: "\<not> pause_exempt ''run-implementation''"
  by (simp add: pause_exempt_def)

lemma chain_round:
  assumes r: "rep w (j_projectId j) p (j_specId j) s" and mc: "may_code s" and pl: "d_plan s = Some pl" and st: "stalled pl"
    and np: "\<not> pr_paused (d_progress s)" and en: "implAutoChainEnabled w"
  shows "\<exists>r1 w1 r2 w' s' nj. run_state (builtinImplementation j) w = (r1, w1) \<and>
    run_state (postImplementationJob x j) w1 = (r2, w') \<and> spawned w' = spawned w @ [nj] \<and>
    j_projectId nj = j_projectId j \<and> j_specId nj = j_specId j \<and>
    rep w' (j_projectId j) p (j_specId j) s' \<and> may_code s' \<and> d_plan s' = Some pl \<and>
    \<not> pr_paused (d_progress s') \<and> implAutoChainEnabled w'"
proof -
  have nb: "\<not> (t_requireReview (d_task s) \<and> \<not> d_approved s \<and> t_status (d_task s) = ''human_review'')"
    using mc by (simp add: may_code_def)
  obtain pl1 i where c: "complete_next pl = (pl1, i)" by (cases "complete_next pl")
  have i: "i = []" using st set_next_id[of "''completed''" pl] c by (simp add: complete_next_def stalled_def)
  let ?s = "d_move (j_specId j) ''review'' (d_move (j_specId j) ''in_progress'' s)"
  have m: "snd (m_implement False j s) = ?s"
    unfolding m_implement_def if_not_P[OF nb] pl option.case if_not_P[OF stalled_phases[OF st]]
    by (simp add: m_complete_def c i Let_def)
  obtain w1 where w1: "run_state (builtinImplementation j) w = (fst (m_implement False j s), w1)"
    "rep w1 (j_projectId j) p (j_specId j) ?s"
    unfolding builtinImplementation_def using implementing.runs[OF r, of False] m by metis
  have pls: "d_plan ?s = Some pl" using pl by simp
  have gp: "run_state (GetPlan (j_projectId j) (j_specId j)) w1 = (Inr pl, w1)" using rep_GetPlan[OF w1(2)] pls by simp
  have b: "run_state (taskPausedBlock j) w1 = (None, w1)"
    using run_taskPausedBlock[OF w1(2) refl refl] np by simp
  have env1: "spawned w1 = spawned w" "implAutoChainEnabled w1"
    using silentD[OF silent_builtinImplementation w1(1)] en by (simp_all add: same_env_def implAutoChainEnabled_def envOr_def)
  let ?nj = "chained_job w1 x j ''run-implementation''"
  obtain w2 where w2: "run_state (chainJobAsync x j ''run-implementation'') w1 = (Inr ?nj, w2)"
    "rep w2 (j_projectId j) p (j_specId j) ?s" "spawned w2 = spawned w1 @ [?nj]"
    by (rule run_chainJob[OF w1(2) impl_supported])
  have post: "run_state (postImplementationJob x j) w1 = (Inr (''Chained next coding subtask (job '' @ j_runId ?nj @ '').''), w2)"
    unfolding postImplementationJob_def if_not_P[OF rep_sid[OF r]] run_thenE[OF gp] run_then[OF b]
    using st env1(2) w2(1) by (simp add: stalled_def run)
  have "implAutoChainEnabled w2"
    using w2(1) env1(2) unfolding chainJobAsync_def
    by (auto simp: run implAutoChainEnabled_def envOr_def same_env_def split: prod.splits sum.splits
        dest!: silentD[OF silent_CreateJob])
  then show ?thesis
    using w1 post w2 env1 pls np by (auto simp: may_code_def chained_job_def)
qed

text \<open>with a failed coding subtask and no open one left, the chain of implementation
  jobs never ends while chaining is on: every job completes nothing, leaves the plan as it
  is and starts the next, for any number of rounds.\<close>

theorem chain_never_ends:
  assumes "rep w (j_projectId j) p (j_specId j) s" and "may_code s" and "d_plan s = Some pl" and "stalled pl"
    and "\<not> pr_paused (d_progress s)" and "implAutoChainEnabled w"
  shows "\<exists>j' w' s'. run_state (chain_rounds x n j) w = (j', w') \<and> length (spawned w') = length (spawned w) + n \<and>
    rep w' (j_projectId j) p (j_specId j) s' \<and> d_plan s' = Some pl"
  using assms
proof (induction n arbitrary: j w s)
  case 0
  then show ?case by (auto simp: run)
next
  case (Suc n)
  obtain r1 w1 r2 w2 s2 nj where rd: "run_state (builtinImplementation j) w = (r1, w1)"
    "run_state (postImplementationJob x j) w1 = (r2, w2)" "spawned w2 = spawned w @ [nj]"
    "j_projectId nj = j_projectId j" "j_specId nj = j_specId j"
    and s2: "rep w2 (j_projectId nj) p (j_specId nj) s2" "may_code s2" "d_plan s2 = Some pl"
    "\<not> pr_paused (d_progress s2)" "implAutoChainEnabled w2"
    using chain_round[OF Suc.prems, of x] by metis
  obtain j' w' s' where "run_state (chain_rounds x n nj) w2 = (j', w')" "length (spawned w') = length (spawned w2) + n"
    "rep w' (j_projectId nj) p (j_specId nj) s'" "d_plan s' = Some pl"
    using Suc.IH[OF s2(1-3) Suc.prems(4) s2(4,5)] by blast
  then show ?case using rd by (auto simp: run)
qed

theorem chain_never_ends_witness:
  "\<exists>j' w' s'. run_state (chain_rounds demo_ext 1000 (demo_job ''run-implementation''))
       (demo_with (one_coding ''2-0'' ''failed'')) = (j', w') \<and> length (spawned w') = 1000 \<and>
     rep w' ''p1'' demo_project ''001-fix-login'' s' \<and> d_plan s' = Some (one_coding ''2-0'' ''failed'')"
proof -
  let ?pl = "one_coding ''2-0'' ''failed''" and ?j = "demo_job ''run-implementation''"
  let ?s = "demo_planned_docs\<lparr>d_plan := Some (one_coding ''2-0'' ''failed'')\<rparr>"
  have r: "rep (demo_with ?pl) (j_projectId ?j) demo_project (j_specId ?j) ?s" by (simp add: demo_with_rep)
  obtain r0 w0 where w0: "run_state (PutPlan ''p1'' ''001-fix-login'' ?pl) demo_planned = (r0, w0)"
    by (cases "run_state (PutPlan ''p1'' ''001-fix-login'' ?pl) demo_planned")
  have e: "implAutoChainEnabled (demo_with ?pl)" "spawned (demo_with ?pl) = []"
    using silentD[OF silent_docs(2) w0] demo_planned_env w0
    by (simp_all add: demo_with_def same_env_def implAutoChainEnabled_def envOr_def)
  have "may_code ?s" "d_plan ?s = Some ?pl" "\<not> pr_paused (d_progress ?s)" by (simp_all add: may_code_def)
  moreover have "stalled ?pl"
    by (simp add: stalled_def hasPendingCodingSubtasks_def firstPendingSubtaskID_def st_pending_def)
  ultimately show ?thesis
    using chain_never_ends[OF r, of ?pl "demo_ext" 1000] e by auto
qed

section \<open>After a planning job\<close>

text \<open>C21: the human gate: when planning leaves a task that asks for review before coding in
  human_review and the task is not on autopilot, nothing follows: no approval, no job, no
  write; on autopilot the task is approved, moved to queue and one implementation job of
  the same actor is started.\<close>

theorem post_planning_gate:
  assumes r: "rep w (j_projectId j) p (j_specId j) s" and rr: "t_requireReview (d_task s)"
    and hr: "t_status (d_task s) = ''human_review''" and np: "\<not> paused_for j s" and en: "implAutoChainEnabled w"
  shows "\<exists>m w'. run_state (postPlanningJob x j) w = (Inr m, w') \<and>
    (if taskAutopilot (d_task s)
     then (\<exists>nj. spawned w' = spawned w @ [nj] \<and> j_action nj = ''run-implementation'' \<and> j_specId nj = j_specId j \<and>
            j_actorUsername nj = j_actorUsername j) \<and>
          rep w' (j_projectId j) p (j_specId j) ((d_move (j_specId j) ''queue'' s)\<lparr>d_approved := True\<rparr>)
     else w' = w)"
proof -
  obtain t where g: "run_state (GetTask (j_projectId j) (j_specId j)) w = (Inr t, w)" and t: "untimed t = d_task s"
    by (rule rep_GetTask[OF r])
  have ts: "t_requireReview t" "t_status t = ''human_review''" "taskAutopilot t = taskAutopilot (d_task s)"
    using rr hr unfolding t[symmetric] by (simp_all add: taskAutopilot_def humanReviewRequired_def)
  have b: "run_state (taskPausedBlock j) w = (None, w)"
    using run_taskPausedBlock[OF r refl refl] np unfolding paused_for_def by simp
  note red = postPlanningJob_def[of x j, unfolded if_not_P[OF rep_sid[OF r]]]
  show ?thesis
  proof (cases "taskAutopilot (d_task s)")
    case False
    then show ?thesis unfolding red run_thenE[OF g] run_then[OF b] using ts by (simp add: run)
  next
    case True
    obtain ta w1 where w1: "run_state (ApproveForCoding (j_projectId j) (j_specId j)) w = (Inr ta, w1)"
      "rep w1 (j_projectId j) p (j_specId j) ((d_move (j_specId j) ''queue'' s)\<lparr>d_approved := True\<rparr>)"
      by (rule rep_ApproveForCoding[OF r hr])
    define l where "l = tag (j_runId j) @ ''auto-approved for coding after planning'' @ newline"
    obtain r2 w2 where w2: "run_state (AppendSpecLog (j_projectId j) (j_specId j) ''planning'' l) w1 = (r2, w2)"
      "rep w2 (j_projectId j) p (j_specId j) ((d_move (j_specId j) ''queue'' s)\<lparr>d_approved := True\<rparr>)"
      by (rule quiet_run[OF quiet_plan_log w1(2)])
    have e: "spawned w2 = spawned w" "implAutoChainEnabled w2"
      using silentD[OF silent_ApproveForCoding w1(1)] silentD[OF silent_docs(7) w2(1)] en
      by (simp_all add: same_env_def implAutoChainEnabled_def envOr_def)
    let ?nj = "chained_job w2 x j ''run-implementation''"
    obtain w3 where w3: "run_state (chainJobAsync x j ''run-implementation'') w2 = (Inr ?nj, w3)"
      "rep w3 (j_projectId j) p (j_specId j) ((d_move (j_specId j) ''queue'' s)\<lparr>d_approved := True\<rparr>)"
      "spawned w3 = spawned w2 @ [?nj]" by (rule run_chainJob[OF w2(2) impl_supported])
    have "run_state (postPlanningJob x j) w =
        (Inr (''Planning complete '' @ em_dash @ '' chained run-implementation (job '' @ j_runId ?nj @ '').''), w3)"
      unfolding red run_thenE[OF g] run_then[OF b] l_def[symmetric]
      using ts True w1(1) w2(1) w3(1) e(2) by (simp add: run)
    then show ?thesis using w3(2,3) e(1) True by (auto simp: chained_job_def jobOriginFrom_def created_job_def)
  qed
qed

text \<open>The demonstration task with the review flag set and the card in human_review.\<close>

definition demo_gated :: world where
  "demo_gated = snd (run_state (MoveTask ''p1'' ''001-fix-login'' ''human_review'')
     (snd (run_state (MutateTask ''p1'' ''001-fix-login'' (\<lambda>t. t\<lparr>t_requireReview := True\<rparr>)) demo_task)))"

lemma demo_gated_rep:
  obtains s where "rep demo_gated ''p1'' demo_project ''001-fix-login'' s" and "t_requireReview (d_task s)"
    and "t_status (d_task s) = ''human_review''" and "\<not> taskAutopilot (d_task s)" and "d_progress s = d_progress demo_docs"
    and "implAutoChainEnabled demo_gated"
proof -
  let ?mut = "\<lambda>t :: task. t\<lparr>t_requireReview := True\<rparr>"
  obtain t t' w1 where w1: "task_at demo_task ''p1'' ''001-fix-login'' = Some t"
    "run_state (MutateTask ''p1'' ''001-fix-login'' ?mut) demo_task = (Inr t', w1)"
    "rep w1 ''p1'' demo_project ''001-fix-login'' (demo_docs\<lparr>d_task := untimed (?mut t)\<rparr>)"
    by (rule rep_MutateTask[OF demo_rep, of ?mut]) auto
  obtain t2 w2 where w2: "run_state (MoveTask ''p1'' ''001-fix-login'' ''human_review'') w1 = (Inr t2, w2)"
    "rep w2 ''p1'' demo_project ''001-fix-login'' (d_move ''001-fix-login'' ''human_review'' (demo_docs\<lparr>d_task := untimed (?mut t)\<rparr>))"
    by (rule rep_move[OF w1(3) columns_valid(4)])
  have g: "demo_gated = w2" using w1(2) w2(1) by (simp add: demo_gated_def)
  have t: "t = demo_card" using w1(1) demo_task_docs(1) by simp
  have "t_humanReview demo_card = Some True" by (simp add: demo_card_def new_task_def)
  then have "\<not> taskAutopilot ((untimed (?mut t))\<lparr>t_status := ''human_review''\<rparr>)"
    by (simp add: t taskAutopilot_def humanReviewRequired_def)
  moreover have "implAutoChainEnabled w2"
    using silentD[OF silent_tasks(3) w1(2)] silentD[OF silent_tasks(2) w2(1)] demo_task_chain
    by (simp add: same_env_def implAutoChainEnabled_def envOr_def)
  ultimately show thesis using that[of "d_move ''001-fix-login'' ''human_review'' (demo_docs\<lparr>d_task := untimed (?mut t)\<rparr>)"] w2(2)
    unfolding g by simp
qed

theorem post_planning_gate_witness:
  "\<exists>m. run_state (postPlanningJob demo_ext (demo_job ''run-planning'')) demo_gated = (Inr m, demo_gated)"
proof (rule demo_gated_rep)
  fix s assume s: "rep demo_gated ''p1'' demo_project ''001-fix-login'' s" "t_requireReview (d_task s)"
    "t_status (d_task s) = ''human_review''" "\<not> taskAutopilot (d_task s)" "d_progress s = d_progress demo_docs"
    "implAutoChainEnabled demo_gated"
  have "\<not> paused_for (demo_job ''run-planning'') s" using s(5) demo_not_paused by (simp add: paused_for_def)
  then show ?thesis
    using post_planning_gate[of demo_gated "demo_job ''run-planning''" demo_project s] s by auto
qed

section \<open>Creating a job\<close>

text \<open>C38: a retired review action creates nothing; any other action creates a queued job that
  is readable under its id, carries the identity and the model choice of its origin and the
  agent of its action, and takes the origin's resolved model only when that was resolved
  for the same agent, so a pinned model never crosses from one phase into another.\<close>

theorem create_job_identity_and_pin:
  assumes r: "rep w pid p sid s"
  shows "case unsupportedReviewAction a of
      Some e \<Rightarrow> run_state (CreateJobWithOrigin pid a sid' img og) w = (Inl e, w)
    | None \<Rightarrow> (\<exists>j w'. run_state (CreateJobWithOrigin pid a sid' img og) w = (Inr j, w') \<and>
        run_state (GetJob pid (j_runId j)) w' = (Inr j, w') \<and> rep w' pid p sid s \<and>
        j_state j = ''queued'' \<and> j_action j = a \<and> j_specId j = sid' \<and>
        j_organizationId j = o_organizationId og \<and> j_actorUsername j = o_actorUsername og \<and>
        j_modelOverride j = o_modelOverride og \<and> j_agentKey j = agentKeyForAction a \<and>
        (if pinnedFor og (agentKeyForAction a)
         then j_resolvedProvider j = o_resolvedProvider og \<and> j_resolvedModel j = o_resolvedModel og \<and>
              trim_space (o_resolvedAgentKey og) = trim_space (j_agentKey j)
         else j_resolvedProvider j = [] \<and> j_resolvedModel j = [] \<and> j_resolvedAgentKey j = []))"
proof (cases "unsupportedReviewAction a")
  case (Some e)
  then show ?thesis by (simp add: CreateJobWithOrigin_def run)
next
  case None
  let ?j = "created_job w pid a sid' img og"
  obtain w' where w': "run_state (CreateJobWithOrigin pid a sid' img og) w = (Inr ?j, w')" "rep w' pid p sid s"
    "job_at w' pid (new_run_id w) = Some ?j" using rep_CreateJob[OF r None, of sid' img og] by metis
  have g: "run_state (GetJob pid (j_runId ?j)) w' = (Inr ?j, w')"
    using run_GetJob[OF rep_ready[OF w'(2)] new_run_id_jobid[OF rep_job_room[OF r]] w'(3)] by simp
  have "if pinnedFor og (agentKeyForAction a)
         then j_resolvedProvider ?j = o_resolvedProvider og \<and> j_resolvedModel ?j = o_resolvedModel og \<and>
              trim_space (o_resolvedAgentKey og) = trim_space (j_agentKey ?j)
         else j_resolvedProvider ?j = [] \<and> j_resolvedModel ?j = [] \<and> j_resolvedAgentKey ?j = []"
    by (auto simp: created_job_def new_job_def Let_def zero_job_def pinnedFor_def)
  moreover have "j_organizationId ?j = o_organizationId og" "j_actorUsername ?j = o_actorUsername og"
    "j_modelOverride ?j = o_modelOverride og" "j_agentKey ?j = agentKeyForAction a"
    by (simp_all add: created_job_def)
  ultimately show ?thesis using None w' g by auto
qed

theorem create_job_identity_and_pin_witness:
  "(\<exists>j w'. run_state (CreateJobWithOrigin ''p1'' ''run-planning'' ''001-fix-login'' ''img'' (zero_origin\<lparr>o_actorUsername := ''ada''\<rparr>)) demo_task = (Inr j, w') \<and>
     run_state (GetJob ''p1'' (j_runId j)) w' = (Inr j, w') \<and> j_actorUsername j = ''ada'') \<and>
   run_state (CreateJobWithOrigin ''p1'' '' Run-Review'' ''001-fix-login'' ''img'' zero_origin) demo_task =
     (Inl (Errf (''unsupported action '' @ quote ''run-review'' @ '': deep review is owned by ORA (gone)'')), demo_task)"
proof -
  have a: "unsupportedReviewAction ''run-planning'' = None"
    "unsupportedReviewAction '' Run-Review'' = Some (Errf (''unsupported action '' @ quote ''run-review'' @ '': deep review is owned by ORA (gone)''))"
    by code_simp+
  show ?thesis
    using create_job_identity_and_pin[OF demo_rep, of "''run-planning''" "''001-fix-login''" "''img''" "zero_origin\<lparr>o_actorUsername := ''ada''\<rparr>"]
      create_job_identity_and_pin[OF demo_rep, of "'' Run-Review''" "''001-fix-login''" "''img''" zero_origin]
    unfolding a option.case by auto
qed

section \<open>The actions a task offers\<close>


text \<open>An action is accepted when its executor ends without an error.\<close>

definition accepted :: "outcome act \<Rightarrow> world \<Rightarrow> bool" where
  "accepted m w \<longleftrightarrow> snd (fst (run_state m w)) = None"

context executor begin

lemma accepted_model: "rep w (j_projectId j) p (j_specId j) s \<Longrightarrow> accepted (exec j) w \<longleftrightarrow> snd (fst (model j s)) = None"
  unfolding accepted_def using runs by (metis fst_conv)

end









end
