(* ===== verification/Apply_Laws.thy ===== *)
theory Apply_Laws
  imports Change_Laws
begin

text \<open>
  What \<open>applyChangeSet\<close> does to the files of the machine, in a workspace without symbolic
  links and for change sets without patches: every effect stays below the workspace and out
  of \<open>.git\<close>, and each written file holds its contents.
\<close>

section \<open>Operations in a workspace without links\<close>

lemma os_ops_linkfree:
  assumes "linkfree w root"
  shows "run_state (os_mkdir_all (root @ q)) w = run_state (mkdir_all (root @ q)) w"
    and "run_state (os_write (root @ q) s) w = run_state (write_file (root @ q) (DText s)) w"
    and "q \<noteq> [] \<Longrightarrow> run_state (os_remove (root @ q)) w = run_state (remove_file (root @ q)) w"
proof -
  have d: "deref w (root @ q) = root @ q" for q by (rule deref_linkfree[OF assms])
  show "run_state (os_mkdir_all (root @ q)) w = run_state (mkdir_all (root @ q)) w"
    "run_state (os_write (root @ q) s) w = run_state (write_file (root @ q) (DText s)) w"
    by (simp_all add: os_mkdir_all_def os_write_def run d)
  assume "q \<noteq> []"
  then have "deref w (butlast (root @ q)) @ [last (root @ q)] = root @ q"
    using d[of "butlast q"] by (simp add: butlast_append)
  then show "run_state (os_remove (root @ q)) w = run_state (remove_file (root @ q)) w"
    using linkfree_at[OF assms, of q] by (simp add: os_remove_def run)
qed

section \<open>Frames\<close>

lemma keeps_mkdir_ancestor:
  assumes "is_under q p" and "q \<noteq> p"
  shows "keeps (touches p) (mkdir_all q)"
proof -
  have "touches p w (w\<lparr>fs := mk_dirs q (fs w)\<rparr>)" for w
    using assms
    by (auto simp: touches_def same_env_def look_def map_of_mk_dirs set_path_prefixes is_under_iff)
  then show ?thesis by (auto simp: keeps_def mkdir_all_def)
qed

text \<open>The effect of a change set: below the root, outside \<open>.git\<close>, no link changed.\<close>

definition inside :: "path \<Rightarrow> world \<Rightarrow> world \<Rightarrow> bool" where
  "inside root w w' \<longleftrightarrow> links w' = links w \<and> touches root w w' \<and>
     (\<forall>q. is_under (root @ [''.git'']) q \<longrightarrow> look w' q = look w q)"

interpretation ins: frame_rel "inside root" for root
  by unfold_locales (auto simp: inside_def intro: touches_trans)

lemma touches_weaken:
  assumes "touches (p @ r) w w'"
  shows "touches p w w'"
proof -
  have "\<not> is_under (p @ r) q" if "\<not> is_under p q" for q
    using that is_under_trans is_under_append by blast
  moreover have "is_under q p" if "is_under q (p @ r)" "\<not> is_under p q" for q
    using that by (auto simp: is_under_iff append_eq_append_conv2)
  ultimately show ?thesis using assms unfolding touches_def by blast
qed

lemma touches_inside:
  assumes "touches (root @ s # r) w w'" and "s \<noteq> ''.git''" and "links w' = links w"
  shows "inside root w w'"
proof -
  have "look w' q = look w q" if "is_under (root @ [''.git'']) q" for q
  proof -
    have "\<not> is_under (root @ s # r) q" "\<not> is_under q (root @ s # r)"
      using that assms(2) by (auto simp: is_under_iff append_eq_append_conv2 Cons_eq_append_conv)
    then show ?thesis using assms(1) unfolding touches_def by blast
  qed
  then show ?thesis using touches_weaken[of root "s # r"] assms by (simp add: inside_def)
qed

lemma links_kept:
  "links (snd (run_state (mkdir_all q) w)) = links w"
  "links (snd (run_state (write_file q d) w)) = links w"
  "links (snd (run_state (remove_file q) w)) = links w"
  by (auto simp: mkdir_all_def write_file_def remove_file_def split: option.splits)

lemma linkfree_inside: "inside root w w' \<Longrightarrow> linkfree w root \<Longrightarrow> linkfree w' root"
proof -
  assume "inside root w w'"
  then have "links w' = links w" by (simp add: inside_def)
  moreover from this have "deref w' = deref w" by (simp add: fun_eq_iff deref_def deref_step_def[abs_def])
  ultimately show "linkfree w root \<Longrightarrow> linkfree w' root" by (simp add: linkfree_def)
qed

lemma run_inside:
  assumes "keeps (touches (root @ s # r)) m" and "s \<noteq> ''.git''"
    and "links (snd (run_state m w)) = links w"
  shows "inside root w (snd (run_state m w))"
  by (rule touches_inside[of root s r, OF _ assms(2,3)]) (use assms(1) in \<open>simp add: keeps_def\<close>)

lemma apply_one_inside:
  assumes l: "linkfree w root" and sf: "safe_segments segs" and m: "mode f \<noteq> ''patch''"
  shows "inside root w (snd (run_state (apply_one x root rel (root @ segs) f) w))"
proof -
  obtain s r where sr: "segs = s # r" "s \<noteq> ''.git''"
    using sf by (cases segs) (auto simp: safe_segments_def)
  have ne: "segs \<noteq> []" using sr by simp
  have bl: "butlast (root @ segs) = root @ butlast segs" using ne by (simp add: butlast_append)
  have mk: "inside root w (snd (run_state (mkdir_all (root @ butlast segs)) w))"
  proof (rule run_inside[of root s r, OF _ sr(2) links_kept(1)])
    have e: "root @ s # r = (root @ butlast segs) @ [last segs]" using sr(1) ne by simp
    have "is_under (root @ butlast segs) (root @ s # r)" unfolding e by (rule is_under_append)
    moreover have "root @ butlast segs \<noteq> root @ s # r" unfolding e by simp
    ultimately show "keeps (touches (root @ s # r)) (mkdir_all (root @ butlast segs))"
      by (rule keeps_mkdir_ancestor)
  qed
  have wr: "inside root w1 (snd (run_state (write_file (root @ segs) d) w1))" for w1 d
    by (rule run_inside[of root s r, OF _ sr(2) links_kept(2)]) (simp add: keeps_write_file sr(1))
  have rm: "inside root w (snd (run_state (remove_file (root @ segs)) w))"
    by (rule run_inside[of root s r, OF _ sr(2) links_kept(3)]) (simp add: keeps_remove_file sr(1))
  show ?thesis
  proof (cases "mode f = ''delete''")
    case True
    then show ?thesis using rm os_ops_linkfree(3)[OF l ne]
      by (auto simp: apply_one_def run split: prod.splits sum.splits)
  next
    case nd: False
    show ?thesis
    proof (cases "mode f = ''write''")
      case True
      obtain rd w1 where w1: "run_state (mkdir_all (root @ butlast segs)) w = (rd, w1)"
        by (cases "run_state (mkdir_all (root @ butlast segs)) w")
      have i1: "inside root w w1" using mk w1 by simp
      have l1: "linkfree w1 root" by (rule linkfree_inside[OF i1 l])
      let ?c = "the (fc_contents f)"
      obtain rw w2 where w2: "run_state (write_file (root @ segs) (DText ?c)) w1 = (rw, w2)"
        by (cases "run_state (write_file (root @ segs) (DText ?c)) w1")
      have "inside root w w2"
        using ins.R_trans[OF i1 wr[of w1 "DText ?c"]] w2 by simp
      then show ?thesis
        using True nd i1 w1 w2 os_ops_linkfree(1)[OF l, of "butlast segs"] os_ops_linkfree(2)[OF l1, of segs]
        by (auto simp: apply_one_def run bl split: prod.splits sum.splits)
    next
      case False
      then show ?thesis using nd m by (simp add: apply_one_def run ins.R_refl)
    qed
  qed
qed

section \<open>The loop\<close>

definition plain_change :: "file_change \<Rightarrow> bool" where
  "plain_change f \<longleftrightarrow> safe_segments (rel_segments (fc_path f)) \<and> mode f \<noteq> ''patch''"

lemma plain_within: "plain_change f \<Longrightarrow> withinRoot root (target root f)"
proof -
  assume "plain_change f"
  then have s: "safe_segments (rel_segments (fc_path f))" by (simp add: plain_change_def)
  have "hd (rel_segments (fc_path f)) \<noteq> ''..''"
    using s by (cases "rel_segments (fc_path f)") (auto simp: safe_segments_def plain_def)
  then show ?thesis using s withinRoot_below by (simp add: target_safe[OF s] safe_segments_def)
qed

text \<open>One round of the loop on a file without a patch.\<close>

lemma run_apply_round:
  assumes "plain_change f" and "run_state (apply_one x root (clean_rel (fc_path f)) (target root f) f) w = (r, w1)"
  shows "run_state (apply_files x root (f # files) out) w = (case r of
      Inl e \<Rightarrow> ((out\<lparr>ao_status := deliveryStatusApplyFailed\<rparr>, Some e), w1)
    | Inr a \<Rightarrow> run_state (apply_files x root files (case a of None \<Rightarrow> out
        | Some True \<Rightarrow> out\<lparr>ao_applied := ao_applied out @ [clean_rel (fc_path f)]\<rparr>
        | Some False \<Rightarrow> out\<lparr>ao_skipped := ao_skipped out @ [clean_rel (fc_path f) @ '' (already absent)'']\<rparr>)) w1)"
  using plain_within[OF assms(1), of root] assms(2)
  by (simp add: apply_files.simps(2) Let_def run split: sum.split option.split bool.split)

lemma apply_files_inside:
  assumes "linkfree w root" and "list_all plain_change files"
  shows "inside root w (snd (run_state (apply_files x root files out) w))"
  using assms
proof (induction files arbitrary: w out)
  case (Cons f files)
  obtain r w1 where w1: "run_state (apply_one x root (clean_rel (fc_path f)) (target root f) f) w = (r, w1)"
    by (cases "run_state (apply_one x root (clean_rel (fc_path f)) (target root f) f) w")
  have pc: "plain_change f" using Cons.prems(2) by simp
  then have s: "safe_segments (rel_segments (fc_path f))" "mode f \<noteq> ''patch''" by (simp_all add: plain_change_def)
  have i1: "inside root w w1"
    using apply_one_inside[OF Cons.prems(1) s, of x "clean_rel (fc_path f)"] w1 target_safe[OF s(1), of root] by simp
  have l1: "linkfree w1 root" by (rule linkfree_inside[OF i1 Cons.prems(1)])
  have "inside root w1 (snd (run_state (apply_files x root files o2) w1))" for o2
    using Cons.IH[OF l1] Cons.prems(2) by simp
  then have "inside root w (snd (run_state (apply_files x root files o2) w1))" for o2
    using ins.R_trans[OF i1] by blast
  then show ?case using i1 by (auto simp: run_apply_round[OF pc w1] split: sum.split)
qed (simp add: run ins.R_refl)

text \<open>A file that is in place stays while the others are applied.\<close>

lemma look_mkdir_file:
  "look w p = Some n \<Longrightarrow> look (snd (run_state (mkdir_all q) w)) p = Some n"
  by (cases "p = []") (auto simp: mkdir_all_def look_def map_of_mk_dirs)

lemma look_write_other:
  "p \<noteq> q \<Longrightarrow> look (snd (run_state (write_file q d) w)) p = look w p"
  by (cases "q = []") (auto simp: write_file_def look_put_node)

lemma look_remove_other:
  "p \<noteq> q \<Longrightarrow> look (snd (run_state (remove_file q) w)) p = look w p"
  by (auto simp: remove_file_def look_def map_of_delete split: option.splits)

lemma apply_one_other:
  assumes l: "linkfree w root" and sf: "safe_segments segs" and m: "mode f \<noteq> ''patch''"
    and p: "p \<noteq> root @ segs" and n: "look w p = Some n"
  shows "look (snd (run_state (apply_one x root rel (root @ segs) f) w)) p = Some n"
proof -
  have ne: "segs \<noteq> []" using sf by (simp add: safe_segments_def)
  have bl: "butlast (root @ segs) = root @ butlast segs" using ne by (simp add: butlast_append)
  show ?thesis
  proof (cases "mode f = ''delete''")
    case True
    then show ?thesis using look_remove_other[OF p, of w] n os_ops_linkfree(3)[OF l ne]
      by (auto simp: apply_one_def run split: prod.splits sum.splits)
  next
    case nd: False
    show ?thesis
    proof (cases "mode f = ''write''")
      case True
      obtain rd w1 where w1: "run_state (mkdir_all (root @ butlast segs)) w = (rd, w1)"
        by (cases "run_state (mkdir_all (root @ butlast segs)) w")
      have n1: "look w1 p = Some n" using look_mkdir_file[OF n, of "root @ butlast segs"] w1 by simp
      have "links w1 = links w" using links_kept(1)[of "root @ butlast segs" w] w1 by simp
      then have l1: "linkfree w1 root" using l by (simp add: linkfree_def deref_def deref_step_def[abs_def])
      let ?c = "the (fc_contents f)"
      obtain rw w2 where w2: "run_state (write_file (root @ segs) (DText ?c)) w1 = (rw, w2)"
        by (cases "run_state (write_file (root @ segs) (DText ?c)) w1")
      have n2: "look w2 p = Some n" using look_write_other[OF p, of "DText ?c" w1] w2 n1 by simp
      show ?thesis
        using True nd n1 n2 w1 w2 os_ops_linkfree(1)[OF l, of "butlast segs"] os_ops_linkfree(2)[OF l1, of segs]
        by (auto simp: apply_one_def run bl split: prod.splits sum.splits)
    next
      case False
      then show ?thesis using nd m n by (simp add: apply_one_def run)
    qed
  qed
qed

lemma apply_files_other:
  assumes "linkfree w root" and "list_all plain_change files" and "p \<notin> set (map (target root) files)"
    and "look w p = Some n"
  shows "look (snd (run_state (apply_files x root files out) w)) p = Some n"
  using assms
proof (induction files arbitrary: w out)
  case (Cons f files)
  obtain r w1 where w1: "run_state (apply_one x root (clean_rel (fc_path f)) (target root f) f) w = (r, w1)"
    by (cases "run_state (apply_one x root (clean_rel (fc_path f)) (target root f) f) w")
  have pc: "plain_change f" using Cons.prems(2) by simp
  then have s: "safe_segments (rel_segments (fc_path f))" "mode f \<noteq> ''patch''" by (simp_all add: plain_change_def)
  note t = target_safe[OF s(1), of root]
  have l1: "linkfree w1 root"
    using linkfree_inside[OF apply_one_inside[OF Cons.prems(1) s, of x "clean_rel (fc_path f)"] Cons.prems(1)] w1 t by simp
  have n1: "look w1 p = Some n"
    using apply_one_other[OF Cons.prems(1) s _ Cons.prems(4), of x "clean_rel (fc_path f)"] Cons.prems(3) w1 t by simp
  have "look (snd (run_state (apply_files x root files o2) w1)) p = Some n" for o2
    by (rule Cons.IH[OF l1 _ _ n1]) (use Cons.prems in simp_all)
  then show ?case using n1 by (auto simp: run_apply_round[OF pc w1] split: sum.split)
qed (simp add: run)

lemma apply_one_writes:
  assumes l: "linkfree w root" and sf: "safe_segments segs" and m: "mode f = ''write''"
    and r: "run_state (apply_one x root rel (root @ segs) f) w = (Inr a, w1)"
  shows "look w1 (root @ segs) = Some (File (DText (the (fc_contents f))))"
proof -
  have ne: "root @ segs \<noteq> []" using sf by (simp add: safe_segments_def)
  have bl: "butlast (root @ segs) = root @ butlast segs" using sf by (simp add: butlast_append safe_segments_def)
  obtain rd w2 where w2: "run_state (mkdir_all (root @ butlast segs)) w = (rd, w2)"
    by (cases "run_state (mkdir_all (root @ butlast segs)) w")
  have "links w2 = links w" using links_kept(1)[of "root @ butlast segs" w] w2 by simp
  then have l2: "linkfree w2 root" using l by (simp add: linkfree_def deref_def deref_step_def[abs_def])
  have "run_state (write_file (root @ segs) (DText (the (fc_contents f)))) w2 = (Inr (), w1)"
    using r m w2 os_ops_linkfree(1)[OF l, of "butlast segs"] os_ops_linkfree(2)[OF l2, of segs]
    by (auto simp: apply_one_def run bl split: prod.splits sum.splits)
  then show ?thesis using ne by (auto simp: write_file_def look_put_node split: if_splits)
qed

lemma apply_files_writes:
  assumes "linkfree w root" and "list_all plain_change files" and "distinct (map (target root) files)"
    and "run_state (apply_files x root files out) w = ((out', None), w')"
    and "f \<in> set files" and "mode f = ''write''"
  shows "look w' (target root f) = Some (File (DText (the (fc_contents f))))"
  using assms
proof (induction files arbitrary: w out)
  case (Cons g files)
  obtain r w1 where w1: "run_state (apply_one x root (clean_rel (fc_path g)) (target root g) g) w = (r, w1)"
    by (cases "run_state (apply_one x root (clean_rel (fc_path g)) (target root g) g) w")
  have pc: "plain_change g" using Cons.prems(2) by simp
  then have s: "safe_segments (rel_segments (fc_path g))" "mode g \<noteq> ''patch''" by (simp_all add: plain_change_def)
  note t = target_safe[OF s(1), of root]
  have l1: "linkfree w1 root"
    using linkfree_inside[OF apply_one_inside[OF Cons.prems(1) s, of x "clean_rel (fc_path g)"] Cons.prems(1)] w1 t by simp
  obtain a o2 where a: "r = Inr a" and rest: "run_state (apply_files x root files o2) w1 = ((out', None), w')"
    using Cons.prems(4) by (auto simp: run_apply_round[OF pc w1] split: sum.splits)
  show ?case
  proof (cases "f = g")
    case True
    have "look w1 (target root g) = Some (File (DText (the (fc_contents g))))"
      using apply_one_writes[OF Cons.prems(1) s(1), of g x "clean_rel (fc_path g)" a w1] Cons.prems(6) True w1 a t by simp
    then show ?thesis
      using apply_files_other[OF l1, of files "target root g" _ x o2] Cons.prems(2,3) rest True by simp
  next
    case False
    then show ?thesis using Cons.IH[OF l1 _ _ rest] Cons.prems by simp
  qed
qed simp

end
