(* ===== verification/Change_Theorems.thy ===== *)
theory Change_Theorems
  imports Apply_Laws Job_Demo
begin

text \<open>
  The properties of change sets, of their application to a workspace, of branch names and
  redaction, and of the task workspaces.
\<close>

section \<open>The session change set\<close>

definition stored_changes :: "docs \<Rightarrow> change_set" where
  "stored_changes s = (case d_changes s of None \<Rightarrow> zero_change_set | Some c \<Rightarrow> c)"

definition wr :: "string \<Rightarrow> string \<Rightarrow> file_change" where
  "wr q c = \<lparr>fc_path = q, fc_contents = Some c, fc_patch = [], fc_delete = False\<rparr>"

definition del :: "string \<Rightarrow> file_change" where
  "del q = \<lparr>fc_path = q, fc_contents = None, fc_patch = [], fc_delete = True\<rparr>"

lemma wr_sel [simp]: "fc_path (wr q c) = q" "fc_contents (wr q c) = Some c" "mode (wr q c) = ''write''"
  "fc_path (del q) = q" "mode (del q) = ''delete''" "fc_patch (wr q c) = []" "fc_patch (del q) = []" "fc_contents (del q) = None"
  by (simp_all add: wr_def del_def mode_def)

text \<open>C16: Recording the change set of a step merges it into what the session has recorded.  The
  stored document names each path once, in the order the paths first came; at every path it
  holds the newest entry for it, and no path is lost.  Nothing else of the task changes.\<close>

theorem session_changes_accumulate:
  assumes "rep w pid p sid s" and "distinct (cs_paths (stored_changes s))"
  shows "\<exists>w' c. run_state (PutChangeSetMerged pid sid delta) w = (Inr (), w') \<and>
    rep w' pid p sid (s\<lparr>d_changes := Some c\<rparr>) \<and>
    distinct (cs_paths c) \<and> (\<exists>new. cs_paths c = cs_paths (stored_changes s) @ new) \<and>
    (\<forall>q. last_for q (cs_files c) = (case last_for q (cs_files delta) of
        Some f \<Rightarrow> Some f | None \<Rightarrow> last_for q (cs_files (stored_changes s))))"
proof -
  obtain w' now now' where w': "run_state (PutChangeSetMerged pid sid delta) w = (Inr (), w')"
    "rep w' pid p sid (s\<lparr>d_changes := Some (stamped_changes (merge_now (stored_changes s) delta now) now')\<rparr>)"
    using rep_PutChangeSetMerged[OF assms(1)] unfolding stored_changes_def by metis
  then show ?thesis using merge_files[OF assms(2), where delta = delta and now = now] by (metis stamped_changes_sel(1,3))
qed

theorem session_changes_accumulate_witness:
  "\<exists>w' c. run_state (PutChangeSetMerged ''p1'' ''001-fix-login'' (zero_change_set\<lparr>cs_files := [wr ''a.go'' ''x'']\<rparr>)) demo_task = (Inr (), w') \<and>
    rep w' ''p1'' demo_project ''001-fix-login'' (demo_docs\<lparr>d_changes := Some c\<rparr>) \<and>
    last_for ''a.go'' (cs_files c) = Some (wr ''a.go'' ''x'')"
proof -
  have e: "stored_changes demo_docs = zero_change_set" by (simp add: stored_changes_def demo_docs_def)
  then have d: "distinct (cs_paths (stored_changes demo_docs))" by (simp add: zero_change_set_def cs_paths_def)
  have l: "last_for ''a.go'' [wr ''a.go'' ''x''] = Some (wr ''a.go'' ''x'')" by (simp add: last_for_def)
  show ?thesis
    using session_changes_accumulate[OF demo_rep d, of "zero_change_set\<lparr>cs_files := [wr ''a.go'' ''x'']\<rparr>"]
    by (simp add: l) (metis l option.case(2))
qed

section \<open>Refusals\<close>

text \<open>A change set that is empty, names a path that is not accepted, has too many files or
  bytes, or meets no workspace, is refused with a status before anything is written.\<close>

theorem refused_change_set_writes_nothing:
  assumes "cs_files cs = [] \<or> (\<exists>f\<in>set (cs_files cs). pathRejection (fc_path f) \<noteq> []) \<or>
      (0 < l_maxFiles lim \<and> l_maxFiles lim < int (length (cs_files cs))) \<or>
      (0 < l_maxBytes lim \<and> l_maxBytes lim < sum_list (map change_bytes (cs_files cs))) \<or>
      look w (deref w workDir) = None"
  shows "\<exists>out e. run_state (applyChangeSet x workDir cs lim) w = ((out, Some e), w) \<and>
    ao_applied out = [] \<and> ao_status out \<in> {deliveryStatusNoChanges, deliveryStatusChangeSetTooLarge,
      deliveryStatusWorkspaceUnavailable, deliveryStatusUnsafePath}"
proof -
  have ref: "run_state (refuse st msg) w = ((no_outcome\<lparr>ao_status := st\<rparr>, Some (Errf msg)), w)" for st msg
    by (simp add: refuse_def run)
  have "List.find (\<lambda>f. pathRejection (fc_path f) \<noteq> []) (cs_files cs) \<noteq> None"
    if "\<exists>f\<in>set (cs_files cs). pathRejection (fc_path f) \<noteq> []"
    using that by (auto simp: find_None_iff)
  then show ?thesis
    using assms
    by (auto simp: applyChangeSet_def Let_def run ref no_outcome_def find_None_iff split: option.split)
qed

theorem refused_change_set_writes_nothing_witness:
  "\<exists>out e. run_state (applyChangeSet demo_ext [''data''] (zero_change_set\<lparr>cs_files := [wr ''ok.go'' ''x'', wr ''../up'' ''x'']\<rparr>)
      \<lparr>l_maxFiles = 50, l_maxBytes = 100\<rparr>) demo_world = ((out, Some e), demo_world) \<and> ao_applied out = []"
proof -
  have "pathRejection ''../up'' \<noteq> []" by code_simp
  then show ?thesis
    using refused_change_set_writes_nothing[of "zero_change_set\<lparr>cs_files := [wr ''ok.go'' ''x'', wr ''../up'' ''x'']\<rparr>"
        "\<lparr>l_maxFiles = 50, l_maxBytes = 100\<rparr>" demo_world "[''data'']" demo_ext] by auto
qed

section \<open>Effects\<close>

lemma run_applyChangeSet_files:
  assumes "run_state (applyChangeSet x workDir cs lim) w = (r, w')"
  shows "w' = w \<or> (w' = snd (run_state (apply_files x (deref w workDir) (cs_files cs) no_outcome) w) \<and>
      (\<forall>f\<in>set (cs_files cs). pathRejection (fc_path f) = []) \<and>
      (snd r = None \<longrightarrow> (\<exists>out. run_state (apply_files x (deref w workDir) (cs_files cs) no_outcome) w = ((out, None), w') \<and>
         fst r = out \<and> ao_applied out \<noteq> [])))"
  using assms
  by (auto simp: applyChangeSet_def Let_def run refuse_def find_None_iff
      split: if_splits option.splits prod.splits)

definition no_patches :: "change_set \<Rightarrow> bool" where
  "no_patches cs \<longleftrightarrow> list_all (\<lambda>f. mode f \<noteq> ''patch'') (cs_files cs)"

lemma accepted_plain:
  assumes "no_patches cs" and "\<forall>f\<in>set (cs_files cs). pathRejection (fc_path f) = []"
  shows "list_all plain_change (cs_files cs)"
  using assms accepted_safe by (auto simp: list_all_iff plain_change_def no_patches_def)

text \<open>C17: Applying a change set without patches to a workspace without symbolic links changes
  nothing outside the workspace, nothing below its \<open>.git\<close>, and no link, whether it succeeds
  or stops half way, and whatever paths it names: the check trims the white space around a path and
  the use keeps it, and the path that is used is safe all the same.\<close>

theorem apply_stays_inside:
  assumes "linkfree w root" and "no_patches cs"
    and "run_state (applyChangeSet x root cs lim) w = (r, w')"
  shows "links w' = links w \<and> touches root w w' \<and> (\<forall>q. is_under (root @ [''.git'']) q \<longrightarrow> look w' q = look w q)"
proof -
  have d: "deref w root = root" using assms(1) by (simp add: linkfree_def)
  have "inside root w w'"
    using run_applyChangeSet_files[OF assms(3)] apply_files_inside[OF assms(1) accepted_plain[OF assms(2)], of x no_outcome]
      ins.R_refl[of root w] by (auto simp: d)
  then show ?thesis by (simp add: inside_def)
qed

lemma demo_linkfree: "linkfree demo_world [''data'']"
  by (simp add: linkfree_def demo_world_def deref_def deref_step_def)

definition demo_changes :: change_set where
  "demo_changes = zero_change_set\<lparr>cs_files := [wr ''src/a.go'' ''package a'', del ''gone.txt'']\<rparr>"

lemma demo_changes_ok: "no_patches demo_changes"
  by (simp add: no_patches_def demo_changes_def)

definition demo_untrimmed :: change_set where
  "demo_untrimmed = zero_change_set\<lparr>cs_files := [wr '' ./a.go '' ''package a'', wr ''b/../ .git'' ''x'', del ''gone.txt'']\<rparr>"

theorem apply_stays_inside_witness:
  "snd (fst (run_state (applyChangeSet demo_ext [''data''] demo_untrimmed \<lparr>l_maxFiles = 50, l_maxBytes = 100\<rparr>) demo_world)) = None \<and>
   look (snd (run_state (applyChangeSet demo_ext [''data''] demo_untrimmed \<lparr>l_maxFiles = 50, l_maxBytes = 100\<rparr>) demo_world))
     [''data'', ''.git'', ''config''] = look demo_world [''data'', ''.git'', ''config'']"
proof -
  have n: "no_patches demo_untrimmed" by (simp add: no_patches_def demo_untrimmed_def)
  have "snd (fst (run_state (applyChangeSet demo_ext [''data''] demo_untrimmed \<lparr>l_maxFiles = 50, l_maxBytes = 100\<rparr>) demo_world)) = None"
    by code_simp
  then show ?thesis
    using apply_stays_inside[OF demo_linkfree n, of demo_ext "\<lparr>l_maxFiles = 50, l_maxBytes = 100\<rparr>"]
    by (cases "run_state (applyChangeSet demo_ext [''data''] demo_untrimmed \<lparr>l_maxFiles = 50, l_maxBytes = 100\<rparr>) demo_world")
      (simp add: is_under_iff)
qed

text \<open>When applying succeeds, every file the change set writes is in the workspace with
  exactly the recorded contents, provided the entries name different files.\<close>

theorem apply_writes_land:
  assumes "linkfree w root" and "no_patches cs"
    and "distinct (map (target root) (cs_files cs))"
    and "run_state (applyChangeSet x root cs lim) w = ((out, None), w')"
    and "f \<in> set (cs_files cs)" and "fc_contents f = Some c" and "mode f = ''write''"
  shows "look w' (root @ rel_segments (fc_path f)) = Some (File (DText c)) \<and> ao_applied out \<noteq> []"
proof -
  have d: "deref w root = root" using assms(1) by (simp add: linkfree_def)
  have n: "\<forall>f\<in>set (cs_files cs). pathRejection (fc_path f) = []"
    "run_state (apply_files x root (cs_files cs) no_outcome) w = ((out, None), w')" "ao_applied out \<noteq> []"
    using assms(4)
    by (auto simp: applyChangeSet_def Let_def run refuse_def find_None_iff d split: if_splits option.splits prod.splits)
  note pl = accepted_plain[OF assms(2) n(1)]
  have "safe_segments (rel_segments (fc_path f))" using pl assms(5) by (auto simp: list_all_iff plain_change_def)
  then show ?thesis
    using apply_files_writes[OF assms(1) pl assms(3) n(2) assms(5,7)] target_safe[of f root] assms(6) n(3) by simp
qed

theorem apply_writes_land_witness:
  "\<exists>out w'. run_state (applyChangeSet demo_ext [''data''] demo_changes \<lparr>l_maxFiles = 50, l_maxBytes = 100\<rparr>) demo_world = ((out, None), w') \<and>
     look w' [''data'', ''src'', ''a.go''] = Some (File (DText ''package a''))"
proof -
  let ?r = "run_state (applyChangeSet demo_ext [''data''] demo_changes \<lparr>l_maxFiles = 50, l_maxBytes = 100\<rparr>) demo_world"
  have e: "snd (fst ?r) = None" by code_simp
  obtain out w' where r: "?r = ((out, None), w')" using e by (metis prod.collapse)
  have "map (target [''data'']) (cs_files demo_changes) = [[''data'', ''src'', ''a.go''], [''data'', ''gone.txt'']]"
    by code_simp
  then have d: "distinct (map (target [''data'']) (cs_files demo_changes))" by simp
  have m: "wr ''src/a.go'' ''package a'' \<in> set (cs_files demo_changes)" by (simp add: demo_changes_def)
  have seg: "rel_segments ''src/a.go'' = [''src'', ''a.go'']" by code_simp
  show ?thesis
    using apply_writes_land[OF demo_linkfree demo_changes_ok d r m] r by (simp add: seg)
qed

section \<open>Symbolic links\<close>

text \<open>The path rules look at text only.  When the cloned repository has a symbolic link to a
  directory outside, the change set that writes a file through that link is accepted, is reported
  as applied, and the file is written at the target of the link, outside the workspace.\<close>

theorem symlink_escape:
  assumes "deref w root = root" and "look w root \<noteq> None" and "faults w = []"
    and "map_of (links w) (root @ [l]) = Some t" and "dir_ok w t"
    and "map_of (links w) (t @ [n]) = None" and "look w (t @ [n]) \<noteq> Some Dir"
    and "plain l" and "plain n" and "pathRejection (l @ ''/'' @ n) = []"
    and "l_maxFiles lim \<noteq> 0" and "l_maxBytes lim = 0 \<or> int (length c) \<le> l_maxBytes lim" and "0 \<le> l_maxFiles lim"
  shows "\<exists>w'. run_state (applyChangeSet x root (zero_change_set\<lparr>cs_files := [wr (l @ ''/'' @ n) c]\<rparr>) lim) w =
      ((no_outcome\<lparr>ao_applied := [l @ ''/'' @ n]\<rparr>, None), w') \<and>
    look w' (t @ [n]) = Some (File (DText c))"
proof -
  let ?f = "wr (l @ ''/'' @ n) c" and ?w = "put_node (t @ [n]) (File (DText c)) w"
  have seg: "rel_segments (l @ ''/'' @ n) = [l, n]"
    using assms(8,9) by (simp add: rel_segments_def plain_def split_on_append split_on_id rel_step_def)
  then have cl: "clean_rel (l @ ''/'' @ n) = l @ ''/'' @ n" by (simp add: clean_rel_def)
  have tg: "target root ?f = root @ [l, n]"
    using assms(8,9) unfolding target_def wr_sel cl path_join_def
    by (simp add: plain_def split_on_append split_on_id clean_step_def)
  have dl: "deref w (root @ [l]) = t" by (simp add: deref_append assms(1) deref_step_def assms(4))
  have dn: "deref w (root @ [l, n]) = t @ [n]"
    using deref_append[of w "root @ [l]" "[n]"] dl by (simp add: deref_step_def assms(6))
  have mk: "run_state (os_mkdir_all (root @ [l])) w = (Inr (), w)"
    using run_mkdir_all_ok[OF assms(5)] assms(3) by (simp add: os_mkdir_all_def run dl)
  have ww: "run_state (os_write (root @ [l, n]) c) w = (Inr (), ?w)"
    using run_write_file_ok[of w "t @ [n]" "DText c"] dir_ok_look[OF assms(5)] assms(3,7) by (simp add: os_write_def run dn)
  have "l \<noteq> ''..''" using assms(8) by (simp add: plain_def)
  then have "withinRoot root (target root ?f)" unfolding tg by (intro withinRoot_below) simp_all
  then have "run_state (apply_files x root [?f] no_outcome) w = ((no_outcome\<lparr>ao_applied := [l @ ''/'' @ n]\<rparr>, None), ?w)"
    using mk ww cl by (simp add: apply_files.simps(2) Let_def run tg[simplified] apply_one_def no_outcome_def butlast_append)
  then show ?thesis
    using assms(1,2,10-13)
    by (auto simp: applyChangeSet_def Let_def run change_bytes_def no_outcome_def look_put_node)
qed

theorem symlink_escape_witness:
  "\<exists>w'. run_state (applyChangeSet demo_ext [''data'', ''projects'', ''p1''] (zero_change_set\<lparr>cs_files := [wr ''etc/x'' ''owned'']\<rparr>)
        \<lparr>l_maxFiles = 50, l_maxBytes = 100\<rparr>)
      (demo_world\<lparr>links := [([''data'', ''projects'', ''p1'', ''etc''], [''data''])]\<rparr>) =
      ((no_outcome\<lparr>ao_applied := [''etc/x'']\<rparr>, None), w') \<and> look w' [''data'', ''x''] = Some (File (DText ''owned''))"
proof -
  let ?w = "demo_world\<lparr>links := [([''data'', ''projects'', ''p1'', ''etc''], [''data''])]\<rparr>"
  let ?root = "[''data'', ''projects'', ''p1'']"
  have 1: "deref ?w ?root = ?root" by (simp add: deref_def deref_step_def)
  have 2: "look ?w ?root \<noteq> None" "faults ?w = []" "look ?w ([''data''] @ [''x'']) \<noteq> Some Dir"
    by (simp_all add: look_def demo_tree_def)
  have 3: "map_of (links ?w) (?root @ [''etc'']) = Some [''data'']" "map_of (links ?w) ([''data''] @ [''x'']) = None"
    by simp_all
  have "look demo_world [''data''] = Some Dir" by (simp add: look_def demo_tree_def)
  then have 4: "dir_ok ?w [''data'']" using fs_wf_dir_ok[OF demo_wf] by (simp add: dir_ok_def)
  have 5: "plain ''etc''" "plain ''x''" "pathRejection (''etc'' @ ''/'' @ ''x'') = []" by code_simp+
  show ?thesis
    using symlink_escape[OF 1 2(1,2) 3(1) 4 3(2) 2(3) 5, of "\<lparr>l_maxFiles = 50, l_maxBytes = 100\<rparr>" "''owned''" demo_ext] by simp
qed

section \<open>Branch names\<close>

text \<open>C40: Whatever text a branch is asked for, the branch name ends in a segment of at most 60
  lower-case letters, digits and single inner dashes, which sanitising leaves as it is; only
  the configured prefix can come before it, and only when no branch was asked for.\<close>

theorem branch_name_shape:
  "\<exists>seg. seg \<noteq> [] \<and> segment_ok seg \<and> sanitizeBranchSegment seg = seg \<and>
     deliveryBranchName w specID requested =
       (if sanitizeBranchSegment requested = [] \<and> deliveryBranchPrefix w \<noteq> []
        then deliveryBranchPrefix w @ ''/'' @ seg else seg)"
proof -
  have "segment_ok ''task''" by code_simp
  then show ?thesis
    using segment_ok_sanitize[of requested] segment_ok_sanitize[of specID] sanitize_fixed
    by (cases "sanitizeBranchSegment requested = []"; cases "sanitizeBranchSegment specID = []")
       (auto simp: deliveryBranchName_def Let_def)
qed

section \<open>Redaction\<close>

text \<open>Redacted text never holds the credential, for a credential of at least eight bytes
  without brackets (other than the word "redacted" itself).\<close>

theorem redaction_is_complete:
  assumes "8 \<le> length (trim_space secret)" and "CHR ''['' \<notin> set secret" and "CHR '']'' \<notin> set secret"
    and "trim_space secret \<noteq> ''redacted''"
  shows "\<not> contains (trim_space secret) (redactSecret out secret)"
proof -
  have s: "set (trim_space secret) \<subseteq> set secret" by (simp add: trim_space_def set_trim)
  have "\<not> contains (trim_space secret) (replace_all (trim_space secret) ''[redacted]'' out)"
    by (rule redacted_clean[OF assms(1) _ _ assms(4)]) (use s assms(2,3) in auto)
  then show ?thesis using assms(1) by (auto simp: redactSecret_def Let_def)
qed

theorem redaction_is_complete_witness:
  "\<not> contains ''ghs_12345678'' (redactSecret ''fatal: ghs_12345678 refused'' ''ghs_12345678'')"
proof -
  have e: "trim_space ''ghs_12345678'' = ''ghs_12345678''" by code_simp
  show ?thesis using redaction_is_complete[of "''ghs_12345678''"] unfolding e by simp
qed

lemma replace_all_none: "\<not> contains s t \<Longrightarrow> replace_all s new t = t"
proof (induction t)
  case (Cons a t)
  then show ?case by (simp add: replace_all.simps[of s new "a # t"])
qed (simp add: replace_all.simps[of s new "[]"])

text \<open>The clone error text is cut to 200 bytes before it is redacted.  A credential that
  straddles the cut is not found, and all of it up to the cut stays in the text.\<close>

theorem truncated_credential_leaks:
  assumes "8 \<le> length token" and "CHR '' '' \<notin> set token" and "trim_space token = token"
    and "k < length token" and "k \<le> 200"
  shows "redactSecret (truncateBytes (replicate (200 - k) (CHR '' '') @ token) 200) token =
    replicate (200 - k) (CHR '' '') @ take k token"
proof -
  let ?pad = "replicate (200 - k) (CHR '' '')"
  have t: "truncateBytes (?pad @ token) 200 = ?pad @ take k token"
    using assms(4,5) by (simp add: truncateBytes_def)
  have "\<not> contains token (?pad @ take k token)"
  proof
    assume "contains token (?pad @ take k token)"
    then obtain a b where e: "?pad @ take k token = a @ token @ b" by (auto simp: contains_iff)
    have "length a < length ?pad"
      using arg_cong[OF e, of length] assms(4) by simp
    then have "(?pad @ take k token) ! length a = CHR '' ''" by (simp add: nth_append)
    moreover have "(a @ token @ b) ! length a = token ! 0" using assms(1) by (cases token) (simp_all add: nth_append)
    ultimately have "token ! 0 = CHR '' ''" using e by simp
    then show False using assms(1,2) by (metis less_le_trans nth_mem zero_less_numeral)
  qed
  then show ?thesis using assms(1,3) by (simp add: t redactSecret_def Let_def replace_all_none)
qed

theorem truncated_credential_leaks_witness:
  "contains ''ghs_1234567'' (redactSecret (truncateBytes (replicate 189 (CHR '' '') @ ''ghs_12345678'') 200) ''ghs_12345678'')"
proof -
  have e: "trim_space ''ghs_12345678'' = ''ghs_12345678''" by code_simp
  have "contains s (replicate n (CHR '' '') @ s)" for s n by (auto simp: contains_iff) (metis append_Nil2)
  then show ?thesis using truncated_credential_leaks[of "''ghs_12345678''" 11] e by simp
qed

section \<open>Task workspaces\<close>

text \<open>Releasing the workspace of one task removes nothing of another task's workspace and
  nothing outside the job directory's \<open>tasks\<close> tree, whatever bytes the ids have; two ids made
  of letters, digits, dashes and underscores share a workspace only when they are equal.\<close>

theorem task_workspaces_isolated:
  assumes "(sanitizePathSegment pid, sanitizePathSegment sid) \<noteq> (sanitizePathSegment pid', sanitizePathSegment sid')"
    and "is_under (taskWorkspaceRoot w pid' sid') q"
  shows "look (snd (run_state (releaseTaskWorkspace pid sid) w)) q = look w q \<and>
    touches (jobTmpRoot w @ [''tasks'']) w (snd (run_state (releaseTaskWorkspace pid sid) w)) \<and>
    (\<forall>a b. list_all path_segment_char a \<and> a \<noteq> [] \<and> list_all path_segment_char b \<and> b \<noteq> [] \<longrightarrow>
      (sanitizePathSegment a = sanitizePathSegment b \<longleftrightarrow> a = b))"
proof -
  let ?root = "taskWorkspaceRoot w pid sid" and ?w = "snd (run_state (releaseTaskWorkspace pid sid) w)"
  have k: "keeps (touches ?root) (os_remove_all ?root)" by (rule keeps_os_remove_all) simp
  have t: "touches ?root w ?w"
    using k by (auto simp: releaseTaskWorkspace_def run keeps_def split: prod.split) (metis snd_conv)
  have u: "\<not> is_under ?root q" using task_roots_disjoint[of w pid sid q pid' sid'] assms by auto
  have nu: "\<not> is_under q ?root"
  proof
    assume "is_under q ?root"
    then have "is_under (taskWorkspaceRoot w pid' sid') ?root" using assms(2) is_under_trans by blast
    then show False using task_roots_disjoint[of w pid' sid' ?root pid sid] assms(1) by auto
  qed
  have "look ?w q = look w q" using t u nu unfolding touches_def by blast
  moreover have "touches (jobTmpRoot w @ [''tasks'']) w ?w"
    by (rule touches_weaken[of _ "[sanitizePathSegment pid, sanitizePathSegment sid]"])
       (use t in \<open>simp add: taskWorkspaceRoot_eq\<close>)
  ultimately show ?thesis by (simp add: sanitize_segment_id)
qed

theorem task_workspaces_isolated_witness:
  "look (snd (run_state (releaseTaskWorkspace ''p1'' ''001-a'') demo_world)) [''tmp'', ''opm-jobs'', ''tasks'', ''p1'', ''002-b''] =
     look demo_world [''tmp'', ''opm-jobs'', ''tasks'', ''p1'', ''002-b'']"
proof -
  have "(sanitizePathSegment ''p1'', sanitizePathSegment ''001-a'') \<noteq> (sanitizePathSegment ''p1'', sanitizePathSegment ''002-b'')"
    by code_simp
  moreover have "taskWorkspaceRoot demo_world ''p1'' ''002-b'' = [''tmp'', ''opm-jobs'', ''tasks'', ''p1'', ''002-b'']"
    by code_simp
  ultimately show ?thesis
    using task_workspaces_isolated[of "''p1''" "''001-a''" "''p1''" "''002-b''" demo_world] by simp
qed

end
