(* ===== verification/Pipeline_Laws.thy ===== *)
theory Pipeline_Laws
  imports Pipeline Job_Frame Job_Theorems
begin

text \<open>
  The pipeline over the documents of its task: what each part does when no container runs and
  nobody cancels or pauses.  \<open>live\<close> adds to \<open>rep\<close> that the job's record is there and not
  cancelled; the parts keep it because they write no job record (\<open>Job_Frame\<close>).
\<close>

section \<open>A live job\<close>

definition live :: "world \<Rightarrow> job \<Rightarrow> project \<Rightarrow> docs \<Rightarrow> bool" where
  "live w j p s \<longleftrightarrow> rep w (j_projectId j) p (j_specId j) s \<and> jobid (j_runId j) \<and>
     (\<exists>q. job_at w (j_projectId j) (j_runId j) = Some q \<and> j_state q \<noteq> ''cancelled'')"

lemma live_rep: "live w j p s \<Longrightarrow> rep w (j_projectId j) p (j_specId j) s"
  by (simp add: live_def)

lemma live_plain: "live w j p s \<Longrightarrow> plain (j_specId j)"
  using rep_plain live_rep by blast

lemma live_step:
  assumes "live w j p s" and "run_state m w = (r, w')" and "keeps (runs_kept (j_projectId j)) m"
    and "rep w' (j_projectId j) p (j_specId j) s'"
  shows "live w' j p s'"
proof -
  have "runs_kept (j_projectId j) w w'" using assms(2,3) unfolding keeps_def by (metis snd_conv)
  moreover have "plain (j_projectId j)" using rep_ready[OF live_rep[OF assms(1)]] by (auto elim: ready_D)
  ultimately show ?thesis using assms(1,4) by (simp add: live_def runs_kept_job_at(1))
qed

lemma live_not_blocked:
  assumes l: "live w j p s" and "\<not> pr_paused (d_progress s)"
  shows "run_state (pipelineCancelledOrPaused j) w = (None, w)"
proof -
  obtain q where q: "job_at w (j_projectId j) (j_runId j) = Some q" "j_state q \<noteq> ''cancelled''"
    using l by (auto simp: live_def)
  have g: "run_state (GetJob (j_projectId j) (j_runId j)) w = (Inr q, w)"
    by (rule run_GetJob[OF rep_ready[OF live_rep[OF l]] _ q(1)]) (use l in \<open>simp add: live_def\<close>)
  obtain x where x: "run_state (GetProgress (j_projectId j) (j_specId j)) w = (Inr x, w)" "untimed_pr x = d_progress s"
    by (rule rep_GetProgress[OF live_rep[OF l]])
  have "pr_paused x = pr_paused (d_progress s)" using x(2) untimed_pr_sel(1) by metis
  then show ?thesis using assms(2) q(2) by (simp add: pipelineCancelledOrPaused_def run g x(1))
qed

section \<open>Progress\<close>

definition m_pipe_progress :: "job \<Rightarrow> string \<Rightarrow> string \<Rightarrow> bool \<Rightarrow> docs \<Rightarrow> docs" where
  "m_pipe_progress j action phase running s = s\<lparr>d_progress := pipeline_progress j action phase running
     (case d_plan s of None \<Rightarrow> zero_plan | Some pl \<Rightarrow> pl) (d_progress s) (None, None)\<rparr>"

lemma m_pipe_progress_sel [simp]:
  "d_task (m_pipe_progress j a ph r s) = d_task s" "d_plan (m_pipe_progress j a ph r s) = d_plan s"
  "d_approved (m_pipe_progress j a ph r s) = d_approved s" "d_board (m_pipe_progress j a ph r s) = d_board s"
  "d_changes (m_pipe_progress j a ph r s) = d_changes s" "d_spec (m_pipe_progress j a ph r s) = d_spec s"
  "pr_paused (d_progress (m_pipe_progress j a ph r s)) = pr_paused (d_progress s)"
  by (simp_all add: m_pipe_progress_def pipeline_progress_def split: prod.split)

lemma untimed_pipeline_progress:
  "untimed_pr (pipeline_progress j a ph r pl prev st) = pipeline_progress j a ph r pl (untimed_pr prev) (None, None)"
  by (simp add: untimed_pr_def pipeline_progress_def split: prod.split)

lemma run_pipeline_stamps:
  obtains st k where "run_state (pipeline_stamps r prev) w = (st, w\<lparr>ticks := k\<rparr>)"
proof -
  have "w\<lparr>ticks := ticks w\<rparr> = w" by simp
  then have "\<exists>st k. run_state (pipeline_stamps r prev) w = (st, w\<lparr>ticks := k\<rparr>)"
    by (cases "r \<and> pr_startedAt prev \<noteq> None") (auto simp: pipeline_stamps_def run intro: exI[of _ "ticks w"])
  then show thesis using that by blast
qed

lemma rk_setPipelineProgress [jobframe]:
  "plain (j_specId j) \<Longrightarrow> keeps (runs_kept (j_projectId j)) (setPipelineProgress j a ph r)"
  unfolding setPipelineProgress_def pipeline_stamps_def Let_def by (intro jf.ap_intros jobframe; simp)

lemma live_setPipelineProgress:
  assumes l: "live w j p s"
  obtains w' where "run_state (setPipelineProgress j a ph r) w = ((), w')" and "live w' j p (m_pipe_progress j a ph r s)"
proof -
  note rp = live_rep[OF l]
  have g: "run_state (GetPlan (j_projectId j) (j_specId j)) w =
      (case d_plan s of None \<Rightarrow> Inl NotExist | Some x \<Rightarrow> Inr x, w)" by (rule rep_GetPlan[OF rp])
  obtain x where x: "run_state (GetProgress (j_projectId j) (j_specId j)) w = (Inr x, w)" "untimed_pr x = d_progress s"
    by (rule rep_GetProgress[OF rp])
  obtain st k where st: "run_state (pipeline_stamps r x) w = (st, w\<lparr>ticks := k\<rparr>)" by (rule run_pipeline_stamps)
  let ?pl = "case d_plan s of None \<Rightarrow> zero_plan | Some pl \<Rightarrow> pl"
  have pl: "result_or zero_plan (case d_plan s of None \<Rightarrow> Inl NotExist | Some x \<Rightarrow> Inr x) = ?pl"
    by (simp add: result_or_def split: option.split)
  obtain w' where w': "run_state (PutProgress (j_projectId j) (j_specId j) (pipeline_progress j a ph r ?pl x st)) (w\<lparr>ticks := k\<rparr>) = (Inr (), w')"
    "rep w' (j_projectId j) p (j_specId j) (s\<lparr>d_progress := untimed_pr (pipeline_progress j a ph r ?pl x st)\<rparr>)"
    by (rule rep_PutProgress[of "w\<lparr>ticks := k\<rparr>" _ p _ s]) (use rp in simp)
  have run: "run_state (setPipelineProgress j a ph r) w = ((), w')"
    unfolding setPipelineProgress_def run_then[OF g] run_then[OF x(1)] Let_def pl
    by (simp add: run_then[OF st[unfolded x]] result_or_def run w'(1) st)
  have "rep w' (j_projectId j) p (j_specId j) (m_pipe_progress j a ph r s)"
    using w'(2) by (simp add: m_pipe_progress_def untimed_pipeline_progress x(2))
  then show thesis using that[OF run] live_step[OF l run rk_setPipelineProgress[OF live_plain[OF l]]] by blast
qed

section \<open>Draining a plan\<close>

text \<open>The plan after \<open>n\<close> steps, and after all of them.\<close>

fun complete_first :: "nat \<Rightarrow> plan \<Rightarrow> plan" where
  "complete_first 0 pl = pl"
| "complete_first (Suc n) pl = complete_first n (in_work (fst (complete_next pl)))"

definition completed :: "subtask \<Rightarrow> subtask" where
  "completed st = (if st_pending st then st\<lparr>st_status := ''completed''\<rparr> else st)"

definition named_work :: "plan \<Rightarrow> bool" where
  "named_work pl \<longleftrightarrow> list_all (\<lambda>st. st_pending st \<longrightarrow> st_id st \<noteq> []) (subtasks pl)"

lemma complete_next_subtasks:
  "subtasks (fst (complete_next pl)) = update_first st_pending (\<lambda>st. st\<lparr>st_status := ''completed''\<rparr>) (subtasks pl)"
  by (simp add: complete_next_def set_next_subtasks)

lemma not_pending_completed [simp]: "\<not> st_pending (st\<lparr>st_status := ''completed''\<rparr>)"
  by (simp add: st_pending_def)

lemma named_work_next: "named_work pl \<Longrightarrow> named_work (fst (complete_next pl))"
proof -
  have "list_all Q xs \<Longrightarrow> list_all Q (update_first st_pending (\<lambda>st. st\<lparr>st_status := ''completed''\<rparr>) xs)"
    if "Q = (\<lambda>st. st_pending st \<longrightarrow> st_id st \<noteq> [])" for Q and xs :: "subtask list"
    using that by (induction xs) auto
  then show "named_work pl \<Longrightarrow> named_work (fst (complete_next pl))"
    by (simp add: named_work_def complete_next_subtasks)
qed

lemma named_work_pending:
  assumes "named_work pl"
  shows "firstPendingSubtaskID pl = [] \<longleftrightarrow> countPendingSubtasks pl = 0"
proof
  assume e: "firstPendingSubtaskID pl = []"
  show "countPendingSubtasks pl = 0"
  proof (rule ccontr)
    assume "countPendingSubtasks pl \<noteq> 0"
    then have "0 < countPendingSubtasks pl" by (simp add: countPendingSubtasks_def)
    then obtain st where st: "List.find st_pending (subtasks pl) = Some st" using countPending_pos by auto
    then have "st \<in> set (subtasks pl) \<and> st_pending st" by (rule find_Some_in_set)
    then show False using e assms st by (auto simp: firstPendingSubtaskID_def named_work_def list_all_iff)
  qed
qed (rule no_pending_id)

lemma in_work_named [simp]: "named_work (in_work pl) = named_work pl"
  by (simp add: named_work_def)

lemma map_completed_update:
  "map completed (update_first st_pending (\<lambda>st. st\<lparr>st_status := ''completed''\<rparr>) xs) = map completed xs"
  by (induction xs) (auto simp: completed_def)

lemma complete_first_all:
  "countPendingSubtasks pl = int n \<Longrightarrow> subtasks (complete_first n pl) = map completed (subtasks pl)"
proof (induction n arbitrary: pl)
  case 0
  then have "\<forall>st\<in>set (subtasks pl). completed st = st"
    by (auto simp: countPendingSubtasks_def filter_empty_conv completed_def)
  then show ?case by (simp add: map_idI)
next
  case (Suc n)
  then have "countPendingSubtasks (in_work (fst (complete_next pl))) = int n"
    using complete_next_counts(1)[of pl] by simp
  from Suc.IH[OF this] show ?case by (simp add: complete_next_subtasks map_completed_update)
qed

lemma complete_first_counts:
  "int n \<le> countPendingSubtasks pl \<Longrightarrow>
     countPendingSubtasks (complete_first n pl) = countPendingSubtasks pl - int n \<and>
     countPlanSubtasks (complete_first n pl) = (fst (countPlanSubtasks pl), snd (countPlanSubtasks pl) + int n)"
proof (induction n arbitrary: pl)
  case (Suc n)
  note c = complete_next_counts[of pl]
  have "int n \<le> countPendingSubtasks (in_work (fst (complete_next pl)))" using Suc.prems c(1) by simp
  from Suc.IH[OF this] show ?case using Suc.prems c by simp
qed simp

lemma complete_first_named: "named_work pl \<Longrightarrow> named_work (complete_first n pl)"
  by (induction n arbitrary: pl) (simp_all add: named_work_next)

section \<open>One round\<close>

text \<open>What the pipeline leaves of a spec while it works.\<close>

definition same_task :: "docs \<Rightarrow> docs \<Rightarrow> bool" where
  "same_task s s' \<longleftrightarrow> (\<exists>c. d_task s' = (d_task s)\<lparr>t_status := c\<rparr>) \<and> d_changes s' = d_changes s \<and> d_spec s' = d_spec s \<and>
     pr_paused (d_progress s') = pr_paused (d_progress s)"

lemma same_task_refl [simp]: "same_task s s"
proof -
  have "d_task s = (d_task s)\<lparr>t_status := t_status (d_task s)\<rparr>" by simp
  then show ?thesis unfolding same_task_def by blast
qed

lemma same_task_trans: "same_task s s' \<Longrightarrow> same_task s' s'' \<Longrightarrow> same_task s s''"
  by (auto simp: same_task_def)

lemma same_task_progress: "same_task s (m_pipe_progress j a ph r s)"
  using same_task_refl[of s, unfolded same_task_def] by (simp add: same_task_def)

lemma pipelineStepJob_sel [simp]:
  "j_projectId (pipelineStepJob j a) = j_projectId j" "j_specId (pipelineStepJob j a) = j_specId j"
  "j_runId (pipelineStepJob j a) = j_runId j" "j_action (pipelineStepJob j a) = a"
  by (simp_all add: pipelineStepJob_def)

lemma live_implementation_step:
  assumes l: "live w j p s" and x: "\<not> x_prefer x" and m: "may_code s" and pl: "d_plan s = Some pl"
    and fp: "firstPendingSubtaskID pl \<noteq> []"
  obtains msg w' s' where
    "run_state (pipelineImplementationStep x (pipelineStepJob j ''run-implementation'') session) w = ((msg, False, None), w')"
    and "live w' j p s'" and "d_plan s' = Some (in_work (fst (complete_next pl)))" and "same_task s s'" and "may_code s'"
proof -
  let ?j = "pipelineStepJob j ''run-implementation''"
  let ?s = "snd (m_implement True ?j s)"
  obtain msg where ms: "m_implement True ?j s = ((msg, None), ?s)" "d_plan ?s = Some (in_work (fst (complete_next pl)))"
    "t_status (d_task ?s) = (if all_done (fst (complete_next pl)) then ''review'' else ''in_progress'')"
    "d_progress ?s = untimed_pr (impl_progress ?j True (d_progress s) (in_work (fst (complete_next pl))) None)"
    "d_task ?s = (d_task s)\<lparr>t_status := t_status (d_task ?s)\<rparr>" "d_changes ?s = d_changes s" "d_spec ?s = d_spec s"
    by (rule m_implement_step[OF m pl fp, of True ?j])
  have rp: "rep w (j_projectId ?j) p (j_specId ?j) s" using live_rep[OF l] by simp
  obtain w' where w': "run_state (builtinImplementationOpts ?j True) w = (fst (m_implement True ?j s), w')"
    "rep w' (j_projectId ?j) p (j_specId ?j) ?s" by (rule implementing.runs[OF rp])
  have fst: "fst (m_implement True ?j s) = (msg, None)" using ms(1) by (metis fst_conv)
  have run: "run_state (pipelineImplementationStep x ?j session) w = ((msg, False, None), w')"
    using x w'(1) fst by (simp add: pipelineImplementationStep_def with_spawned_def run)
  have "keeps (runs_kept (j_projectId ?j)) (builtinImplementationOpts ?j True)"
    by (rule jf.ap_executors(2)) (simp add: live_plain[OF l])
  then have "live w' j p ?s" using live_step[OF l w'(1)] w'(2) by simp
  moreover have "same_task s ?s"
    unfolding same_task_def using ms(4-7) by (auto simp: impl_progress_def split: prod.split)
  moreover have "may_code ?s" using ms(3) by (simp add: may_code_def split: if_splits)
  ultimately show thesis using that[OF run] ms(2) by blast
qed

lemma may_code_progress [simp]: "may_code (m_pipe_progress j a ph r s) = may_code s"
  by (simp add: may_code_def)

text \<open>The loop: as many steps as there is work and room for.\<close>

lemma live_drain:
  assumes "live w j p s" and "\<not> x_prefer x" and "may_code s" and "d_plan s = Some pl" and "named_work pl"
    and "\<not> pr_paused (d_progress s)"
  shows "\<exists>msgs w' s'. run_state (drain x j session n steps used) w = (Inr (steps @ msgs, used), w') \<and> live w' j p s' \<and>
    length msgs = min n (nat (countPendingSubtasks pl)) \<and>
    d_plan s' = Some (complete_first (min n (nat (countPendingSubtasks pl))) pl) \<and> same_task s s'"
  using assms
proof (induction n arbitrary: w s pl steps)
  case 0
  then show ?case by (auto simp: run intro: exI[of _ "[]"])
next
  case (Suc n)
  note b = live_not_blocked[OF Suc.prems(1,6)]
  have g: "run_state (GetPlan (j_projectId j) (j_specId j)) w = (Inr pl, w)"
    using rep_GetPlan[OF live_rep[OF Suc.prems(1)]] Suc.prems(4) by simp
  show ?case
  proof (cases "firstPendingSubtaskID pl = []")
    case True
    then have "countPendingSubtasks pl = 0" using named_work_pending[OF Suc.prems(5)] by simp
    then show ?thesis using Suc.prems(1,4) True by (auto simp: run b g result_or_def intro: exI[of _ "[]"])
  next
    case False
    have pos: "0 < countPendingSubtasks pl" by (rule first_pending_count[OF False])
    let ?s1 = "m_pipe_progress j ''run-implementation'' ''Implement'' True s"
    obtain w1 where w1: "run_state (setPipelineProgress j ''run-implementation'' ''Implement'' True) w = ((), w1)" "live w1 j p ?s1"
      by (rule live_setPipelineProgress[OF Suc.prems(1)])
    obtain msg w2 s2 where st: "run_state (pipelineImplementationStep x (pipelineStepJob j ''run-implementation'') session) w1 =
        ((msg, False, None), w2)" "live w2 j p s2" "d_plan s2 = Some (in_work (fst (complete_next pl)))"
      "same_task ?s1 s2" "may_code s2"
      by (rule live_implementation_step[OF w1(2) Suc.prems(2), of pl session]) (use Suc.prems(3,4) False in simp_all)
    have tk: "same_task s s2" using same_task_trans[OF same_task_progress st(4)] .
    then have np: "\<not> pr_paused (d_progress s2)" using Suc.prems(6) by (simp add: same_task_def)
    have nw: "named_work (in_work (fst (complete_next pl)))" using named_work_next[OF Suc.prems(5)] by simp
    obtain msgs w' s' where ih: "run_state (drain x j session n (steps @ [msg]) used) w2 = (Inr ((steps @ [msg]) @ msgs, used), w')"
      "live w' j p s'" "length msgs = min n (nat (countPendingSubtasks (in_work (fst (complete_next pl)))))"
      "d_plan s' = Some (complete_first (min n (nat (countPendingSubtasks (in_work (fst (complete_next pl))))))
         (in_work (fst (complete_next pl))))" "same_task s2 s'"
      using Suc.IH[OF st(2) Suc.prems(2) st(5,3) nw np] by blast
    have mn: "min (Suc n) (nat (countPendingSubtasks pl)) =
        Suc (min n (nat (countPendingSubtasks (in_work (fst (complete_next pl))))))"
      using complete_next_counts(1)[OF pos] pos by (auto simp: min_def)
    have run: "run_state (drain x j session (Suc n) steps used) w = (Inr (steps @ (msg # msgs), used), w')"
      using False ih(1) by (simp add: run b g result_or_def w1(1) st(1))
    show ?thesis
      by (rule exI[of _ "msg # msgs"], rule exI[of _ w'], rule exI[of _ s'])
         (simp add: run ih(2-4) mn same_task_trans[OF tk ih(5)] del: drain.simps)
  qed
qed

section \<open>Approval\<close>

lemma live_approve:
  assumes l: "live w j p s"
  obtains steps w' s' where "run_state (pipeline_approve j) w = (Inr steps, w')" and "live w' j p s'" and "may_code s'"
    and "d_plan s' = d_plan s" and "same_task s s'"
proof -
  note rp = live_rep[OF l]
  obtain t where g: "run_state (GetTask (j_projectId j) (j_specId j)) w = (Inr t, w)" "untimed t = d_task s" by (rule rep_GetTask[OF rp])
  have st: "t_status t = t_status (d_task s)" "t_requireReview t = t_requireReview (d_task s)"
    using g(2) untimed_sel by metis+
  have ap: "run_state (if t_requireReview t then taskApprovedForCoding (j_projectId j) (j_specId j) else State_Monad.return True) w =
      ((if t_requireReview t then d_approved s else True), w)"
    using rep_taskApproved[OF rp] by (simp add: run)
  show thesis
  proof (cases "may_code s")
    case True
    then have "run_state (pipeline_approve j) w = (Inr [], w)"
      unfolding pipeline_approve_def run_then[OF g(1)] sum.case run_then[OF ap] by (auto simp: st may_code_def run)
    then show ?thesis using that[OF _ l True] by simp
  next
    case False
    then have h: "t_requireReview (d_task s)" "\<not> d_approved s" "t_status (d_task s) = ''human_review''"
      by (simp_all add: may_code_def)
    obtain t' w' where a: "run_state (ApproveForCoding (j_projectId j) (j_specId j)) w = (Inr t', w')"
      "rep w' (j_projectId j) p (j_specId j) ((d_move (j_specId j) ''queue'' s)\<lparr>d_approved := True\<rparr>)"
      by (rule rep_ApproveForCoding[OF rp h(3)])
    let ?s = "(d_move (j_specId j) ''queue'' s)\<lparr>d_approved := True\<rparr>"
    have run: "run_state (pipeline_approve j) w = (Inr [''Auto-approved for coding (pipeline)''], w')"
      unfolding pipeline_approve_def run_then[OF g(1)] sum.case run_then[OF ap] using h by (simp add: st run a(1))
    have lv: "live w' j p ?s"
      by (rule live_step[OF l a(1) jf.ap_ApproveForCoding a(2)]) (simp add: live_plain[OF l])
    have "same_task s ?s" by (auto simp: same_task_def)
    then show ?thesis by (intro that[OF run lv]) (simp_all add: may_code_def)
  qed
qed

section \<open>Parking\<close>

lemma live_move:
  assumes l: "live w j p s" and c: "c \<in> set BoardColumns"
  obtains t w' where "run_state (MoveTask (j_projectId j) (j_specId j) c) w = (Inr t, w')"
    and "live w' j p (d_move (j_specId j) c s)"
proof -
  obtain t w' where m: "run_state (MoveTask (j_projectId j) (j_specId j) c) w = (Inr t, w')"
    "rep w' (j_projectId j) p (j_specId j) (d_move (j_specId j) c s)" by (rule rep_move[OF live_rep[OF l] c])
  then show thesis using that live_step[OF l m(1) jf.ap_tasks(1) m(2)] live_plain[OF l] by blast
qed

lemma live_quiet:
  assumes l: "live w j p s" and "quiet (j_projectId j) p (j_specId j) m" and "keeps (runs_kept (j_projectId j)) m"
  obtains r w' where "run_state m w = (r, w')" and "live w' j p s"
proof -
  obtain r w' where m: "run_state m w = (r, w')" by (cases "run_state m w")
  then have "rep w' (j_projectId j) p (j_specId j) s" using quietD[OF assms(2) live_rep[OF l]] by simp
  then show thesis using that[OF m] live_step[OF l m assms(3)] by blast
qed

definition parked :: "docs \<Rightarrow> bool" where
  "parked s \<longleftrightarrow> t_status (d_task s) = ''review'' \<and> \<not> pr_isRunning (d_progress s) \<and> pr_progress (d_progress s) = 100 \<and>
     pr_currentPhaseName (d_progress s) = ''Complete''"

lemma live_park:
  assumes l: "live w j p s" and pl: "d_plan s = Some pl" and n: "countPlanSubtasks pl = (n, n)" "0 < n"
  obtains msg w' s' where "run_state (pipeline_park j steps used) w = ((msg, used, None), w')" and "live w' j p s'"
    and "d_plan s' = Some pl" and "same_task s s'" and "parked s'"
proof -
  let ?s1 = "m_pipe_progress j ''run-pipeline'' ''Review (human)'' False s"
  let ?s2 = "d_move (j_specId j) ''review'' ?s1"
  let ?s3 = "m_pipe_progress j ''run-pipeline'' ''Complete'' False ?s2"
  obtain w1 where w1: "run_state (setPipelineProgress j ''run-pipeline'' ''Review (human)'' False) w = ((), w1)" "live w1 j p ?s1"
    by (rule live_setPipelineProgress[OF l])
  obtain t w2 where w2: "run_state (MoveTask (j_projectId j) (j_specId j) ''review'') w1 = (Inr t, w2)" "live w2 j p ?s2"
    by (rule live_move[OF w1(2) columns_valid(3)])
  obtain r w3 where w3: "run_state (AppendSpecLog (j_projectId j) (j_specId j) ''implementation''
      (tag (j_runId j) @ ''run-pipeline finished '' @ arrow @ '' review (human gate)'' @ newline)) w2 = (r, w3)" "live w3 j p ?s2"
    by (rule live_quiet[OF w2(2) quiet_impl_log jf.ap_AppendSpecLog]) (use live_plain[OF l] in simp_all)
  obtain w4 where w4: "run_state (setPipelineProgress j ''run-pipeline'' ''Complete'' False) w3 = ((), w4)" "live w4 j p ?s3"
    by (rule live_setPipelineProgress[OF w3(2)])
  have run: "run_state (pipeline_park j steps used) w =
      ((''Pipeline complete: '' @ arrow_join (steps @ [''parked in review for human approve/deliver'']), used, None), w4)"
    unfolding pipeline_park_def run_then[OF w1(1)] run_then[OF w2(1)] sum.case run_then[OF w3(1)] run_then[OF w4(1)]
    by (simp add: run)
  have "parked ?s3"
    using pl n by (simp add: parked_def m_pipe_progress_def pipeline_progress_def pct_def)
  moreover have "same_task s ?s3" by (auto simp: same_task_def)
  ultimately show thesis using that[OF run w4(2)] pl by simp
qed

lemma live_close:
  assumes l: "live w j p s"
  obtains w' s' where "run_state (pipeline_close j) w = ((), w')" and "live w' j p s'"
    and "s' = s\<lparr>d_progress := (d_progress s)\<lparr>pr_isRunning := False\<rparr>\<rparr>"
proof -
  note rp = live_rep[OF l]
  obtain x where x: "run_state (GetProgress (j_projectId j) (j_specId j)) w = (Inr x, w)" "untimed_pr x = d_progress s"
    by (rule rep_GetProgress[OF rp])
  have ir: "pr_isRunning (d_progress s) = pr_isRunning x" using x(2) untimed_pr_sel(3) by metis
  let ?s = "s\<lparr>d_progress := (d_progress s)\<lparr>pr_isRunning := False\<rparr>\<rparr>"
  show thesis
  proof (cases "pr_isRunning x")
    case False
    then have "?s = s" using ir by simp
    moreover have "run_state (pipeline_close j) w = ((), w)" using False by (simp add: pipeline_close_def run x(1))
    ultimately show ?thesis using that l by simp
  next
    case True
    let ?w = "w\<lparr>ticks := Suc (ticks w)\<rparr>" and ?x = "x\<lparr>pr_isRunning := False, pr_completedAt := Some (clock_at w (ticks w))\<rparr>"
    obtain w' where w': "run_state (PutProgress (j_projectId j) (j_specId j) ?x) ?w = (Inr (), w')"
      "rep w' (j_projectId j) p (j_specId j) (s\<lparr>d_progress := untimed_pr ?x\<rparr>)"
      by (rule rep_PutProgress[of ?w _ p _ s]) (use rp in simp)
    have run: "run_state (pipeline_close j) w = ((), w')"
      using True by (simp add: pipeline_close_def run x(1) w'(1))
    have "untimed_pr ?x = (d_progress s)\<lparr>pr_isRunning := False\<rparr>" by (simp add: x(2)[symmetric] untimed_pr_def)
    then have "rep w' (j_projectId j) p (j_specId j) ?s" using w'(2) by simp
    moreover have "keeps (runs_kept (j_projectId j)) (pipeline_close j)"
      unfolding pipeline_close_def by (intro jf.ap_intros jobframe live_plain[OF l])
    ultimately show ?thesis using that[OF run live_step[OF l run]] by blast
  qed
qed

end
