(* ===== verification/Pipeline_Theorems.thy ===== *)
theory Pipeline_Theorems
  imports Pipeline_Laws Job_Demo
begin

text \<open>
  The properties of the pipeline and of the container it may run in.
\<close>

section \<open>The drain ends\<close>

lemma live_finish:
  assumes l: "live w j p s" and pl: "d_plan s = Some pl" and np: "\<not> pr_paused (d_progress s)"
    and fp: "firstPendingSubtaskID pl = []" and n: "countPlanSubtasks pl = (n, n)" "0 < n"
  obtains msg w' s' where "run_state (pipeline_finish j steps used) w = ((msg, used, None), w')" and "live w' j p s'"
    and "d_plan s' = Some pl" and "same_task s s'" and "parked s'"
proof -
  have g: "run_state (GetPlan (j_projectId j) (j_specId j)) w = (Inr pl, w)"
    using rep_GetPlan[OF live_rep[OF l]] pl by simp
  obtain msg w' s' where k: "run_state (pipeline_park j steps used) w = ((msg, used, None), w')" "live w' j p s'"
    "d_plan s' = Some pl" "same_task s s'" "parked s'" by (rule live_park[OF l pl n])
  have "run_state (pipeline_finish j steps used) w = ((msg, used, None), w')"
    using fp n k(1) by (simp add: pipeline_finish_def pipeline_counts_def run g result_or_def live_not_blocked[OF l np])
  then show thesis using that k(2-5) by blast
qed

lemma live_unfinished:
  assumes l: "live w j p s" and pl: "d_plan s = Some pl" and fp: "firstPendingSubtaskID pl \<noteq> []"
  obtains msg w' s' where "run_state (pipeline_finish j steps used) w = ((msg, used, Some (Errf ''incomplete drain'')), w')"
    and "live w' j p s'" and "d_plan s' = Some pl" and "same_task s s'"
proof -
  have g: "run_state (GetPlan (j_projectId j) (j_specId j)) w = (Inr pl, w)"
    using rep_GetPlan[OF live_rep[OF l]] pl by simp
  obtain w' where w': "run_state (setPipelineProgress j ''run-pipeline'' ''Incomplete'' False) w = ((), w')"
    "live w' j p (m_pipe_progress j ''run-pipeline'' ''Incomplete'' False s)" by (rule live_setPipelineProgress[OF l])
  show thesis
    by (rule that[OF _ w'(2)]) (use fp pl in \<open>simp_all add: pipeline_finish_def run g result_or_def w'(1) same_task_progress\<close>)
qed

definition drainable :: "plan \<Rightarrow> bool" where
  "drainable pl \<longleftrightarrow> named_work pl \<and> subtasks pl \<noteq> [] \<and> list_all (\<lambda>st. st_pending st \<or> st_done st) (subtasks pl)"

lemma drainable_phases: "drainable pl \<Longrightarrow> pl_phases pl \<noteq> []"
  by (auto simp: drainable_def subtasks_def)

lemma max_steps_room: "min (max_steps pl) (nat (countPendingSubtasks pl)) = min 500 (nat (countPendingSubtasks pl))"
  by (auto simp: max_steps_def Let_def min_def)

lemma all_completed:
  assumes "drainable pl" and "subtasks pl' = map completed (subtasks pl)"
  shows "countPlanSubtasks pl' = (int (length (subtasks pl)), int (length (subtasks pl)))"
proof -
  have "filter (\<lambda>st. st_status st = ''completed'' \<or> st_status st = ''done'') (map completed (subtasks pl)) =
      map completed (subtasks pl)"
    using assms(1) by (auto simp: drainable_def list_all_iff completed_def st_done_def intro!: filter_True)
  then show ?thesis by (simp add: countPlanSubtasks_def assms(2))
qed

text \<open>The whole body, with the plan there.\<close>

lemma live_body:
  assumes l: "live w j p s" and x: "\<not> x_prefer x" and pl: "d_plan s = Some pl" and d: "drainable pl"
    and np: "\<not> pr_paused (d_progress s)"
  shows "\<exists>msg e w' s' pl'. run_state (pipeline_body x j wd sd) w = ((msg, False, e), w') \<and> live w' j p s' \<and>
    d_plan s' = Some pl' \<and> same_task s s' \<and> pl' = complete_first (min 500 (nat (countPendingSubtasks pl))) pl \<and>
    (if countPendingSubtasks pl \<le> 500 then e = None \<and> parked s' else e = Some (Errf ''incomplete drain''))"
proof -
  have nw: "named_work pl" using d by (simp add: drainable_def)
  have g: "run_state (GetPlan (j_projectId j) (j_specId j)) w = (Inr pl, w)"
    using rep_GetPlan[OF live_rep[OF l]] pl by simp
  have pp: "run_state (pipeline_plan x j wd sd) w = (Inr ([], False, sd), w)"
    using drainable_phases[OF d] by (simp add: pipeline_plan_def run g result_or_def)
  obtain steps w1 s1 where a: "run_state (pipeline_approve j) w = (Inr steps, w1)" "live w1 j p s1" "may_code s1"
    "d_plan s1 = Some pl" "same_task s s1" using live_approve[OF l] pl by metis
  have np1: "\<not> pr_paused (d_progress s1)" using np a(5) by (simp add: same_task_def)
  have g1: "run_state (GetPlan (j_projectId j) (j_specId j)) w1 = (Inr pl, w1)"
    using rep_GetPlan[OF live_rep[OF a(2)]] a(4) by simp
  let ?k = "min 500 (nat (countPendingSubtasks pl))" and ?pl = "complete_first (min 500 (nat (countPendingSubtasks pl))) pl"
  obtain msgs w2 s2 where dr: "run_state (drain x j sd (max_steps pl) steps False) w1 = (Inr (steps @ msgs, False), w2)"
    "live w2 j p s2" "d_plan s2 = Some ?pl" "same_task s1 s2"
    using live_drain[OF a(2) x a(3,4) nw np1, of sd "max_steps pl" steps False] unfolding max_steps_room by blast
  have np2: "\<not> pr_paused (d_progress s2)" using np1 dr(4) by (simp add: same_task_def)
  have body: "run_state (pipeline_body x j wd sd) w = run_state (pipeline_finish j (steps @ msgs) False) w2"
    unfolding pipeline_body_def run_then[OF pp] sum.case prod.case run_then[OF a(1)] append_Nil pipeline_drain_def run_then[OF g1]
    by (simp add: result_or_def run dr(1))
  have c0: "int ?k \<le> countPendingSubtasks pl" by (simp add: countPendingSubtasks_def)
  note cs = complete_first_counts[OF c0]
  have st: "same_task s s2" by (rule same_task_trans[OF a(5) dr(4)])
  show ?thesis
  proof (cases "countPendingSubtasks pl \<le> 500")
    case True
    then have k: "?k = nat (countPendingSubtasks pl)" by simp
    have sub: "subtasks ?pl = map completed (subtasks pl)"
      unfolding k by (rule complete_first_all) (simp add: countPendingSubtasks_def)
    have fp: "firstPendingSubtaskID ?pl = []"
      by (rule no_pending_id) (use cs k in \<open>simp add: countPendingSubtasks_def\<close>)
    have "0 < int (length (subtasks pl))" using d by (simp add: drainable_def)
    then obtain msg w' s' where "run_state (pipeline_finish j (steps @ msgs) False) w2 = ((msg, False, None), w')"
      "live w' j p s'" "d_plan s' = Some ?pl" "same_task s2 s'" "parked s'"
      by (rule live_finish[OF dr(2,3) np2 fp all_completed[OF d sub]])
    then show ?thesis using body same_task_trans[OF st] True by auto
  next
    case False
    have "firstPendingSubtaskID ?pl \<noteq> []"
      using named_work_pending[OF complete_first_named[OF nw]] cs False by simp
    then obtain msg w' s' where "run_state (pipeline_finish j (steps @ msgs) False) w2 = ((msg, False, Some (Errf ''incomplete drain'')), w')"
      "live w' j p s'" "d_plan s' = Some ?pl" "same_task s2 s'"
      by (rule live_unfinished[OF dr(2,3)])
    then show ?thesis using body same_task_trans[OF st] False by auto
  qed
qed

text \<open>C3: On a task with a plan that names its work, a pipeline without a container always comes back, having
  completed exactly the first min(500, pending) pending subtasks of the plan; with at most 500 pending ones it
  succeeds with every subtask completed and the task parked in review, not running, at 100 percent and phase
  "Complete"; with more it reports an incomplete drain, and is no longer marked running either.\<close>
theorem pipeline_drains:
  assumes "live w j p s" and "\<not> x_prefer x" and "d_plan s = Some pl" and "drainable pl" and "\<not> pr_paused (d_progress s)"
  shows "\<exists>msg e w' s'. run_state (runPipeline x j wd sd) w = ((msg, False, e), w') \<and> live w' j p s' \<and>
    d_plan s' = Some (complete_first (min 500 (nat (countPendingSubtasks pl))) pl) \<and> \<not> pr_isRunning (d_progress s') \<and>
    (if countPendingSubtasks pl \<le> 500 then e = None \<and> parked s' else e = Some (Errf ''incomplete drain''))"
proof -
  let ?s0 = "m_pipe_progress j ''run-pipeline'' ''Pipeline'' True s"
  let ?sd = "if sd = None then wd else sd"
  obtain w1 where w1: "run_state (setPipelineProgress j ''run-pipeline'' ''Pipeline'' True) w = ((), w1)" "live w1 j p ?s0"
    by (rule live_setPipelineProgress[OF assms(1)])
  have "d_plan ?s0 = Some pl" "\<not> pr_paused (d_progress ?s0)"
    using assms(3,5) same_task_progress[of s] by (simp_all add: same_task_def)
  from live_body[OF w1(2) assms(2) this(1) assms(4) this(2), of wd ?sd]
  obtain msg e w2 s2 where b: "run_state (pipeline_body x j wd ?sd) w1 = ((msg, False, e), w2)" "live w2 j p s2"
    "d_plan s2 = Some (complete_first (min 500 (nat (countPendingSubtasks pl))) pl)"
    "if countPendingSubtasks pl \<le> 500 then e = None \<and> parked s2 else e = Some (Errf ''incomplete drain'')" by blast
  obtain w3 s3 where c: "run_state (pipeline_close j) w2 = ((), w3)" "live w3 j p s3"
    "s3 = s2\<lparr>d_progress := (d_progress s2)\<lparr>pr_isRunning := False\<rparr>\<rparr>" by (rule live_close[OF b(2)])
  have "j_specId j \<noteq> []" using live_plain[OF assms(1)] by (auto simp: plain_def)
  then have "run_state (runPipeline x j wd sd) w = ((msg, False, e), w3)"
    unfolding runPipeline_def by (simp add: run w1(1) b(1) c(1))
  then show ?thesis using c(2,3) b(3,4) by (auto simp: parked_def split: if_splits)
qed

definition demo_running :: world where
  "demo_running = after_job demo_planned ''p1'' (demo_job ''run-pipeline'')"

lemma demo_running_live: "live demo_running (demo_job ''run-pipeline'') demo_project demo_planned_docs"
proof -
  let ?j = "demo_job ''run-pipeline''"
  have nd: "look demo_planned (job_path demo_planned ''p1'' (j_runId ?j)) \<noteq> Some Dir"
    using rep_jobs_ok[OF demo_planned_rep] by (simp add: jobs_ok_def job_path_def)
  have "job_at demo_running ''p1'' ''r-1'' = Some (stamped ?j (clock_at demo_planned (ticks demo_planned)))"
    unfolding demo_running_def using after_job_at[of demo_planned "''p1''" ?j] by simp
  moreover have "rep demo_running ''p1'' demo_project ''001-fix-login'' demo_planned_docs"
    unfolding demo_running_def by (rule after_job_rep[OF demo_planned_rep nd])
  ultimately show ?thesis
    by (simp add: live_def jobid_def stamped_def demo_job_def zero_job_def)
qed

lemma demo_drainable: "drainable (builtin_plan ''Fix Login!'')"
  by (simp add: drainable_def named_work_def subtasks_def builtin_plan_def mk_phase_def mk_subtask_def st_pending_def st_done_def)

lemma pipeline_drains_witness:
  "\<exists>msg e w' s'. run_state (runPipeline demo_ext (demo_job ''run-pipeline'') None None) demo_running = ((msg, False, e), w') \<and>
     live w' (demo_job ''run-pipeline'') demo_project s' \<and>
     d_plan s' = Some (complete_first 3 (builtin_plan ''Fix Login!'')) \<and> \<not> pr_isRunning (d_progress s') \<and> e = None \<and> parked s'"
  using pipeline_drains[OF demo_running_live _ demo_planned_docs(1) demo_drainable, of demo_ext None None]
  by simp

end
