(* ===== verification/Runner_Candidates.thy ===== *)
theory Runner_Candidates
  imports Deliver
begin

text \<open>
  The endpoint candidates of the runner binary and the walk over them
  (\<open>cmd/opm-runner/candidates.go\<close>, helpers of \<open>cmd/opm-runner/main.go\<close>).  The runner is a
  process of its own: the \<open>world\<close> of these definitions is the machine inside the container.
  Driving one endpoint is an argument, as \<open>candidateCaller\<close> is a variable of the source; log
  lines to standard error are not modelled.
\<close>

section \<open>Helpers\<close>

definition getenv_trim :: "world \<Rightarrow> string \<Rightarrow> string" where
  "getenv_trim w k = trim_space (getenv w k)"

definition truncate_s :: "string \<Rightarrow> nat \<Rightarrow> string" where
  "truncate_s s n = (if length s \<le> n then s else take n s @ ellipsis)"

text \<open>\<open>strconv.Atoi\<close> with its error dropped: zero for a text that is no number, the nearest
  \<open>int\<close> for one out of range.\<close>

definition decimal_text :: "bool \<Rightarrow> string \<Rightarrow> int" where
  "decimal_text neg ds =
     (if ds = [] \<or> \<not> list_all is_digit ds then 0
      else let v = int (digits_val ds) in
        if neg then - min v (int64_max + 1) else min v int64_max)"

definition atoi_value :: "string \<Rightarrow> int" where
  "atoi_value s = (case s of
       [] \<Rightarrow> 0
     | c # cs \<Rightarrow> if c = CHR ''-'' then decimal_text True cs
                else if c = CHR ''+'' then decimal_text False cs
                else decimal_text False s)"

definition envInt :: "world \<Rightarrow> string \<Rightarrow> int \<Rightarrow> int" where
  "envInt w k d = (case atoi (getenv_trim w k) of None \<Rightarrow> d | Some n \<Rightarrow> n)"

section \<open>Candidates\<close>

record candidate =
  ca_index :: int
  ca_endpointId :: string
  ca_kind :: string
  ca_transport :: string
  ca_provider :: string
  ca_baseUrl :: string
  ca_model :: string
  ca_cliCommand :: string
  ca_cliArgs :: "string list"
  ca_apiKey :: string

definition zero_candidate :: candidate where
  "zero_candidate = \<lparr> ca_index = 0, ca_endpointId = [], ca_kind = [], ca_transport = [], ca_provider = [],
     ca_baseUrl = [], ca_model = [], ca_cliCommand = [], ca_cliArgs = [], ca_apiKey = [] \<rparr>"

definition candidate_name :: "candidate \<Rightarrow> string" where
  "candidate_name c =
     (if ca_endpointId c \<noteq> [] then ca_endpointId c else ''(unregistered '' @ ca_provider c @ '')'')"

definition endpoint_kinds :: "string list" where
  "endpoint_kinds = [''api_openai'', ''api_anthropic'', ''cli_cursor'', ''cli_claude_code'', ''cli_qwen_code'',
     ''cli_generic'']"

definition candidateRunnable :: "candidate \<Rightarrow> bool" where
  "candidateRunnable c \<longleftrightarrow>
     ca_kind c \<in> set endpoint_kinds \<or> (ca_kind c = [] \<and> ca_provider c \<noteq> [])"

section \<open>Reading them from the environment\<close>

definition var_prefix :: "int \<Rightarrow> string" where
  "var_prefix i = ''OPM_MODEL_'' @ itoa i @ ''_''"

definition candidate_at :: "world \<Rightarrow> int \<Rightarrow> candidate option" where
  "candidate_at w i =
     (let v = (\<lambda>suffix. getenv_trim w (var_prefix i @ suffix)); key = v ''API_KEY'' in
      if key = [] then None
      else Some \<lparr> ca_index = i, ca_endpointId = v ''ENDPOINT_ID'', ca_kind = to_lower (v ''KIND''),
        ca_transport = to_lower (v ''TRANSPORT''), ca_provider = to_lower (v ''PROVIDER''),
        ca_baseUrl = trim_right (\<lambda>c. c = CHR ''/'') (v ''BASE_URL''), ca_model = v ''MODEL'',
        ca_cliCommand = v ''CLI_COMMAND'',
        ca_cliArgs = (let raw = v ''CLI_ARGS'' in if raw \<noteq> [] then Go_Strings.fields raw else []),
        ca_apiKey = key \<rparr>)"

text \<open>A nil slice is the empty list.  \<open>make\<close> panics for a negative capacity and for one past the
  address space: 160 bytes a candidate, \<open>2 ^ 48\<close> bytes in all on a 64-bit machine.  \<open>None\<close> is
  that panic.\<close>

definition max_candidates :: int where
  "max_candidates = 2 ^ 48 div 160"

definition loadCandidates :: "world \<Rightarrow> candidate list option" where
  "loadCandidates w =
     (let n = atoi_value (getenv_trim w ''OPM_MODEL_CANDIDATE_COUNT'') in
      if n < 0 \<or> max_candidates < n then None
      else Some (List.map_filter (candidate_at w) [1..n]))"

section \<open>Failures\<close>

definition retryable :: "err \<Rightarrow> bool" where
  "retryable e \<longleftrightarrow> (let msg = to_lower (err_text e) in
     \<not> list_ex (\<lambda>s. contains s msg)
         [''context canceled'', ''context deadline exceeded: prompt'', ''invalid prompt''])"

definition quotaLike :: "err \<Rightarrow> bool" where
  "quotaLike e \<longleftrightarrow> (let msg = to_lower (err_text e) in
     list_ex (\<lambda>s. contains s msg)
       [''429'', ''quota'', ''rate limit'', ''rate_limit'', ''insufficient_quota'', ''too many requests'', ''billing''])"

section \<open>The walk\<close>

type_synonym caller = "candidate \<Rightarrow> string \<Rightarrow> string \<Rightarrow> string actE"

definition unsupported_attempt :: "candidate \<Rightarrow> string" where
  "unsupported_attempt c =
     candidate_name c @ '': unsupported kind '' @ quote (ca_kind c) @ '' by this runner''"

definition failed_attempt :: "candidate \<Rightarrow> err \<Rightarrow> string" where
  "failed_attempt c e =
     candidate_name c @ '' ('' @ ca_kind c @ ''): '' @
     (if quotaLike e then ''over quota / throttled'' else ''failed'') @ '' '' @ em_dash @ '' '' @
     truncate_s (replace_all (ca_apiKey c) ''***'' (err_text e)) 200"

definition attempts_text :: "string list \<Rightarrow> string" where
  "attempts_text attempts = join (newline @ ''  '') attempts"

text \<open>The candidate that served or stopped the walk, with the output or the error.\<close>

fun failover :: "caller \<Rightarrow> string \<Rightarrow> string \<Rightarrow> nat \<Rightarrow> string list \<Rightarrow> candidate list \<Rightarrow> (candidate \<times> (err + string)) act" where
  "failover call system user n attempts [] = State_Monad.return (zero_candidate,
     Inl (Errf (''all '' @ itoa (int n) @ '' model endpoints failed:'' @ newline @ ''  '' @ attempts_text attempts)))"
| "failover call system user n attempts (c # cs) =
     (if \<not> candidateRunnable c then failover call system user n (attempts @ [unsupported_attempt c]) cs
      else do {
        r \<leftarrow> call c system user;
        case r of
          Inr out \<Rightarrow> State_Monad.return (c, Inr out)
        | Inl e \<Rightarrow>
            let attempts' = attempts @ [failed_attempt c e] in
            if \<not> retryable e
            then State_Monad.return (c, Inl (Errf (''model call failed and is not retryable:'' @ newline @ ''  '' @
                   attempts_text attempts')))
            else failover call system user n attempts' cs })"

definition callWithFailover :: "caller \<Rightarrow> candidate list \<Rightarrow> string \<Rightarrow> string \<Rightarrow> (candidate \<times> (err + string)) act" where
  "callWithFailover call cands system user =
     (if cands = []
      then State_Monad.return (zero_candidate, Inl (Errf ''no model candidate available (no credential resolved)''))
      else failover call system user (length cands) [] cands)"

section \<open>The walk, as a relation\<close>

text \<open>\<open>passed_over call s u w cs att w'\<close>: the walk leaves every candidate of \<open>cs\<close> behind, the machine
  going from \<open>w\<close> to \<open>w'\<close> and \<open>att\<close> saying why, one line each: a candidate's kind is unsupported, or
  it was called and failed with a retryable error.\<close>

inductive passed_over :: "caller \<Rightarrow> string \<Rightarrow> string \<Rightarrow> world \<Rightarrow> candidate list \<Rightarrow> string list \<Rightarrow> world \<Rightarrow> bool"
  for call :: caller and s :: string and u :: string where
  none: "passed_over call s u w [] [] w"
| unsupported: "\<not> candidateRunnable c \<Longrightarrow> passed_over call s u w cs att w' \<Longrightarrow>
    passed_over call s u w (c # cs) (unsupported_attempt c # att) w'"
| failed: "candidateRunnable c \<Longrightarrow> run_state (call c s u) w = (Inl e, w1) \<Longrightarrow> retryable e \<Longrightarrow>
    passed_over call s u w1 cs att w' \<Longrightarrow> passed_over call s u w (c # cs) (failed_attempt c e # att) w'"

lemma passed_over_length: "passed_over call s u w cs att w' \<Longrightarrow> length att = length cs"
  by (induction rule: passed_over.induct) simp_all

text \<open>The walk goes on behind the candidates left behind as if it started there.\<close>

lemma failover_behind:
  "passed_over call s u w pre att mid \<Longrightarrow>
     run_state (failover call s u n att0 (pre @ post)) w = run_state (failover call s u n (att0 @ att) post) mid"
  by (induction arbitrary: att0 rule: passed_over.induct) (simp_all add: run Let_def)

text \<open>A walk leaves all candidates behind, or a first one that is called gives an output or fails
  for good.\<close>

definition ends_walk :: "err + string \<Rightarrow> bool" where
  "ends_walk r \<longleftrightarrow> (case r of Inr out \<Rightarrow> True | Inl e \<Rightarrow> \<not> retryable e)"

lemma walk_cases:
  obtains (all) att w' where "passed_over call s u w cs att w'"
  | (stops) pre c post att mid r w' where "cs = pre @ c # post" "passed_over call s u w pre att mid" "candidateRunnable c"
      "run_state (call c s u) mid = (r, w')" "ends_walk r"
proof -
  have "(\<exists>att w'. passed_over call s u w cs att w') \<or>
    (\<exists>pre c post att mid r w'. cs = pre @ c # post \<and> passed_over call s u w pre att mid \<and> candidateRunnable c \<and>
       run_state (call c s u) mid = (r, w') \<and> ends_walk r)" (is "?P w cs")
  proof (induction cs arbitrary: w)
    case (Cons d cs)
    have go: "?P w (d # cs)" if step: "\<And>cs att w'. passed_over call s u w1 cs att w' \<Longrightarrow> passed_over call s u w (d # cs) (a # att) w'" for w1 a
      using Cons.IH[of w1]
    proof (elim disjE exE conjE)
      fix att w' assume "passed_over call s u w1 cs att w'"
      then show ?thesis using step by blast
    next
      fix pre c post att mid r w' assume "cs = pre @ c # post" "passed_over call s u w1 pre att mid" "candidateRunnable c"
        "run_state (call c s u) mid = (r, w')" "ends_walk r"
      then show ?thesis using step by (metis append_Cons)
    qed
    show ?case
    proof (cases "candidateRunnable d")
      case False
      show ?thesis by (rule go[of w "unsupported_attempt d"]) (rule passed_over.unsupported[OF False])
    next
      case True
      obtain r w1 where r: "run_state (call d s u) w = (r, w1)" by fastforce
      show ?thesis
      proof (cases "ends_walk r")
        case True
        have "d # cs = [] @ d # cs" by simp
        then show ?thesis using \<open>candidateRunnable d\<close> r True passed_over.none by blast
      next
        case False
        then obtain e where "r = Inl e" "retryable e" by (auto simp: ends_walk_def split: sum.splits)
        then show ?thesis
          by (intro go[of w1 "failed_attempt d e"]) (rule passed_over.failed[OF \<open>candidateRunnable d\<close>], use r in simp_all)
      qed
    qed
  qed (use passed_over.none in blast)
  then show thesis using all stops by blast
qed

text \<open>The two errors of a walk.\<close>

definition all_failed :: "nat \<Rightarrow> string list \<Rightarrow> err" where
  "all_failed n att = Errf (''all '' @ itoa (int n) @ '' model endpoints failed:'' @ newline @ ''  '' @ attempts_text att)"

definition not_retried :: "string list \<Rightarrow> err" where
  "not_retried att = Errf (''model call failed and is not retryable:'' @ newline @ ''  '' @ attempts_text att)"

text \<open>What a candidate's own result makes of the walk that ends with it, after the failures
  \<open>att\<close>.\<close>

definition walk_result :: "string list \<Rightarrow> candidate \<Rightarrow> err + string \<Rightarrow> err + string" where
  "walk_result att c r = (case r of Inr out \<Rightarrow> Inr out | Inl e \<Rightarrow> Inl (not_retried (att @ [failed_attempt c e])))"

lemma failover_all:
  "passed_over call s u w cs att w' \<Longrightarrow> run_state (failover call s u n att0 cs) w = ((zero_candidate, Inl (all_failed n (att0 @ att))), w')"
  using failover_behind[where post = "[]"] by (simp add: all_failed_def run)

lemma failover_stops:
  assumes "passed_over call s u w pre att mid" and "candidateRunnable c" and "run_state (call c s u) mid = (r, w')" and "ends_walk r"
  shows "run_state (failover call s u n att0 (pre @ c # post)) w = ((c, walk_result (att0 @ att) c r), w')"
  using assms(2-4) by (cases r) (simp_all add: failover_behind[OF assms(1)] run Let_def ends_walk_def walk_result_def not_retried_def)

text \<open>How a walk over the candidates is served: by the first one after those left behind.\<close>

definition served_by :: "caller \<Rightarrow> string \<Rightarrow> string \<Rightarrow> world \<Rightarrow> candidate list \<Rightarrow> candidate \<Rightarrow> (err + string) \<Rightarrow> world \<Rightarrow> bool" where
  "served_by call s u w cs c r w' \<longleftrightarrow>
     (\<exists>pre post att mid. cs = pre @ c # post \<and> passed_over call s u w pre att mid \<and> candidateRunnable c \<and>
        run_state (call c s u) mid = (r, w'))"

lemma failover_served:
  "run_state (failover call s u n att0 cs) w = ((c, Inr out), w') \<longleftrightarrow> served_by call s u w cs c (Inr out) w'"
proof
  assume run: "run_state (failover call s u n att0 cs) w = ((c, Inr out), w')"
  show "served_by call s u w cs c (Inr out) w'"
  proof (cases rule: walk_cases[of call s u w cs])
    case (all att w1)
    then show ?thesis using run failover_all by fastforce
  next
    case (stops pre d post att mid r w1)
    then have "c = d" "r = Inr out" "w' = w1"
      using run failover_stops[OF stops(2-5), of n att0 post] by (auto simp: walk_result_def split: sum.splits)
    then show ?thesis using stops unfolding served_by_def by blast
  qed
next
  assume "served_by call s u w cs c (Inr out) w'"
  then obtain pre post att mid where "cs = pre @ c # post" "passed_over call s u w pre att mid" "candidateRunnable c"
    "run_state (call c s u) mid = (Inr out, w')" unfolding served_by_def by blast
  then show "run_state (failover call s u n att0 cs) w = ((c, Inr out), w')"
    using failover_stops[where r = "Inr out"] by (simp add: ends_walk_def walk_result_def)
qed

end
