(* ===== verification/Runner_Calls.thy ===== *)
theory Runner_Calls
  imports Runner_Candidates Oam_Projects
begin

text \<open>
  Driving one endpoint (\<open>cmd/opm-runner/anthropic.go\<close>, \<open>qwen.go\<close> and the calls of
  \<open>main.go\<close>): the two HTTP shapes and the four agent command lines.  What runs outside the
  runner is the record \<open>runner_ext\<close>.  Paths of the container are absolute.
\<close>

section \<open>Outside the runner\<close>

record chat_request =
  cq_model :: string
  cq_messages :: "(string \<times> string) list"
  cq_temperature :: string

record anthropic_request =
  aq_model :: string
  aq_maxTokens :: int
  aq_system :: string
  aq_messages :: "(string \<times> string) list"

text \<open>A message is its role and its content, the temperature its JSON number.\<close>

datatype call_body = Chat_Body chat_request | Messages_Body anthropic_request

text \<open>What a run of the runner leaves in \<open>result.json\<close> (\<open>runnerResult\<close>): a raw JSON value and a
  pointer are options, a map of ideas an association list.\<close>

record runner_out =
  ro_mode :: string
  ro_reason :: string
  ro_action :: string
  ro_model :: string
  ro_endpoint :: string
  ro_endpointKind :: string
  ro_attempt :: int
  ro_specMarkdown :: string
  ro_plan :: "json option"
  ro_implementationNotes :: string
  ro_completedSubtaskId :: string
  ro_files :: "file_change list"
  ro_commitMessage :: string
  ro_reviewMarkdown :: string
  ro_reviewPass :: "bool option"
  ro_ideas :: "(string \<times> idea list) list"
  ro_competitor :: "json option"
  ro_vision :: string
  ro_targetAudience :: string
  ro_phases :: "json option"
  ro_features :: "json option"
  ro_discovery :: "json option"
  ro_rawExcerpt :: string

definition zero_out :: runner_out where
  "zero_out = \<lparr> ro_mode = [], ro_reason = [], ro_action = [], ro_model = [], ro_endpoint = [], ro_endpointKind = [],
     ro_attempt = 0, ro_specMarkdown = [], ro_plan = None, ro_implementationNotes = [], ro_completedSubtaskId = [],
     ro_files = [], ro_commitMessage = [], ro_reviewMarkdown = [], ro_reviewPass = None, ro_ideas = [],
     ro_competitor = None, ro_vision = [], ro_targetAudience = [], ro_phases = None, ro_features = None,
     ro_discovery = None, ro_rawExcerpt = [] \<rparr>"

text \<open>In order: whether a command is found in the path; a command with its arguments, its standard
  input, the variable added to the runner's environment and the directory it runs in, answering its
  combined output and error; a POST of a body with headers to a URL, answering the status code and
  the body read; \<open>encoding/json\<close> on a text (an object has each key once), on a value (also the text a raw value was decoded
  from) and on a result; and the order in which a map is ranged over.\<close>

record runner_ext =
  rx_look :: "string \<Rightarrow> bool"
  rx_exec :: "string \<Rightarrow> string list \<Rightarrow> string \<Rightarrow> string \<Rightarrow> path option \<Rightarrow> (string \<times> err option) act"
  rx_post :: "string \<Rightarrow> (string \<times> string) list \<Rightarrow> call_body \<Rightarrow> (int \<times> string) actE"
  rx_json :: "string \<Rightarrow> json option"
  rx_marshal :: "json \<Rightarrow> string"
  rx_result :: "runner_out \<Rightarrow> string"
  rx_range :: "(string \<times> string) list \<Rightarrow> (string \<times> string) list"

section \<open>Lenient decoding\<close>

text \<open>\<open>_ = json.Unmarshal(b, &v)\<close> into a struct: a field of another type, or \<open>null\<close>, leaves what
  was there and the other fields are still read.\<close>

definition soft_string :: "string \<Rightarrow> (string \<times> json) list \<Rightarrow> string \<Rightarrow> string" where
  "soft_string d kvs k = (case map_of kvs k of Some (JStr s) \<Rightarrow> s | _ \<Rightarrow> d)"

definition json_object :: "json option \<Rightarrow> (string \<times> json) list" where
  "json_object j = (case j of Some (JObj kvs) \<Rightarrow> kvs | _ \<Rightarrow> [])"

section \<open>HTTP\<close>

definition body_limit :: nat where
  "body_limit = 2097152"

definition success :: "int \<Rightarrow> bool" where
  "success code \<longleftrightarrow> 200 \<le> code \<and> code < 300"

text \<open>An answer within the limit, or the error of a status that is no success.\<close>

definition post_body :: "runner_ext \<Rightarrow> string \<Rightarrow> (string \<times> string) list \<Rightarrow> call_body \<Rightarrow> string actE" where
  "post_body x url headers b = bindE (rx_post x url headers b) (\<lambda>(code, whole).
     let raw = take body_limit whole in
     if \<not> success code then throwE (Errf (''HTTP '' @ itoa code @ '': '' @ truncate_s raw 240)) else okE raw)"

definition decode_error :: "err" where
  "decode_error = Errf (''decode response: '' @ err_text BadJSON)"

fun json_message :: "json \<Rightarrow> string option" where
  "json_message (JObj kvs) = str_field kvs ''content''"
| "json_message JNull = Some []"
| "json_message _ = None"

fun json_choice :: "json \<Rightarrow> string option" where
  "json_choice (JObj kvs) = field_or json_message [] kvs ''message''"
| "json_choice JNull = Some []"
| "json_choice _ = None"

text \<open>The type and the message of an \<open>error\<close> object, if there is one.\<close>

fun json_fault :: "json \<Rightarrow> (string \<times> string) option option" where
  "json_fault (JObj kvs) = do { t \<leftarrow> str_field kvs ''type''; m \<leftarrow> str_field kvs ''message''; Some (Some (t, m)) }"
| "json_fault JNull = Some None"
| "json_fault _ = None"

text \<open>The OpenAI shape has no type in its error.\<close>

fun json_chat_fault :: "json \<Rightarrow> string option option" where
  "json_chat_fault (JObj kvs) = do { m \<leftarrow> str_field kvs ''message''; Some (Some m) }"
| "json_chat_fault JNull = Some None"
| "json_chat_fault _ = None"

definition chat_answer :: "json option \<Rightarrow> err + string" where
  "chat_answer j = (case j of
       Some (JObj kvs) \<Rightarrow>
         (case (field_or (json_list json_choice) [] kvs ''choices'', field_or json_chat_fault None kvs ''error'') of
            (Some choices, Some fault) \<Rightarrow>
              (case fault of
                 Some m \<Rightarrow> if m \<noteq> [] then Inl (Errf m)
                           else (case choices of [] \<Rightarrow> Inl (Errf ''empty choices'') | c # _ \<Rightarrow> Inr (trim_space c))
               | None \<Rightarrow> (case choices of [] \<Rightarrow> Inl (Errf ''empty choices'') | c # _ \<Rightarrow> Inr (trim_space c)))
          | _ \<Rightarrow> Inl decode_error)
     | Some JNull \<Rightarrow> Inl (Errf ''empty choices'')
     | _ \<Rightarrow> Inl decode_error)"

definition answered :: "(json option \<Rightarrow> err + string) \<Rightarrow> runner_ext \<Rightarrow> string \<Rightarrow> string actE" where
  "answered f x raw = State_Monad.return (f (rx_json x raw))"

definition callChat :: "runner_ext \<Rightarrow> string \<Rightarrow> string \<Rightarrow> string \<Rightarrow> string \<Rightarrow> string \<Rightarrow> string actE" where
  "callChat x base key model system user =
     bindE (post_body x (base @ ''/chat/completions'')
              [(''Content-Type'', ''application/json''), (''Authorization'', ''Bearer '' @ key)]
              (Chat_Body \<lparr>cq_model = model, cq_messages = [(''system'', system), (''user'', user)],
                 cq_temperature = ''0.2''\<rparr>))
       (answered chat_answer x)"

fun json_block :: "json \<Rightarrow> (string \<times> string) option" where
  "json_block (JObj kvs) = do { t \<leftarrow> str_field kvs ''type''; c \<leftarrow> str_field kvs ''text''; Some (t, c) }"
| "json_block JNull = Some ([], [])"
| "json_block _ = None"

definition text_blocks :: "(string \<times> string) list \<Rightarrow> string" where
  "text_blocks bs = trim_space (concat [c. (t, c) \<leftarrow> bs, t = ''text''])"

definition empty_content :: "string \<Rightarrow> err" where
  "empty_content stop = Errf (''empty content (stop_reason='' @ stop @ '')'')"

definition anthropic_answer :: "json option \<Rightarrow> err + string" where
  "anthropic_answer j = (case j of
       Some (JObj kvs) \<Rightarrow>
         (case (field_or (json_list json_block) [] kvs ''content'', str_field kvs ''stop_reason'',
                field_or json_fault None kvs ''error'') of
            (Some blocks, Some stop, Some fault) \<Rightarrow>
              (let answer = (let out = text_blocks blocks in if out = [] then Inl (empty_content stop) else Inr out) in
               case fault of
                 Some (t, m) \<Rightarrow> if m \<noteq> [] then Inl (Errf (t @ '': '' @ m)) else answer
               | None \<Rightarrow> answer)
          | _ \<Rightarrow> Inl decode_error)
     | Some JNull \<Rightarrow> Inl (empty_content [])
     | _ \<Rightarrow> Inl decode_error)"

definition max_tokens :: "world \<Rightarrow> int" where
  "max_tokens w = (let n = envInt w ''OPM_MODEL_MAX_TOKENS'' 0 in if n > 0 then n else 8192)"

definition callAnthropic :: "runner_ext \<Rightarrow> string \<Rightarrow> string \<Rightarrow> string \<Rightarrow> string \<Rightarrow> string \<Rightarrow> string actE" where
  "callAnthropic x base key model system user = do {
     n \<leftarrow> asks max_tokens;
     bindE (post_body x (base @ ''/v1/messages'')
              [(''Content-Type'', ''application/json''), (''x-api-key'', key), (''anthropic-version'', ''2023-06-01'')]
              (Messages_Body \<lparr>aq_model = model, aq_maxTokens = n, aq_system = system, aq_messages = [(''user'', user)]\<rparr>))
       (answered anthropic_answer x) }"

section \<open>Command lines\<close>

definition dir_at :: "world \<Rightarrow> string \<Rightarrow> path option" where
  "dir_at w s = (let p = path_join [] [s] in if s \<noteq> [] \<and> look w (deref w p) = Some Dir then Some p else None)"

text \<open>The repository directory named by the environment, or else by the input file.\<close>

definition named_repo :: "runner_ext \<Rightarrow> string act" where
  "named_repo x = do {
     d \<leftarrow> asks (\<lambda>w. getenv_trim w ''OPM_REPO_DIR'');
     if d \<noteq> [] then State_Monad.return d
     else do {
       f \<leftarrow> asks (\<lambda>w. path_join [] [envOr w ''OPM_IN_FILE'' ''/in/input.json'']);
       rb \<leftarrow> os_read f;
       State_Monad.return (case rb of Inl _ \<Rightarrow> [] | Inr b \<Rightarrow> soft_string [] (json_object (rx_json x b)) ''repoDir'') } }"

definition resolveRepoDir :: "runner_ext \<Rightarrow> string act" where
  "resolveRepoDir x = do {
     d \<leftarrow> named_repo x;
     asks (\<lambda>w. if dir_at w d = None then [] else d) }"

text \<open>What a finished command line means.\<close>

definition cli_answer :: "string \<Rightarrow> string \<Rightarrow> string \<Rightarrow> err option \<Rightarrow> err + string" where
  "cli_answer what silent txt e = (case e of
       Some er \<Rightarrow> Inl (Errf (what @ '': '' @ err_text er @ '' ('' @ truncate_s txt 240 @ '')''))
     | None \<Rightarrow> if txt = [] then Inl (Errf silent) else Inr txt)"

definition runAgentCLI :: "runner_ext \<Rightarrow> string \<Rightarrow> string list \<Rightarrow> string \<Rightarrow> string \<Rightarrow> string \<Rightarrow> string actE" where
  "runAgentCLI x bin args prompt keyEnv key = do {
     dir \<leftarrow> asks (\<lambda>w. dir_at w (getenv_trim w ''OPM_REPO_DIR''));
     (out, e) \<leftarrow> rx_exec x bin args prompt keyEnv dir;
     let txt = replace_all key ''***'' (trim_space out);
     State_Monad.return (cli_answer bin (bin @ '' returned empty output'') txt e) }"

definition cursor_args :: "string \<Rightarrow> string \<Rightarrow> bool \<Rightarrow> string \<Rightarrow> string list" where
  "cursor_args model repo mounted prompt =
     [''-p'', ''--trust'', ''--approve-mcps'', ''--output-format'', ''text'', ''--mode'', ''ask'', ''--model'', model] @
     (if mounted then [''--workspace'', repo] else []) @ [prompt]"

text \<open>\<open>cmd.Dir\<close> is set to the directory the workspace argument names.\<close>

definition callCursorAgent :: "runner_ext \<Rightarrow> string \<Rightarrow> string \<Rightarrow> string \<Rightarrow> string \<Rightarrow> string actE" where
  "callCursorAgent x key model system user = do {
     bin \<leftarrow> asks (\<lambda>w. envOr w ''OPM_CURSOR_AGENT_BIN'' ''agent'');
     if \<not> rx_look x bin
     then throwE (Errf (''cursor agent binary '' @ quote bin @ '' not found in PATH (rebuild opm-runner-task with agent CLI)''))
     else do {
       repo \<leftarrow> named_repo x;
       dir \<leftarrow> asks (\<lambda>w. dir_at w repo);
       (out, e) \<leftarrow> rx_exec x bin (cursor_args model repo (dir \<noteq> None) (system @ newline @ newline @ user)) []
                   (''CURSOR_API_KEY='' @ key) dir;
       let txt = replace_all key ''***'' (trim_space out);
       State_Monad.return (cli_answer ''cursor agent'' ''cursor agent returned empty output'' txt e) } }"

definition claude_args :: "candidate \<Rightarrow> string list" where
  "claude_args c = (let m = trim_space (ca_model c) in
     [''-p'', ''--output-format'', ''text''] @ (if m \<noteq> [] \<and> m \<noteq> ''auto'' then [''--model'', m] else []) @ ca_cliArgs c)"

definition callClaudeCode :: "runner_ext \<Rightarrow> candidate \<Rightarrow> string \<Rightarrow> string \<Rightarrow> string actE" where
  "callClaudeCode x c system user = do {
     bin \<leftarrow> asks (\<lambda>w. if ca_cliCommand c = [] then envOr w ''OPM_CLAUDE_CODE_BIN'' ''claude'' else ca_cliCommand c);
     if \<not> rx_look x bin
     then throwE (Errf (''claude code binary '' @ quote bin @ '' not found in PATH (rebuild the runner image with it)''))
     else runAgentCLI x bin (claude_args c) (system @ newline @ newline @ user) (''ANTHROPIC_API_KEY='' @ ca_apiKey c)
            (ca_apiKey c) }"

definition callGenericCLI :: "runner_ext \<Rightarrow> candidate \<Rightarrow> string \<Rightarrow> string \<Rightarrow> string actE" where
  "callGenericCLI x c system user =
     (let bin = ca_cliCommand c in
      if bin = [] then throwE (Errf (''endpoint '' @ candidate_name c @ '' is kind cli_generic but names no command''))
      else if \<not> rx_look x bin then throwE (Errf (''agent binary '' @ quote bin @ '' not found in PATH''))
      else do {
        keyEnv \<leftarrow> asks (\<lambda>w. envOr w ''OPM_GENERIC_CLI_KEY_ENV'' ''AGENT_API_KEY'');
        runAgentCLI x bin (ca_cliArgs c) (system @ newline @ newline @ user) (keyEnv @ ''='' @ ca_apiKey c) (ca_apiKey c) })"

definition qwen_args :: "candidate \<Rightarrow> string \<Rightarrow> string \<Rightarrow> string \<Rightarrow> string list" where
  "qwen_args c m system repo =
     [''--auth-type'', ''openai'', ''--openai-api-key'', ca_apiKey c, ''--approval-mode'', ''yolo'',
      ''--output-format'', ''text'', ''--model'', m] @
     (let u = trim_space (ca_baseUrl c) in if u \<noteq> [] then [''--openai-base-url'', u] else []) @
     (if system \<noteq> [] then [''--system-prompt'', system] else []) @
     (if repo \<noteq> [] then [''--include-directories'', repo] else []) @ ca_cliArgs c"

definition callQwenCode :: "runner_ext \<Rightarrow> candidate \<Rightarrow> string \<Rightarrow> string \<Rightarrow> string actE" where
  "callQwenCode x c system user =
     (let m = trim_space (ca_model c) in
      if m = [] \<or> equal_fold m ''auto''
      then throwE (Errf (''cli_qwen_code requires an explicit model (empty and '' @ quote ''auto'' @ '' are not supported)''))
      else do {
        bin \<leftarrow> asks (\<lambda>w. envOr w ''OPM_QWEN_CODE_BIN'' ''qwen'');
        if \<not> rx_look x bin
        then throwE (Errf (''qwen code binary '' @ quote bin @ '' not found in PATH (rebuild the runner image with it)''))
        else do {
          repo \<leftarrow> resolveRepoDir x;
          runAgentCLI x bin (qwen_args c m system repo) user ''QWEN_CODE_SUPPRESS_YOLO_WARNING=1'' (ca_apiKey c) } })"

section \<open>Dispatch\<close>

definition or_base :: "candidate \<Rightarrow> string \<Rightarrow> string" where
  "or_base c d = (if ca_baseUrl c = [] then d else ca_baseUrl c)"

definition callCandidate :: "runner_ext \<Rightarrow> caller" where
  "callCandidate x c system user =
     (let k = ca_kind c;
          chat = callChat x (or_base c ''https://api.openai.com/v1'') (ca_apiKey c) (ca_model c) system user;
          cursor = callCursorAgent x (ca_apiKey c) (ca_model c) system user in
      if k = ''api_openai'' then chat
      else if k = ''api_anthropic'' then
        callAnthropic x (or_base c ''https://api.anthropic.com'') (ca_apiKey c) (ca_model c) system user
      else if k = ''cli_claude_code'' then callClaudeCode x c system user
      else if k = ''cli_qwen_code'' then callQwenCode x c system user
      else if k = ''cli_generic'' then callGenericCLI x c system user
      else if k = ''cli_cursor'' then cursor
      else if ca_provider c = ''openai'' then chat else cursor)"

end
