(* ===== verification/Runner_Content.thy ===== *)
theory Runner_Content
  imports Runner_Calls
begin

text \<open>
  Reading a model's reply (\<open>parseModelContent\<close> and its helpers, \<open>cmd/opm-runner/main.go\<close>):
  the fences are stripped, the JSON object is read field by field, the file changes are given a
  first check, and a reply without what its action needs becomes a fallback.
\<close>

section \<open>Fences\<close>

text \<open>\<open>strings.LastIndex\<close> of a non-empty text.\<close>

definition last_index :: "string \<Rightarrow> string \<Rightarrow> nat option" where
  "last_index sub s =
     map_option (\<lambda>i. length s - length sub - i) (index_of (rev sub) (rev s))"

definition fence :: string where "fence = ''```''"

definition strip_leading_fence :: "string \<Rightarrow> string" where
  "strip_leading_fence s =
     (if \<not> has_prefix fence s then s
      else let t = trim_prefix fence (trim_prefix (fence @ ''JSON'') (trim_prefix (fence @ ''json'') s))
           in trim_space (case last_index fence t of None \<Rightarrow> t | Some i \<Rightarrow> take i t))"

definition from_brace :: "string \<Rightarrow> string" where
  "from_brace s = (case index_of ''{'' s of None \<Rightarrow> s | Some i \<Rightarrow> drop i s)"

definition stripFences :: "string \<Rightarrow> string" where
  "stripFences s = trim_space (from_brace (strip_leading_fence (trim_space s)))"

section \<open>File changes\<close>

fun json_contents :: "json \<Rightarrow> string option option" where
  "json_contents (JStr s) = Some (Some s)"
| "json_contents JNull = Some None"
| "json_contents _ = None"

fun json_change :: "json \<Rightarrow> file_change option" where
  "json_change (JObj kvs) = do {
     p \<leftarrow> str_field kvs ''path''; c \<leftarrow> field_or json_contents None kvs ''contents'';
     d \<leftarrow> str_field kvs ''patch''; r \<leftarrow> bool_field kvs ''delete'';
     Some \<lparr>fc_path = p, fc_contents = c, fc_patch = d, fc_delete = r\<rparr> }"
| "json_change JNull = Some \<lparr>fc_path = [], fc_contents = None, fc_patch = [], fc_delete = False\<rparr>"
| "json_change _ = None"

definition proposed_path :: "file_change \<Rightarrow> string" where
  "proposed_path f = trim_space (trim_prefix ''./'' (fc_path f))"

definition proposable :: "file_change \<Rightarrow> bool" where
  "proposable f \<longleftrightarrow> (let p = proposed_path f in
     \<not> (p = [] \<or> has_prefix ''/'' p \<or> contains ''..'' p) \<and>
     \<not> (has_prefix ''.git/'' p \<or> p = ''.git'' \<or> has_prefix ''.github/workflows/'' p) \<and>
     \<not> (\<not> fc_delete f \<and> fc_patch f = [] \<and> fc_contents f = None))"

definition sanitizeFileChanges :: "file_change list \<Rightarrow> file_change list" where
  "sanitizeFileChanges cs = map (\<lambda>f. f\<lparr>fc_path := proposed_path f\<rparr>) (filter proposable cs)"

section \<open>Ideas\<close>

fun json_idea :: "json \<Rightarrow> idea option" where
  "json_idea (JObj kvs) = do {
     i \<leftarrow> str_field kvs ''id''; y \<leftarrow> str_field kvs ''type''; t \<leftarrow> str_field kvs ''title'';
     d \<leftarrow> str_field kvs ''description''; r \<leftarrow> str_field kvs ''rationale''; e \<leftarrow> str_field kvs ''estimated_effort'';
     a \<leftarrow> field_or json_strings [] kvs ''affected_files''; m \<leftarrow> str_field kvs ''implementation_approach'';
     s \<leftarrow> str_field kvs ''status''; c \<leftarrow> str_field kvs ''created_at'';
     Some \<lparr>i_id = i, i_type = y, i_title = t, i_description = d, i_rationale = r, i_estimatedEffort = e,
       i_affectedFiles = a, i_implementationApproach = m, i_status = s, i_createdAt = c\<rparr> }"
| "json_idea JNull = Some \<lparr>i_id = [], i_type = [], i_title = [], i_description = [], i_rationale = [],
     i_estimatedEffort = [], i_affectedFiles = [], i_implementationApproach = [], i_status = [], i_createdAt = []\<rparr>"
| "json_idea _ = None"

definition json_pair :: "(json \<Rightarrow> 'a option) \<Rightarrow> string \<times> json \<Rightarrow> (string \<times> 'a) option" where
  "json_pair dec kv = map_option (Pair (fst kv)) (dec (snd kv))"

fun json_map :: "(json \<Rightarrow> 'a option) \<Rightarrow> json \<Rightarrow> (string \<times> 'a) list option" where
  "json_map dec (JObj kvs) = those (map (json_pair dec) kvs)"
| "json_map dec JNull = Some []"
| "json_map dec _ = None"

definition idea_aliases :: "(string \<times> string) list" where
  "idea_aliases = [(''security_hardening'', ''security''), (''code-improvements'', ''code_improvements''),
     (''code-quality'', ''code_quality''), (''ui-ux'', ''ui_ux''), (''uiux'', ''ui_ux'')]"

definition idea_key :: "string \<Rightarrow> string" where
  "idea_key k = (let t = trim_space k in
     replace_all ''-'' ''_'' (case map_of idea_aliases t of Some a \<Rightarrow> a | None \<Rightarrow> t))"

text \<open>The map is ranged over in the order of the list; the order only shows where two keys
  become one.\<close>

definition add_ideas_at :: "(string \<times> idea list) list \<Rightarrow> string \<times> idea list \<Rightarrow> (string \<times> idea list) list" where
  "add_ideas_at acc kv = (let k = idea_key (fst kv) in
     AList.update k ((case map_of acc k of None \<Rightarrow> [] | Some l \<Rightarrow> l) @ snd kv) acc)"

definition normalizeIdeasKeys :: "(string \<times> idea list) list \<Rightarrow> (string \<times> idea list) list" where
  "normalizeIdeasKeys ideas = foldl add_ideas_at [] ideas"

section \<open>Audience and vision\<close>

definition text_in :: "(string \<times> json) list \<Rightarrow> string \<Rightarrow> string" where
  "text_in m k = (case map_of m k of Some (JStr s) \<Rightarrow> trim_space s | _ \<Rightarrow> [])"

definition compactJSONAudience :: "runner_ext \<Rightarrow> json \<Rightarrow> string" where
  "compactJSONAudience x raw = (case raw of
       JObj m \<Rightarrow> join ('' '' @ em_dash @ '' '')
         ((if text_in m ''primary_persona'' \<noteq> [] then [text_in m ''primary_persona'']
           else if text_in m ''primary'' \<noteq> [] then [text_in m ''primary''] else []) @
          (if text_in m ''usage_context'' \<noteq> [] then [text_in m ''usage_context''] else []))
     | _ \<Rightarrow> trim_space (rx_marshal x raw))"

definition audience_in :: "runner_ext \<Rightarrow> (string \<times> json) list \<Rightarrow> string" where
  "audience_in x blob = (let a = soft_string [] blob ''targetAudience'' in
     if a \<noteq> [] then a
     else (case map_of blob ''target_audience'' of
         None \<Rightarrow> []
       | Some v \<Rightarrow> (case json_string v of Some s \<Rightarrow> s | None \<Rightarrow> compactJSONAudience x v)))"

text \<open>The one-liner of a \<open>product_vision\<close> value, or what was there.\<close>

definition one_liner :: "string \<Rightarrow> json option \<Rightarrow> string" where
  "one_liner d pv = (case pv of
       Some (JObj m) \<Rightarrow> (case map_of m ''one_liner'' of Some (JStr s) \<Rightarrow> trim_space s | _ \<Rightarrow> d)
     | _ \<Rightarrow> d)"

definition vision_in :: "(string \<times> json) list \<Rightarrow> string" where
  "vision_in blob = (let v = soft_string [] blob ''vision'' in
     if \<not> blank v then v
     else let u = one_liner v (map_of blob ''product_vision'') in
       if \<not> blank u then u
       else (case map_of blob ''discovery'' of
           Some (JObj disc) \<Rightarrow> one_liner u (map_of disc ''product_vision'')
         | _ \<Rightarrow> u))"

section \<open>The result\<close>

definition blob_out :: "runner_ext \<Rightarrow> string \<Rightarrow> json \<Rightarrow> (string \<times> json) list \<Rightarrow> runner_out \<Rightarrow> runner_out" where
  "blob_out x action whole blob res = res\<lparr>
     ro_competitor := (if action = ''run-roadmap-competitor'' \<and> map_of blob ''competitors'' \<noteq> None
                       then Some whole else None),
     ro_specMarkdown := soft_string [] blob ''specMarkdown'',
     ro_plan := map_of blob ''plan'',
     ro_implementationNotes := soft_string [] blob ''implementationNotes'',
     ro_completedSubtaskId := soft_string [] blob ''completedSubtaskId'',
     ro_reviewMarkdown := soft_string [] blob ''reviewMarkdown'',
     ro_reviewPass := Option.bind (map_of blob ''reviewPass'') json_bool,
     ro_files := (case Option.bind (map_of blob ''files'') (json_list json_change) of
                    None \<Rightarrow> [] | Some cs \<Rightarrow> sanitizeFileChanges cs),
     ro_commitMessage := soft_string [] blob ''commitMessage'',
     ro_ideas := (case Option.bind (map_of blob ''ideas'') (json_map (json_list json_idea)) of
                    None \<Rightarrow> [] | Some m \<Rightarrow> normalizeIdeasKeys m),
     ro_vision := vision_in blob,
     ro_targetAudience := audience_in x blob,
     ro_phases := map_of blob ''phases'',
     ro_features := map_of blob ''features'',
     ro_discovery := map_of blob ''discovery'' \<rparr>"

definition as_fallback :: "string \<Rightarrow> runner_out \<Rightarrow> runner_out" where
  "as_fallback why res = res\<lparr>ro_mode := ''fallback'', ro_reason := why\<rparr>"

text \<open>What an action cannot do without.\<close>

definition judged :: "string \<Rightarrow> runner_out \<Rightarrow> runner_out" where
  "judged action res =
     (if action = ''run-planning'' \<or> action = ''run-followup-planning'' then
        (if blank (ro_specMarkdown res) \<and> ro_plan res = None
         then as_fallback ''model JSON missing specMarkdown and plan'' res else res)
      else if action = ''run-implementation'' then
        (if ro_files res = [] then res\<lparr>ro_reason := ''model returned no file changes; nothing to deliver''\<rparr> else res)
      else if action = ''run-ideation'' then
        (if ro_ideas res = [] then as_fallback ''model JSON missing ideas'' res else res)
      else if action = ''run-roadmap-discovery'' then
        (if blank (ro_vision res) \<and> ro_phases res = None \<and> ro_discovery res = None
         then as_fallback ''model JSON missing vision/phases/discovery'' res else res)
      else if action = ''run-roadmap-features'' then
        (if ro_features res = None \<and> blank (ro_vision res) \<and> ro_phases res = None
         then as_fallback ''model JSON missing features (and no discovery bootstrap)'' res else res)
      else if action = ''run-roadmap-competitor'' then
        (if ro_competitor res = None then as_fallback ''model JSON missing competitor analysis'' res else res)
      else res)"

text \<open>\<open>null\<close> decodes to a nil map.\<close>

definition parseModelContent :: "runner_ext \<Rightarrow> string \<Rightarrow> string \<Rightarrow> string \<Rightarrow> runner_out" where
  "parseModelContent x action model content0 =
     (let content = stripFences content0;
          res = zero_out\<lparr>ro_mode := ''model'', ro_action := action, ro_model := model,
            ro_rawExcerpt := truncate_s content 800\<rparr> in
      case rx_json x content of
        Some (JObj blob) \<Rightarrow> judged action (blob_out x action (JObj blob) blob res)
      | Some JNull \<Rightarrow> judged action (blob_out x action JNull [] res)
      | _ \<Rightarrow> as_fallback ''model returned non-JSON; control plane will use builtin helpers'' res)"

end
