(* ===== verification/Runner_Repo.thy ===== *)
theory Runner_Repo
  imports Runner_Calls
begin

text \<open>
  What the runner shows the model of the mounted repository (\<open>repoInventory\<close>,
  \<open>repoExcerpts\<close>, \<open>planFilesToModify\<close> of \<open>cmd/opm-runner/main.go\<close>,
  \<open>ideationHotspotPaths\<close> of \<open>prompts.go\<close>).  \<open>filepath.WalkDir\<close> does not follow symbolic links:
  a link is a file of its directory, whatever it points to; reading a file does follow them.
\<close>

section \<open>Which files\<close>

definition skippedDir :: "string \<Rightarrow> bool" where
  "skippedDir name \<longleftrightarrow> name \<in> set [''.git'', ''node_modules'', ''vendor'', ''dist'', ''build'', ''target'',
     ''.venv'', ''venv'', ''__pycache__'', ''.next'', ''.cache'', ''coverage'']"

text \<open>\<open>filepath.Ext\<close> of a name without slashes: from its last dot.\<close>

definition file_ext :: "string \<Rightarrow> string" where
  "file_ext name = (if CHR ''.'' \<in> set name then CHR ''.'' # last (split_on (CHR ''.'') name) else [])"

definition text_extensions :: "string list" where
  "text_extensions = [''.go'', ''.js'', ''.jsx'', ''.ts'', ''.tsx'', ''.py'', ''.rb'', ''.php'', ''.rs'', ''.java'',
     ''.kt'', ''.kts'', ''.c'', ''.h'', ''.cc'', ''.cpp'', ''.hpp'', ''.cs'', ''.sh'', ''.sql'', ''.md'', ''.txt'',
     ''.json'', ''.yaml'', ''.yml'', ''.toml'', ''.ini'', ''.css'', ''.html'', ''.xml'', ''.gradle'']"

definition textLikeFile :: "string \<Rightarrow> bool" where
  "textLikeFile name \<longleftrightarrow> to_lower (file_ext name) \<in> set text_extensions \<or>
     name \<in> set [''Dockerfile'', ''Makefile'', ''LICENSE'', ''README'', ''AndroidManifest.xml'']"

section \<open>The walk\<close>

text \<open>The files below a directory in the order of the walk, the number being how many levels deep
  it goes.\<close>

fun walk_files :: "nat \<Rightarrow> world \<Rightarrow> path \<Rightarrow> path list" where
  "walk_files 0 w p = []"
| "walk_files (Suc n) w p = concat (map (\<lambda>e.
     if real_dir w (p @ [e]) then (if skippedDir e then [] else walk_files n w (p @ [e]))
     else [p @ [e]]) (dir_entries w p))"

text \<open>Deeper than any file there is.\<close>

definition tree_depth :: "world \<Rightarrow> nat" where
  "tree_depth w = Suc (fold max (map (length \<circ> fst) (fs w)) 0)"

definition walk_root :: "world \<Rightarrow> string \<Rightarrow> path" where
  "walk_root w root = (let p = path_join [] [root] in if p = [] then [] else deref w (butlast p) @ [last p])"

definition walk_dir :: "world \<Rightarrow> path \<Rightarrow> path list" where
  "walk_dir w r =
     (if is_link w r then [r]
      else (case look w r of None \<Rightarrow> [] | Some Dir \<Rightarrow> walk_files (tree_depth w) w r | Some (File _) \<Rightarrow> [r]))"

text \<open>\<open>filepath.Rel\<close> of a path below the root.\<close>

definition rel_text :: "path \<Rightarrow> path \<Rightarrow> string" where
  "rel_text r q = (if q = r then ''.'' else join ''/'' (drop (length r) q))"

definition maxInventoryFiles :: nat where "maxInventoryFiles = 400"
definition maxInventoryBytes :: nat where "maxInventoryBytes = 6000"
definition maxExcerptFiles :: nat where "maxExcerptFiles = 8"
definition maxExcerptFileBytes :: nat where "maxExcerptFileBytes = 4000"

text \<open>The walk stops at the first file after the limit, so the first 400 text files are
  listed.\<close>

definition repoInventory :: "world \<Rightarrow> string \<Rightarrow> string list" where
  "repoInventory w root =
     (if blank root then []
      else let r = walk_root w root in
        sort (map (rel_text r)
          (take maxInventoryFiles (filter (\<lambda>q. q \<noteq> [] \<and> textLikeFile (last q)) (walk_dir w r)))))"

section \<open>Excerpts\<close>

definition excerpt_name :: "string \<Rightarrow> string" where
  "excerpt_name rel = trim_space (trim_prefix ''./'' rel)"

fun add_excerpts :: "world \<Rightarrow> path \<Rightarrow> string list \<Rightarrow> (string \<times> string) list \<Rightarrow> (string \<times> string) list" where
  "add_excerpts w root [] acc = acc"
| "add_excerpts w root (rel0 # rest) acc =
     (if length acc \<ge> maxExcerptFiles then acc
      else let rel = excerpt_name rel0 in
        if rel = [] \<or> contains ''..'' rel \<or> has_prefix ''/'' rel then add_excerpts w root rest acc
        else (case file_text w (path_join root [rel]) of
            None \<Rightarrow> add_excerpts w root rest acc
          | Some b \<Rightarrow> add_excerpts w root rest (AList.update rel (truncate_s b maxExcerptFileBytes) acc)))"

definition repoExcerpts :: "world \<Rightarrow> string \<Rightarrow> string list \<Rightarrow> (string \<times> string) list" where
  "repoExcerpts w root wanted = (if blank root then [] else add_excerpts w (path_join [] [root]) wanted [])"

section \<open>The files a plan names\<close>

fun json_files_of :: "json \<Rightarrow> string list option" where
  "json_files_of (JObj kvs) = field_or json_strings [] kvs ''files_to_modify''"
| "json_files_of JNull = Some []"
| "json_files_of _ = None"

fun json_phase_files :: "json \<Rightarrow> string list option" where
  "json_phase_files (JObj kvs) = map_option concat (field_or (json_list json_files_of) [] kvs ''subtasks'')"
| "json_phase_files JNull = Some []"
| "json_phase_files _ = None"

fun json_plan_files :: "json \<Rightarrow> string list option" where
  "json_plan_files (JObj kvs) = map_option concat (field_or (json_list json_phase_files) [] kvs ''phases'')"
| "json_plan_files JNull = Some []"
| "json_plan_files _ = None"

fun fresh_names :: "string list \<Rightarrow> string list \<Rightarrow> string list" where
  "fresh_names seen [] = []"
| "fresh_names seen (f0 # rest) =
     (let f = trim_space f0 in
      if f = [] \<or> f \<in> set seen then fresh_names seen rest else f # fresh_names (f # seen) rest)"

definition planFilesToModify :: "runner_ext \<Rightarrow> string \<Rightarrow> string list" where
  "planFilesToModify x planJSON =
     (if blank planJSON then []
      else (case Option.bind (rx_json x planJSON) json_plan_files of None \<Rightarrow> [] | Some names \<Rightarrow> fresh_names [] names))"

section \<open>Hot spots of an ideation\<close>

definition hotspot_keywords :: "string \<Rightarrow> string list" where
  "hotspot_keywords typ =
     (if typ = ''security'' then [''auth'', ''security'', ''token'', ''password'', ''middleware'', ''acl'']
      else if typ = ''performance'' then [''cache'', ''pool'', ''query'', ''batch'', ''worker'']
      else if typ = ''documentation'' then [''README'', ''docs/'', ''.md'']
      else if typ = ''ui_ux''
      then [''.tsx'', ''.jsx'', ''.css'', ''.vue'', ''.kt'', ''.xml'', ''component'', ''compose'', ''layout'']
      else if typ = ''code_quality'' \<or> typ = ''code_improvements''
      then [''.go'', ''.kt'', ''.java'', ''handler'', ''store'', ''service'', ''ViewModel'', ''Repository'']
      else [''README'', ''main.'', ''handler'', ''auth'', ''AndroidManifest'', ''build.gradle''])"

definition ideationHotspotPaths :: "string list \<Rightarrow> string \<Rightarrow> string list" where
  "ideationHotspotPaths listed typ =
     (let hot = filter (\<lambda>p. list_ex (\<lambda>k. contains (to_lower k) (to_lower p)) (hotspot_keywords typ)) listed in
      if hot = [] then take maxExcerptFiles listed else take maxExcerptFiles hot)"

end
