(* ===== verification/Runner_Prompts.thy ===== *)
theory Runner_Prompts
  imports Runner_Repo
begin

text \<open>
  The prompts of the runner (\<open>cmd/opm-runner/prompts.go\<close>): the fixed text of each action and
  what the user message says of the job, the context pack and the repository.
\<close>

section \<open>The input\<close>

record runner_input =
  ri_action :: string
  ri_runId :: string
  ri_specId :: string
  ri_projectId :: string
  ri_taskTitle :: string
  ri_taskDesc :: string
  ri_planJSON :: string
  ri_specExcerpt :: string
  ri_ownerRepo :: string
  ri_defaultBranch :: string
  ri_projectName :: string
  ri_ideationType :: string
  ri_competitors :: "string list"
  ri_audienceNotes :: string
  ri_existingIdeaTitles :: string
  ri_taskTitles :: string
  ri_cloneHonestyNote :: string
  ri_repoDir :: string
  ri_context :: "(string \<times> json) list"

section \<open>The fixed texts\<close>

definition en_dash :: string where "en_dash = [CHR 0xE2, CHR 0x80, CHR 0x93]"

definition dq :: string where "dq = [CHR 0x22]"

definition task_system :: string where
  "task_system = join newline
    [''You are the OPM task-automation agent. Reply with a single JSON object only (no markdown fences).'',
     ''Keys by action:'',
     ''- run-planning / run-followup-planning: specMarkdown (string), plan (object: feature, workflow_type, phases[{phase,name,type,subtasks[{id,description,status,verification,files_to_modify}]}])'',
     ''- run-implementation: files (array), commitMessage (string), implementationNotes (string), completedSubtaskId (string, optional)'',
     [],
     ''For run-implementation, '' @ dq @ ''files'' @ dq @ '' is the actual source change and the only thing that becomes a commit:'',
     ''  [{'' @ dq @ ''path'' @ dq @ '':'' @ dq @ ''relative/path.go'' @ dq @ '','' @ dq @ ''contents'' @ dq @ '':'' @ dq @ ''<complete new file body>'' @ dq @ ''}]'',
     ''  [{'' @ dq @ ''path'' @ dq @ '':'' @ dq @ ''relative/path.go'' @ dq @ '','' @ dq @ ''patch'' @ dq @ '':'' @ dq @ ''<unified diff with correct context>'' @ dq @ ''}]'',
     ''  [{'' @ dq @ ''path'' @ dq @ '':'' @ dq @ ''relative/path.go'' @ dq @ '','' @ dq @ ''delete'' @ dq @ '':true}]'',
     ''Rules for files:'',
     ''- paths are repository-relative, forward slashes, never absolute and never containing '' @ dq @ ''..'' @ dq,
     ''- never touch .git/ or .github/workflows/'',
     ''- prefer '' @ dq @ ''contents'' @ dq @ '' for new or small files; use '' @ dq @ ''patch'' @ dq @ '' only when the diff context is exact'',
     ''- return an empty files array when you cannot make a correct change '' @ em_dash @ '' do not invent one'',
     ''- commitMessage is a plain subject line, optionally a blank line and a short body'',
     [],
     ''Keep plans concrete and small (3 phases: planning, coding, review). Status values: pending|completed.'']"

definition discovery_system :: string where
  "discovery_system = join newline
    [''You are a roadmap discovery agent running inside OPM job automation.'',
     ''Your subject is the LINKED CUSTOMER REPOSITORY described in the user message (projectName / repository / README / projectIndex / CURSOR.md).'',
     ''Do NOT describe OPM, the Open family control plane, or this automation harness '' @ em_dash @ '' those are the host, not the product under analysis.'',
     [],
     ''Reply with a single JSON object only (no markdown fences).'',
     ''Required JSON keys:'',
     ''- vision (string): product_vision.one_liner for the linked repository'',
     ''- targetAudience (string): compact primary persona + usage context for that product'',
     ''- phases (array): [{id, name, description, order, status}] '' @ em_dash @ '' typically 3'' @ en_dash @ ''5 strategic phases; status '' @ dq @ ''planned'' @ dq,
     ''- discovery (object, optional but preferred): richer blob with project_type, tech_stack, target_audience object,'',
     ''  product_vision {one_liner, problem_statement, value_proposition, success_metrics},'',
     ''  current_state, constraints, created_at'',
     [],
     ''Do NOT include ideation idea bodies or a full MoSCoW feature list.'',
     ''Ground vision and phases in the real repository purpose (README, manifests, projectIndex, Claude.md/CURSOR.md).'',
     ''If existingVision/existingPhases are provided, refine rather than invent unrelated replacements; preserve phase names when still valid.'']"

definition competitor_system :: string where
  "competitor_system = join newline
    [''You are a competitor analysis agent running inside OPM job automation.'',
     ''Your subject is the LINKED CUSTOMER REPOSITORY described in the user message (projectName / repository / README / projectIndex).'',
     ''Do NOT analyse OPM or the Open family control plane '' @ em_dash @ '' those are the host, not the product under analysis.'',
     [],
     ''Reply with a single JSON object only (no markdown fences).'',
     ''Required JSON keys:'',
     ''- competitors (array): [{name, strengths[], weaknesses[], gaps[]}] '' @ em_dash @ '' one entry per competitor'',
     ''- market_gaps (array of strings): unmet needs neither this product nor the competitors address'',
     ''- differentiators (array of strings): what this repository does that the competitors do not'',
     [],
     ''Rules:'',
     ''- If the user message lists competitors, analyse EXACTLY those. Do not substitute or add others.'',
     ''- If it lists none, infer at most three plausible categories of alternative from the repository's'',
     ''  domain, and name them as categories ('' @ dq @ ''managed CI services'' @ dq @ '') rather than as specific products you'',
     ''  cannot verify. Inventing named competitors is worse than describing a category.'',
     ''- Ground strengths and weaknesses in the repository's actual domain, not in generic SaaS platitudes.'',
     ''- Leave an array empty rather than filling it with speculation.'']"

definition features_system :: string where
  "features_system = join newline
    [''You are a roadmap features agent running inside OPM job automation.'',
     ''Your subject is the LINKED CUSTOMER REPOSITORY (projectName / repository / discovery snapshot / projectIndex).'',
     ''Do NOT invent features for OPM or the Open family control plane unless that repository IS OPM.'',
     [],
     ''Reply with a single JSON object only (no markdown fences).'',
     ''Required JSON keys:'',
     ''- features (array): [{id, title, description, rationale, priority, complexity, impact, phase_id,'',
     ''  status, acceptance_criteria, user_stories}]'',
     ''  priority: must|should|could|wont (MoSCoW)'',
     ''  complexity: xs|s|m|l|xl (or small|medium|large)'',
     ''  impact: high|medium|low (or free text)'',
     ''  status: planned|idea'',
     ''- If needsDiscovery is true or phases are empty, ALSO include vision, targetAudience, phases, and optional discovery'',
     ''  (same shape as roadmap discovery) so the control plane can bootstrap '' @ em_dash @ '' still about the linked repository only.'',
     [],
     ''Do NOT include ideation idea bodies.'',
     ''Exclude titles listed as implemented. Prefer net-new features grounded in discovery + projectIndex.'',
     ''Attach each feature to a real phase_id from the discovery snapshot.'']"

definition ideation_base :: string where
  "ideation_base = join newline
    [''You are an ideation agent running inside OPM job automation.'',
     ''Analyze the LINKED CUSTOMER REPOSITORY (projectName / repository / ideation_context / projectIndex / mounted files).'',
     ''Do NOT propose ideas about OPM/Open-family control-plane internals unless that repository is OPM.'',
     [],
     ''Reply with a single JSON object only (no markdown fences).'',
     ''Output key: ideas '' @ em_dash @ '' object keyed ONLY by these OPM type keys:'',
     ''  code_improvements, security, performance, documentation, ui_ux, code_quality'',
     ''Each idea: {title, description, rationale, estimated_effort, affected_files, implementation_approach}'',
     ''Optional extras (severity, CWE, category) may be folded into description/rationale text.'',
     ''Propose 1'' @ en_dash @ ''2 concrete, novel ideas per requested type. Cite real paths from the repo when mounted.'',
     ''Do not repeat existing or implemented titles. Do not rewrite roadmap discovery or generate MoSCoW feature lists.'',
     []]"

definition ideation_focus :: "(string \<times> string) list" where
  "ideation_focus =
    [(''security'', ''Focus: authn/authz, injection, secrets, insecure defaults, dependency risk. Prefer exploitable issues with remediation.''),
     (''performance'', ''Focus: hot paths, N+1 queries, unbounded allocations, missing caching, slow I/O. Cite files/functions.''),
     (''documentation'', ''Focus: missing operator docs, stale README sections, API contract gaps, runbooks.''),
     (''ui_ux'', ''Focus: operator clarity, empty/error states, navigation, messaging '' @ em_dash @ '' no screenshot tooling required.''),
     (''code_quality'', ''Focus: duplication, unclear boundaries, test gaps, lint debt, brittle modules.''),
     (''code_improvements'', ''Focus: pattern extensions, shared helpers, config opportunities, architecture enablement.'')]"

definition ideationSystemForType :: "string \<Rightarrow> string" where
  "ideationSystemForType typ = ideation_base @
     (case map_of ideation_focus typ of Some focus \<Rightarrow> focus | None \<Rightarrow> ''Cover each requested type with type-appropriate ideas.'')"

section \<open>The header\<close>

definition heading :: "string \<Rightarrow> string" where
  "heading s = newline @ ''--- '' @ s @ '' ---'' @ newline"

definition baseUserHeader :: "runner_input \<Rightarrow> string" where
  "baseUserHeader r =
     ''action='' @ ri_action r @ newline @ ''runId='' @ ri_runId r @ newline @ ''specId='' @ ri_specId r @ newline @
     ''title='' @ ri_taskTitle r @ newline @ ''description='' @ ri_taskDesc r @ newline @
     (if ri_projectName r \<noteq> [] then ''projectName='' @ ri_projectName r @ newline else []) @
     (if ri_ownerRepo r \<noteq> []
      then let base = trim_space (ri_defaultBranch r) in
        ''repository='' @ ri_ownerRepo r @ newline @ ''baseBranch='' @ (if base = [] then ''main'' else base) @ newline
      else []) @
     (if ri_cloneHonestyNote r \<noteq> [] then heading ''clone honesty'' @ ri_cloneHonestyNote r @ newline else []) @
     (if ri_specExcerpt r \<noteq> [] then heading ''existing spec'' @ truncate_s (ri_specExcerpt r) 4000 @ newline else []) @
     (if ri_planJSON r \<noteq> [] then heading ''existing plan json'' @ truncate_s (ri_planJSON r) 6000 @ newline else [])"

section \<open>The context pack\<close>

definition ctxString :: "(string \<times> json) list \<Rightarrow> string \<Rightarrow> string" where
  "ctxString ctx k = (case map_of ctx k of Some (JStr s) \<Rightarrow> s | _ \<Rightarrow> [])"

definition json_texts :: "json \<Rightarrow> string list" where
  "json_texts v = (case v of JStr s \<Rightarrow> if blank s then [] else [s] | _ \<Rightarrow> [])"

definition ctxStringSlice :: "(string \<times> json) list \<Rightarrow> string \<Rightarrow> string list" where
  "ctxStringSlice ctx k = (case map_of ctx k of Some (JArr l) \<Rightarrow> concat (map json_texts l) | _ \<Rightarrow> [])"

text \<open>A section for a text that is there.\<close>

definition text_section :: "string \<Rightarrow> nat \<Rightarrow> string \<Rightarrow> string" where
  "text_section h n s = (if s = [] then [] else heading h @ truncate_s s n @ newline)"

definition titles_section :: "string \<Rightarrow> nat \<Rightarrow> string list \<Rightarrow> string" where
  "titles_section h n l = (if l = [] then [] else heading h @ truncate_s (join newline l) n @ newline)"

definition value_section :: "runner_ext \<Rightarrow> string \<Rightarrow> nat \<Rightarrow> json option \<Rightarrow> string" where
  "value_section x h n v = (case v of None \<Rightarrow> [] | Some j \<Rightarrow> heading h @ truncate_s (rx_marshal x j) n @ newline)"

definition repeat_heading :: string where
  "repeat_heading = ''existing idea titles (do not repeat)''"

definition flat_context :: "runner_input \<Rightarrow> string" where
  "flat_context r = text_section repeat_heading 4000 (ri_existingIdeaTitles r) @
     text_section ''board task titles'' 2000 (ri_taskTitles r)"

definition string_entries :: "(string \<times> json) list \<Rightarrow> (string \<times> string) list" where
  "string_entries m = concat (map (\<lambda>(k, v). case v of JStr s \<Rightarrow> [(k, s)] | _ \<Rightarrow> []) m)"

definition manifests_section :: "runner_ext \<Rightarrow> (string \<times> json) list \<Rightarrow> string" where
  "manifests_section x ctx = (case map_of ctx ''manifestExcerpts'' of
       Some (JObj m) \<Rightarrow>
         if m = [] then []
         else heading ''manifests'' @
           concat (map (\<lambda>(k, s). ''--- '' @ k @ '' ---'' @ newline @ truncate_s s 1200 @ newline)
             (rx_range x (string_entries m)))
     | _ \<Rightarrow> [])"

definition shared_pack :: "runner_ext \<Rightarrow> runner_input \<Rightarrow> string" where
  "shared_pack x r = (let ctx = ri_context r; note = ctxString ctx ''cloneHonestyNote'' in
     text_section ''CURSOR.md / Claude.md'' 8000 (ctxString ctx ''cursorMd'') @
     (if note \<noteq> [] \<and> ri_cloneHonestyNote r = [] then heading ''clone honesty'' @ note @ newline else []) @
     value_section x ''projectIndex'' 4000 (map_of ctx ''projectIndex'') @
     text_section ''README excerpt'' 3000 (ctxString ctx ''readmeExcerpt'') @
     manifests_section x ctx)"

definition roadmap_pack :: "runner_ext \<Rightarrow> (string \<times> json) list \<Rightarrow> string" where
  "roadmap_pack x ctx =
     (let v = ctxString ctx ''existingVision'' in
      if v = [] then [] else newline @ ''existingVision='' @ truncate_s v 500 @ newline) @
     (case map_of ctx ''existingPhases'' of
        None \<Rightarrow> []
      | Some ph \<Rightarrow> if rx_marshal x ph = ''null'' then [] else value_section x ''existing phases'' 3000 (Some ph))"

definition features_pack :: "runner_ext \<Rightarrow> (string \<times> json) list \<Rightarrow> string" where
  "features_pack x ctx =
     (if map_of ctx ''needsDiscovery'' = Some (JBool True)
      then newline @ ''needsDiscovery=true '' @ em_dash @ '' also return vision, targetAudience, phases, discovery.'' @ newline
      else []) @
     value_section x ''discovery snapshot'' 4000 (map_of ctx ''discoverySnapshot'') @
     titles_section ''existing feature titles'' 2000 (ctxStringSlice ctx ''existingFeatureTitles'') @
     text_section ''implemented features note'' 3000 (ctxString ctx ''implementedFeatureNote'') @
     text_section ''docs/APP_DESIGN_CHOICES.md'' 1500 (ctxString ctx ''designChoicesExcerpt'')"

definition ideation_pack :: "runner_ext \<Rightarrow> runner_input \<Rightarrow> string" where
  "ideation_pack x r = (let ctx = ri_context r; titles = ctxStringSlice ctx ''existingIdeaTitles'' in
     value_section x ''ideation_context'' 4000 (map_of ctx ''ideationContext'') @
     (if titles \<noteq> [] then titles_section repeat_heading 4000 titles
      else text_section repeat_heading 4000 (ri_existingIdeaTitles r)) @
     text_section ''implemented ideation note'' 2000 (ctxString ctx ''implementedIdeationNote'') @
     titles_section ''board task titles'' 2000 (ctxStringSlice ctx ''boardTaskTitles''))"

definition appendContextPack :: "runner_ext \<Rightarrow> runner_input \<Rightarrow> bool \<Rightarrow> bool \<Rightarrow> string" where
  "appendContextPack x r discovery features =
     (if ri_context r = [] then flat_context r
      else shared_pack x r @
        (if discovery \<or> features then roadmap_pack x (ri_context r) else []) @
        (if features then features_pack x (ri_context r) else []) @
        (if ri_action r = ''run-ideation'' then ideation_pack x r else []))"

section \<open>The repository\<close>

definition files_section :: "string list \<Rightarrow> string" where
  "files_section listed = heading (''repository files ('' @ itoa (int (length listed)) @ '' shown)'') @
     truncate_s (join newline listed) maxInventoryBytes @ newline"

definition excerpts_text :: "runner_ext \<Rightarrow> (string \<times> string) list \<Rightarrow> string" where
  "excerpts_text x l = concat (map (\<lambda>(rel, body). heading (''file '' @ rel) @ body @ newline) (rx_range x l))"

definition appendRepoForDiscovery :: "world \<Rightarrow> runner_input \<Rightarrow> string" where
  "appendRepoForDiscovery w r =
     (if ri_repoDir r = []
      then newline @ ''No repository mounted '' @ em_dash @
        '' infer only from project metadata; do not invent file paths.'' @ newline
      else let listed = repoInventory w (ri_repoDir r) in
        if listed = [] then newline @ ''Mounted repository at '' @ ri_repoDir r @ '' has no readable source files.'' @ newline
        else files_section listed)"

definition appendRepoForIdeation :: "runner_ext \<Rightarrow> world \<Rightarrow> runner_input \<Rightarrow> string \<Rightarrow> string" where
  "appendRepoForIdeation x w r typ =
     (if ri_repoDir r = []
      then newline @ ''No repository mounted '' @ em_dash @
        '' keep ideas high-level; do not invent file paths.'' @ newline
      else let listed = repoInventory w (ri_repoDir r) in
        if listed = [] then newline @ ''Mounted repository at '' @ ri_repoDir r @ '' has no readable source files.'' @ newline
        else files_section listed @ excerpts_text x (repoExcerpts w (ri_repoDir r) (ideationHotspotPaths listed typ)))"

definition appendRepoForCoding :: "runner_ext \<Rightarrow> world \<Rightarrow> runner_input \<Rightarrow> string" where
  "appendRepoForCoding x w r =
     (if ri_repoDir r = []
      then newline @ ''No repository was mounted for this run: you cannot see the source. '' @
        ''Return an empty files array and say so in implementationNotes.'' @ newline
      else let listed = repoInventory w (ri_repoDir r) in
        if listed = []
        then newline @ ''The mounted repository at '' @ ri_repoDir r @ '' contains no readable source files.'' @ newline
        else let wanted = planFilesToModify x (ri_planJSON r) in
          files_section listed @
          excerpts_text x (repoExcerpts w (ri_repoDir r) (if wanted = [] then listed else wanted)))"

section \<open>The prompts\<close>

definition competitors_text :: "runner_input \<Rightarrow> string" where
  "competitors_text r =
     (if ri_competitors r \<noteq> []
      then newline @ ''competitors to analyse:'' @ newline @
        concat (map (\<lambda>c. ''- '' @ c @ newline) (ri_competitors r))
      else newline @ ''competitors to analyse: (none named '' @ em_dash @
        '' infer at most three categories of alternative)'' @ newline)"

definition audience_text :: "runner_input \<Rightarrow> string" where
  "audience_text r = (let n = trim_space (ri_audienceNotes r) in
     if n = [] then [] else newline @ ''audience notes: '' @ n @ newline)"

definition defaultTaskPrompts :: "runner_ext \<Rightarrow> world \<Rightarrow> runner_input \<Rightarrow> string \<times> string" where
  "defaultTaskPrompts x w r = (task_system, baseUserHeader r @ appendRepoForCoding x w r)"

definition discoveryPrompts :: "runner_ext \<Rightarrow> world \<Rightarrow> runner_input \<Rightarrow> string \<times> string" where
  "discoveryPrompts x w r =
     (discovery_system, baseUserHeader r @ appendContextPack x r True False @ appendRepoForDiscovery w r)"

definition competitorPrompts :: "runner_ext \<Rightarrow> world \<Rightarrow> runner_input \<Rightarrow> string \<times> string" where
  "competitorPrompts x w r =
     (competitor_system, baseUserHeader r @ competitors_text r @ audience_text r @
        appendContextPack x r True False @ appendRepoForDiscovery w r)"

definition featuresPrompts :: "runner_ext \<Rightarrow> world \<Rightarrow> runner_input \<Rightarrow> string \<times> string" where
  "featuresPrompts x w r =
     (features_system, baseUserHeader r @ appendContextPack x r False True @ appendRepoForDiscovery w r)"

definition ideationPrompts :: "runner_ext \<Rightarrow> world \<Rightarrow> runner_input \<Rightarrow> string \<times> string" where
  "ideationPrompts x w r = (let typ = trim_space (ri_ideationType r) in
     (ideationSystemForType typ, baseUserHeader r @
        (if typ \<noteq> [] then ''ideationType='' @ typ @ '' (only this type)'' @ newline
         else ''ideationType=all'' @ newline) @
        appendContextPack x r False False @ appendRepoForIdeation x w r typ))"

definition promptsFor :: "runner_ext \<Rightarrow> world \<Rightarrow> runner_input \<Rightarrow> string \<times> string" where
  "promptsFor x w r =
     (if ri_action r = ''run-roadmap-discovery'' then discoveryPrompts x w r
      else if ri_action r = ''run-roadmap-features'' then featuresPrompts x w r
      else if ri_action r = ''run-roadmap-competitor'' then competitorPrompts x w r
      else if ri_action r = ''run-ideation'' then ideationPrompts x w r
      else defaultTaskPrompts x w r)"

end
