(* ===== verification/Runner_Main.thy ===== *)
theory Runner_Main
  imports Runner_Content Runner_Prompts
begin

text \<open>
  One run of the runner binary (\<open>main\<close>, \<open>loadInput\<close>, \<open>modelForAction\<close> and \<open>emit\<close> of
  \<open>cmd/opm-runner/main.go\<close>).
\<close>

section \<open>The input\<close>

definition soft_strings :: "(string \<times> json) list \<Rightarrow> string \<Rightarrow> string list" where
  "soft_strings kvs k = (case map_of kvs k of
       Some (JArr l) \<Rightarrow> map (\<lambda>v. case v of JStr s \<Rightarrow> s | _ \<Rightarrow> []) l
     | _ \<Rightarrow> [])"

definition soft_object :: "(string \<times> json) list \<Rightarrow> string \<Rightarrow> (string \<times> json) list" where
  "soft_object kvs k = json_object (map_of kvs k)"

text \<open>The environment's values, each replaced by the input file's.\<close>

definition input_of :: "world \<Rightarrow> (string \<times> json) list \<Rightarrow> runner_input" where
  "input_of w kvs =
     (let repo = soft_string (envOr w ''OPM_REPO_DIR'' []) kvs ''repoDir'' in
      \<lparr> ri_action = soft_string (envOr w ''OPM_ACTION'' ''none'') kvs ''action'',
        ri_runId = soft_string (envOr w ''OPM_RUN_ID'' []) kvs ''runId'',
        ri_specId = soft_string (envOr w ''OPM_SPEC_ID'' []) kvs ''specId'',
        ri_projectId = soft_string (envOr w ''OPM_PROJECT'' []) kvs ''projectId'',
        ri_taskTitle = soft_string (envOr w ''OPM_TASK_TITLE'' []) kvs ''taskTitle'',
        ri_taskDesc = soft_string (envOr w ''OPM_TASK_DESCRIPTION'' []) kvs ''taskDescription'',
        ri_planJSON = soft_string [] kvs ''planJson'',
        ri_specExcerpt = soft_string [] kvs ''specExcerpt'',
        ri_ownerRepo = soft_string [] kvs ''ownerRepo'',
        ri_defaultBranch = soft_string [] kvs ''defaultBranch'',
        ri_projectName = soft_string [] kvs ''projectName'',
        ri_ideationType = soft_string [] kvs ''ideationType'',
        ri_competitors = soft_strings kvs ''competitors'',
        ri_audienceNotes = soft_string [] kvs ''audienceNotes'',
        ri_existingIdeaTitles = soft_string [] kvs ''existingIdeaTitles'',
        ri_taskTitles = soft_string [] kvs ''taskTitles'',
        ri_cloneHonestyNote = soft_string [] kvs ''cloneHonestyNote'',
        ri_repoDir = (if repo = [] then envOr w ''OPM_REPO_DIR'' [] else repo),
        ri_context = soft_object kvs ''context'' \<rparr>)"

definition loadInput :: "runner_ext \<Rightarrow> runner_input act" where
  "loadInput x = do {
     rb \<leftarrow> (do { f \<leftarrow> asks (\<lambda>w. path_join [] [envOr w ''OPM_IN_FILE'' ''/in/input.json'']); os_read f });
     asks (\<lambda>w. input_of w (case rb of Inl _ \<Rightarrow> [] | Inr b \<Rightarrow> json_object (rx_json x b))) }"

section \<open>The model\<close>

definition phaseModel :: "world \<Rightarrow> string \<Rightarrow> string" where
  "phaseModel w k = envOr w k (envOr w ''OPM_MODEL'' ''auto'')"

definition modelForAction :: "world \<Rightarrow> string \<Rightarrow> string" where
  "modelForAction w action =
     (if action = ''run-planning'' \<or> action = ''run-followup-planning'' then phaseModel w ''OPM_MODEL_PLANNING''
      else if action = ''run-implementation'' then phaseModel w ''OPM_MODEL_CODING''
      else if action = ''run-ideation'' then phaseModel w ''OPM_MODEL_IDEATION''
      else if action = ''run-roadmap-discovery'' then phaseModel w ''OPM_MODEL_ROADMAP_DISCOVERY''
      else if action = ''run-roadmap-features'' then phaseModel w ''OPM_MODEL_ROADMAP_FEATURES''
      else if action = ''run-roadmap-competitor'' then phaseModel w ''OPM_MODEL_ROADMAP_COMPETITOR''
      else envOr w ''OPM_MODEL'' ''auto'')"

definition or_model :: "candidate \<Rightarrow> string \<Rightarrow> string" where
  "or_model c d = (let m = trim_space (ca_model c) in if m \<noteq> [] then m else d)"

section \<open>The run\<close>

definition outDir :: "world \<Rightarrow> string" where
  "outDir w = envOr w ''OPM_OUT_DIR'' ''/out''"

text \<open>The result goes to the file and, printed, to the container's output: it is what the run
  returns.\<close>

definition emit :: "runner_ext \<Rightarrow> string \<Rightarrow> runner_out \<Rightarrow> runner_out option act" where
  "emit x dir res = do {
     _ \<leftarrow> os_write (path_join [] [dir, ''result.json'']) (rx_result x res);
     State_Monad.return (Some res) }"

definition no_credential :: "runner_input \<Rightarrow> runner_out" where
  "no_credential r = zero_out\<lparr>ro_mode := ''fallback'',
     ro_reason := ''no model credential resolved; control plane will use builtin artifact helpers'',
     ro_action := ri_action r\<rparr>"

definition call_failed :: "runner_input \<Rightarrow> string \<Rightarrow> err \<Rightarrow> runner_out" where
  "call_failed r model e = zero_out\<lparr>ro_mode := ''fallback'', ro_reason := ''model call failed: '' @ err_text e,
     ro_action := ri_action r, ro_model := model\<rparr>"

definition served_out :: "candidate \<Rightarrow> runner_out \<Rightarrow> runner_out" where
  "served_out used res = res\<lparr>ro_endpoint := candidate_name used, ro_endpointKind := ca_kind used,
     ro_attempt := ca_index used\<rparr>"

definition model_run :: "runner_ext \<Rightarrow> caller \<Rightarrow> runner_input \<Rightarrow> candidate list \<Rightarrow> runner_out act" where
  "model_run x call r cands = do {
     model \<leftarrow> asks (\<lambda>w. or_model (hd cands) (modelForAction w (ri_action r)));
     (system, user) \<leftarrow> asks (\<lambda>w. promptsFor x w r);
     (used, answer) \<leftarrow> callWithFailover call cands system user;
     State_Monad.return (case answer of
         Inl e \<Rightarrow> call_failed r model e
       | Inr content \<Rightarrow> served_out used (parseModelContent x (ri_action r) (or_model used model) content)) }"

text \<open>\<open>main\<close>, with the variable \<open>candidateCaller\<close>; \<open>None\<close> is a panic.\<close>

definition runner_run :: "runner_ext \<Rightarrow> caller \<Rightarrow> runner_out option act" where
  "runner_run x call = do {
     r \<leftarrow> loadInput x;
     dir \<leftarrow> asks outDir;
     _ \<leftarrow> os_mkdir_all (path_join [] [dir]);
     cands \<leftarrow> asks loadCandidates;
     case cands of
       None \<Rightarrow> State_Monad.return None
     | Some cs \<Rightarrow>
         if cs = [] then emit x dir (no_credential r)
         else do { res \<leftarrow> model_run x call r cs; emit x dir res } }"

definition runner_main :: "runner_ext \<Rightarrow> runner_out option act" where
  "runner_main x = runner_run x (callCandidate x)"

end
