(* ===== verification/Runner_Theorems.thy ===== *)
theory Runner_Theorems
  imports Runner_Main Container_Theorems "HOL-Library.Multiset"
begin

text \<open>
  The properties of the runner: how the candidate endpoints travel from the control plane to it,
  how the walk over them ends, what a result in mode \<open>model\<close> stands on, how a reply is read and
  which files of the repository are shown.
\<close>

section \<open>The walk\<close>

text \<open>C10: How the walk over the candidates ends, exactly.  It leaves every candidate behind, each
  unsupported or called and failed retryably, in order, and its error names every attempt; or,
  behind such candidates, a first one is called that gives an output or fails for good: then its
  output, or an error that names the attempts up to its own, is the walk's, and the machine is left as that
  call left it, so that no candidate behind it is called.  Without candidates nothing is called.\<close>

theorem failover_serves_first:
  "run_state (callWithFailover call cs s u) w = ((c, r), w') \<longleftrightarrow>
     cs = [] \<and> c = zero_candidate \<and> r = Inl (Errf ''no model candidate available (no credential resolved)'') \<and> w' = w \<or>
     cs \<noteq> [] \<and> c = zero_candidate \<and> (\<exists>att. passed_over call s u w cs att w' \<and> r = Inl (all_failed (length cs) att)) \<or>
     (\<exists>pre post att mid. cs = pre @ c # post \<and> passed_over call s u w pre att mid \<and> candidateRunnable c \<and>
        ((\<exists>out. run_state (call c s u) mid = (Inr out, w') \<and> r = Inr out) \<or>
         (\<exists>e. run_state (call c s u) mid = (Inl e, w') \<and> \<not> retryable e \<and> r = Inl (not_retried (att @ [failed_attempt c e])))))"
    (is "?L \<longleftrightarrow> ?none \<or> ?all \<or> ?stops")
proof (cases "cs = []")
  case False
  then have walk: "callWithFailover call cs s u = failover call s u (length cs) [] cs" by (simp add: callWithFailover_def)
  have ?L if ?all using that failover_all[where ?att0.0 = "[]"] by (auto simp: walk)
  moreover have ?L if ?stops
    using that failover_stops[where ?att0.0 = "[]"] unfolding walk
    by (elim exE conjE disjE) (simp_all add: ends_walk_def walk_result_def)
  moreover have "?all \<or> ?stops" if ?L
  proof (cases rule: walk_cases[of call s u w cs])
    case (all att w1)
    then show ?thesis using that False failover_all[OF all, of "length cs" "[]"] by (auto simp: walk)
  next
    case (stops pre d post att mid q w1)
    have "run_state (failover call s u (length cs) [] cs) w = ((d, walk_result att d q), w1)"
      using failover_stops[OF stops(2-5), of "length cs" "[]" post] stops(1) by simp
    then have "c = d" "r = walk_result att d q" "w' = w1" using that unfolding walk by simp_all
    then have ?stops
      using stops by (cases q) (auto simp: ends_walk_def walk_result_def)
    then show ?thesis ..
  qed
  ultimately show ?thesis using False by blast
qed (auto simp: callWithFailover_def run)

section \<open>The environment\<close>

definition cut_key :: "string \<Rightarrow> string" where
  "cut_key l = takeWhile (\<lambda>c. c \<noteq> CHR ''='') l"

lemma cut_key_line: "CHR ''='' \<notin> set k \<Longrightarrow> cut_key (k @ ''='' @ v) = k"
  unfolding cut_key_def by (induction k) auto

text \<open>What \<open>docker run --env-file\<close> documents: a line \<open>key=value\<close> sets the variable, and a variable
  no line sets, of those passed in no other way, is not set.\<close>

definition container_reads :: "(string \<Rightarrow> string) \<Rightarrow> string list \<Rightarrow> bool" where
  "container_reads e ls \<longleftrightarrow>
     (\<forall>k v. CHR ''='' \<notin> set k \<longrightarrow> k @ ''='' @ v \<in> set ls \<longrightarrow> e k = v) \<and>
     (\<forall>k. has_prefix ''OPM_MODEL_'' k \<longrightarrow> CHR ''='' \<notin> set k \<longrightarrow> k \<notin> cut_key ` set ls \<longrightarrow> e k = [])"

lemma itoa_nat_no_underscore: "CHR ''_'' \<notin> set (itoa_nat n)"
  using itoa_nat_digits[of n] by (auto simp: list_all_iff is_digit_def)

lemma var_prefix_inj:
  assumes "1 \<le> i" and "1 \<le> j" and "var_prefix i @ s = var_prefix j @ t"
  shows "i = j \<and> s = t"
proof -
  have u: "takeWhile (\<lambda>c. c \<noteq> CHR ''_'') (itoa_nat n @ ''_'' @ r) = itoa_nat n" for n r
    using itoa_nat_no_underscore[of n] by (subst takeWhile_append2) auto
  have eq: "itoa_nat (nat i) @ ''_'' @ s = itoa_nat (nat j) @ ''_'' @ t"
    using assms by (simp add: var_prefix_def itoa_def)
  then have n: "itoa_nat (nat i) = itoa_nat (nat j)"
    using u[of "nat i" s] u[of "nat j" t] by simp
  then have "s = t" using eq by simp
  moreover have "nat i = nat j" using n by (metis digits_val_itoa_nat)
  ultimately show ?thesis using assms(1,2) by simp
qed

text \<open>The variables of a candidate, and its value for each.\<close>

definition candidate_vars :: "endpoint_candidate \<Rightarrow> (string \<times> string) list" where
  "candidate_vars c = [(''ENDPOINT_ID'', ec_endpointId c), (''KIND'', ec_kind c), (''TRANSPORT'', ec_transport c),
     (''PROVIDER'', ec_provider c), (''BASE_URL'', ec_baseUrl c), (''MODEL'', ec_model c),
     (''CLI_COMMAND'', ec_cliCommand c), (''CLI_ARGS'', join '' '' (ec_cliArgs c)), (''API_KEY'', ec_apiKey c)]"

lemma candidate_lines_vars:
  "candidate_lines i c = concat (map (\<lambda>(s, v). env_line (var_prefix i) s v) (candidate_vars c))"
  by (simp add: candidate_lines_def candidate_vars_def var_prefix_def Let_def)

lemma suffix_no_eq: "(s, v) \<in> set (candidate_vars c) \<Longrightarrow> CHR ''='' \<notin> set s"
  by (auto simp: candidate_vars_def)

lemma var_prefix_no_eq: "1 \<le> i \<Longrightarrow> CHR ''='' \<notin> set (var_prefix i)"
  using itoa_nat_digits[of "nat i"] by (auto simp: var_prefix_def itoa_def list_all_iff is_digit_def)

lemma distinct_suffixes: "distinct (map fst (candidate_vars c))"
  by (simp add: candidate_vars_def)

lemma number_candidates_set:
  "set (number_candidates i cs) = (\<Union>m<length cs. set (candidate_lines (i + int m) (cs ! m)))"
proof (induction i cs rule: number_candidates.induct)
  case (2 i c cs)
  have "(\<Union>m<length (c # cs). set (candidate_lines (i + int m) ((c # cs) ! m))) =
    set (candidate_lines i c) \<union> (\<Union>m<length cs. set (candidate_lines (i + int (Suc m)) (cs ! m)))"
    by (simp add: lessThan_Suc_eq_insert_0 UN_extend_simps(10) image_image)
  then show ?case using 2 by (simp add: add.assoc)
qed simp

text \<open>The keys of the file that begin like a candidate's variable are the candidates'.\<close>

lemma cut_env_line: "1 \<le> i \<Longrightarrow> (s, v) \<in> set (candidate_vars c) \<Longrightarrow> l \<in> set (env_line (var_prefix i) s v) \<Longrightarrow>
    l = (var_prefix i @ s) @ ''='' @ sanitizeEnvValue v \<and> cut_key l = var_prefix i @ s \<and> \<not> blank v"
  using cut_key_line[of "var_prefix i @ s" "sanitizeEnvValue v"] var_prefix_no_eq suffix_no_eq
  by (auto simp: env_line_def split: if_splits)

lemma itoa_head: "1 \<le> i \<Longrightarrow> \<exists>d r. itoa i = d # r \<and> is_digit d"
  by (cases "itoa_nat (nat i)") (use itoa_nat_digits[of "nat i"] in \<open>auto simp: itoa_def\<close>)

text \<open>The other variables of the file: none goes on with a digit.\<close>

definition other_keys :: "string list" where
  "other_keys = [''OPM_MODEL_API_KEY'', ''CURSOR_API_KEY'', ''OPM_MODEL'', ''OPM_MODEL_PROVIDER'', ''OPM_MODEL_BASE_URL'',
     ''OPM_MODEL_CANDIDATE_COUNT'', ''OPM_CURSOR_AGENT_BIN'']"

lemma other_keys_no_digit:
  "list_all (\<lambda>k. take 10 k = ''OPM_MODEL_'' \<longrightarrow> (case drop 10 k of [] \<Rightarrow> True | c # _ \<Rightarrow> \<not> is_digit c)) other_keys"
  by code_simp

lemma foreign_keys:
  assumes "1 \<le> i" and "l \<in> {''OPM_MODEL_API_KEY='' @ k, ''CURSOR_API_KEY='' @ k} \<union> env_pair ` set (modelEnvForJob cfg) \<union>
      {''OPM_MODEL_CANDIDATE_COUNT='' @ n} \<union> {''OPM_CURSOR_AGENT_BIN='' @ b}"
  shows "cut_key l \<noteq> var_prefix i @ s"
proof -
  obtain d r where d: "itoa i = d # r" "is_digit d" using itoa_head[OF assms(1)] by blast
  have "cut_key l \<in> set other_keys"
    using assms(2) by (auto simp: other_keys_def modelEnvForJob_def env_entry_def env_pair_def cut_key_def split: if_splits)
  then have o: "take 10 (cut_key l) = ''OPM_MODEL_'' \<Longrightarrow> drop 10 (cut_key l) = c # t \<Longrightarrow> \<not> is_digit c" for c t
    using other_keys_no_digit by (fastforce simp: list_all_iff)
  show ?thesis
  proof
    assume "cut_key l = var_prefix i @ s"
    then show False using o[of d "r @ ''_'' @ s"] d by (simp add: var_prefix_def)
  qed
qed

section \<open>Values\<close>

lemma trim_left_Nil: "trim_left P s = [] \<longleftrightarrow> (\<forall>c\<in>set s. P c)"
  by (simp add: trim_left_def dropWhile_eq_Nil_conv)

lemma trim_Nil_iff: "trim P s = [] \<longleftrightarrow> (\<forall>c\<in>set s. P c)"
proof -
  have "trim P s = [] \<longleftrightarrow> (\<forall>c\<in>set (trim_left P s). P c)"
    by (simp add: trim_def trim_right_def dropWhile_eq_Nil_conv)
  also have "\<dots> \<longleftrightarrow> trim_left P s = []"
    using trim_left_head[of P s] by (cases "trim_left P s") auto
  finally show ?thesis by (simp add: trim_left_Nil)
qed

lemma replace_all_one: "replace_all [c] [] s = filter (\<lambda>x. x \<noteq> c) s"
  by (induction s) (subst replace_all.simps, simp add: has_prefix_def)+

lemma sanitize_filter: "sanitizeEnvValue v = filter (\<lambda>c. c \<noteq> CHR 0x0A) (filter (\<lambda>c. c \<noteq> CHR 0x0D) v)"
  by (simp add: sanitizeEnvValue_def replace_all_one)

lemma blank_sanitized: "blank v \<Longrightarrow> trim_space (sanitizeEnvValue v) = []"
  by (simp add: blank_def trim_space_def trim_Nil_iff sanitize_filter)

lemma reads_line: "container_reads e ls \<Longrightarrow> CHR ''='' \<notin> set k \<Longrightarrow> k @ ''='' @ v \<in> set ls \<Longrightarrow> e k = v"
  by (auto simp: container_reads_def)

lemma reads_nothing:
  "container_reads e ls \<Longrightarrow> has_prefix ''OPM_MODEL_'' k \<Longrightarrow> CHR ''='' \<notin> set k \<Longrightarrow> k \<notin> cut_key ` set ls \<Longrightarrow> e k = []"
  by (auto simp: container_reads_def)

lemma file_line_cases:
  assumes "l \<in> set (env_file_lines w cfg)"
  obtains (other) k n b where "l \<in> {''OPM_MODEL_API_KEY='' @ k, ''CURSOR_API_KEY='' @ k} \<union> env_pair ` set (modelEnvForJob cfg) \<union>
      {''OPM_MODEL_CANDIDATE_COUNT='' @ n} \<union> {''OPM_CURSOR_AGENT_BIN='' @ b}"
    | (candidate) m s v where "m < length (mc_candidates cfg)" "(s, v) \<in> set (candidate_vars (mc_candidates cfg ! m))"
      "l \<in> set (env_line (var_prefix (1 + int m)) s v)"
proof (cases "l \<in> set (candidateEnvLines cfg)")
  case False
  then have "l \<in> {''OPM_MODEL_API_KEY='' @ mc_apiKey cfg, ''CURSOR_API_KEY='' @ mc_apiKey cfg} \<union> env_pair ` set (modelEnvForJob cfg) \<union>
      {''OPM_CURSOR_AGENT_BIN='' @ envOr w ''OPM_CURSOR_AGENT_BIN'' []}"
    using assms unfolding env_file_lines_set Let_def by (cases "envOr w ''OPM_CURSOR_AGENT_BIN'' [] = []") auto
  then show ?thesis by (intro other) blast
next
  case True
  then have "l = ''OPM_MODEL_CANDIDATE_COUNT='' @ itoa (int (length (mc_candidates cfg))) \<or>
      l \<in> set (number_candidates 1 (mc_candidates cfg))"
    by (auto simp: candidateEnvLines_def split: if_splits)
  then show ?thesis
  proof
    assume "l = ''OPM_MODEL_CANDIDATE_COUNT='' @ itoa (int (length (mc_candidates cfg)))"
    then show ?thesis by (intro other) blast
  next
    assume "l \<in> set (number_candidates 1 (mc_candidates cfg))"
    then show ?thesis using candidate by (auto simp: number_candidates_set candidate_lines_vars)
  qed
qed

lemma candidate_line_in_file:
  assumes "m < length (mc_candidates cfg)" and "(s, v) \<in> set (candidate_vars (mc_candidates cfg ! m))" and "\<not> blank v"
  shows "(var_prefix (1 + int m) @ s) @ ''='' @ sanitizeEnvValue v \<in> set (env_file_lines w cfg)"
proof -
  have "(var_prefix (1 + int m) @ s) @ ''='' @ sanitizeEnvValue v \<in> set (candidate_lines (1 + int m) (mc_candidates cfg ! m))"
    using assms(2,3) by (auto simp: candidate_lines_vars env_line_def intro!: bexI[of _ "(s, v)"])
  then have "(var_prefix (1 + int m) @ s) @ ''='' @ sanitizeEnvValue v \<in> set (candidateEnvLines cfg)"
    using assms(1) by (auto simp: candidateEnvLines_def number_candidates_set)
  then show ?thesis by (simp add: env_file_lines_set)
qed

text \<open>A candidate's variable arrives as its value, without line breaks, trimmed.\<close>

lemma variable_arrives:
  assumes r: "container_reads e (env_file_lines w cfg)" and m: "m < length (mc_candidates cfg)"
    and v: "(s, v) \<in> set (candidate_vars (mc_candidates cfg ! m))"
  shows "trim_space (e (var_prefix (1 + int m) @ s)) = trim_space (sanitizeEnvValue v)"
proof (cases "blank v")
  case False
  then have "e (var_prefix (1 + int m) @ s) = sanitizeEnvValue v"
    using reads_line[OF r _ candidate_line_in_file[OF m v]] var_prefix_no_eq suffix_no_eq[OF v] by simp
  then show ?thesis by simp
next
  case True
  have "cut_key l \<noteq> var_prefix (1 + int m) @ s" if l: "l \<in> set (env_file_lines w cfg)" for l
    using l
  proof (cases rule: file_line_cases)
    case (other k n b)
    then show ?thesis using foreign_keys[of "1 + int m"] by simp
  next
    case (candidate m' s' v')
    have c: "cut_key l = var_prefix (1 + int m') @ s'" "\<not> blank v'"
      using cut_env_line[OF _ candidate(2,3)] by auto
    show ?thesis
    proof
      assume "cut_key l = var_prefix (1 + int m) @ s"
      then have "m' = m" "s' = s" using var_prefix_inj[of "1 + int m'" "1 + int m" s' s] c(1) by auto
      then have "v' = v" using candidate(2) v distinct_suffixes by (metis eq_key_imp_eq_value)
      then show False using c(2) True by simp
    qed
  qed
  then have "var_prefix (1 + int m) @ s \<notin> cut_key ` set (env_file_lines w cfg)" by (metis imageE)
  moreover have "has_prefix ''OPM_MODEL_'' (var_prefix (1 + int m) @ s)" by (simp add: var_prefix_def has_prefix_def)
  moreover have "CHR ''='' \<notin> set (var_prefix (1 + int m) @ s)"
    using suffix_no_eq[OF v] var_prefix_no_eq[of "1 + int m"] by simp
  ultimately have "e (var_prefix (1 + int m) @ s) = []" by (intro reads_nothing[OF r])
  then show ?thesis using True by (simp add: blank_sanitized)
qed

section \<open>The candidates the runner loads\<close>

definition arrived :: "string \<Rightarrow> string" where
  "arrived v = trim_space (sanitizeEnvValue v)"

definition received :: "int \<Rightarrow> endpoint_candidate \<Rightarrow> candidate" where
  "received i c = \<lparr> ca_index = i, ca_endpointId = arrived (ec_endpointId c), ca_kind = to_lower (arrived (ec_kind c)),
     ca_transport = to_lower (arrived (ec_transport c)), ca_provider = to_lower (arrived (ec_provider c)),
     ca_baseUrl = trim_right (\<lambda>c. c = CHR ''/'') (arrived (ec_baseUrl c)), ca_model = arrived (ec_model c),
     ca_cliCommand = arrived (ec_cliCommand c), ca_cliArgs = Go_Strings.fields (arrived (join '' '' (ec_cliArgs c))),
     ca_apiKey = arrived (ec_apiKey c) \<rparr>"

lemma fields_Nil [simp]: "Go_Strings.fields [] = []"
  by (simp add: Go_Strings.fields_def)

lemma candidate_at_received:
  assumes "container_reads (getenv w) (env_file_lines w0 cfg)" and "m < length (mc_candidates cfg)"
  shows "candidate_at w (1 + int m) = (let c = mc_candidates cfg ! m in
     if arrived (ec_apiKey c) = [] then None else Some (received (1 + int m) c))"
proof -
  have v: "(s, v) \<in> set (candidate_vars (mc_candidates cfg ! m)) \<Longrightarrow> getenv_trim w (var_prefix (1 + int m) @ s) = arrived v" for s v
    using variable_arrives[OF assms] by (simp add: getenv_trim_def arrived_def)
  note each = v[unfolded candidate_vars_def]
  show ?thesis
    by (simp add: candidate_at_def received_def Let_def each)
qed

lemma map_filter_same: "(\<And>x. x \<in> set xs \<Longrightarrow> f x = g x) \<Longrightarrow> List.map_filter f xs = List.map_filter g xs"
  by (induction xs) (auto simp: List.map_filter_simps split: option.splits)

lemma map_filter_if: "List.map_filter (\<lambda>m. if P m then None else Some (g m)) xs = [g m. m \<leftarrow> xs, \<not> P m]"
  by (induction xs) (auto simp: List.map_filter_simps)

lemma upto_shift: "[1..int n] = map (\<lambda>m. 1 + int m) [0..<n]"
proof (induction n)
  case (Suc n)
  have "[1..int (Suc n)] = [1..int n] @ [1 + int n]" using upto_rec2[of 1 "int (Suc n)"] by simp
  then show ?case using Suc by simp
qed simp

lemma digit_no_space: "is_digit c \<Longrightarrow> \<not> is_space c"
  by (simp add: is_digit_not_sign)

lemma atoi_value_itoa: "int n \<le> int64_max \<Longrightarrow> atoi_value (trim_space (itoa (int n))) = int n"
proof -
  assume n: "int n \<le> int64_max"
  have d: "list_all is_digit (itoa_nat n)" by (rule itoa_nat_digits)
  then have "trim_space (itoa_nat n) = itoa_nat n"
    unfolding trim_space_def by (intro trim_id) (auto simp: list_all_iff digit_no_space)
  moreover obtain c t where c: "itoa_nat n = c # t" by (cases "itoa_nat n") auto
  ultimately show ?thesis
    using d n is_digit_not_sign[of c] digits_val_itoa_nat[of n]
    by (simp add: itoa_def atoi_value_def decimal_text_def)
qed

lemma count_arrives:
  assumes "container_reads (getenv w) (env_file_lines w0 cfg)" and "mc_candidates cfg \<noteq> []"
  shows "getenv w ''OPM_MODEL_CANDIDATE_COUNT'' = itoa (int (length (mc_candidates cfg)))"
proof (rule reads_line[OF assms(1)])
  show "''OPM_MODEL_CANDIDATE_COUNT'' @ ''='' @ itoa (int (length (mc_candidates cfg))) \<in> set (env_file_lines w0 cfg)"
    using assms(2) by (simp add: env_file_lines_set candidateEnvLines_def)
qed simp

lemma loadCandidates_received:
  assumes r: "container_reads (getenv w) (env_file_lines w0 cfg)" and ne: "mc_candidates cfg \<noteq> []"
    and n: "int (length (mc_candidates cfg)) \<le> max_candidates"
  shows "loadCandidates w = Some [received (1 + int m) (mc_candidates cfg ! m).
     m \<leftarrow> [0..<length (mc_candidates cfg)], arrived (ec_apiKey (mc_candidates cfg ! m)) \<noteq> []]"
proof -
  let ?n = "length (mc_candidates cfg)"
  have "int ?n \<le> int64_max" using n by (simp add: max_candidates_def int64_max_def)
  then have c: "atoi_value (getenv_trim w ''OPM_MODEL_CANDIDATE_COUNT'') = int ?n"
    using count_arrives[OF r ne] by (simp add: getenv_trim_def atoi_value_itoa)
  have "List.map_filter (candidate_at w) [1..int ?n] =
     List.map_filter (\<lambda>m. candidate_at w (1 + int m)) [0..<?n]"
    by (simp add: upto_shift map_filter_def filter_map comp_def)
  also have "\<dots> = List.map_filter (\<lambda>m. let c = mc_candidates cfg ! m in
     if arrived (ec_apiKey c) = [] then None else Some (received (1 + int m) c)) [0..<?n]"
    by (rule map_filter_same) (simp add: candidate_at_received[OF r])
  also have "\<dots> = [received (1 + int m) (mc_candidates cfg ! m). m \<leftarrow> [0..<?n], arrived (ec_apiKey (mc_candidates cfg ! m)) \<noteq> []]"
    unfolding Let_def by (rule map_filter_if)
  finally show ?thesis using c n by (simp add: loadCandidates_def)
qed

lemma container_reads_blank_line: "container_reads e (ls @ [[]]) \<longleftrightarrow> container_reads e ls"
  by (auto simp: container_reads_def cut_key_def has_prefix_def)

text \<open>C9: The endpoints the control plane resolved reach the runner in order: when docker's
  container reads the env file the control plane wrote, the runner loads exactly the candidates
  whose credential is not blank, each under its position, with every value as it was composed
  (without line breaks, trimmed, the kind, transport and provider in lower case).\<close>

theorem candidates_arrive:
  assumes "one_line (mc_apiKey cfg)" and "one_line (mc_model cfg)" and "one_line (mc_provider cfg)"
    and "one_line (mc_baseUrl cfg)" and "one_line (getenv w0 ''OPM_CURSOR_AGENT_BIN'')"
    and "container_reads (getenv w) (env_file_reads w0 cfg)" and "mc_candidates cfg \<noteq> []"
    and "int (length (mc_candidates cfg)) \<le> max_candidates"
  shows "loadCandidates w = Some [received (1 + int m) (mc_candidates cfg ! m).
     m \<leftarrow> [0..<length (mc_candidates cfg)], arrived (ec_apiKey (mc_candidates cfg ! m)) \<noteq> []]"
proof -
  have "container_reads (getenv w) (env_file_lines w0 cfg)"
    using assms(6) unfolding env_file_reads_lines[OF assms(1-5)] container_reads_blank_line .
  then show ?thesis using assms(7,8) by (rule loadCandidates_received)
qed

text \<open>A reader of such lines.\<close>

definition line_env :: "string list \<Rightarrow> string \<Rightarrow> string" where
  "line_env ls k = (case map_of (map (\<lambda>l. (cut_key l, drop (Suc (length (cut_key l))) l)) ls) k of None \<Rightarrow> [] | Some v \<Rightarrow> v)"

lemma line_env_reads:
  assumes "distinct (map cut_key ls)"
  shows "container_reads (line_env ls) ls"
proof -
  let ?f = "\<lambda>l. (cut_key l, drop (Suc (length (cut_key l))) l)"
  have d: "distinct (map fst (map ?f ls))" using assms by (simp add: comp_def)
  have "line_env ls k = v" if "CHR ''='' \<notin> set k" "k @ ''='' @ v \<in> set ls" for k v
  proof -
    have "(k, v) \<in> set (map ?f ls)" using that cut_key_line[OF that(1), of v] by force
    then show ?thesis using d by (simp add: line_env_def)
  qed
  moreover have "line_env ls k = []" if "k \<notin> cut_key ` set ls" for k
  proof -
    have "map_of (map ?f ls) k = None" using that by (simp add: map_of_eq_None_iff image_comp comp_def)
    then show ?thesis by (simp only: line_env_def option.case)
  qed
  ultimately show ?thesis unfolding container_reads_def by blast
qed

definition demo_binding :: model_config where
  "demo_binding = zero_config\<lparr>mc_apiKey := ''k1'', mc_candidates := [
     \<lparr>ec_endpointId = ''e1'', ec_kind = ''API_OpenAI'', ec_transport = ''http'', ec_provider = ''openai'',
       ec_baseUrl = ''https://a/v1/'', ec_model = ''m1'', ec_cliCommand = [], ec_cliArgs = [], ec_apiKey = ''k1''\<rparr>,
     \<lparr>ec_endpointId = ''e2'', ec_kind = ''cli_generic'', ec_transport = ''cli'', ec_provider = ''x'',
       ec_baseUrl = [], ec_model = [], ec_cliCommand = ''tool'', ec_cliArgs = [''--flag'', ''two words''], ec_apiKey = ''k2''\<rparr>]\<rparr>"

lemma candidates_arrive_witness:
  "map (\<lambda>c. (ca_index c, ca_kind c, ca_baseUrl c, ca_cliArgs c, ca_apiKey c))
     (the (loadCandidates (demo_queued\<lparr>getenv := line_env (env_file_reads demo_queued demo_binding)\<rparr>))) =
   [(1, ''api_openai'', ''https://a/v1'', [], ''k1''), (2, ''cli_generic'', [], [''--flag'', ''two'', ''words''], ''k2'')]"
proof -
  have "container_reads (line_env (env_file_reads demo_queued demo_binding)) (env_file_reads demo_queued demo_binding)"
    by (rule line_env_reads) code_simp
  then have "loadCandidates (demo_queued\<lparr>getenv := line_env (env_file_reads demo_queued demo_binding)\<rparr>) =
     Some [received (1 + int m) (mc_candidates demo_binding ! m).
       m \<leftarrow> [0..<length (mc_candidates demo_binding)], arrived (ec_apiKey (mc_candidates demo_binding ! m)) \<noteq> []]"
    by (intro candidates_arrive) (simp_all add: demo_binding_def zero_config_def max_candidates_def)
  moreover have "map (\<lambda>c. (ca_index c, ca_kind c, ca_baseUrl c, ca_cliArgs c, ca_apiKey c))
     [received (1 + int m) (mc_candidates demo_binding ! m).
       m \<leftarrow> [0..<length (mc_candidates demo_binding)], arrived (ec_apiKey (mc_candidates demo_binding ! m)) \<noteq> []] =
   [(1, ''api_openai'', ''https://a/v1'', [], ''k1''), (2, ''cli_generic'', [], [''--flag'', ''two'', ''words''], ''k2'')]"
    by code_simp
  ultimately show ?thesis by simp
qed

section \<open>A container for the witnesses\<close>

definition demo_rx :: runner_ext where
  "demo_rx = \<lparr> rx_look = (\<lambda>_. True), rx_exec = (\<lambda>_ _ _ _ _. State_Monad.return ([], None)),
     rx_post = (\<lambda>_ _ _. okE (200, ''body'')),
     rx_json = (\<lambda>s. if s = ''body'' then Some (JObj [(''choices'', JArr [JObj [(''message'', JObj [(''content'', JStr ''{...}'')])]])])
                    else if s = ''{...}'' then Some (JObj [(''specMarkdown'', JStr ''# Spec'')]) else None),
     rx_marshal = (\<lambda>_. ''{}''), rx_result = (\<lambda>r. ro_mode r), rx_range = (\<lambda>l. l) \<rparr>"

text \<open>A mounted repository with a skipped directory and a link out of it, and one endpoint.\<close>

definition demo_box :: world where
  "demo_box = demo_world\<lparr>
     fs := [([''repo''], Dir), ([''repo'', ''main.go''], File (DText ''package main'')), ([''repo'', ''vendor''], Dir),
       ([''repo'', ''vendor'', ''dep.go''], File (DText ''package dep'')), ([''in''], Dir),
       ([''in'', ''input.json''], File (DText ''secret''))],
     links := [([''repo'', ''notes.md''], [''in'', ''input.json''])],
     getenv := line_env [''OPM_ACTION=run-planning'', ''OPM_MODEL_CANDIDATE_COUNT=1'', ''OPM_MODEL_1_ENDPOINT_ID=e1'',
       ''OPM_MODEL_1_KIND=api_openai'', ''OPM_MODEL_1_API_KEY=k1'']\<rparr>"

section \<open>Reading the reply\<close>

abbreviation spaces :: "string \<Rightarrow> bool" where
  "spaces s \<equiv> \<forall>c\<in>set s. is_space c"

text \<open>A text that reads like an object.\<close>

definition braced :: "string \<Rightarrow> bool" where
  "braced s \<longleftrightarrow> s \<noteq> [] \<and> hd s = CHR ''{'' \<and> last s = CHR ''}''"

lemma trim_spaces_left: "\<forall>c\<in>set a. P c \<Longrightarrow> trim P (a @ s) = trim P s"
  by (simp add: trim_def trim_left_def)

lemma trim_spaces_right: "\<forall>c\<in>set b. P c \<Longrightarrow> s \<noteq> [] \<Longrightarrow> \<not> P (hd s) \<Longrightarrow> trim P (s @ b) = trim P s"
  using dropWhile_append2[of "rev b" P] by (cases s) (auto simp: trim_def trim_left_def trim_right_def)

lemma braced_edges: "braced s \<Longrightarrow> \<not> is_space (hd s) \<and> \<not> is_space (last s)"
  by (simp add: braced_def is_space_def)

lemma trim_around:
  assumes "spaces a" "spaces b" "s \<noteq> []" "\<not> is_space (hd s)" "\<not> is_space (last s)"
  shows "trim_space (a @ s @ b) = s"
proof -
  have "trim_space (a @ s @ b) = trim is_space s"
    unfolding trim_space_def trim_spaces_left[OF assms(1)] using assms(2-4) by (rule trim_spaces_right)
  then show ?thesis using assms(3-5) trim_id[of s is_space] by simp
qed

lemma from_brace_braced: "braced s \<Longrightarrow> from_brace s = s"
  by (cases s) (simp_all add: from_brace_def braced_def has_prefix_def)

lemma stripFences_braced: "braced s \<Longrightarrow> stripFences s = s"
  using trim_around[of "[]" "[]" s] braced_edges[of s]
  by (cases s) (simp_all add: stripFences_def strip_leading_fence_def braced_def has_prefix_def fence_def from_brace_braced)

lemma index_of_prefix: "index_of sub (sub @ t) = Some 0"
  by (cases "sub @ t") (metis append_is_Nil_conv index_of.simps(1), metis has_prefix_append index_of.simps(2))

lemma last_index_suffix: "last_index sub (t @ sub) = Some (length t)"
  by (simp add: last_index_def index_of_prefix)

lemma unfenced_tag:
  assumes "lang \<in> {[], ''json'', ''JSON''}" and "t = [] \<or> is_space (hd t) \<or> hd t = CHR ''{''"
  shows "trim_prefix fence (trim_prefix (fence @ ''JSON'') (trim_prefix (fence @ ''json'') (fence @ lang @ t))) = t"
  using assms by (cases t) (auto simp: trim_prefix_def has_prefix_def fence_def is_space_def)

lemma stripFences_fenced:
  assumes s: "braced s" and lang: "lang \<in> {[], ''json'', ''JSON''}" and sp: "spaces a" "spaces b" "spaces p" "spaces q"
  shows "stripFences (a @ fence @ lang @ p @ s @ q @ fence @ b) = s"
proof -
  let ?t = "(p @ s @ q) @ fence"
  have e: "s \<noteq> []" "\<not> is_space (hd s)" "\<not> is_space (last s)" "hd s = CHR ''{''"
    using s braced_edges[OF s] by (auto simp: braced_def)
  have f: "\<not> is_space (CHR ''`'')" by (simp add: is_space_def)
  have "trim_space (a @ (fence @ lang @ ?t) @ b) = fence @ lang @ ?t"
    using sp(1,2) f by (intro trim_around) (auto simp: fence_def)
  moreover have "trim_prefix fence (trim_prefix (fence @ ''JSON'') (trim_prefix (fence @ ''json'') (fence @ lang @ ?t))) = ?t"
    using e sp(3) by (intro unfenced_tag[OF lang]) (cases p; auto)
  moreover have "last_index fence ?t = Some (length (p @ s @ q))" by (rule last_index_suffix)
  moreover have "trim_space (p @ s @ q) = s" using sp(3,4) e(1-3) by (rule trim_around)
  moreover have "trim_space s = s" using trim_around[of "[]" "[]" s] e(1-3) by simp
  ultimately show ?thesis
    by (simp add: stripFences_def strip_leading_fence_def from_brace_braced[OF s] del: append_assoc)
       (simp add: from_brace_braced[OF s])
qed

text \<open>C31: A reply wrapped in a code fence, plain or marked as JSON, with any white space around and
  inside, is read as the bare object is: the result is the same in every field.\<close>

theorem fenced_reply_read_alike:
  assumes "braced s" and "lang \<in> {[], ''json'', ''JSON''}" and "spaces a" and "spaces b" and "spaces p" and "spaces q"
  shows "parseModelContent x action model (a @ fence @ lang @ p @ s @ q @ fence @ b) = parseModelContent x action model s"
  unfolding parseModelContent_def stripFences_fenced[OF assms] stripFences_braced[OF assms(1)] ..

lemma demo_reply: "parseModelContent demo_rx ''run-planning'' m ''{...}'' = blob_out demo_rx ''run-planning''
     (JObj [(''specMarkdown'', JStr ''# Spec'')]) [(''specMarkdown'', JStr ''# Spec'')]
     (zero_out\<lparr>ro_mode := ''model'', ro_action := ''run-planning'', ro_model := m, ro_rawExcerpt := ''{...}''\<rparr>)"
proof -
  have "stripFences ''{...}'' = ''{...}''" by (rule stripFences_braced) (simp add: braced_def)
  moreover have "rx_json demo_rx ''{...}'' = Some (JObj [(''specMarkdown'', JStr ''# Spec'')])" by (simp add: demo_rx_def)
  moreover have "\<not> blank ''# Spec''" by code_simp
  ultimately show ?thesis
    by (simp add: parseModelContent_def Let_def judged_def blob_out_def soft_string_def truncate_s_def)
qed

lemma fenced_reply_read_alike_witness:
  "ro_specMarkdown (parseModelContent demo_rx ''run-planning'' ''m'' ('' '' @ fence @ ''json'' @ newline @ ''{...}'' @ newline @ fence @ [])) = ''# Spec''"
  by (subst fenced_reply_read_alike)
     (simp_all add: braced_def newline_def is_space_def demo_reply blob_out_def soft_string_def)

section \<open>One run\<close>

lemma as_fallback_sel [simp]: "ro_mode (as_fallback why res) = ''fallback''" "ro_reason (as_fallback why res) = why"
  by (simp_all add: as_fallback_def)

lemma blob_out_sel [simp]: "ro_mode (blob_out x action whole blob res) = ro_mode res"
  "ro_reason (blob_out x action whole blob res) = ro_reason res"
  by (simp_all add: blob_out_def)

text \<open>The verdict keeps the mode or makes the result a fallback with a reason.\<close>

definition kept_or_refused :: "runner_out \<Rightarrow> runner_out \<Rightarrow> bool" where
  "kept_or_refused res res' \<longleftrightarrow> ro_mode res' = ro_mode res \<or> ro_mode res' = ''fallback'' \<and> ro_reason res' \<noteq> []"

lemma kept_same: "kept_or_refused res res"
  by (simp add: kept_or_refused_def)

lemma kept_fallback: "why \<noteq> [] \<Longrightarrow> kept_or_refused res (as_fallback why res)"
  by (simp add: kept_or_refused_def)

lemma kept_if: "kept_or_refused res a \<Longrightarrow> kept_or_refused res b \<Longrightarrow> kept_or_refused res (if c then a else b)"
  by simp

lemma judged_kept: "kept_or_refused res (judged action res)"
  unfolding judged_def
  by (intro kept_if kept_same kept_fallback) (simp_all add: kept_or_refused_def)

lemma parse_content_cases:
  obtains (refused) why res where "why \<noteq> []" "parseModelContent x action model out = as_fallback why res"
    | (object) j kvs res where "rx_json x (stripFences out) = Some j" "j = JNull \<or> j = JObj kvs" "ro_mode res = ''model''"
      "parseModelContent x action model out = judged action (blob_out x action j kvs res)"
proof -
  let ?res = "zero_out\<lparr>ro_mode := ''model'', ro_action := action, ro_model := model,
    ro_rawExcerpt := truncate_s (stripFences out) 800\<rparr>"
  have m: "ro_mode ?res = ''model''" by simp
  show ?thesis
  proof (cases "rx_json x (stripFences out)")
    case None
    then have "parseModelContent x action model out =
       as_fallback ''model returned non-JSON; control plane will use builtin helpers'' ?res"
      by (simp add: parseModelContent_def Let_def)
    then show ?thesis by (rule refused[rotated]) simp
  next
    case (Some j)
    consider (obj) kvs where "j = JObj kvs" | (null) "j = JNull" | (no) "\<forall>kvs. j \<noteq> JObj kvs" "j \<noteq> JNull" by blast
    then show ?thesis
    proof cases
      case obj
      then have "parseModelContent x action model out = judged action (blob_out x action j kvs ?res)"
        using Some by (simp add: parseModelContent_def Let_def)
      then show ?thesis using object[OF Some _ m] obj by blast
    next
      case null
      then have "parseModelContent x action model out = judged action (blob_out x action j [] ?res)"
        using Some by (simp add: parseModelContent_def Let_def)
      then show ?thesis using object[OF Some _ m] null by blast
    next
      case no
      then have "parseModelContent x action model out =
         as_fallback ''model returned non-JSON; control plane will use builtin helpers'' ?res"
        using Some by (cases j) (simp_all add: parseModelContent_def Let_def)
      then show ?thesis by (rule refused[rotated]) simp
    qed
  qed
qed

lemma parse_mode:
  "ro_mode (parseModelContent x action model out) = ''model'' \<or>
   ro_mode (parseModelContent x action model out) = ''fallback'' \<and> ro_reason (parseModelContent x action model out) \<noteq> []"
proof (cases rule: parse_content_cases[of x action model out])
  case (refused why res)
  then show ?thesis by simp
next
  case (object j kvs res)
  then show ?thesis using judged_kept[of "blob_out x action j kvs res" action] by (simp add: kept_or_refused_def)
qed

lemma parse_model_object:
  assumes "ro_mode (parseModelContent x action model out) = ''model''"
  shows "rx_json x (stripFences out) = Some JNull \<or> (\<exists>kvs. rx_json x (stripFences out) = Some (JObj kvs))"
proof (cases rule: parse_content_cases[of x action model out])
  case (refused why res)
  then show ?thesis using assms by simp
next
  case (object j kvs res)
  then show ?thesis by auto
qed

text \<open>The model a result is given stays.\<close>

lemma judged_model: "ro_model (judged action res) = ro_model res"
  by (simp add: judged_def as_fallback_def)

lemma parse_model: "ro_model (parseModelContent x action model out) = model"
  by (simp add: parseModelContent_def judged_model blob_out_def as_fallback_def Let_def split: option.split json.split)

lemma loaded_model:
  assumes "loadCandidates w = Some cs" and "c \<in> set cs"
  shows "trim_space (ca_model c) = ca_model c"
proof -
  have "c \<in> set (List.map_filter (candidate_at w) [1..atoi_value (getenv_trim w ''OPM_MODEL_CANDIDATE_COUNT'')])"
    using assms by (auto simp: loadCandidates_def Let_def split: if_splits)
  then obtain i where "candidate_at w i = Some c" by (auto simp: map_filter_def)
  then show ?thesis by (auto simp: candidate_at_def getenv_trim_def Let_def split: if_splits)
qed

lemma loaded_candidate:
  assumes "loadCandidates w = Some cs" and "c \<in> set cs"
  shows "1 \<le> ca_index c \<and> ca_apiKey c \<noteq> []"
proof -
  have "c \<in> set (List.map_filter (candidate_at w) [1..atoi_value (getenv_trim w ''OPM_MODEL_CANDIDATE_COUNT'')])"
    using assms by (auto simp: loadCandidates_def Let_def split: if_splits)
  then obtain i where "1 \<le> i" "candidate_at w i = Some c" by (auto simp: map_filter_def)
  then show ?thesis by (auto simp: candidate_at_def Let_def split: if_splits)
qed

text \<open>The machine once the input is read and the output directory made.\<close>

definition prepared :: "world \<Rightarrow> world" where
  "prepared w = snd (run_state (os_mkdir_all (path_join [] [outDir w])) w)"

definition input_read :: "runner_ext \<Rightarrow> world \<Rightarrow> runner_input" where
  "input_read x w = fst (run_state (loadInput x) w)"

lemma run_loadInput: "run_state (loadInput x) w = (input_read x w, w)"
proof -
  have "snd (run_state (os_read p) w) = w" for p by (simp add: os_read_def run)
  then have "snd (run_state (loadInput x) w) = w"
    by (simp add: loadInput_def run split: prod.splits) (metis snd_conv)
  then show ?thesis by (simp add: input_read_def prod_eq_iff)
qed

lemma run_emit: "fst (run_state (emit x dir res) w) = Some res"
  by (simp add: emit_def run split: prod.splits)

lemma run_model_run:
  assumes "run_state (model_run x call r cs) w = (res, w')"
  obtains (failed) "ro_mode res = ''fallback''" "ro_reason res \<noteq> []"
    | (served) c out where "served_by call (fst (promptsFor x w r)) (snd (promptsFor x w r)) w cs c (Inr out) w'"
      "res = served_out c (parseModelContent x (ri_action r) (or_model c (or_model (hd cs) (modelForAction w (ri_action r)))) out)"
proof -
  obtain s u where p: "promptsFor x w r = (s, u)" by fastforce
  obtain c a w1 where c: "run_state (callWithFailover call cs s u) w = ((c, a), w1)" by (metis surj_pair)
  show ?thesis
  proof (cases a)
    case (Inl e)
    then have "res = call_failed r (or_model (hd cs) (modelForAction w (ri_action r))) e"
      using assms p c by (simp add: model_run_def run)
    then show ?thesis by (intro failed) (simp_all add: call_failed_def)
  next
    case (Inr out)
    then have "served_by call s u w cs c (Inr out) w1"
      using c by (cases "cs = []") (auto simp: callWithFailover_def failover_served run)
    then show ?thesis using assms p c Inr served by (simp add: model_run_def run)
  qed
qed

text \<open>C29: A result of the runner in mode \<open>model\<close> stands on an answer: some candidate with a
  credential, the first that gave one, answered the prompts of this job with a text that decodes to
  an object (or \<open>null\<close>); the result names that candidate, its kind, its position and the model it was
  asked for, whatever was offered first: the candidate's own model, and only if it has none
  that of the first candidate or else of the environment.  Every other result says \<open>fallback\<close> with its reason.\<close>

theorem model_result_names_server:
  assumes "run_state (runner_main x) w = (Some res, w')"
  shows "ro_mode res = ''fallback'' \<and> ro_reason res \<noteq> [] \<or>
    ro_mode res = ''model'' \<and>
    (\<exists>cs c out w1. loadCandidates (prepared w) = Some cs \<and> c \<in> set cs \<and> 1 \<le> ca_index c \<and> ca_apiKey c \<noteq> [] \<and>
       served_by (callCandidate x) (fst (promptsFor x (prepared w) (input_read x w)))
         (snd (promptsFor x (prepared w) (input_read x w))) (prepared w) cs c (Inr out) w1 \<and>
       (rx_json x (stripFences out) = Some JNull \<or> (\<exists>kvs. rx_json x (stripFences out) = Some (JObj kvs))) \<and>
       ro_endpoint res = candidate_name c \<and> ro_endpointKind res = ca_kind c \<and> ro_attempt res = ca_index c \<and>
       ro_model res = (if ca_model c \<noteq> [] then ca_model c else if ca_model (hd cs) \<noteq> [] then ca_model (hd cs)
                       else modelForAction (prepared w) (ri_action (input_read x w))))"
proof -
  let ?r = "input_read x w"
  obtain a where m: "run_state (os_mkdir_all (path_join [] [outDir w])) w = (a, prepared w)"
    by (cases "run_state (os_mkdir_all (path_join [] [outDir w])) w") (simp add: prepared_def)
  have run_w: "run_state (runner_main x) w = run_state (case loadCandidates (prepared w) of None \<Rightarrow> State_Monad.return None
     | Some cs \<Rightarrow> if cs = [] then emit x (outDir w) (no_credential ?r)
         else do { res \<leftarrow> model_run x (callCandidate x) ?r cs; emit x (outDir w) res }) (prepared w)"
    using m by (simp add: runner_main_def runner_run_def run run_loadInput)
  then obtain cs where cs: "loadCandidates (prepared w) = Some cs" using assms by (cases "loadCandidates (prepared w)") (auto simp: run)
  show ?thesis
  proof (cases "cs = []")
    case True
    then have "res = no_credential ?r" using assms run_w cs run_emit[of x "outDir w" "no_credential ?r" "prepared w"] by simp
    then show ?thesis by (simp add: no_credential_def zero_out_def)
  next
    case False
    obtain res' w1 where r: "run_state (model_run x (callCandidate x) ?r cs) (prepared w) = (res', w1)" by fastforce
    then have "res = res'" using assms run_w cs False run_emit[of x "outDir w" res' w1] by (simp add: run)
    show ?thesis
      using r
    proof (cases rule: run_model_run)
      case failed
      then show ?thesis using \<open>res = res'\<close> by simp
    next
      case (served c out)
      let ?p = "parseModelContent x (ri_action ?r) (or_model c (or_model (hd cs) (modelForAction (prepared w) (ri_action ?r)))) out"
      have n: "ro_endpoint res = candidate_name c" "ro_endpointKind res = ca_kind c" "ro_attempt res = ca_index c"
        "ro_mode res = ro_mode ?p" "ro_reason res = ro_reason ?p"
        "ro_model res = or_model c (or_model (hd cs) (modelForAction (prepared w) (ri_action ?r)))"
        using served(2) \<open>res = res'\<close> by (simp_all add: served_out_def parse_model)
      have "c \<in> set cs" using served(1) by (auto simp: served_by_def)
      then have m: "ro_model res = (if ca_model c \<noteq> [] then ca_model c else if ca_model (hd cs) \<noteq> [] then ca_model (hd cs)
          else modelForAction (prepared w) (ri_action ?r))"
        using n(6) False loaded_model[OF cs] by (simp add: or_model_def Let_def)
      show ?thesis
      proof (cases "ro_mode ?p = ''model''")
        case True
        then show ?thesis
          using n(1-4) m served(1) cs \<open>c \<in> set cs\<close> loaded_candidate[OF cs \<open>c \<in> set cs\<close>] parse_model_object[OF True] by auto
      next
        case False
        then show ?thesis using n parse_mode[of x "ri_action ?r" _ out] by auto
      qed
    qed
  qed
qed

definition demo_endpoint :: candidate where
  "demo_endpoint = zero_candidate\<lparr>ca_index := 1, ca_endpointId := ''e1'', ca_kind := ''api_openai'', ca_apiKey := ''k1''\<rparr>"

lemma demo_served: "run_state (callCandidate demo_rx demo_endpoint s u) w = (Inr ''{...}'', w)"
proof -
  have "take body_limit ''body'' = ''body''" by (simp add: body_limit_def)
  moreover have "chat_answer (rx_json demo_rx ''body'') = Inr ''{...}''" by code_simp
  moreover have "rx_post demo_rx url h b = okE (200, ''body'')" for url h b by (simp add: demo_rx_def)
  ultimately show ?thesis
    by (simp add: callCandidate_def demo_endpoint_def callChat_def post_body_def answered_def success_def run Let_def)
qed

lemma demo_run: "map_option ro_mode (fst (run_state (runner_main demo_rx) demo_box)) = Some ''model''"
proof -
  have l: "loadCandidates (prepared demo_box) = Some [demo_endpoint]" by code_simp
  have i: "ri_action (input_read demo_rx demo_box) = ''run-planning''" by code_simp
  obtain a where m: "run_state (os_mkdir_all (path_join [] [outDir demo_box])) demo_box = (a, prepared demo_box)"
    by (cases "run_state (os_mkdir_all (path_join [] [outDir demo_box])) demo_box") (simp add: prepared_def)
  have "candidateRunnable demo_endpoint" by code_simp
  then have "run_state (callWithFailover (callCandidate demo_rx) [demo_endpoint] s u) w = ((demo_endpoint, Inr ''{...}''), w)" for s u w
    by (simp add: callWithFailover_def run demo_served)
  then show ?thesis
    using m by (simp add: runner_main_def runner_run_def run run_loadInput l model_run_def i demo_reply blob_out_def served_out_def
      emit_def split: prod.splits)
qed

lemma model_result_names_server_witness:
  "\<exists>res. fst (run_state (runner_main demo_rx) demo_box) = Some res \<and> ro_mode res = ''model'' \<and>
     (\<exists>c. ro_endpoint res = candidate_name c \<and> ca_apiKey c \<noteq> [])"
proof -
  obtain res w' where r: "run_state (runner_main demo_rx) demo_box = (Some res, w')" "ro_mode res = ''model''"
    using demo_run by (cases "run_state (runner_main demo_rx) demo_box") auto
  then show ?thesis using model_result_names_server[OF r(1)] by auto
qed

section \<open>The repository shown\<close>

text \<open>\<open>tree_file w p q\<close>: \<open>q\<close> is a file or a link below the directory \<open>p\<close>, reached through real
  directories that are not skipped.\<close>

inductive tree_file :: "world \<Rightarrow> path \<Rightarrow> path \<Rightarrow> bool" for w :: world where
  here: "e \<in> set (dir_entries w p) \<Longrightarrow> \<not> real_dir w (p @ [e]) \<Longrightarrow> tree_file w p (p @ [e])"
| below: "e \<in> set (dir_entries w p) \<Longrightarrow> real_dir w (p @ [e]) \<Longrightarrow> \<not> skippedDir e \<Longrightarrow> tree_file w (p @ [e]) q \<Longrightarrow>
    tree_file w p q"

lemma walk_sound: "q \<in> set (walk_files n w p) \<Longrightarrow> tree_file w p q"
proof (induction n w p arbitrary: q rule: walk_files.induct)
  case (2 n w p)
  then obtain e where e: "e \<in> set (dir_entries w p)"
    "q \<in> set (if real_dir w (p @ [e]) then (if skippedDir e then [] else walk_files n w (p @ [e])) else [p @ [e]])"
    by auto
  show ?case
  proof (cases "real_dir w (p @ [e])")
    case True
    then have "\<not> skippedDir e" "q \<in> set (walk_files n w (p @ [e]))" using e(2) by (auto split: if_splits)
    then show ?thesis using 2(1)[OF e(1) True] below[OF e(1) True] by blast
  next
    case False
    then show ?thesis using e here by auto
  qed
qed simp

lemma fold_max_ge: "(a::nat) \<le> fold max xs a \<and> (\<forall>x\<in>set xs. x \<le> fold max xs a)"
proof (induction xs arbitrary: a)
  case (Cons y xs)
  have "max y a \<le> fold max xs (max y a)" and "\<forall>x\<in>set xs. x \<le> fold max xs (max y a)" using Cons by blast+
  then show ?case by auto
qed simp

lemma dir_depth: "look w p = Some Dir \<Longrightarrow> length p < tree_depth w"
proof -
  assume "look w p = Some Dir"
  then have "p = [] \<or> length p \<in> set (map (length \<circ> fst) (fs w))"
    by (force simp: look_def split: if_splits dest: map_of_SomeD)
  then show ?thesis using fold_max_ge[of 0 "map (length \<circ> fst) (fs w)"] by (auto simp: tree_depth_def less_Suc_eq_le)
qed

lemma walk_complete:
  "tree_file w p q \<Longrightarrow> look w p = Some Dir \<Longrightarrow> tree_depth w \<le> n + length p \<Longrightarrow> q \<in> set (walk_files n w p)"
proof (induction arbitrary: n rule: tree_file.induct)
  case (here e p)
  then obtain m where "n = Suc m" using dir_depth[of w p] by (cases n) auto
  then show ?case using here by force
next
  case (below e p q)
  then obtain m where "n = Suc m" using dir_depth[of w p] by (cases n) auto
  moreover have "q \<in> set (walk_files m w (p @ [e]))"
    using below.IH[of m] below.prems(2) below.hyps(2) calculation by (simp add: real_dir_def)
  ultimately show ?case using below.hyps(1-3) by force
qed

lemma walk_dir_files:
  assumes "real_dir w r"
  shows "set (walk_dir w r) = {q. tree_file w r q}"
proof -
  have d: "look w r = Some Dir" "\<not> is_link w r" using assms by (simp_all add: real_dir_def)
  then have "walk_dir w r = walk_files (tree_depth w) w r" by (simp add: walk_dir_def)
  then show ?thesis using walk_sound[of _ "tree_depth w" w r] walk_complete[OF _ d(1), of _ "tree_depth w"] by auto
qed

lemma tree_file_ne: "tree_file w p q \<Longrightarrow> q \<noteq> []"
  by (induction rule: tree_file.induct) auto

lemma walk_below: "q \<in> set (walk_files n w p) \<Longrightarrow> \<exists>e r. q = p @ e # r"
proof (induction n w p arbitrary: q rule: walk_files.induct)
  case (2 n w p)
  then obtain e where e: "e \<in> set (dir_entries w p)"
    "q \<in> set (if real_dir w (p @ [e]) then (if skippedDir e then [] else walk_files n w (p @ [e])) else [p @ [e]])"
    by auto
  show ?case
  proof (cases "real_dir w (p @ [e])")
    case True
    then have "\<exists>e' r. q = (p @ [e]) @ e' # r" using e 2(1)[OF e(1) True] by (cases "skippedDir e") simp_all
    then show ?thesis by auto
  qed (use e(2) in auto)
qed simp

lemma distinct_concat_map:
  "distinct xs \<Longrightarrow> (\<And>x. x \<in> set xs \<Longrightarrow> distinct (f x)) \<Longrightarrow> (\<And>x y. x \<noteq> y \<Longrightarrow> set (f x) \<inter> set (f y) = {}) \<Longrightarrow>
     distinct (concat (map f xs))"
proof (induction xs)
  case (Cons a xs)
  have "set (f a) \<inter> set (f x) = {}" if "x \<in> set xs" for x by (rule Cons.prems(3)) (use that Cons.prems(1) in auto)
  then have "set (f a) \<inter> set (concat (map f xs)) = {}" by auto
  then show ?case using Cons by simp
qed simp

lemma walk_distinct: "distinct (walk_files n w p)"
proof (induction n w p rule: walk_files.induct)
  case (2 n w p)
  let ?f = "\<lambda>e. if real_dir w (p @ [e]) then (if skippedDir e then [] else walk_files n w (p @ [e])) else [p @ [e]]"
  have head: "\<exists>r. q = p @ e # r" if "q \<in> set (?f e)" for q e
    using that walk_below[of q n w "p @ [e]"] by (auto split: if_splits)
  have "distinct (?f e)" if "e \<in> set (dir_entries w p)" for e using 2[OF that] by auto
  moreover have "set (?f e) \<inter> set (?f e') = {}" if "e \<noteq> e'" for e e'
  proof (rule equals0I)
    fix q assume "q \<in> set (?f e) \<inter> set (?f e')"
    then obtain r r' where "q = p @ e # r" "q = p @ e' # r'" using head[of q e] head[of q e'] by blast
    then show False using that by simp
  qed
  ultimately have "distinct (concat (map ?f (dir_entries w p)))"
    by (intro distinct_concat_map) (simp_all only: dir_entries_def distinct_sort distinct_remdups)
  then show ?case by (simp only: walk_files.simps)
qed simp

text \<open>C30: The inventory lists the tree.  With \<open>F\<close> for the text files below the repository that are
  reached through real directories which are not skipped (no link is followed), however deep they lie:
  it is the sorted list of the relative paths of as many of them as there are, and of 400 when there are
  more, each file once; so all of them are listed when they are at most 400.\<close>

theorem inventory_lists_tree:
  fixes w root
  defines "F \<equiv> {q. tree_file w (walk_root w root) q \<and> textLikeFile (last q)}"
  assumes "\<not> blank root" and "real_dir w (walk_root w root)"
  shows "finite F \<and> sorted (repoInventory w root) \<and>
    (\<exists>Q \<subseteq> F. card Q = min 400 (card F) \<and>
       mset (repoInventory w root) = image_mset (rel_text (walk_root w root)) (mset_set Q)) \<and>
    (card F \<le> 400 \<longrightarrow> mset (repoInventory w root) = image_mset (rel_text (walk_root w root)) (mset_set F))"
proof -
  let ?r = "walk_root w root"
  let ?l = "filter (\<lambda>q. q \<noteq> [] \<and> textLikeFile (last q)) (walk_dir w ?r)"
  let ?Q = "set (take 400 ?l)"
  have inv: "repoInventory w root = sort (map (rel_text ?r) (take 400 ?l))"
    using assms(2) by (simp add: repoInventory_def Let_def maxInventoryFiles_def)
  have wd: "walk_dir w ?r = walk_files (tree_depth w) w ?r" using assms(3) by (simp add: walk_dir_def real_dir_def)
  have l: "set ?l = F" using walk_dir_files[OF assms(3)] tree_file_ne by (auto simp: F_def)
  have d: "distinct ?l" using walk_distinct by (simp add: wd)
  have card: "card F = length ?l" unfolding l[symmetric] by (rule distinct_card[OF d])
  have Q: "mset (repoInventory w root) = image_mset (rel_text ?r) (mset_set ?Q)"
    unfolding inv using d by (simp add: mset_set_set)
  have sub: "?Q \<subseteq> F" unfolding l[symmetric] by (rule set_take_subset)
  have "card ?Q = min 400 (card F)" unfolding card using distinct_card[OF distinct_take[OF d, of 400]] by simp
  moreover have "?Q = F" if "card F \<le> 400" using that l card by simp
  moreover have "finite F" unfolding l[symmetric] by simp
  moreover have "sorted (repoInventory w root)" unfolding inv by simp
  ultimately show ?thesis using Q sub by auto
qed

lemma inventory_lists_tree_witness:
  "sorted (repoInventory demo_box ''/repo'') \<and> repoInventory demo_box ''/repo'' = [''main.go'', ''notes.md'']"
proof -
  have "repoInventory demo_box ''/repo'' = [''main.go'', ''notes.md'']" by code_simp
  moreover have "\<not> blank ''/repo''" "real_dir demo_box (walk_root demo_box ''/repo'')" by code_simp+
  ultimately show ?thesis using inventory_lists_tree[of "''/repo''" demo_box] by blast
qed

section \<open>What the prompts leave out and let in\<close>

text \<open>A pack is read by its keys, and none reads the competitor analysis.\<close>

lemma pack_cong:
  assumes "ctx \<noteq> []" and "ctx' \<noteq> []" and k: "\<And>k. k \<noteq> ''competitorAnalysis'' \<Longrightarrow> map_of ctx k = map_of ctx' k"
  shows "appendContextPack x (r\<lparr>ri_context := ctx\<rparr>) d f = appendContextPack x (r\<lparr>ri_context := ctx'\<rparr>) d f"
proof -
  have s: "ctxString ctx k = ctxString ctx' k" "ctxStringSlice ctx k = ctxStringSlice ctx' k" if "k \<noteq> ''competitorAnalysis''" for k
    using k[OF that] by (simp_all add: ctxString_def ctxStringSlice_def)
  show ?thesis
    using assms(1,2)
    by (simp add: appendContextPack_def shared_pack_def roadmap_pack_def features_pack_def ideation_pack_def
        manifests_section_def Let_def k s)
qed

lemma prompts_cong:
  assumes "ctx \<noteq> []" and "ctx' \<noteq> []" and "\<And>k. k \<noteq> ''competitorAnalysis'' \<Longrightarrow> map_of ctx k = map_of ctx' k"
  shows "promptsFor x w (r\<lparr>ri_context := ctx\<rparr>) = promptsFor x w (r\<lparr>ri_context := ctx'\<rparr>)"
proof -
  have b: "baseUserHeader (r\<lparr>ri_context := c\<rparr>) = baseUserHeader r" for c by (simp add: baseUserHeader_def Let_def)
  have t: "competitors_text (r\<lparr>ri_context := c\<rparr>) = competitors_text r" "audience_text (r\<lparr>ri_context := c\<rparr>) = audience_text r" for c
    by (simp_all add: competitors_text_def audience_text_def)
  have a: "appendRepoForDiscovery w (r\<lparr>ri_context := c\<rparr>) = appendRepoForDiscovery w r"
    "appendRepoForIdeation x w (r\<lparr>ri_context := c\<rparr>) y = appendRepoForIdeation x w r y"
    "appendRepoForCoding x w (r\<lparr>ri_context := c\<rparr>) = appendRepoForCoding x w r" for c y
    by (simp_all add: appendRepoForDiscovery_def appendRepoForIdeation_def appendRepoForCoding_def Let_def)
  have pk: "appendContextPack x (r\<lparr>ri_context := ctx\<rparr>) d f = appendContextPack x (r\<lparr>ri_context := ctx'\<rparr>) d f" for d f
    using assms(1,2) by (rule pack_cong) (rule assms(3))
  show ?thesis
    unfolding promptsFor_def discoveryPrompts_def featuresPrompts_def competitorPrompts_def ideationPrompts_def
      defaultTaskPrompts_def Let_def b t a pk by simp
qed

text \<open>A symbolic link of the repository carries a file from outside it into the prompt: the
  excerpt shown under the link's name is the text of the file the link points to.\<close>

theorem link_enters_prompt:
  assumes "\<not> blank root" and "path_join [] [root] = d" and "deref w d = d"
    and "plain name" and "excerpt_name name = name" and "\<not> contains ''..'' name"
    and "map_of (links w) (d @ [name]) = Some out" and "look w out = Some (File (DText s))"
  shows "repoExcerpts w root [name] = [(name, truncate_s s 4000)]"
proof -
  have n: "name \<noteq> []" "\<not> has_prefix ''/'' name" using assms(4) by (cases name; auto simp: plain_def has_prefix_def)+
  have "path_join d [name] = d @ [name]"
    using assms(4) by (simp add: path_join_def plain_def split_on_id clean_step_def)
  moreover have "deref w (d @ [name]) = out" using assms(3,7) by (simp add: deref_def deref_step_def)
  ultimately have "file_text w (path_join d [name]) = Some s"
    using assms(8) by (simp add: file_text_def os_read_def run read_text_def doc_text_def)
  then show ?thesis
    using n assms(1,2,5,6) by (simp add: repoExcerpts_def Let_def maxExcerptFiles_def maxExcerptFileBytes_def)
qed

lemma link_enters_prompt_witness:
  "repoExcerpts demo_box ''/repo'' [''notes.md''] = [(''notes.md'', truncate_s ''secret'' 4000)]"
  by (rule link_enters_prompt[where d = "[''repo'']" and out = "[''in'', ''input.json'']"])
     (code_simp, code_simp, code_simp, simp add: plain_def, code_simp, code_simp, code_simp, simp add: demo_box_def look_def)

section \<open>Smaller facts the findings rest on\<close>

text \<open>The Qwen command line carries the credential as an argument; those of Claude Code and Cursor
  do not depend on it.\<close>

lemma qwen_key_in_argv: "ca_apiKey c \<in> set (qwen_args c m system repo)"
  by (simp add: qwen_args_def Let_def)

lemma claude_args_without_key: "claude_args (c\<lparr>ca_apiKey := k\<rparr>) = claude_args c"
  by (simp add: claude_args_def)

text \<open>A plan of \<open>null\<close> passes for a plan: the reply stays in mode \<open>model\<close>.\<close>

lemma null_plan_accepted:
  assumes "rx_json x (stripFences out) = Some (JObj [(''plan'', JNull)])"
  shows "ro_mode (parseModelContent x ''run-planning'' model out) = ''model'' \<and>
    ro_plan (parseModelContent x ''run-planning'' model out) = Some JNull"
  using assms by (simp add: parseModelContent_def Let_def judged_def blob_out_def zero_out_def)

text \<open>A fence after a line of prose keeps its closing marks.\<close>

lemma prose_before_fence:
  "stripFences (''Here:'' @ newline @ ''```json'' @ newline @ ''{}'' @ newline @ ''```'') = ''{}'' @ newline @ ''```''"
  by code_simp

text \<open>A name with two dots in it is dropped by the runner though the control plane would take it.\<close>

lemma dots_dropped:
  "sanitizeFileChanges [\<lparr>fc_path = ''a..b.go'', fc_contents = Some [], fc_patch = [], fc_delete = False\<rparr>] = [] \<and>
   pathRejection ''a..b.go'' = []"
  by code_simp

end
