(* ===== verification/Context_Theorems.thy ===== *)
theory Context_Theorems
  imports Runner_Theorems
begin

text \<open>
  The properties of the runner's input: what the control plane writes is what the runner reads,
  what of it never reaches a prompt, and what the index of a clone holds.
\<close>

section \<open>The services of a clone\<close>

lemma unique_from_not_Nil: "uniqueStrings l \<noteq> []"
  by (simp add: uniqueStrings_def Let_def)

lemma service_of_stack [simp]: "sx_techStack (service_of p a) \<noteq> []"
  by (simp add: service_of_def unique_from_not_Nil split: prod.split)

text \<open>What the loop over the directories keeps.\<close>

definition services_ok :: "(string \<times> service_index) list \<Rightarrow> bool" where
  "services_ok l \<longleftrightarrow> distinct (map fst l) \<and> (\<forall>n v. map_of l n = Some v \<longrightarrow> sx_techStack v \<noteq> [])"

lemma services_ok_update: "services_ok l \<Longrightarrow> services_ok (AList.update k (service_of p a) l)"
  by (auto simp: services_ok_def distinct_update map_of_update)

text \<open>One directory: nothing happens, or a name that is free is given its service.\<close>

lemma add_services_step:
  obtains acc' where "add_services w d ((e, b) # es) acc = add_services w d es acc'"
    and "acc' = acc \<and> (b \<and> \<not> has_prefix ''.'' e \<and> fst (sub_acc w (d @ [e])) \<noteq> [] \<longrightarrow> map_of acc e \<noteq> None) \<or>
      map_of acc e = None \<and> acc' = AList.update e (service_of e (sub_acc w (d @ [e]))) acc"
proof (cases "\<not> b \<or> has_prefix ''.'' e \<or> fst (sub_acc w (d @ [e])) = [] \<or> map_of acc e \<noteq> None")
  case True
  then have "add_services w d ((e, b) # es) acc = add_services w d es acc" by (auto simp: Let_def)
  then show ?thesis by (rule that) (use True in blast)
next
  case False
  then have "add_services w d ((e, b) # es) acc = add_services w d es (AList.update e (service_of e (sub_acc w (d @ [e]))) acc)"
    by (simp add: Let_def)
  then show ?thesis by (rule that) (use False in blast)
qed

lemma add_services_ok: "services_ok acc \<Longrightarrow> services_ok (add_services w d es acc)"
proof (induction es arbitrary: acc)
  case (Cons x es)
  obtain e b where x: "x = (e, b)" by (cases x)
  show ?case
    unfolding x
  proof (rule add_services_step[of w d e b es acc])
    fix acc' assume eq: "add_services w d ((e, b) # es) acc = add_services w d es acc'"
      and "acc' = acc \<and> (b \<and> \<not> has_prefix ''.'' e \<and> fst (sub_acc w (d @ [e])) \<noteq> [] \<longrightarrow> map_of acc e \<noteq> None) \<or>
        map_of acc e = None \<and> acc' = AList.update e (service_of e (sub_acc w (d @ [e]))) acc"
    then have "services_ok acc'" using Cons.prems by (metis services_ok_update)
    then show "services_ok (add_services w d ((e, b) # es) acc)" unfolding eq by (rule Cons.IH)
  qed
qed simp

text \<open>A service found stays.\<close>

lemma add_services_keeps: "map_of acc n = Some v \<Longrightarrow> map_of (add_services w d es acc) n = Some v"
proof (induction es arbitrary: acc)
  case (Cons x es)
  obtain e b where x: "x = (e, b)" by (cases x)
  show ?case
    unfolding x
  proof (rule add_services_step[of w d e b es acc])
    fix acc' assume eq: "add_services w d ((e, b) # es) acc = add_services w d es acc'"
      and "acc' = acc \<and> (b \<and> \<not> has_prefix ''.'' e \<and> fst (sub_acc w (d @ [e])) \<noteq> [] \<longrightarrow> map_of acc e \<noteq> None) \<or>
        map_of acc e = None \<and> acc' = AList.update e (service_of e (sub_acc w (d @ [e]))) acc"
    then have "map_of acc' n = Some v" using Cons.prems by (auto simp: map_of_update)
    then show "map_of (add_services w d ((e, b) # es) acc) n = Some v" unfolding eq by (rule Cons.IH)
  qed
qed simp

text \<open>Every directory with a manifest ends up in the index, as itself unless its name was taken.\<close>

lemma add_services_finds:
  assumes "(e, True) \<in> set es" and "\<not> has_prefix ''.'' e" and "fst (sub_acc w (d @ [e])) \<noteq> []"
  shows "\<exists>v. map_of (add_services w d es acc) e = Some v \<and>
    (map_of acc e = None \<longrightarrow> v = service_of e (sub_acc w (d @ [e])))"
  using assms(1)
proof (induction es arbitrary: acc)
  case (Cons x es)
  let ?s = "service_of e (sub_acc w (d @ [e]))"
  obtain e' b where x: "x = (e', b)" by (cases x)
  show ?case
    unfolding x
  proof (rule add_services_step[of w d e' b es acc])
    fix acc' assume eq: "add_services w d ((e', b) # es) acc = add_services w d es acc'"
      and alt: "acc' = acc \<and> (b \<and> \<not> has_prefix ''.'' e' \<and> fst (sub_acc w (d @ [e'])) \<noteq> [] \<longrightarrow> map_of acc e' \<noteq> None) \<or>
        map_of acc e' = None \<and> acc' = AList.update e' (service_of e' (sub_acc w (d @ [e']))) acc"
    show "\<exists>v. map_of (add_services w d ((e', b) # es) acc) e = Some v \<and> (map_of acc e = None \<longrightarrow> v = ?s)"
      unfolding eq
    proof (cases "map_of acc' e")
      case (Some v)
      then show "\<exists>v. map_of (add_services w d es acc') e = Some v \<and> (map_of acc e = None \<longrightarrow> v = ?s)"
        using add_services_keeps[OF Some] alt by (auto simp: map_of_update split: if_splits)
    next
      case None
      then have "(e, True) \<noteq> x" "map_of acc e = None" using alt x assms(2,3) by (auto simp: map_of_update split: if_splits)
      then have "(e, True) \<in> set es" using Cons.prems by auto
      then show "\<exists>v. map_of (add_services w d es acc') e = Some v \<and> (map_of acc e = None \<longrightarrow> v = ?s)"
        using Cons.IH[of acc'] None by simp
    qed
  qed
qed simp

text \<open>Nothing else does.\<close>

lemma add_services_only:
  "map_of (add_services w d es acc) e = Some v \<Longrightarrow>
   map_of acc e = Some v \<or>
   (e, True) \<in> set es \<and> \<not> has_prefix ''.'' e \<and> fst (sub_acc w (d @ [e])) \<noteq> [] \<and> v = service_of e (sub_acc w (d @ [e]))"
proof (induction es arbitrary: acc)
  case (Cons x es)
  obtain e' b where x: "x = (e', b)" by (cases x)
  show ?case
  proof (cases "\<not> b \<or> has_prefix ''.'' e' \<or> fst (sub_acc w (d @ [e'])) = [] \<or> map_of acc e' \<noteq> None")
    case True
    then have "add_services w d (x # es) acc = add_services w d es acc" by (auto simp: Let_def x)
    then have "map_of (add_services w d es acc) e = Some v" using Cons.prems by simp
    from Cons.IH[OF this] show ?thesis by auto
  next
    case False
    then have "add_services w d (x # es) acc = add_services w d es (AList.update e' (service_of e' (sub_acc w (d @ [e']))) acc)"
      by (simp add: Let_def x)
    then have "map_of (add_services w d es (AList.update e' (service_of e' (sub_acc w (d @ [e']))) acc)) e = Some v"
      using Cons.prems by simp
    from Cons.IH[OF this] show ?thesis using False by (auto simp: map_of_update x split: if_splits)
  qed
qed simp

text \<open>The root's service.\<close>

definition root_services :: "world \<Rightarrow> path \<Rightarrow> (string \<times> service_index) list" where
  "root_services w d = (let r = root_acc w d in if fst r = [] then [] else [(root_name (fst r), service_of ''.'' r)])"

lemma inferServices_cases:
  "inferServices w d = (let l = add_services w d (list_dir w d) (root_services w d) in
     if l = [] then [(''app'', unknown_service)] else l)"
  by (simp add: inferServices_def root_services_def Let_def)

text \<open>The technologies of a directory, by the files that name them: a \<open>package.json\<close> that decodes
  to an object, a \<open>pyproject.toml\<close> that configures one of the tools looked for, a \<open>go.mod\<close>, a
  \<open>Cargo.toml\<close>.  Gradle counts at the root alone.\<close>

definition regular_file :: "world \<Rightarrow> path \<Rightarrow> bool" where
  "regular_file w p \<longleftrightarrow> (\<exists>c. look w (deref w p) = Some (File c))"

definition node_manifest :: "world \<Rightarrow> path \<Rightarrow> bool" where
  "node_manifest w D \<longleftrightarrow>
     (\<exists>t kvs. file_text w (D @ [''package.json'']) = Some t \<and> unmarshal w KMap t = Some (DMap kvs))"

definition python_manifest :: "world \<Rightarrow> path \<Rightarrow> bool" where
  "python_manifest w D \<longleftrightarrow> (\<exists>t. file_text w (D @ [''pyproject.toml'']) = Some t \<and>
     (contains ''[tool.ruff]'' t \<or> contains ''[tool.black]'' t \<or> contains ''[tool.pytest'' t))"

definition gradle_root :: "world \<Rightarrow> path \<Rightarrow> bool" where
  "gradle_root w D \<longleftrightarrow>
     (\<exists>n\<in>{''build.gradle'', ''build.gradle.kts'', ''settings.gradle'', ''settings.gradle.kts''}. regular_file w (D @ [n])) \<or>
     look w (deref w (D @ [''app''])) = Some Dir \<and>
     (\<exists>n\<in>{''build.gradle'', ''build.gradle.kts''}. regular_file w (D @ [''app'', n]))"

definition stack_below :: "world \<Rightarrow> path \<Rightarrow> string list" where
  "stack_below w D =
     (if node_manifest w D then [''node''] else []) @ (if python_manifest w D then [''python''] else []) @
     (if regular_file w (D @ [''go.mod'']) then [''go''] else []) @
     (if regular_file w (D @ [''Cargo.toml'']) then [''rust''] else [])"

definition stack_root :: "world \<Rightarrow> path \<Rightarrow> string list" where
  "stack_root w D = stack_below w D @ (if gradle_root w D then [''android'', ''kotlin''] else [])"

definition name_of_root :: "string list \<Rightarrow> string" where
  "name_of_root ts = (if ''android'' \<in> set ts then ''android'' else if length ts = 1 then hd ts else ''app'')"

lemma fileExists_regular: "fileExists w p = regular_file w p"
  by (simp add: fileExists_def regular_file_def split: option.split node.split)

lemma readJSONMap_node: "(readJSONMap w (D @ [''package.json'']) \<noteq> None) = node_manifest w D"
  by (simp add: readJSONMap_def node_manifest_def split: option.split) (auto split: option.split doc.split)

lemma readPy_python: "(readPyProjectHints w (D @ [''pyproject.toml'']) \<noteq> None) = python_manifest w D"
  by (auto simp: readPyProjectHints_def python_manifest_def py_tools_def split: option.split)

lemma hasAndroid_gradle: "hasAndroid w D = gradle_root w D"
  by (simp add: hasAndroid_def gradle_root_def fileExists_regular dirExists_def)

lemma fst_add_tech: "fst (add_tech b ns x y acc) = fst acc @ (if b then ns else [])"
  by (simp add: add_tech_def split: prod.split)

lemma fst_node_acc: "fst (node_acc p) = (if p \<noteq> None then [''node''] else [])"
  by (simp add: node_acc_def Let_def split: option.split)

lemma sub_acc_stack: "fst (sub_acc w D) = stack_below w D"
  unfolding sub_acc_def fst_add_tech fst_node_acc readJSONMap_node readPy_python fileExists_regular stack_below_def
  by simp

lemma root_acc_stack: "fst (root_acc w D) = stack_root w D"
  unfolding root_acc_def fst_add_tech fst_node_acc readJSONMap_node readPy_python fileExists_regular
    hasAndroid_gradle stack_root_def stack_below_def
  by simp

lemma unique_from_plain:
  "distinct ts \<Longrightarrow> \<forall>s\<in>set ts. trim_space s = s \<and> s \<noteq> [] \<and> s \<notin> set seen \<Longrightarrow> unique_from seen ts = ts"
proof (induction ts arbitrary: seen)
  case (Cons a ts)
  have "unique_from (a # seen) ts = ts" by (rule Cons.IH) (use Cons.prems in auto)
  then show ?case using Cons.prems by (simp add: Let_def)
qed simp

lemma stack_words:
  "\<forall>s\<in>set [''node'', ''python'', ''go'', ''rust'', ''android'', ''kotlin'']. trim_space s = s \<and> s \<noteq> []"
  by code_simp

lemma stack_root_words: "set (stack_root w D) \<subseteq> set [''node'', ''python'', ''go'', ''rust'', ''android'', ''kotlin'']"
  by (auto simp: stack_root_def stack_below_def)

lemma stack_distinct: "distinct (stack_root w D)"
  by (simp add: stack_root_def stack_below_def)

lemma unique_words:
  assumes "ts \<noteq> []" and "distinct ts" and "set ts \<subseteq> set [''node'', ''python'', ''go'', ''rust'', ''android'', ''kotlin'']"
  shows "uniqueStrings ts = ts"
proof -
  have "trim_space s = s \<and> s \<noteq> [] \<and> s \<notin> set []" if "s \<in> set ts" for s
    using bspec[OF stack_words subsetD[OF assms(3) that]] by simp
  then have "unique_from [] ts = ts" by (intro unique_from_plain assms(2) ballI)
  then show ?thesis using assms(1) by (simp add: uniqueStrings_def Let_def)
qed

lemma unique_stack:
  "stack_root w D \<noteq> [] \<Longrightarrow> uniqueStrings (stack_root w D) = stack_root w D"
  "stack_below w D \<noteq> [] \<Longrightarrow> uniqueStrings (stack_below w D) = stack_below w D"
proof -
  show "stack_root w D \<noteq> [] \<Longrightarrow> uniqueStrings (stack_root w D) = stack_root w D"
    using unique_words stack_distinct stack_root_words by metis
  have b: "distinct (stack_below w D)" using stack_distinct[of w D] unfolding stack_root_def distinct_append by blast
  have c: "set (stack_below w D) \<subseteq> set [''node'', ''python'', ''go'', ''rust'', ''android'', ''kotlin'']"
    using stack_root_words[of w D] unfolding stack_root_def set_append by blast
  show "stack_below w D \<noteq> [] \<Longrightarrow> uniqueStrings (stack_below w D) = stack_below w D"
    using unique_words b c by metis
qed

lemma root_name_stack: "root_name (stack_root w D) = name_of_root (stack_root w D)"
  by (simp add: stack_root_def stack_below_def root_name_def name_of_root_def)

lemma service_of_fields: "sx_path (service_of p a) = p" "sx_techStack (service_of p a) = uniqueStrings (fst a)"
  by (simp_all add: service_of_def split: prod.split)

definition own_service :: "world \<Rightarrow> path \<Rightarrow> string \<Rightarrow> bool" where
  "own_service w d e \<longleftrightarrow> (e, True) \<in> set (list_dir w d) \<and> \<not> has_prefix ''.'' e \<and> stack_below w (d @ [e]) \<noteq> []"

definition root_named :: "world \<Rightarrow> path \<Rightarrow> string \<Rightarrow> bool" where
  "root_named w d e \<longleftrightarrow> stack_root w d \<noteq> [] \<and> e = name_of_root (stack_root w d)"

text \<open>C32: The index always names a service, each under a name of its own.  A root with a manifest
  is the service of the whole tree, at \<open>.\<close>, with exactly the technologies its files name; every
  directory below it with a manifest and no leading dot is found under its own name, at its own
  path, with exactly the technologies its files name, unless the root's service took that name; and
  nothing else is in the index but the unknown service of a tree in which nothing is found.  A manifest
  is a \<open>package.json\<close> that decodes to an object, a \<open>go.mod\<close>, a \<open>Cargo.toml\<close>, a \<open>pyproject.toml\<close>
  only when it configures ruff, black or pytest, and Gradle's files only at the root (or its \<open>app\<close>):
  a Python project without these sections and a Gradle project below the root are not found.\<close>

theorem services_complete:
  "inferServices w d \<noteq> [] \<and> distinct (map fst (inferServices w d)) \<and>
   (\<forall>n. root_named w d n \<longrightarrow>
      (\<exists>v. map_of (inferServices w d) n = Some v \<and> sx_path v = ''.'' \<and> sx_techStack v = stack_root w d)) \<and>
   (\<forall>n. own_service w d n \<and> \<not> root_named w d n \<longrightarrow>
      (\<exists>v. map_of (inferServices w d) n = Some v \<and> sx_path v = n \<and> sx_techStack v = stack_below w (d @ [n]))) \<and>
   (\<forall>n v. map_of (inferServices w d) n = Some v \<and> \<not> root_named w d n \<and> \<not> own_service w d n \<longrightarrow>
      inferServices w d = [(''app'', \<lparr>sx_path = ''.'', sx_techStack = [''unknown''], sx_devCommand = [], sx_testCommand = []\<rparr>)])"
proof -
  let ?l = "add_services w d (list_dir w d) (root_services w d)"
  have roots: "root_services w d = (if stack_root w d = [] then []
      else [(name_of_root (stack_root w d), service_of ''.'' (root_acc w d))])"
    by (simp add: root_services_def Let_def root_acc_stack root_name_stack)
  have "services_ok (root_services w d)" unfolding roots by (auto simp: services_ok_def)
  then have "services_ok ?l" by (rule add_services_ok)
  then have ok: "distinct (map fst ?l)" unfolding services_ok_def by (rule conjunct1)
  have root: "map_of ?l n = Some (service_of ''.'' (root_acc w d))" if "root_named w d n" for n
    by (rule add_services_keeps, unfold roots) (use that in \<open>simp add: root_named_def\<close>)
  have sub: "map_of ?l n = Some (service_of n (sub_acc w (d @ [n])))" if "own_service w d n" and "\<not> root_named w d n" for n
  proof -
    have "map_of (root_services w d) n = None" using that(2) by (auto simp: roots root_named_def)
    then show ?thesis
      using add_services_finds[of n "list_dir w d" w d "root_services w d"] that(1)
      by (auto simp: own_service_def sub_acc_stack)
  qed
  have only: "root_named w d n \<or> own_service w d n" if "map_of ?l n = Some v" for n v
    using add_services_only[OF that] by (auto simp: roots root_named_def own_service_def sub_acc_stack split: if_splits)
  have stack: "sx_techStack (service_of ''.'' (root_acc w d)) = stack_root w d" if "root_named w d n" for n
    using that by (simp add: root_named_def service_of_fields root_acc_stack unique_stack)
  have below: "sx_techStack (service_of n (sub_acc w (d @ [n]))) = stack_below w (d @ [n])" if "own_service w d n" for n
    using that by (simp add: own_service_def service_of_fields sub_acc_stack unique_stack)
  show ?thesis
  proof (cases "?l = []")
    case True
    then have i: "inferServices w d = [(''app'', unknown_service)]" by (simp add: inferServices_cases)
    have "\<not> root_named w d n" "\<not> own_service w d n" for n using root[of n] sub[of n] True by auto
    then show ?thesis by (simp add: i unknown_service_def)
  next
    case False
    then have i: "inferServices w d = ?l" by (simp add: inferServices_cases Let_def)
    have "\<exists>v. map_of ?l n = Some v \<and> sx_path v = ''.'' \<and> sx_techStack v = stack_root w d" if "root_named w d n" for n
      using root[OF that] stack[OF that] by (simp add: service_of_fields(1))
    moreover have "\<exists>v. map_of ?l n = Some v \<and> sx_path v = n \<and> sx_techStack v = stack_below w (d @ [n])"
      if "own_service w d n \<and> \<not> root_named w d n" for n
      using sub[of n] below[of n] that by (simp add: service_of_fields(1))
    ultimately show ?thesis unfolding i using False ok only by blast
  qed
qed

definition demo_clone :: world where
  "demo_clone = demo_box\<lparr>fs := [([''repo''], Dir), ([''repo'', ''go.mod''], File (DText ''module m'')), ([''repo'', ''web''], Dir),
     ([''repo'', ''web'', ''Cargo.toml''], File (DText ''[package]'')),
     ([''repo'', ''web'', ''pyproject.toml''], File (DText ''[tool.ruff]'')), ([''repo'', ''docs''], Dir)]\<rparr>"

lemma demo_clone_stacks:
  "stack_root demo_clone [''repo''] = [''go'']" "stack_below demo_clone [''repo'', ''web''] = [''python'', ''rust'']"
  by (simp_all flip: root_acc_stack sub_acc_stack) code_simp+

lemma services_complete_witness:
  "\<exists>v. map_of (inferServices demo_clone [''repo'']) ''web'' = Some v \<and> sx_path v = ''web'' \<and> sx_techStack v = [''python'', ''rust'']"
proof -
  have "(''web'', True) \<in> set (list_dir demo_clone [''repo''])" "\<not> has_prefix ''.'' ''web''" by code_simp+
  then have "own_service demo_clone [''repo''] ''web''" "\<not> root_named demo_clone [''repo''] ''web''"
    by (simp_all add: own_service_def root_named_def demo_clone_stacks name_of_root_def)
  then obtain v where "map_of (inferServices demo_clone [''repo'']) ''web'' = Some v" "sx_path v = ''web''"
    "sx_techStack v = stack_below demo_clone ([''repo''] @ [''web''])"
    using services_complete[of demo_clone "[''repo'']"] by blast
  then show ?thesis by (intro exI[of _ v]) (simp add: demo_clone_stacks)
qed

section \<open>The competitor analysis\<close>

lemma other_fields [simp]:
  "clone_fields (c\<lparr>rc_competitorAnalysis := v\<rparr>) = clone_fields c" "store_fields (c\<lparr>rc_competitorAnalysis := v\<rparr>) = store_fields c"
  by (simp_all add: clone_fields_def store_fields_def)

lemma context_other_keys:
  "k \<noteq> ''competitorAnalysis'' \<Longrightarrow>
     map_of (context_json (c\<lparr>rc_competitorAnalysis := v\<rparr>)) k = map_of (context_json (c\<lparr>rc_competitorAnalysis := None\<rparr>)) k"
  by (cases v) (simp_all add: context_json_def map_add_def split: option.split)

text \<open>The competitor analysis is written into the pack and read by no prompt: whatever analysis
  the control plane puts into a job's context, the prompts of every action are those of the context
  without one.\<close>

theorem competitor_analysis_unread:
  assumes "context_json (c\<lparr>rc_competitorAnalysis := None\<rparr>) \<noteq> []"
  shows "promptsFor x w (r\<lparr>ri_context := context_json (c\<lparr>rc_competitorAnalysis := Some a\<rparr>)\<rparr>) =
     promptsFor x w (r\<lparr>ri_context := context_json (c\<lparr>rc_competitorAnalysis := None\<rparr>)\<rparr>)"
  by (rule prompts_cong[OF _ assms context_other_keys]) (simp_all add: context_json_def)

lemma competitor_analysis_unread_witness:
  "promptsFor demo_rx demo_box ((input_of demo_box [])\<lparr>ri_context := context_json (zero_context\<lparr>rc_cursorMd := ''x'',
       rc_competitorAnalysis := Some zero_analysis\<rparr>)\<rparr>) =
   promptsFor demo_rx demo_box ((input_of demo_box [])\<lparr>ri_context := context_json (zero_context\<lparr>rc_cursorMd := ''x'',
       rc_competitorAnalysis := None\<rparr>)\<rparr>)"
  by (rule competitor_analysis_unread) (simp add: context_json_def clone_fields_def text_or_none_def)

section \<open>The input file\<close>

lemma no_clone_note_ne: "no_clone_note ownerRepo connector \<noteq> []"
  by (simp add: no_clone_note_def)

text \<open>Filling the pack leaves the note about the clone alone.\<close>

lemma fill_keeps_note:
  "rc_cloneHonestyNote (fst (run_state (fillDiscoveryContext pid c) w)) = rc_cloneHonestyNote c"
  "rc_cloneHonestyNote (fst (run_state (fillFeaturesContext pid c) w)) = rc_cloneHonestyNote c"
  "rc_cloneHonestyNote (fst (run_state (fillIdeationContext pid ty c) w)) = rc_cloneHonestyNote c"
  by (auto simp: fillDiscoveryContext_def fillFeaturesContext_def fillIdeationContext_def with_analysis_def
      features_context_def run Let_def split: prod.split sum.split)

lemma clone_context_note [simp]: "rc_cloneHonestyNote (clone_context w d c) = rc_cloneHonestyNote c"
  by (simp add: clone_context_def)

lemma context_note: "(rc_cloneHonestyNote (fst (run_state (buildRunnerContext j repo mounted) w)) = []) = mounted"
  by (auto simp: buildRunnerContext_def run Let_def fill_keeps_note no_clone_note_ne zero_context_def
      split: prod.split sum.split option.split)

text \<open>The keys the project and the spec add.\<close>

lemma project_fields_keys:
  "fst ` set (fst (run_state (project_fields j) w)) \<subseteq> {''ownerRepo'', ''defaultBranch'', ''projectName''}"
  by (auto simp: project_fields_def run split: prod.split sum.split)

lemma spec_fields_keys:
  "fst ` set (fst (run_state (spec_fields j) w)) \<subseteq> {''taskTitle'', ''taskDescription'', ''specExcerpt'', ''planJson''}"
  by (auto simp: spec_fields_def run split: prod.splits sum.splits)

lemma map_of_absent: "fst ` set l \<subseteq> K \<Longrightarrow> k \<notin> K \<Longrightarrow> map_of l k = None"
  by (auto simp: map_of_eq_None_iff)

text \<open>Each field of the input, as the runner reads it.\<close>

lemma input_fields:
  assumes "run_state (runner_input_fields j mounted repo) w = (kvs, w')"
  obtains pf sf c where "kvs = [(''action'', JStr (j_action j)), (''runId'', JStr (j_runId j)), (''specId'', JStr (j_specId j)),
         (''projectId'', JStr (j_projectId j))] @
        (if mounted then [(''repoDir'', JStr containerRepoPath)] else []) @ pf @
        text_or_none ''ideationType'' (j_ideationType j) @ strings_or_none ''competitors'' (j_competitors j) @
        text_or_none ''audienceNotes'' (trim_space (j_audienceNotes j)) @ sf @
        [(''context'', JObj (context_json c))] @ flat_fields c"
    and "fst ` set pf \<subseteq> {''ownerRepo'', ''defaultBranch'', ''projectName''}"
    and "fst ` set sf \<subseteq> {''taskTitle'', ''taskDescription'', ''specExcerpt'', ''planJson''}"
    and "(rc_cloneHonestyNote c = []) = mounted"
proof -
  obtain pf w1 where p: "run_state (project_fields j) w = (pf, w1)" by fastforce
  obtain sf w2 where s: "run_state (spec_fields j) w1 = (sf, w2)" by fastforce
  obtain c w3 where c: "run_state (buildRunnerContext j repo mounted) w2 = (c, w3)" by fastforce
  show ?thesis
  proof (rule that[of pf sf c])
    show "(rc_cloneHonestyNote c = []) = mounted" using context_note[of j repo mounted w2] c by simp
    show "fst ` set pf \<subseteq> {''ownerRepo'', ''defaultBranch'', ''projectName''}" using project_fields_keys[of j w] p by simp
    show "fst ` set sf \<subseteq> {''taskTitle'', ''taskDescription'', ''specExcerpt'', ''planJson''}" using spec_fields_keys[of j w1] s by simp
  qed (use assms p s c in \<open>simp add: runner_input_fields_def run\<close>)
qed

text \<open>What the runner has of a job.\<close>

definition carries :: "job \<Rightarrow> bool \<Rightarrow> runner_input \<Rightarrow> bool" where
  "carries j mounted r \<longleftrightarrow> ri_action r = j_action j \<and> ri_runId r = j_runId j \<and> ri_specId r = j_specId j \<and>
     ri_projectId r = j_projectId j \<and> ri_ideationType r = j_ideationType j \<and> ri_competitors r = j_competitors j \<and>
     ri_audienceNotes r = trim_space (j_audienceNotes j) \<and> ri_repoDir r = (if mounted then ''/repo'' else []) \<and>
     (ri_cloneHonestyNote r = []) = mounted"

lemma map_of_optional:
  "map_of (text_or_none k s) k' = (if k' = k \<and> s \<noteq> [] then Some (JStr s) else None)"
  "map_of (strings_or_none k l) k' = (if k' = k \<and> l \<noteq> [] then Some (JArr (map JStr l)) else None)"
  by (simp_all add: text_or_none_def strings_or_none_def)

lemma flat_note:
  "map_of (flat_fields c) ''cloneHonestyNote'' =
     (if rc_cloneHonestyNote c = [] then None else Some (JStr (rc_cloneHonestyNote c)))"
  by (simp add: flat_fields_def map_add_def map_of_optional split: option.split)

lemma flat_other:
  "k \<notin> {''existingIdeaTitles'', ''taskTitles'', ''cloneHonestyNote''} \<Longrightarrow> map_of (flat_fields c) k = None"
  by (simp add: flat_fields_def map_add_def map_of_optional split: option.split)

lemma input_carries:
  assumes "run_state (runner_input_fields j mounted repo) w = (kvs, w')"
    and "getenv wc ''OPM_REPO_DIR'' = (if mounted then ''/repo'' else [])"
    and same: "\<And>k. k \<noteq> ''context'' \<Longrightarrow> map_of kvs' k = map_of kvs k"
  shows "carries j mounted (input_of wc kvs')"
proof -
  obtain pf sf c where k: "kvs = [(''action'', JStr (j_action j)), (''runId'', JStr (j_runId j)), (''specId'', JStr (j_specId j)),
         (''projectId'', JStr (j_projectId j))] @
        (if mounted then [(''repoDir'', JStr containerRepoPath)] else []) @ pf @
        text_or_none ''ideationType'' (j_ideationType j) @ strings_or_none ''competitors'' (j_competitors j) @
        text_or_none ''audienceNotes'' (trim_space (j_audienceNotes j)) @ sf @
        [(''context'', JObj (context_json c))] @ flat_fields c"
    and pf: "fst ` set pf \<subseteq> {''ownerRepo'', ''defaultBranch'', ''projectName''}"
    and sf: "fst ` set sf \<subseteq> {''taskTitle'', ''taskDescription'', ''specExcerpt'', ''planJson''}"
    and c: "(rc_cloneHonestyNote c = []) = mounted"
    by (rule input_fields[OF assms(1)])
  note at = same k map_add_def map_of_optional map_of_absent[OF pf] map_of_absent[OF sf]
  have m: "map_of kvs' ''action'' = Some (JStr (j_action j))" "map_of kvs' ''runId'' = Some (JStr (j_runId j))"
    "map_of kvs' ''specId'' = Some (JStr (j_specId j))" "map_of kvs' ''projectId'' = Some (JStr (j_projectId j))"
    by (simp_all add: same k)
  have r: "map_of kvs' ''repoDir'' = (if mounted then Some (JStr ''/repo'') else None)"
    by (simp add: at flat_other containerRepoPath_def split: option.split)
  have t: "map_of kvs' ''ideationType'' = (if j_ideationType j \<noteq> [] then Some (JStr (j_ideationType j)) else None)"
    by (simp add: at flat_other split: option.split)
  have cs: "map_of kvs' ''competitors'' = (if j_competitors j \<noteq> [] then Some (JArr (map JStr (j_competitors j))) else None)"
    by (simp add: at flat_other split: option.split)
  have n: "map_of kvs' ''audienceNotes'' =
     (if trim_space (j_audienceNotes j) \<noteq> [] then Some (JStr (trim_space (j_audienceNotes j))) else None)"
    by (simp add: at flat_other split: option.split)
  have h: "map_of kvs' ''cloneHonestyNote'' =
     (if rc_cloneHonestyNote c = [] then None else Some (JStr (rc_cloneHonestyNote c)))"
    by (simp add: at flat_note split: option.split)
  have "trim_space ''/repo'' = ''/repo''" by code_simp
  then have e: "envOr wc ''OPM_REPO_DIR'' [] = (if mounted then ''/repo'' else [])"
    using assms(2) by (simp add: envOr_def Let_def)
  have "ri_action (input_of wc kvs') = j_action j" "ri_runId (input_of wc kvs') = j_runId j"
    "ri_specId (input_of wc kvs') = j_specId j" "ri_projectId (input_of wc kvs') = j_projectId j"
    by (simp_all add: input_of_def Let_def soft_string_def m)
  moreover have "ri_ideationType (input_of wc kvs') = j_ideationType j" by (simp add: input_of_def Let_def soft_string_def t)
  moreover have "ri_competitors (input_of wc kvs') = j_competitors j"
    by (simp add: input_of_def Let_def soft_strings_def cs comp_def)
  moreover have "ri_audienceNotes (input_of wc kvs') = trim_space (j_audienceNotes j)"
    by (simp add: input_of_def Let_def soft_string_def n)
  moreover have "ri_repoDir (input_of wc kvs') = (if mounted then ''/repo'' else [])"
    by (simp add: input_of_def Let_def soft_string_def r e)
  moreover have "ri_cloneHonestyNote (input_of wc kvs') = rc_cloneHonestyNote c"
    by (simp add: input_of_def Let_def soft_string_def h)
  ultimately show ?thesis using c by (simp add: carries_def)
qed

lemma snd_os_read [simp]: "snd (run_state (os_read p) w) = w"
  by (simp add: os_read_def run)

text \<open>The input file, once written, reads back.\<close>

lemma file_text_written:
  assumes "run_state (os_write p t) w = (Inr (), w')"
  shows "file_text w' p = Some t \<and> marshal w' = marshal w"
proof -
  have f: "run_state (write_file (deref w p) (DText t)) w = (Inr (), w')" using assms by (simp add: os_write_def run)
  then have w': "w' = put_node (deref w p) (File (DText t)) w" "look w (deref w p) \<noteq> Some Dir"
    by (auto simp: write_file_def split: if_splits)
  have "deref w p \<noteq> []" using w'(2) by (auto simp: look_def)
  moreover have "deref_step w' = deref_step w" by (intro ext) (simp add: w'(1) deref_step_def put_node_def)
  then have "deref w' p = deref w p" by (simp add: deref_def)
  ultimately show ?thesis
    by (simp add: file_text_def os_read_def read_text_def run look_put_node w'(1) doc_text_def)
qed

text \<open>C11: The job reaches its runner: when the control plane wrote the input file, the container
  sees that file and the clone at \<open>/repo\<close> (or none), and decoding the file gives back the fields
  that were encoded (their order and the context aside), the runner reads the job's action, ids,
  ideation type, competitors, audience notes and repository directory, and it has a note about the
  missing clone exactly when none was mounted.\<close>

theorem job_reaches_runner:
  assumes wrote: "run_state (writeRunnerInputJSON j p mounted repo) w = (Inr (), w')"
    and same: "file_text wc (path_join [] [envOr wc ''OPM_IN_FILE'' ''/in/input.json'']) = file_text w' p"
    and json: "rx_json x (marshal w' (DMap (fst (run_state (runner_input_fields j mounted repo) w)))) = Some (JObj kvs)"
    and fields: "\<And>k. k \<noteq> ''context'' \<Longrightarrow>
      map_of kvs k = map_of (fst (run_state (runner_input_fields j mounted repo) w)) k"
    and env: "getenv wc ''OPM_REPO_DIR'' = (if mounted then ''/repo'' else [])"
  shows "carries j mounted (fst (run_state (loadInput x) wc))"
proof -
  obtain kvs0 w1 where f: "run_state (runner_input_fields j mounted repo) w = (kvs0, w1)" by fastforce
  obtain w2 where "run_state (os_write p (marshal w2 (DMap kvs0))) w2 = (Inr (), w')"
    using wrote f by (auto simp: writeRunnerInputJSON_def write_json_file_def run split: prod.splits sum.splits)
  then have t: "file_text w' p = Some (marshal w' (DMap kvs0))" using file_text_written by metis
  have "fst (run_state (loadInput x) wc) = input_of wc kvs"
    using same t json f
    by (simp add: loadInput_def run file_text_def json_object_def case_prod_beta split: sum.splits)
  then show ?thesis using input_carries[OF f env] fields f by simp
qed

definition rivals_job :: job where
  "rivals_job = (demo_job ''run-roadmap-competitor'')\<lparr>j_specId := [], j_competitors := [''acme'', ''umbrella''], j_audienceNotes := '' teams ''\<rparr>"

lemma job_reaches_runner_witness:
  "carries rivals_job False (fst (run_state (loadInput (demo_rx\<lparr>rx_json := (\<lambda>_. Some (JObj
      (fst (run_state (runner_input_fields rivals_job False None) demo_box))))\<rparr>))
     (snd (run_state (writeRunnerInputJSON rivals_job [''in'', ''input.json''] False None) demo_box))))"
  (is "carries _ _ (fst (run_state (loadInput ?x) ?w'))")
proof (rule job_reaches_runner)
  have "fst (run_state (writeRunnerInputJSON rivals_job [''in'', ''input.json''] False None) demo_box) = Inr ()" by code_simp
  then show "run_state (writeRunnerInputJSON rivals_job [''in'', ''input.json''] False None) demo_box = (Inr (), ?w')"
    by (metis prod.collapse)
  have "path_join [] [envOr ?w' ''OPM_IN_FILE'' ''/in/input.json''] = [''in'', ''input.json'']" by code_simp
  then show "file_text ?w' (path_join [] [envOr ?w' ''OPM_IN_FILE'' ''/in/input.json'']) = file_text ?w' [''in'', ''input.json'']"
    by simp
  show "getenv ?w' ''OPM_REPO_DIR'' = (if False then ''/repo'' else [])" by code_simp
qed simp_all

end
