(* ===== verification/Daemon.thy ===== *)
theory Daemon
  imports Container
begin

text \<open>
  The container daemon (\<open>job_docker.go\<close>, \<open>job_net.go\<close>, \<open>job_proxy.go\<close>, \<open>orchestrator_probe.go\<close>
  and the choices of \<open>spawn_container.go\<close> and \<open>model_result.go\<close> that rest on it): whether a runner
  can be spawned, the sealed network of a job and the egress proxy in front of it.  Docker is the
  command line of \<open>externals\<close>, a timeout being one of its errors; the orchestration library is the
  record \<open>egress_lib\<close>.
\<close>

section \<open>Docker\<close>

definition truncateStr :: "string \<Rightarrow> nat \<Rightarrow> string" where
  "truncateStr s n = (if length s \<le> n then s else take n s)"

definition opmInstanceID :: "world \<Rightarrow> string" where
  "opmInstanceID w = envOr w ''OPM_INSTANCE'' ''default''"

definition dockerCmd :: "externals \<Rightarrow> string list \<Rightarrow> (string \<times> err option) act" where
  "dockerCmd x args = x_docker x args"

definition dockerRmForce :: "externals \<Rightarrow> string \<Rightarrow> err option act" where
  "dockerRmForce x name = do {
     (out, e) \<leftarrow> dockerCmd x [''rm'', ''-fv'', name];
     State_Monad.return e }"

text \<open>The error of \<open>exec.LookPath\<close>.\<close>

definition no_docker :: err where
  "no_docker = Errf (''exec: '' @ quote ''docker'' @ '': executable file not found in $PATH'')"

definition requireDockerCLI :: "externals \<Rightarrow> unit actE" where
  "requireDockerCLI x =
     (if \<not> x_docker_cli x then throwE no_docker
      else do {
        (out, e) \<leftarrow> dockerCmd x [''version'', ''--format'', ''{{.Server.Version}}''];
        case e of
          Some er \<Rightarrow> throwE (Errf (''docker daemon unreachable: '' @ err_text er @ '' ('' @ truncateStr out 120 @ '')''))
        | None \<Rightarrow> okE () })"

section \<open>The egress proxy\<close>

record egress_config =
  eg_containerName :: string
  eg_networkName :: string
  eg_image :: string
  eg_allowlist :: "string list"
  eg_ownerLabel :: string
  eg_instanceLabel :: string
  eg_roleLabelKey :: string
  eg_stackNetworks :: "string list"
  eg_alias :: string
  eg_port :: int

text \<open>What the orchestration library is handed to reach docker with.\<close>

record egress_docker =
  ed_cmd :: "string list \<Rightarrow> (string \<times> err option) act"
  ed_rm :: "string \<Rightarrow> err option act"

text \<open>In order: \<open>ParseAllowlist\<close>, \<open>ProxyEnvVars\<close>, \<open>EnsureShared\<close>, \<open>AttachToNetwork\<close> and
  \<open>DetachFromNetwork\<close> of the library, \<open>openjob.RunnerImage\<close>, and whether the variable
  \<open>OPA_JOB_EGRESS_STACK_NETWORKS\<close> is set (the environment of a world does not tell an empty
  variable from an absent one).\<close>

record egress_lib =
  el_allowlist :: "string \<Rightarrow> string list"
  el_env :: "string \<Rightarrow> int \<Rightarrow> (string \<times> string) list"
  el_ensure :: "egress_docker \<Rightarrow> egress_config \<Rightarrow> string actE"
  el_attach :: "egress_docker \<Rightarrow> egress_config \<Rightarrow> string \<Rightarrow> unit actE"
  el_detach :: "egress_docker \<Rightarrow> egress_config \<Rightarrow> string \<Rightarrow> unit act"
  el_image :: "string \<Rightarrow> string \<Rightarrow> string \<Rightarrow> string"
  el_stackSet :: bool

definition egressProxyPort :: int where "egressProxyPort = 3128"
definition egressProxyAlias :: string where "egressProxyAlias = ''open-egress-proxy''"

definition defaultAIAllowHosts :: "string list" where
  "defaultAIAllowHosts = [''api.cursor.sh'', ''api2.cursor.sh'', ''api3.cursor.sh'', ''api4.cursor.sh'', ''api5.cursor.sh'']"

definition egressProxyEnabled :: "world \<Rightarrow> bool" where
  "egressProxyEnabled w \<longleftrightarrow>
     to_lower (trim_space (getenv w ''OPM_JOB_EGRESS_PROXY'')) \<notin> set [''0'', ''off'', ''false'', ''no'']"

definition parseEgressAllowlist :: "egress_lib \<Rightarrow> string \<Rightarrow> string list" where
  "parseEgressAllowlist g raw = el_allowlist g raw"

definition aiEgressAllowlist :: "egress_lib \<Rightarrow> world \<Rightarrow> string list" where
  "aiEgressAllowlist g w = (let v = trim_space (getenv w ''OPA_JOB_EGRESS_ALLOWLIST'') in
     if v \<noteq> [] then parseEgressAllowlist g v else defaultAIAllowHosts)"

definition egressProxyImage :: "world \<Rightarrow> string" where
  "egressProxyImage w = (let v = trim_space (getenv w ''OPA_JOB_EGRESS_PROXY_IMAGE'') in
     if v \<noteq> [] then v
     else let t = nz (trim_space (getenv w ''OPM_RUNNER_TAG'')) ''nas'' in
       ''open-egress-proxy:'' @ (if t = ''smoke'' then ''nas'' else t))"

definition egressProxyContainerName :: "world \<Rightarrow> string" where
  "egressProxyContainerName w = ''opm-egress-proxy-'' @ opmInstanceID w"

definition egressNetworkName :: "world \<Rightarrow> string" where
  "egressNetworkName w = ''opm-egress-'' @ opmInstanceID w"

definition egressStackNetworks :: "egress_lib \<Rightarrow> world \<Rightarrow> string list" where
  "egressStackNetworks g w =
     (if el_stackSet g then parseEgressAllowlist g (getenv w ''OPA_JOB_EGRESS_STACK_NETWORKS'')
      else [''opa-stack_opa_internal'', ''opa_network''])"

definition opmEgressDocker :: "externals \<Rightarrow> egress_docker" where
  "opmEgressDocker x = \<lparr>ed_cmd = dockerCmd x, ed_rm = dockerRmForce x\<rparr>"

definition egressOrchestrateConfig :: "egress_lib \<Rightarrow> world \<Rightarrow> egress_config" where
  "egressOrchestrateConfig g w = \<lparr>
     eg_containerName = egressProxyContainerName w, eg_networkName = egressNetworkName w,
     eg_image = egressProxyImage w, eg_allowlist = aiEgressAllowlist g w,
     eg_ownerLabel = ''opm.owner=opm-api'', eg_instanceLabel = ''opm.instance='' @ opmInstanceID w,
     eg_roleLabelKey = ''opm.role'', eg_stackNetworks = egressStackNetworks g w,
     eg_alias = egressProxyAlias, eg_port = egressProxyPort \<rparr>"

definition egressProxyEnvVars :: "egress_lib \<Rightarrow> (string \<times> string) list" where
  "egressProxyEnvVars g = el_env g egressProxyAlias egressProxyPort"

definition ensureSharedEgressProxy :: "egress_lib \<Rightarrow> externals \<Rightarrow> string actE" where
  "ensureSharedEgressProxy g x = do {
     on \<leftarrow> asks egressProxyEnabled;
     if \<not> on then throwE (Errf ''egress proxy disabled'')
     else bindE (requireDockerCLI x) (\<lambda>_. do {
       cfg \<leftarrow> asks (egressOrchestrateConfig g);
       el_ensure g (opmEgressDocker x) cfg }) }"

definition attachEgressProxyToJobNetwork :: "egress_lib \<Rightarrow> externals \<Rightarrow> string \<Rightarrow> unit actE" where
  "attachEgressProxyToJobNetwork g x jobNet = bindE (requireDockerCLI x) (\<lambda>_. do {
     cfg \<leftarrow> asks (egressOrchestrateConfig g);
     el_attach g (opmEgressDocker x) cfg jobNet })"

definition detachEgressProxyFromNetwork :: "egress_lib \<Rightarrow> externals \<Rightarrow> string \<Rightarrow> unit act" where
  "detachEgressProxyFromNetwork g x jobNet = do {
     cfg \<leftarrow> asks (egressOrchestrateConfig g);
     el_detach g (opmEgressDocker x) cfg jobNet }"

section \<open>The network of a job\<close>

definition jobNetworkName :: "string \<Rightarrow> string" where
  "jobNetworkName jobID = ''opm-job-'' @ sanitizeDockerName jobID"

definition createJobInternalNetwork :: "externals \<Rightarrow> string \<Rightarrow> string actE" where
  "createJobInternalNetwork x jobID = bindE (requireDockerCLI x) (\<lambda>_. do {
     let name = jobNetworkName jobID;
     (out, e) \<leftarrow> dockerCmd x [''network'', ''create'', ''--internal'', name];
     case e of
       Some er \<Rightarrow>
         if contains ''already'' (to_lower (out @ err_text er)) then okE name
         else throwE (Errf (''network create: '' @ err_text er @ '' ('' @ truncateStr out 160 @ '')''))
     | None \<Rightarrow> okE name })"

text \<open>The error it returns is always nil.\<close>

definition removeJobInternalNetwork :: "egress_lib \<Rightarrow> externals \<Rightarrow> string \<Rightarrow> unit act" where
  "removeJobInternalNetwork g x jobID = do {
     r \<leftarrow> requireDockerCLI x;
     case r of
       Inl _ \<Rightarrow> State_Monad.return ()
     | Inr _ \<Rightarrow> do {
         let name = jobNetworkName jobID;
         _ \<leftarrow> detachEgressProxyFromNetwork g x name;
         _ \<leftarrow> dockerCmd x [''network'', ''rm'', name];
         State_Monad.return () } }"

definition prepareAIJobNetwork :: "egress_lib \<Rightarrow> externals \<Rightarrow> string \<Rightarrow> string actE" where
  "prepareAIJobNetwork g x jobID = bindE (createJobInternalNetwork x jobID) (\<lambda>netName. do {
     on \<leftarrow> asks egressProxyEnabled;
     if \<not> on then okE netName
     else do {
       r \<leftarrow> attachEgressProxyToJobNetwork g x netName;
       case r of
         Inl e \<Rightarrow> do { _ \<leftarrow> removeJobInternalNetwork g x jobID; throwE e }
       | Inr _ \<Rightarrow> okE netName } })"

section \<open>The models\<close>

definition modelAPIKeyPresent :: "world \<Rightarrow> bool" where
  "modelAPIKeyPresent w \<longleftrightarrow> oamConfigured w"

definition modelConfigHonesty :: "world \<Rightarrow> string" where
  "modelConfigHonesty w =
     (if oamConfigured w
      then ''models and API keys resolve per job from OAM (PEER_OAM_URL), scoped to the acting user's org '' @
        ''and their per-agent binding; a job whose org has no credential fails closed with credential_unavailable. '' @
        ''Host OPM_MODEL*/CURSOR_API_KEY are not used as credentials.''
      else ''PEER_OAM_URL unset '' @ em_dash @ '' model-backed jobs are refused until OAM is configured. '' @
        ''Legacy deployment-wide OPM_MODEL*/CURSOR_API_KEY credentials have been removed.'')"

section \<open>Whether a runner can be spawned\<close>

definition runnerImageTag :: "world \<Rightarrow> string" where
  "runnerImageTag w = (let t = envOr w ''OPM_RUNNER_TAG'' ''nas'' in
     if t = ''smoke'' \<or> has_suffix ''-smoke'' t \<or> contains '':smoke'' t then ''nas'' else t)"

definition runnerImageName :: "egress_lib \<Rightarrow> world \<Rightarrow> string" where
  "runnerImageName g w = el_image g ''opm'' ''task'' (runnerImageTag w)"

record spawn_probe =
  sp_runnerImage :: string
  sp_dockerCLI :: bool
  sp_dockerDaemon :: bool
  sp_runnerImagePresent :: bool
  sp_spawnReady :: bool
  sp_modelConfigured :: bool
  sp_honesty :: string
  sp_modelHonesty :: string

definition probe_start :: "egress_lib \<Rightarrow> world \<Rightarrow> spawn_probe" where
  "probe_start g w = \<lparr> sp_runnerImage = runnerImageName g w, sp_dockerCLI = False, sp_dockerDaemon = False,
     sp_runnerImagePresent = False, sp_spawnReady = False, sp_modelConfigured = modelAPIKeyPresent w,
     sp_honesty = ''Container spawn unavailable. Jobs use the builtin in-process executor (OPM_FORCE_BUILTIN or missing docker).'',
     sp_modelHonesty = modelConfigHonesty w \<rparr>"

definition probe_ready :: "spawn_probe \<Rightarrow> world \<Rightarrow> spawn_probe" where
  "probe_ready p w = p\<lparr> sp_runnerImagePresent := True, sp_spawnReady := True, sp_modelConfigured := modelAPIKeyPresent w,
     sp_modelHonesty := modelConfigHonesty w,
     sp_honesty := ''docker + '' @ sp_runnerImage p @ '' ready. Jobs docker-run the runner when spawnReady; model path resolves '' @
       ''from OAM (PEER_OAM_URL) per job, else jobs fail closed / use builtin artifacts. '' @
       ''Set OPM_FORCE_BUILTIN=1 to skip containers.'' \<rparr>"

definition probeRunnerSpawn :: "egress_lib \<Rightarrow> externals \<Rightarrow> spawn_probe act" where
  "probeRunnerSpawn g x = do {
     p \<leftarrow> asks (probe_start g);
     if \<not> x_docker_cli x
     then State_Monad.return (p\<lparr>sp_honesty := ''docker CLI not found in PATH; container spawn unavailable. '' @
       ''Builtin executor remains the fallback.''\<rparr>)
     else do {
       (_, e) \<leftarrow> x_docker x [''info'', ''--format'', ''{{.ServerVersion}}''];
       if e \<noteq> None
       then State_Monad.return (p\<lparr>sp_dockerCLI := True, sp_honesty := ''docker CLI present but daemon unreachable '' @
         ''(mount docker.sock on opm-api and opm-orchestrator). Builtin executor remains the fallback.''\<rparr>)
       else do {
         (_, e2) \<leftarrow> x_docker x [''image'', ''inspect'', ''--format'', ''{{.Id}}'', sp_runnerImage p];
         if e2 \<noteq> None
         then State_Monad.return (p\<lparr>sp_dockerCLI := True, sp_dockerDaemon := True,
           sp_honesty := ''docker daemon reachable; runner image '' @ sp_runnerImage p @
             '' not present locally. Build/pull *:nas (never smoke) before container spawn.''\<rparr>)
         else asks (probe_ready (p\<lparr>sp_dockerCLI := True, sp_dockerDaemon := True\<rparr>)) } } }"

definition preferContainerSpawn :: "egress_lib \<Rightarrow> externals \<Rightarrow> bool act" where
  "preferContainerSpawn g x = do {
     forced \<leftarrow> asks (\<lambda>w. to_lower (trim_space (getenv w ''OPM_FORCE_BUILTIN'')) \<in> set [''1'', ''true'', ''yes'', ''on'']);
     if forced then State_Monad.return False
     else do { p \<leftarrow> probeRunnerSpawn g x; State_Monad.return (sp_spawnReady p) } }"

end
