(* ===== verification/Peer_Client.thy ===== *)
theory Peer_Client
  imports Oam_Projects
begin

text \<open>
  How OPM reaches its peers (\<open>peer.go\<close>, \<open>job_token_ctx.go\<close>, \<open>job_tokens_client.go\<close>,
  \<open>security_cache.go\<close>): the configuration of a call, the job token that replaces the service's
  own, and the cache of tokens and events.  The libraries \<open>openclient\<close>, \<open>openauth\<close> and \<open>opencache\<close>
  and the HTTP client are the records \<open>peer_lib\<close>, \<open>token_lib\<close> and \<open>cache_lib\<close>.  The context of a
  call is the job token it carries, if any.
\<close>

section \<open>Configuration\<close>

record peer_config =
  pc_baseUrl :: string
  pc_orgId :: string
  pc_userId :: string
  pc_bearer :: string
  pc_scope :: string

text \<open>In order: \<open>PeerFromEnv\<close> of a variable, an issuer, an audience and a scope; \<open>PeerJSON\<close> of a
  method, a path and a body; \<open>PeerClient\<close>, which only answers an error; and its \<open>Do\<close> on a
  POST of a body with headers to a URL.\<close>

record peer_lib =
  pl_env :: "string \<Rightarrow> string \<Rightarrow> string \<Rightarrow> string \<Rightarrow> peer_config act"
  pl_json :: "peer_config \<Rightarrow> string \<Rightarrow> string \<Rightarrow> (string \<times> json) list option \<Rightarrow> (string \<times> json) list actE"
  pl_client :: "peer_config \<Rightarrow> err option"
  pl_do :: "peer_config \<Rightarrow> string \<Rightarrow> (string \<times> string) list \<Rightarrow> (string \<times> json) list \<Rightarrow> ora_response actE"

type_synonym call_ctx = "string option"

definition withJobToken :: "call_ctx \<Rightarrow> string \<Rightarrow> call_ctx" where
  "withJobToken ctx token = (let t = trim_space token in if t = [] then ctx else Some t)"

definition jobTokenFromContext :: "call_ctx \<Rightarrow> string option" where
  "jobTokenFromContext ctx = (case ctx of
       None \<Rightarrow> None
     | Some v \<Rightarrow> let t = trim_space v in if t = [] then None else Some t)"

definition applyJobTokenPeer :: "peer_config \<Rightarrow> call_ctx \<Rightarrow> peer_config" where
  "applyJobTokenPeer cfg ctx = (case jobTokenFromContext ctx of None \<Rightarrow> cfg | Some t \<Rightarrow> cfg\<lparr>pc_bearer := t\<rparr>)"

definition peerORAConfig :: "peer_lib \<Rightarrow> call_ctx \<Rightarrow> string \<Rightarrow> string \<Rightarrow> string \<Rightarrow> peer_config act" where
  "peerORAConfig l ctx orgID userID scope = do {
     cfg \<leftarrow> pl_env l ''PEER_ORA_URL'' ''opm-api'' ''ora-api'' scope;
     State_Monad.return (applyJobTokenPeer (cfg\<lparr>pc_orgId := trim_space orgID, pc_userId := trim_space userID\<rparr>) ctx) }"

definition peerOPAConfig :: "peer_lib \<Rightarrow> string \<Rightarrow> peer_config act" where
  "peerOPAConfig l scope = pl_env l ''PEER_OPA_URL'' ''opm-api'' ''opa-hub'' scope"

definition peerORAConfigured :: "world \<Rightarrow> bool" where
  "peerORAConfigured w \<longleftrightarrow> trim_space (getenv w ''PEER_ORA_URL'') \<noteq> []"

definition peerOPAConfigured :: "world \<Rightarrow> bool" where
  "peerOPAConfigured w \<longleftrightarrow> trim_space (getenv w ''PEER_OPA_URL'') \<noteq> []"

definition peerORAConfigPM :: "peer_lib \<Rightarrow> call_ctx \<Rightarrow> string \<Rightarrow> string \<Rightarrow> peer_config act" where
  "peerORAConfigPM l ctx orgID userID = peerORAConfig l ctx orgID userID ''scm:pm''"

section \<open>Calls\<close>

definition peerListConnectors :: "peer_lib \<Rightarrow> call_ctx \<Rightarrow> string \<Rightarrow> string \<Rightarrow> (string \<times> json) list actE" where
  "peerListConnectors l ctx orgID userID = do {
     cfg \<leftarrow> peerORAConfig l ctx orgID userID ''connectors:read'';
     pl_json l cfg ''GET'' ''/api/connectors'' None }"

definition peerListConnectorRepos :: "peer_lib \<Rightarrow> call_ctx \<Rightarrow> string \<Rightarrow> string \<Rightarrow> string \<Rightarrow> (string \<times> json) list actE" where
  "peerListConnectorRepos l ctx orgID userID connectorID = do {
     cfg \<leftarrow> peerORAConfig l ctx orgID userID ''connectors:read'';
     pl_json l cfg ''GET'' (''/api/connectors/'' @ connectorID @ ''/repos'') None }"

definition peerCloneCredentials ::
  "peer_lib \<Rightarrow> call_ctx \<Rightarrow> string \<Rightarrow> string \<Rightarrow> string \<Rightarrow> string \<Rightarrow> (string \<times> json) list actE" where
  "peerCloneCredentials l ctx orgID userID connectorID ownerRepo = do {
     cfg \<leftarrow> peerORAConfig l ctx orgID userID ''scm:clone'';
     pl_json l cfg ''POST'' ''/api/peer/scm/clone-credentials''
       (Some [(''connector_id'', JStr connectorID), (''repo_full_name'', JStr ownerRepo)]) }"

text \<open>The way of \<open>peerIssueCall\<close> (scope \<open>scm:pm\<close>) and \<open>peerDeliveryCall\<close> (scope \<open>scm:pr\<close>) to ORA, up
  to its answer; what they make of the answer is modelled with the issue sync and the delivery.\<close>

definition ora_headers :: "peer_config \<Rightarrow> (string \<times> string) list" where
  "ora_headers cfg = (''Content-Type'', ''application/json'') #
     (if pc_orgId cfg \<noteq> [] then [(''X-Organization-ID'', pc_orgId cfg)] else [])"

definition ora_post ::
  "peer_lib \<Rightarrow> call_ctx \<Rightarrow> string \<Rightarrow> string \<Rightarrow> string \<Rightarrow> string \<Rightarrow> (string \<times> json) list \<Rightarrow> ora_response actE" where
  "ora_post l ctx scope orgID userID url body = do {
     cfg \<leftarrow> peerORAConfig l ctx orgID userID scope;
     case pl_client l cfg of
       Some e \<Rightarrow> throwE e
     | None \<Rightarrow> pl_do l cfg (trim_right (\<lambda>c. c = CHR ''/'') (pc_baseUrl cfg) @ url) (ora_headers cfg) body }"

text \<open>\<open>unavailable\<close> is the error \<open>openclient.ErrPeerUnavailable\<close>.\<close>

definition peerHubGET :: "peer_lib \<Rightarrow> err \<Rightarrow> string \<Rightarrow> (string \<times> json) list actE" where
  "peerHubGET l unavailable url = do {
     conf \<leftarrow> asks peerOPAConfigured;
     if \<not> conf then throwE unavailable
     else do {
       cfg \<leftarrow> peerOPAConfig l ''health:read'';
       pl_json l cfg ''GET'' url None } }"

definition peerHubGitHubStatus :: "peer_lib \<Rightarrow> err \<Rightarrow> (string \<times> json) list actE" where
  "peerHubGitHubStatus l unavailable = peerHubGET l unavailable ''/api/github/status''"

section \<open>The cache of tokens and events\<close>

record cache_config =
  cf_redisUrl :: string
  cf_l1Max :: int
  cf_keyPrefix :: string

text \<open>\<open>SetNX\<close>, \<open>SetPlain\<close> and \<open>Del\<close> of a cache, times to live in nanoseconds, and
  \<open>HashKey\<close> of two texts.\<close>

record cache_lib =
  cc_setnx :: "string \<Rightarrow> string \<Rightarrow> int \<Rightarrow> bool act"
  cc_set :: "string \<Rightarrow> string \<Rightarrow> int \<Rightarrow> unit act"
  cc_del :: "string \<Rightarrow> unit act"
  cc_hash :: "string \<Rightarrow> string \<Rightarrow> string"

definition second_ns :: int where "second_ns = 1000000000"

definition peerSCMEventDedupTTL :: int where "peerSCMEventDedupTTL = 24 * 3600 * second_ns"

text \<open>\<open>fmt.Sscanf(v, "%d", &n)\<close>: white space, a sign and the digits in front.\<close>

definition sscanf_d :: "string \<Rightarrow> int option" where
  "sscanf_d v = (case scan_skip_space v of
       None \<Rightarrow> None
     | Some s \<Rightarrow> let (neg, t) = scan_sign s; ds = takeWhile is_digit t in
         if ds = [] then None else parse_int64 neg ds)"

definition cache_size :: "world \<Rightarrow> int" where
  "cache_size w =
     (let v = trim_space (getenv w ''OPM_SEC_L1_CACHE'');
          n = (if v = [] then 20000 else (case sscanf_d v of None \<Rightarrow> 20000 | Some k \<Rightarrow> k))
      in if n < 1000 then 1000 else n)"

text \<open>\<open>NewLayered\<close> gives a cache, which may be nil, and an error; the second call's error is
  ignored.\<close>

definition initSecurityCache :: "(cache_config \<Rightarrow> cache_lib option \<times> err option) \<Rightarrow> world \<Rightarrow> cache_lib option" where
  "initSecurityCache new w =
     (let n = cache_size w; pre = trim_space (envOr w ''OPM_SEC_KEY_PREFIX'' ''opm:sec:'') in
      case new \<lparr>cf_redisUrl = getenv w ''REDIS_URL'', cf_l1Max = n, cf_keyPrefix = pre\<rparr> of
        (lc, None) \<Rightarrow> lc
      | (_, Some e) \<Rightarrow> fst (new \<lparr>cf_redisUrl = [], cf_l1Max = n, cf_keyPrefix = pre\<rparr>))"

definition peerSCMEventDedupSeen :: "cache_lib option \<Rightarrow> string \<Rightarrow> string \<Rightarrow> bool act" where
  "peerSCMEventDedupSeen cache scmJobID eventID = (case cache of
       None \<Rightarrow> State_Monad.return False
     | Some c \<Rightarrow>
         if scmJobID = [] \<and> eventID = [] then State_Monad.return False
         else do {
           fresh \<leftarrow> cc_setnx c (''scm-event:'' @ cc_hash c scmJobID eventID) ''1'' peerSCMEventDedupTTL;
           State_Monad.return (\<not> fresh) })"

definition jobTokenRedisKey :: "cache_lib \<Rightarrow> string \<Rightarrow> string \<Rightarrow> string" where
  "jobTokenRedisKey c product jti = ''jobtok:'' @ cc_hash c product jti"

definition allowLocalJobToken :: "cache_lib option \<Rightarrow> string \<Rightarrow> string \<Rightarrow> int \<Rightarrow> unit act" where
  "allowLocalJobToken cache product jti ttl = (case cache of
       None \<Rightarrow> State_Monad.return ()
     | Some c \<Rightarrow> if jti = [] then State_Monad.return () else cc_set c (jobTokenRedisKey c product jti) ''1'' ttl)"

definition revokeLocalJobToken :: "cache_lib option \<Rightarrow> string \<Rightarrow> string \<Rightarrow> unit act" where
  "revokeLocalJobToken cache product jti = (case cache of
       None \<Rightarrow> State_Monad.return ()
     | Some c \<Rightarrow> if jti = [] then State_Monad.return () else cc_del c (jobTokenRedisKey c product jti))"

section \<open>Job tokens\<close>

record minted_token =
  mt_token :: string
  mt_jti :: string

text \<open>\<open>MintServiceJWT\<close> of a secret, an issuer, an audience and a scope, and a POST of a body with
  headers to a URL; the decoder reads the first value of the answer's body.\<close>

record token_lib =
  tl_mint :: "string \<Rightarrow> string \<Rightarrow> string \<Rightarrow> string \<Rightarrow> string actE"
  tl_post :: "string \<Rightarrow> (string \<times> string) list \<Rightarrow> (string \<times> json) list \<Rightarrow> oam_answer actE"

definition service_secret :: "world \<Rightarrow> string" where
  "service_secret w = trim_space (getenv w ''OPEN_SERVICE_JWT_SECRET'')"

definition bearer_headers :: "string \<Rightarrow> (string \<times> string) list" where
  "bearer_headers tok = [(''Authorization'', ''Bearer '' @ tok), (''Content-Type'', ''application/json'')]"

definition default_ttl :: int where "default_ttl = 15 * 60 * second_ns"

definition mint_body :: "string \<Rightarrow> string \<Rightarrow> string \<Rightarrow> string \<Rightarrow> string \<Rightarrow> int \<Rightarrow> (string \<times> json) list" where
  "mint_body aud scope orgID userID agentKey ttl =
     [(''product'', JStr ''opm-api''), (''audience'', JStr aud), (''scope'', JStr scope), (''organization_id'', JStr orgID),
      (''user_id'', JStr userID), (''agent_key'', JStr agentKey), (''ttl_seconds'', JNum (ttl div second_ns))]"

fun json_minted :: "json \<Rightarrow> minted_token option" where
  "json_minted (JObj kvs) = do { t \<leftarrow> str_field kvs ''token''; i \<leftarrow> str_field kvs ''jti''; Some \<lparr>mt_token = t, mt_jti = i\<rparr> }"
| "json_minted JNull = Some \<lparr>mt_token = [], mt_jti = []\<rparr>"
| "json_minted _ = None"

definition mintJobToken ::
  "token_lib \<Rightarrow> cache_lib option \<Rightarrow> string \<Rightarrow> string \<Rightarrow> string \<Rightarrow> string \<Rightarrow> string \<Rightarrow> int \<Rightarrow> minted_token actE" where
  "mintJobToken l cache aud scope orgID userID agentKey ttl0 = do {
     base \<leftarrow> asks oamPeerURL;
     secret \<leftarrow> asks service_secret;
     if base = [] then throwE (Errf ''PEER_OAM_URL not configured'')
     else if secret = [] then throwE (Errf ''OPEN_SERVICE_JWT_SECRET not set'')
     else bindE (tl_mint l secret ''opm-api'' ''oam-api'' ''job-tokens:mint'') (\<lambda>svcTok.
       let ttl = (if ttl0 \<le> 0 then default_ttl else ttl0) in
       bindE (tl_post l (base @ ''/api/internal/job-tokens/mint'') (bearer_headers svcTok)
                (mint_body aud scope orgID userID agentKey ttl)) (\<lambda>a.
         if oa_code a \<noteq> 200 then throwE (Errf (''job token mint '' @ itoa (oa_code a)))
         else case Option.bind (oa_json a) json_minted of
           None \<Rightarrow> throwE BadJSON
         | Some out \<Rightarrow> do {
             _ \<leftarrow> allowLocalJobToken cache ''opm-api'' (mt_jti out) ttl;
             okE out })) }"

definition revokeJobToken :: "token_lib \<Rightarrow> cache_lib option \<Rightarrow> string \<Rightarrow> unit act" where
  "revokeJobToken l cache jti0 = (let jti = trim_space jti0 in
     if jti = [] then State_Monad.return ()
     else do {
       _ \<leftarrow> revokeLocalJobToken cache ''opm-api'' jti;
       base \<leftarrow> asks oamPeerURL;
       secret \<leftarrow> asks service_secret;
       if base = [] \<or> secret = [] then State_Monad.return ()
       else do {
         rt \<leftarrow> tl_mint l secret ''opm-api'' ''oam-api'' ''job-tokens:revoke'';
         case rt of
           Inl _ \<Rightarrow> State_Monad.return ()
         | Inr svcTok \<Rightarrow> do {
             _ \<leftarrow> tl_post l (base @ ''/api/internal/job-tokens/revoke'') (bearer_headers svcTok)
               [(''product'', JStr ''opm-api''), (''jti'', JStr jti)];
             State_Monad.return () } } })"

definition jobPeerScopes :: string where "jobPeerScopes = ''scm:clone scm:pm scm:pr''"

text \<open>The context for the calls of a job, and what gives the token back.\<close>

definition beginJobPeerAuth :: "token_lib \<Rightarrow> cache_lib option \<Rightarrow> call_ctx \<Rightarrow> job \<Rightarrow> (call_ctx \<times> unit act) act" where
  "beginJobPeerAuth l cache ctx j = do {
     rt \<leftarrow> mintJobToken l cache ''ora-api'' jobPeerScopes (j_organizationId j) (j_actorUsername j) (job_agent_key j) default_ttl;
     State_Monad.return (case rt of
         Inl _ \<Rightarrow> (ctx, State_Monad.return ())
       | Inr tok \<Rightarrow> (withJobToken ctx (mt_token tok), revokeJobToken l cache (mt_jti tok))) }"

end
