(* ===== verification/Server.thy ===== *)
theory Server
  imports Handlers Daemon Peer_Client
begin

text \<open>
  The server (\<open>main.go\<close>, \<open>auth_wire.go\<close>, \<open>peer_auth.go\<close>, \<open>peer_scm_events.go\<close>, the registrations
  of \<open>handlers.go\<close> and \<open>github_handlers.go\<close>): the table of routes, the choice \<open>net/http\<close> makes in
  it, the gate in front of a route, and the handlers that touch no document.  The auth and HTTP
  libraries are the record \<open>server_lib\<close>.
\<close>

section \<open>Requests and libraries\<close>

text \<open>A request as it comes in: also its own authorization header, the value of the auth cookie and
  its raw query.\<close>

record incoming = http +
  in_authorization :: string
  in_cookie :: "string option"
  in_rawQuery :: string

text \<open>In order: the version linked in; \<open>AuthRequiredEnv\<close>; the gate's mode, if there is a gate, and
  the mode of a gate co-deployed; the gate's \<open>ParseUser\<close>, without its error; the gate's two middlewares, for a role and for a role or a service
  scope, which answer a request or pass it on, perhaps with other headers; the routes and handler of
  \<open>RegisterLocalAuth\<close>; \<open>MiddlewareCORS\<close>, which may answer itself; \<open>ValidateServiceJWT\<close> of a
  token, a secret and an audience, giving issuer and scope; \<open>RequireScope\<close>; and the error
  \<open>ErrPeerUnavailable\<close>.\<close>

record server_lib =
  sv_version :: string
  sv_authRequired :: bool
  sv_mode :: "string option"
  sv_codeployed :: string
  sv_parseUser :: "string \<Rightarrow> claims option"
  sv_gate :: "string \<Rightarrow> incoming \<Rightarrow> (reply + incoming) act"
  sv_peerGate :: "string \<Rightarrow> string \<Rightarrow> incoming \<Rightarrow> (reply + incoming) act"
  sv_authPaths :: "string list"
  sv_auth :: "incoming \<Rightarrow> reply act"
  sv_cors :: "incoming \<Rightarrow> reply option"
  sv_validate :: "string \<Rightarrow> string \<Rightarrow> string \<Rightarrow> (string \<times> string) option"
  sv_requireScope :: "string \<Rightarrow> string \<Rightarrow> bool"
  sv_unavailable :: err

text \<open>\<open>http.Error\<close>: plain text with a newline.\<close>

definition plain_error :: "int \<Rightarrow> string \<Rightarrow> reply" where
  "plain_error code msg = Relay code (msg @ newline)"

section \<open>Health\<close>

definition health_fields :: "server_lib \<Rightarrow> reply" where
  "health_fields l = Fields 200 (jfields [(''status'', JStr ''ok''), (''service'', JStr ''opm-api''), (''version'', JStr (sv_version l)),
     (''auth_mode'', JStr (case sv_mode l of None \<Rightarrow> sv_codeployed l | Some m \<Rightarrow> m))])"

definition peer_health :: "server_lib \<Rightarrow> world \<Rightarrow> incoming \<Rightarrow> reply" where
  "peer_health l w r =
     (let secret = service_secret w; hdr = in_authorization r in
      if secret = [] then Fields 200 (jfields [(''status'', JStr ''ok''), (''service_auth'', JStr ''disabled'')])
      else if \<not> has_prefix ''Bearer '' hdr then plain_error 401 ''unauthorized''
      else (case sv_validate l (trim_space (trim_prefix ''Bearer '' hdr)) secret ''opm-api'' of
          None \<Rightarrow> plain_error 401 ''invalid service token''
        | Some (iss, scope) \<Rightarrow>
            if \<not> sv_requireScope l scope ''health:read'' then plain_error 403 ''missing scope''
            else Fields 200 (jfields [(''status'', JStr ''ok''), (''service'', JStr ''opm-api''), (''iss'', JStr iss), (''scope'', JStr scope)])))"

section \<open>Events of ORA\<close>

text \<open>The id, the commit and the job of an event whose fields all have their types.\<close>

definition ptr_bool :: "json \<Rightarrow> unit option" where
  "ptr_bool v = (case v of JBool b \<Rightarrow> Some () | JNull \<Rightarrow> Some () | _ \<Rightarrow> None)"

definition event_fields :: "(string \<times> json) list \<Rightarrow> (string \<times> string \<times> string) option" where
  "event_fields o1 = do {
     i \<leftarrow> str_field o1 ''id''; _ \<leftarrow> str_field o1 ''event_type''; _ \<leftarrow> str_field o1 ''organization_id'';
     _ \<leftarrow> str_field o1 ''project_id''; _ \<leftarrow> str_field o1 ''connector_id''; _ \<leftarrow> str_field o1 ''repo_full_name'';
     _ \<leftarrow> str_field o1 ''ref''; _ \<leftarrow> str_field o1 ''default_branch''; _ \<leftarrow> int_field o1 ''pr_number'';
     c \<leftarrow> str_field o1 ''commit_sha''; s \<leftarrow> str_field o1 ''scm_job_id'';
     _ \<leftarrow> field_or json_strings [] o1 ''changed_paths''; _ \<leftarrow> field_or json_strings [] o1 ''checks'';
     _ \<leftarrow> field_or ptr_bool () o1 ''dispatch'';
     Some (i, c, s) }"

definition event_note :: string where
  "event_note = ''future checker opm:delivery on PR merge / issue sync hooks''"

definition event_reply :: "bool \<Rightarrow> reply" where
  "event_reply seen = Fields 200 (jfields ((''checkers'', JArr []) #
     (if seen then [(''duplicate'', JBool True)] else [(''note'', JStr event_note)])))"

definition handlePeerSCMEvents :: "cache_lib option \<Rightarrow> http \<Rightarrow> reply act" where
  "handlePeerSCMEvents cache h =
     (if h_method h \<noteq> ''POST'' then State_Monad.return (plain_error 405 ''method not allowed'')
      else (case Option.bind (body_object h) event_fields of
          None \<Rightarrow> State_Monad.return (plain_error 400 ''bad request'')
        | Some (i, c, s) \<Rightarrow> do {
            seen \<leftarrow> peerSCMEventDedupSeen cache s (if trim_space i = [] then trim_space c else trim_space i);
            State_Monad.return (event_reply seen) }))"

section \<open>Status of the hub\<close>

definition hub_home :: "world \<Rightarrow> string \<times> string" where
  "hub_home w =
     (if oamConfigured w
      then (''oam'', ''OPM links to OAM for organizations, projects, connectors/credentials and model bindings, and ORA for '' @
        ''GitHub SCM protocol (list/clone/PR). No local folder projects.'')
      else if peerORAConfigured w
      then (''ora'', ''OPM links to ORA for GitHub SCM protocol (list/clone/PR). Set PEER_OAM_URL so organizations, '' @
        ''connectors/credentials and model bindings resolve from OAM. No local folder projects.'')
      else (''env'', ''OPM links to OAM for organization/project directory when PEER_OAM_URL is set. No local folder projects.''))"

definition hub_fields :: "world \<Rightarrow> (string \<times> json) list" where
  "hub_fields w = [(''peer_opa_configured'', JBool (peerOPAConfigured w)), (''peer_ora_configured'', JBool (peerORAConfigured w)),
     (''peer_oam_configured'', JBool (oamConfigured w)), (''credentials_home'', JStr (fst (hub_home w))),
     (''hub_role'', JStr ''optional_peer''), (''note'', JStr (snd (hub_home w)))]"

definition handleHubStatus :: "peer_lib \<Rightarrow> err \<Rightarrow> http \<Rightarrow> reply act" where
  "handleHubStatus l unavailable h = only ''GET'' h (do {
     out \<leftarrow> asks hub_fields;
     opa \<leftarrow> asks peerOPAConfigured;
     if \<not> opa then State_Monad.return (Fields 200 (jfields out))
     else do {
       r \<leftarrow> peerHubGitHubStatus l unavailable;
       State_Monad.return (Fields 200 (jfields (out @ (case r of
           Inr st \<Rightarrow> [(''hub_github'', JObj st)] | Inl e \<Rightarrow> [(''hub_error'', JStr (err_text e))])))) } })"

section \<open>Routes\<close>

datatype endpoint =
    Health
  | Local_Auth
  | Hub_Status
  | Organizations
  | Directory
  | Connectors
  | Connector_Sub
  | Projects
  | One_Project
  | Scm_Events
  | Peer_Health

definition routes :: "server_lib \<Rightarrow> (string \<times> endpoint) list" where
  "routes l = (''/api/health'', Health) # map (\<lambda>p. (p, Local_Auth)) (sv_authPaths l) @
     [(''/api/hub/status'', Hub_Status), (''/api/oam/organizations'', Organizations), (''/api/oam/projects'', Directory),
      (''/api/github/connectors'', Connectors), (''/api/github/connectors/'', Connector_Sub),
      (''/api/projects'', Projects), (''/api/projects/'', One_Project),
      (''/api/peer/scm/events'', Scm_Events), (''/api/peer/health'', Peer_Health)]"

text \<open>\<open>net/http\<close>: the pattern that is the path, or the longest one ending in a slash that the path
  begins with.\<close>

definition subtree_match :: "string \<Rightarrow> string \<Rightarrow> bool" where
  "subtree_match pat p \<longleftrightarrow> has_suffix ''/'' pat \<and> has_prefix pat p"

definition longest :: "(string \<times> endpoint) list \<Rightarrow> endpoint option" where
  "longest l = map_option snd (fold (\<lambda>c best. case best of
       None \<Rightarrow> Some c
     | Some b \<Rightarrow> if length (fst b) < length (fst c) then Some c else best) l None)"

definition mux_match :: "(string \<times> endpoint) list \<Rightarrow> string \<Rightarrow> endpoint option" where
  "mux_match table p = (case map_of table p of
       Some e \<Rightarrow> Some e
     | None \<Rightarrow> longest (filter (\<lambda>(pat, e). subtree_match pat p) table))"

text \<open>\<open>cleanPath\<close>: one leading slash, no empty, dot or double-dot segments, the last slash kept.\<close>

fun clean_segs :: "string list \<Rightarrow> string list \<Rightarrow> string list" where
  "clean_segs acc [] = acc"
| "clean_segs acc (s # ss) =
     (if s = [] \<or> s = ''.'' then clean_segs acc ss
      else if s = ''..'' then clean_segs (butlast acc) ss
      else clean_segs (acc @ [s]) ss)"

definition clean_path :: "string \<Rightarrow> string" where
  "clean_path p = (let segs = clean_segs [] (split_on (CHR ''/'') p); q = ''/'' @ join ''/'' segs in
     if has_suffix ''/'' p \<and> q \<noteq> ''/'' then q @ ''/'' else q)"

section \<open>The gate\<close>

text \<open>\<open>authView\<close>, \<open>registerPeerAuth\<close> and the two subtrees that ask at each request.\<close>

definition peerSCMEventsScope :: string where "peerSCMEventsScope = ''scm:events''"

definition registerPeerAuth :: "server_lib \<Rightarrow> string \<Rightarrow> string \<Rightarrow> incoming \<Rightarrow> (reply + incoming) act" where
  "registerPeerAuth l readScope writeScope r =
     (if \<not> sv_authRequired l then State_Monad.return (Inr r)
      else sv_peerGate l ''viewer''
        (if h_method r \<in> set [''GET'', ''HEAD'', ''OPTIONS''] then readScope else writeScope) r)"

definition authView :: "server_lib \<Rightarrow> incoming \<Rightarrow> (reply + incoming) act" where
  "authView l r = (if sv_authRequired l then sv_gate l ''viewer'' r else State_Monad.return (Inr r))"

definition gate_of :: "server_lib \<Rightarrow> endpoint \<Rightarrow> incoming \<Rightarrow> (reply + incoming) act" where
  "gate_of l e r = (case e of
       Health \<Rightarrow> State_Monad.return (Inr r)
     | Local_Auth \<Rightarrow> State_Monad.return (Inr r)
     | Peer_Health \<Rightarrow> State_Monad.return (Inr r)
     | Scm_Events \<Rightarrow> registerPeerAuth l peerSCMEventsScope peerSCMEventsScope r
     | _ \<Rightarrow> authView l r)"

section \<open>Who asks\<close>

text \<open>The claims of a request's token: that of the header, if there is a header, else the cookie's.\<close>

definition request_token :: "incoming \<Rightarrow> string" where
  "request_token r =
     (if in_authorization r \<noteq> []
      then (case split_on (CHR '' '') (in_authorization r) of
          [scheme, tok] \<Rightarrow> if equal_fold scheme ''Bearer'' then tok else []
        | _ \<Rightarrow> [])
      else (case in_cookie r of Some v \<Rightarrow> v | None \<Rightarrow> []))"

definition claimsFromRequestToken :: "server_lib \<Rightarrow> incoming \<Rightarrow> claims option" where
  "claimsFromRequestToken l r =
     (if request_token r = [] \<or> sv_mode l = None then None else sv_parseUser l (request_token r))"

section \<open>Serving\<close>

text \<open>What the server was started with.\<close>

record service =
  se_lib :: server_lib
  se_peer :: peer_lib
  se_egress :: egress_lib
  se_cache :: "cache_lib option"
  se_ext :: externals

text \<open>The runner image and whether ORA is configured are read from the environment.\<close>

definition ext_now :: "service \<Rightarrow> world \<Rightarrow> externals" where
  "ext_now s w = (se_ext s)\<lparr>x_image := runnerImageName (se_egress s) w, x_ora := peerORAConfigured w\<rparr>"

text \<open>What a handler sees of a request, with the claims it reads from the token.\<close>

definition seen_by_handler :: "server_lib \<Rightarrow> incoming \<Rightarrow> http" where
  "seen_by_handler l r = (http.truncate r)\<lparr>h_scope := (h_scope r)\<lparr>rq_claims := claimsFromRequestToken l r\<rparr>\<rparr>"

definition handle :: "service \<Rightarrow> endpoint \<Rightarrow> incoming \<Rightarrow> (reply \<times> unit act option) act" where
  "handle s e r = do {
     x \<leftarrow> asks (ext_now s);
     let l = se_lib s; h = seen_by_handler (se_lib s) r in
     case e of
       Health \<Rightarrow> quietly (State_Monad.return (health_fields l))
     | Local_Auth \<Rightarrow> quietly (sv_auth l r)
     | Hub_Status \<Rightarrow> quietly (handleHubStatus (se_peer s) (sv_unavailable l) h)
     | Organizations \<Rightarrow> quietly (handleOAMOrganizations x h)
     | Directory \<Rightarrow> quietly (handleOAMProjects x h)
     | Connectors \<Rightarrow> quietly (handleGitHubConnectors x h (in_rawQuery r))
     | Connector_Sub \<Rightarrow> quietly (handleGitHubConnectorSub x h)
     | Projects \<Rightarrow> quietly (handleProjects x h)
     | One_Project \<Rightarrow> handleProjectRoute x h
     | Scm_Events \<Rightarrow> quietly (handlePeerSCMEvents (se_cache s) h)
     | Peer_Health \<Rightarrow> quietly (asks (\<lambda>w. peer_health l w r)) }"

definition guarded :: "service \<Rightarrow> endpoint \<Rightarrow> incoming \<Rightarrow> (reply \<times> unit act option) act" where
  "guarded s e r = do {
     g \<leftarrow> gate_of (se_lib s) e r;
     case g of Inl a \<Rightarrow> State_Monad.return (a, None) | Inr r' \<Rightarrow> handle s e r' }"

text \<open>A path that is not clean is redirected, except for \<open>CONNECT\<close>; the location, which keeps the
  query, stands for the body.\<close>

definition redirect_clean :: "incoming \<Rightarrow> reply" where
  "redirect_clean r =
     Relay 301 (clean_path (h_path r) @ (if in_rawQuery r = [] then [] else ''?'' @ in_rawQuery r))"

definition mux_serve :: "service \<Rightarrow> incoming \<Rightarrow> (reply \<times> unit act option) act" where
  "mux_serve s r =
     (if h_method r \<noteq> ''CONNECT'' \<and> clean_path (h_path r) \<noteq> h_path r
      then quietly (State_Monad.return (redirect_clean r))
      else (case mux_match (routes (se_lib s)) (h_path r) of
          None \<Rightarrow> quietly (State_Monad.return (plain_error 404 ''404 page not found''))
        | Some e \<Rightarrow> guarded s e r))"

definition serve :: "service \<Rightarrow> incoming \<Rightarrow> (reply \<times> unit act option) act" where
  "serve s r = (case sv_cors (se_lib s) r of
       Some a \<Rightarrow> quietly (State_Monad.return a)
     | None \<Rightarrow> mux_serve s r)"

section \<open>The orchestrator\<close>

definition probe_json :: "spawn_probe \<Rightarrow> json" where
  "probe_json p = JObj [(''runnerImage'', JStr (sp_runnerImage p)), (''dockerCli'', JBool (sp_dockerCLI p)),
     (''dockerDaemon'', JBool (sp_dockerDaemon p)), (''runnerImagePresent'', JBool (sp_runnerImagePresent p)),
     (''spawnReady'', JBool (sp_spawnReady p)), (''modelConfigured'', JBool (sp_modelConfigured p)),
     (''honesty'', JStr (sp_honesty p)), (''modelHonesty'', JStr (sp_modelHonesty p))]"

definition orchestrator_health :: "service \<Rightarrow> spawn_probe \<Rightarrow> reply" where
  "orchestrator_health s p = Fields 200 (jfields [(''status'', JStr ''ok''), (''service'', JStr ''opm-orchestrator''),
     (''version'', JStr (sv_version (se_lib s))), (''runners'', JArr [JStr (sp_runnerImage p)]), (''spawn'', probe_json p)])"

definition serve_orchestrator :: "service \<Rightarrow> incoming \<Rightarrow> reply act" where
  "serve_orchestrator s r =
     (if h_method r \<noteq> ''CONNECT'' \<and> clean_path (h_path r) \<noteq> h_path r
      then State_Monad.return (redirect_clean r)
      else if h_path r = ''/api/health''
      then do { p \<leftarrow> probeRunnerSpawn (se_egress s) (se_ext s); State_Monad.return (orchestrator_health s p) }
      else if h_path r = ''/api/spawn-probe''
      then do { p \<leftarrow> probeRunnerSpawn (se_egress s) (se_ext s); State_Monad.return (Fields 200 (case probe_json p of JObj kvs \<Rightarrow> jfields kvs | _ \<Rightarrow> [])) }
      else State_Monad.return (plain_error 404 ''404 page not found''))"

section \<open>Starting\<close>

text \<open>The agents of OPM, published to OAM; what OAM answers is only logged.\<close>

definition catalog_json :: "catalog_entry list \<Rightarrow> json" where
  "catalog_json l = JArr (map (\<lambda>e. JObj [(''agent_key'', JStr (ce_key e)), (''label'', JStr (ce_label e)),
     (''tier_hint'', JStr (ce_tier e))]) l)"

definition publishAgentCatalog :: "peer_lib \<Rightarrow> unit act" where
  "publishAgentCatalog l = do {
     conf \<leftarrow> asks oamConfigured;
     if \<not> conf then State_Monad.return ()
     else do {
       cfg \<leftarrow> pl_env l ''PEER_OAM_URL'' ''opm-api'' ''oam-api'' ''catalog:write'';
       _ \<leftarrow> pl_json l cfg ''POST'' ''/api/agents/catalog/publish''
         (Some [(''product'', JStr ''opm''), (''agents'', catalog_json agentCatalog)]);
       State_Monad.return () } }"

text \<open>What \<open>main\<close> does: the arguments choose the server, the orchestrator or the version; a store
  that cannot be opened, or a gate that cannot be built (\<open>boot\<close>), ends the program.  A server is
  started with its address and its cache, and with OAM configured it starts \<open>publishAgentCatalog\<close>.\<close>

datatype started = Orchestrating | Version string | Fatal string | Serving string "cache_lib option" "unit act option"

definition listen_addr :: "world \<Rightarrow> string" where
  "listen_addr w = envOr w ''LISTEN_ADDR'' (envOr w ''HTTP_ADDR'' '':8096'')"

definition main_opm ::
  "string \<Rightarrow> peer_lib \<Rightarrow> (cache_config \<Rightarrow> cache_lib option \<times> err option) \<Rightarrow> err option \<Rightarrow> string list \<Rightarrow> started act" where
  "main_opm version peers new boot args =
     (if args \<noteq> [] \<and> hd args = ''orchestrator'' then State_Monad.return Orchestrating
      else if args \<noteq> [] \<and> hd args = ''version'' then State_Monad.return (Version version)
      else do {
        addr \<leftarrow> asks listen_addr;
        r \<leftarrow> NewStore;
        case r of
          Inl e \<Rightarrow> State_Monad.return (Fatal (''store: '' @ err_text e))
        | Inr _ \<Rightarrow> do {
            cache \<leftarrow> asks (initSecurityCache new);
            case boot of
              Some e \<Rightarrow> State_Monad.return (Fatal (''auth: '' @ err_text e))
            | None \<Rightarrow> asks (\<lambda>w. Serving addr cache (if oamConfigured w then Some (publishAgentCatalog peers) else None)) } })"

end
