(* ===== verification/Server_Theorems.thy ===== *)
theory Server_Theorems
  imports Server Route_Theorems
begin

text \<open>
  The properties of the server as a whole: what a request without a credential can do and learn,
  the gate between organizations seen from outside, the events of ORA, and when the server runs a
  job in a container and on which network.
\<close>

section \<open>A server\<close>

text \<open>A server for the demonstrations: its gate lets a request pass that has an authorization
  header, with the claims of an account of \<open>org-b\<close>; its cache keeps keys as files.\<close>

definition demo_claims :: claims where
  "demo_claims = \<lparr>cl_personal = False, cl_orgId = ''org-b'', cl_username = ''eve''\<rparr>"

definition demo_gate :: "incoming \<Rightarrow> reply + incoming" where
  "demo_gate r = (if in_authorization r = [] then Inl (plain_error 401 ''unauthorized'')
     else Inr r)"

definition demo_server :: server_lib where
  "demo_server = \<lparr> sv_version = ''1'', sv_authRequired = True, sv_mode = Some ''standalone'', sv_codeployed = ''codeployed'',
     sv_parseUser = (\<lambda>t. if t = ''t'' then Some demo_claims else None),
     sv_gate = (\<lambda>role r. State_Monad.return (demo_gate r)), sv_peerGate = (\<lambda>role scope r. State_Monad.return (demo_gate r)),
     sv_authPaths = [''/api/auth/status''], sv_auth = (\<lambda>r. State_Monad.return NoContent), sv_cors = (\<lambda>r. None),
     sv_validate = (\<lambda>t k a. None), sv_requireScope = (\<lambda>s t. False), sv_unavailable = NotExist \<rparr>"

definition demo_cache :: cache_lib where
  "demo_cache = \<lparr> cc_setnx = (\<lambda>k v t. State (\<lambda>w. (look w [''cache'', k] = None, put_node [''cache'', k] (File (DText v)) w))),
     cc_set = (\<lambda>k v t. State_Monad.return ()), cc_del = (\<lambda>k. State_Monad.return ()), cc_hash = (\<lambda>a b. a @ ''|'' @ b) \<rparr>"

definition demo_peers :: peer_lib where
  "demo_peers = \<lparr> pl_env = (\<lambda>v i a s. State_Monad.return \<lparr>pc_baseUrl = [], pc_orgId = [], pc_userId = [], pc_bearer = [], pc_scope = s\<rparr>),
     pl_json = (\<lambda>c m p b. throwE NotExist), pl_client = (\<lambda>c. None), pl_do = (\<lambda>c u h b. throwE NotExist) \<rparr>"

definition demo_egress :: egress_lib where
  "demo_egress = \<lparr> el_allowlist = (\<lambda>s. [s]), el_env = (\<lambda>a n. []), el_ensure = (\<lambda>d c. throwE NotExist),
     el_attach = (\<lambda>d c n. okE ()), el_detach = (\<lambda>d c n. State_Monad.return ()),
     el_image = (\<lambda>p k t. p @ ''-runner-'' @ k @ '':'' @ t), el_stackSet = False \<rparr>"

definition demo_service :: service where
  "demo_service = \<lparr> se_lib = demo_server, se_peer = demo_peers, se_egress = demo_egress, se_cache = Some demo_cache, se_ext = demo_ext \<rparr>"

definition demo_incoming :: "string \<Rightarrow> string \<Rightarrow> string \<Rightarrow> incoming" where
  "demo_incoming meth pth auth = http.extend ((demo_post [])\<lparr>h_method := meth, h_path := pth\<rparr>)
     \<lparr>in_authorization = auth, in_cookie = None, in_rawQuery = []\<rparr>"

lemma demo_service_sel [simp]: "se_lib demo_service = demo_server" "sv_authRequired demo_server"
  by (simp_all add: demo_service_def demo_server_def)

section \<open>Requests without a credential\<close>

text \<open>An answer that only the environment has a say in, and that changes nothing.\<close>

definition inert :: "(string \<Rightarrow> string) \<Rightarrow> (reply \<times> unit act option) act \<Rightarrow> bool" where
  "inert E m \<longleftrightarrow> (\<exists>a. \<forall>w. getenv w = E \<longrightarrow> run_state m w = ((a, None), w))"

lemma inertI: "(\<And>w. getenv w = E \<Longrightarrow> run_state m w = ((a, None), w)) \<Longrightarrow> inert E m"
  by (auto simp: inert_def)

lemma inert_quietly: "(\<And>w. getenv w = E \<Longrightarrow> run_state m w = (a, w)) \<Longrightarrow> inert E (quietly m)"
  by (rule inertI[of _ _ a]) (simp add: quietly_def run)

text \<open>The routes in front of which there is no gate.\<close>

lemma peer_health_env: "getenv w = getenv w' \<Longrightarrow> peer_health l w r = peer_health l w' r"
  by (simp add: peer_health_def service_secret_def)

lemma peer_health_inert: "inert E (quietly (asks (\<lambda>w. peer_health l w r)))"
proof (cases "\<exists>w::world. getenv w = E")
  case True
  then obtain w0 :: world where w0: "getenv w0 = E" ..
  show ?thesis
  proof (rule inertI)
    fix w :: world assume "getenv w = E"
    then have "peer_health l w r = peer_health l w0 r" using w0 by (intro peer_health_env) simp
    then show "run_state (quietly (asks (\<lambda>w. peer_health l w r))) w = ((peer_health l w0 r, None), w)"
      by (simp add: quietly_def run)
  qed
qed (simp add: inert_def)

lemma inert_cong: "(\<And>w. run_state m w = run_state m' w) \<Longrightarrow> inert E m \<longleftrightarrow> inert E m'"
  by (simp add: inert_def)

lemma public_inert:
  assumes "\<And>w. run_state (sv_auth (se_lib s) r) w = (login, w)" and "e \<in> {Health, Local_Auth, Peer_Health}"
  shows "inert E (guarded s e r)"
proof -
  have h: "inert E (guarded s e r) \<longleftrightarrow> inert E (quietly (case e of Health \<Rightarrow> State_Monad.return (health_fields (se_lib s))
      | Local_Auth \<Rightarrow> sv_auth (se_lib s) r | _ \<Rightarrow> asks (\<lambda>w. peer_health (se_lib s) w r)))"
    by (rule inert_cong) (use assms(2) in \<open>auto simp: guarded_def gate_of_def handle_def run\<close>)
  show ?thesis
    unfolding h using assms by (auto intro: inert_quietly peer_health_inert simp: run)
qed

text \<open>C5: With authentication required, a request that the gate refuses does nothing and learns
  nothing, whatever its method, path and body: no file of the machine changes, no goroutine starts, and
  the answer is one that any other state of the store would have given it, since it depends on
  the environment alone.\<close>

theorem unauthenticated_learns_nothing:
  assumes "sv_authRequired (se_lib s)"
    and "\<And>role w. run_state (sv_gate (se_lib s) role r) w = (Inl (refusal role), w)"
    and "\<And>role scope w. run_state (sv_peerGate (se_lib s) role scope r) w = (Inl (refusal role), w)"
    and "\<And>w. run_state (sv_auth (se_lib s) r) w = (login, w)"
  shows "\<exists>a. \<forall>w'. getenv w' = getenv w \<longrightarrow> run_state (serve s r) w' = ((a, None), w')"
proof -
  have gated: "inert E (guarded s e r)" if "e \<notin> {Health, Local_Auth, Peer_Health}" for e E
    by (rule inertI[of _ _ "refusal ''viewer''"])
      (use that assms(1-3) in \<open>cases e; simp add: guarded_def gate_of_def authView_def registerPeerAuth_def run\<close>)
  have "inert (getenv w) (guarded s e r)" for e
    using gated public_inert[OF assms(4)] by (cases "e \<in> {Health, Local_Auth, Peer_Health}") blast+
  then have "inert (getenv w) (mux_serve s r)"
    by (cases "mux_match (routes (se_lib s)) (h_path r)") (auto simp: mux_serve_def run intro: inert_quietly)
  then have "inert (getenv w) (serve s r)"
    by (cases "sv_cors (se_lib s) r") (auto simp: serve_def run intro: inert_quietly)
  then show ?thesis by (simp add: inert_def)
qed

lemma unauthenticated_learns_nothing_witness:
  "\<exists>a. \<forall>w'. getenv w' = getenv demo_world \<longrightarrow>
     run_state (serve demo_service (demo_incoming ''DELETE'' ''/api/projects/p1'' [])) w' = ((a, None), w')"
proof (rule unauthenticated_learns_nothing)
  have "demo_gate (demo_incoming ''DELETE'' ''/api/projects/p1'' []) = Inl (plain_error 401 ''unauthorized'')"
    by (simp add: demo_gate_def demo_incoming_def demo_post_def http.defs)
  then show "run_state (sv_gate (se_lib demo_service) role (demo_incoming ''DELETE'' ''/api/projects/p1'' [])) w =
       (Inl ((\<lambda>_. plain_error 401 ''unauthorized'') role), w)"
    "run_state (sv_peerGate (se_lib demo_service) role scope (demo_incoming ''DELETE'' ''/api/projects/p1'' [])) w =
       (Inl ((\<lambda>_. plain_error 401 ''unauthorized'') role), w)" for role scope w
    by (simp_all add: demo_server_def run)
  show "run_state (sv_auth (se_lib demo_service) (demo_incoming ''DELETE'' ''/api/projects/p1'' [])) w = (NoContent, w)" for w
    by (simp add: demo_server_def run)
qed simp

section \<open>Other organizations\<close>

lemma suffixes: "has_suffix ''/'' ''/api/github/connectors/''" "has_suffix ''/'' ''/api/projects/''"
  "\<not> has_suffix ''/'' ''/api/projects''"
  by code_simp+

lemma map_of_none: "(\<And>k v. (k, v) \<in> set l \<Longrightarrow> k \<noteq> p) \<Longrightarrow> map_of l p = None"
  by (metis map_of_SomeD not_None_eq)

text \<open>Everything below \<open>/api/projects/\<close> goes to the router of a project.\<close>

lemma mux_project:
  assumes "\<And>a. a \<in> set (sv_authPaths l) \<Longrightarrow> has_prefix ''/api/auth/'' a"
  shows "mux_match (routes l) (''/api/projects/'' @ q) = Some One_Project"
proof -
  let ?p = "''/api/projects/'' @ q" and ?auth = "map (\<lambda>p. (p, Local_Auth)) (sv_authPaths l)"
  have auth: "a \<noteq> ?p" "\<not> has_prefix a ?p" if "a \<in> set (sv_authPaths l)" for a
    using assms[OF that] by (auto simp: has_prefix_iff)
  have none: "map_of ?auth ?p = None" by (rule map_of_none) (use auth in auto)
  have "map_of (routes l) ?p = (if q = [] then Some One_Project else None)"
    using none by (simp add: routes_def map_add_def)
  moreover have "filter (\<lambda>(pat, e). subtree_match pat ?p) ?auth = []"
    using auth by (auto simp: filter_empty_conv subtree_match_def)
  then have "filter (\<lambda>(pat, e). subtree_match pat ?p) (routes l) = [(''/api/projects/'', One_Project)]"
    by (simp add: routes_def subtree_match_def has_prefix_iff suffixes)
  ultimately show ?thesis by (simp add: mux_match_def longest_def)
qed

text \<open>C6: Seen from outside, a project of another organization is not there: a request that the
  gate lets pass for an account of one organization gets, on every path below a project's, with every
  method, body and header, the answer for a project that does not exist, and nothing is read
  from a peer, nothing is written and no goroutine starts.\<close>

theorem server_hides_foreign_projects:
  assumes lib: "sv_authRequired (se_lib s)" "sv_cors (se_lib s) r = None"
      "\<And>a. a \<in> set (sv_authPaths (se_lib s)) \<Longrightarrow> has_prefix ''/api/auth/'' a"
    and url: "h_path r = ''/api/projects/'' @ q" "clean_path (h_path r) = h_path r"
    and gate: "run_state (sv_gate (se_lib s) ''viewer'' r) w = (Inr r', w)" "h_path r' = h_path r"
    and caller: "claimsFromRequestToken (se_lib s) r' = Some c" "\<not> cl_personal c" "trim_space (cl_orgId c) = org" "org \<noteq> []"
      "org \<noteq> tenant_all (tenant w)"
    and store: "opened w" "auth_enforced (tenant w)"
    and pid: "route_parts (seen_by_handler (se_lib s) r') = pid # rest" "\<not> (pid = ''ensure'' \<and> rest = [])"
    and foreign: "\<And>p. p \<in> set (rows w) \<Longrightarrow> p_id p = pid \<Longrightarrow> projectOrgID (tenant w) p \<noteq> org"
  shows "run_state (serve s r) w = ((Failed 404 ''project not found'', None), w)"
proof -
  have org: "resolveRequestOrg (tenant w) (h_scope (seen_by_handler (se_lib s) r')) = org"
    using caller by (simp add: resolveRequestOrg_def jobOrgFromJWT_def seen_by_handler_def)
  have t: "trim_space org = org" using caller(3) by (metis trim_space_idem)
  have "run_state (handleProjectRoute (ext_now s w) (seen_by_handler (se_lib s) r')) w = ((Failed 404 ''project not found'', None), w)"
  proof (rule foreign_project_refused[OF store pid])
    fix p assume "List.find (\<lambda>p. p_id p = pid) (rows w) = Some p"
    then have "p \<in> set (rows w)" "p_id p = pid" by (auto simp: find_Some_iff)
    then show "projectOrgID (tenant w) p \<noteq> normalizeWriteOrg (tenant w) (resolveRequestOrg (tenant w) (h_scope (seen_by_handler (se_lib s) r')))"
      unfolding org using foreign caller(4,5) t by (simp add: normalizeWriteOrg_def)
  qed
  then show ?thesis
    using lib(1,2) url gate mux_project[OF lib(3), where q = q]
    by (simp add: serve_def mux_serve_def guarded_def gate_of_def authView_def handle_def run)
qed

lemma server_hides_foreign_projects_witness:
  "run_state (serve demo_service (demo_incoming ''DELETE'' ''/api/projects/p1/board'' ''Bearer t'')) demo_world =
     ((Failed 404 ''project not found'', None), demo_world)"
proof (rule server_hides_foreign_projects)
  let ?r = "demo_incoming ''DELETE'' ''/api/projects/p1/board'' ''Bearer t''"
  show "run_state (sv_gate (se_lib demo_service) ''viewer'' ?r) demo_world = (Inr ?r, demo_world)"
    by (simp add: demo_server_def demo_gate_def demo_incoming_def http.defs run)
  show "claimsFromRequestToken (se_lib demo_service) ?r = Some demo_claims" by code_simp
  show "\<not> cl_personal demo_claims" "trim_space (cl_orgId demo_claims) = ''org-b''" by code_simp+
  show "''org-b'' \<noteq> tenant_all (tenant demo_world)" "auth_enforced (tenant demo_world)" by (simp_all add: demo_world_def)
  show "h_path ?r = ''/api/projects/'' @ ''p1/board''" "clean_path (h_path ?r) = h_path ?r" by code_simp+
  show "route_parts (seen_by_handler (se_lib demo_service) ?r) = ''p1'' # [''board'']" by code_simp
  show "projectOrgID (tenant demo_world) p \<noteq> ''org-b''" if "p \<in> set (rows demo_world)" for p
  proof -
    have "projectOrgID (tenant demo_world) demo_project = ''org-a''"
      by (simp add: demo_world_def demo_project_def new_project_def) code_simp
    then show ?thesis using that by (simp add: demo_rows)
  qed
qed (simp_all add: demo_rows demo_server_def, (code_simp)?)

section \<open>Events\<close>

text \<open>Under which key the cache remembers an event, if it is one.\<close>

definition event_key :: "cache_lib \<Rightarrow> http \<Rightarrow> string option" where
  "event_key c h = (if h_method h \<noteq> ''POST'' then None
     else (case Option.bind (body_object h) event_fields of
         None \<Rightarrow> None
       | Some (i, cm, sj) \<Rightarrow> let i' = (if trim_space i = [] then trim_space cm else trim_space i) in
           if sj = [] \<and> i' = [] then None else Some (''scm-event:'' @ cc_hash c sj i')))"

fun answer_events :: "cache_lib option \<Rightarrow> http list \<Rightarrow> reply list act" where
  "answer_events cache [] = State_Monad.return []"
| "answer_events cache (h # hs) = do {
     a \<leftarrow> handlePeerSCMEvents cache h;
     l \<leftarrow> answer_events cache hs;
     State_Monad.return (a # l) }"

lemma run_event:
  assumes "event_key c h = Some k"
  shows "run_state (handlePeerSCMEvents (Some c) h) w =
     (event_reply (\<not> fst (run_state (cc_setnx c k ''1'' peerSCMEventDedupTTL) w)), snd (run_state (cc_setnx c k ''1'' peerSCMEventDedupTTL) w))"
  using assms
  by (auto simp: event_key_def handlePeerSCMEvents_def peerSCMEventDedupSeen_def run Let_def
      split: if_splits option.splits prod.splits)

text \<open>C20: Of the events that arrive within the cache's time to live, in any order and number, each
  is answered as new once: the answer to an event is that of a duplicate exactly if the cache held
  its key before or an earlier event of the sequence had it.\<close>

theorem events_answered_once:
  assumes fresh: "\<And>k v t w. fst (run_state (cc_setnx c k v t) w) \<longleftrightarrow> k \<notin> held w"
    and kept: "\<And>k v t w. held (snd (run_state (cc_setnx c k v t) w)) = insert k (held w)"
    and keys: "map (event_key c) hs = map Some ks"
  shows "fst (run_state (answer_events (Some c) hs) w) =
     map (\<lambda>n. event_reply (ks ! n \<in> held w \<union> set (take n ks))) [0..<length ks]"
  using keys
proof (induction hs arbitrary: ks w)
  case (Cons h hs)
  obtain k ks' where ks: "ks = k # ks'" "event_key c h = Some k" "map (event_key c) hs = map Some ks'"
    using Cons.prems by (cases ks) auto
  let ?w = "snd (run_state (cc_setnx c k ''1'' peerSCMEventDedupTTL) w)"
  have "fst (run_state (answer_events (Some c) (h # hs)) w) =
     event_reply (k \<in> held w) # fst (run_state (answer_events (Some c) hs) ?w)"
    by (simp add: run run_event[OF ks(2)] fresh split: prod.split)
  also have "fst (run_state (answer_events (Some c) hs) ?w) =
     map (\<lambda>n. event_reply (ks' ! n \<in> insert k (held w) \<union> set (take n ks'))) [0..<length ks']"
    using Cons.IH[OF ks(3), of ?w] by (simp add: kept)
  finally show ?case by (simp add: ks(1) map_upt_Suc disj_ac del: upt_Suc)
qed (simp add: run)

definition cached :: "world \<Rightarrow> string set" where
  "cached w = {k. look w [''cache'', k] \<noteq> None}"

definition demo_event :: "string \<Rightarrow> http" where
  "demo_event i = demo_post [(''id'', JStr i), (''scm_job_id'', JStr ''j1'')]"

lemma events_answered_once_witness:
  "fst (run_state (answer_events (Some demo_cache) [demo_event ''e1'', demo_event ''e2'', demo_event '' e1'']) demo_world) =
     [event_reply False, event_reply False, event_reply True]"
proof -
  let ?ks = "[''scm-event:j1|e1'', ''scm-event:j1|e2'', ''scm-event:j1|e1'']"
  have "map (event_key demo_cache) [demo_event ''e1'', demo_event ''e2'', demo_event '' e1''] = map Some ?ks" by code_simp
  moreover have "look demo_world [''cache'', k] = None" for k by (simp add: look_def demo_world_def demo_tree_def)
  ultimately show ?thesis
    using events_answered_once[of demo_cache cached "[demo_event ''e1'', demo_event ''e2'', demo_event '' e1'']" ?ks demo_world]
    by (simp add: cached_def demo_cache_def look_put_node insert_Collect upt_rec)
qed

section \<open>Containers\<close>

text \<open>A job runs in a container exactly if the in-process executor is not forced, the docker
  command is there, the daemon answers, and the image that will be run is present; and that image
  never carries a smoke tag, whatever the configuration.\<close>

theorem container_only_when_ready:
  "(fst (run_state (preferContainerSpawn g x) w) \<longleftrightarrow>
      to_lower (trim_space (getenv w ''OPM_FORCE_BUILTIN'')) \<notin> {''1'', ''true'', ''yes'', ''on''} \<and> x_docker_cli x \<and>
      snd (fst (run_state (x_docker x [''info'', ''--format'', ''{{.ServerVersion}}'']) w)) = None \<and>
      snd (fst (run_state (x_docker x [''image'', ''inspect'', ''--format'', ''{{.Id}}'', runnerImageName g w])
        (snd (run_state (x_docker x [''info'', ''--format'', ''{{.ServerVersion}}'']) w)))) = None) \<and>
   runnerImageTag w \<noteq> ''smoke'' \<and> \<not> has_suffix ''-smoke'' (runnerImageTag w) \<and> \<not> contains '':smoke'' (runnerImageTag w)"
proof
  show "fst (run_state (preferContainerSpawn g x) w) \<longleftrightarrow>
      to_lower (trim_space (getenv w ''OPM_FORCE_BUILTIN'')) \<notin> {''1'', ''true'', ''yes'', ''on''} \<and> x_docker_cli x \<and>
      snd (fst (run_state (x_docker x [''info'', ''--format'', ''{{.ServerVersion}}'']) w)) = None \<and>
      snd (fst (run_state (x_docker x [''image'', ''inspect'', ''--format'', ''{{.Id}}'', runnerImageName g w])
        (snd (run_state (x_docker x [''info'', ''--format'', ''{{.ServerVersion}}'']) w)))) = None"
    by (auto simp: preferContainerSpawn_def probeRunnerSpawn_def probe_start_def probe_ready_def run split: prod.split)
  have "has_suffix ''-smoke'' ''nas'' = False" "contains '':smoke'' ''nas'' = False" by code_simp+
  then show "runnerImageTag w \<noteq> ''smoke'' \<and> \<not> has_suffix ''-smoke'' (runnerImageTag w) \<and> \<not> contains '':smoke'' (runnerImageTag w)"
    by (simp add: runnerImageTag_def Let_def)
qed

section \<open>The network of a container\<close>

lemma insertBeforeImage_last: "l \<noteq> [] \<Longrightarrow> last l = img \<Longrightarrow> insertBeforeImage l img ex = butlast l @ ex @ [img]"
  by (cases l rule: rev_cases) (simp_all add: insertBeforeImage_def)

lemma set_network_at: "''--network'' \<notin> set pre \<Longrightarrow>
    set_network net (pre @ ''--network'' # n # rest) = Some (pre @ ''--network'' # net # rest)"
proof (induction pre)
  case (Cons a pre)
  then show ?case by (cases pre) auto
qed simp

lemma no_network_arg: "a @ '':/in:ro'' \<noteq> ''--network''" "a @ '':/out'' \<noteq> ''--network''" "a @ '':/repo:rw'' \<noteq> ''--network''"
  "a @ '':/repo:ro'' \<noteq> ''--network''"
  by (rule notI, drule arg_cong[of _ _ rev], simp)+

lemma no_network_in: "''--network'' \<notin> set tmpfs_args" "''--network'' \<notin> set (mount_args j repo)"
  "''--network'' \<notin> set [''-v'', path_str p @ '':/in:ro'', ''-v'', path_str p' @ '':/out'']"
  using no_network_arg by (auto simp: tmpfs_args_def mount_args_def split: option.splits)

text \<open>C19: A container is on one network.  Without a credential it keeps the network of the hardened
  arguments; with one the network is the text of \<open>OPM_RUNNER_NETWORK\<close> as it stands (\<open>bridge\<close> when
  it is empty), so that the documented mode \<open>internal+proxy\<close> is the name of a network, not a mode.\<close>

theorem container_network:
  assumes argv: "x_docker_argv x img (''opm'', j_runId j, envOr w ''OPM_INSTANCE'' ''default'')
      (container_env w j cfg agentKey (repo \<noteq> None)) = ''run'' # pre @ ''--network'' # n # mid @ [img]"
    and once: "''--network'' \<notin> set pre" "''--network'' \<notin> set mid" "n \<noteq> ''--network''" "img \<noteq> ''--network''"
  shows "\<exists>pre' mid'. container_args x w j cfg agentKey img repo = Some (''run'' # pre' @
       ''--network'' # (if hasKey cfg then envOr w ''OPM_RUNNER_NETWORK'' ''bridge'' else n) # mid' @ [img]) \<and>
     ''--network'' \<notin> set pre' \<and> ''--network'' \<notin> set mid'"
proof -
  let ?name = "''opm-job-'' @ sanitizeDockerName (j_runId j)"
  let ?vols = "[''-v'', path_str (run_dir w j ''runner-in'') @ '':/in:ro'', ''-v'', path_str (run_dir w j ''runner-out'') @ '':/out'']"
  let ?mid = "mid @ tmpfs_args @ ?vols @ (if repo = None then [] else mount_args j repo)"
  let ?net = "if hasKey cfg then envOr w ''OPM_RUNNER_NETWORK'' ''bridge'' else n"
  have put: "replaceNetwork (''run'' # ''--name'' # nm # pre @ ''--network'' # n # rest) net =
      ''run'' # ''--name'' # nm # pre @ ''--network'' # net # rest" if "nm \<noteq> ''--network''" for nm net rest
    using set_network_at[of "''run'' # ''--name'' # nm # pre" net n rest] once(1) that by (simp add: replaceNetwork_def)
  have "container_args x w j cfg agentKey img repo =
      Some (''run'' # ([''--name'', ?name] @ pre) @ ''--network'' # ?net # ?mid @ [img])"
    unfolding container_args_def argv
    by (cases repo) (simp_all add: Let_def insertBeforeImage_last butlast_append put)
  then show ?thesis
    using once no_network_in(1,2) no_network_arg by (intro exI[of _ "[''--name'', ?name] @ pre"] exI[of _ ?mid]) auto
qed

definition demo_argv_ext :: externals where
  "demo_argv_ext = demo_ext\<lparr>x_docker_argv := (\<lambda>img labels env. [''run'', ''--rm'', ''--network'', ''none'', ''--read-only'', img])\<rparr>"

lemma container_network_witness:
  "\<exists>pre mid. container_args demo_argv_ext (demo_world\<lparr>getenv := (\<lambda>k. if k = ''OPM_RUNNER_NETWORK'' then ''internal+proxy'' else [])\<rparr>)
       (demo_job ''run-planning'') (zero_config\<lparr>mc_apiKey := ''sk''\<rparr>) [] ''opm-runner:nas'' None =
     Some (''run'' # pre @ ''--network'' # ''internal+proxy'' # mid @ [''opm-runner:nas''])"
proof -
  let ?w = "demo_world\<lparr>getenv := (\<lambda>k. if k = ''OPM_RUNNER_NETWORK'' then ''internal+proxy'' else [])\<rparr>"
  have trimmed: "trim_space ''internal+proxy'' = ''internal+proxy''" by code_simp
  have "hasKey (zero_config\<lparr>mc_apiKey := ''sk''\<rparr>)" by code_simp
  moreover have "envOr ?w ''OPM_RUNNER_NETWORK'' ''bridge'' = ''internal+proxy''"
    by (simp add: envOr_def trimmed)
  ultimately show ?thesis
    using container_network[of demo_argv_ext "''opm-runner:nas''" "demo_job ''run-planning''" ?w "zero_config\<lparr>mc_apiKey := ''sk''\<rparr>" "[]"
      None "[''--rm'']" "''none''" "[''--read-only'']"]
    by (auto simp: demo_argv_ext_def)
qed

end
