(* ===== verification/Spec2Isabelle.thy ===== *)
theory Spec2Isabelle
  imports Board_Theorems Route_Theorems Autopilot_Theorems Change_Theorems Pipeline_Theorems Delivery_Theorems Context_Theorems Server_Theorems
begin

text \<open>
  A model of OPM-API, the control plane of a project-automation product: it keeps a Kanban board
  of tasks per linked GitHub repository on disk, plans and implements tasks by jobs that run in a
  container or in process, delivers the recorded changes as a pull request, and mirrors tasks with
  GitHub issues, milestones and project boards through a peer service (ORA).  Organizations,
  projects and model bindings come from a directory service (OAM).  All file names below are under
  \<open>src/\<close>.

  \<^bold>\<open>How the parts interact.\<close>  A request passes the gate of its route (\<open>serve\<close>) and reaches \<open>handleProjectRoute\<close>, which resolves the caller's
  organization and looks the project up behind that gate; the handlers call the store, which keeps
  one JSON document per thing in a directory per project.  Creating a task, dragging a card or
  posting a job creates a job record and starts \<open>executeJob\<close> in a goroutine; the job prepares a
  workspace, runs a container if it can, applies what the model returned or falls back to the
  in-process executor, and then may start the next job (autopilot, chaining).  A delivery applies
  the change set that the jobs of a task recorded, commits and pushes it with a credential of ORA
  and opens a pull request.

  \<^bold>\<open>State and effects.\<close>  \<open>world\<close> (\<open>File_Store\<close>) is the machine: a file tree whose documents are typed
  (\<open>doc\<close>), symbolic links, the environment, the clock and UUID supplies with their positions, the
  paths at which the next write fails (\<open>faults\<close>), and the goroutines started.  An operation is
  \<open>'a act\<close>, a state monad over \<open>world\<close>; a fallible one is \<open>'a actE\<close>, whose result is
  \<open>err + 'a\<close>, so that every early return and error of the source is a branch.  What the program
  reaches outside itself is the record \<open>externals\<close> (\<open>Outside\<close>): git, docker, ORA, OAM and the JSON
  decoder are arguments of the definitions.  Properties that need it assume of them only where
  they write: \<open>tame\<close> (not in the data directory, except the job's own record in the forms the code
  gives it), \<open>mild\<close> and \<open>hands_off\<close> (not in the documents of the task at hand).

  \<^bold>\<open>Theories\<close>, in the order of the imports:
  \<^item> \<open>Prelude\<close>: the action types, the collections \<open>run\<close> (equations that run an action) and
    \<open>frame\<close>, and the locale \<open>frame_rel\<close> of relations every action of a group keeps.
  \<^item> \<open>Go_Strings\<close>: the parts of \<open>strings\<close>, \<open>strconv\<close>, \<open>filepath\<close> and \<open>time\<close> used.
  \<^item> \<open>Models\<close>, \<open>Agent_Keys\<close>, \<open>Plan_Logic\<close>, \<open>Board\<close>, \<open>Text_Rules\<close>, \<open>Roadmap_Rules\<close>: \<open>models.go\<close>,
    \<open>agent_keys.go\<close> and the pure rules of \<open>store.go\<close>, \<open>job_runner.go\<close>, \<open>delivery_git.go\<close>,
    \<open>roadmap_competitor.go\<close>, \<open>roadmap_publish.go\<close> and \<open>model_apply.go\<close>; \<open>Board\<close> also has the abstract
    Kanban board (a list of cards per column) as the locale \<open>card_board\<close>.
  \<^item> \<open>File_Store\<close>, \<open>Tenant_Scope\<close>, \<open>Registry\<close>, \<open>Board_Store\<close>, \<open>Doc_Store\<close>: \<open>store.go\<close> and
    \<open>tenant_scope.go\<close>, \<open>job_actor.go\<close>.
  \<^item> \<open>Job_Runner\<close>, \<open>Autopilot\<close>, \<open>Roadmap_Run\<close>, \<open>Pipeline\<close>: the executors, chaining, triggers and the
    pipeline of \<open>job_runner.go\<close>, \<open>autopilot.go\<close>, \<open>board_triggers.go\<close>, \<open>impl_session.go\<close>.
  \<^item> \<open>Outside\<close>, \<open>Workspace\<close>, \<open>Change_Set\<close>, \<open>Container\<close>, \<open>Model_Apply\<close>, \<open>Model_Roadmap\<close>, \<open>Job_Exec\<close>:
    \<open>workspace.go\<close>, \<open>task_workspace.go\<close>, \<open>delivery_changes.go\<close>, \<open>spawn_container.go\<close>,
    \<open>job_model_config.go\<close>, \<open>oam_client.go\<close>, \<open>model_result.go\<close>, \<open>model_apply.go\<close> and \<open>executeJob\<close>.
  \<^item> \<open>Delivery\<close>, \<open>Deliver\<close>: \<open>delivery.go\<close>, \<open>delivery_git.go\<close>, \<open>peer_delivery.go\<close>.
  \<^item> \<open>Http\<close>, \<open>Issue_Sync\<close>, \<open>Project_Sync\<close>, \<open>Milestone_Sync\<close>, \<open>Github_Pm\<close>, \<open>Oam_Projects\<close>, \<open>Handlers\<close>:
    \<open>github_issue_map.go\<close>, \<open>github_issue_sync.go\<close>, \<open>github_project_sync.go\<close>,
    \<open>github_milestone_sync.go\<close>, \<open>github_pm.go\<close>, the calls of \<open>peer.go\<close>, \<open>oam_projects.go\<close>,
    \<open>oam_product_guard.go\<close>, \<open>github_handlers.go\<close> and \<open>handlers.go\<close>.  A request is its method, path,
    tenant scope, decoded body, query and headers; an answer is a code and its fields or document.
  \<^item> \<open>Daemon\<close>: \<open>job_docker.go\<close>, \<open>job_net.go\<close>, \<open>job_proxy.go\<close>, \<open>orchestrator_probe.go\<close>: docker, the sealed
    network of a job, the egress proxy and the probe that decides between container and process.
  \<^item> \<open>Peer_Client\<close>: \<open>peer.go\<close>, \<open>job_token_ctx.go\<close>, \<open>job_tokens_client.go\<close>, \<open>security_cache.go\<close>.
  \<^item> \<open>Server\<close>: \<open>main.go\<close>, \<open>auth_wire.go\<close>, \<open>peer_auth.go\<close>, \<open>peer_scm_events.go\<close> and the registrations of
    \<open>handlers.go\<close> and \<open>github_handlers.go\<close>: \<open>serve\<close> composes CORS, the choice of the route, the gate in
    front of it and the handlers of the other theories into the answer to a request.
  \<^item> \<open>Project_Index\<close>, \<open>Runner_Context\<close>: \<open>project_index.go\<close> and \<open>runner_context.go\<close>, what a job's runner
    is told: the index of the clone, the context pack of the action, and \<open>input.json\<close>.
  \<^item> \<open>Runner_Candidates\<close>, \<open>Runner_Calls\<close>, \<open>Runner_Content\<close>, \<open>Runner_Repo\<close>, \<open>Runner_Prompts\<close>, \<open>Runner_Main\<close>:
    the runner binary, \<open>cmd/opm-runner\<close>: \<open>candidates.go\<close>, \<open>anthropic.go\<close>, \<open>qwen.go\<close>, \<open>prompts.go\<close> and
    \<open>main.go\<close>.  It runs in a container, a \<open>world\<close> of its own; the network, the agent processes, the
    JSON decoder and the order in which Go ranges over a map are the record \<open>runner_ext\<close>
    (\<open>Runner_Calls\<close>).  The inductive relation \<open>passed_over\<close> follows the walk over the endpoints.
  \<^item> \<open>..._Laws\<close>, \<open>..._Frame\<close>, \<open>..._Guard\<close>, \<open>Spec_Docs\<close>, \<open>Exec_Stays\<close>: the lemmas of the
    components; \<open>..._Theorems\<close>: the properties, each with a witness on the worlds of \<open>Demo\<close> and
    \<open>Job_Demo\<close> where it has hypotheses.

  \<^bold>\<open>What the lemmas show.\<close>  \<open>ready\<close> and \<open>consistent\<close> (\<open>Registry\<close>, \<open>Board_Laws\<close>) say that a project is
  laid out and that board and tasks agree; the task operations keep both and implement the abstract
  board.  \<open>rep w pid p sid s\<close> (\<open>Spec_Docs\<close>) says that the world stores the documents \<open>s\<close> of a task; the
  executors are functions on such documents (the locale \<open>executor\<close>, interpreted for each of them),
  and the stores are typed documents (\<open>typed_doc\<close>).  \<open>store_frame\<close> (\<open>Job_Frame\<close>) carries, once
  for every operation, that only files of one project change; it is interpreted for "no job record
  is lost", for \<open>elsewhere\<close> (nothing outside the project changes) and for \<open>guards\<close>, with which \<open>Exec_Laws\<close> follows a job's record through \<open>executeJob\<close> to a
  final state.  \<open>Pipeline_Laws\<close> counts the pending subtasks down; \<open>Apply_Laws\<close> bounds where a change
  set can write; \<open>Delivery_Laws\<close> shows that a delivery works beside the task's documents until its
  outcome is recorded; \<open>Sync_Laws\<close> gives the rules (\<open>leads\<close>) by which the routes of the sync are
  followed from documents to documents.  \<open>Runner_Theorems\<close> and \<open>Context_Theorems\<close>
  join the two programs: what the control plane writes into the env file and \<open>input.json\<close> is what
  the runner reads.  \<open>Server_Theorems\<close> states what holds of the server from outside, over \<open>serve\<close>.

  \<^bold>\<open>Bounds and conventions.\<close>  Strings are byte lists; upper and lower case and trimming are those of
  ASCII.  A typed document is written and read back as itself; a file with other text is decoded
  by the world's \<open>unmarshal\<close>.  \<open>writeJSON\<close> (temporary file and rename) is one step, and so is each
  store operation (the store's lock).  Counters of spec ids wrap at 64 bits (\<open>wrap64\<close>).  The pipeline's
  step bound is the source's own (pending subtasks plus 8, at least 16, at most 500), and is enough
  exactly up to 500.  A Go map is an association list, iterated in its order.  A clock reading
  inside a mutation of a stored document is taken just before it.  Operating-system error texts are those of
  Linux.  A goroutine is recorded (\<open>spawned\<close>) or returned by the handler that starts it.

  \<^bold>\<open>Not modelled\<close>: log lines to standard error and sleeps; the HTTP transport with its timeouts and
  size limits, and \<open>ListenAndServe\<close> itself; file modes; the bodies of the third-party modules
  (\<open>openauth\<close>, \<open>opentenant\<close>, \<open>openclient\<close>, \<open>opencache\<close>, \<open>openegress\<close>, \<open>openjob\<close>, \<open>openhttp\<close>), which
  are the records \<open>server_lib\<close>, \<open>peer_lib\<close>, \<open>token_lib\<close>, \<open>cache_lib\<close>, \<open>egress_lib\<close> and part of
  \<open>externals\<close>.  Paths have no percent escapes.  Whether a job tries a container (\<open>x_prefer\<close>) is a
  field of \<open>externals\<close> for the executors; its code is \<open>preferContainerSpawn\<close> of \<open>Daemon\<close>.  The network
  of a job, the shared egress proxy and the job token are modelled as they stand, though no code
  calls them.  The model names by phase (\<open>modelForAction\<close> of \<open>model_result.go\<close>) are called by tests only.  In the runner:
  the timeouts of its HTTP calls, its log lines, and \<open>callModel\<close>, which no code calls.  Keys of a JSON
  object are matched exactly, though Go's decoder folds their case.
\<close>

end
